(* ===== verification/Academy_Prelude.thy ===== *)
theory Academy_Prelude
  imports
    Complex_Main
    "HOL-Library.Char_ord"
    "HOL-Library.List_Lexorder"
    "HOL-Library.Product_Lexorder"
    "HOL-Library.Multiset"
begin

text \<open>
  Shared vocabulary of the development: the types that name identifiers and
  instants, the domain exceptions as values of a sum type, the few operations on
  tables (lists of rows) that every service uses, and the fragment of Python's
  \<open>str\<close> type that the sources call.

  A UUID is its 128-bit value as a \<open>nat\<close>; an instant is a number of seconds since
  a fixed epoch; a Python \<open>float\<close> is an exact rational.
\<close>

type_synonym uuid = nat
type_synonym instant = int

section \<open>Exceptions as values\<close>

text \<open>The domain exceptions the services raise; \<open>Inl\<close> carries the exception.\<close>

datatype academy_error =
    BadRequestError string
  | ConflictError string
  | NotFoundError string
  | HTTPForbidden
  | ValueError string
  | TypeError
  | NoResultFound
  | IntegrityError
  | DataError string

type_synonym 'a result = "academy_error + 'a"

named_theorems result_simps \<open>unfolding of the exception-propagating sequencing operators\<close>

definition and_then :: "'e + 'a \<Rightarrow> ('a \<Rightarrow> 'e + 'b) \<Rightarrow> 'e + 'b" where
  "and_then m f = (case m of Inl e \<Rightarrow> Inl e | Inr a \<Rightarrow> f a)"

definition ensure :: "bool \<Rightarrow> 'e \<Rightarrow> 'e + 'b \<Rightarrow> 'e + 'b" where
  "ensure ok e k = (if ok then k else Inl e)"

lemma and_then_Inl [simp, result_simps]: "and_then (Inl e) f = Inl e"
  by (simp add: and_then_def)

lemma and_then_Inr [simp, result_simps]: "and_then (Inr a) f = f a"
  by (simp add: and_then_def)

lemma and_then_eq_Inr [result_simps]:
  "and_then m f = Inr b \<longleftrightarrow> (\<exists>a. m = Inr a \<and> f a = Inr b)"
  by (cases m) auto

lemma and_then_eq_Inl [result_simps]:
  "and_then m f = Inl e \<longleftrightarrow> m = Inl e \<or> (\<exists>a. m = Inr a \<and> f a = Inl e)"
  by (cases m) auto

lemma ensure_True [simp, result_simps]: "ensure True e k = k"
  by (simp add: ensure_def)

lemma ensure_False [simp, result_simps]: "ensure False e k = Inl e"
  by (simp add: ensure_def)

lemma ensure_eq_Inr [result_simps]: "ensure ok e k = Inr b \<longleftrightarrow> ok \<and> k = Inr b"
  by (simp add: ensure_def)

section \<open>Tables\<close>

text \<open>
  A table is the list of its rows. \<open>update_rows\<close> is an SQL \<open>UPDATE ... WHERE\<close>,
  \<open>count_rows\<close> a \<open>SELECT count(*) ... WHERE\<close>, and \<open>coalesce_max\<close> is
  \<open>coalesce(max(...), 0)\<close>.
\<close>

named_theorems table_simps \<open>facts about the table operations\<close>

definition update_rows :: "('r \<Rightarrow> bool) \<Rightarrow> ('r \<Rightarrow> 'r) \<Rightarrow> 'r list \<Rightarrow> 'r list" where
  "update_rows p f rows = map (\<lambda>r. if p r then f r else r) rows"

definition count_rows :: "('r \<Rightarrow> bool) \<Rightarrow> 'r list \<Rightarrow> nat" where
  "count_rows p rows = length (filter p rows)"

definition coalesce_max :: "nat list \<Rightarrow> nat" where
  "coalesce_max xs = fold max xs 0"

lemma update_rows_Nil [simp, table_simps]: "update_rows p f [] = []"
  by (simp add: update_rows_def)

lemma update_rows_Cons [simp, table_simps]:
  "update_rows p f (r # rows) = (if p r then f r else r) # update_rows p f rows"
  by (simp add: update_rows_def)

lemma update_rows_append [table_simps]:
  "update_rows p f (xs @ ys) = update_rows p f xs @ update_rows p f ys"
  by (simp add: update_rows_def)

lemma length_update_rows [simp, table_simps]: "length (update_rows p f rows) = length rows"
  by (simp add: update_rows_def)

lemma set_update_rows: "set (update_rows p f rows) = (\<lambda>r. if p r then f r else r) ` set rows"
  by (simp add: update_rows_def)

lemma ball_update_rows [table_simps]:
  "(\<forall>r \<in> set (update_rows p f rows). Q r) \<longleftrightarrow> (\<forall>r \<in> set rows. Q (if p r then f r else r))"
  by (induction rows) auto

lemma update_rows_none: "(\<And>r. r \<in> set rows \<Longrightarrow> \<not> p r) \<Longrightarrow> update_rows p f rows = rows"
  by (induction rows) auto

lemma map_update_rows:
  "(\<And>r. g (f r) = g r) \<Longrightarrow> map g (update_rows p f rows) = map g rows"
  by (induction rows) auto

lemma count_rows_Nil [simp, table_simps]: "count_rows p [] = 0"
  by (simp add: count_rows_def)

lemma count_rows_Cons [simp, table_simps]:
  "count_rows p (r # rows) = (if p r then Suc (count_rows p rows) else count_rows p rows)"
  by (simp add: count_rows_def)

lemma count_rows_append [simp, table_simps]:
  "count_rows p (xs @ ys) = count_rows p xs + count_rows p ys"
  by (simp add: count_rows_def)

lemma count_rows_mono: "(\<And>r. p r \<Longrightarrow> q r) \<Longrightarrow> count_rows p rows \<le> count_rows q rows"
  by (induction rows) (auto simp: le_SucI)

lemma fold_max_ge: "(a::nat) \<le> fold max xs a"
  by (induction xs arbitrary: a) (auto intro: le_trans [OF max.cobounded2])

lemma fold_max_mem: "x \<in> set xs \<Longrightarrow> (x::nat) \<le> fold max xs a"
proof (induction xs arbitrary: a)
  case (Cons y ys)
  then show ?case
    using fold_max_ge [of "max y a" ys] by auto
qed simp

lemma coalesce_max_ge: "x \<in> set xs \<Longrightarrow> x \<le> coalesce_max xs"
  by (simp add: coalesce_max_def fold_max_mem)

lemma coalesce_max_fresh: "Suc (coalesce_max xs) \<notin> set xs"
  using coalesce_max_ge [of "Suc (coalesce_max xs)" xs] by auto

lemma find_Some_in: "find p xs = Some x \<Longrightarrow> x \<in> set xs \<and> p x"
  by (auto simp: find_Some_iff)

lemma find_append: "find p (xs @ ys) = (case find p xs of None \<Rightarrow> find p ys | Some x \<Rightarrow> Some x)"
  by (induction xs) auto

lemma find_update_rows_same:
  assumes "\<And>r. p (f r) = p r"
  shows "find p (update_rows q f rows) = map_option (\<lambda>r. if q r then f r else r) (find p rows)"
  using assms by (induction rows) auto

section \<open>Python strings\<close>

text \<open>
  \<open>str.strip\<close>, \<open>str.lower\<close>, \<open>in\<close> (substring) and \<open>str(n)\<close> for an integer, on ASCII
  text. Truthiness of a string is non-emptiness.
\<close>

definition py_isspace :: "char \<Rightarrow> bool" where
  "py_isspace c = (let n = of_char c :: nat in 9 \<le> n \<and> n \<le> 13 \<or> 28 \<le> n \<and> n \<le> 32)"

definition py_lstrip :: "string \<Rightarrow> string" where
  "py_lstrip s = dropWhile py_isspace s"

definition py_strip :: "string \<Rightarrow> string" where
  "py_strip s = rev (dropWhile py_isspace (rev (dropWhile py_isspace s)))"

definition py_lower_char :: "char \<Rightarrow> char" where
  "py_lower_char c = (let n = of_char c :: nat in if 65 \<le> n \<and> n \<le> 90 then char_of (n + 32) else c)"

definition py_lower :: "string \<Rightarrow> string" where
  "py_lower s = map py_lower_char s"

fun starts_with :: "string \<Rightarrow> string \<Rightarrow> bool" where
  "starts_with s [] = True"
| "starts_with [] (c # cs) = False"
| "starts_with (d # ds) (c # cs) = (c = d \<and> starts_with ds cs)"

fun contains :: "string \<Rightarrow> string \<Rightarrow> bool" where
  "contains [] p = (p = [])"
| "contains (c # cs) p = (starts_with (c # cs) p \<or> contains cs p)"

fun show_nat :: "nat \<Rightarrow> string" where
  "show_nat n = (if n < 10 then [char_of (48 + n)] else show_nat (n div 10) @ [char_of (48 + n mod 10)])"

declare show_nat.simps [simp del]

definition show_int :: "int \<Rightarrow> string" where
  "show_int i = (if i < 0 then ''-'' @ show_nat (nat (- i)) else show_nat (nat i))"

definition or_empty :: "string option \<Rightarrow> string" where
  "or_empty s = (case s of None \<Rightarrow> '''' | Some t \<Rightarrow> t)"

definition or_none :: "string option \<Rightarrow> string option" where
  "or_none s = (case s of None \<Rightarrow> None | Some t \<Rightarrow> if t = '''' then None else Some t)"

lemma starts_with_append [simp]: "starts_with (p @ s) p"
  by (induction p) auto

lemma starts_with_iff: "starts_with s p \<longleftrightarrow> (\<exists>t. s = p @ t)"
  by (induction s p rule: starts_with.induct) auto

lemma contains_append: "contains (a @ p @ b) p"
proof (induction a)
  case Nil
  show ?case
  proof (cases "p @ b")
    case (Cons c cs)
    have "starts_with (p @ b) p" by simp
    with Cons show ?thesis by simp
  qed simp
qed simp

end
