(* ===== verification/Python_Values.thy ===== *)
theory Python_Values
  imports Academy_Prelude
begin

text \<open>
  JSON column values (\<open>JSONB\<close>) and the Python conversions the sources apply to
  them: \<open>float(x)\<close>, \<open>str(x)\<close>, truthiness and equality of hashable scalars.
  A finite float is an exact rational; the infinities and \<open>nan\<close> that
  \<open>float(''inf'')\<close> and \<open>float(''nan'')\<close> produce are values of their own, with
  IEEE comparisons.
\<close>

datatype json =
    JNull
  | JBool bool
  | JInt int
  | JFloat rat
  | JStr string
  | JArr "json list"
  | JObj "(string \<times> json) list"

fun truthy :: "json \<Rightarrow> bool" where
  "truthy JNull = False"
| "truthy (JBool b) = b"
| "truthy (JInt i) = (i \<noteq> 0)"
| "truthy (JFloat r) = (r \<noteq> 0)"
| "truthy (JStr s) = (s \<noteq> '''')"
| "truthy (JArr xs) = (xs \<noteq> [])"
| "truthy (JObj kvs) = (kvs \<noteq> [])"

text \<open>\<open>dict.get(key)\<close>: a key occurs once in a dictionary.\<close>

definition obj_get :: "(string \<times> json) list \<Rightarrow> string \<Rightarrow> json option" where
  "obj_get kvs k = map_of kvs k"

section \<open>Floats\<close>

datatype flt = Fin rat | PosInf | NegInf | NaN

fun flt_neg :: "flt \<Rightarrow> flt" where
  "flt_neg (Fin r) = Fin (- r)"
| "flt_neg PosInf = NegInf"
| "flt_neg NegInf = PosInf"
| "flt_neg NaN = NaN"

fun flt_add :: "flt \<Rightarrow> flt \<Rightarrow> flt" where
  "flt_add NaN b = NaN"
| "flt_add a NaN = NaN"
| "flt_add PosInf NegInf = NaN"
| "flt_add NegInf PosInf = NaN"
| "flt_add PosInf b = PosInf"
| "flt_add NegInf b = NegInf"
| "flt_add a PosInf = PosInf"
| "flt_add a NegInf = NegInf"
| "flt_add (Fin r) (Fin q) = Fin (r + q)"

definition flt_sub :: "flt \<Rightarrow> flt \<Rightarrow> flt" where
  "flt_sub a b = flt_add a (flt_neg b)"

fun flt_abs :: "flt \<Rightarrow> flt" where
  "flt_abs (Fin r) = Fin \<bar>r\<bar>"
| "flt_abs PosInf = PosInf"
| "flt_abs NegInf = PosInf"
| "flt_abs NaN = NaN"

fun flt_le :: "flt \<Rightarrow> flt \<Rightarrow> bool" where
  "flt_le NaN b = False"
| "flt_le a NaN = False"
| "flt_le NegInf b = True"
| "flt_le a PosInf = True"
| "flt_le (Fin r) (Fin q) = (r \<le> q)"
| "flt_le a b = False"

definition flt_eq :: "flt \<Rightarrow> flt \<Rightarrow> bool" where
  "flt_eq a b = (flt_le a b \<and> flt_le b a)"

definition flt_lt :: "flt \<Rightarrow> flt \<Rightarrow> bool" where
  "flt_lt a b = (flt_le a b \<and> \<not> flt_le b a)"

text \<open>\<open>min(a, b)\<close> and \<open>max(a, b)\<close> keep the first argument unless the second is strictly better.\<close>

definition py_min :: "flt \<Rightarrow> flt \<Rightarrow> flt" where
  "py_min a b = (if flt_lt b a then b else a)"

definition py_max :: "flt \<Rightarrow> flt \<Rightarrow> flt" where
  "py_max a b = (if flt_lt a b then b else a)"

section \<open>round\<close>

text \<open>\<open>round\<close>: to the nearest integer, ties to even.\<close>

definition py_round :: "rat \<Rightarrow> int" where
  "py_round r =
     (let f = floor r; d = r - of_int f
      in if d < 1 / 2 then f else if d > 1 / 2 then f + 1 else if even f then f else f + 1)"

text \<open>\<open>round(x, n)\<close>.\<close>

definition py_round_to :: "nat \<Rightarrow> rat \<Rightarrow> rat" where
  "py_round_to n r = rat_of_int (py_round (r * 10 ^ n)) / 10 ^ n"

section \<open>float(str)\<close>

definition digit_of :: "char \<Rightarrow> nat option" where
  "digit_of c = (let n = of_char c :: nat in if 48 \<le> n \<and> n \<le> 57 then Some (n - 48) else None)"

text \<open>Digits with single underscores between them: value, number of digits, rest.\<close>

fun scan_digits :: "nat \<Rightarrow> nat \<Rightarrow> string \<Rightarrow> nat \<times> nat \<times> string" where
  "scan_digits acc k [] = (acc, k, [])"
| "scan_digits acc k (c # cs) =
     (case digit_of c of
        Some d \<Rightarrow> scan_digits (10 * acc + d) (Suc k) cs
      | None \<Rightarrow>
          (if c = CHR ''_'' \<and> 0 < k \<and> cs \<noteq> [] \<and> digit_of (hd cs) \<noteq> None
           then scan_digits acc k cs else (acc, k, c # cs)))"

definition scan_exponent :: "rat \<Rightarrow> string \<Rightarrow> rat option" where
  "scan_exponent mant s =
     (case s of
        [] \<Rightarrow> Some mant
      | e # r \<Rightarrow>
          if e \<noteq> CHR ''e'' \<and> e \<noteq> CHR ''E'' then None
          else
            (let neg = (r \<noteq> [] \<and> hd r = CHR ''-'');
                 r' = (if r \<noteq> [] \<and> (hd r = CHR ''-'' \<or> hd r = CHR ''+'') then tl r else r);
                 (x, k, rest) = scan_digits 0 0 r'
             in if k = 0 \<or> rest \<noteq> [] then None
                else Some (if neg then mant / 10 ^ x else mant * 10 ^ x)))"

definition scan_unsigned :: "string \<Rightarrow> flt option" where
  "scan_unsigned s =
     (if py_lower s = ''inf'' \<or> py_lower s = ''infinity'' then Some PosInf
      else if py_lower s = ''nan'' then Some NaN
      else
        (let (i, ki, r1) = scan_digits 0 0 s;
             (f, kf, r2) =
               (if r1 \<noteq> [] \<and> hd r1 = CHR ''.'' then scan_digits 0 0 (tl r1) else (0, 0, r1))
         in if ki = 0 \<and> kf = 0 then None
            else map_option Fin
                   (scan_exponent (rat_of_nat i + rat_of_nat f / 10 ^ kf) r2)))"

definition float_of_str :: "string \<Rightarrow> flt option" where
  "float_of_str s =
     (case py_strip s of
        [] \<Rightarrow> None
      | c # cs \<Rightarrow>
          if c = CHR ''-'' then map_option flt_neg (scan_unsigned cs)
          else if c = CHR ''+'' then scan_unsigned cs
          else scan_unsigned (c # cs))"

text \<open>\<open>float(x)\<close>: \<open>None\<close> where Python raises \<open>ValueError\<close> or \<open>TypeError\<close>.\<close>

fun py_float :: "json \<Rightarrow> flt option" where
  "py_float (JBool b) = Some (Fin (if b then 1 else 0))"
| "py_float (JInt i) = Some (Fin (rat_of_int i))"
| "py_float (JFloat r) = Some (Fin r)"
| "py_float (JStr s) = float_of_str s"
| "py_float JNull = None"
| "py_float (JArr xs) = None"
| "py_float (JObj kvs) = None"

section \<open>str and hashable equality\<close>

text \<open>
  \<open>str(x)\<close>; the rendering of floats, lists and dictionaries is the argument \<open>render\<close>.
\<close>

fun py_str :: "(json \<Rightarrow> string) \<Rightarrow> json \<Rightarrow> string" where
  "py_str render (JStr s) = s"
| "py_str render (JInt i) = show_int i"
| "py_str render (JBool b) = (if b then ''True'' else ''False'')"
| "py_str render JNull = ''None''"
| "py_str render v = render v"

text \<open>
  The key under which a scalar enters a Python \<open>set\<close>: \<open>True\<close>, \<open>1\<close> and \<open>1.0\<close> are equal.
  Lists and dictionaries are unhashable (\<open>TypeError\<close>, here \<open>None\<close>).
\<close>

datatype hkey = KNone | KNum rat | KStr string

fun hash_key :: "json \<Rightarrow> hkey option" where
  "hash_key JNull = Some KNone"
| "hash_key (JBool b) = Some (KNum (if b then 1 else 0))"
| "hash_key (JInt i) = Some (KNum (rat_of_int i))"
| "hash_key (JFloat r) = Some (KNum r)"
| "hash_key (JStr s) = Some (KStr s)"
| "hash_key (JArr xs) = None"
| "hash_key (JObj kvs) = None"

fun py_set :: "json list \<Rightarrow> (hkey list) result" where
  "py_set [] = Inr []"
| "py_set (x # xs) =
     (case hash_key x of
        None \<Rightarrow> Inl TypeError
      | Some k \<Rightarrow> and_then (py_set xs) (\<lambda>ks. Inr (k # ks)))"

lemma flt_le_NaN_right [simp]: "\<not> flt_le a NaN"
  by (cases a) auto

lemma flt_add_NaN_right [simp]: "flt_add a NaN = NaN"
  by (cases a) auto

lemma flt_eq_Fin [simp]: "flt_eq (Fin r) (Fin q) \<longleftrightarrow> r = q"
  by (auto simp: flt_eq_def)

lemma flt_lt_Fin [simp]: "flt_lt (Fin r) (Fin q) \<longleftrightarrow> r < q"
  by (auto simp: flt_lt_def)

lemma flt_sub_Fin [simp]: "flt_sub (Fin r) (Fin q) = Fin (r - q)"
  by (simp add: flt_sub_def)

lemma flt_eq_refl_iff: "flt_eq a a \<longleftrightarrow> a \<noteq> NaN"
  by (cases a) (auto simp: flt_eq_def)

lemma py_set_mset: "mset xs = mset ys \<Longrightarrow> py_set xs = Inr ks \<Longrightarrow>
    \<exists>ls. py_set ys = Inr ls \<and> set ls = set ks"
proof -
  have ok: "py_set zs = Inr ls \<longleftrightarrow> list_all (\<lambda>x. hash_key x \<noteq> None) zs \<and> ls = map (the \<circ> hash_key) zs"
    for zs ls
    by (induction zs arbitrary: ls) (auto simp: and_then_eq_Inr split: option.splits)
  assume m: "mset xs = mset ys" and p: "py_set xs = Inr ks"
  from m have s: "set xs = set ys" by (rule mset_eq_setD)
  with p show ?thesis by (auto simp: ok list_all_iff)
qed

end
