(* ===== verification/Grading.thy ===== *)
theory Grading
  imports Python_Values
begin

text \<open>
  \<open>app/services/grading.py\<close>: the pure grader. A question is the dictionary both
  callers build (every key present); answers map a question's \<open>ext_id\<close> to the list
  of chosen values. \<open>re.fullmatch(p, s, re.IGNORECASE)\<close> is the argument
  \<open>fullmatch\<close> (\<open>None\<close> where it raises \<open>re.error\<close>) and the rendering of
  non-string values by \<open>str\<close> the argument \<open>render\<close>.
\<close>

record grade_question =
  gq_ext_id :: string
  gq_type :: string
  gq_correct :: json
  gq_weight :: int
  gq_options :: json

record item_result =
  it_id :: string
  it_correct :: bool
  it_chosen :: "json list"
  it_expected :: "json list"
  it_weight :: int

record grade_result =
  gr_score :: rat
  gr_max_score :: rat
  gr_fraction :: rat
  gr_passed :: bool
  gr_per_item :: "item_result list"

type_synonym answers = "(string \<times> json list) list"

definition option_key :: "json \<Rightarrow> string \<Rightarrow> json option" where
  "option_key opts k = (case opts of JObj kvs \<Rightarrow> obj_get kvs k | _ \<Rightarrow> None)"

fun floats_of :: "json list \<Rightarrow> flt list option" where
  "floats_of [] = Some []"
| "floats_of (x # xs) =
     (case py_float x of
        None \<Rightarrow> None
      | Some f \<Rightarrow> (case floats_of xs of None \<Rightarrow> None | Some fs \<Rightarrow> Some (f # fs)))"

definition grade_numeric :: "json list \<Rightarrow> json list \<Rightarrow> json \<Rightarrow> bool" where
  "grade_numeric chosen correct opts =
     (case chosen of
        [] \<Rightarrow> False
      | c # _ \<Rightarrow>
          (case py_float c of
             None \<Rightarrow> False
           | Some got \<Rightarrow>
               (case option_key opts ''tolerance'' of
                  Some t \<Rightarrow>
                    (let tol = (case py_float t of None \<Rightarrow> Fin 0 | Some v \<Rightarrow> v)
                     in (case correct of
                           [] \<Rightarrow> False
                         | e # _ \<Rightarrow>
                             (case py_float e of
                                None \<Rightarrow> False
                              | Some target \<Rightarrow> flt_le (flt_abs (flt_sub got target)) tol)))
                | None \<Rightarrow>
                    (case floats_of correct of
                       None \<Rightarrow> False
                     | Some [] \<Rightarrow> False
                     | Some [b] \<Rightarrow> flt_eq got b
                     | Some (b0 # b1 # _) \<Rightarrow>
                         flt_le (py_min b0 b1) got \<and> flt_le got (py_max b0 b1)))))"

text \<open>\<open>re.sub(r''\s+'', '' '', str(s).strip().lower())\<close>.\<close>

fun collapse_ws :: "string \<Rightarrow> string" where
  "collapse_ws [] = []"
| "collapse_ws (c # cs) =
     (if py_isspace c
      then (case cs of
              [] \<Rightarrow> '' ''
            | d # _ \<Rightarrow> if py_isspace d then collapse_ws cs else CHR '' '' # collapse_ws cs)
      else c # collapse_ws cs)"

definition norm_text :: "(json \<Rightarrow> string) \<Rightarrow> json \<Rightarrow> string" where
  "norm_text render s = collapse_ws (py_lower (py_strip (py_str render s)))"

definition grade_short_text ::
    "(string \<Rightarrow> string \<Rightarrow> bool option) \<Rightarrow> (json \<Rightarrow> string) \<Rightarrow> json list \<Rightarrow> json list \<Rightarrow> json \<Rightarrow> bool" where
  "grade_short_text fullmatch render chosen correct opts =
     (case chosen of
        [] \<Rightarrow> False
      | c # _ \<Rightarrow>
          if py_strip (py_str render c) = '''' then False
          else if (case option_key opts ''regex'' of None \<Rightarrow> False | Some r \<Rightarrow> truthy r)
          then list_ex (\<lambda>p. fullmatch (py_str render p) (py_strip (py_str render c)) = Some True) correct
          else norm_text render c \<in> set (map (norm_text render) correct))"

definition is_correct ::
    "(string \<Rightarrow> string \<Rightarrow> bool option) \<Rightarrow> (json \<Rightarrow> string) \<Rightarrow> string \<Rightarrow> json list \<Rightarrow> json list \<Rightarrow> json \<Rightarrow> bool result" where
  "is_correct fullmatch render qtype chosen expected opts =
     (if qtype = ''numeric'' then Inr (grade_numeric chosen expected opts)
      else if qtype = ''short_text'' then Inr (grade_short_text fullmatch render chosen expected opts)
      else and_then (py_set chosen) (\<lambda>cs. and_then (py_set expected) (\<lambda>es. Inr (set cs = set es))))"

text \<open>One turn of the grading loop: the item for question \<open>q\<close>.\<close>

definition expected_of :: "grade_question \<Rightarrow> json list" where
  "expected_of q = (case gq_correct q of JArr xs \<Rightarrow> xs | v \<Rightarrow> [v])"

definition grade_item ::
    "(string \<Rightarrow> string \<Rightarrow> bool option) \<Rightarrow> (json \<Rightarrow> string) \<Rightarrow> answers \<Rightarrow> grade_question \<Rightarrow> item_result result" where
  "grade_item fullmatch render ans q =
     (let chosen = (case map_of ans (gq_ext_id q) of None \<Rightarrow> [] | Some xs \<Rightarrow> xs);
          expected = expected_of q;
          opts = (if truthy (gq_options q) then gq_options q else JObj [])
      in and_then (is_correct fullmatch render (gq_type q) chosen expected opts)
           (\<lambda>ok. Inr \<lparr>it_id = gq_ext_id q, it_correct = ok, it_chosen = chosen,
                      it_expected = expected, it_weight = gq_weight q\<rparr>))"

fun grade_loop ::
    "(string \<Rightarrow> string \<Rightarrow> bool option) \<Rightarrow> (json \<Rightarrow> string) \<Rightarrow> answers \<Rightarrow> grade_question list \<Rightarrow>
     rat \<Rightarrow> rat \<Rightarrow> item_result list \<Rightarrow> (rat \<times> rat \<times> item_result list) result" where
  "grade_loop fullmatch render ans [] score max_score per_item = Inr (score, max_score, per_item)"
| "grade_loop fullmatch render ans (q # qs) score max_score per_item =
     and_then (grade_item fullmatch render ans q)
       (\<lambda>it. let w = rat_of_int (gq_weight q) in
             grade_loop fullmatch render ans qs
               (if it_correct it then score + w else score) (max_score + w) (per_item @ [it]))"

definition grade_submission ::
    "(string \<Rightarrow> string \<Rightarrow> bool option) \<Rightarrow> (json \<Rightarrow> string) \<Rightarrow> answers \<Rightarrow> grade_question list \<Rightarrow>
     rat \<Rightarrow> grade_result result" where
  "grade_submission fullmatch render ans questions pass_threshold =
     and_then (grade_loop fullmatch render ans questions 0 0 [])
       (\<lambda>(score, max_score, per_item).
          let fraction = (if max_score \<noteq> 0 then score / max_score else 0) in
          Inr \<lparr>gr_score = score, gr_max_score = max_score, gr_fraction = fraction,
               gr_passed = (max_score > 0 \<and> fraction \<ge> pass_threshold), gr_per_item = per_item\<rparr>)"

section \<open>Correctness\<close>

definition item_points :: "item_result \<Rightarrow> rat" where
  "item_points it = (if it_correct it then rat_of_int (it_weight it) else 0)"

lemma grade_item_fields:
  assumes "grade_item fm rd ans q = Inr it"
  shows "it_id it = gq_ext_id q" "it_weight it = gq_weight q" "it_expected it = expected_of q"
  using assms by (auto simp: grade_item_def Let_def and_then_eq_Inr)

lemma grade_loop_spec:
  "grade_loop fm rd ans qs s m per = Inr (s', m', per') \<Longrightarrow>
   \<exists>its. per' = per @ its \<and> list_all2 (\<lambda>q it. grade_item fm rd ans q = Inr it) qs its
     \<and> s' = s + sum_list (map item_points its)
     \<and> m' = m + sum_list (map (\<lambda>q. rat_of_int (gq_weight q)) qs)"
proof (induction qs arbitrary: s m per)
  case Nil
  then show ?case by simp
next
  case (Cons q qs)
  from Cons.prems obtain it where it: "grade_item fm rd ans q = Inr it"
    and rest: "grade_loop fm rd ans qs
        (if it_correct it then s + rat_of_int (gq_weight q) else s)
        (m + rat_of_int (gq_weight q)) (per @ [it]) = Inr (s', m', per')"
    by (auto simp: and_then_eq_Inr Let_def)
  from Cons.IH [OF rest] obtain its where its:
      "per' = (per @ [it]) @ its"
      "list_all2 (\<lambda>q it. grade_item fm rd ans q = Inr it) qs its"
      "s' = (if it_correct it then s + rat_of_int (gq_weight q) else s) + sum_list (map item_points its)"
      "m' = (m + rat_of_int (gq_weight q)) + sum_list (map (\<lambda>q. rat_of_int (gq_weight q)) qs)"
    by blast
  have "item_points it = (if it_correct it then rat_of_int (gq_weight q) else 0)"
    using grade_item_fields [OF it] by (simp add: item_points_def)
  with its it show ?case
    by (intro exI [of _ "it # its"]) (auto simp: algebra_simps)
qed

lemma points_le_weights:
  assumes "list_all2 (\<lambda>q it. grade_item fm rd ans q = Inr it) qs its"
    and "\<forall>q\<in>set qs. 0 \<le> gq_weight q"
  shows "0 \<le> sum_list (map item_points its)"
    and "sum_list (map item_points its) \<le> sum_list (map (\<lambda>q. rat_of_int (gq_weight q)) qs)"
proof -
  have "0 \<le> sum_list (map item_points its)
      \<and> sum_list (map item_points its) \<le> sum_list (map (\<lambda>q. rat_of_int (gq_weight q)) qs)"
    using assms
  proof (induction rule: list_all2_induct)
    case Nil
    then show ?case by simp
  next
    case (Cons q qs it its)
    from Cons(1) have "item_points it = (if it_correct it then rat_of_int (gq_weight q) else 0)"
      by (simp add: item_points_def grade_item_fields(2))
    with Cons show ?case by auto
  qed
  then show "0 \<le> sum_list (map item_points its)"
    and "sum_list (map item_points its) \<le> sum_list (map (\<lambda>q. rat_of_int (gq_weight q)) qs)"
    by auto
qed

lemma grade_submission_parts:
  assumes "grade_submission fm rd ans qs t = Inr r"
  shows "list_all2 (\<lambda>q it. grade_item fm rd ans q = Inr it) qs (gr_per_item r)"
    and "gr_score r = sum_list (map item_points (gr_per_item r))"
    and "gr_max_score r = sum_list (map (\<lambda>q. rat_of_int (gq_weight q)) qs)"
    and "gr_fraction r = (if gr_max_score r \<noteq> 0 then gr_score r / gr_max_score r else 0)"
    and "gr_passed r \<longleftrightarrow> gr_max_score r > 0 \<and> gr_fraction r \<ge> t"
  using assms
  by (auto simp: grade_submission_def and_then_eq_Inr Let_def dest!: grade_loop_spec)

end
