(* ===== verification/Exam_Engine.thy ===== *)
theory Exam_Engine
  imports Python_Values
begin

text \<open>
  \<open>app/services/exam_engine.py\<close>: which questions a sitter gets, in which order, in
  which order the options are shown, and whether a sitting counts as signal.
  The model's arguments for library code are \<open>hex\<close> (\<open>sha256(...).hexdigest()\<close> of a
  text) and \<open>randbelow\<close> (the draw of \<open>random.Random(seed)\<close> below a bound while a list of
  a given length is shuffled). A sitter is the text of its id.
\<close>

record exam_question =
  eq_ext_id :: string
  eq_category :: "string option"
  eq_options :: json

record selection_policy =
  per_category :: nat
  total :: nat

definition SECONDS_PER_QUESTION :: rat where "SECONDS_PER_QUESTION = 12"
definition NEAR_CHANCE_MARGIN :: rat where "NEAR_CHANCE_MARGIN = 133 / 100"
definition MIN_VALID_FRACTION :: rat where "MIN_VALID_FRACTION = 1 / 3"
definition MIN_DURATION_SECONDS :: rat where "MIN_DURATION_SECONDS = 6 * 60"
definition INVALID_NEAR_CHANCE :: string where "INVALID_NEAR_CHANCE = ''near_chance''"
definition INVALID_TOO_FAST :: string where "INVALID_TOO_FAST = ''too_fast''"

definition make_policy :: "nat \<Rightarrow> nat \<Rightarrow> selection_policy result" where
  "make_policy pc t =
     (if pc \<noteq> 0 \<and> t \<noteq> 0 then Inl (ValueError ''choose per_category or total, not both'')
      else Inr \<lparr>per_category = pc, total = t\<rparr>)"

definition rank :: "(string \<Rightarrow> string) \<Rightarrow> string \<Rightarrow> string \<Rightarrow> string \<Rightarrow> string" where
  "rank hex sitter salt key = hex (sitter @ '':'' @ salt @ key)"

text \<open>\<open>by_category.setdefault(k, []).append(q)\<close> on an insertion-ordered dictionary.\<close>

fun append_to_group :: "string \<Rightarrow> 'q \<Rightarrow> (string \<times> 'q list) list \<Rightarrow> (string \<times> 'q list) list" where
  "append_to_group k q [] = [(k, [q])]"
| "append_to_group k q ((k', qs) # gs) =
     (if k' = k then (k', qs @ [q]) # gs else (k', qs) # append_to_group k q gs)"

definition category_of :: "('a exam_question_scheme) \<Rightarrow> string" where
  "category_of q = (case or_none (eq_category q) of None \<Rightarrow> ''general'' | Some c \<Rightarrow> c)"

definition group_by_category ::
    "('a exam_question_scheme) list \<Rightarrow> (string \<times> ('a exam_question_scheme) list) list" where
  "group_by_category qs = fold (\<lambda>q. append_to_group (category_of q) q) qs []"

definition rank_questions ::
    "(string \<Rightarrow> string) \<Rightarrow> string \<Rightarrow> string \<Rightarrow> ('a exam_question_scheme) list \<Rightarrow>
     ('a exam_question_scheme) list" where
  "rank_questions hex sitter salt qs = sort_key (\<lambda>q. rank hex sitter salt (eq_ext_id q)) qs"

definition draw_group ::
    "(string \<Rightarrow> string) \<Rightarrow> string \<Rightarrow> string \<Rightarrow> nat \<Rightarrow> ('a exam_question_scheme) list \<Rightarrow>
     ('a exam_question_scheme) list" where
  "draw_group hex sitter variant n grp =
     (if length grp \<le> n then grp else take n (rank_questions hex sitter variant grp))"

definition chosen_questions ::
    "(string \<Rightarrow> string) \<Rightarrow> string \<Rightarrow> ('a exam_question_scheme) list \<Rightarrow> selection_policy \<Rightarrow> string \<Rightarrow>
     ('a exam_question_scheme) list" where
  "chosen_questions hex sitter qs policy variant =
     (if per_category policy \<noteq> 0
      then concat (map (\<lambda>g. draw_group hex sitter variant (per_category policy) (snd g))
                       (group_by_category qs))
      else if total policy \<noteq> 0
      then take (total policy) (rank_questions hex sitter variant qs)
      else qs)"

definition select ::
    "(string \<Rightarrow> string) \<Rightarrow> string \<Rightarrow> ('a exam_question_scheme) list \<Rightarrow> selection_policy \<Rightarrow> string \<Rightarrow>
     ('a exam_question_scheme) list" where
  "select hex sitter qs policy variant =
     rank_questions hex sitter (variant @ ''order:'') (chosen_questions hex sitter qs policy variant)"

text \<open>
  \<open>Random.shuffle\<close>: for \<open>i\<close> from the last position down to 1, swap \<open>x[i]\<close> with
  \<open>x[randbelow(i + 1)]\<close>.
\<close>

definition swap_at :: "nat \<Rightarrow> nat \<Rightarrow> 'a list \<Rightarrow> 'a list" where
  "swap_at i j xs = xs[i := xs ! j, j := xs ! i]"

fun shuffle_from :: "(nat \<Rightarrow> nat) \<Rightarrow> nat \<Rightarrow> 'a list \<Rightarrow> 'a list" where
  "shuffle_from draw 0 xs = xs"
| "shuffle_from draw (Suc i) xs = shuffle_from draw i (swap_at (Suc i) (draw (Suc (Suc i))) xs)"

definition shuffle_with :: "(nat \<Rightarrow> nat) \<Rightarrow> 'a list \<Rightarrow> 'a list" where
  "shuffle_with draw xs = shuffle_from draw (length xs - 1) xs"

definition options_list :: "('a exam_question_scheme) \<Rightarrow> json list" where
  "options_list q =
     (case eq_options q of
        JArr xs \<Rightarrow> xs | JObj kvs \<Rightarrow> map (JStr \<circ> fst) kvs | JStr s \<Rightarrow> map (\<lambda>c. JStr [c]) s | _ \<Rightarrow> [])"

definition present_options ::
    "(string \<Rightarrow> string) \<Rightarrow> (string \<Rightarrow> nat \<Rightarrow> nat \<Rightarrow> nat) \<Rightarrow> string \<Rightarrow> ('a exam_question_scheme) \<Rightarrow> json list" where
  "present_options hex randbelow sitter q =
     (let opts = options_list q
      in shuffle_with (randbelow (rank hex sitter '''' (eq_ext_id q)) (length opts)) opts)"

definition option_chances :: "('a exam_question_scheme) list \<Rightarrow> rat list" where
  "option_chances qs =
     concat (map (\<lambda>q. case eq_options q of
                        JArr xs \<Rightarrow> if 2 \<le> length xs then [1 / rat_of_nat (length xs)] else []
                      | _ \<Rightarrow> []) qs)"

definition chance_baseline :: "('a exam_question_scheme) list \<Rightarrow> rat" where
  "chance_baseline qs =
     (let per_question = option_chances qs
      in if per_question = [] then MIN_VALID_FRACTION / NEAR_CHANCE_MARGIN
         else sum_list per_question / rat_of_nat (length per_question))"

definition near_chance_floor :: "('a exam_question_scheme) list \<Rightarrow> rat" where
  "near_chance_floor qs = chance_baseline qs * NEAR_CHANCE_MARGIN"

definition duration_floor :: "('a exam_question_scheme) list \<Rightarrow> rat" where
  "duration_floor qs = rat_of_nat (length qs) * SECONDS_PER_QUESTION"

text \<open>\<open>questions=None\<close> and an empty paper are the same case (\<open>if questions\<close>).\<close>

definition check_validity ::
    "rat \<Rightarrow> rat option \<Rightarrow> ('a exam_question_scheme) list \<Rightarrow> bool \<times> string option" where
  "check_validity fraction duration_seconds questions =
     (let score_floor = (if questions \<noteq> [] then near_chance_floor questions else MIN_VALID_FRACTION);
          time_floor = (if questions \<noteq> [] then duration_floor questions else MIN_DURATION_SECONDS)
      in if fraction \<le> score_floor + 1 / 10 ^ 9 then (False, Some INVALID_NEAR_CHANCE)
         else (case duration_seconds of
                 None \<Rightarrow> (False, Some INVALID_TOO_FAST)
               | Some d \<Rightarrow> if d < time_floor then (False, Some INVALID_TOO_FAST) else (True, None)))"

section \<open>Selection\<close>

lemma mset_rank_questions [simp]: "mset (rank_questions hex sid salt qs) = mset qs"
  by (simp add: rank_questions_def)

lemma length_rank_questions [simp]: "length (rank_questions hex sid salt qs) = length qs"
  by (simp add: rank_questions_def)

lemma mset_take_subseteq: "mset (take n xs) \<subseteq># mset xs"
  by (metis append_take_drop_id mset_append mset_subset_eq_add_left)

lemma append_to_group_mset:
  "mset (concat (map snd (append_to_group k q gs))) = add_mset q (mset (concat (map snd gs)))"
  by (induction gs) auto

definition well_grouped :: "(string \<times> ('a exam_question_scheme) list) list \<Rightarrow> bool" where
  "well_grouped gs \<longleftrightarrow> distinct (map fst gs) \<and> (\<forall>(k, grp) \<in> set gs. \<forall>q \<in> set grp. category_of q = k)"

lemma append_to_group_keys:
  "fst ` set (append_to_group k q gs) = insert k (fst ` set gs)"
proof (induction gs)
  case (Cons g gs)
  then show ?case by (cases g; cases "fst g = k") (simp_all add: insert_commute)
qed simp

lemma append_to_group_well:
  "well_grouped gs \<Longrightarrow> well_grouped (append_to_group (category_of q) q gs)"
proof (induction gs)
  case (Cons g gs)
  obtain k grp where g: "g = (k, grp)" by (cases g)
  show ?case
    using Cons append_to_group_keys [of "category_of q" q gs]
    by (auto simp: well_grouped_def g)
qed (simp add: well_grouped_def)

lemma group_fold:
  assumes "well_grouped gs"
  shows "well_grouped (fold (\<lambda>q. append_to_group (category_of q) q) qs gs)"
    and "mset (concat (map snd (fold (\<lambda>q. append_to_group (category_of q) q) qs gs)))
         = mset qs + mset (concat (map snd gs))"
  using assms
  by (induction qs arbitrary: gs) (simp_all add: append_to_group_mset append_to_group_well)

lemma group_by_category_well: "well_grouped (group_by_category qs)"
  unfolding group_by_category_def by (rule group_fold(1)) (simp add: well_grouped_def)

lemma group_by_category_mset: "mset (concat (map snd (group_by_category qs))) = mset qs"
  using group_fold(2) [of "[]" qs] by (simp add: group_by_category_def well_grouped_def)

text \<open>Under grouping, the questions of one category are exactly that category's group.\<close>

lemma well_grouped_filter:
  assumes "well_grouped gs"
  shows "filter (\<lambda>q. category_of q = c) (concat (map snd gs))
         = (case map_of gs c of None \<Rightarrow> [] | Some grp \<Rightarrow> grp)"
  using assms
proof (induction gs)
  case (Cons g gs)
  obtain k grp where g: "g = (k, grp)" by (cases g)
  have IH: "filter (\<lambda>q. category_of q = c) (concat (map snd gs))
      = (case map_of gs c of None \<Rightarrow> [] | Some grp \<Rightarrow> grp)"
    using Cons by (auto simp: well_grouped_def)
  have k: "\<forall>q \<in> set grp. category_of q = k" and nk: "k \<notin> fst ` set gs"
    using Cons(2) by (auto simp: well_grouped_def g)
  show ?case
  proof (cases "k = c")
    case True
    then have "map_of gs c = None" using nk by (simp add: map_of_eq_None_iff)
    with True k IH show ?thesis by (simp add: g filter_True)
  next
    case False
    with k IH show ?thesis by (simp add: g filter_False)
  qed
qed simp

lemma well_grouped_map:
  assumes "well_grouped gs" "\<And>grp. set (f grp) \<subseteq> set grp"
  shows "well_grouped (map (\<lambda>(k, grp). (k, f grp)) gs)"
  using assms by (fastforce simp: well_grouped_def comp_def case_prod_beta)

lemma map_of_map_snd_fst:
  "map_of (map (\<lambda>(k, grp). (k, f grp)) gs) c = map_option f (map_of gs c)"
  by (induction gs) auto

text \<open>What \<open>select\<close> draws, as a multiset.\<close>

lemma mset_select [simp]:
  "mset (select hex sid qs p v) = mset (chosen_questions hex sid qs p v)"
  by (simp add: select_def)

lemma mset_draw_group: "mset (draw_group hex sid v n grp) \<subseteq># mset grp"
  by (simp add: draw_group_def)
     (metis mset_rank_questions mset_take_subseteq)

lemma length_draw_group [simp]: "length (draw_group hex sid v n grp) = min n (length grp)"
  by (simp add: draw_group_def min_def)

lemma mset_concat_mono:
  "(\<And>x. x \<in> set xs \<Longrightarrow> mset (f x) \<subseteq># mset (g x)) \<Longrightarrow>
   mset (concat (map f xs)) \<subseteq># mset (concat (map g xs))"
  by (induction xs) (auto intro: subset_mset.add_mono)

lemma mset_chosen: "mset (chosen_questions hex sid qs p v) \<subseteq># mset qs"
proof -
  have "mset (concat (map (\<lambda>g. draw_group hex sid v (per_category p) (snd g)) (group_by_category qs)))
        \<subseteq># mset (concat (map snd (group_by_category qs)))"
    by (rule mset_concat_mono) (auto simp: mset_draw_group)
  moreover have "mset (take (total p) (rank_questions hex sid v qs)) \<subseteq># mset qs"
    using mset_take_subseteq [of "total p" "rank_questions hex sid v qs"] by simp
  ultimately show ?thesis
    by (simp add: chosen_questions_def group_by_category_mset)
qed

lemma set_draw_group: "set (draw_group hex sid v n grp) \<subseteq> set grp"
  using mset_draw_group [of hex sid v n grp] by (metis mset_subset_eqD set_mset_mset subsetI)

text \<open>The per-competency shape of a stratified paper.\<close>

lemma filter_chosen_category:
  assumes "per_category p \<noteq> 0"
  shows "filter (\<lambda>q. category_of q = c) (chosen_questions hex sid qs p v)
         = draw_group hex sid v (per_category p) (case map_of (group_by_category qs) c of None \<Rightarrow> [] | Some g \<Rightarrow> g)"
proof -
  let ?f = "draw_group hex sid v (per_category p)"
  let ?gs = "map (\<lambda>(k, grp). (k, ?f grp)) (group_by_category qs)"
  have w: "well_grouped ?gs"
    by (rule well_grouped_map) (auto simp: group_by_category_well set_draw_group)
  have "chosen_questions hex sid qs p v = concat (map snd ?gs)"
    using assms by (simp add: chosen_questions_def comp_def case_prod_beta)
  then show ?thesis
    using well_grouped_filter [OF w, of c]
    by (simp add: map_of_map_snd_fst draw_group_def split: option.splits)
qed

lemma group_length:
  "length (case map_of (group_by_category qs) c of None \<Rightarrow> [] | Some g \<Rightarrow> g)
   = count_rows (\<lambda>q. category_of q = c) qs"
proof -
  have "mset (filter (\<lambda>q. category_of q = c) (concat (map snd (group_by_category qs))))
        = mset (filter (\<lambda>q. category_of q = c) qs)"
    by (simp only: mset_filter group_by_category_mset)
  then have "length (filter (\<lambda>q. category_of q = c) (concat (map snd (group_by_category qs))))
        = length (filter (\<lambda>q. category_of q = c) qs)"
    by (metis size_mset)
  then show ?thesis
    by (simp only: well_grouped_filter [OF group_by_category_well] count_rows_def)
qed

lemma count_chosen_category:
  assumes "per_category p \<noteq> 0"
  shows "count_rows (\<lambda>q. category_of q = c) (chosen_questions hex sid qs p v)
         = min (per_category p) (count_rows (\<lambda>q. category_of q = c) qs)"
  unfolding count_rows_def [of _ "chosen_questions hex sid qs p v"]
  by (simp only: filter_chosen_category [OF assms] length_draw_group group_length)

lemma count_rows_mset: "mset xs = mset ys \<Longrightarrow> count_rows p xs = count_rows p ys"
  unfolding count_rows_def by (metis mset_filter size_mset)

section \<open>Independence of the bank's row order\<close>

lemma sort_key_cong_mset:
  assumes m: "mset xs = mset ys" and inj: "inj_on f (set xs)"
  shows "sort_key f xs = sort_key f ys"
proof (rule properties_for_sort_key)
  show "mset (sort_key f ys) = mset xs" using m by simp
next
  fix x assume x: "x \<in> set (sort_key f ys)"
  have s: "set xs = set ys" using m by (rule mset_eq_setD)
  have e: "filter (\<lambda>y. f x = f y) zs = replicate (count (mset zs) x) x" if "set zs \<subseteq> set xs" for zs
    using that
  proof (induction zs)
    case (Cons z zs)
    have "f x = f z \<longleftrightarrow> x = z" using x s Cons(2) inj by (auto dest: inj_onD)
    with Cons show ?case by (cases "x = z") simp_all
  qed simp
  show "filter (\<lambda>y. f x = f y) (sort_key f ys) = filter (\<lambda>y. f x = f y) xs"
    using e [of "sort_key f ys"] e [of xs] m s by simp
next
  show "sorted (map f (sort_key f ys))" by simp
qed

lemma rank_questions_cong:
  assumes "mset xs = mset ys" "inj_on (\<lambda>q. rank hex sid salt (eq_ext_id q)) (set xs)"
  shows "rank_questions hex sid salt xs = rank_questions hex sid salt ys"
  unfolding rank_questions_def by (rule sort_key_cong_mset [OF assms])

text \<open>
  \<open>no_collision\<close>: the digest separates the questions of the bank under a salt. It holds
  unless SHA-256 collides on the bank.
\<close>

definition no_collision :: "(string \<Rightarrow> string) \<Rightarrow> string \<Rightarrow> string \<Rightarrow> ('a exam_question_scheme) list \<Rightarrow> bool" where
  "no_collision hex sid salt qs \<longleftrightarrow>
     distinct (map (\<lambda>q. rank hex sid salt (eq_ext_id q)) qs)"

lemma no_collision_inj:
  "no_collision hex sid salt qs \<Longrightarrow> inj_on (\<lambda>q. rank hex sid salt (eq_ext_id q)) (set qs)"
  by (simp add: no_collision_def distinct_map)

end
