(* ===== verification/Academy_Model.thy ===== *)
theory Academy_Model
  imports Grading Exam_Engine "HOL-Library.AList"
begin

text \<open>
  The learning store: one record per ORM row (\<open>app/models/*.py\<close>) and one record of
  tables. Columns the modelled services neither read nor decide on (message bodies,
  \<open>updated_at\<close>) are left out. A primary key (\<open>uuid4\<close>) is the next unused number;
  \<open>created_at\<close> is the transaction's clock, an argument of the operations. Rows of a
  query without \<open>ORDER BY\<close> come in table order; no theorem depends on that order.
\<close>

record person_row =
  pe_id :: uuid
  pe_tenant :: uuid
  pe_email :: string
  pe_first_name :: string
  pe_last_name :: string
  pe_status :: string
  pe_prefs :: "(string \<times> json) list"

record course_row =
  co_id :: uuid
  co_tenant :: uuid
  co_title :: string
  co_status :: string

record question_row = exam_question +
  qu_tenant :: uuid
  qu_bank :: uuid
  qu_type :: string
  qu_correct :: json
  qu_weight :: int

record activity_row =
  act_id :: uuid
  act_tenant :: uuid
  act_course :: uuid
  act_chapter :: "int option"
  act_type :: string
  act_bank :: "uuid option"
  act_title :: string
  act_pass_threshold :: rat
  act_max_attempts :: "int option"
  act_mode :: string
  act_grading :: string
  act_weight :: rat
  act_question_count :: "int option"

text \<open>
  The JSON columns whose shape depends on the writer: the answers of a test or the seed and
  instance of a lab, and the graded items of a test or the reports of a lab's checks.
\<close>

record check_report =
  cr_id :: string
  cr_label :: string
  cr_weight :: int
  cr_pass :: bool
  cr_actual :: json
  cr_expected :: json
  cr_hint :: "string option"

datatype stored_answers = Answered answers | Lab_Run "(string \<times> json) list" string

datatype stored_items = Items "item_result list" | Checks "check_report list"

record submission_row =
  sub_id :: uuid
  sub_tenant :: uuid
  sub_activity :: uuid
  sub_person :: uuid
  sub_answers :: stored_answers
  sub_attempt_no :: nat
  sub_created_at :: instant

record score_row =
  sc_id :: uuid
  sc_tenant :: uuid
  sc_submission :: uuid
  sc_score :: rat
  sc_max_score :: rat
  sc_fraction :: rat
  sc_passed :: bool
  sc_per_item :: stored_items
  sc_source :: string
  sc_override_reason :: "string option"
  sc_created_at :: instant

record attempt_row =
  at_id :: uuid
  at_tenant :: uuid
  at_activity :: uuid
  at_person :: uuid
  at_question_ext_ids :: "string list"
  at_started_at :: instant
  at_submitted_at :: "instant option"

record grant_row =
  ag_id :: uuid
  ag_tenant :: uuid
  ag_activity :: uuid
  ag_person :: uuid
  ag_extra_attempts :: int
  ag_reason :: string
  ag_granted_by :: "uuid option"

record cohort_row =
  ch_id :: uuid
  ch_tenant :: uuid
  ch_name :: string
  ch_status :: string
  ch_entrance_bank :: "uuid option"
  ch_entrance_time_limit :: "int option"
  ch_auto_accept_threshold :: "rat option"

record enrollment_row =
  en_id :: uuid
  en_tenant :: uuid
  en_cohort :: uuid
  en_person :: uuid
  en_track :: "uuid option"
  en_role :: string
  en_status :: string
  en_access_ends_at :: "instant option"

record offering_row =
  of_id :: uuid
  of_tenant :: uuid
  of_cohort :: uuid
  of_course :: uuid
  of_status :: string
  of_starts_at :: "instant option"
  of_ends_at :: "instant option"

record track_course_row =
  tc_id :: uuid
  tc_tenant :: uuid
  tc_track :: uuid
  tc_course :: uuid
  tc_order_index :: int

record prerequisite_row =
  pr_tenant :: uuid
  pr_course :: uuid
  pr_requires :: uuid

record pacing_row =
  pa_tenant :: uuid
  pa_offering :: uuid
  pa_activity :: uuid
  pa_release_at :: "instant option"
  pa_due_at :: "instant option"

record completion_row =
  cc_id :: uuid
  cc_tenant :: uuid
  cc_person :: uuid
  cc_course :: uuid
  cc_status :: string
  cc_pct :: rat
  cc_completed_at :: "instant option"

record certificate_row =
  ce_id :: uuid
  ce_tenant :: uuid
  ce_person :: uuid
  ce_course :: uuid
  ce_serial :: string
  ce_issued_at :: instant

record event_row =
  ev_id :: uuid
  ev_tenant :: uuid
  ev_person :: uuid
  ev_kind :: string
  ev_course :: "uuid option"
  ev_subject :: "uuid option"
  ev_detail :: json
  ev_occurred_at :: instant

record audit_row =
  au_id :: uuid
  au_tenant :: uuid
  au_actor :: "uuid option"
  au_action :: string
  au_entity_type :: string
  au_entity_id :: "string option"
  au_details :: json

record notification_row =
  no_id :: uuid
  no_tenant :: uuid
  no_person :: uuid
  no_kind :: string
  no_title :: string
  no_link :: "string option"
  no_created_at :: instant
  no_read_at :: "instant option"

record outbox_row =
  ob_id :: uuid
  ob_tenant :: uuid
  ob_key :: string
  ob_kind :: string
  ob_recipient :: string
  ob_payload :: json
  ob_status :: string
  ob_attempts :: nat
  ob_available_at :: instant
  ob_created_at :: instant
  ob_sent_at :: "instant option"
  ob_last_error :: "string option"

record nomination_row =
  fn_id :: uuid
  fn_tenant :: uuid
  fn_person :: uuid
  fn_nominated_by :: "uuid option"
  fn_scope :: string
  fn_cohort :: "uuid option"
  fn_offering :: "uuid option"
  fn_status :: string
  fn_activated_at :: "instant option"
  fn_revoked_at :: "instant option"
  fn_activation_reason :: "string option"
  fn_created_at :: instant

record requirement_row =
  fr_id :: uuid
  fr_tenant :: uuid
  fr_nomination :: uuid
  fr_course :: uuid

record track_row =
  tr_id :: uuid
  tr_tenant :: uuid
  tr_slug :: string
  tr_name :: string
  tr_status :: string
  tr_created_at :: instant

record cohort_track_row =
  ct_tenant :: uuid
  ct_cohort :: uuid
  ct_track :: uuid
  ct_status :: string

text \<open>The \<open>assessment_*\<close> columns of an applicant.\<close>

record sitting =
  si_score :: "rat option"
  si_level :: "string option"
  si_profile :: "(string \<times> rat) list option"
  si_taken_at :: "instant option"
  si_bank :: "uuid option"
  si_erp_synced_at :: "instant option"
  si_result_version :: nat
  si_token_hash :: "string option"
  si_started_at :: "instant option"
  si_elapsed :: int
  si_time_exceeded :: bool
  si_answers :: "answers option"
  si_valid :: "bool option"
  si_invalid_reason :: "string option"
  si_reset_count :: nat
  si_deadline :: "instant option"
  si_return_url :: "string option"

record applicant_row =
  ap_id :: uuid
  ap_tenant :: uuid
  ap_email :: string
  ap_first_name :: string
  ap_last_name :: string
  ap_phone :: "string option"
  ap_program :: "string option"
  ap_status :: string
  ap_source :: string
  ap_external_ref :: "string option"
  ap_applied_on :: int
  ap_notes :: "string option"
  ap_person :: "uuid option"
  ap_cohort :: "uuid option"
  ap_track :: "uuid option"
  ap_sitting :: sitting
  ap_invite_sent_at :: "instant option"
  ap_onboarding_token_hash :: "string option"
  ap_profile :: "(string \<times> json) list"
  ap_created_at :: instant

record task_row =
  ot_id :: uuid
  ot_tenant :: uuid
  ot_applicant :: uuid
  ot_key :: string
  ot_label :: string
  ot_order_index :: nat
  ot_status :: string
  ot_completed_at :: "instant option"
  ot_created_at :: instant

text \<open>A \<open>person_roles\<close> row with its role's slug.\<close>

record role_row =
  ro_tenant :: uuid
  ro_person :: uuid
  ro_slug :: string

text \<open>The academy-wide default of the entrance exam: at most one row per tenant.\<close>

record defaults_row =
  td_tenant :: uuid
  td_bank :: "uuid option"
  td_time_limit :: "int option"

text \<open>Accounts: credentials, cookie sessions and the single-use tokens of the account flows.\<close>

record credential_row =
  cd_id :: uuid
  cd_tenant :: uuid
  cd_person :: uuid
  cd_email :: string
  cd_password_hash :: string
  cd_failed :: nat
  cd_locked_until :: "instant option"

record session_row =
  se_id :: uuid
  se_tenant :: uuid
  se_person :: uuid
  se_token_hash :: string
  se_expires_at :: instant
  se_revoked_at :: "instant option"

record token_row =
  tk_id :: uuid
  tk_tenant :: uuid
  tk_person :: uuid
  tk_kind :: string
  tk_hash :: string
  tk_expires_at :: instant
  tk_used_at :: "instant option"

record academy_db =
  people :: "person_row list"
  courses :: "course_row list"
  questions :: "question_row list"
  activities :: "activity_row list"
  submissions :: "submission_row list"
  scores :: "score_row list"
  activity_attempts :: "attempt_row list"
  attempt_grants :: "grant_row list"
  cohorts :: "cohort_row list"
  enrollments :: "enrollment_row list"
  offerings :: "offering_row list"
  track_courses :: "track_course_row list"
  prerequisites :: "prerequisite_row list"
  offering_activities :: "pacing_row list"
  completions :: "completion_row list"
  certificates :: "certificate_row list"
  learning_events :: "event_row list"
  audit_events :: "audit_row list"
  notifications :: "notification_row list"
  email_outbox :: "outbox_row list"
  nominations :: "nomination_row list"
  requirements :: "requirement_row list"
  tracks :: "track_row list"
  cohort_tracks :: "cohort_track_row list"
  applicants :: "applicant_row list"
  onboarding_tasks :: "task_row list"
  person_roles :: "role_row list"
  entrance_defaults :: "defaults_row list"
  entrance_per_category :: int
  credentials :: "credential_row list"
  auth_sessions :: "session_row list"
  account_tokens :: "token_row list"
  email_auto_on_pass :: bool
  next_id :: uuid

definition empty_db :: academy_db where
  "empty_db = \<lparr>people = [], courses = [], questions = [], activities = [], submissions = [],
     scores = [], activity_attempts = [], attempt_grants = [], cohorts = [], enrollments = [],
     offerings = [], track_courses = [], prerequisites = [], offering_activities = [],
     completions = [], certificates = [], learning_events = [], audit_events = [],
     notifications = [], email_outbox = [], nominations = [], requirements = [],
     tracks = [], cohort_tracks = [], applicants = [], onboarding_tasks = [], person_roles = [],
     entrance_defaults = [], entrance_per_category = 0, credentials = [], auth_sessions = [], account_tokens = [],
     email_auto_on_pass = True, next_id = 1\<rparr>"

section \<open>str(uuid)\<close>

definition hex_digit :: "nat \<Rightarrow> char" where
  "hex_digit d = (if d < 10 then char_of (48 + d) else char_of (87 + d))"

fun hex_digits :: "nat \<Rightarrow> nat \<Rightarrow> string" where
  "hex_digits 0 n = []"
| "hex_digits (Suc k) n = hex_digits k (n div 16) @ [hex_digit (n mod 16)]"

text \<open>\<open>8-4-4-4-12\<close> hexadecimal digits.\<close>

definition uuid_str :: "uuid \<Rightarrow> string" where
  "uuid_str u =
     (let h = hex_digits 32 u
      in take 8 h @ ''-'' @ take 4 (drop 8 h) @ ''-'' @ take 4 (drop 12 h) @ ''-''
         @ take 4 (drop 16 h) @ ''-'' @ drop 20 h)"

lemma length_hex_digits [simp]: "length (hex_digits k n) = k"
  by (induction k arbitrary: n) simp_all

lemma hex_digit_inj:
  assumes "d < 16" "e < 16" "hex_digit d = hex_digit e"
  shows "d = e"
proof -
  have "of_char (hex_digit d) = (if d < 10 then 48 + d else 87 + d :: nat)" if "d < 16" for d
    using that by (simp add: hex_digit_def)
  with assms have "(if d < 10 then 48 + d else 87 + d :: nat) = (if e < 10 then 48 + e else 87 + e)"
    by metis
  with assms(1,2) show ?thesis by (auto split: if_splits)
qed

lemma hex_digits_inj:
  "n < 16 ^ k \<Longrightarrow> m < 16 ^ k \<Longrightarrow> hex_digits k n = hex_digits k m \<Longrightarrow> n = m"
proof (induction k arbitrary: n m)
  case (Suc k)
  then have d: "hex_digit (n mod 16) = hex_digit (m mod 16)"
    and r: "hex_digits k (n div 16) = hex_digits k (m div 16)" by simp_all
  from d have "n mod 16 = m mod 16" by (rule hex_digit_inj [rotated 2]) simp_all
  moreover have "n div 16 = m div 16"
    by (rule Suc.IH [OF _ _ r]) (use Suc.prems in \<open>simp_all add: less_mult_imp_div_less mult.commute\<close>)
  ultimately show ?case by (metis div_mult_mod_eq)
qed simp

lemma length_uuid_str: "length (uuid_str u) = 36"
  by (simp add: uuid_str_def Let_def)

lemma uuid_str_inj:
  assumes "u < 2 ^ 128" "v < 2 ^ 128" "uuid_str u = uuid_str v"
  shows "u = v"
proof -
  let ?h = "hex_digits 32 u" and ?g = "hex_digits 32 v"
  have "take 8 ?h = take 8 ?g" "take 4 (drop 8 ?h) = take 4 (drop 8 ?g)"
    "take 4 (drop 12 ?h) = take 4 (drop 12 ?g)" "take 4 (drop 16 ?h) = take 4 (drop 16 ?g)"
    "drop 20 ?h = drop 20 ?g"
    using assms(3) by (simp_all add: uuid_str_def Let_def append_eq_append_conv)
  then have "take 8 ?h @ take 4 (drop 8 ?h) @ take 4 (drop 12 ?h) @ take 4 (drop 16 ?h) @ drop 20 ?h
           = take 8 ?g @ take 4 (drop 8 ?g) @ take 4 (drop 12 ?g) @ take 4 (drop 16 ?g) @ drop 20 ?g"
    by simp
  moreover have "take 8 l @ take 4 (drop 8 l) @ take 4 (drop 12 l) @ take 4 (drop 16 l) @ drop 20 l = l"
    for l :: string
  proof -
    have "take 4 (drop k l) @ drop (k + 4) l = drop k l" for k
      by (metis add.commute append_take_drop_id drop_drop)
    from this [of 8] this [of 12] this [of 16] show ?thesis by simp
  qed
  ultimately have "?h = ?g" by metis
  then show ?thesis
    using assms(1,2) hex_digits_inj [of u 32 v] by simp
qed

end
