(* ===== verification/Ledgers.thy ===== *)
theory Ledgers
  imports Academy_Model
begin

text \<open>
  The append-only ledgers the services write to: \<open>services/learning_events.py\<close>,
  \<open>services/audit.py\<close>, \<open>services/notifications.py\<close> and the intake of
  \<open>services/email_outbox.py\<close>. An insert that breaks a foreign key raises
  \<open>IntegrityError\<close>; a savepoint (\<open>begin_nested\<close>) restores the store when its body
  raises. \<open>day_start\<close> is the start of the academy-local day in UTC.
\<close>

definition EVENT_KINDS :: "string list" where
  "EVENT_KINDS =
     [''course_viewed'', ''chapter_viewed'', ''chapter_completed'', ''activity_started'',
      ''submission_made'', ''work_graded'', ''lab_launched'', ''lab_check_passed'',
      ''lab_check_failed'', ''session_attended'', ''certificate_earned'']"

definition ONCE_PER_SUBJECT :: "string list" where
  "ONCE_PER_SUBJECT = [''chapter_completed'', ''certificate_earned'']"

definition ONCE_PER_LOCAL_DAY :: "string list" where
  "ONCE_PER_LOCAL_DAY = [''course_viewed'', ''chapter_viewed'']"

definition person_exists :: "academy_db \<Rightarrow> uuid \<Rightarrow> uuid \<Rightarrow> bool" where
  "person_exists db tenant person =
     list_ex (\<lambda>p. pe_tenant p = tenant \<and> pe_id p = person) (people db)"

section \<open>Learning events\<close>

record event_values =
  v_tenant :: uuid
  v_person :: uuid
  v_kind :: string
  v_course :: "uuid option"
  v_subject :: "uuid option"
  v_detail :: json
  v_at :: instant

definition insert_event :: "academy_db \<Rightarrow> event_values \<Rightarrow> (academy_db \<times> event_row) result" where
  "insert_event db v =
     ensure (person_exists db (v_tenant v) (v_person v)) IntegrityError
       (let e = \<lparr>ev_id = next_id db, ev_tenant = v_tenant v, ev_person = v_person v,
                 ev_kind = v_kind v, ev_course = v_course v, ev_subject = v_subject v,
                 ev_detail = v_detail v, ev_occurred_at = v_at v\<rparr>
        in Inr (db\<lparr>learning_events := learning_events db @ [e], next_id := Suc (next_id db)\<rparr>, e))"

text \<open>
  A view of today by the same person of the same subject; and the row the partial unique
  index of the once-per-subject kinds conflicts with (a null subject never conflicts).
\<close>

definition viewed_today :: "(instant \<Rightarrow> instant) \<Rightarrow> academy_db \<Rightarrow> event_values \<Rightarrow> bool" where
  "viewed_today day_start db v =
     list_ex (\<lambda>e. ev_tenant e = v_tenant v \<and> ev_person e = v_person v \<and> ev_kind e = v_kind v
                  \<and> ev_subject e = v_subject v \<and> ev_occurred_at e \<ge> day_start (v_at v))
       (learning_events db)"

definition event_conflict :: "academy_db \<Rightarrow> event_values \<Rightarrow> bool" where
  "event_conflict db v =
     (v_subject v \<noteq> None \<and>
      list_ex (\<lambda>e. ev_tenant e = v_tenant v \<and> ev_person e = v_person v \<and> ev_kind e = v_kind v
                   \<and> ev_subject e = v_subject v) (learning_events db))"

definition record_event ::
    "(instant \<Rightarrow> instant) \<Rightarrow> academy_db \<Rightarrow> event_values \<Rightarrow> (academy_db \<times> event_row option) result" where
  "record_event day_start db v =
     (if v_kind v \<notin> set EVENT_KINDS then Inl (ValueError ''unknown learning-event kind'')
      else if v_kind v \<in> set ONCE_PER_LOCAL_DAY \<and> viewed_today day_start db v then Inr (db, None)
      else if v_kind v \<in> set ONCE_PER_SUBJECT \<and> event_conflict db v then Inr (db, None)
      else and_then (insert_event db v) (\<lambda>(db', e). Inr (db', Some e)))"

definition emit :: "(instant \<Rightarrow> instant) \<Rightarrow> academy_db \<Rightarrow> event_values \<Rightarrow> academy_db" where
  "emit day_start db v =
     (case record_event day_start db v of Inl _ \<Rightarrow> db | Inr (db', _) \<Rightarrow> db')"

definition last_activity_at :: "academy_db \<Rightarrow> uuid \<Rightarrow> uuid \<Rightarrow> instant option" where
  "last_activity_at db tenant person =
     (case filter (\<lambda>e. ev_tenant e = tenant \<and> ev_person e = person) (learning_events db) of
        [] \<Rightarrow> None
      | e # es \<Rightarrow> Some (fold max (map ev_occurred_at es) (ev_occurred_at e)))"

definition active_person_ids :: "academy_db \<Rightarrow> uuid \<Rightarrow> uuid list \<Rightarrow> instant \<Rightarrow> uuid set" where
  "active_person_ids db tenant person_ids since =
     (if person_ids = [] then {}
      else set (map ev_person
        (filter (\<lambda>e. ev_tenant e = tenant \<and> ev_person e \<in> set person_ids \<and> ev_occurred_at e \<ge> since)
          (learning_events db))))"

section \<open>Audit trail and in-app notifications\<close>

definition write_audit_event ::
    "academy_db \<Rightarrow> uuid \<Rightarrow> uuid option \<Rightarrow> string \<Rightarrow> string \<Rightarrow> string option \<Rightarrow> json \<Rightarrow> academy_db" where
  "write_audit_event db tenant actor action entity_type entity_id details =
     db\<lparr>audit_events := audit_events db @
          [\<lparr>au_id = next_id db, au_tenant = tenant, au_actor = actor, au_action = action,
            au_entity_type = entity_type, au_entity_id = entity_id, au_details = details\<rparr>],
        next_id := Suc (next_id db)\<rparr>"

definition notify ::
    "academy_db \<Rightarrow> instant \<Rightarrow> uuid \<Rightarrow> uuid \<Rightarrow> string \<Rightarrow> string \<Rightarrow> string option \<Rightarrow> academy_db result" where
  "notify db now tenant person kind title link =
     ensure (person_exists db tenant person) IntegrityError
       (Inr (db\<lparr>notifications := notifications db @
          [\<lparr>no_id = next_id db, no_tenant = tenant, no_person = person, no_kind = kind,
            no_title = title, no_link = link, no_created_at = now, no_read_at = None\<rparr>],
          next_id := Suc (next_id db)\<rparr>))"

text \<open>\<open>with db.begin_nested(): ...\<close> under \<open>try/except Exception\<close>.\<close>

definition savepoint :: "academy_db \<Rightarrow> academy_db result \<Rightarrow> academy_db" where
  "savepoint db r = (case r of Inl _ \<Rightarrow> db | Inr db' \<Rightarrow> db')"

section \<open>Email intents\<close>

definition enqueue_email ::
    "academy_db \<Rightarrow> instant \<Rightarrow> uuid \<Rightarrow> string \<Rightarrow> string \<Rightarrow> string \<Rightarrow> json \<Rightarrow> academy_db \<times> bool" where
  "enqueue_email db now tenant key kind recipient payload =
     (if recipient = '''' then (db, False)
      else if list_ex (\<lambda>o'. ob_tenant o' = tenant \<and> ob_key o' = take 200 key) (email_outbox db)
      then (db, False)
      else (db\<lparr>email_outbox := email_outbox db @
                 [\<lparr>ob_id = next_id db, ob_tenant = tenant, ob_key = take 200 key,
                   ob_kind = take 60 kind, ob_recipient = recipient, ob_payload = payload,
                   ob_status = ''pending'', ob_attempts = 0, ob_available_at = now,
                   ob_created_at = now, ob_sent_at = None, ob_last_error = None\<rparr>],
               next_id := Suc (next_id db)\<rparr>, True))"

definition recipient_allows :: "person_row \<Rightarrow> string \<Rightarrow> bool" where
  "recipient_allows p kind = (case obj_get (pe_prefs p) kind of None \<Rightarrow> True | Some v \<Rightarrow> truthy v)"

section \<open>What the ledgers leave alone\<close>

text \<open>
  \<open>learning_facts\<close> are the tables no ledger writes. Every consequence a service triggers
  beside its own write leaves them unchanged, so the properties of the service survive.
\<close>

definition core_facts ::
    "academy_db \<Rightarrow> submission_row list \<times> score_row list \<times> activity_row list \<times> grant_row list \<times>
       completion_row list \<times> person_row list \<times> attempt_row list \<times> course_row list" where
  "core_facts db = (submissions db, scores db, activities db, attempt_grants db,
     completions db, people db, activity_attempts db, courses db)"

definition learning_facts where
  "learning_facts db = (core_facts db, certificates db)"

named_theorems ledger_simps \<open>the effect of the ledger writers on each table\<close>

lemma record_event_cases:
  assumes "record_event day db v = Inr (db', r)"
  obtains "db' = db" "r = None"
  | e where "r = Some e" "db' = db\<lparr>learning_events := learning_events db @ [e], next_id := Suc (next_id db)\<rparr>"
      "ev_tenant e = v_tenant v" "ev_person e = v_person v" "ev_kind e = v_kind v"
      "ev_subject e = v_subject v" "ev_occurred_at e = v_at v"
  using assms
  by (auto simp: record_event_def insert_event_def ensure_def and_then_eq_Inr Let_def split: if_splits)

lemma emit_cases:
  "emit day db v = db \<or>
   (\<exists>e. emit day db v = db\<lparr>learning_events := learning_events db @ [e], next_id := Suc (next_id db)\<rparr>)"
proof (cases "record_event day db v")
  case (Inr p)
  obtain db' r where p: "p = (db', r)" by (cases p)
  have "db' = db \<or> (\<exists>e. db' = db\<lparr>learning_events := learning_events db @ [e], next_id := Suc (next_id db)\<rparr>)"
    using Inr unfolding p by (rule record_event_cases) blast+
  then show ?thesis by (simp add: emit_def Inr p)
qed (simp add: emit_def)

lemma facts_emit [simp, ledger_simps]: "learning_facts (emit day db v) = learning_facts db"
  using emit_cases [of day db v] by (auto simp: learning_facts_def core_facts_def)

lemma facts_audit [simp, ledger_simps]:
  "learning_facts (write_audit_event db t a b c d e) = learning_facts db"
  by (simp add: learning_facts_def core_facts_def write_audit_event_def)

lemma facts_notify [ledger_simps]: "notify db now t p k ti l = Inr db' \<Longrightarrow> learning_facts db' = learning_facts db"
  by (auto simp: learning_facts_def core_facts_def notify_def ensure_def split: if_splits)

lemma facts_savepoint_notify [simp, ledger_simps]:
  "learning_facts (savepoint db (notify db now t p k ti l)) = learning_facts db"
  by (simp add: savepoint_def facts_notify split: sum.splits)

lemma facts_enqueue [simp, ledger_simps]:
  "learning_facts (fst (enqueue_email db now t k kd r p)) = learning_facts db"
  by (simp add: learning_facts_def core_facts_def enqueue_email_def)

text \<open>Identifiers are only ever consumed.\<close>

lemma next_id_emit [ledger_simps]: "next_id db \<le> next_id (emit day db v)"
  using emit_cases [of day db v] by auto

lemma next_id_notify [ledger_simps]: "next_id db \<le> next_id (savepoint db (notify db now t p k ti l))"
  by (auto simp: savepoint_def notify_def ensure_def)

lemma next_id_audit [ledger_simps]: "next_id db \<le> next_id (write_audit_event db t a b c d e)"
  by (simp add: write_audit_event_def)

lemma next_id_enqueue [ledger_simps]: "next_id db \<le> next_id (fst (enqueue_email db now t k kd r p))"
  by (simp add: enqueue_email_def)

text \<open>Queuing the same key twice queues one email, and only the first call reports it.\<close>

lemma enqueue_idempotent:
  "enqueue_email (fst (enqueue_email db now t k kd r p)) now' t k kd' r' p'
   = (fst (enqueue_email db now t k kd r p), False) \<or> r = '''' \<and> r' \<noteq> ''''"
  by (auto simp: enqueue_email_def)

lemma enqueue_keys_distinct:
  assumes "distinct (map (\<lambda>o'. (ob_tenant o', ob_key o')) (email_outbox db))"
  shows "distinct (map (\<lambda>o'. (ob_tenant o', ob_key o')) (email_outbox (fst (enqueue_email db now t k kd r p))))"
  using assms by (auto simp: enqueue_email_def list_ex_iff)

end
