(* ===== verification/Facilitators.thy ===== *)
theory Facilitators
  imports Ledgers
begin

text \<open>
  \<open>services/facilitator_nominations.py\<close> and the database capability it calls
  (\<open>activate_eligible_facilitator_nominations\<close>, migration 0064): nominations, the
  requirements snapshotted with them, and their activation. Sessions are bound to the
  command's tenant; \<open>now\<close> is the transaction's clock.
\<close>

datatype facilitator_scope = CourseScope | CohortScope

fun scope_value :: "facilitator_scope \<Rightarrow> string" where
  "scope_value CourseScope = ''course''"
| "scope_value CohortScope = ''cohort''"

record nominate_command =
  nc_tenant :: uuid
  nc_person :: uuid
  nc_actor :: uuid
  nc_scope :: facilitator_scope
  nc_cohort :: "uuid option"
  nc_offering :: "uuid option"

record nomination_outcome =
  no_nomination :: uuid
  no_scope :: string
  no_status :: string
  no_created :: bool
  no_activated_now :: bool
  no_required :: "uuid list"
  no_missing :: "uuid list"

record sweep_outcome =
  sw_examined :: nat
  sw_activated :: nat
  sw_pending :: nat

text \<open>The argument combinations the capability accepts.\<close>

datatype selector = ByNomination uuid "uuid option" | ByCompletedCourse uuid uuid | PendingUpTo nat

section \<open>The activation capability\<close>

definition course_completed :: "academy_db \<Rightarrow> uuid \<Rightarrow> uuid \<Rightarrow> uuid \<Rightarrow> bool" where
  "course_completed db tenant person course =
     list_ex (\<lambda>c. cc_tenant c = tenant \<and> cc_person c = person \<and> cc_course c = course
                  \<and> cc_status c = ''completed'') (completions db)"

definition requirements_of :: "academy_db \<Rightarrow> nomination_row \<Rightarrow> requirement_row list" where
  "requirements_of db n =
     filter (\<lambda>r. fr_tenant r = fn_tenant n \<and> fr_nomination r = fn_id n) (requirements db)"

definition eligible :: "academy_db \<Rightarrow> nomination_row \<Rightarrow> bool" where
  "eligible db n =
     (fn_status n = ''pending''
      \<and> list_ex (\<lambda>p. pe_tenant p = fn_tenant n \<and> pe_id p = fn_person n \<and> pe_status p = ''active'') (people db)
      \<and> requirements_of db n \<noteq> []
      \<and> list_all (\<lambda>r. course_completed db (fr_tenant r) (fn_person n) (fr_course r)) (requirements_of db n))"

definition candidates :: "academy_db \<Rightarrow> uuid \<Rightarrow> selector \<Rightarrow> nomination_row list" where
  "candidates db tenant sel =
     (let by_age = sort_key (\<lambda>n. (fn_created_at n, fn_id n))
      in case sel of
           ByNomination i actor \<Rightarrow> by_age (filter (\<lambda>n. fn_tenant n = tenant \<and> fn_id n = i) (nominations db))
         | ByCompletedCourse p c \<Rightarrow>
             by_age (filter (\<lambda>n. fn_tenant n = tenant \<and> fn_person n = p \<and> fn_status n = ''pending''
                                 \<and> list_ex (\<lambda>r. fr_course r = c) (requirements_of db n)) (nominations db))
         | PendingUpTo k \<Rightarrow>
             take k (by_age (filter (\<lambda>n. fn_tenant n = tenant \<and> eligible db n) (nominations db))))"

definition activate_row :: "instant \<Rightarrow> nomination_row \<Rightarrow> nomination_row" where
  "activate_row now n =
     n\<lparr>fn_status := ''active'', fn_activated_at := Some now, fn_revoked_at := None,
       fn_activation_reason := Some ''requirements_completed''\<rparr>"

definition activation_notice :: "instant \<Rightarrow> academy_db \<Rightarrow> nomination_row \<Rightarrow> notification_row" where
  "activation_notice now db n =
     \<lparr>no_id = next_id db, no_tenant = fn_tenant n, no_person = fn_person n,
      no_kind = ''facilitator_activated'', no_title = ''Your facilitator assignment is active'',
      no_link = Some ''/learn'', no_created_at = now, no_read_at = None\<rparr>"

definition activate_nomination ::
    "academy_db \<Rightarrow> instant \<Rightarrow> uuid option \<Rightarrow> nomination_row \<Rightarrow> academy_db" where
  "activate_nomination db now actor n =
     (let db1 = db\<lparr>nominations :=
                     update_rows (\<lambda>m. fn_tenant m = fn_tenant n \<and> fn_id m = fn_id n \<and> fn_status m = ''pending'')
                       (activate_row now) (nominations db),
                   notifications := notifications db @ [activation_notice now db n],
                   next_id := Suc (next_id db)\<rparr>
      in write_audit_event db1 (fn_tenant n) actor ''facilitator_nomination.activate''
           ''facilitator_nomination'' (Some (uuid_str (fn_id n)))
           (JObj [(''scope'', JStr (fn_scope n)), (''person_id'', JStr (uuid_str (fn_person n)))]))"

fun activation_loop ::
    "academy_db \<Rightarrow> instant \<Rightarrow> uuid option \<Rightarrow> nomination_row list \<Rightarrow>
     (academy_db \<times> (uuid \<times> bool) list) result" where
  "activation_loop db now actor [] = Inr (db, [])"
| "activation_loop db now actor (n # ns) =
     (if actor \<noteq> None \<and> fn_nominated_by n \<noteq> actor
      then Inl (DataError ''facilitator activation actor does not own nomination provenance'')
      else
        (let go = eligible db n;
             db1 = (if go then activate_nomination db now actor n else db)
         in and_then (activation_loop db1 now actor ns)
              (\<lambda>(db2, rs). Inr (db2, (fn_id n, go) # rs))))"

definition selector_actor :: "selector \<Rightarrow> uuid option" where
  "selector_actor sel = (case sel of ByNomination i a \<Rightarrow> a | _ \<Rightarrow> None)"

definition activate_eligible ::
    "academy_db \<Rightarrow> instant \<Rightarrow> uuid \<Rightarrow> selector \<Rightarrow> (academy_db \<times> (uuid \<times> bool) list) result" where
  "activate_eligible db now tenant sel =
     (case sel of
        PendingUpTo k \<Rightarrow>
          if k < 1 \<or> k > 1000 then Inl (DataError ''invalid facilitator activation selector'')
          else activation_loop db now None (candidates db tenant sel)
      | _ \<Rightarrow>
          (case selector_actor sel of
             Some a \<Rightarrow>
               if person_exists db tenant a
               then activation_loop db now (Some a) (candidates db tenant sel)
               else Inl (DataError ''facilitator activation actor tenant mismatch'')
           | None \<Rightarrow> activation_loop db now None (candidates db tenant sel)))"

section \<open>Commands\<close>

definition person_or_404 :: "academy_db \<Rightarrow> uuid \<Rightarrow> uuid \<Rightarrow> person_row result" where
  "person_or_404 db tenant person =
     (case find (\<lambda>p. pe_tenant p = tenant \<and> pe_id p = person) (people db) of
        None \<Rightarrow> Inl (NotFoundError ''person not found for tenant'')
      | Some p \<Rightarrow> Inr p)"

definition require_active_nominee :: "academy_db \<Rightarrow> uuid \<Rightarrow> uuid \<Rightarrow> person_row result" where
  "require_active_nominee db tenant person =
     and_then (person_or_404 db tenant person)
       (\<lambda>p. ensure (pe_status p = ''active'')
              (BadRequestError ''facilitator nominee must be an active user'') (Inr p))"

definition target_courses ::
    "academy_db \<Rightarrow> nominate_command \<Rightarrow> (uuid option \<times> uuid option \<times> uuid list) result" where
  "target_courses db c =
     (case nc_scope c of
        CourseScope \<Rightarrow>
          (if nc_offering c = None \<or> nc_cohort c \<noteq> None
           then Inl (BadRequestError ''course-scoped nomination requires only offering_id'')
           else case find (\<lambda>o'. of_tenant o' = nc_tenant c \<and> Some (of_id o') = nc_offering c) (offerings db) of
                  None \<Rightarrow> Inl (NotFoundError ''course offering not found for tenant'')
                | Some o' \<Rightarrow>
                    if of_status o' \<noteq> ''active'' then Inl (BadRequestError ''course offering must be active'')
                    else Inr (None, Some (of_id o'), [of_course o']))
      | CohortScope \<Rightarrow>
          (if nc_cohort c = None \<or> nc_offering c \<noteq> None
           then Inl (BadRequestError ''cohort-scoped nomination requires only cohort_id'')
           else case find (\<lambda>h. ch_tenant h = nc_tenant c \<and> Some (ch_id h) = nc_cohort c) (cohorts db) of
                  None \<Rightarrow> Inl (NotFoundError ''cohort not found for tenant'')
                | Some h \<Rightarrow>
                    Inr (Some (ch_id h), None,
                         sort (map of_course (filter (\<lambda>o'. of_tenant o' = nc_tenant c \<and> of_cohort o' = ch_id h
                                                        \<and> of_status o' = ''active'') (offerings db))))))"

definition nomination_matches :: "nominate_command \<Rightarrow> nomination_row \<Rightarrow> bool" where
  "nomination_matches c n =
     (fn_tenant n = nc_tenant c \<and> fn_person n = nc_person c \<and> fn_scope n = scope_value (nc_scope c)
      \<and> (case nc_scope c of CourseScope \<Rightarrow> fn_offering n = nc_offering c
                           | CohortScope \<Rightarrow> fn_cohort n = nc_cohort c))"

text \<open>\<open>INSERT ... ON CONFLICT DO NOTHING\<close> on the scope's partial unique index; \<open>True\<close> when inserted.\<close>

definition insert_nomination ::
    "academy_db \<Rightarrow> instant \<Rightarrow> nominate_command \<Rightarrow> uuid option \<Rightarrow> uuid option \<Rightarrow> academy_db \<times> bool" where
  "insert_nomination db now c cohort offering =
     (if list_ex (\<lambda>n. fn_tenant n = nc_tenant c \<and> fn_person n = nc_person c
                     \<and> fn_scope n = scope_value (nc_scope c)
                     \<and> (case nc_scope c of CourseScope \<Rightarrow> fn_offering n = offering
                                          | CohortScope \<Rightarrow> fn_cohort n = cohort)) (nominations db)
      then (db, False)
      else (db\<lparr>nominations := nominations db @
                 [\<lparr>fn_id = next_id db, fn_tenant = nc_tenant c, fn_person = nc_person c,
                   fn_nominated_by = Some (nc_actor c), fn_scope = scope_value (nc_scope c),
                   fn_cohort = cohort, fn_offering = offering, fn_status = ''pending'',
                   fn_activated_at = None, fn_revoked_at = None, fn_activation_reason = None,
                   fn_created_at = now\<rparr>],
               next_id := Suc (next_id db)\<rparr>, True))"

definition missing_course_ids :: "academy_db \<Rightarrow> uuid \<Rightarrow> uuid \<Rightarrow> uuid list \<Rightarrow> uuid list" where
  "missing_course_ids db tenant person required =
     filter (\<lambda>c. \<not> course_completed db tenant person c) required"

definition requirement_course_ids :: "academy_db \<Rightarrow> nomination_row \<Rightarrow> uuid list" where
  "requirement_course_ids db n = sort (map fr_course (requirements_of db n))"

definition outcome_of :: "academy_db \<Rightarrow> nomination_row \<Rightarrow> bool \<Rightarrow> bool \<Rightarrow> nomination_outcome" where
  "outcome_of db n created activated =
     (let required = requirement_course_ids db n
      in \<lparr>no_nomination = fn_id n, no_scope = fn_scope n, no_status = fn_status n,
          no_created = created, no_activated_now = activated, no_required = required,
          no_missing = missing_course_ids db (fn_tenant n) (fn_person n) required\<rparr>)"

definition refresh_nomination :: "academy_db \<Rightarrow> nomination_row \<Rightarrow> nomination_row" where
  "refresh_nomination db n =
     (case find (\<lambda>m. fn_tenant m = fn_tenant n \<and> fn_id m = fn_id n) (nominations db) of
        None \<Rightarrow> n | Some m \<Rightarrow> m)"

definition reset_nomination :: "nominate_command \<Rightarrow> nomination_row \<Rightarrow> nomination_row" where
  "reset_nomination c n =
     n\<lparr>fn_status := ''pending'', fn_nominated_by := Some (nc_actor c), fn_activated_at := None,
       fn_revoked_at := None, fn_activation_reason := None\<rparr>"

fun add_requirements :: "academy_db \<Rightarrow> uuid \<Rightarrow> uuid \<Rightarrow> uuid list \<Rightarrow> academy_db" where
  "add_requirements db tenant nomination [] = db"
| "add_requirements db tenant nomination (c # cs) =
     add_requirements
       (db\<lparr>requirements := requirements db @
             [\<lparr>fr_id = next_id db, fr_tenant = tenant, fr_nomination = nomination, fr_course = c\<rparr>],
           next_id := Suc (next_id db)\<rparr>) tenant nomination cs"

text \<open>The rest of \<open>nominate\<close> once the nomination is pending again: requirements, notice, audit, activation.\<close>

definition open_nomination ::
    "academy_db \<Rightarrow> instant \<Rightarrow> nominate_command \<Rightarrow> nomination_row \<Rightarrow> bool \<Rightarrow> uuid list \<Rightarrow>
     (academy_db \<times> nomination_outcome) result" where
  "open_nomination db now c n created course_ids =
     and_then
       (notify (add_requirements db (nc_tenant c) (fn_id n) course_ids) now (nc_tenant c) (nc_person c)
          ''facilitator_nomination'' ''You have been nominated as a facilitator'' (Some ''/learn''))
       (\<lambda>db1.
          let db2 = write_audit_event db1 (nc_tenant c) (Some (nc_actor c)) ''facilitator_nomination.create''
                      ''facilitator_nomination'' (Some (uuid_str (fn_id n)))
                      (JObj [(''scope'', JStr (scope_value (nc_scope c))),
                             (''person_id'', JStr (uuid_str (nc_person c)))])
          in and_then (activate_eligible db2 now (nc_tenant c) (ByNomination (fn_id n) (Some (nc_actor c))))
               (\<lambda>(db3, attempts).
                  let activated = (attempts \<noteq> [] \<and> snd (hd attempts));
                      n' = (if activated then refresh_nomination db3 n else n)
                  in Inr (db3, outcome_of db3 n' created activated)))"

definition nominate ::
    "academy_db \<Rightarrow> instant \<Rightarrow> nominate_command \<Rightarrow> (academy_db \<times> nomination_outcome) result" where
  "nominate db now c =
     and_then (require_active_nominee db (nc_tenant c) (nc_person c)) (\<lambda>_.
     and_then (person_or_404 db (nc_tenant c) (nc_actor c)) (\<lambda>_.
     and_then (target_courses db c) (\<lambda>(cohort, offering, course_ids).
       let (db1, created) = insert_nomination db now c cohort offering
       in case find (nomination_matches c) (nominations db1) of
            None \<Rightarrow> Inl NoResultFound
          | Some n \<Rightarrow>
              if created then open_nomination db1 now c n True course_ids
              else if fn_status n \<noteq> ''revoked'' then Inr (db1, outcome_of db1 n False False)
              else
                (let n' = reset_nomination c n;
                     db2 = db1\<lparr>nominations := update_rows (\<lambda>m. fn_id m = fn_id n) (reset_nomination c) (nominations db1),
                               requirements := filter (\<lambda>r. \<not> (fr_tenant r = nc_tenant c \<and> fr_nomination r = fn_id n))
                                                 (requirements db1)\<rparr>
                 in open_nomination db2 now c n' False course_ids))))"

definition find_nomination :: "academy_db \<Rightarrow> uuid \<Rightarrow> uuid \<Rightarrow> nomination_row option" where
  "find_nomination db tenant i = find (\<lambda>n. fn_tenant n = tenant \<and> fn_id n = i) (nominations db)"

definition reconcile_nomination ::
    "academy_db \<Rightarrow> instant \<Rightarrow> uuid \<Rightarrow> uuid \<Rightarrow> (academy_db \<times> nomination_outcome) result" where
  "reconcile_nomination db now tenant i =
     (case find_nomination db tenant i of
        None \<Rightarrow> Inl (NotFoundError ''facilitator nomination not found'')
      | Some n \<Rightarrow>
          and_then (activate_eligible db now tenant (ByNomination (fn_id n) None))
            (\<lambda>(db1, attempts).
               let activated = (attempts \<noteq> [] \<and> snd (hd attempts));
                   n' = (if activated then refresh_nomination db1 n else n)
               in Inr (db1, outcome_of db1 n' False activated)))"

definition sweep_of :: "(uuid \<times> bool) list \<Rightarrow> sweep_outcome" where
  "sweep_of attempts =
     \<lparr>sw_examined = length attempts, sw_activated = count_rows snd attempts,
      sw_pending = length attempts - count_rows snd attempts\<rparr>"

definition reconcile_completed_course ::
    "academy_db \<Rightarrow> instant \<Rightarrow> uuid \<Rightarrow> uuid \<Rightarrow> uuid \<Rightarrow> (academy_db \<times> sweep_outcome) result" where
  "reconcile_completed_course db now tenant person course =
     and_then (activate_eligible db now tenant (ByCompletedCourse person course))
       (\<lambda>(db1, attempts). Inr (db1, sweep_of attempts))"

definition revoke_row :: "instant \<Rightarrow> nomination_row \<Rightarrow> nomination_row" where
  "revoke_row now n = n\<lparr>fn_status := ''revoked'', fn_revoked_at := Some now\<rparr>"

definition revoke_nomination ::
    "academy_db \<Rightarrow> instant \<Rightarrow> uuid \<Rightarrow> uuid \<Rightarrow> uuid \<Rightarrow> (academy_db \<times> nomination_outcome) result" where
  "revoke_nomination db now tenant i actor =
     and_then (person_or_404 db tenant actor) (\<lambda>_.
       case find_nomination db tenant i of
         None \<Rightarrow> Inl (NotFoundError ''facilitator nomination not found'')
       | Some n \<Rightarrow>
           if fn_status n = ''revoked'' then Inr (db, outcome_of db n False False)
           else
             (let n' = revoke_row now n;
                  db1 = db\<lparr>nominations := update_rows (\<lambda>m. fn_id m = fn_id n) (revoke_row now) (nominations db)\<rparr>;
                  db2 = write_audit_event db1 tenant (Some actor) ''facilitator_nomination.revoke''
                          ''facilitator_nomination'' (Some (uuid_str (fn_id n)))
                          (JObj [(''scope'', JStr (fn_scope n)), (''person_id'', JStr (uuid_str (fn_person n)))])
              in Inr (db2, outcome_of db2 n' False False)))"

definition sweep_pending ::
    "academy_db \<Rightarrow> instant \<Rightarrow> uuid \<Rightarrow> int \<Rightarrow> (academy_db \<times> sweep_outcome) result" where
  "sweep_pending db now tenant limit =
     (if limit < 1 then Inl (BadRequestError ''sweep limit must be positive'')
      else if limit > 1000 then Inl (BadRequestError ''sweep limit must not exceed 1000'')
      else and_then (activate_eligible db now tenant (PendingUpTo (nat limit)))
             (\<lambda>(db1, attempts). Inr (db1, sweep_of attempts)))"

section \<open>What activation does\<close>

definition same_nomination :: "nomination_row \<Rightarrow> nomination_row \<Rightarrow> bool" where
  "same_nomination n m \<longleftrightarrow> fn_tenant m = fn_tenant n \<and> fn_id m = fn_id n"

lemma eligible_cong:
  "learning_facts db' = learning_facts db \<Longrightarrow> requirements db' = requirements db \<Longrightarrow> eligible db' n = eligible db n"
  by (simp add: eligible_def requirements_of_def course_completed_def learning_facts_def core_facts_def)

lemma activate_nomination_effect:
  "learning_facts (activate_nomination db now actor n) = learning_facts db"
  "requirements (activate_nomination db now actor n) = requirements db"
  "nominations (activate_nomination db now actor n) =
     update_rows (\<lambda>m. same_nomination n m \<and> fn_status m = ''pending'') (activate_row now) (nominations db)"
  by (simp_all add: activate_nomination_def learning_facts_def core_facts_def write_audit_event_def Let_def
      same_nomination_def conj_assoc)

definition activated_rows ::
    "instant \<Rightarrow> (nomination_row \<Rightarrow> bool) \<Rightarrow> nomination_row list \<Rightarrow> nomination_row list \<Rightarrow> nomination_row list" where
  "activated_rows now ok ns rows =
     fold (\<lambda>n rs. if ok n then update_rows (\<lambda>m. same_nomination n m \<and> fn_status m = ''pending'') (activate_row now) rs
                  else rs) ns rows"

lemma activation_loop_result:
  assumes "activation_loop db now actor ns = Inr (db', rs)"
  shows "rs = map (\<lambda>n. (fn_id n, eligible db n)) ns \<and> learning_facts db' = learning_facts db
    \<and> requirements db' = requirements db
    \<and> nominations db' = activated_rows now (eligible db) ns (nominations db)"
  using assms
proof (induction ns arbitrary: db rs)
  case (Cons n ns)
  let ?db1 = "if eligible db n then activate_nomination db now actor n else db"
  from Cons.prems obtain rs' where loop: "activation_loop ?db1 now actor ns = Inr (db', rs')"
    and rs: "rs = (fn_id n, eligible db n) # rs'"
    by (auto simp: Let_def and_then_eq_Inr split: if_splits)
  have el: "eligible ?db1 = eligible db"
    by (rule ext, cases "eligible db n") (simp_all add: eligible_cong [OF activate_nomination_effect(1,2)])
  note IH = Cons.IH [OF loop, unfolded el]
  show ?case
    using rs IH by (simp add: activate_nomination_effect activated_rows_def split: if_splits)
qed (simp add: activated_rows_def)

lemma activate_eligible_loop:
  assumes "activate_eligible db now t sel = Inr (db', rs)"
  shows "activation_loop db now (selector_actor sel) (candidates db t sel) = Inr (db', rs)"
  using assms by (auto simp: activate_eligible_def selector_actor_def split: selector.splits option.splits if_splits)

lemma candidates_rows: "n \<in> set (candidates db t sel) \<Longrightarrow> n \<in> set (nominations db) \<and> fn_tenant n = t"
  by (auto simp: candidates_def Let_def split: selector.splits dest: in_set_takeD)

lemma activated_rows_origin:
  assumes "m' \<in> set (activated_rows now ok ns rows)"
  shows "m' \<in> set rows \<or>
    (\<exists>m \<in> set rows. \<exists>n \<in> set ns. ok n \<and> same_nomination n m \<and> fn_status m = ''pending'' \<and> m' = activate_row now m)"
  using assms
proof (induction ns arbitrary: rows)
  case (Cons n ns)
  let ?rows = "if ok n then update_rows (\<lambda>m. same_nomination n m \<and> fn_status m = ''pending'') (activate_row now) rows else rows"
  have origin: "x \<in> set ?rows \<Longrightarrow> x \<in> set rows \<or>
      (\<exists>m \<in> set rows. ok n \<and> same_nomination n m \<and> fn_status m = ''pending'' \<and> x = activate_row now m)" for x
    by (auto simp: set_update_rows split: if_splits)
  have "m' \<in> set (activated_rows now ok ns ?rows)"
    using Cons.prems by (simp add: activated_rows_def split: if_splits)
  from Cons.IH [OF this] show ?case
  proof
    assume "m' \<in> set ?rows"
    from origin [OF this] show ?thesis by auto
  next
    assume "\<exists>m \<in> set ?rows. \<exists>k \<in> set ns. ok k \<and> same_nomination k m \<and> fn_status m = ''pending'' \<and> m' = activate_row now m"
    then obtain m k where m: "m \<in> set ?rows" "k \<in> set ns" "ok k" "same_nomination k m" "fn_status m = ''pending''"
      "m' = activate_row now m" by blast
    from origin [OF m(1)] m(5) have "m \<in> set rows" by (auto simp: activate_row_def)
    with m show ?thesis by auto
  qed
qed (simp add: activated_rows_def)

lemma activate_row_same [simp]: "same_nomination n (activate_row now m) = same_nomination n m"
  by (simp add: same_nomination_def activate_row_def)

lemma activated_rows_reached:
  assumes "m \<in> set rows" "n \<in> set ns" "ok n" "same_nomination n m" "fn_status m = ''pending''"
  shows "activate_row now m \<in> set (activated_rows now ok ns rows)"
proof -
  have keep: "x \<in> set (activated_rows now ok ks xs)" if "x \<in> set xs" "fn_status x \<noteq> ''pending''" for x ks xs
    using that
    by (induction ks arbitrary: xs) (auto simp: activated_rows_def set_update_rows image_iff)
  show ?thesis using assms
  proof (induction ns arbitrary: rows)
    case (Cons k ns)
    let ?rows = "if ok k then update_rows (\<lambda>m. same_nomination k m \<and> fn_status m = ''pending'') (activate_row now) rows else rows"
    have step: "activated_rows now ok (k # ns) rows = activated_rows now ok ns ?rows"
      by (simp add: activated_rows_def)
    show ?case
    proof (cases "ok k \<and> same_nomination k m")
      case True
      then have "activate_row now m \<in> set ?rows" using Cons.prems by (auto simp: set_update_rows image_iff)
      moreover have "fn_status (activate_row now m) \<noteq> ''pending''" by (simp add: activate_row_def)
      ultimately show ?thesis unfolding step by (rule keep)
    next
      case False
      then have "m \<in> set ?rows" using Cons.prems by (auto simp: set_update_rows image_iff)
      with False Cons show ?thesis unfolding step by auto
    qed
  qed simp
qed

lemma unique_rows:
  "distinct (map fn_id rows) \<Longrightarrow> n \<in> set rows \<Longrightarrow> m \<in> set rows \<Longrightarrow> same_nomination n m \<Longrightarrow> m = n"
  by (auto simp: same_nomination_def distinct_map dest: inj_onD)

end
