(* ===== verification/Attempt_Policy.thy ===== *)
theory Attempt_Policy
  imports Ledgers
begin

text \<open>
  \<open>services/attempt_policy.py\<close>: how many attempts a learner has on an activity, and the
  one writer of extra attempts. The protocols \<open>ActivityTerms\<close> and \<open>BoundGrantReader\<close>
  are the arguments \<open>max_attempts\<close> and the grant total.
\<close>

record entitlement_state =
  et_used :: int
  et_granted :: int
  et_limit :: "int option"

definition remaining :: "entitlement_state \<Rightarrow> int option" where
  "remaining e = (case et_limit e of None \<Rightarrow> None | Some l \<Rightarrow> Some (max (l - et_used e) 0))"

definition exhausted :: "entitlement_state \<Rightarrow> bool" where
  "exhausted e = (case et_limit e of None \<Rightarrow> False | Some l \<Rightarrow> et_used e \<ge> l)"

definition granted_for :: "academy_db \<Rightarrow> uuid \<Rightarrow> uuid \<Rightarrow> uuid \<Rightarrow> int" where
  "granted_for db tenant person activity =
     sum_list (map ag_extra_attempts
       (filter (\<lambda>g. ag_tenant g = tenant \<and> ag_activity g = activity \<and> ag_person g = person)
         (attempt_grants db)))"

definition granted_by_activity :: "academy_db \<Rightarrow> uuid \<Rightarrow> uuid \<Rightarrow> (uuid \<times> int) list" where
  "granted_by_activity db tenant person =
     (let rows = filter (\<lambda>g. ag_tenant g = tenant \<and> ag_person g = person) (attempt_grants db)
      in map (\<lambda>a. (a, sum_list (map ag_extra_attempts (filter (\<lambda>g. ag_activity g = a) rows))))
           (remdups (map ag_activity rows)))"

definition entitlement :: "int option \<Rightarrow> int \<Rightarrow> int \<Rightarrow> entitlement_state" where
  "entitlement max_attempts used granted =
     \<lparr>et_used = used, et_granted = granted,
      et_limit = (case max_attempts of None \<Rightarrow> None | Some m \<Rightarrow> Some (m + granted))\<rparr>"

definition for_learner :: "academy_db \<Rightarrow> uuid \<Rightarrow> uuid \<Rightarrow> activity_row \<Rightarrow> int \<Rightarrow> entitlement_state" where
  "for_learner db tenant person activity used =
     entitlement (act_max_attempts activity) used (granted_for db tenant person (act_id activity))"

definition activity_exists :: "academy_db \<Rightarrow> uuid \<Rightarrow> uuid \<Rightarrow> bool" where
  "activity_exists db tenant activity =
     list_ex (\<lambda>a. act_tenant a = tenant \<and> act_id a = activity) (activities db)"

definition grant_extra_attempt ::
    "academy_db \<Rightarrow> uuid \<Rightarrow> uuid \<Rightarrow> uuid \<Rightarrow> string option \<Rightarrow> uuid option \<Rightarrow> int \<Rightarrow> (academy_db \<times> grant_row) result" where
  "grant_extra_attempt db tenant person activity reason granted_by extra =
     (if extra < 1 then Inl (ValueError ''a grant must add at least one attempt'')
      else if py_strip (or_empty reason) = '''' then Inl (ValueError ''a grant must record why it was given'')
      else ensure (activity_exists db tenant activity) IntegrityError
        (let g = \<lparr>ag_id = next_id db, ag_tenant = tenant, ag_activity = activity, ag_person = person,
                  ag_extra_attempts = extra, ag_reason = py_strip (or_empty reason),
                  ag_granted_by = granted_by\<rparr>;
             db1 = db\<lparr>attempt_grants := attempt_grants db @ [g], next_id := Suc (next_id db)\<rparr>
         in Inr (write_audit_event db1 tenant granted_by ''attempt_granted'' ''activity''
                   (Some (uuid_str activity))
                   (JObj [(''person_id'', JStr (uuid_str person)), (''extra_attempts'', JInt extra),
                          (''reason'', JStr (ag_reason g))]), g)))"

lemma remaining_zero_iff: "remaining e = Some 0 \<longleftrightarrow> exhausted e"
  by (auto simp: remaining_def exhausted_def split: option.splits)

lemma granted_by_activity_lookup:
  "(case map_of (granted_by_activity db t p) a of None \<Rightarrow> 0 | Some n \<Rightarrow> n) = granted_for db t p a"
proof -
  let ?rows = "filter (\<lambda>g. ag_tenant g = t \<and> ag_person g = p) (attempt_grants db)"
  let ?f = "\<lambda>a. sum_list (map ag_extra_attempts (filter (\<lambda>g. ag_activity g = a) ?rows))"
  have "?f a = granted_for db t p a"
    unfolding granted_for_def filter_filter by (metis (mono_tags, lifting))
  moreover have "map_of (map (\<lambda>a. (a, ?f a)) xs) a = (if a \<in> set xs then Some (?f a) else None)" for xs
    by (induction xs) auto
  moreover have "?f a = 0" if "a \<notin> ag_activity ` set ?rows"
  proof -
    have "filter (\<lambda>g. ag_activity g = a) ?rows = []"
      using that by (auto simp: filter_empty_conv)
    then show ?thesis by simp
  qed
  ultimately show ?thesis
    by (auto simp: granted_by_activity_def Let_def)
qed

lemma exhausted_mono:
  "g \<le> g' \<Longrightarrow> exhausted (entitlement m u g') \<Longrightarrow> exhausted (entitlement m u g)"
  by (auto simp: exhausted_def entitlement_def split: option.splits)

lemma exhausted_used_mono:
  "u \<le> u' \<Longrightarrow> exhausted (entitlement m u g) \<Longrightarrow> exhausted (entitlement m u' g)"
  by (auto simp: exhausted_def entitlement_def split: option.splits)

lemma grant_extra_attempt_ok:
  assumes "grant_extra_attempt db t p a reason by extra = Inr (db', g)"
  shows "1 \<le> extra" "py_strip (or_empty reason) \<noteq> ''''" "activity_exists db t a"
    and "attempt_grants db' = attempt_grants db @ [g]"
    and "ag_tenant g = t" "ag_person g = p" "ag_activity g = a" "ag_extra_attempts g = extra"
    and "submissions db' = submissions db" "activities db' = activities db"
    and "\<exists>e. audit_events db' = audit_events db @ [e] \<and> au_action e = ''attempt_granted'' \<and> au_actor e = by"
  using assms
  by (auto simp: grant_extra_attempt_def ensure_def Let_def write_audit_event_def split: if_splits)

lemma granted_for_after:
  assumes "grant_extra_attempt db t p a reason by extra = Inr (db', g)"
  shows "granted_for db' t' p' a' =
         granted_for db t' p' a' + (if t' = t \<and> p' = p \<and> a' = a then extra else 0)"
  using grant_extra_attempt_ok(4-8) [OF assms]
  by (auto simp: granted_for_def)

text \<open>
  \<open>services/attempts.py\<close>: the question draw of a pooled activity, fixed when the learner
  opens it and closed on submission. \<open>hex\<close> is the engine's digest. The learner row lock
  serialises the operations of one learner, so each runs as one step.
\<close>

definition ext_id_only :: "string \<Rightarrow> exam_question" where
  "ext_id_only e = \<lparr>eq_ext_id = e, eq_category = None, eq_options = JNull\<rparr>"

definition owned_attempt :: "uuid \<Rightarrow> uuid \<Rightarrow> uuid \<Rightarrow> attempt_row \<Rightarrow> bool" where
  "owned_attempt t p a r = (at_tenant r = t \<and> at_activity r = a \<and> at_person r = p)"

text \<open>\<open>ORDER BY started_at DESC\<close>, first row.\<close>

definition open_attempt :: "academy_db \<Rightarrow> uuid \<Rightarrow> uuid \<Rightarrow> uuid \<Rightarrow> attempt_row option" where
  "open_attempt db t p a =
     (case sort_key (\<lambda>r. - at_started_at r)
             (filter (\<lambda>r. owned_attempt t p a r \<and> at_submitted_at r = None) (activity_attempts db)) of
        [] \<Rightarrow> None | r # _ \<Rightarrow> Some r)"

definition prior_attempts :: "academy_db \<Rightarrow> uuid \<Rightarrow> uuid \<Rightarrow> uuid \<Rightarrow> nat" where
  "prior_attempts db t p a = count_rows (owned_attempt t p a) (activity_attempts db)"

definition draw_paper ::
    "(string \<Rightarrow> string) \<Rightarrow> uuid \<Rightarrow> nat \<Rightarrow> string list \<Rightarrow> int \<Rightarrow> ('a exam_question_scheme) list option \<Rightarrow> string list" where
  "draw_paper hex person prior all_ext_ids count' questions' =
     (let k = min count' (int (length all_ext_ids))
      in if k \<le> 0 then []
         else
           (let variant = ''attempt'' @ show_nat prior @ '':'';
                policy = \<lparr>per_category = 0, total = nat k\<rparr>
            in case questions' of
                 Some qs \<Rightarrow> map eq_ext_id (select hex (uuid_str person) qs policy variant)
               | None \<Rightarrow> map eq_ext_id (select hex (uuid_str person) (map ext_id_only all_ext_ids) policy variant)))"

definition new_attempt :: "academy_db \<Rightarrow> instant \<Rightarrow> uuid \<Rightarrow> uuid \<Rightarrow> uuid \<Rightarrow> string list \<Rightarrow> attempt_row" where
  "new_attempt db now t p a chosen =
     \<lparr>at_id = next_id db, at_tenant = t, at_activity = a, at_person = p,
      at_question_ext_ids = chosen, at_started_at = now, at_submitted_at = None\<rparr>"

definition open_or_create_attempt ::
    "(string \<Rightarrow> string) \<Rightarrow> (instant \<Rightarrow> instant) \<Rightarrow> academy_db \<Rightarrow> instant \<Rightarrow> uuid \<Rightarrow> uuid \<Rightarrow> uuid \<Rightarrow>
     string list \<Rightarrow> int \<Rightarrow> ('a exam_question_scheme) list option \<Rightarrow> (academy_db \<times> attempt_row) result" where
  "open_or_create_attempt hex day db now t p a all_ext_ids count' questions' =
     (case open_attempt db t p a of
        Some r \<Rightarrow> Inr (db, r)
      | None \<Rightarrow>
          ensure (list_ex (\<lambda>x. act_tenant x = t \<and> act_id x = a) (activities db)) IntegrityError
            (let chosen = draw_paper hex p (prior_attempts db t p a) all_ext_ids count' questions';
                 r = new_attempt db now t p a chosen;
                 db1 = db\<lparr>activity_attempts := activity_attempts db @ [r], next_id := Suc (next_id db)\<rparr>
             in Inr (emit day db1 \<lparr>v_tenant = t, v_person = p, v_kind = ''activity_started'', v_course = None,
                       v_subject = Some a, v_detail = JObj [(''attempt'', JInt (int (length chosen)))],
                       v_at = now\<rparr>, r)))"

definition close_open_attempt ::
    "academy_db \<Rightarrow> instant \<Rightarrow> uuid \<Rightarrow> uuid \<Rightarrow> uuid \<Rightarrow> academy_db \<times> attempt_row option" where
  "close_open_attempt db now t p a =
     (case open_attempt db t p a of
        None \<Rightarrow> (db, None)
      | Some r \<Rightarrow>
          (db\<lparr>activity_attempts :=
                update_rows (\<lambda>x. at_id x = at_id r) (\<lambda>x. x\<lparr>at_submitted_at := Some now\<rparr>) (activity_attempts db)\<rparr>,
           Some (r\<lparr>at_submitted_at := Some now\<rparr>)))"

section \<open>The drawn paper\<close>

lemma map_ext_id_only [simp]: "map eq_ext_id (map ext_id_only es) = es"
  by (induction es) (simp_all add: ext_id_only_def)

lemma select_total_ext_ids:
  assumes "per_category pol = 0" "total pol \<noteq> 0"
  shows "mset (map eq_ext_id (select hex sid qs pol v)) \<subseteq># mset (map eq_ext_id qs)"
    and "length (select hex sid qs pol v) = min (total pol) (length qs)"
proof -
  have "mset (select hex sid qs pol v) \<subseteq># mset qs" by (simp add: mset_chosen)
  then show "mset (map eq_ext_id (select hex sid qs pol v)) \<subseteq># mset (map eq_ext_id qs)"
    by (simp only: mset_map image_mset_subseteq_mono)
  show "length (select hex sid qs pol v) = min (total pol) (length qs)"
    using assms by (simp add: select_def chosen_questions_def min.commute)
qed

lemma draw_paper_bank:
  assumes "\<And>qs. questions' = Some qs \<Longrightarrow> map eq_ext_id qs = all_ext_ids"
  shows "mset (draw_paper hex p n all_ext_ids k questions') \<subseteq># mset all_ext_ids"
    and "length (draw_paper hex p n all_ext_ids k questions') = min (nat k) (length all_ext_ids)"
proof -
  have len: "length qs = length all_ext_ids" if "questions' = Some qs" for qs
    using assms [OF that] by (metis length_map)
  show "mset (draw_paper hex p n all_ext_ids k questions') \<subseteq># mset all_ext_ids"
  proof (cases "min k (int (length all_ext_ids)) \<le> 0")
    case False
    let ?pol = "\<lparr>per_category = 0, total = nat (min k (int (length all_ext_ids)))\<rparr>"
    let ?v = "''attempt'' @ show_nat n @ '':''"
    have sub: "mset (map eq_ext_id (select hex (uuid_str p) xs ?pol ?v)) \<subseteq># mset (map eq_ext_id xs)"
      for xs :: "('z exam_question_scheme) list"
      by (rule select_total_ext_ids(1)) (use False in auto)
    show ?thesis
    proof (cases questions')
      case None
      then show ?thesis
        using False sub [of "map ext_id_only all_ext_ids"] by (simp only: draw_paper_def Let_def if_False option.case map_ext_id_only)
    next
      case (Some qs)
      then show ?thesis
        using False sub [of qs] assms by (simp only: draw_paper_def Let_def if_False option.case)
    qed
  qed (simp add: draw_paper_def)
  show "length (draw_paper hex p n all_ext_ids k questions') = min (nat k) (length all_ext_ids)"
    using len by (auto simp: draw_paper_def Let_def select_total_ext_ids(2) min_def split: option.splits)
qed

section \<open>One open attempt\<close>

definition open_rows :: "academy_db \<Rightarrow> uuid \<Rightarrow> uuid \<Rightarrow> uuid \<Rightarrow> attempt_row list" where
  "open_rows db t p a = filter (\<lambda>r. owned_attempt t p a r \<and> at_submitted_at r = None) (activity_attempts db)"

text \<open>The partial unique index \<open>uq_activity_attempts_open\<close>, and the primary key.\<close>

definition attempts_ok :: "academy_db \<Rightarrow> bool" where
  "attempts_ok db \<longleftrightarrow>
     distinct (map at_id (activity_attempts db)) \<and> (\<forall>r \<in> set (activity_attempts db). at_id r < next_id db)
     \<and> (\<forall>t p a. length (open_rows db t p a) \<le> 1)"

lemma open_attempt_None: "open_attempt db t p a = None \<longleftrightarrow> open_rows db t p a = []"
  unfolding open_attempt_def open_rows_def
  by (auto split: list.splits) (metis list.distinct(1) set_empty set_sort)+

lemma open_attempt_Some:
  assumes "open_attempt db t p a = Some r"
  shows "r \<in> set (activity_attempts db)" "owned_attempt t p a r" "at_submitted_at r = None"
proof -
  let ?rows = "filter (\<lambda>r. owned_attempt t p a r \<and> at_submitted_at r = None) (activity_attempts db)"
  obtain rs where "sort_key (\<lambda>r. - at_started_at r) ?rows = r # rs"
    using assms by (auto simp: open_attempt_def split: list.splits)
  then have "r \<in> set (sort_key (\<lambda>r. - at_started_at r) ?rows)" by simp
  then show "r \<in> set (activity_attempts db)" "owned_attempt t p a r" "at_submitted_at r = None" by auto
qed

lemma attempts_emit [simp]: "activity_attempts (emit day db v) = activity_attempts db"
  using facts_emit [of day db v] by (simp add: learning_facts_def core_facts_def)

lemma open_or_create_ok:
  assumes "open_or_create_attempt hex day db now t p a es k qs = Inr (db', r)"
  shows "open_attempt db t p a = Some r \<and> db' = db \<or>
    open_attempt db t p a = None \<and> activity_attempts db' = activity_attempts db @ [r]
    \<and> r = new_attempt db now t p a (draw_paper hex p (prior_attempts db t p a) es k qs)
    \<and> next_id db < next_id db'"
proof -
  have "next_id d \<le> next_id (emit day d v)" for d v by (rule next_id_emit)
  from this [of "db\<lparr>activity_attempts := activity_attempts db @ [r], next_id := Suc (next_id db)\<rparr>"]
  show ?thesis
    using assms
    by (auto simp: open_or_create_attempt_def ensure_def Let_def Suc_le_eq split: option.splits if_splits)
qed

lemma attempts_ok_open_or_create:
  assumes ok: "attempts_ok db" and res: "open_or_create_attempt hex day db now t p a es k qs = Inr (db', r)"
  shows "attempts_ok db'"
  using open_or_create_ok [OF res]
proof
  assume new: "open_attempt db t p a = None \<and> activity_attempts db' = activity_attempts db @ [r]
    \<and> r = new_attempt db now t p a (draw_paper hex p (prior_attempts db t p a) es k qs) \<and> next_id db < next_id db'"
  have "length (open_rows db' t' p' a') \<le> 1" for t' p' a'
  proof (cases "owned_attempt t' p' a' r")
    case True
    then have "t' = t" "p' = p" "a' = a" using new by (auto simp: owned_attempt_def new_attempt_def)
    then show ?thesis using new open_attempt_None [of db t p a] by (simp add: open_rows_def)
  next
    case False
    then show ?thesis using new ok by (simp add: open_rows_def attempts_ok_def)
  qed
  with new ok show ?thesis
    by (fastforce simp: attempts_ok_def new_attempt_def)
qed (use ok in simp)

lemma attempts_ok_close:
  assumes "attempts_ok db" "close_open_attempt db now t p a = (db', r)"
  shows "attempts_ok db'"
proof (cases "open_attempt db t p a")
  case (Some x)
  define f where "f = (\<lambda>y :: attempt_row. if at_id y = at_id x then y\<lparr>at_submitted_at := Some now\<rparr> else y)"
  have db': "db' = db\<lparr>activity_attempts := map f (activity_attempts db)\<rparr>"
    using assms(2) Some by (simp add: close_open_attempt_def update_rows_def f_def)
  have id: "at_id (f y) = at_id y" for y by (simp add: f_def)
  have "length (open_rows db' t' p' a') \<le> length (open_rows db t' p' a')" for t' p' a'
  proof -
    have "length (filter P (map f xs)) \<le> length (filter P xs)"
      if "P = (\<lambda>r. owned_attempt t' p' a' r \<and> at_submitted_at r = None)" for P xs
      unfolding that by (induction xs) (auto simp: f_def owned_attempt_def le_SucI)
    then show ?thesis by (simp add: open_rows_def db')
  qed
  then have "length (open_rows db' t' p' a') \<le> 1" for t' p' a'
    using assms(1) le_trans unfolding attempts_ok_def by blast
  then show ?thesis
    using assms(1) by (auto simp: attempts_ok_def db' comp_def id)
qed (use assms in \<open>simp add: close_open_attempt_def\<close>)

end
