(* ===== verification/Score_Of_Record.thy ===== *)
theory Score_Of_Record
  imports Attempt_Policy
begin

text \<open>
  The readers of \<open>services/assessment.py\<close>: attempt counts, the feedback policy and the
  best-of score of record. A dictionary is an association list in insertion order.
\<close>

definition attempts_used :: "academy_db \<Rightarrow> uuid \<Rightarrow> uuid \<Rightarrow> uuid \<Rightarrow> nat" where
  "attempts_used db tenant person activity =
     count_rows (\<lambda>s. sub_tenant s = tenant \<and> sub_activity s = activity \<and> sub_person s = person)
       (submissions db)"

definition attempts_used_by_person :: "academy_db \<Rightarrow> uuid \<Rightarrow> uuid \<Rightarrow> (uuid \<times> nat) list" where
  "attempts_used_by_person db tenant person =
     (let rows = filter (\<lambda>s. sub_tenant s = tenant \<and> sub_person s = person) (submissions db)
      in map (\<lambda>a. (a, count_rows (\<lambda>s. sub_activity s = a) rows)) (remdups (map sub_activity rows)))"

definition reveal_feedback :: "activity_row \<Rightarrow> bool \<Rightarrow> int \<Rightarrow> int \<Rightarrow> bool" where
  "reveal_feedback activity passed used granted =
     (if act_mode activity = ''practice'' then True
      else if act_mode activity = ''exam'' then False
      else passed \<or> exhausted (entitlement (act_max_attempts activity) used granted))"

text \<open>Submissions without a score, oldest first.\<close>

definition pending_grading :: "academy_db \<Rightarrow> uuid \<Rightarrow> (submission_row \<times> activity_row \<times> string) list" where
  "pending_grading db tenant =
     sort_key (\<lambda>(s, a, e). sub_created_at s)
       [(s, a, pe_email p). s \<leftarrow> submissions db, a \<leftarrow> activities db, p \<leftarrow> people db,
          act_id a = sub_activity s \<and> act_tenant a = sub_tenant s
          \<and> pe_id p = sub_person s \<and> pe_tenant p = sub_tenant s
          \<and> sub_tenant s = tenant
          \<and> \<not> list_ex (\<lambda>sc. sc_submission sc = sub_id s \<and> sc_tenant sc = sub_tenant s) (scores db)]"

section \<open>Best-of\<close>

definition score_rank :: "score_row \<Rightarrow> rat \<times> bool \<times> bool \<times> instant" where
  "score_rank sc = (sc_fraction sc, sc_passed sc, sc_source sc = ''override'', sc_created_at sc)"

text \<open>The join of activities, submissions and scores for one person, in the query's order.\<close>

definition score_join :: "academy_db \<Rightarrow> uuid \<Rightarrow> uuid \<Rightarrow> (activity_row \<times> submission_row \<times> score_row) list" where
  "score_join db tenant person =
     [(a, s, sc). a \<leftarrow> activities db, s \<leftarrow> submissions db, sc \<leftarrow> scores db,
        sub_activity s = act_id a \<and> sub_tenant s = act_tenant a
        \<and> sc_submission sc = sub_id s \<and> sc_tenant sc = sub_tenant s
        \<and> act_tenant a = tenant \<and> sub_person s = person]"

definition score_query ::
    "academy_db \<Rightarrow> uuid \<Rightarrow> uuid \<Rightarrow> (activity_row \<Rightarrow> bool) \<Rightarrow> (activity_row \<times> submission_row \<times> score_row) list" where
  "score_query db tenant person keep =
     sort_key (\<lambda>(a, s, sc). (act_id a, sub_attempt_no s, sc_created_at sc))
       (filter (\<lambda>(a, s, sc). keep a) (score_join db tenant person))"

definition keep_best :: "uuid \<Rightarrow> score_row \<Rightarrow> (uuid \<times> score_row) list \<Rightarrow> (uuid \<times> score_row) list" where
  "keep_best aid sc best =
     (case map_of best aid of
        None \<Rightarrow> AList.update aid sc best
      | Some current \<Rightarrow> if score_rank current < score_rank sc then AList.update aid sc best else best)"

definition best_scores_for :: "academy_db \<Rightarrow> uuid \<Rightarrow> uuid \<Rightarrow> uuid \<Rightarrow> (uuid \<times> score_row) list" where
  "best_scores_for db tenant person course =
     fold (\<lambda>(a, s, sc). keep_best (act_id a) sc)
       (score_query db tenant person (\<lambda>a. act_course a = course)) []"

definition best_scores_for_person ::
    "academy_db \<Rightarrow> uuid \<Rightarrow> uuid \<Rightarrow> uuid list option \<Rightarrow> (uuid \<times> score_row) list" where
  "best_scores_for_person db tenant person course_ids =
     (if course_ids = Some [] then []
      else fold (\<lambda>(a, s, sc). keep_best (act_id a) sc)
        (score_query db tenant person
           (\<lambda>a. case course_ids of None \<Rightarrow> True | Some cs \<Rightarrow> act_course a \<in> set cs)) [])"

definition keep_best_in_course ::
    "uuid \<Rightarrow> uuid \<Rightarrow> score_row \<Rightarrow> (uuid \<times> (uuid \<times> score_row) list) list \<Rightarrow> (uuid \<times> (uuid \<times> score_row) list) list" where
  "keep_best_in_course c aid sc out =
     AList.update c (keep_best aid sc (case map_of out c of None \<Rightarrow> [] | Some d \<Rightarrow> d)) out"

definition best_scores_by_course_for_person ::
    "academy_db \<Rightarrow> uuid \<Rightarrow> uuid \<Rightarrow> uuid list option \<Rightarrow> (uuid \<times> (uuid \<times> score_row) list) list" where
  "best_scores_by_course_for_person db tenant person course_ids =
     (if course_ids = Some [] then []
      else fold (\<lambda>(a, s, sc). keep_best_in_course (act_course a) (act_id a) sc)
        (score_query db tenant person
           (\<lambda>a. case course_ids of None \<Rightarrow> True | Some cs \<Rightarrow> act_course a \<in> set cs)) [])"

section \<open>The score of record is a maximum\<close>

lemma keep_best_lookup:
  "map_of (keep_best aid sc best) k =
     (if k = aid then
        (case map_of best aid of None \<Rightarrow> Some sc
         | Some cur \<Rightarrow> Some (if score_rank cur < score_rank sc then sc else cur))
      else map_of best k)"
  by (auto simp: keep_best_def update_conv' split: option.splits)

lemma keep_best_distinct: "distinct (map fst best) \<Longrightarrow> distinct (map fst (keep_best aid sc best))"
  by (auto simp: keep_best_def distinct_update split: option.splits)

text \<open>\<open>best_in\<close> characterises the scan: the entry is one of the scanned scores and no scanned one outranks it.\<close>

definition best_in :: "(uuid \<times> score_row) list \<Rightarrow> uuid \<Rightarrow> score_row option \<Rightarrow> bool" where
  "best_in xs k r \<longleftrightarrow>
     (case r of
        None \<Rightarrow> k \<notin> fst ` set xs
      | Some sc \<Rightarrow> (k, sc) \<in> set xs \<and> (\<forall>sc'. (k, sc') \<in> set xs \<longrightarrow> score_rank sc' \<le> score_rank sc))"

lemma best_in_step:
  assumes "best_in xs k (map_of best k)"
  shows "best_in (xs @ [(aid, sc)]) k (map_of (keep_best aid sc best) k)"
proof (cases "k = aid")
  case True
  show ?thesis
  proof (cases "map_of best aid")
    case None
    with assms True show ?thesis by (force simp: best_in_def keep_best_lookup)
  next
    case (Some cur)
    then have cur: "(aid, cur) \<in> set xs" "\<And>sc'. (aid, sc') \<in> set xs \<Longrightarrow> score_rank sc' \<le> score_rank cur"
      using assms True by (auto simp: best_in_def)
    show ?thesis
    proof (cases "score_rank cur < score_rank sc")
      case True
      have "score_rank sc' \<le> score_rank sc" if "(aid, sc') \<in> set xs" for sc'
        using order_trans [OF cur(2) [OF that] less_imp_le [OF True]] .
      with True Some \<open>k = aid\<close> show ?thesis by (auto simp: best_in_def keep_best_lookup)
    next
      case False
      with Some cur \<open>k = aid\<close> show ?thesis by (auto simp: best_in_def keep_best_lookup)
    qed
  qed
next
  case False
  then show ?thesis using assms by (auto simp: best_in_def keep_best_lookup split: option.splits)
qed

lemma best_in_fold:
  assumes "\<And>k. best_in ys k (map_of best k)"
  shows "best_in (ys @ xs) k (map_of (fold (\<lambda>(aid, sc). keep_best aid sc) xs best) k)"
  using assms
proof (induction xs arbitrary: ys best k)
  case (Cons x xs)
  obtain aid sc where x: "x = (aid, sc)" by (cases x)
  have "\<And>k. best_in (ys @ [(aid, sc)]) k (map_of (keep_best aid sc best) k)"
    by (rule best_in_step) (rule Cons.prems)
  from Cons.IH [OF this] show ?case by (simp add: x)
qed simp

lemma distinct_fold_keep_best:
  "distinct (map fst best) \<Longrightarrow> distinct (map fst (fold (\<lambda>(aid, sc). keep_best aid sc) xs best))"
  by (induction xs arbitrary: best) (auto simp: keep_best_distinct)

text \<open>The scores the learner holds on the activities of a course.\<close>

definition course_scores :: "academy_db \<Rightarrow> uuid \<Rightarrow> uuid \<Rightarrow> uuid \<Rightarrow> (uuid \<times> score_row) list" where
  "course_scores db tenant person course =
     map (\<lambda>(a, s, sc). (act_id a, sc)) (score_query db tenant person (\<lambda>a. act_course a = course))"

lemma fold_keep_best_map:
  "fold (\<lambda>(a, s, sc). keep_best (act_id a) sc) rows best
   = fold (\<lambda>(aid, sc). keep_best aid sc) (map (\<lambda>(a, s, sc). (act_id a, sc)) rows) best"
  by (induction rows arbitrary: best) auto

lemma best_scores_for_fold:
  "best_scores_for db t p c = fold (\<lambda>(aid, sc). keep_best aid sc) (course_scores db t p c) []"
  by (simp add: best_scores_for_def course_scores_def fold_keep_best_map)

lemma best_scores_for_spec: "best_in (course_scores db t p c) k (map_of (best_scores_for db t p c) k)"
  using best_in_fold [of "[]" "[]" "course_scores db t p c" k]
  by (simp add: best_scores_for_fold best_in_def)

lemma distinct_best_scores_for: "distinct (map fst (best_scores_for db t p c))"
  by (simp add: best_scores_for_fold distinct_fold_keep_best)

lemma set_course_scores:
  "set (course_scores db t p c) =
     {(act_id a, sc) | a s sc. a \<in> set (activities db) \<and> s \<in> set (submissions db) \<and> sc \<in> set (scores db)
        \<and> sub_activity s = act_id a \<and> sub_tenant s = act_tenant a \<and> sc_submission sc = sub_id s
        \<and> sc_tenant sc = sub_tenant s \<and> act_tenant a = t \<and> sub_person s = p \<and> act_course a = c}"
  by (auto simp: course_scores_def score_query_def score_join_def) force

lemma best_scores_for_keys:
  "fst ` set (best_scores_for db t p c) \<subseteq> {act_id a | a. a \<in> set (activities db) \<and> act_tenant a = t \<and> act_course a = c}"
proof
  fix k assume "k \<in> fst ` set (best_scores_for db t p c)"
  then obtain sc where "map_of (best_scores_for db t p c) k = Some sc"
    by (metis dom_map_of_conv_image_fst domIff not_None_eq)
  with best_scores_for_spec [of db t p c k] have "(k, sc) \<in> set (course_scores db t p c)"
    by (simp add: best_in_def)
  then show "k \<in> {act_id a | a. a \<in> set (activities db) \<and> act_tenant a = t \<and> act_course a = c}"
    by (auto simp: set_course_scores)
qed

text \<open>The per-course readers agree with each other.\<close>

lemma in_course_lookup:
  "map_of (keep_best_in_course c' aid sc out) c =
     (if c = c' then Some (keep_best aid sc (case map_of out c of None \<Rightarrow> [] | Some d \<Rightarrow> d))
      else map_of out c)"
  by (simp add: keep_best_in_course_def update_conv')

lemma by_course_lookup_fold:
  "map_of (fold (\<lambda>(a, s, sc). keep_best_in_course (act_course a) (act_id a) sc) rows out) c =
     (let sel = filter (\<lambda>(a, s, sc). act_course a = c) rows
      in if sel = [] then map_of out c
         else Some (fold (\<lambda>(a, s, sc). keep_best (act_id a) sc) sel
                     (case map_of out c of None \<Rightarrow> [] | Some d \<Rightarrow> d)))"
proof (induction rows arbitrary: out)
  case (Cons r rows)
  obtain a s sc where r: "r = (a, s, sc)" by (cases r)
  show ?case
    by (cases "act_course a = c") (simp_all add: r Cons.IH Let_def in_course_lookup)
qed simp

lemma sort_key_filter_comm:
  "sort_key k (filter (\<lambda>x. P x \<and> Q x) xs) = filter P (sort_key k (filter Q xs))"
  by (simp add: filter_sort filter_filter conj_commute)

text \<open>
  Passing is sticky when every score of the activity was judged against the same
  threshold: a pass outranks every fail.
\<close>

definition judged_by :: "rat \<Rightarrow> score_row \<Rightarrow> bool" where
  "judged_by t sc \<longleftrightarrow> (sc_passed sc \<longleftrightarrow> sc_max_score sc > 0 \<and> sc_fraction sc \<ge> t)
     \<and> (sc_max_score sc = 0 \<longrightarrow> sc_fraction sc = 0) \<and> 0 \<le> sc_max_score sc"

lemma best_passes:
  assumes best: "map_of (best_scores_for db t p c) k = Some b"
    and held: "(k, sc) \<in> set (course_scores db t p c)" "sc_passed sc"
    and judged: "\<And>x. (k, x) \<in> set (course_scores db t p c) \<Longrightarrow> judged_by thr x" and thr: "0 \<le> thr"
  shows "sc_passed b"
proof -
  have b: "(k, b) \<in> set (course_scores db t p c)" and le: "score_rank sc \<le> score_rank b"
    using best_scores_for_spec [of db t p c k] best held(1) by (auto simp: best_in_def)
  from le held(2) have frac: "sc_fraction sc < sc_fraction b \<or> sc_fraction sc = sc_fraction b \<and> sc_passed b"
    by (auto simp: score_rank_def less_eq_prod_def le_bool_def)
  show ?thesis
  proof (cases "sc_passed b")
    case False
    with frac have lt: "sc_fraction sc < sc_fraction b" by blast
    from judged [OF held(1)] held(2) have "thr \<le> sc_fraction sc" by (simp add: judged_by_def)
    with lt thr have "thr \<le> sc_fraction b" "0 < sc_fraction b" by simp_all
    with judged [OF b] show ?thesis by (auto simp: judged_by_def order_le_less)
  qed
qed

end
