(* ===== verification/Completion.thy ===== *)
theory Completion
  imports Facilitators Score_Of_Record
begin

text \<open>
  \<open>services/completion.py\<close>, \<open>services/completion_aggregate.py\<close> and
  \<open>certificates.issue_certificate\<close>: the completion record of a learner on a course, its
  consequences on first completion, and the certificate.
\<close>

section \<open>The completion aggregate\<close>

definition is_completion :: "uuid \<Rightarrow> uuid \<Rightarrow> uuid \<Rightarrow> completion_row \<Rightarrow> bool" where
  "is_completion t p c r = (cc_tenant r = t \<and> cc_person r = p \<and> cc_course r = c)"

definition lock_existing_completion :: "academy_db \<Rightarrow> uuid \<Rightarrow> uuid \<Rightarrow> uuid \<Rightarrow> completion_row option" where
  "lock_existing_completion db t p c = find (is_completion t p c) (completions db)"

definition course_exists :: "academy_db \<Rightarrow> uuid \<Rightarrow> uuid \<Rightarrow> bool" where
  "course_exists db t c = list_ex (\<lambda>r. co_tenant r = t \<and> co_id r = c) (courses db)"

definition ensure_locked_completion ::
    "academy_db \<Rightarrow> uuid \<Rightarrow> uuid \<Rightarrow> uuid \<Rightarrow> (academy_db \<times> completion_row) result" where
  "ensure_locked_completion db t p c =
     (case lock_existing_completion db t p c of
        Some r \<Rightarrow> Inr (db, r)
      | None \<Rightarrow>
          ensure (course_exists db t c) IntegrityError
            (let r = \<lparr>cc_id = next_id db, cc_tenant = t, cc_person = p, cc_course = c,
                      cc_status = ''in_progress'', cc_pct = 0, cc_completed_at = None\<rparr>
             in Inr (db\<lparr>completions := completions db @ [r], next_id := Suc (next_id db)\<rparr>, r)))"

section \<open>Certificates\<close>

definition py_upper :: "string \<Rightarrow> string" where
  "py_upper s = map (\<lambda>c. let n = of_char c :: nat in if 97 \<le> n \<and> n \<le> 122 then char_of (n - 32) else c) s"

definition certificate_serial :: "uuid \<Rightarrow> string" where
  "certificate_serial u = ''CERT-'' @ py_upper (take 12 (hex_digits 32 u))"

definition find_certificate :: "academy_db \<Rightarrow> uuid \<Rightarrow> uuid \<Rightarrow> uuid \<Rightarrow> certificate_row option" where
  "find_certificate db t p c =
     find (\<lambda>r. ce_tenant r = t \<and> ce_person r = p \<and> ce_course r = c) (certificates db)"

definition insert_certificate ::
    "(instant \<Rightarrow> instant) \<Rightarrow> academy_db \<Rightarrow> instant \<Rightarrow> uuid \<Rightarrow> uuid \<Rightarrow> uuid \<Rightarrow> academy_db \<times> certificate_row" where
  "insert_certificate day db now t p c =
     (let cert = \<lparr>ce_id = Suc (next_id db), ce_tenant = t, ce_person = p, ce_course = c,
                  ce_serial = certificate_serial (next_id db), ce_issued_at = now\<rparr>;
          db1 = db\<lparr>certificates := certificates db @ [cert], next_id := next_id db + 2\<rparr>;
          db2 = emit day db1 \<lparr>v_tenant = t, v_person = p, v_kind = ''certificate_earned'',
                  v_course = Some c, v_subject = Some c,
                  v_detail = JObj [(''serial'', JStr (ce_serial cert))], v_at = now\<rparr>;
          db3 = savepoint db2 (notify db2 now t p ''certificate'' ''Your certificate is ready'' None)
      in (db3, cert))"

definition issue_certificate ::
    "(instant \<Rightarrow> instant) \<Rightarrow> academy_db \<Rightarrow> instant \<Rightarrow> uuid \<Rightarrow> uuid \<Rightarrow> uuid \<Rightarrow>
     (academy_db \<times> certificate_row) result" where
  "issue_certificate day db now t p c =
     (case find_certificate db t p c of
        Some cert \<Rightarrow> Inr (db, cert)
      | None \<Rightarrow>
          (case lock_existing_completion db t p c of
             None \<Rightarrow> Inl (ConflictError ''course not completed; certificate cannot be issued'')
           | Some r \<Rightarrow>
               if cc_status r \<noteq> ''completed''
               then Inl (ConflictError ''course not completed; certificate cannot be issued'')
               else Inr (insert_certificate day db now t p c)))"

section \<open>Recomputation\<close>

definition email_certificate ::
    "(instant \<Rightarrow> instant) \<Rightarrow> academy_db \<Rightarrow> instant \<Rightarrow> uuid \<Rightarrow> uuid \<Rightarrow> uuid \<Rightarrow> academy_db result" where
  "email_certificate day db now t p c =
     (case find (\<lambda>q. pe_id q = p) (people db) of
        None \<Rightarrow> Inr db
      | Some q \<Rightarrow>
          if pe_email q = '''' \<or> \<not> recipient_allows q ''email_results'' then Inr db
          else and_then (issue_certificate day db now t p c)
            (\<lambda>(db1, cert).
               Inr (fst (enqueue_email db1 now t (''certificate:'' @ uuid_str (ce_id cert)) ''certificate''
                 (pe_email q)
                 (JObj [(''person_id'', JStr (uuid_str p)), (''course_id'', JStr (uuid_str c))])))))"

definition first_completion_effects ::
    "(instant \<Rightarrow> instant) \<Rightarrow> academy_db \<Rightarrow> instant \<Rightarrow> uuid \<Rightarrow> uuid \<Rightarrow> uuid \<Rightarrow> academy_db result" where
  "first_completion_effects day db now t p c =
     and_then (reconcile_completed_course db now t p c) (\<lambda>(db1, _).
     and_then (issue_certificate day db1 now t p c) (\<lambda>(db2, _).
       let db3 = savepoint db2 (notify db2 now t p ''course_completed'' ''Well done, course completed''
                   (Some (''/certificates/'' @ uuid_str c)))
       in Inr (savepoint db3 (email_certificate day db3 now t p c))))"

definition course_activity_count :: "academy_db \<Rightarrow> uuid \<Rightarrow> uuid \<Rightarrow> nat" where
  "course_activity_count db t c = count_rows (\<lambda>a. act_tenant a = t \<and> act_course a = c) (activities db)"

definition passed_count :: "academy_db \<Rightarrow> uuid \<Rightarrow> uuid \<Rightarrow> uuid \<Rightarrow> nat" where
  "passed_count db t p c = count_rows (\<lambda>(aid, s). sc_passed s) (best_scores_for db t p c)"

definition completion_state :: "nat \<Rightarrow> nat \<Rightarrow> instant \<Rightarrow> completion_row \<Rightarrow> completion_row" where
  "completion_state total_n passed now r =
     (let r1 = r\<lparr>cc_pct := (if total_n \<noteq> 0 then rat_of_nat passed / rat_of_nat total_n else 0)\<rparr>
      in if total_n > 0 \<and> passed = total_n
         then r1\<lparr>cc_status := ''completed'',
                 cc_completed_at := (case cc_completed_at r of None \<Rightarrow> Some now | Some x \<Rightarrow> Some x)\<rparr>
         else r1\<lparr>cc_status := ''in_progress'', cc_completed_at := None\<rparr>)"

definition recompute_completion ::
    "(instant \<Rightarrow> instant) \<Rightarrow> academy_db \<Rightarrow> instant \<Rightarrow> uuid \<Rightarrow> uuid \<Rightarrow> uuid \<Rightarrow>
     (academy_db \<times> completion_row) result" where
  "recompute_completion day db now t p c =
     and_then (ensure_locked_completion db t p c) (\<lambda>(db1, rec).
       let total_n = course_activity_count db1 t c;
           passed = passed_count db1 t p c;
           rec' = completion_state total_n passed now rec;
           first_completion = (total_n > 0 \<and> passed = total_n \<and> cc_completed_at rec = None);
           db2 = db1\<lparr>completions := update_rows (\<lambda>r. cc_id r = cc_id rec) (\<lambda>_. rec') (completions db1)\<rparr>
       in if first_completion
          then and_then (first_completion_effects day db2 now t p c) (\<lambda>db3. Inr (db3, rec'))
          else Inr (db2, rec'))"

section \<open>Well-formedness of the aggregate tables\<close>

text \<open>Primary keys and the unique constraints of \<open>course_completions\<close> and \<open>certificates\<close>.\<close>

definition completions_ok :: "academy_db \<Rightarrow> bool" where
  "completions_ok db \<longleftrightarrow>
     distinct (map cc_id (completions db)) \<and> (\<forall>r \<in> set (completions db). cc_id r < next_id db)
     \<and> distinct (map (\<lambda>r. (cc_tenant r, cc_person r, cc_course r)) (completions db))
     \<and> distinct (map (\<lambda>r. (ce_tenant r, ce_person r, ce_course r)) (certificates db))"

text \<open>A completion carries its stamp exactly when completed, and then a certificate was issued.\<close>

definition completions_certified :: "academy_db \<Rightarrow> bool" where
  "completions_certified db \<longleftrightarrow>
     (\<forall>r \<in> set (completions db).
        (cc_status r = ''completed'' \<longleftrightarrow> cc_completed_at r \<noteq> None)
        \<and> (cc_completed_at r \<noteq> None \<longrightarrow>
             find_certificate db (cc_tenant r) (cc_person r) (cc_course r) \<noteq> None))"

lemma activation_loop_total: "\<exists>r. activation_loop db now None ns = Inr r"
proof (induction ns arbitrary: db)
  case (Cons n ns)
  obtain r where "activation_loop (if eligible db n then activate_nomination db now None n else db) now None ns = Inr r"
    using Cons by blast
  then show ?case by (simp add: Let_def case_prod_beta)
qed simp

lemma activation_next_id:
  "activation_loop db now actor ns = Inr (db', rs) \<Longrightarrow> next_id db \<le> next_id db'"
proof (induction ns arbitrary: db rs)
  case (Cons n ns)
  let ?db1 = "if eligible db n then activate_nomination db now actor n else db"
  from Cons.prems obtain rs' where "activation_loop ?db1 now actor ns = Inr (db', rs')"
    by (auto simp: Let_def and_then_eq_Inr split: if_splits)
  from Cons.IH [OF this] show ?case
    by (simp add: activate_nomination_def write_audit_event_def Let_def split: if_splits)
qed simp

lemma reconcile_completed_course_ok:
  obtains db' o' where "reconcile_completed_course db now t p c = Inr (db', o')"
    "learning_facts db' = learning_facts db" "next_id db \<le> next_id db'"
proof -
  obtain db' rs where loop: "activation_loop db now None (candidates db t (ByCompletedCourse p c)) = Inr (db', rs)"
    using activation_loop_total [of db now] by fastforce
  show thesis
    by (rule that [of db' "sweep_of rs"])
       (use loop activation_loop_result [OF loop] activation_next_id [OF loop] in
        \<open>simp_all add: reconcile_completed_course_def activate_eligible_def selector_actor_def\<close>)
qed

lemma insert_certificate_effect:
  assumes "insert_certificate day db now t p c = (db', cert)"
  shows "core_facts db' = core_facts db \<and> certificates db' = certificates db @ [cert]
    \<and> ce_tenant cert = t \<and> ce_person cert = p \<and> ce_course cert = c \<and> next_id db \<le> next_id db'"
proof -
  define d1 where "d1 = db\<lparr>certificates := certificates db @ [cert], next_id := next_id db + 2\<rparr>"
  define d2 where "d2 = emit day d1 \<lparr>v_tenant = t, v_person = p, v_kind = ''certificate_earned'',
     v_course = Some c, v_subject = Some c, v_detail = JObj [(''serial'', JStr (ce_serial cert))], v_at = now\<rparr>"
  have d': "db' = savepoint d2 (notify d2 now t p ''certificate'' ''Your certificate is ready'' None)"
    and cert: "ce_tenant cert = t" "ce_person cert = p" "ce_course cert = c"
    using assms by (auto simp: insert_certificate_def Let_def d1_def d2_def)
  have "learning_facts db' = learning_facts d1" by (simp add: d' d2_def)
  moreover have "next_id db \<le> next_id d1" by (simp add: d1_def)
  moreover have "next_id d1 \<le> next_id d2" unfolding d2_def by (rule next_id_emit)
  moreover have "next_id d2 \<le> next_id db'" unfolding d' by (rule next_id_notify)
  ultimately show ?thesis
    using cert by (simp add: learning_facts_def core_facts_def d1_def)
qed

lemma issue_certificate_ok:
  assumes "issue_certificate day db now t p c = Inr (db', cert)"
  shows "core_facts db' = core_facts db" "next_id db \<le> next_id db'"
    and "find_certificate db' t p c = Some cert"
    and "(find_certificate db t p c = Some cert \<and> db' = db) \<or>
         (find_certificate db t p c = None \<and> certificates db' = certificates db @ [cert]
          \<and> (\<exists>r. lock_existing_completion db t p c = Some r \<and> cc_status r = ''completed''))"
proof -
  show *: "(find_certificate db t p c = Some cert \<and> db' = db) \<or>
         (find_certificate db t p c = None \<and> certificates db' = certificates db @ [cert]
          \<and> (\<exists>r. lock_existing_completion db t p c = Some r \<and> cc_status r = ''completed''))"
    using assms insert_certificate_effect
    by (auto simp: issue_certificate_def split: option.splits if_splits)
  show "core_facts db' = core_facts db" "next_id db \<le> next_id db'"
    using assms insert_certificate_effect
    by (auto simp: issue_certificate_def split: option.splits if_splits)
  have key: "ce_tenant cert = t \<and> ce_person cert = p \<and> ce_course cert = c"
    using assms insert_certificate_effect
    by (auto simp: issue_certificate_def find_certificate_def split: option.splits if_splits dest: find_Some_in)
  show "find_certificate db' t p c = Some cert"
    using * key by (auto simp: find_certificate_def find_append)
qed

section \<open>Counting passed activities\<close>

definition course_activity_ids :: "academy_db \<Rightarrow> uuid \<Rightarrow> uuid \<Rightarrow> uuid list" where
  "course_activity_ids db t c = map act_id (filter (\<lambda>a. act_tenant a = t \<and> act_course a = c) (activities db))"

definition passed_ids :: "academy_db \<Rightarrow> uuid \<Rightarrow> uuid \<Rightarrow> uuid \<Rightarrow> uuid set" where
  "passed_ids db t p c = fst ` set (filter (\<lambda>(aid, s). sc_passed s) (best_scores_for db t p c))"

lemma passed_ids_iff:
  "k \<in> passed_ids db t p c \<longleftrightarrow> (\<exists>sc. map_of (best_scores_for db t p c) k = Some sc \<and> sc_passed sc)"
  using distinct_best_scores_for [of db t p c]
  by (force simp: passed_ids_def map_of_eq_Some_iff)

lemma passed_ids_subset: "passed_ids db t p c \<subseteq> set (course_activity_ids db t c)"
  using best_scores_for_keys [of db t p c]
  by (force simp: passed_ids_def course_activity_ids_def)

lemma card_passed_ids: "card (passed_ids db t p c) = passed_count db t p c"
proof -
  have "distinct (map fst (filter (\<lambda>(aid, s). sc_passed s) (best_scores_for db t p c)))"
    using distinct_best_scores_for by (rule distinct_map_filter)
  from distinct_card [OF this] show ?thesis
    by (simp add: passed_ids_def passed_count_def count_rows_def)
qed

lemma length_course_activity_ids: "length (course_activity_ids db t c) = course_activity_count db t c"
  by (simp add: course_activity_ids_def course_activity_count_def count_rows_def)

lemma passed_le_total: "passed_count db t p c \<le> course_activity_count db t c"
proof -
  have "card (passed_ids db t p c) \<le> card (set (course_activity_ids db t c))"
    by (rule card_mono) (simp_all add: passed_ids_subset)
  also have "\<dots> \<le> course_activity_count db t c"
    using card_length [of "course_activity_ids db t c"] by (simp add: length_course_activity_ids)
  finally show ?thesis by (simp add: card_passed_ids)
qed

lemma all_passed_iff:
  assumes "distinct (map act_id (activities db))"
  shows "passed_count db t p c = course_activity_count db t c \<longleftrightarrow>
    (\<forall>k \<in> set (course_activity_ids db t c). \<exists>sc. map_of (best_scores_for db t p c) k = Some sc \<and> sc_passed sc)"
proof -
  have "distinct (course_activity_ids db t c)"
    unfolding course_activity_ids_def using assms by (rule distinct_map_filter)
  then have "card (set (course_activity_ids db t c)) = course_activity_count db t c"
    by (simp add: distinct_card length_course_activity_ids)
  then have "passed_count db t p c = course_activity_count db t c \<longleftrightarrow>
      passed_ids db t p c = set (course_activity_ids db t c)"
    using card_subset_eq [OF finite_set passed_ids_subset [of db t p c]] unfolding card_passed_ids [symmetric]
    by metis
  also have "\<dots> \<longleftrightarrow> (\<forall>k \<in> set (course_activity_ids db t c). k \<in> passed_ids db t p c)"
    using passed_ids_subset by blast
  finally show ?thesis by (simp only: passed_ids_iff)
qed

section \<open>The effect of a recomputation\<close>

lemma best_scores_for_cong:
  "core_facts db' = core_facts db \<Longrightarrow> best_scores_for db' t p c = best_scores_for db t p c"
  by (simp add: best_scores_for_def score_query_def score_join_def core_facts_def)

lemma ensure_locked_ok:
  assumes "ensure_locked_completion db t p c = Inr (db1, rec)" "completions_ok db"
  shows "rec \<in> set (completions db1)" "is_completion t p c rec" "completions_ok db1"
    and "db1 = db \<or> lock_existing_completion db t p c = None \<and> cc_completed_at rec = None \<and>
         cc_status rec = ''in_progress'' \<and>
         db1 = db\<lparr>completions := completions db @ [rec], next_id := Suc (next_id db)\<rparr>"
proof -
  consider "db1 = db" "lock_existing_completion db t p c = Some rec"
    | "lock_existing_completion db t p c = None" "is_completion t p c rec" "cc_id rec = next_id db"
      "cc_completed_at rec = None" "cc_status rec = ''in_progress''"
      "db1 = db\<lparr>completions := completions db @ [rec], next_id := Suc (next_id db)\<rparr>"
    using assms(1)
    by (auto simp: ensure_locked_completion_def ensure_def is_completion_def Let_def
        split: option.splits if_splits)
  then have "rec \<in> set (completions db1) \<and> is_completion t p c rec \<and> completions_ok db1 \<and>
    (db1 = db \<or> lock_existing_completion db t p c = None \<and> cc_completed_at rec = None \<and>
         cc_status rec = ''in_progress'' \<and>
         db1 = db\<lparr>completions := completions db @ [rec], next_id := Suc (next_id db)\<rparr>)"
  proof cases
    case 1
    then show ?thesis
      using assms(2) find_Some_in [of "is_completion t p c" "completions db" rec]
      by (simp add: lock_existing_completion_def)
  next
    case 2
    have "\<forall>r \<in> set (completions db). \<not> is_completion t p c r"
      using 2(1) by (simp add: lock_existing_completion_def find_None_iff)
    moreover have "\<forall>r \<in> set (completions db). cc_id r < next_id db" using assms(2) by (simp add: completions_ok_def)
    ultimately have "completions_ok db1"
      using assms(2) 2 by (force simp: completions_ok_def is_completion_def less_SucI)
    with 2 show ?thesis by simp
  qed
  then show "rec \<in> set (completions db1)" "is_completion t p c rec" "completions_ok db1"
    "db1 = db \<or> lock_existing_completion db t p c = None \<and> cc_completed_at rec = None \<and>
         cc_status rec = ''in_progress'' \<and>
         db1 = db\<lparr>completions := completions db @ [rec], next_id := Suc (next_id db)\<rparr>"
    by blast+
qed

lemma update_by_id:
  assumes "distinct (map cc_id rows)" "rec \<in> set rows"
  shows "update_rows (\<lambda>r. cc_id r = cc_id rec) (\<lambda>_. rec') rows = map (\<lambda>r. if r = rec then rec' else r) rows"
  using assms by (auto simp: update_rows_def distinct_map dest: inj_onD)

lemma completion_state_keys [simp]:
  "cc_id (completion_state n m now r) = cc_id r" "cc_tenant (completion_state n m now r) = cc_tenant r"
  "cc_person (completion_state n m now r) = cc_person r" "cc_course (completion_state n m now r) = cc_course r"
  by (simp_all add: completion_state_def Let_def)

lemma find_by_key:
  assumes "distinct (map (\<lambda>r. (cc_tenant r, cc_person r, cc_course r)) rows)" "r \<in> set rows" "is_completion t p c r"
  shows "find (is_completion t p c) rows = Some r"
  using assms by (induction rows) (force simp: is_completion_def)+

text \<open>\<open>cert_step\<close>: the certificates grew by at most the certificate of this learner and course.\<close>

definition cert_step :: "academy_db \<Rightarrow> academy_db \<Rightarrow> uuid \<Rightarrow> uuid \<Rightarrow> uuid \<Rightarrow> bool" where
  "cert_step db db' t p c \<longleftrightarrow>
     certificates db' = certificates db \<or>
     (find_certificate db t p c = None \<and>
      (\<exists>cert. certificates db' = certificates db @ [cert]
              \<and> ce_tenant cert = t \<and> ce_person cert = p \<and> ce_course cert = c))"

lemma find_certificate_cong: "certificates db' = certificates db \<Longrightarrow> find_certificate db' t p c = find_certificate db t p c"
  by (simp add: find_certificate_def)

lemma learning_facts_parts:
  "learning_facts db' = learning_facts db \<Longrightarrow> core_facts db' = core_facts db \<and> certificates db' = certificates db"
  by (simp add: learning_facts_def)

lemma issue_certificate_step:
  assumes "issue_certificate day db now t p c = Inr (db', cert)"
  shows "cert_step db db' t p c"
  using issue_certificate_ok [OF assms]
  by (auto simp: cert_step_def find_certificate_def find_append dest: find_Some_in)

lemma email_certificate_ok:
  assumes cert: "find_certificate db t p c \<noteq> None" and res: "email_certificate day db now t p c = Inr db'"
  shows "learning_facts db' = learning_facts db \<and> next_id db \<le> next_id db'"
proof -
  have "issue_certificate day db now t p c = Inr (db, the (find_certificate db t p c))"
    using cert by (auto simp: issue_certificate_def)
  with res show ?thesis
    by (auto simp: email_certificate_def next_id_enqueue split: option.splits if_splits)
qed

lemma first_completion_effects_ok:
  assumes "first_completion_effects day db now t p c = Inr db'"
  shows "core_facts db' = core_facts db \<and> next_id db \<le> next_id db'
    \<and> find_certificate db' t p c \<noteq> None \<and> cert_step db db' t p c"
proof -
  obtain d1 o1 where r: "reconcile_completed_course db now t p c = Inr (d1, o1)"
    and f1: "learning_facts d1 = learning_facts db" "next_id db \<le> next_id d1"
    by (rule reconcile_completed_course_ok)
  from assms r obtain d2 cert where i: "issue_certificate day d1 now t p c = Inr (d2, cert)"
    and d': "db' = (let d3 = savepoint d2 (notify d2 now t p ''course_completed'' ''Well done, course completed''
                   (Some (''/certificates/'' @ uuid_str c))) in savepoint d3 (email_certificate day d3 now t p c))"
    by (auto simp: first_completion_effects_def and_then_eq_Inr Let_def)
  define d3 where "d3 = savepoint d2 (notify d2 now t p ''course_completed'' ''Well done, course completed''
                   (Some (''/certificates/'' @ uuid_str c)))"
  note i' = issue_certificate_ok [OF i]
  have f3: "learning_facts d3 = learning_facts d2" "next_id d2 \<le> next_id d3"
    by (simp_all add: d3_def next_id_notify)
  then have c3: "find_certificate d3 t p c \<noteq> None"
    using i'(3) find_certificate_cong [of d3 d2] learning_facts_parts [OF f3(1)] by simp
  have "db' = savepoint d3 (email_certificate day d3 now t p c)" by (simp add: d' d3_def Let_def)
  then have f4: "learning_facts db' = learning_facts d3" "next_id d3 \<le> next_id db'"
    using email_certificate_ok [OF c3] by (auto simp: savepoint_def split: sum.splits)
  have certs: "certificates db' = certificates d2" "certificates d1 = certificates db"
    using f1(1) f3(1) f4(1) by (simp_all add: learning_facts_def)
  have "core_facts db' = core_facts db"
    using f1(1) f3(1) f4(1) i'(1) by (simp add: learning_facts_def)
  moreover have "next_id db \<le> next_id db'" using f1(2) i'(2) f3(2) f4(2) by simp
  moreover have "find_certificate db' t p c \<noteq> None"
    using i'(3) by (simp add: find_certificate_cong [OF certs(1)])
  moreover have "cert_step db db' t p c"
    using issue_certificate_step [OF i] by (simp add: cert_step_def certs find_certificate_cong [OF certs(2)])
  ultimately show ?thesis by blast
qed

lemma first_completion_effects_total:
  assumes "lock_existing_completion db t p c = Some r" "cc_status r = ''completed''"
  obtains db' where "first_completion_effects day db now t p c = Inr db'"
proof -
  obtain d1 o1 where rc: "reconcile_completed_course db now t p c = Inr (d1, o1)"
    and f1: "learning_facts d1 = learning_facts db" "next_id db \<le> next_id d1"
    by (rule reconcile_completed_course_ok)
  have "lock_existing_completion d1 t p c = Some r"
    using assms(1) learning_facts_parts [OF f1(1)] by (simp add: lock_existing_completion_def core_facts_def)
  then have "\<exists>x. issue_certificate day d1 now t p c = Inr x"
    using assms(2) by (simp add: issue_certificate_def split: option.splits)
  then show ?thesis using that rc by (auto simp: first_completion_effects_def Let_def)
qed

lemma completions_ok_replace:
  assumes "completions_ok db"
    and "cc_id st = cc_id rec" "cc_tenant st = cc_tenant rec" "cc_person st = cc_person rec" "cc_course st = cc_course rec"
  shows "completions_ok (db\<lparr>completions := map (\<lambda>r. if r = rec then st else r) (completions db)\<rparr>)"
proof -
  have "map cc_id (map (\<lambda>r. if r = rec then st else r) rows) = map cc_id rows"
    and "map (\<lambda>r. (cc_tenant r, cc_person r, cc_course r)) (map (\<lambda>r. if r = rec then st else r) rows)
         = map (\<lambda>r. (cc_tenant r, cc_person r, cc_course r)) rows" for rows
    using assms(2-5) by simp_all
  then show ?thesis using assms by (auto simp: completions_ok_def simp del: map_map)
qed

lemma completions_ok_step:
  assumes "completions_ok db" "core_facts db' = core_facts db" "next_id db \<le> next_id db'" "cert_step db db' t p c"
  shows "completions_ok db'"
proof -
  have "distinct (map (\<lambda>r. (ce_tenant r, ce_person r, ce_course r)) (certificates db'))"
    using assms(1,4) unfolding completions_ok_def cert_step_def find_certificate_def find_None_iff
    by (elim disjE conjE exE) (simp_all, blast)
  with assms show ?thesis by (auto simp: completions_ok_def core_facts_def)
qed

text \<open>The row the recomputation writes, and what it leaves alone.\<close>

lemma recompute_completion_ok:
  assumes res: "recompute_completion day db now t p c = Inr (db', rec')" and ok: "completions_ok db"
  obtains rec where "is_completion t p c rec"
    and "lock_existing_completion db t p c = Some rec \<or>
         (lock_existing_completion db t p c = None \<and> cc_completed_at rec = None)"
    and "rec' = completion_state (course_activity_count db t c) (passed_count db t p c) now rec"
    and "lock_existing_completion db' t p c = Some rec'"
    and "(submissions db', scores db', activities db', attempt_grants db', people db') =
         (submissions db, scores db, activities db, attempt_grants db, people db)"
    and "cert_step db db' t p c"
    and "cc_status rec' = ''completed'' \<longrightarrow> cc_completed_at rec = None \<longrightarrow> find_certificate db' t p c \<noteq> None"
    and "set (completions db') \<subseteq> insert rec' {r \<in> set (completions db). r \<noteq> rec}"
    and "completions_ok db'"
    and "certificates db' = certificates db \<or> cc_status rec' = ''completed''"
proof -
  from res obtain db1 rec where en: "ensure_locked_completion db t p c = Inr (db1, rec)"
    by (auto simp: recompute_completion_def and_then_eq_Inr)
  note e = ensure_locked_ok [OF en ok]
  define st where "st = completion_state (course_activity_count db t c) (passed_count db t p c) now rec"
  define db2 where "db2 = db1\<lparr>completions := update_rows (\<lambda>r. cc_id r = cc_id rec) (\<lambda>_. st) (completions db1)\<rparr>"
  have same1: "submissions db1 = submissions db" "scores db1 = scores db" "activities db1 = activities db"
    "attempt_grants db1 = attempt_grants db" "people db1 = people db" "certificates db1 = certificates db"
    "set (completions db1) = insert rec (set (completions db))"
    using e(4) e(1) by auto
  have counts: "course_activity_count db1 t c = course_activity_count db t c"
    "passed_count db1 t p c = passed_count db t p c"
    by (simp_all add: course_activity_count_def passed_count_def best_scores_for_def score_query_def
        score_join_def same1)
  have rows2: "completions db2 = map (\<lambda>r. if r = rec then st else r) (completions db1)"
    using e(1,3) by (simp add: db2_def completions_ok_def update_by_id)
  have "db2 = db1\<lparr>completions := map (\<lambda>r. if r = rec then st else r) (completions db1)\<rparr>"
    using rows2 by (simp add: db2_def)
  then have ok2: "completions_ok db2"
    using completions_ok_replace [OF e(3), of st rec] by (simp add: st_def)
  have st_in: "st \<in> set (completions db2)" using e(1) by (auto simp: rows2 image_iff)
  have st_key: "is_completion t p c st" using e(2) by (simp add: st_def is_completion_def)
  have lock2: "lock_existing_completion db2 t p c = Some st"
    unfolding lock_existing_completion_def
    by (rule find_by_key [OF _ st_in st_key]) (use ok2 in \<open>simp add: completions_ok_def\<close>)
  have prior: "lock_existing_completion db t p c = Some rec \<or>
      (lock_existing_completion db t p c = None \<and> cc_completed_at rec = None)"
    using e(4)
  proof
    assume "db1 = db"
    then show ?thesis
      using find_by_key [of "completions db" rec t p c] e(1,2) ok
      by (simp add: lock_existing_completion_def completions_ok_def)
  qed simp
  have rows: "set (completions db2) \<subseteq> insert st {r \<in> set (completions db). r \<noteq> rec}"
    using same1(7) by (auto simp: rows2)
  have same2: "submissions db2 = submissions db" "scores db2 = scores db" "activities db2 = activities db"
    "attempt_grants db2 = attempt_grants db" "people db2 = people db" "certificates db2 = certificates db"
    by (simp_all add: db2_def same1)
  define finished where "finished \<longleftrightarrow> course_activity_count db t c > 0
    \<and> passed_count db t p c = course_activity_count db t c \<and> cc_completed_at rec = None"
  show thesis
  proof (cases finished)
    case True
    then have "first_completion_effects day db2 now t p c = Inr db'" and rec': "rec' = st"
      using res en by (auto simp: recompute_completion_def and_then_eq_Inr Let_def counts db2_def st_def finished_def)
    note f = first_completion_effects_ok [OF this(1)]
    show thesis
    proof (rule that [OF e(2) prior])
      show "completions_ok db'" by (rule completions_ok_step [OF ok2]) (use f in blast)+
      show "cert_step db db' t p c"
        using f by (simp add: cert_step_def find_certificate_def same2)
      show "certificates db' = certificates db \<or> cc_status rec' = ''completed''"
        using True by (simp add: rec' st_def completion_state_def Let_def finished_def)
    qed (use f rec' st_def lock2 rows same2 in \<open>auto simp: core_facts_def lock_existing_completion_def\<close>)
  next
    case False
    then have d: "db' = db2" "rec' = st"
      using res en by (auto simp: recompute_completion_def and_then_eq_Inr Let_def counts db2_def st_def finished_def split: if_splits)
    have "\<not> (cc_status st = ''completed'' \<and> cc_completed_at rec = None)"
      using False by (auto simp: st_def completion_state_def Let_def finished_def)
    then show thesis
      using that [OF e(2) prior] d st_def lock2 rows same2 ok2 by (auto simp: cert_step_def)
  qed
qed

lemma locked_after_update:
  assumes "completions_ok db" "rec \<in> set (completions db)" "is_completion t p c rec"
    and "cc_id st = cc_id rec" "cc_tenant st = cc_tenant rec" "cc_person st = cc_person rec" "cc_course st = cc_course rec"
  shows "lock_existing_completion
      (db\<lparr>completions := update_rows (\<lambda>r. cc_id r = cc_id rec) (\<lambda>_. st) (completions db)\<rparr>) t p c = Some st"
proof -
  let ?db = "db\<lparr>completions := map (\<lambda>r. if r = rec then st else r) (completions db)\<rparr>"
  have "update_rows (\<lambda>r. cc_id r = cc_id rec) (\<lambda>_. st) (completions db) = map (\<lambda>r. if r = rec then st else r) (completions db)"
    using assms(1,2) by (simp add: completions_ok_def update_by_id)
  moreover have "completions_ok ?db" by (rule completions_ok_replace [OF assms(1,4-7)])
  moreover have "st \<in> set (completions ?db)" using assms(2) by (auto simp: image_iff)
  ultimately show ?thesis
    using find_by_key [of "completions ?db" st t p c] assms(3-7)
    by (simp add: lock_existing_completion_def completions_ok_def is_completion_def)
qed

text \<open>A recomputation never fails for a course that exists.\<close>

lemma recompute_completion_total:
  assumes "completions_ok db" "course_exists db t c"
  obtains db' r where "recompute_completion day db now t p c = Inr (db', r)"
proof -
  obtain db1 rec where en: "ensure_locked_completion db t p c = Inr (db1, rec)"
    using assms(2) by (cases "lock_existing_completion db t p c") (auto simp: ensure_locked_completion_def Let_def)
  note e = ensure_locked_ok [OF en assms(1)]
  let ?st = "completion_state (course_activity_count db1 t c) (passed_count db1 t p c) now rec"
  let ?db2 = "db1\<lparr>completions := update_rows (\<lambda>r. cc_id r = cc_id rec) (\<lambda>_. ?st) (completions db1)\<rparr>"
  have lock: "lock_existing_completion ?db2 t p c = Some ?st"
    by (rule locked_after_update [OF e(3,1,2)]) simp_all
  show thesis
  proof (cases "course_activity_count db1 t c > 0 \<and> passed_count db1 t p c = course_activity_count db1 t c \<and> cc_completed_at rec = None")
    case True
    then have "cc_status ?st = ''completed''" by (simp add: completion_state_def Let_def)
    then obtain d3 where "first_completion_effects day ?db2 now t p c = Inr d3"
      by (rule first_completion_effects_total [OF lock])
    with True en have "recompute_completion day db now t p c = Inr (d3, ?st)"
      by (simp add: recompute_completion_def Let_def)
    then show thesis by (rule that)
  next
    case False
    then have "recompute_completion day db now t p c = Inr (?db2, ?st)"
      unfolding recompute_completion_def en and_then_Inr Let_def prod.case by (simp only: if_False)
    then show thesis by (rule that)
  qed
qed

end
