(* ===== verification/Assessment.thy ===== *)
theory Assessment
  imports Completion
begin

text \<open>
  The writers of \<open>services/assessment.py\<close> (\<open>submit_activity\<close>, \<open>override_score\<close>) and the
  first-pass intents of \<open>services/email.py\<close>. \<open>fullmatch\<close> and \<open>render\<close> are the grader's
  library arguments, \<open>day\<close> the local-day boundary, \<open>now\<close> the transaction clock. An
  exception rolls the transaction back: \<open>Inl\<close> carries no store.
\<close>

definition question_view :: "question_row \<Rightarrow> grade_question" where
  "question_view q = \<lparr>gq_ext_id = eq_ext_id q, gq_type = qu_type q, gq_correct = qu_correct q,
                      gq_weight = qu_weight q, gq_options = eq_options q\<rparr>"

definition bank_rows :: "academy_db \<Rightarrow> uuid \<Rightarrow> uuid \<Rightarrow> question_row list" where
  "bank_rows db tenant bank = filter (\<lambda>q. qu_tenant q = tenant \<and> qu_bank q = bank) (questions db)"

definition questions_for :: "academy_db \<Rightarrow> uuid \<Rightarrow> uuid \<Rightarrow> string list option \<Rightarrow> grade_question list" where
  "questions_for db tenant bank only_ext_ids =
     (let rows = bank_rows db tenant bank
      in map question_view
           (case only_ext_ids of None \<Rightarrow> rows | Some keep \<Rightarrow> filter (\<lambda>q. eq_ext_id q \<in> set keep) rows))"

section \<open>First-pass intents\<close>

definition prior_passes :: "academy_db \<Rightarrow> score_row \<Rightarrow> activity_row \<Rightarrow> person_row \<Rightarrow> nat" where
  "prior_passes db score activity person =
     length [(sc, s). sc \<leftarrow> scores db, s \<leftarrow> submissions db,
               sub_id s = sc_submission sc \<and> sub_tenant s = sc_tenant sc
               \<and> sc_tenant sc = sc_tenant score \<and> sub_activity s = act_id activity
               \<and> sub_person s = pe_id person \<and> sc_passed sc \<and> sc_id sc \<noteq> sc_id score]"

definition queue_first_pass_intents ::
    "academy_db \<Rightarrow> instant \<Rightarrow> score_row \<Rightarrow> activity_row \<Rightarrow> person_row option \<Rightarrow> academy_db \<times> bool" where
  "queue_first_pass_intents db now score activity person =
     (if \<not> sc_passed score then (db, False)
      else case person of
        None \<Rightarrow> (db, False)
      | Some p \<Rightarrow>
          if pe_email p = '''' then (db, False)
          else if \<not> recipient_allows p ''email_results'' then (db, False)
          else if \<not> email_auto_on_pass db then (db, False)
          else if prior_passes db score activity p > 0 then (db, False)
          else
            (let db1 = savepoint db (notify db now (sc_tenant score) (pe_id p) ''result''
                         (''You passed '' @ act_title activity) None)
             in enqueue_email db1 now (sc_tenant score) (''score-pass:'' @ uuid_str (sc_id score))
                  ''score_pass'' (pe_email p) (JObj [])))"

section \<open>Submission\<close>

definition next_attempt_no :: "academy_db \<Rightarrow> uuid \<Rightarrow> uuid \<Rightarrow> uuid \<Rightarrow> nat" where
  "next_attempt_no db tenant person activity =
     Suc (coalesce_max (map sub_attempt_no
       (filter (\<lambda>s. sub_tenant s = tenant \<and> sub_activity s = activity \<and> sub_person s = person)
         (submissions db))))"

definition best_effort_recompute ::
    "(instant \<Rightarrow> instant) \<Rightarrow> academy_db \<Rightarrow> instant \<Rightarrow> uuid \<Rightarrow> uuid \<Rightarrow> uuid \<Rightarrow> academy_db" where
  "best_effort_recompute day db now t p c =
     (case recompute_completion day db now t p c of Inl _ \<Rightarrow> db | Inr (db', _) \<Rightarrow> db')"

definition insert_submission ::
    "(instant \<Rightarrow> instant) \<Rightarrow> academy_db \<Rightarrow> instant \<Rightarrow> uuid \<Rightarrow> uuid \<Rightarrow> activity_row \<Rightarrow> answers \<Rightarrow>
     academy_db \<times> submission_row" where
  "insert_submission day db now tenant person activity ans =
     (let sub = \<lparr>sub_id = next_id db, sub_tenant = tenant, sub_activity = act_id activity,
                 sub_person = person, sub_answers = Answered ans,
                 sub_attempt_no = next_attempt_no db tenant person (act_id activity),
                 sub_created_at = now\<rparr>;
          db1 = db\<lparr>submissions := submissions db @ [sub], next_id := Suc (next_id db)\<rparr>
      in (emit day db1 \<lparr>v_tenant = tenant, v_person = person, v_kind = ''submission_made'',
                        v_course = Some (act_course activity), v_subject = Some (sub_id sub),
                        v_detail = JObj [(''activity_id'', JStr (uuid_str (act_id activity))),
                                         (''attempt_no'', JInt (int (sub_attempt_no sub)))],
                        v_at = now\<rparr>, sub))"

definition insert_score ::
    "(instant \<Rightarrow> instant) \<Rightarrow> academy_db \<Rightarrow> instant \<Rightarrow> activity_row \<Rightarrow> submission_row \<Rightarrow> grade_result \<Rightarrow>
     academy_db \<times> score_row" where
  "insert_score day db now activity sub r =
     (let sc = \<lparr>sc_id = next_id db, sc_tenant = sub_tenant sub, sc_submission = sub_id sub,
                sc_score = gr_score r, sc_max_score = gr_max_score r, sc_fraction = gr_fraction r,
                sc_passed = gr_passed r, sc_per_item = Items (gr_per_item r), sc_source = ''auto'',
                sc_override_reason = None, sc_created_at = now\<rparr>;
          db1 = db\<lparr>scores := scores db @ [sc], next_id := Suc (next_id db)\<rparr>
      in (emit day db1 \<lparr>v_tenant = sub_tenant sub, v_person = sub_person sub, v_kind = ''work_graded'',
                        v_course = Some (act_course activity), v_subject = Some (sub_id sub),
                        v_detail = JObj [(''activity_id'', JStr (uuid_str (act_id activity))),
                                         (''passed'', JBool (gr_passed r)),
                                         (''fraction'', JFloat (gr_fraction r))],
                        v_at = now\<rparr>, sc))"

definition submit_activity ::
    "(string \<Rightarrow> string \<Rightarrow> bool option) \<Rightarrow> (json \<Rightarrow> string) \<Rightarrow> (instant \<Rightarrow> instant) \<Rightarrow>
     academy_db \<Rightarrow> instant \<Rightarrow> uuid \<Rightarrow> uuid \<Rightarrow> activity_row \<Rightarrow> answers \<Rightarrow> string list option \<Rightarrow>
     (academy_db \<times> score_row option) result" where
  "submit_activity fullmatch render day db now tenant person activity ans only_ext_ids =
     (if act_type activity \<noteq> ''mcq_test''
      then Inl (BadRequestError ''activities of this type are not graded here'')
      else case find (\<lambda>p. pe_tenant p = tenant \<and> pe_id p = person) (people db) of
        None \<Rightarrow> Inl (ConflictError ''Learner account no longer exists.'')
      | Some p \<Rightarrow>
          let used = attempts_used db tenant person (act_id activity)
          in if exhausted (for_learner db tenant person activity (int used))
             then Inl (ConflictError ''No attempts remaining.'')
             else ensure (activity_exists db tenant (act_id activity)) IntegrityError
               (let qs = (case act_bank activity of None \<Rightarrow> [] | Some b \<Rightarrow> questions_for db tenant b only_ext_ids);
                    (db1, sub) = insert_submission day db now tenant person activity ans
                in if act_grading activity = ''manual'' then Inr (db1, None)
                   else and_then (grade_submission fullmatch render ans qs (act_pass_threshold activity))
                     (\<lambda>r. let (db2, sc) = insert_score day db1 now activity sub r;
                              db3 = best_effort_recompute day db2 now tenant person (act_course activity);
                              db4 = fst (queue_first_pass_intents db3 now sc activity (Some p))
                          in Inr (db4, Some sc))))"

section \<open>Instructor override\<close>

definition override_score ::
    "(instant \<Rightarrow> instant) \<Rightarrow> academy_db \<Rightarrow> instant \<Rightarrow> uuid \<Rightarrow> uuid \<Rightarrow> rat \<Rightarrow> rat \<Rightarrow> string \<Rightarrow>
     (academy_db \<times> score_row) result" where
  "override_score day db now tenant submission score_value max_score reason =
     (case find (\<lambda>s. sub_id s = submission) (submissions db) of
        None \<Rightarrow> Inl (ValueError ''submission not found for tenant'')
      | Some sub \<Rightarrow>
          if sub_tenant sub \<noteq> tenant then Inl (ValueError ''submission not found for tenant'')
          else
            (let activity = find (\<lambda>a. act_tenant a = tenant \<and> act_id a = sub_activity sub) (activities db);
                 threshold = (case activity of None \<Rightarrow> 0 | Some a \<Rightarrow> act_pass_threshold a);
                 frac = (if max_score \<noteq> 0 then score_value / max_score else 0);
                 sc = \<lparr>sc_id = next_id db, sc_tenant = tenant, sc_submission = submission,
                       sc_score = score_value, sc_max_score = max_score, sc_fraction = frac,
                       sc_passed = (max_score > 0 \<and> frac \<ge> threshold), sc_per_item = Items [],
                       sc_source = ''override'', sc_override_reason = Some reason, sc_created_at = now\<rparr>;
                 db1 = db\<lparr>scores := scores db @ [sc], next_id := Suc (next_id db)\<rparr>
             in Inr ((case activity of
                        None \<Rightarrow> db1
                      | Some a \<Rightarrow> best_effort_recompute day db1 now tenant (sub_person sub) (act_course a)), sc)))"

section \<open>Effects\<close>

text \<open>The tables a submission or override may touch beyond its own rows are derived ones.\<close>

definition ledger_core ::
    "academy_db \<Rightarrow> submission_row list \<times> score_row list \<times> activity_row list \<times> grant_row list \<times> person_row list" where
  "ledger_core db = (submissions db, scores db, activities db, attempt_grants db, people db)"

lemma ledger_core_facts: "learning_facts db' = learning_facts db \<Longrightarrow> ledger_core db' = ledger_core db"
  by (simp add: learning_facts_def core_facts_def ledger_core_def)

lemma ledger_core_emit [simp]: "ledger_core (emit day db v) = ledger_core db"
  by (rule ledger_core_facts) simp

lemma queue_first_pass_facts [simp]:
  "learning_facts (fst (queue_first_pass_intents db now sc a p)) = learning_facts db"
  by (simp add: queue_first_pass_intents_def Let_def split: option.splits)

lemma best_effort_recompute_core:
  assumes "completions_ok db"
  shows "ledger_core (best_effort_recompute day db now t p c) = ledger_core db"
    and "completions_ok (best_effort_recompute day db now t p c)"
proof -
  have "ledger_core (best_effort_recompute day db now t p c) = ledger_core db
      \<and> completions_ok (best_effort_recompute day db now t p c)"
  proof (cases "recompute_completion day db now t p c")
    case (Inr x)
    obtain db' r where "x = (db', r)" by (cases x)
    with Inr have res: "recompute_completion day db now t p c = Inr (db', r)" by simp
    show ?thesis
      by (rule recompute_completion_ok [OF res assms])
         (simp add: best_effort_recompute_def res ledger_core_def)
  qed (simp add: best_effort_recompute_def assms)
  then show "ledger_core (best_effort_recompute day db now t p c) = ledger_core db"
    and "completions_ok (best_effort_recompute day db now t p c)" by blast+
qed

lemma completions_ok_frame:
  "completions db' = completions db \<Longrightarrow> certificates db' = certificates db \<Longrightarrow> next_id db \<le> next_id db' \<Longrightarrow>
   completions_ok db \<Longrightarrow> completions_ok db'"
  by (auto simp: completions_ok_def)

lemma completions_ok_emit: "completions_ok db \<Longrightarrow> completions_ok (emit day db v)"
  by (erule completions_ok_frame [rotated 3])
     (use facts_emit [of day db v] in \<open>simp_all add: learning_facts_def core_facts_def next_id_emit\<close>)

lemma completions_ok_queue:
  assumes "completions_ok db"
  shows "completions_ok (fst (queue_first_pass_intents db now sc a p))"
proof (rule completions_ok_frame [OF _ _ _ assms])
  show "next_id db \<le> next_id (fst (queue_first_pass_intents db now sc a p))"
    by (auto simp: queue_first_pass_intents_def Let_def split: option.splits
        intro: order_trans [OF next_id_notify next_id_enqueue])
qed (use queue_first_pass_facts [of db now sc a p] in \<open>simp_all add: learning_facts_def core_facts_def\<close>)

lemma insert_submission_effect:
  assumes "insert_submission day db now t p a ans = (db1, sub)"
  shows "submissions db1 = submissions db @ [sub]" "scores db1 = scores db" "activities db1 = activities db"
    "attempt_grants db1 = attempt_grants db" "people db1 = people db" "questions db1 = questions db"
    and "sub_tenant sub = t" "sub_person sub = p" "sub_activity sub = act_id a" "sub_answers sub = Answered ans"
    and "sub_attempt_no sub = next_attempt_no db t p (act_id a)" "sub_id sub = next_id db"
    and "completions_ok db \<Longrightarrow> completions_ok db1" "next_id db < next_id db1"
proof -
  define d where "d = db\<lparr>submissions := submissions db @ [sub], next_id := Suc (next_id db)\<rparr>"
  from assms obtain v where db1: "db1 = emit day d v"
    by (auto simp: insert_submission_def Let_def d_def)
  have core: "ledger_core db1 = ledger_core d" by (simp add: db1)
  show "submissions db1 = submissions db @ [sub]" "scores db1 = scores db" "activities db1 = activities db"
    "attempt_grants db1 = attempt_grants db" "people db1 = people db"
    using core by (simp_all add: ledger_core_def d_def)
  show "questions db1 = questions db" using emit_cases [of day d v] by (auto simp: db1 d_def)
  show "sub_tenant sub = t" "sub_person sub = p" "sub_activity sub = act_id a" "sub_answers sub = Answered ans"
    "sub_attempt_no sub = next_attempt_no db t p (act_id a)" "sub_id sub = next_id db"
    using assms by (auto simp: insert_submission_def Let_def)
  have "completions_ok db \<Longrightarrow> completions_ok d" by (erule completions_ok_frame [rotated 3]) (simp_all add: d_def)
  then show "completions_ok db \<Longrightarrow> completions_ok db1" by (simp add: db1 completions_ok_emit)
  show "next_id db < next_id db1" using next_id_emit [of d day v] by (simp add: db1 d_def)
qed

lemma insert_score_effect:
  assumes "insert_score day db now a sub r = (db1, sc)"
  shows "ledger_core db1 = (submissions db, scores db @ [sc], activities db, attempt_grants db, people db)"
    and "sc_tenant sc = sub_tenant sub" "sc_submission sc = sub_id sub" "sc_passed sc = gr_passed r"
    "sc_fraction sc = gr_fraction r" "sc_score sc = gr_score r" "sc_max_score sc = gr_max_score r"
    "sc_source sc = ''auto''" "sc_created_at sc = now" "sc_per_item sc = Items (gr_per_item r)"
    and "completions_ok db \<Longrightarrow> completions_ok db1"
proof -
  define d where "d = db\<lparr>scores := scores db @ [sc], next_id := Suc (next_id db)\<rparr>"
  from assms obtain v where db1: "db1 = emit day d v"
    by (auto simp: insert_score_def Let_def d_def)
  show "ledger_core db1 = (submissions db, scores db @ [sc], activities db, attempt_grants db, people db)"
    by (simp add: db1 d_def ledger_core_def [of "db\<lparr>scores := scores db @ [sc], next_id := Suc (next_id db)\<rparr>"])
  show "sc_tenant sc = sub_tenant sub" "sc_submission sc = sub_id sub" "sc_passed sc = gr_passed r"
    "sc_fraction sc = gr_fraction r" "sc_score sc = gr_score r" "sc_max_score sc = gr_max_score r"
    "sc_source sc = ''auto''" "sc_created_at sc = now" "sc_per_item sc = Items (gr_per_item r)"
    using assms by (auto simp: insert_score_def Let_def)
  have "completions_ok db \<Longrightarrow> completions_ok d" by (erule completions_ok_frame [rotated 3]) (simp_all add: d_def)
  then show "completions_ok db \<Longrightarrow> completions_ok db1" by (simp add: db1 completions_ok_emit)
qed

text \<open>\<open>submitted\<close> collects what a successful submission did.\<close>

definition submitted ::
    "(string \<Rightarrow> string \<Rightarrow> bool option) \<Rightarrow> (json \<Rightarrow> string) \<Rightarrow> academy_db \<Rightarrow> uuid \<Rightarrow> uuid \<Rightarrow> activity_row \<Rightarrow> answers \<Rightarrow>
     string list option \<Rightarrow> academy_db \<Rightarrow> score_row option \<Rightarrow> submission_row \<Rightarrow> bool" where
  "submitted fm rd db t p a ans only db' r sub \<longleftrightarrow>
     submissions db' = submissions db @ [sub]
     \<and> sub_tenant sub = t \<and> sub_person sub = p \<and> sub_activity sub = act_id a \<and> sub_answers sub = Answered ans
     \<and> sub_attempt_no sub = next_attempt_no db t p (act_id a) \<and> sub_id sub = next_id db
     \<and> activities db' = activities db \<and> attempt_grants db' = attempt_grants db \<and> people db' = people db
     \<and> (case r of
          None \<Rightarrow> act_grading a = ''manual'' \<and> scores db' = scores db
        | Some sc \<Rightarrow>
            act_grading a \<noteq> ''manual'' \<and> scores db' = scores db @ [sc]
            \<and> sc_tenant sc = t \<and> sc_submission sc = sub_id sub \<and> sc_source sc = ''auto''
            \<and> (\<exists>g. grade_submission fm rd ans
                     (case act_bank a of None \<Rightarrow> [] | Some b \<Rightarrow> questions_for db t b only) (act_pass_threshold a) = Inr g
                 \<and> sc_passed sc = gr_passed g \<and> sc_fraction sc = gr_fraction g
                 \<and> sc_score sc = gr_score g \<and> sc_max_score sc = gr_max_score g \<and> sc_per_item sc = Items (gr_per_item g)))"

lemma submit_activity_ok:
  assumes res: "submit_activity fm rd day db now t p a ans only = Inr (db', r)" and ok: "completions_ok db"
  obtains sub where "act_type a = ''mcq_test''" "person_exists db t p" "activity_exists db t (act_id a)"
    and "\<not> exhausted (for_learner db t p a (int (attempts_used db t p (act_id a))))"
    and "submitted fm rd db t p a ans only db' r sub" "completions_ok db'"
proof -
  from res obtain q where q: "find (\<lambda>q. pe_tenant q = t \<and> pe_id q = p) (people db) = Some q"
    and pre: "act_type a = ''mcq_test''" "activity_exists db t (act_id a)"
      "\<not> exhausted (for_learner db t p a (int (attempts_used db t p (act_id a))))"
    by (auto simp: submit_activity_def Let_def ensure_def split: if_splits option.splits)
  have exists: "person_exists db t p" using find_Some_in [OF q] by (auto simp: person_exists_def list_ex_iff)
  obtain db1 sub where i: "insert_submission day db now t p a ans = (db1, sub)" by force
  note sub = insert_submission_effect [OF i]
  define qs where "qs = (case act_bank a of None \<Rightarrow> [] | Some b \<Rightarrow> questions_for db t b only)"
  show thesis
  proof (cases "act_grading a = ''manual''")
    case True
    then have "db' = db1" "r = None" using res q pre i by (simp_all add: submit_activity_def Let_def)
    with True sub ok show thesis by (intro that [OF pre(1) exists pre(2,3), of sub]) (simp_all add: submitted_def)
  next
    case False
    then obtain g where g: "grade_submission fm rd ans qs (act_pass_threshold a) = Inr g"
      using res q pre i by (auto simp: submit_activity_def Let_def and_then_eq_Inr qs_def)
    obtain db2 sc where sci: "insert_score day db1 now a sub g = (db2, sc)" by force
    note sc = insert_score_effect [OF sci]
    define db3 where "db3 = best_effort_recompute day db2 now t p (act_course a)"
    have d: "db' = fst (queue_first_pass_intents db3 now sc a (Some q))" "r = Some sc"
      using res q pre i sci False g by (auto simp: submit_activity_def Let_def qs_def db3_def)
    have ok2: "completions_ok db2" using sc(11) sub(13) ok by blast
    note rc = best_effort_recompute_core [OF ok2, of day now t p "act_course a", folded db3_def]
    have "ledger_core db' = ledger_core db3" unfolding d(1) by (rule ledger_core_facts) simp
    then have core: "ledger_core db' = (submissions db @ [sub], scores db @ [sc], activities db, attempt_grants db, people db)"
      using rc(1) sc(1) sub by simp
    have "submitted fm rd db t p a ans only db' r sub"
      using core sub sc g False d(2) by (simp add: submitted_def ledger_core_def qs_def)
    moreover have "completions_ok db'" unfolding d(1) by (rule completions_ok_queue [OF rc(2)])
    ultimately show thesis by (intro that [OF pre(1) exists pre(2,3)])
  qed
qed

end
