(* ===== verification/Learner_Journey.thy ===== *)
theory Learner_Journey
  imports Assessment
begin

text \<open>
  What a learner's graded work goes through: submissions, extra-attempt grants and
  instructor overrides as steps of one store, and the properties that hold along every
  sequence of them. The property of the answer key, which speaks of pages, is in
  \<open>Dashboard_Properties\<close>.
\<close>

inductive learner_step ::
    "(string \<Rightarrow> string \<Rightarrow> bool option) \<Rightarrow> (json \<Rightarrow> string) \<Rightarrow> (instant \<Rightarrow> instant) \<Rightarrow> academy_db \<Rightarrow> academy_db \<Rightarrow> bool"
  for fm rd day where
  submit: "submit_activity fm rd day db now t p a ans only = Inr (db', r) \<Longrightarrow> a \<in> set (activities db) \<Longrightarrow>
     act_tenant a = t \<Longrightarrow> learner_step fm rd day db db'"
| grant: "grant_extra_attempt db t p a reason by' extra = Inr (db', g) \<Longrightarrow> learner_step fm rd day db db'"
| override: "override_score day db now t sub v m reason = Inr (db', sc) \<Longrightarrow> learner_step fm rd day db db'"

inductive_cases learner_stepE: "learner_step fm rd day db db'"

definition attempt_numbers :: "academy_db \<Rightarrow> uuid \<Rightarrow> uuid \<Rightarrow> uuid \<Rightarrow> nat list" where
  "attempt_numbers db t p a =
     map sub_attempt_no (filter (\<lambda>s. sub_tenant s = t \<and> sub_activity s = a \<and> sub_person s = p) (submissions db))"

text \<open>The learner's attempts on an activity never exceed \<open>max_attempts\<close> plus the grants.\<close>

definition within_entitlement :: "academy_db \<Rightarrow> bool" where
  "within_entitlement db \<longleftrightarrow>
     (\<forall>a \<in> set (activities db). \<forall>p.
        case act_max_attempts a of
          None \<Rightarrow> True
        | Some m \<Rightarrow> 0 \<le> m \<longrightarrow>
            int (attempts_used db (act_tenant a) p (act_id a)) \<le> m + granted_for db (act_tenant a) p (act_id a))"

definition grants_positive :: "academy_db \<Rightarrow> bool" where
  "grants_positive db \<longleftrightarrow> (\<forall>g \<in> set (attempt_grants db). 1 \<le> ag_extra_attempts g)"

definition numbered :: "nat \<Rightarrow> nat list" where
  "numbered n = [1..<Suc n]"

definition journey_ok :: "academy_db \<Rightarrow> bool" where
  "journey_ok db \<longleftrightarrow>
     completions_ok db \<and> within_entitlement db \<and> grants_positive db
     \<and> distinct (map (\<lambda>a. (act_tenant a, act_id a)) (activities db))
     \<and> (\<forall>t p a. attempt_numbers db t p a = numbered (attempts_used db t p a))"

lemma numbered_Suc: "numbered (Suc n) = numbered n @ [Suc n]"
  by (simp add: numbered_def)

lemma coalesce_max_numbered: "coalesce_max (numbered n) = n"
  by (induction n) (simp_all add: coalesce_max_def numbered_def)

lemma attempt_numbers_length: "length (attempt_numbers db t p a) = attempts_used db t p a"
  by (simp add: attempt_numbers_def attempts_used_def count_rows_def)

lemma next_attempt_no_alt: "next_attempt_no db t p a = Suc (coalesce_max (attempt_numbers db t p a))"
  by (simp add: next_attempt_no_def attempt_numbers_def)

lemma submitted_used:
  assumes "submitted fm rd db t p a ans only db' r sub"
  shows "attempts_used db' t' p' a' =
    attempts_used db t' p' a' + (if t' = t \<and> p' = p \<and> a' = act_id a then 1 else 0)"
  using assms by (auto simp: submitted_def attempts_used_def)

lemma submitted_numbers:
  assumes "submitted fm rd db t p a ans only db' r sub"
  shows "attempt_numbers db' t' p' a' = attempt_numbers db t' p' a' @
    (if t' = t \<and> p' = p \<and> a' = act_id a then [next_attempt_no db t p (act_id a)] else [])"
  using assms by (auto simp: submitted_def attempt_numbers_def)

lemma override_effect:
  assumes "override_score day db now t sid v m reason = Inr (db', sc)" "completions_ok db"
  shows "ledger_core db' = (submissions db, scores db @ [sc], activities db, attempt_grants db, people db)"
    and "completions_ok db'" "sc_source sc = ''override''" "sc_submission sc = sid" "sc_tenant sc = t"
proof -
  define d where "d = db\<lparr>scores := scores db @ [sc], next_id := Suc (next_id db)\<rparr>"
  have ok: "completions_ok d"
    using assms(2) by (rule completions_ok_frame [rotated 3]) (simp_all add: d_def)
  have "db' = d \<or> (\<exists>p c. db' = best_effort_recompute day d now t p c)"
    using assms(1) by (auto simp: override_score_def Let_def d_def split: option.splits if_splits)
  then have "ledger_core db' = ledger_core d \<and> completions_ok db'"
    using best_effort_recompute_core [OF ok] ok by auto
  then show "ledger_core db' = (submissions db, scores db @ [sc], activities db, attempt_grants db, people db)"
    and "completions_ok db'"
    by (simp_all add: ledger_core_def d_def)
  show "sc_source sc = ''override''" "sc_submission sc = sid" "sc_tenant sc = t"
    using assms(1) by (auto simp: override_score_def Let_def split: option.splits if_splits)
qed

lemma granted_nonneg: "grants_positive db \<Longrightarrow> 0 \<le> granted_for db t p a"
  by (auto simp: granted_for_def grants_positive_def intro!: sum_list_nonneg) force

lemma not_exhausted_room:
  assumes "\<not> exhausted (for_learner db t p a (int u))" "act_max_attempts a = Some m"
  shows "int u + 1 \<le> m + granted_for db t p (act_id a)"
  using assms by (simp add: exhausted_def for_learner_def entitlement_def)

lemma journey_ok_submit:
  assumes ok: "journey_ok db" and res: "submit_activity fm rd day db now t p a ans only = Inr (db', r)"
    and a: "a \<in> set (activities db)" "act_tenant a = t"
  shows "journey_ok db'"
proof -
  have c: "completions_ok db" using ok by (simp add: journey_ok_def)
  obtain sub where room: "\<not> exhausted (for_learner db t p a (int (attempts_used db t p (act_id a))))"
    and sub: "submitted fm rd db t p a ans only db' r sub" and c': "completions_ok db'"
    by (rule submit_activity_ok [OF res c])
  have same: "activities db' = activities db" "attempt_grants db' = attempt_grants db"
    using sub by (simp_all add: submitted_def)
  have gr: "granted_for db' x y z = granted_for db x y z" for x y z by (simp add: granted_for_def same)
  have "within_entitlement db'"
    unfolding within_entitlement_def same gr submitted_used [OF sub]
  proof (intro ballI allI)
    fix b q assume b: "b \<in> set (activities db)"
    have inv: "case act_max_attempts b of None \<Rightarrow> True | Some m \<Rightarrow> 0 \<le> m \<longrightarrow>
        int (attempts_used db (act_tenant b) q (act_id b)) \<le> m + granted_for db (act_tenant b) q (act_id b)"
      using ok b by (simp add: journey_ok_def within_entitlement_def)
    show "case act_max_attempts b of None \<Rightarrow> True | Some m \<Rightarrow> 0 \<le> m \<longrightarrow>
        int (attempts_used db (act_tenant b) q (act_id b) +
             (if act_tenant b = t \<and> q = p \<and> act_id b = act_id a then 1 else 0))
          \<le> m + granted_for db (act_tenant b) q (act_id b)"
    proof (cases "act_tenant b = t \<and> q = p \<and> act_id b = act_id a")
      case True
      have "inj_on (\<lambda>a. (act_tenant a, act_id a)) (set (activities db))"
        using ok by (simp add: journey_ok_def distinct_map)
      with True a b have "b = a" by (auto dest: inj_onD)
      with True not_exhausted_room [OF room] show ?thesis by (auto split: option.splits)
    next
      case False
      then have "(if act_tenant b = t \<and> q = p \<and> act_id b = act_id a then 1 else 0) = (0::nat)" by (rule if_not_P)
      with inv show ?thesis by (simp only: add_0_right)
    qed
  qed
  moreover have "attempt_numbers db' x y z = numbered (attempts_used db' x y z)" for x y z
    using ok by (simp add: submitted_numbers [OF sub] submitted_used [OF sub] next_attempt_no_alt
        journey_ok_def coalesce_max_numbered numbered_Suc)
  ultimately show ?thesis using ok c' by (simp add: journey_ok_def same grants_positive_def)
qed

lemma journey_ok_grant:
  assumes ok: "journey_ok db" and res: "grant_extra_attempt db t p a reason by' extra = Inr (db', g)"
  shows "journey_ok db'"
proof -
  note g = grant_extra_attempt_ok [OF res]
  have frame: "completions db' = completions db" "certificates db' = certificates db" "next_id db \<le> next_id db'"
    using res by (auto simp: grant_extra_attempt_def ensure_def Let_def write_audit_event_def split: if_splits)
  have used: "attempts_used db' x y z = attempts_used db x y z" "attempt_numbers db' x y z = attempt_numbers db x y z"
    for x y z by (simp_all add: attempts_used_def attempt_numbers_def g(9))
  have mono: "granted_for db x y z \<le> granted_for db' x y z" for x y z
    using g(1) by (simp add: granted_for_after [OF res])
  have "within_entitlement db'"
    unfolding within_entitlement_def g(10) used
  proof (intro ballI allI)
    fix b q assume "b \<in> set (activities db)"
    then have "case act_max_attempts b of None \<Rightarrow> True | Some m \<Rightarrow> 0 \<le> m \<longrightarrow>
        int (attempts_used db (act_tenant b) q (act_id b)) \<le> m + granted_for db (act_tenant b) q (act_id b)"
      using ok by (simp add: journey_ok_def within_entitlement_def)
    with mono [of "act_tenant b" q "act_id b"]
    show "case act_max_attempts b of None \<Rightarrow> True | Some m \<Rightarrow> 0 \<le> m \<longrightarrow>
        int (attempts_used db (act_tenant b) q (act_id b)) \<le> m + granted_for db' (act_tenant b) q (act_id b)"
      by (auto split: option.splits)
  qed
  then show ?thesis
    using ok g(1,4,8,10) completions_ok_frame [OF frame]
    by (simp add: journey_ok_def used grants_positive_def)
qed

lemma journey_ok_override:
  assumes ok: "journey_ok db" and res: "override_score day db now t sid v m reason = Inr (db', sc)"
  shows "journey_ok db'"
proof -
  have c: "completions_ok db" using ok by (simp add: journey_ok_def)
  have same: "submissions db' = submissions db" "activities db' = activities db" "attempt_grants db' = attempt_grants db"
    using override_effect(1) [OF res c] by (simp_all add: ledger_core_def)
  have eqs: "attempts_used db' x y z = attempts_used db x y z" "attempt_numbers db' x y z = attempt_numbers db x y z"
    "granted_for db' x y z = granted_for db x y z" for x y z
    by (simp_all add: attempts_used_def attempt_numbers_def granted_for_def same)
  have "within_entitlement db' = within_entitlement db"
    unfolding within_entitlement_def same eqs by (rule refl)
  then show ?thesis
    using ok override_effect(2) [OF res c]
    by (simp add: journey_ok_def grants_positive_def eqs same)
qed

lemma journey_ok_step: "learner_step fm rd day db db' \<Longrightarrow> journey_ok db \<Longrightarrow> journey_ok db'"
  by (erule learner_stepE) (auto intro: journey_ok_submit journey_ok_grant journey_ok_override)

lemma journey_ok_reachable: "(learner_step fm rd day)\<^sup>*\<^sup>* db db' \<Longrightarrow> journey_ok db \<Longrightarrow> journey_ok db'"
  by (induction rule: rtranclp_induct) (auto intro: journey_ok_step)

text \<open>A step only adds attempts and grants, and an attempt above the ones already used stays within the limit.\<close>

lemma learner_step_frame:
  assumes "learner_step fm rd day db db'" "journey_ok db"
  shows "activities db' = activities db \<and> granted_for db t p x \<le> granted_for db' t p x
    \<and> attempts_used db t p x \<le> attempts_used db' t p x
    \<and> (a \<in> set (activities db) \<longrightarrow> act_tenant a = t \<longrightarrow> act_max_attempts a = Some m \<longrightarrow>
      int (attempts_used db' t p (act_id a)) \<le> max (int (attempts_used db t p (act_id a))) (m + granted_for db' t p (act_id a)))"
  using assms(1)
proof (cases rule: learner_step.cases)
  case (submit now u q b ans only r)
  obtain sub where room: "\<not> exhausted (for_learner db u q b (int (attempts_used db u q (act_id b))))"
    and sub: "submitted fm rd db u q b ans only db' r sub"
    by (rule submit_activity_ok [OF submit(1)]) (use assms(2) in \<open>simp_all add: journey_ok_def\<close>)
  have same: "activities db' = activities db" "granted_for db' y z w = granted_for db y z w" for y z w
    using sub by (simp_all add: submitted_def granted_for_def)
  have "a = b" if "a \<in> set (activities db)" "act_tenant a = u" "act_id a = act_id b"
    using that submit(2,3) assms(2) by (auto simp: journey_ok_def distinct_map dest: inj_onD)
  then show ?thesis
    using not_exhausted_room [OF room, of m] by (auto simp: same submitted_used [OF sub])
next
  case (grant u q b reason by' extra g)
  note g = grant_extra_attempt_ok [OF grant]
  show ?thesis using g(1) by (simp add: g(9,10) attempts_used_def granted_for_after [OF grant])
next
  case (override now u sid v n reason sc)
  have "completions_ok db" using assms(2) by (simp add: journey_ok_def)
  from override_effect(1) [OF override this]
  show ?thesis by (simp add: ledger_core_def attempts_used_def granted_for_def)
qed

lemma attempts_from_here:
  assumes "(learner_step fm rd day)\<^sup>*\<^sup>* db db'" "journey_ok db"
    and "a \<in> set (activities db)" "act_tenant a = t" "act_max_attempts a = Some m"
  shows "a \<in> set (activities db') \<and> granted_for db t p (act_id a) \<le> granted_for db' t p (act_id a)
    \<and> attempts_used db t p (act_id a) \<le> attempts_used db' t p (act_id a)
    \<and> int (attempts_used db' t p (act_id a)) \<le> max (int (attempts_used db t p (act_id a))) (m + granted_for db' t p (act_id a))"
  using assms(1)
proof (induction rule: rtranclp_induct)
  case base
  then show ?case using assms(3) by simp
next
  case (step y z)
  have ok: "journey_ok y" using journey_ok_reachable [OF step(1) assms(2)] .
  note frame = learner_step_frame [OF step(2) ok]
  show ?case
    using step(3) frame [of t p "act_id a" a m] assms(4,5) by auto
qed

section \<open>A sample store\<close>

text \<open>One learner, one two-question activity with a single attempt: the input of the witnesses.\<close>

definition sample_question :: "string \<Rightarrow> string \<Rightarrow> question_row" where
  "sample_question e correct =
     \<lparr>eq_ext_id = e, eq_category = None, eq_options = JArr [JStr ''a'', JStr ''b''],
      qu_tenant = 11, qu_bank = 5, qu_type = ''single'', qu_correct = JStr correct, qu_weight = 1\<rparr>"

definition sample_activity :: activity_row where
  "sample_activity = \<lparr>act_id = 3, act_tenant = 11, act_course = 2, act_chapter = Some 1,
     act_type = ''mcq_test'', act_bank = Some 5, act_title = ''Test'', act_pass_threshold = 1 / 2,
     act_max_attempts = Some 1, act_mode = ''graded'', act_grading = ''auto'', act_weight = 1,
     act_question_count = None\<rparr>"

definition sample_person :: person_row where
  "sample_person = \<lparr>pe_id = 7, pe_tenant = 11, pe_email = ''a@b'', pe_first_name = ''A'',
     pe_last_name = ''B'', pe_status = ''active'', pe_prefs = []\<rparr>"

definition sample_db :: academy_db where
  "sample_db = empty_db\<lparr>people := [sample_person],
     courses := [\<lparr>co_id = 2, co_tenant = 11, co_title = ''C'', co_status = ''published''\<rparr>],
     questions := [sample_question ''q1'' ''a'', sample_question ''q2'' ''b''],
     activities := [sample_activity], next_id := 100\<rparr>"

abbreviation no_match :: "string \<Rightarrow> string \<Rightarrow> bool option" where "no_match \<equiv> \<lambda>_ _. None"
abbreviation no_render :: "json \<Rightarrow> string" where "no_render \<equiv> \<lambda>_. []"

definition sample_answers :: answers where
  "sample_answers = [(''q1'', [JStr ''a'']), (''q2'', [JStr ''b''])]"

definition sample_submitted :: "(academy_db \<times> score_row option) result" where
  "sample_submitted = submit_activity no_match no_render id sample_db 50 11 7 sample_activity sample_answers None"

definition sample_after :: academy_db where
  "sample_after = (case sample_submitted of Inr (db, _) \<Rightarrow> db | Inl _ \<Rightarrow> sample_db)"

definition fresh_store :: "academy_db \<Rightarrow> bool" where
  "fresh_store db \<longleftrightarrow> submissions db = [] \<and> attempt_grants db = [] \<and> completions db = [] \<and> certificates db = []
     \<and> distinct (map (\<lambda>a. (act_tenant a, act_id a)) (activities db))"

lemma fresh_store_ok: "fresh_store db \<Longrightarrow> journey_ok db"
  by (auto simp: fresh_store_def journey_ok_def completions_ok_def within_entitlement_def grants_positive_def
      attempt_numbers_def attempts_used_def granted_for_def numbered_def split: option.splits)

lemma sample_fresh: "fresh_store sample_db"
  by (simp add: fresh_store_def sample_db_def empty_db_def)

lemma sample_activity_simps [simp]:
  "act_id sample_activity = 3" "act_tenant sample_activity = 11" "act_course sample_activity = 2"
  "act_type sample_activity = ''mcq_test''" "act_bank sample_activity = Some 5"
  "act_pass_threshold sample_activity = 1 / 2" "act_max_attempts sample_activity = Some 1"
  "act_mode sample_activity = ''graded''" "act_grading sample_activity = ''auto''"
  by (simp_all add: sample_activity_def)

lemma sample_db_tables [simp]:
  "submissions sample_db = []" "scores sample_db = []" "activities sample_db = [sample_activity]"
  "attempt_grants sample_db = []" "people sample_db = [sample_person]"
  by (simp_all add: sample_db_def empty_db_def)

lemma sample_questions:
  "questions_for sample_db 11 5 None = [question_view (sample_question ''q1'' ''a''), question_view (sample_question ''q2'' ''b'')]"
  by (simp add: questions_for_def bank_rows_def sample_db_def sample_question_def)

lemma sample_graded:
  "\<exists>g. grade_submission no_match no_render sample_answers
         [question_view (sample_question ''q1'' ''a''), question_view (sample_question ''q2'' ''b'')] (1 / 2) = Inr g
       \<and> gr_passed g \<and> gr_fraction g = 1"
  by (simp add: grade_submission_def sample_answers_def question_view_def sample_question_def grade_item_def
      is_correct_def expected_of_def Let_def)

lemma sample_after_submitted: "\<exists>r. sample_submitted = Inr (sample_after, r)"
proof -
  have "\<not> exhausted (for_learner sample_db 11 7 sample_activity (int (attempts_used sample_db 11 7 (act_id sample_activity))))"
    by (simp add: exhausted_def for_learner_def entitlement_def sample_activity_def granted_for_def
        sample_db_def empty_db_def attempts_used_def)
  moreover have "find (\<lambda>p. pe_tenant p = 11 \<and> pe_id p = 7) (people sample_db) = Some sample_person"
    by (simp add: sample_db_def sample_person_def)
  moreover have "activity_exists sample_db 11 (act_id sample_activity)"
    by (simp add: activity_exists_def sample_db_def sample_activity_def)
  ultimately have "\<exists>x. sample_submitted = Inr x"
    using sample_graded
    by (auto simp: sample_submitted_def submit_activity_def sample_questions Let_def case_prod_beta)
  then obtain d r where dr: "sample_submitted = Inr (d, r)" by force
  then have "sample_after = d" unfolding sample_after_def dr by simp
  with dr show ?thesis by blast
qed

lemma sample_step: "learner_step no_match no_render id sample_db sample_after"
proof -
  obtain r where r: "sample_submitted = Inr (sample_after, r)" using sample_after_submitted by blast
  show ?thesis
    by (rule submit [OF r [unfolded sample_submitted_def]]) (simp_all add: sample_db_def empty_db_def sample_activity_def)
qed

lemma sample_after_facts:
  obtains sub sc where "submissions sample_after = [sub]" "scores sample_after = [sc]"
    "activities sample_after = [sample_activity]" "attempt_grants sample_after = []"
    "sub_tenant sub = 11" "sub_person sub = 7" "sub_activity sub = 3" "sub_attempt_no sub = 1"
    "sc_tenant sc = 11" "sc_submission sc = sub_id sub" "sc_passed sc" "sc_fraction sc = 1" "sc_source sc = ''auto''"
    "0 < sc_max_score sc" "people sample_after = [sample_person]"
proof -
  obtain r where r: "sample_submitted = Inr (sample_after, r)" using sample_after_submitted by blast
  have ok: "completions_ok sample_db" using fresh_store_ok [OF sample_fresh] by (simp add: journey_ok_def)
  obtain sub where sub: "submitted no_match no_render sample_db 11 7 sample_activity sample_answers None sample_after r sub"
    by (rule submit_activity_ok [OF r [unfolded sample_submitted_def] ok])
  obtain g where g: "grade_submission no_match no_render sample_answers
      [question_view (sample_question ''q1'' ''a''), question_view (sample_question ''q2'' ''b'')] (1 / 2) = Inr g"
    "gr_passed g" "gr_fraction g = 1" using sample_graded by blast
  have pos: "0 < gr_max_score g" using grade_submission_parts(5) [OF g(1)] g(2) by blast
  show thesis
    by (cases r)
       (use that [of sub] sub g pos in
         \<open>auto simp: submitted_def sample_questions next_attempt_no_def coalesce_max_def\<close>)
qed

section \<open>Attempts\<close>

text \<open>C1. Along every sequence of submissions, grants and overrides starting from a store
  without submissions, no learner ever has more submissions on a capped activity than its
  \<open>max_attempts\<close> plus the extra attempts granted to that learner, and the attempt numbers
  of a learner on an activity are exactly 1, 2, 3 and so on, so the unique constraint on
  \<open>attempt_no\<close> is never hit.\<close>

theorem attempts_never_exceed_entitlement:
  assumes "fresh_store db" "(learner_step fm rd day)\<^sup>*\<^sup>* db db'"
    and "a \<in> set (activities db')" "act_max_attempts a = Some m" "0 \<le> m"
  shows "int (attempts_used db' (act_tenant a) p (act_id a)) \<le> m + granted_for db' (act_tenant a) p (act_id a)
    \<and> attempt_numbers db' t q x = [1..<Suc (attempts_used db' t q x)]"
proof -
  have ok: "journey_ok db'"
    using journey_ok_reachable [OF assms(2) fresh_store_ok [OF assms(1)]] .
  then have "case act_max_attempts a of None \<Rightarrow> True | Some m \<Rightarrow> 0 \<le> m \<longrightarrow>
      int (attempts_used db' (act_tenant a) p (act_id a)) \<le> m + granted_for db' (act_tenant a) p (act_id a)"
    using assms(3) by (simp add: journey_ok_def within_entitlement_def)
  with ok assms(4,5) show ?thesis by (simp add: journey_ok_def numbered_def)
qed

theorem attempts_never_exceed_entitlement_witness:
  "(learner_step no_match no_render id)\<^sup>*\<^sup>* sample_db sample_after
   \<and> int (attempts_used sample_after 11 7 3) \<le> 1 + granted_for sample_after 11 7 3
   \<and> attempts_used sample_after 11 7 3 = 1"
proof -
  have path: "(learner_step no_match no_render id)\<^sup>*\<^sup>* sample_db sample_after"
    using sample_step by (rule r_into_rtranclp)
  obtain sub where s: "activities sample_after = [sample_activity]" "submissions sample_after = [sub]"
    "sub_tenant sub = 11" "sub_person sub = 7" "sub_activity sub = 3"
    by (rule sample_after_facts) blast
  from attempts_never_exceed_entitlement [OF sample_fresh path, of sample_activity 1 7] s(1)
  show ?thesis using path s by (simp add: attempts_used_def)
qed

text \<open>A successful submission uses exactly one attempt of that learner on that activity and
  of nobody else's; when no attempt is left the submission is refused with a conflict and
  nothing is stored.\<close>

theorem submission_uses_one_attempt:
  assumes "completions_ok db"
  shows "(case submit_activity fm rd day db now t p a ans only of
      Inr (db', r) \<Rightarrow>
        (\<forall>t' p' x. attempts_used db' t' p' x =
            attempts_used db t' p' x + (if t' = t \<and> p' = p \<and> x = act_id a then 1 else 0))
        \<and> \<not> exhausted (for_learner db t p a (int (attempts_used db t p (act_id a))))
        \<and> attempt_grants db' = attempt_grants db
    | Inl e \<Rightarrow> True)
    \<and> (act_type a = ''mcq_test'' \<longrightarrow> person_exists db t p \<longrightarrow>
        exhausted (for_learner db t p a (int (attempts_used db t p (act_id a)))) \<longrightarrow>
        submit_activity fm rd day db now t p a ans only = Inl (ConflictError ''No attempts remaining.''))"
proof (intro conjI impI)
  show "case submit_activity fm rd day db now t p a ans only of
      Inr (db', r) \<Rightarrow>
        (\<forall>t' p' x. attempts_used db' t' p' x =
            attempts_used db t' p' x + (if t' = t \<and> p' = p \<and> x = act_id a then 1 else 0))
        \<and> \<not> exhausted (for_learner db t p a (int (attempts_used db t p (act_id a))))
        \<and> attempt_grants db' = attempt_grants db
    | Inl e \<Rightarrow> True"
  proof (cases "submit_activity fm rd day db now t p a ans only")
    case (Inr x)
    obtain db' r where x: "x = (db', r)" by (cases x)
    obtain sub where "\<not> exhausted (for_learner db t p a (int (attempts_used db t p (act_id a))))"
      and sub: "submitted fm rd db t p a ans only db' r sub"
      by (rule submit_activity_ok [OF Inr [unfolded x] assms])
    moreover have "attempt_grants db' = attempt_grants db" using sub by (simp add: submitted_def)
    ultimately show ?thesis using Inr submitted_used [OF sub] by (simp add: x)
  qed simp
next
  assume "act_type a = ''mcq_test''" "person_exists db t p"
    "exhausted (for_learner db t p a (int (attempts_used db t p (act_id a))))"
  then show "submit_activity fm rd day db now t p a ans only = Inl (ConflictError ''No attempts remaining.'')"
    by (auto simp: submit_activity_def Let_def person_exists_def list_ex_iff find_None_iff split: option.splits)
qed

theorem submission_uses_one_attempt_witness:
  "submit_activity no_match no_render id sample_after 60 11 7 sample_activity sample_answers None
     = Inl (ConflictError ''No attempts remaining.'')"
proof -
  have "completions_ok sample_after"
    using journey_ok_step [OF sample_step fresh_store_ok [OF sample_fresh]] by (simp add: journey_ok_def)
  note refused = submission_uses_one_attempt [where t = 11 and p = 7 and a = sample_activity and fm = no_match
      and rd = no_render and day = id and now = 60 and ans = sample_answers and only = None, OF this, THEN conjunct2]
  obtain sub where s: "submissions sample_after = [sub]" "sub_tenant sub = 11" "sub_person sub = 7"
    "sub_activity sub = 3" "attempt_grants sample_after = []" by (rule sample_after_facts) blast
  have "people sample_after = [sample_person]" by (rule sample_after_facts)
  then have "person_exists sample_after 11 7" by (simp add: person_exists_def sample_person_def)
  with refused s show ?thesis
    by (simp add: exhausted_def for_learner_def entitlement_def attempts_used_def granted_for_def)
qed

section \<open>Score of record\<close>

text \<open>C4. The score of record of an activity is the maximum, in the order fraction, passed,
  override, recency, of the scores the learner holds on it; there is one exactly when the
  learner holds a score, and each activity has one entry.\<close>

theorem score_of_record_is_maximum:
  "(case map_of (best_scores_for db t p c) k of
      None \<Rightarrow> k \<notin> fst ` set (course_scores db t p c)
    | Some b \<Rightarrow> (k, b) \<in> set (course_scores db t p c)
        \<and> (\<forall>sc. (k, sc) \<in> set (course_scores db t p c) \<longrightarrow> score_rank sc \<le> score_rank b))
   \<and> distinct (map fst (best_scores_for db t p c))"
  using best_scores_for_spec [of db t p c k] distinct_best_scores_for
  by (auto simp: best_in_def split: option.splits)

theorem score_of_record_is_maximum_witness:
  "\<exists>b. map_of (best_scores_for sample_after 11 7 2) 3 = Some b \<and> sc_fraction b = 1"
proof -
  obtain sub sc where s: "submissions sample_after = [sub]" "scores sample_after = [sc]"
    "activities sample_after = [sample_activity]" "sub_tenant sub = 11" "sub_person sub = 7" "sub_activity sub = 3"
    "sc_tenant sc = 11" "sc_submission sc = sub_id sub" "sc_fraction sc = 1" by (rule sample_after_facts) blast
  then have "set (course_scores sample_after 11 7 2) = {(3, sc)}" by (auto simp: set_course_scores)
  with score_of_record_is_maximum [where db = sample_after and t = 11 and p = 7 and c = 2 and k = 3] s(9) show ?thesis
    by (auto split: option.splits)
qed

definition holds_score :: "academy_db \<Rightarrow> uuid \<Rightarrow> uuid \<Rightarrow> uuid \<Rightarrow> uuid \<Rightarrow> score_row \<Rightarrow> activity_row \<Rightarrow> submission_row \<Rightarrow> bool" where
  "holds_score db t p c k x b s \<longleftrightarrow> b \<in> set (activities db) \<and> act_id b = k \<and> s \<in> set (submissions db) \<and> x \<in> set (scores db)
     \<and> sub_activity s = act_id b \<and> sub_tenant s = act_tenant b \<and> sc_submission x = sub_id s
     \<and> sc_tenant x = sub_tenant s \<and> act_tenant b = t \<and> sub_person s = p \<and> act_course b = c"

lemma course_scores_mem: "(k, x) \<in> set (course_scores db t p c) \<longleftrightarrow> (\<exists>b s. holds_score db t p c k x b s)"
  unfolding set_course_scores holds_score_def by blast

lemma course_scores_mono:
  assumes "set (submissions db) \<subseteq> set (submissions db')" "set (scores db) \<subseteq> set (scores db')" "activities db' = activities db"
  shows "set (course_scores db t p c) \<subseteq> set (course_scores db' t p c)"
proof -
  have "holds_score db t p c k x b s \<Longrightarrow> holds_score db' t p c k x b s" for k x b s
    using assms by (auto simp: holds_score_def)
  then show ?thesis by (auto simp: subset_iff course_scores_mem) blast
qed

lemma grade_submission_judged:
  assumes "grade_submission fm rd ans qs thr = Inr g" "\<forall>q \<in> set qs. 0 \<le> gq_weight q"
    and "sc_passed sc = gr_passed g" "sc_fraction sc = gr_fraction g" "sc_max_score sc = gr_max_score g"
  shows "judged_by thr sc"
proof -
  note g = grade_submission_parts [OF assms(1)]
  have "0 \<le> gr_max_score g" unfolding g(3) using assms(2) by (intro sum_list_nonneg) auto
  then show ?thesis using g(4,5) assms(3-5) by (auto simp: judged_by_def)
qed

text \<open>Primary keys are fresh and every score refers to a stored submission.\<close>

definition score_keys_ok :: "academy_db \<Rightarrow> bool" where
  "score_keys_ok db \<longleftrightarrow> (\<forall>s \<in> set (submissions db). sub_id s < next_id db)
     \<and> (\<forall>sc \<in> set (scores db). sc_submission sc \<in> sub_id ` set (submissions db))"

lemma course_scores_after_submit:
  assumes sub: "submitted fm rd db t p a ans only db' r sub" and keys: "score_keys_ok db"
    and x: "(k, x) \<in> set (course_scores db' t' p' c)"
  shows "(k, x) \<in> set (course_scores db t' p' c) \<or> r = Some x"
proof -
  obtain b s where s: "holds_score db' t' p' c k x b s" using x unfolding course_scores_mem by blast
  show ?thesis
  proof (cases "x \<in> set (scores db)")
    case True
    then have "sc_submission x < next_id db" using keys by (auto simp: score_keys_ok_def)
    then have "holds_score db t' p' c k x b s" using s True sub by (auto simp: submitted_def holds_score_def)
    then show ?thesis unfolding course_scores_mem by blast
  next
    case False
    then show ?thesis using s sub by (auto simp: submitted_def holds_score_def split: option.splits)
  qed
qed

lemma submitted_score_judged:
  assumes "submitted fm rd db t p a ans only db' (Some x) sub" "\<forall>q \<in> set (questions db). 0 \<le> qu_weight q"
  shows "judged_by (act_pass_threshold a) x"
proof -
  obtain g where g: "grade_submission fm rd ans (case act_bank a of None \<Rightarrow> [] | Some b \<Rightarrow> questions_for db t b only)
      (act_pass_threshold a) = Inr g"
    "sc_passed x = gr_passed g" "sc_fraction x = gr_fraction g" "sc_max_score x = gr_max_score g"
    using assms(1) by (auto simp: submitted_def)
  show ?thesis
    by (rule grade_submission_judged [OF g(1) _ g(2-4)])
       (use assms(2) in \<open>auto simp: questions_for_def bank_rows_def question_view_def Let_def split: option.splits\<close>)
qed

text \<open>Passing is sticky: once a learner has passed an activity whose scores were all judged
  against its threshold, the score of record still passes after any further submission of
  that learner on it, however badly it went.\<close>

theorem passing_is_sticky:
  assumes "completions_ok db" "score_keys_ok db" "\<forall>q \<in> set (questions db). 0 \<le> qu_weight q" "0 \<le> act_pass_threshold a"
    and "\<forall>x. (act_id a, x) \<in> set (course_scores db t p (act_course a)) \<longrightarrow> judged_by (act_pass_threshold a) x"
    and "(act_id a, sc) \<in> set (course_scores db t p (act_course a))" "sc_passed sc"
    and "submit_activity fm rd day db now t p a ans only = Inr (db', r)"
  shows "\<exists>b. map_of (best_scores_for db' t p (act_course a)) (act_id a) = Some b \<and> sc_passed b"
proof -
  let ?c = "act_course a"
  obtain sub where sub: "submitted fm rd db t p a ans only db' r sub"
    by (rule submit_activity_ok [OF assms(8,1)])
  have held: "(act_id a, sc) \<in> set (course_scores db' t p ?c)"
    using course_scores_mono [of db db' t p ?c] assms(6) sub
    by (auto simp: submitted_def split: option.splits)
  have judged: "judged_by (act_pass_threshold a) x" if "(act_id a, x) \<in> set (course_scores db' t p ?c)" for x
    using course_scores_after_submit [OF sub assms(2) that] assms(5) submitted_score_judged [OF _ assms(3)] sub by blast
  obtain b where b: "map_of (best_scores_for db' t p ?c) (act_id a) = Some b"
    using best_scores_for_spec [of db' t p ?c "act_id a"] held
    by (cases "map_of (best_scores_for db' t p ?c) (act_id a)") (force simp: best_in_def)+
  with best_passes [OF b held assms(7) judged assms(4)] show ?thesis by blast
qed

text \<open>A learner who passed once and hands in a blank retake.\<close>

definition retake_activity :: activity_row where
  "retake_activity = sample_activity\<lparr>act_max_attempts := None\<rparr>"

definition retake_submission :: submission_row where
  "retake_submission = \<lparr>sub_id = 20, sub_tenant = 11, sub_activity = 3, sub_person = 7,
     sub_answers = Answered sample_answers, sub_attempt_no = 1, sub_created_at = 40\<rparr>"

definition retake_score :: score_row where
  "retake_score = \<lparr>sc_id = 21, sc_tenant = 11, sc_submission = 20, sc_score = 2, sc_max_score = 2,
     sc_fraction = 1, sc_passed = True, sc_per_item = Items [], sc_source = ''auto'',
     sc_override_reason = None, sc_created_at = 40\<rparr>"

definition retake_db :: academy_db where
  "retake_db = sample_db\<lparr>activities := [retake_activity], submissions := [retake_submission], scores := [retake_score]\<rparr>"

lemma retake_simps [simp]:
  "act_id retake_activity = 3" "act_tenant retake_activity = 11" "act_course retake_activity = 2"
  "act_type retake_activity = ''mcq_test''" "act_bank retake_activity = Some 5"
  "act_pass_threshold retake_activity = 1 / 2" "act_max_attempts retake_activity = None"
  "act_grading retake_activity = ''auto''"
  "submissions retake_db = [retake_submission]" "scores retake_db = [retake_score]"
  "activities retake_db = [retake_activity]" "people retake_db = [sample_person]"
  "questions retake_db = questions sample_db" "next_id retake_db = 100"
  by (simp_all add: retake_activity_def retake_db_def) (simp_all add: sample_db_def)

lemma retake_submits:
  "\<exists>x. submit_activity no_match no_render id retake_db 60 11 7 retake_activity [] None = Inr x"
proof -
  have qs: "questions_for retake_db 11 5 None = [question_view (sample_question ''q1'' ''a''), question_view (sample_question ''q2'' ''b'')]"
    using sample_questions by (simp add: questions_for_def bank_rows_def)
  have "\<exists>g. grade_submission no_match no_render []
         [question_view (sample_question ''q1'' ''a''), question_view (sample_question ''q2'' ''b'')] (1 / 2) = Inr g"
    by (simp add: grade_submission_def question_view_def sample_question_def grade_item_def
        is_correct_def expected_of_def Let_def)
  moreover have "\<not> exhausted (for_learner retake_db 11 7 retake_activity n)" for n
    by (simp add: exhausted_def for_learner_def entitlement_def)
  moreover have "find (\<lambda>p. pe_tenant p = 11 \<and> pe_id p = 7) (people retake_db) = Some sample_person"
    by (simp add: sample_person_def)
  moreover have "activity_exists retake_db 11 3" by (simp add: activity_exists_def)
  ultimately show ?thesis
    by (auto simp: submit_activity_def qs Let_def case_prod_beta)
qed

theorem passing_is_sticky_witness:
  "\<exists>db' r b. submit_activity no_match no_render id retake_db 60 11 7 retake_activity [] None = Inr (db', r)
     \<and> map_of (best_scores_for db' 11 7 2) 3 = Some b \<and> sc_passed b"
proof -
  obtain db' r where res: "submit_activity no_match no_render id retake_db 60 11 7 retake_activity [] None = Inr (db', r)"
    using retake_submits by force
  have scores: "(k, x) \<in> set (course_scores retake_db 11 7 2) \<longleftrightarrow> k = 3 \<and> x = retake_score" for k x
    by (auto simp: set_course_scores retake_submission_def retake_score_def)
  have "completions_ok retake_db" by (simp add: completions_ok_def retake_db_def sample_db_def empty_db_def)
  moreover have "score_keys_ok retake_db"
    by (simp add: score_keys_ok_def retake_submission_def retake_score_def)
  moreover have "\<forall>q \<in> set (questions retake_db). 0 \<le> qu_weight q" by (simp add: sample_db_def sample_question_def)
  ultimately have "\<exists>b. map_of (best_scores_for db' 11 7 (act_course retake_activity)) (act_id retake_activity) = Some b \<and> sc_passed b"
    by (rule passing_is_sticky [OF _ _ _ _ _ _ _ res, of retake_score])
       (auto simp: scores judged_by_def retake_score_def)
  with res show ?thesis by auto
qed

definition pass_at_half :: score_row where
  "pass_at_half = retake_score\<lparr>sc_fraction := 3 / 5, sc_score := 6, sc_max_score := 10, sc_passed := True\<rparr>"

definition miss_at_four_fifths :: score_row where
  "miss_at_four_fifths = retake_score\<lparr>sc_id := 23, sc_submission := 22, sc_fraction := 7 / 10, sc_score := 7,
     sc_max_score := 10, sc_passed := False\<rparr>"

text \<open>Passing is sticky only while the threshold stands: when the instructor raises the
  activity's \<open>pass_threshold\<close> after a learner passed, a later and higher-scoring retake that
  misses the new threshold becomes the score of record and un-passes the learner.\<close>

theorem raised_threshold_unpasses:
  "let db1 = retake_db\<lparr>scores := [pass_at_half]\<rparr>;
       db2 = db1\<lparr>activities := [retake_activity\<lparr>act_pass_threshold := 4 / 5\<rparr>],
                 submissions := [retake_submission, retake_submission\<lparr>sub_id := 22, sub_attempt_no := 2\<rparr>],
                 scores := [pass_at_half, miss_at_four_fifths]\<rparr>
   in judged_by (1 / 2) pass_at_half \<and> judged_by (4 / 5) miss_at_four_fifths
      \<and> best_scores_for db1 11 7 2 = [(3, pass_at_half)] \<and> sc_passed pass_at_half
      \<and> best_scores_for db2 11 7 2 = [(3, miss_at_four_fifths)] \<and> \<not> sc_passed miss_at_four_fifths"
  by (simp add: judged_by_def best_scores_for_def score_query_def score_join_def keep_best_def score_rank_def
      pass_at_half_def miss_at_four_fifths_def retake_score_def retake_submission_def less_prod_def)

end
