(* ===== verification/Exam_Properties.thy ===== *)
theory Exam_Properties
  imports Exam_Engine Grading
begin

text \<open>
  What a sitter is served and how it is judged: the shape and reproducibility of the drawn
  paper, the order of the options, the validity gate and the grader.
\<close>

section \<open>The drawn paper\<close>

definition in_category :: "string \<Rightarrow> ('a exam_question_scheme) \<Rightarrow> bool" where
  "in_category c q = (category_of q = c)"

definition sample_bank :: "exam_question list" where
  "sample_bank =
     [\<lparr>eq_ext_id = ''n1'', eq_category = Some ''num'', eq_options = JNull\<rparr>,
      \<lparr>eq_ext_id = ''n2'', eq_category = Some ''num'', eq_options = JNull\<rparr>,
      \<lparr>eq_ext_id = ''s1'', eq_category = Some ''safety'', eq_options = JNull\<rparr>]"

text \<open>The paper drawn for a sitter is a part of the bank of the promised shape: per category
  the requested number of questions or all there are, in total the requested number or all,
  and the whole bank when neither is asked for.\<close>

theorem select_shape:
  "mset (select hex sid qs p v) \<subseteq># mset qs
   \<and> (per_category p \<noteq> 0 \<longrightarrow>
        count_rows (in_category c) (select hex sid qs p v) = min (per_category p) (count_rows (in_category c) qs))
   \<and> (per_category p = 0 \<and> total p \<noteq> 0 \<longrightarrow> length (select hex sid qs p v) = min (total p) (length qs))
   \<and> (per_category p = 0 \<and> total p = 0 \<longrightarrow> mset (select hex sid qs p v) = mset qs)"
proof (intro conjI impI)
  show "mset (select hex sid qs p v) \<subseteq># mset qs" by (simp add: mset_chosen)
next
  assume "per_category p \<noteq> 0"
  moreover have "count_rows (in_category c) (select hex sid qs p v)
      = count_rows (in_category c) (chosen_questions hex sid qs p v)"
    by (rule count_rows_mset) simp
  ultimately show "count_rows (in_category c) (select hex sid qs p v) = min (per_category p) (count_rows (in_category c) qs)"
    using count_chosen_category [of p c hex sid qs v] by (simp add: in_category_def [abs_def])
next
  assume "per_category p = 0 \<and> total p \<noteq> 0"
  then show "length (select hex sid qs p v) = min (total p) (length qs)"
    by (simp add: select_def chosen_questions_def min.commute)
next
  assume "per_category p = 0 \<and> total p = 0"
  then show "mset (select hex sid qs p v) = mset qs"
    by (simp add: chosen_questions_def)
qed

theorem select_shape_witness:
  "count_rows (in_category ''num'') (select id ''7'' sample_bank \<lparr>per_category = 1, total = 0\<rparr> '''') = 1"
proof -
  have "count_rows (in_category ''num'') sample_bank = 2" by (simp add: sample_bank_def in_category_def category_of_def or_none_def)
  with select_shape [THEN conjunct2, THEN conjunct1, of "\<lparr>per_category = 1, total = 0\<rparr>" "''num''" id "''7''" sample_bank "''''"]
  show ?thesis by simp
qed

lemma draw_group_mset:
  assumes m: "mset g = mset g'" and inj: "inj_on (\<lambda>q. rank hex sid v (eq_ext_id q)) (set g)"
  shows "mset (draw_group hex sid v n g) = mset (draw_group hex sid v n g')"
proof -
  have "length g = length g'" using m by (metis size_mset)
  then show ?thesis using m rank_questions_cong [OF m inj] by (simp add: draw_group_def)
qed

lemma chosen_mset_cong:
  assumes m: "mset qs = mset qs'" and inj: "inj_on (\<lambda>q. rank hex sid v (eq_ext_id q)) (set qs)"
  shows "mset (chosen_questions hex sid qs p v) = mset (chosen_questions hex sid qs' p v)"
proof (cases "per_category p = 0")
  case True
  then show ?thesis using m rank_questions_cong [OF m inj] by (simp add: chosen_questions_def)
next
  case False
  let ?grp = "\<lambda>qs c. case map_of (group_by_category qs) c of None \<Rightarrow> [] | Some g \<Rightarrow> g"
  have grp: "mset (?grp xs c) = mset (filter (\<lambda>q. category_of q = c) xs)" for xs :: "'a exam_question_scheme list" and c
    using well_grouped_filter [OF group_by_category_well, of c xs, symmetric] group_by_category_mset [of xs]
    by (simp only: mset_filter)
  show ?thesis
  proof (rule multiset_eqI)
    fix x :: "'a exam_question_scheme"
    let ?c = "category_of x"
    have "mset (?grp qs ?c) = mset (?grp qs' ?c)" by (simp add: grp m)
    moreover have "set (?grp qs ?c) \<subseteq> set qs" using grp [of qs ?c] by (metis filter_is_subset mset_eq_setD)
    ultimately have "mset (draw_group hex sid v (per_category p) (?grp qs ?c))
        = mset (draw_group hex sid v (per_category p) (?grp qs' ?c))"
      using inj by (intro draw_group_mset) (auto intro: inj_on_subset)
    then have "mset (filter (\<lambda>q. category_of q = ?c) (chosen_questions hex sid qs p v))
        = mset (filter (\<lambda>q. category_of q = ?c) (chosen_questions hex sid qs' p v))"
      by (simp only: filter_chosen_category [OF False])
    then have "count (filter_mset (\<lambda>q. category_of q = ?c) (mset (chosen_questions hex sid qs p v))) x
        = count (filter_mset (\<lambda>q. category_of q = ?c) (mset (chosen_questions hex sid qs' p v))) x"
      by (simp only: mset_filter)
    then show "count (mset (chosen_questions hex sid qs p v)) x = count (mset (chosen_questions hex sid qs' p v)) x"
      by simp
  qed
qed

text \<open>The draw is reproducible: grading rebuilds the paper a sitter was shown, question by
  question and in the same order, from the same bank in whatever order the database returns
  its rows, as long as the digest does not collide on the bank.\<close>

theorem select_is_reproducible:
  assumes "mset qs = mset qs'" "no_collision hex sid v qs" "no_collision hex sid (v @ ''order:'') qs"
  shows "select hex sid qs p v = select hex sid qs' p v"
proof -
  have "mset (chosen_questions hex sid qs p v) = mset (chosen_questions hex sid qs' p v)"
    by (rule chosen_mset_cong [OF assms(1) no_collision_inj [OF assms(2)]])
  moreover have "set (chosen_questions hex sid qs p v) \<subseteq> set qs"
    using mset_chosen [of hex sid qs p v] by (metis mset_subset_eqD set_mset_mset subsetI)
  ultimately show ?thesis
    unfolding select_def
    by (intro rank_questions_cong) (auto intro: inj_on_subset no_collision_inj [OF assms(3)])
qed

theorem select_is_reproducible_witness:
  "select id ''7'' sample_bank \<lparr>per_category = 1, total = 0\<rparr> ''''
   = select id ''7'' (rev sample_bank) \<lparr>per_category = 1, total = 0\<rparr> ''''"
  by (rule select_is_reproducible) (simp_all add: no_collision_def sample_bank_def rank_def)

lemma mset_swap_at: "i < length xs \<Longrightarrow> j < length xs \<Longrightarrow> mset (swap_at i j xs) = mset xs"
  by (simp add: swap_at_def mset_swap)

lemma mset_shuffle_from:
  assumes "\<forall>n > 0. draw n < n"
  shows "i < length xs \<or> i = 0 \<Longrightarrow> mset (shuffle_from draw i xs) = mset xs"
proof (induction i arbitrary: xs)
  case (Suc i)
  have "draw (Suc (Suc i)) < Suc (Suc i)" using assms by blast
  with Suc.prems have "mset (swap_at (Suc i) (draw (Suc (Suc i))) xs) = mset xs"
    by (intro mset_swap_at) auto
  with Suc show ?case by (simp add: swap_at_def)
qed simp

text \<open>The options a sitter sees are exactly the options of the question, each as often as
  the author wrote it: the shuffle is a permutation for every generator whose draw below n
  is below n.\<close>

theorem present_options_permutes:
  assumes "\<forall>seed len n. 0 < n \<longrightarrow> randbelow seed len n < n"
  shows "mset (present_options hex randbelow sid q) = mset (options_list q)"
  unfolding present_options_def Let_def shuffle_with_def
  by (rule mset_shuffle_from) (use assms in \<open>auto simp: less_Suc_eq_0_disj\<close>)

theorem present_options_permutes_witness:
  "mset (present_options id (\<lambda>_ _ n. n div 2) ''7''
     \<lparr>eq_ext_id = ''n1'', eq_category = None, eq_options = JArr [JInt 1, JInt 2, JInt 3]\<rparr>)
   = {#JInt 1, JInt 2, JInt 3#}"
  by (subst present_options_permutes) (simp_all add: options_list_def)

section \<open>The validity gate\<close>

lemma option_chances_pos: "x \<in> set (option_chances qs) \<Longrightarrow> 0 < x"
  by (auto simp: option_chances_def split: json.splits if_splits)

lemma chance_baseline_pos: "0 < chance_baseline qs"
proof (cases "option_chances qs = []")
  case False
  have "0 < sum_list xs" if "xs \<noteq> []" "\<forall>x \<in> set xs. 0 < x" for xs :: "rat list"
    using that by (induction xs) (auto simp: sum_list_nonneg add_pos_nonneg less_imp_le)
  then have "0 < sum_list (option_chances qs)" using False option_chances_pos by blast
  with False show ?thesis by (simp add: chance_baseline_def Let_def)
qed (simp add: chance_baseline_def MIN_VALID_FRACTION_def NEAR_CHANCE_MARGIN_def)

text \<open>A sitting counts as valid exactly when its score clears the near-chance floor of the
  served paper and its duration is known and at least twelve seconds per question (a third
  and six minutes when the paper is unknown); a valid score is strictly above what guessing
  the served paper yields, and every refusal names its reason.\<close>

theorem check_validity_gate:
  "(fst (check_validity f d qs) \<longleftrightarrow>
      f > (if qs \<noteq> [] then near_chance_floor qs else 1 / 3) + 1 / 10 ^ 9
      \<and> (\<exists>s. d = Some s \<and> s \<ge> (if qs \<noteq> [] then 12 * rat_of_nat (length qs) else 360)))
   \<and> (fst (check_validity f d qs) \<longrightarrow> qs \<noteq> [] \<longrightarrow> chance_baseline qs < f)
   \<and> (snd (check_validity f d qs) = None \<longleftrightarrow> fst (check_validity f d qs))"
proof -
  have "near_chance_floor qs > chance_baseline qs"
    using chance_baseline_pos [of qs] by (simp add: near_chance_floor_def NEAR_CHANCE_MARGIN_def)
  then show ?thesis
    by (auto simp: check_validity_def Let_def duration_floor_def SECONDS_PER_QUESTION_def MIN_VALID_FRACTION_def
        MIN_DURATION_SECONDS_def mult.commute not_le not_less split: option.splits)
qed

theorem check_validity_gate_witness:
  "fst (check_validity (1 / 2) (Some 400) ([] :: exam_question list))"
  using check_validity_gate [of "1 / 2" "Some 400" "[] :: exam_question list"] by simp

section \<open>The grader\<close>

text \<open>The grader is sound: with non-negative weights the score lies between zero and the
  maximum, the fraction between zero and one, the maximum is the sum of the weights, the score
  the sum of the weights answered correctly, and the sitting passes exactly when there is
  something to score and the fraction reaches the threshold.\<close>

theorem grade_submission_sound:
  assumes "grade_submission fm rd ans qs t = Inr r" "\<forall>q \<in> set qs. 0 \<le> gq_weight q"
  shows "0 \<le> gr_score r \<and> gr_score r \<le> gr_max_score r \<and> 0 \<le> gr_fraction r \<and> gr_fraction r \<le> 1
    \<and> gr_max_score r = sum_list (map (\<lambda>q. rat_of_int (gq_weight q)) qs)
    \<and> gr_score r = sum_list (map (\<lambda>it. if it_correct it then rat_of_int (it_weight it) else 0) (gr_per_item r))
    \<and> map it_id (gr_per_item r) = map gq_ext_id qs
    \<and> (gr_passed r \<longleftrightarrow> gr_max_score r > 0 \<and> gr_fraction r \<ge> t)"
proof -
  note g = grade_submission_parts [OF assms(1)]
  have pts: "0 \<le> gr_score r" "gr_score r \<le> gr_max_score r"
    using points_le_weights [OF g(1)] assms(2) by (auto simp: g(2,3))
  have ids: "map it_id (gr_per_item r) = map gq_ext_id qs"
    using g(1) by (induction rule: list_all2_induct) (auto simp: grade_item_fields(1))
  have "0 \<le> gr_fraction r \<and> gr_fraction r \<le> 1"
    using pts by (auto simp: g(4) divide_le_eq)
  with pts ids g show ?thesis by (simp add: item_points_def [abs_def])
qed

theorem grade_submission_sound_witness:
  "\<exists>r. grade_submission (\<lambda>_ _. None) (\<lambda>_. []) [(''q'', [JStr ''a''])]
          [\<lparr>gq_ext_id = ''q'', gq_type = ''single'', gq_correct = JStr ''a'', gq_weight = 2, gq_options = JNull\<rparr>] (1 / 2) = Inr r
     \<and> gr_score r \<le> gr_max_score r \<and> gr_passed r"
proof -
  let ?qs = "[\<lparr>gq_ext_id = ''q'', gq_type = ''single'', gq_correct = JStr ''a'', gq_weight = 2, gq_options = JNull\<rparr>]"
  have "\<exists>r. grade_submission (\<lambda>_ _. None) (\<lambda>_. []) [(''q'', [JStr ''a''])] ?qs (1 / 2) = Inr r \<and> gr_fraction r = 1"
    by (simp add: grade_submission_def grade_item_def is_correct_def expected_of_def Let_def)
  then obtain r where r: "grade_submission (\<lambda>_ _. None) (\<lambda>_. []) [(''q'', [JStr ''a''])] ?qs (1 / 2) = Inr r" "gr_fraction r = 1"
    by blast
  with grade_submission_sound [OF r(1)] show ?thesis by auto
qed

end
