(* ===== verification/Entitlements.thy ===== *)
theory Entitlements
  imports Ledgers
begin

text \<open>
  \<open>services/entitlements.py\<close> and \<open>services/pacing.py\<close>: which courses a person may see,
  start and submit to. A dictionary is an association list in insertion order.
\<close>

record access_state =
  as_course :: uuid
  as_locked :: bool
  as_reason :: "string option"
  as_until :: "uuid option"

type_synonym entitled_row = "uuid \<times> uuid option \<times> int option \<times> string"

definition course_lock_reason :: "string option \<Rightarrow> string \<Rightarrow> string" where
  "course_lock_reason title fallback =
     (case or_none title of
        None \<Rightarrow> fallback
      | Some t \<Rightarrow> ''Complete \"'' @ t @ ''\" to unlock this course.'')"

text \<open>The join shared by the entitlement queries: offering, enrollment, course, optional track course.\<close>

definition entitlement_join ::
    "academy_db \<Rightarrow> uuid \<Rightarrow> uuid \<Rightarrow> (offering_row \<times> enrollment_row \<times> course_row \<times> track_course_row option) list" where
  "entitlement_join db tenant person =
     [(o', e, c, tc). o' \<leftarrow> offerings db, e \<leftarrow> enrollments db, c \<leftarrow> courses db,
        tc \<leftarrow> (let ts = filter (\<lambda>x. tc_tenant x = en_tenant e \<and> Some (tc_track x) = en_track e
                              \<and> tc_course x = of_course o') (track_courses db)
              in if ts = [] then [None] else map Some ts),
        en_cohort e = of_cohort o' \<and> en_tenant e = of_tenant o'
        \<and> co_id c = of_course o' \<and> co_tenant c = of_tenant o'
        \<and> of_tenant o' = tenant \<and> of_status o' = ''active''
        \<and> (co_status c = ''published'' \<or> co_status c = ''completed'')
        \<and> en_person e = person \<and> en_status e = ''active''
        \<and> (en_track e = None \<or> tc \<noteq> None)]"

definition null_last :: "'a::zero option \<Rightarrow> nat \<times> 'a" where
  "null_last x = (case x of None \<Rightarrow> (1, 0) | Some y \<Rightarrow> (0, y))"

definition entitled_course_rows :: "academy_db \<Rightarrow> uuid \<Rightarrow> uuid \<Rightarrow> entitled_row list" where
  "entitled_course_rows db tenant person =
     sort_key (\<lambda>(c, t, i, title). (null_last t, null_last i, title))
       (remdups (map (\<lambda>(o', e, c, tc). (of_course o', en_track e, map_option tc_order_index tc, co_title c))
                     (entitlement_join db tenant person)))"

definition visible_course_ids :: "academy_db \<Rightarrow> uuid \<Rightarrow> uuid \<Rightarrow> uuid set" where
  "visible_course_ids db tenant person = fst ` set (entitled_course_rows db tenant person)"

definition completed_courses :: "academy_db \<Rightarrow> uuid \<Rightarrow> uuid \<Rightarrow> uuid list" where
  "completed_courses db tenant person =
     map cc_course (filter (\<lambda>r. cc_tenant r = tenant \<and> cc_person r = person \<and> cc_status r = ''completed'')
                      (completions db))"

section \<open>Access states\<close>

fun add_to_sequence :: "uuid \<Rightarrow> uuid \<Rightarrow> (uuid \<times> uuid list) list \<Rightarrow> (uuid \<times> uuid list) list" where
  "add_to_sequence t c [] = [(t, [c])]"
| "add_to_sequence t c ((t', cs) # ss) =
     (if t' = t then (t', if c \<in> set cs then cs else cs @ [c]) # ss
      else (t', cs) # add_to_sequence t c ss)"

definition track_sequences :: "entitled_row list \<Rightarrow> (uuid \<times> uuid list) list" where
  "track_sequences rows =
     fold (\<lambda>(c, t, i, title) ss. case t of None \<Rightarrow> ss | Some t \<Rightarrow> add_to_sequence t c ss) rows []"

definition legacy_courses :: "entitled_row list \<Rightarrow> uuid list" where
  "legacy_courses rows = remdups (map fst (filter (\<lambda>(c, t, i, title). t = None) rows))"

definition unlocked :: "uuid \<Rightarrow> access_state" where
  "unlocked c = \<lparr>as_course = c, as_locked = False, as_reason = None, as_until = None\<rparr>"

definition locked_behind :: "uuid \<Rightarrow> string option \<Rightarrow> string \<Rightarrow> uuid \<Rightarrow> access_state" where
  "locked_behind c title fallback until' =
     \<lparr>as_course = c, as_locked = True, as_reason = Some (course_lock_reason title fallback),
      as_until = Some until'\<rparr>"

text \<open>The courses of a sequence with the one before each.\<close>

definition with_previous :: "uuid list \<Rightarrow> (uuid option \<times> uuid) list" where
  "with_previous cs = zip (None # map Some cs) cs"

definition track_state ::
    "uuid list \<Rightarrow> (uuid \<times> string) list \<Rightarrow> uuid option \<Rightarrow> uuid \<Rightarrow> access_state" where
  "track_state completed titles prev c =
     (case prev of
        None \<Rightarrow> unlocked c
      | Some p \<Rightarrow>
          if p \<in> set completed then unlocked c
          else locked_behind c (map_of titles p) ''Complete the previous course to unlock this course.'' p)"

definition track_step ::
    "uuid list \<Rightarrow> (uuid \<times> string) list \<Rightarrow> uuid option \<times> uuid \<Rightarrow>
     (uuid \<times> access_state) list \<Rightarrow> (uuid \<times> access_state) list" where
  "track_step completed titles pc states =
     (case map_of states (snd pc) of
        None \<Rightarrow> AList.update (snd pc) (track_state completed titles (fst pc) (snd pc)) states
      | Some cur \<Rightarrow>
          if as_locked cur then AList.update (snd pc) (track_state completed titles (fst pc) (snd pc)) states
          else states)"

definition prerequisite_step ::
    "uuid list \<Rightarrow> (uuid \<times> string) list \<Rightarrow> uuid \<times> uuid \<Rightarrow>
     (uuid \<times> access_state) list \<Rightarrow> (uuid \<times> access_state) list" where
  "prerequisite_step completed titles cr states =
     (if snd cr \<in> set completed then states
      else if (case map_of states (fst cr) of None \<Rightarrow> False | Some cur \<Rightarrow> as_locked cur) then states
      else AList.update (fst cr)
             (locked_behind (fst cr) (map_of titles (snd cr))
                ''Complete the prerequisite course to unlock this course.'' (snd cr)) states)"

definition prerequisite_pairs :: "academy_db \<Rightarrow> uuid \<Rightarrow> uuid list \<Rightarrow> (uuid \<times> uuid) list" where
  "prerequisite_pairs db tenant ids =
     map (\<lambda>r. (pr_course r, pr_requires r))
       (filter (\<lambda>r. pr_tenant r = tenant \<and> pr_course r \<in> set ids) (prerequisites db))"

definition missing_titles ::
    "academy_db \<Rightarrow> uuid \<Rightarrow> (uuid \<times> string) list \<Rightarrow> (uuid \<times> uuid) list \<Rightarrow> (uuid \<times> string) list" where
  "missing_titles db tenant titles pairs =
     map (\<lambda>c. (co_id c, co_title c))
       (filter (\<lambda>c. co_tenant c = tenant \<and> co_id c \<in> set (map snd pairs) \<and> map_of titles (co_id c) = None)
          (courses db))"

definition course_access_states :: "academy_db \<Rightarrow> uuid \<Rightarrow> uuid \<Rightarrow> (uuid \<times> access_state) list" where
  "course_access_states db tenant person =
     (let rows = entitled_course_rows db tenant person
      in if rows = [] then []
         else
           (let completed = completed_courses db tenant person;
                titles = fold (\<lambda>(c, t, i, title). AList.update c title) rows [];
                states0 = map (\<lambda>c. (c, unlocked c)) (legacy_courses rows);
                states1 = fold (\<lambda>(t, cs). fold (track_step completed titles) (with_previous cs))
                            (track_sequences rows) states0;
                pairs = prerequisite_pairs db tenant (map fst rows);
                titles' = titles @ missing_titles db tenant titles pairs
            in fold (prerequisite_step completed titles') pairs states1))"

definition accessible_course_ids :: "academy_db \<Rightarrow> uuid \<Rightarrow> uuid \<Rightarrow> uuid set" where
  "accessible_course_ids db tenant person =
     fst ` set (filter (\<lambda>(c, st). \<not> as_locked st) (course_access_states db tenant person))"

definition person_can_access_course :: "academy_db \<Rightarrow> uuid \<Rightarrow> uuid \<Rightarrow> uuid \<Rightarrow> bool" where
  "person_can_access_course db tenant person course =
     (case map_of (course_access_states db tenant person) course of
        None \<Rightarrow> False | Some st \<Rightarrow> \<not> as_locked st)"

definition require_course_access :: "academy_db \<Rightarrow> uuid \<Rightarrow> uuid \<Rightarrow> uuid \<Rightarrow> unit result" where
  "require_course_access db tenant person course =
     ensure (person_can_access_course db tenant person course) HTTPForbidden (Inr ())"

section \<open>Open windows\<close>

definition in_window :: "offering_row \<Rightarrow> enrollment_row \<Rightarrow> instant \<Rightarrow> bool" where
  "in_window o' e now =
     ((case of_starts_at o' of None \<Rightarrow> True | Some s \<Rightarrow> s \<le> now)
      \<and> (case of_ends_at o' of
           None \<Rightarrow> True
         | Some f \<Rightarrow> f \<ge> now \<or> (case en_access_ends_at e of None \<Rightarrow> False | Some x \<Rightarrow> x \<ge> now)))"

definition open_course_ids :: "academy_db \<Rightarrow> uuid \<Rightarrow> uuid \<Rightarrow> instant \<Rightarrow> uuid set" where
  "open_course_ids db tenant person now =
     set (map (\<lambda>(o', e, c, tc). of_course o')
       (filter (\<lambda>(o', e, c, tc). in_window o' e now) (entitlement_join db tenant person)))"

definition unmet_prerequisites :: "academy_db \<Rightarrow> uuid \<Rightarrow> uuid \<Rightarrow> uuid \<Rightarrow> uuid list" where
  "unmet_prerequisites db tenant person course =
     (let required = map pr_requires
            (filter (\<lambda>r. pr_tenant r = tenant \<and> pr_course r = course) (prerequisites db));
          required' = (case map_of (course_access_states db tenant person) course of
             None \<Rightarrow> required
           | Some st \<Rightarrow>
               if as_locked st then (case as_until st of None \<Rightarrow> required | Some u \<Rightarrow> required @ [u])
               else required)
      in filter (\<lambda>c. c \<notin> set (completed_courses db tenant person)) required')"

definition require_course_open :: "academy_db \<Rightarrow> uuid \<Rightarrow> uuid \<Rightarrow> uuid \<Rightarrow> instant \<Rightarrow> unit result" where
  "require_course_open db tenant person course now =
     (if course \<notin> open_course_ids db tenant person now then Inl HTTPForbidden
      else if unmet_prerequisites db tenant person course \<noteq> [] then Inl HTTPForbidden
      else Inr ())"

section \<open>Pacing\<close>

definition applicable_overrides :: "academy_db \<Rightarrow> uuid \<Rightarrow> uuid \<Rightarrow> uuid \<Rightarrow> uuid \<Rightarrow> pacing_row list" where
  "applicable_overrides db tenant person course activity =
     [ov. ov \<leftarrow> offering_activities db, o' \<leftarrow> offerings db, e \<leftarrow> enrollments db,
        of_id o' = pa_offering ov \<and> of_tenant o' = pa_tenant ov
        \<and> en_cohort e = of_cohort o' \<and> en_tenant e = of_tenant o'
        \<and> pa_tenant ov = tenant \<and> pa_activity ov = activity \<and> of_course o' = course
        \<and> of_status o' = ''active'' \<and> en_person e = person \<and> en_status e = ''active'']"

record pacing_state =
  ps_readable :: bool
  ps_submittable :: bool
  ps_has_override :: bool

definition released :: "pacing_row \<Rightarrow> instant \<Rightarrow> bool" where
  "released ov now = (case pa_release_at ov of None \<Rightarrow> True | Some r \<Rightarrow> r \<le> now)"

definition not_past_due :: "pacing_row \<Rightarrow> instant \<Rightarrow> bool" where
  "not_past_due ov now = (case pa_due_at ov of None \<Rightarrow> True | Some d \<Rightarrow> d \<ge> now)"

definition activity_pacing :: "academy_db \<Rightarrow> uuid \<Rightarrow> uuid \<Rightarrow> uuid \<Rightarrow> uuid \<Rightarrow> instant \<Rightarrow> pacing_state" where
  "activity_pacing db tenant person course activity now =
     (let overrides = applicable_overrides db tenant person course activity
      in if overrides = [] then \<lparr>ps_readable = True, ps_submittable = True, ps_has_override = False\<rparr>
         else fold (\<lambda>ov st. st\<lparr>ps_readable := ps_readable st \<or> released ov now,
                              ps_submittable := ps_submittable st \<or> released ov now \<and> not_past_due ov now\<rparr>)
                overrides \<lparr>ps_readable = False, ps_submittable = False, ps_has_override = True\<rparr>)"

definition require_activity_readable ::
    "academy_db \<Rightarrow> uuid \<Rightarrow> uuid \<Rightarrow> uuid \<Rightarrow> uuid \<Rightarrow> instant \<Rightarrow> unit result" where
  "require_activity_readable db tenant person course activity now =
     ensure (ps_readable (activity_pacing db tenant person course activity now)) HTTPForbidden (Inr ())"

definition require_activity_submittable ::
    "academy_db \<Rightarrow> uuid \<Rightarrow> uuid \<Rightarrow> uuid \<Rightarrow> uuid \<Rightarrow> instant \<Rightarrow> unit result" where
  "require_activity_submittable db tenant person course activity now =
     ensure (ps_submittable (activity_pacing db tenant person course activity now)) HTTPForbidden (Inr ())"

section \<open>What unlocks a course\<close>

text \<open>
  \<open>opened_by_track\<close>: the course comes with a trackless enrollment, or stands in a track
  sequence first or right after a completed course. \<open>prerequisites_met\<close>: every explicit
  prerequisite is completed.
\<close>

definition opened_by_track :: "academy_db \<Rightarrow> uuid \<Rightarrow> uuid \<Rightarrow> uuid \<Rightarrow> bool" where
  "opened_by_track db t p c \<longleftrightarrow>
     c \<in> set (legacy_courses (entitled_course_rows db t p)) \<or>
     (\<exists>(tr, cs) \<in> set (track_sequences (entitled_course_rows db t p)). \<exists>i < length cs.
        cs ! i = c \<and> (i = 0 \<or> cs ! (i - 1) \<in> set (completed_courses db t p)))"

definition prerequisites_met :: "academy_db \<Rightarrow> uuid \<Rightarrow> uuid \<Rightarrow> uuid \<Rightarrow> bool" where
  "prerequisites_met db t p c \<longleftrightarrow>
     (\<forall>r \<in> set (prerequisites db). pr_tenant r = t \<longrightarrow> pr_course r = c \<longrightarrow>
        pr_requires r \<in> set (completed_courses db t p))"

definition unlocked_in :: "(uuid \<times> access_state) list \<Rightarrow> uuid \<Rightarrow> bool" where
  "unlocked_in states c = (case map_of states c of None \<Rightarrow> False | Some st \<Rightarrow> \<not> as_locked st)"

definition opens :: "uuid list \<Rightarrow> uuid option \<Rightarrow> bool" where
  "opens completed prev = (case prev of None \<Rightarrow> True | Some p \<Rightarrow> p \<in> set completed)"

lemma track_step_unlocks:
  "unlocked_in (track_step compl titles pc states) c \<longleftrightarrow>
     unlocked_in states c \<or> (snd pc = c \<and> opens compl (fst pc))"
  by (auto simp: unlocked_in_def track_step_def track_state_def opens_def unlocked_def locked_behind_def
      update_conv' split: option.splits)

lemma track_fold_unlocks:
  "unlocked_in (fold (track_step compl titles) pcs states) c \<longleftrightarrow>
     unlocked_in states c \<or> (\<exists>prev. (prev, c) \<in> set pcs \<and> opens compl prev)"
  by (induction pcs arbitrary: states) (auto simp: track_step_unlocks)

lemma prerequisite_step_unlocks:
  "unlocked_in (prerequisite_step compl titles cr states) c \<longleftrightarrow>
     unlocked_in states c \<and> (fst cr = c \<longrightarrow> snd cr \<in> set compl)"
  by (auto simp: unlocked_in_def prerequisite_step_def locked_behind_def update_conv'
      split: option.splits)

lemma prerequisite_fold_unlocks:
  "unlocked_in (fold (prerequisite_step compl titles) crs states) c \<longleftrightarrow>
     unlocked_in states c \<and> (\<forall>r. (c, r) \<in> set crs \<longrightarrow> r \<in> set compl)"
  by (induction crs arbitrary: states) (auto simp: prerequisite_step_unlocks)

lemma fold_sequences:
  "fold (\<lambda>(t, cs). fold f (with_previous cs)) ss x = fold f (concat (map (with_previous \<circ> snd) ss)) x"
  by (induction ss arbitrary: x) (auto simp: case_prod_beta)

lemma with_previous_iff:
  "(prev, c) \<in> set (with_previous cs) \<longleftrightarrow>
     (\<exists>i < length cs. cs ! i = c \<and> prev = (if i = 0 then None else Some (cs ! (i - 1))))"
proof -
  have nth: "(None # map Some cs) ! i = (if i = 0 then None else Some (cs ! (i - 1)))" if "i < length cs" for i
    using that by (cases i) auto
  have "(prev, c) \<in> set (with_previous cs) \<longleftrightarrow> (\<exists>i < length cs. (None # map Some cs) ! i = prev \<and> cs ! i = c)"
    by (auto simp: with_previous_def set_zip)
  also have "\<dots> \<longleftrightarrow> (\<exists>i < length cs. cs ! i = c \<and> prev = (if i = 0 then None else Some (cs ! (i - 1))))"
    using nth by metis
  finally show ?thesis .
qed

lemma opened_in_sequence:
  "(\<exists>prev. (prev, c) \<in> set (with_previous cs) \<and> opens compl prev) \<longleftrightarrow>
   (\<exists>i < length cs. cs ! i = c \<and> (i = 0 \<or> cs ! (i - 1) \<in> set compl))"
proof -
  have "opens compl (if i = 0 then None else Some (cs ! (i - 1))) \<longleftrightarrow> i = 0 \<or> cs ! (i - 1) \<in> set compl" for i
    by (simp add: opens_def)
  note opens_eq = this
  have "(\<exists>prev. (prev, c) \<in> set (with_previous cs) \<and> opens compl prev) \<longleftrightarrow>
      (\<exists>i < length cs. cs ! i = c \<and> opens compl (if i = 0 then None else Some (cs ! (i - 1))))"
    unfolding with_previous_iff by blast
  then show ?thesis by (simp only: opens_eq)
qed

lemma opened_by_sequences:
  "(\<exists>prev. (prev, c) \<in> set (concat (map (with_previous \<circ> snd) ss)) \<and> opens compl prev) \<longleftrightarrow>
   (\<exists>(tr, cs) \<in> set ss. \<exists>i < length cs. cs ! i = c \<and> (i = 0 \<or> cs ! (i - 1) \<in> set compl))"
  unfolding opened_in_sequence [symmetric] by (simp add: case_prod_beta) blast

text \<open>The courses that occur in the sequences and the legacy set are the entitled ones.\<close>

lemma add_to_sequence_mem:
  "set (concat (map snd (add_to_sequence t c ss))) = insert c (set (concat (map snd ss)))"
  by (induction t c ss rule: add_to_sequence.induct) auto

lemma track_sequences_mem:
  "x \<in> set (concat (map snd (track_sequences rows))) \<longleftrightarrow> (\<exists>t i n. (x, Some t, i, n) \<in> set rows)"
proof -
  have "x \<in> set (concat (map snd (fold (\<lambda>(c, t, i, title) ss. case t of None \<Rightarrow> ss | Some t \<Rightarrow> add_to_sequence t c ss) rows ss)))
    \<longleftrightarrow> x \<in> set (concat (map snd ss)) \<or> (\<exists>t i n. (x, Some t, i, n) \<in> set rows)" for ss
  proof (induction rows arbitrary: ss)
    case (Cons r rows)
    obtain c t i n where r: "r = (c, t, i, n)" by (cases r)
    show ?case
      by (cases t) (simp_all only: r fold_simps comp_apply case_prod_conv option.case Cons.IH add_to_sequence_mem, auto)
  qed simp
  from this [of "[]"] show ?thesis by (simp add: track_sequences_def)
qed

lemma opened_by_track_entitled:
  "opened_by_track db t p c \<Longrightarrow> c \<in> visible_course_ids db t p"
proof -
  assume "opened_by_track db t p c"
  then consider "c \<in> set (legacy_courses (entitled_course_rows db t p))"
    | "c \<in> set (concat (map snd (track_sequences (entitled_course_rows db t p))))"
    by (fastforce simp: opened_by_track_def)
  then show ?thesis
  proof cases
    case 2
    then show ?thesis unfolding track_sequences_mem by (force simp: visible_course_ids_def)
  qed (force simp: legacy_courses_def visible_course_ids_def)
qed

lemma access_states_unlocked:
  "unlocked_in (course_access_states db t p) c \<longleftrightarrow> opened_by_track db t p c \<and> prerequisites_met db t p c"
proof (cases "entitled_course_rows db t p = []")
  case True
  then show ?thesis
    using opened_by_track_entitled [of db t p c]
    by (auto simp: course_access_states_def unlocked_in_def visible_course_ids_def)
next
  case False
  have legacy: "unlocked_in (map (\<lambda>c. (c, unlocked c)) xs) c \<longleftrightarrow> c \<in> set xs" for xs
    by (induction xs) (auto simp: unlocked_in_def unlocked_def)
  have pairs: "(c, r) \<in> set (prerequisite_pairs db t (map fst (entitled_course_rows db t p))) \<longleftrightarrow>
      c \<in> visible_course_ids db t p \<and> (\<exists>x \<in> set (prerequisites db). pr_tenant x = t \<and> pr_course x = c \<and> pr_requires x = r)" for r
    by (auto simp: prerequisite_pairs_def visible_course_ids_def)
  have "unlocked_in (course_access_states db t p) c \<longleftrightarrow>
      opened_by_track db t p c \<and>
      (\<forall>r. (c, r) \<in> set (prerequisite_pairs db t (map fst (entitled_course_rows db t p))) \<longrightarrow> r \<in> set (completed_courses db t p))"
    using False
    by (simp only: course_access_states_def Let_def if_False prerequisite_fold_unlocks fold_sequences
        track_fold_unlocks legacy opened_by_sequences opened_by_track_def)
  then show ?thesis
    unfolding pairs prerequisites_met_def using opened_by_track_entitled [of db t p c] by blast
qed

lemma can_access_unlocked: "person_can_access_course db t p c \<longleftrightarrow> unlocked_in (course_access_states db t p) c"
  by (simp add: person_can_access_course_def unlocked_in_def)

text \<open>Every lock names a course that is not completed.\<close>

definition locks_honest :: "uuid list \<Rightarrow> (uuid \<times> access_state) list \<Rightarrow> bool" where
  "locks_honest compl states \<longleftrightarrow>
     (\<forall>c st. map_of states c = Some st \<longrightarrow> as_locked st \<longrightarrow> (\<exists>u. as_until st = Some u \<and> u \<notin> set compl))"

lemma locks_honest_update:
  "locks_honest compl states \<Longrightarrow> as_locked st \<Longrightarrow> as_until st = Some u \<Longrightarrow> u \<notin> set compl \<Longrightarrow>
   locks_honest compl (AList.update c st states)"
  "locks_honest compl states \<Longrightarrow> \<not> as_locked st \<Longrightarrow> locks_honest compl (AList.update c st states)"
  by (auto simp: locks_honest_def update_conv')

lemma locks_honest_track_state:
  "locks_honest compl states \<Longrightarrow> locks_honest compl (AList.update c (track_state compl titles prev c) states)"
  by (cases prev) (auto simp: track_state_def unlocked_def locked_behind_def intro: locks_honest_update)

lemma locks_honest_track: "locks_honest compl states \<Longrightarrow> locks_honest compl (fold (track_step compl titles) pcs states)"
  by (induction pcs arbitrary: states) (auto simp: track_step_def locks_honest_track_state split: option.splits)

lemma locks_honest_prerequisite_step:
  "locks_honest compl states \<Longrightarrow> locks_honest compl (prerequisite_step compl titles cr states)"
  by (auto simp: prerequisite_step_def locked_behind_def intro: locks_honest_update)

lemma locks_honest_prerequisite:
  "locks_honest compl states \<Longrightarrow> locks_honest compl (fold (prerequisite_step compl titles) crs states)"
  by (induction crs arbitrary: states) (simp_all add: locks_honest_prerequisite_step)

lemma locks_honest_states: "locks_honest (completed_courses db t p) (course_access_states db t p)"
proof -
  have "locks_honest ds (map (\<lambda>c. (c, unlocked c)) xs)" for ds xs
    by (induction xs) (auto simp: locks_honest_def unlocked_def split: if_splits)
  then show ?thesis
    by (simp add: course_access_states_def Let_def fold_sequences locks_honest_track locks_honest_prerequisite)
       (simp add: locks_honest_def)
qed

lemma open_courses_visible: "open_course_ids db t p now \<subseteq> visible_course_ids db t p"
  by (force simp: open_course_ids_def visible_course_ids_def entitled_course_rows_def)

text \<open>Every entitled course has an access state.\<close>

lemma track_step_keys:
  "map_of (track_step compl titles pc states) c \<noteq> None \<longleftrightarrow> map_of states c \<noteq> None \<or> snd pc = c"
  by (auto simp: track_step_def update_conv' split: option.splits)

lemma track_fold_keys:
  "map_of (fold (track_step compl titles) pcs states) c \<noteq> None \<longleftrightarrow> map_of states c \<noteq> None \<or> c \<in> snd ` set pcs"
  by (induction pcs arbitrary: states) (simp, simp only: fold_simps comp_apply track_step_keys, auto)

lemma prerequisite_fold_keys:
  "map_of states c \<noteq> None \<Longrightarrow> map_of (fold (prerequisite_step compl titles) crs states) c \<noteq> None"
proof (induction crs arbitrary: states)
  case (Cons cr crs)
  have "map_of (prerequisite_step compl titles cr states) c \<noteq> None"
    using Cons.prems by (auto simp: prerequisite_step_def update_conv' split: option.splits)
  from Cons.IH [OF this] show ?case by simp
qed simp

lemma snd_with_previous: "snd ` set (with_previous cs) = set cs"
proof -
  have "map snd (with_previous cs) = cs" unfolding with_previous_def by (rule map_snd_zip_take [THEN trans]) simp
  then show ?thesis by (metis list.set_map)
qed

lemma visible_has_state:
  assumes "c \<in> visible_course_ids db t p"
  shows "map_of (course_access_states db t p) c \<noteq> None"
proof -
  let ?rows = "entitled_course_rows db t p"
  from assms obtain tr i n where row: "(c, tr, i, n) \<in> set ?rows" by (auto simp: visible_course_ids_def)
  then have ne: "?rows \<noteq> []" by auto
  have "c \<in> set (legacy_courses ?rows) \<or> c \<in> set (concat (map snd (track_sequences ?rows)))"
  proof (cases tr)
    case None
    then show ?thesis using row by (force simp: legacy_courses_def)
  next
    case (Some x)
    then show ?thesis using row unfolding track_sequences_mem by blast
  qed
  moreover have "map_of (map (\<lambda>c. (c, unlocked c)) xs) c \<noteq> None \<longleftrightarrow> c \<in> set xs" for xs
    by (induction xs) auto
  moreover have "snd ` set (concat (map (with_previous \<circ> snd) ss)) = set (concat (map snd ss))" for ss :: "(uuid \<times> uuid list) list"
    by (induction ss) (simp_all add: image_Un snd_with_previous)
  ultimately show ?thesis
    unfolding course_access_states_def Let_def fold_sequences
    using ne by (simp only: if_False) (intro prerequisite_fold_keys, simp only: track_fold_keys)
qed

end
