(* ===== verification/Gradebook.thy ===== *)
theory Gradebook
  imports Score_Of_Record
begin

text \<open>
  \<open>services/gradebook.py\<close> with the roster queries it takes from \<open>services/reports.py\<close>
  and \<open>services/lookups.py\<close>: weighted course grades from the scores of record.
\<close>

record grade_cell =
  gc_activity :: uuid
  gc_fraction :: rat
  gc_weight :: rat
  gc_graded :: bool

definition fraction_of :: "(uuid \<times> score_row) list \<Rightarrow> activity_row \<Rightarrow> rat" where
  "fraction_of best a = (case map_of best (act_id a) of None \<Rightarrow> 0 | Some s \<Rightarrow> sc_fraction s)"

definition per_activity :: "activity_row list \<Rightarrow> (uuid \<times> score_row) list \<Rightarrow> grade_cell list" where
  "per_activity acts best =
     map (\<lambda>a. \<lparr>gc_activity = act_id a, gc_fraction = fraction_of best a, gc_weight = act_weight a,
               gc_graded = (map_of best (act_id a) \<noteq> None)\<rparr>) acts"

definition weighted_pct :: "activity_row list \<Rightarrow> (uuid \<times> score_row) list \<Rightarrow> int" where
  "weighted_pct acts best =
     py_round (sum_list (map (\<lambda>a. fraction_of best a * act_weight a) acts)
               / sum_list (map act_weight acts) * 100)"

definition grade_from :: "activity_row list \<Rightarrow> (uuid \<times> score_row) list \<Rightarrow> int \<times> grade_cell list" where
  "grade_from acts best =
     (if acts = [] then (0, [])
      else if sum_list (map act_weight acts) = 0 then (0, per_activity acts best)
      else (weighted_pct acts best, per_activity acts best))"

text \<open>\<open>ORDER BY chapter_number, type\<close>, nulls last.\<close>

definition chapter_key :: "activity_row \<Rightarrow> nat \<times> int \<times> string" where
  "chapter_key a = (case act_chapter a of None \<Rightarrow> (1, 0, act_type a) | Some n \<Rightarrow> (0, n, act_type a))"

definition course_activities :: "academy_db \<Rightarrow> uuid \<Rightarrow> uuid \<Rightarrow> activity_row list" where
  "course_activities db tenant course =
     sort_key chapter_key (filter (\<lambda>a. act_tenant a = tenant \<and> act_course a = course) (activities db))"

definition course_grade :: "academy_db \<Rightarrow> uuid \<Rightarrow> uuid \<Rightarrow> uuid \<Rightarrow> int \<times> grade_cell list" where
  "course_grade db tenant person course =
     grade_from (course_activities db tenant course) (best_scores_for db tenant person course)"

record attempted_result =
  ar_pct :: int
  ar_graded_count :: nat
  ar_graded_weight_fraction :: rat

definition attempted_grade :: "academy_db \<Rightarrow> uuid \<Rightarrow> uuid \<Rightarrow> uuid \<Rightarrow> attempted_result" where
  "attempted_grade db tenant person course =
     (let cells = snd (course_grade db tenant person course);
          total_weight = sum_list (map gc_weight cells);
          graded = filter gc_graded cells;
          graded_weight = sum_list (map gc_weight graded)
      in if graded_weight = 0
         then \<lparr>ar_pct = 0, ar_graded_count = length graded, ar_graded_weight_fraction = 0\<rparr>
         else
           \<lparr>ar_pct = py_round (sum_list (map (\<lambda>c. gc_fraction c * gc_weight c) graded) / graded_weight * 100),
            ar_graded_count = length graded,
            ar_graded_weight_fraction = (if total_weight \<noteq> 0 then graded_weight / total_weight else 0)\<rparr>)"

section \<open>The cohort grid\<close>

definition cohort_or_404 :: "academy_db \<Rightarrow> uuid \<Rightarrow> uuid \<Rightarrow> cohort_row result" where
  "cohort_or_404 db tenant cohort =
     (case find (\<lambda>h. ch_tenant h = tenant \<and> ch_id h = cohort) (cohorts db) of
        None \<Rightarrow> Inl (NotFoundError ''cohort not found for tenant'') | Some h \<Rightarrow> Inr h)"

definition cohort_activities :: "academy_db \<Rightarrow> uuid \<Rightarrow> uuid \<Rightarrow> activity_row list \<times> uuid list" where
  "cohort_activities db tenant cohort =
     (let ids = map of_course (filter (\<lambda>o'. of_tenant o' = tenant \<and> of_cohort o' = cohort
                                        \<and> of_status o' = ''active'') (offerings db))
      in if ids = [] then ([], [])
         else (sort_key chapter_key (filter (\<lambda>a. act_tenant a = tenant \<and> act_course a \<in> set ids) (activities db)), ids))"

definition best_for_person :: "academy_db \<Rightarrow> uuid \<Rightarrow> uuid \<Rightarrow> uuid list \<Rightarrow> (uuid \<times> score_row) list" where
  "best_for_person db tenant person course_ids =
     fold (\<lambda>c best. fold (\<lambda>(k, s). AList.update k s) (best_scores_for db tenant person c) best) course_ids []"

record gradebook_row =
  gb_person :: person_row
  gb_email :: string
  gb_cells :: "(uuid \<times> int) list"
  gb_final_pct :: int

definition cohort_students :: "academy_db \<Rightarrow> uuid \<Rightarrow> uuid \<Rightarrow> person_row list" where
  "cohort_students db tenant cohort =
     sort_key (\<lambda>p. (pe_last_name p, pe_first_name p, pe_email p))
       [p. p \<leftarrow> people db, e \<leftarrow> enrollments db,
          en_person e = pe_id p \<and> en_tenant e = pe_tenant p \<and> en_tenant e = tenant
          \<and> en_cohort e = cohort \<and> en_role e = ''student'' \<and> en_status e = ''active'']"

definition gradebook_line :: "activity_row list \<Rightarrow> (uuid \<times> score_row) list \<Rightarrow> person_row \<Rightarrow> gradebook_row" where
  "gradebook_line acts best p =
     \<lparr>gb_person = p, gb_email = pe_email p,
      gb_cells = map (\<lambda>a. (act_id a, py_round (fraction_of best a * 100))) acts,
      gb_final_pct = (if sum_list (map act_weight acts) > 0 then weighted_pct acts best else 0)\<rparr>"

definition cohort_gradebook ::
    "academy_db \<Rightarrow> uuid \<Rightarrow> uuid \<Rightarrow> (cohort_row \<times> activity_row list \<times> gradebook_row list) result" where
  "cohort_gradebook db tenant cohort =
     and_then (cohort_or_404 db tenant cohort) (\<lambda>h.
       let (acts, course_ids) = cohort_activities db tenant cohort
       in Inr (h, acts,
               map (\<lambda>p. gradebook_line acts (best_for_person db tenant (pe_id p) course_ids) p)
                 (cohort_students db tenant cohort)))"

section \<open>Bounds\<close>

lemma py_round_bounds: "of_int (py_round r) \<le> r + 1 / 2" "r - 1 / 2 \<le> of_int (py_round r)"
  by (auto simp: py_round_def Let_def) linarith+

lemma py_round_of_int [simp]: "py_round (of_int i) = i"
  by (simp add: py_round_def)

lemma py_round_mono_int: "of_int a \<le> r \<Longrightarrow> a \<le> py_round r" "r \<le> of_int b \<Longrightarrow> py_round r \<le> b"
proof -
  show "a \<le> py_round r" if "of_int a \<le> r"
  proof -
    have "a \<le> floor r" using that by (simp add: le_floor_iff)
    then show ?thesis by (auto simp: py_round_def Let_def)
  qed
  show "py_round r \<le> b" if "r \<le> of_int b"
  proof (cases "floor r = b")
    case True
    with that have "r = of_int b" by linarith
    then show ?thesis by simp
  next
    case False
    with that have "floor r + 1 \<le> b" by linarith
    then show ?thesis by (auto simp: py_round_def Let_def)
  qed
qed

lemma weighted_sum_bounds:
  assumes "\<And>x. x \<in> set xs \<Longrightarrow> 0 \<le> f x \<and> f x \<le> (1::rat)" "\<And>x. x \<in> set xs \<Longrightarrow> 0 \<le> w x"
  shows "0 \<le> sum_list (map (\<lambda>x. f x * w x) xs)"
    and "sum_list (map (\<lambda>x. f x * w x) xs) \<le> sum_list (map w xs)"
proof -
  show "0 \<le> sum_list (map (\<lambda>x. f x * w x) xs)"
    using assms by (intro sum_list_nonneg) auto
  show "sum_list (map (\<lambda>x. f x * w x) xs) \<le> sum_list (map w xs)"
    using assms by (intro sum_list_mono) (auto intro: mult_left_le_one_le)
qed

lemma pct_bounds:
  assumes "\<And>x. x \<in> set xs \<Longrightarrow> 0 \<le> f x \<and> f x \<le> (1::rat)" "\<And>x. x \<in> set xs \<Longrightarrow> 0 \<le> w x"
    and "sum_list (map w xs) \<noteq> 0"
  shows "0 \<le> py_round (sum_list (map (\<lambda>x. f x * w x) xs) / sum_list (map w xs) * 100)"
    and "py_round (sum_list (map (\<lambda>x. f x * w x) xs) / sum_list (map w xs) * 100) \<le> 100"
proof -
  note b = weighted_sum_bounds [of xs f w, OF assms(1,2)]
  have "0 \<le> sum_list (map w xs)" using assms(2) by (intro sum_list_nonneg) auto
  with assms(3) have pos: "0 < sum_list (map w xs)" by linarith
  show "0 \<le> py_round (sum_list (map (\<lambda>x. f x * w x) xs) / sum_list (map w xs) * 100)"
    by (rule py_round_mono_int(1)) (use b(1) pos in simp)
  show "py_round (sum_list (map (\<lambda>x. f x * w x) xs) / sum_list (map w xs) * 100) \<le> 100"
    by (rule py_round_mono_int(2)) (use b(2) pos in \<open>simp add: divide_le_eq\<close>)
qed

end
