(* ===== verification/Course_Properties.thy ===== *)
theory Course_Properties
  imports Learner_Journey Attempt_Policy Entitlements Gradebook
begin

text \<open>
  Properties of the course side: pooled papers, completion and certificates, access, grades
  and facilitator activation.
\<close>

section \<open>Pooled papers\<close>

text \<open>The paper of a pooled activity is fixed when the learner opens it: until it is submitted,
  opening the activity again returns the same attempt and stores nothing, whatever happened
  to the question bank, the pool size or the clock in between, and the learner has exactly one
  open attempt.\<close>

theorem open_attempt_is_stable:
  assumes "attempts_ok db" "open_or_create_attempt hex day db now t p a es k qs = Inr (db1, r)"
    and "activity_attempts db2 = activity_attempts db1"
  shows "open_or_create_attempt hex day db2 now2 t p a es2 k2 qs2 = Inr (db2, r)
    \<and> open_rows db1 t p a = [r] \<and> attempts_ok db1"
proof -
  have ok1: "attempts_ok db1" by (rule attempts_ok_open_or_create [OF assms(1,2)])
  have "r \<in> set (open_rows db1 t p a)"
    using open_or_create_ok [OF assms(2)]
    by (auto simp: open_rows_def new_attempt_def owned_attempt_def dest: open_attempt_Some)
  moreover have "length (open_rows db1 t p a) \<le> 1" using ok1 by (simp add: attempts_ok_def)
  ultimately have rows: "open_rows db1 t p a = [r]"
    by (cases "open_rows db1 t p a") auto
  then have "open_attempt db2 t p a = Some r"
    using assms(3) by (simp add: open_attempt_def open_rows_def)
  then show ?thesis using ok1 rows by (simp add: open_or_create_attempt_def)
qed

theorem open_attempt_is_stable_witness:
  "\<exists>db1 r. open_or_create_attempt id id sample_db 10 11 7 3 [''q1'', ''q2''] 1 (None :: exam_question list option) = Inr (db1, r)
     \<and> open_or_create_attempt id id db1 90 11 7 3 [''q1'', ''q2'', ''q3''] 2 (None :: exam_question list option) = Inr (db1, r)"
proof -
  have ok: "attempts_ok sample_db" by (simp add: attempts_ok_def open_rows_def sample_db_def empty_db_def)
  have "\<exists>x. open_or_create_attempt id id sample_db 10 11 7 3 [''q1'', ''q2''] 1 (None :: exam_question list option) = Inr x"
    by (simp add: open_or_create_attempt_def open_attempt_def Let_def sample_db_def empty_db_def)
  then obtain db1 r where r: "open_or_create_attempt id id sample_db 10 11 7 3 [''q1'', ''q2''] 1 (None :: exam_question list option) = Inr (db1, r)"
    by force
  from open_attempt_is_stable [OF ok r refl] r show ?thesis by blast
qed

lemma distinct_sub_mset:
  assumes "mset xs \<subseteq># mset ys" "distinct ys"
  shows "distinct xs"
proof -
  have le: "count (mset xs) x \<le> 1" for x
  proof -
    have "count (mset xs) x \<le> count (mset ys) x" by (rule mset_subset_eq_count [OF assms(1)])
    also have "\<dots> \<le> 1" using assms(2) by (cases "x \<in> set ys") (simp_all add: distinct_count_atmost_1 count_mset_0_iff [THEN iffD2])
    finally show ?thesis .
  qed
  have "count (mset xs) x = 1" if "x \<in> set xs" for x
    using le [of x] that by (metis One_nat_def count_mset_0_iff le_0_eq le_SucE)
  then show ?thesis by (auto simp: distinct_count_atmost_1 count_mset_0_iff [THEN iffD2])
qed

text \<open>A fresh draw serves distinct questions of the bank, as many as the pool size asks for or
  as the bank holds, and retakes are numbered by the attempts already opened.\<close>

theorem fresh_draw_serves_the_pool:
  assumes "open_attempt db t p a = None" "open_or_create_attempt hex day db now t p a es k qs = Inr (db1, r)"
    and "distinct es" "\<And>q. qs = Some q \<Longrightarrow> map eq_ext_id q = es"
  shows "distinct (at_question_ext_ids r) \<and> set (at_question_ext_ids r) \<subseteq> set es
    \<and> length (at_question_ext_ids r) = min (nat k) (length es)
    \<and> at_question_ext_ids r = draw_paper hex p (prior_attempts db t p a) es k qs
    \<and> prior_attempts db1 t p a = Suc (prior_attempts db t p a)"
proof -
  have new: "activity_attempts db1 = activity_attempts db @ [r]"
    "r = new_attempt db now t p a (draw_paper hex p (prior_attempts db t p a) es k qs)"
    using open_or_create_ok [OF assms(2)] assms(1) by auto
  let ?paper = "draw_paper hex p (prior_attempts db t p a) es k qs"
  have sub: "mset ?paper \<subseteq># mset es" and len: "length ?paper = min (nat k) (length es)"
    using draw_paper_bank [of qs es hex p "prior_attempts db t p a" k] assms(4) by auto
  have "distinct ?paper" by (rule distinct_sub_mset [OF sub assms(3)])
  moreover have "set ?paper \<subseteq> set es" using sub by (metis set_mset_mono set_mset_mset)
  ultimately show ?thesis
    using len new by (simp add: new_attempt_def prior_attempts_def owned_attempt_def)
qed

theorem fresh_draw_serves_the_pool_witness:
  "\<exists>db1 r. open_or_create_attempt id id sample_db 10 11 7 3 [''q1'', ''q2''] 1 (None :: exam_question list option) = Inr (db1, r)
     \<and> length (at_question_ext_ids r) = 1"
proof -
  have n: "open_attempt sample_db 11 7 3 = None" by (simp add: open_attempt_def sample_db_def empty_db_def)
  have "\<exists>x. open_or_create_attempt id id sample_db 10 11 7 3 [''q1'', ''q2''] 1 (None :: exam_question list option) = Inr x"
    by (simp add: open_or_create_attempt_def n Let_def)
  then obtain db1 r where r: "open_or_create_attempt id id sample_db 10 11 7 3 [''q1'', ''q2''] 1 (None :: exam_question list option) = Inr (db1, r)"
    by force
  from fresh_draw_serves_the_pool [OF n r] r show ?thesis by auto
qed

section \<open>Extra attempts\<close>

text \<open>Granting extra attempts raises exactly this learner's limit on exactly this activity by
  exactly the granted number, stores no submission, and leaves an audit record naming who
  granted it; a grant of less than one attempt or without a reason is refused.\<close>

theorem grant_raises_one_limit:
  "(case grant_extra_attempt db t p a reason by' extra of
      Inr (db', g) \<Rightarrow>
        (\<forall>t' p' x. granted_for db' t' p' x = granted_for db t' p' x + (if t' = t \<and> p' = p \<and> x = a then extra else 0))
        \<and> 1 \<le> extra \<and> submissions db' = submissions db
        \<and> (\<exists>e. audit_events db' = audit_events db @ [e] \<and> au_action e = ''attempt_granted'' \<and> au_actor e = by')
    | Inl e \<Rightarrow> extra < 1 \<or> py_strip (or_empty reason) = '''' \<or> \<not> activity_exists db t a)"
proof (cases "grant_extra_attempt db t p a reason by' extra")
  case (Inl e)
  then show ?thesis by (auto simp: grant_extra_attempt_def ensure_def Let_def split: if_splits)
next
  case (Inr x)
  obtain db' g where x: "x = (db', g)" by (cases x)
  show ?thesis
    using grant_extra_attempt_ok(1,9,11) [OF Inr [unfolded x]] granted_for_after [OF Inr [unfolded x]]
    by (simp add: Inr x)
qed

theorem grant_raises_one_limit_witness:
  "\<exists>db' g. grant_extra_attempt sample_db 11 7 3 (Some ''power cut'') None 2 = Inr (db', g)
     \<and> granted_for db' 11 7 3 = 2 \<and> granted_for db' 11 8 3 = 0"
proof -
  have "\<exists>x. grant_extra_attempt sample_db 11 7 3 (Some ''power cut'') None 2 = Inr x"
    by (simp add: grant_extra_attempt_def Let_def activity_exists_def py_strip_def py_lstrip_def py_isspace_def or_empty_def)
  then obtain db' g where r: "grant_extra_attempt sample_db 11 7 3 (Some ''power cut'') None 2 = Inr (db', g)" by force
  have z: "granted_for sample_db 11 p 3 = 0" for p by (simp add: granted_for_def)
  from grant_raises_one_limit [where db = sample_db and t = 11 and p = 7 and a = 3 and reason = "Some ''power cut''" and by' = None and extra = 2] r show ?thesis by (auto simp: z)
qed

section \<open>Completion\<close>

text \<open>C21. The recomputed completion record is the truth about the scores of record: its progress is
  the passed share of the course's activities, between zero and one; it is completed exactly
  when the course has activities and every one of them has a passing score of record, and it
  carries a completion time exactly when completed.\<close>

theorem completion_reflects_scores:
  assumes "completions_ok db" "distinct (map act_id (activities db))"
    and "recompute_completion day db now t p c = Inr (db', r)"
  shows "lock_existing_completion db' t p c = Some r
    \<and> cc_pct r * rat_of_nat (course_activity_count db t c) = rat_of_nat (passed_count db t p c)
    \<and> 0 \<le> cc_pct r \<and> cc_pct r \<le> 1
    \<and> (cc_status r = ''completed'' \<longleftrightarrow>
         course_activity_ids db t c \<noteq> [] \<and>
         (\<forall>k \<in> set (course_activity_ids db t c).
            \<exists>sc. map_of (best_scores_for db t p c) k = Some sc \<and> sc_passed sc))
    \<and> (cc_status r = ''completed'' \<longleftrightarrow> cc_completed_at r \<noteq> None)
    \<and> scores db' = scores db"
proof -
  obtain rec where r: "r = completion_state (course_activity_count db t c) (passed_count db t p c) now rec"
    and lock: "lock_existing_completion db' t p c = Some r" and sc: "scores db' = scores db"
    by (rule recompute_completion_ok [OF assms(3,1)]) simp
  have ids: "course_activity_ids db t c \<noteq> [] \<longleftrightarrow> 0 < course_activity_count db t c"
    by (simp add: length_course_activity_ids [symmetric])
  have le: "passed_count db t p c \<le> course_activity_count db t c" by (rule passed_le_total)
  then have zero: "course_activity_count db t c = 0 \<Longrightarrow> passed_count db t p c = 0" by simp
  have pct: "cc_pct r = (if course_activity_count db t c \<noteq> 0
      then rat_of_nat (passed_count db t p c) / rat_of_nat (course_activity_count db t c) else 0)"
    by (simp add: r completion_state_def Let_def)
  have st: "cc_status r = ''completed'' \<longleftrightarrow> course_activity_count db t c > 0 \<and> passed_count db t p c = course_activity_count db t c"
    "cc_status r = ''completed'' \<longleftrightarrow> cc_completed_at r \<noteq> None"
    by (auto simp: r completion_state_def Let_def split: option.splits)
  show ?thesis
    using lock sc st zero le all_passed_iff [OF assms(2), of t p c] ids
    by (auto simp: pct divide_le_eq)
qed

definition graded_course :: academy_db where
  "graded_course = retake_db"

lemma graded_course_ok: "completions_ok graded_course" "distinct (map act_id (activities graded_course))"
  by (simp_all add: graded_course_def completions_ok_def retake_db_def sample_db_def empty_db_def)

lemma graded_course_recomputes:
  obtains db' r where "recompute_completion id graded_course 60 11 7 2 = Inr (db', r)"
proof -
  have "course_exists graded_course 11 2"
    by (simp add: course_exists_def graded_course_def retake_db_def sample_db_def)
  then show thesis using recompute_completion_total [OF graded_course_ok(1)] that by blast
qed

theorem completion_reflects_scores_witness:
  "\<exists>db' r. recompute_completion id graded_course 60 11 7 2 = Inr (db', r) \<and> cc_status r = ''completed'' \<and> cc_pct r = 1"
proof -
  obtain db' r where res: "recompute_completion id graded_course 60 11 7 2 = Inr (db', r)" by (rule graded_course_recomputes)
  have best: "best_scores_for graded_course 11 7 2 = [(3, retake_score)]"
    by (simp add: graded_course_def best_scores_for_def score_query_def score_join_def keep_best_def
        retake_submission_def retake_score_def)
  have ids: "course_activity_ids graded_course 11 2 = [3]" by (simp add: course_activity_ids_def graded_course_def)
  have n: "course_activity_count graded_course 11 2 = 1" "passed_count graded_course 11 7 2 = 1"
    using ids length_course_activity_ids [of graded_course 11 2]
    by (simp_all add: passed_count_def best retake_score_def)
  from completion_reflects_scores [OF graded_course_ok res] res show ?thesis
    by (auto simp: ids best n retake_score_def)
qed

lemma find_certificate_step: "cert_step db db' t p c \<Longrightarrow> find_certificate db x y z \<noteq> None \<Longrightarrow> find_certificate db' x y z \<noteq> None"
  by (auto simp: cert_step_def find_certificate_def find_append split: option.splits)

text \<open>C6. Certificates follow completions: a recomputation never removes a certificate, adds at most
  one and only when the course is complete, keeps one completion record and one certificate
  per learner and course, and leaves every completed record with a certificate.\<close>

theorem certificates_follow_completions:
  assumes "completions_ok db" "completions_certified db" "recompute_completion day db now t p c = Inr (db', r)"
  shows "completions_ok db' \<and> completions_certified db'
    \<and> (certificates db' = certificates db \<or>
        cc_status r = ''completed'' \<and> find_certificate db t p c = None
        \<and> (\<exists>cert. certificates db' = certificates db @ [cert]
              \<and> ce_tenant cert = t \<and> ce_person cert = p \<and> ce_course cert = c))"
proof -
  obtain rec where rec: "is_completion t p c rec"
      "lock_existing_completion db t p c = Some rec \<or> lock_existing_completion db t p c = None \<and> cc_completed_at rec = None"
      "r = completion_state (course_activity_count db t c) (passed_count db t p c) now rec"
    and step: "cert_step db db' t p c"
    and cert: "cc_status r = ''completed'' \<longrightarrow> cc_completed_at rec = None \<longrightarrow> find_certificate db' t p c \<noteq> None"
    and rows: "set (completions db') \<subseteq> insert r {x \<in> set (completions db). x \<noteq> rec}"
    and ok: "completions_ok db'"
    and new: "certificates db' = certificates db \<or> cc_status r = ''completed''"
    by (rule recompute_completion_ok [OF assms(3,1)], rule that; assumption)
  have st: "cc_status r = ''completed'' \<longleftrightarrow> cc_completed_at r \<noteq> None" "cc_completed_at rec \<noteq> None \<Longrightarrow> cc_status r = ''completed'' \<Longrightarrow> cc_completed_at r = cc_completed_at rec"
    by (auto simp: rec(3) completion_state_def Let_def split: option.splits if_splits)
  have key: "cc_tenant r = t" "cc_person r = p" "cc_course r = c"
    using rec(1) by (simp_all add: rec(3) is_completion_def)
  have old: "cc_completed_at rec \<noteq> None \<Longrightarrow> find_certificate db t p c \<noteq> None"
    using rec(1,2) assms(2) find_Some_in [of "is_completion t p c" "completions db" rec]
    by (auto simp: completions_certified_def lock_existing_completion_def is_completion_def)
  have r_cert: "cc_completed_at r \<noteq> None \<Longrightarrow> find_certificate db' t p c \<noteq> None"
    using cert old st(1) find_certificate_step [OF step] by blast
  have "completions_certified db'"
    unfolding completions_certified_def
  proof (intro ballI)
    fix x assume "x \<in> set (completions db')"
    then consider "x = r" | "x \<in> set (completions db)" using rows by blast
    then show "(cc_status x = ''completed'' \<longleftrightarrow> cc_completed_at x \<noteq> None) \<and>
      (cc_completed_at x \<noteq> None \<longrightarrow> find_certificate db' (cc_tenant x) (cc_person x) (cc_course x) \<noteq> None)"
    proof cases
      case 2
      then show ?thesis using assms(2) find_certificate_step [OF step] unfolding completions_certified_def by blast
    qed (use st(1) r_cert key in simp)
  qed
  with ok new step show ?thesis by (auto simp: cert_step_def)
qed

theorem certificates_follow_completions_witness:
  "\<exists>db' r. recompute_completion id graded_course 60 11 7 2 = Inr (db', r)
     \<and> completions_certified db' \<and> length (certificates db') \<le> 1"
proof -
  obtain db' r where res: "recompute_completion id graded_course 60 11 7 2 = Inr (db', r)" by (rule graded_course_recomputes)
  have c: "completions_certified graded_course" "certificates graded_course = []"
    by (simp_all add: completions_certified_def graded_course_def retake_db_def sample_db_def empty_db_def)
  from certificates_follow_completions [OF graded_course_ok(1) c(1) res] res c(2) show ?thesis by auto
qed

text \<open>The completion stamp is not kept for good: a new activity on a completed course clears it.\<close>

lemma completion_stamp_is_cleared:
  "passed < n \<Longrightarrow> cc_completed_at (completion_state n passed now r) = None"
  by (simp add: completion_state_def Let_def)

section \<open>Access\<close>

text \<open>What the rows themselves say. \<open>offered\<close>: an active offering of a published or completed course in a cohort where the person
  has an active enrolment with track \<open>k\<close>. \<open>placed_at\<close>: the position of a course in a track. \<open>just_before\<close>: of the offered courses
  placed earlier in the track, the last one.\<close>

definition offered :: "academy_db \<Rightarrow> uuid \<Rightarrow> uuid \<Rightarrow> uuid option \<Rightarrow> uuid \<Rightarrow> bool" where
  "offered db t p k c \<longleftrightarrow>
     (\<exists>o' \<in> set (offerings db). \<exists>e \<in> set (enrollments db). \<exists>co \<in> set (courses db).
        of_tenant o' = t \<and> of_course o' = c \<and> of_status o' = ''active''
        \<and> en_tenant e = t \<and> en_cohort e = of_cohort o' \<and> en_person e = p \<and> en_status e = ''active'' \<and> en_track e = k
        \<and> co_tenant co = t \<and> co_id co = c \<and> co_status co \<in> {''published'', ''completed''})"

definition placed_at :: "academy_db \<Rightarrow> uuid \<Rightarrow> uuid \<Rightarrow> uuid \<Rightarrow> int \<Rightarrow> bool" where
  "placed_at db t k c n \<longleftrightarrow>
     (\<exists>x \<in> set (track_courses db). tc_tenant x = t \<and> tc_track x = k \<and> tc_course x = c \<and> tc_order_index x = n)"

definition on_track :: "academy_db \<Rightarrow> uuid \<Rightarrow> uuid \<Rightarrow> uuid \<Rightarrow> uuid \<Rightarrow> int \<Rightarrow> bool" where
  "on_track db t p k c n \<longleftrightarrow> offered db t p (Some k) c \<and> placed_at db t k c n"

definition just_before :: "academy_db \<Rightarrow> uuid \<Rightarrow> uuid \<Rightarrow> uuid \<Rightarrow> int \<Rightarrow> uuid \<Rightarrow> bool" where
  "just_before db t p k n c' \<longleftrightarrow>
     (\<exists>n' < n. on_track db t p k c' n' \<and> (\<forall>c'' n''. on_track db t p k c'' n'' \<and> n'' < n \<longrightarrow> n'' \<le> n'))"

definition has_completed :: "academy_db \<Rightarrow> uuid \<Rightarrow> uuid \<Rightarrow> uuid \<Rightarrow> bool" where
  "has_completed db t p c \<longleftrightarrow>
     (\<exists>r \<in> set (completions db). cc_tenant r = t \<and> cc_person r = p \<and> cc_course r = c \<and> cc_status r = ''completed'')"

text \<open>A track holds a course once, and no two courses at the same position.\<close>

definition tracks_ordered :: "academy_db \<Rightarrow> uuid \<Rightarrow> bool" where
  "tracks_ordered db t \<longleftrightarrow>
     (\<forall>k c n c' n'. placed_at db t k c n \<and> placed_at db t k c' n' \<longrightarrow> (c = c' \<longleftrightarrow> n = n'))"

subsection \<open>The sequence of a track\<close>

definition add_new :: "'a \<Rightarrow> 'a list \<Rightarrow> 'a list" where
  "add_new x xs = (if x \<in> set xs then xs else xs @ [x])"

lemma set_fold_add_new: "set (fold add_new xs ys) = set ys \<union> set xs"
  by (induction xs arbitrary: ys) (auto simp: add_new_def)

lemma add_new_sorted:
  assumes "sorted_wrt (\<lambda>a b. f a < f b) ys" "\<forall>y \<in> set ys. f y \<le> f x" "inj_on f (insert x (set ys))"
  shows "sorted_wrt (\<lambda>a b. f a < (f b :: int)) (add_new x ys)"
  using assms unfolding add_new_def by (auto simp: sorted_wrt_append inj_on_def order_less_le)

lemma fold_add_new_sorted:
  assumes "sorted_wrt (\<lambda>a b. f a < f b) ys" "sorted (map f xs)" "\<forall>y \<in> set ys. \<forall>x \<in> set xs. f y \<le> f x"
    "inj_on f (set ys \<union> set xs)"
  shows "sorted_wrt (\<lambda>a b. f a < (f b :: int)) (fold add_new xs ys)"
  using assms
proof (induction xs arbitrary: ys)
  case (Cons x xs)
  have "sorted_wrt (\<lambda>a b. f a < f b) (add_new x ys)"
    using Cons.prems by (intro add_new_sorted) (auto intro: inj_on_subset)
  with Cons.prems show ?case
    by (simp, intro Cons.IH) (auto simp: add_new_def intro: inj_on_subset split: if_splits)
qed simp

lemma map_of_add_to_sequence:
  "map_of (add_to_sequence k c ss) j =
     (if j = k then Some (add_new c (case map_of ss k of None \<Rightarrow> [] | Some cs \<Rightarrow> cs)) else map_of ss j)"
  by (induction k c ss rule: add_to_sequence.induct) (auto simp: add_new_def)

lemma keys_add_to_sequence: "distinct (map fst ss) \<Longrightarrow> distinct (map fst (add_to_sequence k c ss))"
proof (induction k c ss rule: add_to_sequence.induct)
  case (2 k c k' cs ss)
  have "set (map fst (add_to_sequence k c ss)) = insert k (set (map fst ss))" for ss
    by (induction k c ss rule: add_to_sequence.induct) auto
  with 2 show ?case by auto
qed simp

definition rows_of_track :: "uuid \<Rightarrow> entitled_row list \<Rightarrow> uuid list" where
  "rows_of_track k rows = map fst (filter (\<lambda>(c, tr, i, title). tr = Some k) rows)"

lemma track_sequences_of:
  "distinct (map fst (track_sequences rows)) \<and>
   map_of (track_sequences rows) k = (if rows_of_track k rows = [] then None else Some (fold add_new (rows_of_track k rows) []))"
proof -
  let ?f = "\<lambda>(c, t, i, title) ss. case t of None \<Rightarrow> ss | Some t \<Rightarrow> add_to_sequence t c ss"
  have "distinct (map fst ss) \<Longrightarrow> distinct (map fst (fold ?f rows ss)) \<and>
     map_of (fold ?f rows ss) k = (if rows_of_track k rows = [] then map_of ss k
       else Some (fold add_new (rows_of_track k rows) (case map_of ss k of None \<Rightarrow> [] | Some cs \<Rightarrow> cs)))" for ss
  proof (induction rows arbitrary: ss)
    case (Cons r rows)
    obtain c tr i title where r: "r = (c, tr, i, title)" by (cases r)
    show ?case
    proof (cases tr)
      case None
      with Cons r show ?thesis by (simp add: rows_of_track_def)
    next
      case (Some j)
      have "distinct (map fst (add_to_sequence j c ss))" by (rule keys_add_to_sequence [OF Cons.prems])
      from Cons.IH [OF this] Some r show ?thesis by (simp add: rows_of_track_def map_of_add_to_sequence)
    qed
  qed (simp add: rows_of_track_def)
  from this [of "[]"] show ?thesis by (simp add: track_sequences_def)
qed

lemma opened_in_sequences:
  "(\<exists>(tr, cs) \<in> set (track_sequences rows). P tr cs) \<longleftrightarrow>
   (\<exists>k. rows_of_track k rows \<noteq> [] \<and> P k (fold add_new (rows_of_track k rows) []))"
proof -
  have d: "distinct (map fst (track_sequences rows))" using track_sequences_of by blast
  have m: "(k, cs) \<in> set (track_sequences rows) \<longleftrightarrow> rows_of_track k rows \<noteq> [] \<and> cs = fold add_new (rows_of_track k rows) []" for k cs
    using map_of_eq_Some_iff [OF d, of k cs] conjunct2 [OF track_sequences_of [of rows k]] by (auto split: if_splits)
  show ?thesis by (auto simp: m)
qed

text \<open>In a list that rises strictly, the neighbour on the left is the greatest smaller element.\<close>

lemma left_neighbour:
  assumes s: "sorted_wrt (\<lambda>a b. f a < (f b :: int)) cs"
  shows "(\<exists>i < length cs. cs ! i = c \<and> (i = 0 \<or> P (cs ! (i - 1)))) \<longleftrightarrow>
     c \<in> set cs \<and> (\<forall>x \<in> set cs. f x < f c \<and> (\<forall>y \<in> set cs. f y < f c \<longrightarrow> f y \<le> f x) \<longrightarrow> P x)"
proof -
  have lt: "f (cs ! i) < f (cs ! j) \<longleftrightarrow> i < j" if "i < length cs" "j < length cs" for i j
    using sorted_wrt_nth_less [OF s] that by (metis linorder_cases order_less_asym order_less_irrefl)
  have inj: "cs ! i = cs ! j \<longleftrightarrow> i = j" if "i < length cs" "j < length cs" for i j
    using lt that by (metis linorder_cases order_less_irrefl)
  have "(i = 0 \<or> P (cs ! (i - 1))) \<longleftrightarrow> (\<forall>x \<in> set cs. f x < f (cs ! i) \<and> (\<forall>y \<in> set cs. f y < f (cs ! i) \<longrightarrow> f y \<le> f x) \<longrightarrow> P x)"
    if i: "i < length cs" for i
  proof (cases i)
    case 0
    with i lt show ?thesis by (auto simp: in_set_conv_nth)
  next
    case (Suc j)
    have j: "j < length cs" using i Suc by simp
    have le: "f y \<le> f (cs ! j)" if "y \<in> set cs" "f y < f (cs ! i)" for y
    proof -
      from that(1) obtain m where m: "m < length cs" "y = cs ! m" by (auto simp: in_set_conv_nth)
      with that(2) lt [OF m(1) i] have "m \<le> j" using Suc by simp
      with lt [OF j m(1)] m show ?thesis by (metis linorder_not_less)
    qed
    have "x = cs ! j" if "x \<in> set cs" "f x < f (cs ! i)" "\<forall>y \<in> set cs. f y < f (cs ! i) \<longrightarrow> f y \<le> f x" for x
    proof -
      from that(1) obtain m where m: "m < length cs" "x = cs ! m" by (auto simp: in_set_conv_nth)
      have "f (cs ! j) \<le> f x" using that(3) j lt [OF j i] Suc by simp
      with lt [OF m(1) j] m le [OF that(1,2)] lt [OF j m(1)] show ?thesis by (metis linorder_cases order_less_le_trans order_less_irrefl)
    qed
    moreover have "f (cs ! j) < f (cs ! i)" using lt [OF j i] Suc by simp
    ultimately show ?thesis using le j Suc by (metis diff_Suc_1 nat.distinct(1) nth_mem)
  qed
  then show ?thesis by (metis in_set_conv_nth)
qed

subsection \<open>The rows of the join\<close>

lemma entitled_row_iff:
  "(c, k, i, title) \<in> set (entitled_course_rows db t p) \<longleftrightarrow>
     (\<exists>(o', e, co, tc) \<in> set (entitlement_join db t p). c = of_course o' \<and> k = en_track e \<and> i = map_option tc_order_index tc \<and> title = co_title co)"
  by (force simp: entitled_course_rows_def)

lemma join_row:
  "(o', e, co, tc) \<in> set (entitlement_join db t p) \<Longrightarrow>
   (of_course o', en_track e, map_option tc_order_index tc, co_title co) \<in> set (entitled_course_rows db t p)"
  unfolding entitled_row_iff by blast

lemma join_mem:
  "(o', e, co, tc) \<in> set (entitlement_join db t p) \<longleftrightarrow>
     o' \<in> set (offerings db) \<and> e \<in> set (enrollments db) \<and> co \<in> set (courses db)
     \<and> en_cohort e = of_cohort o' \<and> en_tenant e = t \<and> co_id co = of_course o' \<and> co_tenant co = t
     \<and> of_tenant o' = t \<and> of_status o' = ''active'' \<and> co_status co \<in> {''published'', ''completed''}
     \<and> en_person e = p \<and> en_status e = ''active''
     \<and> (case tc of
          None \<Rightarrow> en_track e = None
        | Some x \<Rightarrow> x \<in> set (track_courses db) \<and> tc_tenant x = t \<and> en_track e = Some (tc_track x) \<and> tc_course x = of_course o')"
proof -
  let ?ts = "filter (\<lambda>x. tc_tenant x = en_tenant e \<and> Some (tc_track x) = en_track e \<and> tc_course x = of_course o') (track_courses db)"
  have n: "en_track e = None \<Longrightarrow> ?ts = []" by simp
  have m: "tc \<in> set (if ?ts = [] then [None] else map Some ?ts) \<and> (en_track e = None \<or> tc \<noteq> None) \<longleftrightarrow>
      (case tc of None \<Rightarrow> en_track e = None
        | Some x \<Rightarrow> x \<in> set (track_courses db) \<and> tc_tenant x = en_tenant e \<and> en_track e = Some (tc_track x) \<and> tc_course x = of_course o')"
  proof (cases tc)
    case None
    then show ?thesis by (cases "en_track e") auto
  next
    case (Some x)
    have "x \<in> set ?ts \<longleftrightarrow> x \<in> set (track_courses db) \<and> tc_tenant x = en_tenant e \<and> en_track e = Some (tc_track x) \<and> tc_course x = of_course o'"
      by auto
    with Some show ?thesis by (auto simp: filter_empty_conv)
  qed
  have "(o', e, co, tc) \<in> set (entitlement_join db t p) \<longleftrightarrow>
     o' \<in> set (offerings db) \<and> e \<in> set (enrollments db) \<and> co \<in> set (courses db)
     \<and> en_cohort e = of_cohort o' \<and> en_tenant e = of_tenant o' \<and> co_id co = of_course o' \<and> co_tenant co = of_tenant o'
     \<and> of_tenant o' = t \<and> of_status o' = ''active'' \<and> (co_status co = ''published'' \<or> co_status co = ''completed'')
     \<and> en_person e = p \<and> en_status e = ''active''
     \<and> (tc \<in> set (if ?ts = [] then [None] else map Some ?ts) \<and> (en_track e = None \<or> tc \<noteq> None))"
    by (auto simp: entitlement_join_def Let_def)
  then show ?thesis unfolding m by (auto split: option.split)
qed

lemma row_without_track: "(\<exists>i title. (c, None, i, title) \<in> set (entitled_course_rows db t p)) \<longleftrightarrow> offered db t p None c"
proof
  assume "\<exists>i title. (c, None, i, title) \<in> set (entitled_course_rows db t p)"
  then obtain o' e co tc where j: "(o', e, co, tc) \<in> set (entitlement_join db t p)" "c = of_course o'" "en_track e = None"
    unfolding entitled_row_iff by force
  show "offered db t p None c"
    unfolding offered_def using j(1) [unfolded join_mem] j(2,3)
    by (intro bexI [of _ o'] bexI [of _ e] bexI [of _ co]) simp_all
next
  assume "offered db t p None c"
  then obtain o' e co where "o' \<in> set (offerings db)" "e \<in> set (enrollments db)" "co \<in> set (courses db)"
    and r: "of_tenant o' = t" "of_course o' = c" "of_status o' = ''active''" "en_tenant e = t"
    "en_cohort e = of_cohort o'" "en_person e = p" "en_status e = ''active''" "en_track e = None" "co_tenant co = t" "co_id co = c"
    "co_status co \<in> {''published'', ''completed''}"
    unfolding offered_def by blast
  then have "(o', e, co, None) \<in> set (entitlement_join db t p)" unfolding join_mem by simp
  from join_row [OF this] r show "\<exists>i title. (c, None, i, title) \<in> set (entitled_course_rows db t p)" by auto
qed

lemma row_on_track:
  "(\<exists>title. (c, Some k, i, title) \<in> set (entitled_course_rows db t p)) \<longleftrightarrow> (\<exists>n. i = Some n \<and> on_track db t p k c n)"
proof
  assume "\<exists>title. (c, Some k, i, title) \<in> set (entitled_course_rows db t p)"
  then obtain o' e co tc where j: "(o', e, co, tc) \<in> set (entitlement_join db t p)" "c = of_course o'" "en_track e = Some k"
    "i = map_option tc_order_index tc" unfolding entitled_row_iff by force
  note m = j(1) [unfolded join_mem]
  obtain x where x: "tc = Some x" using m j(3) by (cases tc) simp_all
  have "offered db t p (Some k) c"
    unfolding offered_def using m j(2,3) by (intro bexI [of _ o'] bexI [of _ e] bexI [of _ co]) simp_all
  moreover have "placed_at db t k c (tc_order_index x)"
    unfolding placed_at_def using m j(2,3) x by (intro bexI [of _ x]) simp_all
  ultimately show "\<exists>n. i = Some n \<and> on_track db t p k c n" using j(4) x by (simp add: on_track_def)
next
  assume "\<exists>n. i = Some n \<and> on_track db t p k c n"
  then obtain n o' e co x where i: "i = Some n" and "o' \<in> set (offerings db)" "e \<in> set (enrollments db)" "co \<in> set (courses db)"
    "x \<in> set (track_courses db)" and r: "of_tenant o' = t" "of_course o' = c" "of_status o' = ''active''" "en_tenant e = t"
    "en_cohort e = of_cohort o'" "en_person e = p" "en_status e = ''active''" "en_track e = Some k" "co_tenant co = t" "co_id co = c"
    "co_status co \<in> {''published'', ''completed''}" "tc_tenant x = t" "tc_track x = k" "tc_course x = c" "tc_order_index x = n"
    unfolding on_track_def offered_def placed_at_def by blast
  then have "(o', e, co, Some x) \<in> set (entitlement_join db t p)" unfolding join_mem by simp
  from join_row [OF this] r i show "\<exists>title. (c, Some k, i, title) \<in> set (entitled_course_rows db t p)" by auto
qed

lemma rows_of_track_mem: "c \<in> set (rows_of_track k (entitled_course_rows db t p)) \<longleftrightarrow> (\<exists>n. on_track db t p k c n)"
proof -
  have "c \<in> set (rows_of_track k (entitled_course_rows db t p)) \<longleftrightarrow> (\<exists>i title. (c, Some k, i, title) \<in> set (entitled_course_rows db t p))"
    by (force simp: rows_of_track_def)
  then show ?thesis using row_on_track [of c k _ db t p] by blast
qed

text \<open>The position of a course in a track, where tracks are ordered.\<close>

definition place_in :: "academy_db \<Rightarrow> uuid \<Rightarrow> uuid \<Rightarrow> uuid \<Rightarrow> int" where
  "place_in db t k c = (THE n. placed_at db t k c n)"

lemma place_in: "tracks_ordered db t \<Longrightarrow> placed_at db t k c n \<Longrightarrow> place_in db t k c = n"
  unfolding place_in_def tracks_ordered_def by (rule the_equality) blast+

lemma place_inj:
  "tracks_ordered db t \<Longrightarrow> placed_at db t k c n \<Longrightarrow> placed_at db t k c' n' \<Longrightarrow> place_in db t k c = place_in db t k c' \<Longrightarrow> c = c'"
  using place_in [of db t k c n] place_in [of db t k c' n'] unfolding tracks_ordered_def by blast

lemma sorted_rows_of_track:
  assumes o': "tracks_ordered db t"
  shows "sorted (map (place_in db t k) (rows_of_track k (entitled_course_rows db t p)))"
proof -
  let ?rows = "entitled_course_rows db t p"
  let ?key = "\<lambda>(c, tr, i, title). (null_last tr, null_last i, title)"
  have s: "sorted (map ?key ?rows)" by (simp add: entitled_course_rows_def)
  let ?l = "filter (\<lambda>(c, tr, i, title). tr = Some k) ?rows"
  have f: "sorted (map ?key ?l)" by (rule sorted_filter [OF s])
  have i: "snd (snd r) = (Some (place_in db t k (fst r)), snd (snd (snd r))) \<and> fst (snd r) = Some k" if "r \<in> set ?l" for r
  proof -
    obtain c tr i title where r: "r = (c, tr, i, title)" by (cases r)
    with that have "(c, Some k, i, title) \<in> set ?rows" "tr = Some k" by auto
    moreover then obtain n where "i = Some n" "on_track db t p k c n" using row_on_track [of c k i db t p] by blast
    ultimately show ?thesis using place_in [OF o'] r by (auto simp: on_track_def)
  qed
  have "place_in db t k (fst a) \<le> place_in db t k (fst b)" if "a \<in> set ?l" "b \<in> set ?l" "?key a \<le> ?key b" for a b
    using i [OF that(1)] i [OF that(2)] that(3) by (cases a; cases b) (auto simp: null_last_def less_eq_prod_def)
  with f have "sorted (map (\<lambda>r. place_in db t k (fst r)) ?l)"
    unfolding sorted_map by (rule sorted_wrt_mono_rel [rotated])
  then show ?thesis by (simp add: rows_of_track_def comp_def)
qed

lemma completed_courses_iff: "c \<in> set (completed_courses db t p) \<longleftrightarrow> has_completed db t p c"
  by (auto simp: completed_courses_def has_completed_def)

text \<open>What opens a course, read off the rows.\<close>

lemma opened_by_track_rows:
  assumes o': "tracks_ordered db t"
  shows "opened_by_track db t p c \<longleftrightarrow>
    offered db t p None c
    \<or> (\<exists>k n. on_track db t p k c n \<and> (\<forall>c'. just_before db t p k n c' \<longrightarrow> has_completed db t p c'))"
proof -
  let ?rows = "entitled_course_rows db t p"
  have leg: "c \<in> set (legacy_courses ?rows) \<longleftrightarrow> offered db t p None c"
    using row_without_track [of c db t p] by (force simp: legacy_courses_def)
  have seq: "(rows_of_track k ?rows \<noteq> [] \<and> (\<exists>i < length cs. cs ! i = c \<and> (i = 0 \<or> cs ! (i - 1) \<in> set (completed_courses db t p))))
      \<longleftrightarrow> (\<exists>n. on_track db t p k c n \<and> (\<forall>c'. just_before db t p k n c' \<longrightarrow> has_completed db t p c'))"
    if cs: "cs = fold add_new (rows_of_track k ?rows) []" for k cs
  proof -
    let ?f = "place_in db t k"
    have mem: "x \<in> set cs \<longleftrightarrow> (\<exists>n. on_track db t p k x n)" for x by (simp add: cs set_fold_add_new rows_of_track_mem)
    have pl: "on_track db t p k x n \<longleftrightarrow> x \<in> set cs \<and> ?f x = n" for x n
      using mem place_in [OF o'] by (auto simp: on_track_def)
    have "sorted_wrt (\<lambda>a b. ?f a < ?f b) cs"
      unfolding cs
    proof (rule fold_add_new_sorted [OF _ sorted_rows_of_track [OF o']])
      show "inj_on ?f (set [] \<union> set (rows_of_track k ?rows))"
      proof (rule inj_onI)
        fix x y assume "x \<in> set [] \<union> set (rows_of_track k ?rows)" "y \<in> set [] \<union> set (rows_of_track k ?rows)" "?f x = ?f y"
        then show "x = y" using place_inj [OF o'] by (auto simp: rows_of_track_mem on_track_def)
      qed
    qed simp_all
    note n = left_neighbour [OF this, of c "\<lambda>x. has_completed db t p x"]
    have j: "just_before db t p k (?f c) x \<longleftrightarrow> x \<in> set cs \<and> ?f x < ?f c \<and> (\<forall>y \<in> set cs. ?f y < ?f c \<longrightarrow> ?f y \<le> ?f x)" for x
      unfolding just_before_def pl by auto
    have ne: "c \<in> set cs \<Longrightarrow> rows_of_track k ?rows \<noteq> []" by (auto simp: cs)
    have "(\<exists>n. on_track db t p k c n \<and> (\<forall>c'. just_before db t p k n c' \<longrightarrow> has_completed db t p c')) \<longleftrightarrow>
        c \<in> set cs \<and> (\<forall>c'. just_before db t p k (?f c) c' \<longrightarrow> has_completed db t p c')"
      unfolding pl by blast
    also have "\<dots> \<longleftrightarrow> (\<exists>i < length cs. cs ! i = c \<and> (i = 0 \<or> has_completed db t p (cs ! (i - 1))))"
      unfolding n j by blast
    finally show ?thesis unfolding completed_courses_iff using ne n by blast
  qed
  show ?thesis unfolding opened_by_track_def leg opened_in_sequences
    using seq [OF refl] by blast
qed

text \<open>C15. Read off the rows: a person can start a course exactly when the course is published or completed,
  actively offered to a cohort where the person is actively enrolled, and this enrolment either names
  no track, or names a track that holds the course and whose last offered course before it, if there
  is one, the person has completed; and when every explicit prerequisite is completed. A locked course
  names a course the person has not completed. The positions of a track are taken to be distinct, as
  the curriculum service numbers them.\<close>

theorem access_is_earned:
  assumes "tracks_ordered db t"
  shows "(require_course_access db t p c = Inr () \<longleftrightarrow>
      (offered db t p None c
       \<or> (\<exists>k n. on_track db t p k c n \<and> (\<forall>c'. just_before db t p k n c' \<longrightarrow> has_completed db t p c')))
      \<and> (\<forall>r \<in> set (prerequisites db). pr_tenant r = t \<and> pr_course r = c \<longrightarrow> has_completed db t p (pr_requires r)))
   \<and> (\<forall>st. map_of (course_access_states db t p) c = Some st \<longrightarrow> as_locked st \<longrightarrow>
        (\<exists>u. as_until st = Some u \<and> \<not> has_completed db t p u))"
proof -
  have "require_course_access db t p c = Inr () \<longleftrightarrow> opened_by_track db t p c \<and> prerequisites_met db t p c"
    using access_states_unlocked [of db t p c] can_access_unlocked [of db t p c] by (simp add: require_course_access_def ensure_def)
  moreover have "\<forall>st. map_of (course_access_states db t p) c = Some st \<longrightarrow> as_locked st \<longrightarrow>
        (\<exists>u. as_until st = Some u \<and> \<not> has_completed db t p u)"
    using locks_honest_states [of db t p] unfolding locks_honest_def completed_courses_iff by blast
  ultimately show ?thesis
    unfolding opened_by_track_rows [OF assms] prerequisites_met_def completed_courses_iff by blast
qed

definition two_course_track :: academy_db where
  "two_course_track = empty_db\<lparr>
     courses := [\<lparr>co_id = 2, co_tenant = 11, co_title = ''A'', co_status = ''published''\<rparr>,
                 \<lparr>co_id = 4, co_tenant = 11, co_title = ''B'', co_status = ''published''\<rparr>],
     enrollments := [\<lparr>en_id = 30, en_tenant = 11, en_cohort = 31, en_person = 7, en_track = Some 32,
                      en_role = ''student'', en_status = ''active'', en_access_ends_at = None\<rparr>],
     offerings := [\<lparr>of_id = 33, of_tenant = 11, of_cohort = 31, of_course = 2, of_status = ''active'',
                    of_starts_at = None, of_ends_at = None\<rparr>,
                   \<lparr>of_id = 34, of_tenant = 11, of_cohort = 31, of_course = 4, of_status = ''active'',
                    of_starts_at = None, of_ends_at = None\<rparr>],
     track_courses := [\<lparr>tc_id = 35, tc_tenant = 11, tc_track = 32, tc_course = 2, tc_order_index = 0\<rparr>,
                       \<lparr>tc_id = 36, tc_tenant = 11, tc_track = 32, tc_course = 4, tc_order_index = 1\<rparr>]\<rparr>"

lemma two_course_rows:
  "entitled_course_rows two_course_track 11 7 = [(2, Some 32, Some 0, ''A''), (4, Some 32, Some 1, ''B'')]"
  by (simp add: entitled_course_rows_def entitlement_join_def two_course_track_def null_last_def)

lemma two_course_ordered: "tracks_ordered two_course_track 11"
  by (auto simp: tracks_ordered_def placed_at_def two_course_track_def)

lemma two_course_places:
  "on_track two_course_track 11 7 k c n \<longleftrightarrow> k = 32 \<and> (c = 2 \<and> n = 0 \<or> c = 4 \<and> n = 1)"
  "offered two_course_track 11 7 None c \<longleftrightarrow> False" "has_completed two_course_track 11 7 c \<longleftrightarrow> False"
  "prerequisites two_course_track = []"
  by (auto simp: on_track_def offered_def placed_at_def has_completed_def two_course_track_def empty_db_def)

theorem access_is_earned_witness:
  "require_course_access two_course_track 11 7 2 = Inr () \<and> require_course_access two_course_track 11 7 4 \<noteq> Inr ()"
proof -
  have "just_before two_course_track 11 7 32 1 2" "\<not> just_before two_course_track 11 7 32 0 c" for c
    by (auto simp: just_before_def two_course_places)
  then show ?thesis
    using access_is_earned [OF two_course_ordered, of 7 2] access_is_earned [OF two_course_ordered, of 7 4]
    by (simp add: two_course_places) blast
qed

text \<open>Opening a chapter or activity is never more permissive than the access states: whoever
  passes the open-course check may access the course, an enrollment window is open, and no
  explicit prerequisite is missing.\<close>

theorem open_course_implies_access:
  assumes "require_course_open db t p c now = Inr ()"
  shows "person_can_access_course db t p c \<and> prerequisites_met db t p c
    \<and> (\<exists>(o', e, co, tc) \<in> set (entitlement_join db t p). of_course o' = c \<and> in_window o' e now)"
proof -
  have c: "c \<in> open_course_ids db t p now" and un: "unmet_prerequisites db t p c = []"
    using assms by (auto simp: require_course_open_def split: if_splits)
  have pre: "prerequisites_met db t p c"
    unfolding prerequisites_met_def
  proof (intro ballI impI, rule ccontr)
    fix r assume r: "r \<in> set (prerequisites db)" "pr_tenant r = t" "pr_course r = c"
      "pr_requires r \<notin> set (completed_courses db t p)"
    then have "pr_requires r \<in> set (unmet_prerequisites db t p c)"
      by (auto simp: unmet_prerequisites_def Let_def split: option.splits)
    with un show False by simp
  qed
  have "c \<in> visible_course_ids db t p" using c open_courses_visible by blast
  have nl: "\<not> as_locked st" if st: "map_of (course_access_states db t p) c = Some st" for st
  proof
    assume l: "as_locked st"
    then obtain u where "as_until st = Some u" "u \<notin> set (completed_courses db t p)"
      using locks_honest_states [of db t p] st unfolding locks_honest_def by blast
    with st l have "u \<in> set (unmet_prerequisites db t p c)" by (simp add: unmet_prerequisites_def)
    with un show False by simp
  qed
  have "opened_by_track db t p c \<or> map_of (course_access_states db t p) c \<noteq> None"
    using visible_has_state [OF \<open>c \<in> visible_course_ids db t p\<close>] by blast
  then have "person_can_access_course db t p c"
    using nl pre access_states_unlocked [of db t p c]
    by (auto simp: person_can_access_course_def unlocked_in_def split: option.splits)
  then show ?thesis using pre c by (auto simp: open_course_ids_def)
qed

theorem open_course_implies_access_witness:
  "require_course_open two_course_track 11 7 2 50 = Inr () \<and> person_can_access_course two_course_track 11 7 2"
proof -
  have none: "completed_courses two_course_track 11 7 = []" "prerequisites two_course_track = []"
    by (simp_all add: completed_courses_def two_course_track_def empty_db_def)
  have st: "map_of (course_access_states two_course_track 11 7) 2 = Some (unlocked 2)"
    by (simp add: course_access_states_def two_course_rows Let_def none track_sequences_def legacy_courses_def
        with_previous_def track_step_def track_state_def prerequisite_pairs_def locked_behind_def unlocked_def)
  have "2 \<in> open_course_ids two_course_track 11 7 50"
    by (simp add: open_course_ids_def entitlement_join_def two_course_track_def in_window_def)
  then have open': "require_course_open two_course_track 11 7 2 50 = Inr ()"
    by (simp add: require_course_open_def unmet_prerequisites_def none st unlocked_def)
  from open_course_implies_access [OF open'] open' show ?thesis by blast
qed

section \<open>Pacing\<close>

lemma pacing_fold:
  "fold (\<lambda>ov st. st\<lparr>ps_readable := ps_readable st \<or> released ov now,
                    ps_submittable := ps_submittable st \<or> released ov now \<and> not_past_due ov now\<rparr>) ovs st
   = \<lparr>ps_readable = ps_readable st \<or> (\<exists>ov \<in> set ovs. released ov now),
      ps_submittable = ps_submittable st \<or> (\<exists>ov \<in> set ovs. released ov now \<and> not_past_due ov now),
      ps_has_override = ps_has_override st\<rparr>"
  by (induction ovs arbitrary: st) auto

text \<open>Pacing is as permissive as the best override: with no override an activity is readable and
  submittable; otherwise it is readable exactly when some applicable override has released it
  and submittable exactly when some applicable override has released it and is not past due,
  so what is submittable is readable.\<close>

theorem pacing_is_most_permissive:
  "(require_activity_readable db t p c a now = Inr () \<longleftrightarrow>
      applicable_overrides db t p c a = [] \<or> (\<exists>ov \<in> set (applicable_overrides db t p c a). released ov now))
   \<and> (require_activity_submittable db t p c a now = Inr () \<longleftrightarrow>
      applicable_overrides db t p c a = [] \<or>
      (\<exists>ov \<in> set (applicable_overrides db t p c a). released ov now \<and> not_past_due ov now))"
  by (simp add: require_activity_readable_def require_activity_submittable_def activity_pacing_def Let_def
      pacing_fold ensure_def)

section \<open>Grades\<close>

lemma py_round_mono: "x \<le> y \<Longrightarrow> py_round x \<le> py_round y"
proof -
  assume le: "x \<le> y"
  then have f: "floor x \<le> floor y" by (rule floor_mono)
  show ?thesis
  proof (cases "floor x = floor y")
    case True
    with le show ?thesis by (auto simp: py_round_def Let_def)
  next
    case False
    then have "floor x + 1 \<le> floor y" using f by simp
    moreover have "py_round x \<le> floor x + 1" "floor y \<le> py_round y" by (auto simp: py_round_def Let_def)
    ultimately show ?thesis by linarith
  qed
qed

text \<open>A course grade is a percentage: with fractions between zero and one and non-negative
  weights the course grade and the grade over attempted work both lie between 0 and 100, and
  leaving out unattempted work never lowers a grade.\<close>

theorem grades_are_percentages:
  assumes "\<forall>a \<in> set (course_activities db t c). 0 \<le> act_weight a"
    and "\<forall>a \<in> set (course_activities db t c). 0 \<le> fraction_of (best_scores_for db t p c) a
           \<and> fraction_of (best_scores_for db t p c) a \<le> 1"
  shows "0 \<le> fst (course_grade db t p c) \<and> fst (course_grade db t p c) \<le> ar_pct (attempted_grade db t p c)
    \<and> ar_pct (attempted_grade db t p c) \<le> 100"
proof -
  let ?acts = "course_activities db t c" and ?best = "best_scores_for db t p c"
  let ?f = "fraction_of ?best"
  define graded where "graded = filter (\<lambda>a. map_of ?best (act_id a) \<noteq> None) ?acts"
  let ?W = "sum_list (map act_weight ?acts)" and ?G = "sum_list (map act_weight graded)"
  let ?S = "sum_list (map (\<lambda>a. ?f a * act_weight a) ?acts)"
  have S: "?S = sum_list (map (\<lambda>a. ?f a * act_weight a) graded)"
  proof -
    have "sum_list (map (\<lambda>a. ?f a * act_weight a) xs)
        = sum_list (map (\<lambda>a. ?f a * act_weight a) (filter (\<lambda>a. map_of ?best (act_id a) \<noteq> None) xs))" for xs
      by (induction xs) (auto simp: fraction_of_def)
    then show ?thesis by (simp only: graded_def)
  qed
  have att: "ar_pct (attempted_grade db t p c) = (if ?G = 0 then 0 else py_round (?S / ?G * 100))"
  proof -
    have cells: "snd (course_grade db t p c) = per_activity ?acts ?best"
      by (simp add: course_grade_def grade_from_def per_activity_def)
    have "map gc_weight (filter gc_graded (per_activity ?acts ?best)) = map act_weight graded"
      "map (\<lambda>c. gc_fraction c * gc_weight c) (filter gc_graded (per_activity ?acts ?best)) = map (\<lambda>a. ?f a * act_weight a) graded"
      by (simp_all add: per_activity_def graded_def filter_map comp_def)
    then show ?thesis by (simp add: attempted_grade_def Let_def cells S)
  qed
  have crs: "fst (course_grade db t p c) = (if ?acts = [] \<or> ?W = 0 then 0 else py_round (?S / ?W * 100))"
    by (simp add: course_grade_def grade_from_def weighted_pct_def)
  have G0: "0 \<le> ?G" using assms(1) by (intro sum_list_nonneg) (auto simp: graded_def)
  have GW: "?G \<le> ?W"
  proof -
    have "sum_list (map act_weight (filter P xs)) \<le> sum_list (map act_weight xs)"
      if "\<forall>a \<in> set xs. 0 \<le> act_weight a" for P xs using that by (induction xs) auto
    then show ?thesis using assms(1) by (simp add: graded_def)
  qed
  have S0: "0 \<le> ?S" and SG: "?S \<le> ?G"
    using weighted_sum_bounds [of graded ?f act_weight] assms by (auto simp: S graded_def)
  show ?thesis
  proof (cases "?G = 0")
    case True
    then have "?S = 0" using S0 SG by simp
    with True show ?thesis using py_round_of_int [of 0] by (simp add: att crs)
  next
    case False
    then have pos: "0 < ?G" "0 < ?W" using G0 GW by linarith+
    have "?S / ?W \<le> ?S / ?G" using S0 GW pos by (intro divide_left_mono) auto
    then have "py_round (?S / ?W * 100) \<le> py_round (?S / ?G * 100)" by (intro py_round_mono mult_right_mono) simp_all
    moreover have "0 \<le> py_round (?S / ?W * 100)" by (rule py_round_mono_int(1)) (use S0 pos in simp)
    moreover have "py_round (?S / ?G * 100) \<le> 100"
      by (rule py_round_mono_int(2)) (use SG pos in \<open>simp add: divide_le_eq\<close>)
    moreover have "0 \<le> py_round (?S / ?G * 100)" by (rule py_round_mono_int(1)) (use S0 pos in simp)
    ultimately show ?thesis using False by (simp add: att crs)
  qed
qed

theorem grades_are_percentages_witness:
  "fst (course_grade graded_course 11 7 2) \<le> ar_pct (attempted_grade graded_course 11 7 2)"
proof -
  have "course_activities graded_course 11 2 = [retake_activity]"
    by (simp add: course_activities_def graded_course_def)
  moreover have "best_scores_for graded_course 11 7 2 = [(3, retake_score)]"
    by (simp add: graded_course_def best_scores_for_def score_query_def score_join_def keep_best_def
        retake_submission_def retake_score_def)
  moreover have "act_weight retake_activity = 1" by (simp add: retake_activity_def sample_activity_def)
  ultimately have "0 \<le> fst (course_grade graded_course 11 7 2)
     \<and> fst (course_grade graded_course 11 7 2) \<le> ar_pct (attempted_grade graded_course 11 7 2)
     \<and> ar_pct (attempted_grade graded_course 11 7 2) \<le> 100"
    by (intro grades_are_percentages) (simp_all add: fraction_of_def retake_score_def)
  then show ?thesis by blast
qed

section \<open>Facilitators\<close>

lemma facilitator_activated:
  assumes "activate_eligible db now t sel = Inr (db', rs)" "distinct (map fn_id (nominations db))"
    and "n' \<in> set (nominations db')"
  shows "n' \<in> set (nominations db) \<or>
    (\<exists>n \<in> set (nominations db). n' = activate_row now n \<and> fn_tenant n = t \<and> eligible db n
       \<and> (fn_id n, True) \<in> set rs)"
proof -
  note loop = activation_loop_result [OF activate_eligible_loop [OF assms(1)]]
  from assms(3) loop have "n' \<in> set (activated_rows now (eligible db) (candidates db t sel) (nominations db))" by simp
  from activated_rows_origin [OF this] show ?thesis
  proof
    assume "\<exists>m \<in> set (nominations db). \<exists>n \<in> set (candidates db t sel). eligible db n \<and> same_nomination n m
        \<and> fn_status m = ''pending'' \<and> n' = activate_row now m"
    then obtain m n where m: "m \<in> set (nominations db)" "n \<in> set (candidates db t sel)" "eligible db n"
      "same_nomination n m" "n' = activate_row now m" by blast
    then have "m = n" using unique_rows [OF assms(2)] candidates_rows by blast
    with m loop candidates_rows [OF m(2)] show ?thesis by force
  qed simp
qed

text \<open>Facilitator access is earned: an activation, however triggered, only turns pending
  nominations of the tenant active, each for an active person who has completed every one of
  the (at least one) snapshotted required courses, and leaves all other nominations as they
  were.\<close>

theorem facilitator_activation_is_earned:
  assumes "activate_eligible db now t sel = Inr (db', rs)" "distinct (map fn_id (nominations db))"
    and "n' \<in> set (nominations db')"
  shows "n' \<in> set (nominations db) \<or>
    (\<exists>n \<in> set (nominations db). n' = activate_row now n \<and> fn_tenant n = t \<and> eligible db n
       \<and> (fn_id n, True) \<in> set rs)"
  using assms by (rule facilitator_activated)

text \<open>Completing a course activates at once every pending nomination of the learner that
  required it and whose other requirements are completed.\<close>

theorem completed_course_activates:
  assumes "n \<in> set (nominations db)" "fn_tenant n = t" "fn_person n = p" "eligible db n"
    and "\<exists>r \<in> set (requirements_of db n). fr_course r = c"
  shows "\<exists>db' o'. reconcile_completed_course db now t p c = Inr (db', o') \<and> activate_row now n \<in> set (nominations db')
    \<and> 1 \<le> sw_activated o' \<and> learning_facts db' = learning_facts db"
proof -
  obtain db' rs where loop: "activation_loop db now None (candidates db t (ByCompletedCourse p c)) = Inr (db', rs)"
    using activation_loop_total [of db now] by fastforce
  note res = activation_loop_result [OF loop]
  have cand: "n \<in> set (candidates db t (ByCompletedCourse p c))"
    using assms by (auto simp: candidates_def eligible_def list_ex_iff)
  have "activate_row now n \<in> set (nominations db')"
    using activated_rows_reached [where ok = "eligible db", OF assms(1) cand assms(4)] res assms(4)
    by (simp add: same_nomination_def eligible_def)
  moreover have "(fn_id n, True) \<in> set rs" using res cand assms(4) by force
  then have "1 \<le> count_rows snd rs" by (induction rs) auto
  moreover have "reconcile_completed_course db now t p c = Inr (db', sweep_of rs)"
    using loop by (simp add: reconcile_completed_course_def activate_eligible_def selector_actor_def)
  ultimately show ?thesis using res by (auto simp: sweep_of_def)
qed

definition nominated_db :: academy_db where
  "nominated_db = empty_db\<lparr>people := [sample_person],
     completions := [\<lparr>cc_id = 50, cc_tenant = 11, cc_person = 7, cc_course = 2, cc_status = ''completed'',
                      cc_pct = 1, cc_completed_at = Some 5\<rparr>],
     nominations := [\<lparr>fn_id = 51, fn_tenant = 11, fn_person = 7, fn_nominated_by = None, fn_scope = ''course'',
                      fn_cohort = None, fn_offering = Some 33, fn_status = ''pending'', fn_activated_at = None,
                      fn_revoked_at = None, fn_activation_reason = None, fn_created_at = 1\<rparr>],
     requirements := [\<lparr>fr_id = 52, fr_tenant = 11, fr_nomination = 51, fr_course = 2\<rparr>], next_id := 100\<rparr>"

lemma nominated_eligible: "nominations nominated_db = [n] \<Longrightarrow> eligible nominated_db n \<and> fn_tenant n = 11 \<and> fn_person n = 7
    \<and> requirements_of nominated_db n = [\<lparr>fr_id = 52, fr_tenant = 11, fr_nomination = 51, fr_course = 2\<rparr>]"
  by (auto simp: nominated_db_def eligible_def requirements_of_def course_completed_def sample_person_def)

theorem completed_course_activates_witness:
  "\<exists>db' o' n. reconcile_completed_course nominated_db 60 11 7 2 = Inr (db', o') \<and> n \<in> set (nominations db')
     \<and> fn_status n = ''active''"
proof -
  obtain n where n: "nominations nominated_db = [n]" by (simp add: nominated_db_def)
  note e = nominated_eligible [OF n]
  from completed_course_activates [of n nominated_db 11 7 2 60] e n
  show ?thesis by (fastforce simp: activate_row_def)
qed

theorem facilitator_activation_is_earned_witness:
  "\<exists>db' rs. activate_eligible nominated_db 60 11 (ByCompletedCourse 7 2) = Inr (db', rs)
     \<and> (\<forall>n' \<in> set (nominations db'). n' \<in> set (nominations nominated_db) \<or>
          (\<exists>n \<in> set (nominations nominated_db). n' = activate_row 60 n \<and> eligible nominated_db n))"
proof -
  obtain db' rs where loop: "activation_loop nominated_db 60 None (candidates nominated_db 11 (ByCompletedCourse 7 2)) = Inr (db', rs)"
    using activation_loop_total [of nominated_db 60] by fastforce
  then have res: "activate_eligible nominated_db 60 11 (ByCompletedCourse 7 2) = Inr (db', rs)"
    by (simp add: activate_eligible_def selector_actor_def)
  have "distinct (map fn_id (nominations nominated_db))" by (simp add: nominated_db_def)
  with facilitator_activation_is_earned [OF res] res show ?thesis by blast
qed

end
