(* ===== verification/Lab_Model.thy ===== *)
theory Lab_Model
  imports Academy_Model
begin

text \<open>
  The tables of the lab subsystem (\<open>models/lab.py\<close>): templates, instances, the durable
  operation queue and the console heartbeats, with the effective settings the worker reads.
  They form a store of their own, \<open>lab_db\<close>, beside the learning store. \<open>attempts\<close> is a
  \<open>nat\<close>, so \<open>greatest(attempts - 1, 0)\<close> is its subtraction. Message columns are kept
  where a later decision reads them (\<open>error\<close>, \<open>last_error\<close>).
\<close>

named_theorems lab_simps \<open>facts about the lab tables\<close>

record console_spec =
  cs_kind :: "string option"
  cs_mgmt :: "string option"
  cs_port :: "nat option"

record lab_instance =
  li_id :: uuid
  li_tenant :: uuid
  li_activity :: uuid
  li_person :: uuid
  li_name :: string
  li_seed :: "(string \<times> json) list"
  li_status :: string
  li_consoles :: "(string \<times> console_spec) list"
  li_error :: "string option"
  li_started_at :: "instant option"
  li_last_active_at :: "instant option"
  li_presence :: string
  li_created_at :: instant

record lab_operation =
  lo_id :: uuid
  lo_tenant :: uuid
  lo_instance :: uuid
  lo_kind :: string
  lo_state :: string
  lo_requested_by :: "uuid option"
  lo_requested_at :: instant
  lo_not_before :: instant
  lo_claimed_by :: "string option"
  lo_claimed_host :: "string option"
  lo_claimed_epoch :: "string option"
  lo_claimed_at :: "instant option"
  lo_heartbeat_at :: "instant option"
  lo_attempts :: nat
  lo_finished_at :: "instant option"
  lo_last_error :: "string option"
  lo_origin :: "string option"
  lo_precondition :: "string option"

record lab_check =
  lc_id :: string
  lc_type :: string
  lc_label :: string
  lc_weight :: int
  lc_hint :: "string option"
  lc_node :: string
  lc_body :: "(string \<times> json) list"

record lab_template =
  lt_tenant :: uuid
  lt_activity :: uuid
  lt_topology :: string
  lt_checks :: "lab_check list"
  lt_seed_spec :: "(string \<times> (string \<times> json) list) list"
  lt_pass_threshold :: "rat option"

record console_activity =
  ca_instance :: uuid
  ca_tenant :: uuid
  ca_last_seen_at :: instant

record lab_settings =
  max_concurrent_labs :: nat
  max_concurrent_labs_per_tenant :: nat
  lab_idle_minutes :: int

record lab_db =
  lab_instances :: "lab_instance list"
  lab_operations :: "lab_operation list"
  lab_templates :: "lab_template list"
  console_activities :: "console_activity list"
  lab_config :: lab_settings
  lab_next_id :: uuid

section \<open>Rows by identity\<close>

definition get_instance :: "lab_db \<Rightarrow> uuid \<Rightarrow> lab_instance option" where
  "get_instance db i = find (\<lambda>r. li_id r = i) (lab_instances db)"

definition get_operation :: "lab_db \<Rightarrow> uuid \<Rightarrow> lab_operation option" where
  "get_operation db i = find (\<lambda>r. lo_id r = i) (lab_operations db)"

definition set_instance :: "uuid \<Rightarrow> (lab_instance \<Rightarrow> lab_instance) \<Rightarrow> lab_db \<Rightarrow> lab_db" where
  "set_instance i f db = db\<lparr>lab_instances := update_rows (\<lambda>r. li_id r = i) f (lab_instances db)\<rparr>"

definition set_operation :: "uuid \<Rightarrow> (lab_operation \<Rightarrow> lab_operation) \<Rightarrow> lab_db \<Rightarrow> lab_db" where
  "set_operation i f db = db\<lparr>lab_operations := update_rows (\<lambda>r. lo_id r = i) f (lab_operations db)\<rparr>"

definition is_open :: "lab_operation \<Rightarrow> bool" where
  "is_open op = (lo_state op = ''queued'' \<or> lo_state op = ''claimed'')"

definition open_operation :: "lab_db \<Rightarrow> uuid \<Rightarrow> lab_operation option" where
  "open_operation db i = find (\<lambda>op. lo_instance op = i \<and> is_open op) (lab_operations db)"

definition open_count :: "lab_db \<Rightarrow> uuid \<Rightarrow> nat" where
  "open_count db i = count_rows (\<lambda>op. lo_instance op = i \<and> is_open op) (lab_operations db)"

lemma set_instance_operations [simp, lab_simps]:
  "lab_operations (set_instance i f db) = lab_operations db"
  "lab_config (set_instance i f db) = lab_config db"
  "lab_templates (set_instance i f db) = lab_templates db"
  "lab_next_id (set_instance i f db) = lab_next_id db"
  "lab_instances (set_instance i f db) = update_rows (\<lambda>r. li_id r = i) f (lab_instances db)"
  by (simp_all add: set_instance_def)

lemma set_operation_instances [simp, lab_simps]:
  "lab_instances (set_operation i f db) = lab_instances db"
  "lab_config (set_operation i f db) = lab_config db"
  "lab_templates (set_operation i f db) = lab_templates db"
  "lab_next_id (set_operation i f db) = lab_next_id db"
  "lab_operations (set_operation i f db) = update_rows (\<lambda>r. lo_id r = i) f (lab_operations db)"
  by (simp_all add: set_operation_def)

lemma get_instance_set_operation [simp, lab_simps]: "get_instance (set_operation i f db) j = get_instance db j"
  by (simp add: get_instance_def)

lemma get_operation_set_instance [simp, lab_simps]: "get_operation (set_instance i f db) j = get_operation db j"
  by (simp add: get_operation_def)

lemma get_instance_id: "get_instance db i = Some r \<Longrightarrow> li_id r = i"
  by (auto simp: get_instance_def dest: find_Some_in)

lemma get_operation_id: "get_operation db i = Some r \<Longrightarrow> lo_id r = i"
  by (auto simp: get_operation_def dest: find_Some_in)

lemma get_set_instance:
  assumes "\<And>r. li_id (f r) = li_id r"
  shows "get_instance (set_instance i f db) j = map_option (\<lambda>r. if j = i then f r else r) (get_instance db j)"
  using find_update_rows_same [of "\<lambda>r. li_id r = j" f "\<lambda>r. li_id r = i" "lab_instances db"] assms
  by (auto simp: get_instance_def map_option_case split: option.split dest: find_Some_in)

lemma get_set_operation:
  assumes "\<And>r. lo_id (f r) = lo_id r"
  shows "get_operation (set_operation i f db) j = map_option (\<lambda>r. if j = i then f r else r) (get_operation db j)"
  using find_update_rows_same [of "\<lambda>r. lo_id r = j" f "\<lambda>r. lo_id r = i" "lab_operations db"] assms
  by (auto simp: get_operation_def map_option_case split: option.split dest: find_Some_in)

section \<open>instance_name\<close>

definition instance_name :: "uuid \<Rightarrow> string" where
  "instance_name i = ''dal-'' @ uuid_str i"

lemma instance_name_inj:
  "i < 2 ^ 128 \<Longrightarrow> j < 2 ^ 128 \<Longrightarrow> instance_name i = instance_name j \<Longrightarrow> i = j"
  by (simp add: instance_name_def uuid_str_inj)

lemma instance_name_prefix: "starts_with (instance_name i) ''dal-''"
  by (simp add: instance_name_def)

end
