(* ===== verification/Lab_Queue.thy ===== *)
theory Lab_Queue
  imports Lab_Model
begin

text \<open>
  \<open>services/lab_operations.py\<close>, the durable queue: enqueue, claim, heartbeat, settlement,
  requeue, escalation, capacity admission and the two recovery scans. \<open>now\<close> is the
  transaction's clock; \<open>locked\<close> tells which rows another session holds locked
  (\<open>SKIP LOCKED\<close>).
\<close>

section \<open>Constants\<close>

definition KINDS :: "string list" where
  "KINDS = [''deploy'', ''destroy'', ''check'']"

definition LEASE_SECONDS :: "string \<Rightarrow> int" where
  "LEASE_SECONDS kind = (if kind = ''deploy'' then 1200 else 600)"

definition MAX_ATTEMPTS :: "string \<Rightarrow> nat" where
  "MAX_ATTEMPTS kind = (if kind = ''destroy'' then 5 else 3)"

definition RETRY_DELAY_SECONDS :: int where
  "RETRY_DELAY_SECONDS = 5"

definition OPERATOR_REFUSAL_PREFIX :: string where
  "OPERATOR_REFUSAL_PREFIX = ''[operator-refusal] ''"

definition WRONG_LAB_HOST_SUBSTRING :: string where
  "WRONG_LAB_HOST_SUBSTRING = ''containerlab operations require LAB_HOST_ROLE=lab''"

record worker_identity =
  wi_host :: string
  wi_epoch :: string

definition claimed_by_of :: "worker_identity \<Rightarrow> string" where
  "claimed_by_of w = wi_host w @ '':'' @ wi_epoch w"

section \<open>Enqueue\<close>

text \<open>The \<open>CHECK\<close> constraint of conditional operations.\<close>

definition conditional_shape :: "string \<Rightarrow> string option \<Rightarrow> string option \<Rightarrow> bool" where
  "conditional_shape kind origin pre =
     (origin = None \<and> pre = None
      \<or> kind = ''deploy'' \<and> origin = Some ''runtime_repair'' \<and> pre = Some ''absent''
      \<or> kind = ''destroy'' \<and> origin = Some ''runtime_cleanup'' \<and> pre = Some ''present'')"

definition new_operation ::
    "lab_db \<Rightarrow> instant \<Rightarrow> lab_instance \<Rightarrow> string \<Rightarrow> uuid option \<Rightarrow> string option \<Rightarrow> string option \<Rightarrow> lab_operation" where
  "new_operation db now inst kind requested_by origin pre =
     \<lparr>lo_id = lab_next_id db, lo_tenant = li_tenant inst, lo_instance = li_id inst, lo_kind = kind,
      lo_state = ''queued'', lo_requested_by = requested_by, lo_requested_at = now, lo_not_before = now,
      lo_claimed_by = None, lo_claimed_host = None, lo_claimed_epoch = None, lo_claimed_at = None,
      lo_heartbeat_at = None, lo_attempts = 0, lo_finished_at = None, lo_last_error = None,
      lo_origin = origin, lo_precondition = pre\<rparr>"

text \<open>\<open>INSERT ... ON CONFLICT DO NOTHING\<close> against the partial unique index.\<close>

definition insert_open_operation ::
    "lab_db \<Rightarrow> instant \<Rightarrow> lab_instance \<Rightarrow> string \<Rightarrow> uuid option \<Rightarrow> string option \<Rightarrow> string option \<Rightarrow>
     (lab_db \<times> lab_operation option) result" where
  "insert_open_operation db now inst kind requested_by origin pre =
     ensure (conditional_shape kind origin pre) IntegrityError
       (case open_operation db (li_id inst) of
          Some _ \<Rightarrow> Inr (db, None)
        | None \<Rightarrow>
            let op = new_operation db now inst kind requested_by origin pre
            in Inr (db\<lparr>lab_operations := lab_operations db @ [op], lab_next_id := Suc (lab_next_id db)\<rparr>, Some op))"

text \<open>
  \<open>enqueue\<close> under READ COMMITTED: \<open>g 0\<close>, \<open>g 1\<close>, \<open>g 2\<close> are what the other sessions
  commit in the three gaps between its statements.
\<close>

definition enqueue_among ::
    "(nat \<Rightarrow> lab_db \<Rightarrow> lab_db) \<Rightarrow> lab_db \<Rightarrow> instant \<Rightarrow> lab_instance \<Rightarrow> string \<Rightarrow> uuid option \<Rightarrow> string option \<Rightarrow>
     string option \<Rightarrow> (lab_db \<times> lab_operation) result" where
  "enqueue_among g db now inst kind requested_by origin pre =
     (if kind \<notin> set KINDS then Inl (ValueError ''unsupported lab operation kind'')
      else and_then (insert_open_operation db now inst kind requested_by origin pre) (\<lambda>(db1, r).
        case r of Some op \<Rightarrow> Inr (db1, op)
        | None \<Rightarrow>
            let db2 = g 0 db1
            in case open_operation db2 (li_id inst) of Some op \<Rightarrow> Inr (db2, op)
            | None \<Rightarrow>
                and_then (insert_open_operation (g 1 db2) now inst kind requested_by origin pre) (\<lambda>(db3, r).
                  case r of Some op \<Rightarrow> Inr (db3, op)
                  | None \<Rightarrow>
                      let db4 = g 2 db3
                      in case open_operation db4 (li_id inst) of Some op \<Rightarrow> Inr (db4, op)
                      | None \<Rightarrow> Inl (ConflictError ''a conflicting operation resolved during the enqueue retry''))))"

definition enqueue ::
    "lab_db \<Rightarrow> instant \<Rightarrow> lab_instance \<Rightarrow> string \<Rightarrow> uuid option \<Rightarrow> string option \<Rightarrow> string option \<Rightarrow>
     (lab_db \<times> lab_operation) result" where
  "enqueue = enqueue_among (\<lambda>_ db. db)"

section \<open>Claim, heartbeat, settlement\<close>

definition claim_priority :: "string \<Rightarrow> nat" where
  "claim_priority kind = (if kind = ''destroy'' then 0 else if kind = ''check'' then 1 else 2)"

definition ready :: "instant \<Rightarrow> lab_operation \<Rightarrow> bool" where
  "ready now op = (lo_state op = ''queued'' \<and> lo_not_before op \<le> now)"

definition claim_row :: "instant \<Rightarrow> string \<Rightarrow> string option \<Rightarrow> string option \<Rightarrow> lab_operation \<Rightarrow> lab_operation" where
  "claim_row now claimed_by host epoch op =
     op\<lparr>lo_state := ''claimed'', lo_claimed_by := Some claimed_by, lo_claimed_host := host,
        lo_claimed_epoch := epoch, lo_claimed_at := Some now, lo_heartbeat_at := Some now,
        lo_attempts := lo_attempts op + 1\<rparr>"

definition claim_next ::
    "(uuid \<Rightarrow> bool) \<Rightarrow> lab_db \<Rightarrow> instant \<Rightarrow> string \<Rightarrow> string option \<Rightarrow> string option \<Rightarrow> lab_db \<times> lab_operation option" where
  "claim_next locked db now claimed_by host epoch =
     (case sort_key (\<lambda>op. (claim_priority (lo_kind op), lo_requested_at op))
             (filter (\<lambda>op. ready now op \<and> \<not> locked (lo_id op)) (lab_operations db)) of
        [] \<Rightarrow> (db, None)
      | op # _ \<Rightarrow> (set_operation (lo_id op) (claim_row now claimed_by host epoch) db,
                   Some (claim_row now claimed_by host epoch op)))"

definition owns :: "string \<Rightarrow> lab_operation \<Rightarrow> bool" where
  "owns claimed_by op = (lo_state op = ''claimed'' \<and> lo_claimed_by op = Some claimed_by)"

definition update_owned ::
    "uuid \<Rightarrow> string \<Rightarrow> (lab_operation \<Rightarrow> lab_operation) \<Rightarrow> lab_db \<Rightarrow> lab_db \<times> bool" where
  "update_owned oid claimed_by f db =
     (db\<lparr>lab_operations := update_rows (\<lambda>r. lo_id r = oid \<and> owns claimed_by r) f (lab_operations db)\<rparr>,
      count_rows (\<lambda>r. lo_id r = oid \<and> owns claimed_by r) (lab_operations db) > 0)"

definition heartbeat :: "lab_db \<Rightarrow> instant \<Rightarrow> uuid \<Rightarrow> string \<Rightarrow> lab_db \<times> bool" where
  "heartbeat db now oid claimed_by = update_owned oid claimed_by (\<lambda>r. r\<lparr>lo_heartbeat_at := Some now\<rparr>) db"

definition settle_row :: "instant \<Rightarrow> string \<Rightarrow> string option \<Rightarrow> bool \<Rightarrow> lab_operation \<Rightarrow> lab_operation" where
  "settle_row now state err refund r =
     r\<lparr>lo_state := state, lo_heartbeat_at := Some now, lo_finished_at := Some now, lo_last_error := err,
       lo_attempts := (if refund then lo_attempts r - 1 else lo_attempts r)\<rparr>"

definition settle ::
    "lab_db \<Rightarrow> instant \<Rightarrow> uuid \<Rightarrow> string \<Rightarrow> string \<Rightarrow> string option \<Rightarrow> bool \<Rightarrow> lab_db \<times> bool" where
  "settle db now oid claimed_by state err refund =
     update_owned oid claimed_by (settle_row now state err refund) db"

section \<open>Return to the queue\<close>

definition clear_claim_fields :: "lab_operation \<Rightarrow> lab_operation" where
  "clear_claim_fields op =
     op\<lparr>lo_claimed_by := None, lo_claimed_host := None, lo_claimed_epoch := None,
        lo_claimed_at := None, lo_heartbeat_at := None\<rparr>"

definition project_requeued :: "string \<Rightarrow> lab_instance \<Rightarrow> lab_instance" where
  "project_requeued kind i =
     i\<lparr>li_status := (if li_status i = ''provisioning'' then ''queued''
                     else if li_status i = ''resetting'' then ''active'' else li_status i),
       li_presence := (if kind \<in> {''deploy'', ''destroy''} then ''unknown'' else li_presence i)\<rparr>"

definition requeue_row :: "instant \<Rightarrow> lab_operation \<Rightarrow> lab_operation" where
  "requeue_row now op =
     (clear_claim_fields op)\<lparr>lo_state := ''queued'', lo_not_before := now + RETRY_DELAY_SECONDS,
        lo_last_error := None, lo_attempts := lo_attempts op - 1\<rparr>"

definition requeue_for_capacity :: "lab_db \<Rightarrow> instant \<Rightarrow> uuid \<Rightarrow> uuid \<Rightarrow> lab_db" where
  "requeue_for_capacity db now oid iid =
     set_operation oid (requeue_row now) (set_instance iid (\<lambda>i. i\<lparr>li_status := ''queued''\<rparr>) db)"

definition requeue_after_host_lock :: "lab_db \<Rightarrow> instant \<Rightarrow> uuid \<Rightarrow> lab_db" where
  "requeue_after_host_lock db now oid = set_operation oid (requeue_row now) db"

section \<open>Escalation of repeated automatic failures\<close>

text \<open>\<open>max(finished_at)\<close> of the deploys that settled without an error.\<close>

definition last_healthy_deploy :: "lab_db \<Rightarrow> uuid \<Rightarrow> instant option" where
  "last_healthy_deploy db i =
     (case concat (map (\<lambda>op. case lo_finished_at op of None \<Rightarrow> [] | Some t \<Rightarrow> [t])
             (filter (\<lambda>op. lo_instance op = i \<and> lo_kind op = ''deploy'' \<and> lo_state op = ''succeeded''
                           \<and> lo_last_error op = None) (lab_operations db))) of
        [] \<Rightarrow> None | t # ts \<Rightarrow> Some (fold max ts t))"

definition operator_refusal :: "lab_operation \<Rightarrow> bool" where
  "operator_refusal op =
     (case lo_last_error op of None \<Rightarrow> False
      | Some e \<Rightarrow> starts_with e OPERATOR_REFUSAL_PREFIX \<or> contains e WRONG_LAB_HOST_SUBSTRING)"

definition after_opt :: "instant option \<Rightarrow> instant option \<Rightarrow> bool" where
  "after_opt t since = (case since of None \<Rightarrow> True | Some s \<Rightarrow> (case t of None \<Rightarrow> False | Some x \<Rightarrow> x > s))"

definition counted_failure :: "lab_db \<Rightarrow> string \<Rightarrow> string option \<Rightarrow> uuid \<Rightarrow> uuid \<Rightarrow> lab_operation \<Rightarrow> bool" where
  "counted_failure db kind origin i current op =
     (lo_instance op = i \<and> lo_kind op = kind \<and> (origin \<noteq> None \<longrightarrow> lo_origin op = origin)
      \<and> lo_state op = ''failed'' \<and> lo_requested_by op = None \<and> lo_id op \<noteq> current
      \<and> \<not> operator_refusal op \<and> after_opt (lo_finished_at op) (last_healthy_deploy db i))"

definition newest_first :: "lab_operation \<Rightarrow> nat \<times> int" where
  "newest_first op = (case lo_finished_at op of None \<Rightarrow> (0, 0) | Some t \<Rightarrow> (1, - t))"

definition prior_attempts_bounded :: "lab_db \<Rightarrow> string \<Rightarrow> string option \<Rightarrow> uuid \<Rightarrow> uuid \<Rightarrow> nat" where
  "prior_attempts_bounded db kind origin i current =
     sum_list (map lo_attempts (take (MAX_ATTEMPTS kind)
       (sort_key newest_first (filter (counted_failure db kind origin i current) (lab_operations db)))))"

definition escalation_message ::
    "lab_db \<Rightarrow> string \<Rightarrow> string option \<Rightarrow> string \<Rightarrow> uuid \<Rightarrow> uuid \<Rightarrow> nat \<Rightarrow> string option" where
  "escalation_message db kind origin what i current attempts =
     (let cumulative = min (prior_attempts_bounded db kind origin i current + attempts) (MAX_ATTEMPTS kind)
      in if cumulative < MAX_ATTEMPTS kind then None
         else Some (what @ show_nat cumulative @ '' times; manual intervention required''))"

definition automatic_destroy_escalation_message :: "lab_db \<Rightarrow> uuid \<Rightarrow> uuid \<Rightarrow> nat \<Rightarrow> string option" where
  "automatic_destroy_escalation_message db =
     escalation_message db ''destroy'' None ''automatic destroy failed ''"

definition automatic_repair_deploy_escalation_message :: "lab_db \<Rightarrow> uuid \<Rightarrow> uuid \<Rightarrow> nat \<Rightarrow> string option" where
  "automatic_repair_deploy_escalation_message db =
     escalation_message db ''deploy'' (Some ''runtime_repair'') ''automatic repair deploy failed ''"

definition escalate :: "string \<Rightarrow> lab_instance \<Rightarrow> lab_instance" where
  "escalate msg i = i\<lparr>li_status := ''error'', li_consoles := [], li_error := Some msg\<rparr>"

definition escalate_if :: "string option \<Rightarrow> uuid \<Rightarrow> lab_db \<Rightarrow> lab_db" where
  "escalate_if msg i db = (case msg of None \<Rightarrow> db | Some m \<Rightarrow> set_instance i (escalate m) db)"

section \<open>Capacity\<close>

definition consuming :: "lab_instance \<Rightarrow> bool" where
  "consuming i = (li_presence i = ''present'' \<or> li_presence i = ''unknown'')"

definition tenant_limit :: "lab_settings \<Rightarrow> nat" where
  "tenant_limit cfg = (if max_concurrent_labs_per_tenant cfg = 0 then max_concurrent_labs cfg
                       else max_concurrent_labs_per_tenant cfg)"

definition capacity_available :: "lab_db \<Rightarrow> lab_instance \<Rightarrow> bool" where
  "capacity_available db inst =
     (consuming inst
      \<or> count_rows consuming (lab_instances db) < max_concurrent_labs (lab_config db)
        \<and> count_rows (\<lambda>i. li_tenant i = li_tenant inst \<and> consuming i) (lab_instances db)
          < tenant_limit (lab_config db))"

section \<open>Recovery scans\<close>

definition fail_operation_at_ceiling :: "lab_db \<Rightarrow> instant \<Rightarrow> lab_operation \<Rightarrow> string \<Rightarrow> lab_db" where
  "fail_operation_at_ceiling db now op err =
     (let i = lo_instance op;
          db1 = set_operation (lo_id op)
                  (\<lambda>o'. o'\<lparr>lo_state := ''failed'', lo_finished_at := Some now, lo_last_error := Some err\<rparr>) db;
          db2 = (if lo_kind op \<in> {''deploy'', ''destroy''}
                 then set_instance i (\<lambda>x. x\<lparr>li_status := ''active'', li_error := Some err,
                                            li_presence := ''unknown''\<rparr>) db1
                 else db1);
          db3 = (if lo_kind op = ''destroy'' \<and> lo_requested_by op = None
                 then escalate_if (automatic_destroy_escalation_message db2 i (lo_id op) (lo_attempts op)) i db2
                 else db2)
      in if lo_kind op = ''deploy'' \<and> lo_origin op = Some ''runtime_repair'' \<and> lo_requested_by op = None
         then escalate_if (automatic_repair_deploy_escalation_message db3 i (lo_id op) (lo_attempts op)) i db3
         else db3)"

definition requeue_interrupted :: "lab_db \<Rightarrow> instant \<Rightarrow> lab_operation \<Rightarrow> string \<Rightarrow> lab_db" where
  "requeue_interrupted db now op err =
     set_operation (lo_id op)
       (\<lambda>o'. (clear_claim_fields o')\<lparr>lo_state := ''queued'', lo_not_before := now, lo_last_error := Some err\<rparr>)
       (set_instance (lo_instance op) (project_requeued (lo_kind op)) db)"

definition recover_claim :: "instant \<Rightarrow> (lab_operation \<Rightarrow> string) \<Rightarrow> (lab_operation \<Rightarrow> string) \<Rightarrow> lab_operation \<Rightarrow> lab_db \<Rightarrow> lab_db" where
  "recover_claim now ceiling_error requeue_error op db =
     (if lo_attempts op \<ge> MAX_ATTEMPTS (lo_kind op)
      then fail_operation_at_ceiling db now op (ceiling_error op)
      else requeue_interrupted db now op (requeue_error op))"

definition lease_mark :: "lab_operation \<Rightarrow> instant" where
  "lease_mark op = (case lo_heartbeat_at op of Some t \<Rightarrow> t
     | None \<Rightarrow> (case lo_claimed_at op of Some t \<Rightarrow> t | None \<Rightarrow> lo_requested_at op))"

definition lease_expired :: "instant \<Rightarrow> int option \<Rightarrow> lab_operation \<Rightarrow> bool" where
  "lease_expired now lease op =
     (lo_state op = ''claimed''
      \<and> lease_mark op < now - (case lease of Some s \<Rightarrow> s | None \<Rightarrow> LEASE_SECONDS (lo_kind op)))"

definition repair_missing_operation :: "instant \<Rightarrow> lab_instance \<Rightarrow> lab_db \<Rightarrow> lab_db result" where
  "repair_missing_operation now inst db =
     and_then (enqueue (set_instance (li_id inst)
         (\<lambda>i. i\<lparr>li_status := (if li_status i = ''resetting'' then ''active'' else ''queued''),
                li_presence := ''unknown''\<rparr>) db) now inst ''deploy'' None None None)
       (\<lambda>(db', _). Inr db')"

fun repair_missing_operations :: "instant \<Rightarrow> lab_instance list \<Rightarrow> lab_db \<Rightarrow> lab_db result" where
  "repair_missing_operations now [] db = Inr db"
| "repair_missing_operations now (i # is) db =
     and_then (repair_missing_operation now i db) (repair_missing_operations now is)"

definition instances_without_operation :: "(uuid \<Rightarrow> bool) \<Rightarrow> lab_db \<Rightarrow> lab_instance list" where
  "instances_without_operation locked db =
     filter (\<lambda>i. li_status i \<in> {''queued'', ''provisioning'', ''resetting''}
                 \<and> open_operation db (li_id i) = None \<and> \<not> locked (li_id i)) (lab_instances db)"

text \<open>
  The worker's session does not flush before a query, so the second scan still reads the
  claims of the first as the database has them.
\<close>

definition reconcile_stuck ::
    "(uuid \<Rightarrow> bool) \<Rightarrow> (uuid \<Rightarrow> bool) \<Rightarrow> lab_db \<Rightarrow> instant \<Rightarrow> int option \<Rightarrow> (lab_db \<times> nat) result" where
  "reconcile_stuck locked_op locked_inst db now lease =
     (let stuck = filter (\<lambda>op. lease_expired now lease op \<and> \<not> locked_op (lo_id op)) (lab_operations db);
          db1 = fold (recover_claim now
                   (\<lambda>op. ''worker lease expired after '' @ show_nat (lo_attempts op) @ '' attempts'')
                   (\<lambda>_. ''worker lease expired; operation requeued'')) stuck db;
          missing = instances_without_operation locked_inst db
      in and_then (repair_missing_operations now missing db1)
           (\<lambda>db2. Inr (db2, length stuck + length missing)))"

definition previous_epoch_claim :: "string \<Rightarrow> string \<Rightarrow> lab_operation \<Rightarrow> bool" where
  "previous_epoch_claim host epoch op =
     (lo_state op = ''claimed'' \<and> lo_claimed_host op = Some host
      \<and> lo_claimed_epoch op \<noteq> None \<and> lo_claimed_epoch op \<noteq> Some epoch)"

definition superseded_message :: "string \<Rightarrow> string \<Rightarrow> lab_operation \<Rightarrow> string" where
  "superseded_message host epoch op =
     ''restart reclaim: previous worker epoch '' @ or_empty (lo_claimed_epoch op)
     @ '' superseded by '' @ epoch @ '' on '' @ host"

definition reclaim_previous_epoch :: "lab_db \<Rightarrow> instant \<Rightarrow> string \<Rightarrow> string \<Rightarrow> lab_db \<times> nat" where
  "reclaim_previous_epoch db now host epoch =
     (let matched = filter (previous_epoch_claim host epoch) (lab_operations db)
      in (fold (recover_claim now
            (\<lambda>op. superseded_message host epoch op @ '', but already at attempt ceiling after ''
                   @ show_nat (lo_attempts op) @ '' attempts'')
            (superseded_message host epoch)) matched db,
          length matched))"

end
