(* ===== verification/Lab_Engine.thy ===== *)
theory Lab_Engine
  imports Lab_Model
begin

text \<open>
  The lab host and \<open>services/labengine/interface.py\<close>. A host is the runtime containerlab
  manages (\<open>'r\<close>, seen only through its command line), the topology files, the answers the
  non-blocking host lock gives, and the ttyd processes of the browser consoles. An engine
  operation maps a host to a host and a value or an exception.
\<close>

datatype engine_error = HostLockUnavailable | WrongLabHostError string | RuntimeError string

record lab_handle =
  ha_instance :: string
  ha_nodes :: "(string \<times> string) list"
  ha_mgmt :: "(string \<times> string) list"
  ha_kinds :: "(string \<times> string option) list"

record exec_result =
  ex_stdout :: string
  ex_stderr :: string
  ex_exit_code :: int

record ttyd_process =
  tp_pid :: nat
  tp_instance :: string
  tp_node :: string
  tp_port :: "nat option"

record 'r lab_host =
  lh_runtime :: 'r
  lh_files :: "(string \<times> string) list"
  lh_lock_held :: "bool list"
  lh_kvm :: bool
  lh_ttyd_installed :: bool
  lh_bind_local :: bool
  lh_ttyds :: "ttyd_process list"
  lh_scan_fails :: bool
  lh_unkillable :: "nat list"
  lh_next_pid :: nat
  lh_next_port :: nat

type_synonym ('r, 'a) action = "'r lab_host \<Rightarrow> 'r lab_host \<times> (engine_error + 'a)"

record 'r lab_engine =
  en_inventory :: "('r, (string \<times> string) list) action"
  en_deploy :: "string \<Rightarrow> string \<Rightarrow> ('r, lab_handle) action"
  en_wait_ready :: "lab_handle \<Rightarrow> ('r, unit) action"
  en_destroy :: "string \<Rightarrow> ('r, unit) action"
  en_deploy_if_absent :: "string \<Rightarrow> string \<Rightarrow> ('r, lab_handle option) action"
  en_destroy_if_present :: "string \<Rightarrow> ('r, bool) action"
  en_reset :: "string \<Rightarrow> string \<Rightarrow> ('r, lab_handle) action"
  en_exec :: "lab_handle \<Rightarrow> string \<Rightarrow> string list \<Rightarrow> ('r, exec_result) action"
  en_ssh_exec :: "lab_handle \<Rightarrow> string \<Rightarrow> string \<Rightarrow> string \<Rightarrow> string \<Rightarrow> ('r, exec_result) action"
  en_status :: "string \<Rightarrow> ('r, string) action"
  en_inspect_running :: "string \<Rightarrow> ('r, lab_handle option) action"

definition bind_action :: "('r, 'a) action \<Rightarrow> ('a \<Rightarrow> ('r, 'b) action) \<Rightarrow> ('r, 'b) action" where
  "bind_action m f h = (case m h of (h', Inl e) \<Rightarrow> (h', Inl e) | (h', Inr a) \<Rightarrow> f a h')"

definition return_action :: "'a \<Rightarrow> ('r, 'a) action" where
  "return_action a h = (h, Inr a)"

definition raise_action :: "engine_error \<Rightarrow> ('r, 'a) action" where
  "raise_action e h = (h, Inl e)"

lemma case_unit_any [simp]: "case_unit x u = x"
  by (cases u) (simp only: unit.case)

lemma bind_action_Inr [lab_simps]:
  "bind_action m f h = (h'', Inr b) \<longleftrightarrow> (\<exists>h' a. m h = (h', Inr a) \<and> f a h' = (h'', Inr b))"
  by (auto simp: bind_action_def split: prod.split sum.split)

lemma bind_action_Inl [lab_simps]:
  "bind_action m f h = (h'', Inl e)
     \<longleftrightarrow> m h = (h'', Inl e) \<or> (\<exists>h' a. m h = (h', Inr a) \<and> f a h' = (h'', Inl e))"
  by (auto simp: bind_action_def split: prod.split sum.split)

section \<open>Consoles\<close>

definition is_linux_kind :: "string option \<Rightarrow> bool" where
  "is_linux_kind kind = (\<not> starts_with (or_empty kind) ''vr'')"

text \<open>\<open>start_console\<close> for the base path \<open>/labs/instances/<instance>/console/<node>\<close>.\<close>

definition start_console :: "uuid \<Rightarrow> string \<Rightarrow> 'r lab_host \<Rightarrow> 'r lab_host \<times> nat option" where
  "start_console inst node h =
     (if \<not> lh_ttyd_installed h \<or> \<not> lh_bind_local h then (h, None)
      else (h\<lparr>lh_ttyds := lh_ttyds h @ [\<lparr>tp_pid = lh_next_pid h, tp_instance = uuid_str inst, tp_node = node,
                                        tp_port = Some (lh_next_port h)\<rparr>],
              lh_next_pid := Suc (lh_next_pid h), lh_next_port := Suc (lh_next_port h)\<rparr>,
            Some (lh_next_port h)))"

text \<open>\<open>None\<close>: the process table could not be scanned.\<close>

definition console_processes :: "string option \<Rightarrow> 'r lab_host \<Rightarrow> ttyd_process list option" where
  "console_processes scope h =
     (if lh_scan_fails h then None
      else Some (filter (\<lambda>p. case scope of None \<Rightarrow> True | Some i \<Rightarrow> tp_instance p = i) (lh_ttyds h)))"

definition console_pids :: "string option \<Rightarrow> 'r lab_host \<Rightarrow> (string \<times> nat) list" where
  "console_pids scope h =
     (case console_processes scope h of None \<Rightarrow> [] | Some ps \<Rightarrow> map (\<lambda>p. (tp_instance p, tp_pid p)) ps)"

definition kill_consoles :: "nat list \<Rightarrow> 'r lab_host \<Rightarrow> 'r lab_host \<times> nat" where
  "kill_consoles pids h =
     (h\<lparr>lh_ttyds := filter (\<lambda>p. tp_pid p \<notin> set pids \<or> tp_pid p \<in> set (lh_unkillable h)) (lh_ttyds h)\<rparr>,
      length (filter (\<lambda>pid. pid \<in> tp_pid ` set (lh_ttyds h) \<and> pid \<notin> set (lh_unkillable h)) pids))"

definition stop_consoles :: "uuid \<Rightarrow> 'r lab_host \<Rightarrow> 'r lab_host \<times> nat" where
  "stop_consoles inst h = kill_consoles (map snd (console_pids (Some (uuid_str inst)) h)) h"

definition build_console :: "uuid \<Rightarrow> lab_handle \<Rightarrow> string \<Rightarrow> 'r lab_host \<Rightarrow> 'r lab_host \<times> console_spec" where
  "build_console inst ha node h =
     (let kind = (case map_of (ha_kinds ha) node of Some k \<Rightarrow> k | None \<Rightarrow> None);
          mgmt = map_of (ha_mgmt ha) node
      in if is_linux_kind kind
         then (case start_console inst node h of (h', port) \<Rightarrow> (h', \<lparr>cs_kind = kind, cs_mgmt = mgmt, cs_port = port\<rparr>))
         else (h, \<lparr>cs_kind = kind, cs_mgmt = mgmt, cs_port = None\<rparr>))"

fun build_consoles_for :: "uuid \<Rightarrow> lab_handle \<Rightarrow> string list \<Rightarrow> 'r lab_host \<Rightarrow> 'r lab_host \<times> (string \<times> console_spec) list" where
  "build_consoles_for inst ha [] h = (h, [])"
| "build_consoles_for inst ha (n # ns) h =
     (case build_console inst ha n h of (h1, spec) \<Rightarrow>
        case build_consoles_for inst ha ns h1 of (h2, specs) \<Rightarrow> (h2, (n, spec) # specs))"

definition build_consoles_from_handle :: "uuid \<Rightarrow> lab_handle \<Rightarrow> 'r lab_host \<Rightarrow> 'r lab_host \<times> (string \<times> console_spec) list" where
  "build_consoles_from_handle inst ha h = build_consoles_for inst ha (map fst (ha_nodes ha)) h"

definition same_machine :: "'r lab_host \<Rightarrow> 'r lab_host \<Rightarrow> bool" where
  "same_machine h h' = (lh_runtime h' = lh_runtime h \<and> lh_files h' = lh_files h)"

lemma same_machine_refl [simp, intro]: "same_machine h h"
  by (simp add: same_machine_def)

lemma same_machine_trans [trans]: "same_machine a b \<Longrightarrow> same_machine b c \<Longrightarrow> same_machine a c"
  by (simp add: same_machine_def)

lemma stop_consoles_machine [simp, lab_simps]: "same_machine h (fst (stop_consoles i h))"
  by (simp add: same_machine_def stop_consoles_def kill_consoles_def)

lemma build_consoles_for_machine: "same_machine h (fst (build_consoles_for i ha ns h))"
proof (induction ns arbitrary: h)
  case (Cons n ns)
  have "same_machine h (fst (build_console i ha n h))"
    by (auto simp: build_console_def start_console_def same_machine_def Let_def split: prod.split)
  with Cons.IH [of "fst (build_console i ha n h)"] show ?case
    by (auto split: prod.splits intro: same_machine_trans)
qed simp

lemma build_consoles_machine [simp, lab_simps]: "same_machine h (fst (build_consoles_from_handle i ha h))"
  by (simp add: build_consoles_from_handle_def build_consoles_for_machine)

section \<open>The contract of an engine\<close>

text \<open>
  What the lifecycle and the worker rely on: \<open>running h n\<close> says that the host runs the lab
  \<open>n\<close>, \<open>declares t n\<close> that the topology text \<open>t\<close> carries the name \<open>n\<close>. It depends only on
  the machine, so console processes and the lock's answers never change it.
\<close>

locale lab_engine_contract =
  fixes engine :: "'r lab_engine"
    and running :: "'r lab_host \<Rightarrow> string \<Rightarrow> bool"
    and declares :: "string \<Rightarrow> string \<Rightarrow> bool"
  assumes running_machine: "same_machine h h' \<Longrightarrow> running h' n = running h n"
    and deploy_other: "en_deploy engine t n h = (h', r) \<Longrightarrow> m \<noteq> n \<Longrightarrow> running h' m = running h m"
    and deploy_ok: "en_deploy engine t n h = (h', Inr ha) \<Longrightarrow> declares t n \<Longrightarrow> running h' n"
    and deploy_contended: "en_deploy engine t n h = (h', Inl HostLockUnavailable) \<Longrightarrow> same_machine h h'"
    and deploy_refused: "en_deploy engine t n h = (h', Inl (WrongLabHostError e)) \<Longrightarrow> same_machine h h'"
    and wait_ready_machine: "en_wait_ready engine ha h = (h', w) \<Longrightarrow> same_machine h h'"
    and wait_ready_refused:
      "en_wait_ready engine ha h = (h', Inl (WrongLabHostError e)) \<Longrightarrow> en_deploy_if_absent engine t n k = (k', q) \<Longrightarrow>
       \<exists>e. q = Inl (WrongLabHostError e)"
    and exec_running: "en_exec engine ha nd cmd h = (h', x) \<Longrightarrow> running h' n = running h n"
    and ssh_exec_running: "en_ssh_exec engine ha nd c u p' h = (h', x) \<Longrightarrow> running h' n = running h n"
    and wait_ready_errors: "en_wait_ready engine ha h = (h', w) \<Longrightarrow> w \<noteq> Inl HostLockUnavailable"
    and destroy_other: "en_destroy engine n h = (h', d) \<Longrightarrow> m \<noteq> n \<Longrightarrow> running h' m = running h m"
    and destroy_ok: "en_destroy engine n h = (h', Inr ()) \<Longrightarrow> \<not> running h' n"
    and destroy_contended: "en_destroy engine n h = (h', Inl HostLockUnavailable) \<Longrightarrow> same_machine h h'"
    and destroy_refused: "en_destroy engine n h = (h', Inl (WrongLabHostError e)) \<Longrightarrow> same_machine h h'"
    and deploy_if_absent_other: "en_deploy_if_absent engine t n h = (h', q) \<Longrightarrow> m \<noteq> n \<Longrightarrow> running h' m = running h m"
    and deploy_if_absent_none: "en_deploy_if_absent engine t n h = (h', Inr None) \<Longrightarrow> running h n \<and> same_machine h h'"
    and deploy_if_absent_some:
      "en_deploy_if_absent engine t n h = (h', Inr (Some ha)) \<Longrightarrow> \<not> running h n \<and> (declares t n \<longrightarrow> running h' n)"
    and deploy_if_absent_present: "en_deploy_if_absent engine t n h = (h', q) \<Longrightarrow> running h n \<Longrightarrow> same_machine h h'"
    and deploy_if_absent_contended:
      "en_deploy_if_absent engine t n h = (h', Inl HostLockUnavailable) \<Longrightarrow> same_machine h h'"
    and deploy_if_absent_refused:
      "en_deploy_if_absent engine t n h = (h', Inl (WrongLabHostError e)) \<Longrightarrow> same_machine h h'"
    and destroy_if_present_other: "en_destroy_if_present engine n h = (h', p) \<Longrightarrow> m \<noteq> n \<Longrightarrow> running h' m = running h m"
    and destroy_if_present_true: "en_destroy_if_present engine n h = (h', Inr True) \<Longrightarrow> running h n \<and> \<not> running h' n"
    and destroy_if_present_false: "en_destroy_if_present engine n h = (h', Inr False) \<Longrightarrow> \<not> running h n \<and> same_machine h h'"
    and destroy_if_present_absent: "en_destroy_if_present engine n h = (h', p) \<Longrightarrow> \<not> running h n \<Longrightarrow> same_machine h h'"
    and destroy_if_present_contended:
      "en_destroy_if_present engine n h = (h', Inl HostLockUnavailable) \<Longrightarrow> same_machine h h'"
    and destroy_if_present_refused:
      "en_destroy_if_present engine n h = (h', Inl (WrongLabHostError e)) \<Longrightarrow> same_machine h h'"
    and status_machine: "en_status engine n h = (h', st) \<Longrightarrow> same_machine h h'"
    and status_running: "en_status engine n h = (h', Inr s) \<Longrightarrow> (s = ''running'') = running h n"
    and inspect_machine: "en_inspect_running engine n h = (h', i) \<Longrightarrow> same_machine h h'"
    and inspect_some: "en_inspect_running engine n h = (h', Inr (Some ha)) \<Longrightarrow> n \<noteq> '''' \<Longrightarrow> running h n"
    and inventory_machine: "en_inventory engine h = (h', v) \<Longrightarrow> same_machine h h'"
    and inventory_ok: "en_inventory engine h = (h', Inr labs) \<Longrightarrow> (n \<in> fst ` set labs) = running h n"

end
