(* ===== verification/Lab_Checks.thy ===== *)
theory Lab_Checks
  imports Lab_Engine
begin

text \<open>
  \<open>services/lab_seed.py\<close> and \<open>services/checks\<close>: seed interpolation and the declarative
  checks that grade a lab. The jsonpath library, \<open>re.search\<close> and \<open>str\<close> of compound values
  are the arguments \<open>jsonpath\<close>, \<open>research\<close> and \<open>render\<close>; the learner-facing sentence
  (\<open>detail\<close>) is not kept.
\<close>

section \<open>interpolate\<close>

function replace_all :: "string \<Rightarrow> string \<Rightarrow> string \<Rightarrow> string" where
  "replace_all pat rep s =
     (if pat = [] \<or> s = [] then s
      else if starts_with s pat then rep @ replace_all pat rep (drop (length pat) s)
      else hd s # replace_all pat rep (tl s))"
  by pat_completeness auto
termination by (relation "measure (length \<circ> snd \<circ> snd)") auto

declare replace_all.simps [simp del]

definition placeholder :: "string \<Rightarrow> string" where
  "placeholder key = ''{{'' @ key @ ''}}''"

definition interpolate :: "(json \<Rightarrow> string) \<Rightarrow> string \<Rightarrow> (string \<times> json) list \<Rightarrow> string" where
  "interpolate render text seed = fold (\<lambda>(k, v) t. replace_all (placeholder k) (py_str render v) t) seed text"

section \<open>generate_seed\<close>

text \<open>The pseudo-random generator of one attempt: the k-th draw.\<close>

record prng =
  pr_randint :: "nat \<Rightarrow> int \<Rightarrow> int \<Rightarrow> int"
  pr_choice :: "nat \<Rightarrow> nat \<Rightarrow> nat"

definition seed_value :: "prng \<Rightarrow> nat \<Rightarrow> (string \<times> json) list \<Rightarrow> json result" where
  "seed_value rng k entry =
     (case obj_get entry ''type'' of
        Some (JStr t) \<Rightarrow>
          if t = ''int'' then
            (case (obj_get entry ''min'', obj_get entry ''max'') of
               (Some (JInt a), Some (JInt b)) \<Rightarrow>
                 if a \<le> b then Inr (JInt (pr_randint rng k a b)) else Inl (ValueError ''empty range for randrange()'')
             | _ \<Rightarrow> Inl TypeError)
          else if t = ''choice'' then
            (case obj_get entry ''options'' of
               Some (JArr (x # xs)) \<Rightarrow> Inr ((x # xs) ! pr_choice rng k (length (x # xs)))
             | _ \<Rightarrow> Inl TypeError)
          else Inl (ValueError ''Unsupported seed spec type'')
      | _ \<Rightarrow> Inl TypeError)"

fun generate_seed_from :: "prng \<Rightarrow> nat \<Rightarrow> (string \<times> (string \<times> json) list) list \<Rightarrow> ((string \<times> json) list) result" where
  "generate_seed_from rng k [] = Inr []"
| "generate_seed_from rng k ((key, entry) # spec) =
     and_then (seed_value rng k entry) (\<lambda>v.
     and_then (generate_seed_from rng (Suc k) spec) (\<lambda>rest. Inr ((key, v) # rest)))"

definition generate_seed :: "(nat \<Rightarrow> prng) \<Rightarrow> (string \<times> (string \<times> json) list) list \<Rightarrow> nat \<Rightarrow> ((string \<times> json) list) result" where
  "generate_seed random spec attempt_id = generate_seed_from (random attempt_id) 0 spec"

section \<open>Primitives\<close>

record check_env =
  ce_jsonpath :: "string \<Rightarrow> string \<Rightarrow> string option"
  ce_research :: "string \<Rightarrow> string \<Rightarrow> bool option"
  ce_render :: "json \<Rightarrow> string"

text \<open>\<open>check[key]\<close> with a string value, and \<open>check.get(key, default)\<close>.\<close>

definition need_str :: "(string \<times> json) list \<Rightarrow> string \<Rightarrow> (string \<Rightarrow> ('r, 'a) action) \<Rightarrow> ('r, 'a) action" where
  "need_str body key k =
     (case obj_get body key of Some (JStr s) \<Rightarrow> k s | _ \<Rightarrow> raise_action (RuntimeError ''KeyError''))"

definition get_str :: "(string \<times> json) list \<Rightarrow> string \<Rightarrow> string \<Rightarrow> string" where
  "get_str body key dflt = (case obj_get body key of Some (JStr s) \<Rightarrow> s | _ \<Rightarrow> dflt)"

definition get_obj :: "(string \<times> json) list \<Rightarrow> string \<Rightarrow> (string \<times> json) list" where
  "get_obj body key = (case obj_get body key of Some (JObj kvs) \<Rightarrow> kvs | _ \<Rightarrow> [])"

type_synonym outcome = "bool \<times> json \<times> json"

definition int_equals :: "int \<Rightarrow> json \<Rightarrow> bool" where
  "int_equals i v = (case v of JInt j \<Rightarrow> i = j | JBool b \<Rightarrow> i = (if b then 1 else 0) | JFloat r \<Rightarrow> rat_of_int i = r | _ \<Rightarrow> False)"

definition assert_result :: "check_env \<Rightarrow> (string \<times> json) list \<Rightarrow> exec_result \<Rightarrow> ('r, outcome) action" where
  "assert_result ce a res =
     (if obj_get a ''jsonpath'' \<noteq> None then
        let actual = (case obj_get a ''jsonpath'' of Some (JStr p) \<Rightarrow> ce_jsonpath ce p (ex_stdout res) | _ \<Rightarrow> None);
            expected = (case obj_get a ''equals'' of None \<Rightarrow> JNull | Some v \<Rightarrow> v)
        in return_action (actual = Some (py_str (ce_render ce) expected),
                          (case actual of None \<Rightarrow> JNull | Some s \<Rightarrow> JStr s), expected)
      else (case obj_get a ''regex'' of
              Some rx \<Rightarrow>
                (case rx of
                   JStr pat \<Rightarrow>
                     (case ce_research ce pat (ex_stdout res) of
                        None \<Rightarrow> raise_action (RuntimeError ''re.error'')
                      | Some ok \<Rightarrow> return_action (ok, JStr (py_strip (ex_stdout res)), rx))
                 | _ \<Rightarrow> raise_action (RuntimeError ''TypeError''))
            | None \<Rightarrow>
                let wanted = (case obj_get a ''exit_code'' of None \<Rightarrow> JInt 0 | Some v \<Rightarrow> v)
                in return_action (int_equals (ex_exit_code res) wanted, JInt (ex_exit_code res), wanted)))"

definition eval_command :: "check_env \<Rightarrow> 'r lab_engine \<Rightarrow> lab_handle \<Rightarrow> (string \<times> json) list \<Rightarrow> lab_check \<Rightarrow> ('r, outcome) action" where
  "eval_command ce engine ha seed c =
     (let body = lc_body c; say = (\<lambda>t. interpolate (ce_render ce) t seed)
      in need_str body ''command'' (\<lambda>command.
           let cmd = say command
           in bind_action
                (if obj_get body ''transport'' = Some (JStr ''ssh'')
                 then en_ssh_exec engine ha (lc_node c) cmd (get_str body ''user'' ''admin'') (say (get_str body ''password'' ''''))
                 else en_exec engine ha (lc_node c) [''sh'', ''-c'', cmd])
                (assert_result ce (get_obj body ''assert''))))"

text \<open>The first \<open>(\d+) received\<close> of the output, or 0.\<close>

fun received_count :: "string \<Rightarrow> nat" where
  "received_count [] = 0"
| "received_count (c # cs) =
     (let ds = takeWhile (\<lambda>d. digit_of d \<noteq> None) (c # cs)
      in if ds \<noteq> [] \<and> starts_with (drop (length ds) (c # cs)) '' received''
         then foldl (\<lambda>n d. 10 * n + (case digit_of d of Some k \<Rightarrow> k | None \<Rightarrow> 0)) 0 ds
         else received_count cs)"

definition eval_probe :: "check_env \<Rightarrow> 'r lab_engine \<Rightarrow> lab_handle \<Rightarrow> (string \<times> json) list \<Rightarrow> lab_check \<Rightarrow> ('r, outcome) action" where
  "eval_probe ce engine ha seed c =
     (let p = get_obj (lc_body c) ''probe''; target = interpolate (ce_render ce) (get_str p ''target'' '''') seed
      in need_str p ''kind'' (\<lambda>kind.
           if kind = ''ping'' then
             (case obj_get p ''count'' of
                None \<Rightarrow> raise_action (RuntimeError ''KeyError'')
              | Some count' \<Rightarrow>
                  bind_action (en_exec engine ha (lc_node c) [''ping'', ''-c'', py_str (ce_render ce) count', target]) (\<lambda>res.
                    let got = received_count (ex_stdout res);
                        need = (case obj_get p ''min_success'' of None \<Rightarrow> JInt 1 | Some v \<Rightarrow> v)
                    in case py_float need of
                         Some (Fin q) \<Rightarrow>
                           if (case need of JStr _ \<Rightarrow> True | _ \<Rightarrow> False) then raise_action (RuntimeError ''TypeError'')
                           else return_action (rat_of_nat got \<ge> q, JStr (show_nat got @ '' received''),
                                  JStr (''>='' @ py_str (ce_render ce) need))
                       | _ \<Rightarrow> raise_action (RuntimeError ''TypeError'')))
           else if kind = ''dns'' then
             bind_action (en_exec engine ha (lc_node c) [''nslookup'', target]) (\<lambda>res.
               return_action (contains (ex_stdout res) ''Address'', JStr (take 120 (py_strip (ex_stdout res))),
                              JStr (''resolves '' @ target)))
           else if kind = ''http'' then
             bind_action (en_exec engine ha (lc_node c)
                 [''sh'', ''-c'', ''curl -s -o /dev/null -w '' @ [CHR 39] @ ''%{http_code}'' @ [CHR 39] @ '' '' @ target]) (\<lambda>res.
               let want = py_str (ce_render ce) (case obj_get p ''status'' of None \<Rightarrow> JInt 200 | Some v \<Rightarrow> v);
                   got = py_strip (ex_stdout res)
               in return_action (got = want, JStr got, JStr want))
           else raise_action (RuntimeError ''unknown probe'')))"

definition eval_config_grep :: "check_env \<Rightarrow> 'r lab_engine \<Rightarrow> lab_handle \<Rightarrow> (string \<times> json) list \<Rightarrow> lab_check \<Rightarrow> ('r, outcome) action" where
  "eval_config_grep ce engine ha seed c =
     need_str (lc_body c) ''file'' (\<lambda>file.
       bind_action (en_exec engine ha (lc_node c) [''sh'', ''-c'', ''cat '' @ file]) (\<lambda>res.
         need_str (lc_body c) ''contains'' (\<lambda>pat0.
           let pat = interpolate (ce_render ce) pat0 seed; ok = contains (ex_stdout res) pat
           in return_action (ok, JStr (if ok then ''present'' else ''absent''), JStr pat))))"

section \<open>The check engine\<close>

definition eval_check :: "check_env \<Rightarrow> 'r lab_engine \<Rightarrow> lab_handle \<Rightarrow> (string \<times> json) list \<Rightarrow> lab_check \<Rightarrow> ('r, check_report) action" where
  "eval_check ce engine ha seed c =
     bind_action
       (if lc_type c = ''command'' then eval_command ce engine ha seed c
        else if lc_type c = ''probe'' then eval_probe ce engine ha seed c
        else if lc_type c = ''config_grep'' then eval_config_grep ce engine ha seed c
        else raise_action (RuntimeError ''KeyError''))
       (\<lambda>(ok, actual, expected).
         return_action \<lparr>cr_id = lc_id c, cr_label = lc_label c, cr_weight = lc_weight c, cr_pass = ok,
           cr_actual = actual, cr_expected = expected,
           cr_hint = (if \<not> ok then or_none (lc_hint c) else None)\<rparr>)"

text \<open>
  The evaluation loop over any world \<open>'w\<close>, so that the caller's \<open>before_each\<close> (the
  worker's claim refresh) can act on more than the host.
\<close>

fun eval_checks ::
    "('w \<Rightarrow> 'w \<times> (engine_error + unit)) \<Rightarrow> (lab_check \<Rightarrow> 'w \<Rightarrow> 'w \<times> (engine_error + check_report)) \<Rightarrow>
     lab_check list \<Rightarrow> 'w \<Rightarrow> 'w \<times> (engine_error + check_report list)" where
  "eval_checks before ev [] w = (w, Inr [])"
| "eval_checks before ev (c # cs) w =
     (case before w of
        (w1, Inl e) \<Rightarrow> (w1, Inl e)
      | (w1, Inr ()) \<Rightarrow>
          (case ev c w1 of
             (w2, Inl e) \<Rightarrow> (w2, Inl e)
           | (w2, Inr r) \<Rightarrow>
               (case eval_checks before ev cs w2 of
                  (w3, Inl e) \<Rightarrow> (w3, Inl e)
                | (w3, Inr rs) \<Rightarrow> (w3, Inr (r # rs)))))"

definition max_check_score :: "lab_check list \<Rightarrow> int" where
  "max_check_score cs = sum_list (map lc_weight cs)"

definition check_score :: "check_report list \<Rightarrow> int" where
  "check_score rs = sum_list (map cr_weight (filter cr_pass rs))"

lemma eval_check_weight:
  "eval_check ce engine ha seed c h = (h', Inr r) \<Longrightarrow> cr_weight r = lc_weight c \<and> cr_id r = lc_id c"
  by (auto simp: eval_check_def lab_simps return_action_def)

lemma eval_checks_weights:
  assumes "\<And>c w w' r. ev c w = (w', Inr r) \<Longrightarrow> cr_weight r = lc_weight c"
    and "eval_checks before ev cs w = (w', Inr rs)"
  shows "map cr_weight rs = map lc_weight cs"
  using assms(2)
proof (induction cs arbitrary: w w' rs)
  case (Cons c cs)
  obtain w1 b where b: "before w = (w1, b)" by force
  obtain w2 x where x: "ev c w1 = (w2, x)" by force
  obtain w3 y where y: "eval_checks before ev cs w2 = (w3, y)" by force
  have "b = Inr ()" using Cons.prems by (cases b) (simp_all add: b)
  with b have b': "before w = (w1, Inr ())" by simp
  have s: "eval_checks before ev (c # cs) w = (case x of Inl e \<Rightarrow> (w2, Inl e)
      | Inr r \<Rightarrow> (case y of Inl e \<Rightarrow> (w3, Inl e) | Inr rs \<Rightarrow> (w3, Inr (r # rs))))"
    unfolding eval_checks.simps b' prod.case sum.case unit.case x y ..
  from Cons.prems obtain r rs' where "x = Inr r" "y = Inr rs'" "rs = r # rs'"
    unfolding s by (cases x; cases y) simp_all
  with assms(1) [of c w1 w2 r] x Cons.IH [of w2 w3 rs'] y show ?case by simp
qed simp

lemma check_score_bounds:
  assumes "map cr_weight rs = map lc_weight cs" "\<forall>c \<in> set cs. 0 \<le> lc_weight c"
  shows "0 \<le> check_score rs \<and> check_score rs \<le> max_check_score cs"
proof -
  have "\<forall>r \<in> set rs. 0 \<le> cr_weight r"
    using assms by (metis (no_types, lifting) imageE image_eqI list.set_map)
  then have "0 \<le> check_score rs \<and> check_score rs \<le> sum_list (map cr_weight rs)"
    by (induction rs) (auto simp: check_score_def)
  with assms(1) show ?thesis by (simp add: max_check_score_def)
qed

end
