(* ===== verification/Lab_Lifecycle.thy ===== *)
theory Lab_Lifecycle
  imports Lab_Queue Lab_Checks Assessment "HOL-Library.Word"
begin

text \<open>
  \<open>services/lab_lifecycle.py\<close>: launch, provision, conditional repair, teardown and grading
  of one lab. The functions that work on a loaded \<open>LabInstance\<close> take the host and the
  object and return both with the value or the exception, because a handler later reads
  what the failed call had already assigned. \<open>now\<close> is the clock.
\<close>

type_synonym 'r on_instance = "'r lab_host \<times> lab_instance \<times> (engine_error + unit)"

definition error_text :: "engine_error \<Rightarrow> string" where
  "error_text e = (case e of HostLockUnavailable \<Rightarrow> ''host lock unavailable''
     | WrongLabHostError m \<Rightarrow> m | RuntimeError m \<Rightarrow> m)"

section \<open>Topology preparation\<close>

text \<open>
  \<open>re.sub\<close> of the first \<open>^\s*name:\s*.*$\<close> in multi-line mode: from the start of a line,
  white space, \<open>name:\<close>, white space again (across line ends) and the rest of that line.
\<close>

definition newline :: char where "newline = CHR 0x0A"

definition match_name_line :: "string \<Rightarrow> string option" where
  "match_name_line s =
     (let t = dropWhile py_isspace s
      in if starts_with t ''name:''
         then Some (dropWhile (\<lambda>c. c \<noteq> newline) (dropWhile py_isspace (drop 5 t)))
         else None)"

fun replace_name_line :: "string \<Rightarrow> bool \<Rightarrow> string \<Rightarrow> string option" where
  "replace_name_line n line_start [] = None"
| "replace_name_line n line_start (c # cs) =
     (case (if line_start then match_name_line (c # cs) else None) of
        Some rest \<Rightarrow> Some (''name: '' @ n @ rest)
      | None \<Rightarrow> map_option ((#) c) (replace_name_line n (c = newline) cs))"

definition set_topology_name :: "string \<Rightarrow> string \<Rightarrow> string" where
  "set_topology_name text n =
     (case replace_name_line n True text of
        Some t \<Rightarrow> t | None \<Rightarrow> ''name: '' @ n @ [newline] @ text)"

text \<open>Preparation never fails on the columns' types; the callers' handlers are kept.\<close>

definition prepare_topology :: "(json \<Rightarrow> string) \<Rightarrow> lab_template \<Rightarrow> lab_instance \<Rightarrow> engine_error + string" where
  "prepare_topology render tmpl inst =
     Inr (set_topology_name (interpolate render (lt_topology tmpl) (li_seed inst)) (li_name inst))"

section \<open>request_lab\<close>

definition hex_value :: "string \<Rightarrow> nat" where
  "hex_value s = foldl (\<lambda>n c. 16 * n + (let k = of_char c :: nat in if k < 58 then k - 48 else k - 87)) 0 s"

definition attempt_seed_id :: "(string \<Rightarrow> string) \<Rightarrow> uuid \<Rightarrow> uuid \<Rightarrow> nat \<Rightarrow> nat" where
  "attempt_seed_id hexdigest person activity n =
     hex_value (take 8 (hexdigest (uuid_str person @ '':'' @ uuid_str activity @ '':'' @ show_nat n)))"

text \<open>
  The advisory lock key of one launch stream: the first eight bytes of a SHA-256 digest, read
  big-endian and folded into a signed \<open>bigint\<close>.
\<close>

definition be_value :: "8 word list \<Rightarrow> nat" where
  "be_value bytes = foldl (\<lambda>n b. 256 * n + unat b) 0 bytes"

definition launch_lock_key :: "(string \<Rightarrow> 8 word list) \<Rightarrow> uuid \<Rightarrow> uuid \<Rightarrow> uuid \<Rightarrow> int" where
  "launch_lock_key digest t p a =
     (let unsigned = int (be_value (take 8 (digest (''lab-launch:'' @ uuid_str t @ '':'' @ uuid_str p @ '':'' @ uuid_str a))))
      in if unsigned < 2 ^ 63 then unsigned else unsigned - 2 ^ 64)"

definition is_launch_of :: "uuid \<Rightarrow> uuid \<Rightarrow> uuid \<Rightarrow> lab_instance \<Rightarrow> bool" where
  "is_launch_of t p a i = (li_tenant i = t \<and> li_activity i = a \<and> li_person i = p)"

definition current_lab :: "lab_db \<Rightarrow> uuid \<Rightarrow> uuid \<Rightarrow> uuid \<Rightarrow> lab_instance option" where
  "current_lab lab t p a =
     (case sort_key (\<lambda>i. - li_created_at i)
             (filter (\<lambda>i. is_launch_of t p a i \<and> li_status i \<noteq> ''reaped'') (lab_instances lab)) of
        [] \<Rightarrow> None | i # _ \<Rightarrow> Some i)"

definition new_instance :: "lab_db \<Rightarrow> instant \<Rightarrow> uuid \<Rightarrow> uuid \<Rightarrow> uuid \<Rightarrow> (string \<times> json) list \<Rightarrow> lab_instance" where
  "new_instance lab now t p a seed =
     \<lparr>li_id = lab_next_id lab, li_tenant = t, li_activity = a, li_person = p,
      li_name = instance_name (lab_next_id lab), li_seed = seed, li_status = ''queued'', li_consoles = [],
      li_error = None, li_started_at = None, li_last_active_at = None, li_presence = ''absent'',
      li_created_at = now\<rparr>"

definition request_lab ::
    "(string \<Rightarrow> string) \<Rightarrow> (nat \<Rightarrow> prng) \<Rightarrow> (instant \<Rightarrow> instant) \<Rightarrow> lab_db \<Rightarrow> academy_db \<Rightarrow> instant \<Rightarrow> uuid \<Rightarrow> uuid \<Rightarrow>
     activity_row \<Rightarrow> lab_template \<Rightarrow> (lab_db \<times> academy_db \<times> lab_instance) result" where
  "request_lab hexdigest random day lab learn now t p activity tmpl =
     (case current_lab lab t p (act_id activity) of
        Some i \<Rightarrow> Inr (lab, learn, i)
      | None \<Rightarrow>
          let n = count_rows (is_launch_of t p (act_id activity)) (lab_instances lab) + 1
          in and_then (generate_seed random (lt_seed_spec tmpl) (attempt_seed_id hexdigest p (act_id activity) n)) (\<lambda>seed.
               let inst = new_instance lab now t p (act_id activity) seed;
                   lab1 = lab\<lparr>lab_instances := lab_instances lab @ [inst], lab_next_id := Suc (lab_next_id lab)\<rparr>
               in and_then (enqueue lab1 now inst ''deploy'' (Some p) None None) (\<lambda>(lab2, op).
                    Inr (lab2,
                         emit day learn \<lparr>v_tenant = t, v_person = p, v_kind = ''lab_launched'',
                           v_course = Some (act_course activity), v_subject = Some (act_id activity),
                           v_detail = JObj [(''instance'', JStr (uuid_str (li_id inst)))], v_at = now\<rparr>,
                         inst))))"

section \<open>provision and destroy\<close>

definition activate :: "instant \<Rightarrow> (string \<times> console_spec) list \<Rightarrow> lab_instance \<Rightarrow> lab_instance" where
  "activate now consoles i =
     i\<lparr>li_consoles := consoles, li_status := ''active'', li_started_at := Some now,
       li_last_active_at := Some now, li_error := None, li_presence := ''present''\<rparr>"

definition deploy_and_wait :: "'r lab_engine \<Rightarrow> string \<Rightarrow> string \<Rightarrow> ('r, lab_handle) action" where
  "deploy_and_wait engine text n =
     bind_action (en_deploy engine text n) (\<lambda>ha.
       bind_action (en_wait_ready engine ha) (\<lambda>_. return_action ha))"

definition provision ::
    "(json \<Rightarrow> string) \<Rightarrow> 'r lab_engine \<Rightarrow> instant \<Rightarrow> lab_template \<Rightarrow> lab_instance \<Rightarrow> 'r lab_host \<Rightarrow> 'r on_instance" where
  "provision render engine now tmpl inst h =
     (case prepare_topology render tmpl inst of
        Inl e \<Rightarrow> (h, inst\<lparr>li_status := ''error'', li_error := Some (error_text e), li_presence := ''absent''\<rparr>, Inr ())
      | Inr text \<Rightarrow>
          let i1 = inst\<lparr>li_presence := ''unknown''\<rparr>
          in case deploy_and_wait engine text (li_name inst) h of
               (h1, Inl e) \<Rightarrow>
                 if e = HostLockUnavailable then (h1, i1, Inl e)
                 else (h1, i1\<lparr>li_status := ''active'', li_error := Some (error_text e), li_presence := ''unknown''\<rparr>, Inr ())
             | (h1, Inr ha) \<Rightarrow>
                 (case build_consoles_from_handle (li_id inst) ha h1 of
                    (h2, consoles) \<Rightarrow> (h2, activate now consoles i1, Inr ())))"

definition reap :: "lab_instance \<Rightarrow> lab_instance" where
  "reap i = i\<lparr>li_consoles := [], li_status := ''reaped'', li_presence := ''absent''\<rparr>"

definition destroy :: "'r lab_engine \<Rightarrow> lab_instance \<Rightarrow> 'r lab_host \<Rightarrow> 'r on_instance" where
  "destroy engine inst h =
     (let i1 = inst\<lparr>li_presence := ''unknown''\<rparr>
      in case en_destroy engine (li_name inst) h of
           (h1, Inl e) \<Rightarrow> (h1, i1, Inl e)
         | (h1, Inr ()) \<Rightarrow> (fst (stop_consoles (li_id inst) h1), reap i1, Inr ()))"

definition destroy_if_present :: "'r lab_engine \<Rightarrow> lab_instance \<Rightarrow> 'r lab_host \<Rightarrow> 'r on_instance" where
  "destroy_if_present engine inst h =
     (case en_destroy_if_present engine (li_name inst) h of
        (h1, Inl e) \<Rightarrow> (h1, inst, Inl e)
      | (h1, Inr destroyed) \<Rightarrow>
          if destroyed then (fst (stop_consoles (li_id inst) h1), reap inst, Inr ())
          else (h1, inst\<lparr>li_presence := ''absent''\<rparr>, Inr ()))"

section \<open>Conditional deploy\<close>

text \<open>Inspection first; consoles are torn down only once a live handle is in hand.\<close>

definition refresh_consoles ::
    "instant \<Rightarrow> lab_handle \<Rightarrow> 'r lab_engine \<Rightarrow> lab_instance \<Rightarrow> 'r lab_host \<Rightarrow> 'r on_instance" where
  "refresh_consoles now ha engine inst h =
     (case en_wait_ready engine ha h of
        (h1, Inl e) \<Rightarrow> (h1, inst, Inl e)
      | (h1, Inr ()) \<Rightarrow>
          (case build_consoles_from_handle (li_id inst) ha (fst (stop_consoles (li_id inst) h1)) of
             (h2, consoles) \<Rightarrow> (h2, activate now consoles inst, Inr ())))"

definition rebuild_consoles_from_live_inspection ::
    "'r lab_engine \<Rightarrow> instant \<Rightarrow> lab_instance \<Rightarrow> 'r lab_host \<Rightarrow> 'r on_instance" where
  "rebuild_consoles_from_live_inspection engine now inst h =
     (case en_inspect_running engine (li_name inst) h of
        (h1, Inl e) \<Rightarrow> (h1, inst, Inl e)
      | (h1, Inr None) \<Rightarrow> (h1, inst\<lparr>li_presence := ''unknown''\<rparr>, Inr ())
      | (h1, Inr (Some ha)) \<Rightarrow> refresh_consoles now ha engine inst h1)"

definition transient_status :: "string \<Rightarrow> bool" where
  "transient_status s = (s = ''queued'' \<or> s = ''provisioning'' \<or> s = ''resetting'')"

definition UNCONFIRMED :: string where
  "UNCONFIRMED = ''conditional deploy could not confirm runtime presence''"

definition unconfirmed_error :: "string option \<Rightarrow> string" where
  "unconfirmed_error err =
     (case or_none err of
        Some m \<Rightarrow> m @ ''; '' @ UNCONFIRMED @ ''; manual verification required''
      | None \<Rightarrow> UNCONFIRMED @ ''; manual verification required'')"

definition resync_present_preliminary :: "'r lab_engine \<Rightarrow> instant \<Rightarrow> lab_instance \<Rightarrow> 'r lab_host \<Rightarrow> 'r on_instance" where
  "resync_present_preliminary engine now inst h =
     (case rebuild_consoles_from_live_inspection engine now inst h of
        (h1, i1, Inl e) \<Rightarrow> (h1, i1, Inl e)
      | (h1, i1, Inr ()) \<Rightarrow>
          if li_presence i1 \<noteq> ''present'' \<and> transient_status (li_status i1)
          then (h1, i1\<lparr>li_error := Some (unconfirmed_error (li_error i1)), li_status := ''error''\<rparr>, Inr ())
          else (h1, i1, Inr ()))"

definition restore_admission :: "string \<Rightarrow> string option \<Rightarrow> lab_instance \<Rightarrow> lab_instance" where
  "restore_admission status err i =
     (if transient_status status then i\<lparr>li_status := ''error'', li_error := Some (unconfirmed_error err)\<rparr>
      else i\<lparr>li_status := status, li_error := err\<rparr>)"

definition provision_if_absent ::
    "(json \<Rightarrow> string) \<Rightarrow> 'r lab_engine \<Rightarrow> instant \<Rightarrow> lab_template \<Rightarrow> string \<Rightarrow> string option \<Rightarrow> lab_instance \<Rightarrow>
     'r lab_host \<Rightarrow> 'r on_instance" where
  "provision_if_absent render engine now tmpl preserved_status preserved_error inst h =
     (case prepare_topology render tmpl inst of
        Inl e \<Rightarrow> (h, inst, Inl e)
      | Inr text \<Rightarrow>
          let i1 = inst\<lparr>li_presence := ''unknown''\<rparr>
          in case en_deploy_if_absent engine text (li_name inst) h of
               (h1, Inl e) \<Rightarrow> (h1, i1, Inl e)
             | (h1, Inr None) \<Rightarrow>
                 (case rebuild_consoles_from_live_inspection engine now i1 h1 of
                    (h2, i2, Inl e) \<Rightarrow> (h2, i2, Inl e)
                  | (h2, i2, Inr ()) \<Rightarrow>
                      if li_presence i2 \<noteq> ''present''
                      then (h2, restore_admission preserved_status preserved_error i2, Inr ())
                      else (h2, i2, Inr ()))
             | (h1, Inr (Some ha)) \<Rightarrow> refresh_consoles now ha engine i1 h1)"

section \<open>reset\<close>

definition reset_instance ::
    "(json \<Rightarrow> string) \<Rightarrow> 'r lab_engine \<Rightarrow> instant \<Rightarrow> lab_template \<Rightarrow> lab_instance \<Rightarrow> 'r lab_host \<Rightarrow> ('r lab_host \<times> lab_instance) result" where
  "reset_instance render engine now tmpl inst h =
     (if li_status inst \<noteq> ''active'' \<and> li_status inst \<noteq> ''error''
      then Inl (ConflictError ''cannot reset a lab instance with this status'')
      else
        let h1 = fst (stop_consoles (li_id inst) h);
            failed = (\<lambda>e i. i\<lparr>li_status := ''error'', li_error := Some (error_text e), li_consoles := []\<rparr>)
        in case prepare_topology render tmpl inst of
             Inl e \<Rightarrow> Inr (h1, failed e inst)
           | Inr text \<Rightarrow>
               let i1 = inst\<lparr>li_presence := ''unknown''\<rparr>
               in case bind_action (en_reset engine text (li_name inst))
                         (\<lambda>ha. bind_action (en_wait_ready engine ha) (\<lambda>_. return_action ha)) h1 of
                    (h2, Inl e) \<Rightarrow> Inr (h2, failed e i1)
                  | (h2, Inr ha) \<Rightarrow>
                      (case build_consoles_from_handle (li_id inst) ha h2 of
                         (h3, consoles) \<Rightarrow>
                           Inr (h3, i1\<lparr>li_consoles := consoles, li_status := ''active'',
                                        li_last_active_at := Some now, li_error := None, li_presence := ''present''\<rparr>)))"

section \<open>grade\<close>

definition handle_for :: "lab_instance \<Rightarrow> lab_handle" where
  "handle_for i =
     \<lparr>ha_instance = li_name i,
      ha_nodes = map (\<lambda>(node, c). (node, ''clab-'' @ li_name i @ ''-'' @ node)) (li_consoles i),
      ha_mgmt = map (\<lambda>(node, c). (node, or_empty (cs_mgmt c))) (li_consoles i),
      ha_kinds = map (\<lambda>(node, c). (node, cs_kind c)) (li_consoles i)\<rparr>"

definition lab_activity :: "academy_db \<Rightarrow> lab_instance \<Rightarrow> activity_row option" where
  "lab_activity learn i = find (\<lambda>a. act_tenant a = li_tenant i \<and> act_id a = li_activity i) (activities learn)"

definition lab_threshold :: "academy_db \<Rightarrow> lab_template \<Rightarrow> lab_instance \<Rightarrow> rat" where
  "lab_threshold learn tmpl i =
     (case lt_pass_threshold tmpl of Some x \<Rightarrow> x
      | None \<Rightarrow> (case lab_activity learn i of Some a \<Rightarrow> act_pass_threshold a | None \<Rightarrow> 0))"

definition lab_submission :: "academy_db \<Rightarrow> instant \<Rightarrow> lab_instance \<Rightarrow> submission_row" where
  "lab_submission learn now i =
     \<lparr>sub_id = next_id learn, sub_tenant = li_tenant i, sub_activity = li_activity i, sub_person = li_person i,
      sub_answers = Lab_Run (li_seed i) (uuid_str (li_id i)),
      sub_attempt_no = next_attempt_no learn (li_tenant i) (li_person i) (li_activity i), sub_created_at = now\<rparr>"

definition lab_score :: "academy_db \<Rightarrow> instant \<Rightarrow> lab_template \<Rightarrow> lab_instance \<Rightarrow> check_report list \<Rightarrow> score_row" where
  "lab_score learn now tmpl i reports =
     (let score = rat_of_int (check_score reports); max_score = rat_of_int (max_check_score (lt_checks tmpl));
          fraction = (if max_score \<noteq> 0 then score / max_score else 0)
      in \<lparr>sc_id = Suc (next_id learn), sc_tenant = li_tenant i, sc_submission = next_id learn, sc_score = score,
          sc_max_score = max_score, sc_fraction = fraction,
          sc_passed = (max_score > 0 \<and> fraction \<ge> lab_threshold learn tmpl i), sc_per_item = Checks reports,
          sc_source = ''auto'', sc_override_reason = None, sc_created_at = now\<rparr>)"

definition lab_event :: "instant \<Rightarrow> lab_instance \<Rightarrow> uuid option \<Rightarrow> string \<Rightarrow> uuid \<Rightarrow> (string \<times> json) list \<Rightarrow> event_values" where
  "lab_event now i course kind subject detail =
     \<lparr>v_tenant = li_tenant i, v_person = li_person i, v_kind = kind, v_course = course,
      v_subject = Some subject, v_detail = JObj detail, v_at = now\<rparr>"

definition lab_events :: "(instant \<Rightarrow> instant) \<Rightarrow> instant \<Rightarrow> lab_instance \<Rightarrow> uuid option \<Rightarrow> submission_row \<Rightarrow> score_row \<Rightarrow> nat \<Rightarrow> academy_db \<Rightarrow> academy_db" where
  "lab_events day now i course sub sc checks db =
     (let activity = (''activity_id'', JStr (uuid_str (li_activity i)));
          db1 = emit day db (lab_event now i course ''submission_made'' (sub_id sub)
                  [activity, (''lab'', JBool True), (''attempt_no'', JInt (int (sub_attempt_no sub)))]);
          db2 = emit day db1 (lab_event now i course ''work_graded'' (sub_id sub)
                  [activity, (''lab'', JBool True), (''passed'', JBool (sc_passed sc)), (''fraction'', JFloat (sc_fraction sc))])
      in emit day db2 (lab_event now i course (if sc_passed sc then ''lab_check_passed'' else ''lab_check_failed'')
           (li_activity i) [(''instance'', JStr (uuid_str (li_id i))), (''checks'', JInt (int checks))]))"

definition record_lab_grade ::
    "(instant \<Rightarrow> instant) \<Rightarrow> academy_db \<Rightarrow> instant \<Rightarrow> lab_template \<Rightarrow> lab_instance \<Rightarrow> check_report list \<Rightarrow>
     (academy_db \<times> score_row) result" where
  "record_lab_grade day learn now tmpl i reports =
     ensure (activity_exists learn (li_tenant i) (li_activity i)) IntegrityError
       (let sub = lab_submission learn now i; sc = lab_score learn now tmpl i reports;
            db1 = learn\<lparr>submissions := submissions learn @ [sub], scores := scores learn @ [sc],
                        next_id := Suc (Suc (next_id learn))\<rparr>;
            act = lab_activity learn i;
            course = map_option act_course act;
            db2 = lab_events day now i course sub sc (length reports) db1
        in and_then (case course of None \<Rightarrow> Inr db2
                     | Some c \<Rightarrow> and_then (recompute_completion day db2 now (li_tenant i) (li_person i) c) (\<lambda>(db3, _). Inr db3))
             (\<lambda>db3. Inr ((case act of None \<Rightarrow> db3
                          | Some a \<Rightarrow> fst (queue_first_pass_intents db3 now sc a
                                            (find (\<lambda>p. pe_id p = li_person i) (people db3)))), sc)))"

definition grade ::
    "('w \<Rightarrow> 'w \<times> (engine_error + unit)) \<Rightarrow> (lab_check \<Rightarrow> 'w \<Rightarrow> 'w \<times> (engine_error + check_report)) \<Rightarrow>
     (instant \<Rightarrow> instant) \<Rightarrow> academy_db \<Rightarrow> instant \<Rightarrow> lab_template \<Rightarrow> lab_instance \<Rightarrow> 'w \<Rightarrow>
     'w \<times> (engine_error + academy_db \<times> score_row \<times> lab_instance)" where
  "grade before ev day learn now tmpl inst w =
     (if li_status inst \<noteq> ''active'' \<or> li_error inst \<noteq> None
      then (w, Inl (RuntimeError ''cannot check this lab instance''))
      else case eval_checks before ev (lt_checks tmpl) w of
        (w1, Inl e) \<Rightarrow> (w1, Inl e)
      | (w1, Inr reports) \<Rightarrow>
          (case record_lab_grade day learn now tmpl inst reports of
             Inl e \<Rightarrow> (w1, Inl (RuntimeError ''the grade could not be stored''))
           | Inr (learn', sc) \<Rightarrow> (w1, Inr (learn', sc, inst\<lparr>li_last_active_at := Some now\<rparr>))))"

end
