(* ===== verification/Lab_Worker.thy ===== *)
theory Lab_Worker
  imports Lab_Lifecycle
begin

text \<open>
  \<open>lab_operations.run_claimed\<close> and \<open>lab_jobs.drain_once\<close>. The worker's world is the
  committed lab tables, the committed learning store, the lab host, and what the other
  sessions still commit to the lab tables: the next element of \<open>wk_env\<close> is applied wherever
  the worker waits on something slow (before each claim refresh, before the capacity check,
  after each reservation, before each settlement). The loaded \<open>LabInstance\<close> is a value of its own; it reaches the
  tables only through a commit, so a rollback is its loss.
\<close>

record 'r worker =
  wk_lab :: lab_db
  wk_learn :: academy_db
  wk_host :: "'r lab_host"
  wk_env :: "(lab_db \<Rightarrow> lab_db) list"

datatype run_outcome = Succeeded | Failed | Deferred | Stale

text \<open>How the body of \<open>run_claimed\<close> ends: returned early, fell through, or raised.\<close>

datatype 'r body =
    Returned "'r worker" run_outcome
  | Ran "'r worker" lab_instance academy_db "string option"
  | Raised "'r worker" lab_instance engine_error

record worker_config =
  wc_render :: "json \<Rightarrow> string"
  wc_checks :: check_env
  wc_day :: "instant \<Rightarrow> instant"

definition others_commit :: "'r worker \<Rightarrow> 'r worker" where
  "others_commit w = (case wk_env w of [] \<Rightarrow> w | f # fs \<Rightarrow> w\<lparr>wk_lab := f (wk_lab w), wk_env := fs\<rparr>)"

definition worker_columns :: "lab_instance \<Rightarrow> lab_instance \<Rightarrow> lab_instance" where
  "worker_columns i r =
     r\<lparr>li_status := li_status i, li_consoles := li_consoles i, li_error := li_error i,
       li_started_at := li_started_at i, li_last_active_at := li_last_active_at i, li_presence := li_presence i\<rparr>"

definition publish :: "lab_instance \<Rightarrow> lab_db \<Rightarrow> lab_db" where
  "publish i db = set_instance (li_id i) (worker_columns i) db"

definition refresh_claim :: "instant \<Rightarrow> uuid \<Rightarrow> string \<Rightarrow> 'r worker \<Rightarrow> 'r worker \<times> (engine_error + unit)" where
  "refresh_claim now oid by' w =
     (let w1 = others_commit w; (db, alive) = heartbeat (wk_lab w1) now oid by'
      in (w1\<lparr>wk_lab := db\<rparr>,
          if alive then Inr () else Inl (RuntimeError ''lab operation claim was lost before execution'')))"

definition claim_alive :: "uuid \<Rightarrow> string \<Rightarrow> lab_db \<Rightarrow> bool" where
  "claim_alive oid by' db = (case get_operation db oid of None \<Rightarrow> False | Some op \<Rightarrow> owns by' op)"

definition is_conditional_deploy :: "lab_operation \<Rightarrow> bool" where
  "is_conditional_deploy op =
     (lo_kind op = ''deploy'' \<and> lo_origin op = Some ''runtime_repair'' \<and> lo_precondition op = Some ''absent'')"

definition is_conditional_destroy :: "lab_operation \<Rightarrow> bool" where
  "is_conditional_destroy op =
     (lo_kind op = ''destroy'' \<and> lo_origin op = Some ''runtime_cleanup'' \<and> lo_precondition op = Some ''present'')"

definition template_for :: "lab_db \<Rightarrow> lab_instance \<Rightarrow> lab_template option" where
  "template_for db i =
     (case filter (\<lambda>t. lt_tenant t = li_tenant i \<and> lt_activity t = li_activity i) (lab_templates db) of
        [t] \<Rightarrow> Some t | _ \<Rightarrow> None)"

section \<open>Bodies\<close>

definition on_host :: "'r worker \<Rightarrow> ('r lab_host \<Rightarrow> 'r on_instance) \<Rightarrow> (lab_instance \<Rightarrow> string option) \<Rightarrow> 'r body" where
  "on_host w f settle_error =
     (case f (wk_host w) of
        (h, i, Inl e) \<Rightarrow> Raised (w\<lparr>wk_host := h\<rparr>) i e
      | (h, i, Inr ()) \<Rightarrow> Ran (w\<lparr>wk_host := h\<rparr>) i (wk_learn w) (settle_error i))"

definition reserve_status :: "string \<Rightarrow> string" where
  "reserve_status s = (if s = ''active'' \<or> s = ''resetting'' then ''resetting'' else ''provisioning'')"

definition reserve :: "lab_instance \<Rightarrow> lab_instance" where
  "reserve i = i\<lparr>li_status := reserve_status (li_status i), li_presence := ''unknown''\<rparr>"

text \<open>
  The wait for the capacity lock (in a conditional deploy also the preliminary look at the
  runtime), capacity admission, the committed reservation, the recheck of the claim, the
  template, and one more refresh before the slow part \<open>k\<close>. Neither the return to the queue nor
  the reservation is fenced by the claim.
\<close>

definition admit ::
    "instant \<Rightarrow> uuid \<Rightarrow> string \<Rightarrow> lab_instance \<Rightarrow> 'r worker \<Rightarrow> (lab_template \<Rightarrow> lab_instance \<Rightarrow> 'r worker \<Rightarrow> 'r body) \<Rightarrow> 'r body" where
  "admit now oid by' inst w k =
     (let w0 = others_commit w
      in if \<not> capacity_available (wk_lab w0) inst
         then Returned (w0\<lparr>wk_lab := requeue_for_capacity (wk_lab w0) now oid (li_id inst)\<rparr>) Deferred
         else
           let w1 = others_commit (w0\<lparr>wk_lab := publish (reserve inst) (wk_lab w0)\<rparr>)
           in case get_instance (wk_lab w1) (li_id inst) of
                None \<Rightarrow> Returned w1 Stale
              | Some i1 \<Rightarrow>
                  if \<not> claim_alive oid by' (wk_lab w1) then Returned w1 Stale
                  else (case template_for (wk_lab w1) i1 of
                          None \<Rightarrow> Raised w1 i1 (RuntimeError ''no row was found when one was required'')
                        | Some t \<Rightarrow>
                            (case refresh_claim now oid by' w1 of
                               (w2, Inl e) \<Rightarrow> Raised w2 i1 e
                             | (w2, Inr ()) \<Rightarrow> k t i1 w2)))"

definition run_deploy ::
    "worker_config \<Rightarrow> 'r lab_engine \<Rightarrow> instant \<Rightarrow> uuid \<Rightarrow> string \<Rightarrow> lab_template \<Rightarrow> lab_instance \<Rightarrow> 'r worker \<Rightarrow> 'r body" where
  "run_deploy cfg engine now oid by' tmpl inst w =
     (let i1 = reserve inst
      in case en_destroy engine (li_name i1) (wk_host w) of
           (h, Inl e) \<Rightarrow>
             Raised (w\<lparr>wk_host := h\<rparr>)
               (i1\<lparr>li_status := ''active'', li_presence := ''unknown'', li_error := Some (error_text e)\<rparr>) e
         | (h, Inr ()) \<Rightarrow>
             (case refresh_claim now oid by' (w\<lparr>wk_host := h\<rparr>) of
                (w1, Inl e) \<Rightarrow> Raised w1 i1 e
              | (w1, Inr ()) \<Rightarrow>
                  (case provision (wc_render cfg) engine now tmpl i1 (fst (stop_consoles (li_id i1) (wk_host w1))) of
                     (h2, i2, Inl e) \<Rightarrow> Raised (w1\<lparr>wk_host := h2\<rparr>) i2 e
                   | (h2, i2, Inr ()) \<Rightarrow>
                       if li_status i2 \<noteq> ''active'' \<or> li_error i2 \<noteq> None
                       then Raised (w1\<lparr>wk_host := h2\<rparr>) i2
                              (RuntimeError (case or_none (li_error i2) of Some m \<Rightarrow> m | None \<Rightarrow> ''lab deployment failed''))
                       else Ran (w1\<lparr>wk_host := h2\<rparr>) i2 (wk_learn w1) None)))"

definition conditional_settle_error :: "lab_instance \<Rightarrow> string option" where
  "conditional_settle_error i =
     (if li_presence i = ''present'' then None
      else Some (case or_none (li_error i) of Some m \<Rightarrow> m @ ''; '' @ UNCONFIRMED | None \<Rightarrow> UNCONFIRMED))"

definition deploy_body ::
    "worker_config \<Rightarrow> 'r lab_engine \<Rightarrow> instant \<Rightarrow> string \<Rightarrow> lab_operation \<Rightarrow> lab_instance \<Rightarrow> 'r worker \<Rightarrow> 'r body" where
  "deploy_body cfg engine now by' op inst w =
     (if \<not> is_conditional_deploy op
      then admit now (lo_id op) by' inst w (run_deploy cfg engine now (lo_id op) by')
      else case refresh_claim now (lo_id op) by' w of
        (w1, Inl e) \<Rightarrow> Raised w1 inst e
      | (w1, Inr ()) \<Rightarrow>
          (case en_status engine (li_name inst) (wk_host w1) of
             (h, Inl e) \<Rightarrow> Raised (w1\<lparr>wk_host := h\<rparr>) inst e
           | (h, Inr s) \<Rightarrow>
               if s = ''running''
               then on_host (w1\<lparr>wk_host := h\<rparr>) (resync_present_preliminary engine now inst) conditional_settle_error
               else admit now (lo_id op) by' inst (w1\<lparr>wk_host := h\<rparr>) (\<lambda>t i2 w2.
                      on_host w2 (provision_if_absent (wc_render cfg) engine now t (li_status inst) (li_error inst) i2)
                        conditional_settle_error)))"

definition destroy_body ::
    "'r lab_engine \<Rightarrow> instant \<Rightarrow> string \<Rightarrow> lab_operation \<Rightarrow> lab_instance \<Rightarrow> 'r worker \<Rightarrow> 'r body" where
  "destroy_body engine now by' op inst w =
     (case refresh_claim now (lo_id op) by' w of
        (w1, Inl e) \<Rightarrow> Raised w1 inst e
      | (w1, Inr ()) \<Rightarrow>
          if is_conditional_destroy op then on_host w1 (destroy_if_present engine inst) (\<lambda>_. None)
          else
            let i1 = inst\<lparr>li_presence := ''unknown'', li_consoles := []\<rparr>;
                w2 = others_commit (w1\<lparr>wk_lab := publish i1 (wk_lab w1)\<rparr>)
            in case get_instance (wk_lab w2) (li_id inst) of
                 None \<Rightarrow> Raised w2 i1 (RuntimeError ''the instance was deleted'')
               | Some i2 \<Rightarrow> on_host w2 (destroy engine i2) (\<lambda>_. None))"

definition eval_on_host ::
    "check_env \<Rightarrow> 'r lab_engine \<Rightarrow> lab_instance \<Rightarrow> lab_check \<Rightarrow> 'r worker \<Rightarrow> 'r worker \<times> (engine_error + check_report)" where
  "eval_on_host ce engine inst c w =
     (case eval_check ce engine (handle_for inst) (li_seed inst) c (wk_host w) of (h, r) \<Rightarrow> (w\<lparr>wk_host := h\<rparr>, r))"

definition check_body ::
    "worker_config \<Rightarrow> 'r lab_engine \<Rightarrow> instant \<Rightarrow> string \<Rightarrow> lab_operation \<Rightarrow> lab_instance \<Rightarrow> 'r worker \<Rightarrow> 'r body" where
  "check_body cfg engine now by' op inst w =
     (case template_for (wk_lab w) inst of
        None \<Rightarrow> Raised w inst (RuntimeError ''no row was found when one was required'')
      | Some t \<Rightarrow>
          (case refresh_claim now (lo_id op) by' w of
             (w1, Inl e) \<Rightarrow> Raised w1 inst e
           | (w1, Inr ()) \<Rightarrow>
               (case grade (refresh_claim now (lo_id op) by') (eval_on_host (wc_checks cfg) engine inst)
                       (wc_day cfg) (wk_learn w1) now t inst w1 of
                  (w2, Inl e) \<Rightarrow> Raised w2 inst e
                | (w2, Inr (learn, sc, i2)) \<Rightarrow> Ran w2 i2 learn None)))"

definition claimed_body ::
    "worker_config \<Rightarrow> 'r lab_engine \<Rightarrow> instant \<Rightarrow> string \<Rightarrow> lab_operation \<Rightarrow> lab_instance \<Rightarrow> 'r worker \<Rightarrow> 'r body" where
  "claimed_body cfg engine now by' op inst w =
     (if lo_kind op = ''deploy'' then deploy_body cfg engine now by' op inst w
      else if lo_kind op = ''destroy'' then destroy_body engine now by' op inst w
      else if lo_kind op = ''check'' then check_body cfg engine now by' op inst w
      else Raised w inst (RuntimeError ''unsupported lab operation kind''))"

section \<open>Settlement\<close>

text \<open>One fenced transaction: the changes are published only if the claim is still held.\<close>

definition settle_with ::
    "instant \<Rightarrow> uuid \<Rightarrow> string \<Rightarrow> string \<Rightarrow> string option \<Rightarrow> bool \<Rightarrow> run_outcome \<Rightarrow> (lab_db \<Rightarrow> lab_db) \<Rightarrow> academy_db \<Rightarrow>
     'r worker \<Rightarrow> 'r worker \<times> run_outcome" where
  "settle_with now oid by' state err refund outcome changes learn w =
     (let w1 = others_commit w; (db, alive) = settle (changes (wk_lab w1)) now oid by' state err refund
      in if alive then (w1\<lparr>wk_lab := db, wk_learn := learn\<rparr>, outcome) else (w1, Stale))"

definition restore_projection :: "lab_instance \<Rightarrow> lab_db \<Rightarrow> lab_db" where
  "restore_projection inst =
     set_instance (li_id inst) (\<lambda>r. r\<lparr>li_status := li_status inst, li_error := li_error inst, li_presence := li_presence inst\<rparr>)"

definition refuse_wrong_host ::
    "instant \<Rightarrow> string \<Rightarrow> lab_operation \<Rightarrow> lab_instance \<Rightarrow> string \<Rightarrow> 'r worker \<Rightarrow> 'r worker \<times> run_outcome" where
  "refuse_wrong_host now by' op inst m w =
     settle_with now (lo_id op) by' ''failed'' (Some (OPERATOR_REFUSAL_PREFIX @ m)) True Failed
       (restore_projection inst) (wk_learn w) w"

definition defer_contended ::
    "instant \<Rightarrow> string \<Rightarrow> lab_operation \<Rightarrow> lab_instance \<Rightarrow> 'r worker \<Rightarrow> 'r worker \<times> run_outcome" where
  "defer_contended now by' op inst w =
     (let w1 = others_commit w
      in if get_instance (wk_lab w1) (li_id inst) = None \<or> \<not> claim_alive (lo_id op) by' (wk_lab w1) then (w1, Stale)
         else
           let db = (if is_conditional_deploy op \<or> is_conditional_destroy op \<or> lo_kind op \<noteq> ''deploy''
                     then restore_projection inst (wk_lab w1) else wk_lab w1)
           in (w1\<lparr>wk_lab := requeue_after_host_lock db now (lo_id op)\<rparr>, Deferred))"

definition deploy_failure :: "lab_instance \<Rightarrow> string \<Rightarrow> lab_instance \<Rightarrow> lab_instance" where
  "deploy_failure observed m r =
     r\<lparr>li_status := (if li_status observed = ''active'' \<or> li_status observed = ''resetting'' then ''active'' else ''error''),
       li_error := Some m,
       li_presence := (if li_presence observed = ''absent'' then ''absent'' else ''unknown'')\<rparr>"

definition failure_projection :: "lab_operation \<Rightarrow> lab_instance \<Rightarrow> string \<Rightarrow> lab_db \<Rightarrow> lab_db" where
  "failure_projection op observed m db =
     (let i = lo_instance op
      in if lo_kind op = ''deploy'' then
           let db1 = set_instance i (deploy_failure observed m) db
           in if lo_origin op = Some ''runtime_repair'' \<and> lo_requested_by op = None
              then escalate_if (automatic_repair_deploy_escalation_message db1 i (lo_id op) (lo_attempts op)) i db1
              else db1
         else if lo_kind op = ''destroy'' then
           let db1 = set_instance i (\<lambda>r. r\<lparr>li_presence := ''unknown''\<rparr>) db
           in if lo_requested_by op = None
              then escalate_if (automatic_destroy_escalation_message db1 i (lo_id op) (lo_attempts op)) i db1
              else db1
         else db)"

definition settle_failure ::
    "instant \<Rightarrow> string \<Rightarrow> lab_operation \<Rightarrow> lab_instance \<Rightarrow> string \<Rightarrow> 'r worker \<Rightarrow> 'r worker \<times> run_outcome" where
  "settle_failure now by' op observed m w =
     settle_with now (lo_id op) by' ''failed'' (Some m) False Failed (failure_projection op observed m) (wk_learn w) w"

definition handle_exception ::
    "instant \<Rightarrow> string \<Rightarrow> lab_operation \<Rightarrow> lab_instance \<Rightarrow> lab_instance \<Rightarrow> engine_error \<Rightarrow> 'r worker \<Rightarrow> 'r worker \<times> run_outcome" where
  "handle_exception now by' op inst observed e w =
     (case e of
        WrongLabHostError m \<Rightarrow> refuse_wrong_host now by' op inst m w
      | HostLockUnavailable \<Rightarrow> defer_contended now by' op inst w
      | RuntimeError m \<Rightarrow> settle_failure now by' op observed m w)"

definition settle_success ::
    "instant \<Rightarrow> string \<Rightarrow> lab_operation \<Rightarrow> lab_instance \<Rightarrow> academy_db \<Rightarrow> string option \<Rightarrow> 'r worker \<Rightarrow> 'r worker \<times> run_outcome" where
  "settle_success now by' op inst learn err w =
     settle_with now (lo_id op) by' ''succeeded'' err False Succeeded (publish inst) learn w"

definition run_claimed ::
    "worker_config \<Rightarrow> 'r lab_engine \<Rightarrow> instant \<Rightarrow> uuid \<Rightarrow> string \<Rightarrow> 'r worker \<Rightarrow> 'r worker \<times> run_outcome" where
  "run_claimed cfg engine now oid by' w =
     (case get_operation (wk_lab w) oid of
        None \<Rightarrow> (w, Stale)
      | Some op \<Rightarrow>
          if \<not> owns by' op then (w, Stale)
          else (case get_instance (wk_lab w) (lo_instance op) of
                  None \<Rightarrow> settle_with now oid by' ''failed'' (Some ''lab instance no longer exists'') False Failed id (wk_learn w) w
                | Some inst \<Rightarrow>
                    (case claimed_body cfg engine now by' op inst w of
                       Returned w1 out \<Rightarrow> (w1, out)
                     | Ran w1 i1 learn err \<Rightarrow> settle_success now by' op i1 learn err w1
                     | Raised w1 i1 e \<Rightarrow> handle_exception now by' op inst i1 e w1)))"

section \<open>drain_once\<close>

text \<open>
  \<open>clock k\<close> is the time of the k-th turn of the loop. \<open>None\<close>: the fuel ran out before the
  queue was drained.
\<close>

fun drain_loop ::
    "nat \<Rightarrow> nat \<Rightarrow> (nat \<Rightarrow> instant) \<Rightarrow> worker_config \<Rightarrow> 'r lab_engine \<Rightarrow> string \<Rightarrow> string option \<Rightarrow> string option \<Rightarrow>
     'r worker \<Rightarrow> ('r worker \<times> nat) option" where
  "drain_loop 0 k clock cfg engine by' host epoch w = None"
| "drain_loop (Suc fuel) k clock cfg engine by' host epoch w =
     (case claim_next (\<lambda>_. False) (wk_lab w) (clock k) by' host epoch of
        (db, None) \<Rightarrow> Some (w, 0)
      | (db, Some op) \<Rightarrow>
          (case run_claimed cfg engine (clock k) (lo_id op) by' (w\<lparr>wk_lab := db\<rparr>) of
             (w1, out) \<Rightarrow>
               map_option (\<lambda>(w2, completed). (w2, completed + (if out = Succeeded then 1 else 0)))
                 (drain_loop fuel (Suc k) clock cfg engine by' host epoch w1)))"

definition drain_once ::
    "nat \<Rightarrow> (nat \<Rightarrow> instant) \<Rightarrow> worker_config \<Rightarrow> 'r lab_engine \<Rightarrow> string \<Rightarrow> string option \<Rightarrow> string option \<Rightarrow>
     'r worker \<Rightarrow> ('r worker \<times> nat) option" where
  "drain_once fuel clock cfg engine by' host epoch w = drain_loop fuel 0 clock cfg engine by' host epoch w"

end
