(* ===== verification/Lab_Worker_Facts.thy ===== *)
theory Lab_Worker_Facts
  imports Lab_Worker
begin

text \<open>
  What a run of the worker publishes, whatever the other sessions commit meanwhile, and, on
  an engine that meets the contract, how the published projection relates to the host.
\<close>

section \<open>The worker's world\<close>

lemma others_commit_simps [simp]:
  "wk_learn (others_commit w) = wk_learn w" "wk_host (others_commit w) = wk_host w"
  by (simp_all add: others_commit_def split: list.split)

lemma others_commit_quiet [simp]: "wk_env w = [] \<Longrightarrow> others_commit w = w"
  by (simp add: others_commit_def)

lemma refresh_claim_world:
  assumes "refresh_claim now oid by' w = (w1, r)"
  shows "wk_learn w1 = wk_learn w" "wk_host w1 = wk_host w"
  using assms by (auto simp: refresh_claim_def Let_def split: prod.splits)

fun body_world :: "'r body \<Rightarrow> 'r worker" where
  "body_world (Returned w out) = w"
| "body_world (Ran w i learn err) = w"
| "body_world (Raised w i e) = w"

lemma eval_checks_keeps:
  assumes r: "\<And>w. R w w" and t: "\<And>a b c. R a b \<Longrightarrow> R b c \<Longrightarrow> R a c"
    and b: "\<And>w w' x. before w = (w', x) \<Longrightarrow> R w w'" and e: "\<And>c w w' x. ev c w = (w', x) \<Longrightarrow> R w w'"
    and run: "eval_checks before ev cs w = (w', res)"
  shows "R w w'"
  using run
proof (induction cs arbitrary: w w' res)
  case Nil
  with r show ?case by simp
next
  case (Cons c cs)
  obtain w1 b' where b': "before w = (w1, b')" by force
  obtain w2 x where x: "ev c w1 = (w2, x)" by force
  obtain w3 y where y: "eval_checks before ev cs w2 = (w3, y)" by force
  have "w' \<in> {w1, w2, w3}"
    using Cons.prems by (simp add: b' x y split: sum.splits unit.splits)
  with b [OF b'] e [OF x] Cons.IH [OF y] show ?case by (auto intro: t)
qed

lemma admit_learn:
  assumes "\<And>t i w2. wk_learn (body_world (k t i w2)) = wk_learn w2"
  shows "wk_learn (body_world (admit now oid by' inst w k)) = wk_learn w"
  using assms by (auto simp: admit_def Let_def split: option.split prod.split sum.split unit.split dest: refresh_claim_world)

lemma on_host_learn [simp]: "wk_learn (body_world (on_host w f se)) = wk_learn w"
  by (auto simp: on_host_def split: prod.split sum.split unit.split)

lemma run_deploy_learn: "wk_learn (body_world (run_deploy cfg engine now oid by' t i w)) = wk_learn w"
  by (auto simp: run_deploy_def Let_def split: prod.split sum.split unit.split dest: refresh_claim_world)

lemma grade_learn:
  assumes "grade (refresh_claim now oid by') (eval_on_host ce engine inst) day learn now t i w = (w', r)"
  shows "wk_learn w' = wk_learn w"
proof -
  let ?R = "\<lambda>a b :: 'a worker. wk_learn b = wk_learn a"
  obtain w1 x where x: "eval_checks (refresh_claim now oid by') (eval_on_host ce engine inst) (lt_checks t) w = (w1, x)" by force
  have "?R w w1"
    by (rule eval_checks_keeps [where R = ?R, OF _ _ _ _ x])
       (auto simp: eval_on_host_def split: prod.splits dest: refresh_claim_world)
  with x assms show ?thesis by (auto simp: grade_def split: if_splits sum.splits prod.splits)
qed

lemma claimed_body_learn: "wk_learn (body_world (claimed_body cfg engine now by' op inst w)) = wk_learn w"
proof -
  have "wk_learn (body_world (deploy_body cfg engine now by' op inst w)) = wk_learn w"
    by (auto simp: deploy_body_def admit_learn run_deploy_learn split: prod.split sum.split unit.split dest: refresh_claim_world)
  moreover have "wk_learn (body_world (destroy_body engine now by' op inst w)) = wk_learn w"
    by (auto simp: destroy_body_def Let_def split: prod.split sum.split unit.split option.split dest: refresh_claim_world)
  moreover have "wk_learn (body_world (check_body cfg engine now by' op inst w)) = wk_learn w"
    by (auto simp: check_body_def split: prod.split sum.split unit.split option.split)
      (metis grade_learn refresh_claim_world(1))+
  ultimately show ?thesis by (simp add: claimed_body_def)
qed

text \<open>Only \<open>check\<close> operations produce grades.\<close>

lemma claimed_body_grades:
  "claimed_body cfg engine now by' op inst w = Ran w1 i1 learn err \<Longrightarrow> learn \<noteq> wk_learn w \<Longrightarrow> lo_kind op = ''check''"
  using claimed_body_learn [of cfg engine now by' op inst w]
  by (auto simp: claimed_body_def deploy_body_def destroy_body_def admit_def on_host_def run_deploy_def Let_def
        split: if_splits prod.splits sum.splits unit.splits option.splits)

section \<open>Fenced settlement\<close>

lemma update_owned_row:
  "snd (update_owned oid by' f db) \<longleftrightarrow> (\<exists>r \<in> set (lab_operations db). lo_id r = oid \<and> owns by' r)"
  by (auto simp: update_owned_def count_rows_def filter_empty_conv)

lemma settle_settles:
  assumes "settle db now oid by' state err refund = (db', True)"
  shows "\<exists>r \<in> set (lab_operations db'). lo_id r = oid \<and> lo_state r = state \<and> lo_claimed_by r = Some by'"
proof -
  from assms obtain r where r: "r \<in> set (lab_operations db)" "lo_id r = oid" "owns by' r"
    using update_owned_row [of oid by' "settle_row now state err refund" db] by (auto simp: settle_def)
  then have "settle_row now state err refund r \<in> set (lab_operations db')"
    using assms by (auto simp: settle_def update_owned_def set_update_rows)
  with r show ?thesis by (intro bexI) (auto simp: settle_row_def owns_def)
qed

lemma settle_with_cases:
  assumes "settle_with now oid by' state err refund out0 changes learn w = (w', out)"
  obtains (stale) "out = Stale" "w' = others_commit w"
  | (settled) "out = out0" "wk_learn w' = learn"
      "\<exists>r \<in> set (lab_operations (wk_lab w')). lo_id r = oid \<and> lo_state r = state \<and> lo_claimed_by r = Some by'"
proof -
  obtain db alive where s: "settle (changes (wk_lab (others_commit w))) now oid by' state err refund = (db, alive)" by force
  show thesis
  proof (cases alive)
    case True
    with assms s have "w' = (others_commit w)\<lparr>wk_lab := db, wk_learn := learn\<rparr>" "out = out0"
      by (auto simp: settle_with_def Let_def)
    with settle_settles [OF s [unfolded eqTrueI [OF True]]] show thesis by (intro settled) simp_all
  next
    case False
    with assms s stale show thesis by (auto simp: settle_with_def Let_def)
  qed
qed

lemma defer_contended_learn: "defer_contended now by' op inst w = (w', out) \<Longrightarrow> wk_learn w' = wk_learn w \<and> out \<in> {Stale, Deferred}"
  by (auto simp: defer_contended_def Let_def split: if_splits)

definition settled_as :: "uuid \<Rightarrow> string \<Rightarrow> string \<Rightarrow> lab_db \<Rightarrow> bool" where
  "settled_as oid by' state db = (\<exists>r \<in> set (lab_operations db). lo_id r = oid \<and> lo_state r = state \<and> lo_claimed_by r = Some by')"

lemma body_returns: "claimed_body cfg engine now by' op inst w = Returned w1 out \<Longrightarrow> out \<in> {Stale, Deferred}"
  by (auto simp: claimed_body_def deploy_body_def destroy_body_def check_body_def admit_def on_host_def run_deploy_def Let_def
        split: if_splits prod.splits sum.splits unit.splits option.splits)

lemma run_claimed_publishes:
  assumes "run_claimed cfg engine now oid by' w = (w', out)"
  shows "(out = Succeeded \<longrightarrow> settled_as oid by' ''succeeded'' (wk_lab w'))
    \<and> (out = Failed \<longrightarrow> settled_as oid by' ''failed'' (wk_lab w'))
    \<and> (wk_learn w' \<noteq> wk_learn w \<longrightarrow> out = Succeeded
         \<and> (\<exists>op. get_operation (wk_lab w) oid = Some op \<and> lo_kind op = ''check'' \<and> owns by' op))"
proof (cases "get_operation (wk_lab w) oid")
  case None
  with assms show ?thesis by (auto simp: run_claimed_def)
next
  case (Some op)
  note oid = get_operation_id [OF Some]
  show ?thesis
  proof (cases "owns by' op")
    case False
    with Some assms show ?thesis by (auto simp: run_claimed_def)
  next
    case own: True
    show ?thesis
    proof (cases "get_instance (wk_lab w) (lo_instance op)")
      case None
      with Some own assms show ?thesis
        by (auto simp: run_claimed_def settled_as_def elim: settle_with_cases)
    next
      case i: (Some inst)
      have l: "wk_learn (body_world (claimed_body cfg engine now by' op inst w)) = wk_learn w"
        by (rule claimed_body_learn)
      show ?thesis
      proof (cases "claimed_body cfg engine now by' op inst w")
        case (Returned w1 o1)
        with Some own i assms l body_returns [OF Returned] show ?thesis by (auto simp: run_claimed_def)
      next
        case (Ran w1 i1 learn err)
        with Some own i assms have "settle_success now by' op i1 learn err w1 = (w', out)" by (simp add: run_claimed_def)
        then show ?thesis
          unfolding settle_success_def oid
          by (rule settle_with_cases) (use Ran l Some own claimed_body_grades [OF Ran] in \<open>auto simp: settled_as_def\<close>)
      next
        case (Raised w1 i1 e)
        with Some own i assms have h: "handle_exception now by' op inst i1 e w1 = (w', out)" by (simp add: run_claimed_def)
        show ?thesis
        proof (cases e)
          case HostLockUnavailable
          with h l Raised show ?thesis by (auto simp: handle_exception_def dest: defer_contended_learn)
        next
          case (WrongLabHostError m)
          with h have "refuse_wrong_host now by' op inst m w1 = (w', out)" by (simp add: handle_exception_def)
          then show ?thesis unfolding refuse_wrong_host_def oid
            by (rule settle_with_cases) (use l Raised in \<open>auto simp: settled_as_def\<close>)
        next
          case (RuntimeError m)
          with h have "settle_failure now by' op i1 m w1 = (w', out)" by (simp add: handle_exception_def)
          then show ?thesis unfolding settle_failure_def oid
            by (rule settle_with_cases) (use l Raised in \<open>auto simp: settled_as_def\<close>)
        qed
      qed
    qed
  qed
qed

section \<open>A claim that another session took\<close>

text \<open>\<open>holds_claim\<close> reads the operation rows alone. The other sessions commit \<open>ps @ gs\<close>; a worker is
  \<open>ahead\<close> of the loss while nothing of \<open>gs\<close> has been committed, and \<open>overtaken\<close> when its tables are
  exactly what an element of \<open>gs\<close> left.\<close>

definition holds_claim :: "uuid \<Rightarrow> string \<Rightarrow> lab_db \<Rightarrow> bool" where
  "holds_claim oid by' db \<longleftrightarrow>
     (\<exists>r \<in> set (lab_operations db). lo_id r = oid \<and> lo_state r = ''claimed'' \<and> lo_claimed_by r = Some by')"

definition ahead :: "(lab_db \<Rightarrow> lab_db) list \<Rightarrow> 'r worker \<Rightarrow> bool" where
  "ahead gs w \<longleftrightarrow> (\<exists>ps. wk_env w = ps @ gs)"

definition overtaken :: "(lab_db \<Rightarrow> lab_db) list \<Rightarrow> 'r worker \<Rightarrow> bool" where
  "overtaken gs w \<longleftrightarrow> (\<exists>ps. gs = ps @ wk_env w) \<and> (\<exists>g \<in> set gs. \<exists>d. wk_lab w = g d)"

definition raced :: "(lab_db \<Rightarrow> lab_db) list \<Rightarrow> 'r worker \<Rightarrow> bool" where
  "raced gs w \<longleftrightarrow> ahead gs w \<or> overtaken gs w"

definition takes_claim :: "uuid \<Rightarrow> string \<Rightarrow> (lab_db \<Rightarrow> lab_db) list \<Rightarrow> bool" where
  "takes_claim oid by' gs \<longleftrightarrow> (\<forall>g \<in> set gs. \<forall>d. \<not> holds_claim oid by' (g d))"

lemma overtaken_lost: "takes_claim oid by' gs \<Longrightarrow> overtaken gs w \<Longrightarrow> \<not> holds_claim oid by' (wk_lab w)"
  by (auto simp: overtaken_def takes_claim_def)

lemma others_raced: "raced gs w \<Longrightarrow> raced gs (others_commit w)"
proof (cases "wk_env w")
  case (Cons f fs)
  assume "raced gs w"
  then consider (taken) "gs = f # fs" | (later) ps where "f # fs = ps @ gs" "ps \<noteq> []" | (lost) ps where "gs = ps @ f # fs"
    by (auto simp: raced_def ahead_def overtaken_def Cons append_eq_Cons_conv Cons_eq_append_conv)
  then show ?thesis
  proof cases
    case later
    then show ?thesis by (auto simp: raced_def ahead_def others_commit_def Cons Cons_eq_append_conv)
  qed (auto simp: raced_def overtaken_def others_commit_def Cons)
qed simp

lemma raced_host [simp]: "raced gs (w\<lparr>wk_host := h\<rparr>) = raced gs w" "ahead gs (w\<lparr>wk_host := h\<rparr>) = ahead gs w"
    "ahead gs (w\<lparr>wk_lab := db\<rparr>) = ahead gs w"
  by (simp_all add: raced_def ahead_def overtaken_def)

lemma ahead_raced: "ahead gs w \<Longrightarrow> raced gs w"
  by (simp add: raced_def)

lemma claim_alive_holds: "claim_alive oid by' db \<Longrightarrow> holds_claim oid by' db"
  by (auto simp: claim_alive_def holds_claim_def owns_def get_operation_def split: option.splits dest: find_Some_in)

lemma update_owned_holds: "snd (update_owned oid by' f db) \<longleftrightarrow> holds_claim oid by' db"
  by (auto simp: update_owned_row holds_claim_def owns_def)

lemma update_owned_lost: "\<not> holds_claim oid by' db \<Longrightarrow> update_owned oid by' f db = (db, False)"
proof -
  assume l: "\<not> holds_claim oid by' db"
  then have "update_rows (\<lambda>r. lo_id r = oid \<and> owns by' r) f (lab_operations db) = lab_operations db"
    by (intro update_rows_none) (auto simp: holds_claim_def owns_def)
  with l update_owned_holds [of oid by' f db] show ?thesis by (simp add: update_owned_def)
qed

lemma refresh_raced:
  assumes "takes_claim oid by' gs" "raced gs w" "refresh_claim now oid by' w = (w1, r)"
  shows "raced gs w1" "r = Inr () \<Longrightarrow> ahead gs w1"
proof -
  let ?o = "others_commit w"
  have q: "raced gs ?o" by (rule others_raced [OF assms(2)])
  have "raced gs w1 \<and> (r = Inr () \<longrightarrow> ahead gs w1)"
  proof (cases "ahead gs ?o")
    case True
    with assms(3) show ?thesis by (auto simp: refresh_claim_def Let_def raced_def split: prod.splits)
  next
    case False
    with q have l: "overtaken gs ?o" by (simp add: raced_def)
    from update_owned_lost [OF overtaken_lost [OF assms(1) l]] assms(3) have "w1 = ?o" "r \<noteq> Inr ()"
      by (auto simp: refresh_claim_def heartbeat_def Let_def)
    with q show ?thesis by simp
  qed
  then show "raced gs w1" "r = Inr () \<Longrightarrow> ahead gs w1" by blast+
qed

fun body_raced :: "(lab_db \<Rightarrow> lab_db) list \<Rightarrow> instant \<Rightarrow> lab_operation \<Rightarrow> lab_instance \<Rightarrow> 'r body \<Rightarrow> bool" where
  "body_raced gs now op inst (Ran w i learn err) = raced gs w"
| "body_raced gs now op inst (Raised w i e) = raced gs w"
| "body_raced gs now op inst (Returned w out) =
     (ahead gs w \<or> lo_kind op = ''deploy'' \<and>
        (out = Stale \<and> (overtaken gs w \<or> (\<exists>g \<in> set gs. \<exists>d. wk_lab w = publish (reserve inst) (g d)))
         \<or> out = Deferred \<and> (\<exists>g \<in> set gs. \<exists>d. \<not> capacity_available (g d) inst
             \<and> wk_lab w = requeue_for_capacity (g d) now (lo_id op) (li_id inst))))"

lemma on_host_raced: "raced gs w \<Longrightarrow> body_raced gs now op inst (on_host w f se)"
  by (simp add: on_host_def split: prod.split sum.split unit.split)

text \<open>What \<open>admit\<close> returns early with, once the wait for the capacity lock is over.\<close>

lemma others_overtaken:
  assumes "raced gs w"
  shows "ahead gs (others_commit w) \<or> (\<exists>g \<in> set gs. \<exists>d. wk_lab (others_commit w) = g d)"
  using others_raced [OF assms] by (auto simp: raced_def overtaken_def)

lemma reservation_raced:
  assumes r: "raced gs w" and v_def: "v = others_commit (w\<lparr>wk_lab := publish (reserve inst) (wk_lab w)\<rparr>)"
  shows "ahead gs v \<or> overtaken gs v \<or> (\<exists>g \<in> set gs. \<exists>d. wk_lab v = publish (reserve inst) (g d))"
proof (cases "ahead gs w")
  case True
  then have "raced gs (w\<lparr>wk_lab := publish (reserve inst) (wk_lab w)\<rparr>)" by (simp add: ahead_raced)
  from others_raced [OF this] have "ahead gs v \<or> overtaken gs v" by (simp add: raced_def v_def)
  then show ?thesis by blast
next
  case False
  with r obtain ps g d where l: "gs = ps @ wk_env w" "g \<in> set gs" "wk_lab w = g d" by (auto simp: raced_def overtaken_def)
  show ?thesis
  proof (cases "wk_env w")
    case Nil
    with l show ?thesis by (auto simp: v_def)
  next
    case (Cons f fs)
    with l have "overtaken gs v" by (auto simp: v_def others_commit_def overtaken_def)
    then show ?thesis by simp
  qed
qed

lemma reservation_lost: "\<not> holds_claim oid by' db \<Longrightarrow> \<not> claim_alive oid by' (publish i db)"
  using claim_alive_holds [of oid by' "publish i db"] by (auto simp: holds_claim_def publish_def)

lemma admit_raced:
  assumes t: "takes_claim (lo_id op) by' gs" and r: "raced gs w" and dep: "lo_kind op = ''deploy''"
    and k: "\<And>tm i w2. ahead gs w2 \<Longrightarrow> body_raced gs now op inst (k tm i w2)"
  shows "body_raced gs now op inst (admit now (lo_id op) by' inst w k)"
proof -
  let ?w0 = "others_commit w" let ?w1 = "others_commit (?w0\<lparr>wk_lab := publish (reserve inst) (wk_lab ?w0)\<rparr>)"
  note r0 = others_raced [OF r] and o0 = others_overtaken [OF r]
  show ?thesis
  proof (cases "capacity_available (wk_lab ?w0) inst")
    case False
    then have e: "admit now (lo_id op) by' inst w k
        = Returned (?w0\<lparr>wk_lab := requeue_for_capacity (wk_lab ?w0) now (lo_id op) (li_id inst)\<rparr>) Deferred"
      by (simp add: admit_def Let_def)
    from o0 show ?thesis
    proof
      assume "\<exists>g \<in> set gs. \<exists>d. wk_lab ?w0 = g d"
      with False have "\<exists>g \<in> set gs. \<exists>d. \<not> capacity_available (g d) inst
          \<and> requeue_for_capacity (wk_lab ?w0) now (lo_id op) (li_id inst) = requeue_for_capacity (g d) now (lo_id op) (li_id inst)"
        by metis
      with dep show ?thesis by (simp add: e)
    qed (simp add: e)
  next
    case True
    note v = reservation_raced [OF r0 refl, of inst]
    have ret: "body_raced gs now op inst (Returned ?w1 Stale)" using v dep by simp
    show ?thesis
    proof (cases "get_instance (wk_lab ?w1) (li_id inst) = None \<or> \<not> claim_alive (lo_id op) by' (wk_lab ?w1)")
      case gone: True
      with True ret show ?thesis by (auto simp: admit_def Let_def split: option.split)
    next
      case False
      then obtain i1 where i1: "get_instance (wk_lab ?w1) (li_id inst) = Some i1" and al: "claim_alive (lo_id op) by' (wk_lab ?w1)" by auto
      from t reservation_lost have "\<forall>g \<in> set gs. \<forall>d. wk_lab ?w1 \<noteq> publish (reserve inst) (g d)" "\<not> overtaken gs ?w1"
        using al overtaken_lost [OF t] claim_alive_holds [OF al] by (metis takes_claim_def)+
      with v have a: "ahead gs ?w1" by blast
      obtain w2 x where x: "refresh_claim now (lo_id op) by' ?w1 = (w2, x)" by force
      note q = refresh_raced [OF t ahead_raced [OF a] x]
      show ?thesis
      proof (cases x)
        case (Inl e)
        with True i1 al x q(1) ahead_raced [OF a] show ?thesis by (simp add: admit_def Let_def split: option.split)
      next
        case (Inr u)
        then have u: "x = Inr ()" by simp
        with True i1 al x k [OF q(2) [OF u]] ahead_raced [OF a] show ?thesis by (simp add: admit_def Let_def split: option.split)
      qed
    qed
  qed
qed

lemma run_deploy_raced:
  assumes "takes_claim oid by' gs" "raced gs w"
  shows "body_raced gs now op inst (run_deploy cfg engine now oid by' tm i w)"
  using assms by (auto simp: run_deploy_def Let_def split: prod.split sum.split unit.split dest: refresh_raced(1) [rotated 2])

lemma grade_raced:
  assumes "takes_claim oid by' gs"
    and "grade (refresh_claim now oid by') (eval_on_host ce engine inst) day learn now tm i w = (w', r)" "raced gs w"
  shows "raced gs w'"
proof -
  obtain w1 x where x: "eval_checks (refresh_claim now oid by') (eval_on_host ce engine inst) (lt_checks tm) w = (w1, x)" by force
  have "raced gs w \<longrightarrow> raced gs w1"
    by (rule eval_checks_keeps [where R = "\<lambda>a b. raced gs a \<longrightarrow> raced gs b", OF _ _ _ _ x])
       (auto simp: eval_on_host_def split: prod.splits dest: refresh_raced(1) [OF assms(1), rotated])
  with x assms show ?thesis by (auto simp: grade_def split: if_splits sum.splits prod.splits)
qed

lemma deploy_raced:
  assumes t: "takes_claim (lo_id op) by' gs" and r: "raced gs w" and dep: "lo_kind op = ''deploy''"
  shows "body_raced gs now op inst (deploy_body cfg engine now by' op inst w)"
proof (cases "is_conditional_deploy op")
  case False
  then show ?thesis
    by (simp add: deploy_body_def admit_raced [OF t r dep run_deploy_raced [OF t ahead_raced]])
next
  case True
  let ?k = "\<lambda>tm i2 w2. on_host w2 (provision_if_absent (wc_render cfg) engine now tm (li_status inst) (li_error inst) i2) conditional_settle_error"
  obtain w1 x where x: "refresh_claim now (lo_id op) by' w = (w1, x)" by force
  obtain h s where s: "en_status engine (li_name inst) (wk_host w1) = (h, s)" by force
  note q = refresh_raced(1) [OF t r x]
  then have r1: "raced gs (w1\<lparr>wk_host := h\<rparr>)" by simp
  have a: "body_raced gs now op inst (admit now (lo_id op) by' inst (w1\<lparr>wk_host := h\<rparr>) ?k)"
    by (rule admit_raced [OF t r1 dep on_host_raced [OF ahead_raced]])
  show ?thesis
  proof (cases x)
    case (Inl e)
    with True x q show ?thesis by (simp add: deploy_body_def)
  next
    case xr: (Inr u)
    show ?thesis
      by (cases s) (use True x xr s q a on_host_raced [OF r1] in \<open>simp_all add: deploy_body_def\<close>)
  qed
qed

lemma destroy_raced:
  assumes t: "takes_claim (lo_id op) by' gs" and r: "raced gs w"
  shows "body_raced gs now op inst (destroy_body engine now by' op inst w)"
proof -
  obtain w1 x where x: "refresh_claim now (lo_id op) by' w = (w1, x)" by force
  note q = refresh_raced [OF t r x]
  show ?thesis
  proof (cases x)
    case (Inl e)
    with x q(1) show ?thesis by (simp add: destroy_body_def)
  next
    case xr: (Inr u)
    then have a: "ahead gs w1" using q(2) by simp
    let ?i1 = "inst\<lparr>li_presence := ''unknown'', li_consoles := []\<rparr>"
    have r2: "raced gs (others_commit (w1\<lparr>wk_lab := publish ?i1 (wk_lab w1)\<rparr>))"
      by (rule others_raced) (simp add: ahead_raced a)
    show ?thesis
      using x xr on_host_raced [OF ahead_raced [OF a]] on_host_raced [OF r2] r2
      by (simp add: destroy_body_def Let_def split: option.split)
  qed
qed

lemma check_raced:
  assumes t: "takes_claim (lo_id op) by' gs" and r: "raced gs w"
  shows "body_raced gs now op inst (check_body cfg engine now by' op inst w)"
proof (cases "template_for (wk_lab w) inst")
  case None
  with r show ?thesis by (simp add: check_body_def)
next
  case (Some tm)
  obtain w1 x where x: "refresh_claim now (lo_id op) by' w = (w1, x)" by force
  note q = refresh_raced(1) [OF t r x]
  obtain w2 y where y: "grade (refresh_claim now (lo_id op) by') (eval_on_host (wc_checks cfg) engine inst)
      (wc_day cfg) (wk_learn w1) now tm inst w1 = (w2, y)" by force
  note g = grade_raced [OF t y q]
  show ?thesis by (cases x; cases y) (use Some x y q g in \<open>simp_all add: check_body_def split: prod.split\<close>)
qed

lemma claimed_body_raced:
  assumes "takes_claim (lo_id op) by' gs" "raced gs w"
  shows "body_raced gs now op inst (claimed_body cfg engine now by' op inst w)"
  using assms by (simp add: claimed_body_def deploy_raced destroy_raced check_raced)

text \<open>The settlement of a lost claim writes nothing.\<close>

lemma settle_with_raced:
  assumes t: "takes_claim oid by' gs" and r: "raced gs w"
    and ops: "\<And>db. lab_operations (changes db) = lab_operations db"
    and s: "settle_with now oid by' state err refund out0 changes learn w = (w', out)"
  shows "ahead gs w' \<or> out = Stale \<and> overtaken gs w' \<and> wk_learn w' = wk_learn w"
proof (cases "ahead gs (others_commit w)")
  case True
  with s show ?thesis by (auto simp: settle_with_def Let_def ahead_def split: prod.splits if_splits)
next
  case False
  with others_raced [OF r] have o': "overtaken gs (others_commit w)" by (simp add: raced_def)
  from overtaken_lost [OF t o'] ops have "\<not> holds_claim oid by' (changes (wk_lab (others_commit w)))"
    by (simp add: holds_claim_def)
  with s o' show ?thesis by (auto simp: settle_with_def settle_def update_owned_lost Let_def)
qed

lemma defer_raced:
  assumes t: "takes_claim (lo_id op) by' gs" and r: "raced gs w" and s: "defer_contended now by' op inst w = (w', out)"
  shows "ahead gs w' \<or> out = Stale \<and> overtaken gs w' \<and> wk_learn w' = wk_learn w"
proof (cases "ahead gs (others_commit w)")
  case True
  with s show ?thesis by (auto simp: defer_contended_def Let_def ahead_def split: if_splits)
next
  case False
  with others_raced [OF r] have o': "overtaken gs (others_commit w)" by (simp add: raced_def)
  with overtaken_lost [OF t o'] claim_alive_holds s show ?thesis by (auto simp: defer_contended_def Let_def split: if_splits)
qed

lemma failure_operations [simp]: "lab_operations (failure_projection op i m db) = lab_operations db"
  by (auto simp: failure_projection_def Let_def escalate_if_def split: option.split)

lemma publish_operations [simp]: "lab_operations (publish i db) = lab_operations db" "lab_operations (restore_projection i db) = lab_operations db"
  by (simp_all add: publish_def restore_projection_def)

text \<open>What a run leaves once another session took its claim while it ran.\<close>

lemma run_claimed_raced:
  assumes t: "takes_claim oid by' gs" and a: "ahead gs w"
    and run: "run_claimed cfg engine now oid by' w = (w', out)" and lost: "length (wk_env w') < length gs"
  obtains (unwritten) "out = Stale" "wk_learn w' = wk_learn w" "overtaken gs w'"
  | (admission) op inst where "get_operation (wk_lab w) oid = Some op" "lo_kind op = ''deploy''"
      "get_instance (wk_lab w) (lo_instance op) = Some inst" "wk_learn w' = wk_learn w"
      "body_raced gs now op inst (Returned w' out)"
proof -
  from lost have na: "\<not> ahead gs w'" by (auto simp: ahead_def)
  note r = ahead_raced [OF a]
  show thesis
  proof (cases "get_operation (wk_lab w) oid")
    case None
    with a run na show thesis by (auto simp: run_claimed_def)
  next
    case op: (Some op)
    note [simp] = get_operation_id [OF op]
    have t': "takes_claim (lo_id op) by' gs" using t by simp
    show thesis
    proof (cases "owns by' op")
      case False
      with op a run na show thesis by (auto simp: run_claimed_def)
    next
      case own: True
      show thesis
      proof (cases "get_instance (wk_lab w) (lo_instance op)")
        case None
        with op own run have "settle_with now oid by' ''failed'' (Some ''lab instance no longer exists'') False Failed id (wk_learn w) w = (w', out)"
          by (simp add: run_claimed_def)
        from settle_with_raced [OF t r _ this] na have "out = Stale \<and> overtaken gs w' \<and> wk_learn w' = wk_learn w" by auto
        then show thesis using unwritten by blast
      next
        case i: (Some inst)
        note b = claimed_body_raced [OF t' r, of now inst cfg engine]
          and l = claimed_body_learn [of cfg engine now by' op inst w]
        show thesis
        proof (cases "claimed_body cfg engine now by' op inst w")
          case (Returned w1 o1)
          with op own i run have e: "w1 = w'" "o1 = out" by (simp_all add: run_claimed_def)
          have r': "body_raced gs now op inst (Returned w' out)" using b unfolding Returned e .
          with na have "lo_kind op = ''deploy''" by simp
          with l e Returned show thesis by (intro admission [OF op _ i _ r']) simp_all
        next
          case (Ran w1 i1 learn err)
          with op own i run have s: "settle_with now oid by' ''succeeded'' err False Succeeded (publish i1) learn w1 = (w', out)"
            by (simp add: run_claimed_def settle_success_def)
          from Ran b l settle_with_raced [OF t _ _ s] na have "out = Stale \<and> overtaken gs w' \<and> wk_learn w' = wk_learn w" by auto
          then show thesis using unwritten by blast
        next
          case (Raised w1 i1 e)
          with op own i run have h: "handle_exception now by' op inst i1 e w1 = (w', out)" by (simp add: run_claimed_def)
          have "ahead gs w' \<or> out = Stale \<and> overtaken gs w' \<and> wk_learn w' = wk_learn w1"
          proof (cases e)
            case HostLockUnavailable
            with h Raised b defer_raced [OF t'] show ?thesis by (simp add: handle_exception_def)
          next
            case (WrongLabHostError m)
            with h Raised b show ?thesis
              by (intro settle_with_raced [OF t]) (auto simp: handle_exception_def refuse_wrong_host_def)
          next
            case (RuntimeError m)
            with h Raised b show ?thesis
              by (intro settle_with_raced [OF t]) (auto simp: handle_exception_def settle_failure_def)
          qed
          with na Raised l have "out = Stale \<and> overtaken gs w' \<and> wk_learn w' = wk_learn w" by auto
          then show thesis using unwritten by blast
        qed
      qed
    qed
  qed
qed

end
