(* ===== verification/Lab_Projection.thy ===== *)
theory Lab_Projection
  imports Lab_Worker_Facts
begin

text \<open>
  The projection \<open>runtime_presence\<close> against the host: on an engine that meets the contract,
  an undisturbed run of the worker never publishes \<open>absent\<close> for a lab that runs, nor
  \<open>present\<close> for one that does not; and the conditional operations leave a host that does not
  meet their precondition alone.
\<close>

definition honest_row :: "('r lab_host \<Rightarrow> string \<Rightarrow> bool) \<Rightarrow> 'r lab_host \<Rightarrow> lab_instance \<Rightarrow> bool" where
  "honest_row running h i =
     ((li_presence i = ''absent'' \<longrightarrow> \<not> running h (li_name i)) \<and> (li_presence i = ''present'' \<longrightarrow> running h (li_name i)))"

definition honest :: "('r lab_host \<Rightarrow> string \<Rightarrow> bool) \<Rightarrow> 'r lab_host \<Rightarrow> lab_db \<Rightarrow> bool" where
  "honest running h db = (\<forall>i r. get_instance db i = Some r \<longrightarrow> honest_row running h r)"

definition names_ok :: "lab_db \<Rightarrow> bool" where
  "names_ok db = (\<forall>i j r s. get_instance db i = Some r \<longrightarrow> get_instance db j = Some s \<longrightarrow> li_name r = li_name s \<longrightarrow> i = j)"

text \<open>Only the row of \<open>inst\<close> changed, to \<open>r\<close>.\<close>

definition row_step :: "lab_instance \<Rightarrow> lab_db \<Rightarrow> lab_db \<Rightarrow> lab_instance \<Rightarrow> bool" where
  "row_step inst db db' r =
     ((\<forall>j. j \<noteq> li_id inst \<longrightarrow> get_instance db' j = get_instance db j)
      \<and> get_instance db' (li_id inst) = Some r \<and> li_name r = li_name inst \<and> li_id r = li_id inst)"

definition others_unmoved :: "('r lab_host \<Rightarrow> string \<Rightarrow> bool) \<Rightarrow> 'r lab_host \<Rightarrow> 'r lab_host \<Rightarrow> lab_instance \<Rightarrow> bool" where
  "others_unmoved running h h' inst = (\<forall>m. m \<noteq> li_name inst \<longrightarrow> running h' m = running h m)"

lemma honest_after:
  assumes "honest running h db" "names_ok db" "get_instance db (li_id inst) = Some inst"
    and "row_step inst db db' r" "others_unmoved running h h' inst" "honest_row running h' r"
  shows "honest running h' db'"
  unfolding honest_def
proof (intro allI impI)
  fix i s assume g: "get_instance db' i = Some s"
  show "honest_row running h' s"
  proof (cases "i = li_id inst")
    case True
    with g assms(4,6) show ?thesis by (simp add: row_step_def)
  next
    case False
    with g assms(4) have s: "get_instance db i = Some s" by (simp add: row_step_def)
    with False assms(2,3) have "li_name s \<noteq> li_name inst" by (auto simp: names_ok_def)
    with s assms(1,5) show ?thesis by (simp add: honest_def honest_row_def others_unmoved_def)
  qed
qed

lemma row_step_set:
  assumes "row_step inst db db' r" "\<And>x. li_id (f x) = li_id x" "\<And>x. li_name (f x) = li_name x"
  shows "row_step inst db (set_instance (li_id inst) f db') (f r)"
  using assms by (simp add: row_step_def get_set_instance map_option.identity)

lemma row_step_refl: "get_instance db (li_id inst) = Some inst \<Longrightarrow> row_step inst db db inst"
  by (simp add: row_step_def)

lemma row_step_same:
  "row_step inst db db' r \<Longrightarrow> (\<And>j. get_instance db'' j = get_instance db' j) \<Longrightarrow> row_step inst db db'' r"
  by (simp add: row_step_def)

lemma worker_columns_simps [simp]:
  "li_id (worker_columns i r) = li_id r" "li_name (worker_columns i r) = li_name r"
  "li_presence (worker_columns i r) = li_presence i" "li_status (worker_columns i r) = li_status i"
  "li_error (worker_columns i r) = li_error i"
  by (simp_all add: worker_columns_def)

lemma row_step_publish:
  "row_step inst db db' r \<Longrightarrow> li_id i = li_id inst \<Longrightarrow> row_step inst db (publish i db') (worker_columns i r)"
  unfolding publish_def by (simp add: row_step_set)

lemma get_instance_operations [simp]: "get_instance (lab_operations_update f db) j = get_instance db j"
  by (simp add: get_instance_def)

lemma get_instance_update_owned [simp]: "get_instance (fst (update_owned oid by' f db)) j = get_instance db j"
  by (simp add: update_owned_def)

section \<open>An undisturbed claim stays alive\<close>

lemma claim_alive_instances [simp]: "claim_alive oid by' (set_instance i f db) = claim_alive oid by' db"
  by (simp add: claim_alive_def)

lemma claim_alive_publish [simp]: "claim_alive oid by' (publish i db) = claim_alive oid by' db"
  by (simp add: publish_def)

lemma claim_alive_row: "claim_alive oid by' db \<Longrightarrow> \<exists>r \<in> set (lab_operations db). lo_id r = oid \<and> owns by' r"
  by (auto simp: claim_alive_def get_operation_def split: option.splits dest: find_Some_in)

lemma settle_alive: "claim_alive oid by' db \<Longrightarrow> snd (settle db now oid by' state err refund)"
  using claim_alive_row update_owned_row unfolding settle_def by blast

lemma heartbeat_alive:
  assumes "claim_alive oid by' db"
  shows "snd (heartbeat db now oid by')" "claim_alive oid by' (fst (heartbeat db now oid by'))"
proof -
  show "snd (heartbeat db now oid by')"
    using assms claim_alive_row update_owned_row unfolding heartbeat_def by blast
  show "claim_alive oid by' (fst (heartbeat db now oid by'))"
    using assms find_update_rows_same [of "\<lambda>r. lo_id r = oid" "\<lambda>r. r\<lparr>lo_heartbeat_at := Some now\<rparr>"
      "\<lambda>r. lo_id r = oid \<and> owns by' r" "lab_operations db"]
    by (auto simp: claim_alive_def heartbeat_def update_owned_def get_operation_def owns_def split: option.splits)
qed

lemma refresh_quiet:
  assumes "refresh_claim now oid by' w = (w1, r)" "wk_env w = []" "claim_alive oid by' (wk_lab w)"
  shows "r = Inr ()" "wk_env w1 = []" "wk_host w1 = wk_host w" "claim_alive oid by' (wk_lab w1)"
    "get_instance (wk_lab w1) j = get_instance (wk_lab w) j" "lab_templates (wk_lab w1) = lab_templates (wk_lab w)"
  using assms heartbeat_alive [OF assms(3), of now]
  by (auto simp: refresh_claim_def Let_def heartbeat_def split: prod.splits)
     (auto simp: update_owned_def)

section \<open>What the run of a body leaves\<close>

definition ordinary_deploy :: "lab_operation \<Rightarrow> bool" where
  "ordinary_deploy op = (lo_kind op = ''deploy'' \<and> \<not> is_conditional_deploy op)"

definition unmoved :: "('r lab_host \<Rightarrow> string \<Rightarrow> bool) \<Rightarrow> 'r lab_host \<Rightarrow> 'r lab_host \<Rightarrow> lab_instance \<Rightarrow> bool" where
  "unmoved running h h' inst = (running h' (li_name inst) = running h (li_name inst))"

definition raised_ok ::
    "('r lab_host \<Rightarrow> string \<Rightarrow> bool) \<Rightarrow> lab_operation \<Rightarrow> lab_instance \<Rightarrow> 'r lab_host \<Rightarrow> 'r lab_host \<Rightarrow> lab_instance \<Rightarrow> lab_instance \<Rightarrow> engine_error \<Rightarrow> bool" where
  "raised_ok running op inst h h' r i e =
     (case e of
        WrongLabHostError m \<Rightarrow> unmoved running h h' inst
      | HostLockUnavailable \<Rightarrow> if ordinary_deploy op then li_presence r = ''unknown'' else unmoved running h h' inst
      | RuntimeError m \<Rightarrow>
          (lo_kind op = ''deploy'' \<longrightarrow> li_presence i = ''absent'' \<longrightarrow> \<not> running h' (li_name inst))
          \<and> (lo_kind op \<noteq> ''deploy'' \<longrightarrow> lo_kind op \<noteq> ''destroy'' \<longrightarrow>
               unmoved running h h' inst \<and> li_presence r = li_presence inst))"

definition body_ok ::
    "('r lab_host \<Rightarrow> string \<Rightarrow> bool) \<Rightarrow> lab_operation \<Rightarrow> string \<Rightarrow> lab_instance \<Rightarrow> 'r worker \<Rightarrow> 'r body \<Rightarrow> bool" where
  "body_ok running op by' inst w b =
     (wk_env (body_world b) = [] \<and> others_unmoved running (wk_host w) (wk_host (body_world b)) inst
      \<and> (\<exists>r. row_step inst (wk_lab w) (wk_lab (body_world b)) r
           \<and> (case b of
                Returned w1 out \<Rightarrow> out = Deferred \<and> unmoved running (wk_host w) (wk_host w1) inst \<and> li_presence r = li_presence inst
              | Ran w1 i1 learn err \<Rightarrow>
                  claim_alive (lo_id op) by' (wk_lab w1) \<and> li_id i1 = li_id inst \<and> li_name i1 = li_name inst
                  \<and> honest_row running (wk_host w1) i1
              | Raised w1 i1 e \<Rightarrow>
                  claim_alive (lo_id op) by' (wk_lab w1) \<and> raised_ok running op inst (wk_host w) (wk_host w1) r i1 e)))"

lemma restore_projection_step:
  "row_step inst db db' r \<Longrightarrow> row_step inst db (restore_projection inst db')
     (r\<lparr>li_status := li_status inst, li_error := li_error inst, li_presence := li_presence inst\<rparr>)"
  unfolding restore_projection_def by (rule row_step_set) simp_all

lemma escalate_if_step:
  assumes "row_step inst db db' r"
  shows "\<exists>r'. row_step inst db (escalate_if m (li_id inst) db') r' \<and> li_presence r' = li_presence r"
proof (cases m)
  case None
  with assms show ?thesis by (auto simp: escalate_if_def)
next
  case (Some msg)
  have "row_step inst db (set_instance (li_id inst) (escalate msg) db') (escalate msg r)"
    using assms by (rule row_step_set) (simp_all add: escalate_def)
  with Some show ?thesis by (auto simp: escalate_if_def escalate_def)
qed

lemma failure_projection_step:
  assumes "row_step inst db db' r" "lo_instance op = li_id inst"
  shows "\<exists>r'. row_step inst db (failure_projection op i m db') r'
     \<and> li_presence r' = (if lo_kind op = ''deploy'' then if li_presence i = ''absent'' then ''absent'' else ''unknown''
                         else if lo_kind op = ''destroy'' then ''unknown'' else li_presence r)"
proof -
  have d: "row_step inst db (set_instance (li_id inst) (deploy_failure i m) db') (deploy_failure i m r)"
    using assms(1) by (rule row_step_set) (simp_all add: deploy_failure_def)
  have x: "row_step inst db (set_instance (li_id inst) (\<lambda>r. r\<lparr>li_presence := ''unknown''\<rparr>) db') (r\<lparr>li_presence := ''unknown''\<rparr>)"
    using assms(1) by (rule row_step_set) simp_all
  have p: "li_presence (deploy_failure i m r) = (if li_presence i = ''absent'' then ''absent'' else ''unknown'')"
    by (simp add: deploy_failure_def)
  show ?thesis
    using escalate_if_step [OF d] escalate_if_step [OF x] d x p assms
    by (auto simp: failure_projection_def Let_def)
qed

lemma settle_with_quiet:
  assumes "settle_with now oid by' state err refund out0 changes learn w = (w', out)"
    and "wk_env w = []" "claim_alive oid by' (changes (wk_lab w))"
  shows "out = out0" "wk_host w' = wk_host w" "wk_env w' = []" "get_instance (wk_lab w') j = get_instance (changes (wk_lab w)) j"
  using assms settle_alive [OF assms(3), of now state err refund]
  by (auto simp: settle_with_def Let_def settle_def split: prod.splits if_splits)
     (auto simp: update_owned_def)

lemma claim_alive_failure [simp]: "claim_alive oid by' (failure_projection op i m db) = claim_alive oid by' db"
  by (auto simp: failure_projection_def Let_def escalate_if_def split: option.split)

lemma claim_alive_restore [simp]: "claim_alive oid by' (restore_projection i db) = claim_alive oid by' db"
  by (simp add: restore_projection_def)

context lab_engine_contract
begin

text \<open>Once the body is accounted for, every ending publishes an honest row.\<close>

lemma handler_honest:
  assumes b: "claimed_body cfg engine now by' op inst w = Raised w1 i1 e"
    and ok: "body_ok running op by' inst w (Raised w1 i1 e)"
    and h: "honest running (wk_host w) (wk_lab w)" "names_ok (wk_lab w)" "get_instance (wk_lab w) (li_id inst) = Some inst"
    and op: "lo_instance op = li_id inst"
    and run: "handle_exception now by' op inst i1 e w1 = (w', out)"
  shows "out \<noteq> Stale \<and> honest running (wk_host w') (wk_lab w')"
proof -
  from ok obtain r where r: "row_step inst (wk_lab w) (wk_lab w1) r" and env: "wk_env w1 = []"
    and oth: "others_unmoved running (wk_host w) (wk_host w1) inst" and alive: "claim_alive (lo_id op) by' (wk_lab w1)"
    and ra: "raised_ok running op inst (wk_host w) (wk_host w1) r i1 e"
    by (auto simp: body_ok_def)
  have ih: "honest_row running (wk_host w) inst" using h(1,3) by (simp add: honest_def)
  have bk: "honest_row running (wk_host w1) (r\<lparr>li_status := li_status inst, li_error := li_error inst, li_presence := li_presence inst\<rparr>)"
    if "unmoved running (wk_host w) (wk_host w1) inst"
    using that ih r by (simp add: honest_row_def unmoved_def row_step_def)
  show ?thesis
  proof (cases e)
    case (WrongLabHostError m)
    with run have s: "settle_with now (lo_id op) by' ''failed'' (Some (OPERATOR_REFUSAL_PREFIX @ m)) True Failed
        (restore_projection inst) (wk_learn w1) w1 = (w', out)" by (simp add: handle_exception_def refuse_wrong_host_def)
    note q = settle_with_quiet [OF s env]
    have st: "row_step inst (wk_lab w) (wk_lab w') (r\<lparr>li_status := li_status inst, li_error := li_error inst, li_presence := li_presence inst\<rparr>)"
      using restore_projection_step [OF r] alive by (rule_tac row_step_same) (simp_all add: q)
    have "unmoved running (wk_host w) (wk_host w1) inst" using ra WrongLabHostError by (simp add: raised_ok_def)
    with honest_after [OF h st] oth bk q alive show ?thesis by simp
  next
    case HostLockUnavailable
    with run have d: "defer_contended now by' op inst w1 = (w', out)" by (simp add: handle_exception_def)
    let ?db = "if is_conditional_deploy op \<or> is_conditional_destroy op \<or> lo_kind op \<noteq> ''deploy''
               then restore_projection inst (wk_lab w1) else wk_lab w1"
    from d env alive r have w': "w' = w1\<lparr>wk_lab := requeue_after_host_lock ?db now (lo_id op)\<rparr>" "out = Deferred"
      by (auto simp: defer_contended_def Let_def row_step_def split: if_splits)
    show ?thesis
    proof (cases "ordinary_deploy op")
      case True
      then have "?db = wk_lab w1" by (auto simp: ordinary_deploy_def is_conditional_destroy_def)
      then have "row_step inst (wk_lab w) (wk_lab w') r" using r w' by (simp add: row_step_def requeue_after_host_lock_def)
      moreover have "honest_row running (wk_host w') r" using ra True HostLockUnavailable by (simp add: raised_ok_def honest_row_def)
      ultimately show ?thesis using honest_after [OF h] oth w' by simp
    next
      case False
      then have "?db = restore_projection inst (wk_lab w1)" by (auto simp: ordinary_deploy_def)
      then have st: "row_step inst (wk_lab w) (wk_lab w') (r\<lparr>li_status := li_status inst, li_error := li_error inst, li_presence := li_presence inst\<rparr>)"
        using restore_projection_step [OF r] w' by (simp add: row_step_def requeue_after_host_lock_def)
      have "unmoved running (wk_host w) (wk_host w1) inst" using ra False HostLockUnavailable by (simp add: raised_ok_def)
      with honest_after [OF h st] oth bk w' show ?thesis by simp
    qed
  next
    case (RuntimeError m)
    with run have s: "settle_with now (lo_id op) by' ''failed'' (Some m) False Failed (failure_projection op i1 m) (wk_learn w1) w1 = (w', out)"
      by (simp add: handle_exception_def settle_failure_def)
    note q = settle_with_quiet [OF s env]
    from failure_projection_step [OF r op, of i1 m] obtain r' where r': "row_step inst (wk_lab w) (failure_projection op i1 m (wk_lab w1)) r'"
      and p: "li_presence r' = (if lo_kind op = ''deploy'' then if li_presence i1 = ''absent'' then ''absent'' else ''unknown''
                         else if lo_kind op = ''destroy'' then ''unknown'' else li_presence r)" by blast
    have st: "row_step inst (wk_lab w) (wk_lab w') r'"
      using r' alive by (rule_tac row_step_same) (simp_all add: q)
    have "honest_row running (wk_host w1) r'"
      using ra RuntimeError p r' ih by (auto simp: raised_ok_def honest_row_def unmoved_def row_step_def)
    with honest_after [OF h st] oth q alive show ?thesis by simp
  qed
qed

lemma run_claimed_honest_from_body:
  assumes ok: "\<And>op inst. get_operation (wk_lab w) oid = Some op \<Longrightarrow> owns by' op \<Longrightarrow>
      get_instance (wk_lab w) (lo_instance op) = Some inst \<Longrightarrow> body_ok running op by' inst w (claimed_body cfg engine now by' op inst w)"
    and h: "honest running (wk_host w) (wk_lab w)" "names_ok (wk_lab w)" and env: "wk_env w = []"
    and alive: "claim_alive oid by' (wk_lab w)"
    and run: "run_claimed cfg engine now oid by' w = (w', out)"
  shows "out \<noteq> Stale \<and> honest running (wk_host w') (wk_lab w')"
proof -
  from alive obtain op where o': "get_operation (wk_lab w) oid = Some op" "owns by' op"
    by (auto simp: claim_alive_def split: option.splits)
  note oid = get_operation_id [OF o'(1)]
  show ?thesis
  proof (cases "get_instance (wk_lab w) (lo_instance op)")
    case None
    with o' run have s: "settle_with now oid by' ''failed'' (Some ''lab instance no longer exists'') False Failed id (wk_learn w) w = (w', out)"
      by (simp add: run_claimed_def)
    note q = settle_with_quiet [OF s env]
    show ?thesis using h(1) alive by (simp add: q honest_def)
  next
    case (Some inst)
    have li: "li_id inst = lo_instance op" by (rule get_instance_id [OF Some])
    have gi: "get_instance (wk_lab w) (li_id inst) = Some inst" by (simp add: Some li)
    note b = ok [OF o' Some]
    show ?thesis
    proof (cases "claimed_body cfg engine now by' op inst w")
      case (Returned w1 o1)
      with b obtain r where r: "row_step inst (wk_lab w) (wk_lab w1) r" "o1 = Deferred"
        "unmoved running (wk_host w) (wk_host w1) inst" "li_presence r = li_presence inst"
        "others_unmoved running (wk_host w) (wk_host w1) inst" by (auto simp: body_ok_def)
      have "honest_row running (wk_host w) inst" using h(1) gi by (simp add: honest_def)
      with r have "honest_row running (wk_host w1) r" by (simp add: honest_row_def unmoved_def row_step_def)
      with honest_after [OF h gi r(1,5)] r(2) Returned o' Some run show ?thesis by (auto simp: run_claimed_def)
    next
      case (Ran w1 i1 learn err)
      with b obtain r where r: "row_step inst (wk_lab w) (wk_lab w1) r" "claim_alive (lo_id op) by' (wk_lab w1)"
        "li_id i1 = li_id inst" "li_name i1 = li_name inst" "honest_row running (wk_host w1) i1" "wk_env w1 = []"
        "others_unmoved running (wk_host w) (wk_host w1) inst" by (auto simp: body_ok_def)
      from Ran o' Some run have s: "settle_with now (lo_id op) by' ''succeeded'' err False Succeeded (publish i1) learn w1 = (w', out)"
        by (simp add: run_claimed_def settle_success_def)
      have al: "claim_alive (lo_id op) by' (publish i1 (wk_lab w1))" using r(2) by simp
      note q = settle_with_quiet [OF s r(6) al]
      have st: "row_step inst (wk_lab w) (wk_lab w') (worker_columns i1 r)"
        by (rule row_step_same [OF row_step_publish [OF r(1,3)]]) (simp add: q)
      have "honest_row running (wk_host w1) (worker_columns i1 r)"
        using r(1,4,5) by (simp add: honest_row_def row_step_def)
      with honest_after [OF h gi st] r(7) q show ?thesis by simp
    next
      case (Raised w1 i1 e)
      with o' Some run have "handle_exception now by' op inst i1 e w1 = (w', out)" by (simp add: run_claimed_def)
      from handler_honest [OF Raised b [unfolded Raised] h gi _ this] li show ?thesis by simp
    qed
  qed
qed

end

end
