(* ===== verification/Lab_Bodies.thy ===== *)
theory Lab_Bodies
  imports Lab_Projection
begin

text \<open>
  Each body of \<open>run_claimed\<close> on an engine that meets the contract: what it leaves running,
  what it loads onto the instance, and what it raises.
\<close>

lemma reserve_simps [simp]:
  "li_id (reserve i) = li_id i" "li_name (reserve i) = li_name i" "li_presence (reserve i) = ''unknown''"
  "li_seed (reserve i) = li_seed i" "li_tenant (reserve i) = li_tenant i" "li_activity (reserve i) = li_activity i"
  by (simp_all add: reserve_def)

lemma worker_columns_reserve [simp]: "worker_columns (reserve i) i = reserve i"
  by (simp add: worker_columns_def reserve_def)

lemma activate_simps [simp]:
  "li_id (activate now c i) = li_id i" "li_name (activate now c i) = li_name i"
  "li_presence (activate now c i) = ''present''" "li_status (activate now c i) = ''active''"
  by (simp_all add: activate_def)

lemma reap_simps [simp]: "li_id (reap i) = li_id i" "li_name (reap i) = li_name i" "li_presence (reap i) = ''absent''"
  by (simp_all add: reap_def)

definition topology_of :: "(json \<Rightarrow> string) \<Rightarrow> lab_template \<Rightarrow> lab_instance \<Rightarrow> string" where
  "topology_of render t i = set_topology_name (interpolate render (lt_topology t) (li_seed i)) (li_name i)"

lemma prepare_topology [simp]: "prepare_topology render t i = Inr (topology_of render t i)"
  by (simp add: prepare_topology_def topology_of_def)

lemma topology_of_reserve [simp]: "topology_of render t (reserve i) = topology_of render t i"
  by (simp add: topology_of_def)

text \<open>An action that starts and stops no lab.\<close>

definition keeps_running :: "('r lab_host \<Rightarrow> string \<Rightarrow> bool) \<Rightarrow> ('r, 'a) action \<Rightarrow> bool" where
  "keeps_running running m = (\<forall>h n. running (fst (m h)) n = running h n)"

lemma keeps_return [simp]: "keeps_running running (return_action a)"
  by (simp add: keeps_running_def return_action_def)

lemma keeps_raise [simp]: "keeps_running running (raise_action e)"
  by (simp add: keeps_running_def raise_action_def)

lemma keeps_bind [intro]:
  assumes "keeps_running running m" "\<And>a. keeps_running running (f a)"
  shows "keeps_running running (bind_action m f)"
  unfolding keeps_running_def
proof (intro allI)
  fix h n
  obtain h1 x where x: "m h = (h1, x)" by force
  have m: "running h1 n = running h n" using assms(1) x by (metis fst_conv keeps_running_def)
  show "running (fst (bind_action m f h)) n = running h n"
    using assms(2) m by (cases x) (simp_all add: bind_action_def x keeps_running_def)
qed

lemma keeps_need_str [intro]: "(\<And>s. keeps_running running (k s)) \<Longrightarrow> keeps_running running (need_str body key k)"
  by (simp add: need_str_def split: option.split json.split)

lemma keeps_if: "keeps_running running m \<Longrightarrow> keeps_running running m' \<Longrightarrow> keeps_running running (if b then m else m')"
  by simp

lemma keeps_option:
  "keeps_running running m \<Longrightarrow> (\<And>x. keeps_running running (f x)) \<Longrightarrow> keeps_running running (case x of None \<Rightarrow> m | Some y \<Rightarrow> f y)"
  by (simp split: option.split)

lemma keeps_flt:
  "(\<And>q. keeps_running running (f q)) \<Longrightarrow> keeps_running running m1 \<Longrightarrow> keeps_running running m2 \<Longrightarrow>
   keeps_running running m3 \<Longrightarrow> keeps_running running (case x of Fin q \<Rightarrow> f q | PosInf \<Rightarrow> m1 | NegInf \<Rightarrow> m2 | NaN \<Rightarrow> m3)"
  by (simp split: flt.split)

lemmas keeps_control = keeps_return keeps_raise keeps_bind keeps_need_str keeps_if keeps_option keeps_flt

lemma keeps_assert_result [intro]: "keeps_running running (assert_result ce a res)"
  by (simp add: assert_result_def Let_def split: option.split json.split)

text \<open>The template's topology names the lab once prepared.\<close>

definition topology_declares :: "(string \<Rightarrow> string \<Rightarrow> bool) \<Rightarrow> (json \<Rightarrow> string) \<Rightarrow> lab_db \<Rightarrow> lab_instance \<Rightarrow> bool" where
  "topology_declares declares render db i =
     (\<forall>t. template_for db i = Some t \<longrightarrow> declares (topology_of render t i) (li_name i))"

context lab_engine_contract
begin

lemma machine_others: "same_machine h h' \<Longrightarrow> others_unmoved running h h' i"
  using running_machine by (simp add: others_unmoved_def)

lemma machine_unmoved: "same_machine h h' \<Longrightarrow> unmoved running h h' i"
  using running_machine by (simp add: unmoved_def)

lemma others_unmoved_machine:
  "others_unmoved running h h1 i \<Longrightarrow> same_machine h1 h2 \<Longrightarrow> others_unmoved running h h2 i"
  using running_machine by (simp add: others_unmoved_def)

lemma running_machine_iff: "same_machine h h' \<Longrightarrow> running h' n \<longleftrightarrow> running h n"
  using running_machine by simp

section \<open>Consoles and provisioning\<close>

lemma refresh_consoles_run:
  assumes "refresh_consoles now ha engine i h = (h', i', r)"
  shows "same_machine h h'" "r = Inr () \<Longrightarrow> \<exists>c. i' = activate now c i" "r = Inl e \<Longrightarrow> i' = i \<and> e \<noteq> HostLockUnavailable"
proof -
  obtain h1 w' where w: "en_wait_ready engine ha h = (h1, w')" by force
  note m = wait_ready_machine [OF w]
  obtain h2 c where c: "build_consoles_from_handle (li_id i) ha (fst (stop_consoles (li_id i) h1)) = (h2, c)" by force
  have "same_machine h1 h2"
    using same_machine_trans [OF stop_consoles_machine [of h1 "li_id i"] build_consoles_machine [of _ "li_id i" ha]] c by simp
  then have m2: "same_machine h h2" by (rule same_machine_trans [OF m])
  have "same_machine h h' \<and> (r = Inr () \<longrightarrow> (\<exists>c. i' = activate now c i)) \<and> (r = Inl e \<longrightarrow> i' = i \<and> e \<noteq> HostLockUnavailable)"
  proof (cases w')
    case (Inl e1)
    have "(h', i', r) = (h1, i, Inl e1)" unfolding assms [symmetric] refresh_consoles_def w Inl by simp
    with m wait_ready_errors [OF w] Inl show ?thesis by auto
  next
    case (Inr u)
    have "(h', i', r) = (h2, activate now c i, Inr ())" unfolding assms [symmetric] refresh_consoles_def w Inr by (simp add: c)
    with m2 show ?thesis by auto
  qed
  then show "same_machine h h'" "r = Inr () \<Longrightarrow> \<exists>c. i' = activate now c i" "r = Inl e \<Longrightarrow> i' = i \<and> e \<noteq> HostLockUnavailable"
    by simp_all
qed

lemma rebuild_run:
  assumes "rebuild_consoles_from_live_inspection engine now i h = (h', i', r)" "li_name i \<noteq> ''''"
  shows "same_machine h h'" "li_id i' = li_id i" "li_name i' = li_name i"
    and "r = Inr () \<Longrightarrow> li_presence i' = ''unknown'' \<or> li_presence i' = ''present'' \<and> running h' (li_name i)"
    and "r = Inl e \<Longrightarrow> i' = i"
proof -
  obtain h1 x where x: "en_inspect_running engine (li_name i) h = (h1, x)" by force
  note m = inspect_machine [OF x]
  have "same_machine h h' \<and> li_id i' = li_id i \<and> li_name i' = li_name i
     \<and> (r = Inr () \<longrightarrow> li_presence i' = ''unknown'' \<or> li_presence i' = ''present'' \<and> running h' (li_name i))
     \<and> (r = Inl e \<longrightarrow> i' = i)"
  proof (cases x)
    case (Inl e)
    with assms x m show ?thesis by (auto simp: rebuild_consoles_from_live_inspection_def)
  next
    case (Inr o')
    show ?thesis
    proof (cases o')
      case None
      with Inr assms x m show ?thesis by (auto simp: rebuild_consoles_from_live_inspection_def)
    next
      case (Some ha)
      with Inr assms x have f: "refresh_consoles now ha engine i h1 = (h', i', r)"
        by (simp add: rebuild_consoles_from_live_inspection_def)
      have run: "running h (li_name i)" using inspect_some x Inr Some assms(2) by blast
      have mm: "same_machine h h'" by (rule same_machine_trans [OF m refresh_consoles_run(1) [OF f]])
      show ?thesis
        using refresh_consoles_run(2,3) [OF f] mm run running_machine_iff [OF mm] by (cases r) fastforce+
    qed
  qed
  then show "same_machine h h'" "li_id i' = li_id i" "li_name i' = li_name i"
    "r = Inr () \<Longrightarrow> li_presence i' = ''unknown'' \<or> li_presence i' = ''present'' \<and> running h' (li_name i)"
    "r = Inl e \<Longrightarrow> i' = i" by simp_all
qed

lemma deploy_and_wait_run:
  assumes "deploy_and_wait engine t n h = (h', r)"
  shows "m \<noteq> n \<Longrightarrow> running h' m = running h m" "r = Inr ha \<Longrightarrow> declares t n \<Longrightarrow> running h' n"
proof -
  obtain h1 d where d: "en_deploy engine t n h = (h1, d)" by force
  have "(m \<noteq> n \<longrightarrow> running h' m = running h m) \<and> (r = Inr ha \<longrightarrow> declares t n \<longrightarrow> running h' n)"
  proof (cases d)
    case (Inl e)
    with d assms deploy_other [OF d] show ?thesis by (auto simp: deploy_and_wait_def bind_action_def)
  next
    case (Inr ha1)
    obtain h2 x where x: "en_wait_ready engine ha1 h1 = (h2, x)" by force
    with Inr d assms have "h' = h2" by (auto simp: deploy_and_wait_def bind_action_def return_action_def split: sum.splits)
    with running_machine_iff [OF wait_ready_machine [OF x]] deploy_other [OF d] deploy_ok [OF d [unfolded Inr]]
    show ?thesis by auto
  qed
  then show "m \<noteq> n \<Longrightarrow> running h' m = running h m" "r = Inr ha \<Longrightarrow> declares t n \<Longrightarrow> running h' n" by simp_all
qed

lemma provision_run:
  assumes "provision render engine now t i h = (h', i', r)" "declares (topology_of render t i) (li_name i)"
  shows "others_unmoved running h h' i" "li_id i' = li_id i" "li_name i' = li_name i"
    and "li_presence i' = ''unknown'' \<or> li_presence i' = ''present'' \<and> running h' (li_name i)"
    and "r = Inl e \<Longrightarrow> e = HostLockUnavailable"
proof -
  obtain h1 d where d: "deploy_and_wait engine (topology_of render t i) (li_name i) h = (h1, d)" by force
  have o1: "others_unmoved running h h1 i" using deploy_and_wait_run(1) [OF d] by (simp add: others_unmoved_def)
  have "others_unmoved running h h' i \<and> li_id i' = li_id i \<and> li_name i' = li_name i
     \<and> (li_presence i' = ''unknown'' \<or> li_presence i' = ''present'' \<and> running h' (li_name i)) \<and> (r = Inl e \<longrightarrow> e = HostLockUnavailable)"
  proof (cases d)
    case (Inl e)
    with assms d o1 show ?thesis by (auto simp: provision_def Let_def split: if_splits)
  next
    case (Inr ha)
    obtain h2 c where c: "build_consoles_from_handle (li_id i) ha h1 = (h2, c)" by force
    have m: "same_machine h1 h2" using build_consoles_machine [of h1 "li_id i" ha] c by simp
    from Inr assms(1) d c have "h' = h2" "i' = activate now c (i\<lparr>li_presence := ''unknown''\<rparr>)" "r = Inr ()"
      by (auto simp: provision_def Let_def)
    with deploy_and_wait_run(2) [OF d Inr assms(2)] running_machine_iff [OF m] others_unmoved_machine [OF o1 m]
    show ?thesis by simp
  qed
  then show "others_unmoved running h h' i" "li_id i' = li_id i" "li_name i' = li_name i"
    "li_presence i' = ''unknown'' \<or> li_presence i' = ''present'' \<and> running h' (li_name i)"
    "r = Inl e \<Longrightarrow> e = HostLockUnavailable" by simp_all
qed

lemma provision_if_absent_run:
  assumes "provision_if_absent render engine now t s err i h = (h', i', r)"
    and "declares (topology_of render t i) (li_name i)" "li_name i \<noteq> ''''"
  shows "others_unmoved running h h' i" "li_id i' = li_id i" "li_name i' = li_name i"
    and "r = Inr () \<Longrightarrow> honest_row running h' i'" "r = Inl e \<Longrightarrow> li_presence i' = ''unknown''"
    and "r = Inl e \<Longrightarrow> (\<And>m. e \<noteq> RuntimeError m) \<Longrightarrow> same_machine h h'"
    and "running h (li_name i) \<Longrightarrow> same_machine h h'"
proof -
  let ?i1 = "i\<lparr>li_presence := ''unknown''\<rparr>"
  obtain h1 q where q: "en_deploy_if_absent engine (topology_of render t i) (li_name i) h = (h1, q)" by force
  have o1: "others_unmoved running h h1 i" using deploy_if_absent_other [OF q] by (simp add: others_unmoved_def)
  have "others_unmoved running h h' i \<and> li_id i' = li_id i \<and> li_name i' = li_name i
    \<and> (r = Inr () \<longrightarrow> honest_row running h' i') \<and> (r = Inl e \<longrightarrow> li_presence i' = ''unknown'')
    \<and> (r = Inl e \<longrightarrow> (\<forall>m. e \<noteq> RuntimeError m) \<longrightarrow> same_machine h h') \<and> (running h (li_name i) \<longrightarrow> same_machine h h')"
  proof (cases q)
    case (Inl e1)
    with assms(1) q have "h' = h1" "i' = ?i1" "r = Inl e1" by (auto simp: provision_if_absent_def)
    with o1 q Inl deploy_if_absent_contended deploy_if_absent_refused deploy_if_absent_present [OF q] show ?thesis
      by (cases e1) auto
  next
    case (Inr ho)
    show ?thesis
    proof (cases ho)
      case None
      have m: "same_machine h h1" using deploy_if_absent_none q Inr None by blast
      obtain h2 i2 x where b: "rebuild_consoles_from_live_inspection engine now ?i1 h1 = (h2, i2, x)" by (metis prod_cases3)
      have nz: "li_name ?i1 \<noteq> ''''" using assms(3) by simp
      note rb = rebuild_run [OF b nz]
      have mm: "same_machine h h2" by (rule same_machine_trans [OF m rb(1)])
      have q': "en_deploy_if_absent engine (topology_of render t i) (li_name i) h = (h1, Inr None)" by (simp add: q Inr None)
      have r': "(h', i', r) = (case x of Inl e \<Rightarrow> (h2, i2, Inl e)
          | Inr u \<Rightarrow> if li_presence i2 \<noteq> ''present'' then (h2, restore_admission s err i2, Inr ()) else (h2, i2, Inr ()))"
        unfolding assms(1) [symmetric] provision_if_absent_def prepare_topology sum.case Let_def q' b prod.case option.case
        by (cases x) simp_all
      then have hh: "h' = h2" by (simp split: sum.splits if_splits)
      with mm have ms: "same_machine h h'" by simp
      have ra: "li_id (restore_admission s err i2) = li_id i2" "li_name (restore_admission s err i2) = li_name i2"
        "li_presence (restore_admission s err i2) = li_presence i2"
        by (simp_all add: restore_admission_def)
      have "li_id i' = li_id i \<and> li_name i' = li_name i \<and> (r = Inr () \<longrightarrow> honest_row running h' i') \<and> (r = Inl e \<longrightarrow> li_presence i' = ''unknown'')"
      proof (cases x)
        case (Inl e1)
        with r' rb(5) show ?thesis by simp
      next
        case (Inr u)
        with r' rb(2,3,4) ra hh show ?thesis by (auto simp: honest_row_def split: if_splits)
      qed
      with ms machine_others show ?thesis by simp
    next
      case (Some ha)
      have d: "\<not> running h (li_name i) \<and> running h1 (li_name i)" using deploy_if_absent_some q Inr Some assms(2) by blast
      from assms(1) q Inr Some have f: "refresh_consoles now ha engine ?i1 h1 = (h', i', r)" by (simp add: provision_if_absent_def)
      note m = refresh_consoles_run(1) [OF f]
      have "r = Inl (WrongLabHostError e) \<Longrightarrow> False" for e
        using f wait_ready_refused [OF _ q] Inr
        by (auto simp: refresh_consoles_def split: sum.splits prod.splits)
      then have nr: "r = Inl e \<Longrightarrow> \<exists>m. e = RuntimeError m"
        using refresh_consoles_run(3) [OF f] by (cases e) auto
      show ?thesis
        using d nr refresh_consoles_run(2,3) [OF f] others_unmoved_machine [OF o1 m] running_machine_iff [OF m]
        by (cases r) (fastforce simp: honest_row_def)+
    qed
  qed
  then show "others_unmoved running h h' i" "li_id i' = li_id i" "li_name i' = li_name i"
    "r = Inr () \<Longrightarrow> honest_row running h' i'" "r = Inl e \<Longrightarrow> li_presence i' = ''unknown''"
    "r = Inl e \<Longrightarrow> (\<And>m. e \<noteq> RuntimeError m) \<Longrightarrow> same_machine h h'"
    "running h (li_name i) \<Longrightarrow> same_machine h h'" by auto
qed

section \<open>The bodies\<close>

lemma destroy_run:
  assumes "destroy engine i h = (h', i', r)"
  shows "others_unmoved running h h' i" "li_id i' = li_id i" "li_name i' = li_name i"
    and "r = Inr () \<Longrightarrow> honest_row running h' i'"
    and "r = Inl e \<Longrightarrow> (\<And>m. e \<noteq> RuntimeError m) \<Longrightarrow> same_machine h h'"
proof -
  obtain h1 d where d: "en_destroy engine (li_name i) h = (h1, d)" by force
  have o1: "others_unmoved running h h1 i" using destroy_other [OF d] by (simp add: others_unmoved_def)
  have "others_unmoved running h h' i \<and> li_id i' = li_id i \<and> li_name i' = li_name i
      \<and> (r = Inr () \<longrightarrow> honest_row running h' i')
      \<and> (r = Inl e \<longrightarrow> (\<forall>m. e \<noteq> RuntimeError m) \<longrightarrow> same_machine h h')"
  proof (cases d)
    case (Inl e1)
    have "(h', i', r) = (h1, i\<lparr>li_presence := ''unknown''\<rparr>, Inl e1)"
      unfolding assms [symmetric] destroy_def d Inl by simp
    with o1 d Inl destroy_contended destroy_refused show ?thesis by (cases e1) auto
  next
    case (Inr u)
    let ?h2 = "fst (stop_consoles (li_id i) h1)"
    have res: "(h', i', r) = (?h2, reap (i\<lparr>li_presence := ''unknown''\<rparr>), Inr ())"
      unfolding assms [symmetric] destroy_def d Inr by simp
    have m: "same_machine h1 ?h2" by simp
    have "\<not> running h1 (li_name i)" using destroy_ok d Inr by simp
    with res o1 others_unmoved_machine [OF o1 m] running_machine_iff [OF m] show ?thesis by (simp add: honest_row_def)
  qed
  then show "others_unmoved running h h' i" "li_id i' = li_id i" "li_name i' = li_name i"
    "r = Inr () \<Longrightarrow> honest_row running h' i'"
    "r = Inl e \<Longrightarrow> (\<And>m. e \<noteq> RuntimeError m) \<Longrightarrow> same_machine h h'" by auto
qed

lemma destroy_if_present_run:
  assumes "destroy_if_present engine i h = (h', i', r)"
  shows "others_unmoved running h h' i" "li_id i' = li_id i" "li_name i' = li_name i"
    and "r = Inr () \<Longrightarrow> honest_row running h' i'"
    and "r = Inl e \<Longrightarrow> (\<And>m. e \<noteq> RuntimeError m) \<Longrightarrow> same_machine h h'"
    and "\<not> running h (li_name i) \<Longrightarrow> same_machine h h'"
proof -
  obtain h1 d where d: "en_destroy_if_present engine (li_name i) h = (h1, d)" by force
  have o1: "others_unmoved running h h1 i" using destroy_if_present_other [OF d] by (simp add: others_unmoved_def)
  have "others_unmoved running h h' i \<and> li_id i' = li_id i \<and> li_name i' = li_name i
      \<and> (r = Inr () \<longrightarrow> honest_row running h' i')
      \<and> (r = Inl e \<longrightarrow> (\<forall>m. e \<noteq> RuntimeError m) \<longrightarrow> same_machine h h')
      \<and> (\<not> running h (li_name i) \<longrightarrow> same_machine h h')"
  proof (cases d)
    case (Inl e1)
    have "(h', i', r) = (h1, i, Inl e1)" unfolding assms [symmetric] destroy_if_present_def d Inl by simp
    with o1 d Inl destroy_if_present_contended destroy_if_present_refused destroy_if_present_absent [OF d] show ?thesis
      by (cases e1) auto
  next
    case (Inr b)
    show ?thesis
    proof (cases b)
      case True
      let ?h2 = "fst (stop_consoles (li_id i) h1)"
      have res: "(h', i', r) = (?h2, reap i, Inr ())" using True unfolding assms [symmetric] destroy_if_present_def d Inr by simp
      have m: "same_machine h1 ?h2" by simp
      from d Inr True have "en_destroy_if_present engine (li_name i) h = (h1, Inr True)" by simp
      then have "running h (li_name i) \<and> \<not> running h1 (li_name i)" by (rule destroy_if_present_true)
      with res others_unmoved_machine [OF o1 m] running_machine_iff [OF m] show ?thesis by (simp add: honest_row_def)
    next
      case False
      have res: "(h', i', r) = (h1, i\<lparr>li_presence := ''absent''\<rparr>, Inr ())"
        using False unfolding assms [symmetric] destroy_if_present_def d Inr by simp
      from d Inr False have "en_destroy_if_present engine (li_name i) h = (h1, Inr False)" by simp
      then have "\<not> running h (li_name i) \<and> same_machine h h1" by (rule destroy_if_present_false)
      with res o1 running_machine_iff [of h h1] show ?thesis by (simp add: honest_row_def)
    qed
  qed
  then show "others_unmoved running h h' i" "li_id i' = li_id i" "li_name i' = li_name i"
    "r = Inr () \<Longrightarrow> honest_row running h' i'"
    "r = Inl e \<Longrightarrow> (\<And>m. e \<noteq> RuntimeError m) \<Longrightarrow> same_machine h h'"
    "\<not> running h (li_name i) \<Longrightarrow> same_machine h h'" by auto
qed

lemma template_for_cong:
  "lab_templates db' = lab_templates db \<Longrightarrow> li_tenant i' = li_tenant i \<Longrightarrow> li_activity i' = li_activity i \<Longrightarrow>
   template_for db' i' = template_for db i"
  by (simp add: template_for_def)

lemma admit_ok:
  assumes env: "wk_env w = []" and alive: "claim_alive (lo_id op) by' (wk_lab w)"
    and gi: "get_instance (wk_lab w) (li_id inst) = Some inst" and dep: "lo_kind op = ''deploy''"
    and k: "\<And>t w2. template_for (wk_lab w) inst = Some t \<Longrightarrow> wk_env w2 = [] \<Longrightarrow> wk_host w2 = wk_host w \<Longrightarrow>
      claim_alive (lo_id op) by' (wk_lab w2) \<Longrightarrow> row_step inst (wk_lab w) (wk_lab w2) (reserve inst) \<Longrightarrow>
      body_ok running op by' inst w (k t (reserve inst) w2)"
  shows "body_ok running op by' inst w (admit now (lo_id op) by' inst w k)"
proof (cases "capacity_available (wk_lab w) inst")
  case False
  let ?w1 = "w\<lparr>wk_lab := requeue_for_capacity (wk_lab w) now (lo_id op) (li_id inst)\<rparr>"
  have "row_step inst (wk_lab w) (wk_lab ?w1) (inst\<lparr>li_status := ''queued''\<rparr>)"
    using row_step_set [OF row_step_refl [OF gi], of "\<lambda>i. i\<lparr>li_status := ''queued''\<rparr>"]
    by (simp add: requeue_for_capacity_def row_step_def)
  with False env show ?thesis
    by (auto simp: admit_def body_ok_def machine_others machine_unmoved)
next
  case True
  let ?w1 = "w\<lparr>wk_lab := publish (reserve inst) (wk_lab w)\<rparr>"
  have r1: "row_step inst (wk_lab w) (wk_lab ?w1) (reserve inst)"
    using row_step_publish [OF row_step_refl [OF gi], of "reserve inst"] by simp
  then have g1: "get_instance (wk_lab ?w1) (li_id inst) = Some (reserve inst)" by (simp add: row_step_def)
  have a1: "claim_alive (lo_id op) by' (wk_lab ?w1)" using alive by simp
  have t1: "template_for (wk_lab ?w1) (reserve inst) = template_for (wk_lab w) inst"
    by (rule template_for_cong) (simp_all add: publish_def)
  show ?thesis
  proof (cases "template_for (wk_lab w) inst")
    case None
    have "admit now (lo_id op) by' inst w k = Raised ?w1 (reserve inst) (RuntimeError ''no row was found when one was required'')"
      using True env g1 a1 t1 None by (simp add: admit_def Let_def)
    with r1 a1 env dep show ?thesis by (auto simp: body_ok_def raised_ok_def machine_others)
  next
    case (Some t)
    obtain w2 r where w2: "refresh_claim now (lo_id op) by' ?w1 = (w2, r)" by force
    have e1: "wk_env ?w1 = []" using env by simp
    note q = refresh_quiet [OF w2 e1 a1]
    have "admit now (lo_id op) by' inst w k = k t (reserve inst) w2"
      using True env g1 a1 t1 Some w2 q(1) by (simp add: admit_def Let_def)
    moreover have "row_step inst (wk_lab w) (wk_lab w2) (reserve inst)" using r1 q(5) by (simp add: row_step_def)
    ultimately show ?thesis using k [OF Some q(2) _ q(4)] q(3) by simp
  qed
qed

lemma run_deploy_ok:
  assumes op: "ordinary_deploy op" and env: "wk_env w2 = []" and host: "wk_host w2 = wk_host w"
    and alive: "claim_alive (lo_id op) by' (wk_lab w2)" and r: "row_step inst (wk_lab w) (wk_lab w2) (reserve inst)"
    and decl: "declares (topology_of (wc_render cfg) t inst) (li_name inst)"
  shows "body_ok running op by' inst w (run_deploy cfg engine now (lo_id op) by' t (reserve inst) w2)"
proof -
  let ?i = "reserve (reserve inst)"
  have dep: "lo_kind op = ''deploy''" using op by (simp add: ordinary_deploy_def)
  obtain h d where d: "en_destroy engine (li_name inst) (wk_host w2) = (h, d)" by force
  have o1: "others_unmoved running (wk_host w) h inst" using destroy_other [OF d] host by (simp add: others_unmoved_def)
  show ?thesis
  proof (cases d)
    case (Inl e)
    have b: "run_deploy cfg engine now (lo_id op) by' t (reserve inst) w2 = Raised (w2\<lparr>wk_host := h\<rparr>)
        (?i\<lparr>li_status := ''active'', li_presence := ''unknown'', li_error := Some (error_text e)\<rparr>) e"
      by (simp add: run_deploy_def d Inl)
    have "raised_ok running op inst (wk_host w) h (reserve inst)
        (?i\<lparr>li_status := ''active'', li_presence := ''unknown'', li_error := Some (error_text e)\<rparr>) e"
      using op dep d Inl host destroy_refused machine_unmoved by (cases e) (auto simp: raised_ok_def)
    with b r alive env o1 show ?thesis by (auto simp: body_ok_def)
  next
    case (Inr u)
    have u: "u = ()" by simp
    let ?w3 = "w2\<lparr>wk_host := h\<rparr>"
    obtain w4 x where w4: "refresh_claim now (lo_id op) by' ?w3 = (w4, x)" by force
    have e3: "wk_env ?w3 = []" "claim_alive (lo_id op) by' (wk_lab ?w3)" using env alive by simp_all
    note q = refresh_quiet [OF w4 e3]
    have r4: "row_step inst (wk_lab w) (wk_lab w4) (reserve inst)" using r q(5) by (simp add: row_step_def)
    let ?h = "fst (stop_consoles (li_id ?i) (wk_host w4))"
    have m: "same_machine h ?h" using q(3) by simp
    obtain h2 i2 y where p: "provision (wc_render cfg) engine now t ?i ?h = (h2, i2, y)" by (metis prod_cases3)
    have "declares (topology_of (wc_render cfg) t ?i) (li_name ?i)" using decl by simp
    note pr = provision_run [OF p this]
    have o2: "others_unmoved running (wk_host w) h2 inst"
      using o1 others_unmoved_machine [OF o1 m] pr(1) by (simp add: others_unmoved_def)
    have b: "run_deploy cfg engine now (lo_id op) by' t (reserve inst) w2 =
        (case y of Inl e \<Rightarrow> Raised (w4\<lparr>wk_host := h2\<rparr>) i2 e
         | Inr _ \<Rightarrow> if li_status i2 \<noteq> ''active'' \<or> li_error i2 \<noteq> None
                    then Raised (w4\<lparr>wk_host := h2\<rparr>) i2
                           (RuntimeError (case or_none (li_error i2) of Some m \<Rightarrow> m | None \<Rightarrow> ''lab deployment failed''))
                    else Ran (w4\<lparr>wk_host := h2\<rparr>) i2 (wk_learn w4) None)"
      unfolding run_deploy_def Let_def reserve_simps d [unfolded Inr] prod.case sum.case case_unit_any w4 [unfolded q(1)] p [simplified]
      using p by (simp split: sum.split)
    show ?thesis
    proof (cases y)
      case (Inl e)
      with pr(5) have "e = HostLockUnavailable" by simp
      with b Inl r4 q o2 op show ?thesis by (auto simp: body_ok_def raised_ok_def)
    next
      case (Inr v)
      have "honest_row running h2 i2" using pr(3,4) by (auto simp: honest_row_def)
      with b Inr r4 q o2 dep pr(2,3,4) show ?thesis by (auto simp: body_ok_def raised_ok_def)
    qed
  qed
qed

lemma body_ok_from:
  assumes "body_ok running op by' inst w1 b" "same_machine (wk_host w) (wk_host w1)"
    and "\<And>j. get_instance (wk_lab w1) j = get_instance (wk_lab w) j"
  shows "body_ok running op by' inst w b"
proof -
  have h: "running (wk_host w1) n = running (wk_host w) n" for n by (rule running_machine [OF assms(2)])
  have o': "others_unmoved running (wk_host w1) k inst = others_unmoved running (wk_host w) k inst"
    and u: "unmoved running (wk_host w1) k inst = unmoved running (wk_host w) k inst" for k
    by (simp_all add: others_unmoved_def unmoved_def h)
  have r: "row_step inst (wk_lab w1) db x = row_step inst (wk_lab w) db x" for db x
    by (simp add: row_step_def assms(3))
  have a: "raised_ok running op inst (wk_host w1) k x i e = raised_ok running op inst (wk_host w) k x i e" for k x i e
    by (simp add: raised_ok_def u split: engine_error.split)
  show ?thesis using assms(1) unfolding body_ok_def o' u r a .
qed

lemma on_host_ok:
  assumes run: "\<And>h i x. f (wk_host w2) = (h, i, x) \<Longrightarrow>
      others_unmoved running (wk_host w) h inst \<and>
      (x = Inr () \<longrightarrow> li_id i = li_id inst \<and> li_name i = li_name inst \<and> honest_row running h i) \<and>
      (\<forall>e. x = Inl e \<longrightarrow> raised_ok running op inst (wk_host w) h r i e)"
    and "wk_env w2 = []" "claim_alive (lo_id op) by' (wk_lab w2)" "row_step inst (wk_lab w) (wk_lab w2) r"
  shows "body_ok running op by' inst w (on_host w2 f se)"
proof -
  obtain h i x where f: "f (wk_host w2) = (h, i, x)" by (metis prod_cases3)
  note q = run [OF f]
  show ?thesis
  proof (cases x)
    case (Inl e)
    have "on_host w2 f se = Raised (w2\<lparr>wk_host := h\<rparr>) i e" unfolding on_host_def f Inl by simp
    with q Inl assms(2-) show ?thesis by (auto simp: body_ok_def)
  next
    case (Inr u)
    have "on_host w2 f se = Ran (w2\<lparr>wk_host := h\<rparr>) i (wk_learn w2) (se i)" unfolding on_host_def f Inr by simp
    with q Inr assms(2-) show ?thesis by (auto simp: body_ok_def)
  qed
qed

lemma resync_ok:
  assumes "resync_present_preliminary engine now i h = (h', i', r)" "li_name i \<noteq> ''''"
  shows "same_machine h h'" "r = Inr () \<Longrightarrow> li_id i' = li_id i \<and> li_name i' = li_name i \<and> honest_row running h' i'"
    and "r = Inl e \<Longrightarrow> i' = i"
proof -
  obtain h1 i1 x where b: "rebuild_consoles_from_live_inspection engine now i h = (h1, i1, x)" by (metis prod_cases3)
  note rb = rebuild_run [OF b assms(2)]
  have "same_machine h h' \<and> (r = Inr () \<longrightarrow> li_id i' = li_id i \<and> li_name i' = li_name i \<and> honest_row running h' i') \<and> (r = Inl e \<longrightarrow> i' = i)"
  proof (cases x)
    case (Inl e1)
    have "(h', i', r) = (h1, i1, Inl e1)" unfolding assms(1) [symmetric] resync_present_preliminary_def b Inl by simp
    with rb(1) rb(5) [OF Inl] show ?thesis by simp
  next
    case (Inr u)
    have res: "(h', i', r) = (if li_presence i1 \<noteq> ''present'' \<and> transient_status (li_status i1)
        then (h1, i1\<lparr>li_error := Some (unconfirmed_error (li_error i1)), li_status := ''error''\<rparr>, Inr ()) else (h1, i1, Inr ()))"
      unfolding assms(1) [symmetric] resync_present_preliminary_def b Inr by simp
    have p: "li_presence i1 = ''unknown'' \<or> li_presence i1 = ''present'' \<and> running h1 (li_name i)" using rb(4) Inr by simp
    from res p rb(1-3) show ?thesis by (auto simp: honest_row_def split: if_splits)
  qed
  then show "same_machine h h'" "r = Inr () \<Longrightarrow> li_id i' = li_id i \<and> li_name i' = li_name i \<and> honest_row running h' i'"
    "r = Inl e \<Longrightarrow> i' = i" by simp_all
qed

lemma provision_body_ok:
  assumes op: "is_conditional_deploy op" and env: "wk_env w2 = []" and host: "wk_host w2 = wk_host w"
    and alive: "claim_alive (lo_id op) by' (wk_lab w2)" and r: "row_step inst (wk_lab w) (wk_lab w2) (reserve inst)"
    and decl: "declares (topology_of render t inst) (li_name inst)" and nz: "li_name inst \<noteq> ''''"
  shows "body_ok running op by' inst w (on_host w2 (provision_if_absent render engine now t s err (reserve inst)) se)"
proof (rule on_host_ok [OF _ env alive r])
  fix h i x assume p: "provision_if_absent render engine now t s err (reserve inst) (wk_host w2) = (h, i, x)"
  have d: "declares (topology_of render t (reserve inst)) (li_name (reserve inst))" "li_name (reserve inst) \<noteq> ''''"
    using decl nz by simp_all
  note q = provision_if_absent_run [OF p d]
  have "raised_ok running op inst (wk_host w) h (reserve inst) i e" if x: "x = Inl e" for e
  proof (cases e)
    case (RuntimeError m)
    with q(5) [OF x] op show ?thesis by (simp add: raised_ok_def is_conditional_deploy_def)
  qed (use q(6) [OF x] machine_unmoved host op in \<open>auto simp: raised_ok_def ordinary_deploy_def\<close>)
  with q(1-4) host show "others_unmoved running (wk_host w) h inst \<and>
      (x = Inr () \<longrightarrow> li_id i = li_id inst \<and> li_name i = li_name inst \<and> honest_row running h i) \<and>
      (\<forall>e. x = Inl e \<longrightarrow> raised_ok running op inst (wk_host w) h (reserve inst) i e)"
    by (simp add: others_unmoved_def)
qed

lemma quiet_raise:
  assumes "same_machine (wk_host w) h" "i = inst" "honest_row running (wk_host w) inst"
    and "get_instance (wk_lab w) (li_id inst) = Some inst" "\<not> ordinary_deploy op"
  shows "raised_ok running op inst (wk_host w) h inst i e"
  using assms machine_unmoved running_machine
  by (cases e) (auto simp: raised_ok_def honest_row_def)

lemma deploy_body_ok:
  assumes env: "wk_env w = []" and alive: "claim_alive (lo_id op) by' (wk_lab w)"
    and gi: "get_instance (wk_lab w) (li_id inst) = Some inst" and dep: "lo_kind op = ''deploy''"
    and ih: "honest_row running (wk_host w) inst" and nz: "li_name inst \<noteq> ''''"
    and td: "topology_declares declares (wc_render cfg) (wk_lab w) inst"
  shows "body_ok running op by' inst w (deploy_body cfg engine now by' op inst w)"
proof (cases "is_conditional_deploy op")
  case False
  then have "ordinary_deploy op" using dep by (simp add: ordinary_deploy_def)
  then have "body_ok running op by' inst w (admit now (lo_id op) by' inst w (run_deploy cfg engine now (lo_id op) by'))"
    by (intro admit_ok [OF env alive gi dep] run_deploy_ok) (use td in \<open>auto simp: topology_declares_def\<close>)
  with False show ?thesis by (simp add: deploy_body_def)
next
  case True
  obtain w1 x where x: "refresh_claim now (lo_id op) by' w = (w1, x)" by force
  note q = refresh_quiet [OF x env alive]
  obtain h s where s: "en_status engine (li_name inst) (wk_host w1) = (h, s)" by force
  have m: "same_machine (wk_host w) h" using status_machine [OF s] q(3) by simp
  let ?w1 = "w1\<lparr>wk_host := h\<rparr>"
  have nord: "\<not> ordinary_deploy op" using True by (simp add: ordinary_deploy_def)
  have st: "row_step inst (wk_lab w) (wk_lab w1) inst" using row_step_refl [OF gi] q(5) by (simp add: row_step_def)
  show ?thesis
  proof (cases s)
    case (Inl e)
    have b: "deploy_body cfg engine now by' op inst w = Raised ?w1 inst e"
      unfolding deploy_body_def using True by (simp add: x q(1) s Inl)
    have "raised_ok running op inst (wk_host w) h inst inst e" by (rule quiet_raise [OF m refl ih gi nord])
    with b st q(2,4) machine_others [OF m] show ?thesis by (auto simp: body_ok_def)
  next
    case (Inr v)
    show ?thesis
    proof (cases "v = ''running''")
      case running: True
      have b: "deploy_body cfg engine now by' op inst w = on_host ?w1 (resync_present_preliminary engine now inst) conditional_settle_error"
        unfolding deploy_body_def using True running by (simp add: x q(1) s Inr)
      have "body_ok running op by' inst w (on_host ?w1 (resync_present_preliminary engine now inst) conditional_settle_error)"
      proof (rule on_host_ok [where r = inst])
        fix h' i y assume "resync_present_preliminary engine now inst (wk_host ?w1) = (h', i, y)"
        then have rs: "resync_present_preliminary engine now inst h = (h', i, y)" by simp
        note z = resync_ok [OF rs nz]
        have mm: "same_machine (wk_host w) h'" by (rule same_machine_trans [OF m z(1)])
        show "others_unmoved running (wk_host w) h' inst \<and>
          (y = Inr () \<longrightarrow> li_id i = li_id inst \<and> li_name i = li_name inst \<and> honest_row running h' i) \<and>
          (\<forall>e. y = Inl e \<longrightarrow> raised_ok running op inst (wk_host w) h' inst i e)"
          using machine_others [OF mm] z(2,3) quiet_raise [OF mm _ ih gi nord] by simp
      qed (use q st in simp_all)
      with b show ?thesis by simp
    next
      case False
      let ?k = "\<lambda>t i2 w2. on_host w2 (provision_if_absent (wc_render cfg) engine now t (li_status inst) (li_error inst) i2) conditional_settle_error"
      have b: "deploy_body cfg engine now by' op inst w = admit now (lo_id op) by' inst ?w1 ?k"
        unfolding deploy_body_def using True False by (simp add: x q(1) s Inr)
      have td1: "template_for (wk_lab ?w1) inst = template_for (wk_lab w) inst" using q(6) by (simp add: template_for_def)
      have "body_ok running op by' inst ?w1 (admit now (lo_id op) by' inst ?w1 ?k)"
      proof (rule admit_ok)
        fix t and w2 :: "'r worker" assume t: "template_for (wk_lab ?w1) inst = Some t" "wk_env w2 = []" "wk_host w2 = wk_host ?w1"
          "claim_alive (lo_id op) by' (wk_lab w2)" "row_step inst (wk_lab ?w1) (wk_lab w2) (reserve inst)"
        show "body_ok running op by' inst ?w1 (?k t (reserve inst) w2)"
          by (rule provision_body_ok [OF True t(2-5) _ nz]) (use t(1) td1 td in \<open>simp add: topology_declares_def\<close>)
      qed (use q gi dep in simp_all)
      then have "body_ok running op by' inst w (admit now (lo_id op) by' inst ?w1 ?k)"
        by (rule body_ok_from) (use m q in simp_all)
      with b show ?thesis by simp
    qed
  qed
qed

lemma destroy_body_ok:
  assumes env: "wk_env w = []" and alive: "claim_alive (lo_id op) by' (wk_lab w)"
    and gi: "get_instance (wk_lab w) (li_id inst) = Some inst" and des: "lo_kind op = ''destroy''"
  shows "body_ok running op by' inst w (destroy_body engine now by' op inst w)"
proof -
  obtain w1 x where x: "refresh_claim now (lo_id op) by' w = (w1, x)" by force
  note q = refresh_quiet [OF x env alive]
  have nord: "\<not> ordinary_deploy op" using des by (simp add: ordinary_deploy_def)
  have st: "row_step inst (wk_lab w) (wk_lab w1) inst" using row_step_refl [OF gi] q(5) by (simp add: row_step_def)
  show ?thesis
  proof (cases "is_conditional_destroy op")
    case True
    have b: "destroy_body engine now by' op inst w = on_host w1 (destroy_if_present engine inst) (\<lambda>_. None)"
      unfolding destroy_body_def using True by (simp add: x q(1))
    have "body_ok running op by' inst w (on_host w1 (destroy_if_present engine inst) (\<lambda>_. None))"
    proof (rule on_host_ok [where r = inst])
      fix h i y assume d: "destroy_if_present engine inst (wk_host w1) = (h, i, y)"
      note z = destroy_if_present_run [OF d, unfolded q(3)]
      have "raised_ok running op inst (wk_host w) h inst i e" if y: "y = Inl e" for e
        using z(5) [OF y] machine_unmoved nord des by (cases e) (auto simp: raised_ok_def)
      with z(1-4) show "others_unmoved running (wk_host w) h inst \<and>
        (y = Inr () \<longrightarrow> li_id i = li_id inst \<and> li_name i = li_name inst \<and> honest_row running h i) \<and>
        (\<forall>e. y = Inl e \<longrightarrow> raised_ok running op inst (wk_host w) h inst i e)" by simp
    qed (use q st in simp_all)
    with b show ?thesis by simp
  next
    case False
    let ?i1 = "inst\<lparr>li_presence := ''unknown'', li_consoles := []\<rparr>"
    let ?w2 = "w1\<lparr>wk_lab := publish ?i1 (wk_lab w1)\<rparr>"
    have wc: "worker_columns ?i1 inst = ?i1" by (simp add: worker_columns_def)
    have st2: "row_step inst (wk_lab w) (wk_lab ?w2) ?i1" using row_step_publish [OF st, of ?i1] wc by simp
    then have g2: "get_instance (wk_lab ?w2) (li_id inst) = Some ?i1" by (simp add: row_step_def)
    have b: "destroy_body engine now by' op inst w = on_host ?w2 (destroy engine ?i1) (\<lambda>_. None)"
      unfolding destroy_body_def using False g2 by (simp add: x q(1,2) Let_def)
    have "body_ok running op by' inst w (on_host ?w2 (destroy engine ?i1) (\<lambda>_. None))"
    proof (rule on_host_ok [where r = ?i1])
      fix h i y assume "destroy engine ?i1 (wk_host ?w2) = (h, i, y)"
      then have d: "destroy engine ?i1 (wk_host w) = (h, i, y)" using q(3) by simp
      note z = destroy_run [OF d]
      have "raised_ok running op inst (wk_host w) h ?i1 i e" if y: "y = Inl e" for e
        using z(5) [OF y] machine_unmoved nord des by (cases e) (auto simp: raised_ok_def)
      with z(1-4) show "others_unmoved running (wk_host w) h inst \<and>
        (y = Inr () \<longrightarrow> li_id i = li_id inst \<and> li_name i = li_name inst \<and> honest_row running h i) \<and>
        (\<forall>e. y = Inl e \<longrightarrow> raised_ok running op inst (wk_host w) h ?i1 i e)"
        by (simp add: others_unmoved_def)
    qed (use q st2 in simp_all)
    with b show ?thesis by simp
  qed
qed

lemma keeps_exec [intro]: "keeps_running running (en_exec engine ha nd cmd)"
  unfolding keeps_running_def by (metis exec_running prod.collapse)

lemma keeps_ssh_exec [intro]: "keeps_running running (en_ssh_exec engine ha nd c u p)"
  unfolding keeps_running_def by (metis ssh_exec_running prod.collapse)

lemma eval_command_keeps: "keeps_running running (eval_command ce engine ha seed c)"
  unfolding eval_command_def Let_def by (intro keeps_control keeps_exec keeps_ssh_exec keeps_assert_result)

lemma eval_config_grep_keeps: "keeps_running running (eval_config_grep ce engine ha seed c)"
  unfolding eval_config_grep_def Let_def by (intro keeps_control keeps_exec)

lemma eval_probe_keeps: "keeps_running running (eval_probe ce engine ha seed c)"
  unfolding eval_probe_def Let_def by (intro keeps_control keeps_exec)

lemma eval_check_keeps: "keeps_running running (eval_check ce engine ha seed c)"
  unfolding eval_check_def
  by (rule keeps_bind) (auto simp: eval_command_keeps eval_config_grep_keeps eval_probe_keeps)

definition quiet_step :: "uuid \<Rightarrow> string \<Rightarrow> 'r worker \<Rightarrow> 'r worker \<Rightarrow> bool" where
  "quiet_step oid by' w w' =
     (wk_env w = [] \<longrightarrow> claim_alive oid by' (wk_lab w) \<longrightarrow>
        wk_env w' = [] \<and> claim_alive oid by' (wk_lab w') \<and> (\<forall>j. get_instance (wk_lab w') j = get_instance (wk_lab w) j)
        \<and> (\<forall>n. running (wk_host w') n = running (wk_host w) n))"

lemma grade_quiet:
  assumes "grade (refresh_claim now oid by') (eval_on_host ce engine i) day learn now t i w = (w', r)"
  shows "quiet_step oid by' w w'" "r = Inr (l, sc, i') \<Longrightarrow> i' = i\<lparr>li_last_active_at := Some now\<rparr>"
proof -
  obtain w1 x where x: "eval_checks (refresh_claim now oid by') (eval_on_host ce engine i) (lt_checks t) w = (w1, x)" by force
  have b: "quiet_step oid by' w w'" if "refresh_claim now oid by' w = (w', x)" for w w' x
    using refresh_quiet [OF that] by (simp add: quiet_step_def)
  have e: "quiet_step oid by' w w'" if "eval_on_host ce engine i c w = (w', x)" for c w w' x
  proof -
    have k: "running (fst (eval_check ce engine (handle_for i) (li_seed i) c (wk_host w))) n = running (wk_host w) n" for n
      using eval_check_keeps unfolding keeps_running_def by blast
    from that have w': "w' = w\<lparr>wk_host := fst (eval_check ce engine (handle_for i) (li_seed i) c (wk_host w))\<rparr>"
      by (auto simp: eval_on_host_def split: prod.splits)
    show ?thesis by (simp add: quiet_step_def w' k)
  qed
  have q: "quiet_step oid by' w w1"
    by (rule eval_checks_keeps [where R = "quiet_step oid by'", OF _ _ b e x]) (auto simp: quiet_step_def)
  from x assms show "r = Inr (l, sc, i') \<Longrightarrow> i' = i\<lparr>li_last_active_at := Some now\<rparr>"
    by (auto simp: grade_def split: if_splits sum.splits prod.splits)
  show "quiet_step oid by' w w'"
  proof (cases "li_status i \<noteq> ''active'' \<or> li_error i \<noteq> None")
    case True
    with assms have "w' = w" by (auto simp: grade_def)
    then show ?thesis by (simp add: quiet_step_def)
  next
    case False
    with assms x have "w' = w1" by (auto simp: grade_def split: sum.splits prod.splits)
    with q show ?thesis by simp
  qed
qed

lemma check_body_ok:
  assumes env: "wk_env w = []" and alive: "claim_alive (lo_id op) by' (wk_lab w)"
    and gi: "get_instance (wk_lab w) (li_id inst) = Some inst" and k: "lo_kind op = ''check''"
    and ih: "honest_row running (wk_host w) inst"
  shows "body_ok running op by' inst w (check_body cfg engine now by' op inst w)"
proof (cases "template_for (wk_lab w) inst")
  case None
  then show ?thesis
    using row_step_refl [OF gi] env alive k
    by (auto simp: check_body_def body_ok_def raised_ok_def unmoved_def others_unmoved_def)
next
  case (Some t)
  obtain w1 x where x: "refresh_claim now (lo_id op) by' w = (w1, x)" by force
  note q = refresh_quiet [OF x env alive]
  obtain w2 g where g: "grade (refresh_claim now (lo_id op) by') (eval_on_host (wc_checks cfg) engine inst)
      (wc_day cfg) (wk_learn w1) now t inst w1 = (w2, g)" by force
  note z = grade_quiet [OF g]
  from z(1) q have w2: "wk_env w2 = []" "claim_alive (lo_id op) by' (wk_lab w2)"
    "\<And>j. get_instance (wk_lab w2) j = get_instance (wk_lab w) j" "\<And>n. running (wk_host w2) n = running (wk_host w) n"
    by (simp_all add: quiet_step_def)
  have st: "row_step inst (wk_lab w) (wk_lab w2) inst" using row_step_refl [OF gi] w2(3) by (simp add: row_step_def)
  have u: "unmoved running (wk_host w) (wk_host w2) inst" "others_unmoved running (wk_host w) (wk_host w2) inst"
    using w2(4) by (simp_all add: unmoved_def others_unmoved_def)
  show ?thesis
  proof (cases g)
    case (Inl e)
    have b: "check_body cfg engine now by' op inst w = Raised w2 inst e"
      unfolding check_body_def using Some by (simp add: x q(1) g Inl)
    have "raised_ok running op inst (wk_host w) (wk_host w2) inst inst e"
      using u k by (cases e) (auto simp: raised_ok_def ordinary_deploy_def)
    with b st u w2 show ?thesis by (auto simp: body_ok_def)
  next
    case (Inr p)
    obtain l sc i' where p: "p = (l, sc, i')" by (metis prod_cases3)
    have b: "check_body cfg engine now by' op inst w = Ran w2 i' l None"
      unfolding check_body_def using Some by (simp add: x q(1) g Inr p)
    have "i' = inst\<lparr>li_last_active_at := Some now\<rparr>" using z(2) Inr p by simp
    with b st u w2 ih show ?thesis by (auto simp: body_ok_def honest_row_def)
  qed
qed

lemma claimed_body_ok:
  assumes "wk_env w = []" "claim_alive (lo_id op) by' (wk_lab w)" "get_instance (wk_lab w) (li_id inst) = Some inst"
    and "honest_row running (wk_host w) inst" "li_name inst \<noteq> ''''"
    and "topology_declares declares (wc_render cfg) (wk_lab w) inst"
  shows "body_ok running op by' inst w (claimed_body cfg engine now by' op inst w)"
proof -
  have "body_ok running op by' inst w (Raised w inst (RuntimeError m))"
    if "lo_kind op \<noteq> ''deploy''" "lo_kind op \<noteq> ''destroy''" for m
    using that row_step_refl [OF assms(3)] assms(1,2)
    by (auto simp: body_ok_def raised_ok_def unmoved_def others_unmoved_def)
  then show ?thesis
    using deploy_body_ok [OF assms(1-3) _ assms(4-6)] destroy_body_ok [OF assms(1-3)] check_body_ok [OF assms(1-3) _ assms(4)]
    by (simp add: claimed_body_def)
qed

text \<open>An undisturbed run of the worker keeps the projection honest and settles.\<close>

lemma run_claimed_honest:
  assumes h: "honest running (wk_host w) (wk_lab w)" "names_ok (wk_lab w)" and env: "wk_env w = []"
    and alive: "claim_alive oid by' (wk_lab w)"
    and named: "\<And>j i. get_instance (wk_lab w) j = Some i \<Longrightarrow>
        li_name i \<noteq> '''' \<and> topology_declares declares (wc_render cfg) (wk_lab w) i"
    and run: "run_claimed cfg engine now oid by' w = (w', out)"
  shows "out \<noteq> Stale \<and> honest running (wk_host w') (wk_lab w')"
proof (rule run_claimed_honest_from_body [OF _ h env alive run])
  fix op inst assume o': "get_operation (wk_lab w) oid = Some op" "owns by' op"
    and i: "get_instance (wk_lab w) (lo_instance op) = Some inst"
  note oid = get_operation_id [OF o'(1)]
  have li: "li_id inst = lo_instance op" by (rule get_instance_id [OF i])
  show "body_ok running op by' inst w (claimed_body cfg engine now by' op inst w)"
    by (rule claimed_body_ok [OF env]) (use alive oid i li h(1) named [OF i] in \<open>auto simp: honest_def\<close>)
qed

end

end
