(* ===== verification/Containerlab.thy ===== *)
theory Containerlab
  imports Lab_Engine "HOL-Library.AList"
begin

text \<open>
  \<open>services/labengine/containerlab.py\<close>. The \<open>containerlab\<close> command line, the commands run
  inside a node, the WebFig probes and the YAML parser are other people's programs: the
  argument \<open>cli\<close>. \<open>Inl\<close> is an exception of the subprocess layer (a timeout); a JSON of
  \<open>None\<close> is output that does not parse. \<open>containerlab_runtime\<close> states what the engine
  relies on of \<open>inspect\<close>, \<open>deploy\<close> and \<open>destroy\<close>.
\<close>

record 'r clab_cli =
  cli_inspect :: "'r \<Rightarrow> string + int \<times> json option"
  cli_deploy :: "string \<Rightarrow> string \<Rightarrow> 'r \<Rightarrow> 'r \<times> (string + int \<times> json option)"
  cli_destroy :: "string \<Rightarrow> 'r \<Rightarrow> 'r \<times> (string + int)"
  cli_run :: "string list \<Rightarrow> 'r \<Rightarrow> 'r \<times> (string + exec_result)"
  cli_webfig :: "nat \<Rightarrow> string \<Rightarrow> 'r \<Rightarrow> bool"
  cli_yaml :: "string \<Rightarrow> json option"

record clab_config =
  cg_workdir :: string
  cg_role :: string
  cg_ready_rounds :: nat

definition topo_path :: "clab_config \<Rightarrow> string \<Rightarrow> string" where
  "topo_path cfg n = cg_workdir cfg @ ''/'' @ n @ ''/topo.clab.yml''"

definition require_lab_host :: "clab_config \<Rightarrow> ('r, 'a) action \<Rightarrow> ('r, 'a) action" where
  "require_lab_host cfg act =
     (if py_lower (cg_role cfg) \<noteq> ''lab''
      then raise_action (WrongLabHostError (''containerlab operations require LAB_HOST_ROLE=lab (got '' @ cg_role cfg @ '')''))
      else act)"

definition with_host_lock :: "('r, 'a) action \<Rightarrow> ('r, 'a) action" where
  "with_host_lock act h =
     (case lh_lock_held h of
        [] \<Rightarrow> act h
      | held # rest \<Rightarrow>
          let h1 = h\<lparr>lh_lock_held := rest\<rparr>
          in if held then (h1, Inl HostLockUnavailable) else act h1)"

section \<open>inspect --all\<close>

definition inspect_all :: "'r clab_cli \<Rightarrow> ('r, json) action" where
  "inspect_all cli h =
     (case cli_inspect cli (lh_runtime h) of
        Inl e \<Rightarrow> (h, Inl (RuntimeError e))
      | Inr (rc, out) \<Rightarrow>
          if rc \<noteq> 0 then (h, Inl (RuntimeError ''inspect failed''))
          else (case out of None \<Rightarrow> (h, Inl (RuntimeError ''inspect returned invalid JSON'')) | Some j \<Rightarrow> (h, Inr j)))"

text \<open>
  The objects \<open>_walk\<close> visits, each with the lab name in force there: its own \<open>lab_name\<close>, or
  the key of the list it is in, or the enclosing one.
\<close>

definition own_name :: "string option \<Rightarrow> (string \<times> json) list \<Rightarrow> string option" where
  "own_name hint kvs =
     (case obj_get kvs ''lab_name'' of Some (JStr s) \<Rightarrow> if s = '''' then hint else Some s | _ \<Rightarrow> hint)"

definition is_arr :: "json \<Rightarrow> bool" where
  "is_arr v = (case v of JArr _ \<Rightarrow> True | _ \<Rightarrow> False)"

function lab_records :: "string option \<Rightarrow> json \<Rightarrow> (string option \<times> (string \<times> json) list) list" where
  "lab_records hint (JObj kvs) =
     (own_name hint kvs, kvs)
     # concat (map (\<lambda>kv. lab_records (if is_arr (snd kv) then Some (fst kv) else own_name hint kvs) (snd kv)) kvs)"
| "lab_records hint (JArr xs) = concat (map (lab_records hint) xs)"
| "lab_records hint JNull = []"
| "lab_records hint (JBool b) = []"
| "lab_records hint (JInt i) = []"
| "lab_records hint (JFloat r) = []"
| "lab_records hint (JStr s) = []"
  by pat_completeness auto

lemma size_field: "kv \<in> set kvs \<Longrightarrow> size (snd kv) < size (JObj kvs)"
  by (induction kvs) auto

lemma size_item: "x \<in> set xs \<Longrightarrow> size (x :: json) < Suc (size_list size xs)"
  by (induction xs) auto

termination lab_records
proof (relation "measure (size \<circ> snd)")
  fix hint :: "string option" and kvs :: "(string \<times> json) list" and kv
  assume "kv \<in> set kvs"
  from size_field [OF this]
  show "((if is_arr (snd kv) then Some (fst kv) else own_name hint kvs, snd kv), hint, JObj kvs) \<in> measure (size \<circ> snd)"
    by simp
qed (auto simp: size_item)

definition lab_path :: "(string \<times> json) list \<Rightarrow> string option" where
  "lab_path kvs =
     (case (case obj_get kvs ''absLabPath'' of Some v \<Rightarrow> if truthy v then Some v else obj_get kvs ''labPath''
            | None \<Rightarrow> obj_get kvs ''labPath'') of
        Some (JStr p) \<Rightarrow> if p = '''' then None else Some p
      | _ \<Rightarrow> None)"

text \<open>\<open>found\<close>: every reported name with each path reported for it.\<close>

definition reported :: "json \<Rightarrow> (string \<times> string option) list" where
  "reported j =
     concat (map (\<lambda>(nm, kvs). case nm of None \<Rightarrow> [] | Some n \<Rightarrow> if n = '''' then [] else [(n, lab_path kvs)])
       (lab_records None j))"

definition inspect_lab_paths :: "'r clab_cli \<Rightarrow> ('r, (string \<times> string option) list) action" where
  "inspect_lab_paths cli = bind_action (inspect_all cli) (\<lambda>j. return_action (reported j))"

definition inventory_unlocked :: "clab_config \<Rightarrow> 'r clab_cli \<Rightarrow> ('r, (string \<times> string) list) action" where
  "inventory_unlocked cfg cli =
     bind_action (inspect_lab_paths cli) (\<lambda>found.
       return_action (map (\<lambda>n. (n, topo_path cfg n))
         (filter (\<lambda>n. (n, Some (topo_path cfg n)) \<in> set found) (remdups (map fst found)))))"

definition lab_is_deployed :: "clab_config \<Rightarrow> 'r clab_cli \<Rightarrow> string \<Rightarrow> ('r, bool) action" where
  "lab_is_deployed cfg cli n =
     bind_action (inventory_unlocked cfg cli) (\<lambda>inv. return_action (n \<in> fst ` set inv))"

section \<open>Handles\<close>

definition logical_name :: "string \<Rightarrow> string \<Rightarrow> string" where
  "logical_name n cname =
     (let prefix = ''clab-'' @ n @ ''-''
      in if starts_with cname prefix then drop (length prefix) cname
         else rev (takeWhile (\<lambda>c. c \<noteq> CHR ''-'') (rev cname)))"

definition node_ip :: "(string \<times> json) list \<Rightarrow> string" where
  "node_ip kvs = (case obj_get kvs ''ipv4_address'' of Some (JStr s) \<Rightarrow> takeWhile (\<lambda>c. c \<noteq> CHR ''/'') s | _ \<Rightarrow> '''')"

definition node_kind :: "(string \<times> json) list \<Rightarrow> string option" where
  "node_kind kvs = (case obj_get kvs ''kind'' of None \<Rightarrow> Some ''linux'' | Some (JStr k) \<Rightarrow> Some k | Some _ \<Rightarrow> None)"

definition add_node :: "string \<Rightarrow> string \<Rightarrow> (string \<times> json) list \<Rightarrow> lab_handle \<Rightarrow> lab_handle" where
  "add_node n cname kvs ha =
     (let logical = logical_name n cname
      in ha\<lparr>ha_nodes := AList.update logical cname (ha_nodes ha),
            ha_mgmt := AList.update logical (node_ip kvs) (ha_mgmt ha),
            ha_kinds := AList.update logical (node_kind kvs) (ha_kinds ha)\<rparr>)"

definition empty_handle :: "string \<Rightarrow> lab_handle" where
  "empty_handle n = \<lparr>ha_instance = n, ha_nodes = [], ha_mgmt = [], ha_kinds = []\<rparr>"

text \<open>\<open>{"<labname>": [...]}\<close>, or a bare list.\<close>

definition deploy_items :: "string \<Rightarrow> json \<Rightarrow> json list option" where
  "deploy_items n j =
     (let items = (\<lambda>v. case v of JArr xs \<Rightarrow> Some xs | _ \<Rightarrow> None)
      in case j of
           JObj kvs \<Rightarrow>
             (case obj_get kvs n of
                Some v \<Rightarrow> if truthy v then items v else (case kvs of [] \<Rightarrow> Some [] | kv # _ \<Rightarrow> items (snd kv))
              | None \<Rightarrow> (case kvs of [] \<Rightarrow> Some [] | kv # _ \<Rightarrow> items (snd kv)))
         | _ \<Rightarrow> items j)"

fun handle_of_items :: "string \<Rightarrow> json list \<Rightarrow> lab_handle \<Rightarrow> lab_handle option" where
  "handle_of_items n [] ha = Some ha"
| "handle_of_items n (JObj kvs # items) ha =
     (case obj_get kvs ''name'' of
        Some (JStr cname) \<Rightarrow> handle_of_items n items (add_node n cname kvs ha)
      | _ \<Rightarrow> None)"
| "handle_of_items n (v # items) ha = None"

section \<open>deploy, destroy, status\<close>

function has_vr_kind :: "json \<Rightarrow> bool" where
  "has_vr_kind (JObj kvs) =
     list_ex (\<lambda>kv. (fst kv = ''kind'' \<and> (case snd kv of JStr s \<Rightarrow> starts_with s ''vr-'' | _ \<Rightarrow> False))
                   \<or> has_vr_kind (snd kv)) kvs"
| "has_vr_kind (JArr xs) = list_ex has_vr_kind xs"
| "has_vr_kind JNull = False"
| "has_vr_kind (JBool b) = False"
| "has_vr_kind (JInt i) = False"
| "has_vr_kind (JFloat r) = False"
| "has_vr_kind (JStr s) = False"
  by pat_completeness auto

termination has_vr_kind
  by (relation "measure size") (auto simp: size_item dest!: size_field)

definition requires_kvm :: "'r clab_cli \<Rightarrow> string \<Rightarrow> bool option" where
  "requires_kvm cli text = map_option has_vr_kind (cli_yaml cli text)"

definition write_topology :: "string \<Rightarrow> string \<Rightarrow> 'r lab_host \<Rightarrow> 'r lab_host" where
  "write_topology path text h = h\<lparr>lh_files := AList.update path text (lh_files h)\<rparr>"

definition deploy_unlocked :: "clab_config \<Rightarrow> 'r clab_cli \<Rightarrow> string \<Rightarrow> string \<Rightarrow> ('r, lab_handle) action" where
  "deploy_unlocked cfg cli text n h =
     (case requires_kvm cli text of
        None \<Rightarrow> (h, Inl (RuntimeError ''topology is not valid YAML''))
      | Some kvm \<Rightarrow>
          if kvm \<and> \<not> lh_kvm h then (h, Inl (RuntimeError ''vr-* lab deployment requires /dev/kvm''))
          else
            let path = topo_path cfg n;
                h1 = write_topology path text h;
                (r, res) = cli_deploy cli path text (lh_runtime h1);
                h2 = h1\<lparr>lh_runtime := r\<rparr>
            in case res of
                 Inl e \<Rightarrow> (h2, Inl (RuntimeError e))
               | Inr (rc, out) \<Rightarrow>
                   if rc \<noteq> 0 then (h2, Inl (RuntimeError ''deploy failed''))
                   else (case Option.bind out (deploy_items n) of
                           None \<Rightarrow> (h2, Inl (RuntimeError ''deploy returned unusable output''))
                         | Some items \<Rightarrow>
                             (case handle_of_items n items (empty_handle n) of
                                None \<Rightarrow> (h2, Inl (RuntimeError ''deploy returned unusable output''))
                              | Some ha \<Rightarrow> (h2, Inr ha))))"

definition run_destroy :: "'r clab_cli \<Rightarrow> string \<Rightarrow> ('r, unit) action" where
  "run_destroy cli path h =
     (case cli_destroy cli path (lh_runtime h) of
        (r, Inl e) \<Rightarrow> (h\<lparr>lh_runtime := r\<rparr>, Inl (RuntimeError e))
      | (r, Inr rc) \<Rightarrow>
          if rc \<noteq> 0 then (h\<lparr>lh_runtime := r\<rparr>, Inl (RuntimeError ''destroy failed''))
          else (h\<lparr>lh_runtime := r\<rparr>, Inr ()))"

definition destroy_unlocked :: "clab_config \<Rightarrow> 'r clab_cli \<Rightarrow> string \<Rightarrow> ('r, unit) action" where
  "destroy_unlocked cfg cli n h =
     (let path = topo_path cfg n
      in if map_of (lh_files h) path \<noteq> None then run_destroy cli path h
         else bind_action (inspect_lab_paths cli) (\<lambda>found.
                if n \<notin> fst ` set found then return_action ()
                else if (n, Some path) \<notin> set found then raise_action (RuntimeError ''destroy refused'')
                else run_destroy cli path) h)"

text \<open>The node objects of this lab reported under its own topology path, never another's.\<close>

definition owned_node :: "clab_config \<Rightarrow> string \<Rightarrow> string option \<times> (string \<times> json) list \<Rightarrow> bool" where
  "owned_node cfg n rec =
     (fst rec = Some n \<and> lab_path (snd rec) = Some (topo_path cfg n)
      \<and> (case obj_get (snd rec) ''name'' of Some (JStr c) \<Rightarrow> c \<noteq> '''' | _ \<Rightarrow> False))"

definition container_name :: "(string \<times> json) list \<Rightarrow> string" where
  "container_name kvs = (case obj_get kvs ''name'' of Some (JStr c) \<Rightarrow> c | _ \<Rightarrow> '''')"

definition inspect_running_handle :: "clab_config \<Rightarrow> 'r clab_cli \<Rightarrow> string \<Rightarrow> ('r, lab_handle option) action" where
  "inspect_running_handle cfg cli n =
     bind_action (inspect_all cli) (\<lambda>j.
       let nodes = map snd (filter (owned_node cfg n) (lab_records None j))
       in return_action (if nodes = [] then None
                         else Some (fold (\<lambda>kvs. add_node n (container_name kvs) kvs) nodes (empty_handle n))))"

section \<open>wait_ready\<close>

text \<open>One deadline covers the topology: at most \<open>cg_ready_rounds\<close> rounds of polling.\<close>

fun webfig_loop :: "'r clab_cli \<Rightarrow> 'r \<Rightarrow> nat \<Rightarrow> nat \<Rightarrow> string list \<Rightarrow> bool" where
  "webfig_loop cli r k 0 pending = (pending = [])"
| "webfig_loop cli r k (Suc n) pending =
     (pending = [] \<or> webfig_loop cli r (Suc k) n (filter (\<lambda>a. \<not> cli_webfig cli k a r) pending))"

definition wait_ready :: "clab_config \<Rightarrow> 'r clab_cli \<Rightarrow> lab_handle \<Rightarrow> ('r, unit) action" where
  "wait_ready cfg cli ha h =
     (let pending = map (\<lambda>(node, kind). or_empty (map_of (ha_mgmt ha) node))
                      (filter (\<lambda>(node, kind). starts_with (or_empty kind) ''vr-'') (ha_kinds ha))
      in if '''' \<in> set pending then (h, Inl (RuntimeError ''RouterOS WebFig readiness cannot be checked''))
         else if webfig_loop cli (lh_runtime h) 0 (cg_ready_rounds cfg) pending then (h, Inr ())
         else (h, Inl (RuntimeError ''RouterOS WebFig readiness timed out'')))"

definition run_in_node :: "'r clab_cli \<Rightarrow> string list \<Rightarrow> ('r, exec_result) action" where
  "run_in_node cli cmd h =
     (case cli_run cli cmd (lh_runtime h) of
        (r, Inl e) \<Rightarrow> (h\<lparr>lh_runtime := r\<rparr>, Inl (RuntimeError e))
      | (r, Inr x) \<Rightarrow> (h\<lparr>lh_runtime := r\<rparr>, Inr x))"

definition exec_unlocked :: "'r clab_cli \<Rightarrow> lab_handle \<Rightarrow> string \<Rightarrow> string list \<Rightarrow> ('r, exec_result) action" where
  "exec_unlocked cli ha node cmd =
     (case map_of (ha_nodes ha) node of
        None \<Rightarrow> raise_action (RuntimeError ''KeyError'')
      | Some c \<Rightarrow> run_in_node cli ([''docker'', ''exec'', c] @ cmd))"

definition ssh_exec_unlocked :: "'r clab_cli \<Rightarrow> lab_handle \<Rightarrow> string \<Rightarrow> string \<Rightarrow> string \<Rightarrow> string \<Rightarrow> ('r, exec_result) action" where
  "ssh_exec_unlocked cli ha node cmd user password =
     (case map_of (ha_mgmt ha) node of
        None \<Rightarrow> raise_action (RuntimeError ''KeyError'')
      | Some ip \<Rightarrow> run_in_node cli [''sshpass'', ''-p'', password, ''ssh'', ''-o'', ''StrictHostKeyChecking=no'',
                     ''-o'', ''UserKnownHostsFile=/dev/null'', user @ ''@'' @ ip, cmd])"

section \<open>The engine\<close>

definition locked_action :: "clab_config \<Rightarrow> ('r, 'a) action \<Rightarrow> ('r, 'a) action" where
  "locked_action cfg act = require_lab_host cfg (with_host_lock act)"

definition containerlab_engine :: "clab_config \<Rightarrow> 'r clab_cli \<Rightarrow> 'r lab_engine" where
  "containerlab_engine cfg cli =
     \<lparr>en_inventory = locked_action cfg (inventory_unlocked cfg cli),
      en_deploy = (\<lambda>text n. locked_action cfg (deploy_unlocked cfg cli text n)),
      en_wait_ready = (\<lambda>ha. require_lab_host cfg (wait_ready cfg cli ha)),
      en_destroy = (\<lambda>n. locked_action cfg (destroy_unlocked cfg cli n)),
      en_deploy_if_absent = (\<lambda>text n. locked_action cfg
        (bind_action (lab_is_deployed cfg cli n) (\<lambda>present.
           if present then return_action None
           else bind_action (deploy_unlocked cfg cli text n) (\<lambda>ha. return_action (Some ha))))),
      en_destroy_if_present = (\<lambda>n. locked_action cfg
        (bind_action (lab_is_deployed cfg cli n) (\<lambda>present.
           if \<not> present then return_action False
           else bind_action (destroy_unlocked cfg cli n) (\<lambda>_. return_action True)))),
      en_reset = (\<lambda>text n. locked_action cfg
        (bind_action (destroy_unlocked cfg cli n) (\<lambda>_. deploy_unlocked cfg cli text n))),
      en_exec = (\<lambda>ha node cmd. locked_action cfg (exec_unlocked cli ha node cmd)),
      en_ssh_exec = (\<lambda>ha node cmd user password. locked_action cfg (ssh_exec_unlocked cli ha node cmd user password)),
      en_status = (\<lambda>n. locked_action cfg
        (bind_action (lab_is_deployed cfg cli n) (\<lambda>present. return_action (if present then ''running'' else ''absent'')))),
      en_inspect_running = (\<lambda>n. locked_action cfg (inspect_running_handle cfg cli n))\<rparr>"

end
