(* ===== verification/Containerlab_Contract.thy ===== *)
theory Containerlab_Contract
  imports Containerlab
begin

text \<open>
  The containerlab engine meets the contract of \<open>Lab_Engine\<close>, given what the engine relies
  on of the command line: \<open>inspect\<close> reports exactly the labs the host runs with their
  topology paths, \<open>deploy -t p\<close> and \<open>destroy -t p\<close> touch no lab of another topology file,
  a \<open>deploy\<close> that exits 0 leaves the lab its topology names running from that file, a
  \<open>destroy\<close> that exits 0 leaves none running from it, and a command run inside a node starts
  and stops no lab.
\<close>

locale containerlab_runtime =
  fixes cli :: "'r clab_cli"
    and cfg :: clab_config
    and labs :: "'r \<Rightarrow> (string \<times> string) set"
    and declares :: "string \<Rightarrow> string \<Rightarrow> bool"
  assumes inspect_truth: "cli_inspect cli r = Inr (0, Some j) \<Longrightarrow> ((n, Some p) \<in> set (reported j)) = ((n, p) \<in> labs r)"
    and deploy_elsewhere: "cli_deploy cli p t r = (r', dres) \<Longrightarrow> q \<noteq> p \<Longrightarrow> ((n, q) \<in> labs r') = ((n, q) \<in> labs r)"
    and deploy_runs: "cli_deploy cli p t r = (r', Inr (0, out)) \<Longrightarrow> declares t n \<Longrightarrow> (n, p) \<in> labs r'"
    and destroy_elsewhere: "cli_destroy cli p r = (r', xres) \<Longrightarrow> q \<noteq> p \<Longrightarrow> ((n, q) \<in> labs r') = ((n, q) \<in> labs r)"
    and destroy_stops: "cli_destroy cli p r = (r', Inr 0) \<Longrightarrow> (n, p) \<notin> labs r'"
    and run_inert: "cli_run cli cmd r = (r', rres) \<Longrightarrow> labs r' = labs r"

definition lab_running :: "clab_config \<Rightarrow> ('r \<Rightarrow> (string \<times> string) set) \<Rightarrow> 'r lab_host \<Rightarrow> string \<Rightarrow> bool" where
  "lab_running cfg labs h n = ((n, topo_path cfg n) \<in> labs (lh_runtime h))"

lemma topo_path_inj [simp]: "topo_path cfg n = topo_path cfg m \<longleftrightarrow> n = m"
  by (simp add: topo_path_def)

lemma lab_running_machine: "same_machine h h' \<Longrightarrow> lab_running cfg labs h' n = lab_running cfg labs h n"
  by (simp add: same_machine_def lab_running_def)

lemma same_machine_sym: "same_machine h h' \<Longrightarrow> same_machine h' h"
  by (simp add: same_machine_def)

section \<open>Locking and refusal leave the machine alone\<close>

lemma with_host_lock_run:
  assumes "with_host_lock act h = (h', res)"
  obtains (contended) "res = Inl HostLockUnavailable" "same_machine h h'"
  | (ran) h1 where "same_machine h h1" "act h1 = (h', res)"
proof (cases "lh_lock_held h")
  case Nil
  with assms ran [of h] show thesis by (simp add: with_host_lock_def)
next
  case (Cons held rest)
  let ?h1 = "h\<lparr>lh_lock_held := rest\<rparr>"
  have m: "same_machine h ?h1" by (simp add: same_machine_def)
  show thesis
  proof (cases held)
    case True
    with assms Cons m contended show thesis by (auto simp: with_host_lock_def Let_def)
  next
    case False
    with assms Cons m ran [of ?h1] show thesis by (simp add: with_host_lock_def Let_def)
  qed
qed

lemma locked_action_run:
  assumes "locked_action cfg act h = (h', res)"
  obtains (refused) e where "res = Inl (WrongLabHostError e)" "h' = h"
  | (contended) "res = Inl HostLockUnavailable" "same_machine h h'"
  | (ran) h1 where "same_machine h h1" "act h1 = (h', res)"
proof (cases "py_lower (cg_role cfg) = ''lab''")
  case True
  with assms have "with_host_lock act h = (h', res)" by (simp add: locked_action_def require_lab_host_def)
  then show thesis by (rule with_host_lock_run) (rule contended ran, assumption, assumption)+
next
  case False
  with assms have "\<exists>e. res = Inl (WrongLabHostError e) \<and> h' = h"
    by (auto simp: locked_action_def require_lab_host_def raise_action_def)
  with refused show thesis by blast
qed

lemma inspect_all_same: "inspect_all cli h = (h', res) \<Longrightarrow> h' = h"
  by (auto simp: inspect_all_def split: sum.splits prod.splits if_splits option.splits)

lemma inspect_all_error: "inspect_all cli h = (h', Inl e) \<Longrightarrow> \<exists>m. e = RuntimeError m"
  by (auto simp: inspect_all_def split: sum.splits prod.splits if_splits option.splits)

lemma inspect_lab_paths_same: "inspect_lab_paths cli h = (h', res) \<Longrightarrow> h' = h"
  by (auto simp: inspect_lab_paths_def bind_action_def return_action_def split: sum.splits prod.splits dest: inspect_all_same)

lemma inspect_lab_paths_error: "inspect_lab_paths cli h = (h', Inl e) \<Longrightarrow> \<exists>m. e = RuntimeError m"
  by (auto simp: inspect_lab_paths_def lab_simps return_action_def dest: inspect_all_error)

lemma lab_is_deployed_same: "lab_is_deployed cfg cli n h = (h', res) \<Longrightarrow> h' = h"
  by (auto simp: lab_is_deployed_def inventory_unlocked_def bind_action_def return_action_def
        split: sum.splits prod.splits dest: inspect_lab_paths_same)

lemma lab_is_deployed_error: "lab_is_deployed cfg cli n h = (h', Inl e) \<Longrightarrow> \<exists>m. e = RuntimeError m"
  by (auto simp: lab_is_deployed_def inventory_unlocked_def lab_simps return_action_def dest: inspect_lab_paths_error)

lemma deploy_unlocked_error: "deploy_unlocked cfg cli t n h = (h', Inl e) \<Longrightarrow> \<exists>m. e = RuntimeError m"
  by (auto simp: deploy_unlocked_def Let_def split: option.splits if_splits prod.splits sum.splits)

lemma destroy_unlocked_error: "destroy_unlocked cfg cli n h = (h', Inl e) \<Longrightarrow> \<exists>m. e = RuntimeError m"
  by (auto simp: destroy_unlocked_def Let_def lab_simps run_destroy_def return_action_def raise_action_def
        split: if_splits prod.splits sum.splits dest: inspect_lab_paths_error)

lemma locked_ok:
  "locked_action cfg act h = (h', Inr x) \<Longrightarrow> \<exists>h1. same_machine h h1 \<and> act h1 = (h', Inr x)"
  by (erule locked_action_run) auto

lemma locked_refusal:
  assumes "locked_action cfg act h = (h', Inl e)" "\<And>h1 e. act h1 = (h', Inl e) \<Longrightarrow> \<exists>m. e = RuntimeError m"
    and "\<And>m. e \<noteq> RuntimeError m"
  shows "same_machine h h'"
  using assms(1) by (rule locked_action_run) (use assms(2,3) in auto)

lemma locked_pure:
  assumes "locked_action cfg act h = (h', res)" "\<And>h1 x. act h1 = (h', x) \<Longrightarrow> h' = h1"
  shows "same_machine h h'"
  using assms(1) by (rule locked_action_run) (use assms(2) in auto)

lemma locked_keeps:
  assumes "locked_action cfg act h = (h', res)"
    and "\<And>h1. act h1 = (h', res) \<Longrightarrow> lab_running cfg labs h' m = lab_running cfg labs h1 m"
  shows "lab_running cfg labs h' m = lab_running cfg labs h m"
  using assms(1) by (rule locked_action_run) (use assms(2) lab_running_machine in metis)+

definition deploy_if_absent_unlocked :: "clab_config \<Rightarrow> 'r clab_cli \<Rightarrow> string \<Rightarrow> string \<Rightarrow> ('r, lab_handle option) action" where
  "deploy_if_absent_unlocked cfg cli text n =
     bind_action (lab_is_deployed cfg cli n) (\<lambda>present.
       if present then return_action None
       else bind_action (deploy_unlocked cfg cli text n) (\<lambda>ha. return_action (Some ha)))"

definition destroy_if_present_unlocked :: "clab_config \<Rightarrow> 'r clab_cli \<Rightarrow> string \<Rightarrow> ('r, bool) action" where
  "destroy_if_present_unlocked cfg cli n =
     bind_action (lab_is_deployed cfg cli n) (\<lambda>present.
       if \<not> present then return_action False
       else bind_action (destroy_unlocked cfg cli n) (\<lambda>_. return_action True))"

lemma deploy_if_absent_run:
  assumes "deploy_if_absent_unlocked cfg cli t n h = (h', res)"
  obtains (failed) m where "res = Inl (RuntimeError m)" "h' = h"
  | (present) "lab_is_deployed cfg cli n h = (h, Inr True)" "res = Inr None" "h' = h"
  | (deployed) ha where "lab_is_deployed cfg cli n h = (h, Inr False)" "deploy_unlocked cfg cli t n h = (h', Inr ha)" "res = Inr (Some ha)"
  | (broken) m where "lab_is_deployed cfg cli n h = (h, Inr False)" "deploy_unlocked cfg cli t n h = (h', Inl (RuntimeError m))"
      "res = Inl (RuntimeError m)"
proof -
  obtain h1 b where b: "lab_is_deployed cfg cli n h = (h1, b)" by force
  then have h1: "h1 = h" by (rule lab_is_deployed_same)
  show thesis
  proof (cases b)
    case (Inl e)
    with b h1 lab_is_deployed_error [of cfg cli n h h1 e] failed assms show thesis
      by (auto simp: deploy_if_absent_unlocked_def bind_action_def)
  next
    case (Inr p)
    obtain h2 d where d: "deploy_unlocked cfg cli t n h = (h2, d)" by force
    show thesis
    proof (cases p)
      case True
      with Inr b h1 present assms show thesis
        by (auto simp: deploy_if_absent_unlocked_def bind_action_def return_action_def)
    next
      case False
      with Inr b h1 deployed broken d deploy_unlocked_error [of cfg cli t n h h2] assms show thesis
        by (cases d) (auto simp: deploy_if_absent_unlocked_def bind_action_def return_action_def)
    qed
  qed
qed

lemma destroy_if_present_outcome:
  assumes "destroy_if_present_unlocked cfg cli n h = (h', res)"
  obtains (failed) m where "res = Inl (RuntimeError m)" "h' = h"
  | (absent) "lab_is_deployed cfg cli n h = (h, Inr False)" "res = Inr False" "h' = h"
  | (destroyed) "lab_is_deployed cfg cli n h = (h, Inr True)" "destroy_unlocked cfg cli n h = (h', Inr ())" "res = Inr True"
  | (broken) m where "lab_is_deployed cfg cli n h = (h, Inr True)" "destroy_unlocked cfg cli n h = (h', Inl (RuntimeError m))"
      "res = Inl (RuntimeError m)"
proof -
  obtain h1 b where b: "lab_is_deployed cfg cli n h = (h1, b)" by force
  then have h1: "h1 = h" by (rule lab_is_deployed_same)
  show thesis
  proof (cases b)
    case (Inl e)
    with b h1 lab_is_deployed_error [of cfg cli n h h1 e] failed assms show thesis
      by (auto simp: destroy_if_present_unlocked_def bind_action_def)
  next
    case (Inr p)
    obtain h2 d where d: "destroy_unlocked cfg cli n h = (h2, d)" by force
    show thesis
    proof (cases p)
      case False
      with Inr b h1 absent assms show thesis
        by (auto simp: destroy_if_present_unlocked_def bind_action_def return_action_def)
    next
      case True
      with Inr b h1 destroyed broken d destroy_unlocked_error [of cfg cli n h h2] assms show thesis
        by (cases d) (auto simp: destroy_if_present_unlocked_def bind_action_def return_action_def)
    qed
  qed
qed

lemma run_in_node_runtime:
  "run_in_node cli cmd h = (h', x) \<Longrightarrow> \<exists>y. cli_run cli cmd (lh_runtime h) = (lh_runtime h', y)"
  by (auto simp: run_in_node_def split: prod.splits sum.splits)

lemma wait_ready_refusal:
  "require_lab_host cfg (wait_ready cfg cli ha) h = (h', Inl (WrongLabHostError e)) \<Longrightarrow>
   py_lower (cg_role cfg) \<noteq> ''lab''"
  by (auto simp: require_lab_host_def wait_ready_def Let_def split: if_splits)

lemma refused_everywhere:
  "py_lower (cg_role cfg) \<noteq> ''lab'' \<Longrightarrow> locked_action cfg act k = (k', q) \<Longrightarrow> \<exists>e. q = Inl (WrongLabHostError e)"
  by (auto simp: locked_action_def require_lab_host_def raise_action_def)

lemma engine_operations:
  "en_deploy (containerlab_engine cfg cli) t n = locked_action cfg (deploy_unlocked cfg cli t n)"
  "en_destroy (containerlab_engine cfg cli) n = locked_action cfg (destroy_unlocked cfg cli n)"
  "en_deploy_if_absent (containerlab_engine cfg cli) t n = locked_action cfg (deploy_if_absent_unlocked cfg cli t n)"
  "en_destroy_if_present (containerlab_engine cfg cli) n = locked_action cfg (destroy_if_present_unlocked cfg cli n)"
  "en_inventory (containerlab_engine cfg cli) = locked_action cfg (inventory_unlocked cfg cli)"
  "en_inspect_running (containerlab_engine cfg cli) n = locked_action cfg (inspect_running_handle cfg cli n)"
  "en_status (containerlab_engine cfg cli) n = locked_action cfg
     (bind_action (lab_is_deployed cfg cli n) (\<lambda>present. return_action (if present then ''running'' else ''absent'')))"
  "en_exec (containerlab_engine cfg cli) ha nd cmd = locked_action cfg (exec_unlocked cli ha nd cmd)"
  "en_ssh_exec (containerlab_engine cfg cli) ha nd c u p' = locked_action cfg (ssh_exec_unlocked cli ha nd c u p')"
  "en_wait_ready (containerlab_engine cfg cli) ha = require_lab_host cfg (wait_ready cfg cli ha)"
  by (simp_all add: containerlab_engine_def deploy_if_absent_unlocked_def destroy_if_present_unlocked_def)

lemma inventory_same: "inventory_unlocked cfg cli h = (h', res) \<Longrightarrow> h' = h"
  by (auto simp: inventory_unlocked_def bind_action_def return_action_def
        split: sum.splits prod.splits dest: inspect_lab_paths_same)

lemma inspect_running_same: "inspect_running_handle cfg cli n h = (h', res) \<Longrightarrow> h' = h"
  by (auto simp: inspect_running_handle_def bind_action_def return_action_def Let_def
        split: sum.splits prod.splits dest: inspect_all_same)

lemma status_same:
  "bind_action (lab_is_deployed cfg cli n) (\<lambda>present. return_action (f present)) h = (h', res) \<Longrightarrow> h' = h"
  by (auto simp: bind_action_def return_action_def split: sum.splits prod.splits dest: lab_is_deployed_same)

lemma wait_ready_run:
  assumes "require_lab_host cfg (wait_ready cfg cli ha) h = (h', w)"
  shows "h' = h" "w \<noteq> Inl HostLockUnavailable"
  using assms by (auto simp: require_lab_host_def raise_action_def wait_ready_def Let_def split: if_splits)

lemma reported_mem:
  "(Some n, kvs) \<in> set (lab_records None j) \<Longrightarrow> lab_path kvs = p \<Longrightarrow> n \<noteq> '''' \<Longrightarrow> (n, p) \<in> set (reported j)"
  unfolding reported_def set_concat set_map by (intro UnionI, rule image_eqI, rule refl, rule image_eqI, rule refl) auto

context containerlab_runtime
begin

section \<open>The unlocked helpers\<close>

lemma inspect_all_true:
  "inspect_all cli h = (h', Inr j) \<Longrightarrow> ((n, Some p) \<in> set (reported j)) = ((n, p) \<in> labs (lh_runtime h))"
  by (auto simp: inspect_all_def inspect_truth split: sum.splits prod.splits if_splits option.splits)

lemma inspect_lab_paths_true:
  "inspect_lab_paths cli h = (h', Inr found) \<Longrightarrow> ((n, Some p) \<in> set found) = ((n, p) \<in> labs (lh_runtime h))"
  by (auto simp: inspect_lab_paths_def lab_simps return_action_def inspect_all_true)

lemma inventory_true:
  assumes "inventory_unlocked cfg cli h = (h', Inr entries)"
  shows "(n \<in> fst ` set entries) = lab_running cfg labs h n"
proof -
  from assms obtain found where f: "inspect_lab_paths cli h = (h', Inr found)"
    and e: "entries = map (\<lambda>n. (n, topo_path cfg n)) (filter (\<lambda>n. (n, Some (topo_path cfg n)) \<in> set found) (remdups (map fst found)))"
    by (auto simp: inventory_unlocked_def lab_simps return_action_def)
  show ?thesis
    unfolding lab_running_def inspect_lab_paths_true [OF f, symmetric] e by force
qed

lemma lab_is_deployed_true:
  "lab_is_deployed cfg cli n h = (h', Inr b) \<Longrightarrow> b = lab_running cfg labs h n"
  by (auto simp: lab_is_deployed_def lab_simps return_action_def dest: inventory_true)

lemma deploy_unlocked_other:
  assumes "deploy_unlocked cfg cli t n h = (h', res)" "m \<noteq> n"
  shows "lab_running cfg labs h' m = lab_running cfg labs h m"
proof -
  obtain r dres where c: "cli_deploy cli (topo_path cfg n) t (lh_runtime h) = (r, dres)" by force
  have "lh_runtime h' = lh_runtime h \<or> lh_runtime h' = r"
    using assms(1) c by (auto simp: deploy_unlocked_def write_topology_def Let_def
                          split: option.splits if_splits prod.splits sum.splits)
  with deploy_elsewhere [OF c, of "topo_path cfg m" m] assms(2) show ?thesis
    by (auto simp: lab_running_def)
qed

lemma deploy_unlocked_runs:
  assumes "deploy_unlocked cfg cli t n h = (h', Inr ha)" "declares t n"
  shows "lab_running cfg labs h' n"
proof -
  from assms(1) obtain out where "cli_deploy cli (topo_path cfg n) t (lh_runtime h) = (lh_runtime h', Inr (0, out))"
    by (auto simp: deploy_unlocked_def write_topology_def Let_def
          split: option.splits if_splits prod.splits sum.splits)
  from deploy_runs [OF this assms(2)] show ?thesis by (simp add: lab_running_def)
qed

lemma run_destroy_other:
  assumes "run_destroy cli (topo_path cfg n) h = (h', res)" "m \<noteq> n"
  shows "lab_running cfg labs h' m = lab_running cfg labs h m"
proof -
  obtain r x where c: "cli_destroy cli (topo_path cfg n) (lh_runtime h) = (r, x)" by force
  with assms(1) have "lh_runtime h' = r" by (auto simp: run_destroy_def split: sum.splits if_splits)
  with destroy_elsewhere [OF c, of "topo_path cfg m" m] assms(2) show ?thesis by (simp add: lab_running_def)
qed

lemma run_destroy_stops:
  "run_destroy cli (topo_path cfg n) h = (h', Inr ()) \<Longrightarrow> \<not> lab_running cfg labs h' n"
  by (auto simp: run_destroy_def lab_running_def split: prod.splits sum.splits if_splits dest: destroy_stops)

lemma destroy_unlocked_other:
  assumes "destroy_unlocked cfg cli n h = (h', res)" "m \<noteq> n"
  shows "lab_running cfg labs h' m = lab_running cfg labs h m"
proof (cases "map_of (lh_files h) (topo_path cfg n) = None")
  case False
  with assms run_destroy_other show ?thesis by (auto simp: destroy_unlocked_def Let_def)
next
  case True
  obtain h1 f where f: "inspect_lab_paths cli h = (h1, f)" by force
  with inspect_lab_paths_same have "h1 = h" by blast
  with True f assms show ?thesis
    by (auto simp: destroy_unlocked_def Let_def bind_action_def return_action_def raise_action_def
          split: sum.splits if_splits dest: run_destroy_other)
qed

lemma destroy_unlocked_stops:
  assumes "destroy_unlocked cfg cli n h = (h', Inr ())"
  shows "\<not> lab_running cfg labs h' n"
proof (cases "map_of (lh_files h) (topo_path cfg n) = None")
  case False
  with assms run_destroy_stops show ?thesis by (auto simp: destroy_unlocked_def Let_def)
next
  case True
  with assms obtain h1 found where f: "inspect_lab_paths cli h = (h1, Inr found)"
    and d: "(if n \<notin> fst ` set found then return_action ()
             else if (n, Some (topo_path cfg n)) \<notin> set found then raise_action (RuntimeError ''destroy refused'')
             else run_destroy cli (topo_path cfg n)) h1 = (h', Inr ())"
    by (auto simp: destroy_unlocked_def Let_def lab_simps)
  have h1: "h1 = h" by (rule inspect_lab_paths_same [OF f])
  show ?thesis
  proof (cases "n \<in> fst ` set found")
    case True
    with d show ?thesis by (auto simp: raise_action_def split: if_splits dest: run_destroy_stops)
  next
    case False
    with d h1 have "h' = h" by (simp add: return_action_def)
    moreover have "(n, Some (topo_path cfg n)) \<notin> set found" using False by force
    ultimately show ?thesis
      using inspect_lab_paths_true [OF f, of n "topo_path cfg n"] by (simp add: lab_running_def)
  qed
qed

lemma run_in_node_running: "run_in_node cli cmd h = (h', x) \<Longrightarrow> lab_running cfg labs h' n = lab_running cfg labs h n"
  by (auto simp: lab_running_def dest!: run_in_node_runtime run_inert)

lemma inspect_running_true:
  assumes "inspect_running_handle cfg cli n h = (h', Inr (Some ha))" "n \<noteq> ''''"
  shows "lab_running cfg labs h n"
proof -
  from assms(1) obtain j where j: "inspect_all cli h = (h', Inr j)"
    and ne: "filter (owned_node cfg n) (lab_records None j) \<noteq> []"
    by (auto simp: inspect_running_handle_def lab_simps return_action_def Let_def split: if_splits)
  then obtain kvs where "(Some n, kvs) \<in> set (lab_records None j)" "lab_path kvs = Some (topo_path cfg n)"
    by (auto simp: filter_empty_conv owned_node_def)
  with assms(2) have m: "(n, Some (topo_path cfg n)) \<in> set (reported j)" by (blast intro: reported_mem)
  show ?thesis
    using inspect_all_true [OF j, of n "topo_path cfg n"] m by (simp add: lab_running_def)
qed

end

section \<open>The engine meets the contract\<close>

sublocale containerlab_runtime \<subseteq> clab: lab_engine_contract "containerlab_engine cfg cli" "lab_running cfg labs" declares
proof (unfold_locales, unfold engine_operations)
  fix h h' :: "'r lab_host" and n
  assume "same_machine h h'"
  then show "lab_running cfg labs h' n = lab_running cfg labs h n" by (rule lab_running_machine)
next
  fix t n h h' r m
  assume "locked_action cfg (deploy_unlocked cfg cli t n) h = (h', r)" "m \<noteq> n"
  then show "lab_running cfg labs h' m = lab_running cfg labs h m"
    by (elim locked_keeps) (rule deploy_unlocked_other)
next
  fix t n h h' ha
  assume "locked_action cfg (deploy_unlocked cfg cli t n) h = (h', Inr ha)" "declares t n"
  then show "lab_running cfg labs h' n" by (blast dest: locked_ok deploy_unlocked_runs)
next
  fix t n h h'
  assume "locked_action cfg (deploy_unlocked cfg cli t n) h = (h', Inl HostLockUnavailable)"
  then show "same_machine h h'" by (rule locked_refusal) (auto dest: deploy_unlocked_error)
next
  fix t n h h' e
  assume "locked_action cfg (deploy_unlocked cfg cli t n) h = (h', Inl (WrongLabHostError e))"
  then show "same_machine h h'" by (rule locked_refusal) (auto dest: deploy_unlocked_error)
next
  fix ha h h' e t n k k' q
  assume "require_lab_host cfg (wait_ready cfg cli ha) h = (h', Inl (WrongLabHostError e))"
    and "locked_action cfg (deploy_if_absent_unlocked cfg cli t n) k = (k', q)"
  then show "\<exists>e. q = Inl (WrongLabHostError e)" by (blast dest: wait_ready_refusal refused_everywhere)
next
  fix ha nd cmd h h' x n
  assume "locked_action cfg (exec_unlocked cli ha nd cmd) h = (h', x)"
  then show "lab_running cfg labs h' n = lab_running cfg labs h n"
    by (elim locked_keeps) (auto simp: exec_unlocked_def raise_action_def split: option.splits dest: run_in_node_running)
next
  fix ha nd c u p' h h' x n
  assume "locked_action cfg (ssh_exec_unlocked cli ha nd c u p') h = (h', x)"
  then show "lab_running cfg labs h' n = lab_running cfg labs h n"
    by (elim locked_keeps) (auto simp: ssh_exec_unlocked_def raise_action_def split: option.splits dest: run_in_node_running)
next
  fix ha h h' w
  assume "require_lab_host cfg (wait_ready cfg cli ha) h = (h', w)"
  then show "same_machine h h'" "w \<noteq> Inl HostLockUnavailable" using wait_ready_run by blast+
next
  fix n h h' d m
  assume "locked_action cfg (destroy_unlocked cfg cli n) h = (h', d)" "m \<noteq> n"
  then show "lab_running cfg labs h' m = lab_running cfg labs h m"
    by (elim locked_keeps) (rule destroy_unlocked_other)
next
  fix n h h'
  assume "locked_action cfg (destroy_unlocked cfg cli n) h = (h', Inr ())"
  then show "\<not> lab_running cfg labs h' n" by (blast dest: locked_ok destroy_unlocked_stops)
next
  fix n h h'
  assume "locked_action cfg (destroy_unlocked cfg cli n) h = (h', Inl HostLockUnavailable)"
  then show "same_machine h h'" by (rule locked_refusal) (auto dest: destroy_unlocked_error)
next
  fix n h h' e
  assume "locked_action cfg (destroy_unlocked cfg cli n) h = (h', Inl (WrongLabHostError e))"
  then show "same_machine h h'" by (rule locked_refusal) (auto dest: destroy_unlocked_error)
next
  fix t n h h' q m
  assume "locked_action cfg (deploy_if_absent_unlocked cfg cli t n) h = (h', q)" "m \<noteq> n"
  then show "lab_running cfg labs h' m = lab_running cfg labs h m"
    by (elim locked_keeps) (erule deploy_if_absent_run, auto dest: deploy_unlocked_other)
next
  fix t n h h'
  assume "locked_action cfg (deploy_if_absent_unlocked cfg cli t n) h = (h', Inr None)"
  then obtain h1 where m: "same_machine h h1" and "deploy_if_absent_unlocked cfg cli t n h1 = (h', Inr None)" by (blast dest: locked_ok)
  from this(2) have "h' = h1 \<and> lab_running cfg labs h1 n" by (rule deploy_if_absent_run) (auto dest: lab_is_deployed_true)
  with m show "lab_running cfg labs h n \<and> same_machine h h'" by (simp add: lab_running_machine [OF m])
next
  fix t n h h' ha
  assume "locked_action cfg (deploy_if_absent_unlocked cfg cli t n) h = (h', Inr (Some ha))"
  then obtain h1 where m: "same_machine h h1" and "deploy_if_absent_unlocked cfg cli t n h1 = (h', Inr (Some ha))" by (blast dest: locked_ok)
  from this(2) have "\<not> lab_running cfg labs h1 n \<and> (declares t n \<longrightarrow> lab_running cfg labs h' n)"
    by (rule deploy_if_absent_run) (auto dest: lab_is_deployed_true deploy_unlocked_runs)
  with m show "\<not> lab_running cfg labs h n \<and> (declares t n \<longrightarrow> lab_running cfg labs h' n)" by (simp add: lab_running_machine [OF m])
next
  fix t n h h' q
  assume "locked_action cfg (deploy_if_absent_unlocked cfg cli t n) h = (h', q)" and r: "lab_running cfg labs h n"
  then show "same_machine h h'"
    by (elim locked_action_run) (auto simp: lab_running_machine elim!: deploy_if_absent_run dest!: lab_is_deployed_true)
next
  fix t n h h'
  assume "locked_action cfg (deploy_if_absent_unlocked cfg cli t n) h = (h', Inl HostLockUnavailable)"
  then show "same_machine h h'" by (rule locked_refusal) (auto elim: deploy_if_absent_run)
next
  fix t n h h' e
  assume "locked_action cfg (deploy_if_absent_unlocked cfg cli t n) h = (h', Inl (WrongLabHostError e))"
  then show "same_machine h h'" by (rule locked_refusal) (auto elim: deploy_if_absent_run)
next
  fix n h h' p m
  assume "locked_action cfg (destroy_if_present_unlocked cfg cli n) h = (h', p)" "m \<noteq> n"
  then show "lab_running cfg labs h' m = lab_running cfg labs h m"
    by (elim locked_keeps) (erule destroy_if_present_outcome, auto dest: destroy_unlocked_other)
next
  fix n h h'
  assume "locked_action cfg (destroy_if_present_unlocked cfg cli n) h = (h', Inr True)"
  then obtain h1 where m: "same_machine h h1" and "destroy_if_present_unlocked cfg cli n h1 = (h', Inr True)" by (blast dest: locked_ok)
  from this(2) have "lab_running cfg labs h1 n \<and> \<not> lab_running cfg labs h' n"
    by (rule destroy_if_present_outcome) (auto dest: lab_is_deployed_true destroy_unlocked_stops)
  with m show "lab_running cfg labs h n \<and> \<not> lab_running cfg labs h' n" by (simp add: lab_running_machine [OF m])
next
  fix n h h'
  assume "locked_action cfg (destroy_if_present_unlocked cfg cli n) h = (h', Inr False)"
  then obtain h1 where m: "same_machine h h1" and "destroy_if_present_unlocked cfg cli n h1 = (h', Inr False)" by (blast dest: locked_ok)
  from this(2) have "h' = h1 \<and> \<not> lab_running cfg labs h1 n" by (rule destroy_if_present_outcome) (auto dest: lab_is_deployed_true)
  with m show "\<not> lab_running cfg labs h n \<and> same_machine h h'" by (simp add: lab_running_machine [OF m])
next
  fix n h h' p
  assume "locked_action cfg (destroy_if_present_unlocked cfg cli n) h = (h', p)" and r: "\<not> lab_running cfg labs h n"
  then show "same_machine h h'"
    by (elim locked_action_run) (auto simp: lab_running_machine elim!: destroy_if_present_outcome dest!: lab_is_deployed_true)
next
  fix n h h'
  assume "locked_action cfg (destroy_if_present_unlocked cfg cli n) h = (h', Inl HostLockUnavailable)"
  then show "same_machine h h'" by (rule locked_refusal) (auto elim: destroy_if_present_outcome)
next
  fix n h h' e
  assume "locked_action cfg (destroy_if_present_unlocked cfg cli n) h = (h', Inl (WrongLabHostError e))"
  then show "same_machine h h'" by (rule locked_refusal) (auto elim: destroy_if_present_outcome)
next
  fix n h h' st
  assume "locked_action cfg (bind_action (lab_is_deployed cfg cli n)
            (\<lambda>present. return_action (if present then ''running'' else ''absent''))) h = (h', st)"
  then show "same_machine h h'" by (rule locked_pure) (rule status_same)
next
  fix n h h' s
  assume "locked_action cfg (bind_action (lab_is_deployed cfg cli n)
            (\<lambda>present. return_action (if present then ''running'' else ''absent''))) h = (h', Inr s)"
  then obtain h1 h2 b where m: "same_machine h h1" and b: "lab_is_deployed cfg cli n h1 = (h2, Inr b)"
    and s: "s = (if b then ''running'' else ''absent'')"
    by (auto dest!: locked_ok simp: lab_simps return_action_def)
  show "(s = ''running'') = lab_running cfg labs h n"
    using lab_is_deployed_true [OF b] s by (simp add: lab_running_machine [OF m])
next
  fix n h h' i
  assume "locked_action cfg (inspect_running_handle cfg cli n) h = (h', i)"
  then show "same_machine h h'" by (rule locked_pure) (rule inspect_running_same)
next
  fix n h h' ha
  assume i: "locked_action cfg (inspect_running_handle cfg cli n) h = (h', Inr (Some ha))" "n \<noteq> ''''"
  then obtain h1 where m: "same_machine h h1" and "inspect_running_handle cfg cli n h1 = (h', Inr (Some ha))" by (blast dest: locked_ok)
  with inspect_running_true i(2) show "lab_running cfg labs h n" by (metis lab_running_machine)
next
  fix h h' v
  assume "locked_action cfg (inventory_unlocked cfg cli) h = (h', v)"
  then show "same_machine h h'" by (rule locked_pure) (rule inventory_same)
next
  fix h h' found n
  assume "locked_action cfg (inventory_unlocked cfg cli) h = (h', Inr found)"
  then obtain h1 where m: "same_machine h h1" and "inventory_unlocked cfg cli h1 = (h', Inr found)" by (blast dest: locked_ok)
  with inventory_true show "(n \<in> fst ` set found) = lab_running cfg labs h n" by (metis lab_running_machine)
qed

context containerlab_runtime
begin

lemma clab_contract: "lab_engine_contract (containerlab_engine cfg cli) (lab_running cfg labs) declares"
  by (rule clab.lab_engine_contract_axioms)

end

end
