(* ===== verification/Lab_Guards.thy ===== *)
theory Lab_Guards
  imports Lab_Bodies Containerlab_Contract
begin

text \<open>
  What a claimed run may do to the host: the endings touch no machine, the conditional
  operations leave a host that does not meet their precondition alone, and a process on the
  wrong host does nothing but refuse.
\<close>

section \<open>Endings touch no machine\<close>

lemma settle_with_host:
  "settle_with now oid by' state err refund out0 changes learn w = (w', out) \<Longrightarrow> wk_host w' = wk_host w"
  by (auto simp: settle_with_def Let_def split: prod.splits if_splits)

lemma handle_exception_host: "handle_exception now by' op inst i e w = (w', out) \<Longrightarrow> wk_host w' = wk_host w"
  by (auto simp: handle_exception_def refuse_wrong_host_def settle_failure_def defer_contended_def Let_def
      split: engine_error.splits if_splits dest!: settle_with_host)

lemma run_claimed_host:
  assumes "run_claimed cfg engine now oid by' w = (w', out)" "get_operation (wk_lab w) oid = Some op"
    and "get_instance (wk_lab w) (lo_instance op) = Some inst"
  shows "wk_host w' = wk_host w \<or> wk_host w' = wk_host (body_world (claimed_body cfg engine now by' op inst w))"
proof (cases "owns by' op")
  case True
  show ?thesis
  proof (cases "claimed_body cfg engine now by' op inst w")
    case (Raised w1 i1 e)
    with assms True have "handle_exception now by' op inst i1 e w1 = (w', out)" by (simp add: run_claimed_def)
    with Raised show ?thesis by (simp add: handle_exception_host)
  next
    case (Ran w1 i1 learn err)
    with assms True have "settle_success now by' op i1 learn err w1 = (w', out)" by (simp add: run_claimed_def)
    with Ran show ?thesis by (auto simp: settle_success_def dest!: settle_with_host)
  qed (use assms True in \<open>simp add: run_claimed_def\<close>)
qed (use assms in \<open>simp add: run_claimed_def\<close>)

section \<open>Conditional operations\<close>

context lab_engine_contract
begin

lemma on_host_machine:
  "(\<And>h i x. f (wk_host w) = (h, i, x) \<Longrightarrow> same_machine (wk_host w) h) \<Longrightarrow> same_machine (wk_host w) (wk_host (body_world (on_host w f se)))"
  by (cases "f (wk_host w)") (auto simp: on_host_def split: sum.split unit.split)

lemma rebuild_machine:
  assumes "rebuild_consoles_from_live_inspection engine now i h = (h', i', r)"
  shows "same_machine h h'"
proof -
  obtain h1 x where x: "en_inspect_running engine (li_name i) h = (h1, x)" by force
  note m = inspect_machine [OF x]
  show ?thesis
  proof (cases "\<exists>ha. x = Inr (Some ha)")
    case True
    then obtain ha where "x = Inr (Some ha)" by blast
    with assms x have "refresh_consoles now ha engine i h1 = (h', i', r)" by (simp add: rebuild_consoles_from_live_inspection_def)
    then show ?thesis by (rule same_machine_trans [OF m refresh_consoles_run(1)])
  next
    case False
    with assms x have "h' = h1" by (auto simp: rebuild_consoles_from_live_inspection_def split: sum.splits option.splits)
    with m show ?thesis by simp
  qed
qed

lemma resync_machine:
  assumes "resync_present_preliminary engine now i h = (h', i', r)"
  shows "same_machine h h'"
proof -
  obtain h1 i1 x where b: "rebuild_consoles_from_live_inspection engine now i h = (h1, i1, x)" by (metis prod_cases3)
  have "h' = h1" using assms by (cases x) (auto simp: resync_present_preliminary_def b split: if_splits)
  with rebuild_machine [OF b] show ?thesis by simp
qed

lemma conditional_deploy_inert:
  assumes op: "is_conditional_deploy op" and run: "running (wk_host w) (li_name inst)"
  shows "same_machine (wk_host w) (wk_host (body_world (deploy_body cfg engine now by' op inst w)))"
proof -
  obtain w1 x where x: "refresh_claim now (lo_id op) by' w = (w1, x)" by force
  note hw = refresh_claim_world(2) [OF x]
  obtain h s where s: "en_status engine (li_name inst) (wk_host w1) = (h, s)" by force
  have m: "same_machine (wk_host w) h" using status_machine [OF s] hw by simp
  show ?thesis
  proof (cases x)
    case (Inl e)
    with op hw show ?thesis by (simp add: deploy_body_def x)
  next
    case xr: (Inr u)
    show ?thesis
    proof (cases s)
      case (Inl e)
      with op xr m show ?thesis by (simp add: deploy_body_def x s)
    next
      case (Inr v)
      with s have s': "en_status engine (li_name inst) (wk_host w1) = (h, Inr v)" by simp
      from status_running [OF s'] hw run have v: "v = ''running''" by simp
      have "same_machine h (wk_host (body_world (on_host (w1\<lparr>wk_host := h\<rparr>) (resync_present_preliminary engine now inst) conditional_settle_error)))"
        using on_host_machine [of "resync_present_preliminary engine now inst" "w1\<lparr>wk_host := h\<rparr>"] by (simp add: resync_machine)
      with op xr Inr v same_machine_trans [OF m] show ?thesis by (simp add: deploy_body_def x s)
    qed
  qed
qed

lemma conditional_destroy_inert:
  assumes op: "is_conditional_destroy op" and run: "\<not> running (wk_host w) (li_name inst)"
  shows "same_machine (wk_host w) (wk_host (body_world (destroy_body engine now by' op inst w)))"
proof -
  obtain w1 x where x: "refresh_claim now (lo_id op) by' w = (w1, x)" by force
  note hw = refresh_claim_world(2) [OF x]
  have "same_machine (wk_host w1) (wk_host (body_world (on_host w1 (destroy_if_present engine inst) (\<lambda>_. None))))"
    by (rule on_host_machine) (use destroy_if_present_run(6) hw run in \<open>metis\<close>)
  with op hw show ?thesis by (cases x) (simp_all add: destroy_body_def x)
qed

lemma conditional_run_inert:
  assumes r: "run_claimed cfg engine now oid by' w = (w', out)" and o': "get_operation (wk_lab w) oid = Some op"
    and i: "get_instance (wk_lab w) (lo_instance op) = Some inst"
    and c: "is_conditional_deploy op \<and> running (wk_host w) (li_name inst)
            \<or> is_conditional_destroy op \<and> \<not> running (wk_host w) (li_name inst)"
  shows "same_machine (wk_host w) (wk_host w')"
proof -
  have "same_machine (wk_host w) (wk_host (body_world (claimed_body cfg engine now by' op inst w)))"
    using c conditional_deploy_inert conditional_destroy_inert
    by (auto simp: claimed_body_def is_conditional_deploy_def is_conditional_destroy_def)
  with run_claimed_host [OF r o' i] show ?thesis by auto
qed

end

section \<open>The wrong host\<close>

definition wrong_host :: "clab_config \<Rightarrow> bool" where
  "wrong_host cg = (py_lower (cg_role cg) \<noteq> ''lab'')"

definition wrong_host_message :: "clab_config \<Rightarrow> string" where
  "wrong_host_message cg = ''containerlab operations require LAB_HOST_ROLE=lab (got '' @ cg_role cg @ '')''"

lemma wrong_host_action: "wrong_host cg \<Longrightarrow> locked_action cg act h = (h, Inl (WrongLabHostError (wrong_host_message cg)))"
  by (simp add: wrong_host_def wrong_host_message_def locked_action_def require_lab_host_def raise_action_def)

lemma wrong_host_destroy:
  assumes "wrong_host cg"
  shows "en_destroy (containerlab_engine cg cli) n h = (h, Inl (WrongLabHostError (wrong_host_message cg)))"
    and "en_destroy_if_present (containerlab_engine cg cli) n h = (h, Inl (WrongLabHostError (wrong_host_message cg)))"
  using assms by (simp_all add: containerlab_engine_def wrong_host_action)

lemma settle_with_refused:
  assumes "settle_with now oid by' ''failed'' (Some m) True Failed changes learn w = (w', out)"
    and "wk_env w = []" "claim_alive oid by' (changes (wk_lab w))"
    and "get_operation (changes (wk_lab w)) oid = Some op"
  shows "out = Failed" "wk_host w' = wk_host w"
    "get_operation (wk_lab w') oid = Some (settle_row now ''failed'' (Some m) True op)"
    "get_instance (wk_lab w') j = get_instance (changes (wk_lab w)) j" "wk_learn w' = learn"
proof -
  note q = settle_with_quiet [OF assms(1-3)]
  show "out = Failed" "wk_host w' = wk_host w" "get_instance (wk_lab w') j = get_instance (changes (wk_lab w)) j" by (fact q)+
  have own: "owns by' op" using assms(3,4) by (simp add: claim_alive_def)
  have d: "wk_lab w' = fst (settle (changes (wk_lab w)) now oid by' ''failed'' (Some m) True)" "wk_learn w' = learn"
    using assms(1,2) settle_alive [OF assms(3), of now "''failed''" "Some m" True]
    by (auto simp: settle_with_def Let_def split: prod.splits)
  show "wk_learn w' = learn" by (fact d)
  have "get_operation (wk_lab w') oid
      = find (\<lambda>r. lo_id r = oid) (update_rows (\<lambda>r. lo_id r = oid \<and> owns by' r) (settle_row now ''failed'' (Some m) True)
          (lab_operations (changes (wk_lab w))))"
    by (simp add: d settle_def update_owned_def get_operation_def)
  also have "\<dots> = Some (settle_row now ''failed'' (Some m) True op)"
    using assms(4) own get_operation_id [OF assms(4)]
    by (subst find_update_rows_same) (simp_all add: settle_row_def get_operation_def)
  finally show "get_operation (wk_lab w') oid = Some (settle_row now ''failed'' (Some m) True op)" .
qed

lemma get_operation_heartbeat:
  assumes "get_operation db oid = Some op" "owns by' op"
  shows "get_operation (fst (heartbeat db now oid by')) oid = Some (op\<lparr>lo_heartbeat_at := Some now\<rparr>)"
proof -
  have "get_operation (fst (heartbeat db now oid by')) oid
      = find (\<lambda>r. lo_id r = oid) (update_rows (\<lambda>r. lo_id r = oid \<and> owns by' r) (\<lambda>r. r\<lparr>lo_heartbeat_at := Some now\<rparr>) (lab_operations db))"
    by (simp add: heartbeat_def update_owned_def get_operation_def)
  also have "\<dots> = Some (op\<lparr>lo_heartbeat_at := Some now\<rparr>)"
    using assms get_operation_id [OF assms(1)] by (subst find_update_rows_same) (simp_all add: get_operation_def)
  finally show ?thesis .
qed

lemma get_operation_publish [simp]: "get_operation (publish i db) oid = get_operation db oid"
  by (simp add: publish_def)

lemma get_operation_restore [simp]: "get_operation (restore_projection i db) oid = get_operation db oid"
  by (simp add: restore_projection_def)

lemma wrong_host_body:
  assumes "wrong_host cg" "lo_kind op = ''destroy''" "wk_env w = []" "claim_alive (lo_id op) by' (wk_lab w)"
    and "get_instance (wk_lab w) (li_id inst) = Some inst" "get_operation (wk_lab w) (lo_id op) = Some op" "owns by' op"
  obtains w1 i1 r where "claimed_body cfg (containerlab_engine cg cli) now by' op inst w = Raised w1 i1 (WrongLabHostError (wrong_host_message cg))"
    "wk_env w1 = []" "wk_host w1 = wk_host w" "wk_learn w1 = wk_learn w"
    "get_operation (wk_lab w1) (lo_id op) = Some (op\<lparr>lo_heartbeat_at := Some now\<rparr>)"
    "claim_alive (lo_id op) by' (wk_lab w1)" "get_instance (wk_lab w1) (li_id inst) = Some r"
    "li_consoles r = (if is_conditional_destroy op then li_consoles inst else [])"
proof -
  obtain w1 x where x: "refresh_claim now (lo_id op) by' w = (w1, x)" by force
  note q = refresh_quiet [OF x assms(3,4)]
  have w1: "wk_lab w1 = fst (heartbeat (wk_lab w) now (lo_id op) by')" "wk_learn w1 = wk_learn w"
    using x assms(3) by (auto simp: refresh_claim_def Let_def split: prod.splits)
  have g1: "get_operation (wk_lab w1) (lo_id op) = Some (op\<lparr>lo_heartbeat_at := Some now\<rparr>)"
    using get_operation_heartbeat [OF assms(6,7)] by (simp add: w1)
  let ?e = "WrongLabHostError (wrong_host_message cg)"
  show thesis
  proof (cases "is_conditional_destroy op")
    case True
    have "claimed_body cfg (containerlab_engine cg cli) now by' op inst w = Raised (w1\<lparr>wk_host := wk_host w1\<rparr>) inst ?e"
      using True assms(2) wrong_host_destroy(2) [OF assms(1), of cli "li_name inst" "wk_host w1"]
      by (simp add: claimed_body_def destroy_body_def x q(1) on_host_def destroy_if_present_def)
    then show thesis
      by (rule that) (use q w1 g1 assms(5) True in simp_all)
  next
    case False
    let ?i1 = "inst\<lparr>li_presence := ''unknown'', li_consoles := []\<rparr>"
    let ?w2 = "w1\<lparr>wk_lab := publish ?i1 (wk_lab w1)\<rparr>"
    have g2: "get_instance (wk_lab ?w2) (li_id inst) = Some ?i1"
      using assms(5) q(5) by (simp add: publish_def get_set_instance worker_columns_def)
    have "claimed_body cfg (containerlab_engine cg cli) now by' op inst w = Raised (?w2\<lparr>wk_host := wk_host w1\<rparr>) (?i1\<lparr>li_presence := ''unknown''\<rparr>) ?e"
      using False assms(2) g2 q(2) wrong_host_destroy(1) [OF assms(1), of cli "li_name inst" "wk_host w1"]
      by (simp add: claimed_body_def destroy_body_def x q(1) on_host_def destroy_def Let_def)
    then show thesis
      by (rule that [where r = ?i1]) (use q w1 g1 g2 False in simp_all)
  qed
qed

lemma operator_refusal_prefix: "operator_refusal (settle_row now s (Some (OPERATOR_REFUSAL_PREFIX @ m)) b op)"
  by (simp add: operator_refusal_def settle_row_def)

lemma wrong_host_run:
  assumes wh: "wrong_host cg" and k: "lo_kind op = ''destroy''" and env: "wk_env w = []"
    and o': "get_operation (wk_lab w) oid = Some op" "owns by' op"
    and i: "get_instance (wk_lab w) (lo_instance op) = Some inst"
    and run: "run_claimed cfg (containerlab_engine cg cli) now oid by' w = (w', out)"
  shows "out = Failed \<and> wk_host w' = wk_host w \<and> wk_learn w' = wk_learn w
    \<and> get_operation (wk_lab w') oid =
        Some (settle_row now ''failed'' (Some (OPERATOR_REFUSAL_PREFIX @ wrong_host_message cg)) True op)
    \<and> (\<exists>r. get_instance (wk_lab w') (lo_instance op) = Some r
           \<and> li_status r = li_status inst \<and> li_error r = li_error inst \<and> li_presence r = li_presence inst
           \<and> li_consoles r = (if is_conditional_destroy op then li_consoles inst else []))"
proof -
  note oid = get_operation_id [OF o'(1)]
  have li: "li_id inst = lo_instance op" by (rule get_instance_id [OF i])
  have al: "claim_alive (lo_id op) by' (wk_lab w)" using o' oid by (simp add: claim_alive_def)
  obtain w1 i1 r where b: "claimed_body cfg (containerlab_engine cg cli) now by' op inst w = Raised w1 i1 (WrongLabHostError (wrong_host_message cg))"
    and w1: "wk_env w1 = []" "wk_host w1 = wk_host w" "wk_learn w1 = wk_learn w"
      "get_operation (wk_lab w1) (lo_id op) = Some (op\<lparr>lo_heartbeat_at := Some now\<rparr>)"
      "claim_alive (lo_id op) by' (wk_lab w1)" "get_instance (wk_lab w1) (li_id inst) = Some r"
      "li_consoles r = (if is_conditional_destroy op then li_consoles inst else [])"
    using wrong_host_body [OF wh k env al] i li o' oid by metis
  from run o' i b have s: "settle_with now (lo_id op) by' ''failed'' (Some (OPERATOR_REFUSAL_PREFIX @ wrong_host_message cg)) True Failed
      (restore_projection inst) (wk_learn w1) w1 = (w', out)"
    by (simp add: run_claimed_def handle_exception_def refuse_wrong_host_def)
  have pre: "claim_alive (lo_id op) by' (restore_projection inst (wk_lab w1))"
    "get_operation (restore_projection inst (wk_lab w1)) (lo_id op) = Some (op\<lparr>lo_heartbeat_at := Some now\<rparr>)"
    using w1 by simp_all
  note f = settle_with_refused [OF s w1(1) pre]
  have g: "get_instance (wk_lab w') (lo_instance op)
      = Some (r\<lparr>li_status := li_status inst, li_error := li_error inst, li_presence := li_presence inst\<rparr>)"
    unfolding f(4) restore_projection_def using w1(6) li by (simp add: get_set_instance)
  have sr: "settle_row now ''failed'' m True (op\<lparr>lo_heartbeat_at := Some now\<rparr>) = settle_row now ''failed'' m True op" for m
    by (simp add: settle_row_def)
  from f g w1 oid sr show ?thesis by simp
qed

end
