(* ===== verification/Lab_Drain.thy ===== *)
theory Lab_Drain
  imports Lab_Worker_Facts
begin

text \<open>
  The drain loop ends: every turn takes a queued row away, and what a turn puts back is not
  ready again before the retry delay.
\<close>

definition pending :: "instant \<Rightarrow> lab_operation \<Rightarrow> bool" where
  "pending t op = (lo_state op = ''queued'' \<and> lo_not_before op < t)"

definition pending_count :: "instant \<Rightarrow> lab_db \<Rightarrow> nat" where
  "pending_count t db = count_rows (pending t) (lab_operations db)"

definition calmer :: "instant \<Rightarrow> 'r worker \<Rightarrow> 'r worker \<Rightarrow> bool" where
  "calmer t w w' = (wk_env w = [] \<longrightarrow> wk_env w' = [] \<and> pending_count t (wk_lab w') \<le> pending_count t (wk_lab w))"

lemma calmer_refl [simp, intro]: "calmer t w w"
  by (simp add: calmer_def)

lemma calmer_trans [trans]: "calmer t a b \<Longrightarrow> calmer t b c \<Longrightarrow> calmer t a c"
  by (auto simp: calmer_def)

lemma pending_update_le:
  "(\<And>r. r \<in> set rows \<Longrightarrow> p r \<Longrightarrow> pending t (f r) \<Longrightarrow> pending t r) \<Longrightarrow>
   count_rows (pending t) (update_rows p f rows) \<le> count_rows (pending t) rows"
  by (induction rows) (auto simp: le_SucI)

lemma pending_update_less:
  "(\<And>r. r \<in> set rows \<Longrightarrow> p r \<Longrightarrow> \<not> pending t (f r)) \<Longrightarrow> r \<in> set rows \<Longrightarrow> p r \<Longrightarrow> pending t r \<Longrightarrow>
   count_rows (pending t) (update_rows p f rows) < count_rows (pending t) rows"
proof (induction rows)
  case (Cons x xs)
  have le: "count_rows (pending t) (update_rows p f xs) \<le> count_rows (pending t) xs"
    using Cons.prems(1) by (intro pending_update_le) auto
  from Cons show ?case by (cases "r = x") (use le in auto)
qed simp

lemma pending_set_instance [simp]: "pending_count t (set_instance i f db) = pending_count t db"
  by (simp add: pending_count_def)

lemma pending_publish [simp]: "pending_count t (publish i db) = pending_count t db"
  by (simp add: publish_def)

lemma pending_heartbeat: "pending_count t (fst (heartbeat db now oid by')) \<le> pending_count t db"
  unfolding heartbeat_def update_owned_def pending_count_def
  by simp (rule pending_update_le, simp add: pending_def)

lemma pending_settle: "state \<noteq> ''queued'' \<Longrightarrow> pending_count t (fst (settle db now oid by' state err refund)) \<le> pending_count t db"
  unfolding settle_def update_owned_def pending_count_def
  by simp (rule pending_update_le, simp add: pending_def settle_row_def)

lemma pending_requeue:
  "t \<le> now + RETRY_DELAY_SECONDS \<Longrightarrow> pending_count t (set_operation oid (requeue_row now) db) \<le> pending_count t db"
  unfolding pending_count_def set_operation_instances
  by (rule pending_update_le) (simp add: pending_def requeue_row_def clear_claim_fields_def)

lemma refresh_calmer: "refresh_claim now oid by' w = (w1, r) \<Longrightarrow> calmer t w w1"
  using pending_heartbeat [of t "wk_lab w" now oid by']
  by (auto simp: calmer_def refresh_claim_def Let_def split: prod.splits)

lemma on_host_calmer [simp]: "calmer t w (body_world (on_host w f se))"
  by (auto simp: on_host_def calmer_def split: prod.split sum.split unit.split)

lemma host_calmer [simp]: "calmer t w' (w\<lparr>wk_host := h\<rparr>) = calmer t w' w" "calmer t (w\<lparr>wk_host := h\<rparr>) w' = calmer t w w'"
  by (simp_all add: calmer_def)

lemma publish_calmer: "calmer t w (others_commit (w\<lparr>wk_lab := publish i (wk_lab w)\<rparr>))"
  by (simp add: calmer_def)

lemma run_deploy_calmer: "calmer t w (body_world (run_deploy cfg engine now oid by' tm i w))"
  by (auto simp: run_deploy_def Let_def split: prod.split sum.split unit.split dest: refresh_calmer [where t = t])

lemma admit_calmer:
  assumes t: "t \<le> now + RETRY_DELAY_SECONDS" and k: "\<And>tm i w2. calmer t w2 (body_world (k tm i w2))"
  shows "calmer t w (body_world (admit now oid by' inst w k))"
proof -
  let ?w0 = "others_commit w" let ?w1 = "others_commit (?w0\<lparr>wk_lab := publish (reserve inst) (wk_lab ?w0)\<rparr>)"
  have c0: "calmer t w ?w0" by (simp add: calmer_def)
  show ?thesis
  proof (cases "capacity_available (wk_lab ?w0) inst")
    case False
    have "calmer t ?w0 (body_world (admit now oid by' inst w k))"
      using False pending_requeue [OF t, of oid "set_instance (li_id inst) (\<lambda>i. i\<lparr>li_status := ''queued''\<rparr>) (wk_lab ?w0)"]
      by (simp add: admit_def Let_def calmer_def requeue_for_capacity_def)
    with c0 show ?thesis by (rule calmer_trans)
  next
    case True
    obtain w2 x where x: "refresh_claim now oid by' ?w1 = (w2, x)" by force
    have c1: "calmer t w ?w1" by (rule calmer_trans [OF c0 publish_calmer])
    moreover from c1 refresh_calmer [OF x] have "calmer t w w2" by (rule calmer_trans)
    moreover have "calmer t w (body_world (k tm i w2))" for tm i
      by (rule calmer_trans [OF \<open>calmer t w w2\<close> k])
    ultimately show ?thesis
      using True by (auto simp: admit_def Let_def x split: option.split sum.split)
  qed
qed

lemma grade_calmer:
  assumes "grade (refresh_claim now oid by') (eval_on_host ce engine inst) day learn now tm i w = (w', r)"
  shows "calmer t w w'"
proof -
  obtain w1 x where x: "eval_checks (refresh_claim now oid by') (eval_on_host ce engine inst) (lt_checks tm) w = (w1, x)" by force
  have "calmer t w w1"
    by (rule eval_checks_keeps [where R = "calmer t", OF _ _ _ _ x])
       (auto simp: eval_on_host_def split: prod.splits intro: calmer_trans refresh_calmer)
  with x assms show ?thesis by (auto simp: grade_def split: if_splits sum.splits prod.splits)
qed

lemma claimed_body_calmer:
  assumes t: "t \<le> now + RETRY_DELAY_SECONDS"
  shows "calmer t w (body_world (claimed_body cfg engine now by' op inst w))"
proof -
  obtain w1 x where x: "refresh_claim now (lo_id op) by' w = (w1, x)" by force
  note c1 = refresh_calmer [OF x, of t]
  have "calmer t w (body_world (deploy_body cfg engine now by' op inst w))"
  proof (cases "is_conditional_deploy op")
    case False
    then show ?thesis by (simp add: deploy_body_def admit_calmer [OF t run_deploy_calmer])
  next
    case True
    let ?k = "\<lambda>tm i2 w2. on_host w2 (provision_if_absent (wc_render cfg) engine now tm (li_status inst) (li_error inst) i2) conditional_settle_error"
    obtain h s where s: "en_status engine (li_name inst) (wk_host w1) = (h, s)" by force
    have c2: "calmer t w (w1\<lparr>wk_host := h\<rparr>)" using c1 by simp
    have a: "calmer t w (body_world (admit now (lo_id op) by' inst (w1\<lparr>wk_host := h\<rparr>) ?k))"
      by (rule calmer_trans [OF c2 admit_calmer [OF t]]) simp
    have o': "calmer t w (body_world (on_host (w1\<lparr>wk_host := h\<rparr>) f se))" for f se
      by (rule calmer_trans [OF c2 on_host_calmer])
    show ?thesis
    proof (cases x)
      case (Inl e)
      with True c1 show ?thesis by (simp add: deploy_body_def x)
    next
      case xr: (Inr u)
      show ?thesis
      proof (cases s)
        case (Inl e)
        with True xr c2 show ?thesis by (simp add: deploy_body_def x s)
      next
        case (Inr v)
        with True xr a o' show ?thesis by (simp add: deploy_body_def x s)
      qed
    qed
  qed
  moreover have "calmer t w (body_world (destroy_body engine now by' op inst w))"
  proof -
    let ?w2 = "\<lambda>i. others_commit (w1\<lparr>wk_lab := publish i (wk_lab w1)\<rparr>)"
    have c2: "calmer t w (?w2 i)" for i by (rule calmer_trans [OF c1 publish_calmer])
    have "calmer t w (body_world (on_host (?w2 i) f se))" for i f se by (rule calmer_trans [OF c2 on_host_calmer])
    moreover have "calmer t w (body_world (on_host w1 f se))" for f se by (rule calmer_trans [OF c1 on_host_calmer])
    ultimately show ?thesis using c1 c2 by (auto simp: destroy_body_def x Let_def split: sum.split option.split)
  qed
  moreover have "calmer t w (body_world (check_body cfg engine now by' op inst w))"
    using c1 by (auto simp: check_body_def x split: sum.split option.split prod.split intro: calmer_trans grade_calmer)
  ultimately show ?thesis by (simp add: claimed_body_def)
qed

lemma settle_with_calmer:
  assumes "settle_with now oid by' state err refund out0 changes learn w = (w', out)" "state \<noteq> ''queued''"
    and "\<And>db. pending_count t (changes db) = pending_count t db"
  shows "calmer t w w'"
  using assms(1) pending_settle [OF assms(2), of t "changes (wk_lab w)" now oid by' err refund]
  by (auto simp: settle_with_def Let_def calmer_def assms(3) split: prod.splits if_splits)

lemma pending_failure [simp]: "pending_count t (failure_projection op i m db) = pending_count t db"
  by (auto simp: failure_projection_def Let_def escalate_if_def split: option.split)

lemma pending_restore [simp]: "pending_count t (restore_projection i db) = pending_count t db"
  by (simp add: restore_projection_def)

lemma handle_calmer:
  assumes t: "t \<le> now + RETRY_DELAY_SECONDS" and h: "handle_exception now by' op inst i e w = (w', out)"
  shows "calmer t w w'"
proof (cases e)
  case HostLockUnavailable
  let ?db = "if is_conditional_deploy op \<or> is_conditional_destroy op \<or> lo_kind op \<noteq> ''deploy''
             then restore_projection inst (wk_lab w) else wk_lab w"
  have "pending_count t (set_operation (lo_id op) (requeue_row now) ?db) \<le> pending_count t ?db" by (rule pending_requeue [OF t])
  with h HostLockUnavailable show ?thesis
    by (auto simp: handle_exception_def defer_contended_def Let_def calmer_def requeue_after_host_lock_def split: if_splits)
next
  case (WrongLabHostError m)
  with h show ?thesis by (auto simp: handle_exception_def refuse_wrong_host_def dest!: settle_with_calmer [where t = t])
next
  case (RuntimeError m)
  with h show ?thesis by (auto simp: handle_exception_def settle_failure_def dest!: settle_with_calmer [where t = t])
qed

lemma run_claimed_calmer:
  assumes t: "t \<le> now + RETRY_DELAY_SECONDS" and r: "run_claimed cfg engine now oid by' w = (w', out)"
  shows "calmer t w w'"
proof (cases "get_operation (wk_lab w) oid")
  case None
  with r show ?thesis by (simp add: run_claimed_def)
next
  case (Some op)
  show ?thesis
  proof (cases "owns by' op \<and> get_instance (wk_lab w) (lo_instance op) \<noteq> None")
    case False
    with Some r show ?thesis by (auto simp: run_claimed_def split: if_splits dest!: settle_with_calmer [where t = t])
  next
    case True
    then obtain inst where i: "get_instance (wk_lab w) (lo_instance op) = Some inst" by auto
    have b: "calmer t w (body_world (claimed_body cfg engine now by' op inst w))" by (rule claimed_body_calmer [OF t])
    show ?thesis
    proof (cases "claimed_body cfg engine now by' op inst w")
      case (Returned w1 o1)
      with Some True i r b show ?thesis by (simp add: run_claimed_def)
    next
      case (Ran w1 i1 learn err)
      with Some True i r have "settle_success now by' op i1 learn err w1 = (w', out)" by (simp add: run_claimed_def)
      then have "calmer t w1 w'" by (auto simp: settle_success_def dest!: settle_with_calmer [where t = t])
      with b Ran show ?thesis by (auto intro: calmer_trans)
    next
      case (Raised w1 i1 e)
      with Some True i r have "handle_exception now by' op inst i1 e w1 = (w', out)" by (simp add: run_claimed_def)
      from handle_calmer [OF t this] b Raised show ?thesis by (auto intro: calmer_trans)
    qed
  qed
qed

lemma claim_next_less:
  assumes "claim_next locked db now w h e = (db', Some op)" "now < t"
  shows "pending_count t db' < pending_count t db"
proof -
  from assms(1) obtain r rs where s: "sort_key (\<lambda>op. (claim_priority (lo_kind op), lo_requested_at op))
      (filter (\<lambda>op. ready now op \<and> \<not> locked (lo_id op)) (lab_operations db)) = r # rs"
    and db': "db' = set_operation (lo_id r) (claim_row now w h e) db"
    by (auto simp: claim_next_def split: list.splits)
  have "r \<in> set (filter (\<lambda>op. ready now op \<and> \<not> locked (lo_id op)) (lab_operations db))"
    using s by (metis list.set_intros(1) set_sort)
  with assms(2) have "r \<in> set (lab_operations db)" "pending t r" by (auto simp: ready_def pending_def)
  then show ?thesis
    unfolding pending_count_def db' set_operation_instances
    by (intro pending_update_less [where r = r]) (auto simp: pending_def claim_row_def)
qed

lemma drain_loop_ends:
  assumes c: "\<And>j. t \<le> clock j + RETRY_DELAY_SECONDS" "\<And>j. clock j < t"
    and "wk_env w = []" "pending_count t (wk_lab w) < fuel"
  shows "drain_loop fuel k clock cfg engine by' host epoch w \<noteq> None"
  using assms(3,4)
proof (induction fuel arbitrary: k w)
  case (Suc fuel)
  obtain db x where cl: "claim_next (\<lambda>_. False) (wk_lab w) (clock k) by' host epoch = (db, x)" by force
  show ?case
  proof (cases x)
    case None
    with cl show ?thesis by simp
  next
    case (Some op)
    obtain w1 out where r: "run_claimed cfg engine (clock k) (lo_id op) by' (w\<lparr>wk_lab := db\<rparr>) = (w1, out)" by force
    have "pending_count t db < pending_count t (wk_lab w)" using claim_next_less [OF _ c(2)] cl Some by blast
    moreover have "calmer t (w\<lparr>wk_lab := db\<rparr>) w1" by (rule run_claimed_calmer [OF c(1) r])
    ultimately have "wk_env w1 = []" "pending_count t (wk_lab w1) < fuel" using Suc.prems by (auto simp: calmer_def)
    then have "drain_loop fuel (Suc k) clock cfg engine by' host epoch w1 \<noteq> None" by (rule Suc.IH)
    with cl Some r show ?thesis by auto
  qed
qed simp

end
