(* ===== verification/Lab_Queue_Invariant.thy ===== *)
theory Lab_Queue_Invariant
  imports Lab_Queue
begin

text \<open>
  The step relation of the operation queue and its invariant: one open operation per
  instance, attempts under the ceiling of the kind, claim fields present exactly on claims.
\<close>

section \<open>Invariant\<close>

definition op_ok :: "lab_operation \<Rightarrow> bool" where
  "op_ok op = (lo_kind op \<in> set KINDS
     \<and> (lo_state op = ''queued'' \<longrightarrow> lo_attempts op < MAX_ATTEMPTS (lo_kind op) \<and> lo_claimed_by op = None)
     \<and> (lo_state op = ''claimed'' \<longrightarrow> 1 \<le> lo_attempts op \<and> lo_attempts op \<le> MAX_ATTEMPTS (lo_kind op)
                                     \<and> lo_claimed_by op \<noteq> None)
     \<and> conditional_shape (lo_kind op) (lo_origin op) (lo_precondition op))"

definition queue_ok :: "lab_db \<Rightarrow> bool" where
  "queue_ok db = ((\<forall>op \<in> set (lab_operations db). op_ok op \<and> lo_id op < lab_next_id db)
     \<and> distinct (map lo_id (lab_operations db)) \<and> (\<forall>i. open_count db i \<le> 1))"

lemma MAX_ATTEMPTS_pos [simp]: "0 < MAX_ATTEMPTS k"
  by (simp add: MAX_ATTEMPTS_def)

lemma open_operation_None: "open_operation db i = None \<longleftrightarrow> open_count db i = 0"
  by (auto simp: open_operation_def open_count_def count_rows_def find_None_iff filter_empty_conv)

lemma queue_ok_instances [simp, lab_simps]: "queue_ok (set_instance i f db) = queue_ok db"
  by (simp add: queue_ok_def open_count_def)

text \<open>Rewriting operations of one owner in place keeps the invariant.\<close>

lemma queue_ok_update:
  assumes q: "queue_ok db"
    and ids: "\<And>r. lo_id (f r) = lo_id r" "\<And>r. lo_instance (f r) = lo_instance r"
    and open': "\<And>r. r \<in> set (lab_operations db) \<Longrightarrow> p r \<Longrightarrow> is_open (f r) \<Longrightarrow> is_open r"
    and ok: "\<And>r. r \<in> set (lab_operations db) \<Longrightarrow> p r \<Longrightarrow> op_ok (f r)"
  shows "queue_ok (db\<lparr>lab_operations := update_rows p f (lab_operations db)\<rparr>)"
proof -
  have c: "count_rows (\<lambda>op. lo_instance op = i \<and> is_open op) (update_rows p f xs)
            \<le> count_rows (\<lambda>op. lo_instance op = i \<and> is_open op) xs"
    if "\<And>r. r \<in> set xs \<Longrightarrow> p r \<Longrightarrow> is_open (f r) \<Longrightarrow> is_open r" for i xs
    using that by (induction xs) (auto simp: ids)
  have "open_count (db\<lparr>lab_operations := update_rows p f (lab_operations db)\<rparr>) i \<le> 1" for i
    using le_trans [OF c [of "lab_operations db" i]] open' q by (simp add: queue_ok_def open_count_def)
  moreover have "map lo_id (update_rows p f (lab_operations db)) = map lo_id (lab_operations db)"
    by (rule map_update_rows) (rule ids)
  ultimately show ?thesis
    using q ok by (auto simp: queue_ok_def set_update_rows ids)
qed

lemma queue_ok_set_operation:
  assumes "queue_ok db"
    and "\<And>r. lo_id (f r) = lo_id r" "\<And>r. lo_instance (f r) = lo_instance r"
    and "\<And>r. r \<in> set (lab_operations db) \<Longrightarrow> lo_id r = oid \<Longrightarrow> is_open (f r) \<Longrightarrow> is_open r"
    and "\<And>r. r \<in> set (lab_operations db) \<Longrightarrow> lo_id r = oid \<Longrightarrow> op_ok (f r)"
  shows "queue_ok (set_operation oid f db)"
  unfolding set_operation_def by (rule queue_ok_update) (use assms in auto)

lemma queue_ok_row: "queue_ok db \<Longrightarrow> op \<in> set (lab_operations db) \<Longrightarrow> op_ok op"
  by (simp add: queue_ok_def)

lemma queue_ok_same_row:
  "queue_ok db \<Longrightarrow> a \<in> set (lab_operations db) \<Longrightarrow> b \<in> set (lab_operations db) \<Longrightarrow> lo_id a = lo_id b \<Longrightarrow> a = b"
  unfolding queue_ok_def by (metis distinct_map inj_on_def)

section \<open>Every operation preserves it\<close>

lemma insert_open_ok:
  assumes "queue_ok db" "kind \<in> set KINDS"
    and "insert_open_operation db now inst kind by' origin pre = Inr (db', r)"
  shows "queue_ok db'" "r = Some op \<Longrightarrow> op \<in> set (lab_operations db') \<and> lo_instance op = li_id inst \<and> is_open op"
proof -
  have "queue_ok db' \<and> (r = Some op \<longrightarrow> op \<in> set (lab_operations db') \<and> lo_instance op = li_id inst \<and> is_open op)"
  proof (cases "open_operation db (li_id inst)")
    case None
    then have z: "open_count db (li_id inst) = 0" by (simp add: open_operation_None)
    let ?op = "new_operation db now inst kind by' origin pre"
    from assms(3) None have db': "db' = db\<lparr>lab_operations := lab_operations db @ [?op], lab_next_id := Suc (lab_next_id db)\<rparr>"
      and r: "r = Some ?op" and sh: "conditional_shape kind origin pre"
      by (auto simp: insert_open_operation_def ensure_def Let_def split: if_splits)
    have "op_ok ?op" using assms(2) sh by (simp add: op_ok_def new_operation_def)
    moreover have "open_count db' i \<le> 1" for i
      using z assms(1) unfolding db' open_count_def queue_ok_def
      by (cases "i = li_id inst") (simp_all add: open_count_def new_operation_def is_open_def)
    moreover have "lo_id ?op = lab_next_id db" by (simp add: new_operation_def)
    ultimately have "queue_ok db'"
      using assms(1) unfolding queue_ok_def db' by (auto simp: less_Suc_eq)
    then show ?thesis by (auto simp: r db' new_operation_def is_open_def)
  next
    case (Some x)
    with assms show ?thesis by (auto simp: insert_open_operation_def ensure_def split: if_splits)
  qed
  then show "queue_ok db'" "r = Some op \<Longrightarrow> op \<in> set (lab_operations db') \<and> lo_instance op = li_id inst \<and> is_open op"
    by simp_all
qed

lemma open_operation_mem:
  "open_operation db i = Some op \<Longrightarrow> op \<in> set (lab_operations db) \<and> lo_instance op = i \<and> is_open op"
  by (auto simp: open_operation_def dest: find_Some_in)

lemma enqueue_among_ok:
  assumes q: "queue_ok db" and g: "\<And>k d. queue_ok d \<Longrightarrow> queue_ok (g k d)"
    and r: "enqueue_among g db now inst kind by' origin pre = Inr (db', op)"
  shows "queue_ok db' \<and> op \<in> set (lab_operations db') \<and> lo_instance op = li_id inst \<and> is_open op"
proof -
  from r have k: "kind \<in> set KINDS" by (auto simp: enqueue_among_def split: if_splits)
  from r k obtain db1 r1 where s1: "insert_open_operation db now inst kind by' origin pre = Inr (db1, r1)"
    by (auto simp: enqueue_among_def result_simps)
  note q1 = insert_open_ok [OF q k s1]
  show ?thesis
  proof (cases r1)
    case (Some o1)
    with r k s1 q1 show ?thesis by (auto simp: enqueue_among_def)
  next
    case None
    let ?d2 = "g 0 db1"
    have q2: "queue_ok ?d2" by (rule g [OF q1(1)])
    show ?thesis
    proof (cases "open_operation ?d2 (li_id inst)")
      case (Some o2)
      with r k s1 None q2 open_operation_mem [OF Some] show ?thesis by (auto simp: enqueue_among_def)
    next
      case n2: None
      from r k s1 None n2 obtain db3 r3
        where s3: "insert_open_operation (g 1 ?d2) now inst kind by' origin pre = Inr (db3, r3)"
        by (auto simp: enqueue_among_def result_simps Let_def)
      note q3 = insert_open_ok [OF g [OF q2, of 1] k s3]
      show ?thesis
      proof (cases r3)
        case (Some o3)
        with r k s1 None n2 s3 q3 show ?thesis by (auto simp: enqueue_among_def)
      next
        case n3: None
        have q4: "queue_ok (g 2 db3)" by (rule g [OF q3(1)])
        with r k s1 None n2 s3 n3 show ?thesis
          by (auto simp: enqueue_among_def Let_def dest!: open_operation_mem split: option.splits)
      qed
    qed
  qed
qed

lemma enqueue_ok:
  "queue_ok db \<Longrightarrow> enqueue db now inst kind by' origin pre = Inr (db', op) \<Longrightarrow>
   queue_ok db' \<and> op \<in> set (lab_operations db') \<and> lo_instance op = li_id inst \<and> is_open op"
  unfolding enqueue_def by (rule enqueue_among_ok)

lemma claim_next_Some:
  assumes "claim_next locked db now w h e = (db', Some op)"
  obtains r where "r \<in> set (lab_operations db)" "ready now r" "\<not> locked (lo_id r)" "op = claim_row now w h e r"
    "db' = set_operation (lo_id r) (claim_row now w h e) db"
    "\<And>s. s \<in> set (lab_operations db) \<Longrightarrow> ready now s \<Longrightarrow> \<not> locked (lo_id s) \<Longrightarrow>
       (claim_priority (lo_kind r), lo_requested_at r) \<le> (claim_priority (lo_kind s), lo_requested_at s)"
proof -
  let ?k = "\<lambda>op. (claim_priority (lo_kind op), lo_requested_at op)"
  let ?l = "filter (\<lambda>op. ready now op \<and> \<not> locked (lo_id op)) (lab_operations db)"
  from assms obtain r rs where s: "sort_key ?k ?l = r # rs"
    and op: "op = claim_row now w h e r" and db': "db' = set_operation (lo_id r) (claim_row now w h e) db"
    by (auto simp: claim_next_def split: list.splits)
  have "r \<in> set ?l" using s by (metis list.set_intros(1) set_sort)
  moreover have "?k r \<le> ?k x" if "x \<in> set ?l" for x
  proof -
    have "sorted (map ?k (r # rs))" unfolding s [symmetric] by (rule sorted_sort_key)
    moreover have "x \<in> set (r # rs)" using that s by (metis set_sort)
    ultimately show ?thesis by auto
  qed
  ultimately show thesis using that [OF _ _ _ op db'] by auto
qed

lemma claim_next_ok:
  assumes q: "queue_ok db" and r: "claim_next locked db now w h e = (db', x)"
  shows "queue_ok db'"
proof (cases x)
  case None
  then show ?thesis using assms by (auto simp: claim_next_def split: list.splits)
next
  case (Some op)
  from claim_next_Some [OF r [unfolded Some]] obtain c
    where c: "c \<in> set (lab_operations db)" "ready now c" "db' = set_operation (lo_id c) (claim_row now w h e) db"
    by metis
  show ?thesis unfolding c(3)
  proof (rule queue_ok_set_operation [OF q])
    fix r assume m: "r \<in> set (lab_operations db)" "lo_id r = lo_id c"
    with queue_ok_same_row [OF q m(1) c(1)] have "r = c" by simp
    with c(2) show "is_open r" by (simp add: ready_def is_open_def)
    from \<open>r = c\<close> c(2) queue_ok_row [OF q c(1)] show "op_ok (claim_row now w h e r)"
      by (simp add: op_ok_def claim_row_def ready_def)
  qed (simp_all add: claim_row_def)
qed

lemma update_owned_ok:
  assumes q: "queue_ok db"
    and "\<And>r. lo_id (f r) = lo_id r" "\<And>r. lo_instance (f r) = lo_instance r"
    and ok: "\<And>r. op_ok r \<Longrightarrow> owns w r \<Longrightarrow> op_ok (f r)"
  shows "queue_ok (fst (update_owned oid w f db))"
  unfolding update_owned_def fst_conv
  by (rule queue_ok_update [OF q assms(2,3)]) (auto simp: owns_def is_open_def ok queue_ok_row [OF q])

lemma requeue_ok:
  assumes q: "queue_ok db" and o: "op \<in> set (lab_operations db)" "lo_state op = ''claimed''"
  shows "queue_ok (set_operation (lo_id op) (requeue_row now) db)"
proof (rule queue_ok_set_operation [OF q])
  fix r assume m: "r \<in> set (lab_operations db)" "lo_id r = lo_id op"
  with queue_ok_same_row [OF q m(1) o(1)] have "r = op" by simp
  with o queue_ok_row [OF q o(1)] show "op_ok (requeue_row now r)" "is_open r"
    by (auto simp: op_ok_def requeue_row_def clear_claim_fields_def is_open_def)
qed (simp_all add: requeue_row_def clear_claim_fields_def)

lemma heartbeat_ok: "queue_ok db \<Longrightarrow> queue_ok (fst (heartbeat db now oid w))"
  unfolding heartbeat_def by (rule update_owned_ok) (auto simp: op_ok_def)

lemma settle_ok:
  "queue_ok db \<Longrightarrow> state \<in> {''succeeded'', ''failed''} \<Longrightarrow> queue_ok (fst (settle db now oid w state err refund))"
  unfolding settle_def by (rule update_owned_ok) (auto simp: op_ok_def settle_row_def)

section \<open>The recovery scans\<close>

text \<open>What a recovered claim keeps of every row: identity, kind, attempts, provenance.\<close>

definition op_facts :: "lab_operation \<Rightarrow> uuid \<times> uuid \<times> string \<times> nat \<times> string option \<times> string option \<times> uuid option" where
  "op_facts op = (lo_id op, lo_instance op, lo_kind op, lo_attempts op, lo_origin op, lo_precondition op, lo_requested_by op)"

lemma escalate_if_operations [simp, lab_simps]:
  "lab_operations (escalate_if m i db) = lab_operations db" "lab_next_id (escalate_if m i db) = lab_next_id db"
  by (simp_all add: escalate_if_def split: option.split)

lemma queue_ok_escalate_if [simp, lab_simps]: "queue_ok (escalate_if m i db) = queue_ok db"
  by (simp add: queue_ok_def open_count_def)

definition failed_row :: "instant \<Rightarrow> string \<Rightarrow> lab_operation \<Rightarrow> lab_operation" where
  "failed_row now err op = op\<lparr>lo_state := ''failed'', lo_finished_at := Some now, lo_last_error := Some err\<rparr>"

definition requeued_row :: "instant \<Rightarrow> string \<Rightarrow> lab_operation \<Rightarrow> lab_operation" where
  "requeued_row now err op = (clear_claim_fields op)\<lparr>lo_state := ''queued'', lo_not_before := now, lo_last_error := Some err\<rparr>"

lemma fail_at_ceiling_operations:
  "lab_operations (fail_operation_at_ceiling db now op err)
     = update_rows (\<lambda>r. lo_id r = lo_id op) (failed_row now err) (lab_operations db)"
  by (simp add: fail_operation_at_ceiling_def Let_def failed_row_def [abs_def])

lemma requeue_interrupted_operations:
  "lab_operations (requeue_interrupted db now op err)
     = update_rows (\<lambda>r. lo_id r = lo_id op) (requeued_row now err) (lab_operations db)"
  by (simp add: requeue_interrupted_def requeued_row_def [abs_def])

lemma recover_claim_operations:
  "lab_operations (recover_claim now ce re op db)
     = update_rows (\<lambda>r. lo_id r = lo_id op)
         (if lo_attempts op \<ge> MAX_ATTEMPTS (lo_kind op) then failed_row now (ce op) else requeued_row now (re op))
         (lab_operations db)"
  by (simp add: recover_claim_def fail_at_ceiling_operations requeue_interrupted_operations)

lemma recover_claim_next_id [simp]: "lab_next_id (recover_claim now ce re op db) = lab_next_id db"
  by (simp add: recover_claim_def fail_operation_at_ceiling_def requeue_interrupted_def Let_def)

lemma recover_claim_facts:
  "map op_facts (lab_operations (recover_claim now ce re op db)) = map op_facts (lab_operations db)"
  unfolding recover_claim_operations
  by (rule map_update_rows) (simp add: op_facts_def failed_row_def requeued_row_def clear_claim_fields_def)

lemma queue_ok_operations:
  "lab_operations db' = lab_operations db \<Longrightarrow> lab_next_id db' = lab_next_id db \<Longrightarrow> queue_ok db' = queue_ok db"
  by (simp add: queue_ok_def open_count_def)

lemma recover_claim_ok:
  assumes q: "queue_ok db" and op: "op_facts op \<in> op_facts ` {r \<in> set (lab_operations db). is_open r}"
  shows "queue_ok (recover_claim now ce re op db)"
proof -
  let ?f = "if lo_attempts op \<ge> MAX_ATTEMPTS (lo_kind op) then failed_row now (ce op) else requeued_row now (re op)"
  from op obtain c where c: "c \<in> set (lab_operations db)" "is_open c" "op_facts c = op_facts op" by auto
  have "queue_ok (set_operation (lo_id op) ?f db)"
  proof (rule queue_ok_set_operation [OF q])
    fix r assume m: "r \<in> set (lab_operations db)" "lo_id r = lo_id op"
    with queue_ok_same_row [OF q m(1) c(1)] c(3) have "r = c" by (simp add: op_facts_def)
    with c queue_ok_row [OF q c(1)] show "op_ok (?f r)" "is_open r"
      by (auto simp: op_ok_def failed_row_def requeued_row_def clear_claim_fields_def op_facts_def)
  qed (simp_all add: failed_row_def requeued_row_def clear_claim_fields_def)
  then show ?thesis
    by (subst queue_ok_operations [of _ "set_operation (lo_id op) ?f db"]) (simp_all add: recover_claim_operations)
qed

lemma recover_claims_ok:
  assumes "queue_ok db" "distinct (map lo_id ops)"
    and "\<And>op. op \<in> set ops \<Longrightarrow> op_facts op \<in> op_facts ` {r \<in> set (lab_operations db). is_open r}"
  shows "queue_ok (fold (recover_claim now ce re) ops db)
       \<and> map op_facts (lab_operations (fold (recover_claim now ce re) ops db)) = map op_facts (lab_operations db)"
  using assms
proof (induction ops arbitrary: db)
  case (Cons op ops)
  let ?db = "recover_claim now ce re op db"
  have "op_facts x \<in> op_facts ` {r \<in> set (lab_operations ?db). is_open r}" if x: "x \<in> set ops" for x
  proof -
    from Cons.prems(3) [of x] x obtain c where c: "c \<in> set (lab_operations db)" "is_open c" "op_facts x = op_facts c" by auto
    from x Cons.prems(2) have "lo_id x \<noteq> lo_id op" by (metis distinct.simps(2) image_eqI list.simps(9) set_map)
    with c have "c \<in> set (lab_operations ?db)"
      by (auto simp: recover_claim_operations set_update_rows op_facts_def intro!: image_eqI [where x = c])
    with c show ?thesis by blast
  qed
  with Cons.prems Cons.IH [of ?db] recover_claim_ok [OF Cons.prems(1)] show ?case
    by (simp add: recover_claim_facts)
qed simp

lemma repair_missing_ok:
  "repair_missing_operations now is db = Inr db' \<Longrightarrow> queue_ok db \<Longrightarrow> queue_ok db'"
proof (induction "is" arbitrary: db)
  case (Cons i "is")
  from Cons.prems(1) obtain d where d: "repair_missing_operation now i db = Inr d" "repair_missing_operations now is d = Inr db'"
    by (auto simp: result_simps)
  from d(1) have "queue_ok d"
    unfolding repair_missing_operation_def and_then_eq_Inr using Cons.prems(2)
    by (auto dest: enqueue_ok [rotated])
  with Cons.IH d(2) show ?case by simp
qed simp

lemma claimed_facts:
  "op \<in> set (filter p (lab_operations db)) \<Longrightarrow> (\<And>r. p r \<Longrightarrow> lo_state r = ''claimed'') \<Longrightarrow>
   op_facts op \<in> op_facts ` {r \<in> set (lab_operations db). is_open r}"
  by (auto simp: is_open_def)

lemma reconcile_stuck_ok:
  assumes q: "queue_ok db" and r: "reconcile_stuck lo li db now lease = Inr (db', n)"
  shows "queue_ok db'"
proof -
  let ?p = "\<lambda>op. lease_expired now lease op \<and> \<not> lo (lo_id op)"
  from r obtain ce re m where m: "repair_missing_operations now m
      (fold (recover_claim now ce re) (filter ?p (lab_operations db)) db) = Inr db'"
    by (auto simp: reconcile_stuck_def Let_def result_simps)
  have "queue_ok (fold (recover_claim now ce re) (filter ?p (lab_operations db)) db)"
    by (rule recover_claims_ok [OF q, THEN conjunct1], use q in \<open>simp add: queue_ok_def distinct_map_filter\<close>)
       (rule claimed_facts, assumption, simp add: lease_expired_def)
  with repair_missing_ok [OF m] show ?thesis by simp
qed

lemma reclaim_ok:
  assumes q: "queue_ok db"
  shows "queue_ok (fst (reclaim_previous_epoch db now host epoch))"
  unfolding reclaim_previous_epoch_def Let_def fst_conv
  by (rule recover_claims_ok [OF q, THEN conjunct1], use q in \<open>simp add: queue_ok_def distinct_map_filter\<close>)
     (rule claimed_facts, assumption, simp add: previous_epoch_claim_def)

section \<open>The step relation\<close>

inductive queue_step :: "lab_db \<Rightarrow> lab_db \<Rightarrow> bool" where
  enqueued: "enqueue db now inst kind by' origin pre = Inr (db', op) \<Longrightarrow> queue_step db db'"
| claimed: "claim_next locked db now w h e = (db', op) \<Longrightarrow> queue_step db db'"
| beaten: "heartbeat db now oid w = (db', b) \<Longrightarrow> queue_step db db'"
| settled: "state \<in> {''succeeded'', ''failed''} \<Longrightarrow> settle db now oid w state err refund = (db', b) \<Longrightarrow> queue_step db db'"
| deferred: "op \<in> set (lab_operations db) \<Longrightarrow> owns w op \<Longrightarrow> requeue_for_capacity db now (lo_id op) (lo_instance op) = db' \<Longrightarrow> queue_step db db'"
| contended: "op \<in> set (lab_operations db) \<Longrightarrow> owns w op \<Longrightarrow> requeue_after_host_lock db now (lo_id op) = db' \<Longrightarrow> queue_step db db'"
| unstuck: "reconcile_stuck locked_op locked_inst db now lease = Inr (db', n) \<Longrightarrow> queue_step db db'"
| reclaimed: "reclaim_previous_epoch db now host epoch = (db', n) \<Longrightarrow> queue_step db db'"
| projected: "(\<And>i. li_id (f i) = li_id i) \<Longrightarrow> set_instance iid f db = db' \<Longrightarrow> queue_step db db'"

inductive_cases queue_stepE: "queue_step db db'"

lemma queue_ok_step:
  assumes "queue_step db db'" "queue_ok db"
  shows "queue_ok db'"
  using assms
proof (induction rule: queue_step.induct)
  case (claimed locked db now w h e db' op)
  then show ?case by (blast intro: claim_next_ok)
next
  case (beaten db now oid w db' b)
  then show ?case using heartbeat_ok [of db now oid w] by simp
next
  case (settled state db now oid w err refund db' b)
  then show ?case using settle_ok [of db state now oid w err refund] by simp
next
  case (deferred op db w now db')
  have "op \<in> set (lab_operations (set_instance (lo_instance op) (\<lambda>i. i\<lparr>li_status := ''queued''\<rparr>) db))"
    using deferred by simp
  from requeue_ok [OF _ this, of now] deferred show ?case
    by (auto simp: owns_def requeue_for_capacity_def)
next
  case (contended op db w now db')
  then show ?case using requeue_ok by (auto simp: requeue_after_host_lock_def owns_def)
next
  case (reclaimed db now host epoch db' n)
  then show ?case using reclaim_ok [of db now host epoch] by simp
qed (auto dest: enqueue_ok reconcile_stuck_ok)

lemma queue_ok_reachable: "queue_step\<^sup>*\<^sup>* db db' \<Longrightarrow> queue_ok db \<Longrightarrow> queue_ok db'"
  by (induction rule: rtranclp_induct) (auto intro: queue_ok_step)

end
