(* ===== verification/Lab_Lifecycle_Facts.thy ===== *)
theory Lab_Lifecycle_Facts
  imports Lab_Lifecycle Containerlab Lab_Queue_Invariant
begin

text \<open>
  Facts about the lifecycle functions on their own: the lock key, the launch, the handle
  rebuilt from the recorded consoles, and the grade.
\<close>

section \<open>The launch\<close>

lemma be_value_less: "be_value bytes < 256 ^ length bytes"
proof -
  have "foldl (\<lambda>n (b :: 8 word). 256 * n + unat b) a bytes < (a + 1) * 256 ^ length bytes" for a
  proof (induction bytes arbitrary: a)
    case (Cons b bs)
    have "unat b < 256" using unsigned_less [of b, where 'a = nat] by simp
    then have "256 * a + unat b + 1 \<le> (a + 1) * 256" by simp
    then have "(256 * a + unat b + 1) * 256 ^ length bs \<le> (a + 1) * 256 * 256 ^ length bs" by (rule mult_le_mono1)
    also have "\<dots> = (a + 1) * 256 ^ length (b # bs)" by (simp add: algebra_simps)
    finally show ?case using Cons [of "256 * a + unat b"] by simp
  qed simp
  from this [of 0] show ?thesis by (simp add: be_value_def)
qed

lemma launch_lock_key_word:
  "launch_lock_key digest t p a
     = sint (word_of_nat (be_value (take 8 (digest (''lab-launch:'' @ uuid_str t @ '':'' @ uuid_str p @ '':'' @ uuid_str a)))) :: 64 word)"
proof -
  let ?u = "be_value (take 8 (digest (''lab-launch:'' @ uuid_str t @ '':'' @ uuid_str p @ '':'' @ uuid_str a)))"
  have "?u < 256 ^ length (take 8 (digest (''lab-launch:'' @ uuid_str t @ '':'' @ uuid_str p @ '':'' @ uuid_str a)))"
    by (rule be_value_less)
  also have "\<dots> \<le> 256 ^ 8" by (rule power_increasing) simp_all
  finally have u: "int ?u < 2 ^ 64" by simp
  have "sint (word_of_nat ?u :: 64 word) = signed_take_bit 63 (int ?u)"
    by (simp add: signed_of_nat)
  also have "\<dots> = (if int ?u < 2 ^ 63 then int ?u else int ?u - 2 ^ 64)"
  proof (cases "int ?u < 2 ^ 63")
    case True
    then show ?thesis by (simp add: signed_take_bit_int_eq_self)
  next
    case False
    then have "signed_take_bit 63 (int ?u) = signed_take_bit 63 (int ?u - 2 ^ 64)"
      by (simp add: signed_take_bit_eq_iff_take_bit_eq take_bit_eq_mod mod_diff_right_eq [symmetric])
    also have "\<dots> = int ?u - 2 ^ 64"
      using False u by (intro signed_take_bit_int_eq_self) simp_all
    finally show ?thesis using False by simp
  qed
  finally show ?thesis by (simp add: launch_lock_key_def Let_def)
qed

lemma current_lab_None:
  "current_lab lab t p a = None \<longleftrightarrow> filter (\<lambda>i. is_launch_of t p a i \<and> li_status i \<noteq> ''reaped'') (lab_instances lab) = []"
proof -
  let ?l = "filter (\<lambda>i. is_launch_of t p a i \<and> li_status i \<noteq> ''reaped'') (lab_instances lab)"
  let ?s = "sort_key (\<lambda>i. - li_created_at i) ?l"
  have "?s = [] \<longleftrightarrow> ?l = []" by (simp only: set_empty [symmetric] set_sort)
  then show ?thesis unfolding current_lab_def by (cases ?s) simp_all
qed

lemma enqueue_instances: "enqueue db now inst kind by' o' pre = Inr (db', op) \<Longrightarrow> lab_instances db' = lab_instances db"
  by (auto simp: enqueue_def enqueue_among_def insert_open_operation_def Let_def result_simps ensure_def
      split: if_splits option.splits)

lemma request_lab_new:
  assumes "request_lab H R day lab learn now t p act tmpl = Inr (lab', learn', i)" "current_lab lab t p (act_id act) = None"
  obtains seed op lab1 where "i = new_instance lab now t p (act_id act) seed"
    "lab1 = lab\<lparr>lab_instances := lab_instances lab @ [i], lab_next_id := Suc (lab_next_id lab)\<rparr>"
    "enqueue lab1 now i ''deploy'' (Some p) None None = Inr (lab', op)"
    "lab_instances lab' = lab_instances lab @ [i]"
proof -
  from assms obtain seed op where i: "i = new_instance lab now t p (act_id act) seed"
    and e: "enqueue (lab\<lparr>lab_instances := lab_instances lab @ [i], lab_next_id := Suc (lab_next_id lab)\<rparr>)
      now i ''deploy'' (Some p) None None = Inr (lab', op)"
    by (auto simp: request_lab_def result_simps Let_def)
  from that [OF i refl e] enqueue_instances [OF e] show thesis by simp
qed

lemma request_lab_again:
  assumes r: "request_lab H R day lab learn now t p act tmpl = Inr (lab', learn', i)"
  shows "request_lab H R day lab' learn' now' t p act tmpl' = Inr (lab', learn', i)"
proof (cases "current_lab lab t p (act_id act)")
  case None
  from request_lab_new [OF r None] obtain seed where i: "i = new_instance lab now t p (act_id act) seed"
    and l: "lab_instances lab' = lab_instances lab @ [i]" by metis
  have "filter (\<lambda>i. is_launch_of t p (act_id act) i \<and> li_status i \<noteq> ''reaped'') (lab_instances lab') = [i]"
    using None l i by (simp add: current_lab_None is_launch_of_def new_instance_def)
  then have "current_lab lab' t p (act_id act) = Some i" by (simp add: current_lab_def)
  then show ?thesis by (simp add: request_lab_def)
next
  case (Some x)
  with r show ?thesis by (auto simp: request_lab_def)
qed

lemma request_lab_queue:
  assumes q: "queue_ok lab" and r: "request_lab H R day lab learn now t p act tmpl = Inr (lab', learn', i)"
    and n: "current_lab lab t p (act_id act) = None"
  shows "queue_ok lab' \<and> li_status i = ''queued'' \<and> (\<exists>op \<in> set (lab_operations lab'). lo_instance op = li_id i \<and> is_open op)"
proof -
  from request_lab_new [OF r n] obtain seed op lab1 where i: "i = new_instance lab now t p (act_id act) seed"
    and l1: "lab1 = lab\<lparr>lab_instances := lab_instances lab @ [i], lab_next_id := Suc (lab_next_id lab)\<rparr>"
    and e: "enqueue lab1 now i ''deploy'' (Some p) None None = Inr (lab', op)" by metis
  have "queue_ok lab1" using q unfolding l1 queue_ok_def open_count_def by (auto simp: less_SucI)
  from enqueue_ok [OF this e] i show ?thesis by (auto simp: new_instance_def)
qed

section \<open>handle_for rebuilds the handle of the deploy\<close>

definition container_of :: "string \<Rightarrow> string \<Rightarrow> string" where
  "container_of n node = ''clab-'' @ n @ ''-'' @ node"

definition conventional :: "string \<Rightarrow> lab_handle \<Rightarrow> bool" where
  "conventional n ha =
     (ha_instance ha = n \<and> distinct (map fst (ha_nodes ha)) \<and> map fst (ha_mgmt ha) = map fst (ha_nodes ha)
      \<and> map fst (ha_kinds ha) = map fst (ha_nodes ha) \<and> (\<forall>(node, c) \<in> set (ha_nodes ha). c = container_of n node))"

definition names_follow :: "string \<Rightarrow> json list \<Rightarrow> bool" where
  "names_follow n items =
     (\<forall>j \<in> set items. case j of JObj kvs \<Rightarrow> (case obj_get kvs ''name'' of Some (JStr c) \<Rightarrow> starts_with c (''clab-'' @ n @ ''-'') | _ \<Rightarrow> True)
        | _ \<Rightarrow> True)"

lemma add_node_conventional:
  assumes "conventional n ha" "starts_with c (''clab-'' @ n @ ''-'')"
  shows "conventional n (add_node n c kvs ha)"
proof -
  from assms(2) obtain node where c: "c = (''clab-'' @ n @ ''-'') @ node" unfolding starts_with_iff by blast
  with assms(2) have l: "logical_name n c = node" unfolding logical_name_def Let_def by (metis append_eq_conv_conj)
  have u: "set (AList.update node c xs) \<subseteq> insert (node, c) (set xs)" for xs :: "(string \<times> string) list"
    by (induction xs) auto
  have k: "map fst (AList.update node x xs) = (if node \<in> set (map fst (ha_nodes ha)) then map fst (ha_nodes ha) else map fst (ha_nodes ha) @ [node])"
    if "map fst xs = map fst (ha_nodes ha)" for x :: 'z and xs
    unfolding update_keys that by simp
  have "\<forall>(m, d) \<in> set (AList.update node c (ha_nodes ha)). d = container_of n m"
    using assms(1) u [of "ha_nodes ha"] c unfolding conventional_def container_of_def by fastforce
  moreover have "distinct (map fst (AList.update node c (ha_nodes ha)))"
    using assms(1) by (simp add: conventional_def distinct_update)
  ultimately show ?thesis
    using assms(1) by (simp add: conventional_def add_node_def Let_def l k)
qed

lemma handle_of_items_conventional:
  "handle_of_items n items ha = Some ha' \<Longrightarrow> conventional n ha \<Longrightarrow> names_follow n items \<Longrightarrow> conventional n ha'"
proof (induction n items ha rule: handle_of_items.induct)
  case (2 n kvs items ha)
  then show ?case
    by (auto simp: names_follow_def add_node_conventional split: option.splits json.splits)
qed (auto simp: names_follow_def)

lemma build_consoles_specs:
  "map (\<lambda>(node, c). (node, cs_kind c, cs_mgmt c)) (snd (build_consoles_for i ha ns h))
     = map (\<lambda>node. (node, (case map_of (ha_kinds ha) node of Some k \<Rightarrow> k | None \<Rightarrow> None), map_of (ha_mgmt ha) node)) ns"
proof (induction ns arbitrary: h)
  case (Cons n ns)
  obtain h1 spec where s: "build_console i ha n h = (h1, spec)" by force
  then have "cs_kind spec = (case map_of (ha_kinds ha) n of Some k \<Rightarrow> k | None \<Rightarrow> None) \<and> cs_mgmt spec = map_of (ha_mgmt ha) n"
    by (auto simp: build_console_def Let_def split: prod.splits if_splits)
  moreover obtain h2 specs where "build_consoles_for i ha ns h1 = (h2, specs)" by force
  ultimately show ?case using Cons [of h1] by (simp add: s)
qed simp

lemma map_of_keys:
  "distinct (map fst xs) \<Longrightarrow> map (\<lambda>k. (k, the (map_of xs k))) (map fst xs) = xs"
  by (simp, rule map_idI) auto

lemma map_consoles:
  assumes "\<And>node c. g (node, c) = f node (cs_kind c) (cs_mgmt c)"
  shows "map g (snd (build_consoles_for i ha ns h))
    = map (\<lambda>node. f node (case map_of (ha_kinds ha) node of Some k \<Rightarrow> k | None \<Rightarrow> None) (map_of (ha_mgmt ha) node)) ns"
proof -
  have g: "map g xs = map (\<lambda>(node, k, m). f node k m) (map (\<lambda>(node, c). (node, cs_kind c, cs_mgmt c)) xs)" for xs
    by (induction xs) (auto simp: assms)
  show ?thesis unfolding g build_consoles_specs by (simp add: comp_def)
qed

lemma handle_for_consoles:
  assumes c: "conventional n ha" and n: "li_name i = n" and cs: "li_consoles i = snd (build_consoles_from_handle iid ha h)"
  shows "handle_for i = ha"
proof -
  let ?ns = "map fst (ha_nodes ha)"
  note cs' = cs [unfolded build_consoles_from_handle_def]
  have d: "distinct ?ns" "map fst (ha_mgmt ha) = ?ns" "map fst (ha_kinds ha) = ?ns" using c by (simp_all add: conventional_def)
  have mem: "node \<in> set ?ns \<Longrightarrow> \<exists>x. map_of (ha_mgmt ha) node = Some x" "node \<in> set ?ns \<Longrightarrow> \<exists>x. map_of (ha_kinds ha) node = Some x" for node
    using d by (metis map_of_eq_None_iff not_None_eq set_map)+
  have "map (\<lambda>(node, c). (node, or_empty (cs_mgmt c))) (li_consoles i) = map (\<lambda>node. (node, the (map_of (ha_mgmt ha) node))) ?ns"
    unfolding cs' by (subst map_consoles [where f = "\<lambda>node k m. (node, or_empty m)"]) (simp, use mem(1) in \<open>force simp: or_empty_def\<close>)
  also have "\<dots> = ha_mgmt ha" using map_of_keys [of "ha_mgmt ha"] d by simp
  finally have m: "map (\<lambda>(node, c). (node, or_empty (cs_mgmt c))) (li_consoles i) = ha_mgmt ha" .
  have "map (\<lambda>(node, c). (node, cs_kind c)) (li_consoles i) = map (\<lambda>node. (node, the (map_of (ha_kinds ha) node))) ?ns"
    unfolding cs' by (subst map_consoles [where f = "\<lambda>node k m. (node, k)"]) (simp, use mem(2) in force)
  also have "\<dots> = ha_kinds ha" using map_of_keys [of "ha_kinds ha"] d by simp
  finally have k: "map (\<lambda>(node, c). (node, cs_kind c)) (li_consoles i) = ha_kinds ha" .
  have "map (\<lambda>(node, c). (node, ''clab-'' @ li_name i @ ''-'' @ node)) (li_consoles i) = map (\<lambda>node. (node, container_of n node)) ?ns"
    unfolding cs' by (subst map_consoles [where f = "\<lambda>node k m. (node, container_of n node)"]) (simp_all add: container_of_def n)
  also have "\<dots> = ha_nodes ha" using c by (auto simp: conventional_def intro!: map_idI)
  finally have "map (\<lambda>(node, c). (node, ''clab-'' @ li_name i @ ''-'' @ node)) (li_consoles i) = ha_nodes ha" .
  with m k c n show ?thesis by (simp add: handle_for_def conventional_def)
qed

section \<open>The grade\<close>

lemma record_lab_grade_score:
  "record_lab_grade day learn now tmpl i reports = Inr (learn', sc) \<Longrightarrow> sc = lab_score learn now tmpl i reports"
  by (auto simp: record_lab_grade_def Let_def result_simps)

lemma lab_score_bounds:
  assumes "map cr_weight rs = map lc_weight (lt_checks t)" "\<forall>c \<in> set (lt_checks t). 0 \<le> lc_weight c"
    and sc: "sc = lab_score learn now t i rs"
  shows "0 \<le> sc_score sc" "sc_score sc \<le> sc_max_score sc" "0 \<le> sc_fraction sc" "sc_fraction sc \<le> 1"
    "sc_passed sc \<longleftrightarrow> 0 < sc_max_score sc \<and> lab_threshold learn t i * sc_max_score sc \<le> sc_score sc"
proof -
  have b: "0 \<le> check_score rs" "check_score rs \<le> max_check_score (lt_checks t)" using check_score_bounds [OF assms(1,2)] by simp_all
  show "0 \<le> sc_score sc" "sc_score sc \<le> sc_max_score sc" using b by (simp_all add: sc lab_score_def Let_def)
  have c: "(rat_of_int (check_score rs)) \<le> rat_of_int (max_check_score (lt_checks t))" using b by simp
  show "0 \<le> sc_fraction sc" "sc_fraction sc \<le> 1"
    using b c by (auto simp: sc lab_score_def Let_def divide_le_eq)
  show "sc_passed sc \<longleftrightarrow> 0 < sc_max_score sc \<and> lab_threshold learn t i * sc_max_score sc \<le> sc_score sc"
    by (auto simp: sc lab_score_def Let_def le_divide_eq)
qed

lemma grade_result:
  assumes "grade before ev day learn now t i w = (w', Inr (learn', sc, i'))"
    and "\<And>c w w' r. ev c w = (w', Inr r) \<Longrightarrow> cr_weight r = lc_weight c"
  shows "\<exists>rs. map cr_weight rs = map lc_weight (lt_checks t) \<and> sc = lab_score learn now t i rs
    \<and> record_lab_grade day learn now t i rs = Inr (learn', sc)
    \<and> li_status i = ''active'' \<and> li_error i = None"
proof -
  from assms(1) have a: "li_status i = ''active'' \<and> li_error i = None" by (auto simp: grade_def split: if_splits)
  from assms(1) a obtain w1 rs where e: "eval_checks before ev (lt_checks t) w = (w1, Inr rs)"
    and r: "record_lab_grade day learn now t i rs = Inr (learn', sc)"
    by (auto simp: grade_def split: prod.splits sum.splits)
  have "map cr_weight rs = map lc_weight (lt_checks t)" by (rule eval_checks_weights [OF _ e]) (rule assms(2))
  with record_lab_grade_score [OF r] r a show ?thesis by blast
qed

end
