(* ===== verification/Lab_Sample.thy ===== *)
theory Lab_Sample
  imports Lab_Projection Containerlab_Contract
begin


text \<open>
  A command line kept in memory, as a test double of \<open>containerlab\<close>: the runtime is the
  list of the labs it runs with their topology paths. It is where the hypotheses about the
  external program are shown to be satisfiable; \<open>interpretation\<close> discharges the laws of
  \<open>containerlab_runtime\<close> and, through the engine, those of \<open>lab_engine_contract\<close>.
\<close>

type_synonym memory_runtime = "(string \<times> string) list"

definition declared_name :: "string \<Rightarrow> string" where
  "declared_name t = takeWhile (\<lambda>c. c \<noteq> CHR 0x0A) (drop 6 t)"

definition memory_declares :: "string \<Rightarrow> string \<Rightarrow> bool" where
  "memory_declares t n = (starts_with t ''name: '' \<and> declared_name t = n \<and> n \<noteq> '''')"

definition memory_node :: "string \<times> string \<Rightarrow> json" where
  "memory_node lab =
     JObj [(''lab_name'', JStr (fst lab)), (''absLabPath'', JStr (snd lab)),
           (''name'', JStr (''clab-'' @ fst lab @ ''-r1'')), (''kind'', JStr ''linux'')]"

definition memory_labs :: "memory_runtime \<Rightarrow> (string \<times> string) set" where
  "memory_labs r = {lab \<in> set r. fst lab \<noteq> '''' \<and> snd lab \<noteq> ''''}"

definition memory_deploy :: "string \<Rightarrow> string \<Rightarrow> memory_runtime \<Rightarrow> memory_runtime \<times> (string + int \<times> json option)" where
  "memory_deploy p t r =
     (if p = '''' \<or> \<not> starts_with t ''name: '' then (r, Inr (1, None))
      else ((declared_name t, p) # filter (\<lambda>lab. snd lab \<noteq> p) r,
            Inr (0, Some (JObj [(declared_name t, JArr [memory_node (declared_name t, p)])]))))"

definition memory_cli :: "memory_runtime clab_cli" where
  "memory_cli =
     \<lparr>cli_inspect = (\<lambda>r. Inr (0, Some (JObj [(''labs'', JArr (map memory_node (filter (\<lambda>lab. fst lab \<noteq> '''' \<and> snd lab \<noteq> '''') r)))]))),
      cli_deploy = memory_deploy,
      cli_destroy = (\<lambda>p r. (filter (\<lambda>lab. snd lab \<noteq> p) r, Inr 0)),
      cli_run = (\<lambda>cmd r. (r, Inr \<lparr>ex_stdout = ''3 received'', ex_stderr = '''', ex_exit_code = 0\<rparr>)),
      cli_webfig = (\<lambda>k a r. True),
      cli_yaml = (\<lambda>t. Some (JObj []))\<rparr>"

lemma memory_node_records:
  "fst lab \<noteq> '''' \<Longrightarrow> snd lab \<noteq> '''' \<Longrightarrow>
   concat (map (\<lambda>(nm, kvs). case nm of None \<Rightarrow> [] | Some n \<Rightarrow> if n = '''' then [] else [(n, lab_path kvs)])
     (lab_records hint (memory_node lab))) = [(fst lab, Some (snd lab))]"
  by (simp add: memory_node_def own_name_def obj_get_def lab_path_def)

lemma memory_reported:
  "reported (JObj [(''labs'', JArr (map memory_node (filter (\<lambda>lab. fst lab \<noteq> '''' \<and> snd lab \<noteq> '''') r)))])
     = map (\<lambda>lab. (fst lab, Some (snd lab))) (filter (\<lambda>lab. fst lab \<noteq> '''' \<and> snd lab \<noteq> '''') r)"
proof -
  have "concat (map (\<lambda>(nm, kvs). case nm of None \<Rightarrow> [] | Some n \<Rightarrow> if n = '''' then [] else [(n, lab_path kvs)])
      (concat (map (lab_records (Some ''labs'')) (map memory_node (filter (\<lambda>lab. fst lab \<noteq> '''' \<and> snd lab \<noteq> '''') r)))))
    = map (\<lambda>lab. (fst lab, Some (snd lab))) (filter (\<lambda>lab. fst lab \<noteq> '''' \<and> snd lab \<noteq> '''') r)"
    by (induction r) (simp_all add: memory_node_records)
  then show ?thesis by (simp add: reported_def own_name_def obj_get_def is_arr_def)
qed

interpretation memory: containerlab_runtime memory_cli cfg memory_labs memory_declares for cfg
proof
  fix r j n p
  assume "cli_inspect memory_cli r = Inr (0, Some j)"
  then have "j = JObj [(''labs'', JArr (map memory_node (filter (\<lambda>lab. fst lab \<noteq> '''' \<and> snd lab \<noteq> '''') r)))]"
    by (simp add: memory_cli_def)
  then show "((n, Some p) \<in> set (reported j)) = ((n, p) \<in> memory_labs r)"
    by (force simp: memory_reported memory_labs_def)
qed (auto simp: memory_cli_def memory_deploy_def memory_labs_def memory_declares_def split: if_splits)

text \<open>The engine over it meets the contract the worker relies on.\<close>

lemma memory_engine_contract:
  "lab_engine_contract (containerlab_engine cfg memory_cli) (lab_running cfg memory_labs) memory_declares"
  by (rule memory.clab_contract)


text \<open>One learner's lab on an empty host, with a claimed deploy, as the witnesses use it.\<close>

definition sample_instance :: lab_instance where
  "sample_instance =
     \<lparr>li_id = 1, li_tenant = 7, li_activity = 8, li_person = 9, li_name = ''dal-1'', li_seed = [], li_status = ''queued'',
      li_consoles = [], li_error = None, li_started_at = None, li_last_active_at = None, li_presence = ''absent'',
      li_created_at = 0\<rparr>"

definition sample_template :: lab_template where
  "sample_template =
     \<lparr>lt_tenant = 7, lt_activity = 8, lt_topology = ''topology'', lt_checks = [], lt_seed_spec = [], lt_pass_threshold = None\<rparr>"

definition sample_lab_db :: lab_db where
  "sample_lab_db =
     \<lparr>lab_instances = [sample_instance], lab_operations = [], lab_templates = [sample_template], console_activities = [],
      lab_config = \<lparr>max_concurrent_labs = 1, max_concurrent_labs_per_tenant = 0, lab_idle_minutes = 30\<rparr>, lab_next_id = 2\<rparr>"

definition sample_operation :: "string \<Rightarrow> string option \<Rightarrow> string option \<Rightarrow> lab_operation" where
  "sample_operation kind origin pre = claim_row 10 ''w'' (Some ''host'') (Some ''epoch'') (new_operation sample_lab_db 0 sample_instance kind None origin pre)"

definition sample_claimed :: "lab_operation \<Rightarrow> lab_db" where
  "sample_claimed op = sample_lab_db\<lparr>lab_operations := [op], lab_next_id := 3\<rparr>"

definition sample_host :: "(string \<times> string) list \<Rightarrow> memory_runtime lab_host" where
  "sample_host labs =
     \<lparr>lh_runtime = labs, lh_files = [], lh_lock_held = [], lh_kvm = False, lh_ttyd_installed = True, lh_bind_local = True,
      lh_ttyds = [], lh_scan_fails = False, lh_unkillable = [], lh_next_pid = 1, lh_next_port = 7000\<rparr>"

definition sample_clab :: "string \<Rightarrow> clab_config" where
  "sample_clab role = \<lparr>cg_workdir = ''/labs'', cg_role = role, cg_ready_rounds = 1\<rparr>"

definition sample_worker :: "academy_db \<Rightarrow> lab_operation \<Rightarrow> (string \<times> string) list \<Rightarrow> memory_runtime worker" where
  "sample_worker learn op labs = \<lparr>wk_lab = sample_claimed op, wk_learn = learn, wk_host = sample_host labs, wk_env = []\<rparr>"

definition sample_config :: worker_config where
  "sample_config = \<lparr>wc_render = (\<lambda>_. ''''), wc_checks = \<lparr>ce_jsonpath = (\<lambda>_ _. None), ce_research = (\<lambda>_ _. None), ce_render = (\<lambda>_. '''')\<rparr>,
     wc_day = id\<rparr>"

lemmas sample_defs = sample_instance_def sample_template_def sample_lab_db_def sample_operation_def sample_claimed_def
  sample_host_def sample_clab_def sample_worker_def sample_config_def claim_row_def new_operation_def

lemma sample_rows [simp]:
  "get_instance (wk_lab (sample_worker learn op labs)) j = (if j = 1 then Some sample_instance else None)"
  "wk_env (sample_worker learn op labs) = []"
  "lab_operations (wk_lab (sample_worker learn op labs)) = [op]"
  "wk_host (sample_worker learn op labs) = sample_host labs"
  by (simp_all add: get_instance_def sample_defs)

lemma sample_operation_row [simp]:
  "lo_id (sample_operation k og p) = 2" "lo_kind (sample_operation k og p) = k" "lo_instance (sample_operation k og p) = 1"
  "owns ''w'' (sample_operation k og p)" "lo_origin (sample_operation k og p) = og" "lo_precondition (sample_operation k og p) = p"
  by (simp_all add: sample_defs owns_def)

lemma sample_get [simp]:
  "get_operation (wk_lab (sample_worker learn (sample_operation k og p) labs)) 2 = Some (sample_operation k og p)"
  by (simp add: get_operation_def)

lemma sample_honest:
  "honest (lab_running cg memory_labs) (sample_host []) (wk_lab (sample_worker learn op []))"
  "names_ok (wk_lab (sample_worker learn op labs))"
  "claim_alive 2 ''w'' (wk_lab (sample_worker learn (sample_operation k og p) labs))"
  by (auto simp: honest_def honest_row_def lab_running_def memory_labs_def sample_host_def names_ok_def claim_alive_def
      get_instance_def get_operation_def sample_worker_def sample_claimed_def sample_lab_db_def sample_instance_def split: if_splits)

end
