(* ===== verification/Lab_Properties.thy ===== *)
theory Lab_Properties
  imports Lab_Guards Lab_Drain Lab_Lifecycle_Facts Lab_Sample Learner_Journey
begin

text \<open>
  The properties of the lab subsystem: the operation queue, the worker, the engine on the
  containerlab host, launching and grading.
\<close>

section \<open>The queue\<close>

lemma get_set_operation_other: "j \<noteq> i \<Longrightarrow> (\<And>r. lo_id (f r) = lo_id r) \<Longrightarrow> get_operation (set_operation i f db) j = get_operation db j"
  by (simp add: get_set_operation map_option_case split: option.split)

lemma get_operation_mem: "queue_ok db \<Longrightarrow> r \<in> set (lab_operations db) \<Longrightarrow> get_operation db (lo_id r) = Some r"
  unfolding get_operation_def
  by (metis (mono_tags, lifting) find_Some_in find_None_iff not_None_eq queue_ok_same_row)

definition prior_attempts_total :: "lab_db \<Rightarrow> string \<Rightarrow> string option \<Rightarrow> uuid \<Rightarrow> uuid \<Rightarrow> nat" where
  "prior_attempts_total db kind origin i current =
     sum_list (map lo_attempts (filter (counted_failure db kind origin i current) (lab_operations db)))"

lemma sum_list_take_le: "sum_list (take n xs) \<le> sum_list (xs :: nat list)"
  by (induction xs arbitrary: n) (auto simp: take_Cons' )

lemma sum_list_ge_length: "\<forall>x \<in> set xs. 1 \<le> x \<Longrightarrow> length xs \<le> sum_list (xs :: nat list)"
  by (induction xs) auto

lemma prior_attempts_exact:
  assumes pos: "\<forall>op \<in> set (lab_operations db). counted_failure db kind origin i cur op \<longrightarrow> 1 \<le> lo_attempts op"
  shows "min (prior_attempts_bounded db kind origin i cur + a) (MAX_ATTEMPTS kind)
       = min (prior_attempts_total db kind origin i cur + a) (MAX_ATTEMPTS kind)"
proof -
  let ?l = "filter (counted_failure db kind origin i cur) (lab_operations db)"
  let ?s = "map lo_attempts (sort_key newest_first ?l)"
  let ?n = "MAX_ATTEMPTS kind"
  have "mset ?s = mset (map lo_attempts ?l)" by simp
  then have t: "sum_list ?s = prior_attempts_total db kind origin i cur"
    unfolding prior_attempts_total_def by (metis sum_mset_sum_list)
  have b: "prior_attempts_bounded db kind origin i cur = sum_list (take ?n ?s)"
    by (simp add: prior_attempts_bounded_def take_map)
  show ?thesis
  proof (cases "length ?s \<le> ?n")
    case True
    then show ?thesis by (simp add: b t [symmetric])
  next
    case False
    have "\<forall>x \<in> set (take ?n ?s). 1 \<le> x" using pos by (auto dest!: in_set_takeD)
    from sum_list_ge_length [OF this] False have "?n \<le> sum_list (take ?n ?s)" by simp
    with sum_list_take_le [of ?n ?s] show ?thesis by (simp add: b t [symmetric])
  qed
qed

section \<open>Capacity\<close>



section \<open>Recovery\<close>

lemma get_recover_claim:
  "get_operation (recover_claim now ce re op db) j
     = (if j = lo_id op
        then map_option (if lo_attempts op \<ge> MAX_ATTEMPTS (lo_kind op) then failed_row now (ce op) else requeued_row now (re op)) (get_operation db j)
        else get_operation db j)"
proof -
  have i: "lo_id (failed_row now m r) = lo_id r" "lo_id (requeued_row now m r) = lo_id r" for m r
    by (simp_all add: failed_row_def requeued_row_def clear_claim_fields_def)
  have f: "find (\<lambda>r. lo_id r = j) (update_rows (\<lambda>r. lo_id r = lo_id op) f rows)
      = map_option (\<lambda>r. if j = lo_id op then f r else r) (find (\<lambda>r. lo_id r = j) rows)" if "\<And>r. lo_id (f r) = lo_id r" for f rows
    by (induction rows) (auto simp: that)
  show ?thesis
    unfolding get_operation_def recover_claim_operations
    by (subst f) (auto simp: i map_option.identity)
qed

lemma get_recover_claims:
  assumes "distinct (map lo_id ops)"
  shows "get_operation (fold (recover_claim now ce re) ops db) j
     = (case find (\<lambda>op. lo_id op = j) ops of None \<Rightarrow> get_operation db j
        | Some op \<Rightarrow> map_option (if lo_attempts op \<ge> MAX_ATTEMPTS (lo_kind op) then failed_row now (ce op) else requeued_row now (re op)) (get_operation db j))"
  using assms
proof (induction ops arbitrary: db)
  case (Cons op ops)
  have "lo_id op = j \<Longrightarrow> find (\<lambda>op. lo_id op = j) ops = None" using Cons.prems by (auto simp: find_None_iff image_iff)
  with Cons show ?case by (auto simp: get_recover_claim split: option.split)
qed simp

section \<open>Properties of the queue\<close>

text \<open>C3. Starting from an empty queue, whatever sequence of enqueues, claims, heartbeats, settlements, requeues and recovery
  scans runs, an instance never has two open operations, an open operation never exceeds the attempt ceiling of its kind, and
  a claimed one names its owner and has been charged at least one attempt.\<close>

theorem one_open_operation:
  assumes "lab_operations db = []" "queue_step\<^sup>*\<^sup>* db db'"
  shows "open_count db' i \<le> 1
    \<and> (\<forall>op \<in> set (lab_operations db'). (\<not> is_open op \<or> lo_attempts op \<le> MAX_ATTEMPTS (lo_kind op))
         \<and> (lo_state op \<noteq> ''claimed'' \<or> lo_claimed_by op \<noteq> None \<and> 1 \<le> lo_attempts op))"
proof -
  have "queue_ok db" using assms(1) by (simp add: queue_ok_def open_count_def)
  with assms(2) have q: "queue_ok db'" by (rule queue_ok_reachable)
  then show ?thesis by (auto simp: queue_ok_def op_ok_def is_open_def)
qed

theorem one_open_operation_witness:
  "\<exists>db' op. enqueue sample_lab_db 0 sample_instance ''deploy'' None None None = Inr (db', op)
     \<and> open_count (fst (claim_next (\<lambda>_. False) db' 5 ''w'' None None)) 1 \<le> 1"
proof -
  obtain db' op where e: "enqueue sample_lab_db 0 sample_instance ''deploy'' None None None = Inr (db', op)"
    by (simp add: enqueue_def enqueue_among_def insert_open_operation_def KINDS_def conditional_shape_def open_operation_def sample_lab_db_def Let_def)
  obtain db2 r where c: "claim_next (\<lambda>_. False) db' 5 ''w'' None None = (db2, r)" by force
  have "queue_step\<^sup>*\<^sup>* sample_lab_db db2"
    using queue_step.enqueued [OF e] queue_step.claimed [OF c] by (meson converse_rtranclp_into_rtranclp rtranclp.rtrancl_refl)
  from one_open_operation [OF _ this, of 1] have "open_count db2 1 \<le> 1" by (simp add: sample_lab_db_def)
  with e c show ?thesis by auto
qed

text \<open>The claim takes a ready, unlocked row with the least (kind priority, request time), so a destroy never waits behind
  a deploy: it charges exactly one attempt, makes the claimer the owner and leaves every other row alone. No row is returned
  only if no ready row is free.\<close>

theorem claim_takes_the_most_urgent:
  assumes "queue_ok db" "claim_next locked db now w h e = (db', r)"
  shows "case r of
      None \<Rightarrow> db' = db \<and> filter (\<lambda>op. ready now op \<and> \<not> locked (lo_id op)) (lab_operations db) = []
    | Some op \<Rightarrow> \<exists>c \<in> set (lab_operations db).
        ready now c \<and> \<not> locked (lo_id c) \<and> op = claim_row now w h e c \<and> owns w op \<and> lo_attempts op = Suc (lo_attempts c)
        \<and> (\<forall>s \<in> set (filter (\<lambda>op. ready now op \<and> \<not> locked (lo_id op)) (lab_operations db)).
             (claim_priority (lo_kind c), lo_requested_at c) \<le> (claim_priority (lo_kind s), lo_requested_at s))
        \<and> (\<forall>j. get_operation db' j = (if j = lo_id c then Some op else get_operation db j))"
proof (cases r)
  case None
  let ?l = "filter (\<lambda>op. ready now op \<and> \<not> locked (lo_id op)) (lab_operations db)"
  let ?s = "sort_key (\<lambda>op. (claim_priority (lo_kind op), lo_requested_at op)) ?l"
  have e: "?s = [] \<longleftrightarrow> ?l = []" by (simp only: set_empty [symmetric] set_sort)
  with None assms(2) show ?thesis by (cases ?s) (simp_all add: claim_next_def)
next
  case (Some op)
  note c2 = assms(2) [unfolded Some]
  from claim_next_Some [OF c2] obtain c where c: "c \<in> set (lab_operations db)" "ready now c" "\<not> locked (lo_id c)"
    "op = claim_row now w h e c" "db' = set_operation (lo_id c) (claim_row now w h e) db"
    and m: "\<And>s. s \<in> set (lab_operations db) \<Longrightarrow> ready now s \<Longrightarrow> \<not> locked (lo_id s) \<Longrightarrow>
       (claim_priority (lo_kind c), lo_requested_at c) \<le> (claim_priority (lo_kind s), lo_requested_at s)" by metis
  have "get_operation db' j = (if j = lo_id c then Some op else get_operation db j)" for j
    using get_operation_mem [OF assms(1) c(1)] unfolding c(5)
    by (subst get_set_operation) (auto simp: claim_row_def c(4) map_option_case split: option.split)
  with c m Some show ?thesis by (auto simp: owns_def claim_row_def intro!: bexI [of _ c])
qed

theorem claim_takes_the_most_urgent_witness:
  "\<exists>c \<in> set (lab_operations (sample_claimed (new_operation sample_lab_db 0 sample_instance ''deploy'' None None None))). ready 5 c"
proof -
  let ?db = "sample_claimed (new_operation sample_lab_db 0 sample_instance ''deploy'' None None None)"
  have q: "queue_ok ?db"
    by (simp add: queue_ok_def op_ok_def open_count_def KINDS_def conditional_shape_def sample_claimed_def sample_lab_db_def new_operation_def)
  obtain db' r where c: "claim_next (\<lambda>_. False) ?db 5 ''w'' None None = (db', r)" by force
  from claim_takes_the_most_urgent [OF q c] show ?thesis
    by (cases r) (auto simp: ready_def sample_claimed_def new_operation_def)
qed

text \<open>The escalation message reads at most \<open>MAX_ATTEMPTS\<close> failed rows, newest first, yet decides and says exactly what
  the sum over every failure since the last healthy deploy would, because each counted failure was charged an attempt.\<close>

theorem bounded_escalation_scan_is_exact:
  assumes "\<forall>op \<in> set (lab_operations db). counted_failure db kind origin i cur op \<longrightarrow> 1 \<le> lo_attempts op"
  shows "escalation_message db kind origin what i cur attempts =
    (let total = min (prior_attempts_total db kind origin i cur + attempts) (MAX_ATTEMPTS kind)
     in if total < MAX_ATTEMPTS kind then None
        else Some (what @ show_nat total @ '' times; manual intervention required''))"
  unfolding escalation_message_def prior_attempts_exact [OF assms, of attempts] Let_def ..

theorem bounded_escalation_scan_is_exact_witness:
  "escalation_message (sample_claimed (settle_row 20 ''failed'' (Some ''x'') False (sample_operation ''destroy'' None None)))
     ''destroy'' None ''automatic destroy failed '' 1 9 1 = None"
  by (subst bounded_escalation_scan_is_exact)
     (simp_all add: prior_attempts_total_def counted_failure_def last_healthy_deploy_def operator_refusal_def after_opt_def
        settle_row_def MAX_ATTEMPTS_def Let_def sample_defs OPERATOR_REFUSAL_PREFIX_def WRONG_LAB_HOST_SUBSTRING_def)




text \<open>A restarting worker reclaims exactly the claims an earlier epoch of its own host still holds: each goes back to the
  queue with its claim fields cleared, or fails when it is already at the attempt ceiling, in both cases without a refund;
  every other operation, claims of other hosts included, is untouched.\<close>

theorem restart_reclaims_its_own_host:
  assumes "queue_ok db" "reclaim_previous_epoch db now host epoch = (db', n)"
  shows "n = count_rows (previous_epoch_claim host epoch) (lab_operations db)
    \<and> (\<forall>r \<in> set (lab_operations db). \<exists>r'. get_operation db' (lo_id r) = Some r'
         \<and> (if \<not> previous_epoch_claim host epoch r then r' = r
            else lo_attempts r' = lo_attempts r
              \<and> (if lo_attempts r < MAX_ATTEMPTS (lo_kind r)
                 then lo_state r' = ''queued'' \<and> lo_claimed_by r' = None \<and> lo_claimed_host r' = None
                      \<and> lo_claimed_epoch r' = None \<and> lo_not_before r' = now
                 else lo_state r' = ''failed'' \<and> lo_finished_at r' = Some now)))"
proof -
  let ?p = "previous_epoch_claim host epoch"
  let ?ops = "filter ?p (lab_operations db)"
  have d: "distinct (map lo_id ?ops)" using assms(1) by (simp add: queue_ok_def distinct_map_filter)
  have n: "n = count_rows ?p (lab_operations db)" using assms(2) by (simp add: reclaim_previous_epoch_def Let_def count_rows_def)
  have f: "find (\<lambda>op. lo_id op = lo_id r) ?ops = (if ?p r then Some r else None)" if r: "r \<in> set (lab_operations db)" for r
  proof -
    have s: "x = r" if "find (\<lambda>op. lo_id op = lo_id r) ?ops = Some x" for x
      using find_Some_in [OF that] queue_ok_same_row [OF assms(1) _ r] by simp
    have m: "find (\<lambda>op. lo_id op = lo_id r) ?ops = Some x \<Longrightarrow> ?p x" for x using find_Some_in by fastforce
    have k: "?p r \<Longrightarrow> find (\<lambda>op. lo_id op = lo_id r) ?ops \<noteq> None" using r by (auto simp: find_None_iff)
    show ?thesis using s m k by (cases "find (\<lambda>op. lo_id op = lo_id r) ?ops") auto
  qed
  from assms(2) obtain ce re where db': "db' = fold (recover_claim now ce re) ?ops db"
    by (auto simp: reclaim_previous_epoch_def Let_def)
  have "\<exists>r'. get_operation db' (lo_id r) = Some r'
         \<and> (if \<not> ?p r then r' = r
            else lo_attempts r' = lo_attempts r
              \<and> (if lo_attempts r < MAX_ATTEMPTS (lo_kind r)
                 then lo_state r' = ''queued'' \<and> lo_claimed_by r' = None \<and> lo_claimed_host r' = None
                      \<and> lo_claimed_epoch r' = None \<and> lo_not_before r' = now
                 else lo_state r' = ''failed'' \<and> lo_finished_at r' = Some now))" if r: "r \<in> set (lab_operations db)" for r
    unfolding db' get_recover_claims [OF d] f [OF r] get_operation_mem [OF assms(1) r]
    by (simp add: failed_row_def requeued_row_def clear_claim_fields_def)
  with n show ?thesis by blast
qed

theorem restart_reclaims_its_own_host_witness:
  "\<exists>r'. get_operation (fst (reclaim_previous_epoch (sample_claimed (sample_operation ''deploy'' None None)) 30 ''host'' ''next'')) 2 = Some r'
     \<and> lo_state r' = ''queued'' \<and> lo_attempts r' = 1"
proof -
  let ?db = "sample_claimed (sample_operation ''deploy'' None None)"
  have q: "queue_ok ?db"
    by (simp add: queue_ok_def op_ok_def open_count_def KINDS_def conditional_shape_def MAX_ATTEMPTS_def sample_defs)
  obtain db' n where c: "reclaim_previous_epoch ?db 30 ''host'' ''next'' = (db', n)" by force
  have "previous_epoch_claim ''host'' ''next'' (sample_operation ''deploy'' None None)"
    by (simp add: previous_epoch_claim_def sample_defs)
  with restart_reclaims_its_own_host [OF q c] c show ?thesis
    by (simp add: sample_claimed_def) (auto simp: sample_operation_def claim_row_def new_operation_def MAX_ATTEMPTS_def)
qed

section \<open>Properties of the worker\<close>

text \<open>C10. Fencing, whatever the other sessions commit while a worker runs. A run that reports success or failure has settled the
  operation row under its own claim, and grades reach the learning store only in a run that settled a \<open>check\<close> it owned. And if
  another session takes the claim while the worker runs (from some commit on, no row of the operation is \<open>claimed\<close> by this
  worker), the run reports neither success nor failure, grades nobody, and leaves the lab tables exactly as another session left
  them, with two exceptions the code makes for a deploy, whose admission is not fenced: the reservation of the instance, and the
  return of the operation to the queue when the capacity check refuses it.\<close>

theorem only_the_owner_publishes:
  assumes "run_claimed cfg engine now oid by' w = (w', out)"
    and "wk_env w = ps @ gs" and "\<forall>g \<in> set gs. \<forall>d. \<not> holds_claim oid by' (g d)"
  shows "(out \<noteq> Succeeded \<or> settled_as oid by' ''succeeded'' (wk_lab w'))
    \<and> (out \<noteq> Failed \<or> settled_as oid by' ''failed'' (wk_lab w'))
    \<and> (wk_learn w' = wk_learn w
       \<or> out = Succeeded \<and> (\<exists>op. get_operation (wk_lab w) oid = Some op \<and> lo_kind op = ''check'' \<and> owns by' op))
    \<and> (length (wk_env w') < length gs \<longrightarrow>
         wk_learn w' = wk_learn w \<and>
         (out = Stale \<and> (\<exists>g \<in> set gs. \<exists>d. wk_lab w' = g d)
          \<or> (\<exists>op inst. get_operation (wk_lab w) oid = Some op \<and> lo_kind op = ''deploy''
               \<and> get_instance (wk_lab w) (lo_instance op) = Some inst
               \<and> (\<exists>g \<in> set gs. \<exists>d. out = Stale \<and> wk_lab w' = publish (reserve inst) (g d)
                    \<or> out = Deferred \<and> \<not> capacity_available (g d) inst
                      \<and> wk_lab w' = requeue_for_capacity (g d) now oid (lo_instance op)))))"
proof -
  have t: "takes_claim oid by' gs" and a: "ahead gs w" using assms(2,3) by (auto simp: takes_claim_def ahead_def)
  have "?thesis \<longleftrightarrow> (length (wk_env w') < length gs \<longrightarrow>
         wk_learn w' = wk_learn w \<and>
         (out = Stale \<and> (\<exists>g \<in> set gs. \<exists>d. wk_lab w' = g d)
          \<or> (\<exists>op inst. get_operation (wk_lab w) oid = Some op \<and> lo_kind op = ''deploy''
               \<and> get_instance (wk_lab w) (lo_instance op) = Some inst
               \<and> (\<exists>g \<in> set gs. \<exists>d. out = Stale \<and> wk_lab w' = publish (reserve inst) (g d)
                    \<or> out = Deferred \<and> \<not> capacity_available (g d) inst
                      \<and> wk_lab w' = requeue_for_capacity (g d) now oid (lo_instance op)))))"
    using run_claimed_publishes [OF assms(1)] by blast
  moreover
  { assume l: "length (wk_env w') < length gs"
    then have na: "\<not> ahead gs w'" by (auto simp: ahead_def)
    from t a assms(1) l have ?thesis
    proof (cases rule: run_claimed_raced)
      case unwritten
      then show ?thesis unfolding calculation by (auto simp: overtaken_def)
    next
      case (admission op inst)
      from admission(5) na get_operation_id [OF admission(1)] get_instance_id [OF admission(3)]
      show ?thesis unfolding calculation
        by (intro impI conjI admission(4)) (simp only: body_raced.simps overtaken_def, use admission(1-3) in blast)
    qed }
  ultimately show ?thesis by blast
qed

definition overtaken_worker :: "string \<Rightarrow> lab_instance list \<Rightarrow> memory_runtime worker" where
  "overtaken_worker kind others =
     (sample_worker sample_db (sample_operation kind None None) [])
       \<lparr>wk_env := [\<lambda>_. (sample_claimed ((sample_operation kind None None)\<lparr>lo_claimed_by := Some ''v''\<rparr>))\<lparr>lab_instances := sample_instance # others\<rparr>]\<rparr>"

theorem only_the_owner_publishes_witness:
  "snd (run_claimed sample_config (containerlab_engine (sample_clab ''lab'') memory_cli) 20 2 ''w'' (overtaken_worker ''destroy'' []))
     \<notin> {Succeeded, Failed}"
proof -
  let ?w = "overtaken_worker ''destroy'' []"
  let ?g = "\<lambda>_ :: lab_db. (sample_claimed ((sample_operation ''destroy'' None None)\<lparr>lo_claimed_by := Some ''v''\<rparr>))\<lparr>lab_instances := [sample_instance]\<rparr>"
  obtain w' out where r: "run_claimed sample_config (containerlab_engine (sample_clab ''lab'') memory_cli) 20 2 ''w'' ?w = (w', out)" by force
  have e: "wk_env ?w = [] @ [?g]" by (simp add: overtaken_worker_def)
  have h: "\<forall>g \<in> set [?g]. \<forall>d. \<not> holds_claim 2 ''w'' (g d)"
    by (simp add: holds_claim_def sample_defs)
  have "wk_env (fst (run_claimed sample_config (containerlab_engine (sample_clab ''lab'') memory_cli) 20 2 ''w'' ?w)) = []" by code_simp
  with r have "length (wk_env w') < length [?g]" by simp
  with only_the_owner_publishes [OF r e h] r show ?thesis by auto
qed

text \<open>The exception at work: the worker of a deploy waits for the capacity lock, meanwhile its claim lapses and a second worker
  takes the operation over; the capacity check then refuses, and the first worker strips the second of its claim.\<close>

theorem capacity_requeue_is_unfenced:
  "(case run_claimed sample_config (containerlab_engine (sample_clab ''lab'') memory_cli) 20 2 ''w''
       (overtaken_worker ''deploy'' [sample_instance\<lparr>li_id := 3, li_presence := ''present''\<rparr>]) of
     (w', out) \<Rightarrow> (out, map (\<lambda>op. (lo_state op, lo_claimed_by op)) (lab_operations (wk_lab w'))))
   = (Deferred, [(''queued'', None)])"
  by code_simp

text \<open>C5. On the containerlab host the published projection tells the truth: if every row's \<open>runtime_presence\<close> agreed with
  the host before, a run of the worker that no other session disturbs ends, and afterwards no row says \<open>absent\<close> for a lab that
  runs or \<open>present\<close> for one that does not, whatever the engine raised on the way.\<close>

theorem projection_stays_honest:
  assumes "containerlab_runtime cli labs declares"
    and "honest (lab_running cg labs) (wk_host w) (wk_lab w)" "names_ok (wk_lab w)" "wk_env w = []"
    and "claim_alive oid by' (wk_lab w)"
    and "\<forall>j i. get_instance (wk_lab w) j = Some i \<longrightarrow>
        li_name i \<noteq> '''' \<and> topology_declares declares (wc_render cfg) (wk_lab w) i"
    and "run_claimed cfg (containerlab_engine cg cli) now oid by' w = (w', out)"
  shows "out \<noteq> Stale \<and> honest (lab_running cg labs) (wk_host w') (wk_lab w')"
proof -
  have "lab_engine_contract (containerlab_engine cg cli) (lab_running cg labs) declares"
    by (rule containerlab_runtime.clab_contract [OF assms(1)])
  from lab_engine_contract.run_claimed_honest [OF this assms(2-5) _ assms(7)] assms(6) show ?thesis by blast
qed

lemma sample_topology: "topology_declares memory_declares (wc_render sample_config) (wk_lab (sample_worker learn op labs)) sample_instance"
proof -
  have "set_topology_name ''topology'' ''dal-1'' = ''name: dal-1'' @ CHR 0x0A # ''topology''"
    by (simp add: set_topology_name_def newline_def match_name_line_def py_isspace_def Let_def)
  then show ?thesis
    by (simp add: topology_declares_def template_for_def topology_of_def interpolate_def memory_declares_def declared_name_def sample_defs)
qed

theorem projection_stays_honest_witness:
  "honest (lab_running (sample_clab ''lab'') memory_labs)
     (wk_host (fst (run_claimed sample_config (containerlab_engine (sample_clab ''lab'') memory_cli) 20 2 ''w''
        (sample_worker sample_db (sample_operation ''deploy'' None None) []))))
     (wk_lab (fst (run_claimed sample_config (containerlab_engine (sample_clab ''lab'') memory_cli) 20 2 ''w''
        (sample_worker sample_db (sample_operation ''deploy'' None None) []))))"
proof -
  let ?w = "sample_worker sample_db (sample_operation ''deploy'' None None) []"
  obtain w' out where r: "run_claimed sample_config (containerlab_engine (sample_clab ''lab'') memory_cli) 20 2 ''w'' ?w = (w', out)" by force
  have n: "\<forall>j i. get_instance (wk_lab ?w) j = Some i \<longrightarrow>
      li_name i \<noteq> '''' \<and> topology_declares memory_declares (wc_render sample_config) (wk_lab ?w) i"
    using sample_topology by (auto simp: sample_instance_def split: if_splits)
  have h: "honest (lab_running (sample_clab ''lab'') memory_labs) (wk_host ?w) (wk_lab ?w)" by (simp add: sample_honest)
  from projection_stays_honest [OF memory.containerlab_runtime_axioms h sample_honest(2) _ sample_honest(3) n r] r
  show ?thesis by simp
qed

text \<open>The conditional operations act on what the host shows, never on the stale row: a repair deploy of a lab that turns out to
  run, and a cleanup destroy of a lab that does not, leave the runtime and the topology files of the host exactly as they were.\<close>

theorem conditional_operations_respect_the_host:
  assumes "containerlab_runtime cli labs declares"
    and "run_claimed cfg (containerlab_engine cg cli) now oid by' w = (w', out)"
    and "get_operation (wk_lab w) oid = Some op" "get_instance (wk_lab w) (lo_instance op) = Some inst"
    and "(is_conditional_deploy op \<and> lab_running cg labs (wk_host w) (li_name inst))
         \<or> (is_conditional_destroy op \<and> \<not> lab_running cg labs (wk_host w) (li_name inst))"
  shows "same_machine (wk_host w) (wk_host w')"
  by (rule lab_engine_contract.conditional_run_inert [OF containerlab_runtime.clab_contract [OF assms(1)] assms(2-5)])

theorem conditional_operations_respect_the_host_witness:
  "same_machine (sample_host [])
     (wk_host (fst (run_claimed sample_config (containerlab_engine (sample_clab ''lab'') memory_cli) 20 2 ''w''
        (sample_worker sample_db (sample_operation ''destroy'' (Some ''runtime_cleanup'') (Some ''present'')) []))))"
proof -
  let ?op = "sample_operation ''destroy'' (Some ''runtime_cleanup'') (Some ''present'')"
  let ?w = "sample_worker sample_db ?op []"
  obtain w' out where r: "run_claimed sample_config (containerlab_engine (sample_clab ''lab'') memory_cli) 20 2 ''w'' ?w = (w', out)" by force
  have g: "get_instance (wk_lab ?w) (lo_instance ?op) = Some sample_instance" by simp
  have c: "is_conditional_destroy ?op \<and> \<not> lab_running (sample_clab ''lab'') memory_labs (wk_host ?w) (li_name sample_instance)"
    by (simp add: is_conditional_destroy_def lab_running_def memory_labs_def sample_host_def)
  from conditional_operations_respect_the_host [OF memory.containerlab_runtime_axioms r sample_get g disjI2 [OF c]] r
  show ?thesis by simp
qed

text \<open>C20. \<open>drain_once\<close> ends: undisturbed, and for as long as the clock has not moved past the retry delay of its start, the loop
  runs at most once per queued row and then finds no ready row, because a row it puts back is not ready again before the delay.\<close>

theorem drain_terminates:
  assumes "wk_env w = []" "\<forall>k. clock 0 \<le> clock k \<and> clock k < clock 0 + RETRY_DELAY_SECONDS"
    and "count_rows (\<lambda>op. lo_state op = ''queued'') (lab_operations (wk_lab w)) < fuel"
  shows "\<exists>w' n. drain_once fuel clock cfg engine by' host epoch w = Some (w', n)"
proof -
  let ?t = "clock 0 + RETRY_DELAY_SECONDS"
  have "pending_count ?t (wk_lab w) \<le> count_rows (\<lambda>op. lo_state op = ''queued'') (lab_operations (wk_lab w))"
    unfolding pending_count_def by (rule count_rows_mono) (simp add: pending_def)
  with assms(3) have "pending_count ?t (wk_lab w) < fuel" by simp
  then have "drain_loop fuel 0 clock cfg engine by' host epoch w \<noteq> None"
    by (intro drain_loop_ends [where t = ?t]) (use assms(1,2) in simp_all)
  then show ?thesis unfolding drain_once_def by auto
qed

theorem drain_terminates_witness:
  "\<exists>w' n. drain_once 2 (\<lambda>k. 20) sample_config (containerlab_engine (sample_clab ''lab'') memory_cli) ''w'' None None
     (sample_worker sample_db (new_operation sample_lab_db 0 sample_instance ''deploy'' None None None) []) = Some (w', n)"
  by (rule drain_terminates) (simp_all add: RETRY_DELAY_SECONDS_def new_operation_def)

text \<open>C38. A worker on the wrong host does nothing to it: an undisturbed destroy it has claimed fails with an error that starts
  \<open>[operator-refusal] \<close>, which the escalation counts skip, and its attempt is refunded; host, learning store, status, error and
  presence of the instance are as before. The recorded consoles are kept by the conditional destroy only: the ordinary one has
  already published the empty ones when the engine refuses, although the handler's comment says that a refusal does not alter what
  the learner sees.\<close>

theorem wrong_host_only_refuses:
  assumes "wrong_host cg" "lo_kind op = ''destroy''" "wk_env w = []"
    and "get_operation (wk_lab w) oid = Some op" "owns by' op" "get_instance (wk_lab w) (lo_instance op) = Some inst"
    and "run_claimed cfg (containerlab_engine cg cli) now oid by' w = (w', out)"
  shows "out = Failed \<and> wk_host w' = wk_host w \<and> wk_learn w' = wk_learn w
    \<and> (\<exists>op'. get_operation (wk_lab w') oid = Some op' \<and> lo_state op' = ''failed'' \<and> lo_attempts op' = lo_attempts op - 1
           \<and> (\<exists>m. lo_last_error op' = Some (''[operator-refusal] '' @ m))
           \<and> (\<forall>db kind origin i cur. \<not> counted_failure db kind origin i cur op'))
    \<and> (\<exists>r. get_instance (wk_lab w') (lo_instance op) = Some r
           \<and> li_status r = li_status inst \<and> li_error r = li_error inst \<and> li_presence r = li_presence inst
           \<and> li_consoles r = (if is_conditional_destroy op then li_consoles inst else []))"
proof -
  have r: "lo_state (settle_row now ''failed'' m True op) = ''failed''" "lo_attempts (settle_row now ''failed'' m True op) = lo_attempts op - 1"
    "lo_last_error (settle_row now ''failed'' m True op) = m" for m
    by (simp_all add: settle_row_def)
  have p: "OPERATOR_REFUSAL_PREFIX @ m = ''[operator-refusal] '' @ m" for m by (simp add: OPERATOR_REFUSAL_PREFIX_def)
  have e: "\<exists>m. OPERATOR_REFUSAL_PREFIX @ n = ''[operator-refusal] '' @ m" for n using p by blast
  show ?thesis using wrong_host_run [OF assms] operator_refusal_prefix r e
    by (auto simp: counted_failure_def simp del: One_nat_def)
qed

theorem wrong_host_only_refuses_witness:
  "snd (run_claimed sample_config (containerlab_engine (sample_clab ''web'') memory_cli) 20 2 ''w''
     (sample_worker sample_db (sample_operation ''destroy'' None None) [])) = Failed"
proof -
  let ?op = "sample_operation ''destroy'' None None"
  let ?w = "sample_worker sample_db ?op []"
  obtain w' out where r: "run_claimed sample_config (containerlab_engine (sample_clab ''web'') memory_cli) 20 2 ''w'' ?w = (w', out)" by force
  have wh: "wrong_host (sample_clab ''web'')" by (simp add: wrong_host_def sample_clab_def py_lower_def py_lower_char_def Let_def)
  have g: "get_instance (wk_lab ?w) (lo_instance ?op) = Some sample_instance" by simp
  from wrong_host_only_refuses [OF wh _ _ sample_get _ g r] r show ?thesis by simp
qed

section \<open>Properties of launching and grading\<close>

text \<open>Launching is idempotent: a retried launch returns the same lab and changes nothing, and a first launch leaves the queue
  consistent with the new instance queued under exactly one open operation.\<close>

theorem launch_is_idempotent:
  assumes "queue_ok lab" "request_lab H R day lab learn now t p act tmpl = Inr (lab', learn', i)"
  shows "request_lab H R day lab' learn' now' t p act tmpl' = Inr (lab', learn', i)
    \<and> (current_lab lab t p (act_id act) \<noteq> None
       \<or> queue_ok lab' \<and> li_status i = ''queued'' \<and> open_count lab' (li_id i) = 1)"
proof -
  have "open_count lab' (li_id i) = 1" if "queue_ok lab'" "op \<in> set (lab_operations lab')" "lo_instance op = li_id i" "is_open op" for op
  proof -
    have "open_count lab' (li_id i) \<noteq> 0" using that by (auto simp: open_count_def count_rows_def filter_empty_conv)
    with that(1) show ?thesis by (metis One_nat_def le_antisym less_Suc0 not_less queue_ok_def)
  qed
  with request_lab_again [OF assms(2)] request_lab_queue [OF assms] show ?thesis by blast
qed

definition launched_lab :: "(lab_db \<times> academy_db \<times> lab_instance) result" where
  "launched_lab = request_lab (\<lambda>_. ''00000000'') (\<lambda>_. \<lparr>pr_randint = (\<lambda>_ a b. a), pr_choice = (\<lambda>_ _. 0)\<rparr>) id
     (sample_lab_db\<lparr>lab_instances := []\<rparr>) sample_db 50 11 7 sample_activity sample_template"

theorem launch_is_idempotent_witness:
  "\<exists>lab learn i. launched_lab = Inr (lab, learn, i) \<and> open_count lab (li_id i) = 1"
proof -
  let ?lab = "sample_lab_db\<lparr>lab_instances := []\<rparr>"
  have n: "current_lab ?lab 11 7 (act_id sample_activity) = None" by (simp add: current_lab_def)
  have f: "lab_operations sample_lab_db = []" "lt_seed_spec sample_template = []"
    by (simp_all add: sample_lab_db_def sample_template_def)
  obtain lab learn i where l: "launched_lab = Inr (lab, learn, i)"
    unfolding launched_lab_def
    using n by (simp add: request_lab_def generate_seed_def enqueue_def enqueue_among_def insert_open_operation_def KINDS_def
        conditional_shape_def open_operation_def f Let_def)
  have q: "queue_ok ?lab" by (simp add: queue_ok_def open_count_def sample_lab_db_def)
  from launch_is_idempotent [OF q l [unfolded launched_lab_def], of 0 sample_template] n
  have "open_count lab (li_id i) = 1" by simp
  with l show ?thesis by blast
qed

text \<open>What a provision records in \<open>consoles\<close> is enough to rebuild the handle: when every container of the deploy's answer
  follows containerlab's naming convention, \<open>handle_for\<close> of the stored consoles is the very handle the deploy returned.\<close>

theorem recorded_consoles_rebuild_the_handle:
  assumes "handle_of_items (li_name i) items (empty_handle (li_name i)) = Some ha" "names_follow (li_name i) items"
  shows "handle_for (activate now (snd (build_consoles_from_handle (li_id i) ha h)) i) = ha"
proof (rule handle_for_consoles)
  show "conventional (li_name i) ha"
    by (rule handle_of_items_conventional [OF assms(1) _ assms(2)]) (simp add: conventional_def empty_handle_def)
qed (simp_all add: activate_def)

theorem recorded_consoles_rebuild_the_handle_witness:
  "\<exists>ha. handle_of_items ''dal-1'' [memory_node (''dal-1'', ''/labs/dal-1/topo.clab.yml'')] (empty_handle ''dal-1'') = Some ha
     \<and> handle_for (activate 0 (snd (build_consoles_from_handle 1 ha (sample_host []))) sample_instance) = ha"
proof -
  let ?items = "[memory_node (''dal-1'', ''/labs/dal-1/topo.clab.yml'')]"
  have n: "li_name sample_instance = ''dal-1''" "li_id sample_instance = 1" by (simp_all add: sample_instance_def)
  obtain ha where h: "handle_of_items (li_name sample_instance) ?items (empty_handle (li_name sample_instance)) = Some ha"
    by (simp add: memory_node_def obj_get_def)
  have "names_follow (li_name sample_instance) ?items" by (simp add: names_follow_def memory_node_def obj_get_def n)
  from recorded_consoles_rebuild_the_handle [OF h this, of 0 "sample_host []"] h n show ?thesis by simp
qed

text \<open>The grade of a lab stays in range and says what it means: with non-negative check weights the score lies between 0 and the
  sum of the weights, the fraction between 0 and 1, a pass is a score of at least threshold times maximum on a non-empty
  scale, and only an active lab without an error is graded.\<close>

theorem lab_grade_is_bounded:
  assumes "grade before (eval_on_host ce engine i) day learn now t i w = (w', Inr (learn', sc, i'))"
    and "\<forall>c \<in> set (lt_checks t). 0 \<le> lc_weight c"
  shows "0 \<le> sc_score sc \<and> sc_score sc \<le> sc_max_score sc \<and> sc_max_score sc = rat_of_int (max_check_score (lt_checks t))
    \<and> 0 \<le> sc_fraction sc \<and> sc_fraction sc \<le> 1
    \<and> (sc_passed sc \<longleftrightarrow> 0 < sc_max_score sc \<and> lab_threshold learn t i * sc_max_score sc \<le> sc_score sc)
    \<and> li_status i = ''active'' \<and> li_error i = None"
proof -
  have "\<exists>rs. map cr_weight rs = map lc_weight (lt_checks t) \<and> sc = lab_score learn now t i rs
      \<and> record_lab_grade day learn now t i rs = Inr (learn', sc) \<and> li_status i = ''active'' \<and> li_error i = None"
    by (rule grade_result [OF assms(1)]) (auto simp: eval_on_host_def split: prod.splits dest: eval_check_weight)
  then obtain rs where rs: "map cr_weight rs = map lc_weight (lt_checks t)"
    "sc = lab_score learn now t i rs" "li_status i = ''active''" "li_error i = None" by blast
  from lab_score_bounds [OF rs(1) assms(2) rs(2)] rs show ?thesis by (simp add: lab_score_def Let_def)
qed

definition graded_instance :: lab_instance where
  "graded_instance = sample_instance\<lparr>li_tenant := 11, li_person := 7, li_activity := 3, li_status := ''active'', li_presence := ''present'',
     li_consoles := [(''r1'', \<lparr>cs_kind = Some ''linux'', cs_mgmt = Some [], cs_port = None\<rparr>)]\<rparr>"

definition graded_template :: lab_template where
  "graded_template = sample_template\<lparr>lt_tenant := 11, lt_activity := 3, lt_pass_threshold := Some (9 / 10),
     lt_checks := [\<lparr>lc_id = ''a'', lc_type = ''command'', lc_label = ''exit 0'', lc_weight = 2, lc_hint = None, lc_node = ''r1'',
                      lc_body = [(''command'', JStr ''true''), (''assert'', JObj [(''exit_code'', JInt 0)])]\<rparr>,
                   \<lparr>lc_id = ''b'', lc_type = ''command'', lc_label = ''exit 1'', lc_weight = 3, lc_hint = None, lc_node = ''r1'',
                      lc_body = [(''command'', JStr ''false''), (''assert'', JObj [(''exit_code'', JInt 1)])]\<rparr>]\<rparr>"

definition graded_run :: "memory_runtime worker \<times> (engine_error + academy_db \<times> score_row \<times> lab_instance)" where
  "graded_run = grade (\<lambda>w. (w, Inr ())) (eval_on_host (wc_checks sample_config) (containerlab_engine (sample_clab ''lab'') memory_cli) graded_instance)
     id sample_db 50 graded_template graded_instance (sample_worker sample_db (sample_operation ''check'' None None) [(''dal-1'', ''/labs/dal-1/topo.clab.yml'')])"

theorem lab_grade_is_bounded_witness:
  "\<exists>w' learn sc i. graded_run = (w', Inr (learn, sc, i)) \<and> sc_score sc \<le> 5 \<and> sc_max_score sc = 5"
proof -
  have "case snd graded_run of Inr x \<Rightarrow> True | Inl e \<Rightarrow> False"
    by code_simp
  then obtain x where "snd graded_run = Inr x" by (auto split: sum.splits)
  then obtain w' learn sc i where g: "graded_run = (w', Inr (learn, sc, i))" by (cases x) (metis prod.collapse)
  have "\<forall>c \<in> set (lt_checks graded_template). 0 \<le> lc_weight c" by (simp add: graded_template_def)
  from lab_grade_is_bounded [OF g [unfolded graded_run_def] this]
  have "sc_score sc \<le> sc_max_score sc \<and> sc_max_score sc = rat_of_int (max_check_score (lt_checks graded_template))" by blast
  then have "sc_score sc \<le> 5 \<and> sc_max_score sc = 5" by (simp add: graded_template_def max_check_score_def)
  with g show ?thesis by blast
qed

text \<open>The advisory lock key of a launch stream is the signed 64-bit value of the first eight digest bytes: it fits
  PostgreSQL's \<open>bigint\<close>, and two streams share a key only when those bytes agree as a 64-bit word.\<close>

theorem launch_lock_key_is_a_bigint:
  "launch_lock_key digest t p a
     = sint (word_of_nat (be_value (take 8 (digest (''lab-launch:'' @ uuid_str t @ '':'' @ uuid_str p @ '':'' @ uuid_str a)))) :: 64 word)
   \<and> - (2 ^ 63) \<le> launch_lock_key digest t p a \<and> launch_lock_key digest t p a < 2 ^ 63"
proof -
  have "- (2 ^ (64 - 1)) \<le> sint x \<and> sint x < 2 ^ (64 - 1)" for x :: "64 word"
    using sint_ge [of x] sint_lt [of x] by simp
  then show ?thesis unfolding launch_lock_key_word by simp
qed

end
