(* ===== verification/Lab_Jobs.thy ===== *)
theory Lab_Jobs
  imports Lab_Worker Lab_Queue_Invariant "HOL-Library.AList"
begin

text \<open>
  \<open>services/lab_jobs.py\<close> and the lab commands of \<open>cli.py\<close>: the idle reaper, the console sweep,
  console recovery, the runtime reconciler, and the two processes that call them. A job runs
  over the worker's world of \<open>Lab_Worker\<close>; \<open>others_commit\<close> stands where other sessions can
  commit before the job reads again. Also \<open>services/lab_console_activity.py\<close>, the heartbeat
  the reaper reads.
\<close>

section \<open>Console heartbeats\<close>

definition HEARTBEAT_INTERVAL_SECONDS :: rat where "HEARTBEAT_INTERVAL_SECONDS = 60"
definition MAX_TRACKED :: nat where "MAX_TRACKED = 4096"

text \<open>The in-process table of the last attempts, in insertion order; times are monotonic seconds.\<close>

type_synonym throttle = "(uuid \<times> rat) list"

definition evict_oldest :: "nat \<Rightarrow> throttle \<Rightarrow> throttle" where
  "evict_oldest n tracked =
     (let old = map fst (take n (sort_key snd tracked)) in filter (\<lambda>(k, t). k \<notin> set old) tracked)"

definition make_room :: "nat \<Rightarrow> rat \<Rightarrow> throttle \<Rightarrow> throttle" where
  "make_room cap now tracked =
     (if length tracked < cap then tracked
      else let recent = filter (\<lambda>(k, t). \<not> t < now - HEARTBEAT_INTERVAL_SECONDS) tracked
           in if length recent < cap then recent else evict_oldest (cap div 2) recent)"

definition due_among :: "nat \<Rightarrow> uuid \<Rightarrow> rat \<Rightarrow> throttle \<Rightarrow> throttle \<times> bool" where
  "due_among cap i now tracked =
     (if (case map_of tracked i of None \<Rightarrow> False | Some t \<Rightarrow> now - t < HEARTBEAT_INTERVAL_SECONDS)
      then (tracked, False)
      else (AList.update i now (make_room cap now tracked), True))"

definition due :: "uuid \<Rightarrow> rat \<Rightarrow> throttle \<Rightarrow> throttle \<times> bool" where
  "due = due_among MAX_TRACKED"

text \<open>The upsert; \<open>now\<close> is the transaction's clock, \<open>tick\<close> the process's.\<close>

definition upsert_heartbeat :: "lab_db \<Rightarrow> instant \<Rightarrow> uuid \<Rightarrow> uuid \<Rightarrow> lab_db" where
  "upsert_heartbeat db now tenant i =
     (if list_ex (\<lambda>c. ca_instance c = i) (console_activities db)
      then db\<lparr>console_activities :=
                update_rows (\<lambda>c. ca_instance c = i \<and> ca_last_seen_at c < now - 60)
                  (\<lambda>c. c\<lparr>ca_last_seen_at := now\<rparr>) (console_activities db)\<rparr>
      else db\<lparr>console_activities := console_activities db @
                [\<lparr>ca_instance = i, ca_tenant = tenant, ca_last_seen_at = now\<rparr>]\<rparr>)"

definition record_heartbeat ::
    "lab_db \<Rightarrow> instant \<Rightarrow> rat \<Rightarrow> uuid \<Rightarrow> uuid \<Rightarrow> bool \<Rightarrow> throttle \<Rightarrow> lab_db \<times> throttle \<times> bool" where
  "record_heartbeat db now tick tenant i throttled tracked =
     (if throttled
      then (case due i tick tracked of
              (tracked', False) \<Rightarrow> (db, tracked', False)
            | (tracked', True) \<Rightarrow> (upsert_heartbeat db now tenant i, tracked', True))
      else (upsert_heartbeat db now tenant i, tracked, True))"

section \<open>The idle reaper\<close>

definition last_seen :: "lab_db \<Rightarrow> uuid \<Rightarrow> instant option" where
  "last_seen db i = map_option ca_last_seen_at (find (\<lambda>c. ca_instance c = i) (console_activities db))"

text \<open>\<open>greatest\<close> ignores nulls.\<close>

definition greatest :: "instant option \<Rightarrow> instant option \<Rightarrow> instant option" where
  "greatest a b = (case a of None \<Rightarrow> b
     | Some x \<Rightarrow> (case b of None \<Rightarrow> Some x | Some y \<Rightarrow> Some (max x y)))"

definition idle_since :: "lab_db \<Rightarrow> instant \<Rightarrow> lab_instance \<Rightarrow> bool" where
  "idle_since db cutoff i =
     (li_status i = ''active''
      \<and> (case greatest (li_last_active_at i) (last_seen db (li_id i)) of None \<Rightarrow> False | Some t \<Rightarrow> t < cutoff))"

fun request_destroys :: "instant \<Rightarrow> lab_instance list \<Rightarrow> lab_db \<Rightarrow> (lab_db \<times> nat) result" where
  "request_destroys now [] db = Inr (db, 0)"
| "request_destroys now (i # is) db =
     and_then (enqueue db now i ''destroy'' None None None) (\<lambda>(db1, op).
       and_then (request_destroys now is db1) (\<lambda>(db2, n).
         Inr (db2, n + (if lo_kind op = ''destroy'' then 1 else 0))))"

definition request_idle_reaps :: "lab_db \<Rightarrow> instant \<Rightarrow> (lab_db \<times> nat) result" where
  "request_idle_reaps db now =
     (let cutoff = now - 60 * lab_idle_minutes (lab_config db)
      in request_destroys now (filter (idle_since db cutoff) (lab_instances db)) db)"

section \<open>Console sweep\<close>

definition sweep_orphan_consoles :: "lab_db \<Rightarrow> 'r lab_host \<Rightarrow> 'r lab_host \<times> nat" where
  "sweep_orphan_consoles db h =
     (let running = console_pids None h;
          live = map (\<lambda>i. uuid_str (li_id i)) (filter consuming (lab_instances db))
      in kill_consoles (map snd (filter (\<lambda>(i, pid). i \<notin> set live) running)) h)"

section \<open>Console recovery\<close>

definition recoverable :: "lab_db \<Rightarrow> lab_instance \<Rightarrow> bool" where
  "recoverable db i =
     (li_status i = ''active'' \<and> li_presence i = ''present'' \<and> open_operation db (li_id i) = None)"

definition node_processes :: "ttyd_process list \<Rightarrow> uuid \<Rightarrow> string \<Rightarrow> ttyd_process list" where
  "node_processes running i node = filter (\<lambda>p. tp_instance p = uuid_str i \<and> tp_node p = node) running"

text \<open>An empty projection, a Linux node without a process, or a live port the projection does not record.\<close>

definition console_drift :: "ttyd_process list \<Rightarrow> uuid \<Rightarrow> string \<times> console_spec \<Rightarrow> bool" where
  "console_drift running i nc =
     (is_linux_kind (cs_kind (snd nc))
      \<and> (case node_processes running i (fst nc) of
           [] \<Rightarrow> True
         | p # _ \<Rightarrow> tp_port p \<noteq> None \<and> tp_port p \<noteq> cs_port (snd nc)))"

definition needs_recovery :: "ttyd_process list \<Rightarrow> lab_instance \<Rightarrow> bool" where
  "needs_recovery running i = (li_consoles i = [] \<or> list_ex (console_drift running (li_id i)) (li_consoles i))"

definition recover_console ::
    "ttyd_process list \<Rightarrow> lab_instance \<Rightarrow> lab_handle \<Rightarrow> string \<Rightarrow> 'r lab_host \<Rightarrow> 'r lab_host \<times> console_spec \<times> nat" where
  "recover_console running i ha node h =
     (let kind = (case map_of (ha_kinds ha) node of Some k \<Rightarrow> k | None \<Rightarrow> None);
          spec = (\<lambda>port. \<lparr>cs_kind = kind, cs_mgmt = map_of (ha_mgmt ha) node, cs_port = port\<rparr>)
      in if \<not> is_linux_kind kind then (h, spec None, 0)
         else case node_processes running (li_id i) node of
                p # _ \<Rightarrow>
                  (h, spec (case tp_port p of Some q \<Rightarrow> Some q
                            | None \<Rightarrow> (case map_of (li_consoles i) node of Some c \<Rightarrow> cs_port c | None \<Rightarrow> None)), 0)
              | [] \<Rightarrow>
                  (case start_console (li_id i) node h of
                     (h1, port) \<Rightarrow> (h1, spec port, if port = None then 0 else 1)))"

fun recover_consoles ::
    "ttyd_process list \<Rightarrow> lab_instance \<Rightarrow> lab_handle \<Rightarrow> string list \<Rightarrow> 'r lab_host \<Rightarrow>
     'r lab_host \<times> (string \<times> console_spec) list \<times> nat" where
  "recover_consoles running i ha [] h = (h, [], 0)"
| "recover_consoles running i ha (n # ns) h =
     (case recover_console running i ha n h of (h1, spec, k) \<Rightarrow>
        case recover_consoles running i ha ns h1 of (h2, specs, m) \<Rightarrow> (h2, (n, spec) # specs, k + m))"

definition recover_instance :: "'r lab_engine \<Rightarrow> ttyd_process list \<Rightarrow> lab_instance \<Rightarrow> 'r worker \<Rightarrow> 'r worker \<times> nat" where
  "recover_instance engine running i w =
     (if \<not> needs_recovery running i then (w, 0)
      else case en_inspect_running engine (li_name i) (wk_host w) of
        (h, Inl e) \<Rightarrow> (w\<lparr>wk_host := h\<rparr>, 0)
      | (h, Inr None) \<Rightarrow> (w\<lparr>wk_host := h\<rparr>, 0)
      | (h, Inr (Some ha)) \<Rightarrow>
          (case recover_consoles running i ha (map fst (ha_nodes ha)) h of
             (h1, consoles, k) \<Rightarrow>
               (w\<lparr>wk_host := h1,
                  wk_lab := set_instance (li_id i) (\<lambda>r. r\<lparr>li_consoles := consoles\<rparr>) (wk_lab w)\<rparr>, k)))"

fun recover_instances :: "'r lab_engine \<Rightarrow> ttyd_process list \<Rightarrow> lab_instance list \<Rightarrow> 'r worker \<Rightarrow> 'r worker \<times> nat" where
  "recover_instances engine running [] w = (w, 0)"
| "recover_instances engine running (i # is) w =
     (case recover_instance engine running i w of (w1, k) \<Rightarrow>
        case recover_instances engine running is w1 of (w2, m) \<Rightarrow> (w2, k + m))"

definition recover_missing_consoles :: "'r lab_engine \<Rightarrow> 'r worker \<Rightarrow> 'r worker \<times> nat" where
  "recover_missing_consoles engine w =
     (case console_processes None (wk_host w) of
        None \<Rightarrow> (w, 0)
      | Some running \<Rightarrow>
          recover_instances engine running (filter (recoverable (wk_lab w)) (lab_instances (wk_lab w))) w)"

section \<open>The runtime reconciler\<close>

definition live_status :: "string \<Rightarrow> bool" where
  "live_status s = (s = ''provisioning'' \<or> s = ''active'' \<or> s = ''resetting'')"

definition open_instance_ids :: "lab_db \<Rightarrow> uuid list" where
  "open_instance_ids db = map lo_instance (filter is_open (lab_operations db))"

text \<open>Whether a row still asks for a cleanup, or for a repair, given an inventory and the open operations.\<close>

definition wants_cleanup :: "string list \<Rightarrow> uuid list \<Rightarrow> lab_instance \<Rightarrow> bool" where
  "wants_cleanup runtime opened i =
     (\<not> live_status (li_status i) \<and> li_status i \<noteq> ''error'' \<and> li_id i \<notin> set opened \<and> li_name i \<in> set runtime)"

definition wants_repair :: "string list \<Rightarrow> uuid list \<Rightarrow> lab_instance \<Rightarrow> bool" where
  "wants_repair runtime opened i =
     (live_status (li_status i) \<and> li_id i \<notin> set opened \<and> li_name i \<notin> set runtime)"

record repair_plan =
  rp_orphans :: "string list"
  rp_cleanups :: "lab_instance list"
  rp_repairs :: "lab_instance list"

definition plan_repairs :: "string list \<Rightarrow> lab_db \<Rightarrow> repair_plan" where
  "plan_repairs runtime db =
     (let rows = lab_instances db; opened = open_instance_ids db;
          names = filter (\<lambda>n. starts_with n ''dal-'') (sort (remdups runtime))
      in \<lparr>rp_orphans = filter (\<lambda>n. n \<notin> li_name ` set rows) names,
          rp_cleanups = concat (map (\<lambda>n. filter (\<lambda>i. li_name i = n \<and> wants_cleanup runtime opened i) rows) names),
          rp_repairs = filter (wants_repair runtime opened) rows\<rparr>)"

fun destroy_orphans :: "'r lab_engine \<Rightarrow> string list \<Rightarrow> ('r, nat) action" where
  "destroy_orphans engine [] h = (h, Inr 0)"
| "destroy_orphans engine (n # ns) h =
     (case en_destroy engine n h of
        (h1, Inl e) \<Rightarrow> (h1, Inl e)
      | (h1, Inr ()) \<Rightarrow>
          (case destroy_orphans engine ns h1 of
             (h2, Inl e) \<Rightarrow> (h2, Inl e) | (h2, Inr k) \<Rightarrow> (h2, Inr (Suc k))))"

text \<open>The unit of work writes the column only where it differs from the loaded value.\<close>

definition observe_presence :: "lab_instance \<Rightarrow> string \<Rightarrow> lab_db \<Rightarrow> lab_db" where
  "observe_presence loaded p db =
     (if li_presence loaded = p then db else set_instance (li_id loaded) (\<lambda>r. r\<lparr>li_presence := p\<rparr>) db)"

text \<open>
  One conditional operation: the row is read again, checked again, and the operation counts
  only if the queue returned the very operation this pass asked for.
\<close>

definition queue_conditional ::
    "(lab_instance \<Rightarrow> bool) \<Rightarrow> string \<Rightarrow> string \<Rightarrow> string \<Rightarrow> instant \<Rightarrow> lab_instance \<Rightarrow> 'r worker \<Rightarrow>
     'r worker \<times> (engine_error + nat)" where
  "queue_conditional still kind origin pre now cand w =
     (let w1 = others_commit w
      in case get_instance (wk_lab w1) (li_id cand) of
           None \<Rightarrow> (w1, Inl (RuntimeError ''could not refresh the instance''))
         | Some i \<Rightarrow>
             if \<not> still i then (w1, Inr 0)
             else let w2 = others_commit w1
               in case enqueue (wk_lab w2) now i kind None (Some origin) (Some pre) of
                    Inl e \<Rightarrow> (w2, Inl (RuntimeError ''the conditional operation was rejected''))
                  | Inr (db, op) \<Rightarrow>
                      if lo_kind op \<noteq> kind \<or> lo_origin op \<noteq> Some origin \<or> lo_precondition op \<noteq> Some pre
                      then (w2\<lparr>wk_lab := db\<rparr>, Inr 0)
                      else (w2\<lparr>wk_lab := observe_presence i pre db\<rparr>, Inr 1))"

fun queue_all ::
    "(lab_instance \<Rightarrow> 'r worker \<Rightarrow> 'r worker \<times> (engine_error + nat)) \<Rightarrow> lab_instance list \<Rightarrow> 'r worker \<Rightarrow>
     'r worker \<times> (engine_error + nat)" where
  "queue_all f [] w = (w, Inr 0)"
| "queue_all f (i # is) w =
     (case f i w of
        (w1, Inl e) \<Rightarrow> (w1, Inl e)
      | (w1, Inr k) \<Rightarrow>
          (case queue_all f is w1 of (w2, Inl e) \<Rightarrow> (w2, Inl e) | (w2, Inr m) \<Rightarrow> (w2, Inr (k + m))))"

text \<open>Phase 4, against the second inventory and the open operations read after it.\<close>

definition queue_repairs :: "instant \<Rightarrow> string list \<Rightarrow> repair_plan \<Rightarrow> 'r worker \<Rightarrow> 'r worker \<times> (engine_error + nat)" where
  "queue_repairs now runtime plan w =
     (let opened = open_instance_ids (wk_lab w)
      in case queue_all (queue_conditional (wants_cleanup runtime opened) ''destroy'' ''runtime_cleanup'' ''present'' now)
                (rp_cleanups plan) w of
           (w1, Inl e) \<Rightarrow> (w1, Inl e)
         | (w1, Inr k) \<Rightarrow>
             (case queue_all (queue_conditional (wants_repair runtime opened) ''deploy'' ''runtime_repair'' ''absent'' now)
                     (rp_repairs plan) w1 of
                (w2, Inl e) \<Rightarrow> (w2, Inl e)
              | (w2, Inr m) \<Rightarrow> (w2, Inr (k + m))))"

text \<open>
  The pass. A conditional operation that fails ends it with an error; what it queued before stays in the store here, while the
  command's session rolls it back.
\<close>

definition reconcile_runtime :: "'r lab_engine \<Rightarrow> instant \<Rightarrow> 'r worker \<Rightarrow> 'r worker \<times> (engine_error + nat \<times> nat)" where
  "reconcile_runtime engine now w =
     (case en_inventory engine (wk_host w) of
        (h, Inl e) \<Rightarrow> (w\<lparr>wk_host := h\<rparr>, Inl e)
      | (h, Inr labs) \<Rightarrow>
          let w1 = others_commit (w\<lparr>wk_host := h\<rparr>)
          in if \<not> distinct (map li_name (lab_instances (wk_lab w1)))
             then (w1, Inl (RuntimeError ''duplicate lab instance names prevent safe runtime reconciliation''))
             else let plan = plan_repairs (map fst labs) (wk_lab w1)
               in case destroy_orphans engine (rp_orphans plan) (wk_host w1) of
                    (h2, Inl e) \<Rightarrow> (w1\<lparr>wk_host := h2\<rparr>, Inl e)
                  | (h2, Inr destroyed) \<Rightarrow>
                      (case en_inventory engine h2 of
                         (h3, Inl e) \<Rightarrow> (w1\<lparr>wk_host := h3\<rparr>, Inl e)
                       | (h3, Inr labs2) \<Rightarrow>
                           (case queue_repairs now (map fst labs2) plan (others_commit (w1\<lparr>wk_host := h3\<rparr>)) of
                              (w2, Inl e) \<Rightarrow> (w2, Inl e)
                            | (w2, Inr queued) \<Rightarrow> (w2, Inr (queued, destroyed)))))"

section \<open>The processes\<close>

text \<open>\<open>_lab_reconcile\<close>: \<open>None\<close> is a pass abandoned because the host lock was held.\<close>

definition lab_reconcile ::
    "'r lab_engine \<Rightarrow> instant \<Rightarrow> 'r worker \<Rightarrow> 'r worker \<times> (engine_error + (nat \<times> nat \<times> nat \<times> nat) option)" where
  "lab_reconcile engine now w =
     (case reconcile_stuck (\<lambda>_. False) (\<lambda>_. False) (wk_lab w) now None of
        Inl e \<Rightarrow> (w, Inl (RuntimeError ''the stuck operations could not be reconciled''))
      | Inr (db, requeued) \<Rightarrow>
          (case reconcile_runtime engine now (w\<lparr>wk_lab := db\<rparr>) of
             (w1, Inl HostLockUnavailable) \<Rightarrow> (w1, Inr None)
           | (w1, Inl e) \<Rightarrow> (w1, Inl e)
           | (w1, Inr (queued, destroyed)) \<Rightarrow>
               (case sweep_orphan_consoles (wk_lab w1) (wk_host w1) of
                  (h, orphans) \<Rightarrow> (w1\<lparr>wk_host := h\<rparr>, Inr (Some (requeued, queued, destroyed, orphans))))))"

text \<open>One turn of \<open>_lab_worker\<close>'s loop, and its start.\<close>

definition worker_turn ::
    "nat \<Rightarrow> (nat \<Rightarrow> instant) \<Rightarrow> worker_config \<Rightarrow> 'r lab_engine \<Rightarrow> worker_identity \<Rightarrow> 'r worker \<Rightarrow>
     ('r worker \<times> nat \<times> nat \<times> nat) option result" where
  "worker_turn fuel clock cfg engine who w =
     and_then (reconcile_stuck (\<lambda>_. False) (\<lambda>_. False) (wk_lab w) (clock 0) None) (\<lambda>(db, repaired).
       case recover_missing_consoles engine (w\<lparr>wk_lab := db\<rparr>) of (w1, recovered) \<Rightarrow>
         Inr (map_option (\<lambda>(w2, n). (w2, repaired, recovered, n))
                (drain_once fuel clock cfg engine (claimed_by_of who) (Some (wi_host who)) (Some (wi_epoch who)) w1)))"

definition worker_start :: "instant \<Rightarrow> worker_identity \<Rightarrow> 'r worker \<Rightarrow> 'r worker \<times> nat" where
  "worker_start now who w =
     (case reclaim_previous_epoch (wk_lab w) now (wi_host who) (wi_epoch who) of
        (db, n) \<Rightarrow> (w\<lparr>wk_lab := db\<rparr>, n))"

end
