(* ===== verification/Lab_Jobs_Properties.thy ===== *)
theory Lab_Jobs_Properties
  imports Lab_Jobs Lab_Bodies Lab_Sample Learner_Journey
begin


text \<open>
  What the background jobs may touch: the reconciler destroys only labs no row names, queues
  only conditional operations for drift its second inventory saw, and writes only presence;
  recovery and sweep leave the machine alone; the heartbeat table stays bounded.
\<close>

section \<open>Enqueue on a quiet queue\<close>

lemma enqueue_cases:
  assumes "enqueue db now inst kind by' origin pre = Inr (db', op)"
  shows "db' = db \<and> open_operation db (li_id inst) = Some op
    \<or> op = new_operation db now inst kind by' origin pre \<and> open_operation db (li_id inst) = None
      \<and> db' = db\<lparr>lab_operations := lab_operations db @ [op], lab_next_id := Suc (lab_next_id db)\<rparr>"
  using assms
  by (auto simp: enqueue_def enqueue_among_def insert_open_operation_def ensure_def Let_def split: if_splits option.splits)

section \<open>What a reconciliation pass did to the tables\<close>

text \<open>
  \<open>on n\<close>: the lab \<open>n\<close> was in the second inventory. A queued operation answers drift of a row
  that had no open operation; a row changed at most its presence, to what was observed.
\<close>

definition answers_drift :: "(string \<Rightarrow> bool) \<Rightarrow> lab_db \<Rightarrow> lab_operation \<Rightarrow> bool" where
  "answers_drift on db op =
     (\<exists>i. get_instance db (lo_instance op) = Some i \<and> open_operation db (li_id i) = None
        \<and> lo_requested_by op = None \<and> lo_state op = ''queued''
        \<and> (is_conditional_destroy op \<and> on (li_name i) \<and> \<not> live_status (li_status i) \<and> li_status i \<noteq> ''error''
           \<or> is_conditional_deploy op \<and> \<not> on (li_name i) \<and> live_status (li_status i)))"

definition observed_row :: "(string \<Rightarrow> bool) \<Rightarrow> lab_instance \<Rightarrow> lab_instance \<Rightarrow> bool" where
  "observed_row on r r' =
     (r' = r \<or> r' = r\<lparr>li_presence := if on (li_name r) then ''present'' else ''absent''\<rparr>)"

definition repairs_drift :: "(string \<Rightarrow> bool) \<Rightarrow> lab_db \<Rightarrow> lab_db \<Rightarrow> nat \<Rightarrow> bool" where
  "repairs_drift on db db' n =
     ((\<exists>new. lab_operations db' = lab_operations db @ new \<and> (\<forall>op \<in> set new. answers_drift on db op) \<and> length new \<le> n)
      \<and> (\<forall>i. rel_option (observed_row on) (get_instance db i) (get_instance db' i)))"

lemma observed_row_same: "observed_row on r r' \<Longrightarrow> li_id r' = li_id r \<and> li_name r' = li_name r \<and> li_status r' = li_status r"
  by (auto simp: observed_row_def)

lemma observed_row_trans: "observed_row on r r' \<Longrightarrow> observed_row on r' r'' \<Longrightarrow> observed_row on r r''"
  by (auto simp: observed_row_def)

lemma repairs_drift_refl: "repairs_drift on db db 0"
  by (auto simp: repairs_drift_def observed_row_def intro!: option.rel_refl)

lemma repairs_drift_mono: "repairs_drift on db db' n \<Longrightarrow> n \<le> m \<Longrightarrow> repairs_drift on db db' m"
  unfolding repairs_drift_def by (meson le_trans)

lemma repairs_drift_get:
  assumes "repairs_drift on db db' n" "get_instance db' i = Some r'"
  shows "\<exists>r. get_instance db i = Some r \<and> observed_row on r r'"
  using assms unfolding repairs_drift_def by (metis option.rel_cases option.distinct(1) option.inject)

lemma get_observe_presence:
  "get_instance (observe_presence i p db) j
     = map_option (\<lambda>r. if j = li_id i \<and> li_presence i \<noteq> p then r\<lparr>li_presence := p\<rparr> else r) (get_instance db j)"
  by (cases "get_instance db j") (auto simp: observe_presence_def get_set_instance)

lemma observe_presence_operations [simp]: "lab_operations (observe_presence i p db) = lab_operations db"
  by (simp add: observe_presence_def)

lemma repairs_drift_observe:
  assumes d: "repairs_drift on db db' n" and g: "get_instance db' (li_id i) = Some i"
    and p: "p = (if on (li_name i) then ''present'' else ''absent'')"
  shows "repairs_drift on db (observe_presence i p db') n"
proof -
  have "rel_option (observed_row on) (get_instance db j) (get_instance (observe_presence i p db') j)" for j
  proof (cases "get_instance db' j")
    case None
    with d show ?thesis by (simp add: get_observe_presence repairs_drift_def) (metis option.rel_distinct(2) option.exhaust option.rel_sel)
  next
    case (Some r')
    with d obtain r where r: "get_instance db j = Some r" "observed_row on r r'" by (blast dest: repairs_drift_get)
    have "observed_row on r' (if j = li_id i \<and> li_presence i \<noteq> p then r'\<lparr>li_presence := p\<rparr> else r')"
      using Some g p by (auto simp: observed_row_def)
    with r Some show ?thesis
      using observed_row_trans [OF r(2)] by (simp add: get_observe_presence split: if_splits)
  qed
  with d show ?thesis by (simp add: repairs_drift_def)
qed

lemma repairs_drift_enqueue:
  assumes d: "repairs_drift on db db' n"
    and e: "enqueue db' now i kind None (Some origin) (Some pre) = Inr (db'', op)"
    and a: "\<And>op. lo_kind op = kind \<Longrightarrow> lo_origin op = Some origin \<Longrightarrow> lo_precondition op = Some pre \<Longrightarrow>
      lo_instance op = li_id i \<Longrightarrow> lo_requested_by op = None \<Longrightarrow> lo_state op = ''queued'' \<Longrightarrow> answers_drift on db op"
  shows "repairs_drift on db db'' (Suc n)" "lab_instances db'' = lab_instances db'"
    and "\<not> (lo_kind op = kind \<and> lo_origin op = Some origin \<and> lo_precondition op = Some pre) \<Longrightarrow> db'' = db'"
proof -
  consider "db'' = db'" | "op = new_operation db' now i kind None (Some origin) (Some pre)"
      "db'' = db'\<lparr>lab_operations := lab_operations db' @ [op], lab_next_id := Suc (lab_next_id db')\<rparr>"
    using enqueue_cases [OF e] by blast
  then have "repairs_drift on db db'' (Suc n) \<and> lab_instances db'' = lab_instances db'
    \<and> (\<not> (lo_kind op = kind \<and> lo_origin op = Some origin \<and> lo_precondition op = Some pre) \<longrightarrow> db'' = db')"
  proof cases
    case 1
    with d show ?thesis by (auto intro: repairs_drift_mono)
  next
    case 2
    have "answers_drift on db op" by (rule a) (simp_all add: 2(1) new_operation_def)
    with d have "repairs_drift on db db'' (Suc n)"
      by (auto simp: 2(2) repairs_drift_def get_instance_def)
    then show ?thesis by (simp add: 2 new_operation_def)
  qed
  then show "repairs_drift on db db'' (Suc n)" "lab_instances db'' = lab_instances db'"
    and "\<not> (lo_kind op = kind \<and> lo_origin op = Some origin \<and> lo_precondition op = Some pre) \<Longrightarrow> db'' = db'"
    by blast+
qed

section \<open>Phase 4\<close>

lemma open_instance_ids_iff: "i \<in> set (open_instance_ids db) \<longleftrightarrow> open_operation db i \<noteq> None"
  by (auto simp: open_instance_ids_def open_operation_def find_None_iff)

definition justified ::
    "(string \<Rightarrow> bool) \<Rightarrow> lab_db \<Rightarrow> (lab_instance \<Rightarrow> bool) \<Rightarrow> string \<Rightarrow> string \<Rightarrow> string \<Rightarrow> bool" where
  "justified on db still kind origin pre =
     (\<forall>lab n i. repairs_drift on db lab n \<longrightarrow> get_instance lab (li_id i) = Some i \<longrightarrow> still i \<longrightarrow>
        pre = (if on (li_name i) then ''present'' else ''absent'')
        \<and> (\<forall>op. lo_kind op = kind \<and> lo_origin op = Some origin \<and> lo_precondition op = Some pre \<and> lo_instance op = li_id i
             \<and> lo_requested_by op = None \<and> lo_state op = ''queued'' \<longrightarrow> answers_drift on db op))"

lemma queue_conditional_drift:
  assumes d: "repairs_drift on db (wk_lab w) n" and env: "wk_env w = []"
    and j: "justified on db still kind origin pre"
    and q: "queue_conditional still kind origin pre now cand w = (w', r)"
  shows "wk_env w' = [] \<and> wk_host w' = wk_host w \<and> (\<exists>m. repairs_drift on db (wk_lab w') m \<and> (\<forall>k. r = Inr k \<longrightarrow> m \<le> n + k))"
proof -
  have o: "others_commit w = w" using env by (simp add: others_commit_def)
  show ?thesis
  proof (cases "get_instance (wk_lab w) (li_id cand)")
    case None
    with q d env o show ?thesis by (auto simp: queue_conditional_def)
  next
    case (Some i)
    then have i: "get_instance (wk_lab w) (li_id i) = Some i" using get_instance_id by fastforce
    show ?thesis
    proof (cases "still i")
      case False
      with q d env o Some show ?thesis by (auto simp: queue_conditional_def)
    next
      case True
      note ji = j [unfolded justified_def, rule_format, OF d i True]
      show ?thesis
      proof (cases "enqueue (wk_lab w) now i kind None (Some origin) (Some pre)")
        case (Inl e)
        with q d env o Some True show ?thesis by (auto simp: queue_conditional_def)
      next
        case (Inr x)
        obtain db1 op where x: "x = (db1, op)" by force
        have e: "repairs_drift on db db1 (Suc n)" "lab_instances db1 = lab_instances (wk_lab w)"
          "\<not> (lo_kind op = kind \<and> lo_origin op = Some origin \<and> lo_precondition op = Some pre) \<Longrightarrow> db1 = wk_lab w"
          by (rule repairs_drift_enqueue [OF d Inr [unfolded x]]; use ji in blast)+
        from e(2) i have "get_instance db1 (li_id i) = Some i" by (simp add: get_instance_def)
        from repairs_drift_observe [OF e(1) this] ji
        have "repairs_drift on db (observe_presence i pre db1) (Suc n)" by blast
        with e(3) q d env o Some True Inr x show ?thesis
          by (auto simp: queue_conditional_def split: if_splits)
      qed
    qed
  qed
qed

lemma queue_all_drift:
  assumes "repairs_drift on db (wk_lab w) n" "wk_env w = []" "justified on db still kind origin pre"
    and "queue_all (queue_conditional still kind origin pre now) cands w = (w', r)"
  shows "wk_env w' = [] \<and> wk_host w' = wk_host w \<and> (\<exists>m. repairs_drift on db (wk_lab w') m \<and> (\<forall>k. r = Inr k \<longrightarrow> m \<le> n + k))"
  using assms(1,2,4)
proof (induction cands arbitrary: w n w' r)
  case (Cons c cands)
  obtain w1 r1 where q: "queue_conditional still kind origin pre now c w = (w1, r1)" by force
  from queue_conditional_drift [OF Cons.prems(1,2) assms(3) q]
  obtain m where m: "wk_env w1 = []" "wk_host w1 = wk_host w" "repairs_drift on db (wk_lab w1) m" "\<forall>k. r1 = Inr k \<longrightarrow> m \<le> n + k"
    by blast
  show ?case
  proof (cases r1)
    case (Inl e)
    with q m Cons.prems(3) show ?thesis by auto
  next
    case (Inr k)
    obtain w2 r2 where q2: "queue_all (queue_conditional still kind origin pre now) cands w1 = (w2, r2)" by force
    from Cons.IH [OF m(3,1) q2] m(2) obtain j where
      j: "wk_env w2 = []" "wk_host w2 = wk_host w" "repairs_drift on db (wk_lab w2) j" "\<forall>k'. r2 = Inr k' \<longrightarrow> j \<le> m + k'"
      by auto
    have "m \<le> n + k" using m(4) Inr by simp
    with j have "\<forall>k'. r2 = Inr k' \<longrightarrow> j \<le> n + (k + k')" by fastforce
    with j Inr q q2 Cons.prems(3) show ?thesis by (cases r2) auto
  qed
qed auto

lemma justified_cleanup:
  "justified (\<lambda>n. n \<in> set runtime) db (wants_cleanup runtime (open_instance_ids db)) ''destroy'' ''runtime_cleanup'' ''present''"
  unfolding justified_def
proof (intro allI impI)
  fix lab n i
  assume d: "repairs_drift (\<lambda>n. n \<in> set runtime) db lab n" and g: "get_instance lab (li_id i) = Some i"
    and s: "wants_cleanup runtime (open_instance_ids db) i"
  from repairs_drift_get [OF d g] obtain r where
    "get_instance db (li_id i) = Some r" "observed_row (\<lambda>n. n \<in> set runtime) r i" by blast
  with s observed_row_same [OF this(2)]
  show "''present'' = (if li_name i \<in> set runtime then ''present'' else ''absent'') \<and>
     (\<forall>op. lo_kind op = ''destroy'' \<and> lo_origin op = Some ''runtime_cleanup'' \<and> lo_precondition op = Some ''present''
        \<and> lo_instance op = li_id i \<and> lo_requested_by op = None \<and> lo_state op = ''queued'' \<longrightarrow>
        answers_drift (\<lambda>n. n \<in> set runtime) db op)"
    by (auto simp: wants_cleanup_def answers_drift_def is_conditional_destroy_def open_instance_ids_iff)
qed

lemma justified_repair:
  "justified (\<lambda>n. n \<in> set runtime) db (wants_repair runtime (open_instance_ids db)) ''deploy'' ''runtime_repair'' ''absent''"
  unfolding justified_def
proof (intro allI impI)
  fix lab n i
  assume d: "repairs_drift (\<lambda>n. n \<in> set runtime) db lab n" and g: "get_instance lab (li_id i) = Some i"
    and s: "wants_repair runtime (open_instance_ids db) i"
  from repairs_drift_get [OF d g] obtain r where
    "get_instance db (li_id i) = Some r" "observed_row (\<lambda>n. n \<in> set runtime) r i" by blast
  with s observed_row_same [OF this(2)]
  show "''absent'' = (if li_name i \<in> set runtime then ''present'' else ''absent'') \<and>
     (\<forall>op. lo_kind op = ''deploy'' \<and> lo_origin op = Some ''runtime_repair'' \<and> lo_precondition op = Some ''absent''
        \<and> lo_instance op = li_id i \<and> lo_requested_by op = None \<and> lo_state op = ''queued'' \<longrightarrow>
        answers_drift (\<lambda>n. n \<in> set runtime) db op)"
    by (auto simp: wants_repair_def answers_drift_def is_conditional_deploy_def open_instance_ids_iff)
qed

lemma queue_repairs_drift:
  assumes env: "wk_env w = []" and q: "queue_repairs now runtime plan w = (w', r)"
  shows "wk_host w' = wk_host w \<and> (\<exists>m. repairs_drift (\<lambda>n. n \<in> set runtime) (wk_lab w) (wk_lab w') m \<and> (\<forall>k. r = Inr k \<longrightarrow> m \<le> k))"
proof -
  let ?o = "open_instance_ids (wk_lab w)"
  obtain w1 r1 where q1: "queue_all (queue_conditional (wants_cleanup runtime ?o) ''destroy'' ''runtime_cleanup'' ''present'' now)
      (rp_cleanups plan) w = (w1, r1)" by force
  from queue_all_drift [OF repairs_drift_refl env justified_cleanup q1] obtain m where
    m: "wk_env w1 = []" "wk_host w1 = wk_host w" "repairs_drift (\<lambda>n. n \<in> set runtime) (wk_lab w) (wk_lab w1) m" "\<forall>k. r1 = Inr k \<longrightarrow> m \<le> k"
    by auto
  show ?thesis
  proof (cases r1)
    case (Inl e)
    with q q1 m show ?thesis by (auto simp: queue_repairs_def Let_def)
  next
    case (Inr k)
    obtain w2 r2 where q2: "queue_all (queue_conditional (wants_repair runtime ?o) ''deploy'' ''runtime_repair'' ''absent'' now)
      (rp_repairs plan) w1 = (w2, r2)" by force
    from queue_all_drift [OF m(3,1) justified_repair q2] obtain j where
      "wk_host w2 = wk_host w1" "repairs_drift (\<lambda>n. n \<in> set runtime) (wk_lab w) (wk_lab w2) j" "\<forall>k. r2 = Inr k \<longrightarrow> j \<le> m + k" by auto
    moreover have "m \<le> k" using m(4) Inr by simp
    ultimately show ?thesis using q q1 q2 Inr m(2)
      by (cases r2) (auto simp: queue_repairs_def Let_def intro: le_trans)
  qed
qed

section \<open>The whole pass, over an engine that keeps its contract\<close>

lemma plan_orphans:
  "n \<in> set (rp_orphans (plan_repairs runtime db)) \<Longrightarrow> starts_with n ''dal-'' \<and> n \<notin> li_name ` set (lab_instances db)"
  by (auto simp: plan_repairs_def Let_def)

lemma honest_observed:
  assumes "honest running h db" "repairs_drift (running h') db db' n"
    and "\<And>m. m \<in> li_name ` set (lab_instances db) \<Longrightarrow> running h' m = running h m"
  shows "honest running h' db'"
  unfolding honest_def
proof (intro allI impI)
  fix i r' assume g: "get_instance db' i = Some r'"
  from repairs_drift_get [OF assms(2) g] obtain r where r: "get_instance db i = Some r" "observed_row (running h') r r'" by blast
  then have "li_name r \<in> li_name ` set (lab_instances db)" by (auto simp: get_instance_def dest: find_Some_in)
  from assms(3) [OF this] r assms(1) show "honest_row running h' r'"
    by (auto simp: honest_def honest_row_def observed_row_def)
qed

context lab_engine_contract
begin

lemma destroy_orphans_spares:
  "destroy_orphans engine ns h = (h', r) \<Longrightarrow> m \<notin> set ns \<Longrightarrow> running h' m = running h m"
proof (induction ns arbitrary: h h' r)
  case (Cons n ns)
  obtain h1 r1 where d: "en_destroy engine n h = (h1, r1)" by force
  have s: "running h1 m = running h m" by (rule destroy_other [OF d]) (use Cons.prems(2) in simp)
  show ?case
  proof (cases r1)
    case (Inl e)
    with d s Cons.prems show ?thesis by auto
  next
    case (Inr u)
    obtain h2 r2 where d2: "destroy_orphans engine ns h1 = (h2, r2)" by force
    from Cons.IH [OF d2] Cons.prems d Inr d2 s show ?thesis by (cases r2) auto
  qed
qed simp

lemma inventory_running: "en_inventory engine h = (h', Inr labs) \<Longrightarrow> (\<lambda>n. n \<in> set (map fst labs)) = running h'"
proof
  fix n assume i: "en_inventory engine h = (h', Inr labs)"
  show "(n \<in> set (map fst labs)) = running h' n"
    using inventory_ok [OF i, of n] running_machine [OF inventory_machine [OF i], of n] by simp
qed

lemma reconcile_runtime_effect:
  assumes env: "wk_env w = []" and r: "reconcile_runtime engine now w = (w', r)"
  shows "(\<forall>m. \<not> starts_with m ''dal-'' \<or> m \<in> li_name ` set (lab_instances (wk_lab w)) \<longrightarrow>
            running (wk_host w') m = running (wk_host w) m)
    \<and> (\<exists>k. repairs_drift (running (wk_host w')) (wk_lab w) (wk_lab w') k \<and> (\<forall>q d. r = Inr (q, d) \<longrightarrow> k \<le> q))"
proof -
  have o: "wk_env v = [] \<Longrightarrow> others_commit v = v" for v :: "'a worker" by (simp add: others_commit_def)
  obtain h i1 where i1: "en_inventory engine (wk_host w) = (h, i1)" by force
  have s1: "running h m = running (wk_host w) m" for m by (rule running_machine [OF inventory_machine [OF i1]])
  have stop: ?thesis if "wk_lab w' = wk_lab w" "r = Inl e"
    "\<And>m. \<not> starts_with m ''dal-'' \<or> m \<in> li_name ` set (lab_instances (wk_lab w)) \<Longrightarrow> running (wk_host w') m = running (wk_host w) m" for e
    using that repairs_drift_refl by (metis sum.distinct(1))
  show ?thesis
  proof (cases i1)
    case (Inl e)
    with r i1 have "w' = w\<lparr>wk_host := h\<rparr>" "r = Inl e" by (simp_all add: reconcile_runtime_def)
    with s1 show ?thesis by (intro stop) simp_all
  next
    case l1: (Inr labs)
    let ?db = "wk_lab w" let ?p = "plan_repairs (map fst labs) ?db"
    have o1: "others_commit (w\<lparr>wk_host := h\<rparr>) = w\<lparr>wk_host := h\<rparr>" by (rule o) (simp add: env)
    note step = r [unfolded reconcile_runtime_def i1 prod.case l1 sum.case Let_def o1]
    show ?thesis
    proof (cases "distinct (map li_name (lab_instances ?db))")
      case False
      with step have "w' = w\<lparr>wk_host := h\<rparr>" "r = Inl (RuntimeError ''duplicate lab instance names prevent safe runtime reconciliation'')"
        by simp_all
      with s1 show ?thesis by (intro stop) simp_all
    next
      case True
      obtain h2 d where d: "destroy_orphans engine (rp_orphans ?p) h = (h2, d)" by force
      have s2: "running h2 m = running h m" if "\<not> starts_with m ''dal-'' \<or> m \<in> li_name ` set (lab_instances ?db)" for m
        by (rule destroy_orphans_spares [OF d]) (use plan_orphans [of m "map fst labs" ?db] that in blast)
      show ?thesis
      proof (cases d)
        case (Inl e)
        with step True d have "w' = w\<lparr>wk_host := h2\<rparr>" "r = Inl e" by simp_all
        with s1 s2 show ?thesis by (intro stop) simp_all
      next
        case d2: (Inr destroyed)
        obtain h3 i2 where i2: "en_inventory engine h2 = (h3, i2)" by force
        have s3: "running h3 m = running h2 m" for m by (rule running_machine [OF inventory_machine [OF i2]])
        show ?thesis
        proof (cases i2)
          case (Inl e)
          with step True d d2 i2 have "w' = w\<lparr>wk_host := h3\<rparr>" "r = Inl e" by simp_all
          with s1 s2 s3 show ?thesis by (intro stop) simp_all
        next
          case l2: (Inr labs2)
          have o2: "others_commit (w\<lparr>wk_host := h3\<rparr>) = w\<lparr>wk_host := h3\<rparr>" by (rule o) (simp add: env)
          obtain w2 q where q: "queue_repairs now (map fst labs2) ?p (w\<lparr>wk_host := h3\<rparr>) = (w2, q)" by force
          from queue_repairs_drift [OF _ q] env obtain m where
            m: "wk_host w2 = h3" "repairs_drift (running h3) ?db (wk_lab w2) m" "\<forall>k. q = Inr k \<longrightarrow> m \<le> k"
            unfolding inventory_running [OF i2 [unfolded l2]] by auto
          have e: "w' = w2 \<and> r = (case q of Inl e \<Rightarrow> Inl e | Inr k \<Rightarrow> Inr (k, destroyed))"
            using step True d d2 i2 l2 o2 q by (cases q) simp_all
          have "\<forall>m. \<not> starts_with m ''dal-'' \<or> m \<in> li_name ` set (lab_instances ?db) \<longrightarrow>
              running (wk_host w') m = running (wk_host w) m"
            using s1 s2 s3 m(1) e by simp
          moreover have "repairs_drift (running (wk_host w')) ?db (wk_lab w') m \<and> (\<forall>q d. r = Inr (q, d) \<longrightarrow> m \<le> q)"
            using e m by (cases q) simp_all
          ultimately show ?thesis by blast
        qed
      qed
    qed
  qed
qed

end

section \<open>The heartbeat table\<close>

lemma evict_oldest_length:
  assumes "distinct (map fst t)" "n \<le> length t"
  shows "length (evict_oldest n t) = length t - n"
proof -
  let ?old = "take n (sort_key snd t)"
  have d: "distinct (map fst (sort_key snd t))"
    using assms(1) by (metis distinct_map set_sort distinct_sort)
  have sub: "set ?old \<subseteq> set t" by (metis set_sort set_take_subset)
  have m: "x \<in> set t \<Longrightarrow> fst x \<in> fst ` set ?old \<longleftrightarrow> x \<in> set ?old" for x
    using assms(1) sub by (auto simp: distinct_map inj_on_def)
  have dt: "distinct t" "distinct ?old" using assms(1) d by (auto simp: distinct_map intro: distinct_take)
  have "set (evict_oldest n t) = {x \<in> set t. fst x \<notin> fst ` set ?old}"
    by (simp add: evict_oldest_def Let_def case_prod_beta)
  then have "set (evict_oldest n t) = set t - set ?old" using m by blast
  then have "card (set (evict_oldest n t)) = card (set t) - card (set ?old)" using sub by (simp add: card_Diff_subset)
  moreover have "distinct (evict_oldest n t)" using dt by (simp add: evict_oldest_def Let_def)
  ultimately show ?thesis using dt assms(2) by (simp add: distinct_card)
qed

lemma make_room_ok:
  assumes "distinct (map fst t)" "length t \<le> cap" "2 \<le> cap"
  shows "distinct (map fst (make_room cap now t)) \<and> length (make_room cap now t) < cap"
proof -
  let ?r = "filter (\<lambda>(k, s). \<not> s < now - HEARTBEAT_INTERVAL_SECONDS) t"
  have d: "distinct (map fst (filter p t))" for p using assms(1) by (rule distinct_map_filter)
  have "length ?r \<le> cap" using assms(2) length_filter_le [of _ t] by (meson le_trans)
  moreover have "distinct (map fst (evict_oldest n ?r))" for n
    unfolding evict_oldest_def Let_def by (rule distinct_map_filter [OF d])
  moreover have "cap div 2 \<le> length ?r \<Longrightarrow> length (evict_oldest (cap div 2) ?r) = length ?r - cap div 2"
    by (rule evict_oldest_length [OF d])
  moreover have "0 < cap div 2" "cap div 2 \<le> cap" using assms(3) by simp_all
  ultimately have e: "cap \<le> length ?r \<Longrightarrow> length (evict_oldest (cap div 2) ?r) < cap"
    and k: "distinct (map fst (evict_oldest (cap div 2) ?r))"
    by (linarith, blast)
  show ?thesis
    unfolding make_room_def Let_def using assms(1) d e k by (auto simp only: not_less split: if_split)
qed

lemma due_among_ok:
  assumes t: "distinct (map fst t)" "length t \<le> cap" "2 \<le> cap" and d: "due_among cap i now t = (t', b)"
  shows "distinct (map fst t') \<and> length t' \<le> cap \<and> (b \<longrightarrow> map_of t' i = Some now) \<and> (\<not> b \<longrightarrow> t' = t)"
proof (cases b)
  case True
  with d have t': "t' = AList.update i now (make_room cap now t)" by (auto simp: due_among_def split: if_splits)
  note r = make_room_ok [OF t, of now]
  have "length (AList.update i now xs) \<le> Suc (length xs)" for xs :: throttle by (induction xs) auto
  then have "length t' \<le> Suc (length (make_room cap now t))" unfolding t' .
  with r show ?thesis using True t' by (simp add: distinct_update update_conv)
next
  case False
  with d t show ?thesis by (auto simp: due_among_def split: if_splits)
qed

section \<open>Which consoles the sweep leaves\<close>

definition serves_possible_lab :: "lab_db \<Rightarrow> ttyd_process \<Rightarrow> bool" where
  "serves_possible_lab db p = (\<exists>i \<in> set (lab_instances db). consuming i \<and> tp_instance p = uuid_str (li_id i))"

lemma orphan_pids:
  "pid \<in> snd ` set (filter (\<lambda>(i, pid). i \<notin> set (map (\<lambda>i. uuid_str (li_id i)) (filter consuming (lab_instances db))))
        (console_pids None h))
   \<longleftrightarrow> \<not> lh_scan_fails h \<and> (\<exists>q \<in> set (lh_ttyds h). tp_pid q = pid \<and> \<not> serves_possible_lab db q)"
  by (cases "lh_scan_fails h")
     (auto simp: console_pids_def console_processes_def serves_possible_lab_def image_iff Bex_def)

lemma sweep_leaves:
  assumes "inj_on tp_pid (set (lh_ttyds h))"
  shows "p \<in> set (lh_ttyds (fst (sweep_orphan_consoles db h)))
     \<longleftrightarrow> p \<in> set (lh_ttyds h) \<and> (lh_scan_fails h \<or> tp_pid p \<in> set (lh_unkillable h) \<or> serves_possible_lab db p)"
proof -
  have "p \<in> set (lh_ttyds h) \<Longrightarrow> (\<exists>q \<in> set (lh_ttyds h). tp_pid q = tp_pid p \<and> \<not> serves_possible_lab db q)
      \<longleftrightarrow> \<not> serves_possible_lab db p"
    using assms by (metis inj_on_def)
  then show ?thesis
    unfolding sweep_orphan_consoles_def kill_consoles_def Let_def fst_conv set_map
    using orphan_pids [of "tp_pid p" db h] by auto
qed


text \<open>
  The properties of the background jobs: the reconciler on the containerlab host, the console
  sweep and the heartbeat throttle.
\<close>

section \<open>The reconciler\<close>

text \<open>C37. One reconciliation pass that no other session disturbs, however it ends, leaves every lab that some row names or
  whose name is not Academy's running or stopped as it was; the operations it queues are conditional ones, at most as many as
  it reports, each for a row that had no open operation and whose status its second inventory contradicts (a cleanup of a lab
  that runs, a repair of one that does not); and the presence it records keeps the projection honest.\<close>

theorem reconciler_answers_observed_drift:
  assumes "containerlab_runtime cli labs declares"
    and "wk_env w = []" "honest (lab_running cg labs) (wk_host w) (wk_lab w)"
    and "reconcile_runtime (containerlab_engine cg cli) now w = (w', r)"
  shows "(\<forall>m. \<not> starts_with m ''dal-'' \<or> m \<in> li_name ` set (lab_instances (wk_lab w)) \<longrightarrow>
             lab_running cg labs (wk_host w') m = lab_running cg labs (wk_host w) m)
    \<and> honest (lab_running cg labs) (wk_host w') (wk_lab w')
    \<and> (\<exists>new. lab_operations (wk_lab w') = lab_operations (wk_lab w) @ new
          \<and> (\<forall>op \<in> set new. answers_drift (lab_running cg labs (wk_host w')) (wk_lab w) op)
          \<and> (\<forall>q d. r = Inr (q, d) \<longrightarrow> length new \<le> q))"
proof -
  have c: "lab_engine_contract (containerlab_engine cg cli) (lab_running cg labs) declares"
    by (rule containerlab_runtime.clab_contract [OF assms(1)])
  from lab_engine_contract.reconcile_runtime_effect [OF c assms(2,4)] obtain k where
    spared: "\<And>m. \<not> starts_with m ''dal-'' \<or> m \<in> li_name ` set (lab_instances (wk_lab w)) \<Longrightarrow>
             lab_running cg labs (wk_host w') m = lab_running cg labs (wk_host w) m"
    and drift: "repairs_drift (lab_running cg labs (wk_host w')) (wk_lab w) (wk_lab w') k" "\<forall>q d. r = Inr (q, d) \<longrightarrow> k \<le> q"
    by blast
  have "honest (lab_running cg labs) (wk_host w') (wk_lab w')"
    by (rule honest_observed [OF assms(3) drift(1)]) (simp add: spared)
  with spared drift show ?thesis unfolding repairs_drift_def by (meson le_trans)
qed

definition stopped_lab :: "memory_runtime worker" where
  "stopped_lab =
     \<lparr>wk_lab = sample_lab_db\<lparr>lab_instances := [sample_instance\<lparr>li_status := ''active'', li_presence := ''unknown''\<rparr>]\<rparr>,
      wk_learn = sample_db, wk_host = sample_host [(''dal-9'', ''/labs/dal-9.clab.yml''), (''other'', ''/tmp/other.yml'')], wk_env = []\<rparr>"

theorem reconciler_answers_observed_drift_witness:
  "lab_running (sample_clab ''lab'') memory_labs
     (wk_host (fst (reconcile_runtime (containerlab_engine (sample_clab ''lab'') memory_cli) 40 stopped_lab))) ''other''
   = lab_running (sample_clab ''lab'') memory_labs (wk_host stopped_lab) ''other''"
proof -
  obtain w' r where r: "reconcile_runtime (containerlab_engine (sample_clab ''lab'') memory_cli) 40 stopped_lab = (w', r)" by force
  have "honest (lab_running (sample_clab ''lab'') memory_labs) (wk_host stopped_lab) (wk_lab stopped_lab)"
    by (auto simp: honest_def honest_row_def stopped_lab_def get_instance_def sample_lab_db_def sample_instance_def split: if_splits)
  from reconciler_answers_observed_drift [OF memory.containerlab_runtime_axioms _ this r] r
  show ?thesis by (simp add: stopped_lab_def)
qed

section \<open>Console sweep\<close>

text \<open>The console sweep kills no console of a lab whose runtime may exist (its presence is present or unknown, whatever its
  status), and when the process table can be read, every console it leaves serves such a lab or could not be killed.\<close>

theorem sweep_kills_only_orphans:
  assumes "inj_on tp_pid (set (lh_ttyds h))"
  shows "p \<in> set (lh_ttyds (fst (sweep_orphan_consoles db h)))
     \<longleftrightarrow> p \<in> set (lh_ttyds h) \<and> (lh_scan_fails h \<or> tp_pid p \<in> set (lh_unkillable h)
          \<or> (\<exists>i \<in> set (lab_instances db). consuming i \<and> tp_instance p = uuid_str (li_id i)))"
  using sweep_leaves [OF assms] by (simp add: serves_possible_lab_def)

definition two_consoles :: "memory_runtime lab_host" where
  "two_consoles = (sample_host [])\<lparr>lh_ttyds :=
     [\<lparr>tp_pid = 1, tp_instance = uuid_str 1, tp_node = ''r1'', tp_port = Some 7000\<rparr>,
      \<lparr>tp_pid = 2, tp_instance = uuid_str 5, tp_node = ''r1'', tp_port = None\<rparr>]\<rparr>"

lemma two_consoles_fields [simp]:
  "lh_ttyds two_consoles = [\<lparr>tp_pid = 1, tp_instance = uuid_str 1, tp_node = ''r1'', tp_port = Some 7000\<rparr>,
      \<lparr>tp_pid = 2, tp_instance = uuid_str 5, tp_node = ''r1'', tp_port = None\<rparr>]"
  "lh_unkillable two_consoles = []" "lh_scan_fails two_consoles = False"
  by (simp_all add: two_consoles_def sample_host_def)

theorem sweep_kills_only_orphans_witness:
  "\<lparr>tp_pid = 1, tp_instance = uuid_str 1, tp_node = ''r1'', tp_port = Some 7000\<rparr>
      \<in> set (lh_ttyds (fst (sweep_orphan_consoles (wk_lab stopped_lab) two_consoles)))
   \<and> \<lparr>tp_pid = 2, tp_instance = uuid_str 5, tp_node = ''r1'', tp_port = None\<rparr>
      \<notin> set (lh_ttyds (fst (sweep_orphan_consoles (wk_lab stopped_lab) two_consoles)))"
proof -
  have u: "uuid_str 5 \<noteq> uuid_str 1"
    by (rule notI, drule uuid_str_inj [rotated 2]) simp_all
  have i: "lab_instances (wk_lab stopped_lab) = [sample_instance\<lparr>li_status := ''active'', li_presence := ''unknown''\<rparr>]"
    by (simp add: stopped_lab_def)
  have "inj_on tp_pid (set (lh_ttyds two_consoles))" by simp
  note k = sweep_kills_only_orphans [OF this, of _ "wk_lab stopped_lab", unfolded i]
  show ?thesis by (simp add: k u) (simp add: sample_instance_def consuming_def u [simplified])
qed

section \<open>The heartbeat throttle\<close>

text \<open>The in-process heartbeat table never holds more than its bound, whatever sequence of instances types; an admitted
  keystroke claims the slot, and until a minute has passed every further one for that instance is turned away without a write.\<close>

theorem heartbeat_throttle_is_bounded:
  assumes "distinct (map fst t)" "length t \<le> MAX_TRACKED" "due i now t = (t', admitted)"
  shows "distinct (map fst t') \<and> length t' \<le> MAX_TRACKED \<and> (\<not> admitted \<longrightarrow> t' = t)
    \<and> (admitted \<longrightarrow> (\<forall>later. later < now + HEARTBEAT_INTERVAL_SECONDS \<longrightarrow> due i later t' = (t', False)))"
  using due_among_ok [OF assms(1,2) _ assms(3) [unfolded due_def]]
  by (auto simp: MAX_TRACKED_def due_def due_among_def)

theorem heartbeat_throttle_is_bounded_witness:
  "due 1 59 (fst (due 1 0 [(2, -100)])) = (fst (due 1 0 [(2, -100)]), False)"
proof -
  have a: "snd (due 1 0 [(2, -100)])" by (simp add: due_def due_among_def)
  obtain t' b where d: "due 1 0 [(2, -100)] = (t', b)" by force
  from heartbeat_throttle_is_bounded [OF _ _ d] a d show ?thesis
    by (simp add: MAX_TRACKED_def HEARTBEAT_INTERVAL_SECONDS_def)
qed

end
