(* ===== verification/Account_Security.thy ===== *)
theory Account_Security
  imports Python_Values "HOL-Library.Word"
begin

text \<open>
  \<open>services/security.py\<close>, passwords: the stored form of a hash and its verification, with
  the URL-safe base64 of the standard library written out as \<open>binascii\<close> computes it. PBKDF2
  is a parameter, \<open>kdf password salt iterations\<close>, with \<open>None\<close> for the iteration counts it
  rejects; bytes are 8-bit words.
\<close>

type_synonym bytes = "8 word list"
type_synonym kdf = "string \<Rightarrow> bytes \<Rightarrow> int \<Rightarrow> bytes option"

section \<open>URL-safe base64\<close>

definition sextet_char :: "nat \<Rightarrow> char" where
  "sextet_char n =
     (if n < 26 then char_of (65 + n) else if n < 52 then char_of (71 + n)
      else if n < 62 then char_of (n - 4) else if n = 62 then char_of (45 :: nat) else char_of (95 :: nat))"

definition char_sextet :: "char \<Rightarrow> nat option" where
  "char_sextet c =
     (let n = of_char c :: nat
      in if 65 \<le> n \<and> n \<le> 90 then Some (n - 65) else if 97 \<le> n \<and> n \<le> 122 then Some (n - 71)
         else if 48 \<le> n \<and> n \<le> 57 then Some (n + 4)
         else if n = 45 \<or> n = 43 then Some 62
         else if n = 95 \<or> n = 47 then Some 63 else None)"

fun b64encode :: "bytes \<Rightarrow> string" where
  "b64encode [] = []"
| "b64encode [a] =
     [sextet_char (unat a div 4), sextet_char (unat a mod 4 * 16), CHR ''='', CHR ''='']"
| "b64encode [a, b] =
     [sextet_char (unat a div 4), sextet_char (unat a mod 4 * 16 + unat b div 16), sextet_char (unat b mod 16 * 4), CHR ''='']"
| "b64encode (a # b # c # rest) =
     [sextet_char (unat a div 4), sextet_char (unat a mod 4 * 16 + unat b div 16),
      sextet_char (unat b mod 16 * 4 + unat c div 64), sextet_char (unat c mod 64)] @ b64encode rest"

text \<open>
  \<open>binascii.a2b_base64\<close>, not strict: \<open>pos\<close> counts the characters of the current quad,
  \<open>left\<close> holds the bits not yet written, \<open>pads\<close> the run of \<open>=\<close>. Characters outside the
  alphabet are skipped; \<open>None\<close> is \<open>binascii.Error\<close>.
\<close>

fun a2b :: "nat \<Rightarrow> nat \<Rightarrow> nat \<Rightarrow> string \<Rightarrow> bytes option" where
  "a2b pos left pads [] = (if pos = 0 then Some [] else None)"
| "a2b pos left pads (c # cs) =
     (if c = CHR ''='' then
        if pos \<ge> 2 then if pos + Suc pads \<ge> 4 then Some [] else a2b pos left (Suc pads) cs
        else a2b pos left pads cs
      else case char_sextet c of
        None \<Rightarrow> a2b pos left pads cs
      | Some n \<Rightarrow>
          if pos = 0 then a2b 1 n 0 cs
          else if pos = 1 then map_option ((#) (word_of_nat (left * 4 + n div 16))) (a2b 2 (n mod 16) 0 cs)
          else if pos = 2 then map_option ((#) (word_of_nat (left * 16 + n div 4))) (a2b 3 (n mod 4) 0 cs)
          else map_option ((#) (word_of_nat (left * 64 + n))) (a2b 0 0 0 cs))"

definition b64decode :: "string \<Rightarrow> bytes option" where
  "b64decode s = a2b 0 0 0 s"

section \<open>Stored password hashes\<close>

text \<open>\<open>s.split(c, n)\<close>.\<close>

fun split_at :: "nat \<Rightarrow> char \<Rightarrow> string \<Rightarrow> string list" where
  "split_at 0 c s = [s]"
| "split_at (Suc n) c s =
     (case dropWhile (\<lambda>x. x \<noteq> c) s of
        [] \<Rightarrow> [s]
      | _ # rest \<Rightarrow> takeWhile (\<lambda>x. x \<noteq> c) s # split_at n c rest)"

text \<open>\<open>int(s)\<close>: white space around, a sign, digits with single underscores between them.\<close>

definition py_int_unsigned :: "string \<Rightarrow> int option" where
  "py_int_unsigned s = (case scan_digits 0 0 s of (n, k, rest) \<Rightarrow> if k = 0 \<or> rest \<noteq> [] then None else Some (int n))"

definition py_int :: "string \<Rightarrow> int option" where
  "py_int s =
     (case py_strip s of
        [] \<Rightarrow> None
      | c # cs \<Rightarrow> if c = CHR ''-'' then map_option uminus (py_int_unsigned cs)
                  else if c = CHR ''+'' then py_int_unsigned cs else py_int_unsigned (c # cs))"

definition PBKDF2_ITERATIONS :: nat where "PBKDF2_ITERATIONS = 210000"

definition hash_password :: "kdf \<Rightarrow> bytes \<Rightarrow> string \<Rightarrow> string option" where
  "hash_password kdf salt password =
     map_option (\<lambda>digest. ''pbkdf2_sha256$'' @ show_nat PBKDF2_ITERATIONS @ ''$'' @ b64encode salt @ ''$'' @ b64encode digest)
       (kdf password salt (int PBKDF2_ITERATIONS))"

definition verify_password :: "kdf \<Rightarrow> string \<Rightarrow> string \<Rightarrow> bool" where
  "verify_password kdf password password_hash =
     (case split_at 3 CHR ''$'' password_hash of
        [scheme, iterations, salt64, digest64] \<Rightarrow>
          scheme = ''pbkdf2_sha256''
          \<and> (case (b64decode salt64, b64decode digest64, py_int iterations) of
               (Some salt, Some expected, Some n) \<Rightarrow> kdf password salt n = Some expected
             | _ \<Rightarrow> False)
      | _ \<Rightarrow> False)"

section \<open>Round trips\<close>

lemma char_sextet_of: "n < 64 \<Longrightarrow> char_sextet (sextet_char n) = Some n"
  by (auto simp: char_sextet_def sextet_char_def Let_def)

lemma sextet_char_code: "n < 64 \<Longrightarrow> (of_char (sextet_char n) :: nat) \<noteq> 61 \<and> (of_char (sextet_char n) :: nat) \<noteq> 36"
  by (auto simp: sextet_char_def)

lemma sextet_char_plain:
  assumes "n < 64"
  shows "sextet_char n \<noteq> CHR ''=''" "sextet_char n \<noteq> CHR ''$''"
proof -
  have "(of_char CHR ''='' :: nat) = 61" "(of_char CHR ''$'' :: nat) = 36" by simp_all
  with sextet_char_code [OF assms] show "sextet_char n \<noteq> CHR ''=''" "sextet_char n \<noteq> CHR ''$''" by (metis, metis)
qed

lemma a2b_sextet:
  assumes "n < 64"
  shows "a2b 0 left pads (sextet_char n # cs) = a2b 1 n 0 cs"
    "a2b 1 left pads (sextet_char n # cs) = map_option ((#) (word_of_nat (left * 4 + n div 16))) (a2b 2 (n mod 16) 0 cs)"
    "a2b 2 left pads (sextet_char n # cs) = map_option ((#) (word_of_nat (left * 16 + n div 4))) (a2b 3 (n mod 4) 0 cs)"
    "a2b 3 left pads (sextet_char n # cs) = map_option ((#) (word_of_nat (left * 64 + n))) (a2b 0 0 0 cs)"
  by (simp_all add: sextet_char_plain [OF assms] char_sextet_of [OF assms])

lemma a2b_pads: "a2b 2 left 0 [CHR ''='', CHR ''=''] = Some []" "a2b 3 left 0 [CHR ''=''] = Some []"
  by simp_all

lemma byte_bound: "unat (a :: 8 word) < 256"
  using unsigned_less [of a, where ?'a = nat] by simp

lemma quad_bounds:
  fixes a b c :: nat
  assumes "a < 256" "b < 256" "c < 256"
  shows "a div 4 < 64" "a mod 4 * 16 < 64" "a mod 4 * 16 + b div 16 < 64" "b mod 16 * 4 < 64"
    "b mod 16 * 4 + c div 64 < 64" "c mod 64 < 64"
  using assms by auto

lemma quad_split:
  fixes x y :: nat
  shows "y < 16 \<Longrightarrow> (x * 16 + y) div 16 = x" "y < 16 \<Longrightarrow> (x * 16 + y) mod 16 = y"
    "y < 4 \<Longrightarrow> (x * 4 + y) div 4 = x" "y < 4 \<Longrightarrow> (x * 4 + y) mod 4 = y" "x * 16 div 16 = x" "x * 4 div 4 = x"
  by simp_all

lemma b64_roundtrip: "b64decode (b64encode bs) = Some bs"
proof -
  have d: "unat (b :: 8 word) div 16 < 16" "unat b div 64 < 4" for b using byte_bound [of b] by auto
  have "a2b 0 0 0 (b64encode bs) = Some bs"
  proof (induction bs rule: b64encode.induct)
    case (2 a)
    note b = byte_bound [of a] byte_bound [of a] byte_bound [of a]
    show ?case
      by (simp only: b64encode.simps a2b_sextet quad_bounds [OF b] quad_split a2b_pads option.map div_mult_mod_eq of_nat_unat ucast_id)
  next
    case (3 a b)
    note b = byte_bound [of a] byte_bound [of b] byte_bound [of b]
    show ?case
      by (simp only: b64encode.simps a2b_sextet quad_bounds [OF b] quad_split d a2b_pads option.map div_mult_mod_eq of_nat_unat ucast_id)
  next
    case (4 a b c rest)
    note b = byte_bound [of a] byte_bound [of b] byte_bound [of c]
    show ?case
      by (simp only: b64encode.simps append.simps a2b_sextet quad_bounds [OF b] quad_split d option.map div_mult_mod_eq
            of_nat_unat ucast_id 4)
  qed simp
  then show ?thesis by (simp add: b64decode_def)
qed

section \<open>A stored hash accepts exactly the password's digest\<close>

lemma b64_no_dollar: "CHR ''$'' \<notin> set (b64encode bs)"
proof (induction bs rule: b64encode.induct)
  case (2 a)
  note b = byte_bound [of a] byte_bound [of a] byte_bound [of a]
  show ?case using sextet_char_plain(2) [OF quad_bounds(1) [OF b]] sextet_char_plain(2) [OF quad_bounds(2) [OF b]]
    by auto
next
  case (3 a b)
  note b = byte_bound [of a] byte_bound [of b] byte_bound [of b]
  show ?case using sextet_char_plain(2) [OF quad_bounds(1) [OF b]] sextet_char_plain(2) [OF quad_bounds(3) [OF b]]
      sextet_char_plain(2) [OF quad_bounds(4) [OF b]]
    by auto
next
  case (4 a b c rest)
  note b = byte_bound [of a] byte_bound [of b] byte_bound [of c]
  show ?case using 4 sextet_char_plain(2) [OF quad_bounds(1) [OF b]] sextet_char_plain(2) [OF quad_bounds(3) [OF b]]
      sextet_char_plain(2) [OF quad_bounds(5) [OF b]] sextet_char_plain(2) [OF quad_bounds(6) [OF b]]
    by auto
qed simp

lemma split_at_first:
  assumes "c \<notin> set s"
  shows "split_at (Suc n) c (s @ c # t) = s # split_at n c t"
proof -
  have "dropWhile (\<lambda>x. x \<noteq> c) (s @ c # t) = c # t" "takeWhile (\<lambda>x. x \<noteq> c) (s @ c # t) = s"
    using assms by (induction s) auto
  then show ?thesis by simp
qed

lemma iterations_text: "show_nat 210000 = ''210000''" "py_int ''210000'' = Some 210000"
proof -
  have "char_of (50 :: nat) = CHR ''2''" "char_of (49 :: nat) = CHR ''1''" "char_of (48 :: nat) = CHR ''0''" by code_simp+
  then show "show_nat 210000 = ''210000''" by (simp add: show_nat.simps)
  show "py_int ''210000'' = Some 210000"
    by (simp add: py_int_def py_int_unsigned_def py_strip_def py_isspace_def digit_of_def)
qed

lemma verify_stored:
  assumes "hash_password kdf salt password = Some h"
  shows "verify_password kdf other h \<longleftrightarrow> kdf other salt 210000 = kdf password salt 210000"
proof -
  from assms obtain digest where d: "kdf password salt 210000 = Some digest"
    and h: "h = ''pbkdf2_sha256'' @ CHR ''$'' # ''210000'' @ CHR ''$'' # b64encode salt @ CHR ''$'' # b64encode digest"
    by (auto simp: hash_password_def iterations_text PBKDF2_ITERATIONS_def)
  have "split_at 3 CHR ''$'' h = [''pbkdf2_sha256'', ''210000'', b64encode salt, b64encode digest]"
    unfolding h numeral_3_eq_3
    by (subst split_at_first, simp)+ (simp add: split_at_first [OF b64_no_dollar] del: split_at.simps(2))
  with d show ?thesis
    by (simp add: verify_password_def b64_roundtrip iterations_text)
qed

end
