(* ===== verification/Accounts.thy ===== *)
theory Accounts
  imports Ledgers Account_Security
begin

text \<open>
  Accounts: \<open>services/identity.py\<close>, \<open>services/web_auth.py\<close> (login, lockout, cookie sessions, the
  role gate), \<open>services/lifecycle.py\<close> (single-use tokens, password reset, invitations,
  suspension) and \<open>services/accounts.py\<close>. \<open>ht\<close> is the keyed hash of tokens; a freshly drawn
  token or salt is an argument. A \<open>flush\<close> that would break a unique constraint raises
  \<open>IntegrityError\<close>.
\<close>

section \<open>Identity\<close>

definition normalize_email :: "string \<Rightarrow> string" where
  "normalize_email email = py_lower (py_strip email)"

definition sql_btrim :: "string \<Rightarrow> string" where
  "sql_btrim s = rev (dropWhile (\<lambda>c. c = CHR '' '') (rev (dropWhile (\<lambda>c. c = CHR '' '') s)))"

definition same_identity :: "uuid \<Rightarrow> string \<Rightarrow> person_row \<Rightarrow> bool" where
  "same_identity tenant canonical p = (pe_tenant p = tenant \<and> py_lower (sql_btrim (pe_email p)) = canonical)"

definition person_for_email :: "academy_db \<Rightarrow> uuid \<Rightarrow> string \<Rightarrow> person_row option" where
  "person_for_email db tenant email =
     (let canonical = normalize_email email
      in if canonical = '''' then None else find (same_identity tenant canonical) (people db))"

definition emails_unique :: "academy_db \<Rightarrow> bool" where
  "emails_unique db =
     (distinct (map (\<lambda>p. (pe_tenant p, pe_email p)) (people db))
      \<and> distinct (map (\<lambda>c. (cd_tenant c, cd_email c)) (credentials db)))"

definition owned_credential :: "uuid \<Rightarrow> uuid \<Rightarrow> credential_row \<Rightarrow> bool" where
  "owned_credential tenant person c = (cd_tenant c = tenant \<and> cd_person c = person)"

definition set_credential :: "uuid \<Rightarrow> (credential_row \<Rightarrow> credential_row) \<Rightarrow> academy_db \<Rightarrow> academy_db" where
  "set_credential i f db = db\<lparr>credentials := update_rows (\<lambda>c. cd_id c = i) f (credentials db)\<rparr>"

definition canonical_credential :: "string \<Rightarrow> credential_row list \<Rightarrow> credential_row option" where
  "canonical_credential canonical cs =
     (case find (\<lambda>c. normalize_email (cd_email c) = canonical) cs of
        Some c \<Rightarrow> Some c | None \<Rightarrow> (case cs of [] \<Rightarrow> None | c # _ \<Rightarrow> Some c))"

definition sync_credential_emails :: "academy_db \<Rightarrow> person_row \<Rightarrow> academy_db result" where
  "sync_credential_emails db p =
     (let canonical = normalize_email (pe_email p);
          db1 = db\<lparr>people := update_rows (\<lambda>r. pe_id r = pe_id p \<and> pe_tenant r = pe_tenant p)
                              (\<lambda>r. r\<lparr>pe_email := canonical\<rparr>) (people db)\<rparr>;
          db2 = (case canonical_credential canonical
                        (filter (owned_credential (pe_tenant p) (pe_id p)) (credentials db)) of
                   None \<Rightarrow> db1
                 | Some c \<Rightarrow> set_credential (cd_id c) (\<lambda>r. r\<lparr>cd_email := canonical\<rparr>) db1)
      in ensure (emails_unique db2) IntegrityError (Inr db2))"

section \<open>Login and lockout\<close>

definition MAX_FAILED_LOGINS :: nat where "MAX_FAILED_LOGINS = 5"
definition LOCKOUT_MINUTES :: int where "LOCKOUT_MINUTES = 15"

definition login_row :: "academy_db \<Rightarrow> uuid \<Rightarrow> string \<Rightarrow> (credential_row \<times> person_row) option" where
  "login_row db tenant email =
     (case filter (\<lambda>(c, p). pe_tenant p = cd_tenant c \<and> pe_id p = cd_person c \<and> cd_tenant c = tenant
                            \<and> py_lower (sql_btrim (pe_email p)) = normalize_email email)
             (List.product (credentials db) (people db)) of
        [] \<Rightarrow> None | cp # _ \<Rightarrow> Some cp)"

definition locked_at :: "instant \<Rightarrow> credential_row \<Rightarrow> bool" where
  "locked_at now c = (case cd_locked_until c of None \<Rightarrow> False | Some t \<Rightarrow> t > now)"

definition failed_login :: "instant \<Rightarrow> credential_row \<Rightarrow> credential_row" where
  "failed_login now c =
     c\<lparr>cd_failed := Suc (cd_failed c),
       cd_locked_until := (if Suc (cd_failed c) \<ge> MAX_FAILED_LOGINS then Some (now + 60 * LOCKOUT_MINUTES)
                           else cd_locked_until c)\<rparr>"

definition authenticate ::
    "kdf \<Rightarrow> academy_db \<Rightarrow> instant \<Rightarrow> uuid \<Rightarrow> string \<Rightarrow> string \<Rightarrow> (academy_db \<times> person_row option) result" where
  "authenticate kdf db now tenant email password =
     (case login_row db tenant email of
        None \<Rightarrow> Inr (db, None)
      | Some (c, p) \<Rightarrow>
          if locked_at now c then Inr (db, None)
          else if \<not> verify_password kdf password (cd_password_hash c)
          then Inr (set_credential (cd_id c) (failed_login now) db, None)
          else and_then (sync_credential_emails
                  (set_credential (cd_id c) (\<lambda>r. r\<lparr>cd_failed := 0, cd_locked_until := None\<rparr>) db) p) (\<lambda>db1.
            Inr (db1, if pe_status p = ''active'' then Some (p\<lparr>pe_email := normalize_email (pe_email p)\<rparr>) else None)))"

section \<open>Cookie sessions\<close>

definition start_session ::
    "(string \<Rightarrow> string) \<Rightarrow> academy_db \<Rightarrow> uuid \<Rightarrow> uuid \<Rightarrow> string \<Rightarrow> instant \<Rightarrow> academy_db result" where
  "start_session ht db tenant person token expires_at =
     ensure (person_exists db tenant person
             \<and> \<not> list_ex (\<lambda>s. se_tenant s = tenant \<and> se_token_hash s = ht token) (auth_sessions db)) IntegrityError
       (Inr (db\<lparr>auth_sessions := auth_sessions db @
                  [\<lparr>se_id = next_id db, se_tenant = tenant, se_person = person, se_token_hash = ht token,
                    se_expires_at = expires_at, se_revoked_at = None\<rparr>],
               next_id := Suc (next_id db)\<rparr>))"

definition revoke_session :: "(string \<Rightarrow> string) \<Rightarrow> academy_db \<Rightarrow> instant \<Rightarrow> uuid \<Rightarrow> string \<Rightarrow> academy_db" where
  "revoke_session ht db now tenant token =
     (if token = '''' then db
      else case find (\<lambda>s. se_tenant s = tenant \<and> se_token_hash s = ht token \<and> se_revoked_at s = None) (auth_sessions db) of
        None \<Rightarrow> db
      | Some s \<Rightarrow> db\<lparr>auth_sessions := update_rows (\<lambda>r. se_id r = se_id s) (\<lambda>r. r\<lparr>se_revoked_at := Some now\<rparr>) (auth_sessions db)\<rparr>)"

text \<open>\<open>Inl\<close> carries the reason of the rejection.\<close>

definition resolve_current_person ::
    "(string \<Rightarrow> string) \<Rightarrow> academy_db \<Rightarrow> instant \<Rightarrow> uuid \<Rightarrow> string \<Rightarrow> string + person_row" where
  "resolve_current_person ht db now tenant token =
     (if token = '''' then Inl ''missing_cookie''
      else case find (\<lambda>s. se_tenant s = tenant \<and> se_token_hash s = ht token) (auth_sessions db) of
        None \<Rightarrow> Inl ''session_not_found''
      | Some s \<Rightarrow>
          if se_revoked_at s \<noteq> None then Inl ''revoked''
          else if se_expires_at s \<le> now then Inl ''expired''
          else (case find (\<lambda>p. pe_id p = se_person s \<and> pe_tenant p = tenant) (people db) of
                  None \<Rightarrow> Inl ''person_not_found''
                | Some p \<Rightarrow> if pe_status p \<noteq> ''active'' then Inl ''inactive_person'' else Inr p))"

definition require_web_role :: "academy_db \<Rightarrow> uuid \<Rightarrow> string \<Rightarrow> person_row \<Rightarrow> person_row result" where
  "require_web_role db tenant slug p =
     ensure (list_ex (\<lambda>r. ro_tenant r = tenant \<and> ro_person r = pe_id p \<and> (ro_slug r = slug \<or> ro_slug r = ''admin''))
               (person_roles db)) HTTPForbidden (Inr p)"

section \<open>Single-use tokens\<close>

definition TOKEN_KINDS :: "string list" where
  "TOKEN_KINDS = [''password_reset'', ''invite'', ''email_verify'']"

definition ttl_hours :: "string \<Rightarrow> int" where
  "ttl_hours kind = (if kind = ''password_reset'' then 2 else if kind = ''invite'' then 168 else 72)"

definition issue_account_token ::
    "(string \<Rightarrow> string) \<Rightarrow> academy_db \<Rightarrow> instant \<Rightarrow> uuid \<Rightarrow> uuid \<Rightarrow> string \<Rightarrow> string \<Rightarrow> academy_db result" where
  "issue_account_token ht db now tenant person kind raw =
     (if kind \<notin> set TOKEN_KINDS then Inl (BadRequestError ''invalid token kind'')
      else ensure (person_exists db tenant person
                   \<and> \<not> list_ex (\<lambda>t. tk_tenant t = tenant \<and> tk_hash t = ht raw) (account_tokens db)) IntegrityError
        (Inr (db\<lparr>account_tokens := account_tokens db @
                   [\<lparr>tk_id = next_id db, tk_tenant = tenant, tk_person = person, tk_kind = kind, tk_hash = ht raw,
                     tk_expires_at = now + 3600 * ttl_hours kind, tk_used_at = None\<rparr>],
                next_id := Suc (next_id db)\<rparr>)))"

definition consume_token ::
    "(string \<Rightarrow> string) \<Rightarrow> academy_db \<Rightarrow> instant \<Rightarrow> uuid \<Rightarrow> string \<Rightarrow> string \<Rightarrow> (academy_db \<times> token_row) result" where
  "consume_token ht db now tenant kind raw =
     (case find (\<lambda>t. tk_tenant t = tenant \<and> tk_kind t = kind \<and> tk_hash t = ht raw) (account_tokens db) of
        None \<Rightarrow> Inl (BadRequestError ''invalid or expired token'')
      | Some t \<Rightarrow>
          if tk_used_at t \<noteq> None \<or> tk_expires_at t < now then Inl (BadRequestError ''invalid or expired token'')
          else Inr (db\<lparr>account_tokens := update_rows (\<lambda>r. tk_id r = tk_id t) (\<lambda>r. r\<lparr>tk_used_at := Some now\<rparr>) (account_tokens db)\<rparr>,
                    t\<lparr>tk_used_at := Some now\<rparr>))"

definition invalidate_outstanding_tokens :: "academy_db \<Rightarrow> instant \<Rightarrow> uuid \<Rightarrow> uuid \<Rightarrow> string \<Rightarrow> academy_db" where
  "invalidate_outstanding_tokens db now tenant person kind =
     db\<lparr>account_tokens :=
          update_rows (\<lambda>t. tk_tenant t = tenant \<and> tk_person t = person \<and> tk_kind t = kind \<and> tk_used_at t = None)
            (\<lambda>t. t\<lparr>tk_used_at := Some now\<rparr>) (account_tokens db)\<rparr>"

definition revoke_active_sessions :: "academy_db \<Rightarrow> instant \<Rightarrow> uuid \<Rightarrow> uuid \<Rightarrow> academy_db" where
  "revoke_active_sessions db now tenant person =
     db\<lparr>auth_sessions :=
          update_rows (\<lambda>s. se_tenant s = tenant \<and> se_person s = person \<and> se_revoked_at s = None)
            (\<lambda>s. s\<lparr>se_revoked_at := Some now\<rparr>) (auth_sessions db)\<rparr>"

section \<open>Passwords and invitations\<close>

definition find_person :: "academy_db \<Rightarrow> uuid \<Rightarrow> uuid \<Rightarrow> person_row option" where
  "find_person db tenant person = find (\<lambda>p. pe_tenant p = tenant \<and> pe_id p = person) (people db)"

text \<open>\<open>password_hash\<close> is the stored form that \<open>hash_password\<close> drew for the new password.\<close>

definition set_account_password ::
    "academy_db \<Rightarrow> instant \<Rightarrow> uuid \<Rightarrow> uuid \<Rightarrow> string \<Rightarrow> string \<Rightarrow> (academy_db \<times> person_row) result" where
  "set_account_password db now tenant person new_password password_hash =
     (if length new_password < 8 then Inl (BadRequestError ''password must be at least 8 characters'')
      else case find_person db tenant person of
        None \<Rightarrow> Inl (BadRequestError ''account no longer exists'')
      | Some p \<Rightarrow>
          and_then (sync_credential_emails db p) (\<lambda>db1.
            if filter (owned_credential tenant person) (credentials db1) = []
            then Inl (BadRequestError ''no credential for this account'')
            else
              let db2 = db1\<lparr>credentials := update_rows (owned_credential tenant person)
                              (\<lambda>c. c\<lparr>cd_password_hash := password_hash, cd_failed := 0, cd_locked_until := None\<rparr>)
                              (credentials db1)\<rparr>;
                  db3 = revoke_active_sessions db2 now tenant person
              in Inr (invalidate_outstanding_tokens db3 now tenant person ''password_reset'',
                      p\<lparr>pe_email := normalize_email (pe_email p)\<rparr>)))"

text \<open>\<open>None\<close> where no token was issued; the route answers alike in both cases.\<close>

definition request_password_reset ::
    "(string \<Rightarrow> string) \<Rightarrow> academy_db \<Rightarrow> instant \<Rightarrow> uuid \<Rightarrow> string \<Rightarrow> string \<Rightarrow> (academy_db \<times> string option) result" where
  "request_password_reset ht db now tenant email raw =
     (case person_for_email db tenant email of
        None \<Rightarrow> Inr (db, None)
      | Some p \<Rightarrow>
          if filter (owned_credential tenant (pe_id p)) (credentials db) = [] then Inr (db, None)
          else and_then (issue_account_token ht db now tenant (pe_id p) ''password_reset'' raw) (\<lambda>db1. Inr (db1, Some raw)))"

definition reset_password ::
    "(string \<Rightarrow> string) \<Rightarrow> academy_db \<Rightarrow> instant \<Rightarrow> uuid \<Rightarrow> string \<Rightarrow> string \<Rightarrow> string \<Rightarrow> (academy_db \<times> person_row) result" where
  "reset_password ht db now tenant raw new_password password_hash =
     (if length new_password < 8 then Inl (BadRequestError ''password must be at least 8 characters'')
      else and_then (consume_token ht db now tenant ''password_reset'' raw) (\<lambda>(db1, t).
        set_account_password db1 now tenant (tk_person t) new_password password_hash))"

definition issue_invite_for_person ::
    "(string \<Rightarrow> string) \<Rightarrow> academy_db \<Rightarrow> instant \<Rightarrow> uuid \<Rightarrow> uuid \<Rightarrow> string \<Rightarrow> academy_db result" where
  "issue_invite_for_person ht db now tenant person raw =
     issue_account_token ht (invalidate_outstanding_tokens db now tenant person ''invite'') now tenant person ''invite'' raw"

definition accept_invite ::
    "(string \<Rightarrow> string) \<Rightarrow> academy_db \<Rightarrow> instant \<Rightarrow> uuid \<Rightarrow> string \<Rightarrow> string \<Rightarrow> string \<Rightarrow> (academy_db \<times> person_row) result" where
  "accept_invite ht db now tenant raw password password_hash =
     (if length password < 8 then Inl (BadRequestError ''password must be at least 8 characters'')
      else and_then (consume_token ht db now tenant ''invite'' raw) (\<lambda>(db1, t).
        case find (\<lambda>p. pe_id p = tk_person t) (people db1) of
          None \<Rightarrow> Inl (BadRequestError ''account no longer exists'')
        | Some p \<Rightarrow>
            if filter (owned_credential tenant (tk_person t)) (credentials db1) \<noteq> []
            then Inl (ConflictError ''account already has a credential'')
            else
              let canonical = normalize_email (pe_email p);
                  db2 = db1\<lparr>people := update_rows (\<lambda>r. pe_id r = pe_id p) (\<lambda>r. r\<lparr>pe_email := canonical\<rparr>) (people db1),
                            credentials := credentials db1 @
                              [\<lparr>cd_id = next_id db1, cd_tenant = tenant, cd_person = pe_id p, cd_email = canonical,
                                cd_password_hash = password_hash, cd_failed = 0, cd_locked_until = None\<rparr>],
                            next_id := Suc (next_id db1)\<rparr>
              in ensure (emails_unique db2) IntegrityError
                   (Inr (invalidate_outstanding_tokens db2 now tenant (pe_id p) ''invite'', p\<lparr>pe_email := canonical\<rparr>))))"

definition set_account_status ::
    "academy_db \<Rightarrow> instant \<Rightarrow> uuid \<Rightarrow> uuid \<Rightarrow> string \<Rightarrow> (academy_db \<times> person_row) result" where
  "set_account_status db now tenant person status =
     (if status \<noteq> ''active'' \<and> status \<noteq> ''suspended'' then Inl (BadRequestError ''invalid account status'')
      else case find_person db tenant person of
        None \<Rightarrow> Inl (BadRequestError ''person not found'')
      | Some p \<Rightarrow>
          let db1 = db\<lparr>people := update_rows (\<lambda>r. pe_tenant r = tenant \<and> pe_id r = person)
                                  (\<lambda>r. r\<lparr>pe_status := status\<rparr>) (people db)\<rparr>
          in Inr (if status = ''suspended'' then revoke_active_sessions db1 now tenant person else db1,
                  p\<lparr>pe_status := status\<rparr>))"

section \<open>Role grants and account creation\<close>

definition ROLE_SLUGS :: "string list" where
  "ROLE_SLUGS = [''student'', ''instructor'', ''admin'']"

text \<open>\<open>ensure_roles\<close> and the grant: a role row is identified by its slug.\<close>

definition grant_role :: "academy_db \<Rightarrow> uuid \<Rightarrow> uuid \<Rightarrow> string \<Rightarrow> academy_db result" where
  "grant_role db tenant person slug =
     (if list_ex (\<lambda>r. ro_tenant r = tenant \<and> ro_person r = person \<and> ro_slug r = slug) (person_roles db) then Inr db
      else ensure (person_exists db tenant person) IntegrityError
        (Inr (db\<lparr>person_roles := person_roles db @ [\<lparr>ro_tenant = tenant, ro_person = person, ro_slug = slug\<rparr>]\<rparr>)))"

definition new_person :: "academy_db \<Rightarrow> uuid \<Rightarrow> string \<Rightarrow> string \<Rightarrow> string \<Rightarrow> person_row" where
  "new_person db tenant email first_name last_name =
     \<lparr>pe_id = next_id db, pe_tenant = tenant, pe_email = email, pe_first_name = first_name, pe_last_name = last_name,
      pe_status = ''active'', pe_prefs = []\<rparr>"

definition add_person :: "person_row \<Rightarrow> academy_db \<Rightarrow> academy_db" where
  "add_person p db = db\<lparr>people := people db @ [p], next_id := Suc (next_id db)\<rparr>"

definition create_user ::
    "academy_db \<Rightarrow> uuid \<Rightarrow> string \<Rightarrow> string \<Rightarrow> string \<Rightarrow> string \<Rightarrow> string \<Rightarrow> (academy_db \<times> person_row) result" where
  "create_user db tenant email first_name last_name password_hash role =
     (if role \<notin> set ROLE_SLUGS then Inl (ValueError ''invalid role'')
      else let canonical = normalize_email email
      in case person_for_email db tenant canonical of
           Some _ \<Rightarrow> Inl (ValueError ''a person with this email already exists in this tenant'')
         | None \<Rightarrow>
             let p = new_person db tenant canonical first_name last_name; db1 = add_person p db;
                 db2 = db1\<lparr>credentials := credentials db1 @
                             [\<lparr>cd_id = next_id db1, cd_tenant = tenant, cd_person = pe_id p, cd_email = canonical,
                               cd_password_hash = password_hash, cd_failed = 0, cd_locked_until = None\<rparr>],
                           next_id := Suc (next_id db1)\<rparr>
             in ensure (emails_unique db2) IntegrityError
                  (and_then (grant_role db2 tenant (pe_id p) role) (\<lambda>db3. Inr (db3, p))))"

end
