(* ===== verification/Accounts_Properties.thy ===== *)
theory Accounts_Properties
  imports Accounts
begin


text \<open>
  Lemmas on accounts: what the token and session commands leave alive, and the lockout
  counter over a run of login attempts.
\<close>

named_theorems account_simps \<open>which tables the account commands touch\<close>

lemma set_credential_tables [simp, account_simps]:
  "people (set_credential i f db) = people db" "auth_sessions (set_credential i f db) = auth_sessions db"
  "account_tokens (set_credential i f db) = account_tokens db"
  "credentials (set_credential i f db) = update_rows (\<lambda>c. cd_id c = i) f (credentials db)"
  by (simp_all add: set_credential_def)

lemma revoke_active_tables [simp, account_simps]:
  "people (revoke_active_sessions db now t p) = people db" "credentials (revoke_active_sessions db now t p) = credentials db"
  "account_tokens (revoke_active_sessions db now t p) = account_tokens db"
  by (simp_all add: revoke_active_sessions_def)

lemma invalidate_tables [simp, account_simps]:
  "people (invalidate_outstanding_tokens db now t p k) = people db"
  "credentials (invalidate_outstanding_tokens db now t p k) = credentials db"
  "auth_sessions (invalidate_outstanding_tokens db now t p k) = auth_sessions db"
  by (simp_all add: invalidate_outstanding_tokens_def)

section \<open>Dead sessions and tokens\<close>

definition no_live_session :: "academy_db \<Rightarrow> uuid \<Rightarrow> uuid \<Rightarrow> bool" where
  "no_live_session db tenant person =
     (\<forall>s \<in> set (auth_sessions db). se_tenant s = tenant \<and> se_person s = person \<longrightarrow> se_revoked_at s \<noteq> None)"

definition no_live_token :: "academy_db \<Rightarrow> uuid \<Rightarrow> uuid \<Rightarrow> string \<Rightarrow> bool" where
  "no_live_token db tenant person kind =
     (\<forall>t \<in> set (account_tokens db). tk_tenant t = tenant \<and> tk_person t = person \<and> tk_kind t = kind \<longrightarrow> tk_used_at t \<noteq> None)"

lemma revoke_active_dead: "no_live_session (revoke_active_sessions db now tenant person) tenant person"
  by (simp add: no_live_session_def revoke_active_sessions_def ball_update_rows)

lemma invalidate_dead: "no_live_token (invalidate_outstanding_tokens db now tenant person kind) tenant person kind"
  by (simp add: no_live_token_def invalidate_outstanding_tokens_def ball_update_rows)

lemma dead_session_rejected:
  assumes "no_live_session db tenant person" "resolve_current_person ht db now tenant cookie = Inr p"
  shows "pe_id p \<noteq> person"
proof -
  from assms(2) obtain s where "find (\<lambda>s. se_tenant s = tenant \<and> se_token_hash s = ht cookie) (auth_sessions db) = Some s"
    and r: "se_revoked_at s = None" and p: "find (\<lambda>p. pe_id p = se_person s \<and> pe_tenant p = tenant) (people db) = Some p"
    unfolding resolve_current_person_def by (simp split: if_splits option.splits)
  then have "s \<in> set (auth_sessions db)" "se_tenant s = tenant" by (blast dest: find_Some_in)+
  with assms(1) r have "se_person s \<noteq> person" unfolding no_live_session_def by blast
  with find_Some_in [OF p] show ?thesis by simp
qed

lemma dead_token_rejected:
  assumes "no_live_token db tenant person kind" "consume_token ht db now tenant kind raw = Inr (db', t)"
  shows "tk_person t \<noteq> person"
proof -
  from assms(2) obtain r where "find (\<lambda>t. tk_tenant t = tenant \<and> tk_kind t = kind \<and> tk_hash t = ht raw) (account_tokens db) = Some r"
    and "tk_used_at r = None" "t = r\<lparr>tk_used_at := Some now\<rparr>"
    unfolding consume_token_def by (simp split: if_splits option.splits)
  moreover from this(1) have "r \<in> set (account_tokens db)" "tk_tenant r = tenant" "tk_kind r = kind" by (blast dest: find_Some_in)+
  ultimately show ?thesis using assms(1) unfolding no_live_token_def by (metis token_row.select_convs(3) token_row.surjective token_row.update_convs(7))
qed

lemma consume_token_tables:
  "consume_token ht db now tenant kind raw = Inr (db', t) \<Longrightarrow>
     people db' = people db \<and> credentials db' = credentials db \<and> auth_sessions db' = auth_sessions db"
  by (auto simp: consume_token_def split: if_splits option.splits)

lemma sync_tables:
  assumes "sync_credential_emails db p = Inr db'"
  shows "auth_sessions db' = auth_sessions db" "account_tokens db' = account_tokens db"
    "map cd_id (credentials db') = map cd_id (credentials db)"
    "map pe_id (people db') = map pe_id (people db)"
proof -
  have c: "map cd_id (update_rows q (\<lambda>r. r\<lparr>cd_email := e\<rparr>) cs) = map cd_id cs" for q e cs by (rule map_update_rows) simp
  have m: "map pe_id (update_rows q (\<lambda>r. r\<lparr>pe_email := e\<rparr>) ps) = map pe_id ps" for q e ps by (rule map_update_rows) simp
  from assms show "auth_sessions db' = auth_sessions db" "account_tokens db' = account_tokens db"
    "map cd_id (credentials db') = map cd_id (credentials db)" "map pe_id (people db') = map pe_id (people db)"
    by (auto simp: sync_credential_emails_def Let_def result_simps c m split: option.splits)
qed

lemma filter_update_owned:
  "filter (owned_credential t p) (update_rows (owned_credential t p)
      (\<lambda>c. c\<lparr>cd_password_hash := h, cd_failed := 0, cd_locked_until := None\<rparr>) cs) = []
   \<longleftrightarrow> filter (owned_credential t p) cs = []"
  by (induction cs) (simp_all add: owned_credential_def)

lemma set_password_effect:
  assumes "set_account_password db now tenant person pw h = Inr (db', p)"
  shows "pe_id p = person" "no_live_session db' tenant person" "no_live_token db' tenant person ''password_reset''"
    "filter (owned_credential tenant person) (credentials db') \<noteq> []"
    "\<forall>c \<in> set (credentials db'). owned_credential tenant person c \<longrightarrow>
       cd_password_hash c = h \<and> cd_failed c = 0 \<and> cd_locked_until c = None"
proof -
  from assms obtain q db1 where q: "find_person db tenant person = Some q" and p: "p = q\<lparr>pe_email := normalize_email (pe_email q)\<rparr>"
    and ne: "filter (owned_credential tenant person) (credentials db1) \<noteq> []"
    and db': "db' = invalidate_outstanding_tokens
        (revoke_active_sessions (db1\<lparr>credentials := update_rows (owned_credential tenant person)
           (\<lambda>c. c\<lparr>cd_password_hash := h, cd_failed := 0, cd_locked_until := None\<rparr>) (credentials db1)\<rparr>) now tenant person)
        now tenant person ''password_reset''"
    by (auto simp: set_account_password_def Let_def result_simps split: if_splits option.splits)
  show "pe_id p = person" using q p by (auto simp: find_person_def dest: find_Some_in)
  show "no_live_session db' tenant person"
    using revoke_active_dead [of _ now tenant person] by (simp add: db' no_live_session_def)
  show "no_live_token db' tenant person ''password_reset''" unfolding db' by (rule invalidate_dead)
  show "filter (owned_credential tenant person) (credentials db') \<noteq> []"
    using ne by (simp add: db' filter_update_owned)
  show "\<forall>c \<in> set (credentials db'). owned_credential tenant person c \<longrightarrow>
      cd_password_hash c = h \<and> cd_failed c = 0 \<and> cd_locked_until c = None"
    by (simp add: db' ball_update_rows owned_credential_def) blast
qed

section \<open>Lockout\<close>

definition login_attempts :: "kdf \<Rightarrow> uuid \<Rightarrow> string \<Rightarrow> (instant \<times> string) list \<Rightarrow> academy_db \<Rightarrow> academy_db" where
  "login_attempts kdf tenant email =
     fold (\<lambda>(now, pw) db. case authenticate kdf db now tenant email pw of Inl _ \<Rightarrow> db | Inr (db', _) \<Rightarrow> db')"

lemma product_map_left: "List.product (map f xs) ys = map (\<lambda>(x, y). (f x, y)) (List.product xs ys)"
  by (induction xs) simp_all

lemma login_row_failed:
  assumes "login_row db tenant email = Some (c, p)"
  shows "login_row (set_credential (cd_id c) (failed_login now) db) tenant email = Some (failed_login now c, p)"
proof -
  let ?f = "\<lambda>r. if cd_id r = cd_id c then failed_login now r else r"
  let ?P = "\<lambda>(c :: credential_row, p :: person_row). pe_tenant p = cd_tenant c \<and> pe_id p = cd_person c \<and> cd_tenant c = tenant
                            \<and> py_lower (sql_btrim (pe_email p)) = normalize_email email"
  have "?P \<circ> (\<lambda>(x, y). (?f x, y)) = ?P" by (rule ext) (simp add: failed_login_def split: prod.split)
  then have "filter ?P (List.product (update_rows (\<lambda>r. cd_id r = cd_id c) (failed_login now) (credentials db)) (people db))
      = map (\<lambda>(x, y). (?f x, y)) (filter ?P (List.product (credentials db) (people db)))"
    by (simp only: update_rows_def product_map_left filter_map)
  moreover from assms obtain rest where "filter ?P (List.product (credentials db) (people db)) = (c, p) # rest"
    by (auto simp: login_row_def split: list.splits)
  ultimately show ?thesis by (simp add: login_row_def)
qed

text \<open>
  Along a run of wrong guesses that began at \<open>start\<close>: the account is locked for the full
  period, or it counted every guess so far and has not reached the limit.
\<close>

definition guarded :: "academy_db \<Rightarrow> uuid \<Rightarrow> string \<Rightarrow> string \<Rightarrow> instant \<Rightarrow> nat \<Rightarrow> bool" where
  "guarded db tenant email h start k =
     (\<exists>c p. login_row db tenant email = Some (c, p) \<and> cd_password_hash c = h
        \<and> ((\<exists>u. cd_locked_until c = Some u \<and> start + 60 * LOCKOUT_MINUTES \<le> u)
           \<or> \<not> locked_at start c \<and> k \<le> cd_failed c \<and> k < MAX_FAILED_LOGINS))"

lemma guarded_step:
  assumes g: "guarded db tenant email h start k" and w: "\<not> verify_password kdf pw h" and t: "start \<le> now"
  shows "\<exists>db'. authenticate kdf db now tenant email pw = Inr (db', None) \<and> guarded db' tenant email h start (Suc k)"
proof -
  from g obtain c p where r: "login_row db tenant email = Some (c, p)" and h: "cd_password_hash c = h"
    and s: "(\<exists>u. cd_locked_until c = Some u \<and> start + 60 * LOCKOUT_MINUTES \<le> u)
      \<or> \<not> locked_at start c \<and> k \<le> cd_failed c \<and> k < MAX_FAILED_LOGINS"
    unfolding guarded_def by blast
  show ?thesis
  proof (cases "locked_at now c")
    case True
    then have "\<exists>u. cd_locked_until c = Some u \<and> start + 60 * LOCKOUT_MINUTES \<le> u"
      using s t by (auto simp: locked_at_def split: option.splits)
    with r h True show ?thesis by (auto simp: authenticate_def guarded_def)
  next
    case False
    have "guarded (set_credential (cd_id c) (failed_login now) db) tenant email h start (Suc k)"
      unfolding guarded_def
      using login_row_failed [OF r, of now] h s t False
      by (auto simp: failed_login_def locked_at_def split: option.splits)
    with r h w False show ?thesis by (auto simp: authenticate_def)
  qed
qed

lemma guarded_run:
  assumes "guarded db tenant email h start k"
    and "\<forall>(now, pw) \<in> set gs. start \<le> now \<and> \<not> verify_password kdf pw h"
  shows "guarded (login_attempts kdf tenant email gs db) tenant email h start (k + length gs)"
  using assms
proof (induction gs arbitrary: db k)
  case (Cons g gs)
  obtain now pw where g: "g = (now, pw)" by force
  from guarded_step [OF Cons.prems(1), of kdf pw now] Cons.prems(2) g obtain db' where
    d: "authenticate kdf db now tenant email pw = Inr (db', None)" "guarded db' tenant email h start (Suc k)" by auto
  have "login_attempts kdf tenant email (g # gs) db = login_attempts kdf tenant email gs db'"
    using d g by (simp add: login_attempts_def)
  with Cons.IH [OF d(2)] Cons.prems(2) show ?case by simp
qed (simp add: login_attempts_def)


text \<open>
  The properties of accounts: stored passwords, the lockout, and what a password reset leaves
  of the account's earlier access.
\<close>

text \<open>A hash stored by \<open>hash_password\<close> is accepted by \<open>verify_password\<close> for its own password, and for another one exactly
  when PBKDF2 gives it the same digest under the stored salt and iteration count: the textual form (dollar-separated, base64)
  loses nothing.\<close>

theorem stored_passwords_verify:
  assumes "hash_password kdf salt password = Some stored"
  shows "verify_password kdf password stored
    \<and> (verify_password kdf other stored \<longleftrightarrow> kdf other salt 210000 = kdf password salt 210000)"
  using verify_stored [OF assms] by blast

definition toy_kdf :: kdf where
  "toy_kdf password salt n = Some (map (\<lambda>c. word_of_nat (of_char c)) password @ salt)"

theorem stored_passwords_verify_witness:
  "\<exists>stored. hash_password toy_kdf [1, 2, 3] ''secret'' = Some stored \<and> verify_password toy_kdf ''secret'' stored"
proof -
  obtain stored where s: "hash_password toy_kdf [1, 2, 3] ''secret'' = Some stored"
    by (auto simp: hash_password_def toy_kdf_def)
  with stored_passwords_verify [OF s] show ?thesis by blast
qed

text \<open>C26. From an account that is not locked, five or more wrong passwords in a row lock it, whatever its counter was and whatever
  their times: from then on, until fifteen minutes after the first of them, every login is refused without touching the store,
  the right password included.\<close>

theorem five_wrong_passwords_lock:
  assumes "login_row db tenant email = Some (c, p)" "\<not> locked_at start c"
    and "MAX_FAILED_LOGINS \<le> length guesses"
    and "\<forall>(now, pw) \<in> set guesses. start \<le> now \<and> \<not> verify_password kdf pw (cd_password_hash c)"
    and "later < start + 60 * LOCKOUT_MINUTES"
  shows "authenticate kdf (login_attempts kdf tenant email guesses db) later tenant email anything
       = Inr (login_attempts kdf tenant email guesses db, None)"
proof -
  have "guarded db tenant email (cd_password_hash c) start 0"
    using assms(1,2) by (auto simp: guarded_def MAX_FAILED_LOGINS_def)
  from guarded_run [OF this assms(4)] assms(3)
  obtain c' p' u where "login_row (login_attempts kdf tenant email guesses db) tenant email = Some (c', p')"
    "cd_locked_until c' = Some u" "start + 60 * LOCKOUT_MINUTES \<le> u"
    unfolding guarded_def by auto
  with assms(5) show ?thesis by (simp add: authenticate_def locked_at_def)
qed

definition account_db :: academy_db where
  "account_db = empty_db\<lparr>
     people := [\<lparr>pe_id = 11, pe_tenant = 7, pe_email = ''ada@x'', pe_first_name = ''Ada'', pe_last_name = ''L'',
                 pe_status = ''active'', pe_prefs = []\<rparr>],
     credentials := [\<lparr>cd_id = 21, cd_tenant = 7, cd_person = 11, cd_email = ''ada@x'', cd_password_hash = ''none'',
                      cd_failed = 0, cd_locked_until = None\<rparr>],
     auth_sessions := [\<lparr>se_id = 31, se_tenant = 7, se_person = 11, se_token_hash = ''cookie'', se_expires_at = 1000, se_revoked_at = None\<rparr>],
     account_tokens := [\<lparr>tk_id = 41, tk_tenant = 7, tk_person = 11, tk_kind = ''password_reset'', tk_hash = ''raw'',
                         tk_expires_at = 500, tk_used_at = None\<rparr>],
     next_id := 50\<rparr>"

lemma account_login: "\<exists>p. login_row account_db 7 ''ada@x'' = Some (hd (credentials account_db), p)"
  by (simp add: login_row_def account_db_def sql_btrim_def normalize_email_def py_strip_def py_isspace_def)

theorem five_wrong_passwords_lock_witness:
  "\<exists>db'. db' = login_attempts toy_kdf 7 ''ada@x'' (replicate 5 (10, ''guess'')) account_db
     \<and> authenticate toy_kdf db' 200 7 ''ada@x'' ''anything'' = Inr (db', None)"
proof -
  obtain p where l: "login_row account_db 7 ''ada@x'' = Some (hd (credentials account_db), p)" using account_login by blast
  have n: "\<not> verify_password toy_kdf ''guess'' (cd_password_hash (hd (credentials account_db)))"
    by (simp add: account_db_def verify_password_def numeral_3_eq_3)
  from five_wrong_passwords_lock [OF l, of 10 "replicate 5 (10, ''guess'')" toy_kdf 200 "''anything''"] n show ?thesis
    by (simp add: MAX_FAILED_LOGINS_def LOCKOUT_MINUTES_def locked_at_def account_db_def)
qed

text \<open>C18. A completed password reset ends all earlier access of the account: no cookie issued before resolves to the person, no
  outstanding reset token of the person can be consumed any more (the one just used included), and every credential the person
  holds carries the new hash, unlocked and with its failure counter cleared.\<close>

theorem password_reset_ends_earlier_access:
  assumes "reset_password ht db now tenant raw new_password stored = Inr (db', p)"
  shows "(\<forall>cookie later q. resolve_current_person ht db' later tenant cookie = Inr q \<longrightarrow> pe_id q \<noteq> pe_id p)
    \<and> (\<forall>raw' later db'' t. consume_token ht db' later tenant ''password_reset'' raw' = Inr (db'', t) \<longrightarrow> tk_person t \<noteq> pe_id p)
    \<and> (\<exists>c \<in> set (credentials db'). owned_credential tenant (pe_id p) c)
    \<and> (\<forall>c \<in> set (credentials db'). owned_credential tenant (pe_id p) c \<longrightarrow>
         cd_password_hash c = stored \<and> cd_failed c = 0 \<and> cd_locked_until c = None)"
proof -
  from assms obtain db1 and t :: token_row where s: "set_account_password db1 now tenant (tk_person t) new_password stored = Inr (db', p)"
    by (auto simp: reset_password_def result_simps split: if_splits)
  note e = set_password_effect [OF s]
  show ?thesis unfolding e(1)
  proof (intro conjI allI impI)
    show "\<exists>c \<in> set (credentials db'). owned_credential tenant (tk_person t) c"
      using e(4) unfolding filter_empty_conv by blast
  qed (use e(5) in \<open>auto dest: dead_session_rejected [OF e(2)] dead_token_rejected [OF e(3)]\<close>)
qed

theorem password_reset_ends_earlier_access_witness:
  "resolve_current_person id account_db 100 7 ''cookie'' = Inr (hd (people account_db))
   \<and> (\<exists>db' p. reset_password id account_db 100 7 ''raw'' ''new password'' ''hash'' = Inr (db', p)
        \<and> (\<forall>q. resolve_current_person id db' 200 7 ''cookie'' = Inr q \<longrightarrow> pe_id q \<noteq> 11))"
proof -
  have a: "resolve_current_person id account_db 100 7 ''cookie'' = Inr (hd (people account_db))"
    by (simp add: resolve_current_person_def account_db_def)
  have "\<exists>db' p. reset_password id account_db 100 7 ''raw'' ''new password'' ''hash'' = Inr (db', p) \<and> pe_id p = 11"
    by (simp add: reset_password_def consume_token_def account_db_def set_account_password_def find_person_def
        sync_credential_emails_def canonical_credential_def owned_credential_def emails_unique_def set_credential_def
        ensure_def empty_db_def Let_def)
  then obtain db' p where r: "reset_password id account_db 100 7 ''raw'' ''new password'' ''hash'' = Inr (db', p)" "pe_id p = 11"
    by blast
  with a password_reset_ends_earlier_access [OF r(1)] show ?thesis by auto
qed

end
