(* ===== verification/Entrance_Exam.thy ===== *)
theory Entrance_Exam
  imports Assessment
begin

text \<open>
  \<open>services/entrance_exam.py\<close>: the access token, the bank and time-limit precedence, the
  server clock of a sitting, autosave, reset, and grading into a competency profile; with the
  exam invitation of \<open>services/applicant_email.py\<close>. The loaded \<open>Applicant\<close> is passed and
  returned beside the store that holds its row. \<open>raw\<close> is a freshly drawn token.
\<close>

record exam_env =
  xe_hash :: "string \<Rightarrow> string"
  xe_hex :: "string \<Rightarrow> string"
  xe_fullmatch :: "string \<Rightarrow> string \<Rightarrow> bool option"
  xe_render :: "json \<Rightarrow> string"
  xe_quote :: "string \<Rightarrow> string"
  xe_iso :: "instant \<Rightarrow> string"

definition find_applicant :: "academy_db \<Rightarrow> uuid \<Rightarrow> applicant_row option" where
  "find_applicant db i = find (\<lambda>a. ap_id a = i) (applicants db)"

definition save_applicant :: "applicant_row \<Rightarrow> academy_db \<Rightarrow> academy_db" where
  "save_applicant a db = db\<lparr>applicants := update_rows (\<lambda>r. ap_id r = ap_id a) (\<lambda>_. a) (applicants db)\<rparr>"

definition upd_sitting :: "(sitting \<Rightarrow> sitting) \<Rightarrow> applicant_row \<Rightarrow> applicant_row" where
  "upd_sitting f a = a\<lparr>ap_sitting := f (ap_sitting a)\<rparr>"

section \<open>Bands\<close>

definition LEVELS :: "(string \<times> rat) list" where
  "LEVELS = [(''beginner'', 0), (''intermediate'', 2 / 5), (''advanced'', 7 / 10)]"

definition level_for :: "rat \<Rightarrow> (string \<times> rat) list \<Rightarrow> string" where
  "level_for fraction levels =
     fold (\<lambda>(name, bar) band. if fraction \<ge> bar then name else band) levels (fst (hd levels))"

section \<open>Tokens\<close>

definition issue_token :: "exam_env \<Rightarrow> academy_db \<Rightarrow> string \<Rightarrow> applicant_row \<Rightarrow> academy_db \<times> applicant_row" where
  "issue_token xe db raw a =
     (let a1 = upd_sitting (\<lambda>s. s\<lparr>si_token_hash := Some (xe_hash xe raw)\<rparr>) a in (save_applicant a1 db, a1))"

definition applicant_for_token :: "exam_env \<Rightarrow> academy_db \<Rightarrow> uuid \<Rightarrow> string \<Rightarrow> applicant_row option" where
  "applicant_for_token xe db tenant raw =
     (if raw = '''' then None
      else find (\<lambda>a. ap_tenant a = tenant \<and> si_token_hash (ap_sitting a) = Some (xe_hash xe raw)) (applicants db))"

section \<open>Bank and time limit\<close>

definition defaults_for :: "academy_db \<Rightarrow> uuid \<Rightarrow> defaults_row option" where
  "defaults_for db tenant = find (\<lambda>d. td_tenant d = tenant) (entrance_defaults db)"

definition academy_default_bank_id :: "academy_db \<Rightarrow> uuid \<Rightarrow> uuid option" where
  "academy_default_bank_id db tenant = (case defaults_for db tenant of None \<Rightarrow> None | Some d \<Rightarrow> td_bank d)"

definition academy_default_time_limit :: "academy_db \<Rightarrow> uuid \<Rightarrow> int option" where
  "academy_default_time_limit db tenant = (case defaults_for db tenant of None \<Rightarrow> None | Some d \<Rightarrow> td_time_limit d)"

definition set_academy_defaults :: "academy_db \<Rightarrow> uuid \<Rightarrow> uuid \<Rightarrow> int option \<Rightarrow> academy_db \<times> defaults_row" where
  "set_academy_defaults db tenant bank limit =
     (let row = \<lparr>td_tenant = tenant, td_bank = Some bank, td_time_limit = limit\<rparr>
      in (case defaults_for db tenant of
            None \<Rightarrow> db\<lparr>entrance_defaults := entrance_defaults db @ [row]\<rparr>
          | Some _ \<Rightarrow> db\<lparr>entrance_defaults := update_rows (\<lambda>d. td_tenant d = tenant) (\<lambda>_. row) (entrance_defaults db)\<rparr>,
          row))"

definition get_cohort :: "academy_db \<Rightarrow> uuid option \<Rightarrow> cohort_row option" where
  "get_cohort db i = (case i of None \<Rightarrow> None | Some c \<Rightarrow> find (\<lambda>r. ch_id r = c) (cohorts db))"

definition resolve_bank_id :: "academy_db \<Rightarrow> applicant_row \<Rightarrow> uuid result" where
  "resolve_bank_id db a =
     (case si_bank (ap_sitting a) of
        Some b \<Rightarrow> Inr b
      | None \<Rightarrow>
          (case (case get_cohort db (ap_cohort a) of None \<Rightarrow> None | Some c \<Rightarrow> ch_entrance_bank c) of
             Some b \<Rightarrow> Inr b
           | None \<Rightarrow>
               (case academy_default_bank_id db (ap_tenant a) of
                  Some b \<Rightarrow> Inr b
                | None \<Rightarrow> Inl (BadRequestError ''No entrance assessment is configured for this cohort or academy.''))))"

definition has_entrance_exam :: "academy_db \<Rightarrow> applicant_row \<Rightarrow> bool" where
  "has_entrance_exam db a = (case resolve_bank_id db a of Inl _ \<Rightarrow> False | Inr _ \<Rightarrow> True)"

definition time_limit_minutes :: "academy_db \<Rightarrow> applicant_row \<Rightarrow> int option" where
  "time_limit_minutes db a =
     (case (case get_cohort db (ap_cohort a) of None \<Rightarrow> None | Some c \<Rightarrow> ch_entrance_time_limit c) of
        Some m \<Rightarrow> Some m | None \<Rightarrow> academy_default_time_limit db (ap_tenant a))"

definition sample_for :: "exam_env \<Rightarrow> applicant_row \<Rightarrow> question_row list \<Rightarrow> int \<Rightarrow> question_row list" where
  "sample_for xe a qs per_cat =
     select (xe_hex xe) (uuid_str (ap_id a)) qs \<lparr>per_category = nat (max per_cat 0), total = 0\<rparr> ''''"

section \<open>The clock of a sitting\<close>

definition GRACE_SECONDS :: int where "GRACE_SECONDS = 15"
definition DEFAULT_DEADLINE_DAYS :: int where "DEFAULT_DEADLINE_DAYS = 7"

definition elapsed_since :: "instant \<Rightarrow> applicant_row \<Rightarrow> int" where
  "elapsed_since now a = (case si_started_at (ap_sitting a) of None \<Rightarrow> 0 | Some t \<Rightarrow> max 0 (now - t))"

record timing =
  ti_limit :: "int option"
  ti_elapsed :: int
  ti_remaining :: "int option"
  ti_expired :: bool

definition timing_info :: "academy_db \<Rightarrow> instant \<Rightarrow> applicant_row \<Rightarrow> timing" where
  "timing_info db now a =
     (let limit = time_limit_minutes db a; elapsed = elapsed_since now a;
          remaining = map_option (\<lambda>l. max 0 (l * 60 - elapsed)) limit
      in \<lparr>ti_limit = limit, ti_elapsed = elapsed, ti_remaining = remaining, ti_expired = (remaining = Some 0)\<rparr>)"

definition start_exam :: "academy_db \<Rightarrow> instant \<Rightarrow> applicant_row \<Rightarrow> academy_db \<times> applicant_row \<times> timing" where
  "start_exam db now a =
     (if si_started_at (ap_sitting a) = None
      then let a1 = upd_sitting (\<lambda>s. s\<lparr>si_started_at := Some now, si_elapsed := 0\<rparr>) a; db1 = save_applicant a1 db
           in (db1, a1, timing_info db1 now a1)
      else (db, a, timing_info db now a))"

definition record_elapsed :: "academy_db \<Rightarrow> instant \<Rightarrow> applicant_row \<Rightarrow> academy_db \<times> applicant_row" where
  "record_elapsed db now a =
     (if si_taken_at (ap_sitting a) \<noteq> None \<or> si_started_at (ap_sitting a) = None then (db, a)
      else let a1 = upd_sitting (\<lambda>s. s\<lparr>si_elapsed := max (si_elapsed s) (elapsed_since now a)\<rparr>) a
           in (save_applicant a1 db, a1))"

definition past_deadline :: "instant \<Rightarrow> applicant_row \<Rightarrow> bool" where
  "past_deadline now a = (case si_deadline (ap_sitting a) of None \<Rightarrow> False | Some d \<Rightarrow> now > d)"

definition time_exceeded :: "academy_db \<Rightarrow> instant \<Rightarrow> applicant_row \<Rightarrow> bool" where
  "time_exceeded db now a =
     (case time_limit_minutes db a of
        None \<Rightarrow> False
      | Some l \<Rightarrow> si_started_at (ap_sitting a) \<noteq> None \<and> elapsed_since now a > l * 60 + GRACE_SECONDS)"

section \<open>Invitations\<close>

definition rstrip_slash :: "string \<Rightarrow> string" where
  "rstrip_slash s = rev (dropWhile (\<lambda>c. c = CHR ''/'') (rev s))"

definition send_exam_invite :: "academy_db \<Rightarrow> instant \<Rightarrow> applicant_row \<Rightarrow> academy_db \<times> applicant_row \<times> bool" where
  "send_exam_invite db now a =
     (case enqueue_email db now (ap_tenant a)
             (''entrance-invite:'' @ uuid_str (ap_id a) @ '':''
               @ (case si_token_hash (ap_sitting a) of None \<Rightarrow> ''None'' | Some h \<Rightarrow> h))
             ''entrance_invite'' (ap_email a) (JObj [(''applicant_id'', JStr (uuid_str (ap_id a)))]) of
        (db1, queued) \<Rightarrow>
          if queued then let a1 = a\<lparr>ap_invite_sent_at := Some now\<rparr> in (save_applicant a1 db1, a1, True)
          else (db1, a, False))"

record invitation =
  iv_token :: string
  iv_url :: string
  iv_deadline :: "instant option"
  iv_emailed :: bool

definition invite ::
    "exam_env \<Rightarrow> academy_db \<Rightarrow> instant \<Rightarrow> string \<Rightarrow> string \<Rightarrow> int \<Rightarrow> bool \<Rightarrow> applicant_row \<Rightarrow>
     academy_db \<times> applicant_row \<times> invitation" where
  "invite xe db now raw base_url deadline_days send a =
     (case issue_token xe db raw a of (db1, a1) \<Rightarrow>
        let a2 = upd_sitting (\<lambda>s. s\<lparr>si_deadline := Some (now + 86400 * deadline_days)\<rparr>) a1;
            db2 = save_applicant a2 db1
        in case (if send then send_exam_invite db2 now a2 else (db2, a2, False)) of (db3, a3, emailed) \<Rightarrow>
             (db3, a3,
              \<lparr>iv_token = raw, iv_url = rstrip_slash base_url @ ''/apply/assessment?token='' @ xe_quote xe raw,
               iv_deadline = si_deadline (ap_sitting a3), iv_emailed = emailed\<rparr>))"

section \<open>Autosave and reset\<close>

definition save_answers :: "academy_db \<Rightarrow> answers \<Rightarrow> applicant_row \<Rightarrow> academy_db \<times> applicant_row" where
  "save_answers db ans a =
     (if si_taken_at (ap_sitting a) \<noteq> None then (db, a)
      else let a1 = upd_sitting (\<lambda>s. s\<lparr>si_answers := Some (filter (\<lambda>(k, v). v \<noteq> []) ans)\<rparr>) a in (save_applicant a1 db, a1))"

definition reset_sitting :: "sitting \<Rightarrow> sitting" where
  "reset_sitting s =
     s\<lparr>si_started_at := None, si_elapsed := 0, si_taken_at := None, si_answers := None, si_score := None,
       si_level := None, si_profile := None, si_valid := None, si_invalid_reason := None, si_time_exceeded := False,
       si_deadline := None, si_erp_synced_at := None, si_reset_count := si_reset_count s + 1\<rparr>"

definition reset_exam :: "exam_env \<Rightarrow> academy_db \<Rightarrow> string \<Rightarrow> applicant_row \<Rightarrow> academy_db \<times> applicant_row" where
  "reset_exam xe db raw a = issue_token xe db raw (upd_sitting reset_sitting a)"

definition reset_and_invite ::
    "exam_env \<Rightarrow> academy_db \<Rightarrow> instant \<Rightarrow> string \<Rightarrow> int \<Rightarrow> applicant_row \<Rightarrow> academy_db \<times> applicant_row \<times> bool" where
  "reset_and_invite xe db now raw deadline_days a =
     (case reset_exam xe db raw a of (db1, a1) \<Rightarrow>
        let a2 = upd_sitting (\<lambda>s. s\<lparr>si_deadline := Some (now + 86400 * deadline_days)\<rparr>) a1
        in send_exam_invite (save_applicant a2 db1) now a2)"

section \<open>Grading\<close>

text \<open>The per-category tally, an insertion-ordered dictionary of (correct, total) weights.\<close>

definition tally :: "string \<Rightarrow> rat \<Rightarrow> bool \<Rightarrow> (string \<times> rat \<times> rat) list \<Rightarrow> (string \<times> rat \<times> rat) list" where
  "tally k w ok agg =
     (case map_of agg k of
        None \<Rightarrow> agg @ [(k, if ok then w else 0, w)]
      | Some (c, t) \<Rightarrow> AList.update k (if ok then c + w else c, t + w) agg)"

definition category_lookup :: "question_row list \<Rightarrow> string \<Rightarrow> string" where
  "category_lookup qs i =
     (case map_of (rev (map (\<lambda>q. (eq_ext_id q, category_of q)) qs)) i of None \<Rightarrow> ''general'' | Some c \<Rightarrow> c)"

definition weight_lookup :: "question_row list \<Rightarrow> string \<Rightarrow> rat" where
  "weight_lookup qs i =
     (case map_of (rev (map (\<lambda>q. (eq_ext_id q, rat_of_int (qu_weight q))) qs)) i of None \<Rightarrow> 1 | Some w \<Rightarrow> w)"

definition competency_profile :: "question_row list \<Rightarrow> item_result list \<Rightarrow> (string \<times> rat) list" where
  "competency_profile qs items =
     map (\<lambda>(cat, c, t). (cat, if t \<noteq> 0 then py_round_to 4 (c / t) else 0))
       (fold (\<lambda>it. tally (category_lookup qs (it_id it)) (weight_lookup qs (it_id it)) (it_correct it)) items [])"

record exam_result =
  xr_score :: rat
  xr_level :: string
  xr_profile :: "(string \<times> rat) list"
  xr_valid :: bool
  xr_invalid_reason :: "string option"

definition store_result :: "instant \<Rightarrow> bool \<Rightarrow> exam_result \<Rightarrow> sitting \<Rightarrow> sitting" where
  "store_result now late r s =
     s\<lparr>si_score := Some (xr_score r), si_level := Some (xr_level r), si_profile := Some (xr_profile r),
       si_valid := Some (xr_valid r), si_invalid_reason := xr_invalid_reason r, si_time_exceeded := late,
       si_taken_at := Some now, si_result_version := si_result_version s + 1, si_erp_synced_at := None,
       si_answers := None\<rparr>"

text \<open>
  The store and the object come back with the error too: a caller that catches it commits
  what was flushed before.
\<close>

definition grade_and_record ::
    "exam_env \<Rightarrow> academy_db \<Rightarrow> instant \<Rightarrow> uuid \<Rightarrow> answers \<Rightarrow> uuid option \<Rightarrow> applicant_row \<Rightarrow>
     academy_db \<times> applicant_row \<times> (academy_error + exam_result)" where
  "grade_and_record xe db now tenant ans bank a =
     (if si_taken_at (ap_sitting a) \<noteq> None
      then (db, a, Inl (BadRequestError ''Entrance assessment already completed.''))
      else if si_started_at (ap_sitting a) = None
      then (db, a, Inl (BadRequestError ''Entrance assessment has not been started.''))
      else case record_elapsed db now a of (db1, a1) \<Rightarrow>
        (case (case bank of Some b \<Rightarrow> Inr b | None \<Rightarrow> resolve_bank_id db1 a1) of
           Inl e \<Rightarrow> (db1, a1, Inl e)
         | Inr b \<Rightarrow>
             let a2 = upd_sitting (\<lambda>s. s\<lparr>si_bank := Some b\<rparr>) a1; db2 = save_applicant a2 db1;
                 rows = bank_rows db2 tenant b
             in if rows = [] then (db2, a2, Inl (NotFoundError ''Entrance assessment has no questions.''))
                else let qs = sample_for xe a2 rows (entrance_per_category db2)
                in case grade_submission (xe_fullmatch xe) (xe_render xe) ans (map question_view qs) 0 of
                     Inl e \<Rightarrow> (db2, a2, Inl e)
                   | Inr g \<Rightarrow>
                       let overall = py_round_to 4 (gr_fraction g);
                           (valid, reason) = check_validity overall (Some (rat_of_int (si_elapsed (ap_sitting a2)))) qs;
                           r = \<lparr>xr_score = overall, xr_level = level_for overall LEVELS,
                                xr_profile = competency_profile qs (gr_per_item g), xr_valid = valid,
                                xr_invalid_reason = reason\<rparr>;
                           a3 = upd_sitting (store_result now (time_exceeded db2 now a2) r) a2
                       in (save_applicant a3 db2, a3, Inr r)))"

end
