(* ===== verification/Onboarding.thy ===== *)
theory Onboarding
  imports Entrance_Exam
begin

text \<open>
  \<open>services/onboarding.py\<close>: the checklist an accepted applicant works through; enrolment is
  gated on every task of it being done.
\<close>

definition DEFAULT_TASKS :: "(string \<times> string) list" where
  "DEFAULT_TASKS =
     [(''entrance_assessment'', ''Complete the entrance assessment''),
      (''confirm_details'', ''Confirm your enrolment details''),
      (''orientation'', ''Review the programme orientation'')]"

definition TASK_STATUSES :: "string list" where
  "TASK_STATUSES = [''pending'', ''done'']"

definition tasks_of :: "academy_db \<Rightarrow> uuid \<Rightarrow> uuid \<Rightarrow> task_row list" where
  "tasks_of db tenant applicant = filter (\<lambda>t. ot_tenant t = tenant \<and> ot_applicant t = applicant) (onboarding_tasks db)"

definition list_tasks :: "academy_db \<Rightarrow> uuid \<Rightarrow> uuid \<Rightarrow> task_row list" where
  "list_tasks db tenant applicant = sort_key (\<lambda>t. (ot_order_index t, ot_created_at t)) (tasks_of db tenant applicant)"

definition add_task :: "instant \<Rightarrow> uuid \<Rightarrow> uuid \<Rightarrow> nat \<times> string \<times> string \<Rightarrow> academy_db \<Rightarrow> academy_db" where
  "add_task now tenant applicant = (\<lambda>(order, key, label) db.
     db\<lparr>onboarding_tasks := onboarding_tasks db @
          [\<lparr>ot_id = next_id db, ot_tenant = tenant, ot_applicant = applicant, ot_key = key, ot_label = label,
            ot_order_index = order, ot_status = ''pending'', ot_completed_at = None, ot_created_at = now\<rparr>],
        next_id := Suc (next_id db)\<rparr>)"

definition seed_tasks :: "academy_db \<Rightarrow> instant \<Rightarrow> uuid \<Rightarrow> uuid \<Rightarrow> academy_db \<times> task_row list" where
  "seed_tasks db now tenant applicant =
     (let existing = map ot_key (tasks_of db tenant applicant);
          db1 = fold (add_task now tenant applicant)
                  (filter (\<lambda>(order, key, label). key \<notin> set existing) (enumerate 0 DEFAULT_TASKS)) db
      in (db1, list_tasks db1 tenant applicant))"

definition set_task_status :: "academy_db \<Rightarrow> instant \<Rightarrow> uuid \<Rightarrow> string \<Rightarrow> academy_db result" where
  "set_task_status db now task status =
     (if status \<notin> set TASK_STATUSES then Inl (BadRequestError ''Unknown task status'')
      else if \<not> list_ex (\<lambda>t. ot_id t = task) (onboarding_tasks db)
      then Inl (NotFoundError ''Onboarding task not found.'')
      else Inr (db\<lparr>onboarding_tasks :=
                     update_rows (\<lambda>t. ot_id t = task)
                       (\<lambda>t. t\<lparr>ot_status := status, ot_completed_at := (if status = ''done'' then Some now else None)\<rparr>)
                       (onboarding_tasks db)\<rparr>))"

definition complete_task_by_key :: "academy_db \<Rightarrow> instant \<Rightarrow> uuid \<Rightarrow> uuid \<Rightarrow> string \<Rightarrow> academy_db result" where
  "complete_task_by_key db now tenant applicant key =
     (case find (\<lambda>t. ot_key t = key) (tasks_of db tenant applicant) of
        None \<Rightarrow> Inr db
      | Some t \<Rightarrow> set_task_status db now (ot_id t) ''done'')"

definition is_complete :: "academy_db \<Rightarrow> uuid \<Rightarrow> uuid \<Rightarrow> bool" where
  "is_complete db tenant applicant =
     (let ts = list_tasks db tenant applicant in ts \<noteq> [] \<and> list_all (\<lambda>t. ot_status t = ''done'') ts)"

end
