(* ===== verification/Admissions.thy ===== *)
theory Admissions
  imports Onboarding Accounts
begin

text \<open>
  \<open>services/admissions.py\<close>: intake, the pipeline of statuses,
  the admin's review actions, the automatic decision on a graded sitting, and enrolment; with
  the recipients and idempotency keys of \<open>services/applicant_email.py\<close>. An applicant is
  addressed by id and read back from the store, as one ORM session shares the loaded row.
  Row-level security restricts every query to the tenant of the request.
\<close>

section \<open>Intake\<close>

definition APPLICANT_STATUSES :: "string list" where
  "APPLICANT_STATUSES =
     [''applied'', ''screened'', ''accepted'', ''onboarding'', ''enrolled'', ''rejected'', ''waitlisted'']"

definition ALLOWED_TRANSITIONS :: "(string \<times> string list) list" where
  "ALLOWED_TRANSITIONS =
     [(''applied'', [''screened'', ''rejected'', ''waitlisted'']),
      (''screened'', [''accepted'', ''rejected'', ''waitlisted'']),
      (''waitlisted'', [''screened'', ''accepted'', ''rejected'']),
      (''accepted'', [''onboarding'', ''rejected'']),
      (''onboarding'', [''enrolled'', ''rejected'']),
      (''enrolled'', []),
      (''rejected'', [])]"

definition allowed_from :: "string \<Rightarrow> string list" where
  "allowed_from status = (case map_of ALLOWED_TRANSITIONS status of None \<Rightarrow> [] | Some ts \<Rightarrow> ts)"

definition PROFILE_FIELDS :: "string list" where
  "PROFILE_FIELDS =
     [''date_of_birth'', ''state'', ''city'', ''highest_qualification'', ''field_of_study'', ''years_experience'',
      ''current_role'', ''has_device'', ''has_internet'', ''can_work_at_height'', ''available_from'',
      ''heard_from'', ''cv_url'']"

text \<open>\<open>JNull\<close> is Python's \<open>None\<close>.\<close>

definition apply_profile :: "(string \<times> json) list \<Rightarrow> applicant_row \<Rightarrow> applicant_row" where
  "apply_profile profile a =
     fold (\<lambda>f r. case obj_get profile f of
                    None \<Rightarrow> r
                  | Some v \<Rightarrow> if v = JNull then r else r\<lparr>ap_profile := AList.update f v (ap_profile r)\<rparr>)
       PROFILE_FIELDS a"

definition active_intake_track :: "academy_db \<Rightarrow> uuid \<Rightarrow> uuid option \<Rightarrow> uuid option \<Rightarrow> track_row option" where
  "active_intake_track db tenant cohort track =
     (case (cohort, track) of
        (Some c, Some t) \<Rightarrow>
          find (\<lambda>r. tr_tenant r = tenant \<and> tr_id r = t \<and> tr_status r = ''active''
                    \<and> list_ex (\<lambda>ct. ct_tenant ct = tenant \<and> ct_track ct = t \<and> ct_cohort ct = c \<and> ct_status ct = ''active'')
                        (cohort_tracks db)
                    \<and> list_ex (\<lambda>ch. ch_tenant ch = tenant \<and> ch_id ch = c \<and> ch_status ch = ''active'') (cohorts db))
            (tracks db)
      | _ \<Rightarrow> None)"

definition has_active_intake :: "academy_db \<Rightarrow> applicant_row \<Rightarrow> bool" where
  "has_active_intake db a = (active_intake_track db (ap_tenant a) (ap_cohort a) (ap_track a) \<noteq> None)"

text \<open>The composite foreign key of a placement; it binds only where no column is null.\<close>

definition placement_exists :: "academy_db \<Rightarrow> applicant_row \<Rightarrow> bool" where
  "placement_exists db a =
     (case (ap_cohort a, ap_track a) of
        (Some c, Some t) \<Rightarrow> list_ex (\<lambda>ct. ct_tenant ct = ap_tenant a \<and> ct_cohort ct = c \<and> ct_track ct = t) (cohort_tracks db)
      | _ \<Rightarrow> True)"

definition fresh_sitting :: sitting where
  "fresh_sitting =
     \<lparr>si_score = None, si_level = None, si_profile = None, si_taken_at = None, si_bank = None, si_erp_synced_at = None,
      si_result_version = 0, si_token_hash = None, si_started_at = None, si_elapsed = 0, si_time_exceeded = False,
      si_answers = None, si_valid = None, si_invalid_reason = None, si_reset_count = 0, si_deadline = None,
      si_return_url = None\<rparr>"

record application =
  aq_email :: string
  aq_first_name :: string
  aq_last_name :: string
  aq_phone :: "string option"
  aq_program :: "string option"
  aq_cohort :: "uuid option"
  aq_track :: "uuid option"
  aq_source :: string
  aq_external_ref :: "string option"
  aq_applied_on :: "int option"
  aq_profile :: "(string \<times> json) list"

definition same_application :: "uuid \<Rightarrow> string \<Rightarrow> string option \<Rightarrow> applicant_row \<Rightarrow> bool" where
  "same_application tenant email ref a =
     (ap_tenant a = tenant
      \<and> (if or_empty ref \<noteq> '''' then ap_external_ref a = ref else ap_email a = email \<and> ap_external_ref a = None))"

text \<open>The two partial unique indexes of the table.\<close>

definition applicant_conflict :: "academy_db \<Rightarrow> applicant_row \<Rightarrow> bool" where
  "applicant_conflict db a =
     list_ex (\<lambda>r. ap_tenant r = ap_tenant a \<and> ap_external_ref r = ap_external_ref a
                  \<and> (ap_external_ref a = None \<longrightarrow> ap_email r = ap_email a)) (applicants db)"

definition refresh_application :: "application \<Rightarrow> string option \<Rightarrow> uuid option \<Rightarrow> applicant_row \<Rightarrow> applicant_row" where
  "refresh_application q program track a =
     (let a1 = a\<lparr>ap_first_name := py_strip (aq_first_name q), ap_last_name := py_strip (aq_last_name q)\<rparr>;
          a2 = (if or_empty (aq_phone q) \<noteq> '''' then a1\<lparr>ap_phone := map_option py_strip (aq_phone q)\<rparr> else a1);
          a3 = (if or_empty program \<noteq> '''' then a2\<lparr>ap_program := map_option py_strip program\<rparr> else a2);
          a4 = (if aq_cohort q \<noteq> None then a3\<lparr>ap_cohort := aq_cohort q\<rparr> else a3);
          a5 = (if track \<noteq> None then a4\<lparr>ap_track := track\<rparr> else a4);
          a6 = (if or_empty (aq_external_ref q) \<noteq> '''' \<and> or_empty (ap_external_ref a5) = ''''
                then a5\<lparr>ap_external_ref := aq_external_ref q\<rparr> else a5)
      in apply_profile (aq_profile q) a6)"

definition new_applicant ::
    "academy_db \<Rightarrow> instant \<Rightarrow> int \<Rightarrow> uuid \<Rightarrow> application \<Rightarrow> string \<Rightarrow> string option \<Rightarrow> uuid option \<Rightarrow> applicant_row" where
  "new_applicant db now today tenant q email program track =
     apply_profile (aq_profile q)
       \<lparr>ap_id = next_id db, ap_tenant = tenant, ap_email = email, ap_first_name = py_strip (aq_first_name q),
        ap_last_name = py_strip (aq_last_name q), ap_phone = map_option py_strip (or_none (aq_phone q)),
        ap_program = map_option py_strip (or_none program), ap_status = ''applied'', ap_source = aq_source q,
        ap_external_ref = aq_external_ref q,
        ap_applied_on = (case aq_applied_on q of None \<Rightarrow> today | Some d \<Rightarrow> d), ap_notes = None, ap_person = None,
        ap_cohort = aq_cohort q, ap_track = track, ap_sitting = fresh_sitting, ap_invite_sent_at = None,
        ap_onboarding_token_hash = None, ap_profile = [], ap_created_at = now\<rparr>"

definition add_applicant :: "applicant_row \<Rightarrow> academy_db \<Rightarrow> academy_db" where
  "add_applicant a db = db\<lparr>applicants := applicants db @ [a], next_id := Suc (next_id db)\<rparr>"

text \<open>The track a form may select: \<open>Inr None\<close> where it selects none.\<close>

definition selected_track :: "academy_db \<Rightarrow> uuid \<Rightarrow> application \<Rightarrow> (track_row option) result" where
  "selected_track db tenant q =
     (case aq_track q of
        None \<Rightarrow> Inr None
      | Some t \<Rightarrow>
          if aq_cohort q = None then Inl (BadRequestError ''A cohort is required when selecting a track.'')
          else (case active_intake_track db tenant (aq_cohort q) (Some t) of
                  None \<Rightarrow> Inl (BadRequestError ''That training track is not open for the selected cohort.'')
                | Some r \<Rightarrow> Inr (Some r)))"

definition submit_application ::
    "academy_db \<Rightarrow> instant \<Rightarrow> int \<Rightarrow> uuid \<Rightarrow> application \<Rightarrow> (academy_db \<times> applicant_row) result" where
  "submit_application db now today tenant q =
     (let email = py_lower (py_strip (aq_email q)) in
      and_then (selected_track db tenant q) (\<lambda>tr.
        let program = (case tr of None \<Rightarrow> aq_program q | Some r \<Rightarrow> Some (tr_name r)); track = map_option tr_id tr in
        case find (same_application tenant email (aq_external_ref q)) (applicants db) of
          Some a \<Rightarrow>
            let a1 = refresh_application q program track a
            in ensure (placement_exists db a1) IntegrityError (Inr (save_applicant a1 db, a1))
        | None \<Rightarrow>
            let a = new_applicant db now today tenant q email program track
            in if applicant_conflict db a \<or> \<not> placement_exists db a
               then Inl (ConflictError ''An application with this email already exists.'')
               else Inr (add_applicant a db, a)))"

definition submit_external_application ::
    "academy_db \<Rightarrow> instant \<Rightarrow> int \<Rightarrow> uuid \<Rightarrow> string \<Rightarrow> string \<Rightarrow> string \<Rightarrow> string \<Rightarrow> string \<Rightarrow> int option \<Rightarrow>
     (academy_db \<times> applicant_row \<times> bool) result" where
  "submit_external_application db now today tenant ref email first_name last_name source applied_on =
     (let canonical = py_lower (py_strip email);
          q = \<lparr>aq_email = email, aq_first_name = first_name, aq_last_name = last_name, aq_phone = None, aq_program = None,
               aq_cohort = None, aq_track = None, aq_source = source, aq_external_ref = Some ref,
               aq_applied_on = applied_on, aq_profile = []\<rparr>;
          same = (\<lambda>a. ap_tenant a = tenant \<and> ap_external_ref a = Some ref);
          created = \<not> list_ex same (applicants db);
          db1 = (if created then add_applicant (new_applicant db now today tenant q canonical None None) db else db)
      in case find same (applicants db1) of
           None \<Rightarrow> Inl (ConflictError ''Could not establish an applicant for that external reference.'')
         | Some a \<Rightarrow>
             if ap_email a \<noteq> canonical
             then Inl (ConflictError ''That external reference is already registered to a different email address.'')
             else Inr (db1, a, created))"

section \<open>Listing\<close>

text \<open>\<open>LIKE\<close> with its wildcards and escape; \<open>ILIKE\<close> ignores case.\<close>

fun sql_like :: "string \<Rightarrow> string \<Rightarrow> bool" where
  "sql_like [] s = (s = [])"
| "sql_like (c # p) [] = (c = CHR ''%'' \<and> sql_like p [])"
| "sql_like (c # p) (x # s) =
     (if c = CHR ''%'' then sql_like p (x # s) \<or> sql_like (c # p) s
      else if c = CHR ''_'' then sql_like p s
      else if c = char_of (92 :: nat)
      then (case p of [] \<Rightarrow> False | d # p' \<Rightarrow> d = x \<and> sql_like p' s)
      else c = x \<and> sql_like p s)"

definition sql_ilike :: "string \<Rightarrow> string \<Rightarrow> bool" where
  "sql_ilike p s = sql_like (py_lower p) (py_lower s)"

definition name_matches :: "string option \<Rightarrow> applicant_row \<Rightarrow> bool" where
  "name_matches search a =
     (let term = py_strip (or_empty search); pattern = ''%'' @ term @ ''%''
      in term = ''''
         \<or> sql_ilike pattern (ap_first_name a) \<or> sql_ilike pattern (ap_last_name a)
         \<or> sql_ilike pattern (ap_first_name a @ '' '' @ ap_last_name a))"

record applicant_filter =
  af_status :: "string option"
  af_cohort :: "uuid option"
  af_search :: "string option"
  af_from :: "int option"
  af_to :: "int option"
  af_rank :: bool
  af_include_invalid :: bool

definition opt_all :: "('a \<Rightarrow> bool) \<Rightarrow> 'a option \<Rightarrow> bool" where
  "opt_all p x = (case x of None \<Rightarrow> True | Some a \<Rightarrow> p a)"

definition selects :: "applicant_filter \<Rightarrow> applicant_row \<Rightarrow> bool" where
  "selects f a =
     (opt_all (\<lambda>s. ap_status a = s) (af_status f) \<and> opt_all (\<lambda>c. ap_cohort a = Some c) (af_cohort f)
      \<and> name_matches (af_search f) a
      \<and> opt_all (\<lambda>d. ap_applied_on a \<ge> d) (af_from f) \<and> opt_all (\<lambda>d. ap_applied_on a \<le> d) (af_to f)
      \<and> (af_rank f \<and> \<not> af_include_invalid f \<longrightarrow> si_valid (ap_sitting a) \<noteq> Some False))"

definition rank_key :: "applicant_row \<Rightarrow> bool \<times> rat \<times> int" where
  "rank_key a =
     (case si_score (ap_sitting a) of None \<Rightarrow> (True, 0, - ap_created_at a) | Some s \<Rightarrow> (False, - s, - ap_created_at a))"

definition recent_key :: "applicant_row \<Rightarrow> int \<times> int" where
  "recent_key a = (- ap_applied_on a, - ap_created_at a)"

definition known_status :: "applicant_filter \<Rightarrow> bool" where
  "known_status f = opt_all (\<lambda>s. s \<in> set APPLICANT_STATUSES) (af_status f)"

definition list_applicants ::
    "academy_db \<Rightarrow> uuid \<Rightarrow> applicant_filter \<Rightarrow> nat option \<Rightarrow> nat \<Rightarrow> applicant_row list result" where
  "list_applicants db tenant f limit offset =
     (if \<not> known_status f then Inl (BadRequestError ''Unknown status'')
      else let rows = filter (\<lambda>a. ap_tenant a = tenant \<and> selects f a) (applicants db);
               sorted_rows = (if af_rank f then sort_key rank_key rows else sort_key recent_key rows)
           in Inr (case limit of None \<Rightarrow> sorted_rows | Some l \<Rightarrow> take l (drop offset sorted_rows)))"

text \<open>The count knows no cohort filter.\<close>

definition count_applicants :: "academy_db \<Rightarrow> uuid \<Rightarrow> applicant_filter \<Rightarrow> nat result" where
  "count_applicants db tenant f =
     (if \<not> known_status f then Inl (BadRequestError ''Unknown status'')
      else Inr (count_rows (\<lambda>a. ap_tenant a = tenant \<and> selects (f\<lparr>af_cohort := None\<rparr>) a) (applicants db)))"

definition get_applicant :: "academy_db \<Rightarrow> uuid \<Rightarrow> applicant_row result" where
  "get_applicant db i =
     (case find_applicant db i of None \<Rightarrow> Inl (NotFoundError ''Applicant not found.'') | Some a \<Rightarrow> Inr a)"

definition active_intake_choices :: "academy_db \<Rightarrow> uuid \<Rightarrow> (cohort_row \<times> track_row) list" where
  "active_intake_choices db tenant =
     sort_key (\<lambda>(ch, tr). (tr_name tr, ch_name ch))
       (concat (map (\<lambda>ch. concat (map (\<lambda>ct. map (\<lambda>tr. (ch, tr))
           (filter (\<lambda>tr. tr_tenant tr = tenant \<and> tr_id tr = ct_track ct \<and> tr_status tr = ''active'') (tracks db)))
         (filter (\<lambda>ct. ct_tenant ct = tenant \<and> ct_cohort ct = ch_id ch \<and> ct_status ct = ''active'') (cohort_tracks db))))
        (filter (\<lambda>ch. ch_tenant ch = tenant \<and> ch_status ch = ''active'') (cohorts db))))"

section \<open>The pipeline\<close>

definition audit_applicant ::
    "academy_db \<Rightarrow> applicant_row \<Rightarrow> uuid option \<Rightarrow> string \<Rightarrow> (string \<times> json) list \<Rightarrow> academy_db" where
  "audit_applicant db a actor action details =
     write_audit_event db (ap_tenant a) actor action ''applicant'' (Some (uuid_str (ap_id a))) (JObj details)"

definition id_text :: "uuid option \<Rightarrow> json" where
  "id_text i = JStr (case i of None \<Rightarrow> '''' | Some u \<Rightarrow> uuid_str u)"

definition assign_applicant_intake ::
    "academy_db \<Rightarrow> uuid \<Rightarrow> uuid \<Rightarrow> uuid \<Rightarrow> uuid \<Rightarrow> string option \<Rightarrow> (academy_db \<times> applicant_row) result" where
  "assign_applicant_intake db i cohort track actor reason =
     and_then (get_applicant db i) (\<lambda>a.
       case active_intake_track db (ap_tenant a) (Some cohort) (Some track) of
         None \<Rightarrow> Inl (BadRequestError ''That cohort and training track are not active.'')
       | Some tr \<Rightarrow>
           let a1 = a\<lparr>ap_cohort := Some cohort, ap_track := Some track, ap_program := Some (tr_name tr)\<rparr>
           in Inr (audit_applicant (save_applicant a1 db) a1 (Some actor) ''applicant.intake_assigned''
                     [(''from_cohort_id'', id_text (ap_cohort a)), (''from_track_id'', id_text (ap_track a)),
                      (''to_cohort_id'', JStr (uuid_str cohort)), (''to_track_id'', JStr (uuid_str track)),
                      (''track_name'', JStr (tr_name tr)), (''reason'', JStr (or_empty reason)),
                      (''source'', JStr ''admin_web'')], a1))"

definition move_to :: "string \<Rightarrow> string option \<Rightarrow> applicant_row \<Rightarrow> applicant_row" where
  "move_to status notes a =
     a\<lparr>ap_status := status, ap_notes := (if or_empty notes \<noteq> '''' then notes else ap_notes a)\<rparr>"

text \<open>Entering the onboarding seeds its checklist; a sitting already taken ticks its task.\<close>

definition enter_onboarding :: "academy_db \<Rightarrow> instant \<Rightarrow> applicant_row \<Rightarrow> academy_db result" where
  "enter_onboarding db now a =
     (let db1 = fst (seed_tasks db now (ap_tenant a) (ap_id a))
      in if si_taken_at (ap_sitting a) \<noteq> None
         then complete_task_by_key db1 now (ap_tenant a) (ap_id a) ''entrance_assessment'' else Inr db1)"

definition transition_applicant ::
    "academy_db \<Rightarrow> instant \<Rightarrow> uuid \<Rightarrow> string \<Rightarrow> string option \<Rightarrow> uuid option \<Rightarrow> string \<Rightarrow>
     (academy_db \<times> applicant_row) result" where
  "transition_applicant db now i to_status notes actor source =
     (if to_status \<notin> set APPLICANT_STATUSES then Inl (BadRequestError ''Unknown status'')
      else and_then (get_applicant db i) (\<lambda>a.
        if to_status = ap_status a then Inr (db, a)
        else if to_status \<notin> set (allowed_from (ap_status a)) then Inl (BadRequestError ''Cannot move applicant'')
        else if to_status \<in> {''accepted'', ''onboarding'', ''enrolled''} \<and> \<not> has_active_intake db a
        then Inl (BadRequestError ''Assign an active cohort and canonical training track before accepting this applicant.'')
        else
          let a1 = move_to to_status notes a;
              db1 = audit_applicant (save_applicant a1 db) a1 actor ''applicant.transition''
                      [(''from_status'', JStr (ap_status a)), (''to_status'', JStr to_status),
                       (''reason'', JStr (or_empty notes)), (''source'', JStr source)]
          in if to_status = ''onboarding'' then and_then (enter_onboarding db1 now a1) (\<lambda>db2. Inr (db2, a1))
             else Inr (db1, a1)))"

fun transitions ::
    "academy_db \<Rightarrow> instant \<Rightarrow> uuid \<Rightarrow> string list \<Rightarrow> string option \<Rightarrow> uuid option \<Rightarrow> string \<Rightarrow> academy_db result" where
  "transitions db now i [] notes actor source = Inr db"
| "transitions db now i (s # path) notes actor source =
     and_then (transition_applicant db now i s notes actor source) (\<lambda>(db1, a). transitions db1 now i path notes actor source)"

definition mint_onboarding_token :: "exam_env \<Rightarrow> academy_db \<Rightarrow> string \<Rightarrow> applicant_row \<Rightarrow> academy_db \<times> applicant_row" where
  "mint_onboarding_token xe db raw a =
     (let a1 = a\<lparr>ap_onboarding_token_hash := Some (xe_hash xe raw)\<rparr> in (save_applicant a1 db, a1))"

definition applicant_for_onboarding_token :: "exam_env \<Rightarrow> academy_db \<Rightarrow> uuid \<Rightarrow> string \<Rightarrow> applicant_row option" where
  "applicant_for_onboarding_token xe db tenant raw =
     (if raw = '''' then None
      else find (\<lambda>a. ap_tenant a = tenant \<and> ap_onboarding_token_hash a = Some (xe_hash xe raw)) (applicants db))"

text \<open>\<open>format(x, ".0%")\<close>.\<close>

definition percent :: "rat \<Rightarrow> string" where
  "percent x = show_int (py_round (x * 100)) @ ''%''"

definition apply_assessment_policy ::
    "exam_env \<Rightarrow> academy_db \<Rightarrow> instant \<Rightarrow> string \<Rightarrow> applicant_row \<Rightarrow>
     (academy_db \<times> applicant_row \<times> string option) result" where
  "apply_assessment_policy xe db now raw a =
     (case (si_score (ap_sitting a), get_cohort db (ap_cohort a)) of
        (Some score, Some c) \<Rightarrow>
          (case ch_auto_accept_threshold c of
             Some threshold \<Rightarrow>
               if ap_status a \<noteq> ''applied'' \<or> si_valid (ap_sitting a) \<noteq> Some True then Inr (db, a, None)
               else if score \<ge> threshold
               then and_then (transitions db now (ap_id a) [''screened'', ''accepted'', ''onboarding''] None None
                                ''assessment_policy'') (\<lambda>db1.
                    and_then (get_applicant db1 (ap_id a)) (\<lambda>a1.
                    let a2 = a1\<lparr>ap_notes := Some (''auto-accepted: entrance score '' @ percent score @ '' >= threshold ''
                                                   @ percent threshold)\<rparr>;
                        (db3, a3) = mint_onboarding_token xe (save_applicant a2 db1) raw a2
                    in Inr (db3, a3, Some raw)))
               else and_then (transition_applicant db now (ap_id a) ''waitlisted''
                                (Some (''auto-waitlisted: entrance score '' @ percent score @ '' below threshold ''
                                       @ percent threshold)) None ''assessment_policy'') (\<lambda>(db1, a1).
                    Inr (db1, a1, None))
           | None \<Rightarrow> Inr (db, a, None))
      | _ \<Rightarrow> Inr (db, a, None))"

section \<open>Enrolment\<close>

definition placed_person :: "academy_db \<Rightarrow> applicant_row \<Rightarrow> academy_db \<times> person_row" where
  "placed_person db a =
     (case find (\<lambda>p. pe_tenant p = ap_tenant a \<and> pe_email p = ap_email a) (people db) of
        Some p \<Rightarrow> (db, p)
      | None \<Rightarrow> let p = new_person db (ap_tenant a) (ap_email a) (ap_first_name a) (ap_last_name a) in (add_person p db, p))"

definition place_enrollment :: "academy_db \<Rightarrow> applicant_row \<Rightarrow> uuid \<Rightarrow> uuid \<Rightarrow> academy_db" where
  "place_enrollment db a cohort person =
     (case find (\<lambda>e. en_tenant e = ap_tenant a \<and> en_cohort e = cohort \<and> en_person e = person) (enrollments db) of
        None \<Rightarrow>
          db\<lparr>enrollments := enrollments db @
               [\<lparr>en_id = next_id db, en_tenant = ap_tenant a, en_cohort = cohort, en_person = person,
                 en_track = ap_track a, en_role = ''student'', en_status = ''active'', en_access_ends_at = None\<rparr>],
             next_id := Suc (next_id db)\<rparr>
      | Some e \<Rightarrow>
          if en_track e = ap_track a then db
          else db\<lparr>enrollments := update_rows (\<lambda>r. en_id r = en_id e) (\<lambda>r. r\<lparr>en_track := ap_track a\<rparr>) (enrollments db)\<rparr>)"

definition enroll_applicant ::
    "academy_db \<Rightarrow> instant \<Rightarrow> uuid \<Rightarrow> uuid \<Rightarrow> uuid option \<Rightarrow> (academy_db \<times> applicant_row) result" where
  "enroll_applicant db now i cohort actor =
     and_then (get_applicant db i) (\<lambda>a.
       if ap_status a \<noteq> ''onboarding'' then Inl (BadRequestError ''Applicant must be in onboarding to enrol'')
       else if \<not> is_complete db (ap_tenant a) (ap_id a)
       then Inl (BadRequestError ''Applicant has outstanding onboarding tasks and cannot enrol yet.'')
       else if ap_cohort a \<noteq> Some cohort then Inl (BadRequestError ''Applicant must be enrolled into their assigned cohort.'')
       else if \<not> has_active_intake db a then Inl (BadRequestError ''Applicant has no active canonical training track.'')
       else case placed_person db a of (db1, p) \<Rightarrow>
         let a1 = a\<lparr>ap_person := Some (pe_id p)\<rparr>;
             db2 = save_applicant a1 (place_enrollment db1 a cohort (pe_id p))
         in transition_applicant db2 now i ''enrolled'' None actor (if actor \<noteq> None then ''admin'' else ''onboarding''))"

definition try_auto_enroll ::
    "exam_env \<Rightarrow> academy_db \<Rightarrow> instant \<Rightarrow> string \<Rightarrow> applicant_row \<Rightarrow>
     (academy_db \<times> applicant_row \<times> bool \<times> string option) result" where
  "try_auto_enroll xe db now raw a =
     (case ap_cohort a of
        None \<Rightarrow> Inr (db, a, False, None)
      | Some c \<Rightarrow>
          if ap_status a \<noteq> ''onboarding'' \<or> \<not> is_complete db (ap_tenant a) (ap_id a) then Inr (db, a, False, None)
          else and_then (enroll_applicant db now (ap_id a) c None) (\<lambda>(db1, a1).
            case ap_person a1 of
              None \<Rightarrow> Inr (db1, a1, False, None)
            | Some person \<Rightarrow>
                and_then (grant_role db1 (ap_tenant a) person ''student'') (\<lambda>db2.
                  if filter (owned_credential (ap_tenant a) person) (credentials db2) \<noteq> [] then Inr (db2, a1, True, None)
                  else and_then (issue_invite_for_person (xe_hash xe) db2 now (ap_tenant a) person raw) (\<lambda>db3.
                    Inr (db3, a1, True, Some raw)))))"

section \<open>Outcome emails\<close>

definition send_application_received :: "academy_db \<Rightarrow> instant \<Rightarrow> applicant_row \<Rightarrow> academy_db \<times> bool" where
  "send_application_received db now a =
     enqueue_email db now (ap_tenant a) (''application-received:'' @ uuid_str (ap_id a)) ''application_received''
       (ap_email a) (JObj [])"

definition send_waitlist_notice :: "academy_db \<Rightarrow> instant \<Rightarrow> applicant_row \<Rightarrow> academy_db \<times> bool" where
  "send_waitlist_notice db now a =
     enqueue_email db now (ap_tenant a)
       (''assessment-waitlist:'' @ uuid_str (ap_id a) @ '':'' @ show_nat (si_reset_count (ap_sitting a)))
       ''assessment_waitlist'' (ap_email a) (JObj [])"

definition send_results_received :: "academy_db \<Rightarrow> instant \<Rightarrow> applicant_row \<Rightarrow> academy_db \<times> bool" where
  "send_results_received db now a =
     enqueue_email db now (ap_tenant a)
       (''assessment-review:'' @ uuid_str (ap_id a) @ '':'' @ show_nat (si_reset_count (ap_sitting a)))
       ''assessment_review'' (ap_email a) (JObj [])"

definition send_onboarding_invite :: "academy_db \<Rightarrow> instant \<Rightarrow> applicant_row \<Rightarrow> academy_db \<times> bool" where
  "send_onboarding_invite db now a =
     enqueue_email db now (ap_tenant a)
       (''onboarding-invite:'' @ uuid_str (ap_id a) @ '':''
         @ (case ap_onboarding_token_hash a of None \<Rightarrow> ''None'' | Some h \<Rightarrow> h))
       ''onboarding_invite'' (ap_email a) (JObj [])"

definition send_enrollment_welcome :: "academy_db \<Rightarrow> instant \<Rightarrow> applicant_row \<Rightarrow> academy_db \<times> bool" where
  "send_enrollment_welcome db now a =
     enqueue_email db now (ap_tenant a)
       (''enrollment-welcome:'' @ uuid_str (ap_id a) @ '':''
         @ (case ap_person a of None \<Rightarrow> ''None'' | Some p \<Rightarrow> uuid_str p))
       ''enrollment_welcome'' (ap_email a) (JObj [])"

section \<open>Review actions\<close>

definition ADMIN_ACTION_LABELS :: "(string \<times> string) list" where
  "ADMIN_ACTION_LABELS =
     [(''accept'', ''Accept and invite to onboarding''), (''waitlist'', ''Move to waitlist''),
      (''reject'', ''Reject application''), (''resend_invitation'', ''Resend invitation''),
      (''extend_access'', ''Extend access''), (''reinvite_assessment'', ''Send a new assessment invitation''),
      (''reset_assessment'', ''Reset sitting and send a new invitation'')]"

definition review_actions :: "applicant_row \<Rightarrow> bool \<Rightarrow> string list" where
  "review_actions a placement_ready =
     (if placement_ready \<and> ap_status a \<in> {''applied'', ''screened'', ''waitlisted'', ''accepted''} then [''accept''] else [])
     @ (if ''waitlisted'' \<in> set (allowed_from (ap_status a)) then [''waitlist''] else [])
     @ (if ''rejected'' \<in> set (allowed_from (ap_status a)) then [''reject''] else [])
     @ (if si_taken_at (ap_sitting a) \<noteq> None \<or> si_started_at (ap_sitting a) \<noteq> None then [''reset_assessment'']
        else if si_token_hash (ap_sitting a) \<noteq> None then [''resend_invitation'', ''extend_access''] else [])"

definition admin_review_actions :: "applicant_row \<Rightarrow> bool option \<Rightarrow> (string \<times> string option \<times> bool) list" where
  "admin_review_actions a placement_ready =
     map (\<lambda>k. (k, map_of ADMIN_ACTION_LABELS k, k \<in> {''reject'', ''reset_assessment''}))
       (review_actions a (case placement_ready of
          None \<Rightarrow> ap_cohort a \<noteq> None \<and> ap_track a \<noteq> None | Some b \<Rightarrow> b))"

definition iso_text :: "exam_env \<Rightarrow> instant option \<Rightarrow> json" where
  "iso_text xe t = JStr (case t of None \<Rightarrow> '''' | Some u \<Rightarrow> xe_iso xe u)"

definition resend_applicant_invitation ::
    "exam_env \<Rightarrow> academy_db \<Rightarrow> instant \<Rightarrow> string \<Rightarrow> uuid \<Rightarrow> uuid \<Rightarrow> string \<Rightarrow> bool \<Rightarrow> string option \<Rightarrow>
     (academy_db \<times> applicant_row) result" where
  "resend_applicant_invitation xe db now raw i actor base_url extend_access reason =
     and_then (get_applicant db i) (\<lambda>a.
       if si_taken_at (ap_sitting a) \<noteq> None then Inl (BadRequestError ''This applicant has already completed the assessment.'')
       else if \<not> has_entrance_exam db a
       then Inl (BadRequestError ''No entrance assessment is configured for this applicant.'')
       else
         let previous = si_deadline (ap_sitting a);
             should_extend = (extend_access \<or> previous = None \<or> past_deadline now a);
             (db1, a1) =
               (if should_extend
                then (case invite xe db now raw base_url DEFAULT_DEADLINE_DAYS True a of (d, b, _) \<Rightarrow> (d, b))
                else (case issue_token xe db raw a of (d, b) \<Rightarrow>
                        (case send_exam_invite d now b of (d', b', _) \<Rightarrow> (d', b'))))
         in Inr (audit_applicant db1 a1 (Some actor) ''applicant.invitation_resent''
                   [(''reason'', JStr (or_empty reason)), (''source'', JStr ''admin_web''),
                    (''extended_access'', JBool should_extend),
                    (''previous_assessment_deadline'', iso_text xe previous),
                    (''assessment_deadline'', iso_text xe (si_deadline (ap_sitting a1)))], a1))"

definition extend_applicant_access ::
    "exam_env \<Rightarrow> academy_db \<Rightarrow> instant \<Rightarrow> uuid \<Rightarrow> uuid \<Rightarrow> string option \<Rightarrow> (academy_db \<times> applicant_row) result" where
  "extend_applicant_access xe db now i actor reason =
     and_then (get_applicant db i) (\<lambda>a.
       if si_taken_at (ap_sitting a) \<noteq> None then Inl (BadRequestError ''This applicant has already completed the assessment.'')
       else
         let a1 = upd_sitting (\<lambda>s. s\<lparr>si_deadline := Some (now + 86400 * DEFAULT_DEADLINE_DAYS)\<rparr>) a
         in Inr (audit_applicant (save_applicant a1 db) a1 (Some actor) ''applicant.access_extended''
                   [(''reason'', JStr (or_empty reason)), (''source'', JStr ''admin_web''),
                    (''previous_assessment_deadline'', iso_text xe (si_deadline (ap_sitting a))),
                    (''assessment_deadline'', iso_text xe (si_deadline (ap_sitting a1)))], a1))"

definition accept_path :: "string \<Rightarrow> string list" where
  "accept_path status =
     (if status = ''applied'' then [''screened'', ''accepted'', ''onboarding'']
      else if status = ''accepted'' then [''onboarding''] else [''accepted'', ''onboarding''])"

definition accept_application ::
    "exam_env \<Rightarrow> academy_db \<Rightarrow> instant \<Rightarrow> string \<Rightarrow> applicant_row \<Rightarrow> uuid \<Rightarrow> string option \<Rightarrow>
     (academy_db \<times> applicant_row) result" where
  "accept_application xe db now raw a actor reason =
     and_then (transitions db now (ap_id a) (accept_path (ap_status a)) reason (Some actor) ''admin_web'') (\<lambda>db1.
     and_then (get_applicant db1 (ap_id a)) (\<lambda>a1.
       case mint_onboarding_token xe db1 raw a1 of (db2, a2) \<Rightarrow> Inr (fst (send_onboarding_invite db2 now a2), a2)))"

definition reset_with_audit ::
    "exam_env \<Rightarrow> academy_db \<Rightarrow> instant \<Rightarrow> string \<Rightarrow> applicant_row \<Rightarrow> uuid \<Rightarrow> string option \<Rightarrow> academy_db \<times> applicant_row" where
  "reset_with_audit xe db now raw a actor reason =
     (case reset_and_invite xe db now raw DEFAULT_DEADLINE_DAYS a of (db1, a1, _) \<Rightarrow>
        (audit_applicant db1 a1 (Some actor) ''applicant.assessment_reset''
           [(''reason'', JStr (or_empty reason)), (''source'', JStr ''admin_web'')], a1))"

definition reinvite_with_audit ::
    "exam_env \<Rightarrow> academy_db \<Rightarrow> instant \<Rightarrow> string \<Rightarrow> string \<Rightarrow> applicant_row \<Rightarrow> uuid \<Rightarrow> string option \<Rightarrow>
     academy_db \<times> applicant_row" where
  "reinvite_with_audit xe db now raw base_url a actor reason =
     (case invite xe db now raw base_url DEFAULT_DEADLINE_DAYS True a of (db1, a1, _) \<Rightarrow>
        (audit_applicant db1 a1 (Some actor) ''applicant.assessment_reinvite''
           [(''reason'', JStr (or_empty reason)), (''source'', JStr ''admin_web'')], a1))"

definition apply_admin_review_action ::
    "exam_env \<Rightarrow> academy_db \<Rightarrow> instant \<Rightarrow> string \<Rightarrow> uuid \<Rightarrow> string \<Rightarrow> uuid \<Rightarrow> string \<Rightarrow> string option \<Rightarrow>
     (academy_db \<times> applicant_row) result" where
  "apply_admin_review_action xe db now raw i action actor base_url reason =
     and_then (get_applicant db i) (\<lambda>a.
       if action \<notin> set (map fst (admin_review_actions a (Some (has_active_intake db a))))
       then Inl (BadRequestError ''That action is not available for the applicant in its current state.'')
       else if action = ''resend_invitation'' then resend_applicant_invitation xe db now raw i actor base_url False reason
       else if action = ''extend_access'' then extend_applicant_access xe db now i actor reason
       else if action = ''reset_assessment'' then Inr (reset_with_audit xe db now raw a actor reason)
       else if action = ''reinvite_assessment'' then Inr (reinvite_with_audit xe db now raw base_url a actor reason)
       else if action = ''accept'' then accept_application xe db now raw a actor reason
       else transition_applicant db now (ap_id a) (if action = ''waitlist'' then ''waitlisted'' else ''rejected'')
              reason (Some actor) ''admin_web'')"

end
