(* ===== verification/Admissions_Web.thy ===== *)
theory Admissions_Web
  imports Admissions
begin

text \<open>
  The handlers that drive admissions: \<open>web/apply.py\<close> (application, start, autosave and
  submission of the entrance exam), \<open>web/onboarding.py\<close> (the checklist portal) and the
  entrance commands of \<open>cli.py\<close>. A request commits its store unless the handler raises
  (\<open>Inl\<close>); a rendered page is a constructor of its kind. The posted form is the list of
  submitted values per question.
\<close>

datatype page =
    Notice_Invalid
  | Notice_Completed
  | Notice_Closed
  | Notice_Time_Up
  | Page_Intro "int option" nat
  | Page_Questions "string list" answers timing
  | Page_Thanks
  | Page_Start string
  | Page_Could_Not_Submit
  | Page_Submitted
  | Page_Redirect
  | No_Content

definition open_track_choices :: "academy_db \<Rightarrow> uuid \<Rightarrow> (cohort_row \<times> track_row) list" where
  "open_track_choices db tenant =
     filter (\<lambda>(ch, tr). academy_default_bank_id db tenant \<noteq> None \<or> ch_entrance_bank ch \<noteq> None)
       (active_intake_choices db tenant)"

definition exam_questions :: "exam_env \<Rightarrow> academy_db \<Rightarrow> uuid \<Rightarrow> applicant_row \<Rightarrow> question_row list result" where
  "exam_questions xe db tenant a =
     and_then (resolve_bank_id db a) (\<lambda>b. Inr (sample_for xe a (bank_rows db tenant b) (entrance_per_category db)))"

text \<open>\<open>choice\<close> is the parsed cohort and track pair of the form, \<open>None\<close> where it does not parse.\<close>

definition submit_apply ::
    "exam_env \<Rightarrow> academy_db \<Rightarrow> instant \<Rightarrow> int \<Rightarrow> string \<Rightarrow> string \<Rightarrow> uuid \<Rightarrow> (uuid \<times> uuid) option \<Rightarrow> application \<Rightarrow>
     (academy_db \<times> page) result" where
  "submit_apply xe db now today raw base_url tenant choice q =
     (case choice of
        None \<Rightarrow> Inl (BadRequestError ''Choose an available training track.'')
      | Some (c, t) \<Rightarrow>
          and_then (submit_application db now today tenant
                      (q\<lparr>aq_phone := or_none (aq_phone q), aq_program := None, aq_cohort := Some c, aq_track := Some t,
                         aq_source := ''website'', aq_external_ref := None, aq_applied_on := None\<rparr>)) (\<lambda>(db1, a).
            let db2 = fst (send_application_received db1 now a)
            in if si_taken_at (ap_sitting a) = None \<and> has_entrance_exam db2 a
               then (case invite xe db2 now raw (rstrip_slash base_url) DEFAULT_DEADLINE_DAYS True a of (db3, a1, iv) \<Rightarrow>
                       Inr (db3, Page_Start (iv_token iv)))
               else Inr (db2, Page_Thanks)))"

definition assessment_page :: "exam_env \<Rightarrow> academy_db \<Rightarrow> instant \<Rightarrow> uuid \<Rightarrow> string \<Rightarrow> page result" where
  "assessment_page xe db now tenant token =
     (case applicant_for_token xe db tenant token of
        None \<Rightarrow> Inr Notice_Invalid
      | Some a \<Rightarrow>
          if si_taken_at (ap_sitting a) \<noteq> None then Inr Notice_Completed
          else if past_deadline now a then Inr Notice_Closed
          else if si_started_at (ap_sitting a) = None
          then and_then (exam_questions xe db tenant a) (\<lambda>qs. Inr (Page_Intro (time_limit_minutes db a) (length qs)))
          else let t = timing_info db now a in
               if ti_expired t then Inr Notice_Time_Up
               else and_then (exam_questions xe db tenant a) (\<lambda>qs.
                 Inr (Page_Questions (map eq_ext_id qs)
                        (case si_answers (ap_sitting a) of None \<Rightarrow> [] | Some s \<Rightarrow> s) t)))"

definition assessment_start :: "exam_env \<Rightarrow> academy_db \<Rightarrow> instant \<Rightarrow> uuid \<Rightarrow> string \<Rightarrow> academy_db \<times> page" where
  "assessment_start xe db now tenant token =
     (case applicant_for_token xe db tenant token of
        None \<Rightarrow> (db, Notice_Invalid)
      | Some a \<Rightarrow>
          if si_taken_at (ap_sitting a) \<noteq> None then (db, Notice_Completed)
          else if past_deadline now a then (db, Notice_Closed)
          else (fst (start_exam db now a), Page_Redirect))"

type_synonym form = "(string \<times> string list) list"

definition posted :: "form \<Rightarrow> string \<Rightarrow> json list" where
  "posted form k = (case map_of form k of None \<Rightarrow> [] | Some vs \<Rightarrow> map JStr vs)"

definition assessment_autosave ::
    "exam_env \<Rightarrow> academy_db \<Rightarrow> instant \<Rightarrow> uuid \<Rightarrow> string \<Rightarrow> form \<Rightarrow> (academy_db \<times> page) result" where
  "assessment_autosave xe db now tenant token form =
     (case applicant_for_token xe db tenant token of
        None \<Rightarrow> Inr (db, No_Content)
      | Some a \<Rightarrow>
          if si_taken_at (ap_sitting a) \<noteq> None \<or> past_deadline now a then Inr (db, No_Content)
          else and_then (exam_questions xe db tenant a) (\<lambda>qs.
            let ans = map (\<lambda>k. (k, posted form k)) (remdups (map eq_ext_id qs));
                (db1, a1) = record_elapsed db now a
            in Inr (fst (save_answers db1 ans a1), No_Content)))"

text \<open>Autosaved answers first; a posted answer wins.\<close>

definition merge_answers :: "answers \<Rightarrow> form \<Rightarrow> question_row list \<Rightarrow> answers" where
  "merge_answers saved form qs =
     fold (\<lambda>q ans. if posted form (eq_ext_id q) = [] then ans
                   else AList.update (eq_ext_id q) (posted form (eq_ext_id q)) ans) qs saved"

definition announce :: "academy_db \<Rightarrow> instant \<Rightarrow> applicant_row \<Rightarrow> string option \<Rightarrow> academy_db" where
  "announce db now a offer =
     fst (if or_empty offer \<noteq> '''' then send_onboarding_invite db now a
          else if ap_status a = ''waitlisted'' then send_waitlist_notice db now a
          else send_results_received db now a)"

definition assessment_submit ::
    "exam_env \<Rightarrow> academy_db \<Rightarrow> instant \<Rightarrow> string \<Rightarrow> uuid \<Rightarrow> string \<Rightarrow> form \<Rightarrow> (academy_db \<times> page) result" where
  "assessment_submit xe db now raw tenant token form =
     (case applicant_for_token xe db tenant token of
        None \<Rightarrow> Inr (db, Notice_Completed)
      | Some a \<Rightarrow>
          if si_taken_at (ap_sitting a) \<noteq> None then Inr (db, Notice_Completed)
          else if past_deadline now a then Inr (db, Notice_Closed)
          else and_then (exam_questions xe db tenant a) (\<lambda>qs.
            let ans = merge_answers (case si_answers (ap_sitting a) of None \<Rightarrow> [] | Some s \<Rightarrow> s) form qs
            in case grade_and_record xe db now tenant ans None a of
                 (db1, a1, Inl (BadRequestError m)) \<Rightarrow> Inr (db1, Page_Could_Not_Submit)
               | (db1, a1, Inl (NotFoundError m)) \<Rightarrow> Inr (db1, Page_Could_Not_Submit)
               | (db1, a1, Inl e) \<Rightarrow> Inl e
               | (db1, a1, Inr r) \<Rightarrow>
                   and_then (apply_assessment_policy xe db1 now raw a1) (\<lambda>(db2, a2, offer).
                     Inr (announce db2 now a2 offer, Page_Submitted))))"

section \<open>The onboarding portal\<close>

definition finish_task_and_maybe_enroll ::
    "exam_env \<Rightarrow> academy_db \<Rightarrow> instant \<Rightarrow> string \<Rightarrow> applicant_row \<Rightarrow> string \<Rightarrow> academy_db result" where
  "finish_task_and_maybe_enroll xe db now raw a key =
     and_then (complete_task_by_key db now (ap_tenant a) (ap_id a) key) (\<lambda>db1.
     and_then (try_auto_enroll xe db1 now raw a) (\<lambda>(db2, a2, enrolled_now, invite_raw).
       Inr (if enrolled_now then fst (send_enrollment_welcome db2 now a2) else db2)))"

definition portal_step ::
    "string \<Rightarrow> exam_env \<Rightarrow> academy_db \<Rightarrow> instant \<Rightarrow> string \<Rightarrow> uuid \<Rightarrow> string \<Rightarrow> (academy_db \<times> page) result" where
  "portal_step key xe db now raw tenant token =
     (case applicant_for_onboarding_token xe db tenant token of
        None \<Rightarrow> Inr (db, Notice_Invalid)
      | Some a \<Rightarrow> and_then (finish_task_and_maybe_enroll xe db now raw a key) (\<lambda>db1. Inr (db1, Page_Redirect)))"

definition confirm_details ::
    "exam_env \<Rightarrow> academy_db \<Rightarrow> instant \<Rightarrow> string \<Rightarrow> uuid \<Rightarrow> string \<Rightarrow> (academy_db \<times> page) result" where
  "confirm_details = portal_step ''confirm_details''"

definition acknowledge_orientation ::
    "exam_env \<Rightarrow> academy_db \<Rightarrow> instant \<Rightarrow> string \<Rightarrow> uuid \<Rightarrow> string \<Rightarrow> (academy_db \<times> page) result" where
  "acknowledge_orientation = portal_step ''orientation''"

definition resend_assessment ::
    "exam_env \<Rightarrow> academy_db \<Rightarrow> instant \<Rightarrow> string \<Rightarrow> string \<Rightarrow> uuid \<Rightarrow> string \<Rightarrow> academy_db \<times> page" where
  "resend_assessment xe db now raw base_url tenant token =
     (case applicant_for_onboarding_token xe db tenant token of
        None \<Rightarrow> (db, Notice_Invalid)
      | Some a \<Rightarrow>
          if si_taken_at (ap_sitting a) = None \<and> has_entrance_exam db a
          then (fst (invite xe db now raw (rstrip_slash base_url) DEFAULT_DEADLINE_DAYS True a), Page_Redirect)
          else (db, Page_Redirect))"

section \<open>Commands\<close>

definition invite_targets :: "academy_db \<Rightarrow> uuid \<Rightarrow> uuid option \<Rightarrow> bool \<Rightarrow> string option \<Rightarrow> applicant_row list" where
  "invite_targets db tenant cohort resend email =
     filter (\<lambda>a. ap_tenant a = tenant \<and> si_taken_at (ap_sitting a) = None \<and> opt_all (\<lambda>c. ap_cohort a = Some c) cohort
                 \<and> (resend \<or> ap_invite_sent_at a = None) \<and> opt_all (\<lambda>e. ap_email a = e) (or_none email))
       (applicants db)"

text \<open>Queued, failed and skipped applicants; each invitation draws its own token.\<close>

definition invite_applicants ::
    "exam_env \<Rightarrow> academy_db \<Rightarrow> instant \<Rightarrow> (uuid \<Rightarrow> string) \<Rightarrow> string \<Rightarrow> int \<Rightarrow> applicant_row list \<Rightarrow>
     academy_db \<times> nat \<times> nat \<times> nat" where
  "invite_applicants xe db now raws base_url deadline_days targets =
     fold (\<lambda>a (d, queued, failed, skipped).
             if \<not> has_entrance_exam d a then (d, queued, failed, Suc skipped)
             else case invite xe d now (raws (ap_id a)) base_url deadline_days True a of (d', _, iv) \<Rightarrow>
                    if iv_emailed iv then (d', Suc queued, failed, skipped) else (d', queued, Suc failed, skipped))
       targets (db, 0, 0, 0)"

definition reset_entrance_exam ::
    "exam_env \<Rightarrow> academy_db \<Rightarrow> instant \<Rightarrow> string \<Rightarrow> uuid \<Rightarrow> string \<Rightarrow> (academy_db \<times> bool) option" where
  "reset_entrance_exam xe db now raw tenant email =
     (case find (\<lambda>a. ap_tenant a = tenant \<and> ap_email a = email) (applicants db) of
        None \<Rightarrow> None
      | Some a \<Rightarrow> (case reset_and_invite xe db now raw DEFAULT_DEADLINE_DAYS a of (d, _, queued) \<Rightarrow> Some (d, queued)))"

definition band_at :: "rat \<Rightarrow> rat \<Rightarrow> rat \<Rightarrow> string" where
  "band_at p25 p75 score = (if score \<le> p25 then ''beginner'' else if score \<ge> p75 then ''advanced'' else ''intermediate'')"

definition measured :: "uuid \<Rightarrow> uuid option \<Rightarrow> applicant_row \<Rightarrow> bool" where
  "measured tenant cohort a =
     (ap_tenant a = tenant \<and> si_score (ap_sitting a) \<noteq> None \<and> si_valid (ap_sitting a) \<noteq> Some False
      \<and> opt_all (\<lambda>c. ap_cohort a = Some c) cohort)"

definition reband :: "rat \<Rightarrow> rat \<Rightarrow> applicant_row \<Rightarrow> applicant_row" where
  "reband p25 p75 a =
     (case si_score (ap_sitting a) of
        None \<Rightarrow> a
      | Some score \<Rightarrow>
          let band = band_at p25 p75 score
          in if si_level (ap_sitting a) = Some band then a
             else upd_sitting (\<lambda>s. s\<lparr>si_level := Some band, si_result_version := si_result_version s + 1,
                                    si_erp_synced_at := None\<rparr>) a)"

text \<open>\<open>None\<close> where the cohort is too small; sorted scores are read at \<open>int(0.25 * (n - 1))\<close>.\<close>

definition recompute_entrance_levels ::
    "academy_db \<Rightarrow> uuid \<Rightarrow> uuid option \<Rightarrow> nat \<Rightarrow> bool \<Rightarrow> academy_db option" where
  "recompute_entrance_levels db tenant cohort min_cohort dry_run =
     (let rows = filter (measured tenant cohort) (applicants db);
          scores = sort (map (\<lambda>a. the (si_score (ap_sitting a))) rows); n = length scores
      in if length rows < min_cohort \<or> scores = [] then None
         else if dry_run then Some db
         else Some (db\<lparr>applicants := update_rows (measured tenant cohort)
                         (reband (scores ! ((n - 1) div 4)) (scores ! (3 * (n - 1) div 4))) (applicants db)\<rparr>))"

section \<open>Admin endpoints\<close>

definition api_transition ::
    "exam_env \<Rightarrow> academy_db \<Rightarrow> instant \<Rightarrow> string \<Rightarrow> uuid \<Rightarrow> string \<Rightarrow> string option \<Rightarrow> uuid \<Rightarrow> (academy_db \<times> applicant_row) result" where
  "api_transition xe db now raw i to_status notes actor =
     and_then (transition_applicant db now i to_status notes (Some actor) ''admin_api'') (\<lambda>(db1, a1).
       if to_status = ''onboarding''
       then (case mint_onboarding_token xe db1 raw a1 of (db2, a2) \<Rightarrow> Inr (fst (send_onboarding_invite db2 now a2), a2))
       else Inr (db1, a1))"

definition application_action ::
    "exam_env \<Rightarrow> academy_db \<Rightarrow> instant \<Rightarrow> string \<Rightarrow> uuid \<Rightarrow> string \<Rightarrow> string \<Rightarrow> bool \<Rightarrow> uuid \<Rightarrow> string \<Rightarrow>
     (academy_db \<times> applicant_row) result" where
  "application_action xe db now raw i action reason extend_access actor base_url =
     (if action = ''resend_invitation'' \<and> extend_access
      then resend_applicant_invitation xe db now raw i actor (rstrip_slash base_url) True (or_none (Some (py_strip reason)))
      else apply_admin_review_action xe db now raw i action actor (rstrip_slash base_url) (or_none (Some (py_strip reason))))"

end
