(* ===== verification/Admissions_Facts.thy ===== *)
theory Admissions_Facts
  imports Admissions_Web
begin

text \<open>
  Lemmas on admissions. \<open>carries\<close> is the contract every operation on one applicant keeps: the
  row stays in the table under its id and advances (its status moves only along the allowed
  transitions, a recorded result stays), and no other applicant's row changes. The contract composes, so a handler has it by the lemmas
  of the operations it calls.
\<close>

section \<open>The contract of an operation on one applicant\<close>

definition applicants_wf :: "academy_db \<Rightarrow> bool" where
  "applicants_wf db \<longleftrightarrow> distinct (map ap_id (applicants db)) \<and> (\<forall>a \<in> set (applicants db). ap_id a < next_id db)"

definition status_moves :: "(string \<times> string) set" where
  "status_moves = {(s, t). t \<in> set (allowed_from s)}"

definition result_of :: "sitting \<Rightarrow> rat option \<times> instant option \<times> (string \<times> rat) list option \<times> bool option \<times> string option \<times> bool" where
  "result_of s = (si_score s, si_taken_at s, si_profile s, si_valid s, si_invalid_reason s, si_time_exceeded s)"

text \<open>
  The status moves along allowed transitions, and a recorded result stays until a reset, which
  is counted.
\<close>

definition advances :: "applicant_row \<Rightarrow> applicant_row \<Rightarrow> bool" where
  "advances a a' \<longleftrightarrow>
     (ap_status a, ap_status a') \<in> status_moves\<^sup>*
     \<and> si_reset_count (ap_sitting a) \<le> si_reset_count (ap_sitting a')
     \<and> (si_taken_at (ap_sitting a) \<noteq> None \<and> si_reset_count (ap_sitting a') = si_reset_count (ap_sitting a) \<longrightarrow>
          result_of (ap_sitting a') = result_of (ap_sitting a))"

lemma advances_refl [simp]: "advances a a"
  by (simp add: advances_def)

lemma result_of_updates [simp]:
  "result_of (s\<lparr>si_token_hash := h\<rparr>) = result_of s" "result_of (s\<lparr>si_deadline := d\<rparr>) = result_of s"
  "result_of (s\<lparr>si_elapsed := e\<rparr>) = result_of s" "result_of (s\<lparr>si_started_at := t\<rparr>) = result_of s"
  "result_of (s\<lparr>si_answers := x\<rparr>) = result_of s" "result_of (s\<lparr>si_bank := b\<rparr>) = result_of s"
  by (simp_all add: result_of_def)

lemma advances_trans: "advances a b \<Longrightarrow> advances b c \<Longrightarrow> advances a c"
  unfolding advances_def by (auto simp: result_of_def intro: rtrancl_trans)

lemma advances_same [simp]:
  assumes "ap_status a' = ap_status a" "si_reset_count (ap_sitting a') = si_reset_count (ap_sitting a)"
    "result_of (ap_sitting a') = result_of (ap_sitting a)"
  shows "advances a a'"
  using assms by (simp add: advances_def)

definition carries :: "academy_db \<Rightarrow> applicant_row \<Rightarrow> academy_db \<Rightarrow> applicant_row \<Rightarrow> bool" where
  "carries db a db' a' \<longleftrightarrow>
     (applicants_wf db \<and> a \<in> set (applicants db) \<longrightarrow>
        applicants_wf db' \<and> a' \<in> set (applicants db') \<and> ap_id a' = ap_id a
        \<and> advances a a'
        \<and> (\<forall>b \<in> set (applicants db). ap_id b \<noteq> ap_id a \<longrightarrow> b \<in> set (applicants db')))"

lemma ap_upd_sitting [simp]:
  "ap_id (upd_sitting f a) = ap_id a" "ap_status (upd_sitting f a) = ap_status a"
  "ap_sitting (upd_sitting f a) = f (ap_sitting a)" "ap_tenant (upd_sitting f a) = ap_tenant a"
  by (simp_all add: upd_sitting_def)

named_theorems carries_intros \<open>the operations that keep the contract\<close>

lemma carries_refl [carries_intros]: "carries db a db a"
  by (simp add: carries_def)

lemma carries_trans:
  assumes "carries db a db1 a1" "carries db1 a1 db2 a2"
  shows "carries db a db2 a2"
  using assms unfolding carries_def by (metis advances_trans)

lemma carries_same:
  assumes "applicants db' = applicants db" "next_id db \<le> next_id db'"
  shows "carries db a db' a"
  using assms unfolding carries_def applicants_wf_def by fastforce

text \<open>One step more where the tables beside the applicants change.\<close>

lemma carries_then_same:
  assumes "carries db a db1 a1" "applicants db2 = applicants db1" "next_id db1 \<le> next_id db2"
  shows "carries db a db2 a1"
  using assms carries_same carries_trans by blast

lemma applicant_of_id:
  assumes "applicants_wf db" "a \<in> set (applicants db)"
  shows "find_applicant db (ap_id a) = Some a"
proof -
  have "find (\<lambda>r. ap_id r = ap_id a) rows = Some a" if "distinct (map ap_id rows)" "a \<in> set rows" for rows
    using that by (induction rows) (auto simp: rev_image_eqI)
  with assms show ?thesis by (simp add: find_applicant_def applicants_wf_def)
qed

lemma find_applicant_in: "find_applicant db i = Some a \<Longrightarrow> a \<in> set (applicants db) \<and> ap_id a = i"
  unfolding find_applicant_def by (blast dest: find_Some_in)

lemma carries_save:
  assumes "ap_id a' = ap_id a" "advances a a'"
  shows "carries db a (save_applicant a' db) a'"
proof -
  have ids: "map ap_id (update_rows (\<lambda>r. ap_id r = ap_id a) (\<lambda>_. a') rows) = map ap_id rows" for rows
    using assms(1) by (induction rows) simp_all
  have "a' \<in> set (update_rows (\<lambda>r. ap_id r = ap_id a') (\<lambda>_. a') rows)" if "a \<in> set rows" for rows
    using that assms(1) by (auto simp: set_update_rows image_iff)
  with assms show ?thesis
    unfolding carries_def applicants_wf_def
    by (auto simp: save_applicant_def ids set_update_rows image_iff)
qed

lemma carries_get:
  assumes "get_applicant db i = Inr b" "carries db b db' a'" "applicants_wf db" "a \<in> set (applicants db)" "ap_id a = i"
  shows "carries db a db' a'"
proof -
  from assms(1) have "find_applicant db i = Some b" by (simp add: get_applicant_def split: option.splits)
  with applicant_of_id [OF assms(3,4)] assms(5) have "a = b" by simp
  with assms(2) show ?thesis by simp
qed

section \<open>The exam operations\<close>

lemma enqueue_applicants:
  "enqueue_email db now t k kd r p = (db', q) \<Longrightarrow> applicants db' = applicants db \<and> next_id db \<le> next_id db'"
  by (auto simp: enqueue_email_def split: if_splits)

lemma audit_applicants [simp]:
  "applicants (audit_applicant db a w x d) = applicants db" "next_id db \<le> next_id (audit_applicant db a w x d)"
  by (simp_all add: audit_applicant_def write_audit_event_def)

lemma carries_issue_token [carries_intros]: "issue_token xe db raw a = (db', a') \<Longrightarrow> carries db a db' a'"
  by (auto simp: issue_token_def Let_def intro: carries_save)

lemma carries_send_exam_invite [carries_intros]:
  "send_exam_invite db now a = (db', a', q) \<Longrightarrow> carries db a db' a'"
  unfolding send_exam_invite_def
  by (auto simp: Let_def split: prod.splits if_splits dest!: enqueue_applicants
        intro: carries_trans [OF carries_same carries_save] carries_same)

lemma carries_invite [carries_intros]:
  assumes "invite xe db now raw url days send a = (db', a', r)"
  shows "carries db a db' a'"
proof -
  obtain db1 a1 where 1: "issue_token xe db raw a = (db1, a1)" by fastforce
  let ?a2 = "upd_sitting (\<lambda>s. s\<lparr>si_deadline := Some (now + 86400 * days)\<rparr>) a1"
  obtain db3 a3 e where 3: "(if send then send_exam_invite (save_applicant ?a2 db1) now ?a2
      else (save_applicant ?a2 db1, ?a2, False)) = (db3, a3, e)" by (metis prod_cases3)
  from assms 3 have "db' = db3" "a' = a3" by (auto simp: invite_def Let_def 1)
  moreover have "carries (save_applicant ?a2 db1) ?a2 db3 a3"
    using 3 by (auto split: if_splits intro: carries_refl carries_send_exam_invite)
  moreover have "carries db1 a1 (save_applicant ?a2 db1) ?a2" by (rule carries_save) simp_all
  ultimately show ?thesis using carries_issue_token [OF 1] carries_trans by blast
qed

lemma carries_reset_and_invite [carries_intros]:
  assumes "reset_and_invite xe db now raw days a = (db', a', q)"
  shows "carries db a db' a'"
proof -
  let ?a1 = "upd_sitting (\<lambda>s. s\<lparr>si_token_hash := Some (xe_hash xe raw)\<rparr>) (upd_sitting reset_sitting a)"
  let ?a2 = "upd_sitting (\<lambda>s. s\<lparr>si_deadline := Some (now + 86400 * days)\<rparr>) ?a1"
  let ?db1 = "save_applicant ?a1 db"
  from assms have e: "send_exam_invite (save_applicant ?a2 ?db1) now ?a2 = (db', a', q)"
    by (simp add: reset_and_invite_def reset_exam_def issue_token_def Let_def)
  have "advances a ?a1" by (simp add: advances_def reset_sitting_def)
  then have "carries db a ?db1 ?a1" by (intro carries_save) simp_all
  moreover have "carries ?db1 ?a1 (save_applicant ?a2 ?db1) ?a2" by (rule carries_save) simp_all
  ultimately show ?thesis using carries_send_exam_invite [OF e] carries_trans by blast
qed

lemma carries_start [carries_intros]: "start_exam db now a = (db', a', t) \<Longrightarrow> carries db a db' a'"
  by (auto simp: start_exam_def Let_def split: if_splits intro: carries_save carries_refl)

lemma carries_elapsed [carries_intros]: "record_elapsed db now a = (db', a') \<Longrightarrow> carries db a db' a'"
  by (auto simp: record_elapsed_def Let_def split: if_splits intro: carries_save carries_refl)

lemma carries_save_answers [carries_intros]: "save_answers db ans a = (db', a') \<Longrightarrow> carries db a db' a'"
  by (auto simp: save_answers_def Let_def split: if_splits intro: carries_save carries_refl)

lemma carries_bank:
  "carries db a (save_applicant (upd_sitting (\<lambda>s. s\<lparr>si_bank := b\<rparr>) a) db) (upd_sitting (\<lambda>s. s\<lparr>si_bank := b\<rparr>) a)"
  by (rule carries_save) simp_all

text \<open>The shapes in which grading can end: refused, stopped on the way, or recorded.\<close>

lemma grade_and_record_cases:
  assumes "grade_and_record xe db now tenant ans bank a = (db', a', r)"
  obtains (refused) e where "r = Inl e" "db' = db" "a' = a"
  | (stopped) e where "r = Inl e" "record_elapsed db now a = (db', a')"
  | (failed) db1 a1 b e where "r = Inl e" "record_elapsed db now a = (db1, a1)"
      "a' = upd_sitting (\<lambda>s. s\<lparr>si_bank := Some b\<rparr>) a1" "db' = save_applicant a' db1"
  | (recorded) db1 a1 b res late where "r = Inr res" "record_elapsed db now a = (db1, a1)"
      "a' = upd_sitting (store_result now late res) (upd_sitting (\<lambda>s. s\<lparr>si_bank := Some b\<rparr>) a1)"
      "db' = save_applicant a' (save_applicant (upd_sitting (\<lambda>s. s\<lparr>si_bank := Some b\<rparr>) a1) db1)"
      "si_taken_at (ap_sitting a) = None" "si_started_at (ap_sitting a) \<noteq> None"
proof -
  obtain db1 a1 where e: "record_elapsed db now a = (db1, a1)" by fastforce
  show ?thesis
  proof (cases "si_taken_at (ap_sitting a) \<noteq> None \<or> si_started_at (ap_sitting a) = None")
    case True
    with assms have "(\<exists>e. r = Inl e) \<and> db' = db \<and> a' = a" by (auto simp: grade_and_record_def split: if_splits)
    with refused show ?thesis by blast
  next
    case ok: False
    show ?thesis
    proof (cases "case bank of Some b \<Rightarrow> Inr b | None \<Rightarrow> resolve_bank_id db1 a1")
      case (Inl x)
      with assms ok e show ?thesis by (intro stopped) (auto simp: grade_and_record_def)
    next
      case (Inr b)
      let ?a2 = "upd_sitting (\<lambda>s. s\<lparr>si_bank := Some b\<rparr>) a1" and ?db2 = "save_applicant (upd_sitting (\<lambda>s. s\<lparr>si_bank := Some b\<rparr>) a1) db1"
      let ?rows = "bank_rows ?db2 tenant b"
      let ?qs = "sample_for xe ?a2 ?rows (entrance_per_category ?db2)"
      show ?thesis
      proof (cases "?rows = []")
        case True
        with assms ok e Inr show ?thesis
          by (intro failed [of "NotFoundError ''Entrance assessment has no questions.''" db1 a1 b])
            (auto simp: grade_and_record_def Let_def)
      next
        case rows: False
        show ?thesis
        proof (cases "grade_submission (xe_fullmatch xe) (xe_render xe) ans (map question_view ?qs) 0")
          case (Inl x)
          with assms ok e Inr rows show ?thesis
            by (intro failed [of x db1 a1 b]) (auto simp: grade_and_record_def Let_def)
        next
          case g: (Inr g)
          obtain v why where v: "check_validity (py_round_to 4 (gr_fraction g))
              (Some (rat_of_int (si_elapsed (ap_sitting ?a2)))) ?qs = (v, why)" by fastforce
          from assms ok e Inr rows g v show ?thesis
            by (intro recorded) (auto simp: grade_and_record_def Let_def)
        qed
      qed
    qed
  qed
qed

lemma carries_grade [carries_intros]:
  assumes "grade_and_record xe db now tenant ans bank a = (db', a', r)"
  shows "carries db a db' a'"
  using assms
proof (cases rule: grade_and_record_cases)
  case refused
  then show ?thesis by (simp add: carries_refl)
next
  case stopped
  then show ?thesis by (blast intro: carries_elapsed)
next
  case (failed db1 a1 b e)
  then show ?thesis using carries_elapsed carries_bank carries_trans by blast
next
  case (recorded db1 a1 b res late)
  let ?a2 = "upd_sitting (\<lambda>s. s\<lparr>si_bank := Some b\<rparr>) a1"
  have "carries db a db1 a1" using recorded by (blast intro: carries_elapsed)
  moreover have "carries db1 a1 (save_applicant ?a2 db1) ?a2" by (rule carries_bank)
  moreover have "si_taken_at (ap_sitting a1) = None"
    using recorded(2,5) by (auto simp: record_elapsed_def Let_def split: if_splits)
  then have "advances ?a2 a'" by (simp add: recorded(3) advances_def store_result_def)
  then have "carries (save_applicant ?a2 db1) ?a2 db' a'" unfolding recorded(4) by (rule carries_save [rotated]) (simp add: recorded(3))
  ultimately show ?thesis using carries_trans by blast
qed

section \<open>The pipeline\<close>

lemma applicants_add_tasks [simp]:
  "applicants (fold (add_task now t i) ts db) = applicants db" "next_id db \<le> next_id (fold (add_task now t i) ts db)"
proof -
  have "applicants (fold (add_task now t i) ts db) = applicants db \<and> next_id db \<le> next_id (fold (add_task now t i) ts db)"
  proof (induction ts arbitrary: db)
    case (Cons x xs)
    obtain o' k l where x: "x = (o', k, l)" by (cases x) blast
    from Cons [of "add_task now t i x db"] show ?case by (simp add: x add_task_def)
  qed simp
  then show "applicants (fold (add_task now t i) ts db) = applicants db"
    "next_id db \<le> next_id (fold (add_task now t i) ts db)" by simp_all
qed

lemma seed_tasks_applicants [simp]:
  "applicants (fst (seed_tasks db now t i)) = applicants db" "next_id db \<le> next_id (fst (seed_tasks db now t i))"
  by (simp_all add: seed_tasks_def Let_def)

lemma set_task_applicants: "set_task_status db now t s = Inr db' \<Longrightarrow> applicants db' = applicants db \<and> next_id db' = next_id db"
  by (auto simp: set_task_status_def split: if_splits)

lemma complete_task_applicants:
  "complete_task_by_key db now t i k = Inr db' \<Longrightarrow> applicants db' = applicants db \<and> next_id db' = next_id db"
  by (auto simp: complete_task_by_key_def dest: set_task_applicants split: option.splits)

lemma enter_onboarding_applicants:
  assumes "enter_onboarding db now a = Inr db'"
  shows "applicants db' = applicants db" "next_id db \<le> next_id db'"
  using assms seed_tasks_applicants [of db now "ap_tenant a" "ap_id a"]
  by (auto simp: enter_onboarding_def Let_def split: if_splits dest!: complete_task_applicants)

lemma move_to_simps [simp]:
  "ap_id (move_to s n a) = ap_id a" "ap_status (move_to s n a) = s" "ap_tenant (move_to s n a) = ap_tenant a"
  "ap_sitting (move_to s n a) = ap_sitting a"
  by (simp_all add: move_to_def)

text \<open>A transition stays, or moves one allowed step.\<close>

lemma transition_cases:
  assumes "transition_applicant db now i s notes actor source = Inr (db', a')"
  obtains a where "get_applicant db i = Inr a" "s = ap_status a" "db' = db" "a' = a"
  | a where "get_applicant db i = Inr a" "s \<in> set (allowed_from (ap_status a))" "a' = move_to s notes a"
      "s \<in> {''accepted'', ''onboarding'', ''enrolled''} \<longrightarrow> has_active_intake db a"
      "applicants db' = applicants (save_applicant a' db)" "next_id db \<le> next_id db'"
proof -
  from assms obtain a where a: "get_applicant db i = Inr a" unfolding transition_applicant_def
    by (auto simp: result_simps split: if_splits)
  show ?thesis
  proof (cases "s = ap_status a")
    case True
    with assms a show ?thesis by (intro that(1) [of a]) (auto simp: transition_applicant_def split: if_splits)
  next
    case False
    let ?a1 = "move_to s notes a"
    let ?db1 = "audit_applicant (save_applicant ?a1 db) ?a1 actor ''applicant.transition''
       [(''from_status'', JStr (ap_status a)), (''to_status'', JStr s), (''reason'', JStr (or_empty notes)),
        (''source'', JStr source)]"
    have n: "next_id db \<le> next_id ?db1" by (rule order_trans [OF _ audit_applicants(2)]) (simp add: save_applicant_def)
    from assms a False have al: "s \<in> set (allowed_from (ap_status a))"
      and act: "s \<in> {''accepted'', ''onboarding'', ''enrolled''} \<longrightarrow> has_active_intake db a"
      by (auto simp: transition_applicant_def split: if_splits)
    from assms a False have r: "(if s = ''onboarding'' then and_then (enter_onboarding ?db1 now ?a1) (\<lambda>db2. Inr (db2, ?a1))
        else Inr (?db1, ?a1)) = Inr (db', a')"
      by (auto simp: transition_applicant_def Let_def split: if_splits)
    then have a': "a' = ?a1" by (auto simp: result_simps split: if_splits)
    have "applicants db' = applicants ?db1 \<and> next_id ?db1 \<le> next_id db'"
      using r by (auto simp: result_simps split: if_splits dest: enter_onboarding_applicants)
    with n show ?thesis by (intro that(2) [OF a al a' act]) (auto simp: a')
  qed
qed

lemma carries_transition:
  assumes "transition_applicant db now (ap_id a) s notes actor source = Inr (db', a')"
    "applicants_wf db" "a \<in> set (applicants db)"
  shows "carries db a db' a'"
  using assms(1)
proof (cases rule: transition_cases)
  case (1 b)
  then show ?thesis by (intro carries_get [OF _ _ assms(2,3)]) (auto simp: carries_refl)
next
  case (2 b)
  have "advances b a'" using 2(2,3) by (auto simp: status_moves_def advances_def)
  then have "carries db b (save_applicant a' db) a'" using 2(3) by (intro carries_save) simp_all
  with 2 have "carries db b db' a'"
    by (intro carries_then_same [of db b "save_applicant a' db" a' db']) (auto simp: save_applicant_def)
  with 2(1) show ?thesis by (rule carries_get [OF _ _ assms(2,3) refl])
qed

lemma carries_transitions:
  assumes "transitions db now (ap_id a) path notes actor source = Inr db'" "applicants_wf db" "a \<in> set (applicants db)"
  shows "\<exists>a'. carries db a db' a'"
  using assms
proof (induction path arbitrary: db a)
  case Nil
  then show ?case by (auto intro: carries_refl)
next
  case (Cons s path)
  then obtain db1 a1 where t: "transition_applicant db now (ap_id a) s notes actor source = Inr (db1, a1)"
    and r: "transitions db1 now (ap_id a) path notes actor source = Inr db'" by (auto simp: result_simps)
  have c: "carries db a db1 a1" using carries_transition [OF t Cons.prems(2,3)] .
  with Cons.prems have "applicants_wf db1" "a1 \<in> set (applicants db1)" "ap_id a1 = ap_id a" by (auto simp: carries_def)
  with Cons.IH [of db1 a1] r c show ?case by (metis carries_trans)
qed

lemma get_self:
  assumes "applicants_wf db" "a \<in> set (applicants db)" "ap_id a = i"
  shows "get_applicant db i = Inr a"
  using applicant_of_id [OF assms(1,2)] assms(3) by (simp add: get_applicant_def)

lemma carries_mint [carries_intros]: "mint_onboarding_token xe db raw a = (db', a') \<Longrightarrow> carries db a db' a'"
  by (auto simp: mint_onboarding_token_def Let_def intro: carries_save)

text \<open>The decision on a graded sitting: declined, accepted or waitlisted.\<close>

lemma policy_cases:
  assumes "apply_assessment_policy xe db now raw a = Inr (db', a', offer)"
  obtains (untouched) "db' = db" "a' = a" "offer = None"
  | (accepted) score c threshold db1 a1 where "si_score (ap_sitting a) = Some score" "get_cohort db (ap_cohort a) = Some c"
      "ch_auto_accept_threshold c = Some threshold" "ap_status a = ''applied''" "si_valid (ap_sitting a) = Some True"
      "score \<ge> threshold"
      "transitions db now (ap_id a) [''screened'', ''accepted'', ''onboarding''] None None ''assessment_policy'' = Inr db1"
      "get_applicant db1 (ap_id a) = Inr a1"
      "a' = a1\<lparr>ap_notes := Some (''auto-accepted: entrance score '' @ percent score @ '' >= threshold '' @ percent threshold),
              ap_onboarding_token_hash := Some (xe_hash xe raw)\<rparr>"
      "db' = save_applicant a' (save_applicant (a1\<lparr>ap_notes := Some (''auto-accepted: entrance score '' @ percent score
              @ '' >= threshold '' @ percent threshold)\<rparr>) db1)" "offer = Some raw"
  | (waitlisted) score c threshold where "si_score (ap_sitting a) = Some score" "get_cohort db (ap_cohort a) = Some c"
      "ch_auto_accept_threshold c = Some threshold" "ap_status a = ''applied''" "si_valid (ap_sitting a) = Some True"
      "score < threshold" "offer = None"
      "transition_applicant db now (ap_id a) ''waitlisted'' (Some (''auto-waitlisted: entrance score '' @ percent score
         @ '' below threshold '' @ percent threshold)) None ''assessment_policy'' = Inr (db', a')"
proof -
  show ?thesis
  proof (cases "si_score (ap_sitting a)")
    case None
    with assms show ?thesis by (intro untouched) (auto simp: apply_assessment_policy_def)
  next
    case s: (Some score)
    show ?thesis
    proof (cases "get_cohort db (ap_cohort a)")
      case None
      with s assms show ?thesis by (intro untouched) (auto simp: apply_assessment_policy_def)
    next
      case c: (Some c)
      show ?thesis
      proof (cases "ch_auto_accept_threshold c")
        case None
        with s c assms show ?thesis by (intro untouched) (auto simp: apply_assessment_policy_def)
      next
        case t: (Some threshold)
        consider "ap_status a \<noteq> ''applied'' \<or> si_valid (ap_sitting a) \<noteq> Some True"
          | (yes) "ap_status a = ''applied''" "si_valid (ap_sitting a) = Some True" "score \<ge> threshold"
          | (no) "ap_status a = ''applied''" "si_valid (ap_sitting a) = Some True" "score < threshold" by force
        then show ?thesis
        proof cases
          case 1
          with s c t assms show ?thesis by (intro untouched) (auto simp: apply_assessment_policy_def)
        next
          case yes
          from yes s c t assms show ?thesis
            by (auto simp: apply_assessment_policy_def result_simps mint_onboarding_token_def Let_def
                simp del: transitions.simps intro!: accepted)
        next
          case no
          from no s c t assms show ?thesis
            by (intro waitlisted) (auto simp: apply_assessment_policy_def result_simps)
        qed
      qed
    qed
  qed
qed

lemma carries_policy:
  assumes "apply_assessment_policy xe db now raw a = Inr (db', a', offer)" "applicants_wf db" "a \<in> set (applicants db)"
  shows "carries db a db' a'"
  using assms(1)
proof (cases rule: policy_cases)
  case untouched
  then show ?thesis by (simp add: carries_refl)
next
  case (accepted score c threshold db1 a1)
  from carries_transitions [OF accepted(7) assms(2,3)] obtain b where b: "carries db a db1 b" by blast
  with assms(2,3) have "applicants_wf db1" "b \<in> set (applicants db1)" "ap_id b = ap_id a" by (auto simp: carries_def)
  with accepted(8) have "a1 = b" using get_self by fastforce
  moreover have "carries db1 a1 db' a'" unfolding accepted(9,10)
    by (rule carries_trans [OF carries_save carries_save]) simp_all
  ultimately show ?thesis using b carries_trans by blast
next
  case (waitlisted score c threshold)
  from carries_transition [OF waitlisted(8) assms(2,3)] show ?thesis .
qed

lemma carries_accept:
  assumes "accept_application xe db now raw a actor reason = Inr (db', a')" "applicants_wf db" "a \<in> set (applicants db)"
  shows "carries db a db' a'"
proof -
  from assms(1) obtain db1 a1 db2 where t: "transitions db now (ap_id a) (accept_path (ap_status a)) reason (Some actor) ''admin_web'' = Inr db1"
    and g: "get_applicant db1 (ap_id a) = Inr a1" and m: "mint_onboarding_token xe db1 raw a1 = (db2, a')"
    and e: "db' = fst (send_onboarding_invite db2 now a')"
    by (fastforce simp: accept_application_def result_simps mint_onboarding_token_def Let_def)
  from carries_transitions [OF t assms(2,3)] obtain b where b: "carries db a db1 b" by blast
  with assms(2,3) have "applicants_wf db1" "b \<in> set (applicants db1)" "ap_id b = ap_id a" by (auto simp: carries_def)
  with g have "a1 = b" using get_self by fastforce
  moreover have "applicants db' = applicants db2 \<and> next_id db2 \<le> next_id db'"
    unfolding e send_onboarding_invite_def by (metis enqueue_applicants prod.collapse)
  ultimately show ?thesis using b carries_mint [OF m] carries_trans carries_then_same by metis
qed

lemma carries_resend:
  assumes "resend_applicant_invitation xe db now raw (ap_id a) actor url ext reason = Inr (db', a')"
    "applicants_wf db" "a \<in> set (applicants db)"
  shows "carries db a db' a'"
proof -
  have g: "get_applicant db (ap_id a) = Inr a" by (rule get_self [OF assms(2,3) refl])
  obtain d1 b1 r1 where i: "invite xe db now raw url DEFAULT_DEADLINE_DAYS True a = (d1, b1, r1)" by (metis prod_cases3)
  obtain d2 b2 where t: "issue_token xe db raw a = (d2, b2)" by fastforce
  obtain d3 b3 r3 where s: "send_exam_invite d2 now b2 = (d3, b3, r3)" by (metis prod_cases3)
  from assms(1) have "applicants db' = applicants d1 \<and> next_id d1 \<le> next_id db' \<and> a' = b1
      \<or> applicants db' = applicants d3 \<and> next_id d3 \<le> next_id db' \<and> a' = b3"
    by (auto simp: resend_applicant_invitation_def g i t s Let_def result_simps split: if_splits)
  then show ?thesis
    using carries_invite [OF i] carries_issue_token [OF t] carries_send_exam_invite [OF s]
    by (metis carries_then_same carries_trans)
qed

lemma carries_extend:
  assumes "extend_applicant_access xe db now (ap_id a) actor reason = Inr (db', a')"
    "applicants_wf db" "a \<in> set (applicants db)"
  shows "carries db a db' a'"
proof -
  have g: "get_applicant db (ap_id a) = Inr a" by (rule get_self [OF assms(2,3) refl])
  let ?a1 = "upd_sitting (\<lambda>s. s\<lparr>si_deadline := Some (now + 86400 * DEFAULT_DEADLINE_DAYS)\<rparr>) a"
  from assms(1) have "a' = ?a1" "applicants db' = applicants (save_applicant ?a1 db)" "next_id (save_applicant ?a1 db) \<le> next_id db'"
    by (auto simp: extend_applicant_access_def g Let_def split: if_splits)
  moreover have "carries db a (save_applicant ?a1 db) ?a1" by (rule carries_save) simp_all
  ultimately show ?thesis by (metis carries_then_same)
qed

lemma carries_reset_with_audit: "reset_with_audit xe db now raw a actor reason = (db', a') \<Longrightarrow> carries db a db' a'"
  by (auto simp: reset_with_audit_def split: prod.splits intro: carries_then_same carries_reset_and_invite)

lemma carries_reinvite: "reinvite_with_audit xe db now raw url a actor reason = (db', a') \<Longrightarrow> carries db a db' a'"
  by (auto simp: reinvite_with_audit_def split: prod.splits intro: carries_then_same carries_invite)

lemma carries_review:
  assumes "apply_admin_review_action xe db now raw (ap_id a) act actor url reason = Inr (db', a')"
    "applicants_wf db" "a \<in> set (applicants db)"
  shows "carries db a db' a'"
proof -
  have g: "get_applicant db (ap_id a) = Inr a" by (rule get_self [OF assms(2,3) refl])
  show ?thesis
    using assms(1) unfolding apply_admin_review_action_def g and_then_Inr
    by (auto split: if_splits intro: carries_resend carries_extend carries_reset_with_audit carries_reinvite
        carries_accept carries_transition assms(2,3))
qed

section \<open>Enrolment\<close>

lemma placed_person_applicants:
  "placed_person db a = (db', p) \<Longrightarrow> applicants db' = applicants db \<and> next_id db \<le> next_id db'"
  by (auto simp: placed_person_def add_person_def Let_def split: option.splits)

lemma place_enrollment_applicants [simp]:
  "applicants (place_enrollment db a c p) = applicants db" "next_id db \<le> next_id (place_enrollment db a c p)"
  by (auto simp: place_enrollment_def split: option.splits)

text \<open>What an enrolment required, and the store it moves on.\<close>

lemma enroll_cases:
  assumes "enroll_applicant db now i cohort actor = Inr (db', a')"
  obtains a db1 p where "get_applicant db i = Inr a" "ap_status a = ''onboarding''" "is_complete db (ap_tenant a) (ap_id a)"
    "ap_cohort a = Some cohort" "has_active_intake db a" "placed_person db a = (db1, p)"
    "transition_applicant (save_applicant (a\<lparr>ap_person := Some (pe_id p)\<rparr>) (place_enrollment db1 a cohort (pe_id p))) now i
       ''enrolled'' None actor (if actor \<noteq> None then ''admin'' else ''onboarding'') = Inr (db', a')"
  using assms by (auto simp: enroll_applicant_def Let_def result_simps split: if_splits prod.splits)

lemma carries_enroll:
  assumes "enroll_applicant db now (ap_id a) cohort actor = Inr (db', a')" "applicants_wf db" "a \<in> set (applicants db)"
  shows "carries db a db' a'"
  using assms(1)
proof (cases rule: enroll_cases)
  case (1 b db1 p)
  let ?b = "b\<lparr>ap_person := Some (pe_id p)\<rparr>"
  let ?db2 = "save_applicant ?b (place_enrollment db1 b cohort (pe_id p))"
  have b: "b = a" using 1(1) get_self [OF assms(2,3) refl] by simp
  have "carries db a (place_enrollment db1 b cohort (pe_id p)) a"
    using placed_person_applicants [OF 1(6)] place_enrollment_applicants(2) [of db1 b cohort "pe_id p"]
    by (intro carries_same) (simp, linarith)
  moreover have "carries (place_enrollment db1 b cohort (pe_id p)) a ?db2 ?b" by (rule carries_save) (simp_all add: b)
  ultimately have c: "carries db a ?db2 ?b" by (rule carries_trans)
  with assms(2,3) have "applicants_wf ?db2" "?b \<in> set (applicants ?db2)" by (auto simp: carries_def)
  then have "carries ?db2 ?b db' a'" using 1(7) b by (intro carries_transition) simp_all
  with c show ?thesis by (rule carries_trans)
qed

lemma grant_role_applicants: "grant_role db t p r = Inr db' \<Longrightarrow> applicants db' = applicants db \<and> next_id db' = next_id db"
  by (auto simp: grant_role_def ensure_def split: if_splits)

lemma issue_invite_applicants:
  "issue_invite_for_person ht db now t p raw = Inr db' \<Longrightarrow> applicants db' = applicants db \<and> next_id db \<le> next_id db'"
  by (auto simp: issue_invite_for_person_def issue_account_token_def ensure_def invalidate_outstanding_tokens_def
      split: if_splits)

lemma auto_enroll_cases:
  assumes "try_auto_enroll xe db now raw a = Inr (db', a', enrolled_now, invite_raw)"
  obtains "db' = db" "a' = a" "\<not> enrolled_now" "invite_raw = None"
  | c db1 where "ap_cohort a = Some c" "ap_status a = ''onboarding''" "is_complete db (ap_tenant a) (ap_id a)"
      "enroll_applicant db now (ap_id a) c None = Inr (db1, a')"
      "applicants db' = applicants db1" "next_id db1 \<le> next_id db'"
proof (cases "ap_cohort a")
  case None
  with assms that(1) show ?thesis by (simp add: try_auto_enroll_def)
next
  case (Some c)
  show ?thesis
  proof (cases "ap_status a \<noteq> ''onboarding'' \<or> \<not> is_complete db (ap_tenant a) (ap_id a)")
    case True
    with Some assms that(1) show ?thesis by (auto simp: try_auto_enroll_def)
  next
    case False
    with Some assms obtain db1 where e: "enroll_applicant db now (ap_id a) c None = Inr (db1, a')"
      and "applicants db' = applicants db1 \<and> next_id db1 \<le> next_id db'"
      by (auto simp: try_auto_enroll_def result_simps split: option.splits if_splits
          dest!: grant_role_applicants issue_invite_applicants)
    with False Some that(2) show ?thesis by blast
  qed
qed

lemma carries_auto_enroll:
  assumes "try_auto_enroll xe db now raw a = Inr (db', a', n, r)" "applicants_wf db" "a \<in> set (applicants db)"
  shows "carries db a db' a'"
  using assms(1)
proof (cases rule: auto_enroll_cases)
  case 1
  then show ?thesis by (simp add: carries_refl)
next
  case (2 c db1)
  from carries_enroll [OF 2(4) assms(2,3)] 2(5,6) show ?thesis by (rule carries_then_same)
qed

section \<open>The contract of a handler\<close>

definition statuses_move :: "academy_db \<Rightarrow> academy_db \<Rightarrow> bool" where
  "statuses_move db db' \<longleftrightarrow>
     (applicants_wf db \<longrightarrow>
        applicants_wf db' \<and>
        (\<forall>a \<in> set (applicants db). \<exists>a' \<in> set (applicants db').
           ap_id a' = ap_id a \<and> advances a a'))"

lemma statuses_move_refl: "statuses_move db db"
  by (auto simp: statuses_move_def)

lemma statuses_move_trans:
  assumes "statuses_move db db1" "statuses_move db1 db2"
  shows "statuses_move db db2"
  unfolding statuses_move_def
proof
  assume "applicants_wf db"
  with assms have w: "applicants_wf db1" "applicants_wf db2"
    and 1: "\<forall>a \<in> set (applicants db). \<exists>a' \<in> set (applicants db1). ap_id a' = ap_id a \<and> advances a a'"
    and 2: "\<forall>a \<in> set (applicants db1). \<exists>a' \<in> set (applicants db2). ap_id a' = ap_id a \<and> advances a a'"
    by (auto simp: statuses_move_def)
  show "applicants_wf db2 \<and> (\<forall>a \<in> set (applicants db). \<exists>a' \<in> set (applicants db2).
      ap_id a' = ap_id a \<and> advances a a')"
  proof (intro conjI w ballI)
    fix a assume "a \<in> set (applicants db)"
    with 1 obtain b where b: "b \<in> set (applicants db1)" "ap_id b = ap_id a" "advances a b" by blast
    with 2 obtain c where "c \<in> set (applicants db2)" "ap_id c = ap_id b" "advances b c" by blast
    with b show "\<exists>c \<in> set (applicants db2). ap_id c = ap_id a \<and> advances a c"
      by (metis advances_trans)
  qed
qed

lemma statuses_move_same: "applicants db' = applicants db \<Longrightarrow> next_id db \<le> next_id db' \<Longrightarrow> statuses_move db db'"
  by (fastforce simp: statuses_move_def applicants_wf_def)

lemma carries_statuses:
  assumes "carries db a db' a'" "a \<in> set (applicants db)"
  shows "statuses_move db db'"
  unfolding statuses_move_def
proof
  assume w: "applicants_wf db"
  with assms have c: "applicants_wf db'" "a' \<in> set (applicants db')" "ap_id a' = ap_id a"
    "advances a a'"
    and o': "\<forall>b \<in> set (applicants db). ap_id b \<noteq> ap_id a \<longrightarrow> b \<in> set (applicants db')" by (auto simp: carries_def)
  show "applicants_wf db' \<and> (\<forall>a \<in> set (applicants db). \<exists>a' \<in> set (applicants db').
      ap_id a' = ap_id a \<and> advances a a')"
  proof (intro conjI c ballI)
    fix b assume b: "b \<in> set (applicants db)"
    show "\<exists>a' \<in> set (applicants db'). ap_id a' = ap_id b \<and> advances b a'"
    proof (cases "ap_id b = ap_id a")
      case True
      have "b = a" using applicant_of_id [OF w b] applicant_of_id [OF w assms(2)] True by (metis option.inject)
      with c show ?thesis by blast
    qed (use b o' in auto)
  qed
qed

lemma carries_statuses_wf:
  assumes "applicants_wf db \<Longrightarrow> carries db a db' a'" "a \<in> set (applicants db)"
  shows "statuses_move db db'"
  using assms carries_statuses unfolding statuses_move_def by blast

lemma add_applicant_moves: "ap_id a = next_id db \<Longrightarrow> statuses_move db (add_applicant a db)"
  by (auto simp: statuses_move_def applicants_wf_def add_applicant_def)

lemma apply_profile_simps [simp]:
  "ap_id (apply_profile p a) = ap_id a" "ap_status (apply_profile p a) = ap_status a" "ap_tenant (apply_profile p a) = ap_tenant a"
  "ap_sitting (apply_profile p a) = ap_sitting a"
proof -
  have "ap_id (fold g fs a) = ap_id a \<and> ap_status (fold g fs a) = ap_status a \<and> ap_tenant (fold g fs a) = ap_tenant a
        \<and> ap_sitting (fold g fs a) = ap_sitting a"
    if "g = (\<lambda>f r. case obj_get p f of None \<Rightarrow> r | Some v \<Rightarrow> if v = JNull then r else r\<lparr>ap_profile := AList.update f v (ap_profile r)\<rparr>)"
    for g fs using that by (induction fs arbitrary: a) (auto split: option.split)
  then show "ap_id (apply_profile p a) = ap_id a" "ap_status (apply_profile p a) = ap_status a"
    "ap_tenant (apply_profile p a) = ap_tenant a" "ap_sitting (apply_profile p a) = ap_sitting a"
    by (simp_all add: apply_profile_def)
qed

lemma refresh_simps [simp]:
  "ap_id (refresh_application q pr t a) = ap_id a" "ap_status (refresh_application q pr t a) = ap_status a"
  "ap_sitting (refresh_application q pr t a) = ap_sitting a"
  by (simp_all add: refresh_application_def Let_def)

lemma new_applicant_simps [simp]:
  "ap_id (new_applicant db now today t q e pr tr) = next_id db"
  "ap_status (new_applicant db now today t q e pr tr) = ''applied''"
  by (simp_all add: new_applicant_def)

lemma submit_application_cases:
  assumes "submit_application db now today tenant q = Inr (db', a')"
  obtains a program track where "a \<in> set (applicants db)" "a' = refresh_application q program track a" "db' = save_applicant a' db"
  | email program track where "a' = new_applicant db now today tenant q email program track" "db' = add_applicant a' db"
proof -
  let ?e = "py_lower (py_strip (aq_email q))"
  from assms obtain tr where tr: "selected_track db tenant q = Inr tr" by (auto simp: submit_application_def Let_def result_simps)
  let ?p = "case tr of None \<Rightarrow> aq_program q | Some r \<Rightarrow> Some (tr_name r)" and ?t = "map_option tr_id tr"
  show ?thesis
  proof (cases "find (same_application tenant ?e (aq_external_ref q)) (applicants db)")
    case None
    with assms tr show ?thesis
      by (intro that(2) [of ?e ?p ?t]) (auto simp: submit_application_def Let_def split: if_splits)
  next
    case (Some a)
    with assms tr show ?thesis
      by (intro that(1) [OF conjunct1 [OF find_Some_in [OF Some]], of ?p ?t])
        (auto simp: submit_application_def Let_def ensure_def split: if_splits)
  qed
qed

lemma submit_application_moves:
  assumes "submit_application db now today tenant q = Inr (db', a')"
  shows "statuses_move db db'" "a' \<in> set (applicants db')"
proof -
  show "statuses_move db db'" using assms
  proof (cases rule: submit_application_cases)
    case (1 a p t)
    have "carries db a (save_applicant a' db) a'" by (rule carries_save) (simp_all add: 1)
    with 1 show ?thesis by (blast intro: carries_statuses)
  qed (auto intro: add_applicant_moves)
  show "a' \<in> set (applicants db')" using assms
  proof (cases rule: submit_application_cases)
    case (1 a p t)
    then show ?thesis by (auto simp: save_applicant_def set_update_rows image_iff)
  qed (auto simp: add_applicant_def)
qed

lemma external_moves:
  assumes "submit_external_application db now today tenant ref e f l s d = Inr (db', a', c)"
  shows "statuses_move db db'"
  using assms
  by (auto simp: submit_external_application_def Let_def split: option.splits if_splits
      intro: add_applicant_moves statuses_move_refl)

lemma token_holder_in: "applicant_for_token xe db tenant raw = Some a \<Longrightarrow> a \<in> set (applicants db)"
  by (auto simp: applicant_for_token_def split: if_splits dest: find_Some_in)

lemma portal_holder_in: "applicant_for_onboarding_token xe db tenant raw = Some a \<Longrightarrow> a \<in> set (applicants db)"
  by (auto simp: applicant_for_onboarding_token_def split: if_splits dest: find_Some_in)

lemma send_applicants [simp]:
  "applicants (fst (send_application_received db now a)) = applicants db"
  "applicants (announce db now a offer) = applicants db"
  "applicants (fst (send_enrollment_welcome db now a)) = applicants db"
  "applicants (fst (send_onboarding_invite db now a)) = applicants db"
  by (simp_all add: send_application_received_def announce_def send_enrollment_welcome_def send_onboarding_invite_def
      send_waitlist_notice_def send_results_received_def enqueue_email_def)

lemma send_next_id [simp]:
  "next_id db \<le> next_id (fst (send_application_received db now a))"
  "next_id db \<le> next_id (announce db now a offer)"
  "next_id db \<le> next_id (fst (send_enrollment_welcome db now a))"
  "next_id db \<le> next_id (fst (send_onboarding_invite db now a))"
  by (simp_all add: send_application_received_def announce_def send_enrollment_welcome_def send_onboarding_invite_def
      send_waitlist_notice_def send_results_received_def enqueue_email_def)

lemmas send_moves = statuses_move_same [OF send_applicants(1) send_next_id(1)]
  statuses_move_same [OF send_applicants(2) send_next_id(2)]
  statuses_move_same [OF send_applicants(3) send_next_id(3)]
  statuses_move_same [OF send_applicants(4) send_next_id(4)]

lemma submit_apply_moves:
  assumes "submit_apply xe db now today raw url tenant choice q = Inr (db', pg)"
  shows "statuses_move db db'"
proof -
  from assms obtain c t q' db1 a where s: "submit_application db now today tenant q' = Inr (db1, a)"
    and r: "(if si_taken_at (ap_sitting a) = None \<and> has_entrance_exam (fst (send_application_received db1 now a)) a
       then (case invite xe (fst (send_application_received db1 now a)) now raw (rstrip_slash url) DEFAULT_DEADLINE_DAYS True a of
               (db3, a1, iv) \<Rightarrow> Inr (db3, Page_Start (iv_token iv)))
       else Inr (fst (send_application_received db1 now a), Page_Thanks)) = (Inr (db', pg) :: (academy_db \<times> page) result)"
    by (cases choice) (auto simp: submit_apply_def Let_def result_simps simp del: split_paired_All)
  let ?db2 = "fst (send_application_received db1 now a)"
  have a: "a \<in> set (applicants ?db2)" using submit_application_moves(2) [OF s] by simp
  have "statuses_move ?db2 db'"
  proof (cases "si_taken_at (ap_sitting a) = None \<and> has_entrance_exam ?db2 a")
    case True
    obtain d b iv where i: "invite xe ?db2 now raw (rstrip_slash url) DEFAULT_DEADLINE_DAYS True a = (d, b, iv)" by (metis prod_cases3)
    with r True have "db' = d" by simp
    with carries_statuses [OF carries_invite [OF i] a] show ?thesis by simp
  next
    case False
    with r have "db' = ?db2" by (simp split: if_splits)
    then show ?thesis by (simp add: statuses_move_refl)
  qed
  with submit_application_moves(1) [OF s] send_moves(1) [of db1 now a] show ?thesis by (blast intro: statuses_move_trans)
qed

lemma start_moves: "statuses_move db (fst (assessment_start xe db now tenant token))"
proof (cases "applicant_for_token xe db tenant token")
  case None
  then show ?thesis by (simp add: assessment_start_def statuses_move_refl)
next
  case (Some a)
  obtain d b t where s: "start_exam db now a = (d, b, t)" by (metis prod_cases3)
  show ?thesis
    using carries_statuses [OF carries_start [OF s] token_holder_in [OF Some]]
    by (auto simp: assessment_start_def Some s statuses_move_refl)
qed

lemma autosave_moves:
  assumes "assessment_autosave xe db now tenant token form = Inr (db', pg)"
  shows "statuses_move db db'"
proof (cases "applicant_for_token xe db tenant token")
  case None
  with assms show ?thesis by (simp add: assessment_autosave_def statuses_move_refl)
next
  case (Some a)
  obtain d b where e: "record_elapsed db now a = (d, b)" by fastforce
  from assms have "db' = db \<or> (\<exists>ans. db' = fst (save_answers d ans b))"
    by (auto simp: assessment_autosave_def Some e Let_def result_simps split: if_splits)
  moreover have "carries db a (fst (save_answers d ans b)) (snd (save_answers d ans b))" for ans
    by (rule carries_trans [OF carries_elapsed [OF e] carries_save_answers]) simp
  ultimately show ?thesis
    using carries_statuses [OF _ token_holder_in [OF Some]] statuses_move_refl by metis
qed

lemma submit_cases:
  assumes "assessment_submit xe db now raw tenant token form = Inr (db', pg)"
  obtains "db' = db"
  | a ans db1 a1 r where "applicant_for_token xe db tenant token = Some a" "si_taken_at (ap_sitting a) = None"
      "grade_and_record xe db now tenant ans None a = (db1, a1, r)" "db' = db1"
  | a ans db1 a1 r db2 a2 offer where "applicant_for_token xe db tenant token = Some a" "si_taken_at (ap_sitting a) = None"
      "grade_and_record xe db now tenant ans None a = (db1, a1, Inr r)"
      "apply_assessment_policy xe db1 now raw a1 = Inr (db2, a2, offer)" "db' = announce db2 now a2 offer"
proof (cases "applicant_for_token xe db tenant token")
  case None
  with assms that(1) show ?thesis by (simp add: assessment_submit_def)
next
  case s: (Some a)
  show ?thesis
  proof (cases "si_taken_at (ap_sitting a) \<noteq> None \<or> past_deadline now a")
    case True
    with assms s have "db' = db" by (auto simp: assessment_submit_def split: if_splits)
    then show ?thesis by (rule that(1))
  next
    case False
    with assms s obtain qs where "exam_questions xe db tenant a = Inr qs" by (auto simp: assessment_submit_def result_simps)
    define ans where "ans = merge_answers (case si_answers (ap_sitting a) of None \<Rightarrow> [] | Some s \<Rightarrow> s) form qs"
    obtain db1 a1 r where g: "grade_and_record xe db now tenant ans None a = (db1, a1, r)" by (metis prod_cases3)
    show ?thesis
    proof (cases r)
      case (Inl e)
      with assms s False \<open>exam_questions _ _ _ _ = _\<close> g have "db' = db1"
        by (cases e) (auto simp: assessment_submit_def Let_def simp flip: ans_def)
      with that(2) s False g show ?thesis by blast
    next
      case (Inr x)
      with assms s False \<open>exam_questions _ _ _ _ = _\<close> g obtain db2 a2 offer
        where "apply_assessment_policy xe db1 now raw a1 = Inr (db2, a2, offer)" "db' = announce db2 now a2 offer"
        by (auto simp: assessment_submit_def Let_def result_simps simp flip: ans_def)
      with that(3) s False g Inr show ?thesis by blast
    qed
  qed
qed

lemma submit_moves:
  assumes "assessment_submit xe db now raw tenant token form = Inr (db', pg)"
  shows "statuses_move db db'"
  using assms
proof (cases rule: submit_cases)
  case 1
  then show ?thesis by (simp add: statuses_move_refl)
next
  case (2 a ans db1 a1 r)
  then show ?thesis using carries_statuses [OF carries_grade token_holder_in] by blast
next
  case (3 a ans db1 a1 r db2 a2 offer)
  have c: "carries db a db1 a1" by (rule carries_grade [OF 3(3)])
  have a: "a \<in> set (applicants db)" by (rule token_holder_in [OF 3(1)])
  have "carries db a db2 a2" if "applicants_wf db"
  proof -
    from c a that have "applicants_wf db1" "a1 \<in> set (applicants db1)" by (auto simp: carries_def)
    then show ?thesis using c carries_policy [OF 3(4)] carries_trans by blast
  qed
  then have "statuses_move db db2" using a by (rule carries_statuses_wf)
  with send_moves(2) 3(5) show ?thesis by (blast intro: statuses_move_trans)
qed

lemma portal_moves:
  assumes "portal_step key xe db now raw tenant token = Inr (db', pg)"
  shows "statuses_move db db'"
proof (cases "applicant_for_onboarding_token xe db tenant token")
  case None
  with assms show ?thesis by (simp add: portal_step_def statuses_move_refl)
next
  case (Some a)
  with assms obtain db1 db2 a2 n r where t: "complete_task_by_key db now (ap_tenant a) (ap_id a) key = Inr db1"
    and e: "try_auto_enroll xe db1 now raw a = Inr (db2, a2, n, r)"
    and d: "db' = (if n then fst (send_enrollment_welcome db2 now a2) else db2)"
    by (auto simp: portal_step_def finish_task_and_maybe_enroll_def result_simps)
  from complete_task_applicants [OF t] have s: "applicants db1 = applicants db" "next_id db1 = next_id db" by simp_all
  have a: "a \<in> set (applicants db1)" using portal_holder_in [OF Some] s by simp
  have "statuses_move db1 db2" by (rule carries_statuses_wf [OF carries_auto_enroll [OF e _ a] a])
  moreover have "statuses_move db2 db'" using send_moves(3) statuses_move_refl unfolding d by simp
  moreover have "statuses_move db db1" using s by (intro statuses_move_same) simp_all
  ultimately show ?thesis by (blast intro: statuses_move_trans)
qed

end
