(* ===== verification/Admissions_Properties.thy ===== *)
theory Admissions_Properties
  imports Admissions_Facts
begin

text \<open>
  The step relation of admissions, one constructor per handler or command that writes
  applicants, and the properties: the pipeline of statuses and the recorded result along every
  run, what enrolment requires and leaves behind, and when the automatic decision is taken.
\<close>

section \<open>Steps\<close>

inductive admission_step :: "exam_env \<Rightarrow> academy_db \<Rightarrow> academy_db \<Rightarrow> bool" for xe where
  step_apply: "submit_apply xe db now today raw url tenant choice q = Inr (db', pg) \<Longrightarrow> admission_step xe db db'"
| step_register: "submit_external_application db now today tenant ref e f l src d = Inr (db', a, c) \<Longrightarrow> admission_step xe db db'"
| step_assign: "assign_applicant_intake db i c t actor reason = Inr (db', a) \<Longrightarrow> admission_step xe db db'"
| step_action: "application_action xe db now raw i act reason ext actor url = Inr (db', a) \<Longrightarrow> admission_step xe db db'"
| step_transition: "api_transition xe db now raw i s notes actor = Inr (db', a) \<Longrightarrow> admission_step xe db db'"
| step_enroll: "enroll_applicant db now i c actor = Inr (db', a) \<Longrightarrow> admission_step xe db db'"
| step_task: "set_task_status db now t s = Inr db' \<Longrightarrow> admission_step xe db db'"
| step_start: "assessment_start xe db now tenant token = (db', pg) \<Longrightarrow> admission_step xe db db'"
| step_autosave: "assessment_autosave xe db now tenant token form = Inr (db', pg) \<Longrightarrow> admission_step xe db db'"
| step_submit: "assessment_submit xe db now raw tenant token form = Inr (db', pg) \<Longrightarrow> admission_step xe db db'"
| step_confirm: "confirm_details xe db now raw tenant token = Inr (db', pg) \<Longrightarrow> admission_step xe db db'"
| step_orientation: "acknowledge_orientation xe db now raw tenant token = Inr (db', pg) \<Longrightarrow> admission_step xe db db'"
| step_resend: "resend_assessment xe db now raw url tenant token = (db', pg) \<Longrightarrow> admission_step xe db db'"
| step_invite: "invite_applicants xe db now raws url days (invite_targets db tenant c again e) = (db', q, fl, sk) \<Longrightarrow>
    admission_step xe db db'"
| step_reset: "reset_entrance_exam xe db now raw tenant e = Some (db', q) \<Longrightarrow> admission_step xe db db'"
| step_reband: "recompute_entrance_levels db tenant c n dry = Some db' \<Longrightarrow> admission_step xe db db'"

section \<open>Every step keeps the contract\<close>

lemma by_id_moves:
  assumes "get_applicant db i = Inr a" "applicants_wf db \<Longrightarrow> a \<in> set (applicants db) \<Longrightarrow> ap_id a = i \<Longrightarrow> carries db a db' a'"
  shows "statuses_move db db'"
proof -
  from assms(1) have "a \<in> set (applicants db) \<and> ap_id a = i"
    by (auto simp: get_applicant_def split: option.splits dest: find_applicant_in)
  with assms(2) show ?thesis by (blast intro: carries_statuses_wf)
qed

lemma assign_moves:
  assumes "assign_applicant_intake db i c t actor reason = Inr (db', a')"
  shows "statuses_move db db'"
proof -
  from assms obtain a where a: "get_applicant db i = Inr a"
    by (cases "get_applicant db i") (simp_all add: assign_applicant_intake_def)
  from assms a obtain tr where "active_intake_track db (ap_tenant a) (Some c) (Some t) = Some tr"
    by (auto simp: assign_applicant_intake_def split: option.splits)
  moreover define b where b: "b = a\<lparr>ap_cohort := Some c, ap_track := Some t, ap_program := Some (tr_name tr)\<rparr>"
  ultimately have d: "applicants db' = applicants (save_applicant b db)" "next_id (save_applicant b db) \<le> next_id db'"
    using assms a by (auto simp: assign_applicant_intake_def Let_def)
  have "carries db a (save_applicant b db) b" by (rule carries_save) (simp_all add: b)
  with d have "carries db a db' b" by (blast intro: carries_then_same)
  with a show ?thesis by (rule by_id_moves)
qed

lemma action_moves:
  assumes "application_action xe db now raw i act reason ext actor url = Inr (db', a')"
  shows "statuses_move db db'"
proof -
  from assms obtain a where a: "get_applicant db i = Inr a"
    by (cases "get_applicant db i")
      (simp_all add: application_action_def resend_applicant_invitation_def apply_admin_review_action_def split: if_splits)
  show ?thesis
    using assms by (auto simp: application_action_def split: if_splits
        intro: by_id_moves [OF a carries_resend] by_id_moves [OF a carries_review])
qed

lemma transition_moves:
  assumes "transition_applicant db now i s notes actor source = Inr (db', a')"
  shows "statuses_move db db'"
proof -
  from assms obtain a where a: "get_applicant db i = Inr a" by (rule transition_cases)
  show ?thesis using assms by (auto intro: by_id_moves [OF a carries_transition])
qed

lemma transition_present:
  assumes "transition_applicant db now i s notes actor source = Inr (db', a')"
  shows "a' \<in> set (applicants db')"
  using assms
proof (cases rule: transition_cases)
  case (1 a)
  then show ?thesis by (auto simp: get_applicant_def split: option.splits dest: find_applicant_in)
next
  case (2 a)
  then have "a \<in> set (applicants db)" by (auto simp: get_applicant_def split: option.splits dest: find_applicant_in)
  with 2(3,5) show ?thesis by (auto simp: save_applicant_def set_update_rows image_iff)
qed

lemma api_transition_moves:
  assumes "api_transition xe db now raw i s notes actor = Inr (db', a')"
  shows "statuses_move db db'"
proof -
  from assms obtain db1 a1 where t: "transition_applicant db now i s notes (Some actor) ''admin_api'' = Inr (db1, a1)"
    by (auto simp: api_transition_def result_simps)
  obtain db2 a2 where m: "mint_onboarding_token xe db1 raw a1 = (db2, a2)" by fastforce
  have "db' = db1 \<or> db' = fst (send_onboarding_invite db2 now a2)"
    using assms by (auto simp: api_transition_def t m split: if_splits)
  then have "statuses_move db1 db'"
    using carries_statuses [OF carries_mint [OF m] transition_present [OF t]] send_moves(4)
    by (blast intro: statuses_move_trans statuses_move_refl)
  with transition_moves [OF t] show ?thesis by (rule statuses_move_trans)
qed

lemma enroll_moves:
  assumes "enroll_applicant db now i c actor = Inr (db', a')"
  shows "statuses_move db db'"
proof -
  from assms obtain a where a: "get_applicant db i = Inr a" by (rule enroll_cases)
  show ?thesis using assms by (auto intro: by_id_moves [OF a carries_enroll])
qed

lemma resend_moves: "statuses_move db (fst (resend_assessment xe db now raw url tenant token))"
proof (cases "applicant_for_onboarding_token xe db tenant token")
  case (Some a)
  obtain d b iv where "invite xe db now raw (rstrip_slash url) DEFAULT_DEADLINE_DAYS True a = (d, b, iv)" by (metis prod_cases3)
  with carries_statuses [OF carries_invite [OF this] portal_holder_in [OF Some]] show ?thesis
    by (simp add: resend_assessment_def Some statuses_move_refl)
qed (simp add: resend_assessment_def statuses_move_refl)

lemma invite_loop_moves:
  assumes "applicants_wf db" "set targets \<subseteq> set (applicants db)" "distinct (map ap_id targets)"
    "fold (\<lambda>a (d, queued, failed, skipped).
             if \<not> has_entrance_exam d a then (d, queued, failed, Suc skipped)
             else case invite xe d now (raws (ap_id a)) url days True a of (d', _, iv) \<Rightarrow>
                    if iv_emailed iv then (d', Suc queued, failed, skipped) else (d', queued, Suc failed, skipped))
       targets (db, c) = (db', r)"
  shows "statuses_move db db'"
  using assms
proof (induction targets arbitrary: db c)
  case Nil
  then show ?case by (simp add: statuses_move_refl)
next
  case (Cons a ts)
  obtain q f s where c: "c = (q, f, s)" by (metis prod_cases3)
  obtain d b iv where i: "invite xe db now (raws (ap_id a)) url days True a = (d, b, iv)" by (metis prod_cases3)
  have k: "carries db a d b" by (rule carries_invite [OF i])
  with Cons.prems(1,2) have w: "applicants_wf d"
    and o': "\<forall>b \<in> set (applicants db). ap_id b \<noteq> ap_id a \<longrightarrow> b \<in> set (applicants d)" unfolding carries_def by simp_all
  have sub: "set ts \<subseteq> set (applicants d)"
  proof
    fix b assume "b \<in> set ts"
    with Cons.prems(2,3) have "b \<in> set (applicants db)" "ap_id b \<noteq> ap_id a" by (auto simp: rev_image_eqI)
    with o' show "b \<in> set (applicants d)" by blast
  qed
  have m: "statuses_move db d" using carries_statuses [OF k] Cons.prems(2) by simp
  show ?case
  proof (cases "has_entrance_exam db a")
    case True
    with Cons.prems(4) obtain c' where "fold (\<lambda>a (d, queued, failed, skipped).
             if \<not> has_entrance_exam d a then (d, queued, failed, Suc skipped)
             else case invite xe d now (raws (ap_id a)) url days True a of (d', _, iv) \<Rightarrow>
                    if iv_emailed iv then (d', Suc queued, failed, skipped) else (d', queued, Suc failed, skipped))
       ts (d, c') = (db', r)" by (auto simp: c i split: if_splits)
    with Cons.IH [OF w sub] Cons.prems(3) have "statuses_move d db'" by simp
    with m show ?thesis by (rule statuses_move_trans)
  next
    case False
    with Cons.prems Cons.IH [of db "(q, f, Suc s)"] show ?thesis by (auto simp: c)
  qed
qed

lemma invite_moves:
  assumes "invite_applicants xe db now raws url days (invite_targets db tenant c again e) = (db', q, fl, sk)"
  shows "statuses_move db db'"
proof -
  have "statuses_move db db'" if "applicants_wf db"
    using that assms
    by (intro invite_loop_moves [OF that, of "invite_targets db tenant c again e" xe now raws url days "(0, 0, 0)"])
      (auto simp: invite_targets_def invite_applicants_def applicants_wf_def distinct_map inj_on_def)
  then show ?thesis by (auto simp: statuses_move_def)
qed

lemma reset_moves:
  assumes "reset_entrance_exam xe db now raw tenant e = Some (db', q)"
  shows "statuses_move db db'"
proof -
  from assms obtain a b where a: "find (\<lambda>a. ap_tenant a = tenant \<and> ap_email a = e) (applicants db) = Some a"
    and r: "reset_and_invite xe db now raw DEFAULT_DEADLINE_DAYS a = (db', b, q)"
    by (auto simp: reset_entrance_exam_def split: option.splits prod.splits)
  show ?thesis by (rule carries_statuses [OF carries_reset_and_invite [OF r]]) (use find_Some_in [OF a] in simp)
qed

lemma reband_advances: "advances a (reband lo hi a)" "ap_id (reband lo hi a) = ap_id a"
  by (auto simp: reband_def Let_def result_of_def split: option.splits)

lemma update_moves:
  assumes "\<And>r. advances r (f r)" "\<And>r. ap_id (f r) = ap_id r"
  shows "statuses_move db (db\<lparr>applicants := update_rows p f (applicants db)\<rparr>)"
proof -
  have ids: "map ap_id (update_rows p f (applicants db)) = map ap_id (applicants db)"
    by (rule map_update_rows) (rule assms(2))
  have "\<exists>a' \<in> set (update_rows p f (applicants db)). ap_id a' = ap_id a \<and> advances a a'" if "a \<in> set (applicants db)" for a
    using that assms by (intro bexI [of _ "if p a then f a else a"]) (auto simp: set_update_rows)
  with ids assms(2) show ?thesis by (auto simp: statuses_move_def applicants_wf_def set_update_rows)
qed

lemma recompute_moves:
  assumes "recompute_entrance_levels db tenant c n dry = Some db'"
  shows "statuses_move db db'"
proof -
  from assms obtain lo hi where "db' = db \<or> db' = db\<lparr>applicants := update_rows (measured tenant c) (reband lo hi) (applicants db)\<rparr>"
    by (auto simp: recompute_entrance_levels_def Let_def split: if_splits)
  then show ?thesis using update_moves [of "reband lo hi", OF reband_advances] statuses_move_refl by blast
qed

lemma admission_step_moves:
  assumes "admission_step xe db db'"
  shows "statuses_move db db'"
  using assms
proof cases
  case step_start
  then show ?thesis by (metis fst_conv start_moves)
next
  case step_resend
  then show ?thesis by (metis fst_conv resend_moves)
next
  case step_task
  then show ?thesis by (intro statuses_move_same) (simp_all add: set_task_applicants)
next
  case step_confirm
  then show ?thesis by (simp add: confirm_details_def portal_moves)
next
  case step_orientation
  then show ?thesis by (simp add: acknowledge_orientation_def portal_moves)
qed (blast intro: submit_apply_moves external_moves assign_moves action_moves api_transition_moves enroll_moves
    autosave_moves submit_moves invite_moves reset_moves recompute_moves)+

lemma admission_run_moves: "(admission_step xe)\<^sup>*\<^sup>* db db' \<Longrightarrow> statuses_move db db'"
  by (induction rule: rtranclp_induct) (blast intro: statuses_move_refl statuses_move_trans admission_step_moves)+

section \<open>The pipeline and the recorded result\<close>

lemma terminal_stays: "(s, t) \<in> status_moves\<^sup>* \<Longrightarrow> s \<in> {''enrolled'', ''rejected''} \<Longrightarrow> t = s"
  by (induction rule: rtrancl_induct) (auto simp: status_moves_def allowed_from_def ALLOWED_TRANSITIONS_def)

lemma run_advances:
  assumes "(admission_step xe)\<^sup>*\<^sup>* db db'" "applicants_wf db" "a \<in> set (applicants db)"
  shows "\<exists>a'. find_applicant db' (ap_id a) = Some a' \<and> advances a a'"
proof -
  from admission_run_moves [OF assms(1)] assms(2,3) obtain a' where "applicants_wf db'" "a' \<in> set (applicants db')"
    "ap_id a' = ap_id a" "advances a a'" by (auto simp: statuses_move_def)
  then show ?thesis using applicant_of_id by metis
qed

text \<open>C2. Over every run of the intake, the admin's actions, the exam, the onboarding portal and the
  entrance commands, an applicant stays in the table and its status moves only along
  \<open>ALLOWED_TRANSITIONS\<close>; once enrolled or rejected it never changes again.
\<close>
theorem admissions_follow_the_pipeline:
  assumes "(admission_step xe)\<^sup>*\<^sup>* db db'" "applicants_wf db" "a \<in> set (applicants db)"
  shows "\<exists>a'. find_applicant db' (ap_id a) = Some a' \<and> (ap_status a, ap_status a') \<in> status_moves\<^sup>*
              \<and> (ap_status a \<in> {''enrolled'', ''rejected''} \<longrightarrow> ap_status a' = ap_status a)"
  using run_advances [OF assms] terminal_stays unfolding advances_def by blast

text \<open>A recorded sitting is final: over every such run the score, profile, validity and time of a
  sitting that was taken stay as they are, until a reset, which raises the reset counter.
\<close>
theorem graded_result_is_final:
  assumes "(admission_step xe)\<^sup>*\<^sup>* db db'" "applicants_wf db" "a \<in> set (applicants db)"
    "si_taken_at (ap_sitting a) \<noteq> None" "find_applicant db' (ap_id a) = Some a'"
  shows "si_reset_count (ap_sitting a) < si_reset_count (ap_sitting a')
         \<or> result_of (ap_sitting a') = result_of (ap_sitting a)"
  using run_advances [OF assms(1-3)] assms(4,5) unfolding advances_def by auto

section \<open>The automatic decision\<close>

lemma get_applicant_id: "get_applicant db i = Inr a \<Longrightarrow> a \<in> set (applicants db) \<and> ap_id a = i"
  by (auto simp: get_applicant_def split: option.splits dest: find_applicant_in)

lemma transition_status:
  assumes "transition_applicant db now i s notes actor source = Inr (db', a')"
  shows "ap_status a' = s" "ap_id a' = i"
proof -
  have "ap_status a' = s \<and> ap_id a' = i" using assms
  proof (cases rule: transition_cases)
    case (1 a)
    with get_applicant_id [OF 1(1)] show ?thesis by simp
  next
    case (2 a)
    with get_applicant_id [OF 2(1)] show ?thesis by simp
  qed
  then show "ap_status a' = s" "ap_id a' = i" by simp_all
qed

lemma transitions_status:
  assumes "transitions db now (ap_id a) path notes actor source = Inr db'" "path \<noteq> []" "applicants_wf db" "a \<in> set (applicants db)"
    "get_applicant db' (ap_id a) = Inr b"
  shows "ap_status b = last path"
  using assms
proof (induction path arbitrary: db a)
  case (Cons s path)
  from Cons.prems(1) obtain db1 a1 where t: "transition_applicant db now (ap_id a) s notes actor source = Inr (db1, a1)"
    and r: "transitions db1 now (ap_id a) path notes actor source = Inr db'" by (auto simp: result_simps)
  have "carries db a db1 a1" by (rule carries_transition [OF t Cons.prems(3,4)])
  with Cons.prems have w: "applicants_wf db1" and a1: "a1 \<in> set (applicants db1)" "ap_id a1 = ap_id a" by (auto simp: carries_def)
  show ?case
  proof (cases "path = []")
    case True
    with r have "db1 = db'" by simp
    with get_self [OF w a1] Cons.prems(5) have "b = a1" by simp
    with True transition_status(1) [OF t] show ?thesis by simp
  next
    case False
    with Cons.IH [of db1 a1] r w a1 Cons.prems(5) show ?thesis by simp
  qed
qed simp

lemma find_saved:
  assumes "find_applicant db i = Some b" "ap_id a = i"
  shows "find_applicant (save_applicant a db) i = Some a"
proof -
  have "find (\<lambda>r. ap_id r = i) (update_rows (\<lambda>r. ap_id r = i) (\<lambda>_. a) rows) = Some a"
    if "find (\<lambda>r. ap_id r = i) rows = Some b" for rows
    using that assms(2) by (induction rows) (auto split: if_splits)
  with assms show ?thesis by (simp add: find_applicant_def save_applicant_def)
qed

lemma audit_frame [simp]:
  "cohorts (audit_applicant db a actor act ds) = cohorts db" "tracks (audit_applicant db a actor act ds) = tracks db"
  "cohort_tracks (audit_applicant db a actor act ds) = cohort_tracks db"
  "cohorts (save_applicant a db) = cohorts db" "tracks (save_applicant a db) = tracks db"
  "cohort_tracks (save_applicant a db) = cohort_tracks db"
  by (simp_all add: audit_applicant_def write_audit_event_def save_applicant_def)

lemma has_intake_frame:
  "cohorts db' = cohorts db \<Longrightarrow> tracks db' = tracks db \<Longrightarrow> cohort_tracks db' = cohort_tracks db \<Longrightarrow>
   has_active_intake db' (move_to s n a) = has_active_intake db a"
  by (cases "ap_cohort a"; cases "ap_track a") (simp_all add: has_active_intake_def active_intake_track_def move_to_def)

lemma add_tasks_frame:
  "cohorts (fold (add_task now t i) ts db) = cohorts db \<and> tracks (fold (add_task now t i) ts db) = tracks db
   \<and> cohort_tracks (fold (add_task now t i) ts db) = cohort_tracks db"
proof (induction ts arbitrary: db)
  case (Cons x xs)
  obtain o' k l where x: "x = (o', k, l)" by (cases x) blast
  from Cons [of "add_task now t i x db"] show ?case by (simp add: x add_task_def)
qed simp

lemma complete_task_total:
  "\<exists>db'. complete_task_by_key db now t i ''entrance_assessment'' = Inr db' \<and> cohorts db' = cohorts db \<and> tracks db' = tracks db
     \<and> cohort_tracks db' = cohort_tracks db"
proof (cases "find (\<lambda>r. ot_key r = ''entrance_assessment'') (tasks_of db t i)")
  case (Some r)
  then have "r \<in> set (onboarding_tasks db)" by (auto simp: tasks_of_def dest: find_Some_in)
  with Some show ?thesis by (auto simp: complete_task_by_key_def set_task_status_def TASK_STATUSES_def list_ex_iff)
qed (simp add: complete_task_by_key_def)

lemma enter_onboarding_total:
  "\<exists>db'. enter_onboarding db now a = Inr db' \<and> cohorts db' = cohorts db \<and> tracks db' = tracks db \<and> cohort_tracks db' = cohort_tracks db"
  using complete_task_total [of "fst (seed_tasks db now (ap_tenant a) (ap_id a))" now "ap_tenant a" "ap_id a"]
  by (auto simp: enter_onboarding_def seed_tasks_def Let_def add_tasks_frame)

text \<open>An allowed move succeeds, onto an applicant that is stored.\<close>

lemma transition_succeeds:
  assumes "get_applicant db i = Inr a" "s \<in> set APPLICANT_STATUSES" "s \<in> set (allowed_from (ap_status a))" "s \<noteq> ap_status a"
    and "s \<in> {''accepted'', ''onboarding'', ''enrolled''} \<longrightarrow> has_active_intake db a"
  shows "\<exists>db'. transition_applicant db now i s n actor source = Inr (db', move_to s n a)
      \<and> get_applicant db' i = Inr (move_to s n a) \<and> has_active_intake db' (move_to s n a) = has_active_intake db a"
proof -
  let ?a1 = "move_to s n a"
  let ?db1 = "audit_applicant (save_applicant ?a1 db) ?a1 actor ''applicant.transition''
     [(''from_status'', JStr (ap_status a)), (''to_status'', JStr s), (''reason'', JStr (or_empty n)), (''source'', JStr source)]"
  obtain db2 where e: "enter_onboarding ?db1 now ?a1 = Inr db2" "cohorts db2 = cohorts ?db1" "tracks db2 = tracks ?db1"
    "cohort_tracks db2 = cohort_tracks ?db1" using enter_onboarding_total by blast
  let ?db' = "if s = ''onboarding'' then db2 else ?db1"
  have t: "transition_applicant db now i s n actor source = Inr (?db', ?a1)"
    using assms e(1) by (cases "s = ''onboarding''"; cases "has_active_intake db a") (simp_all add: transition_applicant_def Let_def)
  have "applicants ?db' = applicants (save_applicant ?a1 db)"
    using enter_onboarding_applicants(1) [OF e(1)] by (simp add: audit_applicant_def write_audit_event_def)
  moreover have "find_applicant (save_applicant ?a1 db) i = Some ?a1"
    using assms(1) get_applicant_id [OF assms(1)] by (intro find_saved) (auto simp: get_applicant_def split: option.splits)
  ultimately have "get_applicant ?db' i = Inr ?a1" by (simp add: get_applicant_def find_applicant_def)
  moreover have "has_active_intake ?db' ?a1 = has_active_intake db a" using e by (intro has_intake_frame) simp_all
  ultimately show ?thesis using t by blast
qed

lemma auto_accept_succeeds:
  assumes "get_applicant db i = Inr a" "ap_status a = ''applied''" "has_active_intake db a"
  shows "\<exists>db' b. transitions db now i [''screened'', ''accepted'', ''onboarding''] None None src = Inr db' \<and> get_applicant db' i = Inr b"
proof -
  note facts = APPLICANT_STATUSES_def allowed_from_def ALLOWED_TRANSITIONS_def
  let ?b = "move_to ''screened'' None a" let ?c = "move_to ''accepted'' None ?b" let ?d = "move_to ''onboarding'' None ?c"
  obtain db1 where 1: "transition_applicant db now i ''screened'' None None src = Inr (db1, ?b)" "get_applicant db1 i = Inr ?b"
    "has_active_intake db1 ?b" using transition_succeeds [OF assms(1), of "''screened''" now None None src] assms by (auto simp: facts)
  obtain db2 where 2: "transition_applicant db1 now i ''accepted'' None None src = Inr (db2, ?c)" "get_applicant db2 i = Inr ?c"
    "has_active_intake db2 ?c" using transition_succeeds [OF 1(2), of "''accepted''" now None None src] 1(3) by (auto simp: facts)
  obtain db3 where "transition_applicant db2 now i ''onboarding'' None None src = Inr (db3, ?d)" "get_applicant db3 i = Inr ?d"
    using transition_succeeds [OF 2(2), of "''onboarding''" now None None src] 2(3) by (auto simp: facts)
  with 1 2 show ?thesis by auto
qed

text \<open>C24. The automatic decision on a graded sitting. It acts exactly when the applicant is still
  \<open>applied\<close>, has a score, passed the validity gate and belongs to a cohort with a threshold: a score
  below the threshold always ends in \<open>waitlisted\<close>; a score at or above it ends in \<open>onboarding\<close>, with
  a portal token whose hash is stored, whenever the applicant has an active intake, which the
  acceptance demands. In every other case it returns the store and the applicant
  unchanged.
\<close>
theorem auto_decision_is_sound:
  assumes "applicants_wf db" "a \<in> set (applicants db)"
  shows "case (si_score (ap_sitting a), map_option ch_auto_accept_threshold (get_cohort db (ap_cohort a))) of
      (Some score, Some (Some threshold)) \<Rightarrow>
        if ap_status a \<noteq> ''applied'' \<or> si_valid (ap_sitting a) \<noteq> Some True
        then apply_assessment_policy xe db now raw a = Inr (db, a, None)
        else if score < threshold
        then \<exists>db' a'. apply_assessment_policy xe db now raw a = Inr (db', a', None)
               \<and> ap_id a' = ap_id a \<and> ap_status a' = ''waitlisted'' \<and> a' \<in> set (applicants db')
        else has_active_intake db a \<longrightarrow>
               (\<exists>db' a'. apply_assessment_policy xe db now raw a = Inr (db', a', Some raw)
                  \<and> ap_id a' = ap_id a \<and> ap_status a' = ''onboarding'' \<and> ap_onboarding_token_hash a' = Some (xe_hash xe raw)
                  \<and> a' \<in> set (applicants db'))
    | _ \<Rightarrow> apply_assessment_policy xe db now raw a = Inr (db, a, None)"
proof -
  have g: "get_applicant db (ap_id a) = Inr a" using assms by (simp add: get_self)
  show ?thesis
  proof (cases "si_score (ap_sitting a)")
    case s: (Some score)
    show ?thesis
    proof (cases "get_cohort db (ap_cohort a)")
      case c: (Some c)
      show ?thesis
      proof (cases "ch_auto_accept_threshold c")
        case t: (Some threshold)
        consider (still) "ap_status a \<noteq> ''applied'' \<or> si_valid (ap_sitting a) \<noteq> Some True"
          | (below) "ap_status a = ''applied''" "si_valid (ap_sitting a) = Some True" "score < threshold"
          | (above) "ap_status a = ''applied''" "si_valid (ap_sitting a) = Some True" "\<not> score < threshold" by blast
        then show ?thesis
        proof cases
          case still
          with s c t show ?thesis by (simp add: apply_assessment_policy_def)
        next
          case below
          let ?n = "Some (''auto-waitlisted: entrance score '' @ percent score @ '' below threshold '' @ percent threshold)"
          obtain db1 where w: "transition_applicant db now (ap_id a) ''waitlisted'' ?n None ''assessment_policy''
              = Inr (db1, move_to ''waitlisted'' ?n a)" "get_applicant db1 (ap_id a) = Inr (move_to ''waitlisted'' ?n a)"
            using transition_succeeds [OF g, of "''waitlisted''" now ?n None "''assessment_policy''"] below
            by (auto simp: APPLICANT_STATUSES_def allowed_from_def ALLOWED_TRANSITIONS_def)
          have "move_to ''waitlisted'' ?n a \<in> set (applicants db1)"
            using w(2) by (auto simp: get_applicant_def find_applicant_def split: option.splits dest: find_Some_in)
          with below s c t w(1) show ?thesis by (simp add: apply_assessment_policy_def)
        next
          case above
          { assume i: "has_active_intake db a"
            obtain db1 b where r: "transitions db now (ap_id a) [''screened'', ''accepted'', ''onboarding''] None None ''assessment_policy'' = Inr db1"
              "get_applicant db1 (ap_id a) = Inr b" using auto_accept_succeeds [OF g above(1) i] by blast
            have "ap_status b = ''onboarding''" using transitions_status [OF r(1) _ assms r(2)] by simp
            moreover let ?b = "b\<lparr>ap_notes := Some (''auto-accepted: entrance score '' @ percent score @ '' >= threshold '' @ percent threshold)\<rparr>"
            have "find_applicant (save_applicant ?b db1) (ap_id a) = Some ?b"
              using r(2) get_applicant_id [OF r(2)] by (intro find_saved) (auto simp: get_applicant_def split: option.splits)
            then have "find_applicant (save_applicant (?b\<lparr>ap_onboarding_token_hash := Some (xe_hash xe raw)\<rparr>) (save_applicant ?b db1)) (ap_id a)
                = Some (?b\<lparr>ap_onboarding_token_hash := Some (xe_hash xe raw)\<rparr>)"
              by (rule find_saved) (simp add: get_applicant_id [OF r(2)])
            note find_applicant_in [OF this]
            ultimately have "\<exists>db' a'. apply_assessment_policy xe db now raw a = Inr (db', a', Some raw)
                \<and> ap_id a' = ap_id a \<and> ap_status a' = ''onboarding'' \<and> ap_onboarding_token_hash a' = Some (xe_hash xe raw)
                \<and> a' \<in> set (applicants db')"
              using above s c t r get_applicant_id [OF r(2)]
              by (simp add: apply_assessment_policy_def mint_onboarding_token_def Let_def result_simps del: transitions.simps) }
          with above s c t show ?thesis by simp
        qed
      qed (simp add: apply_assessment_policy_def s c)
    qed (simp add: apply_assessment_policy_def s)
  qed (simp add: apply_assessment_policy_def)
qed

section \<open>Enrolment\<close>

lemma enrolled_tables:
  assumes "transition_applicant db now i ''enrolled'' notes actor source = Inr (db', a')"
  shows "people db' = people db" "enrollments db' = enrollments db"
proof -
  from assms obtain a where a: "get_applicant db i = Inr a" by (rule transition_cases)
  have "people db' = people db \<and> enrollments db' = enrollments db"
  proof (cases "ap_status a = ''enrolled''")
    case False
    with assms a have "db' = audit_applicant (save_applicant (move_to ''enrolled'' notes a) db) (move_to ''enrolled'' notes a) actor
        ''applicant.transition'' [(''from_status'', JStr (ap_status a)), (''to_status'', JStr ''enrolled''),
          (''reason'', JStr (or_empty notes)), (''source'', JStr source)]"
      by (auto simp: transition_applicant_def Let_def split: if_splits)
    then show ?thesis by (simp add: audit_applicant_def write_audit_event_def save_applicant_def)
  next
    case True
    with assms a show ?thesis by (simp add: transition_applicant_def split: if_splits)
  qed
  then show "people db' = people db" "enrollments db' = enrollments db" by simp_all
qed

lemma placed_person_found:
  assumes "placed_person db a = (db', p)"
  shows "p \<in> set (people db')" "pe_email p = ap_email a" "pe_tenant p = ap_tenant a" "enrollments db' = enrollments db"
  using assms by (auto simp: placed_person_def add_person_def new_person_def Let_def split: option.splits dest: find_Some_in)

lemma place_enrollment_found:
  "\<exists>e \<in> set (enrollments (place_enrollment db a c p)).
     en_tenant e = ap_tenant a \<and> en_cohort e = c \<and> en_person e = p \<and> en_track e = ap_track a
     \<and> (case find (\<lambda>e. en_tenant e = ap_tenant a \<and> en_cohort e = c \<and> en_person e = p) (enrollments db) of
          None \<Rightarrow> en_role e = ''student'' \<and> en_status e = ''active'' \<and> en_access_ends_at e = None
        | Some e0 \<Rightarrow> e = e0\<lparr>en_track := ap_track a\<rparr>)"
proof (cases "find (\<lambda>e. en_tenant e = ap_tenant a \<and> en_cohort e = c \<and> en_person e = p) (enrollments db)")
  case (Some e)
  then have e: "e \<in> set (enrollments db)" "en_tenant e = ap_tenant a \<and> en_cohort e = c \<and> en_person e = p"
    by (blast dest: find_Some_in)+
  show ?thesis
  proof (cases "en_track e = ap_track a")
    case True
    with e Some show ?thesis by (intro bexI [of _ e]) (simp_all add: place_enrollment_def)
  next
    case False
    with e Some show ?thesis
      by (intro bexI [of _ "e\<lparr>en_track := ap_track a\<rparr>"]) (auto simp: place_enrollment_def set_update_rows)
  qed
qed (simp add: place_enrollment_def)

text \<open>C14. Enrolment is earned: when the enrolment command succeeds, called by an admin's page or by
  the onboarding portal, the applicant was in \<open>onboarding\<close> with a checklist whose every task is done
  and with that cohort and an active track assigned, and comes out \<open>enrolled\<close>, linked to a person with
  its email who has a row in the cohort on that track. A person new to the cohort gets an active
  student row without an end of access; a row that was there already keeps its role, its status and
  its end of access, so that an enrolment dropped earlier is not reactivated. The command says
  nothing about the pipeline's own transition endpoint, which can set \<open>enrolled\<close> without it.
\<close>
theorem enrolment_is_earned:
  assumes "enroll_applicant db now i cohort actor = Inr (db', a')"
  shows "\<exists>a. get_applicant db i = Inr a \<and> ap_status a = ''onboarding'' \<and> ap_status a' = ''enrolled''
     \<and> tasks_of db (ap_tenant a) i \<noteq> [] \<and> (\<forall>t \<in> set (tasks_of db (ap_tenant a) i). ot_status t = ''done'')
     \<and> ap_cohort a = Some cohort \<and> has_active_intake db a
     \<and> (\<exists>p \<in> set (people db'). ap_person a' = Some (pe_id p) \<and> pe_email p = ap_email a \<and> pe_tenant p = ap_tenant a
         \<and> (\<exists>e \<in> set (enrollments db'). en_tenant e = ap_tenant a \<and> en_cohort e = cohort \<and> en_person e = pe_id p
              \<and> en_track e = ap_track a
              \<and> (case find (\<lambda>e. en_tenant e = ap_tenant a \<and> en_cohort e = cohort \<and> en_person e = pe_id p) (enrollments db) of
                   None \<Rightarrow> en_role e = ''student'' \<and> en_status e = ''active'' \<and> en_access_ends_at e = None
                 | Some e0 \<Rightarrow> e = e0\<lparr>en_track := ap_track a\<rparr>)))"
  using assms
proof (cases rule: enroll_cases)
  case (1 a db1 p)
  let ?b = "a\<lparr>ap_person := Some (pe_id p)\<rparr>"
  let ?db2 = "save_applicant ?b (place_enrollment db1 a cohort (pe_id p))"
  have i: "ap_id a = i" "a \<in> set (applicants db)" using 1(1) by (auto simp: get_applicant_def split: option.splits dest: find_applicant_in)
  have "tasks_of db (ap_tenant a) i \<noteq> [] \<and> (\<forall>t \<in> set (tasks_of db (ap_tenant a) i). ot_status t = ''done'')"
    using 1(3) i by (auto simp: is_complete_def list_tasks_def Let_def list_all_iff)
  moreover have "people ?db2 = people db1" "enrollments ?db2 = enrollments (place_enrollment db1 a cohort (pe_id p))"
    by (auto simp: save_applicant_def place_enrollment_def split: option.splits)
  moreover have "ap_person a' = Some (pe_id p)"
  proof -
    have "find_applicant (place_enrollment db1 a cohort (pe_id p)) i = Some a"
      using 1(1) placed_person_applicants [OF 1(6)] by (simp add: find_applicant_def get_applicant_def split: option.splits)
    then have g: "get_applicant ?db2 i = Inr ?b" using i by (simp add: get_applicant_def find_saved)
    from 1(7) show ?thesis
    proof (cases rule: transition_cases)
      case (1 c)
      with g show ?thesis by auto
    next
      case (2 c)
      with g show ?thesis by (auto simp: move_to_def)
    qed
  qed
  ultimately show ?thesis
    using 1 i enrolled_tables [OF 1(7)] transition_status(1) [OF 1(7)] placed_person_found [OF 1(6)]
      place_enrollment_found [of db1 a cohort "pe_id p"] by auto
qed

section \<open>A small intake\<close>

definition sample_xe :: exam_env where
  "sample_xe = \<lparr>xe_hash = (\<lambda>s. ''h'' @ s), xe_hex = (\<lambda>s. s), xe_fullmatch = (\<lambda>p s. Some (p = s)), xe_render = (\<lambda>j. ''''),
     xe_quote = (\<lambda>s. s), xe_iso = (\<lambda>t. show_int t)\<rparr>"

definition sat_sitting :: sitting where
  "sat_sitting = fresh_sitting\<lparr>si_score := Some (3 / 4), si_valid := Some True, si_taken_at := Some 90, si_started_at := Some 10\<rparr>"

definition sample_applicant :: "string \<Rightarrow> sitting \<Rightarrow> applicant_row" where
  "sample_applicant status s =
     \<lparr>ap_id = 30, ap_tenant = 1, ap_email = ''a@x'', ap_first_name = ''A'', ap_last_name = ''B'', ap_phone = None,
      ap_program = None, ap_status = status, ap_source = ''website'', ap_external_ref = None, ap_applied_on = 5,
      ap_notes = None, ap_person = None, ap_cohort = Some 10, ap_track = Some 20, ap_sitting = s,
      ap_invite_sent_at = None, ap_onboarding_token_hash = None, ap_profile = [], ap_created_at = 5\<rparr>"

definition sample_task :: "string \<Rightarrow> task_row" where
  "sample_task status =
     \<lparr>ot_id = 40, ot_tenant = 1, ot_applicant = 30, ot_key = ''orientation'', ot_label = ''Review'', ot_order_index = 0,
      ot_status = status, ot_completed_at = None, ot_created_at = 6\<rparr>"

definition intake_db :: "applicant_row \<Rightarrow> task_row list \<Rightarrow> academy_db" where
  "intake_db a ts =
     empty_db\<lparr>cohorts := [\<lparr>ch_id = 10, ch_tenant = 1, ch_name = ''C'', ch_status = ''active'', ch_entrance_bank = None,
                          ch_entrance_time_limit = None, ch_auto_accept_threshold = Some (1 / 2)\<rparr>],
              tracks := [\<lparr>tr_id = 20, tr_tenant = 1, tr_slug = ''t'', tr_name = ''T'', tr_status = ''active'', tr_created_at = 1\<rparr>],
              cohort_tracks := [\<lparr>ct_tenant = 1, ct_cohort = 10, ct_track = 20, ct_status = ''active''\<rparr>],
              applicants := [a], onboarding_tasks := ts, next_id := 100\<rparr>"

lemmas intake_simps = intake_db_def empty_db_def sample_applicant_def sample_task_def sat_sitting_def fresh_sitting_def
  sample_xe_def get_applicant_def find_applicant_def has_active_intake_def active_intake_track_def get_cohort_def
  allowed_from_def ALLOWED_TRANSITIONS_def APPLICANT_STATUSES_def

lemma intake_wf: "applicants_wf (intake_db (sample_applicant st s) ts)"
  by (simp add: applicants_wf_def intake_simps)

lemma intake_present: "sample_applicant st s \<in> set (applicants (intake_db (sample_applicant st s) ts))"
  by (simp add: intake_simps)

lemma screening_step:
  "\<exists>db' a'. admission_step sample_xe (intake_db (sample_applicant ''applied'' sat_sitting) []) db'
     \<and> find_applicant db' 30 = Some a' \<and> ap_status a' = ''screened'' \<and> ap_sitting a' = sat_sitting"
proof -
  let ?a = "sample_applicant ''applied'' sat_sitting"
  let ?db = "intake_db ?a []"
  let ?r = "api_transition sample_xe ?db 200 ''tok'' 30 ''screened'' None 7"
  have "\<not> isl ?r \<and> find_applicant (fst (projr ?r)) 30 \<noteq> None \<and> ap_status (the (find_applicant (fst (projr ?r)) 30)) = ''screened''
      \<and> ap_sitting (the (find_applicant (fst (projr ?r)) 30)) = sat_sitting" by code_simp
  then obtain db' a where r: "?r = Inr (db', a)" and f: "find_applicant db' 30 \<noteq> None"
    "ap_status (the (find_applicant db' 30)) = ''screened''" "ap_sitting (the (find_applicant db' 30)) = sat_sitting"
    by (cases ?r) auto
  have "admission_step sample_xe ?db db'" by (rule step_transition [OF r])
  with f show ?thesis by auto
qed

theorem admissions_follow_the_pipeline_witness:
  "\<exists>db' a'. find_applicant db' 30 = Some a' \<and> ap_status a' = ''screened'' \<and> (''applied'', ap_status a') \<in> status_moves\<^sup>*"
proof -
  obtain db' a' where s: "admission_step sample_xe (intake_db (sample_applicant ''applied'' sat_sitting) []) db'"
    and f: "find_applicant db' 30 = Some a'" "ap_status a' = ''screened''" using screening_step by blast
  from admissions_follow_the_pipeline [OF r_into_rtranclp [of "admission_step sample_xe", OF s] intake_wf intake_present] f
  have "(''applied'', ap_status a') \<in> status_moves\<^sup>*" by (auto simp: sample_applicant_def)
  with f show ?thesis by blast
qed

theorem graded_result_is_final_witness:
  "\<exists>db' a'. find_applicant db' 30 = Some a' \<and> result_of (ap_sitting a') = result_of sat_sitting"
proof -
  obtain db' a' where s: "admission_step sample_xe (intake_db (sample_applicant ''applied'' sat_sitting) []) db'"
    and f: "find_applicant db' 30 = Some a'" "ap_sitting a' = sat_sitting" using screening_step by blast
  from graded_result_is_final [OF r_into_rtranclp [of "admission_step sample_xe", OF s] intake_wf intake_present, of a'] f
  have "result_of (ap_sitting a') = result_of sat_sitting" by (auto simp: sample_applicant_def sat_sitting_def)
  with f show ?thesis by blast
qed

theorem auto_decision_is_sound_witness:
  "\<exists>db' a' offer. apply_assessment_policy sample_xe (intake_db (sample_applicant ''applied'' sat_sitting) []) 200 ''tok''
       (sample_applicant ''applied'' sat_sitting) = Inr (db', a', offer) \<and> ap_status a' = ''onboarding'' \<and> offer = Some ''tok''"
proof -
  let ?a = "sample_applicant ''applied'' sat_sitting"
  have "case (si_score (ap_sitting ?a), map_option ch_auto_accept_threshold (get_cohort (intake_db ?a []) (ap_cohort ?a))) of
      (Some score, Some (Some threshold)) \<Rightarrow> \<not> score < threshold | _ \<Rightarrow> False" by code_simp
  moreover have "has_active_intake (intake_db ?a []) ?a" "ap_status ?a = ''applied''" "si_valid (ap_sitting ?a) = Some True" by code_simp+
  ultimately show ?thesis using auto_decision_is_sound [where db = "intake_db ?a []" and a = ?a and xe = sample_xe and now = 200 and raw = "''tok''",
      OF intake_wf intake_present]
    by (auto split: option.splits)
qed

theorem enrolment_is_earned_witness:
  "\<exists>db' a'. enroll_applicant (intake_db (sample_applicant ''onboarding'' sat_sitting) [sample_task ''done'']) 200 30 10 None
       = Inr (db', a') \<and> ap_status a' = ''enrolled''"
proof -
  let ?r = "enroll_applicant (intake_db (sample_applicant ''onboarding'' sat_sitting) [sample_task ''done'']) 200 30 10 None"
  have "\<not> isl ?r" by code_simp
  then obtain db' a' where r: "?r = Inr (db', a')" by (cases ?r) auto
  from enrolment_is_earned [OF r] r show ?thesis by blast
qed

text \<open>
  The admin's transition endpoint does not pass through the enrolment: from \<open>onboarding\<close> it
  reaches \<open>enrolled\<close> with an open checklist, no person and no enrolment.
\<close>

lemma transition_bypasses_the_checklist:
  "\<exists>db' a'. api_transition sample_xe (intake_db (sample_applicant ''onboarding'' sat_sitting) [sample_task ''pending'']) 200 ''tok''
        30 ''enrolled'' None 7 = Inr (db', a')
     \<and> ap_status a' = ''enrolled'' \<and> ap_person a' = None \<and> enrollments db' = [] \<and> \<not> is_complete db' 1 30"
proof -
  let ?r = "api_transition sample_xe (intake_db (sample_applicant ''onboarding'' sat_sitting) [sample_task ''pending'']) 200 ''tok''
        30 ''enrolled'' None 7"
  have "\<not> isl ?r \<and> ap_status (snd (projr ?r)) = ''enrolled'' \<and> ap_person (snd (projr ?r)) = None
      \<and> enrollments (fst (projr ?r)) = [] \<and> \<not> is_complete (fst (projr ?r)) 1 30" by code_simp
  then show ?thesis by (cases ?r) auto
qed

end
