(* ===== verification/Email_Delivery.thy ===== *)
theory Email_Delivery
  imports Admissions_Web
begin

text \<open>
  The delivery side of \<open>services/email_outbox.py\<close>: the worker's loop over the due rows with its
  retry schedule, the requeueing of failures, the attachments a row needs and the delivery
  date it projects onto an applicant. \<open>transport\<close> is \<open>send_email_detailed\<close> on a prepared
  message (whether it was handed over, and the error class if not); \<open>digest_error\<close> tells why
  the reports of a weekly digest could not be rendered. One worker runs; a row that another worker
  holds would be skipped.
\<close>

section \<open>UUID(text)\<close>

definition hex_value :: "char \<Rightarrow> nat option" where
  "hex_value c =
     (let n = of_char c :: nat
      in if 48 \<le> n \<and> n \<le> 57 then Some (n - 48)
         else if 97 \<le> n \<and> n \<le> 102 then Some (n - 87)
         else if 65 \<le> n \<and> n \<le> 70 then Some (n - 55) else None)"

fun hex_number :: "nat \<Rightarrow> string \<Rightarrow> nat option" where
  "hex_number acc [] = Some acc"
| "hex_number acc (c # cs) = (case hex_value c of None \<Rightarrow> None | Some d \<Rightarrow> hex_number (16 * acc + d) cs)"

definition uuid_of :: "json \<Rightarrow> uuid option" where
  "uuid_of j =
     (case j of
        JStr s \<Rightarrow> (let h = filter (\<lambda>c. c \<noteq> CHR ''-'') s in if length h = 32 then hex_number 0 h else None)
      | _ \<Rightarrow> None)"

definition payload_uuid :: "json \<Rightarrow> string \<Rightarrow> uuid option" where
  "payload_uuid p k =
     (case p of JObj kvs \<Rightarrow> (case obj_get kvs k of None \<Rightarrow> None | Some v \<Rightarrow> uuid_of v) | _ \<Rightarrow> None)"

section \<open>Delivery\<close>

definition MAX_ATTEMPTS :: nat where "MAX_ATTEMPTS = 8"

definition attachments_error :: "(academy_db \<Rightarrow> outbox_row \<Rightarrow> uuid \<Rightarrow> string option) \<Rightarrow> academy_db \<Rightarrow> outbox_row \<Rightarrow> string option" where
  "attachments_error digest_error db r =
     (if ob_kind r = ''weekly_digest''
      then (case payload_uuid (ob_payload r) ''cohort_id'' of None \<Rightarrow> None | Some c \<Rightarrow> digest_error db r c)
      else if ob_kind r \<noteq> ''certificate'' then None
      else case (payload_uuid (ob_payload r) ''person_id'', payload_uuid (ob_payload r) ''course_id'') of
             (Some p, Some c) \<Rightarrow>
               if person_exists db (ob_tenant r) p
                  \<and> list_ex (\<lambda>co. co_tenant co = ob_tenant r \<and> co_id co = c) (courses db)
                  \<and> list_ex (\<lambda>ce. ce_tenant ce = ob_tenant r \<and> ce_person ce = p \<and> ce_course ce = c) (certificates db)
               then None else Some ''ValueError''
           | _ \<Rightarrow> Some ''ValueError'')"

definition due_row :: "instant \<Rightarrow> outbox_row \<Rightarrow> bool" where
  "due_row now r = (ob_status r = ''pending'' \<and> ob_available_at r \<le> now)"

definition next_due :: "instant \<Rightarrow> academy_db \<Rightarrow> outbox_row option" where
  "next_due now db =
     (case sort_key (\<lambda>r. (ob_available_at r, ob_created_at r)) (filter (due_row now) (email_outbox db)) of
        [] \<Rightarrow> None | r # _ \<Rightarrow> Some r)"

definition apply_delivery_projection :: "academy_db \<Rightarrow> outbox_row \<Rightarrow> instant \<Rightarrow> academy_db" where
  "apply_delivery_projection db r sent_at =
     (if ob_kind r \<noteq> ''entrance_invite'' then db
      else case payload_uuid (ob_payload r) ''applicant_id'' of
             None \<Rightarrow> db
           | Some i \<Rightarrow>
               db\<lparr>applicants := update_rows (\<lambda>a. ap_tenant a = ob_tenant r \<and> ap_id a = i)
                                 (\<lambda>a. a\<lparr>ap_invite_sent_at := Some sent_at\<rparr>) (applicants db)\<rparr>)"

record delivery_counts =
  dc_sent :: nat
  dc_retried :: nat
  dc_failed :: nat

definition error_text :: "string \<Rightarrow> string" where
  "error_text e = (if take 120 e = '''' then ''delivery_failed'' else take 120 e)"

definition delay_minutes :: "nat \<Rightarrow> int" where
  "delay_minutes attempts = min (24 * 60) (2 ^ min attempts 10)"

text \<open>The row after one attempt with its outcome.\<close>

definition settle_row :: "instant \<Rightarrow> bool \<times> string \<Rightarrow> outbox_row \<Rightarrow> outbox_row" where
  "settle_row now outcome r =
     (let r1 = r\<lparr>ob_attempts := Suc (ob_attempts r)\<rparr>
      in if fst outcome then r1\<lparr>ob_status := ''sent'', ob_sent_at := Some now, ob_last_error := None\<rparr>
         else if ob_attempts r1 \<ge> MAX_ATTEMPTS
         then r1\<lparr>ob_status := ''failed'', ob_last_error := Some (error_text (snd outcome))\<rparr>
         else r1\<lparr>ob_available_at := now + 60 * delay_minutes (ob_attempts r1),
                 ob_last_error := Some (error_text (snd outcome))\<rparr>)"

definition count_outcome :: "outbox_row \<Rightarrow> delivery_counts \<Rightarrow> delivery_counts" where
  "count_outcome r c =
     (if ob_status r = ''sent'' then c\<lparr>dc_sent := Suc (dc_sent c)\<rparr>
      else if ob_status r = ''failed'' then c\<lparr>dc_failed := Suc (dc_failed c)\<rparr>
      else c\<lparr>dc_retried := Suc (dc_retried c)\<rparr>)"

record mail_world =
  mw_transport :: "outbox_row \<Rightarrow> bool \<times> string"
  mw_digest_error :: "academy_db \<Rightarrow> outbox_row \<Rightarrow> uuid \<Rightarrow> string option"

definition attempt :: "mail_world \<Rightarrow> academy_db \<Rightarrow> outbox_row \<Rightarrow> bool \<times> string" where
  "attempt w db r =
     (case attachments_error (mw_digest_error w) db r of None \<Rightarrow> mw_transport w r | Some e \<Rightarrow> (False, e))"

definition deliver_row :: "mail_world \<Rightarrow> instant \<Rightarrow> outbox_row \<Rightarrow> academy_db \<Rightarrow> academy_db \<times> outbox_row" where
  "deliver_row w now r db =
     (let r1 = settle_row now (attempt w db r) r;
          db1 = db\<lparr>email_outbox := update_rows (\<lambda>x. ob_id x = ob_id r) (\<lambda>_. r1) (email_outbox db)\<rparr>
      in (if ob_status r1 = ''sent'' then apply_delivery_projection db1 r1 now else db1, r1))"

fun deliver_loop :: "mail_world \<Rightarrow> instant \<Rightarrow> nat \<Rightarrow> academy_db \<Rightarrow> delivery_counts \<Rightarrow> academy_db \<times> delivery_counts" where
  "deliver_loop w now 0 db c = (db, c)"
| "deliver_loop w now (Suc n) db c =
     (case next_due now db of
        None \<Rightarrow> (db, c)
      | Some r \<Rightarrow> (case deliver_row w now r db of (db1, r1) \<Rightarrow> deliver_loop w now n db1 (count_outcome r1 c)))"

definition deliver_pending :: "mail_world \<Rightarrow> instant \<Rightarrow> nat \<Rightarrow> academy_db \<Rightarrow> academy_db \<times> delivery_counts" where
  "deliver_pending w now limit db = deliver_loop w now limit db \<lparr>dc_sent = 0, dc_retried = 0, dc_failed = 0\<rparr>"

definition requeue_failed :: "instant \<Rightarrow> uuid option \<Rightarrow> academy_db \<Rightarrow> academy_db \<times> nat" where
  "requeue_failed now tenant db =
     (let hit = (\<lambda>r. ob_status r = ''failed'' \<and> (tenant = None \<or> tenant = Some (ob_tenant r)))
      in (db\<lparr>email_outbox := update_rows hit
                (\<lambda>r. r\<lparr>ob_status := ''pending'', ob_attempts := 0, ob_available_at := now, ob_last_error := None\<rparr>)
                (email_outbox db)\<rparr>,
          count_rows hit (email_outbox db)))"

definition email_outbox_command ::
    "mail_world \<Rightarrow> instant \<Rightarrow> nat \<Rightarrow> bool \<Rightarrow> academy_db \<Rightarrow> academy_db \<times> delivery_counts \<times> nat" where
  "email_outbox_command w now limit requeue db =
     (case (if requeue then requeue_failed now None db else (db, 0)) of (db1, requeued) \<Rightarrow>
        case deliver_pending w now limit db1 of (db2, counts) \<Rightarrow> (db2, counts, requeued))"

end
