(* ===== verification/Email_Properties.thy ===== *)
theory Email_Properties
  imports Email_Delivery
begin

text \<open>
  The outbox over runs of its writers (queueing a message, the delivery command): what a row's
  status says, that a sent row is never touched again, and that one turn of the worker with
  room enough attempts every due row exactly once.
\<close>

section \<open>One row\<close>

definition row_sound :: "outbox_row \<Rightarrow> bool" where
  "row_sound r =
     (if ob_status r = ''sent'' then 1 \<le> ob_attempts r \<and> ob_attempts r \<le> MAX_ATTEMPTS \<and> ob_sent_at r \<noteq> None
      else if ob_status r = ''failed'' then ob_attempts r = MAX_ATTEMPTS \<and> ob_sent_at r = None \<and> ob_last_error r \<noteq> None
      else ob_status r = ''pending'' \<and> ob_attempts r < MAX_ATTEMPTS \<and> ob_sent_at r = None)"

lemma delay_positive: "0 < delay_minutes n"
  by (simp add: delay_minutes_def)

lemma settle_row_sound:
  assumes "row_sound r" "ob_status r = ''pending''"
  shows "row_sound (settle_row now out r)"
  using assms by (auto simp: row_sound_def settle_row_def Let_def MAX_ATTEMPTS_def)

lemma settle_row_simps [simp]: "ob_id (settle_row now out r) = ob_id r"
  by (simp add: settle_row_def Let_def)

lemma settled_not_due: "\<not> due_row now (settle_row now out r)"
  using delay_positive [of "Suc (ob_attempts r)"] by (auto simp: due_row_def settle_row_def Let_def)

lemma count_outcome_total:
  "dc_sent (count_outcome r c) + dc_retried (count_outcome r c) + dc_failed (count_outcome r c)
   = Suc (dc_sent c + dc_retried c + dc_failed c)"
  by (simp add: count_outcome_def)

section \<open>The table\<close>

definition outbox_sound :: "academy_db \<Rightarrow> bool" where
  "outbox_sound db \<longleftrightarrow>
     distinct (map ob_id (email_outbox db)) \<and> (\<forall>r \<in> set (email_outbox db). ob_id r < next_id db \<and> row_sound r)"

definition sent_kept :: "academy_db \<Rightarrow> academy_db \<Rightarrow> bool" where
  "sent_kept db db' \<longleftrightarrow> (\<forall>r \<in> set (email_outbox db). ob_status r = ''sent'' \<longrightarrow> r \<in> set (email_outbox db'))"

lemma sent_kept_trans: "sent_kept a b \<Longrightarrow> sent_kept b c \<Longrightarrow> sent_kept a c"
  by (auto simp: sent_kept_def)

lemma ids_unique:
  assumes "distinct (map ob_id rows)" "r \<in> set rows" "s \<in> set rows" "ob_id s = ob_id r"
  shows "s = r"
  using assms by (simp add: distinct_map inj_on_def)

lemma next_due_Some:
  assumes "next_due now db = Some r"
  shows "r \<in> set (email_outbox db)" "due_row now r"
proof -
  let ?s = "sort_key (\<lambda>r. (ob_available_at r, ob_created_at r)) (filter (due_row now) (email_outbox db))"
  from assms have "r \<in> set ?s" by (cases ?s) (auto simp: next_due_def)
  then show "r \<in> set (email_outbox db)" "due_row now r" by simp_all
qed

lemma next_due_None: "next_due now db = None \<Longrightarrow> count_rows (due_row now) (email_outbox db) = 0"
proof -
  assume n: "next_due now db = None"
  let ?s = "sort_key (\<lambda>r. (ob_available_at r, ob_created_at r)) (filter (due_row now) (email_outbox db))"
  from n have "?s = []" by (cases ?s) (auto simp: next_due_def)
  then have "length ?s = 0" by simp
  then show ?thesis by (simp add: count_rows_def)
qed

lemma count_after_settling:
  assumes "distinct (map ob_id rows)" "r \<in> set rows" "p r" "\<not> p r1" "ob_id r1 = ob_id r"
  shows "Suc (count_rows p (update_rows (\<lambda>x. ob_id x = ob_id r) (\<lambda>_. r1) rows)) = count_rows p rows"
  using assms
proof (induction rows)
  case (Cons x xs)
  show ?case
  proof (cases "x = r")
    case True
    with Cons.prems(1) have "ob_id r \<notin> ob_id ` set xs" by simp
    then have "ob_id y \<noteq> ob_id r" if "y \<in> set xs" for y using that by (metis image_eqI)
    then have "update_rows (\<lambda>x. ob_id x = ob_id r) (\<lambda>_. r1) xs = xs" by (rule update_rows_none)
    with True Cons.prems show ?thesis by simp
  next
    case False
    with Cons.prems(1,2) have "r \<in> set xs" "ob_id x \<noteq> ob_id r" by (auto simp: rev_image_eqI)
    with Cons show ?thesis by auto
  qed
qed simp

lemma deliver_row_outbox [simp]:
  "email_outbox (fst (deliver_row w now r db)) =
     update_rows (\<lambda>x. ob_id x = ob_id r) (\<lambda>_. snd (deliver_row w now r db)) (email_outbox db)"
  "next_id (fst (deliver_row w now r db)) = next_id db"
  "snd (deliver_row w now r db) = settle_row now (attempt w db r) r"
  by (simp_all add: deliver_row_def Let_def apply_delivery_projection_def split: option.split)

lemma deliver_row_sound:
  assumes "outbox_sound db" "r \<in> set (email_outbox db)" "due_row now r"
  shows "outbox_sound (fst (deliver_row w now r db))" "sent_kept db (fst (deliver_row w now r db))"
    "Suc (count_rows (due_row now) (email_outbox (fst (deliver_row w now r db)))) = count_rows (due_row now) (email_outbox db)"
proof -
  let ?r1 = "settle_row now (attempt w db r) r"
  have p: "ob_status r = ''pending''" using assms(3) by (simp add: due_row_def)
  have d: "distinct (map ob_id (email_outbox db))" using assms(1) by (simp add: outbox_sound_def)
  have ids: "map ob_id (update_rows (\<lambda>x. ob_id x = ob_id r) (\<lambda>_. ?r1) rows) = map ob_id rows" for rows
    by (induction rows) simp_all
  have "row_sound ?r1" using assms p by (auto simp: outbox_sound_def intro: settle_row_sound)
  with assms d show "outbox_sound (fst (deliver_row w now r db))"
    by (auto simp: outbox_sound_def ids ball_update_rows)
  show "sent_kept db (fst (deliver_row w now r db))" unfolding sent_kept_def
  proof (intro ballI impI)
    fix s assume s: "s \<in> set (email_outbox db)" "ob_status s = ''sent''"
    with p have "s \<noteq> r" by auto
    with ids_unique [OF d assms(2)] s have "ob_id s \<noteq> ob_id r" by blast
    with s show "s \<in> set (email_outbox (fst (deliver_row w now r db)))" by (force simp: set_update_rows)
  qed
  show "Suc (count_rows (due_row now) (email_outbox (fst (deliver_row w now r db)))) = count_rows (due_row now) (email_outbox db)"
    using count_after_settling [OF d assms(2), of "due_row now" ?r1] assms(3) settled_not_due by simp
qed

lemma deliver_loop_sound:
  assumes "outbox_sound db" "deliver_loop w now n db c = (db', c')"
  shows "outbox_sound db'" "sent_kept db db'"
    "count_rows (due_row now) (email_outbox db') = count_rows (due_row now) (email_outbox db) - n"
    "dc_sent c' + dc_retried c' + dc_failed c'
     = dc_sent c + dc_retried c + dc_failed c + min n (count_rows (due_row now) (email_outbox db))"
proof -
  have "outbox_sound db' \<and> sent_kept db db'
      \<and> count_rows (due_row now) (email_outbox db') = count_rows (due_row now) (email_outbox db) - n
      \<and> dc_sent c' + dc_retried c' + dc_failed c'
        = dc_sent c + dc_retried c + dc_failed c + min n (count_rows (due_row now) (email_outbox db))"
    using assms
  proof (induction n arbitrary: db c)
    case 0
    then show ?case by (simp add: sent_kept_def)
  next
    case (Suc n)
    show ?case
    proof (cases "next_due now db")
      case None
      with Suc.prems next_due_None [OF None] show ?thesis by (simp add: sent_kept_def)
    next
      case (Some r)
      note s = deliver_row_sound [OF Suc.prems(1) next_due_Some [OF Some], of w]
      from Suc.prems(2) Some have l: "deliver_loop w now n (fst (deliver_row w now r db)) (count_outcome (snd (deliver_row w now r db)) c) = (db', c')"
        by (simp add: case_prod_unfold)
      from Suc.IH [OF s(1) l] s(2,3) count_outcome_total [of "snd (deliver_row w now r db)" c] show ?thesis
        by (auto intro: sent_kept_trans)
    qed
  qed
  then show "outbox_sound db'" "sent_kept db db'"
    "count_rows (due_row now) (email_outbox db') = count_rows (due_row now) (email_outbox db) - n"
    "dc_sent c' + dc_retried c' + dc_failed c'
     = dc_sent c + dc_retried c + dc_failed c + min n (count_rows (due_row now) (email_outbox db))" by blast+
qed

lemma requeue_sound:
  assumes "outbox_sound db" "requeue_failed now t db = (db', n)"
  shows "outbox_sound db'" "sent_kept db db'"
proof -
  let ?hit = "\<lambda>r. ob_status r = ''failed'' \<and> (t = None \<or> t = Some (ob_tenant r))"
  let ?f = "\<lambda>r. r\<lparr>ob_status := ''pending'', ob_attempts := 0, ob_available_at := now, ob_last_error := None\<rparr>"
  from assms(2) have db': "db' = db\<lparr>email_outbox := update_rows ?hit ?f (email_outbox db)\<rparr>" by (simp add: requeue_failed_def Let_def)
  have "map ob_id (update_rows ?hit ?f rows) = map ob_id rows" for rows :: "outbox_row list" by (rule map_update_rows) simp
  with assms(1) show "outbox_sound db'"
    unfolding db' outbox_sound_def by (auto simp: ball_update_rows row_sound_def MAX_ATTEMPTS_def)
  show "sent_kept db db'" unfolding db' sent_kept_def by (force simp: set_update_rows)
qed

lemma enqueue_sound:
  assumes "outbox_sound db" "enqueue_email db now t k kd r p = (db', q)"
  shows "outbox_sound db'" "sent_kept db db'"
proof -
  have new: "next_id db \<notin> ob_id ` set (email_outbox db)" using assms(1) by (auto simp: outbox_sound_def)
  have "outbox_sound db' \<and> sent_kept db db'"
  proof (cases "q")
    case False
    with assms show ?thesis by (auto simp: enqueue_email_def sent_kept_def split: if_splits)
  next
    case True
    with assms(2) obtain x where x: "email_outbox db' = email_outbox db @ [x]" "ob_id x = next_id db" "next_id db' = Suc (next_id db)"
      "ob_status x = ''pending''" "ob_attempts x = 0" "ob_sent_at x = None"
      by (auto simp: enqueue_email_def split: if_splits)
    with assms(1) new show ?thesis
      by (auto simp: outbox_sound_def sent_kept_def less_Suc_eq) (simp add: row_sound_def MAX_ATTEMPTS_def)
  qed
  then show "outbox_sound db'" "sent_kept db db'" by simp_all
qed

section \<open>Runs\<close>

inductive outbox_step :: "academy_db \<Rightarrow> academy_db \<Rightarrow> bool" where
  queue: "enqueue_email db now t k kd r p = (db', q) \<Longrightarrow> outbox_step db db'"
| deliver: "email_outbox_command w now limit requeue db = (db', c, n) \<Longrightarrow> outbox_step db db'"

lemma outbox_step_sound:
  assumes "outbox_step db db'" "outbox_sound db"
  shows "outbox_sound db' \<and> sent_kept db db'"
  using assms(1)
proof cases
  case queue
  with assms(2) show ?thesis by (blast intro: enqueue_sound)
next
  case (deliver w now limit requeue c n)
  obtain db1 m where q: "(if requeue then requeue_failed now None db else (db, 0)) = (db1, m)" by fastforce
  with assms(2) have 1: "outbox_sound db1" "sent_kept db db1"
    by (auto simp: sent_kept_def split: if_splits dest: requeue_sound)
  from deliver q obtain c0 where l: "deliver_loop w now limit db1 c0 = (db', c)"
    by (auto simp: email_outbox_command_def deliver_pending_def split: prod.splits)
  from deliver_loop_sound(1,2) [OF 1(1) l] 1(2) show ?thesis by (blast intro: sent_kept_trans)
qed

text \<open>C7. Over every run of queueing and delivery a row of the outbox is what its status says: a pending row has
  attempts left, a failed one has used all eight, a sent one carries its date and was sent within eight attempts; and a sent
  row is never changed again, so no message is handed to the transport after it was sent.\<close>

theorem outbox_rows_stay_sound:
  assumes "outbox_step\<^sup>*\<^sup>* db db'" "outbox_sound db"
  shows "outbox_sound db' \<and> sent_kept db db'"
  using assms
  by (induction rule: rtranclp_induct) (auto simp: sent_kept_def dest!: outbox_step_sound)

text \<open>C25. One turn of the delivery loop attempts as many due messages as its limit allows, each once: the counters add up to
  the smaller of the limit and the number of due rows, and exactly so many fewer rows are due afterwards; with a limit not
  below that number nothing due is left, whatever the transport answers.\<close>

theorem delivery_attempts_every_due_row:
  assumes "outbox_sound db" "deliver_pending w now limit db = (db', c)"
  shows "dc_sent c + dc_retried c + dc_failed c = min limit (count_rows (due_row now) (email_outbox db))
    \<and> count_rows (due_row now) (email_outbox db') = count_rows (due_row now) (email_outbox db) - limit"
  using deliver_loop_sound [OF assms(1), of w now limit _ db' c] assms(2) unfolding deliver_pending_def by simp

section \<open>A small outbox\<close>

definition sample_mail :: "uuid \<Rightarrow> nat \<Rightarrow> instant \<Rightarrow> outbox_row" where
  "sample_mail i tried due =
     \<lparr>ob_id = i, ob_tenant = 1, ob_key = ''k'' @ show_nat i, ob_kind = ''digest'', ob_recipient = ''a@x'', ob_payload = JObj [],
      ob_status = ''pending'', ob_attempts = tried, ob_available_at = due, ob_created_at = due, ob_sent_at = None,
      ob_last_error = None\<rparr>"

definition mail_db :: academy_db where
  "mail_db = empty_db\<lparr>email_outbox := [sample_mail 1 0 5, sample_mail 2 7 5, sample_mail 3 0 50], next_id := 4\<rparr>"

definition flaky :: mail_world where
  "flaky = \<lparr>mw_transport = (\<lambda>r. if ob_id r = 1 then (True, '''') else (False, ''timeout'')), mw_digest_error = (\<lambda>db r c. None)\<rparr>"

lemma mail_db_sound: "outbox_sound mail_db"
  by (simp add: outbox_sound_def mail_db_def sample_mail_def row_sound_def MAX_ATTEMPTS_def)

theorem outbox_rows_stay_sound_witness:
  "outbox_sound (fst (email_outbox_command flaky 10 5 False mail_db))
   \<and> sent_kept mail_db (fst (email_outbox_command flaky 10 5 False mail_db))"
proof -
  obtain db' c n where r: "email_outbox_command flaky 10 5 False mail_db = (db', c, n)" by (metis prod_cases3)
  from outbox_rows_stay_sound [OF r_into_rtranclp [of outbox_step, OF outbox_step.deliver [OF r]] mail_db_sound] r
  show ?thesis by simp
qed

theorem delivery_attempts_every_due_row_witness:
  "\<exists>db' c. deliver_pending flaky 10 5 mail_db = (db', c) \<and> dc_sent c + dc_retried c + dc_failed c = 2
     \<and> count_rows (due_row 10) (email_outbox db') = 0"
proof -
  obtain db' c where r: "deliver_pending flaky 10 5 mail_db = (db', c)" by fastforce
  have "count_rows (due_row 10) (email_outbox mail_db) = 2" by (simp add: mail_db_def sample_mail_def due_row_def)
  with delivery_attempts_every_due_row [OF mail_db_sound r] r show ?thesis by simp
qed

end
