(* ===== verification/Tracks.thy ===== *)
theory Tracks
  imports Gradebook
begin

text \<open>
  \<open>services/tracks.py\<close>: curriculum tracks as ordered course lists, their use by a cohort, the
  course offerings they open and the track a learner follows.
\<close>

section \<open>Order and slug\<close>

text \<open>The elements in their order of first appearance.\<close>

definition keep_first :: "'a list \<Rightarrow> 'a list" where
  "keep_first xs = rev (remdups (rev xs))"

definition ordered_by_position :: "uuid list \<Rightarrow> (uuid \<times> int) list \<Rightarrow> uuid list" where
  "ordered_by_position course_ids positions =
     sort_key (\<lambda>c. the (map_of positions c)) (filter (\<lambda>c. map_of positions c \<noteq> None) course_ids)
     @ filter (\<lambda>c. map_of positions c = None) course_ids"

definition slug_char :: "char \<Rightarrow> bool" where
  "slug_char c = (let n = of_char c :: nat in 97 \<le> n \<and> n \<le> 122 \<or> 48 \<le> n \<and> n \<le> 57)"

text \<open>Every run of other characters becomes one dash.\<close>

fun dash_runs :: "bool \<Rightarrow> string \<Rightarrow> string" where
  "dash_runs open_run [] = []"
| "dash_runs open_run (c # cs) =
     (if slug_char c then c # dash_runs False cs
      else if open_run then dash_runs True cs else CHR ''-'' # dash_runs True cs)"

definition strip_dashes :: "string \<Rightarrow> string" where
  "strip_dashes s = rev (dropWhile (\<lambda>c. c = CHR ''-'') (rev (dropWhile (\<lambda>c. c = CHR ''-'') s)))"

definition slugify :: "string \<Rightarrow> string" where
  "slugify value = (let slug = strip_dashes (dash_runs False (py_lower (py_strip value))) in if slug = '''' then ''track'' else slug)"

text \<open>\<open>xs[:k]\<close>.\<close>

definition py_prefix :: "int \<Rightarrow> 'a list \<Rightarrow> 'a list" where
  "py_prefix k xs = (if k \<ge> 0 then take (nat k) xs else take (length xs - nat (- k)) xs)"

definition numbered_slug :: "string \<Rightarrow> nat \<Rightarrow> string" where
  "numbered_slug base i = (let suffix = CHR ''-'' # show_nat i in py_prefix (80 - int (length suffix)) base @ suffix)"

definition slug_taken :: "academy_db \<Rightarrow> uuid \<Rightarrow> string \<Rightarrow> bool" where
  "slug_taken db tenant slug = list_ex (\<lambda>t. tr_tenant t = tenant \<and> tr_slug t = slug) (tracks db)"

partial_function (option) next_slug :: "academy_db \<Rightarrow> uuid \<Rightarrow> string \<Rightarrow> string \<Rightarrow> nat \<Rightarrow> string option" where
  "next_slug db tenant base slug i =
     (if slug_taken db tenant slug then next_slug db tenant base (numbered_slug base i) (Suc i) else Some slug)"

definition unique_track_slug :: "academy_db \<Rightarrow> uuid \<Rightarrow> string \<Rightarrow> string option" where
  "unique_track_slug db tenant name = (let base = take 70 (slugify name) in next_slug db tenant base base 2)"

section \<open>Tracks of a cohort\<close>

definition find_track :: "academy_db \<Rightarrow> uuid \<Rightarrow> uuid \<Rightarrow> track_row option" where
  "find_track db tenant track = find (\<lambda>t. tr_tenant t = tenant \<and> tr_id t = track) (tracks db)"

definition cohort_track_open :: "academy_db \<Rightarrow> uuid \<Rightarrow> uuid \<Rightarrow> uuid \<Rightarrow> bool" where
  "cohort_track_open db tenant cohort track =
     (list_ex (\<lambda>ct. ct_tenant ct = tenant \<and> ct_cohort ct = cohort \<and> ct_track ct = track \<and> ct_status ct = ''active'')
        (cohort_tracks db)
      \<and> list_ex (\<lambda>t. tr_tenant t = tenant \<and> tr_id t = track \<and> tr_status t = ''active'') (tracks db))"

definition cohort_track_or_404 :: "academy_db \<Rightarrow> uuid \<Rightarrow> uuid \<Rightarrow> uuid \<Rightarrow> unit result" where
  "cohort_track_or_404 db tenant cohort track =
     ensure (cohort_track_open db tenant cohort track) (NotFoundError ''track not found for cohort'') (Inr ())"

definition courses_of_track :: "academy_db \<Rightarrow> uuid \<Rightarrow> uuid \<Rightarrow> track_course_row list" where
  "courses_of_track db tenant track = filter (\<lambda>r. tc_tenant r = tenant \<and> tc_track r = track) (track_courses db)"

definition open_offering :: "uuid \<Rightarrow> uuid \<Rightarrow> uuid \<Rightarrow> academy_db \<Rightarrow> academy_db" where
  "open_offering tenant cohort course db =
     (case find (\<lambda>r. of_tenant r = tenant \<and> of_cohort r = cohort \<and> of_course r = course) (offerings db) of
        None \<Rightarrow>
          db\<lparr>offerings := offerings db @
               [\<lparr>of_id = next_id db, of_tenant = tenant, of_cohort = cohort, of_course = course, of_status = ''active'',
                 of_starts_at = None, of_ends_at = None\<rparr>],
             next_id := Suc (next_id db)\<rparr>
      | Some r \<Rightarrow> db\<lparr>offerings := update_rows (\<lambda>x. of_id x = of_id r) (\<lambda>x. x\<lparr>of_status := ''active''\<rparr>) (offerings db)\<rparr>)"

definition ensure_track_offerings :: "academy_db \<Rightarrow> uuid \<Rightarrow> uuid \<Rightarrow> uuid \<Rightarrow> academy_db result" where
  "ensure_track_offerings db tenant cohort track =
     and_then (cohort_track_or_404 db tenant cohort track) (\<lambda>_.
       Inr (fold (open_offering tenant cohort) (map tc_course (courses_of_track db tenant track)) db))"

definition add_track_course :: "uuid \<Rightarrow> uuid \<Rightarrow> nat \<times> uuid \<Rightarrow> academy_db \<Rightarrow> academy_db" where
  "add_track_course tenant track = (\<lambda>(idx, course) db.
     db\<lparr>track_courses := track_courses db @
          [\<lparr>tc_id = next_id db, tc_tenant = tenant, tc_track = track, tc_course = course, tc_order_index = int idx\<rparr>],
        next_id := Suc (next_id db)\<rparr>)"

definition all_courses_found :: "academy_db \<Rightarrow> uuid \<Rightarrow> uuid list \<Rightarrow> bool" where
  "all_courses_found db tenant course_ids =
     list_all (\<lambda>c. list_ex (\<lambda>r. co_tenant r = tenant \<and> co_id r = c) (courses db)) course_ids"

text \<open>A new track used by one cohort; \<open>None\<close> for a slug search that does not end.\<close>

definition add_track :: "academy_db \<Rightarrow> instant \<Rightarrow> uuid \<Rightarrow> uuid \<Rightarrow> string \<Rightarrow> (academy_db \<times> track_row) option" where
  "add_track db now tenant cohort name =
     (case unique_track_slug db tenant name of
        None \<Rightarrow> None
      | Some slug \<Rightarrow>
          let t = \<lparr>tr_id = next_id db, tr_tenant = tenant, tr_slug = slug, tr_name = name, tr_status = ''active'',
                   tr_created_at = now\<rparr>
          in Some (db\<lparr>tracks := tracks db @ [t],
                      cohort_tracks := cohort_tracks db @
                        [\<lparr>ct_tenant = tenant, ct_cohort = cohort, ct_track = tr_id t, ct_status = ''active''\<rparr>],
                      next_id := Suc (next_id db)\<rparr>, t))"

definition create_cohort_track ::
    "academy_db \<Rightarrow> instant \<Rightarrow> uuid \<Rightarrow> uuid \<Rightarrow> string \<Rightarrow> uuid list \<Rightarrow> (uuid \<times> int) list \<Rightarrow>
     (academy_db \<times> track_row) result option" where
  "create_cohort_track db now tenant cohort name course_ids positions =
     (case cohort_or_404 db tenant cohort of
        Inl e \<Rightarrow> Some (Inl e)
      | Inr _ \<Rightarrow>
          if py_strip name = '''' then Some (Inl (BadRequestError ''track name is required''))
          else if course_ids = [] then Some (Inl (BadRequestError ''select at least one course''))
          else if \<not> all_courses_found db tenant (keep_first course_ids)
          then Some (Inl (NotFoundError ''one or more courses were not found''))
          else (case add_track db now tenant cohort (py_strip name) of
                  None \<Rightarrow> None
                | Some (db1, t) \<Rightarrow>
                    let db2 = fold (add_track_course tenant (tr_id t))
                                (enumerate 1 (ordered_by_position (keep_first course_ids) positions)) db1
                    in Some (and_then (ensure_track_offerings db2 tenant cohort (tr_id t)) (\<lambda>db3. Inr (db3, t)))))"

definition last_order :: "academy_db \<Rightarrow> uuid \<Rightarrow> uuid \<Rightarrow> int" where
  "last_order db tenant track =
     (case map tc_order_index (courses_of_track db tenant track) of [] \<Rightarrow> 0 | x # xs \<Rightarrow> fold max xs x)"

definition append_course :: "uuid \<Rightarrow> uuid \<Rightarrow> int \<times> uuid \<Rightarrow> academy_db \<Rightarrow> academy_db" where
  "append_course tenant track = (\<lambda>(order, course) db.
     db\<lparr>track_courses := track_courses db @
          [\<lparr>tc_id = next_id db, tc_tenant = tenant, tc_track = track, tc_course = course, tc_order_index = order\<rparr>],
        next_id := Suc (next_id db)\<rparr>)"

definition add_courses_to_cohort_track ::
    "academy_db \<Rightarrow> uuid \<Rightarrow> uuid \<Rightarrow> uuid \<Rightarrow> uuid list \<Rightarrow> (uuid \<times> int) list \<Rightarrow> (academy_db \<times> track_row) result" where
  "add_courses_to_cohort_track db tenant cohort track course_ids positions =
     and_then (cohort_track_or_404 db tenant cohort track) (\<lambda>_.
       if course_ids = [] then Inl (BadRequestError ''select at least one course'')
       else if \<not> all_courses_found db tenant (keep_first course_ids)
       then Inl (NotFoundError ''one or more courses were not found'')
       else
         let existing = map tc_course (courses_of_track db tenant track);
             new = ordered_by_position (filter (\<lambda>c. c \<notin> set existing) (keep_first course_ids)) positions;
             db1 = fold (append_course tenant track)
                     (zip (map (\<lambda>k. last_order db tenant track + 1 + int k) [0..<length new]) new) db
         in and_then (ensure_track_offerings db1 tenant cohort track) (\<lambda>db2.
              case find_track db2 tenant track of
                None \<Rightarrow> Inl (NotFoundError ''track not found'') | Some t \<Rightarrow> Inr (db2, t)))"

definition reorder_track_courses ::
    "academy_db \<Rightarrow> uuid \<Rightarrow> uuid \<Rightarrow> uuid list \<Rightarrow> (academy_db \<times> track_row) result" where
  "reorder_track_courses db tenant track ordered =
     (case find_track db tenant track of
        None \<Rightarrow> Inl (NotFoundError ''track not found'')
      | Some t \<Rightarrow>
          if \<not> distinct ordered then Inl (BadRequestError ''duplicate course id in reorder request'')
          else if set ordered \<noteq> set (map tc_course (courses_of_track db tenant track))
          then Inl (BadRequestError ''ordered_course_ids must match the track's current course membership exactly'')
          else Inr (db\<lparr>track_courses :=
                         update_rows (\<lambda>r. tc_tenant r = tenant \<and> tc_track r = track)
                           (\<lambda>r. r\<lparr>tc_order_index := the (map_of (zip ordered (map (\<lambda>k. int k + 1) [0..<length ordered])) (tc_course r))\<rparr>)
                           (track_courses db)\<rparr>, t))"

section \<open>The track of a learner\<close>

definition member_of :: "uuid \<Rightarrow> uuid \<Rightarrow> uuid \<Rightarrow> enrollment_row \<Rightarrow> bool" where
  "member_of tenant cohort person e = (en_tenant e = tenant \<and> en_cohort e = cohort \<and> en_person e = person)"

definition find_enrollment :: "academy_db \<Rightarrow> uuid \<Rightarrow> uuid \<Rightarrow> uuid \<Rightarrow> enrollment_row option" where
  "find_enrollment db tenant cohort person = find (member_of tenant cohort person) (enrollments db)"

definition update_enrollment :: "uuid \<Rightarrow> (enrollment_row \<Rightarrow> enrollment_row) \<Rightarrow> academy_db \<Rightarrow> academy_db" where
  "update_enrollment i f db = db\<lparr>enrollments := update_rows (\<lambda>e. en_id e = i) f (enrollments db)\<rparr>"

definition assign_enrollment_track :: "academy_db \<Rightarrow> uuid \<Rightarrow> uuid \<Rightarrow> uuid \<Rightarrow> uuid \<Rightarrow> academy_db result" where
  "assign_enrollment_track db tenant cohort person track =
     and_then (ensure_track_offerings db tenant cohort track) (\<lambda>db1.
       case find_enrollment db1 tenant cohort person of
         None \<Rightarrow> Inl (NotFoundError ''enrollment not found'')
       | Some e \<Rightarrow> Inr (update_enrollment (en_id e) (\<lambda>r. r\<lparr>en_track := Some track\<rparr>) db1))"

definition clear_enrollment_track :: "academy_db \<Rightarrow> uuid \<Rightarrow> uuid \<Rightarrow> uuid \<Rightarrow> academy_db result" where
  "clear_enrollment_track db tenant cohort person =
     (case find_enrollment db tenant cohort person of
        None \<Rightarrow> Inl (NotFoundError ''enrollment not found'')
      | Some e \<Rightarrow> Inr (update_enrollment (en_id e) (\<lambda>r. r\<lparr>en_track := None\<rparr>) db))"

definition default_track_for_cohort :: "academy_db \<Rightarrow> uuid \<Rightarrow> uuid \<Rightarrow> track_row option" where
  "default_track_for_cohort db tenant cohort =
     (case sort_key (\<lambda>t. (tr_created_at t, tr_name t))
             (filter (\<lambda>t. tr_tenant t = tenant \<and> tr_status t = ''active''
                          \<and> list_ex (\<lambda>ct. ct_tenant ct = tenant \<and> ct_cohort ct = cohort \<and> ct_track ct = tr_id t
                                          \<and> ct_status ct = ''active'') (cohort_tracks db))
               (tracks db)) of
        [] \<Rightarrow> None | t # _ \<Rightarrow> Some t)"

definition ensure_default_track_for_cohort ::
    "academy_db \<Rightarrow> instant \<Rightarrow> uuid \<Rightarrow> uuid \<Rightarrow> (academy_db \<times> track_row) result option" where
  "ensure_default_track_for_cohort db now tenant cohort =
     (case default_track_for_cohort db tenant cohort of
        Some t \<Rightarrow> Some (Inr (db, t))
      | None \<Rightarrow>
          (case find (\<lambda>c. ch_tenant c = tenant \<and> ch_id c = cohort) (cohorts db) of
             None \<Rightarrow> Some (Inl (NotFoundError ''cohort not found for tenant''))
           | Some c \<Rightarrow> map_option Inr (add_track db now tenant cohort (ch_name c @ '' Track''))))"

definition tracks_for_cohorts :: "academy_db \<Rightarrow> uuid \<Rightarrow> uuid list \<Rightarrow> (uuid \<times> track_row list) list" where
  "tracks_for_cohorts db tenant cohort_ids =
     map (\<lambda>c. (c, sort_key tr_name
             (concat (map (\<lambda>ct. filter (\<lambda>t. tr_id t = ct_track ct \<and> tr_tenant t = tenant \<and> tr_status t = ''active'') (tracks db))
               (filter (\<lambda>ct. ct_tenant ct = tenant \<and> ct_cohort ct = c \<and> ct_status ct = ''active'') (cohort_tracks db))))))
       (keep_first cohort_ids)"

text \<open>The tracks of a cohort with their courses in order and the courses that have no activity.\<close>

definition course_in_track_order :: "academy_db \<Rightarrow> uuid \<Rightarrow> uuid \<Rightarrow> course_row list" where
  "course_in_track_order db tenant track =
     map snd (sort_key (\<lambda>(tc, c). (tc_order_index tc, co_title c))
       [(tc, c). tc \<leftarrow> courses_of_track db tenant track, c \<leftarrow> courses db, co_id c = tc_course tc \<and> co_tenant c = tc_tenant tc])"

definition zero_activity_course_ids :: "academy_db \<Rightarrow> uuid \<Rightarrow> course_row list \<Rightarrow> uuid set" where
  "zero_activity_course_ids db tenant cs =
     set (filter (\<lambda>c. \<not> list_ex (\<lambda>a. act_tenant a = tenant \<and> act_course a = c) (activities db)) (map co_id cs))"

definition list_cohort_tracks ::
    "academy_db \<Rightarrow> uuid \<Rightarrow> uuid \<Rightarrow> (cohort_track_row \<times> track_row \<times> course_row list \<times> uuid set) list result" where
  "list_cohort_tracks db tenant cohort =
     and_then (cohort_or_404 db tenant cohort) (\<lambda>_.
       Inr (map (\<lambda>(ct, t). let cs = course_in_track_order db tenant (tr_id t) in (ct, t, cs, zero_activity_course_ids db tenant cs))
              (sort_key (\<lambda>(ct, t). tr_name t)
                 [(ct, t). ct \<leftarrow> cohort_tracks db, t \<leftarrow> tracks db,
                    tr_id t = ct_track ct \<and> tr_tenant t = ct_tenant ct
                    \<and> ct_tenant ct = tenant \<and> ct_cohort ct = cohort \<and> ct_status ct = ''active''])))"

end
