(* ===== verification/Rosters.thy ===== *)
theory Rosters
  imports Tracks Accounts
begin

text \<open>
  \<open>services/roster.py\<close> and \<open>services/account_invitations.py\<close>: bulk enrolment, roster states and
  the invitation that provisions an account, its role and its enrolments; with the guards of
  the instructor's routes. \<open>BadRequestError\<close> of the authority check is caught by callers that
  then commit, so an invitation returns the store with its error.
\<close>

section \<open>Roster\<close>

definition ROSTER_STATES :: "string list" where
  "ROSTER_STATES = [''active'', ''waitlisted'', ''dropped'']"

datatype activation = Reactivated string | Already_Active

definition activate_enrollment ::
    "academy_db \<Rightarrow> enrollment_row \<Rightarrow> bool \<Rightarrow> (academy_db \<times> activation) result" where
  "activate_enrollment db e actor_is_admin =
     (if en_status e = ''active'' then Inr (db, Already_Active)
      else if en_role e \<noteq> ''student'' \<and> \<not> actor_is_admin
      then Inl (BadRequestError ''only an admin can reactivate a non-student cohort enrollment'')
      else Inr (update_enrollment (en_id e) (\<lambda>r. r\<lparr>en_status := ''active''\<rparr>) db, Reactivated (en_status e)))"

definition normalize_emails :: "string list \<Rightarrow> string list" where
  "normalize_emails raws = keep_first (filter (\<lambda>e. e \<noteq> '''') (map (\<lambda>r. py_lower (py_strip r)) raws))"

record enroll_report =
  rp_enrolled :: "string list"
  rp_reactivated :: "string list"
  rp_already_active :: "string list"
  rp_not_found :: "string list"
  rp_admin_required :: "string list"

definition new_enrollment :: "uuid \<Rightarrow> uuid \<Rightarrow> uuid \<Rightarrow> uuid option \<Rightarrow> string \<Rightarrow> academy_db \<Rightarrow> academy_db" where
  "new_enrollment tenant cohort person track role db =
     db\<lparr>enrollments := enrollments db @
          [\<lparr>en_id = next_id db, en_tenant = tenant, en_cohort = cohort, en_person = person, en_track = track,
            en_role = role, en_status = ''active'', en_access_ends_at = None\<rparr>],
        next_id := Suc (next_id db)\<rparr>"

definition assign_if :: "academy_db \<Rightarrow> uuid \<Rightarrow> uuid \<Rightarrow> uuid \<Rightarrow> uuid option \<Rightarrow> academy_db result" where
  "assign_if db tenant cohort person track =
     (case track of None \<Rightarrow> Inr db | Some t \<Rightarrow> assign_enrollment_track db tenant cohort person t)"

definition enroll_email ::
    "uuid \<Rightarrow> uuid \<Rightarrow> bool \<Rightarrow> uuid option \<Rightarrow> string \<Rightarrow> academy_db \<times> enroll_report \<Rightarrow> (academy_db \<times> enroll_report) result" where
  "enroll_email tenant cohort actor_is_admin track email = (\<lambda>(db, rp).
     case person_for_email db tenant email of
       None \<Rightarrow> Inr (db, rp\<lparr>rp_not_found := rp_not_found rp @ [email]\<rparr>)
     | Some p \<Rightarrow>
         (case find_enrollment db tenant cohort (pe_id p) of
            None \<Rightarrow> Inr (new_enrollment tenant cohort (pe_id p) track ''student'' db,
                         rp\<lparr>rp_enrolled := rp_enrolled rp @ [email]\<rparr>)
          | Some e \<Rightarrow>
              if en_status e \<noteq> ''active''
              then (case activate_enrollment db e actor_is_admin of
                      Inl _ \<Rightarrow> Inr (db, rp\<lparr>rp_admin_required := rp_admin_required rp @ [email]\<rparr>)
                    | Inr (db1, _) \<Rightarrow>
                        and_then (assign_if db1 tenant cohort (pe_id p) track) (\<lambda>db2.
                          Inr (db2, rp\<lparr>rp_reactivated := rp_reactivated rp @ [email]\<rparr>)))
              else and_then (if track \<noteq> None \<and> en_track e \<noteq> track then assign_if db tenant cohort (pe_id p) track
                             else Inr db) (\<lambda>db2.
                     Inr (db2, rp\<lparr>rp_already_active := rp_already_active rp @ [email]\<rparr>))))"

fun enroll_emails ::
    "uuid \<Rightarrow> uuid \<Rightarrow> bool \<Rightarrow> uuid option \<Rightarrow> string list \<Rightarrow> academy_db \<times> enroll_report \<Rightarrow> (academy_db \<times> enroll_report) result" where
  "enroll_emails tenant cohort actor_is_admin track [] s = Inr s"
| "enroll_emails tenant cohort actor_is_admin track (e # es) s =
     and_then (enroll_email tenant cohort actor_is_admin track e s) (enroll_emails tenant cohort actor_is_admin track es)"

definition bulk_enroll ::
    "academy_db \<Rightarrow> uuid \<Rightarrow> uuid \<Rightarrow> string list \<Rightarrow> bool \<Rightarrow> uuid option \<Rightarrow> (academy_db \<times> enroll_report) result" where
  "bulk_enroll db tenant cohort emails actor_is_admin track =
     and_then (cohort_or_404 db tenant cohort) (\<lambda>_.
     and_then (case track of None \<Rightarrow> Inr db | Some t \<Rightarrow> ensure_track_offerings db tenant cohort t) (\<lambda>db1.
       enroll_emails tenant cohort actor_is_admin track (normalize_emails emails)
         (db1, \<lparr>rp_enrolled = [], rp_reactivated = [], rp_already_active = [], rp_not_found = [], rp_admin_required = []\<rparr>)))"

definition set_roster_state :: "academy_db \<Rightarrow> uuid \<Rightarrow> uuid \<Rightarrow> uuid \<Rightarrow> string \<Rightarrow> academy_db result" where
  "set_roster_state db tenant cohort person state =
     (if state \<notin> set ROSTER_STATES then Inl (NotFoundError ''invalid roster state'')
      else case find_enrollment db tenant cohort person of
        None \<Rightarrow> Inl (NotFoundError ''enrollment not found'')
      | Some e \<Rightarrow> Inr (update_enrollment (en_id e) (\<lambda>r. r\<lparr>en_status := state\<rparr>) db))"

text \<open>The instructor's route: an admin holds the \<open>admin\<close> role.\<close>

definition role_slugs :: "academy_db \<Rightarrow> uuid \<Rightarrow> uuid \<Rightarrow> string set" where
  "role_slugs db tenant person = ro_slug ` set (filter (\<lambda>r. ro_tenant r = tenant \<and> ro_person r = person) (person_roles db))"

definition is_admin :: "academy_db \<Rightarrow> uuid \<Rightarrow> uuid \<Rightarrow> bool" where
  "is_admin db tenant person = (''admin'' \<in> role_slugs db tenant person)"

definition change_roster_state ::
    "academy_db \<Rightarrow> uuid \<Rightarrow> uuid \<Rightarrow> uuid \<Rightarrow> uuid \<Rightarrow> string \<Rightarrow> academy_db result" where
  "change_roster_state db tenant actor cohort person state =
     (case find_enrollment db tenant cohort person of
        Some e \<Rightarrow> if en_role e \<noteq> ''student'' \<and> \<not> is_admin db tenant actor then Inl HTTPForbidden
                  else set_roster_state db tenant cohort person state
      | None \<Rightarrow> set_roster_state db tenant cohort person state)"

section \<open>Invitations\<close>

record cohort_assignment =
  as_cohort :: cohort_row
  as_courses :: "course_row list"
  as_track :: "track_row option"

record invitation_result =
  ir_person :: person_row
  ir_token :: "string option"
  ir_created :: bool
  ir_had_credential :: bool
  ir_assignments :: "string list"

definition ensure_role :: "academy_db \<Rightarrow> uuid \<Rightarrow> uuid \<Rightarrow> string \<Rightarrow> academy_db result" where
  "ensure_role db tenant person role =
     (if role \<notin> set ROLE_SLUGS then Inl (BadRequestError ''invalid role'') else grant_role db tenant person role)"

definition member_role :: "string \<Rightarrow> string" where
  "member_role role = (if role = ''instructor'' \<or> role = ''admin'' then ''instructor'' else ''student'')"

definition reactivation_note :: "activation \<Rightarrow> string" where
  "reactivation_note r =
     (case r of
        Already_Active \<Rightarrow> ''''
      | Reactivated was \<Rightarrow> if was = ''dropped'' \<or> was = ''waitlisted'' then '' - reactivated (was '' @ was @ '')'' else '''')"

text \<open>The enrolment: created, or kept with its role raised at most, and activated.\<close>

definition place_member ::
    "academy_db \<Rightarrow> uuid \<Rightarrow> person_row \<Rightarrow> string \<Rightarrow> cohort_row \<Rightarrow> bool \<Rightarrow>
     academy_db \<times> (academy_error + string)" where
  "place_member db tenant p role cohort actor_is_admin =
     (let wanted = member_role role in
      case find_enrollment db tenant (ch_id cohort) (pe_id p) of
        None \<Rightarrow> (new_enrollment tenant (ch_id cohort) (pe_id p) None wanted db, Inr (ch_name cohort @ '' cohort as '' @ wanted))
      | Some e \<Rightarrow>
          let preserved = (en_role e = ''instructor'' \<and> wanted = ''student'');
              e1 = (if preserved then e else e\<lparr>en_role := wanted\<rparr>);
              db1 = update_enrollment (en_id e) (\<lambda>r. r\<lparr>en_role := en_role e1\<rparr>) db
          in case activate_enrollment db1 e1 actor_is_admin of
               Inl x \<Rightarrow> (db1, Inl x)
             | Inr (db2, r) \<Rightarrow>
                 (db2, Inr (if preserved
                            then ch_name cohort @ '' cohort - already an instructor, role unchanged'' @ reactivation_note r
                            else ch_name cohort @ '' cohort as '' @ wanted @ reactivation_note r)))"

definition apply_assignment ::
    "academy_db \<Rightarrow> uuid \<Rightarrow> person_row \<Rightarrow> string \<Rightarrow> bool \<Rightarrow> cohort_assignment \<Rightarrow>
     academy_db \<times> (academy_error + string list)" where
  "apply_assignment db tenant p role actor_is_admin a =
     (let cohort = ch_id (as_cohort a) in
      case place_member db tenant p role (as_cohort a) actor_is_admin of
        (db1, Inl x) \<Rightarrow> (db1, Inl x)
      | (db1, Inr line) \<Rightarrow>
          (case (case as_track a of
                   None \<Rightarrow> Inr (db1, [])
                 | Some t \<Rightarrow>
                     (case find_enrollment db1 tenant cohort (pe_id p) of
                        None \<Rightarrow> Inl NoResultFound
                      | Some e \<Rightarrow>
                          and_then (ensure_track_offerings (update_enrollment (en_id e) (\<lambda>r. r\<lparr>en_track := Some (tr_id t)\<rparr>) db1)
                                      tenant cohort (tr_id t)) (\<lambda>d.
                            Inr (d, [tr_name t @ '' track in '' @ ch_name (as_cohort a)])))) of
             Inl x \<Rightarrow> (db1, Inl x)
           | Inr (db2, lines) \<Rightarrow>
               (fold (open_offering tenant cohort) (map co_id (as_courses a)) db2,
                Inr (line # lines @ map (\<lambda>c. co_title c @ '' course for '' @ ch_name (as_cohort a)) (as_courses a)))))"

fun apply_assignments ::
    "academy_db \<Rightarrow> uuid \<Rightarrow> person_row \<Rightarrow> string \<Rightarrow> bool \<Rightarrow> cohort_assignment list \<Rightarrow>
     academy_db \<times> (academy_error + string list)" where
  "apply_assignments db tenant p role actor_is_admin [] = (db, Inr [])"
| "apply_assignments db tenant p role actor_is_admin (a # as') =
     (if ch_tenant (as_cohort a) \<noteq> tenant then (db, Inl (BadRequestError ''cohort does not belong to this tenant''))
      else case apply_assignment db tenant p role actor_is_admin a of
             (db1, Inl x) \<Rightarrow> (db1, Inl x)
           | (db1, Inr lines) \<Rightarrow>
               (case apply_assignments db1 tenant p role actor_is_admin as' of
                  (db2, Inl x) \<Rightarrow> (db2, Inl x) | (db2, Inr others) \<Rightarrow> (db2, Inr (lines @ others))))"

text \<open>The person with the canonical email, created or with its credentials brought in line.\<close>

definition provision_person ::
    "academy_db \<Rightarrow> uuid \<Rightarrow> string \<Rightarrow> string \<Rightarrow> string \<Rightarrow> (academy_db \<times> person_row \<times> bool) result" where
  "provision_person db tenant canonical first_name last_name =
     (case person_for_email db tenant canonical of
        None \<Rightarrow> (let p = new_person db tenant canonical first_name last_name; db1 = add_person p db
                 in ensure (emails_unique db1) IntegrityError (Inr (db1, p, True)))
      | Some p \<Rightarrow> and_then (sync_credential_emails db p) (\<lambda>db1. Inr (db1, p\<lparr>pe_email := normalize_email (pe_email p)\<rparr>, False)))"

definition invite_and_enroll ::
    "(string \<Rightarrow> string) \<Rightarrow> academy_db \<Rightarrow> instant \<Rightarrow> string \<Rightarrow> uuid \<Rightarrow> string \<Rightarrow> string \<Rightarrow> string \<Rightarrow> string \<Rightarrow> bool \<Rightarrow>
     cohort_assignment list \<Rightarrow> academy_db \<times> (academy_error + invitation_result)" where
  "invite_and_enroll ht db now raw tenant email first_name last_name role actor_is_admin assignments =
     (let canonical = normalize_email email in
      if canonical = '''' then (db, Inl (BadRequestError ''email is required''))
      else case provision_person db tenant canonical first_name last_name of
        Inl x \<Rightarrow> (db, Inl x)
      | Inr (db1, p, created) \<Rightarrow>
          (case ensure_role db1 tenant (pe_id p) role of
             Inl x \<Rightarrow> (db1, Inl x)
           | Inr db2 \<Rightarrow>
               let had = (filter (owned_credential tenant (pe_id p)) (credentials db2) \<noteq> []) in
               (case apply_assignments db2 tenant p role actor_is_admin assignments of
                  (db3, Inl x) \<Rightarrow> (db3, Inl x)
                | (db3, Inr lines) \<Rightarrow>
                    (case (if had then Inr (db3, None)
                           else and_then (issue_invite_for_person ht db3 now tenant (pe_id p) raw) (\<lambda>d. Inr (d, Some raw))) of
                       Inl x \<Rightarrow> (db3, Inl x)
                     | Inr (db4, token) \<Rightarrow>
                         (db4, Inr \<lparr>ir_person = p, ir_token = token, ir_created = created, ir_had_credential = had,
                                    ir_assignments = lines\<rparr>)))))"

definition invite_user ::
    "(string \<Rightarrow> string) \<Rightarrow> academy_db \<Rightarrow> instant \<Rightarrow> string \<Rightarrow> uuid \<Rightarrow> string \<Rightarrow> string \<Rightarrow> string \<Rightarrow> string \<Rightarrow>
     academy_db \<times> (academy_error + person_row \<times> string)" where
  "invite_user ht db now raw tenant email first_name last_name role =
     (case invite_and_enroll ht db now raw tenant email first_name last_name role True [] of
        (db1, Inl x) \<Rightarrow> (db1, Inl x)
      | (db1, Inr r) \<Rightarrow>
          (case ir_token r of
             None \<Rightarrow> (db1, Inl (ConflictError ''account already has a credential''))
           | Some t \<Rightarrow> (db1, Inr (ir_person r, t))))"

text \<open>
  The instructor's invitation route. A \<open>BadRequestError\<close> becomes an inline message and the
  request still commits; the other errors roll it back.
\<close>

definition account_invite_key :: "(string \<Rightarrow> string) \<Rightarrow> uuid \<Rightarrow> string \<Rightarrow> string" where
  "account_invite_key ht person token = ''account-invite:'' @ uuid_str person @ '':'' @ ht token"

definition invite_student ::
    "(string \<Rightarrow> string) \<Rightarrow> academy_db \<Rightarrow> instant \<Rightarrow> string \<Rightarrow> uuid \<Rightarrow> uuid \<Rightarrow> uuid \<Rightarrow> uuid option \<Rightarrow> string \<Rightarrow> string \<Rightarrow> string \<Rightarrow>
     (academy_db \<times> (string + invitation_result)) result" where
  "invite_student ht db now raw tenant actor cohort track email first_name last_name =
     and_then (cohort_or_404 db tenant cohort) (\<lambda>c.
     and_then (case track of None \<Rightarrow> Inr None
               | Some t \<Rightarrow> and_then (cohort_track_or_404 db tenant cohort t) (\<lambda>_. Inr (find_track db tenant t))) (\<lambda>tr.
       case invite_and_enroll ht db now raw tenant email first_name last_name ''student'' (is_admin db tenant actor)
              [\<lparr>as_cohort = c, as_courses = [], as_track = tr\<rparr>] of
         (db1, Inl (BadRequestError m)) \<Rightarrow> Inr (db1, Inl m)
       | (db1, Inl x) \<Rightarrow> Inl x
       | (db1, Inr r) \<Rightarrow>
           Inr (case ir_token r of
                  None \<Rightarrow> db1
                | Some t \<Rightarrow> fst (enqueue_email db1 now tenant (account_invite_key ht (pe_id (ir_person r)) t) ''account_invite''
                                 (pe_email (ir_person r)) (JObj [])),
                Inr r)))"

text \<open>
  \<open>services/facilitator_access.py\<close>: what a person may teach, read off the roles, the active
  nominations with their requirement snapshots and the legacy instructor enrolments.
\<close>

record facilitator_access =
  fa_is_admin :: bool
  fa_is_legacy_instructor :: bool
  fa_cohort_ids :: "uuid set"
  fa_offering_ids :: "uuid set"
  fa_course_cohort_ids :: "uuid set"
  fa_legacy_offering_ids :: "uuid set"
  fa_cohort_offering_ids :: "uuid set"

definition has_global_staff_access :: "facilitator_access \<Rightarrow> bool" where
  "has_global_staff_access a = (fa_is_admin a \<or> fa_is_legacy_instructor a)"

definition has_active_assignment :: "facilitator_access \<Rightarrow> bool" where
  "has_active_assignment a = (fa_cohort_ids a \<noteq> {} \<or> fa_offering_ids a \<noteq> {})"

definition can_teach :: "facilitator_access \<Rightarrow> bool" where
  "can_teach a = (has_global_staff_access a \<or> has_active_assignment a)"

definition visible_cohort_ids :: "facilitator_access \<Rightarrow> uuid set" where
  "visible_cohort_ids a = fa_cohort_ids a \<union> fa_course_cohort_ids a"

definition allows_cohort :: "facilitator_access \<Rightarrow> uuid \<Rightarrow> bool" where
  "allows_cohort a cohort = (has_global_staff_access a \<or> cohort \<in> fa_cohort_ids a)"

definition allows_offering :: "facilitator_access \<Rightarrow> uuid \<Rightarrow> bool" where
  "allows_offering a offering =
     (fa_is_admin a \<or> offering \<in> fa_offering_ids a \<union> fa_cohort_offering_ids a \<union> fa_legacy_offering_ids a)"

text \<open>The outer join: a nomination with the offering it names, if any.\<close>

definition joined_offering :: "academy_db \<Rightarrow> nomination_row \<Rightarrow> offering_row option" where
  "joined_offering db n =
     (case fn_offering n of
        None \<Rightarrow> None
      | Some o' \<Rightarrow> find (\<lambda>r. of_tenant r = fn_tenant n \<and> of_id r = o') (offerings db))"

definition own_active :: "uuid \<Rightarrow> uuid \<Rightarrow> nomination_row \<Rightarrow> bool" where
  "own_active tenant person n = (fn_tenant n = tenant \<and> fn_person n = person \<and> fn_status n = ''active'')"

definition effective_nominations :: "academy_db \<Rightarrow> uuid \<Rightarrow> uuid \<Rightarrow> (nomination_row \<times> offering_row option) list" where
  "effective_nominations db tenant person =
     filter (\<lambda>(n, r). fn_scope n = ''cohort'' \<or> map_option of_status r = Some ''active'')
       (map (\<lambda>n. (n, joined_offering db n)) (filter (own_active tenant person) (nominations db)))"

definition snapshot_offerings :: "academy_db \<Rightarrow> uuid \<Rightarrow> uuid \<Rightarrow> uuid list" where
  "snapshot_offerings db tenant person =
     concat (map (\<lambda>n. concat (map (\<lambda>q.
         map of_id (filter (\<lambda>r. of_tenant r = tenant \<and> of_course r = fr_course q \<and> Some (of_cohort r) = fn_cohort n
                               \<and> of_status r = ''active'') (offerings db)))
         (filter (\<lambda>q. fr_tenant q = tenant \<and> fr_nomination q = fn_id n) (requirements db))))
       (filter (\<lambda>n. own_active tenant person n \<and> fn_scope n = ''cohort'') (nominations db)))"

definition legacy_offerings :: "academy_db \<Rightarrow> uuid \<Rightarrow> uuid \<Rightarrow> uuid list" where
  "legacy_offerings db tenant person =
     map of_id (filter (\<lambda>r. of_tenant r = tenant \<and> of_status r = ''active''
          \<and> list_ex (\<lambda>e. en_tenant e = tenant \<and> en_cohort e = of_cohort r \<and> en_person e = person
                         \<and> en_role e = ''instructor'' \<and> en_status e = ''active'') (enrollments db))
       (offerings db))"

definition somes :: "'a option list \<Rightarrow> 'a set" where
  "somes xs = set (concat (map (\<lambda>x. case x of None \<Rightarrow> [] | Some a \<Rightarrow> [a]) xs))"

definition facilitator_access_of :: "academy_db \<Rightarrow> uuid \<Rightarrow> uuid \<Rightarrow> facilitator_access" where
  "facilitator_access_of db tenant person =
     (let slugs = role_slugs db tenant person; ns = effective_nominations db tenant person;
          cohort = filter (\<lambda>(n, r). fn_scope n = ''cohort'') ns; course = filter (\<lambda>(n, r). fn_scope n = ''course'') ns
      in \<lparr>fa_is_admin = (''admin'' \<in> slugs), fa_is_legacy_instructor = (''instructor'' \<in> slugs),
          fa_cohort_ids = somes (map (\<lambda>(n, r). fn_cohort n) cohort),
          fa_offering_ids = somes (map (\<lambda>(n, r). fn_offering n) course),
          fa_course_cohort_ids = somes (map (\<lambda>(n, r). map_option of_cohort r) course),
          fa_legacy_offering_ids = (if ''instructor'' \<in> slugs then set (legacy_offerings db tenant person) else {}),
          fa_cohort_offering_ids = set (snapshot_offerings db tenant person)\<rparr>)"

definition authorized_cohort_ids :: "academy_db \<Rightarrow> uuid \<Rightarrow> facilitator_access \<Rightarrow> uuid set" where
  "authorized_cohort_ids db tenant a =
     (if \<not> has_global_staff_access a then visible_cohort_ids a
      else ch_id ` set (filter (\<lambda>c. ch_tenant c = tenant) (cohorts db)))"

definition authorized_offering_ids :: "academy_db \<Rightarrow> uuid \<Rightarrow> facilitator_access \<Rightarrow> uuid set" where
  "authorized_offering_ids db tenant a =
     (if fa_is_admin a then of_id ` set (filter (\<lambda>r. of_tenant r = tenant \<and> of_status r = ''active'') (offerings db))
      else fa_offering_ids a \<union> fa_cohort_offering_ids a \<union> fa_legacy_offering_ids a)"

definition allows_person :: "academy_db \<Rightarrow> uuid \<Rightarrow> facilitator_access \<Rightarrow> uuid \<Rightarrow> bool" where
  "allows_person db tenant a target =
     (has_global_staff_access a
      \<or> list_ex (\<lambda>e. en_tenant e = tenant \<and> en_person e = target \<and> en_cohort e \<in> fa_cohort_ids a \<and> en_status e = ''active'')
          (enrollments db))"

end
