(* ===== verification/Roster_Properties.thy ===== *)
theory Roster_Properties
  imports Rosters Course_Properties
begin

text \<open>
  Properties of tracks, rosters and teaching access: the slug search ends, a track's courses keep
  the order they are given, only an administrator reactivates a staff enrolment, and every
  course a person may teach is granted by a role, a nomination or an enrolment.
\<close>

section \<open>The slug search\<close>

lemma of_char_digit: "d < 10 \<Longrightarrow> of_char (char_of (48 + d) :: char) = (48 + d :: nat)"
  by (simp add: of_char_mod_256)

lemma show_nat_injective: "show_nat m = show_nat n \<Longrightarrow> m = n"
proof (induction m arbitrary: n rule: show_nat.induct)
  case (1 m)
  have digit: "(char_of (48 + a) :: char) = char_of (48 + b) \<longleftrightarrow> a = b" if "a < 10" "b < 10" for a b :: nat
    using of_char_digit [OF that(1)] of_char_digit [OF that(2)] by (metis add_left_cancel)
  have ne: "show_nat k \<noteq> []" for k by (subst show_nat.simps) simp
  show ?case
  proof (cases "m < 10")
    case True
    then show ?thesis
      using 1(2) ne [of "n div 10"] digit [of m n]
      by (subst (asm) show_nat.simps, subst (asm) (2) show_nat.simps) (auto split: if_splits)
  next
    case False
    have big: "\<not> n < 10"
    proof
      assume "n < 10"
      then show False
        using 1(2) False ne [of "m div 10"]
        by (subst (asm) show_nat.simps, subst (asm) (2) show_nat.simps) auto
    qed
    have "show_nat (m div 10) @ [char_of (48 + m mod 10)] = show_nat (n div 10) @ [char_of (48 + n mod 10)]"
      using 1(2) False big by (metis show_nat.simps)
    then have "show_nat (m div 10) = show_nat (n div 10)" "(char_of (48 + m mod 10) :: char) = char_of (48 + n mod 10)"
      by auto
    then have "m div 10 = n div 10" "m mod 10 = n mod 10"
      using 1(1) [OF False] digit [of "m mod 10" "n mod 10"] by auto
    then show ?thesis by (metis div_mult_mod_eq)
  qed
qed

lemma show_nat_digits: "c \<in> set (show_nat n) \<Longrightarrow> c \<noteq> CHR ''-''"
proof (induction n rule: show_nat.induct)
  case (1 n)
  have digit: "(char_of (48 + d) :: char) \<noteq> CHR ''-''" if "d < 10" for d :: nat
  proof
    assume "(char_of (48 + d) :: char) = CHR ''-''"
    then have "of_char (char_of (48 + d) :: char) = (45 :: nat)" by simp
    then show False using of_char_digit [OF that] by simp
  qed
  show ?case
    using 1 digit [of n] digit [of "n mod 10"]
    by (subst (asm) (2) show_nat.simps) (auto split: if_splits)
qed

lemma show_nat_length: "n < 10 ^ k \<Longrightarrow> 0 < k \<Longrightarrow> length (show_nat n) \<le> k"
proof (induction k arbitrary: n)
  case (Suc k)
  show ?case
  proof (cases "n < 10")
    case True
    then show ?thesis by (subst show_nat.simps) simp
  next
    case False
    then have "0 < k" using Suc.prems by (cases k) auto
    moreover have "n div 10 < 10 ^ k" using Suc.prems(1) by (simp add: less_mult_imp_div_less mult.commute)
    ultimately have "length (show_nat (n div 10)) \<le> k" using Suc.IH by blast
    then show ?thesis using False by (subst show_nat.simps) simp
  qed
qed simp

lemma numbered_slug_injective:
  assumes "numbered_slug base i = numbered_slug base j"
  shows "i = j"
proof -
  have tail: "takeWhile (\<lambda>c. c \<noteq> CHR ''-'') (rev (p @ CHR ''-'' # show_nat k)) = rev (show_nat k)" for p k
    using show_nat_digits [of _ k] by (auto simp: takeWhile_append)
  have "rev (show_nat i) = rev (show_nat j)"
    using assms tail unfolding numbered_slug_def Let_def by metis
  then show ?thesis using show_nat_injective by simp
qed

lemma numbered_slug_fits:
  assumes "i < 10 ^ 79" shows "length (numbered_slug base i) \<le> 80"
proof -
  have "length (show_nat i) \<le> 79" using show_nat_length [OF assms] by simp
  then show ?thesis by (auto simp: numbered_slug_def Let_def py_prefix_def)
qed

text \<open>A run of the search over numbers that are all taken is as long as the list of tracks at most.\<close>

lemma next_slug_run:
  "\<forall>k < n. slug_taken db tenant (numbered_slug base (i + k)) \<Longrightarrow> slug_taken db tenant slug \<Longrightarrow>
   next_slug db tenant base slug i = next_slug db tenant base (numbered_slug base (i + n)) (Suc (i + n))"
proof (induction n arbitrary: i slug)
  case 0
  then show ?case by (subst next_slug.simps) simp
next
  case (Suc n)
  have "next_slug db tenant base slug i = next_slug db tenant base (numbered_slug base i) (Suc i)"
    using Suc.prems(2) by (subst next_slug.simps) simp
  also have "\<dots> = next_slug db tenant base (numbered_slug base (Suc i + n)) (Suc (Suc i + n))"
  proof (rule Suc.IH)
    show "\<forall>k < n. slug_taken db tenant (numbered_slug base (Suc i + k))" using Suc.prems(1) by fastforce
    show "slug_taken db tenant (numbered_slug base i)" using Suc.prems(1) by (metis add_0_right zero_less_Suc)
  qed
  finally show ?case by simp
qed

lemma some_number_is_free:
  "\<exists>k \<le> length (tracks db). \<not> slug_taken db tenant (numbered_slug base (i + k))"
proof (rule ccontr)
  assume "\<not> ?thesis"
  then have "(\<lambda>k. numbered_slug base (i + k)) ` {..length (tracks db)} \<subseteq> tr_slug ` set (tracks db)"
    by (auto simp: slug_taken_def list_ex_iff image_iff) metis
  moreover have "inj_on (\<lambda>k. numbered_slug base (i + k)) {..length (tracks db)}"
    using numbered_slug_injective by (fastforce intro: inj_onI)
  ultimately have "card {..length (tracks db)} \<le> card (tr_slug ` set (tracks db))"
    by (meson List.finite_set card_inj_on_le finite_imageI)
  also have "\<dots> \<le> length (tracks db)" by (meson List.finite_set card_image_le card_length le_trans)
  finally show False by simp
qed

lemma next_slug_ends:
  obtains k where "k \<le> length (tracks db)" "next_slug db tenant base slug i =
    Some (if slug_taken db tenant slug then numbered_slug base (i + k) else slug)"
    "\<not> slug_taken db tenant (if slug_taken db tenant slug then numbered_slug base (i + k) else slug)"
proof -
  define k where "k = (LEAST k. \<not> slug_taken db tenant (numbered_slug base (i + k)))"
  obtain m where m: "m \<le> length (tracks db)" "\<not> slug_taken db tenant (numbered_slug base (i + m))"
    using some_number_is_free by blast
  have free: "\<not> slug_taken db tenant (numbered_slug base (i + k))"
    unfolding k_def by (rule LeastI) (rule m(2))
  have run: "\<forall>l < k. slug_taken db tenant (numbered_slug base (i + l))"
    unfolding k_def by (metis not_less_Least)
  have "k \<le> m" unfolding k_def by (rule Least_le) (rule m(2))
  moreover have "next_slug db tenant base slug i =
      Some (if slug_taken db tenant slug then numbered_slug base (i + k) else slug)"
  proof (cases "slug_taken db tenant slug")
    case True
    have "next_slug db tenant base (numbered_slug base (i + k)) (Suc (i + k)) = Some (numbered_slug base (i + k))"
      using free by (subst next_slug.simps) simp
    then show ?thesis using next_slug_run [OF run True] True by simp
  qed (subst next_slug.simps, simp)
  ultimately show ?thesis using that [of k] free m(1) by simp
qed

text \<open>The search for a free track slug ends for every name and every set of existing tracks: it
  returns a slug no track of the tenant has, it does so among the first \<open>n + 1\<close> numbers when the
  tenant has \<open>n\<close> tracks, and the slug fits the 80 characters of its column.
\<close>

theorem track_slug_search_ends:
  assumes "length (tracks db) < 10 ^ 78"
  shows "\<exists>slug. unique_track_slug db tenant name = Some slug \<and> \<not> slug_taken db tenant slug \<and> length slug \<le> 80
           \<and> (slug = take 70 (slugify name)
              \<or> (\<exists>k \<le> length (tracks db). slug = numbered_slug (take 70 (slugify name)) (2 + k)))"
proof -
  let ?base = "take 70 (slugify name)"
  obtain k where k: "k \<le> length (tracks db)"
      "next_slug db tenant ?base ?base 2 = Some (if slug_taken db tenant ?base then numbered_slug ?base (2 + k) else ?base)"
      "\<not> slug_taken db tenant (if slug_taken db tenant ?base then numbered_slug ?base (2 + k) else ?base)"
    by (rule next_slug_ends)
  have "2 + k < 10 ^ 79" using assms k(1) by simp
  then have "length (numbered_slug ?base (2 + k)) \<le> 80" by (rule numbered_slug_fits)
  then show ?thesis using k by (auto simp: unique_track_slug_def Let_def split: if_splits)
qed

section \<open>The order of a track\<close>

lemma map_lookup_zip: "distinct xs \<Longrightarrow> length xs = length ys \<Longrightarrow> map (\<lambda>x. the (map_of (zip xs ys) x)) xs = ys"
  by (rule nth_equalityI) (auto simp: map_of_zip_nth)

lemma courses_of_reordered:
  "courses_of_track (db\<lparr>track_courses := update_rows (\<lambda>r. tc_tenant r = tenant \<and> tc_track r = track)
       (\<lambda>r. r\<lparr>tc_order_index := f (tc_course r)\<rparr>) (track_courses db)\<rparr>) tenant track
   = map (\<lambda>r. r\<lparr>tc_order_index := f (tc_course r)\<rparr>) (courses_of_track db tenant track)"
proof -
  have "filter (\<lambda>r. tc_tenant r = tenant \<and> tc_track r = track)
          (update_rows (\<lambda>r. tc_tenant r = tenant \<and> tc_track r = track) (\<lambda>r. r\<lparr>tc_order_index := f (tc_course r)\<rparr>) rows)
        = map (\<lambda>r. r\<lparr>tc_order_index := f (tc_course r)\<rparr>) (filter (\<lambda>r. tc_tenant r = tenant \<and> tc_track r = track) rows)"
    for rows by (induction rows) auto
  then show ?thesis by (simp add: courses_of_track_def)
qed

text \<open>A reordered track reads back as it was asked for: sorted by their order index the courses of
  the track are exactly the submitted list, and the indices are the dense sequence from 1.
\<close>

theorem reordered_track_reads_back:
  assumes "reorder_track_courses db tenant track ordered = Inr (db', t)"
    and "distinct (map tc_course (courses_of_track db tenant track))"
  shows "map tc_course (sort_key tc_order_index (courses_of_track db' tenant track)) = ordered
         \<and> map tc_order_index (sort_key tc_order_index (courses_of_track db' tenant track))
           = map (\<lambda>k. int k + 1) [0..<length ordered]"
proof -
  define rank where "rank = (\<lambda>c. the (map_of (zip ordered (map (\<lambda>k. int k + 1) [0..<length ordered])) c))"
  let ?renumber = "\<lambda>r. r\<lparr>tc_order_index := rank (tc_course r)\<rparr>"
  have ok: "distinct ordered" "set ordered = set (map tc_course (courses_of_track db tenant track))"
    and db': "db' = db\<lparr>track_courses := update_rows (\<lambda>r. tc_tenant r = tenant \<and> tc_track r = track) ?renumber (track_courses db)\<rparr>"
    using assms(1) by (auto simp: reorder_track_courses_def rank_def split: option.splits if_splits)
  define zs where "zs = sort_key tc_order_index (courses_of_track db' tenant track)"
  have rows: "courses_of_track db' tenant track = map ?renumber (courses_of_track db tenant track)"
    unfolding db' by (rule courses_of_reordered)
  then have indexed: "tc_order_index r = rank (tc_course r)" if "r \<in> set zs" for r
    using that by (auto simp: zs_def)
  have "mset (map tc_course zs) = mset (map tc_course (courses_of_track db tenant track))"
    unfolding zs_def by (simp add: rows image_mset.compositionality comp_def)
  also have "\<dots> = mset ordered" using assms(2) ok set_eq_iff_mset_eq_distinct by metis
  finally have same: "mset (map tc_course zs) = mset ordered" .
  have ranks: "map rank ordered = map (\<lambda>k. int k + 1) [0..<length ordered]"
    unfolding rank_def by (rule map_lookup_zip) (use ok(1) in auto)
  have "distinct (map rank ordered)" unfolding ranks by (simp add: distinct_map inj_on_def)
  then have inj: "inj_on rank (set ordered)" by (simp add: distinct_map)
  have "map rank (map tc_course zs) = map tc_order_index zs" using indexed by simp
  also have "sorted (map tc_order_index zs)" by (simp add: zs_def)
  finally have "sort_key rank ordered = map tc_course zs"
    by (intro sort_key_inj_key_eq) (use same inj in \<open>auto dest: mset_eq_setD\<close>)
  moreover have "sort_key rank ordered = ordered"
    by (intro sort_key_inj_key_eq) (use inj ranks in \<open>auto simp: sorted_iff_nth_mono\<close>)
  ultimately have "map tc_course zs = ordered" by simp
  moreover have "map tc_order_index zs = map rank (map tc_course zs)" using indexed by simp
  ultimately show ?thesis using ranks by (simp add: zs_def [symmetric])
qed

section \<open>Staff enrolments on hold\<close>

definition staff_on_hold :: "enrollment_row \<Rightarrow> bool" where
  "staff_on_hold e = (en_role e = ''instructor'' \<and> en_status e \<noteq> ''active'')"

definition enrollments_ok :: "academy_db \<Rightarrow> bool" where
  "enrollments_ok db = (distinct (map en_id (enrollments db)) \<and> (\<forall>e \<in> set (enrollments db). en_id e < next_id db))"

definition keeps_staff :: "academy_db \<Rightarrow> academy_db \<Rightarrow> bool" where
  "keeps_staff db db' =
     (enrollments_ok db \<longrightarrow>
        enrollments_ok db' \<and> (\<forall>e \<in> set (enrollments db). staff_on_hold e \<longrightarrow> e \<in> set (enrollments db')))"

named_theorems staff_frame \<open>steps that leave the enrolments alone\<close>

definition same_enrollments :: "academy_db \<Rightarrow> academy_db \<Rightarrow> bool" where
  "same_enrollments db db' = (enrollments db' = enrollments db \<and> next_id db \<le> next_id db')"

lemma keeps_staff_refl [simp]: "keeps_staff db db"
  by (simp add: keeps_staff_def)

lemma keeps_staff_trans: "keeps_staff a b \<Longrightarrow> keeps_staff b c \<Longrightarrow> keeps_staff a c"
  by (auto simp: keeps_staff_def)

lemma same_enrollments_keeps: "same_enrollments db db' \<Longrightarrow> keeps_staff db db'"
  by (force simp: same_enrollments_def keeps_staff_def enrollments_ok_def)

lemma same_enrollments_trans: "same_enrollments a b \<Longrightarrow> same_enrollments b c \<Longrightarrow> same_enrollments a c"
  by (auto simp: same_enrollments_def)

lemma same_enrollments_find:
  "same_enrollments db db' \<Longrightarrow> find_enrollment db' tenant cohort person = find_enrollment db tenant cohort person"
  by (simp add: same_enrollments_def find_enrollment_def)

lemma same_enrollments_refl [staff_frame]: "same_enrollments db db"
  by (simp add: same_enrollments_def)

lemma open_offering_same [staff_frame]: "same_enrollments db (open_offering tenant cohort course db)"
  by (auto simp: same_enrollments_def open_offering_def split: option.splits)

lemma open_offerings_same [staff_frame]: "same_enrollments db (fold (open_offering tenant cohort) cs db)"
  by (induction cs arbitrary: db) (auto intro: same_enrollments_trans staff_frame)

lemma ensure_track_offerings_same [staff_frame]:
  "ensure_track_offerings db tenant cohort track = Inr db' \<Longrightarrow> same_enrollments db db'"
  by (auto simp: ensure_track_offerings_def result_simps intro: staff_frame)

lemma grant_role_same [staff_frame]: "grant_role db tenant person slug = Inr db' \<Longrightarrow> same_enrollments db db'"
  by (auto simp: grant_role_def result_simps same_enrollments_def split: if_splits)

lemma sync_credential_emails_same [staff_frame]: "sync_credential_emails db p = Inr db' \<Longrightarrow> same_enrollments db db'"
  by (auto simp: sync_credential_emails_def Let_def result_simps same_enrollments_def set_credential_def split: option.splits)

lemma enqueue_email_same [staff_frame]:
  "same_enrollments db (fst (enqueue_email db now tenant key kind recipient payload))"
  by (simp add: enqueue_email_def same_enrollments_def)

lemma issue_invite_same [staff_frame]:
  "issue_invite_for_person ht db now tenant person raw = Inr db' \<Longrightarrow> same_enrollments db db'"
  by (auto simp: issue_invite_for_person_def issue_account_token_def invalidate_outstanding_tokens_def
      result_simps same_enrollments_def Let_def split: if_splits)

lemma keeps_new_enrollment: "keeps_staff db (new_enrollment tenant cohort person track role db)"
  by (force simp: keeps_staff_def enrollments_ok_def new_enrollment_def)

lemma keeps_update_enrollment:
  assumes "e \<in> set (enrollments db)" "staff_on_hold e \<Longrightarrow> f e = e" "\<And>r. en_id (f r) = en_id r"
  shows "keeps_staff db (update_enrollment (en_id e) f db)"
proof -
  { assume ok: "enrollments_ok db"
    have ids: "map en_id (enrollments (update_enrollment (en_id e) f db)) = map en_id (enrollments db)"
      by (simp add: update_enrollment_def map_update_rows assms(3))
    then have "enrollments_ok (update_enrollment (en_id e) f db)"
      using ok by (auto simp: enrollments_ok_def update_enrollment_def set_update_rows assms(3))
    moreover have "r \<in> set (enrollments (update_enrollment (en_id e) f db))"
      if r: "r \<in> set (enrollments db)" "staff_on_hold r" for r
    proof (cases "en_id r = en_id e")
      case True
      then have "r = e" using ok r(1) assms(1) by (auto simp: enrollments_ok_def distinct_map inj_on_def)
      then show ?thesis using assms(2) r by (auto simp: update_enrollment_def set_update_rows intro!: rev_image_eqI)
    next
      case False
      then show ?thesis using r(1) by (auto simp: update_enrollment_def set_update_rows intro!: rev_image_eqI)
    qed
    ultimately have "enrollments_ok (update_enrollment (en_id e) f db)
        \<and> (\<forall>r \<in> set (enrollments db). staff_on_hold r \<longrightarrow> r \<in> set (enrollments (update_enrollment (en_id e) f db)))" by blast }
  then show ?thesis by (simp add: keeps_staff_def)
qed

lemma found_enrollment: "find_enrollment db tenant cohort person = Some e \<Longrightarrow> e \<in> set (enrollments db)"
  by (auto simp: find_enrollment_def dest: find_Some_in)

lemma find_updated_enrollment:
  assumes "find_enrollment db tenant cohort person = Some e"
    and "\<And>r. en_tenant (f r) = en_tenant r" "\<And>r. en_cohort (f r) = en_cohort r" "\<And>r. en_person (f r) = en_person r"
  shows "find_enrollment (update_enrollment (en_id e) f db) tenant cohort person = Some (f e)"
  using assms by (simp add: find_enrollment_def update_enrollment_def find_update_rows_same member_of_def)

lemma assign_track_keeps:
  assumes "assign_enrollment_track db tenant cohort person track = Inr db'"
    and "\<And>e. find_enrollment db tenant cohort person = Some e \<Longrightarrow> \<not> staff_on_hold e"
  shows "keeps_staff db db'"
proof -
  obtain db1 e where s: "ensure_track_offerings db tenant cohort track = Inr db1"
      "find_enrollment db1 tenant cohort person = Some e"
      "db' = update_enrollment (en_id e) (\<lambda>r. r\<lparr>en_track := Some track\<rparr>) db1"
    using assms(1) by (auto simp: assign_enrollment_track_def result_simps split: option.splits)
  have frame: "same_enrollments db db1" by (rule ensure_track_offerings_same [OF s(1)])
  have "\<not> staff_on_hold e" using assms(2) s(2) same_enrollments_find [OF frame] by simp
  then have "keeps_staff db1 db'" unfolding s(3) by (intro keeps_update_enrollment found_enrollment [OF s(2)]) auto
  then show ?thesis using keeps_staff_trans same_enrollments_keeps [OF frame] by blast
qed

lemma assign_if_keeps:
  "assign_if db tenant cohort person track = Inr db' \<Longrightarrow>
   (\<And>e. find_enrollment db tenant cohort person = Some e \<Longrightarrow> \<not> staff_on_hold e) \<Longrightarrow> keeps_staff db db'"
  by (auto simp: assign_if_def split: option.splits intro: assign_track_keeps)

lemma activate_enrollment_keeps:
  assumes "activate_enrollment db e False = Inr (db', a)" "find_enrollment db tenant cohort person = Some e"
  shows "keeps_staff db db' \<and> (\<exists>e'. find_enrollment db' tenant cohort person = Some e' \<and> en_status e' = ''active'')"
proof (cases "en_status e = ''active''")
  case True
  then show ?thesis using assms by (auto simp: activate_enrollment_def)
next
  case False
  then have "en_role e = ''student''" "db' = update_enrollment (en_id e) (\<lambda>r. r\<lparr>en_status := ''active''\<rparr>) db"
    using assms(1) by (auto simp: activate_enrollment_def split: if_splits)
  then show ?thesis
    using find_updated_enrollment [OF assms(2), of "\<lambda>r. r\<lparr>en_status := ''active''\<rparr>"]
      keeps_update_enrollment [OF found_enrollment [OF assms(2)], of "\<lambda>r. r\<lparr>en_status := ''active''\<rparr>"]
    by (simp add: staff_on_hold_def)
qed

lemma enroll_email_keeps:
  assumes "enroll_email tenant cohort False track email (db, rp) = Inr (db', rp')"
  shows "keeps_staff db db'"
proof (cases "person_for_email db tenant email")
  case None
  then show ?thesis using assms by (simp add: enroll_email_def)
next
  case (Some p)
  show ?thesis
  proof (cases "find_enrollment db tenant cohort (pe_id p)")
    case None
    then show ?thesis using assms Some keeps_new_enrollment by (auto simp: enroll_email_def)
  next
    case found: (Some e)
    show ?thesis
    proof (cases "en_status e = ''active''")
      case True
      then have "db' = db \<or> assign_if db tenant cohort (pe_id p) track = Inr db'"
        using assms Some found by (auto simp: enroll_email_def result_simps split: if_splits)
      moreover have "\<not> staff_on_hold e" using True by (simp add: staff_on_hold_def)
      ultimately show ?thesis using found by (elim disjE) (simp, erule assign_if_keeps, simp)
    next
      case False
      show ?thesis
      proof (cases "activate_enrollment db e False")
        case (Inl x)
        then show ?thesis using assms Some found False by (auto simp: enroll_email_def)
      next
        case (Inr a)
        obtain db1 k where a: "a = (db1, k)" by fastforce
        have assign: "assign_if db1 tenant cohort (pe_id p) track = Inr db'"
          using assms Some found False Inr a by (auto simp: enroll_email_def result_simps)
        from activate_enrollment_keeps [OF Inr [unfolded a] found] obtain e' where
          e': "keeps_staff db db1" "find_enrollment db1 tenant cohort (pe_id p) = Some e'" "en_status e' = ''active''" by blast
        then have "keeps_staff db1 db'" by (intro assign_if_keeps [OF assign]) (simp add: staff_on_hold_def)
        with e'(1) show ?thesis by (rule keeps_staff_trans)
      qed
    qed
  qed
qed

lemma enroll_emails_keeps:
  "enroll_emails tenant cohort False track es (db, rp) = Inr (db', rp') \<Longrightarrow> keeps_staff db db'"
proof (induction es arbitrary: db rp)
  case (Cons e es)
  then obtain db1 rp1 where "enroll_email tenant cohort False track e (db, rp) = Inr (db1, rp1)"
      "enroll_emails tenant cohort False track es (db1, rp1) = Inr (db', rp')"
    by (auto simp: and_then_eq_Inr)
  then show ?case using Cons.IH enroll_email_keeps keeps_staff_trans by blast
qed simp

lemma bulk_enroll_keeps:
  assumes "bulk_enroll db tenant cohort emails False track = Inr (db', rp)"
  shows "keeps_staff db db'"
proof -
  obtain db1 rp0 where s: "(case track of None \<Rightarrow> Inr db | Some t \<Rightarrow> ensure_track_offerings db tenant cohort t) = Inr db1"
      "enroll_emails tenant cohort False track (normalize_emails emails) (db1, rp0) = Inr (db', rp)"
    using assms by (auto simp: bulk_enroll_def and_then_eq_Inr)
  have "same_enrollments db db1" using s(1) by (auto split: option.splits intro: staff_frame)
  then show ?thesis using enroll_emails_keeps [OF s(2)] same_enrollments_keeps keeps_staff_trans by blast
qed

lemma set_roster_state_keeps:
  assumes "set_roster_state db tenant cohort person state = Inr db'"
    and "\<And>e. find_enrollment db tenant cohort person = Some e \<Longrightarrow> en_role e = ''student''"
  shows "keeps_staff db db'"
proof -
  obtain e where e: "find_enrollment db tenant cohort person = Some e"
      "db' = update_enrollment (en_id e) (\<lambda>r. r\<lparr>en_status := state\<rparr>) db"
    using assms(1) by (auto simp: set_roster_state_def split: if_splits option.splits)
  have "\<not> staff_on_hold e" using assms(2) [OF e(1)] by (simp add: staff_on_hold_def)
  then show ?thesis unfolding e(2) by (intro keeps_update_enrollment found_enrollment [OF e(1)]) simp_all
qed

lemma change_roster_state_keeps:
  assumes "change_roster_state db tenant actor cohort person state = Inr db'" "\<not> is_admin db tenant actor"
  shows "keeps_staff db db'"
proof (rule set_roster_state_keeps [of db tenant cohort person state])
  show "set_roster_state db tenant cohort person state = Inr db'"
    using assms(1) by (simp add: change_roster_state_def split: option.splits if_splits)
  show "en_role e = ''student''" if "find_enrollment db tenant cohort person = Some e" for e
    using assms that by (simp add: change_roster_state_def split: if_splits)
qed

text \<open>The invitation of a student.\<close>

lemma place_member_keeps:
  assumes "place_member db tenant p ''student'' c False = (db', r)"
  shows "keeps_staff db db' \<and>
    (isl r \<or> (\<exists>e. find_enrollment db' tenant (ch_id c) (pe_id p) = Some e \<and> en_status e = ''active''))"
proof (cases "find_enrollment db tenant (ch_id c) (pe_id p)")
  case None
  then have "db' = new_enrollment tenant (ch_id c) (pe_id p) None ''student'' db"
    using assms by (simp add: place_member_def member_role_def Let_def)
  moreover have "find_enrollment (new_enrollment tenant (ch_id c) (pe_id p) None ''student'' db) tenant (ch_id c) (pe_id p)
      = Some (last (enrollments (new_enrollment tenant (ch_id c) (pe_id p) None ''student'' db)))"
    using None by (simp add: find_enrollment_def new_enrollment_def find_append member_of_def)
  ultimately show ?thesis using keeps_new_enrollment by (simp add: new_enrollment_def)
next
  case (Some e)
  define e1 where "e1 = (if en_role e = ''instructor'' then e else e\<lparr>en_role := ''student''\<rparr>)"
  define db1 where "db1 = update_enrollment (en_id e) (\<lambda>r. r\<lparr>en_role := en_role e1\<rparr>) db"
  have kept: "keeps_staff db db1" unfolding db1_def
    by (rule keeps_update_enrollment [OF found_enrollment [OF Some]]) (auto simp: staff_on_hold_def e1_def)
  have "e\<lparr>en_role := en_role e1\<rparr> = e1" by (simp add: e1_def)
  then have found: "find_enrollment db1 tenant (ch_id c) (pe_id p) = Some e1"
    using find_updated_enrollment [OF Some, of "\<lambda>r. r\<lparr>en_role := en_role e1\<rparr>"] by (simp add: db1_def)
  have outcome: "(\<exists>x. activate_enrollment db1 e1 False = Inl x \<and> db' = db1 \<and> isl r)
      \<or> (\<exists>k. activate_enrollment db1 e1 False = Inr (db', k) \<and> \<not> isl r)"
    using assms Some by (auto simp: place_member_def member_role_def Let_def e1_def db1_def split: sum.splits if_splits)
  then show ?thesis
  proof (elim disjE exE conjE)
    fix k assume "activate_enrollment db1 e1 False = Inr (db', k)"
    from activate_enrollment_keeps [OF this found] show ?thesis using keeps_staff_trans [OF kept] by blast
  qed (use kept in simp)
qed

lemma apply_assignment_keeps:
  assumes "apply_assignment db tenant p ''student'' False a = (db', r)" "as_courses a = []"
  shows "keeps_staff db db'"
proof -
  obtain db1 r1 where place: "place_member db tenant p ''student'' (as_cohort a) False = (db1, r1)" by fastforce
  note kept = place_member_keeps [OF place]
  consider "db' = db1"
    | e t db2 where "\<not> isl r1" "find_enrollment db1 tenant (ch_id (as_cohort a)) (pe_id p) = Some e"
        "ensure_track_offerings (update_enrollment (en_id e) (\<lambda>r. r\<lparr>en_track := Some t\<rparr>) db1) tenant (ch_id (as_cohort a)) t = Inr db2"
        "db' = db2"
    using assms place
    by (auto simp: apply_assignment_def Let_def result_simps split: sum.splits option.splits)
  then show ?thesis
  proof cases
    case 1
    then show ?thesis using kept by simp
  next
    case (2 e t db2)
    then have "en_status e = ''active''" using kept by auto
    then have "keeps_staff db1 (update_enrollment (en_id e) (\<lambda>r. r\<lparr>en_track := Some t\<rparr>) db1)"
      by (intro keeps_update_enrollment found_enrollment [OF 2(2)]) (auto simp: staff_on_hold_def)
    moreover have "keeps_staff (update_enrollment (en_id e) (\<lambda>r. r\<lparr>en_track := Some t\<rparr>) db1) db'"
      using ensure_track_offerings_same [OF 2(3)] same_enrollments_keeps 2(4) by simp
    ultimately show ?thesis using kept keeps_staff_trans by blast
  qed
qed

lemma provision_person_same [staff_frame]:
  assumes "provision_person db tenant canonical first_name last_name = Inr (db', p, created)"
  shows "same_enrollments db db'"
proof (cases "person_for_email db tenant canonical")
  case None
  then show ?thesis using assms
    by (auto simp: provision_person_def Let_def result_simps add_person_def same_enrollments_def)
next
  case (Some q)
  then have "sync_credential_emails db q = Inr db'" using assms by (auto simp: provision_person_def result_simps)
  then show ?thesis by (rule sync_credential_emails_same)
qed

lemma ensure_role_same [staff_frame]: "ensure_role db tenant person role = Inr db' \<Longrightarrow> same_enrollments db db'"
  by (auto simp: ensure_role_def split: if_splits intro: staff_frame)

lemma apply_one_assignment_keeps:
  assumes "apply_assignments db tenant p ''student'' False [a] = (db', r)" "as_courses a = []"
  shows "keeps_staff db db'"
proof -
  obtain db1 r1 where a: "apply_assignment db tenant p ''student'' False a = (db1, r1)" by fastforce
  then have "db' = db \<or> db' = db1" using assms(1) by (auto split: if_splits sum.splits)
  then show ?thesis using apply_assignment_keeps [OF a assms(2)] by auto
qed

lemma invite_and_enroll_keeps:
  assumes "invite_and_enroll ht db now raw tenant email first_name last_name ''student'' False [a] = (db', r)"
    and "as_courses a = []"
  shows "keeps_staff db db'"
proof (cases "normalize_email email = ''''")
  case True
  then show ?thesis using assms(1) by (simp add: invite_and_enroll_def)
next
  case False
  show ?thesis
  proof (cases "provision_person db tenant (normalize_email email) first_name last_name")
    case (Inl x)
    then show ?thesis using assms(1) False by (simp add: invite_and_enroll_def Let_def)
  next
    case (Inr y)
    obtain db1 p created where y: "y = (db1, p, created)" by (metis prod_cases3)
    note prov = Inr [unfolded y]
    have k1: "keeps_staff db db1" using provision_person_same [OF prov] same_enrollments_keeps by blast
    show ?thesis
    proof (cases "ensure_role db1 tenant (pe_id p) ''student''")
      case (Inl x)
      then show ?thesis using assms(1) False prov k1 by (simp add: invite_and_enroll_def Let_def)
    next
      case role: (Inr db2)
      obtain db3 s where ap: "apply_assignments db2 tenant p ''student'' False [a] = (db3, s)" by fastforce
      have k3: "keeps_staff db db3"
        using k1 ensure_role_same [OF role] same_enrollments_keeps apply_one_assignment_keeps [OF ap assms(2)]
          keeps_staff_trans by blast
      have "db' = db3 \<or> issue_invite_for_person ht db3 now tenant (pe_id p) raw = Inr db'"
        using assms(1) False prov role ap
        by (auto simp: invite_and_enroll_def Let_def result_simps simp del: apply_assignments.simps split: sum.splits if_splits)
      then show ?thesis using k3 issue_invite_same same_enrollments_keeps keeps_staff_trans by blast
    qed
  qed
qed

lemma invite_student_keeps:
  assumes "invite_student ht db now raw tenant actor cohort track email first_name last_name = Inr (db', r)"
    and "\<not> is_admin db tenant actor"
  shows "keeps_staff db db'"
proof -
  let ?finish = "\<lambda>x. case x of
         (db1, Inl (BadRequestError m)) \<Rightarrow> Inr (db1, Inl m)
       | (db1, Inl x) \<Rightarrow> Inl x
       | (db1, Inr r) \<Rightarrow>
           Inr (case ir_token r of
                  None \<Rightarrow> db1
                | Some t \<Rightarrow> fst (enqueue_email db1 now tenant (account_invite_key ht (pe_id (ir_person r)) t) ''account_invite''
                                 (pe_email (ir_person r)) (JObj [])),
                Inr r)"
  obtain c tr where "?finish (invite_and_enroll ht db now raw tenant email first_name last_name ''student'' False
        [\<lparr>as_cohort = c, as_courses = [], as_track = tr\<rparr>]) = Inr (db', r)"
    using assms by (auto simp: invite_student_def and_then_eq_Inr)
  moreover obtain db1 s where i: "invite_and_enroll ht db now raw tenant email first_name last_name ''student'' False
        [\<lparr>as_cohort = c, as_courses = [], as_track = tr\<rparr>] = (db1, s)" by fastforce
  ultimately have fini: "?finish (db1, s) = Inr (db', r)" by simp
  have fin: "db' = db1 \<or> (\<exists>key kind to payload. db' = fst (enqueue_email db1 now tenant key kind to payload))"
  proof (cases s)
    case (Inl x)
    then show ?thesis using fini by (cases x) auto
  next
    case (Inr a)
    then show ?thesis using fini by (cases "ir_token a") auto
  qed
  have "keeps_staff db db1" by (rule invite_and_enroll_keeps [OF i]) simp
  then show ?thesis using fin enqueue_email_same same_enrollments_keeps keeps_staff_trans by blast
qed

text \<open>C28. Only an administrator reactivates a staff enrolment: no bulk enrolment, roster change or
  student invitation by anybody else touches an instructor's enrolment that is dropped or
  waitlisted, whatever emails and tracks are submitted; the row stays in the store as it was.
\<close>

theorem only_admins_reactivate_staff:
  assumes "enrollments_ok db" "e \<in> set (enrollments db)" "staff_on_hold e" "\<not> is_admin db tenant actor"
    and "bulk_enroll db tenant cohort emails (is_admin db tenant actor) track = Inr (db', report)
       \<or> change_roster_state db tenant actor cohort person state = Inr db'
       \<or> invite_student ht db now raw tenant actor cohort track email first_name last_name = Inr (db', outcome)"
  shows "e \<in> set (enrollments db') \<and> enrollments_ok db'"
proof -
  have "keeps_staff db db'"
    using assms(4,5) bulk_enroll_keeps change_roster_state_keeps invite_student_keeps by (elim disjE) auto
  then show ?thesis using assms(1,2,3) by (auto simp: keeps_staff_def)
qed

section \<open>What a facilitator may teach\<close>

definition grants_course :: "academy_db \<Rightarrow> uuid \<Rightarrow> nomination_row \<Rightarrow> bool" where
  "grants_course db offering n =
     (fn_scope n = ''course'' \<and> fn_offering n = Some offering
      \<and> (\<exists>r. joined_offering db n = Some r \<and> of_status r = ''active''))"

definition grants_snapshot :: "academy_db \<Rightarrow> uuid \<Rightarrow> nomination_row \<Rightarrow> bool" where
  "grants_snapshot db offering n =
     (fn_scope n = ''cohort''
      \<and> (\<exists>q \<in> set (requirements_of db n). \<exists>r \<in> set (offerings db).
           of_tenant r = fn_tenant n \<and> of_id r = offering \<and> of_course r = fr_course q \<and> Some (of_cohort r) = fn_cohort n
           \<and> of_status r = ''active''))"

definition grants_by_role :: "academy_db \<Rightarrow> uuid \<Rightarrow> uuid \<Rightarrow> uuid \<Rightarrow> bool" where
  "grants_by_role db tenant person offering =
     (''admin'' \<in> role_slugs db tenant person
      \<or> ''instructor'' \<in> role_slugs db tenant person \<and> offering \<in> set (legacy_offerings db tenant person))"

lemma in_somes [simp]: "x \<in> somes xs \<longleftrightarrow> Some x \<in> set xs"
  by (force simp: somes_def split: option.splits)

lemma course_grants:
  "offering \<in> fa_offering_ids (facilitator_access_of db tenant person)
   \<longleftrightarrow> (\<exists>n \<in> set (nominations db). own_active tenant person n \<and> grants_course db offering n)"
  by (auto simp: facilitator_access_of_def Let_def effective_nominations_def grants_course_def image_iff)

lemma snapshot_grants:
  "offering \<in> fa_cohort_offering_ids (facilitator_access_of db tenant person)
   \<longleftrightarrow> (\<exists>n \<in> set (nominations db). own_active tenant person n \<and> grants_snapshot db offering n)"
  by (fastforce simp: facilitator_access_of_def Let_def snapshot_offerings_def grants_snapshot_def requirements_of_def own_active_def)

lemma allows_offering_iff:
  "allows_offering (facilitator_access_of db tenant person) offering \<longleftrightarrow>
     grants_by_role db tenant person offering
     \<or> (\<exists>n \<in> set (nominations db). own_active tenant person n \<and> (grants_course db offering n \<or> grants_snapshot db offering n))"
proof -
  have "fa_is_admin (facilitator_access_of db tenant person) = (''admin'' \<in> role_slugs db tenant person)"
    "fa_legacy_offering_ids (facilitator_access_of db tenant person)
       = (if ''instructor'' \<in> role_slugs db tenant person then set (legacy_offerings db tenant person) else {})"
    by (simp_all add: facilitator_access_of_def Let_def)
  then show ?thesis
    unfolding allows_offering_def grants_by_role_def by (auto simp: course_grants snapshot_grants)
qed

lemma activation_loop_keeps_staffing:
  "activation_loop db now actor ns = Inr (db', rs) \<Longrightarrow>
   person_roles db' = person_roles db \<and> offerings db' = offerings db \<and> enrollments db' = enrollments db"
proof (induction ns arbitrary: db rs)
  case (Cons n ns)
  let ?db1 = "if eligible db n then activate_nomination db now actor n else db"
  obtain rs' where "activation_loop ?db1 now actor ns = Inr (db', rs')"
    using Cons.prems by (auto simp: Let_def and_then_eq_Inr split: if_splits)
  from Cons.IH [OF this] show ?case
    by (simp add: activate_nomination_def write_audit_event_def Let_def split: if_splits)
qed simp

text \<open>The requirement snapshot of a course nomination contains the course of its offering. Nominating keeps it so, for a
  new nomination and for one reopened after a revocation; so does activation.\<close>

definition snapshots_cover :: "academy_db \<Rightarrow> bool" where
  "snapshots_cover db =
     (\<forall>n \<in> set (nominations db). \<forall>r. fn_scope n = ''course'' \<and> joined_offering db n = Some r \<longrightarrow>
        of_course r \<in> fr_course ` set (requirements_of db n))"

lemma cover_step:
  assumes "snapshots_cover db" "offerings db' = offerings db" "set (requirements db) \<subseteq> set (requirements db')"
    and "\<And>n'. n' \<in> set (nominations db') \<Longrightarrow> \<exists>n \<in> set (nominations db).
      fn_scope n' = fn_scope n \<and> fn_offering n' = fn_offering n \<and> fn_tenant n' = fn_tenant n \<and> fn_id n' = fn_id n"
  shows "snapshots_cover db'"
  unfolding snapshots_cover_def
proof (intro ballI allI impI)
  fix n' r assume n': "n' \<in> set (nominations db')" "fn_scope n' = ''course'' \<and> joined_offering db' n' = Some r"
  from assms(4) [OF n'(1)] obtain n where n: "n \<in> set (nominations db)" "fn_scope n' = fn_scope n" "fn_offering n' = fn_offering n"
    "fn_tenant n' = fn_tenant n" "fn_id n' = fn_id n" by blast
  have "joined_offering db n = Some r" using n' n assms(2) by (simp add: joined_offering_def split: option.splits)
  with assms(1) n n' have "of_course r \<in> fr_course ` set (requirements_of db n)" by (simp add: snapshots_cover_def)
  then show "of_course r \<in> fr_course ` set (requirements_of db' n')" using assms(3) n by (auto simp: requirements_of_def)
qed

lemma activation_keeps_cover:
  "activation_loop db now actor ns = Inr (db', rs) \<Longrightarrow> snapshots_cover db \<Longrightarrow> snapshots_cover db'"
proof (induction ns arbitrary: db rs)
  case (Cons n ns)
  let ?db1 = "if eligible db n then activate_nomination db now actor n else db"
  obtain rs' where r: "activation_loop ?db1 now actor ns = Inr (db', rs')"
    using Cons.prems by (auto simp: Let_def and_then_eq_Inr split: if_splits)
  have "snapshots_cover (activate_nomination db now actor n)"
    by (rule cover_step [OF Cons.prems(2)])
       (auto simp: activate_nomination_effect(3) activate_nomination_def write_audit_event_def Let_def set_update_rows activate_row_def)
  with Cons.prems(2) have "snapshots_cover ?db1" by simp
  from Cons.IH [OF r this] show ?case .
qed simp

lemma activate_eligible_keeps_cover:
  "activate_eligible db now tenant sel = Inr (db', rs) \<Longrightarrow> snapshots_cover db \<Longrightarrow> snapshots_cover db'"
  using activate_eligible_loop activation_keeps_cover by metis

lemma add_requirements_effect:
  "offerings (add_requirements db t i cs) = offerings db" "nominations (add_requirements db t i cs) = nominations db"
  "set (requirements (add_requirements db t i cs)) \<supseteq> set (requirements db)"
  "c \<in> set cs \<Longrightarrow> \<exists>q \<in> set (requirements (add_requirements db t i cs)). fr_tenant q = t \<and> fr_nomination q = i \<and> fr_course q = c"
proof -
  have "offerings (add_requirements db t i cs) = offerings db \<and> nominations (add_requirements db t i cs) = nominations db
    \<and> set (requirements db) \<subseteq> set (requirements (add_requirements db t i cs))
    \<and> (\<forall>c \<in> set cs. \<exists>q \<in> set (requirements (add_requirements db t i cs)). fr_tenant q = t \<and> fr_nomination q = i \<and> fr_course q = c)"
  proof (induction cs arbitrary: db)
    case (Cons d ds)
    let ?db = "db\<lparr>requirements := requirements db @ [\<lparr>fr_id = next_id db, fr_tenant = t, fr_nomination = i, fr_course = d\<rparr>], next_id := Suc (next_id db)\<rparr>"
    let ?r = "\<lparr>fr_id = next_id db, fr_tenant = t, fr_nomination = i, fr_course = d\<rparr>"
    from Cons.IH [of ?db] have "?r \<in> set (requirements (add_requirements ?db t i ds))" by simp
    moreover have "fr_tenant ?r = t \<and> fr_nomination ?r = i \<and> fr_course ?r = d" by simp
    ultimately have "\<exists>q \<in> set (requirements (add_requirements ?db t i ds)). fr_tenant q = t \<and> fr_nomination q = i \<and> fr_course q = d" by blast
    with Cons.IH [of ?db] show ?case by simp
  qed simp
  then show "offerings (add_requirements db t i cs) = offerings db" "nominations (add_requirements db t i cs) = nominations db"
    "set (requirements (add_requirements db t i cs)) \<supseteq> set (requirements db)"
    "c \<in> set cs \<Longrightarrow> \<exists>q \<in> set (requirements (add_requirements db t i cs)). fr_tenant q = t \<and> fr_nomination q = i \<and> fr_course q = c"
    by blast+
qed

lemma open_nomination_keeps_cover:
  assumes "open_nomination db now c n created cs = Inr (db', out)"
    and "snapshots_cover (add_requirements db (nc_tenant c) (fn_id n) cs)"
  shows "snapshots_cover db'"
proof -
  obtain db1 db2 rs where n: "notify (add_requirements db (nc_tenant c) (fn_id n) cs) now (nc_tenant c) (nc_person c)
          ''facilitator_nomination'' ''You have been nominated as a facilitator'' (Some ''/learn'') = Inr db1"
    and a: "activate_eligible db2 now (nc_tenant c) (ByNomination (fn_id n) (Some (nc_actor c))) = Inr (db', rs)"
    and s: "offerings db2 = offerings db1" "nominations db2 = nominations db1" "requirements db2 = requirements db1"
    using assms(1) by (fastforce simp: open_nomination_def Let_def and_then_eq_Inr write_audit_event_def)
  have "offerings db1 = offerings (add_requirements db (nc_tenant c) (fn_id n) cs)
      \<and> nominations db1 = nominations (add_requirements db (nc_tenant c) (fn_id n) cs)
      \<and> requirements db1 = requirements (add_requirements db (nc_tenant c) (fn_id n) cs)"
    using n by (auto simp: notify_def Let_def ensure_def split: if_splits)
  with s have "snapshots_cover db2" by (intro cover_step [OF assms(2)]) auto
  from activate_eligible_keeps_cover [OF a this] show ?thesis .
qed

lemma nominated_target_covered:
  assumes tc: "target_courses db c = Inr (cohort, offering, cs)" and o': "offerings db1 = offerings db"
    and n: "nomination_matches c n" "fn_scope n = ''course''" "joined_offering db1 n = Some r"
  shows "of_course r \<in> set cs"
proof -
  have sc: "nc_scope c = CourseScope" using n(1,2) by (cases "nc_scope c") (auto simp: nomination_matches_def)
  then obtain o'' where f: "find (\<lambda>o'. of_tenant o' = nc_tenant c \<and> Some (of_id o') = nc_offering c) (offerings db) = Some o''"
    and cs: "cs = [of_course o'']"
    using tc by (auto simp: target_courses_def split: option.splits if_splits)
  obtain i where i: "nc_offering c = Some i" using tc sc by (auto simp: target_courses_def split: if_splits)
  have "find (\<lambda>o'. of_tenant o' = nc_tenant c \<and> of_id o' = i) (offerings db) = Some r"
    using n sc i by (simp add: joined_offering_def nomination_matches_def o')
  with f cs i show ?thesis by simp
qed

lemma added_requirement_covers:
  assumes rest: "\<And>m r. m \<in> set (nominations db) \<Longrightarrow> fn_id m \<noteq> fn_id n \<Longrightarrow> fn_scope m = ''course'' \<Longrightarrow> joined_offering db m = Some r \<Longrightarrow>
      of_course r \<in> fr_course ` set (requirements_of db m)"
    and new: "\<And>m r. m \<in> set (nominations db) \<Longrightarrow> fn_id m = fn_id n \<Longrightarrow> fn_scope m = ''course'' \<Longrightarrow> joined_offering db m = Some r \<Longrightarrow>
      of_course r \<in> fr_course ` set (requirements_of db m) \<or> fn_tenant m = t \<and> of_course r \<in> set cs"
  shows "snapshots_cover (add_requirements db t (fn_id n) cs)"
  unfolding snapshots_cover_def
proof (intro ballI allI impI)
  fix m r assume m: "m \<in> set (nominations (add_requirements db t (fn_id n) cs))"
    "fn_scope m = ''course'' \<and> joined_offering (add_requirements db t (fn_id n) cs) m = Some r"
  have m': "m \<in> set (nominations db)" "fn_scope m = ''course''" "joined_offering db m = Some r"
    using m by (simp_all add: add_requirements_effect joined_offering_def split: option.splits)
  consider "of_course r \<in> fr_course ` set (requirements_of db m)" | "fn_id m = fn_id n" "fn_tenant m = t" "of_course r \<in> set cs"
    using rest [OF m'(1) _ m'(2,3)] new [OF m'(1) _ m'(2,3)] by blast
  then show "of_course r \<in> fr_course ` set (requirements_of (add_requirements db t (fn_id n) cs) m)"
  proof cases
    case 1
    then show ?thesis using add_requirements_effect(3) [of db t "fn_id n" cs] by (auto simp: requirements_of_def)
  next
    case 2
    from add_requirements_effect(4) [OF 2(3), of db t "fn_id n"] 2 show ?thesis by (force simp: requirements_of_def)
  qed
qed

theorem nominating_keeps_snapshots:
  assumes nom: "nominate db now c = Inr (db', out)" and cov: "snapshots_cover db"
    and ids: "distinct (map fn_id (nominations db))" "\<forall>n \<in> set (nominations db). fn_id n < next_id db"
  shows "snapshots_cover db'"
proof -
  obtain cohort offering cs db1 created n where tc: "target_courses db c = Inr (cohort, offering, cs)"
    and ins: "insert_nomination db now c cohort offering = (db1, created)"
    and n: "find (nomination_matches c) (nominations db1) = Some n"
    and run: "if created then open_nomination db1 now c n True cs = Inr (db', out)
       else if fn_status n \<noteq> ''revoked'' then db' = db1
       else open_nomination (db1\<lparr>nominations := update_rows (\<lambda>m. fn_id m = fn_id n) (reset_nomination c) (nominations db1),
                               requirements := filter (\<lambda>r. \<not> (fr_tenant r = nc_tenant c \<and> fr_nomination r = fn_id n))
                                                 (requirements db1)\<rparr>) now c (reset_nomination c n) False cs = Inr (db', out)"
  proof -
    obtain cohort offering cs where tc: "target_courses db c = Inr (cohort, offering, cs)"
      using nom by (auto simp: nominate_def and_then_eq_Inr)
    obtain db1 created where ins: "insert_nomination db now c cohort offering = (db1, created)" by (metis surj_pair)
    obtain n where n: "find (nomination_matches c) (nominations db1) = Some n"
      using nom tc ins by (cases "find (nomination_matches c) (nominations db1)") (simp_all add: nominate_def and_then_eq_Inr)
    show thesis by (rule that [OF tc ins n]) (use nom tc ins n in \<open>auto simp: nominate_def and_then_eq_Inr Let_def\<close>)
  qed
  have tgt: "offering = (case nc_scope c of CourseScope \<Rightarrow> nc_offering c | CohortScope \<Rightarrow> None)"
    "cohort = (case nc_scope c of CourseScope \<Rightarrow> None | CohortScope \<Rightarrow> nc_cohort c)"
    using tc by (auto simp: target_courses_def split: facilitator_scope.splits if_splits option.splits dest!: find_Some_in)
  note nm = find_Some_in [OF n]
  show ?thesis
  proof (cases created)
    case True
    let ?new = "\<lparr>fn_id = next_id db, fn_tenant = nc_tenant c, fn_person = nc_person c, fn_nominated_by = Some (nc_actor c),
                   fn_scope = scope_value (nc_scope c), fn_cohort = cohort, fn_offering = offering, fn_status = ''pending'',
                   fn_activated_at = None, fn_revoked_at = None, fn_activation_reason = None, fn_created_at = now\<rparr>"
    from ins True have db1: "db1 = db\<lparr>nominations := nominations db @ [?new], next_id := Suc (next_id db)\<rparr>"
      and fresh: "\<not> list_ex (nomination_matches c) (nominations db)"
      using tgt by (auto simp: insert_nomination_def nomination_matches_def list_ex_iff split: if_splits facilitator_scope.splits)
    have "n \<notin> set (nominations db)" using nm fresh by (auto simp: list_ex_iff)
    then have nn: "n = ?new" using nm db1 by auto
    have "snapshots_cover (add_requirements db1 (nc_tenant c) (fn_id n) cs)"
    proof (rule added_requirement_covers)
      fix m r assume m: "m \<in> set (nominations db1)" "fn_id m \<noteq> fn_id n" "fn_scope m = ''course''" "joined_offering db1 m = Some r"
      then have "m \<in> set (nominations db)" using db1 nn by auto
      with cov m db1 show "of_course r \<in> fr_course ` set (requirements_of db1 m)"
        by (auto simp: snapshots_cover_def joined_offering_def requirements_of_def split: option.splits)
    next
      fix m r assume m: "m \<in> set (nominations db1)" "fn_id m = fn_id n" "fn_scope m = ''course''" "joined_offering db1 m = Some r"
      with ids(2) have "m = n" using db1 nn by auto
      with nominated_target_covered [OF tc _ _ m(3,4)] nm db1 nn
      show "of_course r \<in> fr_course ` set (requirements_of db1 m) \<or> fn_tenant m = nc_tenant c \<and> of_course r \<in> set cs" by simp
    qed
    with open_nomination_keeps_cover run True show ?thesis by simp
  next
    case False
    with ins have db1: "db1 = db" by (auto simp: insert_nomination_def split: if_splits)
    show ?thesis
    proof (cases "fn_status n = ''revoked''")
      case nr: False
      with run False cov db1 show ?thesis by simp
    next
      case True
      let ?db2 = "db\<lparr>nominations := update_rows (\<lambda>m. fn_id m = fn_id n) (reset_nomination c) (nominations db),
                      requirements := filter (\<lambda>r. \<not> (fr_tenant r = nc_tenant c \<and> fr_nomination r = fn_id n)) (requirements db)\<rparr>"
      have same: "m = n" if "m \<in> set (nominations db)" "fn_id m = fn_id n" for m
        using that nm ids(1) db1 by (metis distinct_map inj_on_def)
      have "snapshots_cover (add_requirements ?db2 (nc_tenant c) (fn_id (reset_nomination c n)) cs)"
      proof (rule added_requirement_covers)
        fix m r assume m: "m \<in> set (nominations ?db2)" "fn_id m \<noteq> fn_id (reset_nomination c n)" "fn_scope m = ''course''" "joined_offering ?db2 m = Some r"
        then have md: "m \<in> set (nominations db)" "fn_id m \<noteq> fn_id n" by (auto simp: set_update_rows reset_nomination_def)
        have "joined_offering db m = Some r" using m(4) by (simp add: joined_offering_def split: option.splits)
        with cov m(3) md(1) have "of_course r \<in> fr_course ` set (requirements_of db m)" by (simp add: snapshots_cover_def)
        moreover have "requirements_of ?db2 m = requirements_of db m"
          using md(2) by (auto simp: requirements_of_def intro!: filter_cong)
        ultimately show "of_course r \<in> fr_course ` set (requirements_of ?db2 m)" by simp
      next
        fix m r assume m: "m \<in> set (nominations ?db2)" "fn_id m = fn_id (reset_nomination c n)" "fn_scope m = ''course''" "joined_offering ?db2 m = Some r"
        then have mm: "m = reset_nomination c n" using same by (auto simp: set_update_rows reset_nomination_def)
        then have "nomination_matches c m" using nm by (auto simp: nomination_matches_def reset_nomination_def split: facilitator_scope.splits)
        with nominated_target_covered [OF tc _ _ m(3,4)] show "of_course r \<in> fr_course ` set (requirements_of ?db2 m)
            \<or> fn_tenant m = nc_tenant c \<and> of_course r \<in> set cs" by (simp add: nomination_matches_def)
      qed
      with open_nomination_keeps_cover run True False db1 show ?thesis by simp
    qed
  qed
qed

text \<open>C27. Nobody comes to teach what they have not completed: whatever triggers an activation, each
  offering a person may teach after it and could not teach before is active and belongs to a course that
  person has completed, and it is a nomination of that person, pending before and activated by this run,
  that grants it: a course nomination for this offering, or a cohort nomination for the offering's cohort
  whose requirement snapshot holds the course. The snapshots of course nominations are taken to hold
  the course of their offering; the run keeps this, and so does nominating
  (\<open>nominating_keeps_snapshots\<close>).
\<close>

theorem new_teaching_is_completed:
  assumes "activate_eligible db now tenant sel = Inr (db', rs)" "distinct (map fn_id (nominations db))" "snapshots_cover db"
    and "allows_offering (facilitator_access_of db' tenant person) offering"
    and "\<not> allows_offering (facilitator_access_of db tenant person) offering"
  shows "snapshots_cover db' \<and>
    (\<exists>r \<in> set (offerings db). \<exists>n \<in> set (nominations db).
       of_id r = offering \<and> of_tenant r = tenant \<and> of_status r = ''active''
       \<and> (\<exists>cc \<in> set (completions db). cc_tenant cc = tenant \<and> cc_person cc = person \<and> cc_course cc = of_course r
              \<and> cc_status cc = ''completed'')
       \<and> fn_tenant n = tenant \<and> fn_person n = person \<and> fn_status n = ''pending'' \<and> (fn_id n, True) \<in> set rs
       \<and> (fn_scope n = ''course'' \<and> fn_offering n = Some offering
          \<or> fn_scope n = ''cohort'' \<and> fn_cohort n = Some (of_cohort r)
             \<and> (\<exists>q \<in> set (requirements db). fr_tenant q = tenant \<and> fr_nomination q = fn_id n \<and> fr_course q = of_course r)))"
proof -
  note loop = activation_loop_keeps_staffing [OF activate_eligible_loop [OF assms(1)]]
    and facts = activation_loop_result [OF activate_eligible_loop [OF assms(1)]]
  have same: "grants_by_role db' tenant person offering = grants_by_role db tenant person offering"
    "joined_offering db' = joined_offering db" "requirements_of db' = requirements_of db"
    using loop facts
    by (auto simp: grants_by_role_def role_slugs_def legacy_offerings_def joined_offering_def requirements_of_def fun_eq_iff
        split: option.splits)
  then have grants: "grants_course db' = grants_course db" "grants_snapshot db' = grants_snapshot db"
    using loop by (simp_all add: grants_course_def grants_snapshot_def fun_eq_iff)
  obtain n' where n': "n' \<in> set (nominations db')" "own_active tenant person n'"
      "grants_course db offering n' \<or> grants_snapshot db offering n'"
    using assms(4,5) unfolding allows_offering_iff same grants by blast
  have "n' \<notin> set (nominations db)" using assms(5) n'(2,3) unfolding allows_offering_iff by blast
  then obtain n where n: "n \<in> set (nominations db)" "n' = activate_row now n" "fn_tenant n = tenant" "eligible db n"
      "(fn_id n, True) \<in> set rs"
    using facilitator_activated [OF assms(1,2) n'(1)] by blast
  have own: "fn_person n = person" using n'(2) n(2) by (simp add: own_active_def activate_row_def)
  have joined: "joined_offering db n' = joined_offering db n" "requirements_of db n' = requirements_of db n"
    "fn_scope n' = fn_scope n" "fn_offering n' = fn_offering n" "fn_cohort n' = fn_cohort n" "fn_tenant n' = tenant"
    using n(3) by (simp_all add: n(2) joined_offering_def requirements_of_def activate_row_def split: option.splits)
  obtain r where r: "r \<in> set (offerings db)" "of_id r = offering" "of_tenant r = tenant" "of_status r = ''active''"
      "of_course r \<in> fr_course ` set (requirements_of db n)"
      "fn_scope n = ''course'' \<and> fn_offering n = Some offering \<or> fn_scope n = ''cohort'' \<and> fn_cohort n = Some (of_cohort r)"
    using n'(3)
  proof
    assume g: "grants_course db offering n'"
    then obtain r where r: "joined_offering db n = Some r" "of_status r = ''active''" "fn_scope n = ''course''" "fn_offering n = Some offering"
      using joined by (auto simp: grants_course_def)
    then have "of_course r \<in> fr_course ` set (requirements_of db n)" using assms(3) n(1) by (auto simp: snapshots_cover_def)
    moreover have "r \<in> set (offerings db)" "of_id r = offering" "of_tenant r = tenant"
      using r n(3) by (auto simp: joined_offering_def dest: find_Some_in)
    ultimately show thesis using r that by blast
  next
    assume "grants_snapshot db offering n'"
    then show thesis using joined that by (auto simp: grants_snapshot_def)
  qed
  have "\<exists>q \<in> set (requirements db). fr_tenant q = tenant \<and> fr_nomination q = fn_id n \<and> fr_course q = of_course r"
    using r(5) n(3) by (auto simp: requirements_of_def)
  moreover have "course_completed db tenant person (of_course r)"
    using r(5) n(3,4) own by (auto simp: eligible_def list_all_iff requirements_of_def)
  then have "\<exists>cc \<in> set (completions db). cc_tenant cc = tenant \<and> cc_person cc = person \<and> cc_course cc = of_course r
      \<and> cc_status cc = ''completed''" by (simp add: course_completed_def list_ex_iff)
  moreover have "fn_status n = ''pending''" using n(4) by (simp add: eligible_def)
  moreover note activate_eligible_keeps_cover [OF assms(1,3)]
  ultimately show ?thesis using n(1,3,5) own r by blast
qed

section \<open>Witnesses\<close>

definition track_db :: academy_db where
  "track_db = empty_db\<lparr>
     tracks := [\<lparr>tr_id = 32, tr_tenant = 11, tr_slug = ''linux'', tr_name = ''Linux'', tr_status = ''active'', tr_created_at = 1\<rparr>],
     track_courses := [\<lparr>tc_id = 35, tc_tenant = 11, tc_track = 32, tc_course = 2, tc_order_index = 1\<rparr>,
                       \<lparr>tc_id = 36, tc_tenant = 11, tc_track = 32, tc_course = 4, tc_order_index = 2\<rparr>],
     next_id := 100\<rparr>"

theorem track_slug_search_ends_witness:
  "slug_taken track_db 11 (take 70 (slugify ''Linux'')) \<and>
   (\<exists>slug. unique_track_slug track_db 11 ''Linux'' = Some slug \<and> \<not> slug_taken track_db 11 slug \<and> length slug \<le> 80)"
proof -
  have "slug_taken track_db 11 (take 70 (slugify ''Linux''))" by code_simp
  moreover have "length (tracks track_db) < 10 ^ 78" by (simp add: track_db_def)
  ultimately show ?thesis using track_slug_search_ends [of track_db 11 "''Linux''"] by blast
qed

theorem reordered_track_reads_back_witness:
  "\<exists>db' t. reorder_track_courses track_db 11 32 [4, 2] = Inr (db', t)
     \<and> map tc_course (sort_key tc_order_index (courses_of_track db' 11 32)) = [4, 2]"
proof -
  have "\<not> isl (reorder_track_courses track_db 11 32 [4, 2])" by code_simp
  then obtain db' t where r: "reorder_track_courses track_db 11 32 [4, 2] = Inr (db', t)"
    by (metis isl_def sum.exhaust surj_pair)
  have "distinct (map tc_course (courses_of_track track_db 11 32))" by code_simp
  from conjunct1 [OF reordered_track_reads_back [OF r this]] r show ?thesis by (intro exI conjI)
qed

definition staff_row :: enrollment_row where
  "staff_row = \<lparr>en_id = 30, en_tenant = 11, en_cohort = 31, en_person = 7, en_track = None,
                en_role = ''instructor'', en_status = ''dropped'', en_access_ends_at = None\<rparr>"

definition staff_db :: academy_db where
  "staff_db = empty_db\<lparr>people := [sample_person], enrollments := [staff_row],
     cohorts := [\<lparr>ch_id = 31, ch_tenant = 11, ch_name = ''May'', ch_status = ''active'', ch_entrance_bank = None,
                  ch_entrance_time_limit = None, ch_auto_accept_threshold = None\<rparr>],
     next_id := 100\<rparr>"

theorem only_admins_reactivate_staff_witness:
  "\<exists>db' report. bulk_enroll staff_db 11 31 [pe_email sample_person] (is_admin staff_db 11 8) None = Inr (db', report)
     \<and> staff_row \<in> set (enrollments db')"
proof -
  have "\<not> isl (bulk_enroll staff_db 11 31 [pe_email sample_person] (is_admin staff_db 11 8) None)" by code_simp
  then obtain db' report where
    b: "bulk_enroll staff_db 11 31 [pe_email sample_person] (is_admin staff_db 11 8) None = Inr (db', report)"
    by (metis isl_def sum.exhaust surj_pair)
  have "enrollments_ok staff_db" "staff_row \<in> set (enrollments staff_db)" "staff_on_hold staff_row" "\<not> is_admin staff_db 11 8"
    by (simp_all add: enrollments_ok_def staff_db_def staff_row_def staff_on_hold_def is_admin_def role_slugs_def empty_db_def)
  from only_admins_reactivate_staff [OF this disjI1, OF b] b show ?thesis by blast
qed

definition teaching_db :: academy_db where
  "teaching_db = nominated_db\<lparr>offerings := offerings two_course_track\<rparr>"

theorem new_teaching_is_completed_witness:
  "\<exists>db' rs. activate_eligible teaching_db 60 11 (ByCompletedCourse 7 2) = Inr (db', rs)
     \<and> allows_offering (facilitator_access_of db' 11 7) 33
     \<and> (\<exists>r \<in> set (offerings teaching_db). \<exists>n \<in> set (nominations teaching_db). of_id r = 33 \<and> fn_status n = ''pending'' \<and> (fn_id n, True) \<in> set rs)"
proof -
  let ?act = "activate_eligible teaching_db 60 11 (ByCompletedCourse 7 2)"
  have taught: "case ?act of Inl _ \<Rightarrow> False | Inr (db', rs) \<Rightarrow> allows_offering (facilitator_access_of db' 11 7) 33" by code_simp
  then obtain db' rs where r: "?act = Inr (db', rs)" by (auto split: sum.splits)
  have h: "distinct (map fn_id (nominations teaching_db))" "snapshots_cover teaching_db"
    and na: "\<not> allows_offering (facilitator_access_of teaching_db 11 7) 33"
    by (auto simp: teaching_db_def nominated_db_def two_course_track_def snapshots_cover_def joined_offering_def
        requirements_of_def allows_offering_iff grants_by_role_def role_slugs_def empty_db_def own_active_def)
  have t: "allows_offering (facilitator_access_of db' 11 7) 33" using taught r by simp
  from new_teaching_is_completed [OF r h t na] obtain q n where "q \<in> set (offerings teaching_db)" "n \<in> set (nominations teaching_db)"
    "of_id q = 33" "fn_status n = ''pending''" "(fn_id n, True) \<in> set rs" by blast
  with r t show ?thesis by blast
qed

end
