(* ===== verification/Settings_Store.thy ===== *)
theory Settings_Store
  imports Accounts
begin

text \<open>
  \<open>services/settings_store.py\<close>: the stored platform settings merged over the environment's
  defaults. A value has the type its key calls for; the environment's part of the defaults
  (\<open>app.config.settings\<close>) is an argument.
\<close>

datatype setting = SStr string | SInt int | SBool bool

record env_settings =
  env_smtp_host :: string
  env_smtp_port :: int
  env_smtp_user :: string
  env_smtp_password :: string
  env_smtp_from :: string
  env_smtp_starttls :: bool
  env_management_inquiry_recipient :: string
  env_max_concurrent_labs :: int
  env_max_concurrent_labs_per_tenant :: int
  env_lab_idle_minutes :: int

definition INT_KEYS :: "string list" where
  "INT_KEYS =
     [''smtp_port'', ''max_concurrent_labs'', ''max_concurrent_labs_per_tenant'', ''lab_idle_minutes'',
      ''reminder_inactivity_days'', ''reminder_digest_hour'', ''reminder_digest_weekday'',
      ''success_inactive_days'', ''success_min_grade_pct'', ''success_certificate_grace_hours'',
      ''reminder_inactivity_max_nudges'']"

definition BOOL_KEYS :: "string list" where
  "BOOL_KEYS =
     [''smtp_starttls'', ''email_auto_on_pass'', ''email_digest_enabled'', ''reminders_enabled'', ''learner_digest_enabled'']"

definition INT_MINIMUMS :: "(string \<times> int) list" where
  "INT_MINIMUMS = [(''max_concurrent_labs'', 1), (''max_concurrent_labs_per_tenant'', 0), (''lab_idle_minutes'', 1)]"

definition ENV_ONLY_KEYS :: "string list" where
  "ENV_ONLY_KEYS = [''smtp_password'']"

definition default_settings :: "env_settings \<Rightarrow> (string \<times> setting) list" where
  "default_settings env =
     [(''smtp_host'', SStr (env_smtp_host env)), (''smtp_port'', SInt (env_smtp_port env)),
      (''smtp_user'', SStr (env_smtp_user env)), (''smtp_password'', SStr (env_smtp_password env)),
      (''smtp_from'', SStr (env_smtp_from env)), (''smtp_starttls'', SBool (env_smtp_starttls env)),
      (''email_auto_on_pass'', SBool True), (''success_inactive_days'', SInt 7), (''success_min_grade_pct'', SInt 60),
      (''success_certificate_grace_hours'', SInt 6), (''email_digest_enabled'', SBool True),
      (''branding_name'', SStr ''Dotmac Academy''),
      (''management_inquiry_recipient'', SStr (env_management_inquiry_recipient env)),
      (''max_concurrent_labs'', SInt (env_max_concurrent_labs env)),
      (''max_concurrent_labs_per_tenant'', SInt (env_max_concurrent_labs_per_tenant env)),
      (''lab_idle_minutes'', SInt (env_lab_idle_minutes env)), (''reminders_enabled'', SBool True),
      (''reminder_inactivity_days'', SInt 7), (''reminder_digest_hour'', SInt 7), (''reminder_digest_weekday'', SInt 0),
      (''reminder_inactivity_max_nudges'', SInt 4), (''learner_digest_enabled'', SBool False),
      (''entrance_questions_per_category'', SInt 0)]"

definition coerce_bool :: "string \<Rightarrow> bool" where
  "coerce_bool value = (py_lower (py_strip value) \<in> {''1'', ''true'', ''yes'', ''on''})"

definition coerce :: "string \<Rightarrow> string \<Rightarrow> setting \<Rightarrow> setting" where
  "coerce key value fallback =
     (if key \<in> set BOOL_KEYS then SBool (coerce_bool value)
      else if key \<in> set INT_KEYS
      then (case py_int value of
              None \<Rightarrow> fallback
            | Some parsed \<Rightarrow>
                (case map_of INT_MINIMUMS key of
                   None \<Rightarrow> SInt parsed
                 | Some minimum \<Rightarrow> if parsed < minimum then fallback else SInt parsed))
      else SStr value)"

text \<open>The table: one row per key, \<open>None\<close> for a null value.\<close>

type_synonym settings_table = "(string \<times> string option) list"

definition get_all :: "settings_table \<Rightarrow> (string \<times> string) list" where
  "get_all rows = concat (map (\<lambda>(k, v). case v of None \<Rightarrow> [] | Some s \<Rightarrow> [(k, s)]) rows)"

definition merge_setting :: "string \<times> string \<Rightarrow> (string \<times> setting) list \<Rightarrow> (string \<times> setting) list" where
  "merge_setting = (\<lambda>(key, raw) merged.
     case map_of merged key of
       Some current \<Rightarrow> if key \<notin> set ENV_ONLY_KEYS then AList.update key (coerce key raw current) merged else merged
     | None \<Rightarrow> merged)"

text \<open>\<open>None\<close>: no session, or the query failed.\<close>

definition effective :: "env_settings \<Rightarrow> settings_table option \<Rightarrow> (string \<times> setting) list" where
  "effective env rows =
     fold merge_setting (case rows of None \<Rightarrow> [] | Some t \<Rightarrow> get_all t) (default_settings env)"

definition checked_minimum :: "string \<times> string option \<Rightarrow> unit result" where
  "checked_minimum = (\<lambda>(key, value).
     case (map_of INT_MINIMUMS key, value) of
       (Some minimum, Some v) \<Rightarrow>
         if py_strip v = '''' then Inr ()
         else (case py_int v of
                 None \<Rightarrow> Inl (ValueError (key @ '' must be an integer''))
               | Some parsed \<Rightarrow>
                   if parsed < minimum then Inl (ValueError (key @ '' must be at least '' @ show_int minimum)) else Inr ())
     | _ \<Rightarrow> Inr ())"

fun check_minimums :: "(string \<times> string option) list \<Rightarrow> unit result" where
  "check_minimums [] = Inr ()"
| "check_minimums (v # vs) = and_then (checked_minimum v) (\<lambda>_. check_minimums vs)"

definition set_many :: "settings_table \<Rightarrow> (string \<times> string option) list \<Rightarrow> settings_table result" where
  "set_many rows values =
     (if list_ex (\<lambda>(k, _). k \<in> set ENV_ONLY_KEYS) values
      then Inl (ValueError ''smtp_password is environment-only and cannot be stored'')
      else and_then (check_minimums values) (\<lambda>_. Inr (fold (\<lambda>(k, v). AList.update k v) values rows)))"

definition delete_setting :: "settings_table \<Rightarrow> string \<Rightarrow> settings_table" where
  "delete_setting rows key = AList.delete key rows"

section \<open>What reading a setting gives\<close>

text \<open>The type each key calls for, with the minimum of the bounded integers.\<close>

definition well_typed :: "string \<Rightarrow> setting \<Rightarrow> bool" where
  "well_typed key v =
     (if key \<in> set BOOL_KEYS then (\<exists>b. v = SBool b)
      else if key \<in> set INT_KEYS
      then (\<exists>i. v = SInt i \<and> (case map_of INT_MINIMUMS key of None \<Rightarrow> True | Some m \<Rightarrow> m \<le> i))
      else if key = ''entrance_questions_per_category'' then (\<exists>i. v = SInt i) \<or> (\<exists>s. v = SStr s)
      else (\<exists>s. v = SStr s))"

definition sound_env :: "env_settings \<Rightarrow> bool" where
  "sound_env env =
     (1 \<le> env_max_concurrent_labs env \<and> 0 \<le> env_max_concurrent_labs_per_tenant env \<and> 1 \<le> env_lab_idle_minutes env)"

lemma coerce_well_typed: "well_typed key fallback \<Longrightarrow> well_typed key (coerce key value fallback)"
  by (auto simp: well_typed_def coerce_def split: option.splits)

lemma default_well_typed:
  assumes "sound_env env" "map_of (default_settings env) key = Some v"
  shows "well_typed key v"
  using assms
  by (auto simp: default_settings_def well_typed_def BOOL_KEYS_def INT_KEYS_def INT_MINIMUMS_def sound_env_def split: if_splits)

lemma merge_setting_lookup:
  "map_of (merge_setting (key, raw) merged) k =
     (if k = key \<and> key \<notin> set ENV_ONLY_KEYS then map_option (coerce key raw) (map_of merged key) else map_of merged k)"
  by (auto simp: merge_setting_def update_conv' split: option.splits)

lemma fold_merge_well_typed:
  "(\<forall>k v. map_of merged k = Some v \<longrightarrow> well_typed k v) \<Longrightarrow>
   map_of (fold merge_setting kvs merged) k = Some v \<Longrightarrow> well_typed k v"
proof (induction kvs arbitrary: merged)
  case (Cons kv kvs)
  obtain key raw where kv: "kv = (key, raw)" by force
  have "\<forall>k v. map_of (merge_setting kv merged) k = Some v \<longrightarrow> well_typed k v"
    using Cons.prems(1) unfolding kv by (auto simp: merge_setting_lookup coerce_well_typed split: if_splits)
  from Cons.IH [OF this] Cons.prems(2) show ?case by simp
qed simp

lemma fold_merge_keys: "dom (map_of (fold merge_setting kvs merged)) = dom (map_of merged)"
proof (induction kvs arbitrary: merged)
  case (Cons kv kvs)
  obtain key raw where "kv = (key, raw)" by force
  then have "dom (map_of (merge_setting kv merged)) = dom (map_of merged)"
    by (auto simp: merge_setting_lookup dom_def split: if_splits)
  with Cons show ?case by simp
qed simp

text \<open>The keys by type, and the minimums, as the property names them.\<close>

definition boolean_settings :: "string set" where
  "boolean_settings = {''smtp_starttls'', ''email_auto_on_pass'', ''email_digest_enabled'', ''reminders_enabled'', ''learner_digest_enabled''}"

definition integer_settings :: "string set" where
  "integer_settings = {''smtp_port'', ''max_concurrent_labs'', ''max_concurrent_labs_per_tenant'', ''lab_idle_minutes'',
      ''reminder_inactivity_days'', ''reminder_digest_hour'', ''reminder_digest_weekday'', ''success_inactive_days'',
      ''success_min_grade_pct'', ''success_certificate_grace_hours'', ''reminder_inactivity_max_nudges''}"

definition below_minimum :: "string \<Rightarrow> int \<Rightarrow> bool" where
  "below_minimum key i \<longleftrightarrow>
     key \<in> {''max_concurrent_labs'', ''lab_idle_minutes''} \<and> i < 1 \<or> key = ''max_concurrent_labs_per_tenant'' \<and> i < 0"

definition read_setting :: "string \<Rightarrow> setting \<Rightarrow> string option \<Rightarrow> setting" where
  "read_setting key d stored =
     (case stored of
        None \<Rightarrow> d
      | Some s \<Rightarrow>
          if key = ''smtp_password'' then d
          else if key \<in> boolean_settings then SBool (py_lower (py_strip s) \<in> {''1'', ''true'', ''yes'', ''on''})
          else if key \<in> integer_settings
          then (case py_int s of None \<Rightarrow> d | Some i \<Rightarrow> if below_minimum key i then d else SInt i)
          else SStr s)"

lemma coerce_reads: "key \<noteq> ''smtp_password'' \<Longrightarrow> coerce key s d = read_setting key d (Some s)"
proof -
  assume k: "key \<noteq> ''smtp_password''"
  have b: "key \<in> set BOOL_KEYS \<longleftrightarrow> key \<in> boolean_settings" "key \<in> set INT_KEYS \<longleftrightarrow> key \<in> integer_settings"
    by (auto simp: BOOL_KEYS_def INT_KEYS_def boolean_settings_def integer_settings_def)
  have m: "(case map_of INT_MINIMUMS key of None \<Rightarrow> SInt i | Some n \<Rightarrow> if i < n then d else SInt i)
      = (if below_minimum key i then d else SInt i)" for i
    by (simp add: INT_MINIMUMS_def below_minimum_def)
  show ?thesis unfolding coerce_def read_setting_def b m using k by (simp add: coerce_bool_def)
qed

lemma fold_merge_lookup:
  assumes "distinct (map fst kvs)"
  shows "map_of (fold merge_setting kvs merged) k = map_option (\<lambda>d. read_setting k d (map_of kvs k)) (map_of merged k)"
  using assms
proof (induction kvs arbitrary: merged)
  case Nil
  show ?case by (simp add: read_setting_def option.map_ident)
next
  case (Cons kv kvs)
  obtain key raw where kv: "kv = (key, raw)" by force
  have "k = key \<Longrightarrow> map_of kvs k = None" using Cons.prems by (auto simp: kv map_of_eq_None_iff)
  moreover have "read_setting ''smtp_password'' d s = d" for d s by (simp add: read_setting_def split: option.split)
  ultimately show ?case
    using Cons.IH [of "merge_setting kv merged"] Cons.prems
    by (cases "k = ''smtp_password''")
       (auto simp: kv merge_setting_lookup ENV_ONLY_KEYS_def coerce_reads option.map_comp comp_def read_setting_def [of _ _ None]
          split: option.split)
qed

lemma stored_keys: "set (map fst (get_all t)) \<subseteq> set (map fst t)"
  by (force simp: get_all_def split: option.splits)

lemma get_all_lookup:
  "distinct (map fst t) \<Longrightarrow> distinct (map fst (get_all t)) \<and> map_of (get_all t) k = (case map_of t k of None \<Rightarrow> None | Some v \<Rightarrow> v)"
proof (induction t)
  case (Cons r t)
  obtain key v where r: "r = (key, v)" by force
  from Cons.prems have n: "key \<notin> set (map fst t)" "distinct (map fst t)" by (simp_all add: r)
  then have g: "key \<notin> set (map fst (get_all t))" using stored_keys by blast
  have e: "get_all ((key, v) # t) = (case v of None \<Rightarrow> get_all t | Some s \<Rightarrow> (key, s) # get_all t)"
    by (simp add: get_all_def split: option.split)
  have "map_of t key = None" "map_of (get_all t) key = None" using n g by (simp_all add: map_of_eq_None_iff)
  with Cons.IH n g show ?case unfolding r e by (cases v) auto
qed (simp add: get_all_def)

text \<open>C29. The effective settings, exactly, whatever the table (one row per key) holds. Exactly the known keys are present. A key
  without a stored value, and the mail password always, has the value of the environment or the built-in default; so has an
  integer key whose stored text is not an integer or is below the key's minimum. Otherwise a stored text gives a boolean key the
  truth of being one of \<open>1\<close>, \<open>true\<close>, \<open>yes\<close>, \<open>on\<close>, an integer key the integer, and any other key the text itself. So, provided the
  environment respects the three minimums (\<open>sound_env\<close>), a boolean key is a boolean, an integer key an integer not below its
  minimum and every other key a text; the one exception is \<open>entrance_questions_per_category\<close>, the integer 0 until it is stored and
  the stored text then.\<close>

theorem effective_settings_are_typed:
  assumes "sound_env env" "distinct (map fst table)"
  shows "effective env None = default_settings env
    \<and> map_of (effective env (Some table)) key =
        map_option (\<lambda>d. read_setting key d (case map_of table key of None \<Rightarrow> None | Some stored \<Rightarrow> stored)) (map_of (default_settings env) key)
    \<and> (\<forall>v. map_of (effective env (Some table)) key = Some v \<longrightarrow>
        (if key \<in> boolean_settings then \<exists>b. v = SBool b
         else if key \<in> integer_settings then \<exists>i. v = SInt i \<and> \<not> below_minimum key i
         else if key = ''entrance_questions_per_category''
         then (case map_of table key of Some (Some s) \<Rightarrow> v = SStr s | _ \<Rightarrow> v = SInt 0)
         else \<exists>s. v = SStr s))"
proof -
  have e: "map_of (effective env (Some table)) key =
      map_option (\<lambda>d. read_setting key d (case map_of table key of None \<Rightarrow> None | Some stored \<Rightarrow> stored)) (map_of (default_settings env) key)"
    using get_all_lookup [OF assms(2), of key] fold_merge_lookup [of "get_all table" "default_settings env" key]
    by (simp add: effective_def)
  have b: "key \<in> set BOOL_KEYS \<longleftrightarrow> key \<in> boolean_settings" "key \<in> set INT_KEYS \<longleftrightarrow> key \<in> integer_settings"
    by (auto simp: BOOL_KEYS_def INT_KEYS_def boolean_settings_def integer_settings_def)
  have m: "(case map_of INT_MINIMUMS key of None \<Rightarrow> True | Some n \<Rightarrow> n \<le> i) \<longleftrightarrow> \<not> below_minimum key i" for i
    by (auto simp: INT_MINIMUMS_def below_minimum_def)
  have typed: "if key \<in> boolean_settings then \<exists>b. v = SBool b
         else if key \<in> integer_settings then \<exists>i. v = SInt i \<and> \<not> below_minimum key i
         else if key = ''entrance_questions_per_category''
         then (case map_of table key of Some (Some s) \<Rightarrow> v = SStr s | _ \<Rightarrow> v = SInt 0)
         else \<exists>s. v = SStr s" if v: "map_of (effective env (Some table)) key = Some v" for v
  proof (cases "key = ''entrance_questions_per_category''")
    case True
    have "map_of (default_settings env) key = Some (SInt 0)" unfolding True by (simp add: default_settings_def)
    moreover have "key \<notin> boolean_settings" "key \<notin> integer_settings" "key \<noteq> ''smtp_password''"
      unfolding True by (simp_all add: boolean_settings_def integer_settings_def)
    ultimately show ?thesis using v unfolding e
      by (auto simp: True read_setting_def split: option.splits)
  next
    case False
    have "well_typed key v"
      using v default_well_typed [OF assms(1)] unfolding effective_def by (auto intro: fold_merge_well_typed)
    with False show ?thesis unfolding well_typed_def b m by auto
  qed
  have "effective env None = default_settings env" by (simp add: effective_def)
  with e typed show ?thesis by blast
qed

definition sample_env :: env_settings where
  "sample_env = \<lparr>env_smtp_host = '''', env_smtp_port = 587, env_smtp_user = '''', env_smtp_password = ''s'',
     env_smtp_from = ''a'', env_smtp_starttls = True, env_management_inquiry_recipient = ''m'',
     env_max_concurrent_labs = 20, env_max_concurrent_labs_per_tenant = 0, env_lab_idle_minutes = 60\<rparr>"

theorem effective_settings_are_typed_witness:
  "map_of (effective sample_env (Some [(''lab_idle_minutes'', Some ''0''), (''smtp_password'', Some ''x'')])) ''lab_idle_minutes''
     = Some (SInt 60)
   \<and> map_of (effective sample_env (Some [(''lab_idle_minutes'', Some ''0''), (''smtp_password'', Some ''x'')])) ''smtp_password''
     = Some (SStr ''s'')"
proof -
  have e: "sound_env sample_env" by (simp add: sound_env_def sample_env_def)
  have d: "distinct (map fst [(''lab_idle_minutes'', Some ''0''), (''smtp_password'', Some ''x'')])" by simp
  have z: "py_int ''0'' = Some 0" by code_simp
  from effective_settings_are_typed [OF e d, of "''lab_idle_minutes''"] effective_settings_are_typed [OF e d, of "''smtp_password''"]
  show ?thesis
    by (simp add: default_settings_def read_setting_def boolean_settings_def integer_settings_def below_minimum_def sample_env_def z)
qed

end
