(* ===== verification/Scheduling.thy ===== *)
theory Scheduling
  imports Settings_Store Entitlements
begin

text \<open>
  The store of the engagement services, which keeps the tables they add beside the learning
  store, and the timetable of class sessions (\<open>services/scheduling.py\<close>,
  \<open>services/agenda.py\<close>).
\<close>

record class_session_row =
  cs_id :: uuid
  cs_tenant :: uuid
  cs_cohort :: uuid
  cs_offering :: "uuid option"
  cs_type :: string
  cs_title :: string
  cs_starts_at :: instant
  cs_ends_at :: "instant option"
  cs_instructor :: "uuid option"
  cs_location :: "string option"
  cs_join_url :: "string option"
  cs_notes :: "string option"
  cs_status :: string

record reminder_row =
  rl_id :: uuid
  rl_tenant :: uuid
  rl_person :: uuid
  rl_kind :: string
  rl_key :: string
  rl_title :: string
  rl_link :: "string option"
  rl_channel :: string
  rl_status :: string
  rl_outbox_key :: "string option"
  rl_sent_at :: "instant option"
  rl_created_at :: instant

record preference_row =
  rf_tenant :: uuid
  rf_person :: uuid
  rf_frequency :: string
  rf_quiet_start :: "int option"
  rf_quiet_end :: "int option"
  rf_optouts :: "string list"

record queue_entry =
  sq_id :: uuid
  sq_tenant :: uuid
  sq_person :: uuid
  sq_cohort :: "uuid option"
  sq_reason :: string
  sq_facts :: "(string \<times> json) list"
  sq_severity :: string
  sq_detected_at :: instant
  sq_assigned_to :: "uuid option"
  sq_action :: string
  sq_status :: string
  sq_resolved_at :: "instant option"
  sq_resolved_by :: "uuid option"

text \<open>
  \<open>enrolled_at\<close> is the \<open>created_at\<close> column of an enrolment, \<open>delivery_mode\<close> a column of a
  cohort, by the row's id; the services below are the only readers of both.
\<close>

record engagement =
  academy :: academy_db
  class_sessions :: "class_session_row list"
  reminder_log :: "reminder_row list"
  reminder_preferences :: "preference_row list"
  success_entries :: "queue_entry list"
  platform_settings :: settings_table
  enrolled_at :: "uuid \<Rightarrow> instant"
  delivery_mode :: "uuid \<Rightarrow> string"

definition new_id :: "engagement \<Rightarrow> uuid" where
  "new_id s = next_id (academy s)"

definition use_id :: "engagement \<Rightarrow> engagement" where
  "use_id s = s\<lparr>academy := (academy s)\<lparr>next_id := Suc (next_id (academy s))\<rparr>\<rparr>"

section \<open>Sessions\<close>

definition DELIVERY_MODES :: "string list" where
  "DELIVERY_MODES = [''self_paced'', ''live'', ''blended'']"

definition SESSION_TYPES :: "string list" where
  "SESSION_TYPES = [''live_class'', ''lab'', ''lecture'', ''other'']"

definition SESSION_STATUSES :: "string list" where
  "SESSION_STATUSES = [''scheduled'', ''cancelled'', ''completed'']"

definition clean_join_url :: "string option \<Rightarrow> string option result" where
  "clean_join_url value =
     (let v = py_strip (or_empty value); lowered = py_lower v in
      if v = '''' then Inr None
      else if \<not> (starts_with lowered ''http://'' \<or> starts_with lowered ''https://'')
      then Inl (BadRequestError ''Join URL must start with http:// or https://.'')
      else Inr (Some v))"

definition cohort_row_of :: "engagement \<Rightarrow> uuid \<Rightarrow> cohort_row result" where
  "cohort_row_of s cohort =
     (case find (\<lambda>c. ch_id c = cohort) (cohorts (academy s)) of
        None \<Rightarrow> Inl (NotFoundError ''Cohort not found.'') | Some c \<Rightarrow> Inr c)"

definition set_delivery_mode :: "engagement \<Rightarrow> uuid \<Rightarrow> string \<Rightarrow> engagement result" where
  "set_delivery_mode s cohort mode =
     (if mode \<notin> set DELIVERY_MODES then Inl (BadRequestError ''Unknown delivery mode'')
      else and_then (cohort_row_of s cohort) (\<lambda>c. Inr (s\<lparr>delivery_mode := (delivery_mode s)(cohort := mode)\<rparr>)))"

record session_fields =
  sf_title :: string
  sf_starts_at :: instant
  sf_type :: string
  sf_ends_at :: "instant option"
  sf_offering :: "uuid option"
  sf_instructor :: "uuid option"
  sf_location :: "string option"
  sf_join_url :: "string option"
  sf_notes :: "string option"

definition new_session :: "engagement \<Rightarrow> uuid \<Rightarrow> uuid \<Rightarrow> session_fields \<Rightarrow> string option \<Rightarrow> class_session_row" where
  "new_session s tenant cohort f url =
     \<lparr>cs_id = new_id s, cs_tenant = tenant, cs_cohort = cohort, cs_offering = sf_offering f, cs_type = sf_type f,
      cs_title = py_strip (sf_title f), cs_starts_at = sf_starts_at f, cs_ends_at = sf_ends_at f,
      cs_instructor = sf_instructor f, cs_location = or_none (sf_location f), cs_join_url = or_none url,
      cs_notes = or_none (sf_notes f), cs_status = ''scheduled''\<rparr>"

definition ends_after_start :: "instant \<Rightarrow> instant option \<Rightarrow> bool" where
  "ends_after_start starts ends = (case ends of None \<Rightarrow> True | Some e \<Rightarrow> starts < e)"

definition create_session ::
    "engagement \<Rightarrow> uuid \<Rightarrow> uuid \<Rightarrow> session_fields \<Rightarrow> (engagement \<times> class_session_row) result" where
  "create_session s tenant cohort f =
     (if sf_type f \<notin> set SESSION_TYPES then Inl (BadRequestError ''Unknown session type'')
      else if \<not> ends_after_start (sf_starts_at f) (sf_ends_at f)
      then Inl (BadRequestError ''ends_at must be after starts_at.'')
      else and_then (clean_join_url (sf_join_url f)) (\<lambda>url.
           and_then (cohort_row_of s cohort) (\<lambda>c.
             let s1 = (if delivery_mode s cohort = ''self_paced''
                       then s\<lparr>delivery_mode := (delivery_mode s)(cohort := ''blended'')\<rparr> else s);
                 row = new_session s1 tenant cohort f url
             in Inr (use_id (s1\<lparr>class_sessions := class_sessions s1 @ [row]\<rparr>), row))))"

definition get_session :: "engagement \<Rightarrow> uuid \<Rightarrow> class_session_row result" where
  "get_session s i =
     (case find (\<lambda>r. cs_id r = i) (class_sessions s) of
        None \<Rightarrow> Inl (NotFoundError ''Session not found.'') | Some r \<Rightarrow> Inr r)"

definition list_for_cohort :: "engagement \<Rightarrow> uuid \<Rightarrow> bool \<Rightarrow> instant \<Rightarrow> class_session_row list" where
  "list_for_cohort s cohort upcoming_only now =
     sort_key cs_starts_at
       (filter (\<lambda>r. cs_cohort r = cohort
                    \<and> (upcoming_only \<longrightarrow> cs_status r = ''scheduled'' \<and> cs_starts_at r > now)) (class_sessions s))"

text \<open>A field that is not provided (\<open>_UNSET\<close>) is \<open>None\<close>; \<open>Some None\<close> clears a nullable one.\<close>

record session_update =
  su_title :: "string option"
  su_starts_at :: "instant option"
  su_ends_at :: "instant option option"
  su_type :: "string option"
  su_location :: "string option option"
  su_join_url :: "string option option"
  su_notes :: "string option option"
  su_status :: "string option"

definition given :: "'a option \<Rightarrow> 'a \<Rightarrow> 'a" where
  "given new old = (case new of None \<Rightarrow> old | Some v \<Rightarrow> v)"

definition apply_update :: "session_update \<Rightarrow> string option option \<Rightarrow> class_session_row \<Rightarrow> class_session_row" where
  "apply_update u url r =
     r\<lparr>cs_title := given (map_option py_strip (su_title u)) (cs_title r),
       cs_starts_at := given (su_starts_at u) (cs_starts_at r),
       cs_ends_at := given (su_ends_at u) (cs_ends_at r),
       cs_type := given (su_type u) (cs_type r),
       cs_location := given (map_option or_none (su_location u)) (cs_location r),
       cs_join_url := given url (cs_join_url r),
       cs_notes := given (map_option or_none (su_notes u)) (cs_notes r),
       cs_status := given (su_status u) (cs_status r)\<rparr>"

text \<open>The fields whose value changes, in the order of the code.\<close>

definition changed_fields :: "class_session_row \<Rightarrow> class_session_row \<Rightarrow> string list" where
  "changed_fields old new =
     map fst (filter snd
       [(''title'', cs_title new \<noteq> cs_title old), (''starts_at'', cs_starts_at new \<noteq> cs_starts_at old),
        (''ends_at'', cs_ends_at new \<noteq> cs_ends_at old), (''session_type'', cs_type new \<noteq> cs_type old),
        (''location'', cs_location new \<noteq> cs_location old), (''join_url'', cs_join_url new \<noteq> cs_join_url old),
        (''notes'', cs_notes new \<noteq> cs_notes old), (''status'', cs_status new \<noteq> cs_status old)])"

definition update_session ::
    "engagement \<Rightarrow> uuid \<Rightarrow> session_update \<Rightarrow> (engagement \<times> class_session_row \<times> string list) result" where
  "update_session s i u =
     and_then (get_session s i) (\<lambda>r.
       if su_type u \<noteq> None \<and> the (su_type u) \<notin> set SESSION_TYPES then Inl (BadRequestError ''Unknown session type'')
       else if su_status u \<noteq> None \<and> the (su_status u) \<notin> set SESSION_STATUSES then Inl (BadRequestError ''Unknown status'')
       else and_then (case su_join_url u of None \<Rightarrow> Inr None | Some v \<Rightarrow> and_then (clean_join_url v) (\<lambda>w. Inr (Some w))) (\<lambda>url.
         let r1 = apply_update u url r in
         if \<not> ends_after_start (cs_starts_at r1) (cs_ends_at r1) then Inl (BadRequestError ''ends_at must be after starts_at.'')
         else Inr (s\<lparr>class_sessions := update_rows (\<lambda>x. cs_id x = i) (\<lambda>_. r1) (class_sessions s)\<rparr>, r1, changed_fields r r1)))"

definition cancel_session :: "engagement \<Rightarrow> uuid \<Rightarrow> engagement result" where
  "cancel_session s i =
     and_then (get_session s i) (\<lambda>r.
       Inr (s\<lparr>class_sessions := update_rows (\<lambda>x. cs_id x = i) (\<lambda>x. x\<lparr>cs_status := ''cancelled''\<rparr>) (class_sessions s)\<rparr>))"

section \<open>A person's timetable\<close>

definition session_end :: "class_session_row \<Rightarrow> instant" where
  "session_end r = (case cs_ends_at r of None \<Rightarrow> cs_starts_at r | Some e \<Rightarrow> e)"

text \<open>The join of sessions, their cohorts and the person's active enrolments.\<close>

definition timetable_rows :: "engagement \<Rightarrow> uuid \<Rightarrow> uuid \<Rightarrow> (class_session_row \<times> string) list" where
  "timetable_rows s tenant person =
     [(r, ch_name c). r \<leftarrow> class_sessions s, c \<leftarrow> cohorts (academy s), e \<leftarrow> enrollments (academy s),
        ch_id c = cs_cohort r \<and> ch_tenant c = cs_tenant r \<and> en_cohort e = cs_cohort r \<and> en_tenant e = cs_tenant r
        \<and> cs_tenant r = tenant \<and> en_person e = person \<and> en_status e = ''active'']"

definition is_upcoming :: "instant \<Rightarrow> class_session_row \<Rightarrow> bool" where
  "is_upcoming now r = (cs_status r = ''scheduled'' \<and> session_end r \<ge> now)"

definition list_for_person ::
    "engagement \<Rightarrow> uuid \<Rightarrow> uuid \<Rightarrow> instant \<Rightarrow> (class_session_row \<times> string) list \<times> (class_session_row \<times> string) list" where
  "list_for_person s tenant person now =
     (let rows = sort_key (\<lambda>(r, _). cs_starts_at r) (timetable_rows s tenant person)
      in (filter (\<lambda>(r, _). is_upcoming now r) rows,
          rev (filter (\<lambda>(r, _). \<not> is_upcoming now r \<and> cs_status r \<noteq> ''cancelled'') rows)))"

definition get_session_for_person :: "engagement \<Rightarrow> uuid \<Rightarrow> uuid \<Rightarrow> uuid \<Rightarrow> (class_session_row \<times> string) result" where
  "get_session_for_person s tenant person i =
     (case filter (\<lambda>(r, _). cs_id r = i) (timetable_rows s tenant person) of
        [] \<Rightarrow> Inl (NotFoundError ''Session not found.'') | row # _ \<Rightarrow> Inr row)"

definition join_is_open :: "class_session_row \<Rightarrow> instant \<Rightarrow> int \<Rightarrow> bool" where
  "join_is_open r now lead_minutes =
     (or_empty (cs_join_url r) \<noteq> '''' \<and> cs_status r = ''scheduled''
      \<and> cs_starts_at r - now \<le> lead_minutes * 60 \<and> session_end r \<ge> now)"

section \<open>The agenda\<close>

record agenda_item =
  ai_when :: instant
  ai_kind :: string
  ai_title :: string
  ai_course :: string
  ai_joinable :: bool

definition accessible_courses :: "engagement \<Rightarrow> uuid \<Rightarrow> uuid \<Rightarrow> course_row list" where
  "accessible_courses s tenant person =
     filter (\<lambda>c. co_tenant c = tenant \<and> co_id c \<in> accessible_course_ids (academy s) tenant person) (courses (academy s))"

definition window_items :: "engagement \<Rightarrow> uuid \<Rightarrow> course_row list \<Rightarrow> instant \<Rightarrow> agenda_item list" where
  "window_items s tenant cs now =
     concat (map (\<lambda>o'.
         case find (\<lambda>c. co_id c = of_course o') cs of
           None \<Rightarrow> []
         | Some c \<Rightarrow>
             (case of_starts_at o' of
                Some t \<Rightarrow> if t > now then [\<lparr>ai_when = t, ai_kind = ''opens'', ai_title = co_title c @ '' opens'',
                                           ai_course = co_title c, ai_joinable = False\<rparr>] else []
              | None \<Rightarrow> [])
             @ (case of_ends_at o' of
                  Some t \<Rightarrow> if t > now then [\<lparr>ai_when = t, ai_kind = ''closes'', ai_title = co_title c @ '' closes'',
                                             ai_course = co_title c, ai_joinable = False\<rparr>] else []
                | None \<Rightarrow> []))
       (filter (\<lambda>o'. of_tenant o' = tenant \<and> of_status o' = ''active'') (offerings (academy s))))"

definition due_items :: "engagement \<Rightarrow> uuid \<Rightarrow> course_row list \<Rightarrow> instant \<Rightarrow> agenda_item list" where
  "due_items s tenant cs now =
     [\<lparr>ai_when = the (pa_due_at pa), ai_kind = ''due'', ai_title = act_title a, ai_course = co_title c, ai_joinable = False\<rparr>.
        pa \<leftarrow> offering_activities (academy s), a \<leftarrow> activities (academy s), o' \<leftarrow> offerings (academy s), c \<leftarrow> cs,
        act_id a = pa_activity pa \<and> act_tenant a = pa_tenant pa \<and> of_id o' = pa_offering pa \<and> of_tenant o' = pa_tenant pa
        \<and> co_id c = of_course o' \<and> co_tenant c = of_tenant o' \<and> pa_tenant pa = tenant \<and> of_status o' = ''active''
        \<and> (case pa_due_at pa of None \<Rightarrow> False | Some t \<Rightarrow> t > now)]"

definition session_items :: "engagement \<Rightarrow> uuid \<Rightarrow> uuid \<Rightarrow> instant \<Rightarrow> agenda_item list" where
  "session_items s tenant person now =
     map (\<lambda>r. \<lparr>ai_when = cs_starts_at r, ai_kind = ''session'',
               ai_title = cs_title r @ (if cs_type r = ''live_class'' then '''' else '' ('' @ cs_type r @ '')''),
               ai_course = or_empty (cs_location r), ai_joinable = join_is_open r now 60\<rparr>)
       (filter (\<lambda>r. cs_tenant r = tenant \<and> is_upcoming now r
            \<and> list_ex (\<lambda>e. en_tenant e = tenant \<and> en_person e = person \<and> en_cohort e = cs_cohort r) (enrollments (academy s)))
          (class_sessions s))"

definition upcoming_for_person :: "engagement \<Rightarrow> uuid \<Rightarrow> uuid \<Rightarrow> nat \<Rightarrow> instant \<Rightarrow> agenda_item list" where
  "upcoming_for_person s tenant person limit now =
     (let cs = accessible_courses s tenant person
      in take limit (sort_key ai_when
           (window_items s tenant cs now @ due_items s tenant cs now @ session_items s tenant person now)))"

end
