(* ===== verification/Timeline.thy ===== *)
theory Timeline
  imports Scheduling Gradebook
begin

text \<open>
  \<open>services/todo.py\<close>: the learner's to-do projection, with the readers of the learning-event
  ledger and the at-risk rule. The academy's wall clock (\<open>zoneinfo\<close>) is a record of functions.
\<close>

record wall_clock =
  local_hour :: "instant \<Rightarrow> int"
  local_weekday :: "instant \<Rightarrow> int"
  local_day_end :: "instant \<Rightarrow> instant"
  date_text :: "instant \<Rightarrow> string"
  stamp_text :: "instant \<Rightarrow> string"

definition days_between :: "instant \<Rightarrow> instant \<Rightarrow> int" where
  "days_between later earlier = (later - earlier) div 86400"

section \<open>Deadlines\<close>

definition GRADED_LOOKBACK_DAYS :: int where "GRADED_LOOKBACK_DAYS = 14"
definition WINDOW_HORIZON_DAYS :: int where "WINDOW_HORIZON_DAYS = 30"

definition passed_activity_ids :: "academy_db \<Rightarrow> uuid \<Rightarrow> uuid \<Rightarrow> uuid set" where
  "passed_activity_ids db tenant person =
     set [sub_activity s. s \<leftarrow> submissions db, sc \<leftarrow> scores db,
            sc_submission sc = sub_id s \<and> sc_tenant sc = sub_tenant s \<and> sub_tenant s = tenant \<and> sub_person s = person
            \<and> sc_passed sc]"

record deadline =
  dl_due_at :: instant
  dl_activity :: activity_row
  dl_course_title :: string

definition deadline_join :: "academy_db \<Rightarrow> uuid \<Rightarrow> uuid \<Rightarrow> deadline list" where
  "deadline_join db tenant person =
     [\<lparr>dl_due_at = the (pa_due_at pa), dl_activity = a, dl_course_title = co_title c\<rparr>.
        pa \<leftarrow> offering_activities db, a \<leftarrow> activities db, o' \<leftarrow> offerings db, c \<leftarrow> courses db, e \<leftarrow> enrollments db,
        act_id a = pa_activity pa \<and> act_tenant a = pa_tenant pa \<and> of_id o' = pa_offering pa \<and> of_tenant o' = pa_tenant pa
        \<and> co_id c = of_course o' \<and> co_tenant c = of_tenant o' \<and> en_cohort e = of_cohort o' \<and> en_tenant e = of_tenant o'
        \<and> pa_tenant pa = tenant \<and> pa_due_at pa \<noteq> None \<and> of_status o' = ''active'' \<and> en_person e = person
        \<and> en_status e = ''active'' \<and> en_role e = ''student'']"

definition deadline_rows :: "academy_db \<Rightarrow> uuid \<Rightarrow> uuid \<Rightarrow> deadline list" where
  "deadline_rows db tenant person =
     filter (\<lambda>d. act_id (dl_activity d) \<notin> passed_activity_ids db tenant person)
       (sort_key dl_due_at (deadline_join db tenant person))"

section \<open>Grades and windows\<close>

record graded_item =
  gi_score :: score_row
  gi_activity :: activity_row
  gi_course_title :: string
  gi_feedback_available :: bool

text \<open>The feedback flag is asked without the learner's granted attempts.\<close>

definition graded_rows :: "academy_db \<Rightarrow> uuid \<Rightarrow> uuid \<Rightarrow> instant \<Rightarrow> graded_item list" where
  "graded_rows db tenant person now =
     map (\<lambda>(sc, a, c). \<lparr>gi_score = sc, gi_activity = a, gi_course_title = co_title c,
            gi_feedback_available = reveal_feedback a (sc_passed sc) (int (attempts_used db tenant person (act_id a))) 0\<rparr>)
       (take 10 (sort_key (\<lambda>(sc, a, c). - sc_created_at sc)
         [(sc, a, c). sc \<leftarrow> scores db, s \<leftarrow> submissions db, a \<leftarrow> activities db, c \<leftarrow> courses db,
            sub_id s = sc_submission sc \<and> sub_tenant s = sc_tenant sc \<and> act_id a = sub_activity s \<and> act_tenant a = sub_tenant s
            \<and> co_id c = act_course a \<and> co_tenant c = act_tenant a \<and> sc_tenant sc = tenant \<and> sub_person s = person
            \<and> sc_created_at sc \<ge> now - 86400 * GRADED_LOOKBACK_DAYS]))"

text \<open>\<open>web/learn.py\<close>: the answer key of the page that shows a graded attempt, asked the same way.\<close>

definition result_page_reveals :: "academy_db \<Rightarrow> uuid \<Rightarrow> uuid \<Rightarrow> activity_row \<Rightarrow> score_row \<Rightarrow> bool" where
  "result_page_reveals db tenant person a sc =
     reveal_feedback a (sc_passed sc) (int (attempts_used db tenant person (act_id a))) 0"

record course_window =
  cw_kind :: string
  cw_at :: instant
  cw_course_title :: string

definition window_of :: "instant \<Rightarrow> string \<Rightarrow> string \<Rightarrow> instant option \<Rightarrow> course_window list" where
  "window_of now kind title moment =
     (case moment of
        Some t \<Rightarrow> if now < t \<and> t \<le> now + 86400 * WINDOW_HORIZON_DAYS
                  then [\<lparr>cw_kind = kind, cw_at = t, cw_course_title = title\<rparr>] else []
      | None \<Rightarrow> [])"

definition course_windows :: "academy_db \<Rightarrow> uuid \<Rightarrow> uuid \<Rightarrow> instant \<Rightarrow> course_window list" where
  "course_windows db tenant person now =
     sort_key cw_at (concat
       [window_of now ''opens'' (co_title c) (of_starts_at o') @ window_of now ''closes'' (co_title c) (of_ends_at o').
          o' \<leftarrow> offerings db, c \<leftarrow> courses db, e \<leftarrow> enrollments db,
          co_id c = of_course o' \<and> co_tenant c = of_tenant o' \<and> en_cohort e = of_cohort o' \<and> en_tenant e = of_tenant o'
          \<and> of_tenant o' = tenant \<and> of_status o' = ''active'' \<and> en_person e = person \<and> en_status e = ''active''])"

record timeline =
  tl_overdue :: "deadline list"
  tl_due_today :: "deadline list"
  tl_next_7 :: "deadline list"
  tl_next_30 :: "deadline list"
  tl_sessions :: "(class_session_row \<times> string) list"
  tl_joinable :: "uuid set"
  tl_graded :: "graded_item list"
  tl_feedback :: "graded_item list"
  tl_windows :: "course_window list"

text \<open>The section of a deadline: the first of the code's \<open>if/elif\<close> chain that holds.\<close>

datatype bucket = Overdue | Due_Today | Next_7 | Next_30 | Later

definition bucket_of :: "wall_clock \<Rightarrow> instant \<Rightarrow> instant \<Rightarrow> bucket" where
  "bucket_of clock now due =
     (if due < now then Overdue else if due \<le> local_day_end clock now then Due_Today
      else if due \<le> now + 86400 * 7 then Next_7 else if due \<le> now + 86400 * 30 then Next_30 else Later)"

definition timeline_for_person :: "wall_clock \<Rightarrow> engagement \<Rightarrow> uuid \<Rightarrow> uuid \<Rightarrow> instant \<Rightarrow> timeline" where
  "timeline_for_person clock s tenant person now =
     (let rows = deadline_rows (academy s) tenant person;
          section = (\<lambda>b. filter (\<lambda>d. bucket_of clock now (dl_due_at d) = b) rows);
          sessions = fst (list_for_person s tenant person now);
          graded = graded_rows (academy s) tenant person now
      in \<lparr>tl_overdue = section Overdue, tl_due_today = section Due_Today, tl_next_7 = section Next_7,
          tl_next_30 = section Next_30, tl_sessions = sessions,
          tl_joinable = cs_id ` {r \<in> fst ` set sessions. join_is_open r now 60}, tl_graded = graded,
          tl_feedback = filter gi_feedback_available graded, tl_windows = course_windows (academy s) tenant person now\<rparr>)"

section \<open>The event ledger's readers\<close>

text \<open>A date is the number of the UTC day.\<close>

definition day_number :: "instant \<Rightarrow> int" where "day_number t = t div 86400"

definition weekly_buckets ::
    "academy_db \<Rightarrow> uuid \<Rightarrow> uuid \<Rightarrow> nat \<Rightarrow> string list \<Rightarrow> instant \<Rightarrow> (int \<times> nat) list" where
  "weekly_buckets db tenant person weeks kinds now =
     (let stamps = map ev_occurred_at
            (filter (\<lambda>e. ev_tenant e = tenant \<and> ev_person e = person \<and> ev_occurred_at e \<ge> now - 604800 * int weeks
                         \<and> (kinds \<noteq> [] \<longrightarrow> ev_kind e \<in> set kinds)) (learning_events db))
      in map (\<lambda>i. let start = day_number (now - 604800 * int (weeks - i));
                      stop = day_number (now - 604800 * int (weeks - i - 1))
                  in (start, count_rows (\<lambda>t. start \<le> day_number t \<and> day_number t < stop) stamps)) [0..<weeks])"

definition kind_counts ::
    "academy_db \<Rightarrow> uuid \<Rightarrow> string list \<Rightarrow> uuid list \<Rightarrow> uuid list option \<Rightarrow> instant option \<Rightarrow>
     ((uuid option \<times> string) \<times> nat) list" where
  "kind_counts db tenant kinds course_ids person_ids since =
     (let rows = filter (\<lambda>e. ev_tenant e = tenant \<and> ev_kind e \<in> set kinds
                  \<and> (course_ids \<noteq> [] \<longrightarrow> (\<exists>c \<in> set course_ids. ev_course e = Some c))
                  \<and> (case person_ids of None \<Rightarrow> True | Some ps \<Rightarrow> ev_person e \<in> set ps)
                  \<and> (case since of None \<Rightarrow> True | Some t \<Rightarrow> ev_occurred_at e \<ge> t)) (learning_events db)
      in map (\<lambda>k. (k, count_rows (\<lambda>e. (ev_course e, ev_kind e) = k) rows))
           (remdups (map (\<lambda>e. (ev_course e, ev_kind e)) rows)))"

section \<open>At risk\<close>

definition DEFAULT_BEHIND_THRESHOLD :: rat where "DEFAULT_BEHIND_THRESHOLD = 1 / 5"

record risk_item =
  ri_course :: uuid
  ri_title :: string
  ri_reason :: string
  ri_pct :: rat
  ri_expected :: rat

definition completion_for :: "academy_db \<Rightarrow> uuid \<Rightarrow> uuid \<Rightarrow> uuid \<Rightarrow> completion_row option" where
  "completion_for db tenant person course =
     find (\<lambda>r. cc_tenant r = tenant \<and> cc_person r = person \<and> cc_course r = course) (completions db)"

definition title_or :: "academy_db \<Rightarrow> uuid \<Rightarrow> uuid \<Rightarrow> string \<Rightarrow> string" where
  "title_or db tenant course fallback =
     (case find (\<lambda>c. co_tenant c = tenant \<and> co_id c = course) (courses db) of None \<Rightarrow> fallback | Some c \<Rightarrow> co_title c)"

definition risk_of_offering ::
    "academy_db \<Rightarrow> uuid \<Rightarrow> uuid \<Rightarrow> rat \<Rightarrow> instant \<Rightarrow> offering_row \<Rightarrow> risk_item option" where
  "risk_of_offering db tenant person threshold now o' =
     (let comp = completion_for db tenant person (of_course o');
          pct = (case comp of None \<Rightarrow> 0 | Some r \<Rightarrow> cc_pct r);
          item = (\<lambda>reason expected. Some \<lparr>ri_course = of_course o', ri_title = title_or db tenant (of_course o') ''your course'',
                                      ri_reason = reason, ri_pct = pct, ri_expected = expected\<rparr>)
      in if (case comp of None \<Rightarrow> False | Some r \<Rightarrow> cc_status r = ''completed'') then None
         else case (of_starts_at o', of_ends_at o') of
                (_, None) \<Rightarrow> None
              | (starts, Some ends) \<Rightarrow>
                  if ends < now then item ''overdue'' 1
                  else (case starts of
                          None \<Rightarrow> None
                        | Some t \<Rightarrow>
                            if t < now \<and> now < ends
                            then (let elapsed = rat_of_int (now - t) / rat_of_int (ends - t)
                                  in if pct < elapsed - threshold then item ''behind'' elapsed else None)
                            else None))"

definition at_risk_for_person :: "academy_db \<Rightarrow> uuid \<Rightarrow> uuid \<Rightarrow> rat \<Rightarrow> instant \<Rightarrow> risk_item list" where
  "at_risk_for_person db tenant person threshold now =
     concat (map (\<lambda>o'. case risk_of_offering db tenant person threshold now o' of None \<Rightarrow> [] | Some i \<Rightarrow> [i])
       (filter (\<lambda>o'. of_tenant o' = tenant \<and> of_status o' = ''active''
            \<and> list_ex (\<lambda>e. en_tenant e = tenant \<and> en_person e = person \<and> en_role e = ''student'' \<and> en_cohort e = of_cohort o')
                (enrollments db)) (offerings db)))"

definition risk_link :: "risk_item \<Rightarrow> string" where
  "risk_link i = ''/courses/'' @ uuid_str (ri_course i)"

definition risk_title :: "risk_item \<Rightarrow> string" where
  "risk_title i = (if ri_reason i = ''overdue'' then ''Overdue: '' @ ri_title i else ''You're behind on '' @ ri_title i)"

text \<open>The links already nudged and unread are read once, before the loop.\<close>

definition unread_risk_links :: "academy_db \<Rightarrow> uuid \<Rightarrow> uuid \<Rightarrow> string option set" where
  "unread_risk_links db tenant person =
     no_link ` {n \<in> set (notifications db). no_tenant n = tenant \<and> no_person n = person \<and> no_kind n = ''at_risk''
                                            \<and> no_read_at n = None}"

fun send_nudges ::
    "instant \<Rightarrow> uuid \<Rightarrow> uuid \<Rightarrow> string option set \<Rightarrow> risk_item list \<Rightarrow> academy_db \<times> nat \<Rightarrow> (academy_db \<times> nat) result" where
  "send_nudges now tenant person existing [] acc = Inr acc"
| "send_nudges now tenant person existing (i # is') (db, sent) =
     (if Some (risk_link i) \<in> existing then send_nudges now tenant person existing is' (db, sent)
      else and_then (notify db now tenant person ''at_risk'' (risk_title i) (Some (risk_link i)))
             (\<lambda>db1. send_nudges now tenant person existing is' (db1, Suc sent)))"

definition notify_person_if_at_risk :: "academy_db \<Rightarrow> uuid \<Rightarrow> uuid \<Rightarrow> instant \<Rightarrow> (academy_db \<times> nat) result" where
  "notify_person_if_at_risk db tenant person now =
     send_nudges now tenant person (unread_risk_links db tenant person)
       (at_risk_for_person db tenant person DEFAULT_BEHIND_THRESHOLD now) (db, 0)"

section \<open>Facts\<close>

text \<open>The result page reveals the key while a granted attempt is still to be sat.\<close>

lemma result_page_leaks_before_a_granted_attempt:
  assumes "act_mode a = ''graded''" "act_max_attempts a = Some l" "0 < l" "attempts_used db tenant person (act_id a) = nat l"
    and "0 < granted_for db tenant person (act_id a)"
  shows "result_page_reveals db tenant person a sc
    \<and> \<not> exhausted (for_learner db tenant person a (int (attempts_used db tenant person (act_id a))))"
  using assms
  by (auto simp: result_page_reveals_def reveal_feedback_def for_learner_def entitlement_def exhausted_def remaining_def)

text \<open>The last bucket of the weekly counts stops before today.\<close>

lemma weekly_buckets_miss_today:
  assumes "0 < weeks" "(start, n) \<in> set (weekly_buckets db tenant person weeks kinds now)"
  shows "\<exists>stop \<le> day_number now. n = count_rows (\<lambda>t. start \<le> day_number t \<and> day_number t < stop)
     (map ev_occurred_at (filter (\<lambda>e. ev_tenant e = tenant \<and> ev_person e = person
         \<and> ev_occurred_at e \<ge> now - 604800 * int weeks \<and> (kinds \<noteq> [] \<longrightarrow> ev_kind e \<in> set kinds)) (learning_events db)))"
proof -
  obtain i where i: "i < weeks" "start = day_number (now - 604800 * int (weeks - i))"
      "n = count_rows (\<lambda>t. start \<le> day_number t \<and> day_number t < day_number (now - 604800 * int (weeks - i - 1)))
     (map ev_occurred_at (filter (\<lambda>e. ev_tenant e = tenant \<and> ev_person e = person
         \<and> ev_occurred_at e \<ge> now - 604800 * int weeks \<and> (kinds \<noteq> [] \<longrightarrow> ev_kind e \<in> set kinds)) (learning_events db)))"
    using assms(2) by (auto simp: weekly_buckets_def Let_def)
  moreover have "day_number (now - 604800 * int (weeks - i - 1)) \<le> day_number now"
    unfolding day_number_def by (rule zdiv_mono1) auto
  ultimately show ?thesis by blast
qed

end
