(* ===== verification/Reminders.thy ===== *)
theory Reminders
  imports Timeline
begin

text \<open>
  \<open>services/reminders.py\<close>: which reminder occurrences exist, the ledger that records each of
  them once, and the delivery that frequency, quiet hours and opt-outs allow. The hash of a
  digest batch (\<open>sha1\<close>, twelve digits) is an argument.
\<close>

section \<open>Preferences\<close>

definition REMINDER_KINDS :: "string list" where
  "REMINDER_KINDS =
     [''course_assigned'', ''course_starting'', ''due_72h'', ''due_24h'', ''overdue'', ''session_24h'', ''session_1h'',
      ''inactivity'', ''graded'', ''course_completed'', ''certificate_issued'']"

definition FREQUENCIES :: "string list" where
  "FREQUENCIES = [''immediate'', ''daily_digest'', ''weekly_digest'']"

definition owned_preference :: "uuid \<Rightarrow> uuid \<Rightarrow> preference_row \<Rightarrow> bool" where
  "owned_preference tenant person r = (rf_tenant r = tenant \<and> rf_person r = person)"

definition get_preference :: "engagement \<Rightarrow> uuid \<Rightarrow> uuid \<Rightarrow> engagement \<times> preference_row" where
  "get_preference s tenant person =
     (case find (owned_preference tenant person) (reminder_preferences s) of
        Some r \<Rightarrow> (s, r)
      | None \<Rightarrow>
          (let r = \<lparr>rf_tenant = tenant, rf_person = person, rf_frequency = ''immediate'', rf_quiet_start = None,
                    rf_quiet_end = None, rf_optouts = []\<rparr>
           in (s\<lparr>reminder_preferences := reminder_preferences s @ [r]\<rparr>, r)))"

definition hour_ok :: "int option \<Rightarrow> bool" where
  "hour_ok h = (case h of None \<Rightarrow> True | Some n \<Rightarrow> 0 \<le> n \<and> n \<le> 23)"

definition save_preference ::
    "engagement \<Rightarrow> uuid \<Rightarrow> uuid \<Rightarrow> string \<Rightarrow> int option \<Rightarrow> int option \<Rightarrow> string list \<Rightarrow>
     (engagement \<times> preference_row) result" where
  "save_preference s tenant person frequency quiet_start quiet_end optouts =
     (if \<not> hour_ok quiet_start \<or> \<not> hour_ok quiet_end then Inl (ValueError ''quiet hours must be within 0..23'')
      else let f = (if frequency \<in> set FREQUENCIES then frequency else ''immediate'');
               (s1, r) = get_preference s tenant person;
               r1 = r\<lparr>rf_frequency := f, rf_quiet_start := quiet_start, rf_quiet_end := quiet_end,
                      rf_optouts := filter (\<lambda>k. k \<in> set REMINDER_KINDS) optouts\<rparr>
           in Inr (s1\<lparr>reminder_preferences := update_rows (owned_preference tenant person) (\<lambda>_. r1) (reminder_preferences s1)\<rparr>, r1))"

definition in_quiet_hours :: "wall_clock \<Rightarrow> preference_row \<Rightarrow> instant \<Rightarrow> bool" where
  "in_quiet_hours clock pref now =
     (case (rf_quiet_start pref, rf_quiet_end pref) of
        (Some start, Some stop) \<Rightarrow>
          (let hour = local_hour clock now in
           if start = stop then False else if start < stop then start \<le> hour \<and> hour < stop else start \<le> hour \<or> hour < stop)
      | _ \<Rightarrow> False)"

definition digest_due :: "wall_clock \<Rightarrow> preference_row \<Rightarrow> instant \<Rightarrow> int \<Rightarrow> int \<Rightarrow> bool" where
  "digest_due clock pref now hour weekday =
     (if rf_frequency pref = ''daily_digest'' then local_hour clock now = hour
      else if rf_frequency pref = ''weekly_digest'' then local_weekday clock now = weekday \<and> local_hour clock now = hour
      else False)"

section \<open>Detection\<close>

record reminder_event =
  re_kind :: string
  re_key :: string
  re_title :: string
  re_link :: string

definition POINT_EVENT_LOOKBACK :: int where "POINT_EVENT_LOOKBACK = 48 * 3600"

definition inactivity_title :: "bool \<Rightarrow> bool \<Rightarrow> string" where
  "inactivity_title never_started final =
     (if final then (if never_started then ''Last reminder - your place is still open''
                     else ''Last reminder - your course is still waiting'')
      else (if never_started then ''Ready to begin? Your course is waiting''
            else ''It's been a while - pick up where you left off''))"

definition assigned_events :: "engagement \<Rightarrow> uuid \<Rightarrow> uuid \<Rightarrow> instant \<Rightarrow> reminder_event list" where
  "assigned_events s tenant person lookback =
     [\<lparr>re_kind = ''course_assigned'', re_key = ''course_assigned:'' @ uuid_str (en_id e),
       re_title = ''You've been enrolled: '' @ ch_name c, re_link = ''/courses''\<rparr>.
        e \<leftarrow> enrollments (academy s), c \<leftarrow> cohorts (academy s),
        ch_id c = en_cohort e \<and> ch_tenant c = en_tenant e \<and> en_tenant e = tenant \<and> en_person e = person
        \<and> en_status e = ''active'' \<and> enrolled_at s (en_id e) \<ge> lookback]"

definition starting_events :: "academy_db \<Rightarrow> uuid \<Rightarrow> uuid \<Rightarrow> instant \<Rightarrow> reminder_event list" where
  "starting_events db tenant person now =
     [\<lparr>re_kind = ''course_starting'', re_key = ''course_starting:'' @ uuid_str (of_id o'),
       re_title = ''Course opening soon: '' @ co_title c, re_link = ''/courses''\<rparr>.
        o' \<leftarrow> offerings db, c \<leftarrow> courses db, e \<leftarrow> enrollments db,
        co_id c = of_course o' \<and> co_tenant c = of_tenant o' \<and> en_cohort e = of_cohort o' \<and> en_tenant e = of_tenant o'
        \<and> of_tenant o' = tenant \<and> en_person e = person \<and> en_status e = ''active'' \<and> of_status o' = ''active''
        \<and> (case of_starts_at o' of None \<Rightarrow> False | Some t \<Rightarrow> t > now \<and> t \<le> now + 72 * 3600)]"

definition deadline_kind :: "instant \<Rightarrow> instant \<Rightarrow> string option" where
  "deadline_kind now due =
     (if due < now then Some ''overdue'' else if due \<le> now + 24 * 3600 then Some ''due_24h''
      else if due \<le> now + 72 * 3600 then Some ''due_72h'' else None)"

definition deadline_label :: "string \<Rightarrow> string" where
  "deadline_label kind =
     (if kind = ''overdue'' then ''Overdue: '' else if kind = ''due_24h'' then ''Due tomorrow: '' else ''Due in 3 days: '')"

definition deadline_events :: "wall_clock \<Rightarrow> academy_db \<Rightarrow> uuid \<Rightarrow> uuid \<Rightarrow> instant \<Rightarrow> reminder_event list" where
  "deadline_events clock db tenant person now =
     concat (map (\<lambda>d. case deadline_kind now (dl_due_at d) of
         None \<Rightarrow> []
       | Some k \<Rightarrow> [\<lparr>re_kind = k,
                     re_key = k @ '':'' @ uuid_str (act_id (dl_activity d)) @ '':'' @ date_text clock (dl_due_at d),
                     re_title = deadline_label k @ act_title (dl_activity d) @ '' ('' @ dl_course_title d @ '')'',
                     re_link = ''/todo''\<rparr>])
       (deadline_rows db tenant person))"

definition session_kind :: "int \<Rightarrow> string option" where
  "session_kind delta =
     (if 0 < delta \<and> delta \<le> 3600 then Some ''session_1h''
      else if 0 < delta \<and> delta \<le> 24 * 3600 then Some ''session_24h'' else None)"

definition session_events :: "wall_clock \<Rightarrow> engagement \<Rightarrow> uuid \<Rightarrow> uuid \<Rightarrow> instant \<Rightarrow> reminder_event list" where
  "session_events clock s tenant person now =
     concat (map (\<lambda>(r, _). case session_kind (cs_starts_at r - now) of
         None \<Rightarrow> []
       | Some k \<Rightarrow> [\<lparr>re_kind = k, re_key = k @ '':'' @ uuid_str (cs_id r) @ '':'' @ stamp_text clock (cs_starts_at r),
                     re_title = (if k = ''session_1h'' then ''Starting soon: '' else ''Tomorrow: '') @ cs_title r,
                     re_link = ''/timetable/sessions/'' @ uuid_str (cs_id r)\<rparr>])
       (fst (list_for_person s tenant person now)))"

definition graded_events :: "academy_db \<Rightarrow> uuid \<Rightarrow> uuid \<Rightarrow> instant \<Rightarrow> reminder_event list" where
  "graded_events db tenant person lookback =
     [\<lparr>re_kind = ''graded'', re_key = ''graded:'' @ uuid_str (sc_id sc), re_title = ''Graded: '' @ act_title a,
       re_link = ''/progress''\<rparr>.
        sc \<leftarrow> scores db, b \<leftarrow> submissions db, a \<leftarrow> activities db,
        sub_id b = sc_submission sc \<and> sub_tenant b = sc_tenant sc \<and> act_id a = sub_activity b \<and> act_tenant a = sub_tenant b
        \<and> sc_tenant sc = tenant \<and> sub_person b = person \<and> sc_source sc \<noteq> ''auto'' \<and> sc_created_at sc \<ge> lookback]"

definition completion_events :: "academy_db \<Rightarrow> uuid \<Rightarrow> uuid \<Rightarrow> instant \<Rightarrow> reminder_event list" where
  "completion_events db tenant person lookback =
     [\<lparr>re_kind = ''course_completed'', re_key = ''course_completed:'' @ uuid_str (cc_id r), re_title = ''Completed: '' @ co_title c,
       re_link = ''/progress''\<rparr>.
        r \<leftarrow> completions db, c \<leftarrow> courses db,
        co_id c = cc_course r \<and> co_tenant c = cc_tenant r \<and> cc_tenant r = tenant \<and> cc_person r = person
        \<and> cc_status r = ''completed'' \<and> (case cc_completed_at r of None \<Rightarrow> False | Some t \<Rightarrow> t \<ge> lookback)]"

definition certificate_events :: "academy_db \<Rightarrow> uuid \<Rightarrow> uuid \<Rightarrow> instant \<Rightarrow> reminder_event list" where
  "certificate_events db tenant person lookback =
     [\<lparr>re_kind = ''certificate_issued'', re_key = ''certificate_issued:'' @ uuid_str (ce_id r),
       re_title = ''Certificate ready: '' @ co_title c, re_link = ''/progress''\<rparr>.
        r \<leftarrow> certificates db, c \<leftarrow> courses db,
        co_id c = ce_course r \<and> co_tenant c = ce_tenant r \<and> ce_tenant r = tenant \<and> ce_person r = person
        \<and> ce_issued_at r \<ge> lookback]"

text \<open>The earliest active enrolment anchors a learner without any event.\<close>

definition first_enrolled :: "engagement \<Rightarrow> uuid \<Rightarrow> uuid \<Rightarrow> instant option" where
  "first_enrolled s tenant person =
     (case map (\<lambda>e. enrolled_at s (en_id e))
             (filter (\<lambda>e. en_tenant e = tenant \<and> en_person e = person \<and> en_status e = ''active'') (enrollments (academy s))) of
        [] \<Rightarrow> None | t # ts \<Rightarrow> Some (fold min ts t))"

definition activity_anchor :: "engagement \<Rightarrow> uuid \<Rightarrow> uuid \<Rightarrow> instant option" where
  "activity_anchor s tenant person =
     (case last_activity_at (academy s) tenant person of None \<Rightarrow> first_enrolled s tenant person | Some t \<Rightarrow> Some t)"

definition spell_prefix :: "wall_clock \<Rightarrow> instant \<Rightarrow> string" where
  "spell_prefix clock anchor = ''inactivity:'' @ date_text clock anchor"

definition nudges_drawn :: "engagement \<Rightarrow> uuid \<Rightarrow> uuid \<Rightarrow> string \<Rightarrow> nat" where
  "nudges_drawn s tenant person prefix =
     count_rows (\<lambda>r. rl_tenant r = tenant \<and> rl_person r = person \<and> rl_kind r = ''inactivity'' \<and> starts_with (rl_key r) prefix)
       (reminder_log s)"

definition inactivity_events ::
    "wall_clock \<Rightarrow> engagement \<Rightarrow> uuid \<Rightarrow> uuid \<Rightarrow> instant \<Rightarrow> int \<Rightarrow> int \<Rightarrow> reminder_event list" where
  "inactivity_events clock s tenant person now inactivity_days max_nudges =
     (case activity_anchor s tenant person of
        None \<Rightarrow> []
      | Some anchor \<Rightarrow>
          if anchor < now - 86400 * inactivity_days
          then (let prefix = spell_prefix clock anchor;
                    window = max 1 (days_between now anchor div max inactivity_days 1);
                    already = int (nudges_drawn s tenant person prefix)
                in if already < max_nudges
                   then [\<lparr>re_kind = ''inactivity'', re_key = prefix @ '':w'' @ show_int window,
                          re_title = inactivity_title (last_activity_at (academy s) tenant person = None) (already = max_nudges - 1),
                          re_link = ''/''\<rparr>]
                   else [])
          else [])"

definition detect_events ::
    "wall_clock \<Rightarrow> engagement \<Rightarrow> uuid \<Rightarrow> uuid \<Rightarrow> instant \<Rightarrow> int \<Rightarrow> int \<Rightarrow> reminder_event list" where
  "detect_events clock s tenant person now inactivity_days max_nudges =
     (let db = academy s; lookback = now - POINT_EVENT_LOOKBACK in
      assigned_events s tenant person lookback @ starting_events db tenant person now
      @ deadline_events clock db tenant person now @ session_events clock s tenant person now
      @ graded_events db tenant person lookback @ completion_events db tenant person lookback
      @ certificate_events db tenant person lookback
      @ inactivity_events clock s tenant person now inactivity_days max_nudges)"

section \<open>The sweep\<close>

definition already_recorded :: "engagement \<Rightarrow> uuid \<Rightarrow> uuid \<Rightarrow> string \<Rightarrow> bool" where
  "already_recorded s tenant person key =
     list_ex (\<lambda>r. rl_tenant r = tenant \<and> rl_person r = person \<and> rl_key r = take 160 key) (reminder_log s)"

definition record_reminder ::
    "engagement \<Rightarrow> uuid \<Rightarrow> uuid \<Rightarrow> reminder_event \<Rightarrow> string \<Rightarrow> string \<Rightarrow> string option \<Rightarrow> instant \<Rightarrow> engagement \<times> bool" where
  "record_reminder s tenant person event channel status outbox_key now =
     (if already_recorded s tenant person (re_key event) then (s, False)
      else (use_id (s\<lparr>reminder_log := reminder_log s @
              [\<lparr>rl_id = new_id s, rl_tenant = tenant, rl_person = person, rl_kind = re_kind event,
                rl_key = take 160 (re_key event), rl_title = take 240 (re_title event), rl_link = Some (re_link event),
                rl_channel = channel, rl_status = status, rl_outbox_key = outbox_key,
                rl_sent_at = (if status = ''sent'' then Some now else None), rl_created_at = now\<rparr>]\<rparr>), True))"

record sweep_counts =
  sc_detected :: nat
  sc_sent :: nat
  sc_queued :: nat
  sc_skipped :: nat
  sc_flushed :: nat

definition notify_reminder :: "instant \<Rightarrow> uuid \<Rightarrow> uuid \<Rightarrow> reminder_event \<Rightarrow> engagement \<Rightarrow> engagement result" where
  "notify_reminder now tenant person event s =
     and_then (notify (academy s) now tenant person ''reminder'' (re_title event) (Some (re_link event)))
       (\<lambda>db. Inr (s\<lparr>academy := db\<rparr>))"

definition send_now :: "wall_clock \<Rightarrow> preference_row \<Rightarrow> instant \<Rightarrow> bool" where
  "send_now clock pref now = (rf_frequency pref = ''immediate'' \<and> \<not> in_quiet_hours clock pref now)"

definition immediate_key :: "reminder_event \<Rightarrow> uuid \<Rightarrow> string" where
  "immediate_key event person = take 200 (''reminder:'' @ re_key event @ '':'' @ uuid_str person)"

definition handle_event ::
    "wall_clock \<Rightarrow> uuid \<Rightarrow> person_row \<Rightarrow> preference_row \<Rightarrow> instant \<Rightarrow> reminder_event \<Rightarrow>
     engagement \<times> sweep_counts \<Rightarrow> (engagement \<times> sweep_counts) result" where
  "handle_event clock tenant p pref now event = (\<lambda>(s, n).
     if re_kind event \<in> set (rf_optouts pref)
     then (case record_reminder s tenant (pe_id p) event ''none'' ''skipped'' None now of
             (s1, False) \<Rightarrow> Inr (s1, n)
           | (s1, True) \<Rightarrow> Inr (s1, n\<lparr>sc_detected := Suc (sc_detected n), sc_skipped := Suc (sc_skipped n)\<rparr>))
     else if send_now clock pref now
     then (case record_reminder s tenant (pe_id p) event ''email'' ''sent'' (Some (immediate_key event (pe_id p))) now of
             (s1, False) \<Rightarrow> Inr (s1, n)
           | (s1, True) \<Rightarrow>
               let s2 = s1\<lparr>academy := fst (enqueue_email (academy s1) now tenant (immediate_key event (pe_id p))
                                (''reminder_'' @ re_kind event) (pe_email p) (JObj []))\<rparr>
               in and_then (notify_reminder now tenant (pe_id p) event s2) (\<lambda>s3.
                    Inr (s3, n\<lparr>sc_detected := Suc (sc_detected n), sc_sent := Suc (sc_sent n)\<rparr>)))
     else (case record_reminder s tenant (pe_id p) event ''email'' ''queued'' None now of
             (s1, False) \<Rightarrow> Inr (s1, n)
           | (s1, True) \<Rightarrow>
               and_then (notify_reminder now tenant (pe_id p) event s1) (\<lambda>s2.
                 Inr (s2, n\<lparr>sc_detected := Suc (sc_detected n), sc_queued := Suc (sc_queued n)\<rparr>))))"

fun handle_events ::
    "wall_clock \<Rightarrow> uuid \<Rightarrow> person_row \<Rightarrow> preference_row \<Rightarrow> instant \<Rightarrow> reminder_event list \<Rightarrow>
     engagement \<times> sweep_counts \<Rightarrow> (engagement \<times> sweep_counts) result" where
  "handle_events clock tenant p pref now [] acc = Inr acc"
| "handle_events clock tenant p pref now (e # es) acc =
     and_then (handle_event clock tenant p pref now e acc) (handle_events clock tenant p pref now es)"

definition queued_for :: "uuid \<Rightarrow> uuid \<Rightarrow> reminder_row \<Rightarrow> bool" where
  "queued_for tenant person r = (rl_tenant r = tenant \<and> rl_person r = person \<and> rl_status r = ''queued'')"

fun join_with :: "string \<Rightarrow> string list \<Rightarrow> string" where
  "join_with sep [] = ''''"
| "join_with sep [x] = x"
| "join_with sep (x # y # xs) = x @ sep @ join_with sep (y # xs)"

definition digest_key :: "(string \<Rightarrow> string) \<Rightarrow> uuid \<Rightarrow> reminder_row list \<Rightarrow> string" where
  "digest_key batch_hash person rows =
     ''reminder_digest:'' @ uuid_str person @ '':'' @ take 12 (batch_hash (join_with '','' (map (\<lambda>r. uuid_str (rl_id r)) rows)))"

definition flush_queued ::
    "(string \<Rightarrow> string) \<Rightarrow> engagement \<Rightarrow> uuid \<Rightarrow> person_row \<Rightarrow> instant \<Rightarrow> engagement \<times> nat" where
  "flush_queued batch_hash s tenant p now =
     (let rows = sort_key rl_created_at (filter (queued_for tenant (pe_id p)) (reminder_log s)) in
      if rows = [] then (s, 0)
      else let key = digest_key batch_hash (pe_id p) rows;
               s1 = s\<lparr>academy := fst (enqueue_email (academy s) now tenant key ''reminder_digest'' (pe_email p) (JObj []))\<rparr>
           in (s1\<lparr>reminder_log := update_rows (queued_for tenant (pe_id p))
                    (\<lambda>r. r\<lparr>rl_status := ''sent'', rl_outbox_key := Some key, rl_sent_at := Some now\<rparr>) (reminder_log s1)\<rparr>,
               length rows))"

definition setting_int :: "(string \<times> setting) list \<Rightarrow> string \<Rightarrow> int \<Rightarrow> int" where
  "setting_int cfg key fallback = (case map_of cfg key of Some (SInt i) \<Rightarrow> i | _ \<Rightarrow> fallback)"

definition setting_bool :: "(string \<times> setting) list \<Rightarrow> string \<Rightarrow> bool" where
  "setting_bool cfg key = (case map_of cfg key of Some (SBool b) \<Rightarrow> b | _ \<Rightarrow> True)"

definition flush_due :: "wall_clock \<Rightarrow> (string \<times> setting) list \<Rightarrow> preference_row \<Rightarrow> instant \<Rightarrow> bool" where
  "flush_due clock cfg pref now =
     (digest_due clock pref now (setting_int cfg ''reminder_digest_hour'' 7) (setting_int cfg ''reminder_digest_weekday'' 0)
      \<or> send_now clock pref now)"

definition sweep_person ::
    "wall_clock \<Rightarrow> (string \<Rightarrow> string) \<Rightarrow> (string \<times> setting) list \<Rightarrow> uuid \<Rightarrow> instant \<Rightarrow> person_row \<Rightarrow>
     engagement \<times> sweep_counts \<Rightarrow> (engagement \<times> sweep_counts) result" where
  "sweep_person clock batch_hash cfg tenant now p = (\<lambda>(s, n).
     let (s1, pref) = get_preference s tenant (pe_id p);
         events = detect_events clock s1 tenant (pe_id p) now (setting_int cfg ''reminder_inactivity_days'' 7)
                    (setting_int cfg ''reminder_inactivity_max_nudges'' 4)
     in and_then (handle_events clock tenant p pref now events (s1, n)) (\<lambda>(s2, n2).
          if flush_due clock cfg pref now
          then (let (s3, k) = flush_queued batch_hash s2 tenant p now in Inr (s3, n2\<lparr>sc_flushed := sc_flushed n2 + k\<rparr>))
          else Inr (s2, n2)))"

fun sweep_people ::
    "wall_clock \<Rightarrow> (string \<Rightarrow> string) \<Rightarrow> (string \<times> setting) list \<Rightarrow> uuid \<Rightarrow> instant \<Rightarrow> person_row list \<Rightarrow>
     engagement \<times> sweep_counts \<Rightarrow> (engagement \<times> sweep_counts) result" where
  "sweep_people clock batch_hash cfg tenant now [] acc = Inr acc"
| "sweep_people clock batch_hash cfg tenant now (p # ps) acc =
     and_then (sweep_person clock batch_hash cfg tenant now p acc) (sweep_people clock batch_hash cfg tenant now ps)"

definition no_counts :: sweep_counts where
  "no_counts = \<lparr>sc_detected = 0, sc_sent = 0, sc_queued = 0, sc_skipped = 0, sc_flushed = 0\<rparr>"

definition reminded_people :: "academy_db \<Rightarrow> uuid \<Rightarrow> person_row list" where
  "reminded_people db tenant =
     filter (\<lambda>p. pe_tenant p = tenant \<and> pe_status p = ''active''
         \<and> list_ex (\<lambda>e. en_person e = pe_id p \<and> en_tenant e = pe_tenant p \<and> en_status e = ''active'' \<and> en_role e = ''student'')
             (enrollments db)) (people db)"

text \<open>\<open>None\<close> counts: reminders are disabled.\<close>

definition sweep ::
    "env_settings \<Rightarrow> wall_clock \<Rightarrow> (string \<Rightarrow> string) \<Rightarrow> engagement \<Rightarrow> uuid \<Rightarrow> instant \<Rightarrow>
     (engagement \<times> sweep_counts option) result" where
  "sweep env clock batch_hash s tenant now =
     (let cfg = effective env (Some (platform_settings s)) in
      if \<not> setting_bool cfg ''reminders_enabled'' then Inr (s, None)
      else and_then (sweep_people clock batch_hash cfg tenant now (reminded_people (academy s) tenant) (s, no_counts))
             (\<lambda>(s1, n). Inr (s1, Some n)))"

definition resend ::
    "(instant \<Rightarrow> string) \<Rightarrow> engagement \<Rightarrow> uuid \<Rightarrow> uuid \<Rightarrow> uuid \<Rightarrow> instant \<Rightarrow> engagement result" where
  "resend second_text s tenant log_id actor now =
     (case find (\<lambda>r. rl_tenant r = tenant \<and> rl_id r = log_id) (reminder_log s) of
        None \<Rightarrow> Inl (ValueError ''reminder not found'')
      | Some r \<Rightarrow>
          (case find (\<lambda>p. pe_tenant p = tenant \<and> pe_id p = rl_person r) (people (academy s)) of
             None \<Rightarrow> Inl (ValueError ''person not found'')
           | Some p \<Rightarrow>
               let key = ''reminder_resend:'' @ uuid_str (rl_id r) @ '':'' @ second_text now;
                   db1 = fst (enqueue_email (academy s) now tenant key (''reminder_'' @ rl_kind r) (pe_email p) (JObj []));
                   db2 = write_audit_event db1 tenant (Some actor) ''reminder.resend'' ''reminder_log'' (Some (uuid_str (rl_id r)))
                           (JObj [(''event_kind'', JStr (rl_kind r))])
               in Inr (s\<lparr>academy := db2,
                         reminder_log := update_rows (\<lambda>x. rl_tenant x = tenant \<and> rl_id x = log_id)
                           (\<lambda>x. x\<lparr>rl_status := ''sent'', rl_outbox_key := Some key, rl_sent_at := Some now\<rparr>) (reminder_log s)\<rparr>)))"

end
