(* ===== verification/Reminder_Properties.thy ===== *)
theory Reminder_Properties
  imports Reminders Course_Properties
begin

text \<open>
  Properties of the reminder sweep: running it twice at one instant is running it once, and one
  inactivity spell draws a bounded number of nudges.
\<close>

section \<open>What a sweep leaves alone\<close>

text \<open>A step only appends to the notifications and the outbox of the learning store.\<close>

definition world :: "academy_db \<Rightarrow> academy_db" where
  "world db = db\<lparr>notifications := [], email_outbox := [], next_id := 0\<rparr>"

definition same_world :: "engagement \<Rightarrow> engagement \<Rightarrow> bool" where
  "same_world s s' =
     (class_sessions s' = class_sessions s \<and> enrolled_at s' = enrolled_at s \<and> platform_settings s' = platform_settings s
      \<and> world (academy s') = world (academy s))"

definition log_key :: "reminder_row \<Rightarrow> uuid \<times> uuid \<times> string \<times> string" where
  "log_key r = (rl_tenant r, rl_person r, rl_kind r, rl_key r)"

definition log_grows :: "engagement \<Rightarrow> engagement \<Rightarrow> bool" where
  "log_grows s s' = (\<exists>extra. map log_key (reminder_log s') = map log_key (reminder_log s) @ extra)"

definition no_queued :: "engagement \<Rightarrow> uuid \<Rightarrow> uuid \<Rightarrow> bool" where
  "no_queued s tenant person = (filter (queued_for tenant person) (reminder_log s) = [])"

definition evolves :: "uuid \<Rightarrow> uuid \<Rightarrow> engagement \<Rightarrow> engagement \<Rightarrow> bool" where
  "evolves tenant q s s' =
     (same_world s s' \<and> log_grows s s'
      \<and> (\<forall>p. p \<noteq> q \<longrightarrow> no_queued s tenant p \<longrightarrow> no_queued s' tenant p)
      \<and> (\<forall>p pref. find (owned_preference tenant p) (reminder_preferences s) = Some pref \<longrightarrow>
              find (owned_preference tenant p) (reminder_preferences s') = Some pref))"

lemma same_world_refl: "same_world s s"
  by (simp add: same_world_def)

lemma world_appends [simp]:
  "world (db\<lparr>notifications := ns\<rparr>) = world db" "world (db\<lparr>email_outbox := ob\<rparr>) = world db" "world (db\<lparr>next_id := i\<rparr>) = world db"
  by (simp_all add: world_def)

lemma world_enqueue [simp]: "world (fst (enqueue_email db now t key kind to payload)) = world db"
  by (simp add: enqueue_email_def)

lemma world_notify: "notify db now t p kind title link = Inr db' \<Longrightarrow> world db' = world db"
  by (auto simp: notify_def result_simps)

lemma same_world_tables:
  assumes "same_world s s'"
  shows "people (academy s') = people (academy s)" "enrollments (academy s') = enrollments (academy s)"
    "cohorts (academy s') = cohorts (academy s)"
proof -
  have w: "world (academy s') = world (academy s)" using assms by (simp add: same_world_def)
  show "people (academy s') = people (academy s)" "enrollments (academy s') = enrollments (academy s)"
    "cohorts (academy s') = cohorts (academy s)"
    using arg_cong [OF w, of people] arg_cong [OF w, of enrollments] arg_cong [OF w, of cohorts] by (simp_all add: world_def)
qed

lemma same_world_trans: "same_world a b \<Longrightarrow> same_world b c \<Longrightarrow> same_world a c"
  by (auto simp: same_world_def)

lemma log_grows_trans: "log_grows a b \<Longrightarrow> log_grows b c \<Longrightarrow> log_grows a c"
  by (auto simp: log_grows_def)

lemma evolves_refl: "evolves tenant q s s"
  by (auto simp: evolves_def same_world_refl log_grows_def)

lemma evolves_trans: "evolves tenant q a b \<Longrightarrow> evolves tenant q b c \<Longrightarrow> evolves tenant q a c"
  by (auto simp: evolves_def intro: same_world_trans log_grows_trans)

lemma get_preference_evolves:
  assumes "get_preference s tenant q = (s', pref)"
  shows "evolves tenant q s s' \<and> find (owned_preference tenant q) (reminder_preferences s') = Some pref"
proof -
  have "same_world s s'" using assms
    by (auto simp: get_preference_def same_world_def Let_def split: option.splits)
  then show ?thesis using assms
    by (auto simp: get_preference_def evolves_def log_grows_def no_queued_def find_append owned_preference_def Let_def
        split: option.splits)
qed

lemma record_evolves:
  assumes "record_reminder s tenant q event channel status key now = (s', new)"
  shows "evolves tenant q s s' \<and> already_recorded s' tenant q (re_key event)"
proof -
  have "same_world s s'" using assms
    by (auto simp: record_reminder_def same_world_def use_id_def split: if_splits)
  then show ?thesis using assms
    by (auto simp: record_reminder_def evolves_def log_grows_def no_queued_def use_id_def already_recorded_def queued_for_def
        split: if_splits)
qed

lemma outbox_evolves: "evolves tenant q s (s\<lparr>academy := fst (enqueue_email (academy s) now t key kind to payload)\<rparr>)"
  by (simp add: evolves_def log_grows_def no_queued_def same_world_def)

lemma notify_evolves: "notify_reminder now t p event s = Inr s' \<Longrightarrow> evolves tenant q s s'"
  by (auto simp: notify_reminder_def result_simps evolves_def log_grows_def no_queued_def same_world_def dest: world_notify)

lemma recorded_grows:
  assumes "log_grows s s'" "already_recorded s tenant p key"
  shows "already_recorded s' tenant p key"
proof -
  let ?hit = "list_ex (\<lambda>(t, q, k, key'). t = tenant \<and> q = p \<and> key' = take 160 key)"
  have "already_recorded s tenant p key = ?hit (map log_key (reminder_log s))" for s
    unfolding already_recorded_def log_key_def list_ex_iff by simp
  moreover obtain extra where "map log_key (reminder_log s') = map log_key (reminder_log s) @ extra"
    using assms(1) by (auto simp: log_grows_def)
  ultimately show ?thesis using assms(2) by simp
qed

lemma handle_event_evolves:
  assumes "handle_event clock tenant p pref now event (s, n) = Inr (s', n')"
  shows "evolves tenant (pe_id p) s s' \<and> already_recorded s' tenant (pe_id p) (re_key event)"
proof -
  have step: "evolves tenant (pe_id p) s s' \<and> already_recorded s' tenant (pe_id p) (re_key event)"
    if r: "record_reminder s tenant (pe_id p) event channel status key now = (s1, new)"
      and c: "s' = s1 \<or> notify_reminder now tenant (pe_id p) event s1 = Inr s'
        \<or> (\<exists>k kind to payload. notify_reminder now tenant (pe_id p) event
              (s1\<lparr>academy := fst (enqueue_email (academy s1) now tenant k kind to payload)\<rparr>) = Inr s')"
    for channel status key s1 new
  proof -
    have "evolves tenant (pe_id p) s1 s'"
      using c evolves_refl notify_evolves outbox_evolves evolves_trans by metis
    with record_evolves [OF r] show ?thesis using evolves_trans recorded_grows by (metis evolves_def)
  qed
  consider (skip) "re_kind event \<in> set (rf_optouts pref)" | (send) "re_kind event \<notin> set (rf_optouts pref)" "send_now clock pref now"
    | (queue) "re_kind event \<notin> set (rf_optouts pref)" "\<not> send_now clock pref now" by blast
  then show ?thesis
  proof cases
    case skip
    obtain s1 new where r: "record_reminder s tenant (pe_id p) event ''none'' ''skipped'' None now = (s1, new)" by fastforce
    show ?thesis using assms skip r by (intro step [OF r]) (cases new; simp add: handle_event_def)
  next
    case send
    obtain s1 new where r: "record_reminder s tenant (pe_id p) event ''email'' ''sent'' (Some (immediate_key event (pe_id p))) now = (s1, new)"
      by fastforce
    show ?thesis
    proof (rule step [OF r], cases new)
      case True
      have "notify_reminder now tenant (pe_id p) event (s1\<lparr>academy := fst (enqueue_email (academy s1) now tenant (immediate_key event (pe_id p))
          (''reminder_'' @ re_kind event) (pe_email p) (JObj []))\<rparr>) = Inr s'"
        using assms send r True by (auto simp: handle_event_def Let_def and_then_eq_Inr)
      then show "s' = s1 \<or> notify_reminder now tenant (pe_id p) event s1 = Inr s'
        \<or> (\<exists>k kind to payload. notify_reminder now tenant (pe_id p) event
              (s1\<lparr>academy := fst (enqueue_email (academy s1) now tenant k kind to payload)\<rparr>) = Inr s')" by blast
    qed (use assms send r in \<open>simp add: handle_event_def\<close>)
  next
    case queue
    obtain s1 new where r: "record_reminder s tenant (pe_id p) event ''email'' ''queued'' None now = (s1, new)" by fastforce
    show ?thesis using assms queue r by (intro step [OF r]) (cases new; auto simp: handle_event_def and_then_eq_Inr)
  qed
qed

lemma handle_events_evolves:
  "handle_events clock tenant p pref now es (s, n) = Inr (s', n') \<Longrightarrow>
   evolves tenant (pe_id p) s s' \<and> (\<forall>e \<in> set es. already_recorded s' tenant (pe_id p) (re_key e))"
proof (induction es arbitrary: s n)
  case Nil
  then show ?case by (simp add: evolves_refl)
next
  case (Cons e es)
  then obtain s1 n1 where h: "handle_event clock tenant p pref now e (s, n) = Inr (s1, n1)"
      "handle_events clock tenant p pref now es (s1, n1) = Inr (s', n')"
    by (auto simp: and_then_eq_Inr)
  note a = handle_event_evolves [OF h(1)] and b = Cons.IH [OF h(2)]
  then have "already_recorded s' tenant (pe_id p) (re_key e)" using recorded_grows by (auto simp: evolves_def)
  with a b show ?case using evolves_trans by auto
qed

lemma queued_after_flush:
  "q = p \<or> filter (queued_for tenant q) rows = [] \<Longrightarrow>
   filter (queued_for tenant q) (update_rows (queued_for tenant p)
     (\<lambda>r. r\<lparr>rl_status := ''sent'', rl_outbox_key := Some key, rl_sent_at := Some now\<rparr>) rows) = []"
  by (induction rows) (auto simp: queued_for_def split: if_splits)

lemma flush_evolves:
  assumes "flush_queued batch_hash s tenant p now = (s', k)"
  shows "evolves tenant (pe_id p) s s' \<and> no_queued s' tenant (pe_id p)"
proof (cases "filter (queued_for tenant (pe_id p)) (reminder_log s) = []")
  case True
  then show ?thesis using assms by (auto simp: flush_queued_def no_queued_def evolves_refl)
next
  case False
  let ?sent = "\<lambda>key r. r\<lparr>rl_status := ''sent'', rl_outbox_key := Some key, rl_sent_at := Some now\<rparr>"
  have nonempty: "sort_key rl_created_at (filter (queued_for tenant (pe_id p)) (reminder_log s)) \<noteq> []"
    using False by (metis set_empty set_sort)
  define key where "key = digest_key batch_hash (pe_id p) (sort_key rl_created_at (filter (queued_for tenant (pe_id p)) (reminder_log s)))"
  have "flush_queued batch_hash s tenant p now
      = (s\<lparr>academy := fst (enqueue_email (academy s) now tenant key ''reminder_digest'' (pe_email p) (JObj [])),
           reminder_log := update_rows (queued_for tenant (pe_id p)) (?sent key) (reminder_log s)\<rparr>,
         length (sort_key rl_created_at (filter (queued_for tenant (pe_id p)) (reminder_log s))))"
    unfolding flush_queued_def Let_def if_not_P [OF nonempty] key_def [symmetric] by simp
  then have s': "s' = s\<lparr>academy := fst (enqueue_email (academy s) now tenant key ''reminder_digest'' (pe_email p) (JObj [])),
      reminder_log := update_rows (queued_for tenant (pe_id p)) (?sent key) (reminder_log s)\<rparr>"
    using assms by simp
  have "same_world s s'" unfolding s' by (simp add: same_world_def)
  moreover have "log_grows s s'" unfolding s' log_grows_def by (simp add: map_update_rows log_key_def)
  moreover have "no_queued s' tenant q" if "no_queued s tenant q \<or> q = pe_id p" for q
    unfolding s' no_queued_def using queued_after_flush that by (auto simp: no_queued_def)
  ultimately show ?thesis by (auto simp: evolves_def s')
qed

section \<open>Running the sweep twice\<close>

definition settled ::
    "wall_clock \<Rightarrow> (string \<times> setting) list \<Rightarrow> uuid \<Rightarrow> instant \<Rightarrow> uuid \<Rightarrow> engagement \<Rightarrow> bool" where
  "settled clock cfg tenant now person s =
     (\<exists>pref. find (owned_preference tenant person) (reminder_preferences s) = Some pref
       \<and> (\<forall>e \<in> set (detect_events clock s tenant person now (setting_int cfg ''reminder_inactivity_days'' 7)
                (setting_int cfg ''reminder_inactivity_max_nudges'' 4)). already_recorded s tenant person (re_key e))
       \<and> (flush_due clock cfg pref now \<longrightarrow> no_queued s tenant person))"

lemma nudges_grow:
  assumes "log_grows s s'" shows "nudges_drawn s tenant p prefix \<le> nudges_drawn s' tenant p prefix"
proof -
  have "nudges_drawn s tenant p prefix
      = count_rows (\<lambda>(t, q, k, key). t = tenant \<and> q = p \<and> k = ''inactivity'' \<and> starts_with key prefix) (map log_key (reminder_log s))"
    for s unfolding nudges_drawn_def count_rows_def log_key_def by (simp add: filter_map comp_def)
  then show ?thesis using assms by (auto simp: log_grows_def)
qed

text \<open>In the same world with a longer log, no new occurrence appears.\<close>

lemma no_new_events:
  assumes "same_world s s'" "log_grows s s'" "e' \<in> set (detect_events clock s' tenant p now days nudges)"
  shows "\<exists>e \<in> set (detect_events clock s tenant p now days nudges). re_key e = re_key e'"
proof -
  have w: "world (academy s') = world (academy s)"
    and eq: "class_sessions s' = class_sessions s" "enrolled_at s' = enrolled_at s"
    using assms(1) by (auto simp: same_world_def)
  note tables = same_world_tables(2,3) [OF assms(1)]
  have rows: "deadline_rows (world db) tenant p = deadline_rows db tenant p"
    "last_activity_at (world db) tenant p = last_activity_at db tenant p" for db
    by (simp_all add: world_def deadline_rows_def deadline_join_def passed_activity_ids_def last_activity_at_def)
  have views: "starting_events (world db) tenant p now = starting_events db tenant p now"
    "deadline_events clock (world db) tenant p now = deadline_events clock db tenant p now"
    "graded_events (world db) tenant p l = graded_events db tenant p l"
    "completion_events (world db) tenant p l = completion_events db tenant p l"
    "certificate_events (world db) tenant p l = certificate_events db tenant p l" for db l
    subgoal by (simp add: starting_events_def world_def)
    subgoal by (simp add: deadline_events_def rows)
    subgoal by (simp add: graded_events_def world_def)
    subgoal by (simp add: completion_events_def world_def)
    subgoal by (simp add: certificate_events_def world_def)
    done
  have sessions: "list_for_person s' tenant p now = list_for_person s tenant p now"
    "first_enrolled s' tenant p = first_enrolled s tenant p"
    by (simp_all add: tables eq list_for_person_def timetable_rows_def first_enrolled_def)
  have base: "assigned_events s' tenant p l = assigned_events s tenant p l"
    "starting_events (academy s') tenant p now = starting_events (academy s) tenant p now"
    "deadline_events clock (academy s') tenant p now = deadline_events clock (academy s) tenant p now"
    "session_events clock s' tenant p now = session_events clock s tenant p now"
    "graded_events (academy s') tenant p l = graded_events (academy s) tenant p l"
    "completion_events (academy s') tenant p l = completion_events (academy s) tenant p l"
    "certificate_events (academy s') tenant p l = certificate_events (academy s) tenant p l"
    "last_activity_at (academy s') tenant p = last_activity_at (academy s) tenant p" for l
    subgoal by (simp add: assigned_events_def tables eq)
    subgoal using views(1) [of "academy s'"] views(1) [of "academy s"] w by simp
    subgoal using views(2) [of "academy s'"] views(2) [of "academy s"] w by simp
    subgoal by (simp add: session_events_def sessions)
    subgoal using views(3) [of "academy s'"] views(3) [of "academy s"] w by simp
    subgoal using views(4) [of "academy s'"] views(4) [of "academy s"] w by simp
    subgoal using views(5) [of "academy s'"] views(5) [of "academy s"] w by simp
    subgoal using rows(2) [of "academy s'"] rows(2) [of "academy s"] w by simp
    done
  have anchor: "activity_anchor s' tenant p = activity_anchor s tenant p"
    by (simp add: activity_anchor_def base sessions split: option.split)
  have "\<exists>e \<in> set (inactivity_events clock s tenant p now days nudges). re_key e = re_key x"
    if found: "x \<in> set (inactivity_events clock s' tenant p now days nudges)" for x
  proof -
    obtain t where a: "activity_anchor s tenant p = Some t"
      using found by (cases "activity_anchor s tenant p") (simp_all add: inactivity_events_def anchor)
    have t: "t < now - 86400 * days" "int (nudges_drawn s' tenant p (spell_prefix clock t)) < nudges"
        "re_key x = spell_prefix clock t @ '':w'' @ show_int (max 1 (days_between now t div max days 1))"
      using found by (simp_all add: inactivity_events_def anchor a Let_def split: if_splits)
    have "int (nudges_drawn s tenant p (spell_prefix clock t)) < nudges"
      using nudges_grow [OF assms(2), of tenant p "spell_prefix clock t"] t(2) by linarith
    then show ?thesis using a t by (simp add: inactivity_events_def Let_def)
  qed
  then show ?thesis using assms(3) unfolding detect_events_def Let_def base by auto
qed

lemma settled_stays:
  assumes "settled clock cfg tenant now p s" "evolves tenant q s s'" "q \<noteq> p"
  shows "settled clock cfg tenant now p s'"
proof -
  let ?events = "\<lambda>s. detect_events clock s tenant p now (setting_int cfg ''reminder_inactivity_days'' 7)
                (setting_int cfg ''reminder_inactivity_max_nudges'' 4)"
  obtain pref where pref: "find (owned_preference tenant p) (reminder_preferences s) = Some pref"
    and recorded: "\<forall>e \<in> set (?events s). already_recorded s tenant p (re_key e)"
    and quiet: "flush_due clock cfg pref now \<longrightarrow> no_queued s tenant p"
    using assms(1) by (auto simp: settled_def)
  have step: "same_world s s'" "log_grows s s'" "no_queued s tenant p \<longrightarrow> no_queued s' tenant p"
    "find (owned_preference tenant p) (reminder_preferences s') = Some pref"
    using assms(2,3) pref by (auto simp: evolves_def)
  have "already_recorded s' tenant p (re_key e)" if found: "e \<in> set (?events s')" for e
  proof -
    from no_new_events [OF step(1,2) found] obtain x where "x \<in> set (?events s)" "re_key x = re_key e" by blast
    then show ?thesis using recorded recorded_grows [OF step(2)] by metis
  qed
  then show ?thesis using step(3,4) quiet unfolding settled_def by blast
qed

lemma settled_person:
  assumes "settled clock cfg tenant now (pe_id p) s"
  shows "sweep_person clock batch_hash cfg tenant now p (s, n) = Inr (s, n)"
proof -
  obtain pref where pref: "find (owned_preference tenant (pe_id p)) (reminder_preferences s) = Some pref"
    and recorded: "\<forall>e \<in> set (detect_events clock s tenant (pe_id p) now (setting_int cfg ''reminder_inactivity_days'' 7)
                (setting_int cfg ''reminder_inactivity_max_nudges'' 4)). already_recorded s tenant (pe_id p) (re_key e)"
    and quiet: "flush_due clock cfg pref now \<longrightarrow> no_queued s tenant (pe_id p)"
    using assms by (auto simp: settled_def)
  have "handle_events clock tenant p pref now es (s, n) = Inr (s, n)"
    if "\<forall>e \<in> set es. already_recorded s tenant (pe_id p) (re_key e)" for es
    using that by (induction es) (auto simp: handle_event_def record_reminder_def)
  then have "handle_events clock tenant p pref now (detect_events clock s tenant (pe_id p) now
      (setting_int cfg ''reminder_inactivity_days'' 7) (setting_int cfg ''reminder_inactivity_max_nudges'' 4)) (s, n) = Inr (s, n)"
    using recorded by blast
  moreover have "flush_queued batch_hash s tenant p now = (s, 0)" if "flush_due clock cfg pref now"
    using quiet that by (simp add: flush_queued_def no_queued_def)
  ultimately show ?thesis using pref by (simp add: sweep_person_def get_preference_def)
qed

lemma sweep_person_settles:
  assumes "sweep_person clock batch_hash cfg tenant now p (s, n) = Inr (s', n')"
  shows "evolves tenant (pe_id p) s s' \<and> settled clock cfg tenant now (pe_id p) s'"
proof -
  obtain s1 pref where g: "get_preference s tenant (pe_id p) = (s1, pref)" by fastforce
  let ?events = "detect_events clock s1 tenant (pe_id p) now (setting_int cfg ''reminder_inactivity_days'' 7)
                (setting_int cfg ''reminder_inactivity_max_nudges'' 4)"
  obtain s2 n2 where h: "handle_events clock tenant p pref now ?events (s1, n) = Inr (s2, n2)"
      "if flush_due clock cfg pref now then \<exists>k. flush_queued batch_hash s2 tenant p now = (s', k) else s' = s2"
    using assms g by (auto simp: sweep_person_def and_then_eq_Inr split: if_splits prod.splits)
  note e1 = get_preference_evolves [OF g] and e2 = handle_events_evolves [OF h(1)]
  have e3: "evolves tenant (pe_id p) s2 s' \<and> (flush_due clock cfg pref now \<longrightarrow> no_queued s' tenant (pe_id p))"
    using h(2) flush_evolves evolves_refl by (auto split: if_splits)
  have e12: "evolves tenant (pe_id p) s1 s'" using e2 e3 evolves_trans by blast
  have "already_recorded s' tenant (pe_id p) (re_key e)"
    if found: "e \<in> set (detect_events clock s' tenant (pe_id p) now (setting_int cfg ''reminder_inactivity_days'' 7)
                (setting_int cfg ''reminder_inactivity_max_nudges'' 4))" for e
  proof -
    have "same_world s1 s'" "log_grows s1 s'" using e12 by (simp_all add: evolves_def)
    from no_new_events [OF this found] obtain x where "x \<in> set ?events" "re_key x = re_key e" by blast
    then have "already_recorded s2 tenant (pe_id p) (re_key e)" using e2 by metis
    moreover have "log_grows s2 s'" using e3 by (simp add: evolves_def)
    ultimately show ?thesis using recorded_grows by blast
  qed
  moreover have "find (owned_preference tenant (pe_id p)) (reminder_preferences s') = Some pref"
    using e1 e12 by (auto simp: evolves_def)
  ultimately show ?thesis using e1 e3 e12 evolves_trans by (auto simp: settled_def)
qed

lemma sweep_people_settle:
  "sweep_people clock batch_hash cfg tenant now ps (s, n) = Inr (s', n') \<Longrightarrow>
   same_world s s' \<and> (\<forall>q. settled clock cfg tenant now q s \<or> q \<in> pe_id ` set ps \<longrightarrow> settled clock cfg tenant now q s')"
proof (induction ps arbitrary: s n)
  case Nil
  then show ?case by (simp add: same_world_refl)
next
  case (Cons p ps)
  then obtain s1 n1 where h: "sweep_person clock batch_hash cfg tenant now p (s, n) = Inr (s1, n1)"
      "sweep_people clock batch_hash cfg tenant now ps (s1, n1) = Inr (s', n')"
    by (auto simp: and_then_eq_Inr)
  note a = sweep_person_settles [OF h(1)] and b = Cons.IH [OF h(2)]
  have "settled clock cfg tenant now q s1" if "settled clock cfg tenant now q s \<or> q = pe_id p" for q
    using that a settled_stays by (cases "q = pe_id p") auto
  then show ?case using a b same_world_trans by (auto simp: evolves_def)
qed

lemma settled_people:
  "\<forall>p \<in> set ps. settled clock cfg tenant now (pe_id p) s \<Longrightarrow> sweep_people clock batch_hash cfg tenant now ps (s, n) = Inr (s, n)"
  by (induction ps) (auto simp: settled_person)

text \<open>C19. The reminder sweep is idempotent: repeated at the same instant, after a sweep that succeeded, it records nothing,
  sends, queues and flushes nothing and leaves the whole store as it is, whatever preferences, quiet
  hours and digest boundaries apply.\<close>

theorem reminder_sweep_is_idempotent:
  assumes "sweep env clock batch_hash s tenant now = Inr (s', Some n)"
  shows "sweep env clock batch_hash s' tenant now = Inr (s', Some no_counts)"
proof -
  let ?cfg = "effective env (Some (platform_settings s))"
  have on: "setting_bool ?cfg ''reminders_enabled''"
    and run: "sweep_people clock batch_hash ?cfg tenant now (reminded_people (academy s) tenant) (s, no_counts) = Inr (s', n)"
    using assms by (auto simp: sweep_def Let_def and_then_eq_Inr split: if_splits)
  note after = sweep_people_settle [OF run]
  have cfg: "effective env (Some (platform_settings s')) = ?cfg" "reminded_people (academy s') tenant = reminded_people (academy s) tenant"
    using conjunct1 [OF after] same_world_tables [OF conjunct1 [OF after]] by (simp_all add: same_world_def reminded_people_def)
  have "sweep_people clock batch_hash ?cfg tenant now (reminded_people (academy s) tenant) (s', no_counts) = Inr (s', no_counts)"
    by (rule settled_people) (use after in auto)
  then show ?thesis using on cfg by (simp add: sweep_def)
qed

section \<open>Inactivity nudges\<close>

definition row_of_event :: "uuid \<Rightarrow> uuid \<Rightarrow> reminder_event \<Rightarrow> reminder_row \<Rightarrow> bool" where
  "row_of_event tenant person event r = (log_key r = (tenant, person, re_kind event, take 160 (re_key event)))"

lemma record_log:
  assumes "record_reminder s tenant q event channel status key now = (s', new)"
  shows "reminder_log s' = reminder_log s \<or> (\<exists>r. reminder_log s' = reminder_log s @ [r] \<and> row_of_event tenant q event r)"
  using assms by (auto simp: record_reminder_def use_id_def row_of_event_def log_key_def split: if_splits)

lemma notify_log: "notify_reminder now t p event s = Inr s' \<Longrightarrow> reminder_log s' = reminder_log s"
  by (auto simp: notify_reminder_def result_simps)

lemma handle_event_log:
  assumes "handle_event clock tenant p pref now event (s, n) = Inr (s', n')"
  shows "reminder_log s' = reminder_log s \<or> (\<exists>r. reminder_log s' = reminder_log s @ [r] \<and> row_of_event tenant (pe_id p) event r)"
proof (cases "re_kind event \<in> set (rf_optouts pref)")
  case True
  obtain s1 new where "record_reminder s tenant (pe_id p) event ''none'' ''skipped'' None now = (s1, new)" by fastforce
  with record_log [OF this] True assms show ?thesis by (cases new) (simp_all add: handle_event_def)
next
  case False
  show ?thesis
  proof (cases "send_now clock pref now")
    case True
    obtain s1 new where r: "record_reminder s tenant (pe_id p) event ''email'' ''sent'' (Some (immediate_key event (pe_id p))) now = (s1, new)"
      by fastforce
    have "reminder_log s' = reminder_log s1"
      using assms False True r by (cases new) (auto simp: handle_event_def Let_def and_then_eq_Inr dest: notify_log)
    with record_log [OF r] show ?thesis by simp
  next
    case queue: False
    obtain s1 new where r: "record_reminder s tenant (pe_id p) event ''email'' ''queued'' None now = (s1, new)" by fastforce
    have "reminder_log s' = reminder_log s1"
      using assms False queue r by (cases new) (auto simp: handle_event_def and_then_eq_Inr dest: notify_log)
    with record_log [OF r] show ?thesis by simp
  qed
qed

definition draws :: "uuid \<Rightarrow> string \<Rightarrow> uuid \<Rightarrow> reminder_event \<Rightarrow> bool" where
  "draws q prefix person e = (q = person \<and> re_kind e = ''inactivity'' \<and> starts_with (take 160 (re_key e)) prefix)"

lemma handle_events_nudges:
  "handle_events clock tenant p pref now es (s, n) = Inr (s', n') \<Longrightarrow>
   nudges_drawn s' tenant q prefix \<le> nudges_drawn s tenant q prefix + count_rows (draws q prefix (pe_id p)) es"
proof (induction es arbitrary: s n)
  case (Cons e es)
  then obtain s1 n1 where h: "handle_event clock tenant p pref now e (s, n) = Inr (s1, n1)"
      "handle_events clock tenant p pref now es (s1, n1) = Inr (s', n')"
    by (auto simp: and_then_eq_Inr)
  have "nudges_drawn s1 tenant q prefix \<le> nudges_drawn s tenant q prefix + (if draws q prefix (pe_id p) e then 1 else 0)"
    using handle_event_log [OF h(1)] by (auto simp: nudges_drawn_def row_of_event_def log_key_def draws_def)
  then show ?case using Cons.IH [OF h(2)] by (auto split: if_splits)
qed simp

lemma only_inactivity_draws:
  "count_rows (draws q prefix person) (detect_events clock s tenant person now days nudges)
   = count_rows (draws q prefix person) (inactivity_events clock s tenant person now days nudges)"
proof -
  have none: "count_rows (draws q prefix person) xs = 0" if "\<forall>e \<in> set xs. re_kind e \<noteq> ''inactivity''" for xs
    using that by (induction xs) (auto simp: draws_def)
  have "\<forall>e \<in> set (assigned_events s tenant person l). re_kind e \<noteq> ''inactivity''"
    "\<forall>e \<in> set (starting_events (academy s) tenant person now). re_kind e \<noteq> ''inactivity''"
    "\<forall>e \<in> set (deadline_events clock (academy s) tenant person now). re_kind e \<noteq> ''inactivity''"
    "\<forall>e \<in> set (session_events clock s tenant person now). re_kind e \<noteq> ''inactivity''"
    "\<forall>e \<in> set (graded_events (academy s) tenant person l). re_kind e \<noteq> ''inactivity''"
    "\<forall>e \<in> set (completion_events (academy s) tenant person l). re_kind e \<noteq> ''inactivity''"
    "\<forall>e \<in> set (certificate_events (academy s) tenant person l). re_kind e \<noteq> ''inactivity''" for l
    by (auto simp: assigned_events_def starting_events_def deadline_events_def session_events_def graded_events_def
        completion_events_def certificate_events_def deadline_kind_def session_kind_def split: if_splits)
  then show ?thesis by (simp add: detect_events_def Let_def none)
qed

text \<open>With dates of ten characters a key belongs to the spell of its anchor only.\<close>

lemma spell_of_key:
  assumes "length (date_text clock t) = 10" "length d = 10"
    and "starts_with (take 160 (spell_prefix clock t @ tail)) (''inactivity:'' @ d)"
  shows "d = date_text clock t"
proof -
  obtain rest where "take 160 (spell_prefix clock t @ tail) = ''inactivity:'' @ d @ rest"
    using assms(3) by (auto simp: starts_with_iff)
  then have "take 21 (take 160 (spell_prefix clock t @ tail)) = take 21 (''inactivity:'' @ d @ rest)" by metis
  then show ?thesis using assms(1,2) by (simp add: spell_prefix_def)
qed

lemma detected_nudges:
  assumes "\<forall>t. length (date_text clock t) = 10" "length d = 10"
    and "int (nudges_drawn s tenant q (''inactivity:'' @ d)) \<le> nudges"
  shows "int (nudges_drawn s tenant q (''inactivity:'' @ d)
     + count_rows (draws q (''inactivity:'' @ d) person) (detect_events clock s tenant person now days nudges)) \<le> nudges"
proof -
  have "int (nudges_drawn s tenant q (''inactivity:'' @ d)) < nudges \<and> length (inactivity_events clock s tenant person now days nudges) \<le> 1"
    if drawn: "\<exists>e \<in> set (inactivity_events clock s tenant person now days nudges). draws q (''inactivity:'' @ d) person e"
  proof -
    obtain t where a: "activity_anchor s tenant person = Some t"
      using drawn by (cases "activity_anchor s tenant person") (simp_all add: inactivity_events_def)
    have "t < now - 86400 * days" "int (nudges_drawn s tenant person (spell_prefix clock t)) < nudges" "q = person"
      "starts_with (take 160 (spell_prefix clock t @ '':w'' @ show_int (max 1 (days_between now t div max days 1)))) (''inactivity:'' @ d)"
      using drawn by (auto simp: inactivity_events_def a Let_def draws_def split: if_splits)
    moreover from this have "d = date_text clock t" using spell_of_key assms(1,2) by blast
    ultimately show ?thesis by (simp add: spell_prefix_def inactivity_events_def a Let_def)
  qed
  moreover have "count_rows P xs = 0" if "\<not> (\<exists>e \<in> set xs. P e)" for P and xs :: "reminder_event list"
    using that by (induction xs) auto
  moreover have "count_rows P xs \<le> length xs" for P and xs :: "reminder_event list"
    by (simp add: count_rows_def)
  ultimately show ?thesis unfolding only_inactivity_draws using assms(3)
    by (cases "\<exists>e \<in> set (inactivity_events clock s tenant person now days nudges). draws q (''inactivity:'' @ d) person e")
       (smt (verit) of_nat_add of_nat_mono of_nat_1 le_trans, simp)
qed

definition nudges_capped :: "uuid \<Rightarrow> int \<Rightarrow> engagement \<Rightarrow> bool" where
  "nudges_capped tenant cap s =
     (\<forall>q d. length d = 10 \<longrightarrow> int (nudges_drawn s tenant q (''inactivity:'' @ d)) \<le> cap)"

lemma flush_keeps_nudges:
  assumes "flush_queued batch_hash s tenant p now = (s', k)"
  shows "nudges_drawn s' tenant q prefix = nudges_drawn s tenant q prefix"
proof -
  have "map log_key (reminder_log s') = map log_key (reminder_log s)"
    using assms by (auto simp: flush_queued_def Let_def map_update_rows log_key_def split: if_splits)
  moreover have "nudges_drawn s tenant q prefix
      = count_rows (\<lambda>(t, r, k, key). t = tenant \<and> r = q \<and> k = ''inactivity'' \<and> starts_with key prefix) (map log_key (reminder_log s))"
    for s unfolding nudges_drawn_def count_rows_def log_key_def by (simp add: filter_map comp_def)
  ultimately show ?thesis by simp
qed

lemma sweep_person_nudges:
  assumes "sweep_person clock batch_hash cfg tenant now p (s, n) = Inr (s', n')" "\<forall>t. length (date_text clock t) = 10"
    and "nudges_capped tenant (setting_int cfg ''reminder_inactivity_max_nudges'' 4) s"
  shows "nudges_capped tenant (setting_int cfg ''reminder_inactivity_max_nudges'' 4) s'"
proof -
  obtain s1 pref where g: "get_preference s tenant (pe_id p) = (s1, pref)" by fastforce
  let ?cap = "setting_int cfg ''reminder_inactivity_max_nudges'' 4"
  let ?events = "detect_events clock s1 tenant (pe_id p) now (setting_int cfg ''reminder_inactivity_days'' 7) ?cap"
  obtain s2 n2 where h: "handle_events clock tenant p pref now ?events (s1, n) = Inr (s2, n2)"
      "if flush_due clock cfg pref now then \<exists>k. flush_queued batch_hash s2 tenant p now = (s', k) else s' = s2"
    using assms(1) g by (auto simp: sweep_person_def and_then_eq_Inr split: if_splits prod.splits)
  have "reminder_log s1 = reminder_log s" using g by (auto simp: get_preference_def Let_def split: option.splits)
  then have first: "nudges_drawn s1 tenant q x = nudges_drawn s tenant q x" for q x by (simp add: nudges_drawn_def)
  have final: "nudges_drawn s' tenant q x = nudges_drawn s2 tenant q x" for q x
    using h(2) flush_keeps_nudges by (auto split: if_splits)
  show ?thesis unfolding nudges_capped_def
  proof (intro allI impI)
    fix q and d :: string assume d: "length d = 10"
    have "int (nudges_drawn s1 tenant q (''inactivity:'' @ d)) \<le> ?cap" using assms(3) d by (simp add: nudges_capped_def first)
    note drawn = detected_nudges [OF assms(2) d this, of "pe_id p" now "setting_int cfg ''reminder_inactivity_days'' 7"]
    have "int (nudges_drawn s2 tenant q (''inactivity:'' @ d)) \<le> int (nudges_drawn s1 tenant q (''inactivity:'' @ d)
        + count_rows (draws q (''inactivity:'' @ d) (pe_id p)) ?events)"
      using handle_events_nudges [OF h(1), of q "''inactivity:'' @ d"] by (rule of_nat_mono)
    with drawn show "int (nudges_drawn s' tenant q (''inactivity:'' @ d)) \<le> ?cap" unfolding final by (rule order_trans [rotated])
  qed
qed

lemma sweep_people_nudges:
  "sweep_people clock batch_hash cfg tenant now ps (s, n) = Inr (s', n') \<Longrightarrow> \<forall>t. length (date_text clock t) = 10 \<Longrightarrow>
   nudges_capped tenant (setting_int cfg ''reminder_inactivity_max_nudges'' 4) s \<Longrightarrow>
   nudges_capped tenant (setting_int cfg ''reminder_inactivity_max_nudges'' 4) s'"
proof (induction ps arbitrary: s n)
  case (Cons p ps)
  then obtain s1 n1 where "sweep_person clock batch_hash cfg tenant now p (s, n) = Inr (s1, n1)"
      "sweep_people clock batch_hash cfg tenant now ps (s1, n1) = Inr (s', n')"
    by (auto simp: and_then_eq_Inr)
  then show ?case using Cons sweep_person_nudges by blast
qed simp

text \<open>A dormant learner is not harassed: if no spell of inactivity of any learner has drawn more nudges than the
  configured maximum, none has after a sweep, at any later instant and whatever the log, the events and
  the elapsed windows are.\<close>

theorem inactivity_nudges_are_capped:
  assumes "sweep env clock batch_hash s tenant now = Inr (s', n)" "\<forall>t. length (date_text clock t) = 10"
    and "\<forall>q d. length d = 10 \<longrightarrow> int (nudges_drawn s tenant q (''inactivity:'' @ d))
           \<le> setting_int (effective env (Some (platform_settings s))) ''reminder_inactivity_max_nudges'' 4"
  shows "\<forall>q d. length d = 10 \<longrightarrow> int (nudges_drawn s' tenant q (''inactivity:'' @ d))
           \<le> setting_int (effective env (Some (platform_settings s))) ''reminder_inactivity_max_nudges'' 4"
proof (cases "setting_bool (effective env (Some (platform_settings s))) ''reminders_enabled''")
  case True
  then obtain n' where "sweep_people clock batch_hash (effective env (Some (platform_settings s))) tenant now
      (reminded_people (academy s) tenant) (s, no_counts) = Inr (s', n')"
    using assms(1) by (auto simp: sweep_def Let_def and_then_eq_Inr)
  from sweep_people_nudges [OF this assms(2)] assms(3) show ?thesis by (simp add: nudges_capped_def)
next
  case False
  then show ?thesis using assms by (simp add: sweep_def Let_def)
qed

section \<open>Witnesses\<close>

definition utc_clock :: wall_clock where
  "utc_clock = \<lparr>local_hour = (\<lambda>t. t div 3600 mod 24), local_weekday = (\<lambda>t. (t div 86400 + 3) mod 7),
     local_day_end = (\<lambda>t. (t div 86400 + 1) * 86400 - 1), date_text = (\<lambda>t. ''2026-07-01''), stamp_text = (\<lambda>t. ''20260701T0000'')\<rparr>"

definition dormant :: engagement where
  "dormant = \<lparr>academy = two_course_track\<lparr>people := [sample_person], next_id := 100\<rparr>, class_sessions = [], reminder_log = [],
     reminder_preferences = [], success_entries = [], platform_settings = [], enrolled_at = (\<lambda>_. 0), delivery_mode = (\<lambda>_. ''live'')\<rparr>"

lemma dormant_sweep:
  "\<exists>s' n. sweep sample_env utc_clock (\<lambda>_. ''h'') dormant 11 864000 = Inr (s', Some n) \<and> sc_sent n = 1 \<and> length (reminder_log s') = 1"
proof -
  have "case sweep sample_env utc_clock (\<lambda>_. ''h'') dormant 11 864000 of
      Inr (s', Some n) \<Rightarrow> sc_sent n = 1 \<and> length (reminder_log s') = 1 | _ \<Rightarrow> False" by code_simp
  then show ?thesis by (auto split: sum.splits option.splits prod.splits)
qed

theorem reminder_sweep_is_idempotent_witness:
  "\<exists>s' n. sweep sample_env utc_clock (\<lambda>_. ''h'') dormant 11 864000 = Inr (s', Some n) \<and> sc_sent n = 1
     \<and> sweep sample_env utc_clock (\<lambda>_. ''h'') s' 11 864000 = Inr (s', Some no_counts)"
  using dormant_sweep reminder_sweep_is_idempotent by blast

theorem inactivity_nudges_are_capped_witness:
  "\<exists>s' n. sweep sample_env utc_clock (\<lambda>_. ''h'') dormant 11 864000 = Inr (s', n)
     \<and> int (nudges_drawn s' 11 7 (''inactivity:'' @ ''2026-07-01'')) \<le> 4"
proof -
  obtain s' n where s: "sweep sample_env utc_clock (\<lambda>_. ''h'') dormant 11 864000 = Inr (s', Some n)" using dormant_sweep by blast
  have cap: "setting_int (effective sample_env (Some (platform_settings dormant))) ''reminder_inactivity_max_nudges'' 4 = 4"
    by code_simp
  have "\<forall>t. length (date_text utc_clock t) = 10" by (simp add: utc_clock_def)
  note c = inactivity_nudges_are_capped [OF s this]
  have "int (nudges_drawn s' 11 7 (''inactivity:'' @ ''2026-07-01'')) \<le> 4"
    using c unfolding cap by (simp add: nudges_drawn_def dormant_def)
  with s show ?thesis by blast
qed

end
