(* ===== verification/Success_Queue.thy ===== *)
theory Success_Queue
  imports Reminders
begin

text \<open>
  The Success Queue (\<open>services/success_queue.py\<close>): the rules that open an intervention entry
  for a learner, the sweep that refreshes the queue, the transitions of an entry by staff, and
  the learner segments with their message action. \<open>isofmt\<close> is \<open>datetime.isoformat\<close>.
\<close>

definition SEVERITY_RANK :: "string \<Rightarrow> int" where
  "SEVERITY_RANK sev = (if sev = ''high'' then 3 else if sev = ''medium'' then 2 else if sev = ''low'' then 1 else 0)"

definition REASON_KINDS :: "string list" where
  "REASON_KINDS = [''inactivity'', ''overdue_work'', ''below_passing'', ''failed_final'', ''certificate_blocked'']"

definition SEGMENT_KEYS :: "string list" where
  "SEGMENT_KEYS = [''inactive'', ''overdue_work'', ''below_passing'', ''failed_final'', ''almost_complete'']"

definition quoted :: "string \<Rightarrow> string" where
  "quoted s = CHR 0x27 # s @ [CHR 0x27]"

section \<open>Rules\<close>

text \<open>What a rule returns when it fires: the facts, the severity and the recommended action.\<close>

record rule_hit =
  rh_facts :: "(string \<times> json) list"
  rh_severity :: string
  rh_action :: string

definition student_cohort_ids :: "academy_db \<Rightarrow> uuid \<Rightarrow> uuid \<Rightarrow> uuid list" where
  "student_cohort_ids db tenant person =
     map en_cohort (filter (\<lambda>e. en_tenant e = tenant \<and> en_person e = person \<and> en_role e = ''student''
       \<and> en_status e = ''active'') (enrollments db))"

definition active_course_ids :: "academy_db \<Rightarrow> uuid \<Rightarrow> uuid list \<Rightarrow> uuid list" where
  "active_course_ids db tenant cohort_ids =
     (if cohort_ids = [] then []
      else map of_course (filter (\<lambda>o'. of_tenant o' = tenant \<and> of_cohort o' \<in> set cohort_ids \<and> of_status o' = ''active'')
             (offerings db)))"

definition course_title_of :: "academy_db \<Rightarrow> uuid \<Rightarrow> string" where
  "course_title_of db course = (case find (\<lambda>c. co_id c = course) (courses db) of None \<Rightarrow> '''' | Some c \<Rightarrow> co_title c)"

definition rule_inactivity ::
    "(instant \<Rightarrow> string) \<Rightarrow> academy_db \<Rightarrow> uuid \<Rightarrow> uuid \<Rightarrow> instant option \<Rightarrow> instant \<Rightarrow> int \<Rightarrow> rule_hit option" where
  "rule_inactivity isofmt db tenant person enrolled_since now threshold_days =
     (let seen = last_activity_at db tenant person in
      case (case seen of None \<Rightarrow> enrolled_since | Some t \<Rightarrow> Some t) of
        None \<Rightarrow> None
      | Some anchor \<Rightarrow>
          let days = days_between now anchor in
          if days < threshold_days then None
          else Some \<lparr>rh_facts = [(''last_activity_at'', JStr (isofmt anchor)), (''days_inactive'', JInt days),
                       (''threshold_days'', JInt threshold_days), (''never_active'', JBool (seen = None))],
                     rh_severity = (if days \<ge> threshold_days * 2 then ''high'' else ''medium''),
                     rh_action = ''Reach out directly - a short call or message; ask what is blocking them.''\<rparr>)"

definition overdue_rows :: "academy_db \<Rightarrow> uuid \<Rightarrow> uuid \<Rightarrow> instant \<Rightarrow> deadline list" where
  "overdue_rows db tenant person now = filter (\<lambda>d. dl_due_at d < now) (deadline_rows db tenant person)"

definition rule_overdue ::
    "(instant \<Rightarrow> string) \<Rightarrow> academy_db \<Rightarrow> uuid \<Rightarrow> uuid \<Rightarrow> instant \<Rightarrow> rule_hit option" where
  "rule_overdue isofmt db tenant person now =
     (case overdue_rows db tenant person now of
        [] \<Rightarrow> None
      | d # ds \<Rightarrow>
          let oldest = fold min (map dl_due_at ds) (dl_due_at d); days_late = days_between now oldest in
          Some \<lparr>rh_facts = [(''overdue_count'', JInt (int (length (d # ds)))), (''oldest_due_at'', JStr (isofmt oldest)),
                  (''days_late'', JInt days_late),
                  (''titles'', JArr (take 5 (map (\<lambda>r. JStr (act_title (dl_activity r))) (d # ds))))],
                rh_severity = (if length (d # ds) \<ge> 3 \<or> days_late > 7 then ''high'' else ''medium''),
                rh_action = ''Agree a catch-up plan for the overdue work; consider a deadline extension.''\<rparr>)"

text \<open>The worst graded course so far, with the grade it is compared by.\<close>

definition judge_course ::
    "academy_db \<Rightarrow> uuid \<Rightarrow> uuid \<Rightarrow> int \<Rightarrow> uuid \<Rightarrow> (int \<times> (string \<times> json) list) option \<Rightarrow> (int \<times> (string \<times> json) list) option" where
  "judge_course db tenant person min_grade course worst =
     (let g = attempted_grade db tenant person course in
      if ar_graded_count g < 2 \<or> ar_graded_weight_fraction g < 1 / 5 then worst
      else if ar_pct g < min_grade \<and> (case worst of None \<Rightarrow> True | Some w \<Rightarrow> ar_pct g < fst w)
      then Some (ar_pct g,
             [(''course_id'', JStr (uuid_str course)), (''course_title'', JStr (course_title_of db course)),
              (''grade_pct'', JInt (ar_pct g)), (''graded_count'', JInt (int (ar_graded_count g))),
              (''graded_weight_pct'', JInt (py_round (ar_graded_weight_fraction g * 100))), (''required_pct'', JInt min_grade)])
      else worst)"

definition rule_below_passing :: "academy_db \<Rightarrow> uuid \<Rightarrow> uuid \<Rightarrow> uuid list \<Rightarrow> int \<Rightarrow> rule_hit option" where
  "rule_below_passing db tenant person course_ids min_grade =
     (case fold (judge_course db tenant person min_grade) course_ids None of
        None \<Rightarrow> None
      | Some (pct, facts) \<Rightarrow>
          Some \<lparr>rh_facts = facts, rh_severity = (if pct < min_grade div 2 then ''high'' else ''medium''),
                rh_action = ''Review their weakest activities together; point them at the relevant chapters.''\<rparr>)"

definition final_hit :: "academy_db \<Rightarrow> uuid \<Rightarrow> uuid \<Rightarrow> activity_row \<Rightarrow> rule_hit option" where
  "final_hit db tenant person final =
     (case map_of (best_scores_for db tenant person (act_course final)) (act_id final) of
        None \<Rightarrow> None
      | Some score \<Rightarrow>
          if sc_passed score then None
          else (let used = attempts_used db tenant person (act_id final);
                    ent = for_learner db tenant person final (int used)
                in if \<not> exhausted ent then None
                   else Some \<lparr>rh_facts = [(''course_id'', JStr (uuid_str (act_course final))),
                            (''course_title'', JStr (course_title_of db (act_course final))),
                            (''activity_title'', JStr (act_title final)),
                            (''best_pct'', JInt (py_round (sc_fraction score * 100))),
                            (''required_pct'', JInt (py_round (act_pass_threshold final * 100))),
                            (''attempts_used'', JInt (int used)),
                            (''max_attempts'', (case et_limit ent of None \<Rightarrow> JNull | Some l \<Rightarrow> JInt l))],
                          rh_severity = ''high'',
                          rh_action = ''Attempts exhausted on the final - review readiness and authorise a reset if warranted.''\<rparr>))"

fun first_hit :: "('a \<Rightarrow> 'b option) \<Rightarrow> 'a list \<Rightarrow> 'b option" where
  "first_hit f [] = None"
| "first_hit f (x # xs) = (case f x of None \<Rightarrow> first_hit f xs | Some y \<Rightarrow> Some y)"

definition rule_failed_final :: "academy_db \<Rightarrow> uuid \<Rightarrow> uuid \<Rightarrow> uuid list \<Rightarrow> rule_hit option" where
  "rule_failed_final db tenant person course_ids =
     (if course_ids = [] then None
      else first_hit (final_hit db tenant person)
             (filter (\<lambda>a. act_tenant a = tenant \<and> act_course a \<in> set course_ids \<and> act_chapter a = None
                \<and> act_pass_threshold a > 0) (activities db)))"

definition certificate_hit ::
    "(instant \<Rightarrow> string) \<Rightarrow> academy_db \<Rightarrow> uuid \<Rightarrow> uuid \<Rightarrow> int \<Rightarrow> completion_row \<Rightarrow> rule_hit option" where
  "certificate_hit isofmt db tenant person grace_hours cm =
     (if list_ex (\<lambda>c. ce_tenant c = tenant \<and> ce_person c = person \<and> ce_course c = cc_course cm) (certificates db) then None
      else Some \<lparr>rh_facts = [(''course_id'', JStr (uuid_str (cc_course cm))),
               (''course_title'', JStr (course_title_of db (cc_course cm))),
               (''completion_pct'', JInt (py_round (cc_pct cm * 100))),
               (''completed_at'', (case cc_completed_at cm of None \<Rightarrow> JNull | Some t \<Rightarrow> JStr (isofmt t))),
               (''grace_hours'', JInt grace_hours), (''missing'', JStr ''certificate'')],
             rh_severity = ''medium'',
             rh_action = ''Certificate issuance failed for a completed course - re-issue it or clear the blocker.''\<rparr>)"

definition rule_certificate_blocked ::
    "(instant \<Rightarrow> string) \<Rightarrow> academy_db \<Rightarrow> uuid \<Rightarrow> uuid \<Rightarrow> instant \<Rightarrow> int \<Rightarrow> rule_hit option" where
  "rule_certificate_blocked isofmt db tenant person now grace_hours =
     first_hit (certificate_hit isofmt db tenant person grace_hours)
       (filter (\<lambda>c. cc_tenant c = tenant \<and> cc_person c = person \<and> cc_status c = ''completed''
          \<and> (case cc_completed_at c of None \<Rightarrow> False | Some t \<Rightarrow> t \<le> now - 3600 * grace_hours)) (completions db))"

section \<open>The sweep\<close>

record rule_settings =
  rs_inactive_days :: int
  rs_min_grade :: int
  rs_grace_hours :: int

text \<open>\<open>int(getattr(cfg, key, default) or default)\<close>: a stored zero is the default.\<close>

definition setting_or :: "(string \<times> setting) list \<Rightarrow> string \<Rightarrow> int \<Rightarrow> int" where
  "setting_or cfg key fallback = (case map_of cfg key of Some (SInt i) \<Rightarrow> if i = 0 then fallback else i | _ \<Rightarrow> fallback)"

definition rule_settings_of :: "env_settings \<Rightarrow> engagement \<Rightarrow> rule_settings" where
  "rule_settings_of env s =
     (let cfg = effective env (Some (platform_settings s)) in
      \<lparr>rs_inactive_days = setting_or cfg ''success_inactive_days'' 7, rs_min_grade = setting_or cfg ''success_min_grade_pct'' 60,
       rs_grace_hours = setting_or cfg ''success_certificate_grace_hours'' 6\<rparr>)"

definition live :: "queue_entry \<Rightarrow> bool" where
  "live e = (sq_status e = ''open'' \<or> sq_status e = ''acknowledged'')"

definition slot :: "uuid \<Rightarrow> uuid \<Rightarrow> string \<Rightarrow> queue_entry \<Rightarrow> bool" where
  "slot tenant person reason e = (sq_tenant e = tenant \<and> sq_person e = person \<and> sq_reason e = reason \<and> live e)"

text \<open>The write to the one object a \<open>first()\<close> query loaded.\<close>

fun update_first :: "('r \<Rightarrow> bool) \<Rightarrow> ('r \<Rightarrow> 'r) \<Rightarrow> 'r list \<Rightarrow> 'r list" where
  "update_first p f [] = []"
| "update_first p f (r # rs) = (if p r then f r # rs else r # update_first p f rs)"

definition refreshed :: "uuid \<Rightarrow> rule_hit \<Rightarrow> instant \<Rightarrow> queue_entry \<Rightarrow> queue_entry" where
  "refreshed cohort h now e =
     e\<lparr>sq_facts := rh_facts h, sq_severity := rh_severity h, sq_detected_at := now, sq_action := rh_action h, sq_cohort := Some cohort\<rparr>"

definition new_entry :: "uuid \<Rightarrow> uuid \<Rightarrow> uuid \<Rightarrow> uuid \<Rightarrow> string \<Rightarrow> rule_hit \<Rightarrow> instant \<Rightarrow> queue_entry" where
  "new_entry i tenant person cohort reason h now =
     \<lparr>sq_id = i, sq_tenant = tenant, sq_person = person, sq_cohort = Some cohort, sq_reason = reason, sq_facts = rh_facts h,
      sq_severity = rh_severity h, sq_detected_at = now, sq_assigned_to = None, sq_action = rh_action h, sq_status = ''open'',
      sq_resolved_at = None, sq_resolved_by = None\<rparr>"

text \<open>\<open>True\<close>: opened.\<close>

definition upsert_entry ::
    "engagement \<Rightarrow> uuid \<Rightarrow> uuid \<Rightarrow> uuid \<Rightarrow> string \<Rightarrow> rule_hit \<Rightarrow> instant \<Rightarrow> engagement \<times> bool" where
  "upsert_entry s tenant person cohort reason h now =
     (case find (slot tenant person reason) (success_entries s) of
        Some e \<Rightarrow> (s\<lparr>success_entries := update_first (slot tenant person reason) (refreshed cohort h now) (success_entries s)\<rparr>, False)
      | None \<Rightarrow> (use_id (s\<lparr>success_entries := success_entries s @ [new_entry (new_id s) tenant person cohort reason h now]\<rparr>), True))"

definition auto_resolved :: "instant \<Rightarrow> queue_entry \<Rightarrow> queue_entry" where
  "auto_resolved now e =
     e\<lparr>sq_status := ''resolved'', sq_resolved_at := Some now, sq_resolved_by := None,
       sq_facts := AList.update ''auto_resolved'' (JStr ''rule no longer fires'') (sq_facts e)\<rparr>"

record queue_counts =
  qc_opened :: nat
  qc_refreshed :: nat
  qc_auto_resolved :: nat

definition apply_result ::
    "uuid \<Rightarrow> uuid \<Rightarrow> uuid \<Rightarrow> instant \<Rightarrow> string \<times> rule_hit option \<Rightarrow> engagement \<times> queue_counts \<Rightarrow> engagement \<times> queue_counts" where
  "apply_result tenant person cohort now = (\<lambda>(reason, result) (s, n).
     case result of
       Some h \<Rightarrow>
         (case upsert_entry s tenant person cohort reason h now of
            (s1, True) \<Rightarrow> (s1, n\<lparr>qc_opened := Suc (qc_opened n)\<rparr>)
          | (s1, False) \<Rightarrow> (s1, n\<lparr>qc_refreshed := Suc (qc_refreshed n)\<rparr>))
     | None \<Rightarrow>
         (case find (slot tenant person reason) (success_entries s) of
            None \<Rightarrow> (s, n)
          | Some e \<Rightarrow>
              (s\<lparr>success_entries := update_first (slot tenant person reason) (auto_resolved now) (success_entries s)\<rparr>,
               n\<lparr>qc_auto_resolved := Suc (qc_auto_resolved n)\<rparr>)))"

text \<open>The active students with their first cohort and earliest enrolment, in the order of the query.\<close>

definition queue_rows :: "engagement \<Rightarrow> uuid \<Rightarrow> enrollment_row list" where
  "queue_rows s tenant =
     [e. e \<leftarrow> enrollments (academy s), p \<leftarrow> people (academy s),
        pe_id p = en_person e \<and> pe_tenant p = en_tenant e \<and> en_tenant e = tenant \<and> en_role e = ''student''
        \<and> en_status e = ''active'' \<and> pe_status p = ''active'']"

definition primary_cohorts :: "engagement \<Rightarrow> uuid \<Rightarrow> (uuid \<times> uuid) list" where
  "primary_cohorts s tenant =
     fold (\<lambda>e out. case map_of out (en_person e) of None \<Rightarrow> out @ [(en_person e, en_cohort e)] | Some _ \<Rightarrow> out)
       (queue_rows s tenant) []"

definition enrolled_since :: "engagement \<Rightarrow> uuid \<Rightarrow> uuid \<Rightarrow> instant option" where
  "enrolled_since s tenant person =
     (case map (\<lambda>e. enrolled_at s (en_id e)) (filter (\<lambda>e. en_person e = person) (queue_rows s tenant)) of
        [] \<Rightarrow> None | t # ts \<Rightarrow> Some (fold min ts t))"

definition rule_results ::
    "(instant \<Rightarrow> string) \<Rightarrow> rule_settings \<Rightarrow> academy_db \<Rightarrow> uuid \<Rightarrow> uuid \<Rightarrow> instant option \<Rightarrow> instant \<Rightarrow>
     (string \<times> rule_hit option) list" where
  "rule_results isofmt rs db tenant person since now =
     (let course_ids = active_course_ids db tenant (student_cohort_ids db tenant person) in
      [(''inactivity'', rule_inactivity isofmt db tenant person since now (rs_inactive_days rs)),
       (''overdue_work'', rule_overdue isofmt db tenant person now),
       (''below_passing'', rule_below_passing db tenant person course_ids (rs_min_grade rs)),
       (''failed_final'', rule_failed_final db tenant person course_ids),
       (''certificate_blocked'', rule_certificate_blocked isofmt db tenant person now (rs_grace_hours rs))])"

text \<open>The cohorts and the enrolment dates are read once, in the state \<open>s0\<close> before the loop.\<close>

definition sweep_learner ::
    "(instant \<Rightarrow> string) \<Rightarrow> rule_settings \<Rightarrow> engagement \<Rightarrow> uuid \<Rightarrow> instant \<Rightarrow> uuid \<times> uuid \<Rightarrow>
     engagement \<times> queue_counts \<Rightarrow> engagement \<times> queue_counts" where
  "sweep_learner isofmt rs s0 tenant now = (\<lambda>(person, cohort) (s, n).
     fold (apply_result tenant person cohort now)
       (rule_results isofmt rs (academy s) tenant person (enrolled_since s0 tenant person) now) (s, n))"

definition no_queue_counts :: queue_counts where
  "no_queue_counts = \<lparr>qc_opened = 0, qc_refreshed = 0, qc_auto_resolved = 0\<rparr>"

definition sweep_queue ::
    "env_settings \<Rightarrow> (instant \<Rightarrow> string) \<Rightarrow> engagement \<Rightarrow> uuid \<Rightarrow> instant \<Rightarrow> engagement \<times> queue_counts" where
  "sweep_queue env isofmt s tenant now =
     fold (sweep_learner isofmt (rule_settings_of env s) s tenant now) (primary_cohorts s tenant) (s, no_queue_counts)"

section \<open>Transitions and listing\<close>

definition is_entry :: "uuid \<Rightarrow> uuid \<Rightarrow> queue_entry \<Rightarrow> bool" where
  "is_entry tenant entry_id e = (sq_tenant e = tenant \<and> sq_id e = entry_id)"

definition moved ::
    "string \<Rightarrow> uuid \<Rightarrow> uuid option \<Rightarrow> instant \<Rightarrow> queue_entry \<Rightarrow> queue_entry result" where
  "moved action actor assigned_to now e =
     (if action = ''acknowledge'' \<and> sq_status e = ''open'' then Inr (e\<lparr>sq_status := ''acknowledged''\<rparr>)
      else if action = ''assign''
      then Inr (e\<lparr>sq_assigned_to := Some (case assigned_to of None \<Rightarrow> actor | Some p \<Rightarrow> p),
                  sq_status := (if sq_status e = ''open'' then ''acknowledged'' else sq_status e)\<rparr>)
      else if action = ''resolve'' \<and> live e
      then Inr (e\<lparr>sq_status := ''resolved'', sq_resolved_at := Some now, sq_resolved_by := Some actor\<rparr>)
      else Inl (BadRequestError (''invalid transition '' @ quoted action @ '' from '' @ quoted (sq_status e))))"

definition transition_entry ::
    "engagement \<Rightarrow> uuid \<Rightarrow> uuid \<Rightarrow> string \<Rightarrow> uuid \<Rightarrow> uuid option \<Rightarrow> instant \<Rightarrow> engagement result" where
  "transition_entry s tenant entry_id action actor assigned_to now =
     (case find (is_entry tenant entry_id) (success_entries s) of
        None \<Rightarrow> Inl (NotFoundError ''queue entry not found'')
      | Some e \<Rightarrow>
          and_then (moved action actor assigned_to now e) (\<lambda>e'.
            Inr (s\<lparr>success_entries := update_first (is_entry tenant entry_id) (\<lambda>_. e') (success_entries s),
                   academy := write_audit_event (academy s) tenant (Some actor) (''success_queue.'' @ action)
                     ''success_queue_entry'' (Some (uuid_str (sq_id e)))
                     (JObj [(''reason'', JStr (sq_reason e)), (''person_id'', JStr (uuid_str (sq_person e)))])\<rparr>)))"

record listed_entry =
  le_entry :: queue_entry
  le_person :: person_row
  le_cohort_name :: string

definition cohort_name_of :: "academy_db \<Rightarrow> queue_entry \<Rightarrow> string" where
  "cohort_name_of db e =
     (case find (\<lambda>h. sq_cohort e = Some (ch_id h) \<and> ch_tenant h = sq_tenant e) (cohorts db) of None \<Rightarrow> '''' | Some h \<Rightarrow> ch_name h)"

definition list_entries ::
    "engagement \<Rightarrow> uuid \<Rightarrow> string option \<Rightarrow> string option \<Rightarrow> uuid option \<Rightarrow> listed_entry list" where
  "list_entries s tenant status severity cohort =
     sort_key (\<lambda>l. (- SEVERITY_RANK (sq_severity (le_entry l)), - sq_detected_at (le_entry l)))
       [\<lparr>le_entry = e, le_person = p, le_cohort_name = cohort_name_of (academy s) e\<rparr>.
          e \<leftarrow> success_entries s, p \<leftarrow> people (academy s),
          pe_id p = sq_person e \<and> pe_tenant p = sq_tenant e \<and> sq_tenant e = tenant
          \<and> (or_none status = None \<or> or_none status = Some (sq_status e))
          \<and> (or_none severity = None \<or> or_none severity = Some (sq_severity e))
          \<and> (cohort = None \<or> sq_cohort e = cohort)]"

section \<open>Segments\<close>

definition segment_people :: "academy_db \<Rightarrow> uuid \<Rightarrow> uuid \<Rightarrow> person_row list" where
  "segment_people db tenant cohort =
     sort_key pe_last_name
       [p. p \<leftarrow> people db, e \<leftarrow> enrollments db,
          en_person e = pe_id p \<and> en_tenant e = pe_tenant p \<and> en_tenant e = tenant \<and> en_cohort e = cohort
          \<and> en_role e = ''student'' \<and> en_status e = ''active'' \<and> pe_status p = ''active'']"

definition almost_complete :: "academy_db \<Rightarrow> uuid \<Rightarrow> uuid \<Rightarrow> uuid list \<Rightarrow> bool" where
  "almost_complete db tenant person course_ids =
     list_ex (\<lambda>c. cc_tenant c = tenant \<and> cc_person c = person \<and> cc_course c \<in> set course_ids \<and> cc_pct c \<ge> 4 / 5
                 \<and> cc_status c \<noteq> ''completed'') (completions db)"

definition in_segment ::
    "(instant \<Rightarrow> string) \<Rightarrow> rule_settings \<Rightarrow> engagement \<Rightarrow> uuid \<Rightarrow> uuid \<Rightarrow> string \<Rightarrow> instant \<Rightarrow> person_row \<Rightarrow> bool" where
  "in_segment isofmt rs s tenant cohort segment now p =
     (let db = academy s; course_ids = active_course_ids db tenant [cohort] in
      if segment = ''inactive''
      then rule_inactivity isofmt db tenant (pe_id p) (first_enrolled s tenant (pe_id p)) now (rs_inactive_days rs) \<noteq> None
      else if segment = ''overdue_work'' then rule_overdue isofmt db tenant (pe_id p) now \<noteq> None
      else if segment = ''below_passing'' then rule_below_passing db tenant (pe_id p) course_ids (rs_min_grade rs) \<noteq> None
      else if segment = ''failed_final'' then rule_failed_final db tenant (pe_id p) course_ids \<noteq> None
      else almost_complete db tenant (pe_id p) course_ids)"

definition segment_members ::
    "env_settings \<Rightarrow> (instant \<Rightarrow> string) \<Rightarrow> engagement \<Rightarrow> uuid \<Rightarrow> uuid \<Rightarrow> string \<Rightarrow> instant \<Rightarrow> person_row list result" where
  "segment_members env isofmt s tenant cohort segment now =
     (if segment \<notin> set SEGMENT_KEYS then Inl (BadRequestError (''unknown segment '' @ quoted segment))
      else Inr (filter (in_segment isofmt (rule_settings_of env s) s tenant cohort segment now)
                  (segment_people (academy s) tenant cohort)))"

definition message_key :: "string \<Rightarrow> uuid \<Rightarrow> string" where
  "message_key action_id person = ''segmsg:'' @ action_id @ '':'' @ uuid_str person"

fun message_people ::
    "instant \<Rightarrow> uuid \<Rightarrow> string \<Rightarrow> string \<Rightarrow> json \<Rightarrow> person_row list \<Rightarrow> academy_db \<Rightarrow> academy_db result" where
  "message_people now tenant action_id subject payload [] db = Inr db"
| "message_people now tenant action_id subject payload (p # ps) db =
     and_then (notify db now tenant (pe_id p) ''instructor_message'' subject (Some ''/''))
       (\<lambda>db1. message_people now tenant action_id subject payload ps
          (fst (enqueue_email db1 now tenant (message_key action_id (pe_id p)) ''segment_message'' (pe_email p) payload)))"

text \<open>\<open>action_id\<close> is the first twelve digits of a fresh \<open>uuid4\<close>.\<close>

definition message_segment ::
    "env_settings \<Rightarrow> (instant \<Rightarrow> string) \<Rightarrow> engagement \<Rightarrow> uuid \<Rightarrow> uuid \<Rightarrow> string \<Rightarrow> string option \<Rightarrow> string option \<Rightarrow> uuid \<Rightarrow>
     string \<Rightarrow> instant \<Rightarrow> (engagement \<times> nat) result" where
  "message_segment env isofmt s tenant cohort segment subject body actor action_id now =
     (let subject = py_strip (or_empty subject); body = py_strip (or_empty body) in
      if subject = '''' \<or> body = '''' then Inl (BadRequestError ''subject and message are both required'')
      else and_then (segment_members env isofmt s tenant cohort segment now) (\<lambda>members.
        and_then (message_people now tenant action_id subject
                    (JObj [(''segment'', JStr segment), (''cohort_id'', JStr (uuid_str cohort))]) members (academy s)) (\<lambda>db.
          Inr (s\<lparr>academy := write_audit_event db tenant (Some actor) ''success_queue.message_segment'' ''cohort'' (Some (uuid_str cohort))
                   (JObj [(''segment'', JStr segment), (''recipients'', JInt (int (length members))), (''subject'', JStr subject),
                          (''action_id'', JStr action_id)])\<rparr>, length members))))"

end
