(* ===== verification/Success_Queue_Properties.thy ===== *)
theory Success_Queue_Properties
  imports Success_Queue
begin

text \<open>
  The queue of interventions: one live entry for each learner and reason, which the sweep makes
  the exact image of the rules, and whose second run changes nothing.
\<close>

section \<open>One loaded row\<close>

lemma update_first_absent: "find p xs = None \<Longrightarrow> update_first p f xs = xs"
  by (induction xs) (auto split: if_splits)

lemma update_first_same:
  "(\<And>x. x \<in> set xs \<Longrightarrow> p x \<Longrightarrow> f x = x) \<Longrightarrow> update_first p f xs = xs"
  by (induction xs) auto

lemma filter_update_first_other:
  "(\<And>x. p x \<Longrightarrow> \<not> q x \<and> \<not> q (f x)) \<Longrightarrow> filter q (update_first p f xs) = filter q xs"
  by (induction xs) auto

lemma filter_update_first_kept:
  assumes "length (filter p xs) \<le> 1" "\<And>x. p x \<Longrightarrow> p (f x)"
  shows "filter p (update_first p f xs) = map f (filter p xs)"
  using assms(1)
proof (induction xs)
  case (Cons x xs)
  show ?case
  proof (cases "p x")
    case True
    then have "filter p xs = []" using Cons.prems by simp
    then show ?thesis using True assms(2) by simp
  next
    case False
    then show ?thesis using Cons by simp
  qed
qed simp

lemma filter_update_first_dropped:
  assumes "length (filter p xs) \<le> 1" "\<And>x. p x \<Longrightarrow> \<not> p (f x)"
  shows "filter p (update_first p f xs) = []"
  using assms(1)
proof (induction xs)
  case (Cons x xs)
  show ?case
  proof (cases "p x")
    case True
    then have "filter p xs = []" using Cons.prems by simp
    then show ?thesis using True assms(2) by simp
  next
    case False
    then show ?thesis using Cons by simp
  qed
qed simp

lemma filter_update_first_le:
  "(\<And>x. q (f x) \<Longrightarrow> p x \<Longrightarrow> q x) \<Longrightarrow> length (filter q (update_first p f xs)) \<le> length (filter q xs)"
  by (induction xs) auto

lemma filter_of_find_None: "find p xs = None \<longleftrightarrow> filter p xs = []"
  by (auto simp: find_None_iff filter_empty_conv)

section \<open>One rule of one learner\<close>

abbreviation entries_at :: "uuid \<Rightarrow> uuid \<Rightarrow> string \<Rightarrow> engagement \<Rightarrow> queue_entry list" where
  "entries_at tenant person reason s \<equiv> filter (slot tenant person reason) (success_entries s)"

definition one_live :: "engagement \<Rightarrow> bool" where
  "one_live s = (\<forall>tenant person reason. length (entries_at tenant person reason s) \<le> 1)"

text \<open>What the queue shows of an entry, and what a rule wants it to show.\<close>

definition shown :: "queue_entry \<Rightarrow> (string \<times> json) list \<times> string \<times> string \<times> uuid option \<times> instant" where
  "shown e = (sq_facts e, sq_severity e, sq_action e, sq_cohort e, sq_detected_at e)"

definition wanted ::
    "uuid \<Rightarrow> instant \<Rightarrow> rule_hit option \<Rightarrow> ((string \<times> json) list \<times> string \<times> string \<times> uuid option \<times> instant) list" where
  "wanted cohort now result =
     (case result of None \<Rightarrow> [] | Some h \<Rightarrow> [(rh_facts h, rh_severity h, rh_action h, Some cohort, now)])"

lemma slot_apart: "slot t p r x \<Longrightarrow> (t', p', r') \<noteq> (t, p, r) \<Longrightarrow> \<not> slot t' p' r' x"
  by (auto simp: slot_def)

lemma slot_refreshed [simp]: "slot t p r (refreshed cohort h now e) = slot t p r e"
  by (simp add: refreshed_def slot_def live_def)

lemma slot_auto_resolved [simp]: "\<not> slot t p r (auto_resolved now e)"
  by (simp add: auto_resolved_def slot_def live_def)

lemma slot_new_entry [simp]: "slot t p r (new_entry i t' p' cohort r' h now) \<longleftrightarrow> (t, p, r) = (t', p', r')"
  by (auto simp: new_entry_def slot_def live_def)

lemma shown_refreshed: "shown (refreshed cohort h now e) = (rh_facts h, rh_severity h, rh_action h, Some cohort, now)"
  by (simp add: shown_def refreshed_def)

lemma shown_new_entry: "shown (new_entry i t p cohort r h now) = (rh_facts h, rh_severity h, rh_action h, Some cohort, now)"
  by (simp add: shown_def new_entry_def)

lemma apply_result_entries:
  "success_entries (fst (apply_result tenant person cohort now (reason, result) (s, n))) =
     (case result of
        None \<Rightarrow> update_first (slot tenant person reason) (auto_resolved now) (success_entries s)
      | Some h \<Rightarrow> if entries_at tenant person reason s = []
                  then success_entries s @ [new_entry (new_id s) tenant person cohort reason h now]
                  else update_first (slot tenant person reason) (refreshed cohort h now) (success_entries s))"
  by (auto simp: apply_result_def upsert_entry_def filter_of_find_None [symmetric] update_first_absent use_id_def
      split: option.splits)

lemma apply_result_elsewhere:
  assumes "(t, p, r) \<noteq> (tenant, person, reason)"
  shows "entries_at t p r (fst (apply_result tenant person cohort now (reason, result) (s, n))) = entries_at t p r s"
  unfolding apply_result_entries using assms
  by (auto split: option.splits simp: filter_update_first_other slot_apart)

lemma apply_result_here:
  assumes "length (entries_at tenant person reason s) \<le> 1"
  shows "map shown (entries_at tenant person reason (fst (apply_result tenant person cohort now (reason, result) (s, n))))
         = wanted cohort now result"
proof (cases result)
  case None
  then show ?thesis using assms
    by (simp add: apply_result_entries filter_update_first_dropped wanted_def)
next
  case (Some h)
  show ?thesis
  proof (cases "entries_at tenant person reason s")
    case Nil
    then show ?thesis using Some by (simp add: apply_result_entries wanted_def shown_new_entry)
  next
    case (Cons e es)
    then have e: "entries_at tenant person reason s = [e]" using assms by simp
    have "entries_at tenant person reason (s\<lparr>success_entries :=
        update_first (slot tenant person reason) (refreshed cohort h now) (success_entries s)\<rparr>) = [refreshed cohort h now e]"
      using filter_update_first_kept [OF assms, of "refreshed cohort h now"] e by simp
    then show ?thesis using Some e by (simp add: apply_result_entries wanted_def shown_refreshed)
  qed
qed

lemma length_wanted: "length (wanted cohort now result) \<le> 1"
  by (simp add: wanted_def split: option.split)

lemma apply_result_one_live:
  assumes "one_live s" shows "one_live (fst (apply_result tenant person cohort now res (s, n)))"
  unfolding one_live_def
proof (intro allI)
  fix t p r
  obtain reason result where res: "res = (reason, result)" by (cases res)
  show "length (entries_at t p r (fst (apply_result tenant person cohort now res (s, n)))) \<le> 1"
  proof (cases "(t, p, r) = (tenant, person, reason)")
    case True
    moreover have "length (entries_at tenant person reason s) \<le> 1" using assms by (simp add: one_live_def)
    from arg_cong [OF apply_result_here [OF this, of cohort now result n], of length]
    have "length (entries_at tenant person reason (fst (apply_result tenant person cohort now res (s, n)))) \<le> 1"
      using length_wanted by (simp add: res)
    ultimately show ?thesis by simp
  next
    case False
    then show ?thesis using assms by (simp add: res apply_result_elsewhere one_live_def)
  qed
qed

section \<open>The rules read nothing the sweep writes\<close>

definition only_queue_changed :: "engagement \<Rightarrow> engagement \<Rightarrow> bool" where
  "only_queue_changed s s' \<longleftrightarrow> (\<exists>k es. s' = s\<lparr>academy := (academy s)\<lparr>next_id := k\<rparr>, success_entries := es\<rparr>)"

lemma only_queue_changed_refl: "only_queue_changed s s"
proof -
  have "s = s\<lparr>academy := (academy s)\<lparr>next_id := next_id (academy s)\<rparr>, success_entries := success_entries s\<rparr>" by simp
  then show ?thesis unfolding only_queue_changed_def by blast
qed

lemma only_queue_changed_trans:
  "only_queue_changed s s' \<Longrightarrow> only_queue_changed s' s'' \<Longrightarrow> only_queue_changed s s''"
  unfolding only_queue_changed_def by (clarsimp, (rule exI)+, rule refl)

lemma only_entries_changed: "only_queue_changed s (s\<lparr>success_entries := es\<rparr>)"
proof -
  have "s\<lparr>success_entries := es\<rparr> = s\<lparr>academy := (academy s)\<lparr>next_id := next_id (academy s)\<rparr>, success_entries := es\<rparr>" by simp
  then show ?thesis unfolding only_queue_changed_def by blast
qed

lemma entry_added: "only_queue_changed s (use_id (s\<lparr>success_entries := es\<rparr>))"
proof -
  have "use_id (s\<lparr>success_entries := es\<rparr>) = s\<lparr>academy := (academy s)\<lparr>next_id := Suc (next_id (academy s))\<rparr>, success_entries := es\<rparr>"
    by (simp add: use_id_def)
  then show ?thesis unfolding only_queue_changed_def by blast
qed

lemma tables_ignore_ids:
  "activities (db\<lparr>next_id := k\<rparr>) = activities db" "submissions (db\<lparr>next_id := k\<rparr>) = submissions db"
  "scores (db\<lparr>next_id := k\<rparr>) = scores db" "courses (db\<lparr>next_id := k\<rparr>) = courses db"
  "enrollments (db\<lparr>next_id := k\<rparr>) = enrollments db" "offerings (db\<lparr>next_id := k\<rparr>) = offerings db"
  "offering_activities (db\<lparr>next_id := k\<rparr>) = offering_activities db" "learning_events (db\<lparr>next_id := k\<rparr>) = learning_events db"
  "attempt_grants (db\<lparr>next_id := k\<rparr>) = attempt_grants db" "certificates (db\<lparr>next_id := k\<rparr>) = certificates db"
  "completions (db\<lparr>next_id := k\<rparr>) = completions db"
  by simp_all

lemma queries_ignore_ids:
  "last_activity_at (db\<lparr>next_id := k\<rparr>) = last_activity_at db"
  "deadline_rows (db\<lparr>next_id := k\<rparr>) = deadline_rows db"
  "attempted_grade (db\<lparr>next_id := k\<rparr>) = attempted_grade db"
  "best_scores_for (db\<lparr>next_id := k\<rparr>) = best_scores_for db"
  "attempts_used (db\<lparr>next_id := k\<rparr>) = attempts_used db"
  "for_learner (db\<lparr>next_id := k\<rparr>) = for_learner db"
  "active_course_ids (db\<lparr>next_id := k\<rparr>) = active_course_ids db"
  "student_cohort_ids (db\<lparr>next_id := k\<rparr>) = student_cohort_ids db"
  "course_title_of (db\<lparr>next_id := k\<rparr>) = course_title_of db"
  by (intro ext; unfold best_scores_for_def score_query_def score_join_def attempted_grade_def course_grade_def
      course_activities_def deadline_rows_def deadline_join_def passed_activity_ids_def for_learner_def granted_for_def
      last_activity_at_def attempts_used_def active_course_ids_def student_cohort_ids_def course_title_of_def tables_ignore_ids;
      rule refl)+

lemma rules_ignore_ids:
  "rule_inactivity isofmt (db\<lparr>next_id := k\<rparr>) = rule_inactivity isofmt db"
  "rule_overdue isofmt (db\<lparr>next_id := k\<rparr>) = rule_overdue isofmt db"
  "rule_below_passing (db\<lparr>next_id := k\<rparr>) = rule_below_passing db"
  "rule_failed_final (db\<lparr>next_id := k\<rparr>) = rule_failed_final db"
  "rule_certificate_blocked isofmt (db\<lparr>next_id := k\<rparr>) = rule_certificate_blocked isofmt db"
proof -
  have "judge_course (db\<lparr>next_id := k\<rparr>) = judge_course db" "final_hit (db\<lparr>next_id := k\<rparr>) = final_hit db"
    "certificate_hit isofmt (db\<lparr>next_id := k\<rparr>) = certificate_hit isofmt db"
    by (intro ext; unfold judge_course_def final_hit_def certificate_hit_def queries_ignore_ids tables_ignore_ids; rule refl)+
  note hits = this
  show "rule_inactivity isofmt (db\<lparr>next_id := k\<rparr>) = rule_inactivity isofmt db"
    "rule_overdue isofmt (db\<lparr>next_id := k\<rparr>) = rule_overdue isofmt db"
    "rule_below_passing (db\<lparr>next_id := k\<rparr>) = rule_below_passing db"
    "rule_failed_final (db\<lparr>next_id := k\<rparr>) = rule_failed_final db"
    "rule_certificate_blocked isofmt (db\<lparr>next_id := k\<rparr>) = rule_certificate_blocked isofmt db"
    by (intro ext; unfold rule_inactivity_def rule_overdue_def overdue_rows_def rule_below_passing_def rule_failed_final_def
        rule_certificate_blocked_def queries_ignore_ids tables_ignore_ids hits; rule refl)+
qed

lemma rule_results_ignore_ids: "rule_results isofmt rs (db\<lparr>next_id := k\<rparr>) = rule_results isofmt rs db"
  by (intro ext; unfold rule_results_def queries_ignore_ids rules_ignore_ids; rule refl)

lemma apply_result_frame: "only_queue_changed s (fst (apply_result tenant person cohort now res (s, n)))"
  by (cases res) (auto simp: apply_result_def upsert_entry_def only_queue_changed_refl only_entries_changed entry_added
      split: option.splits)

lemma fold_apply_frame: "only_queue_changed s (fst (fold (apply_result tenant person cohort now) rs (s, n)))"
proof (induction rs arbitrary: s n)
  case (Cons r rs)
  obtain s1 n1 where a: "apply_result tenant person cohort now r (s, n) = (s1, n1)" by fastforce
  then have "only_queue_changed s s1" using apply_result_frame by (metis fst_conv)
  from only_queue_changed_trans [OF this Cons.IH] show ?case by (simp add: a)
qed (simp add: only_queue_changed_refl)

section \<open>All rules of one learner\<close>

lemma fold_apply_one_live:
  "one_live s \<Longrightarrow> one_live (fst (fold (apply_result tenant person cohort now) rs (s, n)))"
proof (induction rs arbitrary: s n)
  case (Cons r rs)
  obtain s1 n1 where a: "apply_result tenant person cohort now r (s, n) = (s1, n1)" by fastforce
  then have "one_live s1" using apply_result_one_live Cons.prems by (metis fst_conv)
  from Cons.IH [OF this] show ?case by (simp add: a)
qed simp

lemma fold_apply_elsewhere:
  "(t, p) \<noteq> (tenant, person) \<or> r \<notin> fst ` set rs \<Longrightarrow>
   entries_at t p r (fst (fold (apply_result tenant person cohort now) rs (s, n))) = entries_at t p r s"
proof (induction rs arbitrary: s n)
  case (Cons x rs)
  obtain s1 n1 where a: "apply_result tenant person cohort now x (s, n) = (s1, n1)" by fastforce
  obtain reason result where x: "x = (reason, result)" by (cases x)
  have "(t, p, r) \<noteq> (tenant, person, reason)" using Cons.prems x by auto
  from apply_result_elsewhere [OF this, of cohort now result s n] have "entries_at t p r s1 = entries_at t p r s"
    by (simp add: a flip: x)
  moreover have "entries_at t p r (fst (fold (apply_result tenant person cohort now) rs (s1, n1))) = entries_at t p r s1"
    using Cons.prems by (intro Cons.IH) auto
  ultimately show ?case by (simp add: a)
qed simp

lemma fold_apply_here:
  "one_live s \<Longrightarrow> distinct (map fst rs) \<Longrightarrow> (reason, result) \<in> set rs \<Longrightarrow>
   map shown (entries_at tenant person reason (fst (fold (apply_result tenant person cohort now) rs (s, n))))
     = wanted cohort now result"
proof (induction rs arbitrary: s n)
  case (Cons x rs)
  obtain s1 n1 where a: "apply_result tenant person cohort now x (s, n) = (s1, n1)" by fastforce
  then have live: "one_live s1" using apply_result_one_live Cons.prems(1) by (metis fst_conv)
  show ?case
  proof (cases "x = (reason, result)")
    case True
    then have "reason \<notin> fst ` set rs" using Cons.prems(2) by auto
    then have "entries_at tenant person reason (fst (fold (apply_result tenant person cohort now) rs (s1, n1)))
        = entries_at tenant person reason s1" by (intro fold_apply_elsewhere) simp
    moreover have "map shown (entries_at tenant person reason s1) = wanted cohort now result"
      using apply_result_here [of tenant person reason s cohort now result n] Cons.prems(1) a True by (simp add: one_live_def)
    ultimately show ?thesis by (simp add: a)
  next
    case False
    then show ?thesis using Cons.IH [OF live, of n1] Cons.prems by (simp add: a)
  qed
qed simp

text \<open>A learner whose entries already show what the rules want is left as it is.\<close>

definition settled :: "uuid \<Rightarrow> uuid \<Rightarrow> uuid \<Rightarrow> instant \<Rightarrow> engagement \<Rightarrow> string \<times> rule_hit option \<Rightarrow> bool" where
  "settled tenant person cohort now s res =
     (map shown (entries_at tenant person (fst res) s) = wanted cohort now (snd res))"

definition refreshes :: "(string \<times> rule_hit option) list \<Rightarrow> nat" where
  "refreshes rs = count_rows (\<lambda>r. snd r \<noteq> None) rs"

lemma refreshed_when_shown: "shown e = (rh_facts h, rh_severity h, rh_action h, Some cohort, now) \<Longrightarrow> refreshed cohort h now e = e"
  by (cases e) (simp add: shown_def refreshed_def)

lemma apply_settled:
  assumes "settled tenant person cohort now s res"
  shows "apply_result tenant person cohort now res (s, n)
         = (s, if snd res = None then n else n\<lparr>qc_refreshed := Suc (qc_refreshed n)\<rparr>)"
proof -
  obtain reason result where res: "res = (reason, result)" by (cases res)
  show ?thesis
  proof (cases result)
    case None
    then have "entries_at tenant person reason s = []" using assms by (simp add: settled_def wanted_def res)
    then show ?thesis by (simp add: apply_result_def res None flip: filter_of_find_None)
  next
    case (Some h)
    then obtain e where e: "entries_at tenant person reason s = [e]" "shown e = (rh_facts h, rh_severity h, rh_action h, Some cohort, now)"
      using assms by (auto simp: settled_def wanted_def res)
    have "x = e" if "x \<in> set (success_entries s)" "slot tenant person reason x" for x
    proof -
      have "x \<in> set (entries_at tenant person reason s)" using that by simp
      then show ?thesis using e(1) by simp
    qed
    then have "update_first (slot tenant person reason) (refreshed cohort h now) (success_entries s) = success_entries s"
      using e(2) refreshed_when_shown by (intro update_first_same) blast
    moreover obtain e' where "find (slot tenant person reason) (success_entries s) = Some e'"
      using e(1) by (metis filter_of_find_None list.distinct(1) not_Some_eq)
    ultimately show ?thesis by (simp add: apply_result_def upsert_entry_def res Some)
  qed
qed

lemma fold_apply_settled:
  "\<forall>res \<in> set rs. settled tenant person cohort now s res \<Longrightarrow>
   fold (apply_result tenant person cohort now) rs (s, n) = (s, n\<lparr>qc_refreshed := qc_refreshed n + refreshes rs\<rparr>)"
  by (induction rs arbitrary: n) (auto simp: apply_settled refreshes_def)

section \<open>Every learner\<close>

lemma rule_results_kinds: "map fst (rule_results isofmt rs db tenant person since now) = REASON_KINDS"
  by (simp add: rule_results_def REASON_KINDS_def Let_def)

lemma distinct_reasons: "distinct REASON_KINDS"
  by (simp add: REASON_KINDS_def)

lemma sweep_learner_frame: "only_queue_changed s (fst (sweep_learner isofmt rs s0 tenant now pc (s, n)))"
  by (cases pc) (simp add: sweep_learner_def fold_apply_frame)

lemma sweep_learner_one_live: "one_live s \<Longrightarrow> one_live (fst (sweep_learner isofmt rs s0 tenant now pc (s, n)))"
  by (cases pc) (simp add: sweep_learner_def fold_apply_one_live)

lemma sweep_learner_elsewhere:
  "(t, p) \<noteq> (tenant, fst pc) \<Longrightarrow> entries_at t p r (fst (sweep_learner isofmt rs s0 tenant now pc (s, n))) = entries_at t p r s"
  by (cases pc) (simp add: sweep_learner_def fold_apply_elsewhere)

lemma sweep_learner_here:
  assumes "one_live s" "(r, result) \<in> set (rule_results isofmt rs (academy s) tenant p (enrolled_since s0 tenant p) now)"
  shows "map shown (entries_at tenant p r (fst (sweep_learner isofmt rs s0 tenant now (p, c) (s, n)))) = wanted c now result"
  using fold_apply_here [OF assms(1) _ assms(2)] by (simp add: sweep_learner_def rule_results_kinds distinct_reasons)

lemma sweep_all_frame: "only_queue_changed s (fst (fold (sweep_learner isofmt rs s0 tenant now) L (s, n)))"
proof (induction L arbitrary: s n)
  case (Cons pc L)
  obtain s1 n1 where a: "sweep_learner isofmt rs s0 tenant now pc (s, n) = (s1, n1)" by fastforce
  then have "only_queue_changed s s1" using sweep_learner_frame [of s isofmt rs s0 tenant now pc n] by simp
  from only_queue_changed_trans [OF this Cons.IH] show ?case by (simp add: a)
qed (simp add: only_queue_changed_refl)

lemma sweep_all_one_live: "one_live s \<Longrightarrow> one_live (fst (fold (sweep_learner isofmt rs s0 tenant now) L (s, n)))"
proof (induction L arbitrary: s n)
  case (Cons pc L)
  obtain s1 n1 where a: "sweep_learner isofmt rs s0 tenant now pc (s, n) = (s1, n1)" by fastforce
  then have "one_live s1" using sweep_learner_one_live [OF Cons.prems, of isofmt rs s0 tenant now pc n] by simp
  from Cons.IH [OF this] show ?case by (simp add: a)
qed simp

lemma sweep_all_elsewhere:
  "t \<noteq> tenant \<or> p \<notin> fst ` set L \<Longrightarrow>
   entries_at t p r (fst (fold (sweep_learner isofmt rs s0 tenant now) L (s, n))) = entries_at t p r s"
proof (induction L arbitrary: s n)
  case (Cons pc L)
  obtain s1 n1 where a: "sweep_learner isofmt rs s0 tenant now pc (s, n) = (s1, n1)" by fastforce
  have "(t, p) \<noteq> (tenant, fst pc)" and "t \<noteq> tenant \<or> p \<notin> fst ` set L" using Cons.prems by auto
  then show ?case
    using sweep_learner_elsewhere [of t p tenant pc r isofmt rs s0 now s n] Cons.IH [of s1 n1] by (simp add: a)
qed simp

lemma same_rules:
  "only_queue_changed s s' \<Longrightarrow> rule_results isofmt rs (academy s') tenant p since now = rule_results isofmt rs (academy s) tenant p since now"
  by (auto simp: only_queue_changed_def rule_results_ignore_ids)

lemma sweep_all_here:
  "one_live s \<Longrightarrow> distinct (map fst L) \<Longrightarrow> (p, c) \<in> set L \<Longrightarrow>
   (r, result) \<in> set (rule_results isofmt rs (academy s) tenant p (enrolled_since s0 tenant p) now) \<Longrightarrow>
   map shown (entries_at tenant p r (fst (fold (sweep_learner isofmt rs s0 tenant now) L (s, n)))) = wanted c now result"
proof (induction L arbitrary: s n)
  case (Cons pc L)
  obtain s1 n1 where a: "sweep_learner isofmt rs s0 tenant now pc (s, n) = (s1, n1)" by fastforce
  then have s1: "s1 = fst (sweep_learner isofmt rs s0 tenant now pc (s, n))" by simp
  show ?case
  proof (cases "pc = (p, c)")
    case True
    then have "p \<notin> fst ` set L" using Cons.prems(2) by auto
    then have "entries_at tenant p r (fst (fold (sweep_learner isofmt rs s0 tenant now) L (s1, n1))) = entries_at tenant p r s1"
      by (intro sweep_all_elsewhere) simp
    then show ?thesis using sweep_learner_here [OF Cons.prems(1,4), of c n] True a by simp
  next
    case False
    have "one_live s1" unfolding s1 using Cons.prems(1) by (rule sweep_learner_one_live)
    moreover have "only_queue_changed s s1" unfolding s1 by (rule sweep_learner_frame)
    ultimately show ?thesis using Cons.IH [of s1 n1] Cons.prems False by (simp add: a same_rules)
  qed
qed simp

section \<open>The queue after a sweep\<close>

lemma primary_cohorts_people:
  "fst ` set (primary_cohorts s tenant) = en_person ` set (queue_rows s tenant)"
  "distinct (map fst (primary_cohorts s tenant))"
proof -
  let ?f = "\<lambda>e out. case map_of out (en_person e) of None \<Rightarrow> out @ [(en_person e, en_cohort e)] | Some _ \<Rightarrow> out"
  have "fst ` set (fold ?f es out) = fst ` set out \<union> en_person ` set es \<and> (distinct (map fst out) \<longrightarrow> distinct (map fst (fold ?f es out)))"
    for es and out :: "(uuid \<times> uuid) list"
  proof (induction es arbitrary: out)
    case (Cons e es)
    show ?case
    proof (cases "map_of out (en_person e)")
      case None
      then have "en_person e \<notin> fst ` set out" by (simp add: map_of_eq_None_iff)
      then show ?thesis using Cons [of "out @ [(en_person e, en_cohort e)]"] None by auto
    next
      case (Some c)
      then have "en_person e \<in> fst ` set out" by (metis map_of_SomeD fst_conv image_eqI)
      then show ?thesis using Cons [of out] Some by auto
    qed
  qed simp
  from this [of "queue_rows s tenant" "[]"]
  show "fst ` set (primary_cohorts s tenant) = en_person ` set (queue_rows s tenant)"
    "distinct (map fst (primary_cohorts s tenant))" by (simp_all add: primary_cohorts_def)
qed

lemma same_readers:
  assumes "only_queue_changed s s'"
  shows "primary_cohorts s' tenant = primary_cohorts s tenant" "enrolled_since s' tenant = enrolled_since s tenant"
    "rule_settings_of env s' = rule_settings_of env s"
  using assms by (auto simp: only_queue_changed_def primary_cohorts_def queue_rows_def enrolled_since_def rule_settings_of_def fun_eq_iff)

lemma sweep_all_settled:
  assumes "\<forall>(p, c) \<in> set L. \<forall>res \<in> set (rule_results isofmt rs (academy s) tenant p (enrolled_since s0 tenant p) now).
     settled tenant p c now s res"
  shows "\<exists>k. fold (sweep_learner isofmt rs s0 tenant now) L (s, n) = (s, n\<lparr>qc_refreshed := k\<rparr>)"
  using assms
proof (induction L arbitrary: n)
  case Nil
  have "n = n\<lparr>qc_refreshed := qc_refreshed n\<rparr>" by simp
  then show ?case by (metis fold_simps(1))
next
  case (Cons pc L)
  obtain p c where pc: "pc = (p, c)" by (cases pc)
  then have "\<forall>res \<in> set (rule_results isofmt rs (academy s) tenant p (enrolled_since s0 tenant p) now). settled tenant p c now s res"
    using Cons.prems by auto
  from fold_apply_settled [OF this] obtain j where "sweep_learner isofmt rs s0 tenant now pc (s, n) = (s, n\<lparr>qc_refreshed := j\<rparr>)"
    by (auto simp: sweep_learner_def pc)
  moreover obtain k where "fold (sweep_learner isofmt rs s0 tenant now) L (s, n\<lparr>qc_refreshed := j\<rparr>) = (s, n\<lparr>qc_refreshed := j, qc_refreshed := k\<rparr>)"
    using Cons.IH [of "n\<lparr>qc_refreshed := j\<rparr>"] Cons.prems by auto
  ultimately show ?case by (intro exI [of _ k]) simp
qed

text \<open>C12. The Success Queue is the image of its rules: from a queue with at most one live entry for each learner
  and reason, after a sweep every active student has, for each reason, one live entry with exactly the
  facts, severity and action its rule returns when the rule fires, and none when it does not; the live
  entries of everybody else are left alone, and there is still at most one for each learner and reason.\<close>

theorem queue_mirrors_rules:
  assumes "one_live s" "sweep_queue env isofmt s tenant now = (s', n)"
  shows "one_live s'
    \<and> (\<forall>(p, c) \<in> set (primary_cohorts s tenant). \<forall>(r, result) \<in> set (rule_results isofmt (rule_settings_of env s) (academy s)
           tenant p (enrolled_since s tenant p) now). map shown (entries_at tenant p r s') = wanted c now result)
    \<and> (\<forall>t p r. t \<noteq> tenant \<or> p \<notin> en_person ` set (queue_rows s tenant) \<longrightarrow> entries_at t p r s' = entries_at t p r s)"
proof -
  have s': "s' = fst (fold (sweep_learner isofmt (rule_settings_of env s) s tenant now) (primary_cohorts s tenant) (s, no_queue_counts))"
    using assms(2) by (simp add: sweep_queue_def)
  have "one_live s'" unfolding s' using assms(1) by (rule sweep_all_one_live)
  moreover have "\<forall>(p, c) \<in> set (primary_cohorts s tenant). \<forall>(r, result) \<in> set (rule_results isofmt (rule_settings_of env s) (academy s)
           tenant p (enrolled_since s tenant p) now). map shown (entries_at tenant p r s') = wanted c now result"
    unfolding s' using sweep_all_here [OF assms(1) primary_cohorts_people(2)] by blast
  moreover have "\<forall>t p r. t \<noteq> tenant \<or> p \<notin> en_person ` set (queue_rows s tenant) \<longrightarrow> entries_at t p r s' = entries_at t p r s"
    unfolding s' using sweep_all_elsewhere by (simp add: primary_cohorts_people(1))
  ultimately show ?thesis by blast
qed

text \<open>Sweeping the queue again at the same instant changes nothing: no entry is opened or auto-resolved and the
  state, with every entry, identifier and ledger row, is the one the first sweep left.\<close>

theorem queue_sweep_is_idempotent:
  assumes "one_live s" "sweep_queue env isofmt s tenant now = (s', n)"
  shows "\<exists>k. sweep_queue env isofmt s' tenant now = (s', no_queue_counts\<lparr>qc_refreshed := k\<rparr>)"
proof -
  let ?rs = "rule_settings_of env s" and ?L = "primary_cohorts s tenant"
  have s': "s' = fst (fold (sweep_learner isofmt ?rs s tenant now) ?L (s, no_queue_counts))"
    using assms(2) by (simp add: sweep_queue_def)
  have same: "only_queue_changed s s'" unfolding s' by (rule sweep_all_frame)
  have "settled tenant p c now s' res"
    if "(p, c) \<in> set ?L" "res \<in> set (rule_results isofmt ?rs (academy s') tenant p (enrolled_since s tenant p) now)" for p c res
    using sweep_all_here [OF assms(1) primary_cohorts_people(2) that(1), where r = "fst res" and result = "snd res"
        and isofmt = isofmt and rs = ?rs and ?s0.0 = s and tenant = tenant and now = now and n = no_queue_counts] that(2)
    by (simp add: settled_def s' [symmetric] same_rules [OF same])
  then have "\<exists>k. fold (sweep_learner isofmt ?rs s tenant now) ?L (s', no_queue_counts) = (s', no_queue_counts\<lparr>qc_refreshed := k\<rparr>)"
    by (intro sweep_all_settled) auto
  moreover have "sweep_learner isofmt ?rs s' tenant now = sweep_learner isofmt ?rs s tenant now"
    by (intro ext) (simp add: sweep_learner_def same_readers [OF same])
  ultimately show ?thesis by (simp add: sweep_queue_def same_readers [OF same])
qed

section \<open>Transitions\<close>

lemma moved_slot:
  assumes "moved action actor assigned_to now e = Inr e'" "slot t p r e'" shows "slot t p r e"
  using assms by (auto simp: moved_def slot_def live_def split: if_splits)

text \<open>Staff actions never reopen or duplicate an entry: a transition touches one entry and writes one audit event,
  a resolved entry stays resolved, and at most one entry of each learner and reason stays live.\<close>

theorem transitions_keep_the_queue:
  assumes "one_live s" "transition_entry s tenant entry_id action actor assigned_to now = Inr s'"
  shows "one_live s'"
    and "\<exists>e e' xs ys. success_entries s = xs @ e # ys \<and> success_entries s' = xs @ e' # ys \<and> sq_id e = entry_id \<and> sq_tenant e = tenant
           \<and> moved action actor assigned_to now e = Inr e' \<and> (live e' \<longrightarrow> live e)"
    and "length (audit_events (academy s')) = Suc (length (audit_events (academy s)))"
proof -
  obtain e e' where e: "find (is_entry tenant entry_id) (success_entries s) = Some e" "moved action actor assigned_to now e = Inr e'"
    and s': "success_entries s' = update_first (is_entry tenant entry_id) (\<lambda>_. e') (success_entries s)"
       "length (audit_events (academy s')) = Suc (length (audit_events (academy s)))"
    using assms(2) by (auto simp: transition_entry_def and_then_eq_Inr write_audit_event_def split: option.splits)
  from e(1) obtain xs ys where split: "success_entries s = xs @ e # ys" "\<forall>x \<in> set xs. \<not> is_entry tenant entry_id x" "is_entry tenant entry_id e"
    by (auto simp: find_Some_iff) (metis append_take_drop_id Cons_nth_drop_Suc in_set_conv_nth length_take min.absorb4 nth_take)
  have upd: "update_first p f (xs @ e # ys) = xs @ f e # ys" if "\<forall>x \<in> set xs. \<not> p x" "p e" for p and f :: "queue_entry \<Rightarrow> queue_entry"
    using that by (induction xs) auto
  have after: "success_entries s' = xs @ e' # ys" unfolding s'(1) split(1) using split(2,3) by (rule upd)
  show "length (audit_events (academy s')) = Suc (length (audit_events (academy s)))" by (rule s'(2))
  show "one_live s'" unfolding one_live_def
  proof (intro allI)
    fix t p r
    have "length (entries_at t p r s') \<le> length (entries_at t p r s)"
      using moved_slot [OF e(2), of t p r] by (simp add: after split(1))
    then show "length (entries_at t p r s') \<le> 1" using assms(1) by (auto simp: one_live_def intro: le_trans)
  qed
  have "live e' \<longrightarrow> live e" using e(2) by (auto simp: moved_def live_def split: if_splits)
  then show "\<exists>e e' xs ys. success_entries s = xs @ e # ys \<and> success_entries s' = xs @ e' # ys \<and> sq_id e = entry_id \<and> sq_tenant e = tenant
           \<and> moved action actor assigned_to now e = Inr e' \<and> (live e' \<longrightarrow> live e)"
    using split after e(2) by (auto simp: is_entry_def)
qed

section \<open>Witnesses\<close>

definition quiet_learner :: engagement where
  "quiet_learner = \<lparr>academy = empty_db\<lparr>
       people := [\<lparr>pe_id = 7, pe_tenant = 11, pe_email = ''a@b.ng'', pe_first_name = ''Ada'', pe_last_name = ''Obi'',
                   pe_status = ''active'', pe_prefs = []\<rparr>],
       enrollments := [\<lparr>en_id = 30, en_tenant = 11, en_cohort = 31, en_person = 7, en_track = None, en_role = ''student'',
                        en_status = ''active'', en_access_ends_at = None\<rparr>], next_id := 100\<rparr>,
     class_sessions = [], reminder_log = [], reminder_preferences = [], success_entries = [], platform_settings = [],
     enrolled_at = (\<lambda>_. 0), delivery_mode = (\<lambda>_. ''live'')\<rparr>"

definition quiet_sweep :: engagement where
  "quiet_sweep = fst (sweep_queue sample_env (\<lambda>_. ''2026'') quiet_learner 11 864000)"

lemma quiet_learner_one_live: "one_live quiet_learner"
  by (simp add: one_live_def quiet_learner_def)

lemma quiet_sweep_entry: "map (\<lambda>e. (sq_id e, sq_tenant e, sq_reason e, sq_status e)) (success_entries quiet_sweep) = [(100, 11, ''inactivity'', ''open'')]"
  by code_simp

lemma quiet_sweep_eq: "sweep_queue sample_env (\<lambda>_. ''2026'') quiet_learner 11 864000 = (quiet_sweep, no_queue_counts\<lparr>qc_opened := 1\<rparr>)"
proof -
  have "snd (sweep_queue sample_env (\<lambda>_. ''2026'') quiet_learner 11 864000) = no_queue_counts\<lparr>qc_opened := 1\<rparr>" by code_simp
  then show ?thesis by (simp add: quiet_sweep_def prod_eq_iff)
qed

theorem queue_mirrors_rules_witness:
  "one_live quiet_sweep \<and> length (success_entries quiet_sweep) = 1"
  using queue_mirrors_rules [OF quiet_learner_one_live quiet_sweep_eq] arg_cong [OF quiet_sweep_entry, of length] by simp

theorem queue_sweep_is_idempotent_witness:
  "\<exists>k. sweep_queue sample_env (\<lambda>_. ''2026'') quiet_sweep 11 864000 = (quiet_sweep, no_queue_counts\<lparr>qc_refreshed := k\<rparr>)"
  by (rule queue_sweep_is_idempotent [OF quiet_learner_one_live quiet_sweep_eq])

theorem transitions_keep_the_queue_witness:
  "\<exists>s'. transition_entry quiet_sweep 11 100 ''acknowledge'' 8 None 864001 = Inr s' \<and> one_live s'
      \<and> length (audit_events (academy s')) = Suc (length (audit_events (academy quiet_sweep)))"
proof -
  have "case transition_entry quiet_sweep 11 100 ''acknowledge'' 8 None 864001 of Inr s' \<Rightarrow> True | _ \<Rightarrow> False" by code_simp
  then obtain s' where s': "transition_entry quiet_sweep 11 100 ''acknowledge'' 8 None 864001 = Inr s'" by (auto split: sum.splits)
  have "one_live quiet_sweep" using quiet_learner_one_live
    unfolding quiet_sweep_def sweep_queue_def by (intro sweep_all_one_live)
  from transitions_keep_the_queue(1,3) [OF this s'] s' show ?thesis by blast
qed

end
