(* ===== verification/Ical.thy ===== *)
theory Ical
  imports Timeline Accounts
begin

text \<open>
  The iCalendar feed (\<open>services/ical.py\<close>, \<open>web/calendar_feed.py\<close>): the feed token, RFC 5545
  rendering with its escaping and octet folding, and the events of a learner. Text is in the
  code points below 256, whose UTF-8 form has one or two octets; \<open>stamp\<close> is
  \<open>strftime("%Y%m%dT%H%M%SZ")\<close>.
\<close>

section \<open>The feed token\<close>

definition ICAL_TOKEN_KIND :: string where "ICAL_TOKEN_KIND = ''ical_feed''"
definition ICAL_TOKEN_TTL_DAYS :: int where "ICAL_TOKEN_TTL_DAYS = 365"

definition feed_token :: "uuid \<Rightarrow> token_row \<Rightarrow> bool" where
  "feed_token tenant t = (tk_tenant t = tenant \<and> tk_kind t = ICAL_TOKEN_KIND)"

text \<open>\<open>raw\<close> is two fresh \<open>uuid4\<close> values in hexadecimal.\<close>

definition mint_feed_token ::
    "(string \<Rightarrow> string) \<Rightarrow> academy_db \<Rightarrow> uuid \<Rightarrow> uuid \<Rightarrow> instant \<Rightarrow> string \<Rightarrow> academy_db result" where
  "mint_feed_token ht db tenant person now raw =
     (let rotated = update_rows (\<lambda>t. feed_token tenant t \<and> tk_person t = person) (\<lambda>t. t\<lparr>tk_expires_at := now\<rparr>) (account_tokens db)
      in ensure (person_exists db tenant person \<and> \<not> list_ex (\<lambda>t. tk_tenant t = tenant \<and> tk_hash t = ht raw) rotated) IntegrityError
           (Inr (db\<lparr>account_tokens := rotated @
                      [\<lparr>tk_id = next_id db, tk_tenant = tenant, tk_person = person, tk_kind = ICAL_TOKEN_KIND, tk_hash = ht raw,
                        tk_expires_at = now + 86400 * ICAL_TOKEN_TTL_DAYS, tk_used_at = None\<rparr>],
                   next_id := Suc (next_id db)\<rparr>)))"

definition has_feed_token :: "academy_db \<Rightarrow> uuid \<Rightarrow> uuid \<Rightarrow> instant \<Rightarrow> bool" where
  "has_feed_token db tenant person now =
     list_ex (\<lambda>t. feed_token tenant t \<and> tk_person t = person \<and> tk_expires_at t > now) (account_tokens db)"

definition resolve_feed_token :: "(string \<Rightarrow> string) \<Rightarrow> academy_db \<Rightarrow> uuid \<Rightarrow> string \<Rightarrow> instant \<Rightarrow> uuid option" where
  "resolve_feed_token ht db tenant raw now =
     (if raw = '''' then None
      else map_option tk_person
             (find (\<lambda>t. feed_token tenant t \<and> tk_hash t = ht raw \<and> tk_expires_at t > now) (account_tokens db)))"

section \<open>Escaping\<close>

definition CR :: char where "CR = CHR 0x0D"
definition LF :: char where "LF = CHR 0x0A"
definition CRLF :: string where "CRLF = [CR, LF]"

definition replace_char :: "char \<Rightarrow> string \<Rightarrow> string \<Rightarrow> string" where
  "replace_char c r s = concat (map (\<lambda>x. if x = c then r else [x]) s)"

fun replace_crlf :: "string \<Rightarrow> string \<Rightarrow> string" where
  "replace_crlf r [] = []"
| "replace_crlf r [c] = [c]"
| "replace_crlf r (c # d # s) = (if c = CR \<and> d = LF then r @ replace_crlf r s else c # replace_crlf r (d # s))"

definition esc :: "string \<Rightarrow> string" where
  "esc value =
     replace_char LF [CHR 0x5C, CHR ''n''] (replace_crlf [CHR 0x5C, CHR ''n'']
       (replace_char CHR '','' [CHR 0x5C, CHR '',''] (replace_char CHR '';'' [CHR 0x5C, CHR '';'']
          (replace_char CHR 0x5C [CHR 0x5C, CHR 0x5C] value))))"

definition uri :: "string \<Rightarrow> string" where
  "uri value = replace_char LF [] (replace_char CR [] value)"

section \<open>Folding\<close>

text \<open>\<open>str.encode("utf-8")\<close> and \<open>bytes.decode("utf-8", "ignore")\<close>.\<close>

definition encode_char :: "char \<Rightarrow> nat list" where
  "encode_char c = (let n = of_char c :: nat in if n < 128 then [n] else [192 + n div 64, 128 + n mod 64])"

definition encode :: "string \<Rightarrow> nat list" where
  "encode s = concat (map encode_char s)"

fun decode_ignore :: "nat list \<Rightarrow> string" where
  "decode_ignore [] = []"
| "decode_ignore [b] = (if b < 128 then [char_of b] else [])"
| "decode_ignore (b # c # bs) =
     (if b < 128 then char_of b # decode_ignore (c # bs)
      else if 194 \<le> b \<and> b \<le> 195 \<and> 128 \<le> c \<and> c < 192 then char_of (64 * (b - 192) + (c - 128)) # decode_ignore bs
      else decode_ignore (c # bs))"

function chunks_of_74 :: "nat list \<Rightarrow> nat list list" where
  "chunks_of_74 rest = (if rest = [] then [] else take 74 rest # chunks_of_74 (drop 74 rest))"
  by pat_completeness auto
termination by (relation "measure length") auto

fun join :: "string \<Rightarrow> string list \<Rightarrow> string" where
  "join sep [] = []"
| "join sep [x] = x"
| "join sep (x # y # xs) = x @ sep @ join sep (y # xs)"

definition fold_line :: "string \<Rightarrow> string" where
  "fold_line line =
     (let raw = encode line in
      if length raw \<le> 75 then line
      else join (CRLF @ '' '') (map decode_ignore (take 75 raw # chunks_of_74 (drop 75 raw))))"

section \<open>Rendering\<close>

record ical_event =
  ie_uid :: string
  ie_summary :: string
  ie_starts_at :: instant
  ie_ends_at :: "instant option"
  ie_description :: string
  ie_location :: string
  ie_url :: string

definition optional_line :: "string \<Rightarrow> string \<Rightarrow> string \<Rightarrow> string list" where
  "optional_line name value text = (if value = '''' then [] else [name @ text])"

definition event_lines :: "(instant \<Rightarrow> string) \<Rightarrow> instant \<Rightarrow> ical_event \<Rightarrow> string list" where
  "event_lines stamp now e =
     [''BEGIN:VEVENT'', ''UID:'' @ esc (ie_uid e), ''DTSTAMP:'' @ stamp now, ''DTSTART:'' @ stamp (ie_starts_at e),
      ''DTEND:'' @ stamp (case ie_ends_at e of None \<Rightarrow> ie_starts_at e | Some t \<Rightarrow> t), ''SUMMARY:'' @ esc (ie_summary e)]
     @ optional_line ''DESCRIPTION:'' (ie_description e) (esc (ie_description e))
     @ optional_line ''LOCATION:'' (ie_location e) (esc (ie_location e))
     @ optional_line ''URL:'' (ie_url e) (uri (ie_url e)) @ [''END:VEVENT'']"

definition feed_lines :: "(instant \<Rightarrow> string) \<Rightarrow> ical_event list \<Rightarrow> string \<Rightarrow> instant \<Rightarrow> string list" where
  "feed_lines stamp events calname now =
     [''BEGIN:VCALENDAR'', ''VERSION:2.0'', ''PRODID:-//Dotmac Academy//Learning Calendar//EN'', ''CALSCALE:GREGORIAN'',
      ''METHOD:PUBLISH'', ''X-WR-CALNAME:'' @ esc calname] @ concat (map (event_lines stamp now) events) @ [''END:VCALENDAR'']"

definition render_feed :: "(instant \<Rightarrow> string) \<Rightarrow> ical_event list \<Rightarrow> string \<Rightarrow> instant \<Rightarrow> string" where
  "render_feed stamp events calname now = join CRLF (map fold_line (feed_lines stamp events calname now)) @ CRLF"

definition session_event :: "class_session_row \<times> string \<Rightarrow> ical_event" where
  "session_event = (\<lambda>(s, cohort_name).
     \<lparr>ie_uid = ''session-'' @ uuid_str (cs_id s) @ ''@academy.dotmac.io'', ie_summary = cs_title s,
      ie_starts_at = cs_starts_at s, ie_ends_at = cs_ends_at s,
      ie_description = (if cs_type s = ''live_class'' then cohort_name @ '' - live session'' else cohort_name),
      ie_location = or_empty (cs_location s), ie_url = or_empty (cs_join_url s)\<rparr>)"

definition deadline_event :: "deadline \<Rightarrow> ical_event" where
  "deadline_event d =
     \<lparr>ie_uid = ''due-'' @ uuid_str (act_id (dl_activity d)) @ ''@academy.dotmac.io'', ie_summary = ''Due: '' @ act_title (dl_activity d),
      ie_starts_at = dl_due_at d, ie_ends_at = None, ie_description = dl_course_title d, ie_location = '''', ie_url = ''''\<rparr>"

definition events_for_person :: "wall_clock \<Rightarrow> engagement \<Rightarrow> uuid \<Rightarrow> uuid \<Rightarrow> instant \<Rightarrow> ical_event list" where
  "events_for_person clock s tenant person now =
     (let t = timeline_for_person clock s tenant person now in
      map session_event (tl_sessions t)
      @ map deadline_event (tl_overdue t @ tl_due_today t @ tl_next_7 t @ tl_next_30 t))"

text \<open>The public route: \<open>None\<close> is its 404.\<close>

definition calendar_feed ::
    "(string \<Rightarrow> string) \<Rightarrow> wall_clock \<Rightarrow> (instant \<Rightarrow> string) \<Rightarrow> engagement \<Rightarrow> uuid \<Rightarrow> string \<Rightarrow> instant \<Rightarrow> string option" where
  "calendar_feed ht clock stamp s tenant token now =
     map_option (\<lambda>person. render_feed stamp (events_for_person clock s tenant person now) ''Dotmac Academy'' now)
       (resolve_feed_token ht (academy s) tenant token now)"

end
