(* ===== verification/Ical_Properties.thy ===== *)
theory Ical_Properties
  imports Ical
begin

text \<open>
  An RFC 5545 reader recovers the content lines of a feed, and rotating the feed token leaves one
  working token.
\<close>

section \<open>The reader of the standard\<close>

text \<open>Unfolding removes a line break followed by a space; content lines end with a line break.\<close>

fun unfold_text :: "string \<Rightarrow> string" where
  "unfold_text (c # d # e # s) =
     (if c = CR \<and> d = LF \<and> e = CHR '' '' then unfold_text s else c # unfold_text (d # e # s))"
| "unfold_text s = s"

fun split_crlf :: "string \<Rightarrow> string list" where
  "split_crlf [] = [[]]"
| "split_crlf [c] = [[c]]"
| "split_crlf (c # d # s) =
     (if c = CR \<and> d = LF then [] # split_crlf s
      else (case split_crlf (d # s) of [] \<Rightarrow> [[c]] | x # xs \<Rightarrow> (c # x) # xs))"

definition read_feed :: "string \<Rightarrow> string list" where
  "read_feed text = butlast (split_crlf (unfold_text text))"

lemma CR_LF [simp]: "CR \<noteq> LF" "LF \<noteq> CR" "LF \<noteq> CHR '' ''" "CR \<noteq> CHR '' ''"
  by (simp_all add: CR_def LF_def)

lemma unfold_fold: "LF \<notin> set s \<Longrightarrow> unfold_text (s @ CRLF @ CHR '' '' # t) = s @ unfold_text t"
proof (induction s)
  case (Cons c s)
  then show ?case by (cases s; cases "tl s") (auto simp: CRLF_def)
qed (simp add: CRLF_def)

lemma unfold_LF: "unfold_text (LF # t) = LF # unfold_text t"
  by (cases t; cases "tl t") auto

lemma unfold_break:
  assumes "LF \<notin> set s" "t = [] \<or> hd t \<noteq> CHR '' ''"
  shows "unfold_text (s @ CRLF @ t) = s @ CRLF @ unfold_text t"
  using assms(1)
proof (induction s)
  case Nil
  have "unfold_text (CR # LF # t) = CR # unfold_text (LF # t)" using assms(2) by (cases t) auto
  then show ?case by (simp add: CRLF_def unfold_LF)
next
  case (Cons c s)
  then show ?case by (cases s; cases "tl s") (auto simp: CRLF_def)
qed

lemma split_break: "LF \<notin> set s \<Longrightarrow> split_crlf (s @ CRLF @ t) = s # split_crlf t"
proof (induction s)
  case (Cons c s)
  then show ?case by (cases s) (auto simp: CRLF_def)
qed (simp add: CRLF_def)

section \<open>Folding text of one octet each\<close>

definition ascii :: "string \<Rightarrow> bool" where
  "ascii s = (\<forall>c \<in> set s. (of_char c :: nat) < 128)"

lemma encode_ascii: "ascii s \<Longrightarrow> encode s = map of_char s"
  by (induction s) (auto simp: encode_def encode_char_def ascii_def Let_def)

lemma decode_small: "\<forall>b \<in> set bs. b < 128 \<Longrightarrow> decode_ignore bs = map char_of bs"
  by (induction bs rule: decode_ignore.induct) auto

lemma decode_ascii: "ascii s \<Longrightarrow> decode_ignore (map of_char s) = s"
  by (subst decode_small) (auto simp: ascii_def comp_def)

lemma ascii_parts: "ascii s \<Longrightarrow> ascii (take n s)" "ascii s \<Longrightarrow> ascii (drop n s)"
  by (auto simp: ascii_def dest: in_set_takeD in_set_dropD)

function pieces :: "string \<Rightarrow> string list" where
  "pieces s = (if s = [] then [] else take 74 s # pieces (drop 74 s))"
  by pat_completeness auto
termination by (relation "measure length") auto

declare pieces.simps [simp del] chunks_of_74.simps [simp del]

lemma decode_chunks: "ascii s \<Longrightarrow> map decode_ignore (chunks_of_74 (map of_char s)) = pieces s"
proof (induction s rule: pieces.induct)
  case (1 s)
  show ?case
  proof (cases "s = []")
    case False
    have "chunks_of_74 (map of_char s) = map of_char (take 74 s) # chunks_of_74 (map of_char (drop 74 s))"
      using False by (subst chunks_of_74.simps) (simp add: take_map drop_map)
    then show ?thesis using 1 False by (subst pieces.simps) (simp add: decode_ascii ascii_parts)
  qed (simp add: chunks_of_74.simps pieces.simps)
qed

lemma fold_line_ascii:
  "ascii s \<Longrightarrow> fold_line s = (if length s \<le> 75 then s else join (CRLF @ '' '') (take 75 s # pieces (drop 75 s)))"
  by (simp add: fold_line_def encode_ascii take_map drop_map decode_ascii ascii_parts decode_chunks)

lemma pieces_whole: "concat (pieces s) = s"
  by (induction s rule: pieces.induct) (subst pieces.simps, simp)

lemma pieces_bound: "p \<in> set (pieces s) \<Longrightarrow> length p \<le> 74"
  by (induction s rule: pieces.induct) (subst (asm) (2) pieces.simps, auto split: if_splits)

lemma pieces_plain: "LF \<notin> set s \<Longrightarrow> p \<in> set (pieces s) \<Longrightarrow> LF \<notin> set p"
  using pieces_whole [of s] by (metis concat_eq_concat_iff UN_I set_concat)

lemma unfold_join:
  assumes "LF \<notin> set p" "\<And>q. q \<in> set ps \<Longrightarrow> LF \<notin> set q" "t = [] \<or> hd t \<noteq> CHR '' ''"
  shows "unfold_text (join (CRLF @ '' '') (p # ps) @ CRLF @ t) = concat (p # ps) @ CRLF @ unfold_text t"
  using assms
proof (induction ps arbitrary: p)
  case (Cons q ps)
  then show ?case using unfold_fold [of p "join (CRLF @ '' '') (q # ps) @ CRLF @ t"] by simp
qed (use unfold_break in simp)

lemma split_join:
  assumes "LF \<notin> set p" "\<And>q. q \<in> set ps \<Longrightarrow> LF \<notin> set q"
  shows "split_crlf (join (CRLF @ '' '') (p # ps) @ CRLF @ t) = p # map (\<lambda>q. CHR '' '' # q) ps @ split_crlf t"
  using assms
proof (induction ps arbitrary: p)
  case (Cons q ps)
  have "join (CRLF @ '' '') (p # q # ps) @ CRLF @ t = p @ CRLF @ join (CRLF @ '' '') ((CHR '' '' # q) # ps) @ CRLF @ t"
    by (cases ps) simp_all
  then show ?case using Cons.IH [of "CHR '' '' # q"] Cons.prems by (simp add: split_break)
qed (simp add: split_break)

lemma fold_line_pieces:
  assumes "ascii s" "LF \<notin> set s"
  obtains p ps where "fold_line s = join (CRLF @ '' '') (p # ps)" "concat (p # ps) = s" "length p \<le> 75"
    "\<forall>q \<in> set ps. length q \<le> 74" "\<forall>q \<in> set (p # ps). LF \<notin> set q"
proof (cases "length s \<le> 75")
  case True
  then show ?thesis using that [of s "[]"] assms by (simp add: fold_line_ascii)
next
  case False
  have "LF \<notin> set (take 75 s)" "LF \<notin> set (drop 75 s)" using assms(2) by (auto dest: in_set_takeD in_set_dropD)
  then show ?thesis using that [of "take 75 s" "pieces (drop 75 s)"] False assms(1)
    by (simp add: fold_line_ascii pieces_whole pieces_bound pieces_plain)
qed

section \<open>Content lines carry no line break\<close>

definition plain_line :: "string \<Rightarrow> bool" where
  "plain_line s = (ascii s \<and> LF \<notin> set s)"

lemma plain_append: "plain_line (s @ t) = (plain_line s \<and> plain_line t)"
  by (auto simp: plain_line_def ascii_def)

lemma set_replace_char: "set (replace_char c r s) \<subseteq> (set s - {c}) \<union> set r"
  by (auto simp: replace_char_def)

lemma set_replace_crlf: "set (replace_crlf r s) \<subseteq> set s \<union> set r"
  by (induction r s rule: replace_crlf.induct) auto

lemma plain_ascii_iff: "plain_line s \<longleftrightarrow> set s \<subseteq> {c. (of_char c :: nat) < 128 \<and> c \<noteq> LF}"
  by (auto simp: plain_line_def ascii_def)

lemma ascii_replace_char: "ascii s \<Longrightarrow> ascii r \<Longrightarrow> ascii (replace_char c r s)"
  using set_replace_char [of c r s] unfolding ascii_def by blast

lemma ascii_replace_crlf: "ascii s \<Longrightarrow> ascii r \<Longrightarrow> ascii (replace_crlf r s)"
  using set_replace_crlf [of r s] unfolding ascii_def by blast

lemma no_replaced_char: "c \<notin> set r \<Longrightarrow> c \<notin> set (replace_char c r s)"
  using set_replace_char [of c r s] by blast

lemma esc_plain:
  assumes "ascii s" shows "plain_line (esc s)"
proof -
  have "ascii [CHR 0x5C, CHR ''n'']" "ascii [CHR 0x5C, CHR '','']" "ascii [CHR 0x5C, CHR '';'']" "ascii [CHR 0x5C, CHR 0x5C]"
    by (simp_all add: ascii_def)
  then have "ascii (esc s)" unfolding esc_def using assms by (intro ascii_replace_char ascii_replace_crlf)
  moreover have "LF \<notin> set (esc s)" unfolding esc_def by (rule no_replaced_char) (simp add: LF_def)
  ultimately show ?thesis by (simp add: plain_line_def)
qed

lemma uri_plain: "ascii s \<Longrightarrow> plain_line (uri s)"
  by (auto simp: uri_def replace_char_def plain_line_def ascii_def)

definition ascii_event :: "ical_event \<Rightarrow> bool" where
  "ascii_event e = (ascii (ie_uid e) \<and> ascii (ie_summary e) \<and> ascii (ie_description e) \<and> ascii (ie_location e) \<and> ascii (ie_url e))"

definition content_line :: "string \<Rightarrow> bool" where
  "content_line s = (plain_line s \<and> s \<noteq> [] \<and> hd s \<noteq> CHR '' '')"

lemma plain_line_Cons [simp]:
  "plain_line (c # s) \<longleftrightarrow> (of_char c :: nat) < 128 \<and> c \<noteq> LF \<and> plain_line s" "plain_line []"
  by (auto simp: plain_line_def ascii_def)

lemma content_line_Cons [simp]: "content_line (c # s) \<longleftrightarrow> c \<noteq> CHR '' '' \<and> plain_line (c # s)"
  by (auto simp: content_line_def)

lemma event_content:
  assumes "ascii_event e" "\<And>t. plain_line (stamp t)"
  shows "list_all content_line (event_lines stamp now e)"
proof -
  have "plain_line (esc (ie_uid e))" "plain_line (esc (ie_summary e))" "plain_line (esc (ie_description e))"
    "plain_line (esc (ie_location e))" "plain_line (uri (ie_url e))"
    using assms(1) by (simp_all add: ascii_event_def esc_plain uri_plain)
  then show ?thesis using assms(2) by (simp add: event_lines_def optional_line_def LF_def)
qed

lemma feed_content:
  assumes "\<forall>e \<in> set events. ascii_event e" "ascii calname" "\<And>t. plain_line (stamp t)"
  shows "\<forall>l \<in> set (feed_lines stamp events calname now). content_line l"
proof -
  have "list_all content_line (concat (map (event_lines stamp now) events))"
    using event_content [OF _ assms(3)] assms(1) by (fastforce simp: list_all_iff)
  then have "list_all content_line (feed_lines stamp events calname now)"
    using esc_plain [OF assms(2)] by (simp add: feed_lines_def LF_def)
  then show ?thesis by (simp add: list_all_iff)
qed

section \<open>Reading a feed back\<close>

lemma join_folded:
  "\<forall>l \<in> set ls. content_line l \<Longrightarrow> ls \<noteq> [] \<Longrightarrow>
   unfold_text (join CRLF (map fold_line ls) @ CRLF) = concat (map (\<lambda>l. l @ CRLF) ls)"
proof (induction ls)
  case (Cons l ls)
  then have l: "ascii l" "LF \<notin> set l" by (auto simp: content_line_def plain_line_def)
  obtain p ps where f: "fold_line l = join (CRLF @ '' '') (p # ps)" "concat (p # ps) = l" "\<forall>q \<in> set (p # ps). LF \<notin> set q"
    by (rule fold_line_pieces [OF l]) blast
  show ?case
  proof (cases "ls = []")
    case True
    then show ?thesis using unfold_join [of p ps "[]"] f by simp
  next
    case False
    then obtain m ms where m: "ls = m # ms" by (cases ls) auto
    have "content_line m" using Cons.prems m by simp
    then obtain c m' where c: "m = c # m'" "c \<noteq> CHR '' ''" by (cases m) (auto simp: content_line_def)
    have "fold_line m \<noteq> [] \<and> hd (fold_line m) = c"
    proof -
      have "ascii m" using \<open>content_line m\<close> by (simp add: content_line_def plain_line_def)
      then show ?thesis using c(1) by (cases "pieces (drop 75 m)") (auto simp: fold_line_ascii)
    qed
    moreover have "join CRLF (map fold_line ls) @ CRLF = fold_line m @ (if ms = [] then CRLF else CRLF @ join CRLF (map fold_line ms) @ CRLF)"
      unfolding m by (cases ms) simp_all
    ultimately have hd: "hd (join CRLF (map fold_line ls) @ CRLF) \<noteq> CHR '' ''" using c(2) by (simp add: hd_append)
    have "join CRLF (map fold_line (l # ls)) @ CRLF = fold_line l @ CRLF @ join CRLF (map fold_line ls) @ CRLF"
      unfolding m by simp
    also have "unfold_text \<dots> = l @ CRLF @ unfold_text (join CRLF (map fold_line ls) @ CRLF)"
      using unfold_join [of p ps "join CRLF (map fold_line ls) @ CRLF"] f hd by (simp del: join.simps)
    finally show ?thesis using Cons False by simp
  qed
qed simp

lemma split_lines: "\<forall>l \<in> set ls. LF \<notin> set l \<Longrightarrow> split_crlf (concat (map (\<lambda>l. l @ CRLF) ls)) = ls @ [[]]"
  by (induction ls) (simp_all add: split_break)

lemma physical_lines:
  "\<forall>l \<in> set ls. content_line l \<Longrightarrow> ls \<noteq> [] \<Longrightarrow>
   \<forall>q \<in> set (split_crlf (join CRLF (map fold_line ls) @ CRLF)). length q \<le> 75"
proof (induction ls)
  case (Cons l ls)
  then have l: "ascii l" "LF \<notin> set l" by (auto simp: content_line_def plain_line_def)
  obtain p ps where f: "fold_line l = join (CRLF @ '' '') (p # ps)" "length p \<le> 75" "\<forall>q \<in> set ps. length q \<le> 74"
      "\<forall>q \<in> set (p # ps). LF \<notin> set q"
    by (rule fold_line_pieces [OF l]) blast
  have split: "split_crlf (fold_line l @ CRLF @ t) = p # map (\<lambda>q. CHR '' '' # q) ps @ split_crlf t" for t
    unfolding f(1) using f(4) by (intro split_join) auto
  show ?case
  proof (cases ls)
    case Nil
    then show ?thesis using split [of "[]"] f(2,3) by auto
  next
    case (Cons m ms)
    then have "join CRLF (map fold_line (l # ls)) @ CRLF = fold_line l @ CRLF @ join CRLF (map fold_line ls) @ CRLF" by simp
    then show ?thesis using split Cons.IH Cons.prems f(2,3) Cons by auto
  qed
qed simp

text \<open>C35. The calendar feed reads back: for texts of one octet per character, an RFC 5545 reader, which joins folded
  lines and splits at line breaks, recovers exactly the content lines the feed was rendered from - no
  title, location or link can add, end or join a line - and no line on the wire exceeds 75 octets.\<close>

theorem calendar_feed_reads_back:
  assumes "\<forall>e \<in> set events. ascii_event e" "ascii calname" "\<And>t. ascii (stamp t) \<and> LF \<notin> set (stamp t)"
  shows "read_feed (render_feed stamp events calname now) = feed_lines stamp events calname now
    \<and> (\<forall>l \<in> set (split_crlf (render_feed stamp events calname now)). length l \<le> 75)"
proof (rule conjI)
  have c: "\<forall>l \<in> set (feed_lines stamp events calname now). content_line l"
    using assms by (intro feed_content) (auto simp: plain_line_def)
  moreover have ne: "feed_lines stamp events calname now \<noteq> []" by (simp add: feed_lines_def)
  ultimately have "unfold_text (render_feed stamp events calname now) = concat (map (\<lambda>l. l @ CRLF) (feed_lines stamp events calname now))"
    unfolding render_feed_def by (rule join_folded)
  moreover have "\<forall>l \<in> set (feed_lines stamp events calname now). LF \<notin> set l"
    using c by (auto simp: content_line_def plain_line_def)
  ultimately show "read_feed (render_feed stamp events calname now) = feed_lines stamp events calname now"
    by (simp add: read_feed_def split_lines)
  show "\<forall>l \<in> set (split_crlf (render_feed stamp events calname now)). length l \<le> 75"
    unfolding render_feed_def using c ne by (rule physical_lines)
qed

text \<open>A character of two octets that straddles the seventy-fifth octet is lost.\<close>

lemma folding_drops_a_straddling_character:
  "fold_line (replicate 74 CHR ''a'' @ [CHR 0xE9, CHR ''b'']) = replicate 74 CHR ''a'' @ CRLF @ '' b''"
  by code_simp

section \<open>Rotating the token\<close>

lemma find_appended_new:
  "\<forall>x \<in> set xs. \<not> P x \<Longrightarrow> find P (xs @ [y]) = (if P y then Some y else None)"
  by (induction xs) auto

text \<open>Rotating the feed token retires every earlier one: after a mint, from the same instant on, whatever raw value
  opens the feed of the person hashes to the fresh one, and the fresh one does for a year.\<close>

theorem rotation_leaves_one_feed_token:
  assumes "mint_feed_token ht db tenant person now raw = Inr db'" "now \<le> later" "raw \<noteq> ''''"
  shows "(\<forall>raw'. resolve_feed_token ht db' tenant raw' later = Some person \<longrightarrow> ht raw' = ht raw)
    \<and> resolve_feed_token ht db' tenant raw later = (if later < now + 31536000 then Some person else None)"
proof -
  let ?old = "update_rows (\<lambda>t. feed_token tenant t \<and> tk_person t = person) (\<lambda>t. t\<lparr>tk_expires_at := now\<rparr>) (account_tokens db)"
  let ?new = "\<lparr>tk_id = next_id db, tk_tenant = tenant, tk_person = person, tk_kind = ICAL_TOKEN_KIND, tk_hash = ht raw,
                tk_expires_at = now + 86400 * ICAL_TOKEN_TTL_DAYS, tk_used_at = None\<rparr>"
  let ?fits = "\<lambda>r t. feed_token tenant t \<and> tk_hash t = ht r \<and> tk_expires_at t > later"
  note minted = assms(1) [unfolded mint_feed_token_def Let_def ensure_eq_Inr sum.inject]
  have db': "account_tokens db' = ?old @ [?new]" using arg_cong [OF conjunct2 [OF minted], of account_tokens] by simp
  have fresh: "\<forall>t \<in> set ?old. \<not> (tk_tenant t = tenant \<and> tk_hash t = ht raw)"
    using minted unfolding list_ex_iff by blast
  have expired: "\<not> ?fits r t" if mem: "t \<in> set ?old" and mine: "tk_person t = person" for r t
  proof -
    from mem obtain x where x: "t = (if feed_token tenant x \<and> tk_person x = person then x\<lparr>tk_expires_at := now\<rparr> else x)"
      unfolding set_update_rows by blast
    show ?thesis
    proof (cases "feed_token tenant x \<and> tk_person x = person")
      case True
      then have "t = x\<lparr>tk_expires_at := now\<rparr>" using x by simp
      then have "tk_expires_at t = now" by simp
      then show ?thesis using assms(2) by simp
    next
      case False
      then have "t = x" using x unfolding if_not_P [OF False] by blast
      then show ?thesis using False mine by blast
    qed
  qed
  have "ht raw' = ht raw" if found: "resolve_feed_token ht db' tenant raw' later = Some person" for raw'
  proof -
    have "map_option tk_person (find (?fits raw') (?old @ [?new])) = Some person"
      using found unfolding resolve_feed_token_def db' by (cases "raw' = ''''") simp_all
    then obtain t where t: "find (?fits raw') (?old @ [?new]) = Some t" "tk_person t = person"
      unfolding map_option_eq_Some by blast
    have "t \<in> set (?old @ [?new])" "?fits raw' t" using find_Some_in [OF t(1)] by simp_all
    then have "t = ?new" using expired t(2) unfolding set_append by auto
    then show ?thesis using \<open>?fits raw' t\<close> by simp
  qed
  moreover have "find (?fits raw) (?old @ [?new]) = (if ?fits raw ?new then Some ?new else None)"
    using fresh by (intro find_appended_new) (auto simp: feed_token_def)
  ultimately show ?thesis using assms(3)
    by (simp add: resolve_feed_token_def db' feed_token_def ICAL_TOKEN_TTL_DAYS_def)
qed

section \<open>Witnesses\<close>

definition sample_event :: ical_event where
  "sample_event = \<lparr>ie_uid = ''session-1@academy.dotmac.io'', ie_summary = ''VLANs, trunks; and [CR LF] '' @ CRLF @ ''BEGIN:VEVENT'',
     ie_starts_at = 0, ie_ends_at = None, ie_description = replicate 90 CHR ''d'', ie_location = '''', ie_url = ''https://x.ng/?a=1,2''\<rparr>"

theorem calendar_feed_reads_back_witness:
  "length (read_feed (render_feed (\<lambda>_. ''20260701T000000Z'') [sample_event] ''Dotmac Academy'' 0)) = 16"
proof -
  have "\<forall>e \<in> set [sample_event]. ascii_event e"
    by (simp add: sample_event_def ascii_event_def ascii_def CRLF_def CR_def LF_def)
  moreover have "ascii ''Dotmac Academy''" "\<And>t. ascii ''20260701T000000Z'' \<and> LF \<notin> set ''20260701T000000Z''"
    by (simp_all add: ascii_def LF_def)
  ultimately have "read_feed (render_feed (\<lambda>_. ''20260701T000000Z'') [sample_event] ''Dotmac Academy'' 0)
      = feed_lines (\<lambda>_. ''20260701T000000Z'') [sample_event] ''Dotmac Academy'' 0"
    using calendar_feed_reads_back [of "[sample_event]" "''Dotmac Academy''" "\<lambda>_. ''20260701T000000Z''" 0] by blast
  then show ?thesis by (simp add: feed_lines_def event_lines_def optional_line_def sample_event_def)
qed

definition one_learner :: academy_db where
  "one_learner = empty_db\<lparr>people := [\<lparr>pe_id = 7, pe_tenant = 11, pe_email = ''a@b.ng'', pe_first_name = ''A'', pe_last_name = ''B'',
                                       pe_status = ''active'', pe_prefs = []\<rparr>]\<rparr>"

theorem rotation_leaves_one_feed_token_witness:
  "\<exists>db1 db2. mint_feed_token id one_learner 11 7 0 ''a'' = Inr db1 \<and> mint_feed_token id db1 11 7 60 ''b'' = Inr db2
      \<and> resolve_feed_token id db2 11 ''b'' 61 = Some 7 \<and> resolve_feed_token id db2 11 ''a'' 61 \<noteq> Some 7"
proof -
  have "case mint_feed_token id one_learner 11 7 0 ''a'' of
      Inr db1 \<Rightarrow> (case mint_feed_token id db1 11 7 60 ''b'' of Inr db2 \<Rightarrow> True | _ \<Rightarrow> False) | _ \<Rightarrow> False" by code_simp
  then obtain db1 db2 where m: "mint_feed_token id one_learner 11 7 0 ''a'' = Inr db1" "mint_feed_token id db1 11 7 60 ''b'' = Inr db2"
    by (auto split: sum.splits)
  from rotation_leaves_one_feed_token [OF m(2), of 61]
  have "resolve_feed_token id db2 11 ''b'' 61 = Some 7" "resolve_feed_token id db2 11 ''a'' 61 \<noteq> Some 7" by auto
  with m show ?thesis by blast
qed

end
