(* ===== verification/Library_Model.thy ===== *)
theory Library_Model
  imports Scheduling
begin

text \<open>
  The tables of the course library: chapters and the rest of a course's columns, what a learner
  has read, bookmarked and noted, and announcements (\<open>models/course.py\<close>, \<open>models/reading.py\<close>,
  \<open>models/bookmark.py\<close>, \<open>models/announcement.py\<close>).
\<close>

record chapter_row =
  cp_id :: uuid
  cp_tenant :: uuid
  cp_course :: uuid
  cp_number :: int
  cp_title :: string
  cp_part :: string
  cp_body_html :: string
  cp_body_md :: string
  cp_source_hash :: string
  cp_order_index :: int

record chapter_read_row =
  rd_tenant :: uuid
  rd_person :: uuid
  rd_chapter :: uuid
  rd_created_at :: instant

record subtopic_read_row =
  st_tenant :: uuid
  st_person :: uuid
  st_chapter :: uuid
  st_slug :: string

record bookmark_row =
  bm_tenant :: uuid
  bm_person :: uuid
  bm_course :: uuid
  bm_chapter :: uuid

record note_row =
  nt_tenant :: uuid
  nt_person :: uuid
  nt_course :: uuid
  nt_chapter :: uuid
  nt_body :: string

record announcement_row =
  an_id :: uuid
  an_tenant :: uuid
  an_cohort :: "uuid option"
  an_author :: uuid
  an_title :: string
  an_body_md :: string
  an_body_html :: string
  an_created_at :: instant

text \<open>The columns of a course the learning services do not read, by its id.\<close>

record course_meta =
  cm_slug :: string
  cm_discipline :: string
  cm_source_ref :: string
  cm_version :: int
  cm_listed :: bool

text \<open>A question bank, and the text of its questions by bank and external id.\<close>

record bank_row =
  bk_id :: uuid
  bk_tenant :: uuid
  bk_course :: uuid
  bk_chapter :: "int option"
  bk_kind :: string
  bk_version :: int

record question_text =
  qx_stem :: string
  qx_rubric :: string
  qx_explanation :: string

record library =
  campus :: engagement
  chapters :: "chapter_row list"
  chapter_reads :: "chapter_read_row list"
  subtopic_reads :: "subtopic_read_row list"
  bookmarks :: "bookmark_row list"
  chapter_notes :: "note_row list"
  announcements :: "announcement_row list"
  course_meta_of :: "uuid \<Rightarrow> course_meta"
  banks :: "bank_row list"
  question_text_of :: "uuid \<times> string \<Rightarrow> question_text"

definition lib_db :: "library \<Rightarrow> academy_db" where
  "lib_db l = academy (campus l)"

definition with_db :: "(academy_db \<Rightarrow> academy_db) \<Rightarrow> library \<Rightarrow> library" where
  "with_db f l = l\<lparr>campus := (campus l)\<lparr>academy := f (academy (campus l))\<rparr>\<rparr>"

definition course_slug :: "library \<Rightarrow> uuid \<Rightarrow> string" where
  "course_slug l course = cm_slug (course_meta_of l course)"

section \<open>Grouping\<close>

text \<open>\<open>out.setdefault(key, []).append(row)\<close> over the rows, and its lookup with a default.\<close>

definition add_to_group :: "('r \<Rightarrow> 'k) \<Rightarrow> 'r \<Rightarrow> ('k \<times> 'r list) list \<Rightarrow> ('k \<times> 'r list) list" where
  "add_to_group key r out = AList.update (key r) ((case map_of out (key r) of None \<Rightarrow> [] | Some rs \<Rightarrow> rs) @ [r]) out"

definition group_rows :: "('r \<Rightarrow> 'k) \<Rightarrow> 'r list \<Rightarrow> ('k \<times> 'r list) list" where
  "group_rows key rows = fold (add_to_group key) rows []"

definition group_of :: "('k \<times> 'r list) list \<Rightarrow> 'k \<Rightarrow> 'r list" where
  "group_of out k = (case map_of out k of None \<Rightarrow> [] | Some rs \<Rightarrow> rs)"

lemma group_of_fold: "group_of (fold (add_to_group key) rows out) k = group_of out k @ filter (\<lambda>r. key r = k) rows"
proof (induction rows arbitrary: out)
  case (Cons r rows)
  have "group_of (add_to_group key r out) k = group_of out k @ (if key r = k then [r] else [])"
    by (simp add: group_of_def add_to_group_def update_conv')
  then show ?case by (simp add: Cons)
qed (simp add: group_of_def)

lemma group_of_rows [simp]: "group_of (group_rows key rows) k = filter (\<lambda>r. key r = k) rows"
  by (simp add: group_rows_def group_of_fold) (simp add: group_of_def)

end
