(* ===== verification/Learner_Dashboard.thy ===== *)
theory Learner_Dashboard
  imports Library_Model Gradebook Timeline
begin

text \<open>
  The learner's dashboard (\<open>services/learner_dashboard.py\<close>): the binding offering of each visible
  course, where to resume, the course cards and the progress overview. The batched readers the
  pages share stand beside the per-course ones.
\<close>

section \<open>Visible courses and their windows\<close>

record entitled =
  ec_course :: course_row
  ec_offering :: offering_row
  ec_ends :: "instant option"

text \<open>An enrolment's own access date stands in for an end date that is missing or earlier.\<close>

definition effective_end :: "offering_row \<Rightarrow> instant option \<Rightarrow> instant option" where
  "effective_end o' access =
     (case access of
        None \<Rightarrow> of_ends_at o'
      | Some a \<Rightarrow> (case of_ends_at o' of None \<Rightarrow> Some a | Some e \<Rightarrow> if a > e then Some a else Some e))"

definition keep_soonest :: "entitled \<Rightarrow> (uuid \<times> entitled) list \<Rightarrow> (uuid \<times> entitled) list" where
  "keep_soonest x chosen =
     (let c = co_id (ec_course x) in
      case map_of chosen c of
        None \<Rightarrow> AList.update c x chosen
      | Some held \<Rightarrow>
          (case ec_ends x of
             None \<Rightarrow> chosen
           | Some e \<Rightarrow> if (case ec_ends held of None \<Rightarrow> True | Some h \<Rightarrow> e < h) then AList.update c x chosen else chosen))"

definition entitled_rows :: "academy_db \<Rightarrow> uuid \<Rightarrow> uuid \<Rightarrow> entitled list" where
  "entitled_rows db tenant person =
     sort_key (\<lambda>x. co_title (ec_course x))
       [\<lparr>ec_course = c, ec_offering = o', ec_ends = effective_end o' (en_access_ends_at e)\<rparr>.
          c \<leftarrow> courses db, o' \<leftarrow> offerings db, e \<leftarrow> enrollments db,
          of_course o' = co_id c \<and> of_tenant o' = co_tenant c \<and> en_cohort e = of_cohort o' \<and> en_tenant e = of_tenant o'
          \<and> co_tenant c = tenant \<and> co_id c \<in> visible_course_ids db tenant person \<and> of_status o' = ''active''
          \<and> en_person e = person \<and> en_status e = ''active'']"

definition entitled_courses :: "academy_db \<Rightarrow> uuid \<Rightarrow> uuid \<Rightarrow> entitled list" where
  "entitled_courses db tenant person =
     sort_key (\<lambda>x. co_title (ec_course x)) (map snd (fold keep_soonest (entitled_rows db tenant person) []))"

section \<open>What was read and touched\<close>

definition course_chapters :: "library \<Rightarrow> uuid \<Rightarrow> uuid \<Rightarrow> chapter_row list" where
  "course_chapters l tenant course =
     sort_key cp_number (filter (\<lambda>h. cp_tenant h = tenant \<and> cp_course h = course) (chapters l))"

definition activities_by_course :: "academy_db \<Rightarrow> uuid \<Rightarrow> uuid list \<Rightarrow> (uuid \<times> activity_row list) list" where
  "activities_by_course db tenant course_ids =
     group_rows act_course (sort_key chapter_key (filter (\<lambda>a. act_tenant a = tenant \<and> act_course a \<in> set course_ids) (activities db)))"

definition chapters_by_course :: "library \<Rightarrow> uuid \<Rightarrow> uuid list \<Rightarrow> (uuid \<times> chapter_row list) list" where
  "chapters_by_course l tenant course_ids =
     group_rows cp_course (sort_key cp_number (filter (\<lambda>h. cp_tenant h = tenant \<and> cp_course h \<in> set course_ids) (chapters l)))"

text \<open>Newest first.\<close>

definition read_rows :: "library \<Rightarrow> uuid \<Rightarrow> uuid \<Rightarrow> uuid list \<Rightarrow> (chapter_read_row \<times> chapter_row) list" where
  "read_rows l tenant person course_ids =
     sort_key (\<lambda>(r, h). - rd_created_at r)
       [(r, h). r \<leftarrow> chapter_reads l, h \<leftarrow> chapters l,
          cp_id h = rd_chapter r \<and> rd_tenant r = tenant \<and> rd_person r = person \<and> cp_course h \<in> set course_ids]"

definition submission_touches :: "academy_db \<Rightarrow> uuid \<Rightarrow> uuid \<Rightarrow> uuid list \<Rightarrow> (uuid \<times> instant \<times> int option) list" where
  "submission_touches db tenant person course_ids =
     [(act_course a, sub_created_at s, act_chapter a). s \<leftarrow> submissions db, a \<leftarrow> activities db,
        act_id a = sub_activity s \<and> act_tenant a = sub_tenant s \<and> sub_tenant s = tenant \<and> sub_person s = person
        \<and> act_course a \<in> set course_ids]"

definition attempt_touches :: "academy_db \<Rightarrow> uuid \<Rightarrow> uuid \<Rightarrow> uuid list \<Rightarrow> (uuid \<times> instant \<times> int option) list" where
  "attempt_touches db tenant person course_ids =
     [(act_course a, at_started_at t, act_chapter a). t \<leftarrow> activity_attempts db, a \<leftarrow> activities db,
        act_id a = at_activity t \<and> act_tenant a = at_tenant t \<and> at_tenant t = tenant \<and> at_person t = person
        \<and> act_course a \<in> set course_ids]"

definition offer_touch ::
    "uuid \<times> instant \<times> int option \<Rightarrow> (uuid \<times> instant \<times> int) list \<Rightarrow> (uuid \<times> instant \<times> int) list" where
  "offer_touch = (\<lambda>(course, moment, chapter) held.
     case chapter of
       None \<Rightarrow> held
     | Some n \<Rightarrow>
         (case map_of held course of
            None \<Rightarrow> AList.update course (moment, n) held
          | Some (m, _) \<Rightarrow> if moment > m then AList.update course (moment, n) held else held))"

record touch_bundle =
  tb_last_touch :: "(uuid \<times> instant \<times> int) list"
  tb_last_read :: "uuid \<Rightarrow> (int \<times> string) option"
  tb_read_numbers :: "uuid \<Rightarrow> int set"

definition touch_bundle_of :: "library \<Rightarrow> uuid \<Rightarrow> uuid \<Rightarrow> uuid list \<Rightarrow> touch_bundle" where
  "touch_bundle_of l tenant person course_ids =
     (let reads = read_rows l tenant person course_ids;
          touches = map (\<lambda>(r, h). (cp_course h, rd_created_at r, Some (cp_number h))) reads
                    @ submission_touches (lib_db l) tenant person course_ids
                    @ attempt_touches (lib_db l) tenant person course_ids
      in \<lparr>tb_last_touch = fold offer_touch touches [],
          tb_last_read = (\<lambda>c. map_option (\<lambda>(r, h). (cp_number h, cp_title h)) (find (\<lambda>(r, h). cp_course h = c) reads)),
          tb_read_numbers = (\<lambda>c. set (map (\<lambda>(r, h). cp_number h) (filter (\<lambda>(r, h). cp_course h = c) reads)))\<rparr>)"

section \<open>Where to resume\<close>

definition passed_in :: "(uuid \<times> score_row) list \<Rightarrow> uuid \<Rightarrow> bool" where
  "passed_in best i = (case map_of best i of None \<Rightarrow> False | Some s \<Rightarrow> sc_passed s)"

definition incomplete_chapter :: "activity_row list \<Rightarrow> (uuid \<times> score_row) list \<Rightarrow> int set \<Rightarrow> chapter_row \<Rightarrow> bool" where
  "incomplete_chapter acts best read_numbers h =
     (\<not> (list_all (\<lambda>a. passed_in best (act_id a)) (filter (\<lambda>a. act_chapter a = Some (cp_number h)) acts)
         \<and> cp_number h \<in> read_numbers))"

definition resume_order :: "chapter_row list \<Rightarrow> int \<Rightarrow> chapter_row list" where
  "resume_order hs start = filter (\<lambda>h. cp_number h \<ge> start) hs @ filter (\<lambda>h. cp_number h < start) hs"

definition resume_from ::
    "chapter_row list \<Rightarrow> activity_row list \<Rightarrow> (uuid \<times> score_row) list \<Rightarrow> int set \<Rightarrow> (instant \<times> int) option \<Rightarrow> chapter_row option" where
  "resume_from hs acts best read_numbers touched =
     (case hs of
        [] \<Rightarrow> None
      | h # _ \<Rightarrow>
          find (incomplete_chapter acts best read_numbers)
            (resume_order hs (case touched of None \<Rightarrow> cp_number h | Some (_, n) \<Rightarrow> n)))"

definition resume_chapter :: "library \<Rightarrow> uuid \<Rightarrow> uuid \<Rightarrow> uuid \<Rightarrow> chapter_row option" where
  "resume_chapter l tenant person course =
     (if course_chapters l tenant course = [] then None
      else (let bundle = touch_bundle_of l tenant person [course] in
            resume_from (course_chapters l tenant course) (course_activities (lib_db l) tenant course)
              (best_scores_for (lib_db l) tenant person course) (tb_read_numbers bundle course)
              (map_of (tb_last_touch bundle) course)))"

section \<open>The shared context\<close>

record dashboard_context =
  dc_now :: instant
  dc_pairs :: "entitled list"
  dc_course_ids :: "uuid list"
  dc_access :: "(uuid \<times> access_state) list"
  dc_completion :: "uuid \<Rightarrow> completion_row option"
  dc_certificate :: "uuid \<Rightarrow> certificate_row option"
  dc_next_session :: "uuid \<Rightarrow> class_session_row option"
  dc_activities :: "(uuid \<times> activity_row list) list"
  dc_best :: "(uuid \<times> score_row) list"
  dc_bundle :: touch_bundle
  dc_chapters :: "(uuid \<times> chapter_row list) list"
  dc_due :: "(uuid \<times> (uuid \<times> uuid \<times> instant option) list) list"

text \<open>A course's certificate: unique for the person and course.\<close>

definition certificate_for :: "academy_db \<Rightarrow> uuid \<Rightarrow> uuid \<Rightarrow> uuid \<Rightarrow> certificate_row option" where
  "certificate_for db tenant person course =
     find (\<lambda>r. ce_tenant r = tenant \<and> ce_person r = person \<and> ce_course r = course) (certificates db)"

definition due_by_offering :: "academy_db \<Rightarrow> uuid \<Rightarrow> uuid list \<Rightarrow> (uuid \<times> (uuid \<times> uuid \<times> instant option) list) list" where
  "due_by_offering db tenant offering_ids =
     group_rows fst (map (\<lambda>p. (pa_offering p, pa_activity p, pa_due_at p))
       (filter (\<lambda>p. pa_tenant p = tenant \<and> pa_offering p \<in> set offering_ids) (offering_activities db)))"

definition next_session_of :: "engagement \<Rightarrow> uuid \<Rightarrow> uuid \<Rightarrow> instant \<Rightarrow> uuid \<Rightarrow> class_session_row option" where
  "next_session_of s tenant person now cohort =
     find (\<lambda>r. cs_cohort r = cohort) (map fst (fst (list_for_person s tenant person now)))"

definition dashboard_context_of :: "library \<Rightarrow> uuid \<Rightarrow> uuid \<Rightarrow> instant \<Rightarrow> dashboard_context" where
  "dashboard_context_of l tenant person now =
     (let db = lib_db l; pairs = entitled_courses db tenant person; ids = map (\<lambda>x. co_id (ec_course x)) pairs
      in \<lparr>dc_now = now, dc_pairs = pairs, dc_course_ids = ids, dc_access = course_access_states db tenant person,
          dc_completion = completion_for db tenant person, dc_certificate = certificate_for db tenant person,
          dc_next_session = next_session_of (campus l) tenant person now,
          dc_activities = activities_by_course db tenant ids, dc_best = best_scores_for_person db tenant person (Some ids),
          dc_bundle = touch_bundle_of l tenant person ids, dc_chapters = chapters_by_course l tenant ids,
          dc_due = due_by_offering db tenant (map (\<lambda>x. of_id (ec_offering x)) pairs)\<rparr>)"

section \<open>Continue learning\<close>

definition latest_course :: "(uuid \<times> instant \<times> int) list \<Rightarrow> uuid list \<Rightarrow> (uuid \<times> instant) option" where
  "latest_course touches ids =
     fold (\<lambda>c held. case map_of touches c of
             None \<Rightarrow> held
           | Some (m, _) \<Rightarrow> (case held of None \<Rightarrow> Some (c, m) | Some (_, h) \<Rightarrow> if m > h then Some (c, m) else held)) ids None"

text \<open>The target in the shared context, and the stand-alone one.\<close>

definition continue_in_context :: "dashboard_context \<Rightarrow> (uuid \<times> chapter_row) option" where
  "continue_in_context ctx =
     (case latest_course (tb_last_touch (dc_bundle ctx)) (dc_course_ids ctx) of
        None \<Rightarrow> None
      | Some (c, _) \<Rightarrow>
          map_option (Pair c)
            (resume_from (group_of (dc_chapters ctx) c) (group_of (dc_activities ctx) c) (dc_best ctx)
               (tb_read_numbers (dc_bundle ctx) c) (map_of (tb_last_touch (dc_bundle ctx)) c)))"

definition continue_target :: "library \<Rightarrow> uuid \<Rightarrow> uuid \<Rightarrow> (uuid \<times> chapter_row) option" where
  "continue_target l tenant person =
     (let ids = map (\<lambda>x. co_id (ec_course x)) (entitled_courses (lib_db l) tenant person) in
      case latest_course (tb_last_touch (touch_bundle_of l tenant person ids)) ids of
        None \<Rightarrow> None
      | Some (c, _) \<Rightarrow> map_option (Pair c) (resume_chapter l tenant person c))"

section \<open>Course cards\<close>

definition STATES :: "string list" where
  "STATES = [''in_progress'', ''upcoming'', ''completed'', ''expired'', ''locked'']"

record course_card =
  kd_course :: course_row
  kd_state :: string
  kd_pct :: int
  kd_passed :: nat
  kd_total :: nat
  kd_grade_pct :: int
  kd_threshold_pct :: int
  kd_next_activity :: "activity_row option"
  kd_next_deadline :: "instant option"
  kd_starts_at :: "instant option"
  kd_last_read :: "(int \<times> string) option"
  kd_next_session :: "class_session_row option"
  kd_certificate :: "string option"
  kd_locked_reason :: "string option"
  kd_action :: "(string \<times> string) option"

definition state_locked :: "dashboard_context \<Rightarrow> uuid \<Rightarrow> bool" where
  "state_locked ctx course = (case map_of (dc_access ctx) course of None \<Rightarrow> False | Some st \<Rightarrow> as_locked st)"

definition has_completed :: "completion_row option \<Rightarrow> bool" where
  "has_completed r = (case r of None \<Rightarrow> False | Some c \<Rightarrow> cc_status c = ''completed'')"

definition card_state :: "dashboard_context \<Rightarrow> entitled \<Rightarrow> string" where
  "card_state ctx x =
     (let course = co_id (ec_course x) in
      if state_locked ctx course then ''locked''
      else if (case of_starts_at (ec_offering x) of None \<Rightarrow> False | Some t \<Rightarrow> t > dc_now ctx) then ''upcoming''
      else if has_completed (dc_completion ctx course) then ''completed''
      else if (case ec_ends x of None \<Rightarrow> False | Some t \<Rightarrow> t < dc_now ctx) then ''expired'' else ''in_progress'')"

definition least_time :: "instant list \<Rightarrow> instant option" where
  "least_time ts = (case ts of [] \<Rightarrow> None | t # us \<Rightarrow> Some (fold min us t))"

definition somes_of :: "'a option list \<Rightarrow> 'a list" where
  "somes_of xs = concat (map (\<lambda>x. case x of None \<Rightarrow> [] | Some y \<Rightarrow> [y]) xs)"

definition next_deadline_from :: "(uuid \<times> uuid \<times> instant option) list \<Rightarrow> instant option \<Rightarrow> instant \<Rightarrow> instant option" where
  "next_deadline_from due_rows ends now =
     least_time (filter (\<lambda>t. t > now) (somes_of (map (\<lambda>(_, _, due). due) due_rows))
                 @ (case ends of None \<Rightarrow> [] | Some t \<Rightarrow> if t > now then [t] else []))"

definition max_threshold :: "activity_row list \<Rightarrow> rat" where
  "max_threshold acts = (case map act_pass_threshold acts of [] \<Rightarrow> 0 | t # ts \<Rightarrow> fold max ts t)"

definition percent_of :: "nat \<Rightarrow> nat \<Rightarrow> int" where
  "percent_of k n = (if n = 0 then 0 else py_round (100 * of_nat k / of_nat n))"

definition card_action :: "library \<Rightarrow> dashboard_context \<Rightarrow> entitled \<Rightarrow> string \<Rightarrow> (string \<times> string) option" where
  "card_action l ctx x state =
     (let course = co_id (ec_course x); base = ''/courses/'' @ course_slug l course @ ''/chapters/'';
          touched = map_of (tb_last_touch (dc_bundle ctx)) course in
      if state = ''in_progress''
      then (case touched of
              None \<Rightarrow> Some (''Start'', base @ ''1'')
            | Some _ \<Rightarrow>
                let target = resume_from (group_of (dc_chapters ctx) course) (group_of (dc_activities ctx) course) (dc_best ctx)
                               (tb_read_numbers (dc_bundle ctx) course) touched
                in Some (''Resume'', base @ show_int (case target of None \<Rightarrow> 1 | Some h \<Rightarrow> cp_number h)))
      else if state = ''completed'' then Some (''Review feedback'', ''/progress#course-'' @ uuid_str course)
      else None)"

definition course_card_of :: "library \<Rightarrow> dashboard_context \<Rightarrow> entitled \<Rightarrow> course_card" where
  "course_card_of l ctx x =
     (let course = co_id (ec_course x); acts = group_of (dc_activities ctx) course; best = dc_best ctx;
          state = card_state ctx x; passed = length (filter (\<lambda>a. passed_in best (act_id a)) acts)
      in \<lparr>kd_course = ec_course x, kd_state = state, kd_pct = percent_of passed (length acts), kd_passed = passed,
          kd_total = length acts, kd_grade_pct = fst (grade_from acts best),
          kd_threshold_pct = py_round (max_threshold acts * 100),
          kd_next_activity = find (\<lambda>a. \<not> passed_in best (act_id a)) acts,
          kd_next_deadline = next_deadline_from (group_of (dc_due ctx) (of_id (ec_offering x))) (ec_ends x) (dc_now ctx),
          kd_starts_at = of_starts_at (ec_offering x), kd_last_read = tb_last_read (dc_bundle ctx) course,
          kd_next_session = dc_next_session ctx (of_cohort (ec_offering x)),
          kd_certificate = (if dc_certificate ctx course \<noteq> None then Some ''issued''
                            else if state = ''completed'' then Some ''eligible'' else None),
          kd_locked_reason = (case map_of (dc_access ctx) course of
                                None \<Rightarrow> None | Some st \<Rightarrow> if as_locked st then as_reason st else None),
          kd_action = card_action l ctx x state\<rparr>)"

definition cards_in :: "library \<Rightarrow> dashboard_context \<Rightarrow> course_card list" where
  "cards_in l ctx = map (course_card_of l ctx) (dc_pairs ctx)"

definition state_counts :: "course_card list \<Rightarrow> (string \<times> nat) list" where
  "state_counts cards = map (\<lambda>st. (st, count_rows (\<lambda>k. kd_state k = st) cards)) STATES"

definition course_cards :: "library \<Rightarrow> uuid \<Rightarrow> uuid \<Rightarrow> instant \<Rightarrow> course_card list \<times> (string \<times> nat) list" where
  "course_cards l tenant person now =
     (let cards = cards_in l (dashboard_context_of l tenant person now) in (cards, state_counts cards))"

definition learner_home ::
    "library \<Rightarrow> uuid \<Rightarrow> uuid \<Rightarrow> instant \<Rightarrow> course_card list \<times> (string \<times> nat) list \<times> (uuid \<times> chapter_row) option" where
  "learner_home l tenant person now =
     (let ctx = dashboard_context_of l tenant person now; cards = cards_in l ctx
      in (cards, state_counts cards, continue_in_context ctx))"

section \<open>The progress overview\<close>

definition trend_of :: "int list \<Rightarrow> string" where
  "trend_of points =
     (if length points < 3 then ''flat''
      else (let half = length points div 2;
                earlier = rat_of_int (sum_list (take half points)) / of_nat half;
                later = rat_of_int (sum_list (drop half points)) / of_nat (length points - half)
            in if later - earlier > 3 then ''up'' else if earlier - later > 3 then ''down'' else ''flat''))"

record progress_row =
  gr_activity :: activity_row
  gr_score :: "score_row option"
  gr_pct :: "int option"
  gr_passed :: bool
  gr_threshold_pct :: int
  gr_used :: int
  gr_max_attempts :: "int option"
  gr_left :: "int option"
  gr_granted :: int
  gr_feedback :: bool
  gr_due_at :: "instant option"
  gr_overdue :: bool

record course_progress =
  cg_course :: course_row
  cg_grade_pct :: int
  cg_completion_pct :: int
  cg_threshold_pct :: int
  cg_rows :: "progress_row list"
  cg_upcoming :: "progress_row list"
  cg_overdue :: "progress_row list"
  cg_trend_points :: "int list"
  cg_trend :: string
  cg_certificate :: "string option"
  cg_serial :: "string option"
  cg_href :: "string option"

definition progress_row_of ::
    "instant \<Rightarrow> offering_row \<Rightarrow> (uuid \<times> uuid \<times> instant option) list \<Rightarrow> (uuid \<times> score_row) list \<Rightarrow> (uuid \<times> nat) list \<Rightarrow>
     (uuid \<times> int) list \<Rightarrow> activity_row \<Rightarrow> progress_row" where
  "progress_row_of now o' due_rows best attempts grants a =
     (let score = map_of best (act_id a);
          used = int (case map_of attempts (act_id a) of None \<Rightarrow> 0 | Some n \<Rightarrow> n);
          ent = entitlement (act_max_attempts a) used (case map_of grants (act_id a) of None \<Rightarrow> 0 | Some n \<Rightarrow> n);
          paced = map_of (rev (map (\<lambda>(_, i, due). (i, due)) due_rows)) (act_id a);
          due = (case paced of Some (Some t) \<Rightarrow> Some t | _ \<Rightarrow> of_ends_at o');
          passed = (case score of None \<Rightarrow> False | Some s \<Rightarrow> sc_passed s)
      in \<lparr>gr_activity = a, gr_score = score, gr_pct = map_option (\<lambda>s. py_round (100 * sc_fraction s)) score, gr_passed = passed,
          gr_threshold_pct = py_round (act_pass_threshold a * 100), gr_used = used, gr_max_attempts = et_limit ent,
          gr_left = remaining ent, gr_granted = et_granted ent,
          gr_feedback = (case score of None \<Rightarrow> False | Some s \<Rightarrow> reveal_feedback a (sc_passed s) used (et_granted ent)),
          gr_due_at = due, gr_overdue = (case due of None \<Rightarrow> False | Some t \<Rightarrow> t < now \<and> \<not> passed)\<rparr>)"

definition trend_points :: "academy_db \<Rightarrow> uuid \<Rightarrow> uuid \<Rightarrow> uuid \<Rightarrow> int list" where
  "trend_points db tenant person course =
     map (\<lambda>sc. py_round (100 * sc_fraction sc))
       (sort_key sc_created_at
         [sc. sc \<leftarrow> scores db, s \<leftarrow> submissions db, a \<leftarrow> activities db,
            sub_id s = sc_submission sc \<and> sub_tenant s = sc_tenant sc \<and> act_id a = sub_activity s \<and> act_tenant a = sub_tenant s
            \<and> sc_tenant sc = tenant \<and> sub_person s = person \<and> act_course a = course])"

definition last_8 :: "'a list \<Rightarrow> 'a list" where
  "last_8 xs = drop (length xs - 8) xs"

definition course_progress_of ::
    "academy_db \<Rightarrow> uuid \<Rightarrow> uuid \<Rightarrow> instant \<Rightarrow> dashboard_context \<Rightarrow> entitled \<Rightarrow> course_progress" where
  "course_progress_of db tenant person now ctx x =
     (let course = co_id (ec_course x); acts = group_of (dc_activities ctx) course; best = dc_best ctx;
          completion = dc_completion ctx course; certificate = dc_certificate ctx course;
          rows = map (progress_row_of now (ec_offering x) (group_of (dc_due ctx) (of_id (ec_offering x))) best
                        (attempts_used_by_person db tenant person) (granted_by_activity db tenant person)) acts;
          points = last_8 (trend_points db tenant person course)
      in \<lparr>cg_course = ec_course x, cg_grade_pct = fst (grade_from acts best),
          cg_completion_pct = (case completion of None \<Rightarrow> 0 | Some c \<Rightarrow> py_round (100 * cc_pct c)),
          cg_threshold_pct = py_round (max_threshold acts * 100), cg_rows = rows,
          cg_upcoming = sort_key (\<lambda>r. case gr_due_at r of None \<Rightarrow> 0 | Some t \<Rightarrow> t)
            (filter (\<lambda>r. \<not> gr_overdue r \<and> (case gr_due_at r of None \<Rightarrow> False | Some t \<Rightarrow> t > now) \<and> \<not> gr_passed r) rows),
          cg_overdue = filter gr_overdue rows, cg_trend_points = points, cg_trend = trend_of points,
          cg_certificate = (if certificate \<noteq> None then Some ''issued'' else if has_completed completion then Some ''eligible'' else None),
          cg_serial = map_option ce_serial certificate,
          cg_href = (if has_completed completion then Some (''/certificates/'' @ uuid_str course) else None)\<rparr>)"

definition progress_overview :: "library \<Rightarrow> uuid \<Rightarrow> uuid \<Rightarrow> instant \<Rightarrow> course_progress list" where
  "progress_overview l tenant person now =
     (let ctx = dashboard_context_of l tenant person now
      in map (course_progress_of (lib_db l) tenant person now ctx) (dc_pairs ctx))"

end
