(* ===== verification/Html_Sanitizer.thy ===== *)
theory Html_Sanitizer
  imports Academy_Prelude
begin

text \<open>
  The rendering pipeline of the chapter editor (\<open>services/authoring.py\<close>): the sanitizer, a
  handler of the callbacks of \<open>html.parser\<close>, the media embeds, which rewrite the anchors of the
  sanitized text, and the parser that turns rendered text back into editor text. The Markdown
  renderer and the tokenizer that drives the callbacks are arguments.
\<close>

section \<open>Regular expression fragments\<close>

text \<open>A literal under \<open>re.IGNORECASE\<close> (the literals are ASCII and in lower case), and the maximal runs.\<close>

definition lit_prefix :: "string \<Rightarrow> string \<Rightarrow> bool" where
  "lit_prefix lit s = (map py_lower_char (take (length lit) s) = lit)"

definition after_lit :: "string \<Rightarrow> string \<Rightarrow> string option" where
  "after_lit lit s = (if lit_prefix lit s then Some (drop (length lit) s) else None)"

definition DQ :: char where "DQ = CHR 0x22"
definition NL :: char where "NL = CHR 0x0A"

text \<open>\<open>$\<close> matches at the end and before a last newline.\<close>

definition at_end :: "string \<Rightarrow> bool" where
  "at_end s = (s = [] \<or> s = [NL])"

definition code_in :: "nat \<Rightarrow> nat \<Rightarrow> char \<Rightarrow> bool" where
  "code_in a b c = (a \<le> (of_char c :: nat) \<and> (of_char c :: nat) \<le> b)"

definition is_id_char :: "char \<Rightarrow> bool" where
  "is_id_char c = (code_in 65 90 c \<or> code_in 97 122 c \<or> code_in 48 57 c \<or> c = CHR ''_'' \<or> c = CHR ''-'')"

text \<open>\<open>\w\<close> on the first 256 characters.\<close>

definition is_word_char :: "char \<Rightarrow> bool" where
  "is_word_char c = (code_in 65 90 c \<or> code_in 97 122 c \<or> code_in 48 57 c \<or> c = CHR ''_''
     \<or> (let n = of_char c :: nat in n \<in> {170, 178, 179, 181, 185, 186, 188, 189, 190} \<or> (192 \<le> n \<and> n \<noteq> 215 \<and> n \<noteq> 247)))"

section \<open>html.escape\<close>

definition esc_char :: "char \<Rightarrow> string" where
  "esc_char c = (if c = CHR ''&'' then ''&amp;'' else if c = CHR ''<'' then ''&lt;'' else if c = CHR ''>'' then ''&gt;'' else [c])"

definition esc_quote_char :: "char \<Rightarrow> string" where
  "esc_quote_char c = (if c = DQ then ''&quot;'' else if c = CHR 0x27 then ''&#x27;'' else esc_char c)"

text \<open>Without and with \<open>quote=True\<close>.\<close>

definition html_escape :: "string \<Rightarrow> string" where
  "html_escape s = concat (map esc_char s)"

definition html_escape_quote :: "string \<Rightarrow> string" where
  "html_escape_quote s = concat (map esc_quote_char s)"

section \<open>The sanitizer\<close>

definition SAFE_TAGS :: "string list" where
  "SAFE_TAGS = [''p'', ''div'', ''h1'', ''h2'', ''h3'', ''h4'', ''h5'', ''h6'', ''ul'', ''ol'', ''li'', ''blockquote'', ''pre'',
     ''code'', ''hr'', ''br'', ''em'', ''strong'', ''a'', ''img'', ''span'', ''del'', ''ins'', ''sub'', ''sup'', ''table'', ''thead'',
     ''tbody'', ''tfoot'', ''tr'', ''th'', ''td'', ''caption'', ''figure'', ''figcaption'']"

definition SAFE_ATTRS :: "string list" where
  "SAFE_ATTRS = [''class'', ''id'', ''href'', ''src'', ''alt'', ''title'', ''target'', ''rel'', ''colspan'', ''rowspan'', ''align'',
     ''valign'', ''width'', ''height'', ''start'', ''type'']"

definition VOID_TAGS :: "string list" where
  "VOID_TAGS = [''br'', ''hr'', ''img'']"

definition URL_ATTRS :: "string list" where
  "URL_ATTRS = [''href'', ''src'']"

definition SUPPRESS_TAGS :: "string list" where
  "SUPPRESS_TAGS = [''script'', ''style'', ''noscript'', ''iframe'', ''object'', ''embed'']"

definition is_control :: "char \<Rightarrow> bool" where
  "is_control c = (code_in 0 32 c \<or> code_in 127 159 c)"

definition unsafe_url :: "string \<Rightarrow> bool" where
  "unsafe_url url =
     (let normalized = filter (\<lambda>c. \<not> is_control c) url in
      list_ex (\<lambda>p. lit_prefix p normalized) [''javascript:'', ''vbscript:'', ''data:''])"

definition safe_url :: "string \<Rightarrow> string" where
  "safe_url url = (if unsafe_url url then ''#'' else url)"

datatype html_event =
    StartTag string "(string \<times> string option) list"
  | EndTag string
  | Data string
  | Comment string
  | Decl string

definition show_attr :: "string \<times> string \<Rightarrow> string" where
  "show_attr = (\<lambda>(n, v). '' '' @ n @ ''='' @ [DQ] @ html_escape_quote v @ [DQ])"

definition show_attrs :: "(string \<times> string) list \<Rightarrow> string" where
  "show_attrs as = concat (map show_attr as)"

definition start_text :: "string \<Rightarrow> (string \<times> string) list \<Rightarrow> string" where
  "start_text tag as = ''<'' @ tag @ show_attrs as @ ''>''"

definition end_text :: "string \<Rightarrow> string" where
  "end_text tag = ''</'' @ tag @ ''>''"

definition kept_attrs :: "(string \<times> string option) list \<Rightarrow> (string \<times> string) list" where
  "kept_attrs attrs =
     map (\<lambda>(name, value). (py_lower name, if py_lower name \<in> set URL_ATTRS then safe_url (or_empty value) else or_empty value))
       (filter (\<lambda>(name, _). \<not> (starts_with (py_lower name) ''on'' \<or> py_lower name \<notin> set SAFE_ATTRS)) attrs)"

text \<open>The output so far and the depth of the suppressed elements.\<close>

type_synonym sanitizer = "string \<times> nat"

fun handle_event :: "html_event \<Rightarrow> sanitizer \<Rightarrow> sanitizer" where
  "handle_event (StartTag tag attrs) (out, depth) =
     (if tag \<in> set SUPPRESS_TAGS then (out, depth + 1)
      else if depth > 0 \<or> tag \<notin> set SAFE_TAGS then (out, depth)
      else (out @ start_text tag (kept_attrs attrs), depth))"
| "handle_event (EndTag tag) (out, depth) =
     (if tag \<in> set SUPPRESS_TAGS then (out, depth - 1)
      else if depth > 0 \<or> tag \<notin> set SAFE_TAGS \<or> tag \<in> set VOID_TAGS then (out, depth)
      else (out @ end_text tag, depth))"
| "handle_event (Data d) (out, depth) = (if depth = 0 then (out @ html_escape d, depth) else (out, depth))"
| "handle_event (Comment d) st = st"
| "handle_event (Decl d) st = st"

definition sanitize_html :: "(string \<Rightarrow> html_event list) \<Rightarrow> string \<Rightarrow> string" where
  "sanitize_html parse raw = fst (fold handle_event (parse raw) ([], 0))"

section \<open>Media embeds\<close>

text \<open>\<open>(.*?)</a>\<close>: the text before the first closing anchor and the text after it.\<close>

fun until_close :: "string \<Rightarrow> (string \<times> string) option" where
  "until_close [] = None"
| "until_close (c # s) =
     (case after_lit ''</a>'' (c # s) of
        Some rest \<Rightarrow> Some ([], rest)
      | None \<Rightarrow> map_option (\<lambda>(inner, rest). (c # inner, rest)) (until_close s))"

text \<open>An anchor at the beginning of the text: its attributes, its inner text and what follows.\<close>

definition anchor_at :: "string \<Rightarrow> (string \<times> string \<times> string) option" where
  "anchor_at s =
     (case after_lit ''<a'' s of
        None \<Rightarrow> None
      | Some r \<Rightarrow>
          let attrs = takeWhile (\<lambda>c. c \<noteq> CHR ''>'') r; rest = dropWhile (\<lambda>c. c \<noteq> CHR ''>'') r
          in if rest = [] then None else map_option (Pair attrs) (until_close (tl rest)))"

text \<open>\<open>\bhref="([^"]*)"\<close>, searched from a position whose preceding character is known.\<close>

definition href_here :: "bool \<Rightarrow> string \<Rightarrow> string option" where
  "href_here boundary s =
     (if boundary then
        (case after_lit (''href='' @ [DQ]) s of
           None \<Rightarrow> None
         | Some r \<Rightarrow> if DQ \<in> set r then Some (takeWhile (\<lambda>c. c \<noteq> DQ) r) else None)
      else None)"

fun find_href :: "bool \<Rightarrow> string \<Rightarrow> string option" where
  "find_href boundary [] = None"
| "find_href boundary (c # s) =
     (case href_here boundary (c # s) of Some h \<Rightarrow> Some h | None \<Rightarrow> find_href (\<not> is_word_char c) s)"

definition after_scheme :: "string \<Rightarrow> string option" where
  "after_scheme s = (case after_lit ''https://'' s of Some r \<Rightarrow> Some r | None \<Rightarrow> after_lit ''http://'' s)"

definition skip_www :: "string \<Rightarrow> string list" where
  "skip_www s = (case after_lit ''www.'' s of Some r \<Rightarrow> [r, s] | None \<Rightarrow> [s])"

definition after_host :: "string \<Rightarrow> string \<Rightarrow> string option" where
  "after_host host s =
     (case after_scheme s of None \<Rightarrow> None | Some r \<Rightarrow> List.find (\<lambda>_. True) (List.map_filter (after_lit host) (skip_www r)))"

fun find_v_param :: "bool \<Rightarrow> string \<Rightarrow> string option" where
  "find_v_param start [] = None"
| "find_v_param start (c # s) =
     (let here = (\<lambda>lit. if starts_with (c # s) lit
                         then (case takeWhile is_id_char (drop (length lit) (c # s)) of [] \<Rightarrow> None | v \<Rightarrow> Some v) else None)
      in case (if start then here ''v='' else None) of
           Some v \<Rightarrow> Some v
         | None \<Rightarrow> (case here ''&amp;v='' of
             Some v \<Rightarrow> Some v
           | None \<Rightarrow> (case here ''&v='' of Some v \<Rightarrow> Some v | None \<Rightarrow> find_v_param False s)))"

definition iframe_text :: "string \<Rightarrow> string" where
  "iframe_text src = ''<div class='' @ [DQ] @ ''embed-responsive'' @ [DQ] @ ''><iframe src='' @ [DQ] @ src @ [DQ]
     @ '' frameborder='' @ [DQ] @ ''0'' @ [DQ] @ '' allowfullscreen></iframe></div>''"

definition YT_EMBED :: string where "YT_EMBED = ''https://www.youtube.com/embed/''"
definition VIMEO_PLAYER :: string where "VIMEO_PLAYER = ''https://player.vimeo.com/video/''"

definition youtube_short :: "string \<Rightarrow> string option" where
  "youtube_short href =
     (case after_scheme href of
        None \<Rightarrow> None
      | Some r \<Rightarrow> (case after_lit ''youtu.be/'' r of
           None \<Rightarrow> None
         | Some v \<Rightarrow> if takeWhile is_id_char v = [] then None else Some (takeWhile is_id_char v)))"

text \<open>\<open>(.+)$\<close>: a line, and nothing or a last newline after it.\<close>

definition youtube_watch :: "string \<Rightarrow> string option" where
  "youtube_watch href =
     (case after_host ''youtube.com/watch?'' href of
        None \<Rightarrow> None
      | Some r \<Rightarrow>
          let line = takeWhile (\<lambda>c. c \<noteq> NL) r
          in if line \<noteq> [] \<and> at_end (drop (length line) r) then Some line else None)"

definition youtube_embed :: "string \<Rightarrow> string option" where
  "youtube_embed href =
     (case youtube_short href of
        Some v \<Rightarrow> Some (iframe_text (YT_EMBED @ html_escape_quote v))
      | None \<Rightarrow> (case youtube_watch href of
           None \<Rightarrow> None
         | Some query \<Rightarrow>
             map_option (\<lambda>v. iframe_text (YT_EMBED @ html_escape_quote v)) (find_v_param True query)))"

definition vimeo_embed :: "string \<Rightarrow> string option" where
  "vimeo_embed href =
     (case after_host ''vimeo.com/'' href of
        None \<Rightarrow> None
      | Some r \<Rightarrow>
          let v = takeWhile (code_in 48 57) r; after = drop (length v) r
          in if v \<noteq> [] \<and> ((after \<noteq> [] \<and> hd after \<in> set ''/?#'') \<or> at_end after)
             then Some (iframe_text (VIMEO_PLAYER @ html_escape_quote v)) else None)"

definition ext_here :: "string list \<Rightarrow> string \<Rightarrow> bool" where
  "ext_here exts s =
     list_ex (\<lambda>e. case after_lit (''.'' @ e) s of None \<Rightarrow> False | Some r \<Rightarrow> (r \<noteq> [] \<and> hd r \<in> set ''?#'') \<or> at_end r) exts"

fun search_ext :: "string list \<Rightarrow> string \<Rightarrow> bool" where
  "search_ext exts [] = False"
| "search_ext exts (c # s) = (ext_here exts (c # s) \<or> search_ext exts s)"

definition VIDEO_EXTS :: "string list" where "VIDEO_EXTS = [''mp4'', ''webm'', ''ogg'']"
definition DOC_EXTS :: "string list" where "DOC_EXTS = [''pdf'', ''zip'', ''csv'', ''pcap'']"

definition href_path_of :: "string \<Rightarrow> string" where
  "href_path_of href = takeWhile (\<lambda>c. c \<noteq> CHR ''#'') (takeWhile (\<lambda>c. c \<noteq> CHR ''?'') href)"

definition video_text :: "string \<Rightarrow> string" where
  "video_text href = ''<video controls src='' @ [DQ] @ href @ [DQ] @ ''></video>''"

definition download_text :: "string \<Rightarrow> string \<Rightarrow> string" where
  "download_text href inner = ''<a href='' @ [DQ] @ href @ [DQ] @ '' class='' @ [DQ] @ ''download-link'' @ [DQ] @ ''>'' @ inner @ ''</a>''"

definition replace_anchor :: "string \<Rightarrow> string \<Rightarrow> string \<Rightarrow> string" where
  "replace_anchor whole attrs inner =
     (case find_href True attrs of
        None \<Rightarrow> whole
      | Some href \<Rightarrow>
          (case youtube_embed href of
             Some e \<Rightarrow> e
           | None \<Rightarrow> (case vimeo_embed href of
               Some e \<Rightarrow> e
             | None \<Rightarrow>
                 if search_ext VIDEO_EXTS (href_path_of href) then video_text href
                 else if search_ext DOC_EXTS (href_path_of href) then download_text href inner
                 else whole)))"

lemma until_close_length: "until_close s = Some (inner, rest) \<Longrightarrow> length inner + length rest < length s"
  by (induction s arbitrary: inner) (auto simp: after_lit_def lit_prefix_def split: option.splits if_splits)

lemma anchor_at_length: "anchor_at s = Some (attrs, inner, rest) \<Longrightarrow> length rest < length s"
proof -
  assume s: "anchor_at s = Some (attrs, inner, rest)"
  let ?r = "drop (Suc (Suc 0)) s"
  from s have "until_close (tl (dropWhile (\<lambda>c. c \<noteq> CHR ''>'') ?r)) = Some (inner, rest)"
    by (auto simp: anchor_at_def after_lit_def Let_def split: if_splits)
  from until_close_length [OF this] have "length rest < length (dropWhile (\<lambda>c. c \<noteq> CHR ''>'') ?r)" by simp
  also have "\<dots> \<le> length ?r" by (rule length_dropWhile_le)
  also have "\<dots> \<le> length s" by simp
  finally show ?thesis .
qed

text \<open>\<open>_ANCHOR_RE.sub\<close>, from the left.\<close>

function embed_media :: "string \<Rightarrow> string" where
  "embed_media [] = []"
| "embed_media (c # s) =
     (case anchor_at (c # s) of
        None \<Rightarrow> c # embed_media s
      | Some (attrs, inner, rest) \<Rightarrow>
          replace_anchor (take (length (c # s) - length rest) (c # s)) attrs inner @ embed_media rest)"
  by pat_completeness auto
termination
  by (relation "measure length") (auto dest: anchor_at_length)

definition render_markdown :: "(string \<Rightarrow> string) \<Rightarrow> (string \<Rightarrow> html_event list) \<Rightarrow> string \<Rightarrow> string" where
  "render_markdown markdown parse body = embed_media (sanitize_html parse (markdown body))"

section \<open>Editor text\<close>

definition BLOCK_TAGS :: "string list" where
  "BLOCK_TAGS = [''address'', ''article'', ''aside'', ''blockquote'', ''div'', ''figcaption'', ''figure'', ''footer'', ''h1'', ''h2'',
     ''h3'', ''h4'', ''h5'', ''h6'', ''header'', ''li'', ''main'', ''nav'', ''ol'', ''p'', ''pre'', ''section'', ''table'', ''tbody'', ''td'',
     ''tfoot'', ''th'', ''thead'', ''tr'', ''ul'']"

definition py_rstrip :: "string \<Rightarrow> string" where
  "py_rstrip s = rev (dropWhile py_isspace (rev s))"

text \<open>The parts are kept joined.\<close>

definition block_break :: "string \<Rightarrow> string" where
  "block_break parts = (let t = py_rstrip parts in if t = [] then [] else t @ [NL, NL])"

fun editor_event :: "html_event \<Rightarrow> string \<Rightarrow> string" where
  "editor_event (StartTag tag attrs) parts =
     (if tag = ''br'' then parts @ [NL]
      else if tag = ''li'' then block_break parts @ ''- ''
      else if tag \<in> set BLOCK_TAGS then block_break parts else parts)"
| "editor_event (EndTag tag) parts = (if tag \<in> set BLOCK_TAGS then block_break parts else parts)"
| "editor_event (Data d) parts = parts @ d"
| "editor_event (Comment d) parts = parts"
| "editor_event (Decl d) parts = parts"

text \<open>\<open>str.splitlines\<close>: the line boundaries of the first 256 characters.\<close>

definition is_line_break :: "char \<Rightarrow> bool" where
  "is_line_break c = ((of_char c :: nat) \<in> {10, 11, 12, 13, 28, 29, 30, 133})"

fun lines_from :: "string \<Rightarrow> string \<Rightarrow> string list" where
  "lines_from acc [] = (if acc = [] then [] else [rev acc])"
| "lines_from acc (c # s) =
     (if c = CHR 0x0D then (case s of d # t \<Rightarrow> if d = NL then rev acc # lines_from [] t else rev acc # lines_from [] s | [] \<Rightarrow> [rev acc])
      else if is_line_break c then rev acc # lines_from [] s
      else lines_from (c # acc) s)"

definition py_splitlines :: "string \<Rightarrow> string list" where
  "py_splitlines s = lines_from [] s"

definition is_blank_char :: "char \<Rightarrow> bool" where
  "is_blank_char c = (c = CHR '' '' \<or> c = CHR 0x09)"

text \<open>\<open>re.sub(r"[ \t]+", " ", line)\<close>; the flag tells that the last character was blank.\<close>

fun squeeze_blanks :: "bool \<Rightarrow> string \<Rightarrow> string" where
  "squeeze_blanks blank [] = []"
| "squeeze_blanks blank (c # s) =
     (if is_blank_char c then (if blank then squeeze_blanks True s else CHR '' '' # squeeze_blanks True s)
      else c # squeeze_blanks False s)"

fun collapse_lines :: "bool \<Rightarrow> string list \<Rightarrow> string list \<Rightarrow> string list" where
  "collapse_lines blank out [] = out"
| "collapse_lines blank out (l # ls) =
     (if l \<noteq> [] then collapse_lines False (out @ [l]) ls
      else if \<not> blank \<and> out \<noteq> [] then collapse_lines True (out @ [[]]) ls
      else collapse_lines blank out ls)"

fun join_lines :: "string list \<Rightarrow> string" where
  "join_lines [] = []"
| "join_lines [l] = l"
| "join_lines (l # ls) = l @ NL # join_lines ls"

definition editor_text :: "html_event list \<Rightarrow> string" where
  "editor_text events =
     (let lines = map (\<lambda>l. py_strip (squeeze_blanks False l)) (py_splitlines (fold editor_event events []))
      in py_strip (join_lines (collapse_lines False [] lines)))"

definition editable_chapter_source :: "(string \<Rightarrow> html_event list) \<Rightarrow> string \<Rightarrow> string \<Rightarrow> string" where
  "editable_chapter_source parse body_md body_html =
     (if py_strip body_md \<noteq> [] then body_md else editor_text (parse body_html))"

end
