(* ===== verification/Html_Safety.thy ===== *)
theory Html_Safety
  imports Html_Sanitizer
begin

text \<open>
  What the rendering pipeline promises: the text it returns is in a small grammar of safe HTML, for
  every Markdown renderer, every tokenizer and every chapter source.
\<close>

section \<open>The grammars\<close>

definition plain :: "char \<Rightarrow> bool" where
  "plain c = (c \<noteq> CHR ''<'' \<and> c \<noteq> CHR ''>'')"

definition attr_ok :: "string \<times> string \<Rightarrow> bool" where
  "attr_ok = (\<lambda>(n, v). n \<in> set SAFE_ATTRS \<and> (n \<in> set URL_ATTRS \<longrightarrow> \<not> unsafe_url v))"

text \<open>The sanitized text: plain characters and the tags of the safe set with safe attributes.\<close>

inductive clean_html :: "string \<Rightarrow> bool" where
  clean_end: "clean_html []"
| clean_text: "plain c \<Longrightarrow> clean_html s \<Longrightarrow> clean_html (c # s)"
| clean_open: "tag \<in> set SAFE_TAGS \<Longrightarrow> \<forall>x \<in> set as. attr_ok x \<Longrightarrow> clean_html s \<Longrightarrow> clean_html (start_text tag as @ s)"
| clean_close: "tag \<in> set SAFE_TAGS \<Longrightarrow> clean_html s \<Longrightarrow> clean_html (end_text tag @ s)"

text \<open>The rendered text may also hold the three embeds.\<close>

inductive safe_html :: "string \<Rightarrow> bool" where
  safe_end: "safe_html []"
| safe_text: "plain c \<Longrightarrow> safe_html s \<Longrightarrow> safe_html (c # s)"
| safe_open: "tag \<in> set SAFE_TAGS \<Longrightarrow> \<forall>x \<in> set as. attr_ok x \<Longrightarrow> safe_html s \<Longrightarrow> safe_html (start_text tag as @ s)"
| safe_close: "tag \<in> set SAFE_TAGS \<Longrightarrow> safe_html s \<Longrightarrow> safe_html (end_text tag @ s)"
| safe_video: "\<not> unsafe_url u \<Longrightarrow> safe_html s \<Longrightarrow> safe_html (video_text (html_escape_quote u) @ s)"
| safe_frame: "host \<in> {YT_EMBED, VIMEO_PLAYER} \<Longrightarrow> \<forall>c \<in> set v. is_id_char c \<Longrightarrow> v \<noteq> [] \<Longrightarrow>
     safe_html s \<Longrightarrow> safe_html (iframe_text (host @ v) @ s)"

lemma clean_append: "clean_html x \<Longrightarrow> clean_html y \<Longrightarrow> clean_html (x @ y)"
  by (induction rule: clean_html.induct) (auto intro: clean_html.intros)

lemma safe_append: "safe_html x \<Longrightarrow> safe_html y \<Longrightarrow> safe_html (x @ y)"
  by (induction rule: safe_html.induct) (auto intro: safe_html.intros)

lemma clean_safe: "clean_html s \<Longrightarrow> safe_html s"
  by (induction rule: clean_html.induct) (auto intro: safe_html.intros)

section \<open>Sanitizing\<close>

lemma clean_plain: "\<forall>c \<in> set s. plain c \<Longrightarrow> clean_html s"
  by (induction s) (auto intro: clean_html.intros)

lemma escaped_plain: "c \<in> set (html_escape s) \<Longrightarrow> plain c" "c \<in> set (html_escape_quote s) \<Longrightarrow> plain c \<and> c \<noteq> DQ"
  by (auto simp: html_escape_def html_escape_quote_def esc_char_def esc_quote_char_def plain_def DQ_def split: if_splits)

lemma kept_attrs_ok: "\<forall>x \<in> set (kept_attrs attrs). attr_ok x"
proof -
  have "\<not> unsafe_url (safe_url v)" for v
  proof -
    have "\<not> unsafe_url ''#''" by code_simp
    then show ?thesis by (simp add: safe_url_def)
  qed
  then show ?thesis by (auto simp: kept_attrs_def attr_ok_def)
qed

lemma handle_event_clean:
  assumes "clean_html (fst st)"
  shows "clean_html (fst (handle_event e st))"
proof -
  obtain out depth where st: "st = (out, depth)" by (cases st)
  have "clean_html (start_text tag (kept_attrs attrs))" if "tag \<in> set SAFE_TAGS" for tag attrs
    using clean_open [OF that kept_attrs_ok clean_end] by simp
  moreover have "clean_html (end_text tag)" if "tag \<in> set SAFE_TAGS" for tag
    using clean_close [OF that clean_end] by simp
  moreover have "clean_html (html_escape d)" for d using escaped_plain(1) by (blast intro: clean_plain)
  ultimately show ?thesis using assms by (cases e) (auto simp: st intro: clean_append)
qed

lemma sanitized_is_clean: "clean_html (sanitize_html parse raw)"
proof -
  have "clean_html (fst (fold handle_event es st))" if "clean_html (fst st)" for es st
    using that by (induction es arbitrary: st) (simp_all add: handle_event_clean)
  then show ?thesis by (simp add: sanitize_html_def clean_end)
qed

section \<open>The shape of sanitized text\<close>

lemma lower_letter:
  assumes "py_lower_char c = d" "of_char d < (97::nat)"
  shows "c = d"
proof (rule ccontr)
  assume "c \<noteq> d"
  then have n: "65 \<le> (of_char c :: nat)" "(of_char c :: nat) \<le> 90" "d = char_of ((of_char c :: nat) + 32)"
    using assms(1) by (auto simp: py_lower_char_def Let_def split: if_splits)
  then have "(of_char d :: nat) = of_char c + 32" by (simp add: of_char_of)
  then show False using n(1) assms(2) by simp
qed

lemma names_plain:
  "tag \<in> set SAFE_TAGS \<Longrightarrow> tag \<noteq> [] \<and> (\<forall>c \<in> set tag. plain c \<and> c \<noteq> CHR ''/'')"
  "n \<in> set SAFE_ATTRS \<Longrightarrow> \<forall>c \<in> set n. plain c \<and> c \<noteq> DQ"
  by (auto simp: SAFE_TAGS_def SAFE_ATTRS_def plain_def DQ_def)

lemma show_attrs_plain: "\<forall>x \<in> set as. attr_ok x \<Longrightarrow> c \<in> set (show_attrs as) \<Longrightarrow> plain c"
  using names_plain(2) escaped_plain(2) by (fastforce simp: show_attrs_def show_attr_def attr_ok_def plain_def DQ_def)

text \<open>An opening bracket begins a tag, so the text splits there.\<close>

lemma prefix_split: "d \<notin> set p \<Longrightarrow> p @ s = x @ d # y \<Longrightarrow> \<exists>x'. x = p @ x' \<and> s = x' @ d # y"
  by (auto simp: append_eq_append_conv2 append_eq_Cons_conv Cons_eq_append_conv)

lemma tag_text:
  assumes "tag \<in> set SAFE_TAGS" "\<forall>x \<in> set as. attr_ok x"
  shows "start_text tag as = CHR ''<'' # tl (start_text tag as)" "CHR ''<'' \<notin> set (tl (start_text tag as))"
    "end_text tag = CHR ''<'' # tl (end_text tag)" "CHR ''<'' \<notin> set (tl (end_text tag))"
  using names_plain(1) [OF assms(1)] show_attrs_plain [OF assms(2)] by (auto simp: start_text_def end_text_def plain_def)

lemma clean_split: "clean_html s \<Longrightarrow> s = x @ CHR ''<'' # y \<Longrightarrow> clean_html x \<and> clean_html (CHR ''<'' # y)"
proof (induction arbitrary: x rule: clean_html.induct)
  case (clean_text c s)
  then show ?case by (cases x) (auto simp: plain_def intro: clean_html.intros)
next
  case (clean_open tag as s)
  note t = tag_text(1,2) [OF clean_open.hyps(1,2)]
  show ?case
  proof (cases x)
    case Nil
    show ?thesis using clean_html.clean_open [OF clean_open.hyps] unfolding clean_open.prems [unfolded Nil append_Nil]
      by (simp add: Nil clean_end)
  next
    case (Cons c x')
    then have "tl (start_text tag as) @ s = x' @ CHR ''<'' # y" using clean_open.prems t(1) by (metis append_Cons list.inject)
    then obtain x2 where x2: "x' = tl (start_text tag as) @ x2" "s = x2 @ CHR ''<'' # y" using prefix_split t(2) by metis
    have "x = start_text tag as @ x2" using Cons x2(1) t(1) clean_open.prems by (metis append_Cons list.inject)
    then show ?thesis using clean_open.IH [OF x2(2)] clean_html.clean_open [OF clean_open.hyps(1,2)] by simp
  qed
next
  case (clean_close tag s)
  note t = tag_text(3,4) [of tag "[]", OF clean_close.hyps(1), simplified]
  show ?case
  proof (cases x)
    case Nil
    show ?thesis using clean_html.clean_close [OF clean_close.hyps] unfolding clean_close.prems [unfolded Nil append_Nil]
      by (simp add: Nil clean_end)
  next
    case (Cons c x')
    then have "tl (end_text tag) @ s = x' @ CHR ''<'' # y" using clean_close.prems t(1) by (metis append_Cons list.inject)
    then obtain x2 where x2: "x' = tl (end_text tag) @ x2" "s = x2 @ CHR ''<'' # y" using prefix_split t(2) by metis
    have "x = end_text tag @ x2" using Cons x2(1) t(1) clean_close.prems by (metis append_Cons list.inject)
    then show ?thesis using clean_close.IH [OF x2(2)] clean_html.clean_close [OF clean_close.hyps(1)] by simp
  qed
qed simp

inductive_cases clean_bracket: "clean_html (CHR ''<'' # s)"

lemma clean_tag:
  assumes "clean_html (CHR ''<'' # s)"
  obtains (Open) tag as s' where "tag \<in> set SAFE_TAGS" "\<forall>x \<in> set as. attr_ok x" "clean_html s'" "s = tag @ show_attrs as @ CHR ''>'' # s'"
    | (Close) tag s' where "tag \<in> set SAFE_TAGS" "clean_html s'" "s = CHR ''/'' # tag @ CHR ''>'' # s'"
  using assms by (rule clean_bracket) (auto simp: plain_def start_text_def end_text_def)

lemma anchor_tag: "tag \<in> set SAFE_TAGS \<Longrightarrow> py_lower_char (hd tag) = CHR ''a'' \<Longrightarrow> tag = ''a''"
proof -
  have "list_all (\<lambda>tag. py_lower_char (hd tag) = CHR ''a'' \<longrightarrow> tag = ''a'') SAFE_TAGS" by code_simp
  then show "tag \<in> set SAFE_TAGS \<Longrightarrow> py_lower_char (hd tag) = CHR ''a'' \<Longrightarrow> tag = ''a''" by (auto simp: list_all_iff)
qed

lemma until_close_split:
  "until_close s = Some (inner, rest) \<Longrightarrow> \<exists>z. s = inner @ z @ rest \<and> map py_lower_char z = ''</a>''"
proof (induction s arbitrary: inner)
  case (Cons c s)
  show ?case
  proof (cases "lit_prefix ''</a>'' (c # s)")
    case True
    then have "inner = []" "rest = drop 4 (c # s)" "map py_lower_char (take 4 (c # s)) = ''</a>''"
      using Cons.prems by (simp_all add: after_lit_def lit_prefix_def eval_nat_numeral)
    then show ?thesis by (metis append_Nil append_take_drop_id)
  next
    case False
    then obtain i where "until_close s = Some (i, rest)" "inner = c # i"
      using Cons.prems by (auto simp: after_lit_def)
    with Cons.IH [of i] show ?thesis by auto
  qed
qed simp

lemma close_anchor:
  assumes "clean_html (CHR ''<'' # CHR ''/'' # z # CHR ''>'' # rest)" "py_lower_char z = CHR ''a''"
  shows "clean_html rest \<and> z = CHR ''a''"
  using assms(1)
proof (cases rule: clean_tag)
  case (Open tag bs t)
  then have "hd tag = CHR ''/''" "tag \<noteq> []" using names_plain(1) [OF Open(1)] by (metis hd_append2 list.sel(1), blast)
  then have "CHR ''/'' \<in> set tag" by (metis hd_in_set)
  then show ?thesis using names_plain(1) [OF Open(1)] by blast
next
  case (Close tag t)
  then have z: "z # CHR ''>'' # rest = tag @ CHR ''>'' # t" by simp
  have "hd tag = z" using arg_cong [OF z, of hd] names_plain(1) [OF Close(1)] by simp
  then have "tag = ''a''" using anchor_tag [OF Close(1)] assms(2) by simp
  then show ?thesis using z Close(2) by simp
qed

lemma anchor_shape:
  assumes "clean_html s" "anchor_at s = Some (attrs, inner, rest)"
  shows "\<exists>as. attrs = show_attrs as \<and> (\<forall>x \<in> set as. attr_ok x) \<and> clean_html inner \<and> clean_html rest
     \<and> s = start_text ''a'' as @ inner @ end_text ''a'' @ rest"
proof -
  from assms(2) obtain c1 c2 r where s: "s = c1 # c2 # r" "py_lower_char c1 = CHR ''<''" "py_lower_char c2 = CHR ''a''"
    by (cases s; cases "tl s") (auto simp: anchor_at_def after_lit_def lit_prefix_def split: if_splits)
  have c1: "c1 = CHR ''<''" using lower_letter [OF s(2)] by simp
  from assms(2) have r: "attrs = takeWhile (\<lambda>c. c \<noteq> CHR ''>'') r" "until_close (tl (dropWhile (\<lambda>c. c \<noteq> CHR ''>'') r)) = Some (inner, rest)"
    by (auto simp: anchor_at_def after_lit_def Let_def s(1) split: if_splits)
  from assms(1) have "clean_html (CHR ''<'' # c2 # r)" by (simp add: s(1) c1)
  then show ?thesis
  proof (cases rule: clean_tag)
    case (Open tag as s')
    have "tag = ''a''" using anchor_tag [OF Open(1)] Open(4) s(3) names_plain(1) [OF Open(1)] by (cases tag) auto
    then have r2: "r = show_attrs as @ CHR ''>'' # s'" using Open(4) by simp
    have noGT: "CHR ''>'' \<notin> set (show_attrs as)" using show_attrs_plain [OF Open(2)] by (auto simp: plain_def)
    have "takeWhile (\<lambda>c. c \<noteq> CHR ''>'') r = show_attrs as"
      unfolding r2 using noGT by (subst takeWhile_append2) auto
    then have attrs: "attrs = show_attrs as" using r(1) by simp
    have "dropWhile (\<lambda>c. c \<noteq> CHR ''>'') r = CHR ''>'' # s'"
      unfolding r2 using noGT by (subst dropWhile_append2) auto
    with r(2) have u: "until_close s' = Some (inner, rest)" by (simp only: list.sel)
    obtain z where z: "s' = inner @ z @ rest" "map py_lower_char z = ''</a>''"
      using until_close_split [OF u] by (elim exE conjE)
    then obtain z1 z2 z3 z4 where zs: "z = [z1, z2, z3, z4]" "py_lower_char z1 = CHR ''<''" "py_lower_char z2 = CHR ''/''"
        "py_lower_char z3 = CHR ''a''" "py_lower_char z4 = CHR ''>''"
      by (auto simp: map_eq_Cons_conv)
    have z124: "z1 = CHR ''<''" "z2 = CHR ''/''" "z4 = CHR ''>''"
      using lower_letter [OF zs(2)] lower_letter [OF zs(3)] lower_letter [OF zs(5)] by simp_all
    have "s' = inner @ CHR ''<'' # [z2, z3, z4] @ rest" using z(1) zs(1) z124 by simp
    from clean_split [OF Open(3) this] have inner: "clean_html inner" and "clean_html (CHR ''<'' # CHR ''/'' # z3 # CHR ''>'' # rest)"
      using z124 by simp_all
    from close_anchor [OF this(2) zs(4)] have "clean_html rest \<and> z3 = CHR ''a''" .
    then show ?thesis using attrs inner Open(2) z(1) zs(1) z124 s(1) c1 \<open>tag = ''a''\<close> r2 Open(4)
      by (intro exI [of _ as]) (simp add: start_text_def end_text_def)
  next
    case (Close tag s')
    then show ?thesis using s(3) by (simp add: py_lower_char_def)
  qed
qed

section \<open>The link of an anchor\<close>

lemma after_lit_split: "after_lit lit s = Some t \<Longrightarrow> \<exists>w. s = w @ t \<and> map py_lower_char w = lit"
  by (intro exI [of _ "take (length lit) s"]) (auto simp: after_lit_def lit_prefix_def split: if_splits)

lemma suffix_after: "p @ z = w @ d # a \<Longrightarrow> d \<notin> set z \<Longrightarrow> \<exists>q. a = q @ z"
  by (auto simp: append_eq_append_conv2 append_eq_Cons_conv Cons_eq_append_conv)

lemma find_href_shape:
  "find_href b s = Some h \<Longrightarrow> \<exists>p z r. s = p @ z @ DQ # h @ DQ # r \<and> map py_lower_char z = ''href='' \<and> DQ \<notin> set h"
proof (induction s arbitrary: b)
  case (Cons c s)
  show ?case
  proof (cases "href_here b (c # s)")
    case None
    then have "find_href (\<not> is_word_char c) s = Some h" using Cons.prems by simp
    from Cons.IH [OF this] obtain p z r where "s = p @ z @ DQ # h @ DQ # r" "map py_lower_char z = ''href=''" "DQ \<notin> set h"
      by (elim exE conjE)
    then show ?thesis by (intro exI [of _ "c # p"] exI [of _ z] exI [of _ r]) simp
  next
    case (Some h')
    then have h: "h' = h" using Cons.prems by simp
    from Some obtain t where t: "after_lit (''href='' @ [DQ]) (c # s) = Some t" "DQ \<in> set t" "h = takeWhile (\<lambda>c. c \<noteq> DQ) t"
      by (auto simp: href_here_def h split: if_splits option.splits)
    from after_lit_split [OF t(1)] obtain w where w: "c # s = w @ t" "map py_lower_char w = ''href='' @ [DQ]" by (elim exE conjE)
    from w(2) obtain z v where v: "w = z @ v" "map py_lower_char z = ''href=''" "map py_lower_char v = [DQ]"
      unfolding map_eq_append_conv by (elim exE conjE) metis
    from v(3) obtain d where "v = [d]" "py_lower_char d = DQ" by (auto simp: map_eq_Cons_conv)
    with v have z: "w = z @ [d]" "map py_lower_char z = ''href=''" "py_lower_char d = DQ" by simp_all
    have "d = DQ" using lower_letter [OF z(3)] by (simp add: DQ_def)
    then have "c # s = z @ DQ # t" using w(1) z(1) by simp
    moreover obtain r where "t = h @ DQ # r"
    proof -
      obtain ys r where "t = ys @ DQ # r" "DQ \<notin> set ys" using split_list_first [OF t(2)] by (elim exE conjE)
      moreover from this have "h = ys" unfolding t(3) by (simp add: takeWhile_tail) (metis takeWhile_eq_all_conv)
      ultimately show thesis using that by simp
    qed
    moreover have "DQ \<notin> set h" using t(3) by (auto dest: set_takeWhileD)
    ultimately show ?thesis using z(2) by (intro exI [of _ "[]"] exI [of _ z] exI [of _ r]) simp
  qed
qed simp

lemma split_first:
  assumes "x @ d # y = a @ d # b" "d \<notin> set x"
  obtains "x = a" "y = b" | a' where "a = x @ d # a'" "y = a' @ d # b"
  using assms by (auto simp: append_eq_append_conv2 append_eq_Cons_conv Cons_eq_append_conv)

lemma href_name: "n \<in> set SAFE_ATTRS \<Longrightarrow> '' '' @ n @ ''='' = p @ z \<Longrightarrow> map py_lower_char z = ''href='' \<Longrightarrow> n = ''href''"
proof -
  have all: "list_all (\<lambda>n. map py_lower_char (drop (Suc (length n) - 4) ('' '' @ n @ ''='')) = ''href='' \<longrightarrow> n = ''href'') SAFE_ATTRS"
    by code_simp
  assume n: "n \<in> set SAFE_ATTRS" "'' '' @ n @ ''='' = p @ z" "map py_lower_char z = ''href=''"
  have "length z = 5" using arg_cong [OF n(3), of length] by simp
  moreover have "length ('' '' @ n @ ''='') = length p + length z" unfolding n(2) by simp
  ultimately have "length p = Suc (length n) - 4" by simp
  then have "z = drop (Suc (length n) - 4) ('' '' @ n @ ''='')" unfolding n(2) by simp
  with all n(1,3) show ?thesis by (auto simp: list_all_iff)
qed

text \<open>What the pattern captures is the value of the link, or the text between two attributes.\<close>

definition captured_ok :: "string \<Rightarrow> bool" where
  "captured_ok h = ((\<exists>u. h = html_escape_quote u \<and> \<not> unsafe_url u) \<or> (\<exists>n \<in> set SAFE_ATTRS. h = '' '' @ n @ ''=''))"

lemma captured:
  "\<forall>x \<in> set as. attr_ok x \<Longrightarrow> show_attrs as = p @ z @ DQ # h @ DQ # r \<Longrightarrow> map py_lower_char z = ''href='' \<Longrightarrow> DQ \<notin> set h \<Longrightarrow> captured_ok h"
proof (induction as arbitrary: p)
  case (Cons a as)
  obtain n v where a: "a = (n, v)" by (cases a)
  have ok: "n \<in> set SAFE_ATTRS" "n \<in> set URL_ATTRS \<Longrightarrow> \<not> unsafe_url v" using Cons.prems(1) by (auto simp: a attr_ok_def)
  have no: "DQ \<notin> set ('' '' @ n @ ''='')" "DQ \<notin> set (html_escape_quote v)"
    using names_plain(2) [OF ok(1)] escaped_plain(2) by (auto simp: DQ_def)
  have zDQ: "DQ \<notin> set z"
  proof
    assume "DQ \<in> set z"
    then have "py_lower_char DQ \<in> set (map py_lower_char z)" by simp
    then show False unfolding Cons.prems(3) by (simp add: DQ_def py_lower_char_def)
  qed
  have shown: "('' '' @ n @ ''='') @ DQ # html_escape_quote v @ DQ # show_attrs as = (p @ z) @ DQ # h @ DQ # r"
    using Cons.prems(2) by (simp add: a show_attrs_def show_attr_def)
  from shown no(1) show ?case
  proof (cases rule: split_first)
    case 1
    then have "n = ''href''" using href_name [OF ok(1) 1(1) Cons.prems(3)] by simp
    moreover have "h = html_escape_quote v" using 1(2) no(2) Cons.prems(4) by (cases rule: split_first) auto
    ultimately show ?thesis using ok(2) by (auto simp: captured_ok_def URL_ATTRS_def)
  next
    case (2 a')
    from 2(2) no(2) show ?thesis
    proof (cases rule: split_first)
      case 1
      then obtain b bs where as: "as = b # bs" by (cases as) (auto simp: show_attrs_def)
      obtain n2 v2 where b: "b = (n2, v2)" by (cases b)
      have n2: "n2 \<in> set SAFE_ATTRS" using Cons.prems(1) by (auto simp: as b attr_ok_def)
      have "('' '' @ n2 @ ''='') @ DQ # (html_escape_quote v2 @ [DQ] @ show_attrs bs) = h @ DQ # r"
        using 1(2) by (simp add: as b show_attrs_def show_attr_def)
      moreover have "DQ \<notin> set ('' '' @ n2 @ ''='')" using names_plain(2) [OF n2] by (auto simp: DQ_def)
      ultimately have "h = '' '' @ n2 @ ''=''"
        using Cons.prems(4) by (elim split_first) auto
      then show ?thesis using n2 by (auto simp: captured_ok_def)
    next
      case (2 a2)
      have pz: "p @ z = ('' '' @ n @ ''='') @ DQ # html_escape_quote v @ DQ # a2" using \<open>p @ z = _ @ DQ # a'\<close> 2(1) by simp
      then have "p @ z = (('' '' @ n @ ''='') @ DQ # html_escape_quote v) @ DQ # a2" by simp
      from suffix_after [OF this zDQ] obtain p2 where "a2 = p2 @ z" by (elim exE)
      then have "show_attrs as = p2 @ z @ DQ # h @ DQ # r" using 2(2) by simp
      moreover have "\<forall>x \<in> set as. attr_ok x" using Cons.prems(1) by simp
      ultimately show ?thesis by (rule Cons.IH [OF _ _ Cons.prems(3,4), rotated])
    qed
  qed
qed (simp add: show_attrs_def)

lemma captured_link: "\<forall>x \<in> set as. attr_ok x \<Longrightarrow> find_href True (show_attrs as) = Some h \<Longrightarrow> captured_ok h"
  by (drule find_href_shape) (elim exE conjE, rule captured)

section \<open>The embeds\<close>

lemma id_escape: "\<forall>c \<in> set v. is_id_char c \<Longrightarrow> html_escape_quote v = v"
proof (induction v)
  case (Cons c v)
  then have "c \<notin> set (''&<>'' @ [DQ, CHR 0x27])" by (auto simp: is_id_char_def code_in_def DQ_def)
  then show ?case using Cons by (simp add: html_escape_quote_def esc_quote_char_def esc_char_def DQ_def)
qed (simp add: html_escape_quote_def)

lemma takeWhile_all: "c \<in> set (takeWhile P s) \<Longrightarrow> P c"
  by (auto dest: set_takeWhileD)

lemma v_param_id: "find_v_param b s = Some v \<Longrightarrow> v \<noteq> [] \<and> (\<forall>c \<in> set v. is_id_char c)"
  by (induction b s rule: find_v_param.induct)
     (auto simp: Let_def dest: takeWhile_all split: option.splits if_splits list.splits)

lemma frame_safe:
  assumes "host \<in> {YT_EMBED, VIMEO_PLAYER}" "\<forall>c \<in> set v. is_id_char c" "v \<noteq> []"
  shows "safe_html (iframe_text (host @ html_escape_quote v))"
  using safe_frame [OF assms safe_end] by (simp add: id_escape [OF assms(2)])

lemma youtube_safe: "youtube_embed h = Some e \<Longrightarrow> safe_html e"
  by (auto simp: youtube_embed_def youtube_short_def dest: v_param_id takeWhile_all intro!: frame_safe split: option.splits if_splits)

lemma vimeo_safe: "vimeo_embed h = Some e \<Longrightarrow> safe_html e"
  by (auto simp: vimeo_embed_def Let_def is_id_char_def dest: takeWhile_all intro!: frame_safe split: option.splits if_splits)

lemma ext_dot: "search_ext exts s \<Longrightarrow> CHR ''.'' \<in> set s"
proof (induction s)
  case (Cons c s)
  then show ?case using lower_letter [of c "CHR ''.''"]
    by (auto simp: ext_here_def list_ex_iff after_lit_def lit_prefix_def split: option.splits if_splits)
qed simp

lemma no_extension: "n \<in> set SAFE_ATTRS \<Longrightarrow> \<not> search_ext exts (href_path_of ('' '' @ n @ ''=''))"
proof
  assume n: "n \<in> set SAFE_ATTRS" and s: "search_ext exts (href_path_of ('' '' @ n @ ''=''))"
  have "CHR ''.'' \<in> set ('' '' @ n @ ''='')" using ext_dot [OF s] unfolding href_path_of_def by (meson set_takeWhileD)
  then show False using n by (auto simp: SAFE_ATTRS_def)
qed

lemma replace_anchor_safe:
  assumes "\<forall>x \<in> set as. attr_ok x" "clean_html inner" "safe_html whole"
  shows "safe_html (replace_anchor whole (show_attrs as) inner)"
proof (cases "find_href True (show_attrs as)")
  case None
  then show ?thesis using assms(3) by (simp add: replace_anchor_def)
next
  case (Some h)
  have link: "\<exists>u. h = html_escape_quote u \<and> \<not> unsafe_url u" if "search_ext VIDEO_EXTS (href_path_of h) \<or> search_ext DOC_EXTS (href_path_of h)"
    using captured_link [OF assms(1) Some] that no_extension by (auto simp: captured_ok_def)
  have video: "safe_html (video_text h)" if "search_ext VIDEO_EXTS (href_path_of h)"
    using link that safe_video [OF _ safe_end] by auto
  have doc: "safe_html (download_text h inner)" if found: "search_ext DOC_EXTS (href_path_of h)"
  proof -
    obtain u where u: "h = html_escape_quote u" "\<not> unsafe_url u" using link found by blast
    have "html_escape_quote ''download-link'' = ''download-link''" by code_simp
    then have "download_text h inner = start_text ''a'' [(''href'', u), (''class'', ''download-link'')] @ inner @ end_text ''a''"
      by (simp add: download_text_def start_text_def end_text_def show_attrs_def show_attr_def u(1))
    moreover have "safe_html (end_text ''a'')" using safe_close [OF _ safe_end, of "''a''"] by (simp add: SAFE_TAGS_def)
    moreover have "safe_html inner" using assms(2) by (rule clean_safe)
    moreover have "''a'' \<in> set SAFE_TAGS" by (simp add: SAFE_TAGS_def)
    moreover have "\<forall>x \<in> set [(''href'', u), (''class'', ''download-link'')]. attr_ok x"
      using u(2) by (simp add: attr_ok_def SAFE_ATTRS_def URL_ATTRS_def)
    ultimately show ?thesis using safe_open safe_append by metis
  qed
  show ?thesis using assms(3) video doc
    by (auto simp: replace_anchor_def Some dest: youtube_safe vimeo_safe split: option.splits)
qed

lemma no_anchor: "c \<noteq> CHR ''<'' \<Longrightarrow> anchor_at (c # s) = None"
  using lower_letter [of c "CHR ''<''"] by (auto simp: anchor_at_def after_lit_def lit_prefix_def)

lemma embed_outside: "CHR ''<'' \<notin> set x \<Longrightarrow> embed_media (x @ y) = x @ embed_media y"
  by (induction x) (simp_all add: no_anchor [OF not_sym])

lemma embed_safe: "clean_html s \<Longrightarrow> safe_html (embed_media s)"
proof (induction "length s" arbitrary: s rule: less_induct)
  case less
  have tag: "safe_html (embed_media (t @ s'))"
    if t: "t = CHR ''<'' # w" "CHR ''<'' \<notin> set w" and s: "s = t @ s'" and c: "clean_html s'"
      and ok: "\<And>x. safe_html x \<Longrightarrow> safe_html (t @ x)" for t w s'
  proof (cases "anchor_at (t @ s')")
    case None
    then have "embed_media (t @ s') = t @ embed_media s'"
      using embed_outside [OF t(2), of s'] by (simp add: t(1))
    moreover have "length s' < length s" by (simp add: t(1) s)
    ultimately show ?thesis using ok less(1) c by simp
  next
    case (Some m)
    obtain attrs inner rest where m: "m = (attrs, inner, rest)" by (cases m)
    obtain as where as: "attrs = show_attrs as" "\<forall>x \<in> set as. attr_ok x" "clean_html inner" "clean_html rest"
        "t @ s' = start_text ''a'' as @ inner @ end_text ''a'' @ rest"
      using anchor_shape [OF less(2) [unfolded s] Some [unfolded m]] by blast
    let ?whole = "start_text ''a'' as @ inner @ end_text ''a''"
    have whole: "take (length (t @ s') - length rest) (t @ s') = ?whole" unfolding as(5) by simp
    have a: "''a'' \<in> set SAFE_TAGS" by (simp add: SAFE_TAGS_def)
    have "safe_html ?whole"
      using safe_open [OF a as(2) safe_append [OF clean_safe [OF as(3)] safe_close [OF a safe_end]]] by simp
    from replace_anchor_safe [OF as(2,3) this] have r: "safe_html (replace_anchor ?whole attrs inner)" by (simp add: as(1))
    have "length rest < length s" using anchor_at_length [OF Some [unfolded m]] s by simp
    then have "safe_html (embed_media rest)" using less(1) as(4) by blast
    moreover have "embed_media (t @ s') = replace_anchor ?whole attrs inner @ embed_media rest"
      using Some m whole by (cases "t @ s'") (simp_all add: anchor_at_def after_lit_def lit_prefix_def)
    ultimately show ?thesis using r safe_append by simp
  qed
  show ?case using less(2)
  proof (cases rule: clean_html.cases)
    case clean_end
    then show ?thesis by (simp add: safe_end)
  next
    case (clean_text c s')
    then show ?thesis using less(1) [of s'] by (simp add: no_anchor plain_def safe_text)
  next
    case (clean_open g as s')
    then show ?thesis using tag [OF tag_text(1,2) [OF clean_open(2,3)], of s'] safe_open by simp
  next
    case (clean_close g s')
    then show ?thesis using tag [OF tag_text(3,4) [of g "[]"], of s'] safe_close by simp
  qed
qed

text \<open>Authored content cannot inject script: for every Markdown renderer, every tokenizer and every chapter source,
  the rendered chapter is a sequence of escaped text, safe tags with safe attributes whose links carry no script scheme,
  players for such links, and frames of the two video hosts with an identifier of word characters.\<close>

theorem rendered_chapters_are_safe: "safe_html (render_markdown markdown parse body)"
  unfolding render_markdown_def by (intro embed_safe sanitized_is_clean)

text \<open>A void element of the suppressed set has no end tag, so the text after it is lost.\<close>

theorem embed_swallows_the_rest:
  "\<forall>e \<in> set es. case e of EndTag t \<Rightarrow> t \<notin> set SUPPRESS_TAGS | _ \<Rightarrow> True \<Longrightarrow>
   sanitize_html (\<lambda>_. StartTag ''embed'' [] # es) raw = ''''"
proof -
  have "\<forall>e \<in> set es. (case e of EndTag t \<Rightarrow> t \<notin> set SUPPRESS_TAGS | _ \<Rightarrow> True) \<Longrightarrow> d > 0 \<Longrightarrow> fst (fold handle_event es (out, d)) = out" for out d
  proof (induction es arbitrary: d)
    case (Cons e es)
    then show ?case by (cases e) simp_all
  qed simp
  then show "\<forall>e \<in> set es. case e of EndTag t \<Rightarrow> t \<notin> set SUPPRESS_TAGS | _ \<Rightarrow> True \<Longrightarrow>
    sanitize_html (\<lambda>_. StartTag ''embed'' [] # es) raw = ''''" by (simp add: sanitize_html_def SUPPRESS_TAGS_def)
qed

end
