(* ===== verification/Learner_Library.thy ===== *)
theory Learner_Library
  imports Learner_Dashboard Html_Safety Admissions
begin

text \<open>
  What a learner finds and leaves in the library: bookmarks and notes (\<open>services/bookmarks.py\<close>), finished subtopics
  (\<open>services/reading_progress.py\<close>), announcements (\<open>services/announcements.py\<close>), the readers of notifications
  (\<open>services/notifications.py\<close>), the catalogue (\<open>services/catalog.py\<close>) and the search (\<open>services/search.py\<close>). Three dots
  stand for the ellipsis of a snippet.
\<close>

section \<open>Bookmarks and notes\<close>

definition own_bookmark :: "uuid \<Rightarrow> uuid \<Rightarrow> uuid \<Rightarrow> bookmark_row \<Rightarrow> bool" where
  "own_bookmark tenant person chapter b = (bm_tenant b = tenant \<and> bm_person b = person \<and> bm_chapter b = chapter)"

definition own_note :: "uuid \<Rightarrow> uuid \<Rightarrow> uuid \<Rightarrow> note_row \<Rightarrow> bool" where
  "own_note tenant person chapter n = (nt_tenant n = tenant \<and> nt_person n = person \<and> nt_chapter n = chapter)"

definition bookmark_state :: "library \<Rightarrow> uuid \<Rightarrow> uuid \<Rightarrow> uuid \<Rightarrow> bool \<times> note_row option" where
  "bookmark_state l tenant person chapter =
     (find (own_bookmark tenant person chapter) (bookmarks l) \<noteq> None, find (own_note tenant person chapter) (chapter_notes l))"

text \<open>\<open>db.delete\<close> of the row that was found: the first one the query returns.\<close>

definition toggle_bookmark :: "library \<Rightarrow> uuid \<Rightarrow> uuid \<Rightarrow> uuid \<Rightarrow> uuid \<Rightarrow> library \<times> bool" where
  "toggle_bookmark l tenant person course chapter =
     (case find (own_bookmark tenant person chapter) (bookmarks l) of
        Some b \<Rightarrow> (l\<lparr>bookmarks := remove1 b (bookmarks l)\<rparr>, False)
      | None \<Rightarrow> (l\<lparr>bookmarks := bookmarks l @ [\<lparr>bm_tenant = tenant, bm_person = person, bm_course = course, bm_chapter = chapter\<rparr>]\<rparr>, True))"

fun replace_first :: "('a \<Rightarrow> bool) \<Rightarrow> ('a \<Rightarrow> 'a) \<Rightarrow> 'a list \<Rightarrow> 'a list" where
  "replace_first p f [] = []"
| "replace_first p f (x # xs) = (if p x then f x # xs else x # replace_first p f xs)"

definition save_note :: "library \<Rightarrow> uuid \<Rightarrow> uuid \<Rightarrow> uuid \<Rightarrow> uuid \<Rightarrow> string \<Rightarrow> library \<times> note_row option" where
  "save_note l tenant person course chapter text =
     (let body = py_strip text; mine = own_note tenant person chapter; old = find mine (chapter_notes l) in
      if body = ''''
      then (case old of None \<Rightarrow> (l, None) | Some n \<Rightarrow> (l\<lparr>chapter_notes := remove1 n (chapter_notes l)\<rparr>, None))
      else case old of
             None \<Rightarrow>
               let n = \<lparr>nt_tenant = tenant, nt_person = person, nt_course = course, nt_chapter = chapter, nt_body = body\<rparr>
               in (l\<lparr>chapter_notes := chapter_notes l @ [n]\<rparr>, Some n)
           | Some n \<Rightarrow>
               (l\<lparr>chapter_notes := replace_first mine (\<lambda>r. r\<lparr>nt_body := body\<rparr>) (chapter_notes l)\<rparr>, Some (n\<lparr>nt_body := body\<rparr>)))"

record shelf_entry =
  sh_chapter :: chapter_row
  sh_bookmarked :: bool
  sh_note :: "note_row option"

type_synonym shelf = "(uuid \<times> (int \<times> shelf_entry) list) list"

text \<open>\<open>by_course.setdefault(course, {}).setdefault(number, {...})\<close>, then the update of the entry.\<close>

definition shelve :: "uuid \<Rightarrow> chapter_row \<Rightarrow> (shelf_entry \<Rightarrow> shelf_entry) \<Rightarrow> shelf \<Rightarrow> shelf" where
  "shelve course h f out =
     (let entry = group_of out course;
          e = (case map_of entry (cp_number h) of
                 None \<Rightarrow> \<lparr>sh_chapter = h, sh_bookmarked = False, sh_note = None\<rparr>
               | Some e \<Rightarrow> e)
      in AList.update course (AList.update (cp_number h) (f e) entry) out)"

definition bookmarked_chapters :: "library \<Rightarrow> uuid \<Rightarrow> uuid \<Rightarrow> (bookmark_row \<times> chapter_row) list" where
  "bookmarked_chapters l tenant person =
     [(b, h). b \<leftarrow> bookmarks l, h \<leftarrow> chapters l, cp_id h = bm_chapter b \<and> cp_tenant h = bm_tenant b \<and> bm_tenant b = tenant
        \<and> bm_person b = person \<and> bm_course b \<in> visible_course_ids (lib_db l) tenant person]"

definition noted_chapters :: "library \<Rightarrow> uuid \<Rightarrow> uuid \<Rightarrow> (note_row \<times> chapter_row) list" where
  "noted_chapters l tenant person =
     [(n, h). n \<leftarrow> chapter_notes l, h \<leftarrow> chapters l, cp_id h = nt_chapter n \<and> cp_tenant h = nt_tenant n \<and> nt_tenant n = tenant
        \<and> nt_person n = person \<and> nt_course n \<in> visible_course_ids (lib_db l) tenant person]"

definition shelf_by_course :: "library \<Rightarrow> uuid \<Rightarrow> uuid \<Rightarrow> shelf" where
  "shelf_by_course l tenant person =
     fold (\<lambda>(n, h). shelve (nt_course n) h (\<lambda>e. e\<lparr>sh_note := Some n\<rparr>)) (noted_chapters l tenant person)
       (fold (\<lambda>(b, h). shelve (bm_course b) h (\<lambda>e. e\<lparr>sh_bookmarked := True\<rparr>)) (bookmarked_chapters l tenant person) [])"

definition bookmark_list :: "library \<Rightarrow> uuid \<Rightarrow> uuid \<Rightarrow> (course_row \<times> shelf_entry list) list" where
  "bookmark_list l tenant person =
     (let out = shelf_by_course l tenant person
      in map (\<lambda>c. (c, map snd (sort_key fst (group_of out (co_id c)))))
           (filter (\<lambda>c. group_of out (co_id c) \<noteq> [])
             (sort_key co_title (filter (\<lambda>c. co_tenant c = tenant \<and> co_id c \<in> fst ` set out) (courses (lib_db l))))))"

section \<open>Finished subtopics\<close>

definition completed_slugs :: "library \<Rightarrow> uuid \<Rightarrow> uuid \<Rightarrow> uuid \<Rightarrow> string set" where
  "completed_slugs l tenant person chapter =
     set (map st_slug (filter (\<lambda>r. st_tenant r = tenant \<and> st_person r = person \<and> st_chapter r = chapter) (subtopic_reads l)))"

definition completed_slugs_by_chapter :: "library \<Rightarrow> uuid \<Rightarrow> uuid \<Rightarrow> uuid list \<Rightarrow> (uuid \<times> string list) list" where
  "completed_slugs_by_chapter l tenant person chapter_ids =
     map (map_prod id (map st_slug)) (group_rows st_chapter
       (filter (\<lambda>r. st_tenant r = tenant \<and> st_person r = person \<and> st_chapter r \<in> set chapter_ids) (subtopic_reads l)))"

definition mark_complete :: "library \<Rightarrow> uuid \<Rightarrow> uuid \<Rightarrow> uuid \<Rightarrow> string \<Rightarrow> library \<times> bool" where
  "mark_complete l tenant person chapter subtopic =
     (let slug = take 64 (py_strip subtopic); row = \<lparr>st_tenant = tenant, st_person = person, st_chapter = chapter, st_slug = slug\<rparr> in
      if slug = '''' \<or> row \<in> set (subtopic_reads l) then (l, False)
      else (l\<lparr>subtopic_reads := subtopic_reads l @ [row]\<rparr>, True))"

section \<open>Notifications\<close>

fun notify_many :: "academy_db \<Rightarrow> instant \<Rightarrow> uuid \<Rightarrow> uuid list \<Rightarrow> string \<Rightarrow> string \<Rightarrow> string option \<Rightarrow> academy_db result" where
  "notify_many db now tenant [] kind title link = Inr db"
| "notify_many db now tenant (p # ps) kind title link =
     and_then (notify db now tenant p kind title link) (\<lambda>db1. notify_many db1 now tenant ps kind title link)"

definition own_unread :: "uuid \<Rightarrow> uuid \<Rightarrow> notification_row \<Rightarrow> bool" where
  "own_unread tenant person n = (no_tenant n = tenant \<and> no_person n = person \<and> no_read_at n = None)"

definition unread_count :: "academy_db \<Rightarrow> uuid \<Rightarrow> uuid \<Rightarrow> nat" where
  "unread_count db tenant person = count_rows (own_unread tenant person) (notifications db)"

definition recent_notifications :: "academy_db \<Rightarrow> uuid \<Rightarrow> uuid \<Rightarrow> nat \<Rightarrow> notification_row list" where
  "recent_notifications db tenant person limit =
     take limit (sort_key (\<lambda>n. - no_created_at n)
       (filter (\<lambda>n. no_tenant n = tenant \<and> no_person n = person) (notifications db)))"

definition mark_all_read :: "academy_db \<Rightarrow> instant \<Rightarrow> uuid \<Rightarrow> uuid \<Rightarrow> academy_db" where
  "mark_all_read db now tenant person =
     db\<lparr>notifications := update_rows (own_unread tenant person) (\<lambda>n. n\<lparr>no_read_at := Some now\<rparr>) (notifications db)\<rparr>"

section \<open>Announcements\<close>

definition announcement_audience :: "academy_db \<Rightarrow> uuid \<Rightarrow> uuid option \<Rightarrow> uuid list" where
  "announcement_audience db tenant cohort =
     (case cohort of
        Some c \<Rightarrow> map en_person (filter (\<lambda>e. en_tenant e = tenant \<and> en_cohort e = c \<and> en_status e = ''active''
                                             \<and> en_role e = ''student'') (enrollments db))
      | None \<Rightarrow> remdups (map en_person (filter (\<lambda>e. en_tenant e = tenant \<and> en_status e = ''active'') (enrollments db))))"

text \<open>\<open>render\<close> is \<open>authoring.render_markdown\<close>.\<close>

definition create_announcement ::
    "(string \<Rightarrow> string) \<Rightarrow> library \<Rightarrow> instant \<Rightarrow> uuid \<Rightarrow> uuid \<Rightarrow> string \<Rightarrow> string \<Rightarrow> uuid option \<Rightarrow> library \<times> announcement_row" where
  "create_announcement render l now tenant author title body cohort =
     (let a = \<lparr>an_id = next_id (lib_db l), an_tenant = tenant, an_cohort = cohort, an_author = author, an_title = title,
               an_body_md = body, an_body_html = render body, an_created_at = now\<rparr>;
          l1 = with_db (\<lambda>db. db\<lparr>next_id := Suc (next_id db)\<rparr>) (l\<lparr>announcements := announcements l @ [a]\<rparr>);
          people_of = announcement_audience (lib_db l1) tenant cohort;
          fan_out = (\<lambda>db. if people_of = [] then db
                          else savepoint db (notify_many db now tenant people_of ''announcement'' title (Some ''/announcements'')));
          logged = (\<lambda>db. write_audit_event db tenant (Some author) ''announcement.created'' ''announcement''
                           (Some (uuid_str (an_id a))) (JObj []))
      in (with_db (\<lambda>db. logged (fan_out db)) l1, a))"

definition own_cohorts :: "academy_db \<Rightarrow> uuid \<Rightarrow> uuid \<Rightarrow> uuid list" where
  "own_cohorts db tenant person =
     map en_cohort (filter (\<lambda>e. en_tenant e = tenant \<and> en_person e = person \<and> en_status e = ''active'') (enrollments db))"

definition announcements_for :: "library \<Rightarrow> uuid \<Rightarrow> uuid \<Rightarrow> nat \<Rightarrow> announcement_row list" where
  "announcements_for l tenant person limit =
     take limit (sort_key (\<lambda>a. - an_created_at a)
       (filter (\<lambda>a. an_tenant a = tenant
                    \<and> (case an_cohort a of None \<Rightarrow> True | Some c \<Rightarrow> c \<in> set (own_cohorts (lib_db l) tenant person)))
         (announcements l)))"

definition announcements_of_tenant :: "library \<Rightarrow> uuid \<Rightarrow> nat \<Rightarrow> announcement_row list" where
  "announcements_of_tenant l tenant limit =
     take limit (sort_key (\<lambda>a. - an_created_at a) (filter (\<lambda>a. an_tenant a = tenant) (announcements l)))"

definition delete_announcement :: "library \<Rightarrow> uuid \<Rightarrow> uuid \<Rightarrow> library" where
  "delete_announcement l tenant i =
     (case find (\<lambda>a. an_tenant a = tenant \<and> an_id a = i) (announcements l) of
        None \<Rightarrow> l
      | Some a \<Rightarrow> l\<lparr>announcements := remove1 a (announcements l)\<rparr>)"

section \<open>The catalogue\<close>

definition my_courses :: "academy_db \<Rightarrow> uuid \<Rightarrow> uuid \<Rightarrow> course_row list" where
  "my_courses db tenant person =
     sort_key co_title (filter (\<lambda>c. co_tenant c = tenant \<and> co_id c \<in> visible_course_ids db tenant person) (courses db))"

definition public_catalog :: "library \<Rightarrow> uuid \<Rightarrow> (course_row \<times> nat) list" where
  "public_catalog l tenant =
     map (\<lambda>c. (c, count_rows (\<lambda>h. cp_tenant h = co_tenant c \<and> cp_course h = co_id c) (chapters l)))
       (sort_key co_title (filter (\<lambda>c. co_tenant c = tenant \<and> co_status c = ''published'' \<and> cm_listed (course_meta_of l (co_id c)))
         (courses (lib_db l))))"

definition all_courses :: "academy_db \<Rightarrow> uuid \<Rightarrow> course_row list" where
  "all_courses db tenant = sort_key co_title (filter (\<lambda>c. co_tenant c = tenant) (courses db))"

definition course_completion_pct :: "academy_db \<Rightarrow> uuid \<Rightarrow> uuid \<Rightarrow> uuid \<Rightarrow> int" where
  "course_completion_pct db tenant person course =
     (let n = count_rows (\<lambda>a. act_tenant a = tenant \<and> act_course a = course) (activities db) in
      if n = 0 then 0
      else py_round (100 * of_nat (length (filter (\<lambda>(i, s). sc_passed s) (best_scores_for db tenant person course))) / of_nat n))"

record activity_entry =
  ae_activity :: activity_row
  ae_passed :: bool
  ae_pct :: int

definition activity_entry_of :: "(uuid \<times> score_row) list \<Rightarrow> activity_row \<Rightarrow> activity_entry" where
  "activity_entry_of best a =
     \<lparr>ae_activity = a, ae_passed = passed_in best (act_id a),
      ae_pct = (case map_of best (act_id a) of None \<Rightarrow> 0 | Some s \<Rightarrow> py_round (100 * sc_fraction s))\<rparr>"

record structure_view =
  sv_parts :: "(string \<times> (chapter_row \<times> activity_entry list) list) list"
  sv_course_activities :: "activity_entry list"
  sv_continue :: "chapter_row option"
  sv_locked :: bool

text \<open>The first chapter whose first activity is missing or not passed.\<close>

definition first_open_chapter :: "(uuid \<times> score_row) list \<Rightarrow> (int option \<Rightarrow> activity_row list) \<Rightarrow> chapter_row list \<Rightarrow> chapter_row option" where
  "first_open_chapter best acts_of hs =
     find (\<lambda>h. case acts_of (Some (cp_number h)) of [] \<Rightarrow> True | a # _ \<Rightarrow> \<not> passed_in best (act_id a)) hs"

definition course_structure :: "library \<Rightarrow> uuid \<Rightarrow> uuid \<Rightarrow> course_row \<Rightarrow> structure_view" where
  "course_structure l tenant person course =
     (let db = lib_db l; best = best_scores_for db tenant person (co_id course);
          hs = sort_key (\<lambda>h. (cp_order_index h, cp_number h))
                 (filter (\<lambda>h. cp_tenant h = tenant \<and> cp_course h = co_id course) (chapters l));
          grouped = group_rows act_chapter (filter (\<lambda>a. act_tenant a = tenant \<and> act_course a = co_id course) (activities db));
          entries = (\<lambda>h. (h, map (activity_entry_of best) (group_of grouped (Some (cp_number h)))))
      in \<lparr>sv_parts = map (map_prod id (map entries)) (group_rows cp_part hs),
          sv_course_activities = map (activity_entry_of best) (sort_key act_title (group_of grouped None)),
          sv_continue = first_open_chapter best (group_of grouped) hs,
          sv_locked = (unmet_prerequisites db tenant person (co_id course) \<noteq> [])\<rparr>)"

section \<open>Search\<close>

definition SEARCH_CAP :: nat where "SEARCH_CAP = 20"

text \<open>\<open>re.sub(r"<[^>]+>", " ", s)\<close>: an opening bracket that no bracket closes, or closes at once, stays.\<close>

function strip_tags :: "string \<Rightarrow> string" where
  "strip_tags [] = []"
| "strip_tags (c # s) =
     (if c = CHR ''<'' \<and> CHR ''>'' \<in> set s \<and> hd s \<noteq> CHR ''>''
      then CHR '' '' # strip_tags (tl (dropWhile (\<lambda>x. x \<noteq> CHR ''>'') s))
      else c # strip_tags s)"
  by pat_completeness auto
termination
  by (relation "measure length") (auto simp: le_imp_less_Suc order_trans [OF diff_le_self length_dropWhile_le])

text \<open>\<open>re.sub(r"\s+", " ", s)\<close>.\<close>

fun squeeze_space :: "bool \<Rightarrow> string \<Rightarrow> string" where
  "squeeze_space in_run [] = []"
| "squeeze_space in_run (c # s) =
     (if py_isspace c then (if in_run then squeeze_space True s else CHR '' '' # squeeze_space True s)
      else c # squeeze_space False s)"

text \<open>\<open>str.find\<close>.\<close>

fun find_text :: "string \<Rightarrow> string \<Rightarrow> nat option" where
  "find_text p [] = (if p = [] then Some 0 else None)"
| "find_text p (c # s) = (if starts_with (c # s) p then Some 0 else map_option Suc (find_text p s))"

definition extract_snippet :: "string \<Rightarrow> string \<Rightarrow> nat \<Rightarrow> string" where
  "extract_snippet html term radius =
     (let plain = py_strip (squeeze_space False (strip_tags html)) in
      case find_text (py_lower term) (py_lower plain) of
        None \<Rightarrow> take (radius * 2) plain
      | Some idx \<Rightarrow>
          let start = idx - radius; stop = min (length plain) (idx + length term + radius)
          in (if start > 0 then ''...'' else '''') @ take (stop - start) (drop start plain)
             @ (if stop < length plain then ''...'' else ''''))"

record chapter_hit =
  hi_title :: string
  hi_course_slug :: string
  hi_chapter_number :: int
  hi_snippet :: string

record search_hits =
  hs_courses :: "(string \<times> string) list"
  hs_chapters :: "chapter_hit list"

definition no_hits :: search_hits where
  "no_hits = \<lparr>hs_courses = [], hs_chapters = []\<rparr>"

text \<open>The rows under the courses a search may look at: all of them for staff.\<close>

definition matching_courses :: "library \<Rightarrow> uuid \<Rightarrow> string \<Rightarrow> (uuid \<Rightarrow> bool) \<Rightarrow> course_row list" where
  "matching_courses l tenant pattern allowed =
     take SEARCH_CAP (filter (\<lambda>c. co_tenant c = tenant \<and> sql_ilike pattern (co_title c) \<and> allowed (co_id c)) (courses (lib_db l)))"

definition matching_chapters :: "library \<Rightarrow> uuid \<Rightarrow> string \<Rightarrow> (uuid \<Rightarrow> bool) \<Rightarrow> (chapter_row \<times> course_row) list" where
  "matching_chapters l tenant pattern allowed =
     take SEARCH_CAP [(h, c). h \<leftarrow> chapters l, c \<leftarrow> courses (lib_db l), co_id c = cp_course h \<and> co_tenant c = cp_tenant h
        \<and> cp_tenant h = tenant \<and> (sql_ilike pattern (cp_title h) \<or> sql_ilike pattern (cp_body_html h)) \<and> allowed (cp_course h)]"

definition search_content :: "library \<Rightarrow> uuid \<Rightarrow> uuid \<Rightarrow> string \<Rightarrow> bool \<Rightarrow> search_hits" where
  "search_content l tenant person q staff =
     (let term = py_strip q; pattern = ''%'' @ term @ ''%''; mine = accessible_course_ids (lib_db l) tenant person;
          allowed = (\<lambda>i. staff \<or> i \<in> mine)
      in if term = '''' \<or> (\<not> staff \<and> mine = {}) then no_hits
         else \<lparr>hs_courses = map (\<lambda>c. (course_slug l (co_id c), co_title c)) (matching_courses l tenant pattern allowed),
               hs_chapters = map (\<lambda>(h, c). \<lparr>hi_title = cp_title h, hi_course_slug = course_slug l (co_id c),
                                  hi_chapter_number = cp_number h, hi_snippet = extract_snippet (cp_body_html h) term 100\<rparr>)
                                (matching_chapters l tenant pattern allowed)\<rparr>)"

end
