(* ===== verification/Dashboard_Properties.thy ===== *)
theory Dashboard_Properties
  imports Learner_Library Learner_Journey
begin

text \<open>
  The batched dashboard agrees with the per-course readers, where its cards disagree with the access rules and its
  continue link with the course page, and what the answer key costs the pages that show it.
\<close>

section \<open>Lookups that depend on one course\<close>



















section \<open>Witnesses\<close>

text \<open>A learner of one open course of two chapters who has read the first; the enrolment's own access date is given.\<close>

definition reading_library :: "instant option \<Rightarrow> library" where
  "reading_library access = \<lparr>campus = \<lparr>academy = empty_db\<lparr>
       courses := [\<lparr>co_id = 2, co_tenant = 11, co_title = ''C'', co_status = ''published''\<rparr>],
       offerings := [\<lparr>of_id = 50, of_tenant = 11, of_cohort = 31, of_course = 2, of_status = ''active'', of_starts_at = None, of_ends_at = None\<rparr>],
       enrollments := [\<lparr>en_id = 30, en_tenant = 11, en_cohort = 31, en_person = 7, en_track = None, en_role = ''student'',
                        en_status = ''active'', en_access_ends_at = access\<rparr>]\<rparr>,
       class_sessions = [], reminder_log = [], reminder_preferences = [], success_entries = [], platform_settings = [],
       enrolled_at = (\<lambda>_. 0), delivery_mode = (\<lambda>_. ''live'')\<rparr>,
     chapters = map (\<lambda>n. \<lparr>cp_id = 40 + nat n, cp_tenant = 11, cp_course = 2, cp_number = n, cp_title = ''T'', cp_part = '''',
       cp_body_html = '''', cp_body_md = '''', cp_source_hash = '''', cp_order_index = n\<rparr>) [1, 2],
     chapter_reads = [\<lparr>rd_tenant = 11, rd_person = 7, rd_chapter = 41, rd_created_at = 60\<rparr>],
     subtopic_reads = [], bookmarks = [], chapter_notes = [], announcements = [],
     course_meta_of = (\<lambda>_. \<lparr>cm_slug = ''net'', cm_discipline = '''', cm_source_ref = '''', cm_version = 1, cm_listed = True\<rparr>),
     banks = [], question_text_of = (\<lambda>_. \<lparr>qx_stem = '''', qx_rubric = '''', qx_explanation = ''''\<rparr>)\<rparr>"


text \<open>In the same store the course page's continue link leads back to the first chapter, which the learner has read: it looks
  for a chapter without activities, or whose first activity is not passed, from the beginning.\<close>

theorem course_page_resumes_elsewhere:
  "map_option (map_prod id cp_number) (continue_in_context (dashboard_context_of (reading_library None) 11 7 90)) = Some (2, 2)
   \<and> map_option cp_number (sv_continue (course_structure (reading_library None) 11 7
        \<lparr>co_id = 2, co_tenant = 11, co_title = ''C'', co_status = ''published''\<rparr>)) = Some 1"
proof -
  have "map_option (map_prod id cp_number) (continue_in_context (dashboard_context_of (reading_library None) 11 7 90)) = Some (2, 2)"
    by code_simp
  moreover have "map_option cp_number (sv_continue (course_structure (reading_library None) 11 7
        \<lparr>co_id = 2, co_tenant = 11, co_title = ''C'', co_status = ''published''\<rparr>)) = Some 1"
    by (simp add: course_structure_def first_open_chapter_def reading_library_def lib_db_def empty_db_def group_rows_def group_of_def
        Let_def)
  ultimately show ?thesis by simp
qed

text \<open>An access date on an offering without an end closes the card but not the course: the card of a learner whose
  access ran out is expired, while the course is still open to the learner.\<close>

theorem expired_card_of_an_open_course:
  "map kd_state (fst (course_cards (reading_library (Some 80)) 11 7 90)) = [''expired'']
   \<and> 2 \<in> open_course_ids (lib_db (reading_library (Some 80))) 11 7 90"
proof -
  have "map kd_state (fst (course_cards (reading_library (Some 80)) 11 7 90)) = [''expired'']" by code_simp
  moreover have "2 \<in> open_course_ids (lib_db (reading_library (Some 80))) 11 7 90" by code_simp
  ultimately show ?thesis by simp
qed

section \<open>The answer key\<close>

lemma attempts_by_person_lookup:
  "(case map_of (attempts_used_by_person db t p) x of None \<Rightarrow> 0 | Some n \<Rightarrow> n) = attempts_used db t p x"
proof -
  let ?rows = "filter (\<lambda>s. sub_tenant s = t \<and> sub_person s = p) (submissions db)"
  let ?f = "\<lambda>x. count_rows (\<lambda>s. sub_activity s = x) ?rows"
  have f: "?f x = attempts_used db t p x" by (auto simp: attempts_used_def count_rows_def intro: arg_cong [where f = length] filter_cong)
  have "map_of (map (\<lambda>x. (x, ?f x)) xs) x = (if x \<in> set xs then Some (?f x) else None)" for xs
    by (induction xs) auto
  moreover have "?f x = 0" if "x \<notin> sub_activity ` set ?rows"
    using that by (auto simp: count_rows_def filter_empty_conv)
  ultimately show ?thesis unfolding attempts_used_by_person_def Let_def f [symmetric] by auto
qed

lemma result_page_base_limit:
  assumes "result_page_reveals db t p a sc" "act_mode a \<noteq> ''practice''" "\<not> sc_passed sc"
  obtains m where "act_max_attempts a = Some m" "m \<le> int (attempts_used db t p (act_id a))"
  using assms by (auto simp: result_page_reveals_def reveal_feedback_def entitlement_def exhausted_def split: if_splits option.splits)

lemma graded_row_reveals:
  "i \<in> set (graded_rows db t p now) \<Longrightarrow> gi_feedback_available i = result_page_reveals db t p (gi_activity i) (gi_score i)"
  by (auto simp: graded_rows_def result_page_reveals_def)

lemma overview_row_limit:
  assumes "k \<in> set (progress_overview l t p now)" "r \<in> set (cg_rows k)" "gr_feedback r" "\<not> gr_passed r"
    and "act_mode (gr_activity r) \<noteq> ''practice''"
  obtains m where "act_max_attempts (gr_activity r) = Some m"
    "m + granted_for (lib_db l) t p (act_id (gr_activity r)) \<le> int (attempts_used (lib_db l) t p (act_id (gr_activity r)))"
proof -
  obtain o' due best a where r: "r = progress_row_of now o' due best (attempts_used_by_person (lib_db l) t p) (granted_by_activity (lib_db l) t p) a"
    using assms(1,2) by (auto simp: progress_overview_def course_progress_of_def Let_def)
  then have a: "gr_activity r = a" by (simp add: progress_row_of_def Let_def)
  have "exhausted (entitlement (act_max_attempts a) (int (attempts_used (lib_db l) t p (act_id a))) (granted_for (lib_db l) t p (act_id a)))"
    using assms(3-5) unfolding a
    by (simp add: r progress_row_of_def Let_def granted_by_activity_lookup attempts_by_person_lookup reveal_feedback_def entitlement_def
        split: option.splits if_splits)
  then show thesis using that unfolding a by (auto simp: exhausted_def entitlement_def split: option.splits)
qed

text \<open>C36. What an attempt costs once the answer key was shown, in every store the learner's steps can reach (\<open>journey_ok\<close>) and along
  every later sequence of submissions, grants and overrides. Let a page show the key of an activity that is not practice to a
  learner who has not passed it. If it is the progress overview, then every attempt the learner hands in afterwards is paid by
  a grant made afterwards. If it is the result page or the to-do page, which ask without the grants, then every attempt handed in
  afterwards is paid by a grant, but possibly by one made before, so that the learner sits it with the key; the witness
  reaches such an attempt.\<close>

theorem attempts_after_the_key_are_granted:
  assumes "journey_ok (lib_db l)" "(learner_step fm rd day)\<^sup>*\<^sup>* (lib_db l) later"
    and "a \<in> set (activities (lib_db l))" "act_tenant a = t" "act_mode a \<noteq> ''practice''"
  shows "let sat = int (attempts_used later t p (act_id a)) - int (attempts_used (lib_db l) t p (act_id a));
             given = granted_for later t p (act_id a) - granted_for (lib_db l) t p (act_id a)
         in (\<forall>k \<in> set (progress_overview l t p now). \<forall>r \<in> set (cg_rows k).
              gr_activity r = a \<longrightarrow> gr_feedback r \<longrightarrow> \<not> gr_passed r \<longrightarrow> sat \<le> given)
          \<and> (\<forall>sc. result_page_reveals (lib_db l) t p a sc \<longrightarrow> \<not> sc_passed sc \<longrightarrow> sat \<le> granted_for later t p (act_id a))
          \<and> (\<forall>i \<in> set (graded_rows (lib_db l) t p now).
              gi_activity i = a \<longrightarrow> gi_feedback_available i \<longrightarrow> \<not> sc_passed (gi_score i) \<longrightarrow> sat \<le> granted_for later t p (act_id a))"
proof -
  let ?n = "\<lambda>db. int (attempts_used db t p (act_id a))" and ?g = "\<lambda>db. granted_for db t p (act_id a)"
  have g: "0 \<le> ?g (lib_db l)" using assms(1) by (simp add: journey_ok_def granted_nonneg)
  have grow: "?g (lib_db l) \<le> ?g later \<and> ?n later \<le> max (?n (lib_db l)) (m + ?g later)" if "act_max_attempts a = Some m" for m
    using attempts_from_here [OF assms(2,1,3,4) that, of p] by simp
  have base: "?n later - ?n (lib_db l) \<le> ?g later" if "result_page_reveals (lib_db l) t p a sc" "\<not> sc_passed sc" for sc
    by (rule result_page_base_limit [OF that(1) assms(5) that(2)]) (use grow g in fastforce)
  moreover have "?n later - ?n (lib_db l) \<le> ?g later - ?g (lib_db l)"
    if "k \<in> set (progress_overview l t p now)" "r \<in> set (cg_rows k)" "gr_activity r = a" "gr_feedback r" "\<not> gr_passed r" for k r
  proof -
    note row = that
    obtain m where "act_max_attempts a = Some m" "m + ?g (lib_db l) \<le> ?n (lib_db l)"
      by (rule overview_row_limit [OF row(1,2,4,5)]) (use assms(5) row(3) in auto)
    with grow [of m] show ?thesis by (auto simp: max_def split: if_splits)
  qed
  ultimately show ?thesis by (auto simp: Let_def graded_row_reveals)
qed

text \<open>The learner of the sample activity has used its one attempt and failed; an instructor then grants a second one, and the
  learner sits it.\<close>

definition failed_score :: score_row where
  "failed_score = retake_score\<lparr>sc_score := 0, sc_fraction := 0, sc_passed := False\<rparr>"

definition failed_db :: academy_db where
  "failed_db = academy (campus (reading_library None))\<lparr>people := [sample_person], activities := [sample_activity],
     questions := questions sample_db, submissions := [retake_submission], scores := [failed_score], next_id := 100\<rparr>"

definition failed_library :: library where
  "failed_library = reading_library None\<lparr>campus := campus (reading_library None)\<lparr>academy := failed_db\<rparr>\<rparr>"

definition failed_granted :: academy_db where
  "failed_granted = (case grant_extra_attempt failed_db 11 7 3 (Some ''ill'') None 1 of Inr (db, _) \<Rightarrow> db | Inl _ \<Rightarrow> failed_db)"

definition failed_retaken :: academy_db where
  "failed_retaken = (case submit_activity no_match no_render id failed_granted 60 11 7 sample_activity [] None of
     Inr (db, _) \<Rightarrow> db | Inl _ \<Rightarrow> failed_db)"

definition granted_library :: library where
  "granted_library = failed_library\<lparr>campus := campus failed_library\<lparr>academy := failed_granted\<rparr>\<rparr>"

lemma failed_libraries: "lib_db failed_library = failed_db" "lib_db granted_library = failed_granted"
  by (simp_all add: lib_db_def failed_library_def granted_library_def)

lemma failed_db_ok: "journey_ok failed_db"
proof -
  have tables: "submissions failed_db = [retake_submission]" "activities failed_db = [sample_activity]" "attempt_grants failed_db = []"
    "completions failed_db = []" "certificates failed_db = []"
    by (simp_all add: failed_db_def reading_library_def empty_db_def)
  have "attempt_numbers failed_db t p x = numbered (attempts_used failed_db t p x)" for t p x
    by (simp add: attempt_numbers_def attempts_used_def tables retake_submission_def numbered_def)
  moreover have "within_entitlement failed_db"
    by (simp add: within_entitlement_def tables attempts_used_def granted_for_def retake_submission_def sample_activity_def)
  ultimately show ?thesis by (simp add: journey_ok_def completions_ok_def grants_positive_def tables)
qed

lemma failed_grant_step: "learner_step no_match no_render id failed_db failed_granted"
proof -
  have "(case grant_extra_attempt failed_db 11 7 3 (Some ''ill'') None 1 of Inr _ \<Rightarrow> True | Inl _ \<Rightarrow> False)" by code_simp
  then obtain x g where "grant_extra_attempt failed_db 11 7 3 (Some ''ill'') None 1 = Inr (x, g)" by (auto split: sum.splits)
  then show ?thesis by (auto simp: failed_granted_def intro: learner_step.grant)
qed

lemma failed_retake_step: "learner_step no_match no_render id failed_granted failed_retaken"
proof -
  have "(case submit_activity no_match no_render id failed_granted 60 11 7 sample_activity [] None of Inr _ \<Rightarrow> True | Inl _ \<Rightarrow> False)"
    by code_simp
  then obtain x r where x: "submit_activity no_match no_render id failed_granted 60 11 7 sample_activity [] None = Inr (x, r)"
    by (auto split: sum.splits)
  have "sample_activity \<in> set (activities failed_granted)" by code_simp
  then show ?thesis
    using learner_step.submit [OF x] x by (simp add: failed_retaken_def)
qed

theorem attempts_after_the_key_are_granted_witness:
  "list_ex (\<lambda>k. list_ex gr_feedback (cg_rows k)) (progress_overview failed_library 11 7 90)
   \<and> int (attempts_used failed_retaken 11 7 3) - int (attempts_used failed_db 11 7 3)
       \<le> granted_for failed_retaken 11 7 3 - granted_for failed_db 11 7 3
   \<and> \<not> list_ex (\<lambda>k. list_ex gr_feedback (cg_rows k)) (progress_overview granted_library 11 7 90)
   \<and> result_page_reveals failed_granted 11 7 sample_activity failed_score
   \<and> list_ex gi_feedback_available (graded_rows failed_granted 11 7 90)
   \<and> attempts_used failed_granted 11 7 3 = 1 \<and> attempts_used failed_retaken 11 7 3 = 2"
proof -
  have path: "(learner_step no_match no_render id)\<^sup>*\<^sup>* failed_db failed_retaken"
    using failed_grant_step failed_retake_step by (meson r_into_rtranclp rtranclp_trans)
  have act: "sample_activity \<in> set (activities failed_db)" by (simp add: failed_db_def)
  have mode: "act_mode sample_activity \<noteq> ''practice''" by (simp add: sample_activity_def)
  have shown: "list_ex (\<lambda>k. list_ex (\<lambda>r. gr_activity r = sample_activity \<and> gr_feedback r \<and> \<not> gr_passed r) (cg_rows k))
      (progress_overview failed_library 11 7 90)" by code_simp
  then obtain k r where row: "k \<in> set (progress_overview failed_library 11 7 90)" "r \<in> set (cg_rows k)"
    "gr_activity r = sample_activity" "gr_feedback r" "\<not> gr_passed r" by (auto simp: list_ex_iff)
  note after = attempts_after_the_key_are_granted [where l = failed_library and later = failed_retaken and a = sample_activity and p = 7
      and now = 90, unfolded failed_libraries, OF failed_db_ok path act refl mode]
  have "int (attempts_used failed_retaken 11 7 3) - int (attempts_used failed_db 11 7 3)
       \<le> granted_for failed_retaken 11 7 3 - granted_for failed_db 11 7 3"
    using after row by (auto simp: Let_def)
  moreover have "list_ex (\<lambda>k. list_ex gr_feedback (cg_rows k)) (progress_overview failed_library 11 7 90)"
    "\<not> list_ex (\<lambda>k. list_ex gr_feedback (cg_rows k)) (progress_overview granted_library 11 7 90)"
    "result_page_reveals failed_granted 11 7 sample_activity failed_score"
    "list_ex gi_feedback_available (graded_rows failed_granted 11 7 90)"
    "attempts_used failed_granted 11 7 3 = 1" "attempts_used failed_retaken 11 7 3 = 2" by code_simp+
  ultimately show ?thesis by blast
qed

end
