(* ===== verification/Bank_Lint.thy ===== *)
theory Bank_Lint
  imports Library_Model Grading Account_Security
begin

text \<open>
  The rules a question bank has to obey (\<open>services/bank_lint.py\<close>): the document a bank file parses to, the
  linter with its balance statistics, and the two helpers that compute the edits which would balance
  a question. A violation is a value that carries what its message prints; the YAML loader is an argument.
\<close>

section \<open>Constants and documents\<close>

definition TARGET :: "(string \<times> rat) list" where
  "TARGET = [(''recall'', 20 / 100), (''application'', 50 / 100), (''analysis'', 30 / 100)]"

definition TOL :: rat where "TOL = 10 / 100"
definition EPSILON :: rat where "EPSILON = 1 / 1000000000"
definition MIN_BALANCE_SAMPLE :: nat where "MIN_BALANCE_SAMPLE = 5"
definition MAX_EXTREME_SHARE :: rat where "MAX_EXTREME_SHARE = 40 / 100"
definition MAX_LENGTH_RATIO :: rat where "MAX_LENGTH_RATIO = 130 / 100"
definition BANK_MODES :: "string list" where "BANK_MODES = [''practice'', ''graded'', ''exam'']"
definition POLICY_KEYS :: "string list" where "POLICY_KEYS = [''pool'', ''max_attempts'', ''mode'', ''pass_threshold'']"

type_synonym dict = "(string \<times> json) list"

record bank_doc =
  bd_course :: string
  bd_chapter :: "int option"
  bd_kind :: string
  bd_version :: int
  bd_questions :: "dict list"
  bd_policy :: dict

datatype bank_error = KeyError string | BankTypeError | AttributeError | BankIntegrityError
  | MissingFigures "(string \<times> string list) list"

type_synonym 'a bank_result = "bank_error + 'a"

text \<open>\<open>d.get(k)\<close> and \<open>d.get(k, v)\<close>.\<close>

definition get_or :: "dict \<Rightarrow> string \<Rightarrow> json \<Rightarrow> json" where
  "get_or d k v = (case obj_get d k of None \<Rightarrow> v | Some x \<Rightarrow> x)"

definition key_of :: "dict \<Rightarrow> string \<Rightarrow> json bank_result" where
  "key_of d k = (case obj_get d k of None \<Rightarrow> Inl (KeyError k) | Some x \<Rightarrow> Inr x)"

text \<open>Iterating over a value.\<close>

fun py_iter :: "json \<Rightarrow> json list bank_result" where
  "py_iter (JArr xs) = Inr xs"
| "py_iter (JStr s) = Inr (map (\<lambda>c. JStr [c]) s)"
| "py_iter (JObj kvs) = Inr (map (\<lambda>(k, _). JStr k) kvs)"
| "py_iter _ = Inl BankTypeError"

fun as_dict :: "json \<Rightarrow> dict bank_result" where
  "as_dict (JObj kvs) = Inr kvs"
| "as_dict _ = Inl AttributeError"

fun each :: "('a \<Rightarrow> 'e + 'b) \<Rightarrow> 'a list \<Rightarrow> 'e + 'b list" where
  "each f [] = Inr []"
| "each f (x # xs) = and_then (f x) (\<lambda>y. and_then (each f xs) (\<lambda>ys. Inr (y # ys)))"

text \<open>\<open>==\<close> between two values: scalars by value, anything else structurally.\<close>

definition py_eq :: "json \<Rightarrow> json \<Rightarrow> bool" where
  "py_eq a b = (case (hash_key a, hash_key b) of (Some x, Some y) \<Rightarrow> x = y | (None, None) \<Rightarrow> a = b | _ \<Rightarrow> False)"

definition py_in :: "json \<Rightarrow> json list \<Rightarrow> bool" where
  "py_in a xs = list_ex (py_eq a) xs"

fun int_of :: "json \<Rightarrow> int bank_result" where
  "int_of (JInt i) = Inr i"
| "int_of (JBool b) = Inr (if b then 1 else 0)"
| "int_of (JFloat r) = Inr (if r < 0 then - \<lfloor>- r\<rfloor> else \<lfloor>r\<rfloor>)"
| "int_of (JStr s) = (case py_int s of None \<Rightarrow> Inl BankTypeError | Some i \<Rightarrow> Inr i)"
| "int_of _ = Inl BankTypeError"

fun text_of :: "json \<Rightarrow> string bank_result" where
  "text_of (JStr s) = Inr s"
| "text_of _ = Inl BankTypeError"

fun chapter_of :: "json \<Rightarrow> int option bank_result" where
  "chapter_of JNull = Inr None"
| "chapter_of (JInt i) = Inr (Some i)"
| "chapter_of _ = Inl BankTypeError"

text \<open>The fields have the types the dataclass declares; anything else is an error here already.\<close>

definition parse_bank :: "(string \<Rightarrow> json) \<Rightarrow> string \<Rightarrow> bank_doc bank_result" where
  "parse_bank yaml text =
     and_then (as_dict (yaml text)) (\<lambda>root.
     and_then (key_of root ''bank'') (\<lambda>bank.
     and_then (as_dict bank) (\<lambda>data.
     and_then (and_then (key_of data ''course'') text_of) (\<lambda>course.
     and_then (chapter_of (get_or data ''chapter'' JNull)) (\<lambda>chapter.
     and_then (and_then (key_of data ''kind'') text_of) (\<lambda>kind.
     and_then (int_of (get_or data ''version'' (JInt 1))) (\<lambda>version.
     and_then (and_then (and_then (key_of data ''questions'') py_iter) (each as_dict)) (\<lambda>qs.
     and_then (let policy = get_or data ''policy'' JNull in if truthy policy then as_dict policy else Inr []) (\<lambda>policy.
       Inr \<lparr>bd_course = course, bd_chapter = chapter, bd_kind = kind, bd_version = version,
            bd_questions = qs, bd_policy = policy\<rparr>)))))))))"

section \<open>Violations\<close>

datatype violation =
    NoQuestions
  | InvalidRubric json json
  | NumericNotNumber json
  | ShortTextEmpty json
  | OptionNotText json json
  | CorrectNotInOptions json json
  | RubricMixOff string rat
  | ExtremeShare string string nat nat "string list"
  | LengthRatio string rat
  | UnknownPolicyKeys "string list"
  | PoolNotPositive json
  | PoolExceedsBank int nat
  | AttemptsNotPositive json
  | ThresholdNotNumber json
  | ThresholdNotFraction json
  | UnknownMode json

text \<open>\<open>isinstance(v, int)\<close>: a boolean is an integer.\<close>

fun as_int :: "json \<Rightarrow> int option" where
  "as_int (JInt i) = Some i"
| "as_int (JBool b) = Some (if b then 1 else 0)"
| "as_int _ = None"

fun as_number :: "json \<Rightarrow> rat option" where
  "as_number (JInt i) = Some (rat_of_int i)"
| "as_number (JFloat r) = Some r"
| "as_number _ = None"

definition not_none :: "dict \<Rightarrow> string \<Rightarrow> json option" where
  "not_none d k = (case obj_get d k of None \<Rightarrow> None | Some JNull \<Rightarrow> None | Some v \<Rightarrow> Some v)"

definition policy_violations :: "bank_doc \<Rightarrow> violation list bank_result" where
  "policy_violations doc =
     (let policy = bd_policy doc; unknown = filter (\<lambda>k. k \<notin> set POLICY_KEYS) (map fst policy); n = length (bd_questions doc)
      in if (case not_none policy ''mode'' of None \<Rightarrow> False | Some v \<Rightarrow> hash_key v = None) then Inl BankTypeError
         else Inr ((if unknown \<noteq> [] then [UnknownPolicyKeys (sort unknown)] else [])
         @ (case not_none policy ''pool'' of
              None \<Rightarrow> []
            | Some v \<Rightarrow> (case as_int v of
                None \<Rightarrow> [PoolNotPositive v]
              | Some pool \<Rightarrow> if pool < 1 then [PoolNotPositive v] else if pool > int n then [PoolExceedsBank pool n] else []))
         @ (case not_none policy ''max_attempts'' of
              None \<Rightarrow> []
            | Some v \<Rightarrow> (case as_int v of None \<Rightarrow> [AttemptsNotPositive v] | Some k \<Rightarrow> if k < 1 then [AttemptsNotPositive v] else []))
         @ (case not_none policy ''pass_threshold'' of
              None \<Rightarrow> []
            | Some v \<Rightarrow> (case as_number v of
                None \<Rightarrow> [ThresholdNotNumber v] | Some t \<Rightarrow> if \<not> (0 \<le> t \<and> t \<le> 1) then [ThresholdNotFraction v] else []))
         @ (case not_none policy ''mode'' of
              None \<Rightarrow> [] | Some v \<Rightarrow> if \<not> py_in v (map JStr BANK_MODES) then [UnknownMode v] else [])))"

definition competency_of :: "(json \<Rightarrow> string) \<Rightarrow> dict \<Rightarrow> string option" where
  "competency_of render q =
     (let category = get_or q ''category'' JNull;
          v = (if truthy category then category else get_or q ''competency'' JNull)
      in if truthy v then Some (py_str render v) else None)"

section \<open>Distractor balance\<close>

text \<open>What one question contributes: the ratio of the lengths, and whether its answer is the only longest or shortest option.\<close>

record balance_item =
  bi_ratio :: "rat option"
  bi_longest :: bool
  bi_shortest :: bool
  bi_id :: string

definition shown_len :: "(json \<Rightarrow> string) \<Rightarrow> json \<Rightarrow> nat" where
  "shown_len render o' = length (py_str render o')"

definition mean_len :: "(json \<Rightarrow> string) \<Rightarrow> json list \<Rightarrow> rat" where
  "mean_len render xs = of_nat (sum_list (map (shown_len render) xs)) / of_nat (length xs)"

definition max_of :: "nat list \<Rightarrow> nat" where "max_of ns = fold max ns 0"
definition min_of :: "nat list \<Rightarrow> nat" where "min_of ns = (case ns of [] \<Rightarrow> 0 | n # ms \<Rightarrow> fold min ms n)"

definition balance_item_of :: "(json \<Rightarrow> string) \<Rightarrow> dict \<Rightarrow> balance_item option" where
  "balance_item_of render q =
     (if get_or q ''type'' JNull = JStr ''truefalse'' then None
      else case (get_or q ''options'' JNull, get_or q ''correct'' JNull) of
        (JArr opts, JArr correct) \<Rightarrow>
          (let chosen = filter (\<lambda>o'. py_in o' correct) opts; distractors = filter (\<lambda>o'. \<not> py_in o' correct) opts;
               lengths = map (shown_len render) opts; answer = shown_len render (hd chosen);
               single = (get_or q ''type'' JNull \<noteq> JStr ''multi'')
           in if length opts < 2 \<or> correct = [] \<or> chosen = [] \<or> distractors = [] then None
              else Some \<lparr>bi_ratio = (if mean_len render distractors \<noteq> 0 then Some (mean_len render chosen / mean_len render distractors) else None),
                         bi_longest = (single \<and> count_list lengths (max_of lengths) = 1 \<and> answer = max_of lengths),
                         bi_shortest = (single \<and> count_list lengths (min_of lengths) = 1 \<and> answer = min_of lengths),
                         bi_id = py_str render (get_or q ''id'' JNull)\<rparr>)
      | _ \<Rightarrow> None)"

definition balance_items :: "(json \<Rightarrow> string) \<Rightarrow> dict list \<Rightarrow> balance_item list" where
  "balance_items render qs = List.map_filter (balance_item_of render) qs"

text \<open>\<open>_balance_stats\<close>.\<close>

definition balance_stats :: "(json \<Rightarrow> string) \<Rightarrow> dict list \<Rightarrow> nat \<times> string list \<times> string list \<times> rat list" where
  "balance_stats render qs =
     (let items = balance_items render qs
      in (length items, map bi_id (filter bi_longest items), map bi_id (filter bi_shortest items), List.map_filter bi_ratio items))"

definition mean_of :: "rat list \<Rightarrow> rat" where
  "mean_of rs = sum_list rs / of_nat (length rs)"

definition balance_violations :: "(json \<Rightarrow> string) \<Rightarrow> dict list \<Rightarrow> string \<Rightarrow> violation list" where
  "balance_violations render qs scope =
     (case balance_stats render qs of (sample, longest, shortest, ratios) \<Rightarrow>
        if sample < MIN_BALANCE_SAMPLE then []
        else concat (map (\<lambda>(label, ids). if of_nat (length ids) / of_nat sample > MAX_EXTREME_SHARE
                                          then [ExtremeShare scope label (length ids) sample (take 8 ids)] else [])
                       [(''longest'', longest), (''shortest'', shortest)])
             @ (if ratios \<noteq> [] \<and> \<not> (1 / MAX_LENGTH_RATIO \<le> mean_of ratios \<and> mean_of ratios \<le> MAX_LENGTH_RATIO)
                then [LengthRatio scope (mean_of ratios)] else []))"

section \<open>The linter\<close>

definition rubric_of :: "dict \<Rightarrow> json" where
  "rubric_of q = get_or q ''rubric_category'' JNull"

text \<open>\<open>cat in _TARGET\<close>: an unhashable value raises.\<close>

definition known_rubric :: "json \<Rightarrow> bool bank_result" where
  "known_rubric cat = (case hash_key cat of None \<Rightarrow> Inl BankTypeError | Some k \<Rightarrow> Inr (k \<in> (KStr \<circ> fst) ` set TARGET))"

definition is_text :: "json \<Rightarrow> bool" where
  "is_text v = (case v of JStr _ \<Rightarrow> True | _ \<Rightarrow> False)"

definition choice_violations :: "dict \<Rightarrow> violation list bank_result" where
  "choice_violations q =
     and_then (py_iter (get_or q ''options'' (JArr []))) (\<lambda>opts.
       let malformed = filter (\<lambda>o'. \<not> is_text o') opts; i = get_or q ''id'' JNull
       in if malformed \<noteq> [] then Inr [OptionNotText i (hd malformed)]
          else and_then (py_iter (get_or q ''correct'' (JArr []))) (\<lambda>correct.
                 if list_ex (\<lambda>c. hash_key c = None) correct then Inl BankTypeError
                 else Inr (map (CorrectNotInOptions i) (filter (\<lambda>c. \<not> py_in c opts) correct))))"

definition question_violations :: "dict \<Rightarrow> violation list bank_result" where
  "question_violations q =
     and_then (known_rubric (rubric_of q)) (\<lambda>known.
       let i = get_or q ''id'' JNull; qtype = get_or q ''type'' JNull
       in if \<not> known then Inr [InvalidRubric i (rubric_of q)]
          else if qtype = JStr ''numeric'' then
            Inr (if py_float (get_or q ''correct'' (JStr '''')) = None then [NumericNotNumber i] else [])
          else if qtype = JStr ''short_text'' then
            Inr (case get_or q ''correct'' (JArr []) of JArr (_ # _) \<Rightarrow> [] | _ \<Rightarrow> [ShortTextEmpty i])
          else if qtype \<noteq> JStr ''truefalse'' then choice_violations q
          else Inr [])"

definition rubric_share :: "dict list \<Rightarrow> string \<Rightarrow> rat" where
  "rubric_share qs cat = of_nat (count_rows (\<lambda>q. rubric_of q = JStr cat) qs) / of_nat (length qs)"

definition mix_violations :: "dict list \<Rightarrow> violation list" where
  "mix_violations qs =
     concat (map (\<lambda>(cat, target). if \<bar>rubric_share qs cat - target\<bar> > TOL + EPSILON
                                   then [RubricMixOff cat (rubric_share qs cat)] else []) TARGET)"

text \<open>The questions of each competency, in the order of the competencies' names.\<close>

definition competency_groups :: "(json \<Rightarrow> string) \<Rightarrow> dict list \<Rightarrow> (string \<times> dict list) list" where
  "competency_groups render qs =
     sort_key fst (map (\<lambda>(k, g). (the k, g))
       (group_rows (competency_of render) (filter (\<lambda>q. competency_of render q \<noteq> None \<and> competency_of render q \<noteq> Some '''') qs)))"

definition lint_bank :: "(json \<Rightarrow> string) \<Rightarrow> bank_doc \<Rightarrow> violation list bank_result" where
  "lint_bank render doc =
     (if bd_questions doc = [] then Inr [NoQuestions]
      else and_then (each question_violations (bd_questions doc)) (\<lambda>per_question.
        let groups = competency_groups render (bd_questions doc) in
        and_then (policy_violations doc) (\<lambda>policy.
        Inr (concat per_question
             @ mix_violations (bd_questions doc)
             @ balance_violations render (bd_questions doc) ''''
             @ (if length groups > 1 then concat (map (\<lambda>(c, g). balance_violations render g c) groups) else [])
             @ policy))))"

section \<open>Edits that balance a question\<close>

record distractor =
  ds_text :: json
  ds_now :: nat
  ds_target :: int

record target_row =
  tg_id :: json
  tg_answer_len :: nat
  tg_distractors :: "distractor list"

definition SPREAD :: "rat list" where
  "SPREAD = [118 / 100, 1, 84 / 100, 92 / 100, 110 / 100]"

fun len_sized :: "json \<Rightarrow> nat bank_result" where
  "len_sized (JStr s) = Inr (length s)"
| "len_sized (JArr xs) = Inr (length xs)"
| "len_sized (JObj kvs) = Inr (length kvs)"
| "len_sized _ = Inl BankTypeError"

text \<open>\<open>(q.get("correct") or [None])[0]\<close>.\<close>

definition first_correct :: "dict \<Rightarrow> json bank_result" where
  "first_correct q =
     (let v = get_or q ''correct'' JNull in
      if \<not> truthy v then Inr JNull
      else (case v of JArr (x # _) \<Rightarrow> Inr x | JStr (c # _) \<Rightarrow> Inr (JStr [c]) | _ \<Rightarrow> Inl BankTypeError))"

definition target_of :: "dict \<Rightarrow> target_row option bank_result" where
  "target_of q =
     and_then (let v = get_or q ''options'' JNull in if truthy v then py_iter v else Inr []) (\<lambda>opts.
     and_then (first_correct q) (\<lambda>correct.
       case correct of
         JStr c \<Rightarrow>
           (let distractors = filter (\<lambda>o'. \<not> py_eq o' correct) opts; a = length c
            in if length opts < 3 \<or> length distractors < 2 then Inr None
               else and_then (each (\<lambda>o'. and_then (len_sized o') (\<lambda>n. Inr (o', n))) distractors) (\<lambda>sized.
                 let ordered = sort_key snd sized; longest = snd (last ordered); shortest = snd (hd ordered);
                     targets = map (\<lambda>f. max 8 (py_round (of_nat a * f))) (take (length distractors) SPREAD)
                 in if \<not> (a > longest \<or> a < shortest) then Inr None
                    else Inr (Some \<lparr>tg_id = get_or q ''id'' JNull, tg_answer_len = a,
                           tg_distractors = map (\<lambda>((o', n), t). \<lparr>ds_text = o', ds_now = n, ds_target = t\<rparr>) (zip ordered (sort targets))\<rparr>)))
       | _ \<Rightarrow> Inr None))"

definition balance_targets :: "bank_doc \<Rightarrow> target_row list bank_result" where
  "balance_targets doc = and_then (each target_of (bd_questions doc)) (\<lambda>rows. Inr (List.map_filter id rows))"

definition HEDGES :: "string list" where
  "HEDGES = ['', in practice'', '', as a general rule'', '', in most ordinary cases'', '', which is the usual assumption here'',
     '', at least as it is normally understood on site'', '', which is what most people would reasonably expect to happen'']"

record proposal =
  pp_id :: json
  pp_option :: json
  pp_needed :: nat
  pp_suggestion :: "string option"
  pp_note :: bool

text \<open>\<open>max(..., key=now)\<close>: the first of the longest.\<close>

fun longest_of :: "distractor \<Rightarrow> distractor list \<Rightarrow> distractor" where
  "longest_of d [] = d"
| "longest_of d (e # es) = (if ds_now e > ds_now d then longest_of e es else longest_of d es)"

definition strip_dots :: "string \<Rightarrow> string" where
  "strip_dots s = rev (dropWhile (\<lambda>c. c = CHR ''.'') (rev s))"

text \<open>The edit for one row; a note stands for the advice to rewrite by hand. Only text has \<open>rstrip\<close>.\<close>

definition proposal_of :: "target_row \<Rightarrow> proposal option bank_result" where
  "proposal_of row =
     (case tg_distractors row of
        [] \<Rightarrow> Inr None
      | d # ds \<Rightarrow>
          let longest = longest_of d ds; needed = tg_answer_len row - ds_now longest + 1
          in if ds_now longest > tg_answer_len row then Inr None
             else (case find (\<lambda>h. length h \<ge> needed) HEDGES of
                 None \<Rightarrow> Inr (Some \<lparr>pp_id = tg_id row, pp_option = ds_text longest, pp_needed = needed, pp_suggestion = None, pp_note = True\<rparr>)
               | Some hedge \<Rightarrow> (case ds_text longest of
                     JStr t \<Rightarrow> Inr (Some \<lparr>pp_id = tg_id row, pp_option = ds_text longest, pp_needed = needed,
                                       pp_suggestion = Some (strip_dots t @ hedge), pp_note = False\<rparr>)
                   | _ \<Rightarrow> Inl AttributeError)))"

definition propose_balance :: "bank_doc \<Rightarrow> proposal list bank_result" where
  "propose_balance doc =
     and_then (balance_targets doc) (\<lambda>rows. and_then (each proposal_of rows) (\<lambda>ps. Inr (List.map_filter id ps)))"

section \<open>The command\<close>

text \<open>The verdict of a run over the bank files: the exit code and how many passed. A file that raises is a failure.\<close>

definition lint_main :: "(json \<Rightarrow> string) \<Rightarrow> (string \<Rightarrow> json) \<Rightarrow> string list \<Rightarrow> int \<times> nat" where
  "lint_main render yaml texts =
     (if texts = [] then (2, 0)
      else let failed = count_rows (\<lambda>t. and_then (parse_bank yaml t) (lint_bank render) \<noteq> Inr []) texts
           in (if failed > 0 then 1 else 0, length texts - failed))"

end
