(* ===== verification/Bank_Loader.thy ===== *)
theory Bank_Loader
  imports Bank_Lint
begin

text \<open>
  Question banks in the database (\<open>services/bank_loader.py\<close>) and the commands that load and audit them
  (\<open>load-banks\<close> and \<open>audit-banks\<close> of \<open>cli.py\<close>). A file that cannot be parsed, a value a column refuses
  and a repeated question id end the command; what was committed for earlier files stays.
\<close>

section \<open>Loading\<close>

definition bank_questions :: "library \<Rightarrow> uuid \<Rightarrow> uuid \<Rightarrow> question_row list" where
  "bank_questions l tenant bank =
     sort_key eq_ext_id (filter (\<lambda>q. qu_tenant q = tenant \<and> qu_bank q = bank) (questions (lib_db l)))"

definition dict_of_question :: "library \<Rightarrow> question_row \<Rightarrow> dict" where
  "dict_of_question l q =
     (let t = question_text_of l (qu_bank q, eq_ext_id q)
      in [(''id'', JStr (eq_ext_id q)), (''stem'', JStr (qx_stem t)), (''type'', JStr (qu_type q)), (''options'', eq_options q),
          (''correct'', qu_correct q), (''rubric_category'', JStr (qx_rubric t)),
          (''category'', case eq_category q of None \<Rightarrow> JNull | Some c \<Rightarrow> JStr c), (''explanation'', JStr (qx_explanation t)),
          (''weight'', JInt (qu_weight q))])"

definition doc_from_db :: "library \<Rightarrow> bank_row \<Rightarrow> string \<Rightarrow> bank_doc" where
  "doc_from_db l bank slug =
     \<lparr>bd_course = slug, bd_chapter = bk_chapter bank, bd_kind = bk_kind bank, bd_version = bk_version bank,
      bd_questions = map (dict_of_question l) (bank_questions l (bk_tenant bank) (bk_id bank)), bd_policy = []\<rparr>"

text \<open>The row and the text of one question of a document.\<close>

definition question_of :: "(json \<Rightarrow> string) \<Rightarrow> uuid \<Rightarrow> uuid \<Rightarrow> dict \<Rightarrow> (question_row \<times> question_text) bank_result" where
  "question_of render tenant bank q =
     and_then (and_then (key_of q ''id'') text_of) (\<lambda>i.
     and_then (and_then (key_of q ''stem'') text_of) (\<lambda>stem.
     and_then (and_then (key_of q ''type'') text_of) (\<lambda>qtype.
     and_then (and_then (key_of q ''rubric_category'') text_of) (\<lambda>rubric.
     and_then (text_of (get_or q ''explanation'' (JStr ''''))) (\<lambda>explanation.
     and_then (int_of (get_or q ''weight'' (JInt 1))) (\<lambda>weight.
       Inr (\<lparr>eq_ext_id = i, eq_category = competency_of render q, eq_options = get_or q ''options'' (JArr []),
             qu_tenant = tenant, qu_bank = bank, qu_type = qtype, qu_correct = get_or q ''correct'' (JArr []), qu_weight = weight\<rparr>,
            \<lparr>qx_stem = stem, qx_rubric = rubric, qx_explanation = explanation\<rparr>)))))))"

definition find_bank :: "library \<Rightarrow> uuid \<Rightarrow> uuid \<Rightarrow> bank_doc \<Rightarrow> bank_row option" where
  "find_bank l tenant course doc =
     find (\<lambda>b. bk_tenant b = tenant \<and> bk_course b = course \<and> bk_chapter b = bd_chapter doc \<and> bk_kind b = bd_kind doc) (banks l)"

text \<open>The bank row of the document: the existing one with its version set and its questions deleted, or a new one.\<close>

definition upsert_bank :: "library \<Rightarrow> uuid \<Rightarrow> uuid \<Rightarrow> bank_doc \<Rightarrow> library \<times> bank_row" where
  "upsert_bank l tenant course doc =
     (case find_bank l tenant course doc of
        None \<Rightarrow>
          (let b = \<lparr>bk_id = next_id (lib_db l), bk_tenant = tenant, bk_course = course, bk_chapter = bd_chapter doc,
                    bk_kind = bd_kind doc, bk_version = bd_version doc\<rparr>
           in (with_db (\<lambda>db. db\<lparr>next_id := Suc (next_id db)\<rparr>) (l\<lparr>banks := banks l @ [b]\<rparr>), b))
      | Some b \<Rightarrow>
          (with_db (\<lambda>db. db\<lparr>questions := filter (\<lambda>q. qu_bank q \<noteq> bk_id b) (questions db)\<rparr>)
             (l\<lparr>banks := update_rows (\<lambda>r. r = b) (\<lambda>r. r\<lparr>bk_version := bd_version doc\<rparr>) (banks l)\<rparr>),
           b\<lparr>bk_version := bd_version doc\<rparr>))"

definition add_question :: "question_row \<times> question_text \<Rightarrow> library \<Rightarrow> library" where
  "add_question = (\<lambda>(q, t) l.
     with_db (\<lambda>db. db\<lparr>questions := questions db @ [q]\<rparr>)
       (l\<lparr>question_text_of := (question_text_of l)((qu_bank q, eq_ext_id q) := t)\<rparr>))"

definition load_bank :: "(json \<Rightarrow> string) \<Rightarrow> library \<Rightarrow> uuid \<Rightarrow> uuid \<Rightarrow> bank_doc \<Rightarrow> (library \<times> bank_row) bank_result" where
  "load_bank render l tenant course doc =
     (case upsert_bank l tenant course doc of (l1, b) \<Rightarrow>
        and_then (each (question_of render tenant (bk_id b)) (bd_questions doc)) (\<lambda>rows.
          if distinct (map (eq_ext_id \<circ> fst) rows) then Inr (fold add_question rows l1, b) else Inl BankIntegrityError))"

section \<open>The activity of a bank\<close>

definition default_threshold :: "string \<Rightarrow> rat" where
  "default_threshold kind = (if kind = ''mid'' then 60 / 100 else if kind = ''final'' then 70 / 100 else 0)"

definition upper_char :: "char \<Rightarrow> char" where
  "upper_char c = (let n = of_char c :: nat in if 97 \<le> n \<and> n \<le> 122 then char_of (n - 32) else c)"

definition is_letter :: "char \<Rightarrow> bool" where
  "is_letter c = (let n = of_char c :: nat in 65 \<le> n \<and> n \<le> 90 \<or> 97 \<le> n \<and> n \<le> 122)"

text \<open>\<open>str.title\<close> on ASCII text; the flag tells that the previous character is a letter.\<close>

fun py_title :: "bool \<Rightarrow> string \<Rightarrow> string" where
  "py_title inside [] = []"
| "py_title inside (c # s) = (if inside then py_lower_char c else upper_char c) # py_title (is_letter c) s"

definition bank_title :: "bank_doc \<Rightarrow> string" where
  "bank_title doc =
     (if bd_kind doc = ''chapter''
      then ''Chapter '' @ (case bd_chapter doc of None \<Rightarrow> ''None'' | Some n \<Rightarrow> show_int n) @ '' test''
      else py_title False (bd_kind doc) @ '' assessment'')"

text \<open>What an integer column and the columns that are not nullable accept.\<close>

fun int_column :: "json \<Rightarrow> int option bank_result" where
  "int_column JNull = Inr None"
| "int_column (JInt i) = Inr (Some i)"
| "int_column _ = Inl BankTypeError"

fun required_text :: "json \<Rightarrow> string bank_result" where
  "required_text (JStr s) = Inr s"
| "required_text JNull = Inl BankIntegrityError"
| "required_text _ = Inl BankTypeError"

fun required_number :: "json \<Rightarrow> rat bank_result" where
  "required_number (JInt i) = Inr (rat_of_int i)"
| "required_number (JFloat r) = Inr r"
| "required_number JNull = Inl BankIntegrityError"
| "required_number _ = Inl BankTypeError"

definition when_declared :: "dict \<Rightarrow> string \<Rightarrow> (json \<Rightarrow> 'a bank_result) \<Rightarrow> 'a \<Rightarrow> 'a bank_result" where
  "when_declared policy key column old = (case obj_get policy key of None \<Rightarrow> Inr old | Some v \<Rightarrow> column v)"

definition new_bank_activity :: "uuid \<Rightarrow> uuid \<Rightarrow> bank_row \<Rightarrow> uuid \<Rightarrow> bank_doc \<Rightarrow> activity_row" where
  "new_bank_activity tenant course bank i doc =
     \<lparr>act_id = i, act_tenant = tenant, act_course = course, act_chapter = bd_chapter doc, act_type = ''mcq_test'',
      act_bank = Some (bk_id bank), act_title = bank_title doc, act_pass_threshold = 0, act_max_attempts = None,
      act_mode = ''graded'', act_grading = ''auto'', act_weight = 1, act_question_count = None\<rparr>"

definition apply_policy :: "bank_doc \<Rightarrow> activity_row \<Rightarrow> activity_row bank_result" where
  "apply_policy doc a =
     (let policy = bd_policy doc in
      and_then (when_declared policy ''pass_threshold'' required_number (default_threshold (bd_kind doc))) (\<lambda>threshold.
      and_then (when_declared policy ''pool'' int_column (act_question_count a)) (\<lambda>pool.
      and_then (when_declared policy ''max_attempts'' int_column (act_max_attempts a)) (\<lambda>attempts.
      and_then (when_declared policy ''mode'' required_text (act_mode a)) (\<lambda>mode.
        Inr (a\<lparr>act_title := bank_title doc, act_pass_threshold := threshold, act_question_count := pool,
               act_max_attempts := attempts, act_mode := mode\<rparr>))))))"

definition upsert_bank_activity :: "library \<Rightarrow> uuid \<Rightarrow> uuid \<Rightarrow> bank_row \<Rightarrow> bank_doc \<Rightarrow> library bank_result" where
  "upsert_bank_activity l tenant course bank doc =
     (case find (\<lambda>a. act_tenant a = tenant \<and> act_course a = course \<and> act_bank a = Some (bk_id bank)) (activities (lib_db l)) of
        None \<Rightarrow>
          and_then (apply_policy doc (new_bank_activity tenant course bank (next_id (lib_db l)) doc)) (\<lambda>a.
            Inr (with_db (\<lambda>db. db\<lparr>activities := activities db @ [a], next_id := Suc (next_id db)\<rparr>) l))
      | Some old \<Rightarrow>
          and_then (apply_policy doc old) (\<lambda>a.
            Inr (with_db (\<lambda>db. db\<lparr>activities := update_rows (\<lambda>r. r = old) (\<lambda>_. a) (activities db)\<rparr>) l)))"

section \<open>The commands\<close>

definition course_by_slug :: "library \<Rightarrow> uuid \<Rightarrow> string \<Rightarrow> course_row option" where
  "course_by_slug l tenant slug = find (\<lambda>c. co_tenant c = tenant \<and> course_slug l (co_id c) = slug) (courses (lib_db l))"

text \<open>One file: nothing for a bank with violations or an unknown course.\<close>

definition load_file :: "(json \<Rightarrow> string) \<Rightarrow> (string \<Rightarrow> json) \<Rightarrow> uuid \<Rightarrow> string \<Rightarrow> library \<Rightarrow> (library \<times> bool) bank_result" where
  "load_file render yaml tenant text l =
     and_then (parse_bank yaml text) (\<lambda>doc.
     and_then (lint_bank render doc) (\<lambda>violations.
       if violations \<noteq> [] then Inr (l, False)
       else (case course_by_slug l tenant (bd_course doc) of
               None \<Rightarrow> Inr (l, False)
             | Some c \<Rightarrow>
                 and_then (load_bank render l tenant (co_id c) doc) (\<lambda>(l1, bank).
                 and_then (upsert_bank_activity l1 tenant (co_id c) bank doc) (\<lambda>l2. Inr (l2, True))))))"

text \<open>The files in order: the library as committed, and the number loaded or the error that ended the command.\<close>

fun load_banks ::
    "(json \<Rightarrow> string) \<Rightarrow> (string \<Rightarrow> json) \<Rightarrow> uuid \<Rightarrow> string list \<Rightarrow> library \<Rightarrow> nat \<Rightarrow> library \<times> nat bank_result" where
  "load_banks render yaml tenant [] l loaded = (l, Inr loaded)"
| "load_banks render yaml tenant (text # texts) l loaded =
     (case load_file render yaml tenant text l of
        Inl e \<Rightarrow> (l, Inl e)
      | Inr (l', ok) \<Rightarrow> load_banks render yaml tenant texts l' (if ok then Suc loaded else loaded))"

definition audited_banks :: "library \<Rightarrow> uuid \<Rightarrow> string option \<Rightarrow> string option \<Rightarrow> (bank_row \<times> course_row) list" where
  "audited_banks l tenant discipline slug =
     sort_key (\<lambda>(b, c). (cm_discipline (course_meta_of l (co_id c)), course_slug l (co_id c), bk_chapter b = None,
                        case bk_chapter b of None \<Rightarrow> 0 | Some n \<Rightarrow> n))
       [(b, c). b \<leftarrow> banks l, c \<leftarrow> courses (lib_db l),
          co_id c = bk_course b \<and> bk_tenant b = tenant
          \<and> (or_empty discipline = '''' \<or> Some (cm_discipline (course_meta_of l (co_id c))) = discipline)
          \<and> (or_empty slug = '''' \<or> Some (course_slug l (co_id c)) = slug)]"

text \<open>The violations of every audited bank, and the exit code.\<close>

definition audit_banks ::
    "(json \<Rightarrow> string) \<Rightarrow> library \<Rightarrow> uuid \<Rightarrow> string option \<Rightarrow> string option \<Rightarrow> bool \<Rightarrow> ((uuid \<times> violation list) list \<times> int) bank_result" where
  "audit_banks render l tenant discipline slug fail_on_violations =
     and_then (each (\<lambda>(b, c). and_then (lint_bank render (doc_from_db l b (course_slug l (co_id c)))) (\<lambda>v. Inr (bk_id b, v)))
                 (audited_banks l tenant discipline slug)) (\<lambda>report.
       Inr (report, if list_ex (\<lambda>(_, v). v \<noteq> []) report \<and> fail_on_violations then 1 else 0))"

end
