(* ===== verification/Bank_Properties.thy ===== *)
theory Bank_Properties
  imports Bank_Loader
begin

text \<open>
  What a clean bank guarantees, the agreement of the loader's gate with the audit of the stored banks, and
  three places where the rules do not say what they mean to.
\<close>

section \<open>The linter as a conjunction\<close>

lemma each_concat: "(\<exists>ys. each f xs = Inr ys \<and> concat ys = []) \<longleftrightarrow> (\<forall>x \<in> set xs. f x = Inr [])"
  by (induction xs) (auto simp: and_then_eq_Inr)

lemma each_set: "each f xs = Inr ys \<Longrightarrow> list_all2 (\<lambda>x y. f x = Inr y) xs ys"
  by (induction xs arbitrary: ys) (auto simp: and_then_eq_Inr)

lemma lint_clean:
  "lint_bank render doc = Inr [] \<longleftrightarrow>
     bd_questions doc \<noteq> [] \<and> (\<forall>q \<in> set (bd_questions doc). question_violations q = Inr [])
     \<and> mix_violations (bd_questions doc) = [] \<and> balance_violations render (bd_questions doc) '''' = []
     \<and> (length (competency_groups render (bd_questions doc)) > 1 \<longrightarrow>
          (\<forall>(c, g) \<in> set (competency_groups render (bd_questions doc)). balance_violations render g c = []))
     \<and> policy_violations doc = Inr []"
  unfolding each_concat [symmetric]
  by (auto simp: lint_bank_def Let_def and_then_eq_Inr)

lemma mix_clean:
  "mix_violations qs = [] \<longleftrightarrow> (\<forall>(cat, target) \<in> set TARGET. \<bar>rubric_share qs cat - target\<bar> \<le> TOL + EPSILON)"
  by (auto simp: mix_violations_def not_less split: if_splits)

lemma known_rubric_text: "known_rubric v = Inr True \<Longrightarrow> \<exists>cat \<in> fst ` set TARGET. v = JStr cat"
  by (cases v) (auto simp: known_rubric_def TARGET_def image_iff split: option.splits)

lemma question_rubric: "question_violations q = Inr [] \<Longrightarrow> known_rubric (rubric_of q) = Inr True"
  by (auto simp: question_violations_def and_then_eq_Inr Let_def split: if_splits)

definition is_choice :: "dict \<Rightarrow> string \<Rightarrow> bool" where
  "is_choice q qtype = (get_or q ''type'' JNull = JStr qtype \<and> qtype \<notin> {''numeric'', ''short_text'', ''truefalse''})"

lemma hashable_set: "\<forall>c \<in> set cs. hash_key c \<noteq> None \<Longrightarrow> \<exists>ks. py_set cs = Inr ks"
  by (induction cs) auto

lemma choice_clean:
  assumes "question_violations q = Inr []" "is_choice q qtype" "get_or q ''correct'' (JArr []) = JArr cs"
  shows "\<exists>opts. py_iter (get_or q ''options'' (JArr [])) = Inr opts \<and> (\<forall>c \<in> set cs. py_in c opts)"
    and "is_correct fm rd qtype cs cs o' = Inr True"
proof -
  have v: "choice_violations q = Inr []"
    using assms(1,2) question_rubric [OF assms(1)] by (auto simp: question_violations_def is_choice_def Let_def)
  then show "\<exists>opts. py_iter (get_or q ''options'' (JArr [])) = Inr opts \<and> (\<forall>c \<in> set cs. py_in c opts)"
    by (auto simp: choice_violations_def and_then_eq_Inr Let_def assms(3) filter_empty_conv split: if_splits)
  have "\<forall>c \<in> set cs. hash_key c \<noteq> None"
    using v by (auto simp: choice_violations_def and_then_eq_Inr Let_def assms(3) list_ex_iff split: if_splits)
  then obtain ks where "py_set cs = Inr ks" using hashable_set by blast
  then show "is_correct fm rd qtype cs cs o' = Inr True" using assms(2) by (simp add: is_correct_def is_choice_def)
qed

lemma numeric_clean:
  assumes "question_violations q = Inr []" "get_or q ''type'' JNull = JStr ''numeric''"
  shows "\<exists>f. py_float (get_or q ''correct'' (JStr '''')) = Some f
     \<and> (f \<noteq> NaN \<and> option_key o' ''tolerance'' = None \<longrightarrow>
          grade_numeric [get_or q ''correct'' (JStr '''')] [get_or q ''correct'' (JStr '''')] o')"
proof -
  have "py_float (get_or q ''correct'' (JStr '''')) \<noteq> None"
    using assms question_rubric [OF assms(1)] by (auto simp: question_violations_def Let_def split: if_splits)
  then obtain f where "py_float (get_or q ''correct'' (JStr '''')) = Some f" by blast
  then show ?thesis by (auto simp: grade_numeric_def flt_eq_refl_iff)
qed

lemma balance_clean:
  assumes "balance_violations render qs scope = []" "length (balance_items render qs) \<ge> MIN_BALANCE_SAMPLE"
  shows "5 * length (filter bi_longest (balance_items render qs)) \<le> 2 * length (balance_items render qs)"
    and "5 * length (filter bi_shortest (balance_items render qs)) \<le> 2 * length (balance_items render qs)"
proof -
  have *: "5 * k \<le> 2 * n" if "\<not> (of_nat k / of_nat n > MAX_EXTREME_SHARE)" "n \<ge> MIN_BALANCE_SAMPLE" for k n :: nat
  proof -
    have "of_nat k / of_nat n \<le> (2 / 5 :: rat)" using that(1) by (simp add: MAX_EXTREME_SHARE_def)
    then have "5 * of_nat k \<le> (2 * of_nat n :: rat)" using that(2) by (simp add: MIN_BALANCE_SAMPLE_def divide_le_eq)
    then show ?thesis by (metis of_nat_le_iff of_nat_mult of_nat_numeral)
  qed
  show "5 * length (filter bi_longest (balance_items render qs)) \<le> 2 * length (balance_items render qs)"
    "5 * length (filter bi_shortest (balance_items render qs)) \<le> 2 * length (balance_items render qs)"
    using assms by (auto simp: balance_violations_def balance_stats_def Let_def intro!: * split: if_splits)
qed

section \<open>The rules do not depend on the order of the questions\<close>

lemma mset_map_filter: "mset (List.map_filter f xs) = image_mset (the \<circ> f) (filter_mset (\<lambda>x. f x \<noteq> None) (mset xs))"
  by (induction xs) (auto simp: List.map_filter_simps)

lemma items_mset: "mset xs = mset ys \<Longrightarrow> mset (balance_items render xs) = mset (balance_items render ys)"
  by (simp add: balance_items_def mset_map_filter)

lemma count_filter_mset: "mset xs = mset ys \<Longrightarrow> length (filter P xs) = length (filter P ys)"
  by (metis mset_filter size_mset)

lemma mean_mset: "mset xs = mset ys \<Longrightarrow> mean_of xs = mean_of ys"
  unfolding mean_of_def by (metis size_mset sum_mset_sum_list)

definition balanced :: "nat \<Rightarrow> nat \<Rightarrow> nat \<Rightarrow> rat list \<Rightarrow> bool" where
  "balanced sample longest shortest ratios =
     (sample < MIN_BALANCE_SAMPLE
      \<or> of_nat longest / of_nat sample \<le> MAX_EXTREME_SHARE \<and> of_nat shortest / of_nat sample \<le> MAX_EXTREME_SHARE
         \<and> (ratios = [] \<or> 1 / MAX_LENGTH_RATIO \<le> mean_of ratios \<and> mean_of ratios \<le> MAX_LENGTH_RATIO))"

lemma balance_nil:
  "balance_violations render qs c = [] \<longleftrightarrow>
     balanced (length (balance_items render qs)) (length (filter bi_longest (balance_items render qs)))
       (length (filter bi_shortest (balance_items render qs))) (List.map_filter bi_ratio (balance_items render qs))"
  unfolding balance_violations_def balance_stats_def Let_def balanced_def by (simp add: not_less)

lemma balance_order:
  assumes "mset (balance_items render xs) = mset (balance_items render ys)" "balance_violations render xs c = []"
  shows "balance_violations render ys c' = []"
proof -
  let ?r = "\<lambda>zs. List.map_filter bi_ratio (balance_items render zs)"
  have r: "mset (?r xs) = mset (?r ys)" by (simp add: mset_map_filter assms(1))
  have nil: "(?r xs = []) = (?r ys = [])" unfolding length_0_conv [symmetric] mset_eq_length [OF r] ..
  show ?thesis
    using assms(2) unfolding balance_nil balanced_def nil mean_mset [OF r] mset_eq_length [OF assms(1)] count_filter_mset [OF assms(1)] .
qed

lemma group_rows_keys: "distinct (map fst (group_rows key rows)) \<and> fst ` set (group_rows key rows) = key ` set rows"
proof -
  have "distinct (map fst (fold (add_to_group key) rows out)) \<and> fst ` set (fold (add_to_group key) rows out) = key ` set rows \<union> fst ` set out"
    if "distinct (map fst out)" for out
    using that
  proof (induction rows arbitrary: out)
    case (Cons r rows)
    have "distinct (map fst (add_to_group key r out))" using Cons.prems by (simp add: add_to_group_def distinct_update)
    moreover have "fst ` set (add_to_group key r out) = insert (key r) (fst ` set out)"
      by (simp add: add_to_group_def dom_update)
    ultimately show ?case using Cons.IH [of "add_to_group key r out"] by auto
  qed simp
  from this [of "[]"] show ?thesis by (simp add: group_rows_def)
qed

lemma group_rows_mem: "(k, g) \<in> set (group_rows key rows) \<Longrightarrow> g = filter (\<lambda>r. key r = k) rows"
  using group_rows_keys [of key rows] group_of_rows [of key rows k]
  by (simp add: group_of_def map_of_eq_Some_iff [THEN iffD2])

definition domains :: "(json \<Rightarrow> string) \<Rightarrow> dict list \<Rightarrow> string set" where
  "domains render qs = {c. c \<noteq> '''' \<and> Some c \<in> competency_of render ` set qs}"

definition in_domain :: "(json \<Rightarrow> string) \<Rightarrow> string \<Rightarrow> dict list \<Rightarrow> dict list" where
  "in_domain render c qs = filter (\<lambda>q. competency_of render q = Some c) qs"

lemma competency_groups_set:
  "set (competency_groups render qs) = (\<lambda>c. (c, in_domain render c qs)) ` domains render qs"
  "length (competency_groups render qs) = card (domains render qs)"
proof -
  let ?tagged = "filter (\<lambda>q. competency_of render q \<noteq> None \<and> competency_of render q \<noteq> Some '''') qs"
  let ?rows = "group_rows (competency_of render) ?tagged"
  note keys = group_rows_keys [of "competency_of render" ?tagged]
  have "competency_of render ` set ?tagged = Some ` domains render qs"
  proof (intro equalityI subsetI)
    fix k assume "k \<in> competency_of render ` set ?tagged"
    then obtain q where q: "q \<in> set qs" "k = competency_of render q" "k \<noteq> None" "k \<noteq> Some ''''" by auto
    then obtain c where c: "k = Some c" by blast
    then have "Some c \<in> competency_of render ` set qs" using q by (metis imageI)
    then have "c \<in> domains render qs" using c q(4) by (simp add: domains_def)
    then show "k \<in> Some ` domains render qs" using c by blast
  next
    fix k assume "k \<in> Some ` domains render qs"
    then obtain c q where "k = Some c" "c \<noteq> ''''" "q \<in> set qs" "competency_of render q = Some c"
      by (auto simp: domains_def) metis
    then show "k \<in> competency_of render ` set ?tagged" by force
  qed
  then have dom: "fst ` set ?rows = Some ` domains render qs" using keys by simp
  have group: "g = in_domain render c qs" if "(Some c, g) \<in> set ?rows" for c g
  proof -
    have "Some c \<in> fst ` set ?rows" using that by force
    then have "c \<noteq> ''''" unfolding dom by (auto simp: domains_def)
    then show ?thesis unfolding group_rows_mem [OF that] in_domain_def filter_filter by (intro filter_cong) auto
  qed
  show "set (competency_groups render qs) = (\<lambda>c. (c, in_domain render c qs)) ` domains render qs"
  proof (intro set_eqI iffI)
    fix x assume "x \<in> set (competency_groups render qs)"
    then obtain k g where x: "(k, g) \<in> set ?rows" "x = (the k, g)" by (auto simp: competency_groups_def)
    have "k \<in> fst ` set ?rows" using x(1) by force
    then obtain c where "k = Some c" "c \<in> domains render qs" unfolding dom by blast
    then show "x \<in> (\<lambda>c. (c, in_domain render c qs)) ` domains render qs" using x group by auto
  next
    fix x assume "x \<in> (\<lambda>c. (c, in_domain render c qs)) ` domains render qs"
    then obtain c where c: "c \<in> domains render qs" "x = (c, in_domain render c qs)" by blast
    have "Some c \<in> fst ` set ?rows" using c(1) unfolding dom by blast
    then obtain g where "(Some c, g) \<in> set ?rows" by force
    then have "x = (\<lambda>(k, g). (the k, g)) (Some c, g)" using group c(2) by simp
    then show "x \<in> set (competency_groups render qs)"
      unfolding competency_groups_def set_sort set_map using \<open>(Some c, g) \<in> set ?rows\<close> by (rule image_eqI)
  qed
  have "length (competency_groups render qs) = length (map fst ?rows)" unfolding competency_groups_def length_sort length_map ..
  also have "\<dots> = card (set (map fst ?rows))" using keys by (intro distinct_card [symmetric]) blast
  also have "\<dots> = card (domains render qs)" unfolding set_map dom by (rule card_image) simp
  finally show "length (competency_groups render qs) = card (domains render qs)" .
qed

text \<open>What the balance rules compare, without the counting of the linter: a question is \<open>comparable\<close> when it has at least two
  options, one of them a key and one not; its key is the \<open>sole_longest\<close> when the first key among its options is longer than
  every other option, and the \<open>sole_shortest\<close> when it is shorter.\<close>

definition comparable :: "dict \<Rightarrow> bool" where
  "comparable q \<longleftrightarrow>
     get_or q ''type'' JNull \<noteq> JStr ''truefalse'' \<and>
     (\<exists>opts keys. get_or q ''options'' JNull = JArr opts \<and> get_or q ''correct'' JNull = JArr keys
        \<and> (\<exists>x \<in> set opts. py_in x keys) \<and> (\<exists>x \<in> set opts. \<not> py_in x keys))"

definition sole_extreme :: "(nat \<Rightarrow> nat \<Rightarrow> bool) \<Rightarrow> (json \<Rightarrow> string) \<Rightarrow> dict \<Rightarrow> bool" where
  "sole_extreme cmp render q \<longleftrightarrow>
     comparable q \<and> get_or q ''type'' JNull \<noteq> JStr ''multi'' \<and>
     (\<exists>opts keys i. get_or q ''options'' JNull = JArr opts \<and> get_or q ''correct'' JNull = JArr keys
        \<and> i < length opts \<and> py_in (opts ! i) keys \<and> (\<forall>j < i. \<not> py_in (opts ! j) keys)
        \<and> (\<forall>j < length opts. j \<noteq> i \<longrightarrow> cmp (length (py_str render (opts ! j))) (length (py_str render (opts ! i)))))"

abbreviation sole_longest :: "(json \<Rightarrow> string) \<Rightarrow> dict \<Rightarrow> bool" where
  "sole_longest \<equiv> sole_extreme (<)"

abbreviation sole_shortest :: "(json \<Rightarrow> string) \<Rightarrow> dict \<Rightarrow> bool" where
  "sole_shortest \<equiv> sole_extreme (\<lambda>m n. n < m)"

lemma count_once:
  "i < length xs \<Longrightarrow> count_list xs (xs ! i) = 1 \<longleftrightarrow> (\<forall>j < length xs. j \<noteq> i \<longrightarrow> xs ! j \<noteq> xs ! i)"
proof (induction xs arbitrary: i)
  case (Cons x xs)
  show ?case
  proof (cases i)
    case 0
    then show ?thesis by (auto simp: count_list_0_iff in_set_conv_nth nth_Cons less_Suc_eq_0_disj split: nat.splits)
  next
    case (Suc k)
    with Cons.prems have k: "k < length xs" by simp
    have "x = xs ! k \<Longrightarrow> count_list xs (xs ! k) \<noteq> 0" using k by (simp add: count_list_0_iff)
    with Suc Cons.IH [OF k] show ?thesis by (auto simp: less_Suc_eq_0_disj)
  qed
qed simp

lemma fold_max_bounds: "fold max ns (k :: nat) \<ge> k \<and> (\<forall>n \<in> set ns. n \<le> fold max ns k) \<and> fold max ns k \<in> insert k (set ns)"
  by (induction ns arbitrary: k) (auto simp: max_def dest: spec split: if_splits, (metis le_trans nat_le_linear)+)

lemma fold_min_bounds: "fold min ns (k :: nat) \<le> k \<and> (\<forall>n \<in> set ns. fold min ns k \<le> n) \<and> fold min ns k \<in> insert k (set ns)"
  by (induction ns arbitrary: k) (auto simp: min_def dest: spec split: if_splits, (metis le_trans nat_le_linear)+)

lemma sole_max:
  "i < length ns \<Longrightarrow> (count_list ns (max_of ns) = 1 \<and> ns ! i = max_of ns) \<longleftrightarrow> (\<forall>j < length ns. j \<noteq> i \<longrightarrow> ns ! j < ns ! i)"
proof -
  assume i: "i < length ns"
  have le: "ns ! j \<le> max_of ns" if "j < length ns" for j using fold_max_bounds [of 0 ns] that by (simp add: max_of_def)
  have eq: "ns ! i = max_of ns" if "\<forall>j < length ns. j \<noteq> i \<longrightarrow> ns ! j < ns ! i"
  proof -
    have "n \<le> ns ! i" if "n \<in> set ns" for n
      using that \<open>\<forall>j < length ns. j \<noteq> i \<longrightarrow> ns ! j < ns ! i\<close> by (metis in_set_conv_nth less_imp_le order_refl)
    moreover have "max_of ns \<in> insert 0 (set ns)" using fold_max_bounds [of 0 ns] by (simp add: max_of_def)
    ultimately have "max_of ns \<le> ns ! i" by auto
    with le [OF i] show ?thesis by simp
  qed
  show ?thesis using count_once [OF i] le eq by (metis le_neq_implies_less less_irrefl)
qed

lemma sole_min:
  "i < length ns \<Longrightarrow> (count_list ns (min_of ns) = 1 \<and> ns ! i = min_of ns) \<longleftrightarrow> (\<forall>j < length ns. j \<noteq> i \<longrightarrow> ns ! i < ns ! j)"
proof -
  assume i: "i < length ns"
  then obtain m ms where ns: "ns = m # ms" by (cases ns) auto
  have le: "min_of ns \<le> ns ! j" if "j < length ns" for j
    using fold_min_bounds [of ms m] nth_mem [OF that] by (auto simp: min_of_def ns)
  have eq: "ns ! i = min_of ns" if "\<forall>j < length ns. j \<noteq> i \<longrightarrow> ns ! i < ns ! j"
  proof -
    have "min_of ns \<in> set ns" using fold_min_bounds [of ms m] by (auto simp: min_of_def ns)
    then have "ns ! i \<le> min_of ns" using that by (metis in_set_conv_nth less_imp_le order_refl)
    with le [OF i] show ?thesis by simp
  qed
  show ?thesis using count_once [OF i] le eq by (metis le_neq_implies_less less_irrefl)
qed

lemma hd_filter_first:
  "i < length xs \<Longrightarrow> P (xs ! i) \<Longrightarrow> \<forall>j < i. \<not> P (xs ! j) \<Longrightarrow> hd (filter P xs) = xs ! i"
proof (induction xs arbitrary: i)
  case (Cons x xs)
  then show ?case by (cases i) force+
qed simp

lemma balance_item_meaning:
  "balance_item_of render q \<noteq> None \<longleftrightarrow> comparable q"
  "balance_item_of render q = Some b \<Longrightarrow> (bi_longest b \<longleftrightarrow> sole_longest render q) \<and> (bi_shortest b \<longleftrightarrow> sole_shortest render q)"
proof -
  have two: "2 \<le> length opts" if "x \<in> set opts" "P x" "y \<in> set opts" "\<not> P y" for opts :: "json list" and P x y
    using that by (cases opts; cases "tl opts") auto
  show c: "balance_item_of render q \<noteq> None \<longleftrightarrow> comparable q"
    unfolding balance_item_of_def comparable_def
    by (auto simp: Let_def filter_empty_conv py_in_def split: json.split dest: two [where P = "\<lambda>x. list_ex (py_eq x) _"])
  assume b: "balance_item_of render q = Some b"
  with c have cq: "comparable q" by simp
  then obtain opts keys where o': "get_or q ''options'' JNull = JArr opts" "get_or q ''correct'' JNull = JArr keys"
    and x: "\<exists>x \<in> set opts. py_in x keys" unfolding comparable_def by blast
  define i where "i = (LEAST i. i < length opts \<and> py_in (opts ! i) keys)"
  from x have "\<exists>i. i < length opts \<and> py_in (opts ! i) keys" by (metis in_set_conv_nth)
  then have i: "i < length opts" "py_in (opts ! i) keys" unfolding i_def by (metis (mono_tags, lifting) LeastI_ex)+
  have first: "\<not> py_in (opts ! j) keys" if "j < i" for j
    using that i(1) not_less_Least [of j "\<lambda>i. i < length opts \<and> py_in (opts ! i) keys"] by (auto simp: i_def)
  have uniq: "k = i" if "k < length opts" "py_in (opts ! k) keys" "\<forall>j < k. \<not> py_in (opts ! j) keys" for k
    using that i first by (metis linorder_cases)
  let ?ls = "map (shown_len render) opts"
  have h: "shown_len render (hd (filter (\<lambda>o'. py_in o' keys) opts)) = ?ls ! i"
    using hd_filter_first [of i opts "\<lambda>o'. py_in o' keys"] i first by simp
  have il: "i < length ?ls" using i by simp
  have ext: "sole_extreme cmp render q \<longleftrightarrow> get_or q ''type'' JNull \<noteq> JStr ''multi'' \<and> (\<forall>j < length ?ls. j \<noteq> i \<longrightarrow> cmp (?ls ! j) (?ls ! i))" for cmp
  proof -
    have "sole_extreme cmp render q \<longleftrightarrow> get_or q ''type'' JNull \<noteq> JStr ''multi'' \<and>
        (\<exists>k. (k < length opts \<and> py_in (opts ! k) keys \<and> (\<forall>j < k. \<not> py_in (opts ! j) keys))
          \<and> (\<forall>j < length opts. j \<noteq> k \<longrightarrow> cmp (length (py_str render (opts ! j))) (length (py_str render (opts ! k)))))"
      unfolding sole_extreme_def using cq by (simp add: o' conj_assoc)
    also have "\<dots> \<longleftrightarrow> get_or q ''type'' JNull \<noteq> JStr ''multi'' \<and>
        (\<forall>j < length opts. j \<noteq> i \<longrightarrow> cmp (length (py_str render (opts ! j))) (length (py_str render (opts ! i))))"
      using i first uniq by blast
    also have "\<dots> \<longleftrightarrow> get_or q ''type'' JNull \<noteq> JStr ''multi'' \<and> (\<forall>j < length ?ls. j \<noteq> i \<longrightarrow> cmp (?ls ! j) (?ls ! i))"
      using i(1) by (simp add: shown_len_def)
    finally show ?thesis .
  qed
  show "(bi_longest b \<longleftrightarrow> sole_longest render q) \<and> (bi_shortest b \<longleftrightarrow> sole_shortest render q)"
    unfolding ext using b o' h sole_max [OF il] sole_min [OF il]
    by (auto simp: balance_item_of_def Let_def split: if_splits)
qed

definition not_guessable :: "(json \<Rightarrow> string) \<Rightarrow> dict list \<Rightarrow> bool" where
  "not_guessable render qs \<longleftrightarrow>
     (5 \<le> length (filter comparable qs) \<longrightarrow>
        5 * length (filter (sole_longest render) qs) \<le> 2 * length (filter comparable qs)
        \<and> 5 * length (filter (sole_shortest render) qs) \<le> 2 * length (filter comparable qs))"

lemma balance_counts:
  "length (balance_items render qs) = length (filter comparable qs)"
  "length (filter bi_longest (balance_items render qs)) = length (filter (sole_longest render) qs)"
  "length (filter bi_shortest (balance_items render qs)) = length (filter (sole_shortest render) qs)"
proof -
  have c: "sole_extreme cmp render q \<Longrightarrow> comparable q" for cmp q by (simp add: sole_extreme_def)
  have "length (balance_items render qs) = length (filter comparable qs)
    \<and> length (filter bi_longest (balance_items render qs)) = length (filter (sole_longest render) qs)
    \<and> length (filter bi_shortest (balance_items render qs)) = length (filter (sole_shortest render) qs)"
  proof (induction qs)
    case (Cons q qs)
    show ?case
    proof (cases "balance_item_of render q")
      case None
      then have "\<not> comparable q" using balance_item_meaning(1) [of render q] by simp
      with c have "\<not> sole_extreme cmp render q" for cmp by blast
      with None Cons \<open>\<not> comparable q\<close> show ?thesis by (simp add: balance_items_def List.map_filter_simps)
    next
      case (Some b)
      then have "comparable q" using balance_item_meaning(1) [of render q] by simp
      with Some Cons balance_item_meaning(2) [OF Some] show ?thesis by (simp add: balance_items_def List.map_filter_simps)
    qed
  qed (simp add: balance_items_def List.map_filter_simps)
  then show "length (balance_items render qs) = length (filter comparable qs)"
    "length (filter bi_longest (balance_items render qs)) = length (filter (sole_longest render) qs)"
    "length (filter bi_shortest (balance_items render qs)) = length (filter (sole_shortest render) qs)" by simp_all
qed

lemma balanced_not_guessable: "balance_violations render qs c = [] \<Longrightarrow> not_guessable render qs"
  using balance_clean [of render qs c] unfolding not_guessable_def balance_counts MIN_BALANCE_SAMPLE_def by simp

lemma numeric_key_graded:
  assumes "py_float v = Some (Fin r)"
    and "case option_key o' ''tolerance'' of None \<Rightarrow> True | Some t \<Rightarrow> (case py_float t of None \<Rightarrow> True | Some tol \<Rightarrow> flt_le (Fin 0) tol)"
  shows "grade_numeric [v] [v] o'"
  using assms by (auto simp: grade_numeric_def flt_eq_refl_iff flt_sub_def split: option.splits)

lemma clean_question:
  assumes "question_violations q = Inr []"
  shows "get_or q ''type'' JNull = JStr ''short_text'' \<Longrightarrow> \<exists>x xs. get_or q ''correct'' (JArr []) = JArr (x # xs)"
    and "get_or q ''type'' JNull \<notin> JStr ` {''numeric'', ''short_text'', ''truefalse''} \<Longrightarrow>
      \<exists>opts. py_iter (get_or q ''options'' (JArr [])) = Inr opts \<and> (\<forall>o' \<in> set opts. \<exists>s. o' = JStr s)"
proof -
  show "\<exists>x xs. get_or q ''correct'' (JArr []) = JArr (x # xs)" if "get_or q ''type'' JNull = JStr ''short_text''"
    using assms question_rubric [OF assms] that by (auto simp: question_violations_def Let_def split: json.splits list.splits)
  assume "get_or q ''type'' JNull \<notin> JStr ` {''numeric'', ''short_text'', ''truefalse''}"
  then have "choice_violations q = Inr []"
    using assms question_rubric [OF assms] by (auto simp: question_violations_def Let_def)
  then obtain opts where "py_iter (get_or q ''options'' (JArr [])) = Inr opts" "\<forall>x \<in> set opts. is_text x"
    by (auto simp: choice_violations_def and_then_eq_Inr Let_def filter_empty_conv split: if_splits)
  moreover have "is_text x \<Longrightarrow> \<exists>s. x = JStr s" for x by (cases x) (simp_all add: is_text_def)
  ultimately show "\<exists>opts. py_iter (get_or q ''options'' (JArr [])) = Inr opts \<and> (\<forall>o' \<in> set opts. \<exists>s. o' = JStr s)" by blast
qed

text \<open>C22. What the silence of the linter on a bank means. The bank has a question; every question carries one of the three rubric
  categories, and the share of each is within ten points (and a billionth) of 20, 50 and 30 percent. The options of a choice
  question are texts, each listed key is among them, and answering with exactly the listed keys is graded correct. The key of a
  numeric question is a number, and a finite one is graded correct, with any tolerance option that is not negative. A short text
  question lists at least one accepted answer. In the bank, and in each competency when it has several, if at least five
  questions are comparable then the key is the sole longest option in at most two fifths of them, and the sole shortest in at
  most two fifths. It does not mean that every choice question has a key: an empty list of keys is clean
  (\<open>empty_keys_are_clean\<close>).\<close>

theorem clean_banks_are_sound:
  assumes "lint_bank render doc = Inr []"
  shows "bd_questions doc \<noteq> []
     \<and> (\<forall>(cat, target) \<in> {(''recall'', 20 / 100), (''application'', 50 / 100), (''analysis'', 30 / 100)}.
          \<bar>rat_of_nat (length (filter (\<lambda>q. get_or q ''rubric_category'' JNull = JStr cat) (bd_questions doc)))
             / rat_of_nat (length (bd_questions doc)) - target\<bar> \<le> 1 / 10 + 1 / 1000000000)
     \<and> (\<forall>q \<in> set (bd_questions doc).
          get_or q ''rubric_category'' JNull \<in> {JStr ''recall'', JStr ''application'', JStr ''analysis''}
          \<and> (get_or q ''type'' JNull \<notin> JStr ` {''numeric'', ''short_text'', ''truefalse''} \<longrightarrow>
               (\<exists>opts. py_iter (get_or q ''options'' (JArr [])) = Inr opts \<and> (\<forall>o' \<in> set opts. \<exists>s. o' = JStr s)))
          \<and> (\<forall>qtype cs o'. is_choice q qtype \<and> get_or q ''correct'' (JArr []) = JArr cs \<longrightarrow>
               (\<exists>opts. py_iter (get_or q ''options'' (JArr [])) = Inr opts \<and> (\<forall>c \<in> set cs. py_in c opts))
               \<and> is_correct fm rd qtype cs cs o' = Inr True)
          \<and> (get_or q ''type'' JNull = JStr ''numeric'' \<longrightarrow> py_float (get_or q ''correct'' (JStr '''')) \<noteq> None)
          \<and> (\<forall>o' r. get_or q ''type'' JNull = JStr ''numeric'' \<and> py_float (get_or q ''correct'' (JStr '''')) = Some (Fin r)
               \<and> (case option_key o' ''tolerance'' of None \<Rightarrow> True
                    | Some t \<Rightarrow> (case py_float t of None \<Rightarrow> True | Some tol \<Rightarrow> flt_le (Fin 0) tol)) \<longrightarrow>
               is_correct fm rd ''numeric'' [get_or q ''correct'' (JStr '''')] [get_or q ''correct'' (JStr '''')] o' = Inr True)
          \<and> (get_or q ''type'' JNull = JStr ''short_text'' \<longrightarrow> (\<exists>x xs. get_or q ''correct'' (JArr []) = JArr (x # xs))))
     \<and> not_guessable render (bd_questions doc)
     \<and> (\<forall>c c'. c \<in> domains render (bd_questions doc) \<and> c' \<in> domains render (bd_questions doc) \<and> c \<noteq> c' \<longrightarrow>
          not_guessable render (in_domain render c (bd_questions doc)))"
proof -
  note clean = assms [unfolded lint_clean mix_clean]
  have q: "question_violations q = Inr []" if "q \<in> set (bd_questions doc)" for q using clean that by blast
  have rub: "get_or q ''rubric_category'' JNull \<in> {JStr ''recall'', JStr ''application'', JStr ''analysis''}"
    if "q \<in> set (bd_questions doc)" for q
    using known_rubric_text [OF question_rubric [OF q [OF that]]] by (auto simp: rubric_of_def TARGET_def)
  have mix: "\<forall>(cat, target) \<in> {(''recall'', 20 / 100), (''application'', 50 / 100), (''analysis'', 30 / 100)}.
          \<bar>rat_of_nat (length (filter (\<lambda>q. get_or q ''rubric_category'' JNull = JStr cat) (bd_questions doc)))
             / rat_of_nat (length (bd_questions doc)) - target\<bar> \<le> 1 / 10 + 1 / 1000000000"
    using clean by (simp add: TARGET_def rubric_share_def rubric_of_def count_rows_def TOL_def EPSILON_def)
  have num: "py_float (get_or q ''correct'' (JStr '''')) \<noteq> None" if "q \<in> set (bd_questions doc)" "get_or q ''type'' JNull = JStr ''numeric''" for q
    using numeric_clean [OF q [OF that(1)] that(2)] by auto
  have graded: "is_correct fm rd ''numeric'' [v] [v] o' = Inr True"
    if "py_float v = Some (Fin r)" "case option_key o' ''tolerance'' of None \<Rightarrow> True
         | Some t \<Rightarrow> (case py_float t of None \<Rightarrow> True | Some tol \<Rightarrow> flt_le (Fin 0) tol)" for v o' r
    using numeric_key_graded [OF that] by (simp add: is_correct_def)
  have dom: "not_guessable render (in_domain render c (bd_questions doc))"
    if c: "c \<in> domains render (bd_questions doc)" "c' \<in> domains render (bd_questions doc)" "c \<noteq> c'" for c c'
  proof -
    have "finite (domains render (bd_questions doc))"
    proof (rule finite_subset)
      show "domains render (bd_questions doc) \<subseteq> (\<lambda>q. the (competency_of render q)) ` set (bd_questions doc)"
        unfolding domains_def image_def by (auto, metis option.sel)
    qed simp
    then have "card {c, c'} \<le> card (domains render (bd_questions doc))" using c by (intro card_mono) auto
    then have "length (competency_groups render (bd_questions doc)) > 1"
      using c(3) by (simp add: competency_groups_set(2))
    with clean have "\<forall>(c, g) \<in> set (competency_groups render (bd_questions doc)). balance_violations render g c = []" by blast
    with c(1) have "balance_violations render (in_domain render c (bd_questions doc)) c = []"
      unfolding competency_groups_set(1) by auto
    then show ?thesis by (rule balanced_not_guessable)
  qed
  have bal: "not_guessable render (bd_questions doc)" using clean balanced_not_guessable by blast
  show ?thesis
    using clean mix bal dom rub num
    by (intro conjI ballI allI impI)
       (auto intro: graded dest: q choice_clean clean_question)
qed

section \<open>What is stored is what was checked\<close>

text \<open>Two questions the rules cannot tell apart.\<close>

definition same_view :: "(json \<Rightarrow> string) \<Rightarrow> dict \<Rightarrow> dict \<Rightarrow> bool" where
  "same_view render q q' =
     (question_violations q = Inr [] \<longrightarrow>
        question_violations q' = Inr [] \<and> rubric_of q' = rubric_of q \<and> balance_item_of render q' = balance_item_of render q
        \<and> (\<forall>c. c \<noteq> '''' \<longrightarrow> (competency_of render q' = Some c) = (competency_of render q = Some c)))"

lemma lint_order:
  assumes "lint_bank render doc = Inr []" "list_all2 (same_view render) (bd_questions doc) qs" "mset (bd_questions doc') = mset qs"
    and "bd_policy doc' = []"
  shows "lint_bank render doc' = Inr []"
proof -
  let ?d = "bd_questions doc" and ?d' = "bd_questions doc'"
  note clean = assms(1) [unfolded lint_clean]
  have view: "list_all2 (\<lambda>q q'. question_violations q' = Inr [] \<and> rubric_of q' = rubric_of q
      \<and> balance_item_of render q' = balance_item_of render q
      \<and> (\<forall>c. c \<noteq> '''' \<longrightarrow> (competency_of render q' = Some c) = (competency_of render q = Some c))) ?d qs"
    using assms(2) clean by (auto simp: list_all2_conv_all_nth same_view_def)
  have ne: "?d' \<noteq> []"
  proof
    assume "?d' = []"
    then have "qs = []" using assms(3) by simp
    then show False using list_all2_lengthD [OF view] clean by simp
  qed
  have "set qs = set ?d'" using mset_eq_setD [OF assms(3)] by simp
  moreover have "\<forall>q \<in> set qs. question_violations q = Inr []"
    using view by (induction rule: list_all2_induct) auto
  ultimately have questions: "\<forall>q \<in> set ?d'. question_violations q = Inr []" by simp
  have len: "length ?d' = length ?d" using list_all2_lengthD [OF view] mset_eq_length [OF assms(3)] by simp

  have "rubric_share ?d' cat = rubric_share ?d cat" for cat
  proof -
    have "count_rows (\<lambda>q. rubric_of q = JStr cat) qs = count_rows (\<lambda>q. rubric_of q = JStr cat) ?d"
      using view by (induction rule: list_all2_induct) (auto simp: count_rows_def)
    then show ?thesis
      using count_filter_mset [OF assms(3), of "\<lambda>q. rubric_of q = JStr cat"] by (simp add: rubric_share_def len count_rows_def)
  qed
  note share = this
  have "mix_violations ?d' = mix_violations ?d" unfolding mix_violations_def share ..
  then have mix: "mix_violations ?d' = []" using clean by simp
  have items: "balance_items render qs = balance_items render ?d"
    using view unfolding balance_items_def by (induction rule: list_all2_induct) (auto simp: List.map_filter_simps split: option.splits)
  have "mset (balance_items render ?d) = mset (balance_items render ?d')" using items_mset [OF assms(3)] items by simp
  then have whole: "balance_violations render ?d' '''' = []" by (rule balance_order) (use clean in blast)
  have names: "c \<in> domains render ?d' \<longleftrightarrow> c \<in> domains render ?d" for c
  proof -
    have "c \<in> domains render qs \<longleftrightarrow> c \<in> domains render ?d"
    proof (cases "c = ''''")
      case False
      have "list_ex (\<lambda>q. competency_of render q = Some c) qs \<longleftrightarrow> list_ex (\<lambda>q. competency_of render q = Some c) ?d"
        using view
      proof (induction rule: list_all2_induct)
        case (Cons x xs y ys)
        then have "competency_of render y = Some c \<longleftrightarrow> competency_of render x = Some c" using False by blast
        then show ?case using Cons.IH by simp
      qed simp
      moreover have "Some c \<in> competency_of render ` set zs \<longleftrightarrow> list_ex (\<lambda>q. competency_of render q = Some c) zs" for zs
        by (induction zs) (simp_all add: eq_commute [of "Some c"])
      ultimately show ?thesis by (simp only: domains_def mem_Collect_eq)
    qed (simp add: domains_def)
    then show ?thesis using \<open>set qs = set ?d'\<close> by (simp add: domains_def)
  qed
  then have same: "domains render ?d' = domains render ?d" by blast
  have part: "balance_violations render (in_domain render c ?d') c = []" if "c \<in> domains render ?d" "card (domains render ?d) > 1" for c
  proof -
    have "c \<noteq> ''''" using that(1) by (simp add: domains_def)
    have "list_all2 (\<lambda>q q'. balance_item_of render q' = balance_item_of render q) (in_domain render c ?d) (in_domain render c qs)"
      using view \<open>c \<noteq> ''''\<close> unfolding in_domain_def by (induction rule: list_all2_induct) auto
    then have "balance_items render (in_domain render c qs) = balance_items render (in_domain render c ?d)"
      unfolding balance_items_def by (induction rule: list_all2_induct) (auto simp: List.map_filter_simps split: option.splits)
    moreover have "mset (in_domain render c ?d') = mset (in_domain render c qs)" by (simp add: in_domain_def assms(3))
    moreover have "balance_violations render (in_domain render c ?d) c = []"
      using clean that unfolding competency_groups_set by auto
    ultimately show ?thesis using balance_order [of render "in_domain render c ?d" "in_domain render c ?d'"] items_mset by metis
  qed
  show ?thesis unfolding lint_clean competency_groups_set same
    using ne questions mix whole part assms(4) by (auto simp: policy_violations_def not_none_def obj_get_def)
qed

lemma stored_view:
  assumes "question_of render tenant bank q = Inr (row, t)" "question_text_of l (bank, eq_ext_id row) = t"
  shows "same_view render q (dict_of_question l row)"
proof -
  obtain i stem qtype rubric explanation weight where
      k: "obj_get q ''id'' = Some (JStr i)" "obj_get q ''type'' = Some (JStr qtype)" "obj_get q ''rubric_category'' = Some (JStr rubric)"
    and row: "row = \<lparr>eq_ext_id = i, eq_category = competency_of render q, eq_options = get_or q ''options'' (JArr []),
             qu_tenant = tenant, qu_bank = bank, qu_type = qtype, qu_correct = get_or q ''correct'' (JArr []), qu_weight = weight\<rparr>"
    and t: "t = \<lparr>qx_stem = stem, qx_rubric = rubric, qx_explanation = explanation\<rparr>"
  proof -
    have str: "v = JStr s" if "text_of v = Inr s" for v s using that by (cases v) auto
    show thesis using assms(1)
      by (auto simp: question_of_def and_then_eq_Inr key_of_def split: option.splits dest!: str intro: that)
  qed
  let ?d = "dict_of_question l row"
  have g: "get_or ?d ''id'' x = JStr i" "get_or ?d ''type'' x = JStr qtype" "get_or ?d ''rubric_category'' x = JStr rubric"
      "get_or ?d ''options'' x = get_or q ''options'' (JArr [])" "get_or ?d ''correct'' x = get_or q ''correct'' (JArr [])"
      "get_or ?d ''category'' x = (case competency_of render q of None \<Rightarrow> JNull | Some c \<Rightarrow> JStr c)"
      "get_or ?d ''competency'' x = x" for x
    using assms(2) by (simp_all add: dict_of_question_def get_or_def obj_get_def row t)
  have gq: "get_or q ''id'' x = JStr i" "get_or q ''type'' x = JStr qtype" "get_or q ''rubric_category'' x = JStr rubric" for x
    using k by (simp_all add: get_or_def)
  have "question_violations ?d = Inr []" if clean: "question_violations q = Inr []"
  proof -
    have "get_or q ''correct'' (JArr []) = get_or q ''correct'' (JStr '''')" if numeric: "qtype = ''numeric''"
    proof -
      have "py_float (JStr '''') = None" by code_simp
      moreover obtain f where "py_float (get_or q ''correct'' (JStr '''')) = Some f"
        using numeric_clean [OF clean] gq(2) numeric by blast
      ultimately show ?thesis by (auto simp: get_or_def split: option.splits)
    qed
    moreover have "choice_violations q = Inr [] \<Longrightarrow> choice_violations ?d = Inr []"
      unfolding choice_violations_def g gq by (auto simp: Let_def)
    ultimately show ?thesis using clean
      unfolding question_violations_def rubric_of_def g gq by (auto simp: Let_def and_then_eq_Inr split: if_splits)
  qed
  moreover have "balance_item_of render ?d = balance_item_of render q"
  proof -
    have "get_or q k (JArr []) = get_or q k JNull \<or> (get_or q k (JArr []) = JArr [] \<and> get_or q k JNull = JNull)" for k
      by (simp add: get_or_def split: option.split)
    from this [of "''options''"] this [of "''correct''"] show ?thesis
    proof (elim disjE conjE)
      assume "get_or q ''options'' (JArr []) = get_or q ''options'' JNull" "get_or q ''correct'' (JArr []) = JArr []" "get_or q ''correct'' JNull = JNull"
      then show ?thesis unfolding balance_item_of_def g gq by (cases "get_or q ''options'' JNull") (simp_all add: Let_def)
    next
      assume "get_or q ''correct'' (JArr []) = get_or q ''correct'' JNull" "get_or q ''options'' (JArr []) = JArr []" "get_or q ''options'' JNull = JNull"
      then show ?thesis unfolding balance_item_of_def g gq by (cases "get_or q ''correct'' JNull") (simp_all add: Let_def)
    next
      assume same: "get_or q ''options'' (JArr []) = get_or q ''options'' JNull" "get_or q ''correct'' (JArr []) = get_or q ''correct'' JNull"
      show ?thesis unfolding balance_item_of_def g gq same ..
    next
      assume none: "get_or q ''options'' (JArr []) = JArr []" "get_or q ''options'' JNull = JNull"
        "get_or q ''correct'' (JArr []) = JArr []" "get_or q ''correct'' JNull = JNull"
      show ?thesis unfolding balance_item_of_def g gq none by simp
    qed
  qed
  moreover have "(competency_of render ?d = Some c) = (competency_of render q = Some c)" if "c \<noteq> ''''" for c
    unfolding competency_of_def [of render ?d] g using that by (auto simp: Let_def split: option.splits)
  ultimately show ?thesis by (simp add: same_view_def rubric_of_def g gq)
qed

lemma fold_add_question:
  "questions (lib_db (fold add_question rows l)) = questions (lib_db l) @ map fst rows"
  "banks (fold add_question rows l) = banks l"
  by (induction rows arbitrary: l) (auto simp: add_question_def with_db_def lib_db_def)

lemma fold_add_text:
  "distinct (map (\<lambda>(q, t). (qu_bank q, eq_ext_id q)) rows) \<Longrightarrow> (q, t) \<in> set rows \<Longrightarrow>
   question_text_of (fold add_question rows l) (qu_bank q, eq_ext_id q) = t"
proof (induction rows arbitrary: l)
  case (Cons r rows)
  have keep: "question_text_of (fold add_question xs l) key = question_text_of l key"
    if "key \<notin> set (map (\<lambda>(q, t). (qu_bank q, eq_ext_id q)) xs)" for xs l key
    using that by (induction xs arbitrary: l) (auto simp: add_question_def with_db_def)
  show ?case
  proof (cases "(q, t) \<in> set rows")
    case True
    then show ?thesis using Cons by simp
  next
    case False
    then have r: "r = (q, t)" using Cons.prems(2) by simp
    then have "(qu_bank q, eq_ext_id q) \<notin> set (map (\<lambda>(q, t). (qu_bank q, eq_ext_id q)) rows)" using Cons.prems(1) by simp
    then show ?thesis using keep by (simp add: r add_question_def with_db_def)
  qed
qed simp

lemma upsert_bank_questions:
  assumes "upsert_bank l tenant course doc = (l1, b)" "\<forall>q \<in> set (questions (lib_db l)). qu_bank q < next_id (lib_db l)"
  shows "questions (lib_db l1) = filter (\<lambda>q. qu_bank q \<noteq> bk_id b) (questions (lib_db l))"
    and "b \<in> set (banks l1)" "bk_tenant b = tenant"
  using assms
  by (auto simp: upsert_bank_def find_bank_def find_Some_iff Let_def with_db_def lib_db_def update_rows_def
      intro!: filter_True [symmetric] image_eqI split: option.splits)
     (force intro!: image_eqI)+

lemma question_of_fields:
  "question_of render tenant bank q = Inr (row, t) \<Longrightarrow> qu_bank row = bank \<and> qu_tenant row = tenant"
  by (auto simp: question_of_def and_then_eq_Inr)

lemma activity_keeps_bank:
  assumes "upsert_bank_activity l tenant course bank doc = Inr l'"
  shows "questions (lib_db l') = questions (lib_db l)" "question_text_of l' = question_text_of l" "banks l' = banks l"
  using assms by (auto simp: upsert_bank_activity_def and_then_eq_Inr with_db_def lib_db_def split: option.splits)

text \<open>C13. What the gate lets in, the audit accepts: after a bank file is loaded, the bank as it is stored, read back from the
  database with its questions in the order of their ids and without the policy, has no violation; and the questions
  of every other bank are what they were.\<close>

theorem loaded_banks_pass_audit:
  assumes "load_file render yaml tenant text l = Inr (l', True)"
    and "\<forall>q \<in> set (questions (lib_db l)). qu_bank q < next_id (lib_db l)"
  shows "\<exists>bank \<in> set (banks l'). bk_tenant bank = tenant
     \<and> (\<forall>slug. lint_bank render (doc_from_db l' bank slug) = Inr [])
     \<and> (\<forall>t i. i \<noteq> bk_id bank \<longrightarrow> bank_questions l' t i = bank_questions l t i)"
proof -
  from assms(1) obtain doc l1 bank and c :: course_row where doc: "lint_bank render doc = Inr []"
    and loaded: "load_bank render l tenant (co_id c) doc = Inr (l1, bank)"
    and act: "upsert_bank_activity l1 tenant (co_id c) bank doc = Inr l'"
    by (auto simp: load_file_def and_then_eq_Inr split: if_splits option.splits)
  obtain l0 where up: "upsert_bank l tenant (co_id c) doc = (l0, bank)"
    using loaded by (auto simp: load_bank_def and_then_eq_Inr split: prod.splits if_splits)
  obtain rows where rows: "each (question_of render tenant (bk_id bank)) (bd_questions doc) = Inr rows"
      "distinct (map (eq_ext_id \<circ> fst) rows)" "l1 = fold add_question rows l0"
    using loaded up by (auto simp: load_bank_def and_then_eq_Inr split: if_splits)
  note u = upsert_bank_questions [OF up assms(2)] and keep = activity_keeps_bank [OF act]
  have each: "list_all2 (\<lambda>q r. question_of render tenant (bk_id bank) q = Inr r) (bd_questions doc) rows"
    by (rule each_set [OF rows(1)])
  have mine: "qu_bank (fst r) = bk_id bank \<and> qu_tenant (fst r) = tenant" if "r \<in> set rows" for r
  proof -
    have "\<forall>r \<in> set rows. qu_bank (fst r) = bk_id bank \<and> qu_tenant (fst r) = tenant"
      using each by (induction rule: list_all2_induct) (use question_of_fields in fastforce)+
    then show ?thesis using that by blast
  qed
  have keys: "distinct (map (\<lambda>(q, t). (qu_bank q, eq_ext_id q)) rows)"
    using rows(2) unfolding distinct_map by (auto simp: inj_on_def case_prod_unfold)
  have all: "questions (lib_db l') = filter (\<lambda>q. qu_bank q \<noteq> bk_id bank) (questions (lib_db l)) @ map fst rows"
    by (simp add: keep rows(3) fold_add_question u(1))
  have stored: "bank_questions l' tenant (bk_id bank) = sort_key eq_ext_id (map fst rows)"
  proof -
    have "filter (\<lambda>q. qu_tenant q = tenant \<and> qu_bank q = bk_id bank) (map fst rows) = map fst rows"
      using mine by (intro filter_True) auto
    then show ?thesis unfolding bank_questions_def all by (simp add: filter_empty_conv)
  qed
  have kept: "question_text_of l' (bk_id bank, eq_ext_id (fst r)) = snd r" if "r \<in> set rows" for r
    using fold_add_text [OF keys, of "fst r" "snd r" l0] that mine [OF that] by (simp add: keep rows(3))
  have view: "list_all2 (same_view render) (bd_questions doc) (map (dict_of_question l' \<circ> fst) rows)"
    unfolding list_all2_conv_all_nth
  proof (intro conjI allI impI)
    show "length (bd_questions doc) = length (map (dict_of_question l' \<circ> fst) rows)" using list_all2_lengthD [OF each] by simp
  next
    fix i assume i: "i < length (bd_questions doc)"
    then have r: "question_of render tenant (bk_id bank) (bd_questions doc ! i) = Inr (fst (rows ! i), snd (rows ! i))"
      and "rows ! i \<in> set rows"
      using list_all2_nthD [OF each i] list_all2_lengthD [OF each] by simp_all
    from stored_view [OF r kept [OF this(2)]]
    show "same_view render (bd_questions doc ! i) (map (dict_of_question l' \<circ> fst) rows ! i)"
      using i list_all2_lengthD [OF each] by simp
  qed
  have lint: "lint_bank render (doc_from_db l' bank slug) = Inr []" for slug
  proof (rule lint_order [OF doc view])
    show "mset (bd_questions (doc_from_db l' bank slug)) = mset (map (dict_of_question l' \<circ> fst) rows)"
      by (simp add: doc_from_db_def u(3) stored image_mset.compositionality comp_def)
  qed (simp add: doc_from_db_def)
  have others: "bank_questions l' t i = bank_questions l t i" if "i \<noteq> bk_id bank" for t i
  proof -
    have "filter (\<lambda>q. qu_tenant q = t \<and> qu_bank q = i) (map fst rows) = []"
      using mine that by (auto simp: filter_empty_conv)
    then show ?thesis unfolding bank_questions_def all using that
      by (simp add: filter_filter conj_commute cong: conj_cong) (metis (no_types, lifting) filter_cong)
  qed
  have "bank \<in> set (banks l')" using u(2) by (simp add: keep rows(3) fold_add_question)
  then show ?thesis using u(3) lint others by blast
qed

section \<open>Where the rules fall short\<close>

definition sample_render :: "json \<Rightarrow> string" where "sample_render _ = ''?''"

definition sample_question :: "string \<Rightarrow> string \<Rightarrow> json \<Rightarrow> dict" where
  "sample_question i rubric correct =
     [(''id'', JStr i), (''stem'', JStr ''S''), (''type'', JStr ''single''),
      (''options'', JArr [JStr ''aa'', JStr ''bb'', JStr ''cc'']), (''correct'', correct), (''rubric_category'', JStr rubric)]"

text \<open>Ten questions in the right mix, with one key for all of them.\<close>

definition sample_bank :: "json \<Rightarrow> dict \<Rightarrow> bank_doc" where
  "sample_bank correct policy =
     \<lparr>bd_course = ''net'', bd_chapter = Some 1, bd_kind = ''chapter'', bd_version = 1,
      bd_questions = map (\<lambda>(i, r). sample_question i r correct)
        [(''q0'', ''recall''), (''q1'', ''recall''), (''q2'', ''application''), (''q3'', ''application''), (''q4'', ''application''),
         (''q5'', ''application''), (''q6'', ''application''), (''q7'', ''analysis''), (''q8'', ''analysis''), (''q9'', ''analysis'')],
      bd_policy = policy\<rparr>"

lemma sample_bank_clean: "lint_bank sample_render (sample_bank (JArr [JStr ''aa'']) []) = Inr []"
  by code_simp

text \<open>A choice question without a key is clean, and an unanswered submission of such a bank is graded full marks.\<close>

theorem empty_keys_are_clean:
  "lint_bank sample_render (sample_bank (JArr []) []) = Inr []
   \<and> map_sum id gr_fraction (grade_submission (\<lambda>_ _. None) sample_render []
        (map (\<lambda>q. \<lparr>gq_ext_id = py_str sample_render (get_or q ''id'' JNull), gq_type = ''single'', gq_correct = get_or q ''correct'' JNull,
                   gq_weight = 1, gq_options = get_or q ''options'' JNull\<rparr>) (bd_questions (sample_bank (JArr []) []))) 1) = Inr 1"
proof -
  have "lint_bank sample_render (sample_bank (JArr []) []) = Inr []" by code_simp
  moreover have "map_sum id gr_fraction (grade_submission (\<lambda>_ _. None) sample_render []
        (map (\<lambda>q. \<lparr>gq_ext_id = py_str sample_render (get_or q ''id'' JNull), gq_type = ''single'', gq_correct = get_or q ''correct'' JNull,
                   gq_weight = 1, gq_options = get_or q ''options'' JNull\<rparr>) (bd_questions (sample_bank (JArr []) []))) 1) = Inr 1"
    by code_simp
  ultimately show ?thesis by simp
qed

text \<open>A pool as large as the bank holds nothing back, and is accepted.\<close>

theorem full_pool_is_clean: "lint_bank sample_render (sample_bank (JArr [JStr ''aa'']) [(''pool'', JInt 10)]) = Inr []"
  by code_simp

text \<open>A threshold that is declared empty passes the rules and is refused by the column.\<close>

theorem empty_threshold_is_clean:
  "lint_bank sample_render (sample_bank (JArr [JStr ''aa'']) [(''pass_threshold'', JNull)]) = Inr []
   \<and> apply_policy (sample_bank (JArr [JStr ''aa'']) [(''pass_threshold'', JNull)]) a = Inl BankIntegrityError"
proof -
  have "lint_bank sample_render (sample_bank (JArr [JStr ''aa'']) [(''pass_threshold'', JNull)]) = Inr []" by code_simp
  then show ?thesis by (simp add: apply_policy_def when_declared_def obj_get_def sample_bank_def)
qed

text \<open>The number of characters a proposed edit needs is counted before the dots at the end are stripped, so the edit
  can leave the answer the longest option.\<close>

theorem proposed_edit_falls_short:
  "proposal_of \<lparr>tg_id = JNull, tg_answer_len = 16, tg_distractors = [\<lparr>ds_text = JStr ''ab...'', ds_now = 5, ds_target = 8\<rparr>]\<rparr>
     = Inr (Some \<lparr>pp_id = JNull, pp_option = JStr ''ab...'', pp_needed = 12, pp_suggestion = Some ''ab, in practice'', pp_note = False\<rparr>)
   \<and> length ''ab, in practice'' < (16 :: nat)"
proof -
  have "proposal_of \<lparr>tg_id = JNull, tg_answer_len = 16, tg_distractors = [\<lparr>ds_text = JStr ''ab...'', ds_now = 5, ds_target = 8\<rparr>]\<rparr>
     = Inr (Some \<lparr>pp_id = JNull, pp_option = JStr ''ab...'', pp_needed = 12, pp_suggestion = Some ''ab, in practice'', pp_note = False\<rparr>)"
    by code_simp
  then show ?thesis by simp
qed

section \<open>Witnesses\<close>

theorem clean_banks_are_sound_witness:
  "not_guessable sample_render (bd_questions (sample_bank (JArr [JStr ''aa'']) []))"
  using clean_banks_are_sound [OF sample_bank_clean] by blast

text \<open>A library with one course and a file that holds the sample bank.\<close>

definition sample_shelf :: library where
  "sample_shelf = \<lparr>campus = \<lparr>academy = empty_db\<lparr>courses := [\<lparr>co_id = 2, co_tenant = 11, co_title = ''C'', co_status = ''published''\<rparr>],
       next_id := 100\<rparr>,
       class_sessions = [], reminder_log = [], reminder_preferences = [], success_entries = [], platform_settings = [],
       enrolled_at = (\<lambda>_. 0), delivery_mode = (\<lambda>_. ''live'')\<rparr>,
     chapters = [], chapter_reads = [], subtopic_reads = [], bookmarks = [], chapter_notes = [], announcements = [],
     course_meta_of = (\<lambda>_. \<lparr>cm_slug = ''net'', cm_discipline = '''', cm_source_ref = '''', cm_version = 1, cm_listed = True\<rparr>),
     banks = [], question_text_of = (\<lambda>_. \<lparr>qx_stem = '''', qx_rubric = '''', qx_explanation = ''''\<rparr>)\<rparr>"

definition sample_yaml :: "string \<Rightarrow> json" where
  "sample_yaml _ = JObj [(''bank'', JObj [(''course'', JStr ''net''), (''chapter'', JInt 1), (''kind'', JStr ''chapter''),
     (''questions'', JArr (map JObj (bd_questions (sample_bank (JArr [JStr ''aa'']) []))))])]"

theorem loaded_banks_pass_audit_witness:
  "\<exists>l'. load_file sample_render sample_yaml 11 ''f'' sample_shelf = Inr (l', True)
     \<and> (\<exists>bank \<in> set (banks l'). lint_bank sample_render (doc_from_db l' bank ''net'') = Inr [])"
proof -
  have "case load_file sample_render sample_yaml 11 ''f'' sample_shelf of Inr (_, ok) \<Rightarrow> ok | _ \<Rightarrow> False" by code_simp
  then obtain l' where l': "load_file sample_render sample_yaml 11 ''f'' sample_shelf = Inr (l', True)"
    by (auto split: sum.splits prod.splits)
  have "\<forall>q \<in> set (questions (lib_db sample_shelf)). qu_bank q < next_id (lib_db sample_shelf)"
    by (simp add: sample_shelf_def lib_db_def empty_db_def)
  from loaded_banks_pass_audit [OF l' this] l' show ?thesis by blast
qed

end
