(* ===== verification/Course_Authoring.thy ===== *)
theory Course_Authoring
  imports Html_Sanitizer Bank_Lint
begin

text \<open>
  Courses and chapters written in the application (\<open>services/authoring.py\<close>) and imported from manuals
  (\<open>services/content_import.py\<close>). The file system is an argument: the chapter files in the order of their names and
  the bytes of the produced figures; so are the front-matter reader, the digest and the rendering pipeline.
\<close>

section \<open>Authoring\<close>

definition course_with_slug :: "library \<Rightarrow> uuid \<Rightarrow> string \<Rightarrow> course_row option" where
  "course_with_slug l tenant slug = find (\<lambda>c. co_tenant c = tenant \<and> course_slug l (co_id c) = slug) (courses (lib_db l))"

definition course_in :: "library \<Rightarrow> uuid \<Rightarrow> uuid \<Rightarrow> course_row option" where
  "course_in l tenant course = find (\<lambda>c. co_tenant c = tenant \<and> co_id c = course) (courses (lib_db l))"

definition add_course :: "library \<Rightarrow> course_row \<Rightarrow> course_meta \<Rightarrow> library" where
  "add_course l c m =
     with_db (\<lambda>db. db\<lparr>courses := courses db @ [c], next_id := Suc (next_id db)\<rparr>)
       (l\<lparr>course_meta_of := (course_meta_of l)(co_id c := m)\<rparr>)"

definition create_course ::
    "library \<Rightarrow> uuid \<Rightarrow> string option \<Rightarrow> string \<Rightarrow> string \<Rightarrow> (library \<times> course_row) result" where
  "create_course l tenant slug title discipline =
     (let slug = py_lower (py_strip (or_empty slug)) in
      if course_with_slug l tenant slug \<noteq> None then Inl (ConflictError ''a course with this slug already exists'')
      else let c = \<lparr>co_id = next_id (lib_db l), co_tenant = tenant, co_title = title, co_status = ''draft''\<rparr>
           in Inr (add_course l c \<lparr>cm_slug = slug, cm_discipline = discipline, cm_source_ref = ''in-app'', cm_version = 1, cm_listed = False\<rparr>, c))"

definition bump_version :: "uuid \<Rightarrow> library \<Rightarrow> library" where
  "bump_version course l =
     l\<lparr>course_meta_of := (course_meta_of l)(course := (course_meta_of l course)\<lparr>cm_version := cm_version (course_meta_of l course) + 1\<rparr>)\<rparr>"

definition chapter_numbered :: "library \<Rightarrow> uuid \<Rightarrow> uuid \<Rightarrow> int \<Rightarrow> chapter_row option" where
  "chapter_numbered l tenant course number =
     find (\<lambda>h. cp_tenant h = tenant \<and> cp_course h = course \<and> cp_number h = number) (chapters l)"

definition add_chapter :: "chapter_row \<Rightarrow> library \<Rightarrow> library" where
  "add_chapter h l = with_db (\<lambda>db. db\<lparr>next_id := Suc (next_id db)\<rparr>) (l\<lparr>chapters := chapters l @ [h]\<rparr>)"

definition set_chapter :: "chapter_row \<Rightarrow> (chapter_row \<Rightarrow> chapter_row) \<Rightarrow> library \<Rightarrow> library" where
  "set_chapter h f l = l\<lparr>chapters := update_rows (\<lambda>r. r = h) f (chapters l)\<rparr>"

definition upsert_chapter ::
    "(string \<Rightarrow> string) \<Rightarrow> library \<Rightarrow> uuid \<Rightarrow> uuid \<Rightarrow> int \<Rightarrow> string \<Rightarrow> string \<Rightarrow> string \<Rightarrow> (library \<times> chapter_row) result" where
  "upsert_chapter render l tenant course number title body_md part =
     (if course_in l tenant course = None then Inl (NotFoundError ''course not found for tenant'')
      else case chapter_numbered l tenant course number of
        None \<Rightarrow>
          (let h = \<lparr>cp_id = next_id (lib_db l), cp_tenant = tenant, cp_course = course, cp_number = number, cp_title = title, cp_part = part,
                    cp_body_html = render body_md, cp_body_md = body_md, cp_source_hash = '''', cp_order_index = number\<rparr>
           in Inr (bump_version course (add_chapter h l), h))
      | Some h \<Rightarrow>
          (let f = (\<lambda>r. r\<lparr>cp_title := title, cp_part := part, cp_body_md := body_md, cp_body_html := render body_md\<rparr>)
           in Inr (bump_version course (set_chapter h f l), f h)))"

definition delete_chapter :: "library \<Rightarrow> uuid \<Rightarrow> uuid \<Rightarrow> uuid \<Rightarrow> library result" where
  "delete_chapter l tenant course chapter =
     (if course_in l tenant course = None then Inl (NotFoundError ''course not found for tenant'')
      else case find (\<lambda>h. cp_tenant h = tenant \<and> cp_course h = course \<and> cp_id h = chapter) (chapters l) of
        None \<Rightarrow> Inl (NotFoundError ''chapter not found for tenant'')
      | Some h \<Rightarrow> Inr (bump_version course (l\<lparr>chapters := filter (\<lambda>r. r \<noteq> h) (chapters l)\<rparr>)))"

section \<open>Figures\<close>

text \<open>The produced figures by id, and the files of a chapters directory, sorted by name.\<close>

type_synonym figures = "string \<Rightarrow> string option"
type_synonym chapter_files = "(string \<times> string) list"

definition is_figure_char :: "char \<Rightarrow> bool" where
  "is_figure_char c = (code_in 65 90 c \<or> code_in 48 57 c \<or> c = CHR ''-'')"

text \<open>\<open>(?:\s*\*(.*?)\*)?\<close> after a callout: the caption, and the text after it. A caption does not cross a line.\<close>

definition caption_at :: "string \<Rightarrow> (string option \<times> string)" where
  "caption_at s =
     (let r = dropWhile py_isspace s in
      if r \<noteq> [] \<and> hd r = CHR ''*''
      then (let caption = takeWhile (\<lambda>c. c \<noteq> CHR ''*'') (tl r); after = dropWhile (\<lambda>c. c \<noteq> CHR ''*'') (tl r)
            in if after = [] \<or> NL \<in> set caption then (None, s) else (Some caption, tl after))
      else (None, s))"

definition callout_at :: "string \<Rightarrow> (string \<times> string option \<times> string) option" where
  "callout_at s =
     (if starts_with s ''FIGURE `''
      then (let r = drop 8 s; fid = takeWhile is_figure_char r; after = drop (length fid) r
            in if fid = [] \<or> after = [] \<or> hd after \<noteq> CHR ''`'' then None
               else (case caption_at (tl after) of (caption, rest) \<Rightarrow> Some (fid, caption, rest)))
      else None)"

lemma callout_at_length: "callout_at s = Some (fid, caption, rest) \<Longrightarrow> length rest < length s"
proof -
  assume s: "callout_at s = Some (fid, caption, rest)"
  let ?r = "drop 8 s"
  let ?after = "drop (length fid) ?r"
  from s have fid: "?after \<noteq> []" "caption_at (tl ?after) = (caption, rest)"
    by (auto simp: callout_at_def Let_def split: if_splits prod.splits)
  have *: "length (snd (caption_at t)) \<le> length t" for t
  proof -
    have "length (tl (dropWhile P (tl (dropWhile Q t)))) \<le> length t" for P Q :: "char \<Rightarrow> bool"
      using length_dropWhile_le [of P "tl (dropWhile Q t)"] length_dropWhile_le [of Q t] by simp
    then show ?thesis by (simp add: caption_at_def Let_def)
  qed
  have "length rest \<le> length (tl ?after)" using * [of "tl ?after"] fid(2) by simp
  also have "\<dots> < length ?after" using fid(1) by simp
  also have "\<dots> \<le> length s" by simp
  finally show ?thesis .
qed

function callouts :: "string \<Rightarrow> string list" where
  "callouts [] = []"
| "callouts (c # s) =
     (case callout_at (c # s) of None \<Rightarrow> callouts s | Some (fid, _, rest) \<Rightarrow> fid # callouts rest)"
  by pat_completeness auto
termination by (relation "measure length") (auto dest: callout_at_length)

definition figure_text :: "figures \<Rightarrow> string \<Rightarrow> string option \<Rightarrow> string" where
  "figure_text figs fid caption =
     (let caption = or_empty caption in
      if figs fid \<noteq> None
      then ''<figure><img src='' @ [DQ] @ ''/static/figures/'' @ fid @ ''.png'' @ [DQ] @ '' alt='' @ [DQ] @ caption @ [DQ] @ ''><figcaption>''
           @ caption @ ''</figcaption></figure>''
      else ''<figure class='' @ [DQ] @ ''placeholder'' @ [DQ] @ ''><figcaption>[figure '' @ fid @ '' not yet produced] '' @ caption
           @ ''</figcaption></figure>'')"

function substitute_figures :: "figures \<Rightarrow> string \<Rightarrow> string" where
  "substitute_figures figs [] = []"
| "substitute_figures figs (c # s) =
     (case callout_at (c # s) of
        None \<Rightarrow> c # substitute_figures figs s
      | Some (fid, caption, rest) \<Rightarrow> figure_text figs fid caption @ substitute_figures figs rest)"
  by pat_completeness auto
termination by (relation "measure (length \<circ> snd)") (auto dest: callout_at_length)

text \<open>\<open>sorted\<close> of a set.\<close>

definition figure_refs :: "string \<Rightarrow> string list" where
  "figure_refs raw = sort (remdups (callouts raw))"

definition missing_figure_refs :: "chapter_files \<Rightarrow> figures \<Rightarrow> (string \<times> string list) list" where
  "missing_figure_refs files figs =
     filter (\<lambda>(_, absent). absent \<noteq> []) (map (\<lambda>(name, raw). (name, filter (\<lambda>fid. figs fid = None) (figure_refs raw))) files)"

definition figure_fingerprint :: "(string \<Rightarrow> string) \<Rightarrow> string \<Rightarrow> figures \<Rightarrow> string" where
  "figure_fingerprint sha256 raw figs =
     sha256 (concat (map (\<lambda>fid. fid @ (case figs fid of None \<Rightarrow> ''<missing>'' | Some bytes \<Rightarrow> bytes)) (figure_refs raw)))"

section \<open>Chapter files\<close>

record chapter_doc =
  cd_number :: int
  cd_title :: string
  cd_part :: string
  cd_body_html :: string
  cd_source_hash :: string

text \<open>\<open>^---\n(.*?)\n---\n\<close>: the front matter and the body.\<close>

fun until_fence :: "string \<Rightarrow> (string \<times> string) option" where
  "until_fence [] = None"
| "until_fence (c # s) =
     (if starts_with (c # s) ([NL] @ ''---'' @ [NL]) then Some ([], drop 5 (c # s))
      else map_option (\<lambda>(meta, body). (c # meta, body)) (until_fence s))"

definition front_matter :: "string \<Rightarrow> (string \<times> string) option" where
  "front_matter raw = (if starts_with raw (''---'' @ [NL]) then until_fence (drop 4 raw) else None)"

definition parse_chapter ::
    "(string \<Rightarrow> string) \<Rightarrow> (string \<Rightarrow> dict) \<Rightarrow> (json \<Rightarrow> string) \<Rightarrow> (string \<Rightarrow> string) \<Rightarrow> figures \<Rightarrow> string \<Rightarrow> chapter_doc bank_result" where
  "parse_chapter sha256 yaml shown render figs raw =
     (case (case front_matter raw of None \<Rightarrow> ([], raw) | Some (meta, body) \<Rightarrow> (yaml meta, body)) of (meta, body) \<Rightarrow>
        and_then (int_of (get_or meta ''chapter'' (JInt 0))) (\<lambda>number.
          Inr \<lparr>cd_number = number, cd_title = py_str shown (get_or meta ''title'' (JStr '''')),
               cd_part = py_str shown (get_or meta ''part'' (JStr '''')), cd_body_html = render (substitute_figures figs body),
               cd_source_hash = sha256 (raw @ figure_fingerprint sha256 raw figs)\<rparr>))"

section \<open>Importing a manual\<close>

definition display_title :: "string \<Rightarrow> string" where
  "display_title title =
     (let p = ''Technical Academy - '' in py_strip (if starts_with title p then drop (length p) title else title))"

text \<open>The library and whether anything changed.\<close>

definition import_chapter :: "uuid \<Rightarrow> uuid \<Rightarrow> chapter_doc \<Rightarrow> library \<times> bool \<Rightarrow> library \<times> bool" where
  "import_chapter tenant course d = (\<lambda>(l, changed).
     case chapter_numbered l tenant course (cd_number d) of
       None \<Rightarrow>
         (add_chapter \<lparr>cp_id = next_id (lib_db l), cp_tenant = tenant, cp_course = course, cp_number = cd_number d, cp_title = cd_title d,
            cp_part = cd_part d, cp_body_html = cd_body_html d, cp_body_md = '''', cp_source_hash = cd_source_hash d,
            cp_order_index = cd_number d\<rparr> l, True)
     | Some h \<Rightarrow>
         if cp_source_hash h \<noteq> cd_source_hash d
         then (set_chapter h (\<lambda>r. r\<lparr>cp_title := cd_title d, cp_part := cd_part d, cp_body_html := cd_body_html d,
                 cp_source_hash := cd_source_hash d\<rparr>) l, True)
         else (l, changed))"

text \<open>The course of the import with its columns brought up to date.\<close>

definition import_course :: "library \<Rightarrow> uuid \<Rightarrow> string \<Rightarrow> string \<Rightarrow> string \<Rightarrow> string \<Rightarrow> library \<times> uuid \<times> bool" where
  "import_course l tenant slug title discipline source_ref =
     (case course_with_slug l tenant slug of
        None \<Rightarrow>
          (let c = \<lparr>co_id = next_id (lib_db l), co_tenant = tenant, co_title = title, co_status = ''published''\<rparr>
           in (add_course l c \<lparr>cm_slug = slug, cm_discipline = discipline, cm_source_ref = source_ref, cm_version = 1, cm_listed = False\<rparr>,
               co_id c, False))
      | Some c \<Rightarrow>
          (let m = course_meta_of l (co_id c);
               changed = (co_title c \<noteq> title \<or> cm_discipline m \<noteq> discipline \<or> cm_source_ref m \<noteq> source_ref)
           in (with_db (\<lambda>db. db\<lparr>courses := update_rows (\<lambda>r. r = c) (\<lambda>r. r\<lparr>co_title := title\<rparr>) (courses db)\<rparr>)
                 (l\<lparr>course_meta_of := (course_meta_of l)(co_id c := m\<lparr>cm_discipline := discipline, cm_source_ref := source_ref\<rparr>)\<rparr>),
               co_id c, changed)))"

definition import_manual ::
    "(string \<Rightarrow> string) \<Rightarrow> (string \<Rightarrow> dict) \<Rightarrow> (json \<Rightarrow> string) \<Rightarrow> (string \<Rightarrow> string) \<Rightarrow> library \<Rightarrow> uuid \<Rightarrow> string \<Rightarrow> string \<Rightarrow> string \<Rightarrow> string \<Rightarrow>
     chapter_files \<Rightarrow> figures \<Rightarrow> bool \<Rightarrow> (library \<times> uuid) bank_result" where
  "import_manual sha256 yaml shown render l tenant slug title discipline source_ref files figs strict =
     (if strict \<and> missing_figure_refs files figs \<noteq> [] then Inl (MissingFigures (missing_figure_refs files figs))
      else case import_course l tenant slug (display_title title) discipline source_ref of
        (l1, course, changed) \<Rightarrow>
          and_then (each (\<lambda>(_, raw). parse_chapter sha256 yaml shown render figs raw) files) (\<lambda>docs.
            case fold (import_chapter tenant course) docs (l1, changed) of
              (l2, changed') \<Rightarrow> Inr (if changed' then bump_version course l2 else l2, course)))"

definition import_foundation where
  "import_foundation sha256 yaml shown render l tenant files figs strict =
     import_manual sha256 yaml shown render l tenant ''foundation'' ''Network Foundation'' ''networking'' ''foundation@0.1.0'' files figs strict"

end
