(* ===== verification/Authoring_Properties.thy ===== *)
theory Authoring_Properties
  imports Course_Authoring Html_Safety Bank_Properties
begin

text \<open>
  The chapters a course holds stay safe whoever writes them, an import that is repeated changes nothing, and the one
  place where the two ways of writing a chapter disagree.
\<close>

section \<open>Stored chapters\<close>

definition chapters_safe :: "library \<Rightarrow> bool" where
  "chapters_safe l = (\<forall>h \<in> set (chapters l). safe_html (cp_body_html h))"

lemma bump_version_chapters [simp]: "chapters (bump_version course l) = chapters l" "lib_db (bump_version course l) = lib_db l"
  by (simp_all add: bump_version_def lib_db_def)

lemma add_chapter_chapters [simp]: "chapters (add_chapter h l) = chapters l @ [h]"
  by (simp add: add_chapter_def with_db_def)

lemma add_chapter_safe: "chapters_safe l \<Longrightarrow> safe_html (cp_body_html h) \<Longrightarrow> chapters_safe (add_chapter h l)"
  by (simp add: chapters_safe_def)

lemma set_chapter_safe: "chapters_safe l \<Longrightarrow> safe_html (cp_body_html (f h)) \<Longrightarrow> chapters_safe (set_chapter h f l)"
  by (auto simp: chapters_safe_def set_chapter_def update_rows_def)

lemma import_chapter_safe:
  assumes "chapters_safe (fst s)" "safe_html (cd_body_html d)"
  shows "chapters_safe (fst (import_chapter tenant course d s))"
  using assms by (cases s) (auto simp: import_chapter_def intro: add_chapter_safe set_chapter_safe split: option.splits)

lemma import_course_chapters: "import_course l tenant slug title discipline source_ref = (l1, c, changed) \<Longrightarrow> chapters l1 = chapters l"
  by (auto simp: import_course_def add_course_def with_db_def Let_def split: option.splits)

lemma parsed_safe:
  "parse_chapter sha256 yaml shown (render_markdown markdown parse) figs raw = Inr d \<Longrightarrow> safe_html (cd_body_html d)"
  using rendered_chapters_are_safe by (auto simp: parse_chapter_def and_then_eq_Inr split: prod.splits)

lemma each_parsed_safe:
  "each (\<lambda>(_, raw). parse_chapter sha256 yaml shown (render_markdown markdown parse) figs raw) files = Inr docs \<Longrightarrow>
   \<forall>d \<in> set docs. safe_html (cd_body_html d)"
  by (induction files arbitrary: docs) (auto simp: and_then_eq_Inr dest: parsed_safe)

lemma import_manual_cases:
  assumes "import_manual sha256 yaml shown render l tenant slug title discipline source_ref files figs strict = Inr (l', c)"
  obtains l1 changed docs l2 changed' where
    "import_course l tenant slug (display_title title) discipline source_ref = (l1, c, changed)"
    "each (\<lambda>(_, raw). parse_chapter sha256 yaml shown render figs raw) files = Inr docs"
    "fold (import_chapter tenant c) docs (l1, changed) = (l2, changed')"
    "l' = (if changed' then bump_version c l2 else l2)"
proof -
  obtain l1 c' changed where l1: "import_course l tenant slug (display_title title) discipline source_ref = (l1, c', changed)"
    by (metis prod_cases3)
  obtain docs where docs: "each (\<lambda>(_, raw). parse_chapter sha256 yaml shown render figs raw) files = Inr docs"
    using assms by (auto simp: import_manual_def l1 and_then_eq_Inr split: if_splits)
  obtain l2 changed' where l2: "fold (import_chapter tenant c') docs (l1, changed) = (l2, changed')" by (metis surj_pair)
  have "l' = (if changed' then bump_version c' l2 else l2) \<and> c = c'"
    using assms by (auto simp: import_manual_def l1 docs l2 split: if_splits)
  then show thesis using that l1 docs l2 by blast
qed

text \<open>C9. No stored chapter can run script: if every chapter of the library is in the grammar of safe HTML, every chapter is
  after an instructor saves or deletes one and after a manual is imported, for every Markdown renderer, tokenizer,
  digest and file content.\<close>

theorem stored_chapters_stay_safe:
  assumes "\<forall>h \<in> set (chapters l). safe_html (cp_body_html h)"
  shows "(\<forall>l' h. upsert_chapter (render_markdown markdown parse) l tenant course number title body_md part = Inr (l', h) \<longrightarrow>
            (\<forall>h \<in> set (chapters l'). safe_html (cp_body_html h)))
     \<and> (\<forall>l'. delete_chapter l tenant course chapter = Inr l' \<longrightarrow> (\<forall>h \<in> set (chapters l'). safe_html (cp_body_html h)))
     \<and> (\<forall>l' c. import_manual sha256 yaml shown (render_markdown markdown parse) l tenant slug title discipline source_ref files figs strict
              = Inr (l', c) \<longrightarrow> (\<forall>h \<in> set (chapters l'). safe_html (cp_body_html h)))"
proof (intro conjI allI impI)
  fix l' h assume "upsert_chapter (render_markdown markdown parse) l tenant course number title body_md part = Inr (l', h)"
  then show "\<forall>h \<in> set (chapters l'). safe_html (cp_body_html h)"
    using assms rendered_chapters_are_safe
    by (auto simp: upsert_chapter_def Let_def set_chapter_def update_rows_def split: if_splits option.splits)
next
  fix l' assume "delete_chapter l tenant course chapter = Inr l'"
  then show "\<forall>h \<in> set (chapters l'). safe_html (cp_body_html h)"
    using assms by (auto simp: delete_chapter_def split: if_splits option.splits)
next
  fix l' c
  assume "import_manual sha256 yaml shown (render_markdown markdown parse) l tenant slug title discipline source_ref files figs strict = Inr (l', c)"
  then obtain l1 changed docs l2 changed' where
      l1: "import_course l tenant slug (display_title title) discipline source_ref = (l1, c, changed)"
    and docs: "each (\<lambda>(_, raw). parse_chapter sha256 yaml shown (render_markdown markdown parse) figs raw) files = Inr docs"
    and l2: "fold (import_chapter tenant c) docs (l1, changed) = (l2, changed')"
    and l': "l' = (if changed' then bump_version c l2 else l2)"
    by (rule import_manual_cases)
  have "chapters_safe (fst (fold (import_chapter tenant c) docs s))" if "chapters_safe (fst s)" for s
  proof -
    have "chapters_safe (fst (fold (import_chapter tenant c) ds s))"
      if "chapters_safe (fst s)" "\<forall>d \<in> set ds. safe_html (cd_body_html d)" for ds s
      using that
    proof (induction ds arbitrary: s)
      case (Cons d ds)
      then have "chapters_safe (fst (import_chapter tenant c d s))" by (intro import_chapter_safe) simp_all
      with Cons show ?case by simp
    qed simp
    from this [OF that each_parsed_safe [OF docs]] show ?thesis .
  qed
  from this [of "(l1, changed)"] have "chapters_safe l2"
    using assms import_course_chapters [OF l1] l2 by (simp add: chapters_safe_def)
  then show "\<forall>h \<in> set (chapters l'). safe_html (cp_body_html h)" by (simp add: l' chapters_safe_def)
qed

section \<open>Importing again\<close>

text \<open>The chapter of every document is stored under its hash.\<close>

definition has_imported :: "library \<Rightarrow> uuid \<Rightarrow> uuid \<Rightarrow> chapter_doc \<Rightarrow> bool" where
  "has_imported l tenant course d =
     (\<exists>h. chapter_numbered l tenant course (cd_number d) = Some h \<and> cp_source_hash h = cd_source_hash d)"

lemma import_same: "has_imported l tenant course d \<Longrightarrow> import_chapter tenant course d (l, changed) = (l, changed)"
  by (auto simp: import_chapter_def has_imported_def)

lemma import_same_all: "\<forall>d \<in> set docs. has_imported l tenant course d \<Longrightarrow> fold (import_chapter tenant course) docs (l, changed) = (l, changed)"
  by (induction docs) (simp_all add: import_same)

lemma import_chapter_numbered:
  "chapter_numbered (fst (import_chapter tenant course d s)) tenant course n =
     (if n = cd_number d then
        (case chapter_numbered (fst s) tenant course n of
           None \<Rightarrow> Some \<lparr>cp_id = next_id (lib_db (fst s)), cp_tenant = tenant, cp_course = course, cp_number = cd_number d, cp_title = cd_title d,
              cp_part = cd_part d, cp_body_html = cd_body_html d, cp_body_md = '''', cp_source_hash = cd_source_hash d,
              cp_order_index = cd_number d\<rparr>
         | Some h \<Rightarrow> Some (if cp_source_hash h \<noteq> cd_source_hash d
             then h\<lparr>cp_title := cd_title d, cp_part := cd_part d, cp_body_html := cd_body_html d, cp_source_hash := cd_source_hash d\<rparr> else h))
      else chapter_numbered (fst s) tenant course n)"
proof -
  obtain l changed where s: "s = (l, changed)" by (cases s)
  show ?thesis
  proof (cases "chapter_numbered l tenant course (cd_number d)")
    case None
    then show ?thesis by (auto simp: s import_chapter_def chapter_numbered_def find_append split: option.split)
  next
    case (Some h)
    then have h: "cp_tenant h = tenant" "cp_course h = course" "cp_number h = cd_number d"
      by (auto simp: chapter_numbered_def find_Some_iff)
    let ?f = "\<lambda>r. r\<lparr>cp_title := cd_title d, cp_part := cd_part d, cp_body_html := cd_body_html d, cp_source_hash := cd_source_hash d\<rparr>"
    have "find (\<lambda>r. cp_tenant r = tenant \<and> cp_course r = course \<and> cp_number r = n) (update_rows (\<lambda>r. r = h) ?f (chapters l))
        = map_option (\<lambda>r. if r = h then ?f r else r) (chapter_numbered l tenant course n)"
      unfolding chapter_numbered_def by (rule find_update_rows_same) simp
    then have "chapter_numbered (set_chapter h ?f l) tenant course n = map_option (\<lambda>r. if r = h then ?f r else r) (chapter_numbered l tenant course n)"
      by (simp add: chapter_numbered_def set_chapter_def)
    moreover have "r \<noteq> h" if "chapter_numbered l tenant course n = Some r" "n \<noteq> cd_number d" for r
      using that h(3) by (auto simp: chapter_numbered_def find_Some_iff)
    ultimately show ?thesis using Some
      by (cases "chapter_numbered l tenant course n") (auto simp: s import_chapter_def)
  qed
qed

lemma import_all_imported:
  "distinct (map cd_number docs) \<Longrightarrow> \<forall>d \<in> set docs. has_imported (fst (fold (import_chapter tenant course) docs s)) tenant course d"
proof (induction docs arbitrary: s)
  case (Cons d docs)
  have keep: "has_imported (fst (fold (import_chapter tenant course) ds s)) tenant course d"
    if "cd_number d \<notin> cd_number ` set ds" "has_imported (fst s) tenant course d" for ds s
    using that
  proof (induction ds arbitrary: s)
    case (Cons e ds)
    then have "has_imported (fst (import_chapter tenant course e s)) tenant course d"
      by (auto simp: has_imported_def import_chapter_numbered)
    with Cons show ?case by simp
  qed simp
  have "has_imported (fst (import_chapter tenant course d s)) tenant course d"
    by (auto simp: has_imported_def import_chapter_numbered split: option.split)
  with Cons show ?case by (auto intro: keep)
qed simp

lemma same_course:
  assumes "co_title x = title" "cm_discipline (course_meta_of l (co_id x)) = discipline" "cm_source_ref (course_meta_of l (co_id x)) = source_ref"
  shows "with_db (\<lambda>db. db\<lparr>courses := update_rows (\<lambda>r. r = x) (\<lambda>r. r\<lparr>co_title := title\<rparr>) (courses db)\<rparr>)
     (l\<lparr>course_meta_of := (course_meta_of l)(co_id x := (course_meta_of l (co_id x))\<lparr>cm_discipline := discipline, cm_source_ref := source_ref\<rparr>)\<rparr>) = l"
proof -
  have "(if r = x then r\<lparr>co_title := title\<rparr> else r) = r" for r using assms(1) by auto
  then have "update_rows (\<lambda>r. r = x) (\<lambda>r. r\<lparr>co_title := title\<rparr>) rows = rows" for rows by (simp add: update_rows_def)
  moreover have "m\<lparr>cm_discipline := discipline, cm_source_ref := source_ref\<rparr> = m"
    if "cm_discipline m = discipline" "cm_source_ref m = source_ref" for m :: course_meta
    using that by (cases m) simp
  from this [OF assms(2,3)] have "(course_meta_of l)(co_id x := (course_meta_of l (co_id x))
      \<lparr>cm_discipline := discipline, cm_source_ref := source_ref\<rparr>) = course_meta_of l" by (rule fun_upd_idem [OF sym])
  ultimately show ?thesis by (simp add: with_db_def)
qed

lemma import_course_found:
  assumes "import_course l tenant slug title discipline source_ref = (l1, c, changed)"
    and "\<forall>x \<in> set (courses (lib_db l)). co_id x < next_id (lib_db l)"
  shows "\<exists>x. course_with_slug l1 tenant slug = Some x \<and> co_id x = c \<and> co_title x = title
     \<and> cm_discipline (course_meta_of l1 c) = discipline \<and> cm_source_ref (course_meta_of l1 c) = source_ref"
proof (cases "course_with_slug l tenant slug")
  case None
  let ?c = "\<lparr>co_id = next_id (lib_db l), co_tenant = tenant, co_title = title, co_status = ''published''\<rparr>"
  let ?m = "\<lparr>cm_slug = slug, cm_discipline = discipline, cm_source_ref = source_ref, cm_version = 1, cm_listed = False\<rparr>"
  have l1: "l1 = add_course l ?c ?m" "c = co_id ?c" using assms(1) None by (auto simp: import_course_def Let_def)
  have "find (\<lambda>x. co_tenant x = tenant \<and> course_slug (add_course l ?c ?m) (co_id x) = slug) (courses (lib_db l)) = None"
    using None assms(2)
    by (auto simp: find_None_iff course_with_slug_def course_slug_def add_course_def with_db_def)
  then have "course_with_slug l1 tenant slug = Some ?c"
    by (auto simp: course_with_slug_def l1(1) find_append course_slug_def add_course_def with_db_def lib_db_def)
  then show ?thesis by (simp add: l1 add_course_def with_db_def)
next
  case (Some x)
  have c: "c = co_id x" using assms(1) Some by (auto simp: import_course_def Let_def)
  have db: "courses (lib_db l1) = update_rows (\<lambda>r. r = x) (\<lambda>r. r\<lparr>co_title := title\<rparr>) (courses (lib_db l))"
    and meta: "course_meta_of l1 = (course_meta_of l)(co_id x := (course_meta_of l (co_id x))\<lparr>cm_discipline := discipline, cm_source_ref := source_ref\<rparr>)"
    using assms(1) Some by (auto simp: import_course_def Let_def with_db_def lib_db_def)
  have slug: "course_slug l1 i = course_slug l i" for i by (simp add: course_slug_def meta)
  have "course_with_slug l1 tenant slug = map_option (\<lambda>r. if r = x then r\<lparr>co_title := title\<rparr> else r) (course_with_slug l tenant slug)"
    unfolding course_with_slug_def db slug by (rule find_update_rows_same) simp
  then show ?thesis using Some by (simp add: c meta)
qed

lemma import_chapters_courses:
  "courses (lib_db (fst (fold (import_chapter tenant course) docs s))) = courses (lib_db (fst s))
   \<and> course_meta_of (fst (fold (import_chapter tenant course) docs s)) = course_meta_of (fst s)"
proof (induction docs arbitrary: s)
  case (Cons d docs)
  have "courses (lib_db (fst (import_chapter tenant course d s))) = courses (lib_db (fst s))
     \<and> course_meta_of (fst (import_chapter tenant course d s)) = course_meta_of (fst s)"
    by (cases s) (auto simp: import_chapter_def add_chapter_def set_chapter_def with_db_def lib_db_def split: option.splits)
  with Cons show ?case by simp
qed simp

text \<open>C33. Importing a manual again changes nothing: when the chapter numbers of the files differ, a second import of the same
  files into the library the first one left returns that library, with the same course and no new version.\<close>

theorem import_is_idempotent:
  assumes "import_manual sha256 yaml shown render l tenant slug title discipline source_ref files figs strict = Inr (l', c)"
    and "\<forall>x \<in> set (courses (lib_db l)). co_id x < next_id (lib_db l)"
    and "\<forall>docs. each (\<lambda>(_, raw). parse_chapter sha256 yaml shown render figs raw) files = Inr docs \<longrightarrow> distinct (map cd_number docs)"
  shows "import_manual sha256 yaml shown render l' tenant slug title discipline source_ref files figs strict = Inr (l', c)"
proof -
  obtain l1 changed docs l2 changed' where
      l1: "import_course l tenant slug (display_title title) discipline source_ref = (l1, c, changed)"
    and docs: "each (\<lambda>(_, raw). parse_chapter sha256 yaml shown render figs raw) files = Inr docs"
    and l2: "fold (import_chapter tenant c) docs (l1, changed) = (l2, changed')"
    and l': "l' = (if changed' then bump_version c l2 else l2)"
    using assms(1) by (rule import_manual_cases)
  have kept: "courses (lib_db l2) = courses (lib_db l1)" "course_meta_of l2 = course_meta_of l1"
    using import_chapters_courses [of tenant c docs "(l1, changed)"] l2 by simp_all
  have meta: "course_slug l' i = course_slug l1 i" "cm_discipline (course_meta_of l' i) = cm_discipline (course_meta_of l1 i)"
      "cm_source_ref (course_meta_of l' i) = cm_source_ref (course_meta_of l1 i)" for i
    by (simp_all add: l' course_slug_def bump_version_def kept)
  obtain x where x: "course_with_slug l1 tenant slug = Some x" "co_id x = c" "co_title x = display_title title"
      "cm_discipline (course_meta_of l1 c) = discipline" "cm_source_ref (course_meta_of l1 c) = source_ref"
    using import_course_found [OF l1 assms(2)] by blast
  have "courses (lib_db l') = courses (lib_db l1)" by (simp add: l' kept)
  then have "course_with_slug l' tenant slug = Some x" using x(1) by (simp add: course_with_slug_def meta)
  then have course: "import_course l' tenant slug (display_title title) discipline source_ref = (l', c, False)"
    using same_course [of x "display_title title" l' discipline source_ref] x meta by (simp add: import_course_def Let_def)
  have "\<forall>d \<in> set docs. has_imported l2 tenant c d"
    using import_all_imported [of docs tenant c "(l1, changed)"] assms(3) docs l2 by simp
  then have "\<forall>d \<in> set docs. has_imported l' tenant c d" by (simp add: l' has_imported_def chapter_numbered_def)
  from import_same_all [OF this] show ?thesis
    using assms(1) by (simp add: import_manual_def course docs split: if_splits)
qed

text \<open>An import over a chapter that was written in the application leaves the old Markdown beside the new text, and the
  editor opens the old one.\<close>

theorem import_leaves_stale_source:
  assumes "chapter_numbered l tenant course (cd_number d) = Some h" "cp_source_hash h \<noteq> cd_source_hash d" "py_strip (cp_body_md h) \<noteq> []"
  shows "\<exists>h'. chapter_numbered (fst (import_chapter tenant course d (l, changed))) tenant course (cd_number d) = Some h'
     \<and> cp_body_html h' = cd_body_html d \<and> editable_chapter_source parse (cp_body_md h') (cp_body_html h') = cp_body_md h"
  using assms by (simp add: import_chapter_numbered editable_chapter_source_def)

section \<open>Witnesses\<close>

definition sample_parse :: "string \<Rightarrow> html_event list" where
  "sample_parse s = [StartTag ''p'' [(''onclick'', Some ''x()'')], Data s, EndTag ''p'', StartTag ''a'' [(''href'', Some ''javascript:x()'')], Data ''y'', EndTag ''a'']"

lemma sample_saved:
  "case upsert_chapter (render_markdown id sample_parse) sample_shelf 11 2 1 ''T'' ''a<b'' '''' of
     Inr (l', h) \<Rightarrow> cp_body_html h = ''<p>a&lt;b</p><a href='' @ [DQ] @ ''#'' @ [DQ] @ ''>y</a>'' \<and> length (chapters l') = 1 | _ \<Rightarrow> False"
  by code_simp

theorem stored_chapters_stay_safe_witness:
  "\<exists>l' h. upsert_chapter (render_markdown id sample_parse) sample_shelf 11 2 1 ''T'' ''a<b'' '''' = Inr (l', h)
     \<and> length (chapters l') = 1 \<and> safe_html (cp_body_html (hd (chapters l')))"
proof -
  obtain l' h where s: "upsert_chapter (render_markdown id sample_parse) sample_shelf 11 2 1 ''T'' ''a<b'' '''' = Inr (l', h)"
    and one: "length (chapters l') = 1"
    using sample_saved by (auto split: sum.splits prod.splits)
  have "\<forall>h \<in> set (chapters sample_shelf). safe_html (cp_body_html h)" by (simp add: sample_shelf_def)
  note this [THEN stored_chapters_stay_safe, of id sample_parse 11 2 1 "''T''" "''a<b''" "''''"]
  then have "\<forall>h \<in> set (chapters l'). safe_html (cp_body_html h)" using s by simp
  moreover from one have "hd (chapters l') \<in> set (chapters l')" by (cases "chapters l'") simp_all
  ultimately show ?thesis using s one by blast
qed

definition sample_manual :: "library \<Rightarrow> (library \<times> uuid) bank_result" where
  "sample_manual l = import_manual id (\<lambda>_. [(''chapter'', JInt 1), (''title'', JStr ''T'')]) sample_render id l 11 ''net'' ''T'' ''networking'' ''net@1''
     [(''chapter-01.md'', ''---'' @ [NL] @ ''chapter: 1'' @ [NL] @ ''---'' @ [NL] @ ''FIGURE `F-1` text'')] (\<lambda>_. Some ''png'') True"

theorem import_is_idempotent_witness:
  "\<exists>l' c. sample_manual sample_shelf = Inr (l', c) \<and> sample_manual l' = Inr (l', c)"
proof -
  have "case sample_manual sample_shelf of Inr _ \<Rightarrow> True | _ \<Rightarrow> False" by code_simp
  then obtain l' c where m: "sample_manual sample_shelf = Inr (l', c)" by (auto split: sum.splits)
  have fresh: "\<forall>x \<in> set (courses (lib_db sample_shelf)). co_id x < next_id (lib_db sample_shelf)"
    by (simp add: sample_shelf_def lib_db_def empty_db_def)
  have one: "distinct (map cd_number docs)" if "each f [x] = Inr docs" for f :: "string \<times> string \<Rightarrow> chapter_doc bank_result" and x docs
    using that by (auto simp: and_then_eq_Inr)
  have "sample_manual l' = Inr (l', c)"
    unfolding sample_manual_def
    by (rule import_is_idempotent [OF m [unfolded sample_manual_def] fresh]) (intro allI impI, rule one)
  with m show ?thesis by blast
qed

end
