(* ===== verification/Erp_Sync.thy ===== *)
theory Erp_Sync
  imports Library_Model Account_Security Entrance_Exam
begin

text \<open>
  What the academy tells the ERP system: who is staff (\<open>services/audience.py\<close>), the projection of their course
  progress (\<open>services/erp_sync.py\<close>, the completion checkpoints of \<open>models/erp_completion_checkpoint.py\<close>) and the
  delivery of entrance results (\<open>services/erp_assessment_sync.py\<close>), with the command of \<open>cli.py\<close> that runs both. The ERP is an argument:
  its answer to a request may depend on every request posted before. HMAC, the rendering of JSON
  and of dates are arguments too; a byte string that is a text is the string of its characters.
\<close>

record erp_checkpoint =
  ek_tenant :: uuid
  ek_completion :: uuid
  ek_synced_at :: "instant option"

text \<open>
  The tables of the exchange, and the columns it adds to enrolments (audience, employee reference) and to completions
  (legacy stamp, progress marker, time of the last change), each by the id of its row.
\<close>

record erp_store =
  er_library :: library
  er_checkpoints :: "erp_checkpoint list"
  er_audience :: "uuid \<Rightarrow> string option"
  er_employee_ref :: "uuid \<Rightarrow> string option"
  er_legacy_synced_at :: "uuid \<Rightarrow> instant option"
  er_synced_pct :: "uuid \<Rightarrow> rat option"
  er_updated_at :: "uuid \<Rightarrow> instant"

definition erp_db :: "erp_store \<Rightarrow> academy_db" where
  "erp_db s = lib_db (er_library s)"

definition with_erp_db :: "(academy_db \<Rightarrow> academy_db) \<Rightarrow> erp_store \<Rightarrow> erp_store" where
  "with_erp_db f s = s\<lparr>er_library := with_db f (er_library s)\<rparr>"

section \<open>Audience\<close>

definition STAFF :: string where "STAFF = ''staff''"
definition EXTERNAL :: string where "EXTERNAL = ''external''"

record audience_counts =
  nc_staff :: nat
  nc_external :: nat
  nc_unclassified :: nat
  nc_unchanged :: nat

text \<open>The dictionary comprehension: a later roster line of the same address wins.\<close>

definition normalised_roster :: "(string \<times> string) list \<Rightarrow> (string \<times> string) list" where
  "normalised_roster roster =
     rev (map (\<lambda>(email, ref). (py_lower (py_strip email), ref)) (filter (\<lambda>(email, ref). email \<noteq> '''' \<and> ref \<noteq> '''') roster))"

definition active_students :: "academy_db \<Rightarrow> uuid \<Rightarrow> (enrollment_row \<times> person_row) list" where
  "active_students db tenant =
     filter (\<lambda>(e, p). pe_id p = en_person e \<and> pe_tenant p = en_tenant e \<and> en_tenant e = tenant
                      \<and> en_status e = ''active'' \<and> en_role e = ''student'')
       (List.product (enrollments db) (people db))"

definition set_audience :: "uuid \<Rightarrow> string \<Rightarrow> string option \<Rightarrow> erp_store \<Rightarrow> erp_store" where
  "set_audience i a ref s =
     s\<lparr>er_audience := (er_audience s)(i := Some a), er_employee_ref := (er_employee_ref s)(i := ref)\<rparr>"

definition classify_row ::
    "(string \<times> string) list \<Rightarrow> bool \<Rightarrow> enrollment_row \<times> person_row \<Rightarrow> erp_store \<times> audience_counts \<Rightarrow> erp_store \<times> audience_counts" where
  "classify_row normalised rest_external = (\<lambda>(e, p) (s, c).
     case map_of normalised (py_lower (py_strip (pe_email p))) of
       Some ref \<Rightarrow>
         if er_audience s (en_id e) = Some STAFF \<and> er_employee_ref s (en_id e) = Some ref
         then (s, c\<lparr>nc_unchanged := nc_unchanged c + 1\<rparr>)
         else (set_audience (en_id e) STAFF (Some ref) s, c\<lparr>nc_staff := nc_staff c + 1\<rparr>)
     | None \<Rightarrow>
         if rest_external
         then if er_audience s (en_id e) = Some EXTERNAL then (s, c\<lparr>nc_unchanged := nc_unchanged c + 1\<rparr>)
              else (set_audience (en_id e) EXTERNAL None s, c\<lparr>nc_external := nc_external c + 1\<rparr>)
         else (s, c\<lparr>nc_unclassified := nc_unclassified c + 1\<rparr>))"

definition classify_from_roster ::
    "erp_store \<Rightarrow> uuid \<Rightarrow> (string \<times> string) list \<Rightarrow> bool \<Rightarrow> erp_store \<times> audience_counts" where
  "classify_from_roster s tenant roster rest_external =
     fold (classify_row (normalised_roster roster) rest_external) (active_students (erp_db s) tenant)
       (s, \<lparr>nc_staff = 0, nc_external = 0, nc_unclassified = 0, nc_unchanged = 0\<rparr>)"

definition unclassified :: "erp_store \<Rightarrow> uuid \<Rightarrow> (string \<times> string) list" where
  "unclassified s tenant =
     map (\<lambda>(email, first, second). (email, py_strip (first @ '' '' @ second)))
       (sort_key fst (remdups (map (\<lambda>(e, p). (pe_email p, pe_first_name p, pe_last_name p))
         (filter (\<lambda>(e, p). er_audience s (en_id e) = None) (active_students (erp_db s) tenant)))))"

definition audience_enrolments :: "erp_store \<Rightarrow> uuid \<Rightarrow> enrollment_row list" where
  "audience_enrolments s tenant =
     filter (\<lambda>e. en_tenant e = tenant \<and> en_status e = ''active'' \<and> en_role e = ''student'') (enrollments (erp_db s))"

text \<open>
  The counts by label; rows without audience and rows whose audience is the empty string share a label, and the
  group read last decides it.
\<close>

definition counts_by_audience :: "erp_store \<Rightarrow> uuid \<Rightarrow> (string \<times> nat) list" where
  "counts_by_audience s tenant =
     fold (\<lambda>(label, people_of). AList.update (if or_empty label = '''' then ''unclassified'' else or_empty label)
             (length (remdups (map en_person people_of))))
       (group_rows (\<lambda>e. er_audience s (en_id e)) (audience_enrolments s tenant))
       [(STAFF, 0), (EXTERNAL, 0), (''unclassified'', 0)]"

definition staff_person_ids :: "erp_store \<Rightarrow> uuid \<Rightarrow> uuid list" where
  "staff_person_ids s tenant =
     remdups (map en_person (filter (\<lambda>e. er_audience s (en_id e) = Some STAFF) (audience_enrolments s tenant)))"

section \<open>The exchange with the ERP\<close>

record erp_request =
  rq_body :: string
  rq_signature :: string

text \<open>The JSON of a reply is \<open>None\<close> where \<open>resp.json()\<close> raises.\<close>

record erp_reply =
  ry_status_code :: int
  ry_json :: "json option"

record erp_config =
  ec_webhook_url :: string
  ec_webhook_secret :: string
  ec_hmac :: "string \<Rightarrow> string \<Rightarrow> bytes"
  ec_dumps :: "json \<Rightarrow> string"
  ec_dumps_canonical :: "json \<Rightarrow> string"
  ec_render :: "json \<Rightarrow> string"
  ec_iso :: "instant \<Rightarrow> string"
  ec_utc :: "instant \<Rightarrow> string"
  ec_date :: "instant \<Rightarrow> string"
  ec_answer :: "erp_request list \<Rightarrow> erp_request \<Rightarrow> erp_reply option"

datatype erp_outcome = SYNCED | UNMATCHED | FAILED

text \<open>\<open>hexdigest\<close>.\<close>

definition hex_bytes :: "bytes \<Rightarrow> string" where
  "hex_bytes bs = concat (map (\<lambda>b. [hex_digit (unat b div 16), hex_digit (unat b mod 16)]) bs)"

definition sign_body :: "erp_config \<Rightarrow> string \<Rightarrow> string" where
  "sign_body cfg body = ''sha256='' @ hex_bytes (ec_hmac cfg (ec_webhook_secret cfg) body)"

definition NOT_RECORDED :: "string list" where "NOT_RECORDED = [''ignored'', ''unsupported'']"
definition RECORDED :: "string list" where "RECORDED = [''recorded'', ''updated'', ''duplicate'']"

definition reply_status :: "(json \<Rightarrow> string) \<Rightarrow> erp_reply \<Rightarrow> string option" where
  "reply_status render r =
     (case ry_json r of
        Some (JObj body) \<Rightarrow>
          let inner = (case obj_get body ''detail'' of
                         Some (JObj detail) \<Rightarrow> if obj_get detail ''status'' \<noteq> None then detail else body
                       | _ \<Rightarrow> body)
          in (case obj_get inner ''status'' of
                None \<Rightarrow> None
              | Some JNull \<Rightarrow> None
              | Some v \<Rightarrow> Some (py_lower (py_str render v)))
      | _ \<Rightarrow> None)"

definition outcome_of :: "(json \<Rightarrow> string) \<Rightarrow> erp_reply \<Rightarrow> erp_outcome" where
  "outcome_of render r =
     (let status = reply_status render r in
      if status \<in> Some ` set NOT_RECORDED then UNMATCHED
      else if ry_status_code r div 100 \<noteq> 2 then FAILED
      else if status \<notin> Some ` set RECORDED then FAILED
      else SYNCED)"

text \<open>
  \<open>httpx.post\<close> of a signed body: the request joins the ones sent, whatever becomes of the transaction; no
  reply is a network error.
\<close>

definition post_body :: "erp_config \<Rightarrow> string \<Rightarrow> erp_request list \<Rightarrow> erp_request list \<times> erp_reply option" where
  "post_body cfg body sent =
     (let r = \<lparr>rq_body = body, rq_signature = sign_body cfg body\<rparr> in (sent @ [r], ec_answer cfg sent r))"

section \<open>Course progress\<close>

definition CONTRACT_VERSION :: int where "CONTRACT_VERSION = 2"

definition opt_str :: "string option \<Rightarrow> json" where
  "opt_str s = (case s of None \<Rightarrow> JNull | Some t \<Rightarrow> JStr t)"

definition completion_payload :: "erp_config \<Rightarrow> erp_store \<Rightarrow> enrollment_row \<Rightarrow> course_row \<Rightarrow> completion_row \<Rightarrow> json" where
  "completion_payload cfg s e course c =
     (let completed = (cc_status c = ''completed''); meta = course_meta_of (er_library s) (co_id course)
      in JObj ([(''version'', JInt CONTRACT_VERSION),
                (''event'', JStr (if completed then ''course_completed'' else ''training_progress_updated'')),
                (''employee_ref'', opt_str (er_employee_ref s (en_id e))),
                (''academy_enrollment_ref'', JStr (uuid_str (en_id e))),
                (''academy_course_ref'', JStr (cm_source_ref meta)),
                (''course_title'', JStr (co_title course)),
                (''course_version'', JInt (cm_version meta)),
                (''progress_pct'', JFloat (py_round_to 2 (cc_pct c * 100))),
                (''status'', JStr (cc_status c)),
                (''occurred_at'', JStr (ec_iso cfg (er_updated_at s (cc_id c))))]
               @ (if completed
                  then [(''passed'', JBool True),
                        (''completed_on'', case cc_completed_at c of None \<Rightarrow> JNull | Some t \<Rightarrow> JStr (ec_date cfg t)),
                        (''certificate_ref'', JStr (uuid_str (cc_id c)))]
                  else [])))"

datatype sync_error = ERPCheckpointInvariantError string

definition checkpoint_key :: "uuid \<Rightarrow> uuid \<Rightarrow> erp_checkpoint \<Rightarrow> bool" where
  "checkpoint_key tenant i k = (ek_tenant k = tenant \<and> ek_completion k = i)"

definition get_checkpoint :: "erp_store \<Rightarrow> uuid \<Rightarrow> uuid \<Rightarrow> erp_checkpoint option" where
  "get_checkpoint s tenant i = find (checkpoint_key tenant i) (er_checkpoints s)"

definition locked_checkpoint ::
    "erp_store \<Rightarrow> uuid \<Rightarrow> completion_row \<Rightarrow> sync_error + (erp_store \<times> erp_checkpoint)" where
  "locked_checkpoint s tenant c =
     (if cc_tenant c \<noteq> tenant then Inl (ERPCheckpointInvariantError ''completion belongs to another tenant'')
      else case get_checkpoint s tenant (cc_id c) of
             Some k \<Rightarrow> Inr (s, k)
           | None \<Rightarrow>
               if er_legacy_synced_at s (cc_id c) \<noteq> None
               then Inl (ERPCheckpointInvariantError ''missing checkpoint for legacy acknowledged completion'')
               else let k = \<lparr>ek_tenant = tenant, ek_completion = cc_id c, ek_synced_at = None\<rparr>
                    in Inr (s\<lparr>er_checkpoints := er_checkpoints s @ [k]\<rparr>, k))"

definition mark_progress :: "completion_row \<Rightarrow> erp_store \<Rightarrow> erp_store" where
  "mark_progress c s = s\<lparr>er_synced_pct := (er_synced_pct s)(cc_id c := Some (cc_pct c))\<rparr>"

definition stamp_checkpoint :: "uuid \<Rightarrow> uuid \<Rightarrow> instant \<Rightarrow> erp_store \<Rightarrow> erp_store" where
  "stamp_checkpoint tenant i now s =
     s\<lparr>er_checkpoints := update_rows (checkpoint_key tenant i) (\<lambda>k. k\<lparr>ek_synced_at := Some now\<rparr>) (er_checkpoints s)\<rparr>"

text \<open>The enrolment a push looks up for itself.\<close>

definition staff_enrollment :: "erp_store \<Rightarrow> uuid \<Rightarrow> completion_row \<Rightarrow> enrollment_row option" where
  "staff_enrollment s tenant c =
     find (\<lambda>e. en_tenant e = tenant \<and> en_person e = cc_person c \<and> er_audience s (en_id e) = Some STAFF
               \<and> er_employee_ref s (en_id e) \<noteq> None
               \<and> list_ex (\<lambda>f. of_tenant f = en_tenant e \<and> of_cohort f = en_cohort e \<and> of_course f = cc_course c
                              \<and> of_status f = ''active'') (offerings (erp_db s)))
       (enrollments (erp_db s))"

type_synonym 'a pushed = "erp_request list \<times> (sync_error + erp_store \<times> 'a)"

definition push_completion ::
    "erp_config \<Rightarrow> instant \<Rightarrow> uuid \<Rightarrow> completion_row \<Rightarrow> enrollment_row option \<Rightarrow> erp_store \<Rightarrow> erp_request list \<Rightarrow>
     erp_outcome pushed" where
  "push_completion cfg now tenant c enrollment s sent =
     (if ec_webhook_url cfg = '''' then (sent, Inr (s, FAILED))
      else case locked_checkpoint s tenant c of
             Inl e \<Rightarrow> (sent, Inl e)
           | Inr (s1, k) \<Rightarrow>
               if cc_status c = ''completed'' \<and> ek_synced_at k \<noteq> None then (sent, Inr (mark_progress c s1, SYNCED))
               else (case (if enrollment = None then staff_enrollment s1 tenant c else enrollment,
                           find (\<lambda>x. co_id x = cc_course c) (courses (erp_db s1))) of
                       (Some e, Some course) \<Rightarrow>
                         (case post_body cfg (ec_dumps cfg (completion_payload cfg s1 e course c)) sent of
                            (sent1, None) \<Rightarrow> (sent1, Inr (s1, FAILED))
                          | (sent1, Some reply) \<Rightarrow>
                              (case outcome_of (ec_render cfg) reply of
                                 SYNCED \<Rightarrow>
                                   (sent1, Inr (if cc_status c = ''completed''
                                               then stamp_checkpoint tenant (cc_id c) now (mark_progress c s1)
                                               else mark_progress c s1, SYNCED))
                               | out \<Rightarrow> (sent1, Inr (s1, out))))
                     | _ \<Rightarrow> (sent, Inr (s1, FAILED))))"

section \<open>Entrance results\<close>

definition ERP_SOURCE :: string where "ERP_SOURCE = ''erp_live''"
definition EVENT_TYPE :: string where "EVENT_TYPE = ''entrance_assessment_completed''"
definition ASSESSMENT_CONTRACT_VERSION :: int where "ASSESSMENT_CONTRACT_VERSION = 1"
definition INVALID_REASONS :: "string list" where "INVALID_REASONS = [INVALID_NEAR_CHANCE, INVALID_TOO_FAST]"
definition MAX_PROFILE_PROPERTIES :: nat where "MAX_PROFILE_PROPERTIES = 100"

definition canonical_profile :: "(string \<times> rat) list \<Rightarrow> ((string \<times> json) list) result" where
  "canonical_profile profile =
     fold (\<lambda>(key, v) r. and_then r (\<lambda>out.
             ensure (1 \<le> length key \<and> length key \<le> 40) (ValueError ''assessment profile key is not canonical'')
               (ensure (0 \<le> v \<and> v \<le> 1) (ValueError ''assessment profile value is outside the canonical range'')
                 (Inr (AList.update key (JFloat v) out)))))
       profile (Inr [])"

definition assessment_payload :: "erp_config \<Rightarrow> applicant_row \<Rightarrow> json result" where
  "assessment_payload cfg a =
     (case (ap_external_ref a, si_taken_at (ap_sitting a), si_score (ap_sitting a), si_level (ap_sitting a),
            si_profile (ap_sitting a), si_valid (ap_sitting a), si_bank (ap_sitting a)) of
        (Some ref, Some taken, Some score, Some level, Some profile, Some valid, Some bank) \<Rightarrow>
          let reason = si_invalid_reason (ap_sitting a) in
          ensure (1 \<le> si_result_version (ap_sitting a)) (ValueError ''applicant has no publishable completed assessment'')
            (ensure (0 \<le> score \<and> score \<le> 1) (ValueError ''assessment score is outside the canonical range'')
              (ensure (level \<in> set (map fst LEVELS)) (ValueError ''assessment level is not canonical'')
                (ensure (reason = None \<or> reason \<in> Some ` set INVALID_REASONS)
                   (ValueError ''assessment invalid reason is not canonical'')
                  (ensure (\<not> (valid \<and> reason \<noteq> None)) (ValueError ''valid assessment cannot have an invalid reason'')
                    (ensure (valid \<or> reason \<noteq> None) (ValueError ''invalid assessment must have an invalid reason'')
                      (ensure (length profile \<le> MAX_PROFILE_PROPERTIES)
                         (ValueError ''assessment profile has too many properties'')
                        (and_then (canonical_profile profile) (\<lambda>out.
                          Inr (JObj
                            [(''version'', JInt ASSESSMENT_CONTRACT_VERSION), (''event_type'', JStr EVENT_TYPE),
                             (''event_id'', JStr (''entrance-assessment:'' @ uuid_str (ap_id a) @ '':v''
                                                  @ show_nat (si_result_version (ap_sitting a)))),
                             (''external_ref'', JStr ref), (''assessment_bank_id'', JStr (uuid_str bank)),
                             (''result_version'', JInt (int (si_result_version (ap_sitting a)))),
                             (''completed_at'', JStr (ec_utc cfg taken)), (''score'', JFloat score),
                             (''level'', JStr level), (''profile'', JObj out), (''is_valid'', JBool valid),
                             (''invalid_reason'', opt_str reason),
                             (''time_exceeded'', JBool (si_time_exceeded (ap_sitting a))),
                             (''valid_until'', JNull)])))))))))
      | _ \<Rightarrow> Inl (ValueError ''applicant has no publishable completed assessment''))"

definition push_result ::
    "erp_config \<Rightarrow> instant \<Rightarrow> applicant_row \<Rightarrow> erp_store \<Rightarrow> erp_request list \<Rightarrow> erp_request list \<times> erp_store \<times> erp_outcome" where
  "push_result cfg now a s sent =
     (if ec_webhook_url cfg = '''' then (sent, s, FAILED)
      else case assessment_payload cfg a of
             Inl _ \<Rightarrow> (sent, s, FAILED)
           | Inr payload \<Rightarrow>
               (case post_body cfg (ec_dumps_canonical cfg payload) sent of
                  (sent1, None) \<Rightarrow> (sent1, s, FAILED)
                | (sent1, Some reply) \<Rightarrow>
                    (case outcome_of (ec_render cfg) reply of
                       SYNCED \<Rightarrow>
                         (sent1, with_erp_db (save_applicant (upd_sitting (\<lambda>x. x\<lparr>si_erp_synced_at := Some now\<rparr>) a)) s, SYNCED)
                     | out \<Rightarrow> (sent1, s, out))))"

section \<open>The sweeps\<close>

type_synonym outcome_counts = "erp_outcome \<Rightarrow> nat"

definition count_push :: "erp_outcome \<Rightarrow> outcome_counts \<Rightarrow> outcome_counts" where
  "count_push out c = c(out := c out + 1)"

definition pending_results :: "academy_db \<Rightarrow> uuid \<Rightarrow> applicant_row list" where
  "pending_results db tenant =
     sort_key (\<lambda>a. (case si_taken_at (ap_sitting a) of None \<Rightarrow> 0 | Some t \<Rightarrow> t, ap_id a))
       (filter (\<lambda>a. ap_tenant a = tenant \<and> ap_source a = ERP_SOURCE \<and> ap_external_ref a \<noteq> None
                    \<and> si_taken_at (ap_sitting a) \<noteq> None \<and> si_erp_synced_at (ap_sitting a) = None) (applicants db))"

fun push_results ::
    "erp_config \<Rightarrow> instant \<Rightarrow> applicant_row list \<Rightarrow> erp_store \<Rightarrow> erp_request list \<Rightarrow> outcome_counts \<Rightarrow>
     erp_request list \<times> erp_store \<times> outcome_counts" where
  "push_results cfg now [] s sent c = (sent, s, c)"
| "push_results cfg now (a # rest) s sent c =
     (case push_result cfg now a s sent of (sent1, s1, out) \<Rightarrow> push_results cfg now rest s1 sent1 (count_push out c))"

definition sync_results ::
    "erp_config \<Rightarrow> instant \<Rightarrow> uuid \<Rightarrow> erp_store \<Rightarrow> erp_request list \<Rightarrow> erp_request list \<times> erp_store \<times> outcome_counts" where
  "sync_results cfg now tenant s sent =
     (if ec_webhook_url cfg = '''' then (sent, s, \<lambda>_. 0)
      else push_results cfg now (pending_results (erp_db s) tenant) s sent (\<lambda>_. 0))"

text \<open>The joined rows of the sweep: an active staff enrolment in a cohort with an active offering of the course.\<close>

definition projected_rows :: "erp_store \<Rightarrow> uuid \<Rightarrow> (completion_row \<times> enrollment_row) list" where
  "projected_rows s tenant =
     map (\<lambda>(c, f, e). (c, e))
       (filter (\<lambda>(c, f, e). of_tenant f = cc_tenant c \<and> of_course f = cc_course c
                  \<and> en_tenant e = of_tenant f \<and> en_cohort e = of_cohort f \<and> en_person e = cc_person c
                  \<and> cc_tenant c = tenant \<and> er_audience s (en_id e) = Some STAFF \<and> er_employee_ref s (en_id e) \<noteq> None
                  \<and> en_status e = ''active'' \<and> of_status f = ''active'')
         (List.product (completions (erp_db s)) (List.product (offerings (erp_db s)) (enrollments (erp_db s)))))"

fun push_rows ::
    "erp_config \<Rightarrow> instant \<Rightarrow> uuid \<Rightarrow> (completion_row \<times> enrollment_row) list \<Rightarrow> uuid list \<Rightarrow> erp_store \<Rightarrow>
     erp_request list \<Rightarrow> outcome_counts \<Rightarrow> outcome_counts pushed" where
  "push_rows cfg now tenant [] seen s sent n = (sent, Inr (s, n))"
| "push_rows cfg now tenant ((c, e) # rest) seen s sent n =
     (if cc_id c \<in> set seen \<or> er_synced_pct s (cc_id c) = Some (cc_pct c) then push_rows cfg now tenant rest seen s sent n
      else case push_completion cfg now tenant c (Some e) s sent of
             (sent1, Inl err) \<Rightarrow> (sent1, Inl err)
           | (sent1, Inr (s1, out)) \<Rightarrow> push_rows cfg now tenant rest (cc_id c # seen) s1 sent1 (count_push out n))"

definition sync_pending :: "erp_config \<Rightarrow> instant \<Rightarrow> uuid \<Rightarrow> erp_store \<Rightarrow> erp_request list \<Rightarrow> outcome_counts pushed" where
  "sync_pending cfg now tenant s sent =
     (if ec_webhook_url cfg = '''' then (sent, Inr (s, \<lambda>_. 0))
      else case push_rows cfg now tenant (projected_rows s tenant) [] s sent (\<lambda>_. 0) of
             (sent1, Inl err) \<Rightarrow> (sent1, Inl err)
           | (sent1, Inr (s1, n)) \<Rightarrow>
               (case sync_results cfg now tenant s1 sent1 of (sent2, s2, m) \<Rightarrow> (sent2, Inr (s2, \<lambda>out. n out + m out))))"

text \<open>The command: every tenant in one transaction, which an invariant error rolls back.\<close>

fun training_sync_turn ::
    "erp_config \<Rightarrow> instant \<Rightarrow> uuid list \<Rightarrow> erp_store \<Rightarrow> erp_request list \<Rightarrow> outcome_counts \<Rightarrow> outcome_counts pushed" where
  "training_sync_turn cfg now [] s sent totals = (sent, Inr (s, totals))"
| "training_sync_turn cfg now (t # ts) s sent totals =
     (case sync_pending cfg now t s sent of
        (sent1, Inl err) \<Rightarrow> (sent1, Inl err)
      | (sent1, Inr (s1, n)) \<Rightarrow> training_sync_turn cfg now ts s1 sent1 (\<lambda>out. totals out + n out))"

definition erp_training_sync ::
    "erp_config \<Rightarrow> instant \<Rightarrow> uuid list \<Rightarrow> erp_store \<Rightarrow> erp_request list \<Rightarrow>
     erp_request list \<times> erp_store \<times> (sync_error + outcome_counts)" where
  "erp_training_sync cfg now ts s sent =
     (case training_sync_turn cfg now ts s sent (\<lambda>_. 0) of
        (sent1, Inl err) \<Rightarrow> (sent1, s, Inl err)
      | (sent1, Inr (s1, totals)) \<Rightarrow> (sent1, s1, Inr totals))"

end
