(* ===== verification/Erp_Inbound.thy ===== *)
theory Erp_Inbound
  imports Erp_Sync Admissions Accounts
begin

text \<open>
  Requests from the ERP: the signed envelope (\<open>services/erp_integration_security.py\<close>), the registration of a job
  application for the entrance assessment (\<open>services/erp_applicant_assessments.py\<close>) and the endpoint
  (\<open>api/erp_applicant_assessments.py\<close>). The splitting of URLs, the JSON parser, the e-mail and UUID parsers of pydantic
  and HMAC are arguments; the regular expressions, the field rules and the encodings are written out. A function that changes
  the session before it raises returns the store beside the error: the endpoint turns the error into a response, and the session
  is then closed as after any other response.
\<close>

text \<open>What \<open>urlsplit\<close> returns; the property \<open>port\<close> may itself raise.\<close>

record split_url =
  us_scheme :: string
  us_hostname :: "string option"
  us_username :: "string option"
  us_password :: "string option"
  us_port :: "(int option) option"
  us_path :: string
  us_query :: string
  us_fragment :: string

record erp_settings =
  ei_inbound_secret :: string
  ei_token_secret :: string
  ei_max_skew :: int
  ei_return_origins :: string
  ei_public_base_url :: string
  ei_urlsplit :: "string \<Rightarrow> split_url option"
  ei_hmac :: "string \<Rightarrow> string \<Rightarrow> bytes"
  ei_json :: "string \<Rightarrow> json option"
  ei_email :: "string \<Rightarrow> string option"
  ei_uuid :: "string \<Rightarrow> uuid option"

section \<open>The signed envelope\<close>

definition MAX_SIGNED_BODY_BYTES :: nat where "MAX_SIGNED_BODY_BYTES = 16384"

text \<open>\<open>int()\<close> refuses more digits than \<open>sys.int_info.default_max_str_digits\<close>.\<close>

definition MAX_INT_DIGITS :: nat where "MAX_INT_DIGITS = 4300"

datatype auth_error = IntegrationAuthError string | IntTooLong

definition is_digit :: "char \<Rightarrow> bool" where
  "is_digit c = (48 \<le> (of_char c :: nat) \<and> (of_char c :: nat) \<le> 57)"

definition is_lower_hex :: "char \<Rightarrow> bool" where
  "is_lower_hex c = (is_digit c \<or> 97 \<le> (of_char c :: nat) \<and> (of_char c :: nat) \<le> 102)"

definition timestamp_matches :: "string \<Rightarrow> bool" where
  "timestamp_matches s = (s \<noteq> '''' \<and> list_all is_digit s)"

definition signature_matches :: "string \<Rightarrow> bool" where
  "signature_matches s = (starts_with s ''sha256='' \<and> length s = 71 \<and> list_all is_lower_hex (drop 7 s))"

definition digits_value :: "string \<Rightarrow> nat" where
  "digits_value s = foldl (\<lambda>n c. 10 * n + (of_char c - 48)) 0 s"

definition signature_preimage :: "string \<Rightarrow> string \<Rightarrow> string" where
  "signature_preimage timestamp body = timestamp @ ''.'' @ body"

definition sign_request :: "erp_settings \<Rightarrow> string \<Rightarrow> string \<Rightarrow> string \<Rightarrow> string" where
  "sign_request st secret timestamp body = ''sha256='' @ hex_bytes (ei_hmac st secret (signature_preimage timestamp body))"

definition verify_request ::
    "erp_settings \<Rightarrow> instant \<Rightarrow> string \<Rightarrow> string option \<Rightarrow> string option \<Rightarrow> auth_error + unit" where
  "verify_request st now body timestamp signature =
     (if ei_inbound_secret st = '''' then Inl (IntegrationAuthError ''integration_disabled'')
      else if length body > MAX_SIGNED_BODY_BYTES then Inl (IntegrationAuthError ''request_too_large'')
      else case (timestamp, signature) of
             (Some ts, Some sig) \<Rightarrow>
               if \<not> timestamp_matches ts then Inl (IntegrationAuthError ''invalid_timestamp'')
               else if length ts > MAX_INT_DIGITS then Inl IntTooLong
               else if show_nat (digits_value ts) \<noteq> ts then Inl (IntegrationAuthError ''invalid_timestamp'')
               else if \<bar>now - int (digits_value ts)\<bar> > ei_max_skew st then Inl (IntegrationAuthError ''stale_timestamp'')
               else if \<not> signature_matches sig then Inl (IntegrationAuthError ''invalid_signature'')
               else if sign_request st (ei_inbound_secret st) ts body \<noteq> sig then Inl (IntegrationAuthError ''invalid_signature'')
               else Inr ()
           | _ \<Rightarrow> Inl (IntegrationAuthError ''missing_authentication''))"

section \<open>URLs\<close>

text \<open>\<open>RegistrationError\<close> with its code, message and status; any other exception of the registration.\<close>

datatype reg_error = RegistrationError string string int | UncaughtValueError

definition url_origin :: "erp_settings \<Rightarrow> string \<Rightarrow> string option" where
  "url_origin st v =
     (case ei_urlsplit st v of
        None \<Rightarrow> None
      | Some u \<Rightarrow>
          (case us_port u of
             None \<Rightarrow> None
           | Some port \<Rightarrow>
               if us_scheme u \<noteq> ''https'' \<or> or_empty (us_hostname u) = '''' \<or> or_empty (us_username u) \<noteq> ''''
                  \<or> or_empty (us_password u) \<noteq> '''' then None
               else let h = py_lower (or_empty (us_hostname u));
                        host = (if CHR '':'' \<in> set h then ''['' @ h @ '']'' else h)
                    in Some (''https://'' @ host
                             @ (case port of None \<Rightarrow> '''' | Some n \<Rightarrow> if n \<noteq> 443 then '':'' @ show_int n else ''''))))"

text \<open>\<open>s.split(c)\<close>.\<close>

fun split_all :: "char \<Rightarrow> string \<Rightarrow> string list" where
  "split_all c [] = [[]]"
| "split_all c (x # s) =
     (if x = c then [] # split_all c s
      else case split_all c s of w # ws \<Rightarrow> (x # w) # ws | [] \<Rightarrow> [[x]])"

definition allowed_origins :: "erp_settings \<Rightarrow> string list" where
  "allowed_origins st = List.map_filter (\<lambda>raw. url_origin st (py_strip raw)) (split_all CHR '','' (ei_return_origins st))"

definition return_url_refused :: reg_error where
  "return_url_refused = RegistrationError ''invalid_return_url'' ''return_url is not allowed'' 422"

definition validate_return_url :: "erp_settings \<Rightarrow> string \<Rightarrow> reg_error + string" where
  "validate_return_url st v =
     (if length v > 2048 then Inl return_url_refused
      else case ei_urlsplit st v of
             None \<Rightarrow> Inl UncaughtValueError
           | Some u \<Rightarrow>
               (case url_origin st v of
                  None \<Rightarrow> Inl return_url_refused
                | Some origin \<Rightarrow>
                    if us_fragment u \<noteq> '''' \<or> origin \<notin> set (allowed_origins st) then Inl return_url_refused else Inr v))"

definition registration_unavailable :: reg_error where
  "registration_unavailable =
     RegistrationError ''integration_not_configured'' ''Applicant assessment registration is unavailable'' 503"

definition public_base_url :: "erp_settings \<Rightarrow> reg_error + string" where
  "public_base_url st =
     (let v = rstrip_slash (ei_public_base_url st) in
      case ei_urlsplit st v of
        None \<Rightarrow> Inl UncaughtValueError
      | Some u \<Rightarrow>
          if url_origin st v = None \<or> us_path u \<notin> {'''', ''/''} \<or> us_query u \<noteq> '''' \<or> us_fragment u \<noteq> ''''
          then Inl registration_unavailable else Inr v)"

section \<open>Registration\<close>

definition resolve_exam_bank :: "library \<Rightarrow> uuid \<Rightarrow> uuid option \<Rightarrow> reg_error + bank_row" where
  "resolve_exam_bank l tenant requested =
     (case (if requested = None then academy_default_bank_id (lib_db l) tenant else requested) of
        None \<Rightarrow> Inl (RegistrationError ''assessment_bank_required'' ''No default entrance assessment is configured'' 422)
      | Some i \<Rightarrow>
          (case find (\<lambda>b. bk_tenant b = tenant \<and> bk_id b = i) (banks l) of
             None \<Rightarrow> Inl (RegistrationError ''unknown_assessment_bank'' ''Assessment bank is not available'' 422)
           | Some b \<Rightarrow>
               ensure (count_rows (\<lambda>q. qu_tenant q = tenant \<and> qu_bank q = bk_id b) (questions (lib_db l)) \<noteq> 0)
                 (RegistrationError ''unknown_assessment_bank'' ''Assessment bank is not available'' 422) (Inr b)))"

text \<open>\<open>urlsafe_b64encode(digest).rstrip(b"=")\<close>.\<close>

definition urlsafe_b64 :: "bytes \<Rightarrow> string" where
  "urlsafe_b64 bs =
     rev (dropWhile (\<lambda>c. c = CHR ''='')
       (rev (map (\<lambda>c. if c = CHR ''+'' then CHR ''-'' else if c = CHR ''/'' then CHR ''_'' else c) (b64encode bs))))"

definition token_preimage :: "applicant_row \<Rightarrow> string" where
  "token_preimage a =
     ''erp-applicant-assessment:v1:'' @ uuid_str (ap_tenant a) @ '':'' @ uuid_str (ap_id a) @ '':''
     @ show_nat (si_reset_count (ap_sitting a))"

definition integration_token :: "erp_settings \<Rightarrow> applicant_row \<Rightarrow> reg_error + string" where
  "integration_token st a =
     (if ei_token_secret st = '''' then Inl registration_unavailable
      else Inr (urlsafe_b64 (ei_hmac st (ei_token_secret st) (token_preimage a))))"

definition sitting_state :: "applicant_row \<Rightarrow> instant \<Rightarrow> string" where
  "sitting_state a now =
     (if si_taken_at (ap_sitting a) \<noteq> None then ''completed''
      else if (case si_deadline (ap_sitting a) of None \<Rightarrow> False | Some d \<Rightarrow> d < now) then ''expired''
      else if si_started_at (ap_sitting a) \<noteq> None then ''in_progress''
      else ''not_started'')"

record registration =
  rg_url :: string
  rg_expires_at :: "instant option"
  rg_state :: string

definition ref_conflict :: "string \<Rightarrow> reg_error" where
  "ref_conflict message = RegistrationError ''external_ref_conflict'' message 409"

text \<open>What a registration writes to the applicant before it looks at the state of the sitting.\<close>

definition adopt_application ::
    "instant \<Rightarrow> bank_row \<Rightarrow> string \<Rightarrow> string \<Rightarrow> string \<Rightarrow> bool \<Rightarrow> applicant_row \<Rightarrow> applicant_row" where
  "adopt_application now bank url first_name last_name created a =
     (let a1 = upd_sitting (\<lambda>s. s\<lparr>si_bank := Some (bk_id bank), si_return_url := Some url\<rparr>) (a\<lparr>ap_source := ERP_SOURCE\<rparr>);
          a2 = (if created \<or> si_started_at (ap_sitting a1) = None
                then a1\<lparr>ap_first_name := py_strip first_name, ap_last_name := py_strip last_name\<rparr> else a1)
      in if si_deadline (ap_sitting a2) = None
         then upd_sitting (\<lambda>s. s\<lparr>si_deadline := Some (now + 86400 * DEFAULT_DEADLINE_DAYS)\<rparr>) a2 else a2)"

definition adoption_conflict :: "bank_row \<Rightarrow> string \<Rightarrow> applicant_row \<Rightarrow> reg_error option" where
  "adoption_conflict bank url a =
     (let x = ap_sitting a in
      if si_bank x \<noteq> None \<and> si_bank x \<noteq> Some (bk_id bank)
      then Some (ref_conflict ''external_ref is already registered with a different assessment bank'')
      else if si_return_url x \<noteq> None \<and> si_return_url x \<noteq> Some url
      then Some (ref_conflict ''external_ref is already registered with a different return URL'')
      else if si_started_at x \<noteq> None \<and> ap_source a \<noteq> ERP_SOURCE
      then Some (ref_conflict ''An existing assessment cannot be adopted after it has started'')
      else None)"

definition conflict_message :: "academy_error \<Rightarrow> string" where
  "conflict_message e = (case e of ConflictError m \<Rightarrow> m | _ \<Rightarrow> '''')"

text \<open>The link of an adopted application: its token is stored, then the public address read.\<close>

definition issue_link ::
    "exam_env \<Rightarrow> erp_settings \<Rightarrow> applicant_row \<Rightarrow> string \<Rightarrow> library \<Rightarrow> library \<times> (reg_error + registration)" where
  "issue_link xe st a state l =
     (case integration_token st a of
        Inl e \<Rightarrow> (l, Inl e)
      | Inr raw \<Rightarrow>
          let l1 = with_db (save_applicant (upd_sitting (\<lambda>s. s\<lparr>si_token_hash := Some (xe_hash xe raw)\<rparr>) a)) l
          in (case public_base_url st of
                Inl e \<Rightarrow> (l1, Inl e)
              | Inr base \<Rightarrow>
                  (l1, Inr \<lparr>rg_url = base @ ''/apply/assessment?token='' @ xe_quote xe raw,
                            rg_expires_at = si_deadline (ap_sitting a), rg_state = state\<rparr>)))"

definition register ::
    "exam_env \<Rightarrow> erp_settings \<Rightarrow> library \<Rightarrow> instant \<Rightarrow> int \<Rightarrow> uuid \<Rightarrow> string \<Rightarrow> string \<Rightarrow> string \<Rightarrow> string \<Rightarrow> uuid option \<Rightarrow>
     string \<Rightarrow> library \<times> (reg_error + registration)" where
  "register xe st l now today tenant ref email first_name last_name requested return_url =
     (case resolve_exam_bank l tenant requested of
        Inl e \<Rightarrow> (l, Inl e)
      | Inr bank \<Rightarrow>
          (case validate_return_url st return_url of
             Inl e \<Rightarrow> (l, Inl e)
           | Inr url \<Rightarrow>
               (case submit_external_application (lib_db l) now today tenant ref (normalize_email email) first_name last_name
                       ERP_SOURCE None of
                  Inl e \<Rightarrow> (l, Inl (ref_conflict (conflict_message e)))
                | Inr (db1, a, created) \<Rightarrow>
                    (case adoption_conflict bank url a of
                       Some e \<Rightarrow> (with_db (\<lambda>_. db1) l, Inl e)
                     | None \<Rightarrow>
                         let a1 = adopt_application now bank url first_name last_name created a;
                             l1 = with_db (\<lambda>_. save_applicant a1 db1) l; state = sitting_state a1 now
                         in if state = ''expired''
                            then (l1, Inl (RegistrationError ''assessment_link_expired'' ''The assessment link has expired'' 409))
                            else issue_link xe st a1 state l1))))"

section \<open>The endpoint\<close>

record registration_fields =
  rf_external_ref :: string
  rf_email :: string
  rf_first_name :: string
  rf_last_name :: string
  rf_bank :: "uuid option"
  rf_return_url :: string

datatype payload_error = MalformedJson | InvalidFields

definition FIELD_NAMES :: "string list" where
  "FIELD_NAMES = [''external_ref'', ''email'', ''first_name'', ''last_name'', ''assessment_bank_id'', ''return_url'']"

definition text_field :: "nat \<Rightarrow> (string \<times> json) list \<Rightarrow> string \<Rightarrow> string option" where
  "text_field n body key =
     (case obj_get body key of
        Some (JStr s) \<Rightarrow> if 1 \<le> length s \<and> length s \<le> n then Some s else None
      | _ \<Rightarrow> None)"

definition email_field :: "erp_settings \<Rightarrow> (string \<times> json) list \<Rightarrow> string option" where
  "email_field st body = (case obj_get body ''email'' of Some (JStr s) \<Rightarrow> ei_email st s | _ \<Rightarrow> None)"

definition bank_field :: "erp_settings \<Rightarrow> (string \<times> json) list \<Rightarrow> (uuid option) option" where
  "bank_field st body =
     (case obj_get body ''assessment_bank_id'' of
        None \<Rightarrow> Some None
      | Some JNull \<Rightarrow> Some None
      | Some (JStr s) \<Rightarrow> map_option Some (ei_uuid st s)
      | _ \<Rightarrow> None)"

definition valid_external_ref :: "string \<Rightarrow> bool" where
  "valid_external_ref s = (py_strip s \<noteq> '''' \<and> \<not> list_ex (\<lambda>c. (of_char c :: nat) < 32 \<or> (of_char c :: nat) = 127) s)"

definition valid_name :: "string \<Rightarrow> bool" where
  "valid_name s = (py_strip s \<noteq> '''')"

definition parse_registration :: "erp_settings \<Rightarrow> string \<Rightarrow> payload_error + registration_fields" where
  "parse_registration st body =
     (case ei_json st body of
        None \<Rightarrow> Inl MalformedJson
      | Some (JObj kvs) \<Rightarrow>
          (case (text_field 64 kvs ''external_ref'', email_field st kvs, text_field 80 kvs ''first_name'',
                 text_field 80 kvs ''last_name'', bank_field st kvs, text_field 2048 kvs ''return_url'') of
             (Some ref, Some email, Some first_name, Some last_name, Some bank, Some url) \<Rightarrow>
               ensure (set (map fst kvs) \<subseteq> set FIELD_NAMES \<and> valid_external_ref ref \<and> valid_name first_name \<and> valid_name last_name)
                 InvalidFields
                 (Inr \<lparr>rf_external_ref = ref, rf_email = email, rf_first_name = first_name, rf_last_name = last_name,
                       rf_bank = bank, rf_return_url = url\<rparr>)
           | _ \<Rightarrow> Inl InvalidFields)
      | Some _ \<Rightarrow> Inl InvalidFields)"

text \<open>The responses of the endpoint; \<open>ServerError\<close> is an exception that leaves the handler.\<close>

datatype api_response = ApiError int string string | ApiRegistered registration | ServerError

definition auth_response :: "string \<Rightarrow> api_response" where
  "auth_response code =
     (if code = ''integration_disabled'' then ApiError 503 code ''Applicant assessment registration is unavailable''
      else if code = ''request_too_large'' then ApiError 413 code ''Request body is too large''
      else ApiError 401 code ''Request authentication failed'')"

definition register_applicant_assessment ::
    "exam_env \<Rightarrow> erp_settings \<Rightarrow> instant \<Rightarrow> int \<Rightarrow> uuid \<Rightarrow> string \<Rightarrow> string option \<Rightarrow> string option \<Rightarrow> library \<Rightarrow>
     library \<times> api_response" where
  "register_applicant_assessment xe st now today tenant body timestamp signature l =
     (case verify_request st now body timestamp signature of
        Inl (IntegrationAuthError code) \<Rightarrow> (l, auth_response code)
      | Inl IntTooLong \<Rightarrow> (l, ServerError)
      | Inr _ \<Rightarrow>
          (case parse_registration st body of
             Inl MalformedJson \<Rightarrow> (l, ApiError 400 ''malformed_json'' ''Request body is not valid JSON'')
           | Inl InvalidFields \<Rightarrow> (l, ApiError 422 ''invalid_request'' ''Request fields are invalid'')
           | Inr p \<Rightarrow>
               (case register xe st l now today tenant (rf_external_ref p) (rf_email p) (rf_first_name p) (rf_last_name p)
                       (rf_bank p) (rf_return_url p) of
                  (l1, Inl (RegistrationError code message status)) \<Rightarrow> (l1, ApiError status code message)
                | (l1, Inl UncaughtValueError) \<Rightarrow> (l1, ApiError 500 ''internal_error'' ''Could not register applicant assessment'')
                | (l1, Inr r) \<Rightarrow> (l1, ApiRegistered r))))"

text \<open>Where the browser goes after the exam (\<open>web/apply.py\<close>): the stored address, checked again.\<close>

definition exam_redirect :: "erp_settings \<Rightarrow> applicant_row \<Rightarrow> (string option) option" where
  "exam_redirect st a =
     (if or_empty (si_return_url (ap_sitting a)) = '''' then Some None
      else case validate_return_url st (or_empty (si_return_url (ap_sitting a))) of
             Inr url \<Rightarrow> Some (Some url)
           | Inl UncaughtValueError \<Rightarrow> None
           | Inl _ \<Rightarrow> Some None)"

end
