(* ===== verification/Erp_Properties.thy ===== *)
theory Erp_Properties
  imports Erp_Inbound
begin

text \<open>
  The exchange with the ERP: a request is answered only when the ERP signed it, a registration that is repeated returns
  the same link, what is recorded as delivered was acknowledged, and only staff progress leaves the academy.
\<close>

section \<open>The signed envelope\<close>

lemma digit_not_dot: "is_digit c \<Longrightarrow> c \<noteq> CHR ''.''"
  by (auto simp: is_digit_def)

lemma framing:
  assumes "list_all is_digit t" "list_all is_digit t'" "signature_preimage t b = signature_preimage t' b'"
  shows "t = t' \<and> b = b'"
proof -
  have head: "takeWhile (\<lambda>c. c \<noteq> CHR ''.'') (signature_preimage x y) = x" if "list_all is_digit x" for x y
    using that unfolding signature_preimage_def
    by (subst takeWhile_append2) (auto simp: list_all_iff dest: digit_not_dot)
  have "t = t'" using head [OF assms(1)] head [OF assms(2)] assms(3) by metis
  then show ?thesis using assms(3) by (simp add: signature_preimage_def)
qed

lemma verify_accepts:
  assumes "verify_request st now body timestamp signature = Inr u"
  obtains ts where "timestamp = Some ts" "signature = Some (sign_request st (ei_inbound_secret st) ts body)"
    "timestamp_matches ts" "\<bar>now - int (digits_value ts)\<bar> \<le> ei_max_skew st" "length body \<le> MAX_SIGNED_BODY_BYTES"
    "ei_inbound_secret st \<noteq> ''''" "show_nat (digits_value ts) = ts"
proof (cases timestamp)
  case None
  then show ?thesis using assms by (auto simp: verify_request_def split: if_splits)
next
  case (Some ts)
  show ?thesis
  proof (cases signature)
    case None
    then show ?thesis using assms by (auto simp: verify_request_def Some split: if_splits)
  next
    case (Some sig)
    show ?thesis
      by (rule that) (use assms in \<open>auto simp: verify_request_def Some \<open>timestamp = Some ts\<close> split: if_splits\<close>)
  qed
qed

lemma unverified_request:
  assumes "register_applicant_assessment xe st now today tenant body timestamp signature l = (l', resp)"
    and "l' \<noteq> l \<or> (\<exists>r. resp = ApiRegistered r)"
  shows "verify_request st now body timestamp signature = Inr ()"
proof (cases "verify_request st now body timestamp signature")
  case (Inl e)
  then show ?thesis
    using assms by (cases e) (auto simp: register_applicant_assessment_def auth_response_def split: if_splits)
qed simp

text \<open>C8. A registration is signed: if the endpoint changes anything or answers with a link, the request carries both headers, the
  secret is configured, the signature is the HMAC under that secret of this timestamp and this very body, the timestamp is in its one
  decimal spelling and within the allowed skew of the clock, and the body is within the size limit. The signed bytes are read in one way
  only: no other decimal timestamp and body give them, so a signature vouches for exactly the pair it was made for. Nothing is assumed of
  HMAC.\<close>

theorem only_signed_requests_register:
  assumes "register_applicant_assessment xe st now today tenant body timestamp signature l = (l', resp)"
    and "l' \<noteq> l \<or> (\<exists>r. resp = ApiRegistered r)"
  shows "\<exists>t. timestamp = Some t \<and> ei_inbound_secret st \<noteq> ''''
    \<and> signature = Some (''sha256='' @ hex_bytes (ei_hmac st (ei_inbound_secret st) (t @ ''.'' @ body)))
    \<and> t \<noteq> '''' \<and> list_all is_digit t \<and> show_nat (digits_value t) = t \<and> \<bar>now - int (digits_value t)\<bar> \<le> ei_max_skew st
    \<and> length body \<le> 16384
    \<and> (\<forall>t' b'. list_all is_digit t' \<longrightarrow> t' @ ''.'' @ b' = t @ ''.'' @ body \<longrightarrow> t' = t \<and> b' = body)"
proof -
  obtain t where t: "timestamp = Some t" "signature = Some (sign_request st (ei_inbound_secret st) t body)"
      "timestamp_matches t" "\<bar>now - int (digits_value t)\<bar> \<le> ei_max_skew st" "length body \<le> MAX_SIGNED_BODY_BYTES"
      "ei_inbound_secret st \<noteq> ''''" "show_nat (digits_value t) = t"
    by (rule verify_accepts [OF unverified_request [OF assms]])
  have "t' = t \<and> b' = body" if "list_all is_digit t'" "t' @ ''.'' @ b' = t @ ''.'' @ body" for t' b'
    using framing [of t' t b' body] that t(3) by (simp add: timestamp_matches_def signature_preimage_def)
  then show ?thesis
    using t by (auto simp: timestamp_matches_def sign_request_def signature_preimage_def MAX_SIGNED_BODY_BYTES_def)
qed

section \<open>Repeating a registration\<close>

lemma with_db_with_db [simp]: "with_db f (with_db g l) = with_db (\<lambda>d. f (g d)) l"
  by (simp add: with_db_def)

lemma lib_db_with_db [simp]: "lib_db (with_db f l) = f (lib_db l)" "banks (with_db f l) = banks l"
  by (simp_all add: lib_db_def with_db_def)

lemma with_db_same: "f (lib_db l) = lib_db l \<Longrightarrow> with_db f l = l"
  by (simp add: with_db_def lib_db_def)

lemma save_keeps [simp]: "questions (save_applicant a db) = questions db"
    "entrance_defaults (save_applicant a db) = entrance_defaults db"
  by (simp_all add: save_applicant_def)

lemma find_saved_applicant:
  assumes "find p rows = Some a" "p a'" "k a' = k a"
  shows "find p (update_rows (\<lambda>r. k r = k a') (\<lambda>_. a') rows) = Some a'"
  using assms by (induction rows) (auto split: if_splits)

lemma save_save: "ap_id a = ap_id b \<Longrightarrow> save_applicant a (save_applicant b db) = save_applicant a db"
  by (auto simp: save_applicant_def update_rows_def)

lemma found_applicant:
  assumes "(case find P (applicants d) of None \<Rightarrow> Inl x | Some a \<Rightarrow> if ap_email a \<noteq> c then Inl y else Inr (d, a, k)) = Inr (d', a', k')"
  shows "d' = d \<and> find P (applicants d) = Some a' \<and> ap_email a' = c"
  using assms by (auto split: option.splits if_splits)

lemma external_keeps:
  assumes "submit_external_application db now today tenant ref email fname lname src d = Inr (db1, a, created)"
  shows "find (\<lambda>r. ap_tenant r = tenant \<and> ap_external_ref r = Some ref) (applicants db1) = Some a"
    "ap_email a = py_lower (py_strip email)" "questions db1 = questions db" "entrance_defaults db1 = entrance_defaults db"
proof -
  note f = found_applicant [OF assms [unfolded submit_external_application_def Let_def]]
  from f show "find (\<lambda>r. ap_tenant r = tenant \<and> ap_external_ref r = Some ref) (applicants db1) = Some a"
    "ap_email a = py_lower (py_strip email)" by (elim conjE, simp)+
  have "questions (add_applicant x db) = questions db \<and> entrance_defaults (add_applicant x db) = entrance_defaults db" for x
    by (simp add: add_applicant_def)
  with f [THEN conjunct1] show "questions db1 = questions db" "entrance_defaults db1 = entrance_defaults db"
    by (simp_all split: if_splits)
qed

lemma external_again:
  assumes "find (\<lambda>r. ap_tenant r = tenant \<and> ap_external_ref r = Some ref) (applicants db) = Some a"
    "ap_email a = py_lower (py_strip email)"
  shows "submit_external_application db now today tenant ref email fname lname src d = Inr (db, a, False)"
proof -
  have "list_ex (\<lambda>r. ap_tenant r = tenant \<and> ap_external_ref r = Some ref) (applicants db)"
    using find_Some_in [OF assms(1)] by (auto simp: list_ex_iff)
  then show ?thesis using assms by (simp add: submit_external_application_def Let_def)
qed

lemma adopted_keeps:
  assumes "b = adopt_application now bank url fname lname created a"
  shows "ap_id b = ap_id a" "ap_tenant b = ap_tenant a" "ap_email b = ap_email a" "ap_external_ref b = ap_external_ref a"
    "ap_source b = ERP_SOURCE" "si_bank (ap_sitting b) = Some (bk_id bank)" "si_return_url (ap_sitting b) = Some url"
    "si_deadline (ap_sitting b) \<noteq> None"
    "si_started_at (ap_sitting b) = None \<Longrightarrow> ap_first_name b = py_strip fname \<and> ap_last_name b = py_strip lname"
  using assms by (auto simp: adopt_application_def Let_def upd_sitting_def)

lemma resolve_same:
  "banks l' = banks l \<Longrightarrow> questions (lib_db l') = questions (lib_db l) \<Longrightarrow> entrance_defaults (lib_db l') = entrance_defaults (lib_db l)
   \<Longrightarrow> resolve_exam_bank l' tenant requested = resolve_exam_bank l tenant requested"
  by (simp add: resolve_exam_bank_def academy_default_bank_id_def defaults_for_def cong: option.case_cong)

text \<open>An applicant that already is as a registration would leave it.\<close>

lemma adopt_settled:
  assumes "ap_source b = ERP_SOURCE" "si_bank (ap_sitting b) = Some (bk_id bank)" "si_return_url (ap_sitting b) = Some url"
    "si_deadline (ap_sitting b) \<noteq> None"
    "si_started_at (ap_sitting b) = None \<Longrightarrow> ap_first_name b = py_strip fname \<and> ap_last_name b = py_strip lname"
  shows "adopt_application now bank url fname lname False b = b" "adoption_conflict bank url b = None"
  using assms by (auto simp: adopt_application_def Let_def upd_sitting_def adoption_conflict_def)

lemma register_cases:
  assumes "register xe st l now today tenant ref email fname lname requested return_url = (l', Inr r)"
  obtains bank url db1 a created raw base where
    "resolve_exam_bank l tenant requested = Inr bank" "validate_return_url st return_url = Inr url"
    "submit_external_application (lib_db l) now today tenant ref (normalize_email email) fname lname ERP_SOURCE None = Inr (db1, a, created)"
    "sitting_state (adopt_application now bank url fname lname created a) now \<noteq> ''expired''"
    "integration_token st (adopt_application now bank url fname lname created a) = Inr raw" "public_base_url st = Inr base"
    "l' = with_db (\<lambda>_. save_applicant (upd_sitting (\<lambda>s. s\<lparr>si_token_hash := Some (xe_hash xe raw)\<rparr>)
            (adopt_application now bank url fname lname created a)) db1) l"
    "r = \<lparr>rg_url = base @ ''/apply/assessment?token='' @ xe_quote xe raw,
          rg_expires_at = si_deadline (ap_sitting (adopt_application now bank url fname lname created a)),
          rg_state = sitting_state (adopt_application now bank url fname lname created a) now\<rparr>"
  using assms
  by (auto simp: register_def issue_link_def Let_def save_save upd_sitting_def
      split: sum.splits prod.splits option.splits if_splits)

lemma token_of_same: "integration_token st (upd_sitting (\<lambda>s. s\<lparr>si_token_hash := h\<rparr>) b) = integration_token st b"
proof -
  have "token_preimage (upd_sitting (\<lambda>s. s\<lparr>si_token_hash := h\<rparr>) b) = token_preimage b"
    by (simp add: token_preimage_def upd_sitting_def)
  then show ?thesis by (simp add: integration_token_def)
qed

text \<open>C30. Registering an application again, at any time up to the deadline it was given and with the same fields, returns
  the same link, deadline and state and changes nothing: neither the applicant nor any other row.\<close>

theorem registration_retry_returns_same_link:
  assumes "register xe st l now today tenant ref email first second requested return_url = (l', Inr r)"
    and "\<And>d. rg_expires_at r = Some d \<Longrightarrow> now' \<le> d"
  shows "register xe st l' now' today' tenant ref email first second requested return_url = (l', Inr r)"
  using assms(1)
proof (rule register_cases)
  fix bank url db1 a created raw base
  define b where "b = adopt_application now bank url first second created a"
  define c where "c = upd_sitting (\<lambda>s. s\<lparr>si_token_hash := Some (xe_hash xe raw)\<rparr>) b"
  assume r: "resolve_exam_bank l tenant requested = Inr bank" "validate_return_url st return_url = Inr url"
    "submit_external_application (lib_db l) now today tenant ref (normalize_email email) first second ERP_SOURCE None
       = Inr (db1, a, created)"
    "sitting_state (adopt_application now bank url first second created a) now \<noteq> ''expired''"
    "integration_token st (adopt_application now bank url first second created a) = Inr raw" "public_base_url st = Inr base"
    "l' = with_db (\<lambda>_. save_applicant (upd_sitting (\<lambda>s. s\<lparr>si_token_hash := Some (xe_hash xe raw)\<rparr>)
            (adopt_application now bank url first second created a)) db1) l"
    "r = \<lparr>rg_url = base @ ''/apply/assessment?token='' @ xe_quote xe raw,
          rg_expires_at = si_deadline (ap_sitting (adopt_application now bank url first second created a)),
          rg_state = sitting_state (adopt_application now bank url first second created a) now\<rparr>"
  note k = adopted_keeps [OF b_def]
  have l': "l' = with_db (\<lambda>_. save_applicant c db1) l" and state: "sitting_state b now \<noteq> ''expired''"
    and token: "integration_token st c = Inr raw"
    using r(4,5,7) by (simp_all add: b_def c_def token_of_same)
  have c: "ap_source c = ERP_SOURCE" "si_bank (ap_sitting c) = Some (bk_id bank)" "si_return_url (ap_sitting c) = Some url"
    "si_deadline (ap_sitting c) \<noteq> None" "ap_email c = ap_email a" "ap_id c = ap_id a" "ap_tenant c = ap_tenant a"
    "ap_external_ref c = ap_external_ref a"
    "si_started_at (ap_sitting c) = None \<Longrightarrow> ap_first_name c = py_strip first \<and> ap_last_name c = py_strip second"
    using k by (simp_all add: c_def upd_sitting_def)
  note e = external_keeps [OF r(3)]
  have "find (\<lambda>r. ap_tenant r = tenant \<and> ap_external_ref r = Some ref) (applicants (lib_db l')) = Some c"
    unfolding l' lib_db_with_db save_applicant_def
    using find_saved_applicant [OF e(1), of c ap_id] find_Some_in [OF e(1)] c by simp
  then have again: "submit_external_application (lib_db l') now' today' tenant ref (normalize_email email) first second ERP_SOURCE None
      = Inr (lib_db l', c, False)"
    by (rule external_again) (use e(2) c in simp)
  have bank: "resolve_exam_bank l' tenant requested = Inr bank"
    unfolding r(1) [symmetric] by (rule resolve_same) (simp_all add: l' e)
  have same: "adopt_application now' bank url first second False c = c" "adoption_conflict bank url c = None"
    using adopt_settled [OF c(1-4,9)] by blast+
  have "sitting_state c now' = sitting_state b now"
    using state assms(2) unfolding r(8) by (auto simp: sitting_state_def c_def upd_sitting_def b_def split: option.splits if_splits)
  moreover have settled: "with_db (\<lambda>_. save_applicant c (lib_db l')) l' = l'" "with_db (\<lambda>_. lib_db l') l' = l'"
    by (rule with_db_same, simp add: l' save_save)+
  moreover have "upd_sitting (\<lambda>s. s\<lparr>si_token_hash := Some (xe_hash xe raw)\<rparr>) c = c" "si_deadline (ap_sitting c) = si_deadline (ap_sitting b)"
    by (simp_all add: c_def upd_sitting_def)
  moreover have "with_db (save_applicant c) l' = l'" by (rule with_db_same) (simp add: l' save_save)
  ultimately show ?thesis
    using state unfolding register_def bank again same r(2,6,8) b_def [symmetric] c_def [symmetric]
    by (simp add: same issue_link_def token r(6) Let_def)
qed

section \<open>What the ERP acknowledged\<close>

text \<open>
  Among the requests added to \<open>sent\<close> is one with this body, signed with the webhook secret, and its reply is a 2xx whose
  status names a durable write.
\<close>

definition acknowledged :: "erp_config \<Rightarrow> erp_request list \<Rightarrow> erp_request list \<Rightarrow> string \<Rightarrow> bool" where
  "acknowledged cfg sent sent' body =
     (\<exists>before after reply.
        sent' = sent @ before @ \<lparr>rq_body = body, rq_signature = sign_body cfg body\<rparr> # after
        \<and> ec_answer cfg (sent @ before) \<lparr>rq_body = body, rq_signature = sign_body cfg body\<rparr> = Some reply
        \<and> ry_status_code reply div 100 = 2 \<and> reply_status (ec_render cfg) reply \<in> Some ` set RECORDED)"

lemma synced_reply: "outcome_of render r = SYNCED \<Longrightarrow> ry_status_code r div 100 = 2 \<and> reply_status render r \<in> Some ` set RECORDED"
  by (auto simp: outcome_of_def Let_def split: if_splits)

lemma acknowledged_now:
  assumes "ec_answer cfg sent \<lparr>rq_body = body, rq_signature = sign_body cfg body\<rparr> = Some reply"
    "outcome_of (ec_render cfg) reply = SYNCED"
  shows "acknowledged cfg sent (sent @ [\<lparr>rq_body = body, rq_signature = sign_body cfg body\<rparr>]) body"
  unfolding acknowledged_def using assms synced_reply [OF assms(2)]
  by (intro exI [where x = "[]"] exI [where x = reply]) simp

lemma acknowledged_later:
  assumes "acknowledged cfg sent sent' body"
  shows "acknowledged cfg sent (sent' @ more') body"
proof -
  from assms obtain b a r where "sent' = sent @ b @ \<lparr>rq_body = body, rq_signature = sign_body cfg body\<rparr> # a"
    "ec_answer cfg (sent @ b) \<lparr>rq_body = body, rq_signature = sign_body cfg body\<rparr> = Some r"
    "ry_status_code r div 100 = 2" "reply_status (ec_render cfg) r \<in> Some ` set RECORDED"
    unfolding acknowledged_def by (elim exE conjE)
  then show ?thesis unfolding acknowledged_def
    by (intro exI [where x = b] exI [where x = "a @ more'"] exI [where x = r]) simp
qed

lemma acknowledged_earlier:
  assumes "acknowledged cfg (sent @ extra) sent' body"
  shows "acknowledged cfg sent sent' body"
proof -
  from assms obtain b a r where "sent' = (sent @ extra) @ b @ \<lparr>rq_body = body, rq_signature = sign_body cfg body\<rparr> # a"
    "ec_answer cfg ((sent @ extra) @ b) \<lparr>rq_body = body, rq_signature = sign_body cfg body\<rparr> = Some r"
    "ry_status_code r div 100 = 2" "reply_status (ec_render cfg) r \<in> Some ` set RECORDED"
    unfolding acknowledged_def by (elim exE conjE)
  then show ?thesis unfolding acknowledged_def
    by (intro exI [where x = "extra @ b"] exI [where x = a] exI [where x = r]) simp
qed

text \<open>What the pushes leave alone.\<close>

definition same_facts :: "erp_store \<Rightarrow> erp_store \<Rightarrow> bool" where
  "same_facts s s' = (er_library s' = er_library s \<and> er_audience s' = er_audience s \<and> er_employee_ref s' = er_employee_ref s
     \<and> er_legacy_synced_at s' = er_legacy_synced_at s \<and> er_updated_at s' = er_updated_at s)"

lemma same_facts_refl [simp]: "same_facts s s"
  by (simp add: same_facts_def)

lemma same_facts_trans: "same_facts s t \<Longrightarrow> same_facts t u \<Longrightarrow> same_facts s u"
  by (simp add: same_facts_def)

lemma same_facts_erp_db: "same_facts s s' \<Longrightarrow> erp_db s' = erp_db s"
  by (simp add: same_facts_def erp_db_def)

lemma same_payload: "same_facts s s' \<Longrightarrow> completion_payload cfg s' e course c = completion_payload cfg s e course c"
  by (simp add: same_facts_def completion_payload_def)

definition delivered :: "uuid \<Rightarrow> erp_store \<Rightarrow> uuid \<Rightarrow> bool" where
  "delivered tenant s i = (\<exists>k. get_checkpoint s tenant i = Some k \<and> ek_synced_at k \<noteq> None)"

lemma checkpoint_locked:
  assumes "locked_checkpoint s tenant c = Inr (s1, k)"
  shows "same_facts s s1" "get_checkpoint s1 tenant (cc_id c) = Some k" "cc_tenant c = tenant"
    "delivered tenant s1 i = delivered tenant s i"
  using assms
  by (auto simp: locked_checkpoint_def same_facts_def get_checkpoint_def delivered_def find_append checkpoint_key_def Let_def
      split: if_splits option.splits)

lemma mark_facts [simp]: "same_facts s (mark_progress c s)" "delivered tenant (mark_progress c s) i = delivered tenant s i"
  by (simp_all add: same_facts_def mark_progress_def delivered_def get_checkpoint_def)

lemma stamp_delivered:
  "delivered tenant (stamp_checkpoint tenant i now s) j = (delivered tenant s j \<or> (j = i \<and> get_checkpoint s tenant i \<noteq> None))"
proof -
  have g: "get_checkpoint (stamp_checkpoint tenant i now s) tenant j
      = map_option (\<lambda>k. if checkpoint_key tenant i k then k\<lparr>ek_synced_at := Some now\<rparr> else k) (get_checkpoint s tenant j)"
    by (simp add: get_checkpoint_def stamp_checkpoint_def find_update_rows_same checkpoint_key_def)
  show ?thesis
  proof (cases "get_checkpoint s tenant j")
    case None
    then show ?thesis by (auto simp: delivered_def g)
  next
    case (Some k)
    have "checkpoint_key tenant j k" using Some unfolding get_checkpoint_def by (rule find_Some_in [THEN conjunct2])
    then show ?thesis using Some by (auto simp: delivered_def g checkpoint_key_def)
  qed
qed

lemma stamp_facts [simp]: "same_facts s (stamp_checkpoint tenant i now s)"
  by (simp add: same_facts_def stamp_checkpoint_def)

text \<open>One push: at most one request, about this completion and an enrolment marked as staff; a new stamp is acknowledged.\<close>

definition projection_of :: "erp_config \<Rightarrow> erp_store \<Rightarrow> enrollment_row \<Rightarrow> completion_row \<Rightarrow> string \<Rightarrow> bool" where
  "projection_of cfg s e c body = (\<exists>course \<in> set (courses (erp_db s)). body = ec_dumps cfg (completion_payload cfg s e course c))"

lemma stamped_keeps:
  assumes "locked_checkpoint s tenant c = Inr (s1, k)"
  shows "same_facts s (stamp_checkpoint tenant (cc_id c) now (mark_progress c s1))" "same_facts s (mark_progress c s1)"
    "delivered tenant (stamp_checkpoint tenant (cc_id c) now (mark_progress c s1)) i \<Longrightarrow> delivered tenant s i \<or> i = cc_id c"
  using checkpoint_locked [OF assms] mark_facts(1) [of s1 c] same_facts_trans stamp_facts [of "mark_progress c s1" tenant "cc_id c" now]
  by (blast, blast, auto simp: stamp_delivered)

lemma push_completion_cases:
  assumes "push_completion cfg now tenant c (Some e) s sent = (sent', Inr (s', out))"
  shows "same_facts s s'
    \<and> (sent' = sent \<and> (\<forall>i. delivered tenant s' i = delivered tenant s i)
       \<or> (\<exists>body. projection_of cfg s e c body \<and> sent' = sent @ [\<lparr>rq_body = body, rq_signature = sign_body cfg body\<rparr>]
            \<and> ((\<forall>i. delivered tenant s' i = delivered tenant s i)
               \<or> cc_status c = ''completed'' \<and> acknowledged cfg sent sent' body
                 \<and> (\<forall>i. delivered tenant s' i \<longrightarrow> delivered tenant s i \<or> i = cc_id c))))"
proof (cases "ec_webhook_url cfg = '''' \<or> (\<exists>err. locked_checkpoint s tenant c = Inl err)")
  case True
  then show ?thesis using assms by (auto simp: push_completion_def split: if_splits)
next
  case False
  then obtain s1 k where l: "locked_checkpoint s tenant c = Inr (s1, k)" by (metis obj_sumE surj_pair)
  note lk = checkpoint_locked [OF l] and sk = stamped_keeps [OF l]
  note push = assms [unfolded push_completion_def l, simplified False, simplified]
  consider (known) "cc_status c = ''completed''" "ek_synced_at k \<noteq> None"
    | (nocourse) "\<not> (cc_status c = ''completed'' \<and> ek_synced_at k \<noteq> None)" "find (\<lambda>x. co_id x = cc_course c) (courses (erp_db s1)) = None"
    | (post) course where "\<not> (cc_status c = ''completed'' \<and> ek_synced_at k \<noteq> None)"
        "find (\<lambda>x. co_id x = cc_course c) (courses (erp_db s1)) = Some course" by fastforce
  then show ?thesis
  proof cases
    case known
    then show ?thesis using push False lk sk by auto
  next
    case nocourse
    then show ?thesis using push False lk by auto
  next
    case (post course)
    define body where "body = ec_dumps cfg (completion_payload cfg s1 e course c)"
    have "course \<in> set (courses (erp_db s))" using find_Some_in [OF post(2)] same_facts_erp_db [OF lk(1)] by simp
    then have p: "projection_of cfg s e c body"
      unfolding projection_of_def body_def same_payload [OF lk(1)] by blast
    show ?thesis
    proof (cases "ec_answer cfg sent \<lparr>rq_body = body, rq_signature = sign_body cfg body\<rparr>")
      case None
      then have "sent' = sent @ [\<lparr>rq_body = body, rq_signature = sign_body cfg body\<rparr>]" "s' = s1"
        using push False post by (auto simp: post_body_def body_def)
      then show ?thesis using lk p by blast
    next
      case (Some reply)
      have sent': "sent' = sent @ [\<lparr>rq_body = body, rq_signature = sign_body cfg body\<rparr>]"
        using push False post Some by (auto simp: post_body_def body_def split: erp_outcome.splits)
      show ?thesis
      proof (cases "outcome_of (ec_render cfg) reply = SYNCED \<and> cc_status c = ''completed''")
        case True
        then have s': "s' = stamp_checkpoint tenant (cc_id c) now (mark_progress c s1)"
          using push False post Some by (auto simp: post_body_def body_def)
        have "acknowledged cfg sent sent' body" unfolding sent' by (rule acknowledged_now [OF Some]) (use True in blast)
        then show ?thesis using True p sent' sk s' by blast
      next
        case False
        then have "s' = s1 \<or> s' = mark_progress c s1"
          using push \<open>\<not> (ec_webhook_url cfg = '''' \<or> (\<exists>err. locked_checkpoint s tenant c = Inl err))\<close> post Some
          by (auto simp: post_body_def body_def split: erp_outcome.splits if_splits)
        then show ?thesis using lk sk p sent' mark_facts by auto
      qed
    qed
  qed
qed

lemma posted:
  assumes "sent' = sent \<or> (\<exists>body. P body \<and> sent' = sent @ [\<lparr>rq_body = body, rq_signature = sign_body cfg body\<rparr>])"
  shows "\<exists>new. sent' = sent @ new \<and> (\<forall>r \<in> set new. P (rq_body r))"
  using assms
proof (elim disjE exE conjE)
  show ?thesis if "sent' = sent"
    by (rule exI [where x = "[]"]) (simp add: that)
  show ?thesis if "P body" "sent' = sent @ [\<lparr>rq_body = body, rq_signature = sign_body cfg body\<rparr>]" for body
    by (rule exI [where x = "[\<lparr>rq_body = body, rq_signature = sign_body cfg body\<rparr>]"]) (simp add: that)
qed

lemma push_rows_facts:
  assumes "push_rows cfg now tenant rows seen s sent n = (sent', Inr (s', n'))"
  shows "same_facts s s'
    \<and> (\<exists>new. sent' = sent @ new \<and> (\<forall>r \<in> set new. \<exists>(c, e) \<in> set rows. projection_of cfg s e c (rq_body r)))
    \<and> (\<forall>i. delivered tenant s' i \<longrightarrow> delivered tenant s i \<or>
          (\<exists>(c, e) \<in> set rows. cc_id c = i \<and> cc_status c = ''completed''
             \<and> (\<exists>body. projection_of cfg s e c body \<and> acknowledged cfg sent sent' body)))"
  using assms
proof (induction rows arbitrary: seen s sent n)
  case (Cons p rows)
  obtain c e where p: "p = (c, e)" by (cases p)
  show ?case
  proof (cases "cc_id c \<in> set seen \<or> er_synced_pct s (cc_id c) = Some (cc_pct c)")
    case True
    then have "push_rows cfg now tenant rows seen s sent n = (sent', Inr (s', n'))" using Cons.prems by (simp add: p)
    from Cons.IH [OF this] show ?thesis by fastforce
  next
    case False
    then obtain sent1 s1 out where push: "push_completion cfg now tenant c (Some e) s sent = (sent1, Inr (s1, out))"
      and rest: "push_rows cfg now tenant rows (cc_id c # seen) s1 sent1 (count_push out n) = (sent', Inr (s', n'))"
      using Cons.prems by (auto simp: p split: prod.splits sum.splits)
    note one = push_completion_cases [OF push] and more' = Cons.IH [OF rest]
    have facts: "same_facts s s1" using one by blast
    then have proj: "projection_of cfg s1 e' c' body = projection_of cfg s e' c' body" for e' c' body
      by (simp add: projection_of_def same_payload same_facts_erp_db)
    have "\<exists>new. sent1 = sent @ new \<and> (\<forall>r \<in> set new. projection_of cfg s e c (rq_body r))"
      by (rule posted [where P = "projection_of cfg s e c" and cfg = cfg]) (use one in blast)
    then obtain new1 where new1: "sent1 = sent @ new1" "\<forall>r \<in> set new1. projection_of cfg s e c (rq_body r)"
      by (elim conjE exE)
    obtain new2 where new2: "sent' = sent1 @ new2" "\<forall>r \<in> set new2. \<exists>(c, e) \<in> set rows. projection_of cfg s e c (rq_body r)"
      using more' unfolding proj by (elim conjE exE)
    have first: "delivered tenant s1 i \<longrightarrow> delivered tenant s i \<or> (i = cc_id c \<and> cc_status c = ''completed''
         \<and> (\<exists>body. projection_of cfg s e c body \<and> acknowledged cfg sent sent' body))" for i
      using one acknowledged_later new2(1) by blast
    have later: "delivered tenant s' i \<longrightarrow> delivered tenant s1 i \<or>
          (\<exists>(c, e) \<in> set rows. cc_id c = i \<and> cc_status c = ''completed''
             \<and> (\<exists>body. projection_of cfg s e c body \<and> acknowledged cfg sent sent' body))" for i
      using more' acknowledged_earlier unfolding new1(1) proj by blast
    show ?thesis
    proof (intro conjI allI impI)
      show "same_facts s s'" using more' facts same_facts_trans by blast
      show "\<exists>new. sent' = sent @ new \<and> (\<forall>r \<in> set new. \<exists>(c, e) \<in> set (p # rows). projection_of cfg s e c (rq_body r))"
        by (rule exI [where x = "new1 @ new2"]) (use new1 new2 in \<open>auto simp: p\<close>)
      show "delivered tenant s i \<or> (\<exists>(c, e) \<in> set (p # rows). cc_id c = i \<and> cc_status c = ''completed''
             \<and> (\<exists>body. projection_of cfg s e c body \<and> acknowledged cfg sent sent' body))" if "delivered tenant s' i" for i
        using first [of i] later [of i] that by (auto simp: p)
    qed
  qed
qed simp

section \<open>Entrance results\<close>

definition result_synced :: "erp_store \<Rightarrow> uuid \<Rightarrow> bool" where
  "result_synced s i = (\<exists>a \<in> set (applicants (erp_db s)). ap_id a = i \<and> si_erp_synced_at (ap_sitting a) \<noteq> None)"

definition result_of :: "erp_config \<Rightarrow> applicant_row \<Rightarrow> string \<Rightarrow> bool" where
  "result_of cfg a body = (\<exists>payload. assessment_payload cfg a = Inr payload \<and> body = ec_dumps_canonical cfg payload)"

lemma with_erp_db_facts [simp]: "erp_db (with_erp_db f s) = f (erp_db s)" "er_checkpoints (with_erp_db f s) = er_checkpoints s"
  by (simp_all add: with_erp_db_def erp_db_def lib_db_def with_db_def)

lemma saved_synced:
  "result_synced (with_erp_db (save_applicant b) s) i \<Longrightarrow> result_synced s i \<or> i = ap_id b"
  by (auto simp: result_synced_def save_applicant_def set_update_rows)

lemma push_result_cases:
  assumes "push_result cfg now a s sent = (sent', s', out)"
  shows "er_checkpoints s' = er_checkpoints s
    \<and> (sent' = sent \<and> s' = s
       \<or> (\<exists>body. result_of cfg a body \<and> sent' = sent @ [\<lparr>rq_body = body, rq_signature = sign_body cfg body\<rparr>]
            \<and> (s' = s \<or> acknowledged cfg sent sent' body
                       \<and> s' = with_erp_db (save_applicant (upd_sitting (\<lambda>x. x\<lparr>si_erp_synced_at := Some now\<rparr>) a)) s)))"
proof (cases "ec_webhook_url cfg = '''' \<or> (\<exists>err. assessment_payload cfg a = Inl err)")
  case True
  then show ?thesis using assms by (auto simp: push_result_def split: if_splits)
next
  case False
  then obtain payload where y: "assessment_payload cfg a = Inr payload" by (cases "assessment_payload cfg a") auto
  define body where "body = ec_dumps_canonical cfg payload"
  define r where "r = \<lparr>rq_body = body, rq_signature = sign_body cfg body\<rparr>"
  have p: "result_of cfg a body" using y by (simp add: result_of_def body_def)
  note push = assms [unfolded push_result_def y, simplified False, simplified, unfolded post_body_def Let_def, folded body_def, folded r_def]
  have sent': "sent' = sent @ [r]" using push False by (auto simp: r_def body_def split: option.splits erp_outcome.splits)
  have "s' = s \<or> (\<exists>reply. ec_answer cfg sent r = Some reply \<and> outcome_of (ec_render cfg) reply = SYNCED
          \<and> s' = with_erp_db (save_applicant (upd_sitting (\<lambda>x. x\<lparr>si_erp_synced_at := Some now\<rparr>) a)) s)"
    using push False by (auto simp: r_def body_def split: option.splits erp_outcome.splits)
  then show ?thesis using p sent' acknowledged_now [of cfg sent body] unfolding r_def by fastforce
qed

lemma push_results_facts:
  assumes "push_results cfg now todo s sent n = (sent', s', n')"
  shows "er_checkpoints s' = er_checkpoints s
    \<and> (\<exists>new. sent' = sent @ new \<and> (\<forall>r \<in> set new. \<exists>a \<in> set todo. result_of cfg a (rq_body r)))
    \<and> (\<forall>i. result_synced s' i \<longrightarrow> result_synced s i \<or>
          (\<exists>a \<in> set todo. ap_id a = i \<and> (\<exists>body. result_of cfg a body \<and> acknowledged cfg sent sent' body)))"
  using assms
proof (induction todo arbitrary: s sent n)
  case (Cons a todo)
  obtain sent1 s1 out where push: "push_result cfg now a s sent = (sent1, s1, out)" by (metis prod_cases3)
  with Cons.prems have rest: "push_results cfg now todo s1 sent1 (count_push out n) = (sent', s', n')" by simp
  note one = push_result_cases [OF push] and more' = Cons.IH [OF rest]
  have "\<exists>new. sent1 = sent @ new \<and> (\<forall>r \<in> set new. result_of cfg a (rq_body r))"
    by (rule posted [where P = "result_of cfg a" and cfg = cfg]) (use one in blast)
  then obtain new1 where new1: "sent1 = sent @ new1" "\<forall>r \<in> set new1. result_of cfg a (rq_body r)"
    by (elim conjE exE)
  obtain new2 where new2: "sent' = sent1 @ new2" "\<forall>r \<in> set new2. \<exists>a \<in> set todo. result_of cfg a (rq_body r)"
    using more' by (elim conjE exE)
  have first: "result_synced s1 i \<longrightarrow> result_synced s i \<or>
       (i = ap_id a \<and> (\<exists>body. result_of cfg a body \<and> acknowledged cfg sent sent' body))" for i
    using one acknowledged_later new2(1) saved_synced [of _ s i] by (fastforce simp: upd_sitting_def)
  have later: "result_synced s' i \<longrightarrow> result_synced s1 i \<or>
       (\<exists>a \<in> set todo. ap_id a = i \<and> (\<exists>body. result_of cfg a body \<and> acknowledged cfg sent sent' body))" for i
    using more' acknowledged_earlier unfolding new1(1) by blast
  show ?case
  proof (intro conjI allI impI)
    show "er_checkpoints s' = er_checkpoints s" using one more' by simp
    show "\<exists>new. sent' = sent @ new \<and> (\<forall>r \<in> set new. \<exists>a \<in> set (a # todo). result_of cfg a (rq_body r))"
      by (rule exI [where x = "new1 @ new2"]) (use new1 new2 in auto)
    show "result_synced s i \<or> (\<exists>a \<in> set (a # todo). ap_id a = i \<and> (\<exists>body. result_of cfg a body \<and> acknowledged cfg sent sent' body))"
      if "result_synced s' i" for i
      using first [of i] later [of i] that by auto
  qed
qed simp

section \<open>The sweep\<close>

lemma projected_staff:
  assumes "(c, e) \<in> set (projected_rows s tenant)"
  shows "c \<in> set (completions (erp_db s)) \<and> cc_tenant c = tenant \<and> e \<in> set (enrollments (erp_db s)) \<and> en_person e = cc_person c
     \<and> en_status e = ''active'' \<and> er_audience s (en_id e) = Some STAFF \<and> er_employee_ref s (en_id e) \<noteq> None"
  using assms by (auto simp: projected_rows_def)

lemma pending_result_rows:
  "a \<in> set (pending_results db tenant) \<longleftrightarrow> a \<in> set (applicants db) \<and> ap_tenant a = tenant \<and> ap_source a = ERP_SOURCE
     \<and> ap_external_ref a \<noteq> None \<and> si_taken_at (ap_sitting a) \<noteq> None \<and> si_erp_synced_at (ap_sitting a) = None"
  by (simp add: pending_results_def)

lemma sync_results_facts:
  assumes "sync_results cfg now tenant s sent = (sent', s', n')"
  shows "er_checkpoints s' = er_checkpoints s
    \<and> (\<exists>new. sent' = sent @ new \<and> (\<forall>r \<in> set new. \<exists>a \<in> set (pending_results (erp_db s) tenant). result_of cfg a (rq_body r)))
    \<and> (\<forall>i. result_synced s' i \<longrightarrow> result_synced s i \<or>
          (\<exists>a \<in> set (pending_results (erp_db s) tenant). ap_id a = i \<and> (\<exists>body. result_of cfg a body \<and> acknowledged cfg sent sent' body)))"
proof (cases "ec_webhook_url cfg = ''''")
  case False
  then show ?thesis using assms by (intro push_results_facts) (simp add: sync_results_def)
qed (use assms in \<open>auto simp: sync_results_def\<close>)

lemma sync_pending_phases:
  assumes "sync_pending cfg now tenant s sent = (sent', Inr (s', n'))" "ec_webhook_url cfg \<noteq> ''''"
  obtains sent1 s1 n m where "push_rows cfg now tenant (projected_rows s tenant) [] s sent (\<lambda>_. 0) = (sent1, Inr (s1, n))"
    "sync_results cfg now tenant s1 sent1 = (sent', s', m)"
  using assms by (auto simp: sync_pending_def split: prod.splits sum.splits)

text \<open>C11. What the academy records as delivered, the ERP acknowledged: a checkpoint the sweep stamps belongs to a completed course
  of a staff enrolment, and an entrance result it marks as synced to an applicant the ERP sent; each was in the body of a
  signed request of this sweep whose reply was a 2xx naming a durable write, so neither a network error, a refusal, a 2xx
  without an acknowledgement nor an \<open>ignored\<close> counts.\<close>

theorem delivery_is_acknowledged:
  assumes sweep: "sync_pending cfg now tenant s sent = (sent', Inr (s', n'))"
  shows "(\<forall>i. delivered tenant s' i \<longrightarrow> delivered tenant s i \<or>
       (\<exists>c \<in> set (completions (erp_db s)). cc_id c = i \<and> cc_tenant c = tenant \<and> cc_status c = ''completed''
          \<and> (\<exists>e \<in> set (enrollments (erp_db s)). en_person e = cc_person c \<and> er_audience s (en_id e) = Some STAFF
               \<and> (\<exists>body. projection_of cfg s e c body \<and> acknowledged cfg sent sent' body))))
   \<and> (\<forall>i. result_synced s' i \<longrightarrow> result_synced s i \<or>
       (\<exists>a \<in> set (applicants (erp_db s)). ap_id a = i \<and> ap_tenant a = tenant \<and> ap_source a = ERP_SOURCE
          \<and> (\<exists>body. result_of cfg a body \<and> acknowledged cfg sent sent' body)))"
proof (cases "ec_webhook_url cfg = ''''")
  case True
  then show ?thesis using sweep by (auto simp: sync_pending_def)
next
  case False
  obtain sent1 s1 n m where p: "push_rows cfg now tenant (projected_rows s tenant) [] s sent (\<lambda>_. 0) = (sent1, Inr (s1, n))"
    and r: "sync_results cfg now tenant s1 sent1 = (sent', s', m)" using sync_pending_phases [OF sweep False] .
  note rows = push_rows_facts [OF p] and results = sync_results_facts [OF r]
  obtain new2 where new2: "sent' = sent1 @ new2" using results by (elim conjE exE)
  obtain new1 where new1: "sent1 = sent @ new1" using rows by (elim conjE exE)
  have db: "erp_db s1 = erp_db s" by (rule same_facts_erp_db) (use rows in blast)
  have kept: "delivered tenant s' i = delivered tenant s1 i" for i using results by (simp add: delivered_def get_checkpoint_def)
  have before: "result_synced s1 i = result_synced s i" for i by (simp add: result_synced_def db)
  show ?thesis
  proof (intro conjI allI impI)
    fix i assume "delivered tenant s' i"
    then have "delivered tenant s1 i" by (simp only: kept)
    then consider "delivered tenant s i" | c e body where "(c, e) \<in> set (projected_rows s tenant)" "cc_id c = i"
        "cc_status c = ''completed''" "projection_of cfg s e c body" "acknowledged cfg sent sent1 body" using rows by blast
    then show "delivered tenant s i \<or> (\<exists>c \<in> set (completions (erp_db s)). cc_id c = i \<and> cc_tenant c = tenant
        \<and> cc_status c = ''completed'' \<and> (\<exists>e \<in> set (enrollments (erp_db s)). en_person e = cc_person c
            \<and> er_audience s (en_id e) = Some STAFF \<and> (\<exists>body. projection_of cfg s e c body \<and> acknowledged cfg sent sent' body)))"
    proof cases
      case (2 c e body)
      have "acknowledged cfg sent sent' body" unfolding new2 by (rule acknowledged_later [OF 2(5)])
      then show ?thesis using projected_staff [OF 2(1)] 2(2-4) by blast
    qed blast
  next
    fix i assume "result_synced s' i"
    then consider "result_synced s1 i" | a body where "a \<in> set (pending_results (erp_db s1) tenant)" "ap_id a = i"
        "result_of cfg a body" "acknowledged cfg sent1 sent' body" using results by blast
    then show "result_synced s i \<or> (\<exists>a \<in> set (applicants (erp_db s)). ap_id a = i \<and> ap_tenant a = tenant \<and> ap_source a = ERP_SOURCE
        \<and> (\<exists>body. result_of cfg a body \<and> acknowledged cfg sent sent' body))"
    proof cases
      case (2 a body)
      have "acknowledged cfg sent sent' body" by (rule acknowledged_earlier) (rule 2(4) [unfolded new1])
      then show ?thesis using 2 unfolding pending_result_rows db by blast
    qed (simp add: before)
  qed
qed

section \<open>What leaves the academy\<close>

lemma push_completion_traffic:
  assumes "push_completion cfg now tenant c (Some e) s sent = (sent', res)"
  shows "\<exists>new. sent' = sent @ new \<and> (\<forall>r \<in> set new. projection_of cfg s e c (rq_body r))"
proof (cases res)
  case (Inl err)
  then have "sent' = sent" using assms
    by (auto simp: push_completion_def split: if_splits sum.splits prod.splits option.splits erp_outcome.splits)
  then show ?thesis by simp
next
  case (Inr q)
  obtain s' out where q: "q = (s', out)" by (cases q)
  show ?thesis
    by (rule posted [where P = "projection_of cfg s e c" and cfg = cfg])
      (use push_completion_cases [OF assms [unfolded Inr q]] in blast)
qed

lemma push_rows_traffic:
  assumes "push_rows cfg now tenant rows seen s sent n = (sent', res)"
  shows "\<exists>new. sent' = sent @ new \<and> (\<forall>r \<in> set new. \<exists>(c, e) \<in> set rows. projection_of cfg s e c (rq_body r))"
  using assms
proof (induction rows arbitrary: seen s sent n)
  case (Cons p rows)
  obtain c e where p: "p = (c, e)" by (cases p)
  show ?case
  proof (cases "cc_id c \<in> set seen \<or> er_synced_pct s (cc_id c) = Some (cc_pct c)")
    case True
    then have "push_rows cfg now tenant rows seen s sent n = (sent', res)" using Cons.prems by (simp add: p)
    from Cons.IH [OF this] show ?thesis by fastforce
  next
    case False
    obtain sent1 r1 where push: "push_completion cfg now tenant c (Some e) s sent = (sent1, r1)" by (metis surj_pair)
    from push_completion_traffic [OF push] obtain new1 where new1: "sent1 = sent @ new1"
      "\<forall>r \<in> set new1. projection_of cfg s e c (rq_body r)" by (elim exE conjE)
    show ?thesis
    proof (cases r1)
      case (Inl err)
      then show ?thesis using Cons.prems False push new1 by (auto simp: p)
    next
      case (Inr q)
      obtain s1 out where q: "q = (s1, out)" by (cases q)
      have "push_rows cfg now tenant rows (cc_id c # seen) s1 sent1 (count_push out n) = (sent', res)"
        using Cons.prems False push by (simp add: p Inr q)
      from Cons.IH [OF this] obtain new2 where new2: "sent' = sent1 @ new2"
        "\<forall>r \<in> set new2. \<exists>(c, e) \<in> set rows. projection_of cfg s1 e c (rq_body r)" by (elim exE conjE)
      have facts: "same_facts s s1" using push_completion_cases [OF push [unfolded Inr q]] by blast
      then have proj: "projection_of cfg s1 e' c' body = projection_of cfg s e' c' body" for e' c' body
        by (simp add: projection_of_def same_payload same_facts_erp_db)
      show ?thesis
        by (rule exI [where x = "new1 @ new2"]) (use new1 new2 proj in \<open>auto simp: p\<close>)
    qed
  qed
qed simp

text \<open>Only what the ERP may know leaves the academy: every request of a sweep, also of one that fails half-way, carries the
  progress of a learner whose active enrolment is marked as staff with an employee reference, or the completed result of
  an applicant the ERP itself registered. An unclassified or external learner is never reported.\<close>

theorem only_staff_progress_leaves:
  assumes sweep: "sync_pending cfg now tenant s sent = (sent', res)"
  shows "\<exists>new. sent' = sent @ new \<and> (\<forall>r \<in> set new.
       (\<exists>c e. c \<in> set (completions (erp_db s)) \<and> e \<in> set (enrollments (erp_db s)) \<and> en_person e = cc_person c
          \<and> en_status e = ''active'' \<and> er_audience s (en_id e) = Some STAFF \<and> er_employee_ref s (en_id e) \<noteq> None
          \<and> projection_of cfg s e c (rq_body r))
     \<or> (\<exists>a \<in> set (applicants (erp_db s)). ap_source a = ERP_SOURCE \<and> ap_external_ref a \<noteq> None
          \<and> si_taken_at (ap_sitting a) \<noteq> None \<and> result_of cfg a (rq_body r)))"
proof (cases "ec_webhook_url cfg = ''''")
  case True
  then show ?thesis using sweep by (auto simp: sync_pending_def)
next
  case False
  obtain sent1 r1 where p: "push_rows cfg now tenant (projected_rows s tenant) [] s sent (\<lambda>_. 0) = (sent1, r1)" by (metis surj_pair)
  from push_rows_traffic [OF p] obtain new1 where new1: "sent1 = sent @ new1"
    "\<forall>r \<in> set new1. \<exists>(c, e) \<in> set (projected_rows s tenant). projection_of cfg s e c (rq_body r)" by (elim exE conjE)
  note staff = projected_staff [of _ _ s tenant]
  show ?thesis
  proof (cases r1)
    case (Inl err)
    then have "sent' = sent1" using sweep False p by (simp add: sync_pending_def)
    then show ?thesis using new1 staff by (intro exI [where x = new1]) fast
  next
    case (Inr q)
    obtain s1 m where q: "q = (s1, m)" by (cases q)
    obtain s2 m2 where r: "sync_results cfg now tenant s1 sent1 = (sent', s2, m2)"
      using sweep False p by (auto simp: sync_pending_def Inr q split: prod.splits)
    have db: "erp_db s1 = erp_db s" by (rule same_facts_erp_db) (use push_rows_facts [OF p [unfolded Inr q]] in blast)
    from sync_results_facts [OF r] obtain new2 where new2: "sent' = sent1 @ new2"
      "\<forall>r \<in> set new2. \<exists>a \<in> set (pending_results (erp_db s) tenant). result_of cfg a (rq_body r)" unfolding db by (elim exE conjE)
    show ?thesis
      by (rule exI [where x = "new1 @ new2"])
        (use new1 new2 staff pending_result_rows [of _ "erp_db s" tenant] in \<open>simp add: ball_Un, fast\<close>)
  qed
qed

section \<open>Classification\<close>

text \<open>A row the roster has nothing more to say about.\<close>

definition settled_row :: "(string \<times> string) list \<Rightarrow> bool \<Rightarrow> erp_store \<Rightarrow> enrollment_row \<times> person_row \<Rightarrow> bool" where
  "settled_row normalised rest_external s = (\<lambda>(e, p).
     case map_of normalised (py_lower (py_strip (pe_email p))) of
       Some ref \<Rightarrow> er_audience s (en_id e) = Some STAFF \<and> er_employee_ref s (en_id e) = Some ref
     | None \<Rightarrow> rest_external \<longrightarrow> er_audience s (en_id e) = Some EXTERNAL)"

lemma classify_row_settles:
  assumes "classify_row nr b x (s, c) = (s', c')"
  shows "settled_row nr b s' x" "en_id (fst y) \<noteq> en_id (fst x) \<Longrightarrow> settled_row nr b s' y = settled_row nr b s y" "erp_db s' = erp_db s"
  using assms
  by (auto simp: classify_row_def settled_row_def set_audience_def erp_db_def split: prod.splits option.splits if_splits)

lemma classify_fold_settles:
  assumes "distinct (map (\<lambda>x. en_id (fst x)) rows)" "fold (classify_row nr b) rows (s, c) = (s', c')"
  shows "(\<forall>x \<in> set rows. settled_row nr b s' x) \<and> erp_db s' = erp_db s
    \<and> (\<forall>y. en_id (fst y) \<notin> (\<lambda>x. en_id (fst x)) ` set rows \<longrightarrow> settled_row nr b s' y = settled_row nr b s y)"
  using assms
proof (induction rows arbitrary: s c)
  case (Cons x rows)
  obtain s1 c1 where one: "classify_row nr b x (s, c) = (s1, c1)" by fastforce
  with Cons.prems have "fold (classify_row nr b) rows (s1, c1) = (s', c')" by simp
  with Cons have ih: "(\<forall>x \<in> set rows. settled_row nr b s' x) \<and> erp_db s' = erp_db s1
    \<and> (\<forall>y. en_id (fst y) \<notin> (\<lambda>x. en_id (fst x)) ` set rows \<longrightarrow> settled_row nr b s' y = settled_row nr b s1 y)" by simp
  obtain e p where x: "x = (e, p)" by (rule prod.exhaust)
  have "settled_row nr b s' x = settled_row nr b s1 x" using ih Cons.prems(1) by (simp add: x)
  then show ?case using ih classify_row_settles [OF one] by auto
qed simp

lemma classify_fold_settled:
  assumes "\<forall>x \<in> set rows. settled_row nr b s x"
  shows "\<exists>c'. fold (classify_row nr b) rows (s, c) = (s, c') \<and> nc_staff c' = nc_staff c \<and> nc_external c' = nc_external c"
  using assms
proof (induction rows arbitrary: c)
  case (Cons x rows)
  have "\<exists>c1. classify_row nr b x (s, c) = (s, c1) \<and> nc_staff c1 = nc_staff c \<and> nc_external c1 = nc_external c"
    using Cons.prems by (auto simp: classify_row_def settled_row_def split: option.splits)
  then obtain c1 where "classify_row nr b x (s, c) = (s, c1)" "nc_staff c1 = nc_staff c" "nc_external c1 = nc_external c" by blast
  then show ?case using Cons.IH [of c1] Cons.prems by simp
qed simp

lemma one_person_each:
  assumes "distinct (map pe_id ps)" "distinct (map en_id es)"
  shows "distinct (map (\<lambda>x. en_id (fst x)) (filter (\<lambda>(e, p). pe_id p = en_person e \<and> P e p) (List.product es ps)))"
  using assms(2)
proof (induction es)
  case (Cons e es)
  have "length (filter (\<lambda>p. pe_id p = i) ps) \<le> 1" for i using assms(1)
    by (induction ps) (auto simp: filter_empty_conv, metis image_eqI)
  then have "length (filter (\<lambda>p. pe_id p = en_person e \<and> P e p) ps) \<le> 1"
    using length_filter_le [of "P e" "filter (\<lambda>p. pe_id p = en_person e) ps"] order_trans unfolding filter_filter by blast
  then have "distinct (map (\<lambda>x. en_id (fst x)) (filter (\<lambda>(e, p). pe_id p = en_person e \<and> P e p) (map (Pair e) ps)))"
    by (cases "filter (\<lambda>p. pe_id p = en_person e \<and> P e p) ps") (simp_all add: filter_map comp_def)
  then show ?case using Cons by (auto simp: distinct_append)
qed simp

text \<open>Running a roster again changes nothing and marks nobody.\<close>

theorem classification_is_idempotent:
  assumes "distinct (map pe_id (people (erp_db s)))" "distinct (map en_id (enrollments (erp_db s)))"
    "classify_from_roster s tenant roster b = (s', c)"
  shows "\<exists>c'. classify_from_roster s' tenant roster b = (s', c') \<and> nc_staff c' = 0 \<and> nc_external c' = 0"
proof -
  have d: "distinct (map (\<lambda>x. en_id (fst x)) (active_students (erp_db s) tenant))"
    unfolding active_students_def by (rule one_person_each [OF assms(1,2)])
  note f = classify_fold_settles [OF d assms(3) [unfolded classify_from_roster_def]]
  have "erp_db s' = erp_db s" using f by blast
  then show ?thesis using classify_fold_settled [OF f [THEN conjunct1]] unfolding classify_from_roster_def by fastforce
qed

section \<open>Where the exchange does not do what it says\<close>

text \<open>
  A course that was acknowledged as completed, reopened and completed again is marked as reported without a request: the
  ERP keeps whatever progress it was sent in between.
\<close>

theorem recompletion_is_not_reported:
  assumes "ec_webhook_url cfg \<noteq> ''''" "cc_tenant c = tenant" "cc_status c = ''completed''" "delivered tenant s (cc_id c)"
  shows "push_completion cfg now tenant c (Some e) s sent = (sent, Inr (mark_progress c s, SYNCED))"
  using assms by (auto simp: push_completion_def locked_checkpoint_def delivered_def)

text \<open>An address \<open>urlsplit\<close> cannot split is a server error, not an invalid field.\<close>

theorem unsplittable_url_is_a_server_error:
  assumes "verify_request st now body timestamp signature = Inr ()" "parse_registration st body = Inr p"
    "resolve_exam_bank l tenant (rf_bank p) = Inr bank" "length (rf_return_url p) \<le> 2048" "ei_urlsplit st (rf_return_url p) = None"
  shows "register_applicant_assessment xe st now today tenant body timestamp signature l
    = (l, ApiError 500 ''internal_error'' ''Could not register applicant assessment'')"
  using assms by (simp add: register_applicant_assessment_def register_def validate_return_url_def)

text \<open>A timestamp of too many digits leaves the handler as an exception.\<close>

theorem long_timestamp_escapes:
  assumes "ei_inbound_secret st \<noteq> ''''" "length body \<le> MAX_SIGNED_BODY_BYTES" "timestamp_matches ts" "length ts > MAX_INT_DIGITS"
  shows "register_applicant_assessment xe st now today tenant body (Some ts) (Some sig) l = (l, ServerError)"
  using assms by (simp add: register_applicant_assessment_def verify_request_def)

section \<open>Witnesses\<close>

definition sample_exam_env :: exam_env where
  "sample_exam_env = \<lparr>xe_hash = (\<lambda>s. ''h'' @ s), xe_hex = id, xe_fullmatch = (\<lambda>_ _. None), xe_render = (\<lambda>_. ''''), xe_quote = id,
     xe_iso = (\<lambda>_. '''')\<rparr>"

definition sample_url :: "string \<Rightarrow> split_url option" where
  "sample_url u = Some \<lparr>us_scheme = ''https'', us_hostname = Some ''erp.example'', us_username = None, us_password = None,
     us_port = Some None, us_path = '''', us_query = '''', us_fragment = ''''\<rparr>"

definition sample_erp_settings :: erp_settings where
  "sample_erp_settings = \<lparr>ei_inbound_secret = ''in'', ei_token_secret = ''tok'', ei_max_skew = 300,
     ei_return_origins = ''https://erp.example'', ei_public_base_url = ''https://erp.example'', ei_urlsplit = sample_url,
     ei_hmac = (\<lambda>_ m. if m = ''100.x'' then replicate 32 1 else []),
     ei_json = (\<lambda>_. Some (JObj [(''external_ref'', JStr ''HR-1''), (''email'', JStr ''a@b''), (''first_name'', JStr ''A''),
        (''last_name'', JStr ''B''), (''return_url'', JStr ''https://erp.example'')])),
     ei_email = Some, ei_uuid = (\<lambda>_. None)\<rparr>"

definition sample_academy :: academy_db where
  "sample_academy = empty_db\<lparr>entrance_defaults := [\<lparr>td_tenant = 11, td_bank = Some 5, td_time_limit = None\<rparr>],
     questions := [\<lparr>eq_ext_id = ''q'', eq_category = None, eq_options = JArr [], qu_tenant = 11, qu_bank = 5, qu_type = ''single'',
                   qu_correct = JArr [], qu_weight = 1\<rparr>],
     courses := [\<lparr>co_id = 2, co_tenant = 11, co_title = ''C'', co_status = ''published''\<rparr>],
     completions := [\<lparr>cc_id = 7, cc_tenant = 11, cc_person = 3, cc_course = 2, cc_status = ''completed'', cc_pct = 1,
                     cc_completed_at = Some 40\<rparr>],
     offerings := [\<lparr>of_id = 8, of_tenant = 11, of_cohort = 4, of_course = 2, of_status = ''active'', of_starts_at = None,
                   of_ends_at = None\<rparr>],
     enrollments := [\<lparr>en_id = 9, en_tenant = 11, en_cohort = 4, en_person = 3, en_track = None, en_role = ''student'',
                     en_status = ''active'', en_access_ends_at = None\<rparr>],
     next_id := 100\<rparr>"

definition sample_erp_library :: library where
  "sample_erp_library = \<lparr>campus = \<lparr>academy = sample_academy, class_sessions = [], reminder_log = [], reminder_preferences = [],
       success_entries = [], platform_settings = [], enrolled_at = (\<lambda>_. 0), delivery_mode = (\<lambda>_. ''live'')\<rparr>,
     chapters = [], chapter_reads = [], subtopic_reads = [], bookmarks = [], chapter_notes = [], announcements = [],
     course_meta_of = (\<lambda>_. \<lparr>cm_slug = ''net'', cm_discipline = '''', cm_source_ref = '''', cm_version = 1, cm_listed = True\<rparr>),
     banks = [\<lparr>bk_id = 5, bk_tenant = 11, bk_course = 2, bk_chapter = None, bk_kind = ''entrance'', bk_version = 1\<rparr>],
     question_text_of = (\<lambda>_. \<lparr>qx_stem = '''', qx_rubric = '''', qx_explanation = ''''\<rparr>)\<rparr>"

definition sample_signature :: string where
  "sample_signature = ''sha256='' @ hex_bytes (replicate 32 1)"

lemma sample_registered:
  "case register_applicant_assessment sample_exam_env sample_erp_settings 90 0 11 ''x'' (Some ''100'') (Some sample_signature)
      sample_erp_library of (_, ApiRegistered r) \<Rightarrow> rg_state r = ''not_started'' | _ \<Rightarrow> False"
  by code_simp

theorem only_signed_requests_register_witness:
  "\<exists>l' r t. register_applicant_assessment sample_exam_env sample_erp_settings 90 0 11 ''x'' (Some ''100'') (Some sample_signature)
       sample_erp_library = (l', ApiRegistered r)
     \<and> Some ''100'' = Some t \<and> Some sample_signature
         = Some (''sha256='' @ hex_bytes (ei_hmac sample_erp_settings (ei_inbound_secret sample_erp_settings) (t @ ''.'' @ ''x'')))
     \<and> \<bar>90 - int (digits_value t)\<bar> \<le> ei_max_skew sample_erp_settings"
proof -
  obtain l' r where e: "register_applicant_assessment sample_exam_env sample_erp_settings 90 0 11 ''x'' (Some ''100'')
      (Some sample_signature) sample_erp_library = (l', ApiRegistered r)"
    using sample_registered by (auto split: prod.splits api_response.splits)
  from only_signed_requests_register [OF e] e show ?thesis by blast
qed

lemma sample_link:
  "case register sample_exam_env sample_erp_settings sample_erp_library 90 0 11 ''HR-1'' ''a@b'' ''A'' ''B'' None ''https://erp.example'' of
     (_, Inr r) \<Rightarrow> rg_expires_at r = Some 604890 | _ \<Rightarrow> False"
  by code_simp

theorem registration_retry_returns_same_link_witness:
  "\<exists>l' r. register sample_exam_env sample_erp_settings sample_erp_library 90 0 11 ''HR-1'' ''a@b'' ''A'' ''B'' None ''https://erp.example''
       = (l', Inr r)
     \<and> register sample_exam_env sample_erp_settings l' 500 1 11 ''HR-1'' ''a@b'' ''A'' ''B'' None ''https://erp.example'' = (l', Inr r)"
proof -
  obtain l' r where e: "register sample_exam_env sample_erp_settings sample_erp_library 90 0 11 ''HR-1'' ''a@b'' ''A'' ''B'' None
      ''https://erp.example'' = (l', Inr r)" and d: "rg_expires_at r = Some 604890"
    using sample_link by (auto split: prod.splits sum.splits)
  have "register sample_exam_env sample_erp_settings l' 500 1 11 ''HR-1'' ''a@b'' ''A'' ''B'' None ''https://erp.example'' = (l', Inr r)"
    by (rule registration_retry_returns_same_link [OF e]) (simp add: d)
  with e show ?thesis by blast
qed

definition sample_erp_config :: erp_config where
  "sample_erp_config = \<lparr>ec_webhook_url = ''u'', ec_webhook_secret = ''s'', ec_hmac = (\<lambda>_ _. []), ec_dumps = (\<lambda>_. ''{}''),
     ec_dumps_canonical = (\<lambda>_. ''{}''), ec_render = (\<lambda>_. ''''), ec_iso = (\<lambda>_. ''''), ec_utc = (\<lambda>_. ''''), ec_date = (\<lambda>_. ''''),
     ec_answer = (\<lambda>_ _. Some \<lparr>ry_status_code = 200, ry_json = Some (JObj [(''status'', JStr ''recorded'')])\<rparr>)\<rparr>"

definition sample_erp_store :: erp_store where
  "sample_erp_store = \<lparr>er_library = sample_erp_library, er_checkpoints = [], er_audience = (\<lambda>_. Some STAFF),
     er_employee_ref = (\<lambda>_. Some ''E-1''), er_legacy_synced_at = (\<lambda>_. None), er_synced_pct = (\<lambda>_. None), er_updated_at = (\<lambda>_. 40)\<rparr>"

lemma sample_sweep:
  "case sync_pending sample_erp_config 50 11 sample_erp_store [] of
     (_, Inr (s', _)) \<Rightarrow> get_checkpoint s' 11 7 = Some \<lparr>ek_tenant = 11, ek_completion = 7, ek_synced_at = Some 50\<rparr> | _ \<Rightarrow> False"
  by code_simp

theorem delivery_is_acknowledged_witness:
  "\<exists>sent' s' n. sync_pending sample_erp_config 50 11 sample_erp_store [] = (sent', Inr (s', n)) \<and> delivered 11 s' 7
     \<and> (\<exists>body. acknowledged sample_erp_config [] sent' body)"
proof -
  obtain sent' s' n where e: "sync_pending sample_erp_config 50 11 sample_erp_store [] = (sent', Inr (s', n))"
    and k: "get_checkpoint s' 11 7 = Some \<lparr>ek_tenant = 11, ek_completion = 7, ek_synced_at = Some 50\<rparr>"
    using sample_sweep by (auto split: prod.splits sum.splits)
  have d: "delivered 11 s' 7" by (simp add: delivered_def k)
  have "\<not> delivered 11 sample_erp_store 7" by (simp add: delivered_def get_checkpoint_def sample_erp_store_def)
  with delivery_is_acknowledged [OF e] d have "\<exists>body. acknowledged sample_erp_config [] sent' body" by blast
  with e d show ?thesis by blast
qed

end
