(* ===== verification/Library_Properties.thy ===== *)
theory Library_Properties
  imports Learner_Library
begin

text \<open>
  What a learner can rely on in the library: bookmarks and notes read back, an announcement reaches people who may
  read it, the landing page shows the activities of the chapters there are, and a search stays within a learner's courses.
\<close>

section \<open>Bookmarks, notes, subtopics\<close>

text \<open>The unique constraints of the two tables, for one learner and chapter.\<close>

definition one_bookmark :: "library \<Rightarrow> uuid \<Rightarrow> uuid \<Rightarrow> uuid \<Rightarrow> bool" where
  "one_bookmark l tenant person chapter = (count_rows (own_bookmark tenant person chapter) (bookmarks l) \<le> 1)"

definition one_note :: "library \<Rightarrow> uuid \<Rightarrow> uuid \<Rightarrow> uuid \<Rightarrow> bool" where
  "one_note l tenant person chapter = (count_rows (own_note tenant person chapter) (chapter_notes l) \<le> 1)"

lemma count_zero: "count_rows p xs = 0 \<longleftrightarrow> find p xs = None"
  by (induction xs) auto

lemma remove_found: "count_rows p xs \<le> 1 \<Longrightarrow> find p xs = Some x \<Longrightarrow> find p (remove1 x xs) = None"
proof (induction xs)
  case (Cons y ys)
  show ?case
  proof (cases "p y")
    case True
    with Cons.prems have "x = y" "count_rows p ys = 0" by auto
    then show ?thesis by (simp add: count_zero)
  next
    case False
    have "p x" using Cons.prems(2) by (rule find_Some_in [THEN conjunct2])
    then have "x \<noteq> y" using False by blast
    with Cons False show ?thesis by auto
  qed
qed simp

lemma find_removed_other: "\<not> q x \<Longrightarrow> find q (remove1 x xs) = find q xs"
  by (induction xs) auto

lemma find_replaced: "(\<And>r. p (f r) = p r) \<Longrightarrow> find p (replace_first p f xs) = map_option f (find p xs)"
  by (induction xs) auto

lemma find_replaced_other: "(\<And>r. p r \<Longrightarrow> \<not> q r \<and> \<not> q (f r)) \<Longrightarrow> find q (replace_first p f xs) = find q xs"
  by (induction xs) auto

text \<open>A toggle reports the state it leaves, which is the other one, and touches nobody else's bookmark and no note.\<close>

theorem toggle_flips_the_bookmark:
  assumes "one_bookmark l tenant person chapter" "toggle_bookmark l tenant person course chapter = (l', now_on)"
  shows "fst (bookmark_state l' tenant person chapter) = now_on \<and> now_on = (\<not> fst (bookmark_state l tenant person chapter))"
    "(t, p, c) \<noteq> (tenant, person, chapter) \<Longrightarrow> fst (bookmark_state l' t p c) = fst (bookmark_state l t p c)"
    "snd (bookmark_state l' t p c) = snd (bookmark_state l t p c)"
proof -
  let ?mine = "own_bookmark tenant person chapter"
  have other: "\<not> own_bookmark t p c b" if "(t, p, c) \<noteq> (tenant, person, chapter)" "?mine b" for b
    using that by (auto simp: own_bookmark_def)
  have new: "?mine \<lparr>bm_tenant = tenant, bm_person = person, bm_course = course, bm_chapter = chapter\<rparr>"
    by (simp add: own_bookmark_def)
  show "fst (bookmark_state l' tenant person chapter) = now_on \<and> now_on = (\<not> fst (bookmark_state l tenant person chapter))"
    using assms remove_found [of ?mine "bookmarks l"] new
    by (auto simp: toggle_bookmark_def bookmark_state_def one_bookmark_def find_append split: option.splits)
  show "fst (bookmark_state l' t p c) = fst (bookmark_state l t p c)" if "(t, p, c) \<noteq> (tenant, person, chapter)"
  proof (cases "find ?mine (bookmarks l)")
    case None
    then have "bookmarks l' = bookmarks l @ [\<lparr>bm_tenant = tenant, bm_person = person, bm_course = course, bm_chapter = chapter\<rparr>]"
      using assms(2) by (auto simp: toggle_bookmark_def)
    then show ?thesis using other [OF that new] by (auto simp: bookmark_state_def find_append split: option.splits)
  next
    case (Some b)
    then have l': "bookmarks l' = remove1 b (bookmarks l)" using assms(2) by (auto simp: toggle_bookmark_def)
    have "\<not> own_bookmark t p c b" by (rule other [OF that]) (use find_Some_in [OF Some] in blast)
    then show ?thesis by (simp add: bookmark_state_def l' find_removed_other)
  qed
  show "snd (bookmark_state l' t p c) = snd (bookmark_state l t p c)"
    using assms(2) by (auto simp: toggle_bookmark_def bookmark_state_def split: option.splits)
qed

text \<open>A note reads back as it was saved, stripped; an empty text deletes it.\<close>

theorem saved_note_reads_back:
  assumes "one_note l tenant person chapter" "save_note l tenant person course chapter text = (l', n)"
  shows "snd (bookmark_state l' tenant person chapter) = n \<and> map_option nt_body n = (if py_strip text = '''' then None else Some (py_strip text))"
proof -
  let ?mine = "own_note tenant person chapter"
  have keep: "?mine (r\<lparr>nt_body := b\<rparr>) = ?mine r" for r b by (simp add: own_note_def)
  have new: "?mine \<lparr>nt_tenant = tenant, nt_person = person, nt_course = course, nt_chapter = chapter, nt_body = b\<rparr>" for b
    by (simp add: own_note_def)
  have replaced: "find ?mine (replace_first ?mine (\<lambda>r. r\<lparr>nt_body := b\<rparr>) xs) = map_option (\<lambda>r. r\<lparr>nt_body := b\<rparr>) (find ?mine xs)" for b xs
    by (rule find_replaced) (rule keep)
  have "find ?mine (remove1 x (chapter_notes l)) = None" if "find ?mine (chapter_notes l) = Some x" for x
    by (rule remove_found) (use assms(1) that in \<open>simp_all add: one_note_def\<close>)
  then show ?thesis
    using assms(2) replaced new
    by (auto simp: save_note_def bookmark_state_def Let_def find_append split: if_splits option.splits)
qed

text \<open>Finishing a subtopic is recorded once and never taken back.\<close>

theorem finished_subtopics_only_grow:
  assumes "mark_complete l tenant person chapter subtopic = (l', new)"
  shows "completed_slugs l t p c \<subseteq> completed_slugs l' t p c"
    "new \<longleftrightarrow> take 64 (py_strip subtopic) \<noteq> '''' \<and> take 64 (py_strip subtopic) \<notin> completed_slugs l tenant person chapter"
    "take 64 (py_strip subtopic) \<noteq> '''' \<Longrightarrow> take 64 (py_strip subtopic) \<in> completed_slugs l' tenant person chapter"
    "mark_complete l' tenant person chapter subtopic = (l', False)"
proof -
  define slug where "slug = take 64 (py_strip subtopic)"
  define row where "row = \<lparr>st_tenant = tenant, st_person = person, st_chapter = chapter, st_slug = slug\<rparr>"
  have eta: "r = row" if "st_tenant r = tenant" "st_person r = person" "st_chapter r = chapter" "st_slug r = slug" for r
    using that by (cases r) (simp add: row_def)
  have mem: "row \<in> set (subtopic_reads m) \<longleftrightarrow> slug \<in> completed_slugs m tenant person chapter" for m
  proof
    assume "row \<in> set (subtopic_reads m)"
    then show "slug \<in> completed_slugs m tenant person chapter"
      unfolding completed_slugs_def set_map set_filter by (intro image_eqI [where x = row]) (simp_all add: row_def)
  next
    assume "slug \<in> completed_slugs m tenant person chapter"
    then obtain r where "r \<in> set (subtopic_reads m)" "st_tenant r = tenant" "st_person r = person" "st_chapter r = chapter" "st_slug r = slug"
      unfolding completed_slugs_def by auto
    with eta show "row \<in> set (subtopic_reads m)" by blast
  qed
  have l': "l' = (if slug = '''' \<or> row \<in> set (subtopic_reads l) then l else l\<lparr>subtopic_reads := subtopic_reads l @ [row]\<rparr>)"
    and new: "new = (\<not> (slug = '''' \<or> row \<in> set (subtopic_reads l)))"
    using assms by (auto simp: mark_complete_def Let_def slug_def row_def split: if_splits)
  show "completed_slugs l t p c \<subseteq> completed_slugs l' t p c" by (auto simp: l' completed_slugs_def)
  show "new \<longleftrightarrow> take 64 (py_strip subtopic) \<noteq> '''' \<and> take 64 (py_strip subtopic) \<notin> completed_slugs l tenant person chapter"
    unfolding slug_def [symmetric] new mem by simp
  have "row \<in> set (subtopic_reads l')" if "slug \<noteq> ''''" using that by (simp add: l')
  then show "take 64 (py_strip subtopic) \<in> completed_slugs l' tenant person chapter" if "take 64 (py_strip subtopic) \<noteq> ''''"
    using that unfolding slug_def [symmetric] mem by blast
  show "mark_complete l' tenant person chapter subtopic = (l', False)"
    by (auto simp: mark_complete_def Let_def slug_def [symmetric] row_def [symmetric] l')
qed

section \<open>Announcements\<close>

lemma notify_adds:
  assumes "notify db now tenant p kind title link = Inr db'"
  shows "\<exists>n. notifications db' = notifications db @ [n] \<and> no_person n = p \<and> no_tenant n = tenant"
    "enrollments db' = enrollments db" "people db' = people db" "person_exists db tenant p"
  using assms by (auto simp: notify_def ensure_def split: if_splits)

lemma notify_many_adds:
  assumes "notify_many db now tenant ps kind title link = Inr db'"
  shows "\<exists>new. notifications db' = notifications db @ new \<and> map no_person new = ps \<and> (\<forall>n \<in> set new. no_tenant n = tenant)"
    "enrollments db' = enrollments db" "list_all (person_exists db tenant) ps"
proof -
  have "(\<exists>new. notifications db' = notifications db @ new \<and> map no_person new = ps \<and> (\<forall>n \<in> set new. no_tenant n = tenant))
      \<and> enrollments db' = enrollments db \<and> list_all (person_exists db tenant) ps"
    using assms
  proof (induction ps arbitrary: db)
    case (Cons p ps)
    then obtain db1 where one: "notify db now tenant p kind title link = Inr db1"
      and rest: "notify_many db1 now tenant ps kind title link = Inr db'" by (auto simp: and_then_eq_Inr)
    note n = notify_adds [OF one]
    from Cons.IH [OF rest] obtain new where "notifications db' = notifications db1 @ new" "map no_person new = ps"
      "\<forall>n \<in> set new. no_tenant n = tenant" "enrollments db' = enrollments db1" "list_all (person_exists db1 tenant) ps" by blast
    moreover obtain x where "notifications db1 = notifications db @ [x]" "no_person x = p" "no_tenant x = tenant" using n(1) by blast
    moreover have "person_exists db1 tenant = person_exists db tenant" by (simp add: person_exists_def n(3) fun_eq_iff)
    ultimately show ?case using n by (intro conjI exI [where x = "x # new"]) auto
  qed simp
  then show "\<exists>new. notifications db' = notifications db @ new \<and> map no_person new = ps \<and> (\<forall>n \<in> set new. no_tenant n = tenant)"
    "enrollments db' = enrollments db" "list_all (person_exists db tenant) ps" by blast+
qed

lemma take_all_sorted: "length xs \<le> n \<Longrightarrow> take n (sort_key f xs) = sort_key f xs"
  by simp

text \<open>An announcement reaches exactly its audience or nobody: the notifications it adds are one for each learner it is
  addressed to, or none at all when one of them cannot be notified, and the announcement is stored either way; everyone notified
  finds it among the announcements they may read, and its text is safe HTML, as that of the others stays.\<close>

theorem announcement_reaches_its_audience:
  assumes made: "create_announcement (render_markdown markdown parse) l now tenant author title body cohort = (l', a)"
    and safe: "\<forall>x \<in> set (announcements l). safe_html (an_body_html x)"
  shows "announcements l' = announcements l @ [a] \<and> (\<forall>x \<in> set (announcements l'). safe_html (an_body_html x))
    \<and> (\<exists>new. notifications (lib_db l') = notifications (lib_db l) @ new
         \<and> (new = [] \<or> map no_person new = announcement_audience (lib_db l) tenant cohort)
         \<and> (\<forall>n \<in> set new. no_tenant n = tenant
              \<and> (length (announcements l') \<le> limit \<longrightarrow> a \<in> set (announcements_for l' tenant (no_person n) limit))))"
proof -
  let ?db1 = "(lib_db l)\<lparr>next_id := Suc (next_id (lib_db l))\<rparr>"
  let ?who = "announcement_audience (lib_db l) tenant cohort"
  have who: "announcement_audience ?db1 tenant cohort = ?who" by (cases cohort) (simp_all add: announcement_audience_def)
  define db2 where "db2 = (if ?who = [] then ?db1
      else savepoint ?db1 (notify_many ?db1 now tenant ?who ''announcement'' title (Some ''/announcements'')))"
  have fan: "db2 = ?db1 \<or> notify_many ?db1 now tenant ?who ''announcement'' title (Some ''/announcements'') = Inr db2"
    by (simp add: db2_def savepoint_def split: sum.split)
  have l': "announcements l' = announcements l @ [a]" "notifications (lib_db l') = notifications db2"
      "enrollments (lib_db l') = enrollments db2"
    using made who by (auto simp: create_announcement_def Let_def lib_db_def with_db_def db2_def write_audit_event_def)
  have a: "an_tenant a = tenant" "an_cohort a = cohort" "an_body_html a = render_markdown markdown parse body"
    using made by (auto simp: create_announcement_def Let_def)
  have keeps: "enrollments db2 = enrollments (lib_db l)" using fan notify_many_adds(2) by fastforce
  obtain new where new: "notifications db2 = notifications (lib_db l) @ new" "new = [] \<or> map no_person new = ?who"
    "\<forall>n \<in> set new. no_tenant n = tenant"
    using fan notify_many_adds(1) [of ?db1 now tenant ?who "''announcement''" title "Some ''/announcements''" db2] by fastforce
  have "a \<in> set (announcements_for l' tenant p limit)" if "p \<in> set ?who" "length (announcements l') \<le> limit" for p
  proof -
    have member: "case an_cohort a of None \<Rightarrow> True | Some c \<Rightarrow> c \<in> set (own_cohorts (lib_db l') tenant p)"
      using that(1) unfolding a(2) by (auto simp: announcement_audience_def own_cohorts_def l'(3) keeps split: option.splits)
    have shorter: "take limit (sort_key f (filter P (announcements l'))) = sort_key f (filter P (announcements l'))"
      for f :: "announcement_row \<Rightarrow> int" and P
      using le_trans [OF length_filter_le that(2)] by simp
    show ?thesis using a(1) member unfolding announcements_for_def shorter by (simp add: l'(1))
  qed
  moreover have "no_person n \<in> set ?who" if "n \<in> set new" for n
    using new(2) that by (metis image_eqI length_pos_if_in_set less_nat_zero_code list.set_map list.size(3))
  ultimately show ?thesis
    using l' new safe a(3) rendered_chapters_are_safe by auto
qed

section \<open>Notifications\<close>

text \<open>Reading everything leaves nothing unread, and nobody else's notification changes.\<close>

theorem everything_read:
  "unread_count (mark_all_read db now tenant person) tenant person = 0"
  "(t, p) \<noteq> (tenant, person) \<Longrightarrow> recent_notifications (mark_all_read db now tenant person) t p limit = recent_notifications db t p limit"
proof -
  have "count_rows (own_unread tenant person) (update_rows (own_unread tenant person) (\<lambda>n. n\<lparr>no_read_at := Some now\<rparr>) ns) = 0" for ns
    by (induction ns) (auto simp: own_unread_def)
  then show "unread_count (mark_all_read db now tenant person) tenant person = 0" by (simp add: unread_count_def mark_all_read_def)
  assume other: "(t, p) \<noteq> (tenant, person)"
  have "filter (\<lambda>n. no_tenant n = t \<and> no_person n = p) (update_rows (own_unread tenant person) (\<lambda>n. n\<lparr>no_read_at := Some now\<rparr>) ns)
      = filter (\<lambda>n. no_tenant n = t \<and> no_person n = p) ns" for ns
    using other by (induction ns) (auto simp: own_unread_def)
  then show "recent_notifications (mark_all_read db now tenant person) t p limit = recent_notifications db t p limit"
    by (simp add: recent_notifications_def mark_all_read_def)
qed

section \<open>The landing page\<close>

definition shown_activities :: "structure_view \<Rightarrow> activity_row set" where
  "shown_activities v =
     ae_activity ` (set (sv_course_activities v) \<union> (\<Union>(part, hs) \<in> set (sv_parts v). \<Union>(h, es) \<in> set hs. set es))"

lemma grouped_keys: "distinct (map fst (group_rows key rows))"
proof -
  have "distinct (map fst (fold (add_to_group key) rows out))" if "distinct (map fst out)" for out
    using that by (induction rows arbitrary: out) (simp_all add: add_to_group_def distinct_update)
  from this [of "[]"] show ?thesis by (simp add: group_rows_def)
qed

lemma group_rows_union: "(\<Union>(k, rs) \<in> set (group_rows key rows). set rs) = set rows"
proof -
  have "(\<Union>(k, rs) \<in> set out. set rs) = (\<Union>k. set (group_of out k))" if "distinct (map fst out)" for out
    using that by (fastforce simp: group_of_def split: option.splits dest: map_of_SomeD)
  note this [OF grouped_keys]
  also have "(\<Union>k. set (group_of (group_rows key rows) k)) = set rows" by auto
  finally show ?thesis .
qed

text \<open>
  The page shows the activities of the course that belong to no chapter or to a chapter there is. An activity whose chapter
  was deleted is shown nowhere, and still counts towards completion.
\<close>

theorem structure_shows_the_chapters_activities:
  "shown_activities (course_structure l tenant person course)
   = {a \<in> set (activities (lib_db l)). act_tenant a = tenant \<and> act_course a = co_id course
        \<and> (act_chapter a = None \<or> (\<exists>h \<in> set (chapters l). cp_tenant h = tenant \<and> cp_course h = co_id course
                                      \<and> act_chapter a = Some (cp_number h)))}"
proof -
  define best where "best = best_scores_for (lib_db l) tenant person (co_id course)"
  define acts where "acts = filter (\<lambda>a. act_tenant a = tenant \<and> act_course a = co_id course) (activities (lib_db l))"
  define hs where "hs = sort_key (\<lambda>h. (cp_order_index h, cp_number h))
      (filter (\<lambda>h. cp_tenant h = tenant \<and> cp_course h = co_id course) (chapters l))"
  define entries where "entries = (\<lambda>h :: chapter_row. (h, map (activity_entry_of best) (filter (\<lambda>a. act_chapter a = Some (cp_number h)) acts)))"
  have shown: "ae_activity (activity_entry_of best a) = a" for a by (simp add: activity_entry_of_def)
  have v: "sv_parts (course_structure l tenant person course) = map (map_prod id (map entries)) (group_rows cp_part hs)"
    "sv_course_activities (course_structure l tenant person course)
       = map (activity_entry_of best) (sort_key act_title (filter (\<lambda>a. act_chapter a = None) acts))"
    by (simp_all add: course_structure_def Let_def best_def acts_def hs_def entries_def)
  have "(\<Union>(part, hs) \<in> set (map (map_prod id (map entries)) (group_rows cp_part hs)). \<Union>(h, es) \<in> set hs. set es)
      = (\<Union>h \<in> (\<Union>(k, rs) \<in> set (group_rows cp_part hs). set rs). set (snd (entries h)))"
    by (auto simp: split_beta entries_def)
  then have "shown_activities (course_structure l tenant person course)
      = ae_activity ` (set (map (activity_entry_of best) (filter (\<lambda>a. act_chapter a = None) acts))
          \<union> (\<Union>h \<in> set hs. set (snd (entries h))))"
    unfolding shown_activities_def v group_rows_union by simp
  also have "\<dots> = {a \<in> set acts. act_chapter a = None} \<union> (\<Union>h \<in> set hs. {a \<in> set acts. act_chapter a = Some (cp_number h)})"
    by (simp add: entries_def image_Un image_UN image_image shown)
  finally show ?thesis by (auto simp: acts_def hs_def)
qed

section \<open>Search\<close>

text \<open>A learner's search shows nothing outside the courses they may open.\<close>

theorem search_stays_within_the_learners_courses:
  assumes "hit \<in> set (hs_chapters (search_content l tenant person q False))"
  shows "\<exists>h \<in> set (chapters l). cp_title h = hi_title hit \<and> cp_tenant h = tenant
           \<and> cp_course h \<in> accessible_course_ids (lib_db l) tenant person"
  using assms by (auto simp: search_content_def Let_def no_hits_def matching_chapters_def split: if_splits dest!: in_set_takeD)

text \<open>The term is not escaped: a percent sign finds every text.\<close>

theorem percent_finds_everything: "sql_ilike ''%%%'' s"
proof -
  have "sql_like ''%'' s" for s by (induction s) auto
  then have "sql_like ''%%'' s" for s by (induction s) auto
  then have "sql_like ''%%%'' s" for s by (induction s) auto
  then show ?thesis by (simp add: sql_ilike_def py_lower_def py_lower_char_def)
qed

section \<open>Witness\<close>

definition hall_academy :: academy_db where
  "hall_academy = empty_db\<lparr>people := [\<lparr>pe_id = 3, pe_tenant = 11, pe_email = ''a@b'', pe_first_name = ''A'', pe_last_name = ''B'',
       pe_status = ''active'', pe_prefs = []\<rparr>],
     enrollments := [\<lparr>en_id = 9, en_tenant = 11, en_cohort = 4, en_person = 3, en_track = None, en_role = ''student'',
       en_status = ''active'', en_access_ends_at = None\<rparr>], next_id := 100\<rparr>"

definition hall_library :: library where
  "hall_library = \<lparr>campus = \<lparr>academy = hall_academy, class_sessions = [], reminder_log = [], reminder_preferences = [],
       success_entries = [], platform_settings = [], enrolled_at = (\<lambda>_. 0), delivery_mode = (\<lambda>_. ''live'')\<rparr>,
     chapters = [], chapter_reads = [], subtopic_reads = [], bookmarks = [], chapter_notes = [], announcements = [],
     course_meta_of = (\<lambda>_. \<lparr>cm_slug = ''net'', cm_discipline = '''', cm_source_ref = '''', cm_version = 1, cm_listed = True\<rparr>),
     banks = [], question_text_of = (\<lambda>_. \<lparr>qx_stem = '''', qx_rubric = '''', qx_explanation = ''''\<rparr>)\<rparr>"

definition hall_announcement :: "library \<times> announcement_row" where
  "hall_announcement = create_announcement (render_markdown id (\<lambda>s. [Data s])) hall_library 50 11 8 ''T'' ''x'' (Some 4)"

lemma hall_notified:
  "map no_person (notifications (lib_db (fst hall_announcement))) = [3] \<and> notifications (lib_db hall_library) = []
   \<and> length (announcements (fst hall_announcement)) = 1"
  by code_simp

theorem announcement_reaches_its_audience_witness:
  "snd hall_announcement \<in> set (announcements_for (fst hall_announcement) 11 3 1)"
proof -
  obtain l' a where e: "hall_announcement = (l', a)" by (rule prod.exhaust)
  have "\<forall>x \<in> set (announcements hall_library). safe_html (an_body_html x)" by (simp add: hall_library_def)
  from announcement_reaches_its_audience [OF e [unfolded hall_announcement_def] this, of 1]
  obtain new where new: "notifications (lib_db l') = notifications (lib_db hall_library) @ new"
    "\<forall>n \<in> set new. length (announcements l') \<le> 1 \<longrightarrow> a \<in> set (announcements_for l' 11 (no_person n) 1)" by blast
  from hall_notified have h: "map no_person (notifications (lib_db l')) = [3]" "notifications (lib_db hall_library) = []"
    "length (announcements l') = 1" by (simp_all add: e)
  then have "map no_person new = [3]" using new(1) by simp
  then obtain n where "n \<in> set new" "no_person n = 3" by (cases new) auto
  with new(2) h(3) show ?thesis by (auto simp: e)
qed

end
