(* ===== verification/Learner_Web.thy ===== *)
theory Learner_Web
  imports Learner_Library Course_Authoring Rosters Attempt_Policy
begin

text \<open>
  The learner's pages (\<open>web/learn.py\<close>, with the routes of \<open>web/catalog.py\<close> and \<open>web/bookmarks.py\<close>): what each page
  shows and what each post changes. \<open>NotFoundError\<close> is the status 404, \<open>HTTPForbidden\<close> 403; the templates
  are left out. The tokenizer that feeds the heading extractor, the digests, the shuffle and the regular expressions of
  answers are arguments.
\<close>

record learn_env =
  le_exam :: exam_env
  le_day :: "instant \<Rightarrow> instant"
  le_randbelow :: "string \<Rightarrow> nat \<Rightarrow> nat \<Rightarrow> nat"
  le_feed :: "string \<Rightarrow> html_event list"

definition missing :: "'a result" where
  "missing = Inl (NotFoundError '''')"

section \<open>Subtopics\<close>

record heading_state =
  hd_headings :: "(string \<times> string) list"
  hd_current :: "string option"
  hd_parts :: string

text \<open>\<open>str.split()\<close>: the words between runs of white space.\<close>

fun words_from :: "string \<Rightarrow> string \<Rightarrow> string list" where
  "words_from w [] = (if w = [] then [] else [rev w])"
| "words_from w (c # s) =
     (if py_isspace c then (if w = [] then words_from [] s else rev w # words_from [] s) else words_from (c # w) s)"

definition py_words :: "string \<Rightarrow> string list" where
  "py_words s = words_from [] s"

fun join_words :: "string list \<Rightarrow> string" where
  "join_words [] = []"
| "join_words [w] = w"
| "join_words (w # ws) = w @ CHR '' '' # join_words ws"

fun heading_event :: "html_event \<Rightarrow> heading_state \<Rightarrow> heading_state" where
  "heading_event (StartTag tag attrs) st = (if tag \<in> {''h2'', ''h3''} then st\<lparr>hd_current := Some tag, hd_parts := ''''\<rparr> else st)"
| "heading_event (Data d) st = (if hd_current st = None then st else st\<lparr>hd_parts := hd_parts st @ d\<rparr>)"
| "heading_event (EndTag tag) st =
     (if hd_current st = Some tag
      then let title = join_words (py_words (hd_parts st)) in
           st\<lparr>hd_headings := hd_headings st @ (if title = '''' then [] else [(tag, title)]), hd_current := None, hd_parts := ''''\<rparr>
      else st)"
| "heading_event (Comment c) st = st"
| "heading_event (Decl c) st = st"

definition headings_of :: "html_event list \<Rightarrow> (string \<times> string) list" where
  "headings_of es = hd_headings (fold heading_event es \<lparr>hd_headings = [], hd_current = None, hd_parts = ''''\<rparr>)"

text \<open>\<open>re.sub(r"[p]+", d, s)\<close>.\<close>

fun runs_to :: "(char \<Rightarrow> bool) \<Rightarrow> char \<Rightarrow> bool \<Rightarrow> string \<Rightarrow> string" where
  "runs_to p d in_run [] = []"
| "runs_to p d in_run (c # s) =
     (if p c then (if in_run then runs_to p d True s else d # runs_to p d True s) else c # runs_to p d False s)"

definition slugify_heading :: "string \<Rightarrow> string" where
  "slugify_heading v =
     (let kept = filter (\<lambda>c. is_word_char c \<or> py_isspace c \<or> c = CHR ''-'') (py_strip (py_lower v));
          slug = take 64 (runs_to (\<lambda>c. c = CHR ''-'') CHR ''-'' False (runs_to py_isspace CHR ''-'' False kept))
      in if slug = '''' then ''section'' else slug)"

definition GROUPED_INTRO_HEADINGS :: "string list" where
  "GROUPED_INTRO_HEADINGS = [''why-this-matters'', ''catch-up-sidebar'']"

text \<open>The loop over the counter; \<open>None\<close> where the fuel is used up.\<close>

fun free_heading_slug :: "nat \<Rightarrow> string \<Rightarrow> string list \<Rightarrow> nat \<Rightarrow> string \<Rightarrow> string option" where
  "free_heading_slug 0 base used k slug = (if slug \<in> set used then None else Some slug)"
| "free_heading_slug (Suc n) base used k slug =
     (if slug \<in> set used then free_heading_slug n base used (Suc k) (base @ ''-'' @ show_nat k) else Some slug)"

record subtopic =
  sb_level :: string
  sb_title :: string
  sb_slug :: string

definition add_subtopic :: "string \<times> string \<Rightarrow> subtopic list \<Rightarrow> subtopic list" where
  "add_subtopic = (\<lambda>(level, title) out.
     if py_lower (slugify_heading title) \<in> set GROUPED_INTRO_HEADINGS then out
     else let base = slugify_heading title
          in case free_heading_slug (length out) base (map sb_slug out) 2 base of
               None \<Rightarrow> out
             | Some slug \<Rightarrow> out @ [\<lparr>sb_level = level, sb_title = title, sb_slug = slug\<rparr>])"

definition chapter_subtopics :: "learn_env \<Rightarrow> string \<Rightarrow> subtopic list" where
  "chapter_subtopics ev body = fold add_subtopic (headings_of (le_feed ev body)) []"

section \<open>The home page\<close>

record landing_view =
  lv_tech_count :: nat
  lv_mgmt_count :: nat
  lv_chapter_count :: nat

record home_view =
  hv_cards :: "course_card list"
  hv_counts :: "(string \<times> nat) list"
  hv_total :: nat
  hv_continue :: "(uuid \<times> chapter_row) option"
  hv_recent :: "(string \<times> bool \<times> int) list"
  hv_announcements :: "announcement_row list"

datatype home_page = Landing landing_view | To_Teaching | Home home_view

definition is_management :: "library \<Rightarrow> course_row \<times> nat \<Rightarrow> bool" where
  "is_management l i = (cm_discipline (course_meta_of l (co_id (fst i))) = ''management'')"

definition landing :: "library \<Rightarrow> uuid \<Rightarrow> landing_view" where
  "landing l tenant =
     (let listed = public_catalog l tenant
      in \<lparr>lv_tech_count = length (filter (\<lambda>i. \<not> is_management l i) listed),
          lv_mgmt_count = length (filter (is_management l) listed),
          lv_chapter_count = sum_list (map snd listed)\<rparr>)"

definition recent_results :: "academy_db \<Rightarrow> uuid \<Rightarrow> uuid \<Rightarrow> (string \<times> bool \<times> int) list" where
  "recent_results db tenant person =
     map (\<lambda>(sc, a). (act_title a, sc_passed sc, py_round (100 * sc_fraction sc)))
       (take 6 (sort_key (\<lambda>(sc, a). - sc_created_at sc)
         [(sc, a). sc \<leftarrow> scores db, s \<leftarrow> submissions db, a \<leftarrow> activities db,
            sub_id s = sc_submission sc \<and> sub_tenant s = sc_tenant sc \<and> act_id a = sub_activity s \<and> act_tenant a = sub_tenant s
            \<and> sc_tenant sc = tenant \<and> sub_person s = person]))"

definition home_page_of :: "library \<Rightarrow> instant \<Rightarrow> uuid \<Rightarrow> uuid option \<Rightarrow> string \<Rightarrow> string \<Rightarrow> home_page" where
  "home_page_of l now tenant person path state_filter =
     (case person of
        None \<Rightarrow> Landing (landing l tenant)
      | Some p \<Rightarrow>
          let access = facilitator_access_of (lib_db l) tenant p in
          if path = ''/'' \<and> can_teach access \<and> \<not> fa_is_admin access then To_Teaching
          else case learner_home l tenant p now of
                 (cards, counts, continue_to) \<Rightarrow>
                   Home \<lparr>hv_cards = (if state_filter \<in> set STATES then filter (\<lambda>c. kd_state c = state_filter) cards else cards),
                         hv_counts = counts, hv_total = length cards, hv_continue = continue_to,
                         hv_recent = recent_results (lib_db l) tenant p,
                         hv_announcements = announcements_for l tenant p 3\<rparr>)"

section \<open>The chapter page\<close>

definition viewed :: "learn_env \<Rightarrow> instant \<Rightarrow> uuid \<Rightarrow> uuid \<Rightarrow> string \<Rightarrow> uuid \<Rightarrow> uuid \<Rightarrow> library \<Rightarrow> library" where
  "viewed ev now tenant person kind course subject =
     with_db (\<lambda>db. emit (le_day ev) db \<lparr>v_tenant = tenant, v_person = person, v_kind = kind, v_course = Some course,
                     v_subject = Some subject, v_detail = JObj [], v_at = now\<rparr>)"

text \<open>The guards the chapter routes share: the course by its slug, its access, the chapter by its number.\<close>

definition opened_chapter :: "library \<Rightarrow> instant \<Rightarrow> uuid \<Rightarrow> uuid \<Rightarrow> string \<Rightarrow> int \<Rightarrow> (course_row \<times> chapter_row) result" where
  "opened_chapter l now tenant person slug n =
     (case course_with_slug l tenant slug of
        None \<Rightarrow> missing
      | Some c \<Rightarrow>
          and_then (require_course_open (lib_db l) tenant person (co_id c) now) (\<lambda>_.
            case chapter_numbered l tenant (co_id c) n of None \<Rightarrow> missing | Some h \<Rightarrow> Inr (c, h)))"

record activity_item =
  im_activity :: activity_row
  im_href :: string
  im_attempts :: nat
  im_passed :: bool
  im_pct :: "int option"

definition item_of :: "academy_db \<Rightarrow> uuid \<Rightarrow> uuid \<Rightarrow> (uuid \<times> score_row) list \<Rightarrow> activity_row \<Rightarrow> activity_item" where
  "item_of db tenant person best a =
     \<lparr>im_activity = a, im_href = (if act_type a = ''lab'' then ''/labs/'' else ''/activities/'') @ uuid_str (act_id a),
      im_attempts = attempts_used db tenant person (act_id a), im_passed = passed_in best (act_id a),
      im_pct = map_option (\<lambda>s. py_round (100 * sc_fraction s)) (map_of best (act_id a))\<rparr>"

definition type_rank :: "activity_row \<Rightarrow> nat" where
  "type_rank a = (if act_type a = ''mcq_test'' then 0 else if act_type a = ''lab'' then 1 else 2)"

definition chapter_activities :: "academy_db \<Rightarrow> uuid \<Rightarrow> uuid \<Rightarrow> int \<Rightarrow> activity_row list" where
  "chapter_activities db tenant course n =
     sort_key (\<lambda>a. (type_rank a, act_title a))
       (filter (\<lambda>a. act_tenant a = tenant \<and> act_course a = course \<and> act_chapter a = Some n) (activities db))"

definition primary_activity :: "activity_row list \<Rightarrow> activity_row option" where
  "primary_activity acts =
     (case find (\<lambda>a. act_type a = ''mcq_test'') acts of
        Some a \<Rightarrow> Some a | None \<Rightarrow> (case acts of [] \<Rightarrow> None | a # _ \<Rightarrow> Some a))"

definition reading_minutes :: "string \<Rightarrow> int" where
  "reading_minutes body = max 1 (py_round (of_nat (length (py_words (strip_tags body))) / 200))"

definition own_read :: "uuid \<Rightarrow> uuid \<Rightarrow> uuid \<Rightarrow> chapter_read_row \<Rightarrow> bool" where
  "own_read tenant person chapter r = (rd_tenant r = tenant \<and> rd_person r = person \<and> rd_chapter r = chapter)"

definition prev_chapter :: "chapter_row list \<Rightarrow> int \<Rightarrow> chapter_row option" where
  "prev_chapter hs n = find (\<lambda>h. cp_number h < n) (sort_key (\<lambda>h. - cp_number h) hs)"

definition next_chapter :: "chapter_row list \<Rightarrow> int \<Rightarrow> chapter_row option" where
  "next_chapter hs n = find (\<lambda>h. cp_number h > n) hs"

record chapter_module =
  md_chapter :: chapter_row
  md_subtopics :: "subtopic list"
  md_done :: "string list"

record chapter_view =
  cv_course :: course_row
  cv_chapter :: chapter_row
  cv_activity :: "activity_row option"
  cv_items :: "activity_item list"
  cv_total :: nat
  cv_previous :: "chapter_row option"
  cv_next :: "chapter_row option"
  cv_minutes :: int
  cv_completed :: bool
  cv_taken :: bool
  cv_modules :: "chapter_module list"
  cv_completed_ids :: "uuid list"
  cv_subtopics_complete :: bool

definition chapter_view_of :: "learn_env \<Rightarrow> library \<Rightarrow> uuid \<Rightarrow> uuid \<Rightarrow> course_row \<Rightarrow> chapter_row \<Rightarrow> int \<Rightarrow> chapter_view" where
  "chapter_view_of ev l tenant person c h n =
     (let db = lib_db l; acts = chapter_activities db tenant (co_id c) n; act = primary_activity acts;
          hs = course_chapters l tenant (co_id c);
          done_by = completed_slugs_by_chapter l tenant person (map cp_id hs);
          done_in = (\<lambda>i. case map_of done_by i of None \<Rightarrow> [] | Some ss \<Rightarrow> ss);
          best = best_scores_for db tenant person (co_id c);
          items = map (item_of db tenant person best) acts;
          read_ids = map rd_chapter (filter (\<lambda>r. rd_tenant r = tenant \<and> rd_person r = person \<and> rd_chapter r \<in> cp_id ` set hs)
                                       (chapter_reads l))
      in \<lparr>cv_course = c, cv_chapter = h, cv_activity = act, cv_items = items,
          cv_total = count_rows (\<lambda>x. cp_tenant x = tenant \<and> cp_course x = co_id c) (chapters l),
          cv_previous = prev_chapter hs n, cv_next = next_chapter hs n, cv_minutes = reading_minutes (cp_body_html h),
          cv_completed = (count_rows (own_read tenant person (cp_id h)) (chapter_reads l) \<noteq> 0),
          cv_taken = (case act of
                        None \<Rightarrow> False
                      | Some a \<Rightarrow> (case find (\<lambda>i. act_id (im_activity i) = act_id a) items of
                                    None \<Rightarrow> False | Some i \<Rightarrow> im_attempts i > 0)),
          cv_modules = map (\<lambda>x. \<lparr>md_chapter = x, md_subtopics = chapter_subtopics ev (cp_body_html x), md_done = done_in (cp_id x)\<rparr>) hs,
          cv_completed_ids = remdups read_ids,
          cv_subtopics_complete = list_all (\<lambda>s. sb_slug s \<in> set (done_in (cp_id h))) (chapter_subtopics ev (cp_body_html h))\<rparr>)"

definition chapter_page ::
    "learn_env \<Rightarrow> library \<Rightarrow> instant \<Rightarrow> uuid \<Rightarrow> uuid \<Rightarrow> string \<Rightarrow> int \<Rightarrow> (library \<times> chapter_view) result" where
  "chapter_page ev l now tenant person slug n =
     and_then (opened_chapter l now tenant person slug n) (\<lambda>(c, h).
       let l1 = viewed ev now tenant person ''chapter_viewed'' (co_id c) (cp_id h)
                  (viewed ev now tenant person ''course_viewed'' (co_id c) (co_id c) l)
       in Inr (l1, chapter_view_of ev l1 tenant person c h n))"

definition subtopic_complete ::
    "learn_env \<Rightarrow> library \<Rightarrow> instant \<Rightarrow> uuid \<Rightarrow> uuid \<Rightarrow> string \<Rightarrow> int \<Rightarrow> string \<Rightarrow> (library \<times> string set \<times> bool) result" where
  "subtopic_complete ev l now tenant person slug n subtopic =
     and_then (opened_chapter l now tenant person slug n) (\<lambda>(c, h).
       let known = sb_slug ` set (chapter_subtopics ev (cp_body_html h)) in
       if subtopic \<notin> known then missing
       else let l1 = fst (mark_complete l tenant person (cp_id h) subtopic);
                ticked = completed_slugs l1 tenant person (cp_id h)
            in Inr (l1, ticked, known \<subseteq> ticked))"

text \<open>The toggle of the whole chapter.\<close>

definition chapter_complete ::
    "learn_env \<Rightarrow> library \<Rightarrow> instant \<Rightarrow> uuid \<Rightarrow> uuid \<Rightarrow> string \<Rightarrow> int \<Rightarrow> (library \<times> bool) result" where
  "chapter_complete ev l now tenant person slug n =
     and_then (opened_chapter l now tenant person slug n) (\<lambda>(c, h).
       case find (own_read tenant person (cp_id h)) (chapter_reads l) of
         None \<Rightarrow>
           Inr (viewed ev now tenant person ''chapter_completed'' (co_id c) (cp_id h)
                  (l\<lparr>chapter_reads := chapter_reads l
                       @ [\<lparr>rd_tenant = tenant, rd_person = person, rd_chapter = cp_id h, rd_created_at = now\<rparr>]\<rparr>), True)
       | Some r \<Rightarrow> Inr (l\<lparr>chapter_reads := remove1 r (chapter_reads l)\<rparr>, False))"

section \<open>Activities\<close>

record sitting_item =
  qv_ext_id :: string
  qv_stem :: string
  qv_type :: string
  qv_options :: "json list"

definition sitting_view :: "learn_env \<Rightarrow> library \<Rightarrow> uuid \<Rightarrow> question_row list \<Rightarrow> sitting_item list" where
  "sitting_view ev l person qs =
     map (\<lambda>q. \<lparr>qv_ext_id = eq_ext_id q, qv_stem = qx_stem (question_text_of l (qu_bank q, eq_ext_id q)), qv_type = qu_type q,
               qv_options = present_options (xe_hex (le_exam ev)) (le_randbelow ev) (uuid_str person) q\<rparr>) qs"

definition bank_of :: "academy_db \<Rightarrow> uuid \<Rightarrow> activity_row \<Rightarrow> question_row list" where
  "bank_of db tenant a = filter (\<lambda>q. qu_tenant q = tenant \<and> Some (qu_bank q) = act_bank a) (questions db)"

text \<open>The questions of the drawn paper, in the order of the draw.\<close>

definition drawn_questions :: "string list \<Rightarrow> question_row list \<Rightarrow> question_row list" where
  "drawn_questions paper qs =
     (let position = map_of (rev (zip paper [0 ..< length paper]))
      in sort_key (\<lambda>q. case position (eq_ext_id q) of None \<Rightarrow> 0 | Some i \<Rightarrow> i) (filter (\<lambda>q. eq_ext_id q \<in> set paper) qs))"

definition activity_in :: "academy_db \<Rightarrow> uuid \<Rightarrow> uuid \<Rightarrow> activity_row option" where
  "activity_in db tenant i = find (\<lambda>a. act_id a = i \<and> act_tenant a = tenant) (activities db)"

datatype activity_page = To_Lab uuid | Sitting activity_row "sitting_item list"

definition activity_page_of ::
    "learn_env \<Rightarrow> library \<Rightarrow> instant \<Rightarrow> uuid \<Rightarrow> uuid \<Rightarrow> uuid \<Rightarrow> (library \<times> activity_page) result" where
  "activity_page_of ev l now tenant person i =
     (case activity_in (lib_db l) tenant i of
        None \<Rightarrow> missing
      | Some a \<Rightarrow>
          and_then (require_course_open (lib_db l) tenant person (act_course a) now) (\<lambda>_.
          and_then (require_activity_readable (lib_db l) tenant person (act_course a) (act_id a) now) (\<lambda>_.
            if act_type a = ''lab'' then Inr (l, To_Lab (act_id a))
            else let qs = bank_of (lib_db l) tenant a
                 in case act_question_count a of
                      None \<Rightarrow> Inr (l, Sitting a (sitting_view ev l person qs))
                    | Some k \<Rightarrow>
                        and_then (open_or_create_attempt (xe_hex (le_exam ev)) (le_day ev) (lib_db l) now tenant person (act_id a)
                                    (map eq_ext_id qs) k (Some qs)) (\<lambda>(db1, r).
                          let l1 = with_db (\<lambda>_. db1) l
                          in Inr (l1, Sitting a (sitting_view ev l1 person (drawn_questions (at_question_ext_ids r) qs)))))))"

record result_view =
  rv_score :: score_row
  rv_questions :: "question_row list"
  rv_next :: "chapter_row option"
  rv_completion :: "completion_row option"
  rv_reveal :: bool

datatype submit_page = Awaits_Grading | Graded result_view

definition result_view_of :: "library \<Rightarrow> uuid \<Rightarrow> uuid \<Rightarrow> activity_row \<Rightarrow> score_row \<Rightarrow> result_view" where
  "result_view_of l tenant person a sc =
     (let db = lib_db l; course = find (\<lambda>c. co_tenant c = tenant \<and> co_id c = act_course a) (courses db)
      in \<lparr>rv_score = sc, rv_questions = bank_of db tenant a,
          rv_next = (case (course, act_chapter a) of
                       (Some c, Some n) \<Rightarrow> next_chapter (course_chapters l tenant (co_id c)) n | _ \<Rightarrow> None),
          rv_completion = (case course of
                             None \<Rightarrow> None
                           | Some c \<Rightarrow> find (\<lambda>x. cc_tenant x = tenant \<and> cc_person x = person \<and> cc_course x = co_id c) (completions db)),
          rv_reveal = result_page_reveals db tenant person a sc\<rparr>)"

definition submit_page_of ::
    "learn_env \<Rightarrow> library \<Rightarrow> instant \<Rightarrow> uuid \<Rightarrow> uuid \<Rightarrow> uuid \<Rightarrow> (string \<Rightarrow> json list) \<Rightarrow> (library \<times> submit_page) result" where
  "submit_page_of ev l now tenant person i form =
     (case activity_in (lib_db l) tenant i of
        None \<Rightarrow> missing
      | Some a \<Rightarrow>
          and_then (require_course_open (lib_db l) tenant person (act_course a) now) (\<lambda>_.
          and_then (require_activity_submittable (lib_db l) tenant person (act_course a) (act_id a) now) (\<lambda>_.
            let (db1, only) = (if act_question_count a = None then (lib_db l, None)
                               else case close_open_attempt (lib_db l) now tenant person (act_id a) of
                                      (d, r) \<Rightarrow> (d, Some (case r of None \<Rightarrow> [] | Some x \<Rightarrow> at_question_ext_ids x)));
                qs = filter (\<lambda>q. case only of None \<Rightarrow> True | Some ids \<Rightarrow> eq_ext_id q \<in> set ids) (bank_of db1 tenant a);
                ans = map (\<lambda>k. (k, form k)) (remdups (map eq_ext_id qs))
            in and_then (submit_activity (xe_fullmatch (le_exam ev)) (xe_render (le_exam ev)) (le_day ev) db1 now tenant person a ans only)
                 (\<lambda>(db2, sc). let l2 = with_db (\<lambda>_. db2) l
                              in Inr (l2, case sc of None \<Rightarrow> Awaits_Grading | Some s \<Rightarrow> Graded (result_view_of l2 tenant person a s))))))"

section \<open>Certificates\<close>

definition certificate_page ::
    "learn_env \<Rightarrow> library \<Rightarrow> instant \<Rightarrow> uuid \<Rightarrow> uuid \<Rightarrow> uuid \<Rightarrow> (library \<times> certificate_row) result" where
  "certificate_page ev l now tenant person course =
     (case find (\<lambda>c. co_tenant c = tenant \<and> co_id c = course) (courses (lib_db l)) of
        None \<Rightarrow> missing
      | Some c \<Rightarrow>
          (case find (\<lambda>x. cc_tenant x = tenant \<and> cc_person x = person \<and> cc_course x = course) (completions (lib_db l)) of
             None \<Rightarrow> Inl HTTPForbidden
           | Some x \<Rightarrow>
               if cc_status x \<noteq> ''completed'' then Inl HTTPForbidden
               else and_then (issue_certificate (le_day ev) (lib_db l) now tenant person course) (\<lambda>(db1, cert).
                      Inr (with_db (\<lambda>_. db1) l, cert))))"

section \<open>The catalogue pages\<close>

definition STAFF_ROLES :: "string list" where "STAFF_ROLES = [''instructor'', ''admin'']"

definition is_staff :: "academy_db \<Rightarrow> uuid \<Rightarrow> uuid \<Rightarrow> bool" where
  "is_staff db tenant person = (set STAFF_ROLES \<inter> role_slugs db tenant person \<noteq> {})"

record course_line =
  cl_course :: course_row
  cl_pct :: int
  cl_locked :: bool
  cl_reason :: "string option"

datatype courses_page = Public "(course_row \<times> nat) list" | Enrolled "course_line list" "course_row list option"

definition course_line_of :: "academy_db \<Rightarrow> uuid \<Rightarrow> uuid \<Rightarrow> course_row \<Rightarrow> course_line" where
  "course_line_of db tenant person c =
     (let state = map_of (course_access_states db tenant person) (co_id c)
      in \<lparr>cl_course = c, cl_pct = course_completion_pct db tenant person (co_id c),
          cl_locked = (case state of None \<Rightarrow> False | Some s \<Rightarrow> as_locked s),
          cl_reason = (case state of None \<Rightarrow> None | Some s \<Rightarrow> as_reason s)\<rparr>)"

definition courses_list :: "library \<Rightarrow> uuid \<Rightarrow> uuid option \<Rightarrow> courses_page" where
  "courses_list l tenant person =
     (case person of
        None \<Rightarrow> Public (public_catalog l tenant)
      | Some p \<Rightarrow>
          let db = lib_db l
          in Enrolled (map (course_line_of db tenant p) (my_courses db tenant p))
               (if is_staff db tenant p then Some (all_courses db tenant) else None))"

definition course_landing ::
    "learn_env \<Rightarrow> library \<Rightarrow> instant \<Rightarrow> uuid \<Rightarrow> uuid \<Rightarrow> string \<Rightarrow> (library \<times> structure_view \<times> int) result" where
  "course_landing ev l now tenant person slug =
     (case course_with_slug l tenant slug of
        None \<Rightarrow> missing
      | Some c \<Rightarrow>
          ensure (is_staff (lib_db l) tenant person \<or> co_id c \<in> open_course_ids (lib_db l) tenant person now) HTTPForbidden
            (let l1 = viewed ev now tenant person ''course_viewed'' (co_id c) (co_id c) l
             in Inr (l1, course_structure l1 tenant person c, course_completion_pct (lib_db l1) tenant person (co_id c))))"

section \<open>Bookmark routes\<close>

text \<open>These ask only whether the course is accessible, not whether its offering is open now.\<close>

definition accessible_chapter :: "library \<Rightarrow> uuid \<Rightarrow> uuid \<Rightarrow> string \<Rightarrow> int \<Rightarrow> (course_row \<times> chapter_row) result" where
  "accessible_chapter l tenant person slug n =
     (case course_with_slug l tenant slug of
        None \<Rightarrow> missing
      | Some c \<Rightarrow>
          and_then (require_course_access (lib_db l) tenant person (co_id c)) (\<lambda>_.
            case chapter_numbered l tenant (co_id c) n of None \<Rightarrow> missing | Some h \<Rightarrow> Inr (c, h)))"

definition bookmark_toggle_ui :: "library \<Rightarrow> uuid \<Rightarrow> uuid \<Rightarrow> string \<Rightarrow> int \<Rightarrow> bool result" where
  "bookmark_toggle_ui l tenant person slug n =
     and_then (accessible_chapter l tenant person slug n) (\<lambda>(c, h). Inr (fst (bookmark_state l tenant person (cp_id h))))"

definition bookmark_toggle :: "library \<Rightarrow> uuid \<Rightarrow> uuid \<Rightarrow> string \<Rightarrow> int \<Rightarrow> (library \<times> bool) result" where
  "bookmark_toggle l tenant person slug n =
     and_then (accessible_chapter l tenant person slug n) (\<lambda>(c, h). Inr (toggle_bookmark l tenant person (co_id c) (cp_id h)))"

definition note_ui :: "library \<Rightarrow> uuid \<Rightarrow> uuid \<Rightarrow> string \<Rightarrow> int \<Rightarrow> (note_row option) result" where
  "note_ui l tenant person slug n =
     and_then (accessible_chapter l tenant person slug n) (\<lambda>(c, h). Inr (snd (bookmark_state l tenant person (cp_id h))))"

definition note_save :: "library \<Rightarrow> uuid \<Rightarrow> uuid \<Rightarrow> string \<Rightarrow> int \<Rightarrow> string \<Rightarrow> (library \<times> note_row option) result" where
  "note_save l tenant person slug n body =
     and_then (accessible_chapter l tenant person slug n) (\<lambda>(c, h). Inr (save_note l tenant person (co_id c) (cp_id h) body))"

end
