(* ===== verification/Web_Properties.thy ===== *)
theory Web_Properties
  imports Learner_Web Library_Properties Exam_Properties Roster_Properties
begin

text \<open>
  The learner's pages: content needs an open course, a reload shows the same paper, a submission is graded on the paper that
  was shown, subtopics get distinct slugs; and what happens to a submission without a paper and to a long heading.
\<close>

section \<open>Access\<close>

lemma opened_chapter_open:
  assumes "opened_chapter l now tenant person slug n = Inr (c, h)"
  shows "require_course_open (lib_db l) tenant person (co_id c) now = Inr ()" "course_with_slug l tenant slug = Some c"
    "h \<in> set (chapters l)" "cp_tenant h = tenant" "cp_course h = co_id c" "cp_number h = n"
  using assms
  by (auto simp: opened_chapter_def missing_def and_then_eq_Inr chapter_numbered_def split: option.splits dest!: find_Some_in)

lemma open_course:
  "require_course_open db tenant person course now = Inr () \<longleftrightarrow>
   course \<in> open_course_ids db tenant person now \<and> unmet_prerequisites db tenant person course = []"
  by (auto simp: require_course_open_def)

text \<open>Chapter text is shown, and reading progress recorded, only in a course that is open to the learner.\<close>

theorem chapters_need_an_open_course:
  "chapter_page ev l now tenant person slug n = Inr (l', v) \<Longrightarrow>
     cp_course (cv_chapter v) \<in> open_course_ids (lib_db l) tenant person now
     \<and> unmet_prerequisites (lib_db l) tenant person (cp_course (cv_chapter v)) = []"
  "chapter_complete ev l now tenant person slug n = Inr (l', ok) \<Longrightarrow>
     \<exists>c. course_with_slug l tenant slug = Some c \<and> co_id c \<in> open_course_ids (lib_db l) tenant person now"
  "subtopic_complete ev l now tenant person slug n subtopic = Inr (l', r) \<Longrightarrow>
     \<exists>c. course_with_slug l tenant slug = Some c \<and> co_id c \<in> open_course_ids (lib_db l) tenant person now"
proof -
  assume "chapter_page ev l now tenant person slug n = Inr (l', v)"
  then obtain c h where "opened_chapter l now tenant person slug n = Inr (c, h)" "cv_chapter v = h"
    by (auto simp: chapter_page_def and_then_eq_Inr chapter_view_of_def Let_def)
  then show "cp_course (cv_chapter v) \<in> open_course_ids (lib_db l) tenant person now
     \<and> unmet_prerequisites (lib_db l) tenant person (cp_course (cv_chapter v)) = []"
    using opened_chapter_open [of l now tenant person slug n c h] open_course by simp
next
  assume "chapter_complete ev l now tenant person slug n = Inr (l', ok)"
  then obtain c h where "opened_chapter l now tenant person slug n = Inr (c, h)"
    by (auto simp: chapter_complete_def and_then_eq_Inr)
  from opened_chapter_open(1,2) [OF this]
  show "\<exists>c. course_with_slug l tenant slug = Some c \<and> co_id c \<in> open_course_ids (lib_db l) tenant person now"
    unfolding open_course by blast
next
  assume "subtopic_complete ev l now tenant person slug n subtopic = Inr (l', r)"
  then obtain c h where "opened_chapter l now tenant person slug n = Inr (c, h)"
    by (auto simp: subtopic_complete_def and_then_eq_Inr)
  from opened_chapter_open(1,2) [OF this]
  show "\<exists>c. course_with_slug l tenant slug = Some c \<and> co_id c \<in> open_course_ids (lib_db l) tenant person now"
    unfolding open_course by blast
qed

section \<open>The paper of a sitting\<close>

lemma tables_emit: "questions (emit day db v) = questions db" "activities (emit day db v) = activities db"
  using emit_cases [of day db v] by auto

lemma open_rows_opened:
  assumes "open_or_create_attempt hex day db now t p a es k qs = Inr (db', r)"
  shows "open_attempt db' t p a = Some r" "questions db' = questions db" "activities db' = activities db"
proof -
  from open_or_create_ok [OF assms] show "open_attempt db' t p a = Some r"
  proof
    assume n: "open_attempt db t p a = None \<and> activity_attempts db' = activity_attempts db @ [r]
      \<and> r = new_attempt db now t p a (draw_paper hex p (prior_attempts db t p a) es k qs) \<and> next_id db < next_id db'"
    then have "filter (\<lambda>r. owned_attempt t p a r \<and> at_submitted_at r = None) (activity_attempts db) = []"
      using open_attempt_None [of db t p a] by (simp add: open_rows_def)
    moreover have "owned_attempt t p a r" "at_submitted_at r = None" using n by (auto simp: owned_attempt_def new_attempt_def)
    ultimately show ?thesis using n by (simp add: open_attempt_def)
  qed simp
  show "questions db' = questions db" "activities db' = activities db"
    using assms by (auto simp: open_or_create_attempt_def ensure_def Let_def tables_emit split: option.splits if_splits)
qed

lemma page_cases:
  assumes "activity_page_of ev l now tenant person i = Inr (l', page)"
  obtains (lab) a where "activity_in (lib_db l) tenant i = Some a" "act_type a = ''lab''" "l' = l" "page = To_Lab (act_id a)"
  | (whole) a where "activity_in (lib_db l) tenant i = Some a" "act_type a \<noteq> ''lab''" "act_question_count a = None" "l' = l"
      "page = Sitting a (sitting_view ev l person (bank_of (lib_db l) tenant a))"
  | (drawn) a k db1 r where "activity_in (lib_db l) tenant i = Some a" "act_type a \<noteq> ''lab''" "act_question_count a = Some k"
      "open_or_create_attempt (xe_hex (le_exam ev)) (le_day ev) (lib_db l) now tenant person (act_id a)
         (map eq_ext_id (bank_of (lib_db l) tenant a)) k (Some (bank_of (lib_db l) tenant a)) = Inr (db1, r)"
      "l' = with_db (\<lambda>_. db1) l"
      "page = Sitting a (sitting_view ev l' person (drawn_questions (at_question_ext_ids r) (bank_of (lib_db l) tenant a)))"
proof -
  from assms obtain a where a: "activity_in (lib_db l) tenant i = Some a"
    by (cases "activity_in (lib_db l) tenant i") (simp_all add: activity_page_of_def missing_def)
  show ?thesis
  proof (cases "act_type a = ''lab''")
    case True
    then show ?thesis using assms a by (intro lab [OF a]) (auto simp: activity_page_of_def and_then_eq_Inr)
  next
    case nl: False
    show ?thesis
    proof (cases "act_question_count a")
      case None
      then show ?thesis using assms a nl by (intro whole [OF a nl None]) (auto simp: activity_page_of_def and_then_eq_Inr)
    next
      case (Some k)
      obtain db1 r where "open_or_create_attempt (xe_hex (le_exam ev)) (le_day ev) (lib_db l) now tenant person (act_id a)
           (map eq_ext_id (bank_of (lib_db l) tenant a)) k (Some (bank_of (lib_db l) tenant a)) = Inr (db1, r)"
        "l' = with_db (\<lambda>_. db1) l"
        "page = Sitting a (sitting_view ev l' person (drawn_questions (at_question_ext_ids r) (bank_of (lib_db l) tenant a)))"
        using assms a nl Some by (simp add: activity_page_of_def and_then_eq_Inr Let_def) blast
      then show ?thesis by (rule drawn [OF a nl Some])
    qed
  qed
qed

lemma lib_db_put [simp]: "lib_db (with_db f l) = f (lib_db l)" "question_text_of (with_db f l) = question_text_of l"
    "with_db f (with_db g l) = with_db (\<lambda>d. f (g d)) l"
  by (simp_all add: lib_db_def with_db_def)

lemma same_bank: "questions db' = questions db \<Longrightarrow> bank_of db' tenant a = bank_of db tenant a"
  by (simp add: bank_of_def)

text \<open>C34. Opening a test again, as long as it stays open, shows the same questions in the same order with the options in the
  same order, and changes nothing: a reload neither draws a new paper nor moves an option under an answer.\<close>

theorem reload_shows_the_same_paper:
  assumes first: "activity_page_of ev l now tenant person i = Inr (l1, page)"
    and again: "activity_page_of ev l1 now' tenant person i = Inr (l2, page')"
  shows "l2 = l1 \<and> page' = page"
  using first
proof (cases rule: page_cases)
  case (lab a)
  show ?thesis using again by (cases rule: page_cases) (use lab in auto)
next
  case (whole a)
  show ?thesis using again by (cases rule: page_cases) (use whole in auto)
next
  case (drawn a k db1 r)
  note o = open_rows_opened [OF drawn(4)]
  have db: "lib_db l1 = db1" by (simp add: drawn(5))
  have a: "activity_in (lib_db l1) tenant i = Some a" using drawn(1) by (simp add: activity_in_def db o)
  show ?thesis using again
  proof (cases rule: page_cases)
    case d2: (drawn a' k' db2 r')
    have "a' = a" "k' = k" using a d2(1,3) drawn(3) by auto
    then have "db2 = db1 \<and> r' = r" using d2(4) o(1) unfolding db by (simp add: open_or_create_attempt_def)
    then show ?thesis
      using d2(5,6) drawn(5,6) \<open>a' = a\<close> same_bank [OF o(2), of tenant a] by (simp add: db)
  qed (use a drawn in auto)
qed

section \<open>Grading\<close>

lemma graded_items:
  assumes "submit_activity fm rd day db now tenant person a ans only = Inr (db', Some sc)"
  shows "\<exists>items. sc_per_item sc = Items items
    \<and> map it_id items = (case act_bank a of None \<Rightarrow> [] | Some b \<Rightarrow> map gq_ext_id (questions_for db tenant b only))
    \<and> (items = [] \<longrightarrow> \<not> sc_passed sc)"
proof -
  define qs where "qs = (case act_bank a of None \<Rightarrow> [] | Some b \<Rightarrow> questions_for db tenant b only)"
  obtain db1 sub where i: "insert_submission day db now tenant person a ans = (db1, sub)" by fastforce
  obtain g where g: "grade_submission fm rd ans qs (act_pass_threshold a) = Inr g" and sc': "snd (insert_score day db1 now a sub g) = sc"
    using assms unfolding submit_activity_def i qs_def [symmetric]
    by (auto simp: and_then_eq_Inr ensure_def Let_def split_beta split: option.splits if_splits)
  obtain db2 where sc: "insert_score day db1 now a sub g = (db2, sc)" using sc' by (metis prod.collapse)
  have items: "sc_per_item sc = Items (gr_per_item g)" "sc_passed sc = grade_result.gr_passed g"
    using sc by (auto simp: insert_score_def Let_def)
  note parts = grade_submission_parts [OF g]
  have "map it_id (gr_per_item g) = map gq_ext_id qs"
    using parts(1) by (induction rule: list_all2_induct) (auto simp: grade_item_fields(1))
  moreover have "\<not> grade_result.gr_passed g" if "gr_per_item g = []"
    using parts that by auto
  ultimately show ?thesis using items by (auto simp: qs_def split: option.splits)
qed

lemma bank_ids:
  "(case act_bank a of None \<Rightarrow> [] | Some b \<Rightarrow> map gq_ext_id (questions_for db tenant b None)) = map eq_ext_id (bank_of db tenant a)"
  "(case act_bank a of None \<Rightarrow> [] | Some b \<Rightarrow> map gq_ext_id (questions_for db tenant b (Some ids)))
     = map eq_ext_id (filter (\<lambda>q. eq_ext_id q \<in> set ids) (bank_of db tenant a))"
  by (cases "act_bank a"; simp add: questions_for_def bank_rows_def bank_of_def question_view_def comp_def Let_def)+

lemma close_keeps:
  "close_open_attempt db now t p a = (db', r) \<Longrightarrow> questions db' = questions db \<and> map_option at_question_ext_ids r
     = map_option at_question_ext_ids (open_attempt db t p a)"
  by (auto simp: close_open_attempt_def split: option.splits)

lemma graded_page:
  "(case sc of None \<Rightarrow> Awaits_Grading | Some s \<Rightarrow> Graded (f s)) = Graded v \<longleftrightarrow> (\<exists>s. sc = Some s \<and> v = f s)"
  by (auto split: option.splits)

lemma result_score: "v = result_view_of l tenant person a s \<Longrightarrow> rv_score v = s" "rv_score (result_view_of l tenant person a s) = s"
  by (simp_all add: result_view_of_def Let_def)

lemma submit_page_items:
  assumes "submit_page_of ev l now tenant person i form = Inr (l', Graded v)"
  obtains a items where "activity_in (lib_db l) tenant i = Some a" "sc_per_item (rv_score v) = Items items"
    "map it_id items = map eq_ext_id (filter (\<lambda>q. act_question_count a \<noteq> None \<longrightarrow> eq_ext_id q \<in>
        set (case open_attempt (lib_db l) tenant person (act_id a) of None \<Rightarrow> [] | Some r \<Rightarrow> at_question_ext_ids r)) (bank_of (lib_db l) tenant a))"
    "items = [] \<Longrightarrow> \<not> sc_passed (rv_score v)"
proof -
  from assms obtain a where a: "activity_in (lib_db l) tenant i = Some a"
    by (auto simp: submit_page_of_def missing_def split: option.splits)
  define db1 where "db1 = (if act_question_count a = None then lib_db l else fst (close_open_attempt (lib_db l) now tenant person (act_id a)))"
  define only where "only = (if act_question_count a = None then None
      else Some (case snd (close_open_attempt (lib_db l) now tenant person (act_id a)) of None \<Rightarrow> [] | Some x \<Rightarrow> at_question_ext_ids x))"
  obtain ans db2 sc where s: "submit_activity (xe_fullmatch (le_exam ev)) (xe_render (le_exam ev)) (le_day ev) db1 now tenant person a ans only
      = Inr (db2, Some sc)" and v: "rv_score v = sc"
  proof (cases "act_question_count a")
    case None
    then have "\<exists>ans d sc. submit_activity (xe_fullmatch (le_exam ev)) (xe_render (le_exam ev)) (le_day ev) (lib_db l) now tenant person a ans None
      = Inr (d, Some sc) \<and> rv_score v = sc"
      using assms a by (simp add: submit_page_of_def and_then_eq_Inr Let_def split_beta graded_page)
        (elim exE conjE, hypsubst, simp only: result_score, intro exI, assumption)
    then show ?thesis using None that unfolding db1_def only_def by auto
  next
    case (Some k)
    then have "\<exists>ans d sc. submit_activity (xe_fullmatch (le_exam ev)) (xe_render (le_exam ev)) (le_day ev)
        (fst (close_open_attempt (lib_db l) now tenant person (act_id a))) now tenant person a ans
        (Some (case snd (close_open_attempt (lib_db l) now tenant person (act_id a)) of None \<Rightarrow> [] | Some x \<Rightarrow> at_question_ext_ids x))
      = Inr (d, Some sc) \<and> rv_score v = sc"
      using assms a by (simp add: submit_page_of_def and_then_eq_Inr Let_def split_beta graded_page)
        (elim exE conjE, hypsubst, simp only: result_score, intro exI, assumption)
    then show ?thesis using Some that unfolding db1_def only_def by auto
  qed
  obtain items where it: "sc_per_item sc = Items items" "items = [] \<longrightarrow> \<not> sc_passed sc"
    "map it_id items = (case act_bank a of None \<Rightarrow> [] | Some b \<Rightarrow> map gq_ext_id (questions_for db1 tenant b only))"
    using graded_items [OF s] by blast
  have bank: "bank_of db1 tenant a = bank_of (lib_db l) tenant a"
  proof (rule same_bank)
    show "questions db1 = questions (lib_db l)"
      unfolding db1_def
      using close_keeps [of "lib_db l" now tenant person "act_id a", OF prod.collapse [symmetric]] by simp
  qed
  have ids: "(case snd (close_open_attempt (lib_db l) now tenant person (act_id a)) of None \<Rightarrow> [] | Some x \<Rightarrow> at_question_ext_ids x)
      = (case open_attempt (lib_db l) tenant person (act_id a) of None \<Rightarrow> [] | Some r \<Rightarrow> at_question_ext_ids r)"
    by (auto simp: close_open_attempt_def split: option.splits)
  show ?thesis
  proof (rule that [OF a])
    show "sc_per_item (rv_score v) = Items items" "items = [] \<Longrightarrow> \<not> sc_passed (rv_score v)" using it v by auto
    show "map it_id items = map eq_ext_id (filter (\<lambda>q. act_question_count a \<noteq> None \<longrightarrow> eq_ext_id q \<in>
        set (case open_attempt (lib_db l) tenant person (act_id a) of None \<Rightarrow> [] | Some r \<Rightarrow> at_question_ext_ids r)) (bank_of (lib_db l) tenant a))"
      using it(3) bank_ids [where a = a and db = db1 and tenant = tenant] bank unfolding only_def ids by (auto split: if_splits)
  qed
qed

text \<open>C16. What a test is graded on, when the page is posted at any later time while the activity row and its bank are as they
  were shown (other learners, and this learner's other pages, may have changed anything else). A whole-bank test is graded on
  exactly the shown questions, each once, whatever is posted; so is a drawn test as long as the attempt opened for the page is
  still the open one. A drawn test for which no attempt is open any more, the second post of the same page, is graded on no
  question at all and does not pass.\<close>

theorem graded_on_the_shown_paper:
  assumes shown: "activity_page_of ev l now tenant person i = Inr (l1, Sitting a paper)"
    and kept: "activity_in (lib_db m) tenant i = Some a" "bank_of (lib_db m) tenant a = bank_of (lib_db l1) tenant a"
    and posted: "submit_page_of ev m now' tenant person i form = Inr (l2, Graded v)"
  shows "\<exists>items. sc_per_item (rv_score v) = Items items
    \<and> (act_question_count a = None \<or> open_attempt (lib_db m) tenant person i = open_attempt (lib_db l1) tenant person i
       \<longrightarrow> mset (map it_id items) = mset (map qv_ext_id paper))
    \<and> (act_question_count a \<noteq> None \<and> open_attempt (lib_db m) tenant person i = None
       \<longrightarrow> items = [] \<and> \<not> sc_passed (rv_score v))"
proof -
  obtain a' items where s: "activity_in (lib_db m) tenant i = Some a'" "sc_per_item (rv_score v) = Items items"
    "map it_id items = map eq_ext_id (filter (\<lambda>q. act_question_count a' \<noteq> None \<longrightarrow> eq_ext_id q \<in>
        set (case open_attempt (lib_db m) tenant person (act_id a') of None \<Rightarrow> [] | Some r \<Rightarrow> at_question_ext_ids r)) (bank_of (lib_db m) tenant a'))"
    "items = [] \<longrightarrow> \<not> sc_passed (rv_score v)"
    using submit_page_items [OF posted] by metis
  have a': "a' = a" "act_id a = i" using s(1) kept(1) by (auto simp: activity_in_def dest: find_Some_in)
  have closed: "act_question_count a \<noteq> None \<and> open_attempt (lib_db m) tenant person i = None \<longrightarrow> items = []"
    using s(3) a' by auto
  have ids: "map qv_ext_id (sitting_view ev m person qs) = map eq_ext_id qs" for m qs
    by (simp add: sitting_view_def)
  have "act_question_count a = None \<or> open_attempt (lib_db m) tenant person i = open_attempt (lib_db l1) tenant person i
      \<longrightarrow> mset (map it_id items) = mset (map qv_ext_id paper)"
    using shown
  proof (cases rule: page_cases)
    case (whole b)
    then have "map it_id items = map qv_ext_id paper" using a' kept(2) s(3) by (simp add: ids)
    then show ?thesis by metis
  next
    case (drawn b k db1 r)
    note o = open_rows_opened [OF drawn(4)]
    have db: "lib_db l1 = db1" and b: "b = a" using drawn(5,6) by simp_all
    have paper: "paper = sitting_view ev l1 person (drawn_questions (at_question_ext_ids r) (bank_of (lib_db l) tenant a))"
      using drawn(6) by simp
    have "mset (map qv_ext_id paper)
        = mset (map eq_ext_id (filter (\<lambda>q. eq_ext_id q \<in> set (at_question_ext_ids r)) (bank_of (lib_db l) tenant a)))"
      unfolding paper ids by (simp add: drawn_questions_def)
    moreover have "map it_id items = map eq_ext_id (filter (\<lambda>q. eq_ext_id q \<in> set (at_question_ext_ids r)) (bank_of (lib_db l) tenant a))"
      if "open_attempt (lib_db m) tenant person i = open_attempt (lib_db l1) tenant person i"
      using that s(3) drawn(3) o(1) same_bank [OF o(2)] a' b kept(2) by (simp add: db)
    moreover have "act_question_count a \<noteq> None" using drawn(3) b by simp
    ultimately show ?thesis by metis
  qed simp
  with s(2,4) closed show ?thesis by blast
qed

text \<open>
  A submission of a drawn test for which no paper is open, the second click of a double submission, is accepted:
  it is graded on no question at all, fails and, like any submission, uses an attempt.
\<close>

theorem submission_without_a_paper_fails:
  assumes "submit_page_of ev l now tenant person i form = Inr (l', Graded v)" "activity_in (lib_db l) tenant i = Some a"
    "act_question_count a = Some k" "open_attempt (lib_db l) tenant person (act_id a) = None"
  shows "sc_per_item (rv_score v) = Items [] \<and> \<not> sc_passed (rv_score v)"
  using assms(1)
proof (rule submit_page_items)
  fix b items
  assume "activity_in (lib_db l) tenant i = Some b" and s: "sc_per_item (rv_score v) = Items items"
    "map it_id items = map eq_ext_id (filter (\<lambda>q. act_question_count b \<noteq> None \<longrightarrow> eq_ext_id q \<in>
        set (case open_attempt (lib_db l) tenant person (act_id b) of None \<Rightarrow> [] | Some r \<Rightarrow> at_question_ext_ids r)) (bank_of (lib_db l) tenant b))"
    "items = [] \<Longrightarrow> \<not> sc_passed (rv_score v)"
  then have "items = []" using assms(2-4) by simp
  with s show ?thesis by simp
qed

section \<open>Subtopic slugs\<close>

fun tried_slugs :: "string \<Rightarrow> nat \<Rightarrow> nat \<Rightarrow> string list" where
  "tried_slugs base k 0 = []"
| "tried_slugs base k (Suc n) = (base @ ''-'' @ show_nat k) # tried_slugs base (Suc k) n"

lemma tried_slugs_set: "set (tried_slugs base k n) = (\<lambda>i. base @ ''-'' @ show_nat i) ` {k ..< k + n}"
proof (induction n arbitrary: k)
  case (Suc n)
  have "{k ..< k + Suc n} = insert k {Suc k ..< Suc k + n}" by auto
  then show ?case by (simp only: tried_slugs.simps list.set Suc.IH image_insert)
qed simp

lemma tried_slugs_card: "card (insert base (set (tried_slugs base k n))) = Suc n"
proof -
  have "inj_on (\<lambda>i. base @ ''-'' @ show_nat i) {k ..< k + n}"
    using show_nat_injective by (auto simp: inj_on_def)
  then show ?thesis unfolding tried_slugs_set by (subst card_insert_disjoint) (auto simp: card_image)
qed

lemma no_free_slug:
  "free_heading_slug n base used k slug = None \<Longrightarrow> insert slug (set (tried_slugs base k n)) \<subseteq> set used"
  by (induction n base used k slug rule: free_heading_slug.induct) (auto split: if_splits)

lemma free_slug_fresh: "free_heading_slug n base used k slug = Some s \<Longrightarrow> s \<notin> set used"
  by (induction n base used k slug rule: free_heading_slug.induct) (auto split: if_splits)

lemma free_slug_found: "free_heading_slug (length used) base used k base \<noteq> None"
proof
  assume "free_heading_slug (length used) base used k base = None"
  from card_mono [OF _ no_free_slug [OF this]] have "Suc (length used) \<le> card (set used)" by (simp add: tried_slugs_card)
  then show False using card_length [of used] by simp
qed

definition own_heading :: "string \<times> string \<Rightarrow> bool" where
  "own_heading h = (py_lower (slugify_heading (snd h)) \<notin> set GROUPED_INTRO_HEADINGS)"

lemma add_subtopic_step:
  "map (\<lambda>s. (sb_level s, sb_title s)) (add_subtopic h out) = map (\<lambda>s. (sb_level s, sb_title s)) out @ filter own_heading [h]"
  "distinct (map sb_slug out) \<Longrightarrow> distinct (map sb_slug (add_subtopic h out))"
  using free_slug_found [of "map sb_slug out" "slugify_heading (snd h)" 2]
    free_slug_fresh [of "length out" "slugify_heading (snd h)" "map sb_slug out" 2]
  by (auto simp: add_subtopic_def own_heading_def Let_def split_beta split: option.splits)

text \<open>Every heading of a chapter, but the two grouped introductions, is one subtopic, and no two of them share a slug: the counter
  always finds a free one within as many steps as slugs are used.\<close>

theorem subtopics_are_the_headings:
  "map (\<lambda>s. (sb_level s, sb_title s)) (chapter_subtopics ev body) = filter own_heading (headings_of (le_feed ev body))"
  "distinct (map sb_slug (chapter_subtopics ev body))"
proof -
  have "map (\<lambda>s. (sb_level s, sb_title s)) (fold add_subtopic hs out) = map (\<lambda>s. (sb_level s, sb_title s)) out @ filter own_heading hs" for hs out
    by (induction hs arbitrary: out) (simp_all add: add_subtopic_step)
  then show "map (\<lambda>s. (sb_level s, sb_title s)) (chapter_subtopics ev body) = filter own_heading (headings_of (le_feed ev body))"
    by (simp add: chapter_subtopics_def)
  have "distinct (map sb_slug out) \<Longrightarrow> distinct (map sb_slug (fold add_subtopic hs out))" for hs out
    by (induction hs arbitrary: out) (simp_all add: add_subtopic_step)
  then show "distinct (map sb_slug (chapter_subtopics ev body))" by (simp add: chapter_subtopics_def)
qed

definition short_reads :: "library \<Rightarrow> bool" where
  "short_reads l = list_all (\<lambda>r. length (st_slug r) \<le> 64) (subtopic_reads l)"

lemma mark_complete_short: "short_reads l \<Longrightarrow> short_reads (fst (mark_complete l tenant person chapter st))"
  by (auto simp: mark_complete_def short_reads_def Let_def)

lemma short_ticks: "short_reads l \<Longrightarrow> s \<in> completed_slugs l tenant person chapter \<Longrightarrow> length s \<le> 64"
  by (auto simp: short_reads_def completed_slugs_def list_all_iff)

text \<open>A subtopic is stored under at most 64 characters, but a repeated heading whose slug already fills them gets a longer one:
  a chapter with such a subtopic can never be completed by reading it.\<close>

theorem long_subtopic_never_completes:
  assumes "subtopic_complete ev l now tenant person slug n st = Inr (l', ticked, whole)"
    and "opened_chapter l now tenant person slug n = Inr (c, h)"
    and "s \<in> set (chapter_subtopics ev (cp_body_html h))" "64 < length (sb_slug s)" "short_reads l"
  shows "\<not> whole \<and> short_reads l'"
proof -
  from assms(1,2) have l': "l' = fst (mark_complete l tenant person (cp_id h) st)"
    and whole: "whole \<longleftrightarrow> sb_slug ` set (chapter_subtopics ev (cp_body_html h)) \<subseteq> completed_slugs l' tenant person (cp_id h)"
    by (auto simp: subtopic_complete_def missing_def Let_def and_then_def split: if_splits)
  have "short_reads l'" using mark_complete_short [OF assms(5)] by (simp add: l')
  with whole short_ticks assms(3,4) show ?thesis by (meson image_subset_iff leD)
qed

lemma long_heading: "slugify_heading (replicate 70 CHR ''a'') = replicate 64 CHR ''a''"
  by code_simp

lemma long_slug_kept: "py_lower (replicate 64 CHR ''a'') \<notin> set GROUPED_INTRO_HEADINGS"
  by code_simp

lemma second_number: "show_nat 2 = ''2''" by code_simp

lemma long_subtopic_exists:
  "map (\<lambda>s. length (sb_slug s)) (fold add_subtopic [(''h2'', replicate 70 CHR ''a''), (''h2'', replicate 70 CHR ''a'')] []) = [64, 66]"
  by (simp add: add_subtopic_def long_heading long_slug_kept second_number Let_def del: replicate.simps)

section \<open>Witnesses\<close>

text \<open>One learner in an open course with a test that draws one of two questions.\<close>

definition desk_question :: "string \<Rightarrow> string \<Rightarrow> question_row" where
  "desk_question e correct =
     \<lparr>eq_ext_id = e, eq_category = None, eq_options = JArr [JStr ''a'', JStr ''b''],
      qu_tenant = 11, qu_bank = 5, qu_type = ''single'', qu_correct = JStr correct, qu_weight = 1\<rparr>"

definition desk_activity :: activity_row where
  "desk_activity = \<lparr>act_id = 20, act_tenant = 11, act_course = 2, act_chapter = Some 1,
     act_type = ''mcq_test'', act_bank = Some 5, act_title = ''Test'', act_pass_threshold = 1 / 2,
     act_max_attempts = Some 2, act_mode = ''graded'', act_grading = ''auto'', act_weight = 1,
     act_question_count = Some 1\<rparr>"

definition desk_library :: library where
  "desk_library = hall_library\<lparr>campus := (campus hall_library)\<lparr>academy := hall_academy\<lparr>
     courses := [\<lparr>co_id = 2, co_tenant = 11, co_title = ''A'', co_status = ''published''\<rparr>],
     offerings := [\<lparr>of_id = 33, of_tenant = 11, of_cohort = 4, of_course = 2, of_status = ''active'',
                    of_starts_at = None, of_ends_at = None\<rparr>],
     questions := [desk_question ''q1'' ''a'', desk_question ''q2'' ''b''],
     activities := [desk_activity]\<rparr>\<rparr>\<rparr>"

definition desk_env :: learn_env where
  "desk_env = \<lparr>le_exam = \<lparr>xe_hash = id, xe_hex = id, xe_fullmatch = (\<lambda>_ _. None), xe_render = (\<lambda>_. ''''), xe_quote = id,
       xe_iso = (\<lambda>_. '''')\<rparr>, le_day = id, le_randbelow = (\<lambda>_ _ _. 0), le_feed = (\<lambda>_. [])\<rparr>"

definition desk_opened :: "(library \<times> activity_page) result" where
  "desk_opened = activity_page_of desk_env desk_library 50 11 3 20"

definition desk_after :: library where
  "desk_after = (case desk_opened of Inl _ \<Rightarrow> desk_library | Inr x \<Rightarrow> fst x)"

lemma desk_opens:
  "(case desk_opened of Inr (l, Sitting a p) \<Rightarrow> True | _ \<Rightarrow> False)"
  "(case activity_page_of desk_env desk_after 60 11 3 20 of Inr (l, Sitting a p) \<Rightarrow> True | _ \<Rightarrow> False)"
  by code_simp+

lemma desk_open:
  obtains paper where "desk_opened = Inr (desk_after, Sitting desk_activity paper)"
proof -
  from desk_opens(1) obtain l a p where o: "desk_opened = Inr (l, Sitting a p)"
    by (auto split: sum.splits prod.splits activity_page.splits)
  have "desk_after = l" unfolding desk_after_def o by simp
  with o have d: "desk_opened = Inr (desk_after, Sitting a p)" by metis
  have "activity_in (lib_db desk_library) 11 20 = Some desk_activity" by code_simp
  with page_cases [OF d [unfolded desk_opened_def]] have "a = desk_activity" by fastforce
  with d that show thesis by blast
qed

theorem reload_shows_the_same_paper_witness:
  "\<exists>page. activity_page_of desk_env desk_after 60 11 3 20 = Inr (desk_after, page) \<and> desk_opened = Inr (desk_after, page)"
proof -
  obtain paper where d: "desk_opened = Inr (desk_after, Sitting desk_activity paper)" by (rule desk_open)
  from desk_opens(2) obtain l2 page where a: "activity_page_of desk_env desk_after 60 11 3 20 = Inr (l2, page)"
    by (auto split: sum.splits prod.splits)
  from reload_shows_the_same_paper [OF d [unfolded desk_opened_def] a] a d show ?thesis by auto
qed

definition desk_form :: "string \<Rightarrow> json list" where
  "desk_form = (\<lambda>_. [JStr ''a''])"

definition desk_closed :: "academy_db \<times> attempt_row option" where
  "desk_closed = close_open_attempt (lib_db desk_after) 60 11 3 20"

lemma desk_guards:
  "require_course_open (lib_db desk_after) 11 3 2 60 = Inr ()"
  "require_activity_submittable (lib_db desk_after) 11 3 2 20 60 = Inr ()"
  "activity_in (lib_db desk_after) 11 20 = Some desk_activity"
  "(case find (\<lambda>p. pe_tenant p = 11 \<and> pe_id p = 3) (people (fst desk_closed)) of None \<Rightarrow> False | Some _ \<Rightarrow> True)"
  "\<not> exhausted (for_learner (fst desk_closed) 11 3 desk_activity (int (attempts_used (fst desk_closed) 11 3 20)))"
  "activity_exists (fst desk_closed) 11 20"
  by code_simp+

definition desk_paper :: "string list" where
  "desk_paper = (case snd desk_closed of None \<Rightarrow> [] | Some x \<Rightarrow> at_question_ext_ids x)"

definition desk_questions :: "grade_question list" where
  "desk_questions = questions_for (fst desk_closed) 11 5 (Some desk_paper)"

definition desk_answers :: answers where
  "desk_answers = map (\<lambda>k. (k, desk_form k))
     (remdups (map eq_ext_id (filter (\<lambda>q. eq_ext_id q \<in> set desk_paper) (bank_of (fst desk_closed) 11 desk_activity))))"

lemma desk_grades:
  "(case grade_submission (\<lambda>_ _. None) (\<lambda>_. '''') desk_answers desk_questions (1 / 2) of Inr _ \<Rightarrow> True | _ \<Rightarrow> False)"
  by code_simp

lemma desk_activity_simps [simp]:
  "act_id desk_activity = 20" "act_course desk_activity = 2" "act_type desk_activity = ''mcq_test''" "act_bank desk_activity = Some 5"
  "act_question_count desk_activity = Some 1" "act_pass_threshold desk_activity = 1 / 2" "act_grading desk_activity = ''auto''"
  by (simp_all add: desk_activity_def)

lemma desk_submits:
  "\<exists>x. submit_activity (\<lambda>_ _. None) (\<lambda>_. '''') id (fst desk_closed) 60 11 3 desk_activity desk_answers (Some desk_paper) = Inr x
     \<and> snd x \<noteq> None"
proof -
  obtain g where "grade_submission (\<lambda>_ _. None) (\<lambda>_. '''') desk_answers desk_questions (1 / 2) = Inr g"
    using desk_grades by (auto split: sum.splits)
  moreover obtain p where "find (\<lambda>p. pe_tenant p = 11 \<and> pe_id p = 3) (people (fst desk_closed)) = Some p"
    using desk_guards(4) by (auto split: option.splits)
  ultimately show ?thesis
    using desk_guards(5,6) by (simp add: submit_activity_def desk_questions_def [symmetric] Let_def split_beta)
qed

theorem graded_on_the_shown_paper_witness:
  "\<exists>paper l2 v items. desk_opened = Inr (desk_after, Sitting desk_activity paper)
     \<and> submit_page_of desk_env desk_after 60 11 3 20 desk_form = Inr (l2, Graded v)
     \<and> sc_per_item (rv_score v) = Items items \<and> mset (map it_id items) = mset (map qv_ext_id paper)"
proof -
  obtain paper where d: "desk_opened = Inr (desk_after, Sitting desk_activity paper)" by (rule desk_open)
  obtain db2 sc where s: "submit_activity (\<lambda>_ _. None) (\<lambda>_. '''') id (fst desk_closed) 60 11 3 desk_activity desk_answers (Some desk_paper)
      = Inr (db2, Some sc)" using desk_submits by auto
  have env: "xe_fullmatch (le_exam desk_env) = (\<lambda>_ _. None)" "xe_render (le_exam desk_env) = (\<lambda>_. '''')" "le_day desk_env = id"
    by (simp_all add: desk_env_def)
  obtain l2 v where v: "submit_page_of desk_env desk_after 60 11 3 20 desk_form = Inr (l2, Graded v)"
    using desk_guards(1-3) s
    by (simp add: submit_page_of_def desk_closed_def [symmetric] desk_paper_def [symmetric] desk_answers_def [symmetric] Let_def split_beta env)
  from graded_on_the_shown_paper [OF d [unfolded desk_opened_def] desk_guards(3) refl v] d v show ?thesis by blast
qed

end
