(* ===== verification/Instructor_Web.thy ===== *)
theory Instructor_Web
  imports Learner_Web Facilitators
begin

text \<open>
  The instructor's portal (\<open>web/instructor.py\<close>, with \<open>services/dashboards.py\<close>, \<open>services/analytics.py\<close>, the grading queue of
  \<open>services/assessment.py\<close> and \<open>web/pagination.py\<close>): who may see and change what, and every handler that writes. Form fields are taken as
  parsed; an error shown inline answers 200, so what was written before it is committed: such a handler returns the store with
  the message. The roster routes of \<open>Rosters\<close> are not repeated.
\<close>

section \<open>Guards\<close>

definition access_or_403 :: "academy_db \<Rightarrow> uuid \<Rightarrow> uuid \<Rightarrow> facilitator_access result" where
  "access_or_403 db tenant person =
     (let a = facilitator_access_of db tenant person in ensure (can_teach a) HTTPForbidden (Inr a))"

definition global_staff_or_403 :: "academy_db \<Rightarrow> uuid \<Rightarrow> uuid \<Rightarrow> facilitator_access result" where
  "global_staff_or_403 db tenant person =
     and_then (access_or_403 db tenant person) (\<lambda>a. ensure (has_global_staff_access a) HTTPForbidden (Inr a))"

definition cohort_access_or_403 :: "academy_db \<Rightarrow> uuid \<Rightarrow> uuid \<Rightarrow> uuid \<Rightarrow> facilitator_access result" where
  "cohort_access_or_403 db tenant person cohort =
     and_then (access_or_403 db tenant person) (\<lambda>a. ensure (allows_cohort a cohort) HTTPForbidden (Inr a))"

text \<open>The dependency \<open>require_web_role(slug)\<close>, for the signed-in person.\<close>

definition role_guard :: "academy_db \<Rightarrow> uuid \<Rightarrow> string \<Rightarrow> uuid \<Rightarrow> unit result" where
  "role_guard db tenant slug person = ensure ({slug, ''admin''} \<inter> role_slugs db tenant person \<noteq> {}) HTTPForbidden (Inr ())"

definition admin_guard :: "academy_db \<Rightarrow> uuid \<Rightarrow> uuid \<Rightarrow> unit result" where
  "admin_guard db tenant person = ensure (is_admin db tenant person) HTTPForbidden (Inr ())"

definition cohort_workspace :: "uuid \<Rightarrow> string" where
  "cohort_workspace cohort = ''/instructor/cohorts/'' @ uuid_str cohort"

definition cohort_action_target :: "uuid \<Rightarrow> string \<Rightarrow> string" where
  "cohort_action_target cohort return_to =
     (if return_to = cohort_workspace cohort then cohort_workspace cohort else ''/instructor/cohorts'')"

definition courses_of_offerings :: "academy_db \<Rightarrow> uuid \<Rightarrow> uuid set \<Rightarrow> uuid set" where
  "courses_of_offerings db tenant ids = of_course ` set (filter (\<lambda>o'. of_tenant o' = tenant \<and> of_id o' \<in> ids) (offerings db))"

definition assigned_course_ids :: "academy_db \<Rightarrow> uuid \<Rightarrow> uuid \<Rightarrow> uuid set result" where
  "assigned_course_ids db tenant person =
     and_then (access_or_403 db tenant person) (\<lambda>a. Inr (courses_of_offerings db tenant (authorized_offering_ids db tenant a)))"

definition assessment_course_ids :: "academy_db \<Rightarrow> uuid \<Rightarrow> uuid \<Rightarrow> uuid set result" where
  "assessment_course_ids db tenant person =
     and_then (access_or_403 db tenant person) (\<lambda>a.
       Inr (if has_global_staff_access a then co_id ` set (filter (\<lambda>c. co_tenant c = tenant) (courses db))
            else courses_of_offerings db tenant (fa_cohort_offering_ids a)))"

text \<open>The active offerings of a course that an active student of their cohort studies under.\<close>

definition studied_offerings :: "academy_db \<Rightarrow> uuid \<Rightarrow> uuid \<Rightarrow> uuid \<Rightarrow> uuid set" where
  "studied_offerings db tenant course learner =
     set [of_id o'. e \<leftarrow> enrollments db, o' \<leftarrow> offerings db,
            of_tenant o' = en_tenant e \<and> of_cohort o' = en_cohort e \<and> en_tenant e = tenant \<and> en_role e = ''student''
            \<and> en_status e = ''active'' \<and> of_status o' = ''active'' \<and> of_course o' = course \<and> en_person e = learner]"

definition assessment_learners :: "academy_db \<Rightarrow> uuid \<Rightarrow> uuid \<Rightarrow> uuid \<Rightarrow> (uuid list option) result" where
  "assessment_learners db tenant person course =
     and_then (access_or_403 db tenant person) (\<lambda>a.
       if has_global_staff_access a then Inr None
       else let ids = authorized_offering_ids db tenant a
            in Inr (Some (filter (\<lambda>p. studied_offerings db tenant course p \<noteq> {} \<and> studied_offerings db tenant course p \<subseteq> ids)
                            (remdups (map en_person (enrollments db))))))"

definition in_scope :: "uuid list option \<Rightarrow> uuid \<Rightarrow> bool" where
  "in_scope allowed learner = (case allowed of None \<Rightarrow> True | Some ps \<Rightarrow> learner \<in> set ps)"

definition authorable_courses :: "academy_db \<Rightarrow> uuid \<Rightarrow> uuid \<Rightarrow> course_row list result" where
  "authorable_courses db tenant person =
     (let all = sort_key co_title (filter (\<lambda>c. co_tenant c = tenant) (courses db))
      in if is_admin db tenant person then Inr all
         else and_then (assigned_course_ids db tenant person) (\<lambda>ids. Inr (filter (\<lambda>c. co_id c \<in> ids) all)))"

definition authorable_course_or_404 :: "academy_db \<Rightarrow> uuid \<Rightarrow> uuid \<Rightarrow> uuid \<Rightarrow> course_row result" where
  "authorable_course_or_404 db tenant person course =
     (case find (\<lambda>c. co_tenant c = tenant \<and> co_id c = course) (courses db) of
        None \<Rightarrow> missing
      | Some c \<Rightarrow>
          if is_admin db tenant person then Inr c
          else and_then (assigned_course_ids db tenant person) (\<lambda>ids. ensure (co_id c \<in> ids) HTTPForbidden (Inr c)))"

section \<open>Cohorts\<close>

definition create_cohort :: "academy_db \<Rightarrow> uuid \<Rightarrow> uuid \<Rightarrow> string \<Rightarrow> academy_db result" where
  "create_cohort db tenant person name =
     and_then (role_guard db tenant ''instructor'' person) (\<lambda>_.
     and_then (global_staff_or_403 db tenant person) (\<lambda>_.
       Inr (db\<lparr>cohorts := cohorts db @ [\<lparr>ch_id = next_id db, ch_tenant = tenant, ch_name = name, ch_status = ''active'',
                                         ch_entrance_bank = None, ch_entrance_time_limit = None, ch_auto_accept_threshold = None\<rparr>],
               next_id := Suc (next_id db)\<rparr>)))"

definition person_key :: "person_row \<Rightarrow> string \<times> string \<times> string" where
  "person_key p = (pe_last_name p, pe_first_name p, pe_email p)"

definition roster_rows :: "academy_db \<Rightarrow> uuid \<Rightarrow> (enrollment_row \<times> person_row) list" where
  "roster_rows db tenant =
     sort_key (\<lambda>(e, p). person_key p)
       [(e, p). e \<leftarrow> enrollments db, p \<leftarrow> people db, pe_id p = en_person e \<and> pe_tenant p = en_tenant e \<and> en_tenant e = tenant]"

definition active_student :: "enrollment_row \<times> person_row \<Rightarrow> bool" where
  "active_student = (\<lambda>(e, p). en_status e = ''active'' \<and> en_role e = ''student'' \<and> pe_status p = ''active'')"

record facilitator_line =
  fl_nomination :: nomination_row
  fl_person :: person_row
  fl_offering :: "offering_row option"
  fl_course :: "course_row option"

definition nomination_lines :: "academy_db \<Rightarrow> uuid \<Rightarrow> (nomination_row \<Rightarrow> bool) \<Rightarrow> facilitator_line list" where
  "nomination_lines db tenant kept =
     sort_key (\<lambda>x. person_key (fl_person x))
       [\<lparr>fl_nomination = n, fl_person = p, fl_offering = joined_offering db n,
         fl_course = Option.bind (joined_offering db n) (\<lambda>o'. find (\<lambda>c. co_id c = of_course o' \<and> co_tenant c = of_tenant o') (courses db))\<rparr>.
          n \<leftarrow> nominations db, p \<leftarrow> people db, pe_id p = fn_person n \<and> pe_tenant p = fn_tenant n \<and> fn_tenant n = tenant \<and> kept n]"

definition touches_cohort :: "academy_db \<Rightarrow> nomination_row \<Rightarrow> uuid set \<Rightarrow> bool" where
  "touches_cohort db n ids =
     ((case fn_cohort n of None \<Rightarrow> False | Some c \<Rightarrow> c \<in> ids)
      \<or> (case joined_offering db n of None \<Rightarrow> False | Some o' \<Rightarrow> of_cohort o' \<in> ids))"

definition scope_cohort :: "facilitator_line \<Rightarrow> uuid option" where
  "scope_cohort x =
     (if fn_scope (fl_nomination x) = ''cohort'' then fn_cohort (fl_nomination x) else map_option of_cohort (fl_offering x))"

definition offering_pairs :: "academy_db \<Rightarrow> uuid \<Rightarrow> uuid \<Rightarrow> (offering_row \<times> course_row) list" where
  "offering_pairs db tenant cohort =
     sort_key (\<lambda>(o', c). co_title c)
       [(o', c). o' \<leftarrow> offerings db, c \<leftarrow> courses db,
          co_id c = of_course o' \<and> co_tenant c = of_tenant o' \<and> of_tenant o' = tenant \<and> of_cohort o' = cohort]"

type_synonym track_item = "cohort_track_row \<times> track_row \<times> course_row list \<times> uuid set"

record cohort_line =
  cw_cohort :: cohort_row
  cw_roster :: "(enrollment_row \<times> person_row) list"
  cw_active :: nat
  cw_facilitators :: "facilitator_line list"
  cw_offerings :: "(offering_row \<times> course_row) list"
  cw_tracks :: "track_item list"

record cohorts_view =
  cs_lines :: "cohort_line list"
  cs_candidates :: "person_row list"
  cs_courses :: "course_row list"
  cs_drafts :: nat
  cs_is_admin :: bool
  cs_can_manage :: bool

definition cohort_line_of ::
    "academy_db \<Rightarrow> uuid \<Rightarrow> uuid set \<Rightarrow> cohort_row \<Rightarrow> cohort_line result" where
  "cohort_line_of db tenant visible h =
     (let roster = filter (\<lambda>(e, p). en_cohort e = ch_id h) (roster_rows db tenant);
          lines = nomination_lines db tenant (\<lambda>n. fn_status n \<in> {''pending'', ''active''} \<and> touches_cohort db n visible)
      in and_then (list_cohort_tracks db tenant (ch_id h)) (\<lambda>ts.
           Inr \<lparr>cw_cohort = h, cw_roster = roster, cw_active = length (filter active_student roster),
                cw_facilitators = filter (\<lambda>x. scope_cohort x = Some (ch_id h)) lines,
                cw_offerings = filter (\<lambda>(o', c). of_status o' = ''active'') (offering_pairs db tenant (ch_id h)),
                cw_tracks = ts\<rparr>))"

definition cohorts_list :: "academy_db \<Rightarrow> uuid \<Rightarrow> uuid \<Rightarrow> cohorts_view result" where
  "cohorts_list db tenant person =
     and_then (access_or_403 db tenant person) (\<lambda>a.
       let visible = (if has_global_staff_access a then authorized_cohort_ids db tenant a else fa_cohort_ids a);
           rows = sort_key ch_name (filter (\<lambda>h. ch_tenant h = tenant \<and> ch_id h \<in> visible) (cohorts db))
       in and_then (each (cohort_line_of db tenant visible) rows) (\<lambda>lines.
            Inr \<lparr>cs_lines = lines,
                 cs_candidates = sort_key person_key (filter (\<lambda>p. pe_tenant p = tenant \<and> pe_status p = ''active'') (people db)),
                 cs_courses = sort_key co_title
                   (filter (\<lambda>c. co_tenant c = tenant \<and> co_status c \<in> {''published'', ''completed''}) (courses db)),
                 cs_drafts = count_rows (\<lambda>c. co_tenant c = tenant \<and> co_status c = ''draft'') (courses db),
                 cs_is_admin = fa_is_admin a, cs_can_manage = has_global_staff_access a\<rparr>))"

section \<open>Progress of a cohort\<close>

definition completion_of :: "academy_db \<Rightarrow> uuid \<Rightarrow> uuid \<Rightarrow> uuid \<Rightarrow> rat" where
  "completion_of db tenant person course =
     (case find (\<lambda>x. cc_tenant x = tenant \<and> cc_person x = person \<and> cc_course x = course) (rev (completions db)) of
        None \<Rightarrow> 0 | Some x \<Rightarrow> cc_pct x)"

definition mean_completion :: "academy_db \<Rightarrow> uuid \<Rightarrow> uuid \<Rightarrow> uuid list \<Rightarrow> rat" where
  "mean_completion db tenant person ids =
     (if ids = [] then 0 else sum_list (map (completion_of db tenant person) ids) / of_nat (length ids))"

fun latest :: "instant list \<Rightarrow> instant option" where
  "latest [] = None"
| "latest (t # ts) = Some (fold max ts t)"

definition last_scored :: "academy_db \<Rightarrow> uuid \<Rightarrow> uuid \<Rightarrow> uuid list \<Rightarrow> instant option" where
  "last_scored db tenant person ids =
     latest [sc_created_at sc. s \<leftarrow> submissions db, sc \<leftarrow> scores db, a \<leftarrow> activities db,
               sc_submission sc = sub_id s \<and> sc_tenant sc = sub_tenant s \<and> act_id a = sub_activity s \<and> act_tenant a = sub_tenant s
               \<and> sub_tenant s = tenant \<and> sub_person s = person \<and> act_course a \<in> set ids]"

definition falling_behind :: "rat \<Rightarrow> instant option \<Rightarrow> rat \<Rightarrow> instant \<Rightarrow> bool" where
  "falling_behind pct seen at_risk_pct stale_before =
     (pct < at_risk_pct \<and> (case seen of None \<Rightarrow> True | Some t \<Rightarrow> t < stale_before))"

record overview_line =
  vl_person :: uuid
  vl_pct :: rat
  vl_last :: "instant option"
  vl_at_risk :: bool

definition active_course_ids :: "academy_db \<Rightarrow> uuid \<Rightarrow> uuid \<Rightarrow> uuid list" where
  "active_course_ids db tenant cohort =
     map of_course (filter (\<lambda>o'. of_tenant o' = tenant \<and> of_cohort o' = cohort \<and> of_status o' = ''active'') (offerings db))"

definition overview_line_of :: "academy_db \<Rightarrow> uuid \<Rightarrow> uuid list \<Rightarrow> rat \<Rightarrow> instant \<Rightarrow> uuid \<Rightarrow> overview_line" where
  "overview_line_of db tenant ids at_risk_pct stale_before person =
     (let pct = mean_completion db tenant person ids; seen = last_scored db tenant person ids
      in \<lparr>vl_person = person, vl_pct = pct, vl_last = seen, vl_at_risk = falling_behind pct seen at_risk_pct stale_before\<rparr>)"

definition cohort_overview ::
    "academy_db \<Rightarrow> uuid \<Rightarrow> uuid \<Rightarrow> instant \<Rightarrow> rat \<Rightarrow> int \<Rightarrow> (cohort_row \<times> overview_line list) result" where
  "cohort_overview db tenant cohort now at_risk_pct stale_days =
     and_then (cohort_or_404 db tenant cohort) (\<lambda>h.
       let ids = active_course_ids db tenant cohort
       in Inr (h, map (\<lambda>p. overview_line_of db tenant ids at_risk_pct (now - 86400 * stale_days) (pe_id p))
                    (cohort_students db tenant cohort)))"

definition cohort_dashboard ::
    "academy_db \<Rightarrow> instant \<Rightarrow> uuid \<Rightarrow> uuid \<Rightarrow> uuid \<Rightarrow> (cohort_row \<times> overview_line list) result" where
  "cohort_dashboard db now tenant person cohort =
     and_then (cohort_access_or_403 db tenant person cohort) (\<lambda>_. cohort_overview db tenant cohort now (1 / 2) 14)"

section \<open>The workspace of a cohort\<close>

record student_line =
  sl_person :: person_row
  sl_enrollment :: enrollment_row
  sl_track :: "string option"
  sl_pct :: rat
  sl_last :: "instant option"
  sl_at_risk :: bool

record course_block =
  cb_offering :: offering_row
  cb_course :: course_row
  cb_chapters :: "(chapter_row \<times> activity_row list) list"
  cb_standalone :: "activity_row list"
  cb_tracks :: "string list"

record page_numbers =
  pg_total :: nat
  pg_limit :: nat
  pg_offset :: nat
  pg_current :: nat
  pg_pages :: nat
  pg_items :: "nat option list"
  pg_start :: nat
  pg_end :: nat
  pg_has_prev :: bool
  pg_has_next :: bool

text \<open>The page numbers to show: \<open>None\<close> stands for a gap.\<close>

fun with_gaps :: "nat \<Rightarrow> nat list \<Rightarrow> nat option list" where
  "with_gaps previous [] = []"
| "with_gaps previous (p # ps) =
     (if previous \<noteq> 0 \<and> p - previous > 1 then [None] else []) @ Some p # with_gaps p ps"

definition pagination_context :: "nat \<Rightarrow> nat \<Rightarrow> nat \<Rightarrow> page_numbers" where
  "pagination_context rows limit skip =
     (let pages = max 1 ((rows + limit - 1) div limit); current = min pages (skip div limit + 1);
          wanted = sort (remdups (1 # pages # [max 1 (current - 1) ..< min pages (current + 1) + 1]))
      in \<lparr>pg_total = rows, pg_limit = limit, pg_offset = skip, pg_current = current, pg_pages = pages,
          pg_items = with_gaps 0 wanted, pg_start = (if rows = 0 then 0 else skip + 1), pg_end = min (skip + limit) rows,
          pg_has_prev = (skip > 0), pg_has_next = (skip + limit < rows)\<rparr>)"

record workspace_view =
  wv_cohort :: cohort_row
  wv_students :: "student_line list"
  wv_total :: nat
  wv_active :: nat
  wv_at_risk :: nat
  wv_average :: rat
  wv_facilitators :: "facilitator_line list"
  wv_courses :: "course_block list"
  wv_tracks :: "track_item list"
  wv_pages :: page_numbers

definition is_current :: "enrollment_row \<times> person_row \<Rightarrow> bool" where
  "is_current = (\<lambda>(e, p). en_status e = ''active'' \<and> pe_status p = ''active'')"

definition student_line_of ::
    "academy_db \<Rightarrow> uuid \<Rightarrow> uuid list \<Rightarrow> (uuid \<times> string) list \<Rightarrow> instant \<Rightarrow> enrollment_row \<times> person_row \<Rightarrow> student_line" where
  "student_line_of db tenant ids track_names stale_before = (\<lambda>(e, p).
     let pct = mean_completion db tenant (pe_id p) ids; seen = last_scored db tenant (pe_id p) ids
     in \<lparr>sl_person = p, sl_enrollment = e, sl_track = Option.bind (en_track e) (map_of track_names), sl_pct = pct, sl_last = seen,
         sl_at_risk = (is_current (e, p) \<and> falling_behind pct seen (1 / 2) stale_before)\<rparr>)"

definition cohort_lines :: "academy_db \<Rightarrow> uuid \<Rightarrow> uuid \<Rightarrow> (uuid \<times> string) list \<Rightarrow> instant \<Rightarrow> student_line list" where
  "cohort_lines db tenant cohort track_names now =
     map (student_line_of db tenant (active_course_ids db tenant cohort) track_names (now - 86400 * 14))
       (filter (\<lambda>(e, p). en_cohort e = cohort \<and> en_role e = ''student'') (roster_rows db tenant))"

definition course_block_of :: "library \<Rightarrow> uuid \<Rightarrow> track_item list \<Rightarrow> offering_row \<times> course_row \<Rightarrow> course_block" where
  "course_block_of l tenant items = (\<lambda>(o', c).
     let hs = sort_key (\<lambda>h. (cp_order_index h, cp_number h)) (filter (\<lambda>h. cp_tenant h = tenant \<and> cp_course h = co_id c) (chapters l));
         acts = sort_key chapter_key (filter (\<lambda>a. act_tenant a = tenant \<and> act_course a = co_id c) (activities (lib_db l)))
     in \<lparr>cb_offering = o', cb_course = c,
         cb_chapters = map (\<lambda>h. (h, filter (\<lambda>a. act_chapter a = Some (cp_number h)) acts)) hs,
         cb_standalone = filter (\<lambda>a. case act_chapter a of None \<Rightarrow> True | Some n \<Rightarrow> n \<notin> cp_number ` set hs) acts,
         cb_tracks = concat (map (\<lambda>(ct, t, cs, z). map (\<lambda>_. tr_name t) (filter (\<lambda>x. co_id x = co_id c) cs)) items)\<rparr>)"

definition cohort_detail ::
    "library \<Rightarrow> instant \<Rightarrow> uuid \<Rightarrow> uuid \<Rightarrow> uuid \<Rightarrow> nat \<Rightarrow> nat \<Rightarrow> workspace_view result" where
  "cohort_detail l now tenant person cohort limit skip =
     (let db = lib_db l in
      and_then (cohort_access_or_403 db tenant person cohort) (\<lambda>_.
      and_then (cohort_or_404 db tenant cohort) (\<lambda>h.
      and_then (list_cohort_tracks db tenant cohort) (\<lambda>items.
        let lines = cohort_lines db tenant cohort (map (\<lambda>(ct, t, cs, z). (tr_id t, tr_name t)) items) now;
            current = filter (\<lambda>x. is_current (sl_enrollment x, sl_person x)) lines
        in Inr \<lparr>wv_cohort = h, wv_students = take limit (drop skip lines), wv_total = length lines, wv_active = length current,
                wv_at_risk = length (filter sl_at_risk current),
                wv_average = (if current = [] then 0 else sum_list (map sl_pct current) / of_nat (length current)),
                wv_facilitators = nomination_lines db tenant (\<lambda>n. fn_status n = ''active'' \<and> touches_cohort db n {cohort}),
                wv_courses = map (course_block_of l tenant items) (offering_pairs db tenant cohort), wv_tracks = items,
                wv_pages = pagination_context (length lines) limit skip\<rparr>))))"

section \<open>Facilitators, rosters and tracks\<close>

text \<open>\<open>nominate\<close> and \<open>revoke\<close> behind the administrator guard; the scope decides which id the command carries.\<close>

definition nominate_facilitator ::
    "academy_db \<Rightarrow> instant \<Rightarrow> uuid \<Rightarrow> uuid \<Rightarrow> uuid \<Rightarrow> uuid \<Rightarrow> facilitator_scope \<Rightarrow> uuid option \<Rightarrow>
     (academy_db \<times> nomination_outcome) result" where
  "nominate_facilitator db now tenant person cohort facilitator scope offering =
     and_then (admin_guard db tenant person) (\<lambda>_.
     and_then (cohort_or_404 db tenant cohort) (\<lambda>_.
       if scope = CourseScope
          \<and> \<not> list_ex (\<lambda>o'. of_tenant o' = tenant \<and> Some (of_id o') = offering \<and> of_cohort o' = cohort) (offerings db)
       then Inl (NotFoundError ''Course offering not found'')
       else nominate db now \<lparr>nc_tenant = tenant, nc_person = facilitator, nc_actor = person, nc_scope = scope,
              nc_cohort = (if scope = CohortScope then Some cohort else None),
              nc_offering = (if scope = CourseScope then offering else None)\<rparr>))"

definition revoke_facilitator_nomination ::
    "academy_db \<Rightarrow> instant \<Rightarrow> uuid \<Rightarrow> uuid \<Rightarrow> uuid \<Rightarrow> (academy_db \<times> nomination_outcome) result" where
  "revoke_facilitator_nomination db now tenant person i =
     and_then (admin_guard db tenant person) (\<lambda>_. revoke_nomination db now tenant i person)"

definition split_emails :: "string list \<Rightarrow> string list" where
  "split_emails boxes = concat (map (\<lambda>f. py_words (map (\<lambda>c. if c = CHR '','' \<or> c = CHR '';'' then CHR 0x0A else c) f)) boxes)"

definition enroll_student ::
    "academy_db \<Rightarrow> uuid \<Rightarrow> uuid \<Rightarrow> uuid \<Rightarrow> string \<Rightarrow> string \<Rightarrow> uuid option \<Rightarrow> (academy_db \<times> enroll_report) result" where
  "enroll_student db tenant person cohort emails email track =
     and_then (role_guard db tenant ''instructor'' person) (\<lambda>_.
       bulk_enroll db tenant cohort (split_emails [emails, email]) (is_admin db tenant person) track)"

text \<open>The optional position fields: a blank or unreadable one leaves its course without a position.\<close>

definition positions_from_form :: "(uuid \<Rightarrow> string) \<Rightarrow> uuid list \<Rightarrow> (uuid \<times> int) list" where
  "positions_from_form form ids =
     concat (map (\<lambda>c. case py_int (form c) of None \<Rightarrow> [] | Some n \<Rightarrow> [(c, n)]) (remdups ids))"

text \<open>\<open>_hx_error\<close>: the errors a handler shows beside the form, with the store it leaves.\<close>

definition shown_inline :: "academy_db \<Rightarrow> academy_db result \<Rightarrow> (academy_db \<times> string option) result" where
  "shown_inline db r =
     (case r of
        Inr db1 \<Rightarrow> Inr (db1, None)
      | Inl (BadRequestError m) \<Rightarrow> Inr (db, Some m)
      | Inl (NotFoundError m) \<Rightarrow> Inr (db, Some m)
      | Inl e \<Rightarrow> Inl e)"

definition create_track_for_cohort ::
    "academy_db \<Rightarrow> instant \<Rightarrow> uuid \<Rightarrow> uuid \<Rightarrow> uuid \<Rightarrow> string \<Rightarrow> uuid list \<Rightarrow> (uuid \<Rightarrow> string) \<Rightarrow>
     (academy_db \<times> string option) result option" where
  "create_track_for_cohort db now tenant person cohort name ids form =
     (case role_guard db tenant ''instructor'' person of
        Inl e \<Rightarrow> Some (Inl e)
      | Inr _ \<Rightarrow> map_option (\<lambda>r. shown_inline db (and_then r (\<lambda>(db1, t). Inr db1)))
                  (create_cohort_track db now tenant cohort name ids (positions_from_form form ids)))"

definition add_courses_to_track ::
    "academy_db \<Rightarrow> uuid \<Rightarrow> uuid \<Rightarrow> uuid \<Rightarrow> uuid \<Rightarrow> uuid list \<Rightarrow> (uuid \<Rightarrow> string) \<Rightarrow> (academy_db \<times> string option) result" where
  "add_courses_to_track db tenant person cohort track ids form =
     and_then (role_guard db tenant ''instructor'' person) (\<lambda>_.
       shown_inline db (and_then (add_courses_to_cohort_track db tenant cohort track ids (positions_from_form form ids))
                          (\<lambda>(db1, t). Inr db1)))"

definition ranked_courses :: "(uuid \<Rightarrow> string) \<Rightarrow> uuid list \<Rightarrow> uuid list" where
  "ranked_courses form ids =
     map (\<lambda>(pos, k, c). c)
       (sort_key (\<lambda>(pos, k, c). (pos, k))
         (map (\<lambda>(k, c). (case py_int (form c) of None \<Rightarrow> int k | Some n \<Rightarrow> n, k, c)) (enumerate 0 ids)))"

definition reorder_track ::
    "academy_db \<Rightarrow> uuid \<Rightarrow> uuid \<Rightarrow> uuid \<Rightarrow> uuid list \<Rightarrow> (uuid \<Rightarrow> string) \<Rightarrow> (academy_db \<times> string option) result" where
  "reorder_track db tenant person track ids form =
     and_then (role_guard db tenant ''instructor'' person) (\<lambda>_.
       shown_inline db (and_then (reorder_track_courses db tenant track (ranked_courses form ids)) (\<lambda>(db1, t). Inr db1)))"

text \<open>The offerings of the track are opened before the enrolment is looked up, and stay when it is not found.\<close>

definition change_roster_track ::
    "academy_db \<Rightarrow> uuid \<Rightarrow> uuid \<Rightarrow> uuid \<Rightarrow> uuid \<Rightarrow> uuid \<Rightarrow> (academy_db \<times> string option) result" where
  "change_roster_track db tenant actor cohort person track =
     and_then (role_guard db tenant ''instructor'' actor) (\<lambda>_.
       case assign_enrollment_track db tenant cohort person track of
         Inr db1 \<Rightarrow> Inr (db1, None)
       | Inl (NotFoundError m) \<Rightarrow>
           Inr (case ensure_track_offerings db tenant cohort track of Inl _ \<Rightarrow> db | Inr db1 \<Rightarrow> db1, Some m)
       | Inl e \<Rightarrow> Inl e)"

definition clear_roster_track ::
    "academy_db \<Rightarrow> uuid \<Rightarrow> uuid \<Rightarrow> uuid \<Rightarrow> uuid \<Rightarrow> (academy_db \<times> string option) result" where
  "clear_roster_track db tenant actor cohort person =
     and_then (role_guard db tenant ''instructor'' actor) (\<lambda>_.
     and_then (admin_guard db tenant actor) (\<lambda>_.
       shown_inline db (clear_enrollment_track db tenant cohort person)))"

section \<open>Class sessions and accounts\<close>

text \<open>\<open>_parse_dt\<close>: \<open>parse\<close> reads a wall-clock time and converts it from the academy's time zone.\<close>

definition parse_dt :: "(string \<Rightarrow> instant option) \<Rightarrow> string \<Rightarrow> instant option result" where
  "parse_dt parse v =
     (if v = '''' then Inr None
      else case parse v of None \<Rightarrow> Inl (BadRequestError ''Invalid date/time.'') | Some t \<Rightarrow> Inr (Some t))"

definition start_of :: "(string \<Rightarrow> instant option) \<Rightarrow> string \<Rightarrow> instant result" where
  "start_of parse v =
     and_then (parse_dt parse v) (\<lambda>t. case t of None \<Rightarrow> Inl (BadRequestError ''A start time is required.'') | Some s \<Rightarrow> Inr s)"

record session_form =
  fo_title :: string
  fo_starts_at :: string
  fo_type :: string
  fo_ends_at :: string
  fo_location :: string
  fo_join_url :: string
  fo_notes :: string

definition as_400 :: "'a result \<Rightarrow> 'a result" where
  "as_400 r = (case r of Inl (NotFoundError m) \<Rightarrow> Inl (BadRequestError m) | _ \<Rightarrow> r)"

definition text_or_none :: "string \<Rightarrow> string option" where
  "text_or_none s = (if s = '''' then None else Some s)"

definition create_class_session ::
    "(string \<Rightarrow> instant option) \<Rightarrow> engagement \<Rightarrow> uuid \<Rightarrow> uuid \<Rightarrow> uuid \<Rightarrow> session_form \<Rightarrow> (engagement \<times> class_session_row) result" where
  "create_class_session parse s tenant person cohort f =
     and_then (role_guard (academy s) tenant ''instructor'' person) (\<lambda>_.
     and_then (cohort_or_404 (academy s) tenant cohort) (\<lambda>_.
     and_then (start_of parse (fo_starts_at f)) (\<lambda>starts.
     and_then (parse_dt parse (fo_ends_at f)) (\<lambda>ends.
       as_400 (create_session s tenant cohort
         \<lparr>sf_title = fo_title f, sf_starts_at = starts, sf_type = fo_type f, sf_ends_at = ends, sf_offering = None, sf_instructor = None,
          sf_location = text_or_none (fo_location f), sf_join_url = text_or_none (fo_join_url f), sf_notes = text_or_none (fo_notes f)\<rparr>)))))"

definition cancel_class_session :: "engagement \<Rightarrow> uuid \<Rightarrow> uuid \<Rightarrow> uuid \<Rightarrow> engagement result" where
  "cancel_class_session s tenant person i =
     and_then (role_guard (academy s) tenant ''instructor'' person) (\<lambda>_. cancel_session s i)"

definition edit_class_session ::
    "(string \<Rightarrow> instant option) \<Rightarrow> engagement \<Rightarrow> uuid \<Rightarrow> uuid \<Rightarrow> uuid \<Rightarrow> session_form \<Rightarrow> (engagement \<times> class_session_row) result" where
  "edit_class_session parse s tenant person i f =
     and_then (role_guard (academy s) tenant ''instructor'' person) (\<lambda>_.
     and_then (start_of parse (fo_starts_at f)) (\<lambda>starts.
     and_then (parse_dt parse (fo_ends_at f)) (\<lambda>ends.
     and_then (update_session s i
         \<lparr>su_title = Some (fo_title f), su_starts_at = Some starts, su_ends_at = Some ends, su_type = Some (fo_type f),
          su_location = Some (Some (fo_location f)), su_join_url = Some (Some (fo_join_url f)), su_notes = Some (Some (fo_notes f)),
          su_status = None\<rparr>) (\<lambda>(s1, r, changes).
       Inr (if changes = [] then s1
            else s1\<lparr>academy := write_audit_event (academy s1) tenant (Some person) ''scheduling.update_session'' ''class_session''
                     (Some (uuid_str (cs_id r))) (JObj [(''changes'', JArr (map JStr changes))])\<rparr>, r)))))"

definition cohort_timetable :: "engagement \<Rightarrow> instant \<Rightarrow> uuid \<Rightarrow> uuid \<Rightarrow> uuid \<Rightarrow> (cohort_row \<times> class_session_row list) result" where
  "cohort_timetable s now tenant person cohort =
     and_then (cohort_access_or_403 (academy s) tenant person cohort) (\<lambda>_.
     and_then (cohort_or_404 (academy s) tenant cohort) (\<lambda>h. Inr (h, list_for_cohort s cohort False now)))"

definition set_cohort_delivery_mode :: "engagement \<Rightarrow> uuid \<Rightarrow> uuid \<Rightarrow> uuid \<Rightarrow> string \<Rightarrow> engagement result" where
  "set_cohort_delivery_mode s tenant person cohort mode =
     and_then (role_guard (academy s) tenant ''instructor'' person) (\<lambda>_.
     and_then (cohort_or_404 (academy s) tenant cohort) (\<lambda>_. set_delivery_mode s cohort mode))"

definition change_account_status ::
    "academy_db \<Rightarrow> instant \<Rightarrow> uuid \<Rightarrow> uuid \<Rightarrow> uuid \<Rightarrow> string \<Rightarrow> (academy_db \<times> person_row) result" where
  "change_account_status db now tenant actor person status =
     and_then (role_guard db tenant ''admin'' actor) (\<lambda>_. set_account_status db now tenant person status)"

section \<open>Authoring\<close>

definition author_create_course ::
    "library \<Rightarrow> uuid \<Rightarrow> uuid \<Rightarrow> string \<Rightarrow> string \<Rightarrow> string \<Rightarrow> (library \<times> course_row) result" where
  "author_create_course l tenant person slug title discipline =
     and_then (admin_guard (lib_db l) tenant person) (\<lambda>_. create_course l tenant (Some slug) title discipline)"

record preview_view =
  pw_course :: course_row
  pw_chapters :: "chapter_row list"
  pw_chapter :: "chapter_row option"
  pw_activity :: "activity_row option"
  pw_minutes :: int
  pw_previous :: "chapter_row option"
  pw_next :: "chapter_row option"

definition preview_response :: "library \<Rightarrow> uuid \<Rightarrow> course_row \<Rightarrow> chapter_row list \<Rightarrow> chapter_row option \<Rightarrow> preview_view" where
  "preview_response l tenant c hs chapter =
     (case chapter of
        None \<Rightarrow> \<lparr>pw_course = c, pw_chapters = hs, pw_chapter = None, pw_activity = None, pw_minutes = 0, pw_previous = None, pw_next = None\<rparr>
      | Some h \<Rightarrow>
          \<lparr>pw_course = c, pw_chapters = hs, pw_chapter = Some h,
           pw_activity = find (\<lambda>a. act_tenant a = tenant \<and> act_course a = co_id c \<and> act_chapter a = Some (cp_number h))
             (activities (lib_db l)),
           pw_minutes = reading_minutes (cp_body_html h),
           pw_previous = find (\<lambda>x. cp_number x < cp_number h) (rev hs), pw_next = next_chapter hs (cp_number h)\<rparr>)"

definition preview_course :: "library \<Rightarrow> uuid \<Rightarrow> uuid \<Rightarrow> uuid \<Rightarrow> preview_view result" where
  "preview_course l tenant person course =
     and_then (authorable_course_or_404 (lib_db l) tenant person course) (\<lambda>c.
       let hs = course_chapters l tenant (co_id c)
       in Inr (preview_response l tenant c hs (case hs of [] \<Rightarrow> None | h # _ \<Rightarrow> Some h)))"

definition preview_course_chapter :: "library \<Rightarrow> uuid \<Rightarrow> uuid \<Rightarrow> uuid \<Rightarrow> int \<Rightarrow> preview_view result" where
  "preview_course_chapter l tenant person course n =
     and_then (authorable_course_or_404 (lib_db l) tenant person course) (\<lambda>c.
       let hs = course_chapters l tenant (co_id c)
       in case find (\<lambda>h. cp_number h = n) hs of
            None \<Rightarrow> missing | Some h \<Rightarrow> Inr (preview_response l tenant c hs (Some h)))"

definition author_upsert_chapter ::
    "(string \<Rightarrow> string) \<Rightarrow> library \<Rightarrow> uuid \<Rightarrow> uuid \<Rightarrow> uuid \<Rightarrow> int \<Rightarrow> string \<Rightarrow> string \<Rightarrow> string \<Rightarrow> (library \<times> chapter_row) result" where
  "author_upsert_chapter render l tenant person course number title body_md part =
     and_then (authorable_course_or_404 (lib_db l) tenant person course) (\<lambda>_.
       upsert_chapter render l tenant course number title body_md part)"

definition author_delete_chapter :: "library \<Rightarrow> uuid \<Rightarrow> uuid \<Rightarrow> uuid \<Rightarrow> uuid \<Rightarrow> library result" where
  "author_delete_chapter l tenant person course chapter =
     and_then (authorable_course_or_404 (lib_db l) tenant person course) (\<lambda>_. delete_chapter l tenant course chapter)"

definition set_course_status :: "academy_db \<Rightarrow> uuid \<Rightarrow> uuid \<Rightarrow> uuid \<Rightarrow> string \<Rightarrow> academy_db result" where
  "set_course_status db tenant person course status =
     (if status \<notin> {''draft'', ''published'', ''completed''} then Inl (BadRequestError ''invalid status'')
      else and_then (authorable_course_or_404 db tenant person course) (\<lambda>c.
        Inr (db\<lparr>courses := update_rows (\<lambda>r. co_tenant r = tenant \<and> co_id r = co_id c) (\<lambda>r. r\<lparr>co_status := status\<rparr>) (courses db)\<rparr>)))"

section \<open>Results and grading\<close>

definition pending_grading :: "academy_db \<Rightarrow> uuid \<Rightarrow> (submission_row \<times> activity_row \<times> string) list" where
  "pending_grading db tenant =
     sort_key (\<lambda>(s, a, email). sub_created_at s)
       [(s, a, pe_email p). s \<leftarrow> submissions db, a \<leftarrow> activities db, p \<leftarrow> people db,
          act_id a = sub_activity s \<and> act_tenant a = sub_tenant s \<and> pe_id p = sub_person s \<and> pe_tenant p = sub_tenant s
          \<and> sub_tenant s = tenant \<and> \<not> list_ex (\<lambda>sc. sc_submission sc = sub_id s \<and> sc_tenant sc = sub_tenant s) (scores db)]"

text \<open>Whether a learner's work in a course is within what the person may assess.\<close>

definition assessable :: "academy_db \<Rightarrow> uuid \<Rightarrow> uuid \<Rightarrow> uuid \<Rightarrow> uuid \<Rightarrow> unit result" where
  "assessable db tenant person course learner =
     and_then (assessment_course_ids db tenant person) (\<lambda>ids.
       if course \<notin> ids then Inl HTTPForbidden
       else and_then (assessment_learners db tenant person course) (\<lambda>allowed.
         ensure (in_scope allowed learner) HTTPForbidden (Inr ())))"

definition results :: "academy_db \<Rightarrow> uuid \<Rightarrow> uuid \<Rightarrow> (string \<times> string \<times> score_row) list result" where
  "results db tenant person =
     and_then (assessment_course_ids db tenant person) (\<lambda>ids.
     and_then (each (\<lambda>(p, a, sc). and_then (assessment_learners db tenant person (act_course a)) (\<lambda>allowed.
           Inr (if in_scope allowed (pe_id p) then [(pe_email p, act_title a, sc)] else [])))
         [(p, a, sc). p \<leftarrow> people db, s \<leftarrow> submissions db, a \<leftarrow> activities db, sc \<leftarrow> scores db,
            sub_person s = pe_id p \<and> sub_tenant s = pe_tenant p \<and> act_id a = sub_activity s \<and> act_tenant a = sub_tenant s
            \<and> sc_submission sc = sub_id s \<and> sc_tenant sc = sub_tenant s \<and> pe_tenant p = tenant \<and> act_course a \<in> ids])
       (\<lambda>rows. Inr (concat rows)))"

definition grading_queue :: "academy_db \<Rightarrow> uuid \<Rightarrow> uuid \<Rightarrow> (submission_row \<times> activity_row \<times> string) list result" where
  "grading_queue db tenant person =
     and_then (assessment_course_ids db tenant person) (\<lambda>ids.
     and_then (each (\<lambda>(s, a, email).
           if act_course a \<notin> ids then Inr []
           else and_then (assessment_learners db tenant person (act_course a)) (\<lambda>allowed.
             Inr (if in_scope allowed (sub_person s) then [(s, a, email)] else [])))
         (pending_grading db tenant))
       (\<lambda>rows. Inr (concat rows)))"

definition submission_target :: "academy_db \<Rightarrow> uuid \<Rightarrow> uuid \<Rightarrow> (uuid \<times> uuid) option" where
  "submission_target db tenant i =
     (case find (\<lambda>s. sub_tenant s = tenant \<and> sub_id s = i) (submissions db) of
        None \<Rightarrow> None
      | Some s \<Rightarrow>
          map_option (\<lambda>a. (act_course a, sub_person s))
            (find (\<lambda>a. act_id a = sub_activity s \<and> act_tenant a = sub_tenant s) (activities db)))"

definition override_page ::
    "(instant \<Rightarrow> instant) \<Rightarrow> academy_db \<Rightarrow> instant \<Rightarrow> uuid \<Rightarrow> uuid \<Rightarrow> uuid \<Rightarrow> rat \<Rightarrow> rat \<Rightarrow> string \<Rightarrow> (academy_db \<times> score_row) result" where
  "override_page day db now tenant person i score_value max_score reason =
     (case submission_target db tenant i of
        None \<Rightarrow> missing
      | Some (course, learner) \<Rightarrow>
          and_then (assessable db tenant person course learner) (\<lambda>_.
            override_score day db now tenant i score_value max_score reason))"

definition grant_attempt ::
    "academy_db \<Rightarrow> uuid \<Rightarrow> uuid \<Rightarrow> uuid \<Rightarrow> uuid \<Rightarrow> string \<Rightarrow> int \<Rightarrow> (academy_db \<times> grant_row) result" where
  "grant_attempt db tenant person activity learner reason extra =
     (case activity_in db tenant activity of
        None \<Rightarrow> missing
      | Some a \<Rightarrow>
          and_then (assessable db tenant person (act_course a) learner) (\<lambda>_.
            if act_max_attempts a = None then Inl (BadRequestError ''This activity has no attempt limit.'')
            else case grant_extra_attempt db tenant learner activity (Some reason) (Some person) extra of
                   Inl (ValueError m) \<Rightarrow> Inl (BadRequestError m) | r \<Rightarrow> r))"

section \<open>Item analysis\<close>

definition keep_higher :: "uuid \<times> score_row \<Rightarrow> (uuid \<times> score_row) list \<Rightarrow> (uuid \<times> score_row) list" where
  "keep_higher = (\<lambda>(p, sc) best.
     case map_of best p of
       None \<Rightarrow> AList.update p sc best
     | Some cur \<Rightarrow> if sc_fraction sc > sc_fraction cur then AList.update p sc best else best)"

definition best_scores_for_activity :: "academy_db \<Rightarrow> uuid \<Rightarrow> uuid \<Rightarrow> uuid list option \<Rightarrow> score_row list" where
  "best_scores_for_activity db tenant activity allowed =
     map snd (fold keep_higher
       [(sub_person s, sc). s \<leftarrow> submissions db, sc \<leftarrow> scores db,
          sc_submission sc = sub_id s \<and> sc_tenant sc = sub_tenant s \<and> sub_tenant s = tenant \<and> sub_activity s = activity
          \<and> in_scope allowed (sub_person s)] [])"

text \<open>The ids and the \<open>correct\<close> key of the stored items: the checks of a lab have no such key.\<close>

fun marked_items :: "stored_items \<Rightarrow> (string \<times> bool) list" where
  "marked_items (Items xs) = map (\<lambda>i. (it_id i, it_correct i)) xs"
| "marked_items (Checks cs) = map (\<lambda>c. (cr_id c, False)) cs"

record item_stats =
  is_id :: string
  is_responses :: nat
  is_correct :: nat
  is_p_value :: rat

definition tally_item :: "string \<times> bool \<Rightarrow> (string \<times> nat \<times> nat) list \<Rightarrow> (string \<times> nat \<times> nat) list" where
  "tally_item = (\<lambda>(q, ok) t.
     let (n, k) = (case map_of t q of None \<Rightarrow> (0, 0) | Some c \<Rightarrow> c)
     in AList.update q (n + 1, if ok then k + 1 else k) t)"

definition item_analysis :: "academy_db \<Rightarrow> uuid \<Rightarrow> uuid \<Rightarrow> uuid list option \<Rightarrow> item_stats list" where
  "item_analysis db tenant activity allowed =
     map (\<lambda>(q, n, k). \<lparr>is_id = q, is_responses = n, is_correct = k,
                       is_p_value = (if n = 0 then 0 else of_nat k / of_nat n)\<rparr>)
       (fold tally_item (concat (map (\<lambda>sc. marked_items (sc_per_item sc)) (best_scores_for_activity db tenant activity allowed))) [])"

definition item_analytics :: "academy_db \<Rightarrow> uuid \<Rightarrow> uuid \<Rightarrow> uuid \<Rightarrow> (activity_row \<times> item_stats list) result" where
  "item_analytics db tenant person activity =
     (case activity_in db tenant activity of
        None \<Rightarrow> missing
      | Some a \<Rightarrow>
          and_then (assessment_course_ids db tenant person) (\<lambda>ids.
            if act_course a \<notin> ids then Inl HTTPForbidden
            else and_then (assessment_learners db tenant person (act_course a)) (\<lambda>allowed.
              Inr (a, item_analysis db tenant activity allowed))))"

section \<open>Announcements\<close>

definition announcements_create ::
    "(string \<Rightarrow> string) \<Rightarrow> library \<Rightarrow> instant \<Rightarrow> uuid \<Rightarrow> uuid \<Rightarrow> string \<Rightarrow> string \<Rightarrow> uuid option \<Rightarrow>
     (library \<times> announcement_row) result" where
  "announcements_create render l now tenant person title body_md cohort =
     and_then (role_guard (lib_db l) tenant ''instructor'' person) (\<lambda>_.
       if (case cohort of None \<Rightarrow> False | Some c \<Rightarrow> \<not> list_ex (\<lambda>h. ch_tenant h = tenant \<and> ch_id h = c) (cohorts (lib_db l)))
       then Inl (BadRequestError ''Unknown cohort'')
       else Inr (create_announcement render l now tenant person title body_md cohort))"

definition announcement_delete :: "library \<Rightarrow> uuid \<Rightarrow> uuid \<Rightarrow> uuid \<Rightarrow> library result" where
  "announcement_delete l tenant person i =
     and_then (role_guard (lib_db l) tenant ''instructor'' person) (\<lambda>_. Inr (delete_announcement l tenant i))"

end
