(* ===== verification/Instructor_Properties.thy ===== *)
theory Instructor_Properties
  imports Instructor_Web Roster_Properties
begin

text \<open>
  The instructor's portal: grading, granting and authoring stay in the scope of the person, the grading queue is what may be
  graded, the two views of a cohort agree, item statistics are fractions, the forms are read completely; and what is left
  behind by a refused track assignment, shown for a lab's items and for a suspended account.
\<close>

section \<open>Assessment scope\<close>

definition scoped_to :: "academy_db \<Rightarrow> uuid \<Rightarrow> uuid \<Rightarrow> uuid \<Rightarrow> uuid \<Rightarrow> bool" where
  "scoped_to db tenant person course learner =
     (let a = facilitator_access_of db tenant person in
      course \<in> courses_of_offerings db tenant (fa_cohort_offering_ids a)
      \<and> studied_offerings db tenant course learner \<noteq> {}
      \<and> studied_offerings db tenant course learner \<subseteq> authorized_offering_ids db tenant a)"

lemma studies_someone:
  "studied_offerings db tenant course learner \<noteq> {} \<Longrightarrow> learner \<in> en_person ` set (enrollments db)"
  by (auto simp: studied_offerings_def)

lemma assessable_cases:
  "assessable db tenant person course learner = Inr () \<longleftrightarrow>
     (let a = facilitator_access_of db tenant person in
      can_teach a \<and> (if has_global_staff_access a then course \<in> co_id ` set (filter (\<lambda>c. co_tenant c = tenant) (courses db))
                     else scoped_to db tenant person course learner))"
  using studies_someone [of db tenant course learner]
  by (auto simp: assessable_def assessment_course_ids_def assessment_learners_def access_or_403_def ensure_def in_scope_def
      scoped_to_def Let_def image_iff split: if_splits)

text \<open>Who may grade whom, read off the rows. \<open>teaches_offering\<close>: an active nomination of the person, for this very offering, or
  for the cohort of an active offering with this id whose course is in the nomination's requirement snapshot. \<open>studies_under\<close>: the
  learner is an active student of the cohort of an active offering of the course.\<close>

definition own_nomination :: "academy_db \<Rightarrow> uuid \<Rightarrow> uuid \<Rightarrow> nomination_row \<Rightarrow> bool" where
  "own_nomination db tenant person n \<longleftrightarrow>
     n \<in> set (nominations db) \<and> fn_tenant n = tenant \<and> fn_person n = person \<and> fn_status n = ''active''"

definition in_cohort_curriculum :: "academy_db \<Rightarrow> uuid \<Rightarrow> nomination_row \<Rightarrow> offering_row \<Rightarrow> bool" where
  "in_cohort_curriculum db tenant n r \<longleftrightarrow>
     fn_scope n = ''cohort'' \<and> fn_cohort n = Some (of_cohort r)
     \<and> r \<in> set (offerings db) \<and> of_tenant r = tenant \<and> of_status r = ''active''
     \<and> (\<exists>q \<in> set (requirements db). fr_tenant q = tenant \<and> fr_nomination q = fn_id n \<and> fr_course q = of_course r)"

definition teaches_offering :: "academy_db \<Rightarrow> uuid \<Rightarrow> uuid \<Rightarrow> uuid \<Rightarrow> bool" where
  "teaches_offering db tenant person i \<longleftrightarrow>
     (\<exists>n. own_nomination db tenant person n
        \<and> (fn_scope n = ''course'' \<and> fn_offering n = Some i \<or> (\<exists>r. of_id r = i \<and> in_cohort_curriculum db tenant n r)))"

definition studies_under :: "academy_db \<Rightarrow> uuid \<Rightarrow> uuid \<Rightarrow> uuid \<Rightarrow> uuid \<Rightarrow> bool" where
  "studies_under db tenant course learner i \<longleftrightarrow>
     (\<exists>e \<in> set (enrollments db). \<exists>r \<in> set (offerings db).
        en_tenant e = tenant \<and> en_person e = learner \<and> en_role e = ''student'' \<and> en_status e = ''active''
        \<and> of_id r = i \<and> of_tenant r = tenant \<and> of_cohort r = en_cohort e \<and> of_course r = course \<and> of_status r = ''active'')"

definition is_staff :: "academy_db \<Rightarrow> uuid \<Rightarrow> uuid \<Rightarrow> bool" where
  "is_staff db tenant person \<longleftrightarrow>
     (\<exists>r \<in> set (person_roles db). ro_tenant r = tenant \<and> ro_person r = person \<and> ro_slug r \<in> {''admin'', ''instructor''})"

definition facilitates :: "academy_db \<Rightarrow> uuid \<Rightarrow> uuid \<Rightarrow> uuid \<Rightarrow> uuid \<Rightarrow> bool" where
  "facilitates db tenant person course learner \<longleftrightarrow>
     (\<exists>n r. own_nomination db tenant person n \<and> in_cohort_curriculum db tenant n r \<and> of_course r = course)
     \<and> (\<exists>i. studies_under db tenant course learner i)
     \<and> (\<forall>i. studies_under db tenant course learner i \<longrightarrow> teaches_offering db tenant person i)"

lemma global_staff: "has_global_staff_access (facilitator_access_of db tenant person) \<longleftrightarrow> is_staff db tenant person"
  by (force simp: has_global_staff_access_def facilitator_access_of_def Let_def role_slugs_def is_staff_def)

lemma grants_course_row: "own_active tenant person n \<Longrightarrow> grants_course db i n \<Longrightarrow> n \<in> set (nominations db) \<Longrightarrow> teaches_offering db tenant person i"
  unfolding teaches_offering_def own_nomination_def by (auto simp: grants_course_def own_active_def)

lemma grants_snapshot_row:
  "own_active tenant person n \<Longrightarrow> grants_snapshot db i n \<longleftrightarrow> (\<exists>r. of_id r = i \<and> in_cohort_curriculum db tenant n r)"
  by (auto simp: grants_snapshot_def own_active_def requirements_of_def in_cohort_curriculum_def) metis+

lemma authorized_teaches:
  assumes "\<not> is_staff db tenant person" "i \<in> authorized_offering_ids db tenant (facilitator_access_of db tenant person)"
  shows "teaches_offering db tenant person i"
proof -
  let ?a = "facilitator_access_of db tenant person"
  have "\<not> fa_is_admin ?a" "fa_legacy_offering_ids ?a = {}"
    using assms(1) global_staff [of db tenant person]
    by (auto simp: has_global_staff_access_def facilitator_access_of_def Let_def)
  with assms(2) have "i \<in> fa_offering_ids ?a \<or> i \<in> fa_cohort_offering_ids ?a" by (simp add: authorized_offering_ids_def)
  then obtain n where n: "n \<in> set (nominations db)" "own_active tenant person n" "grants_course db i n \<or> grants_snapshot db i n"
    unfolding course_grants snapshot_grants by blast
  from n(3) show ?thesis
  proof
    assume "grants_snapshot db i n"
    with n show ?thesis unfolding grants_snapshot_row [OF n(2)] teaches_offering_def own_nomination_def
      by (auto simp: own_active_def)
  qed (use n grants_course_row in blast)
qed

lemma studied_under: "i \<in> studied_offerings db tenant course learner \<longleftrightarrow> studies_under db tenant course learner i"
  unfolding studied_offerings_def studies_under_def by auto

lemma assessable_facilitates:
  assumes d: "distinct (map of_id (offerings db))" and ok: "assessable db tenant person course learner = Inr ()"
  shows "is_staff db tenant person \<or> facilitates db tenant person course learner"
proof (cases "is_staff db tenant person")
  case False
  let ?a = "facilitator_access_of db tenant person"
  have s: "scoped_to db tenant person course learner"
    using ok False global_staff [of db tenant person] by (simp add: assessable_cases Let_def)
  then obtain q where q: "q \<in> set (offerings db)" "of_course q = course" "of_id q \<in> fa_cohort_offering_ids ?a"
    by (auto simp: scoped_to_def courses_of_offerings_def Let_def)
  then obtain n where n: "n \<in> set (nominations db)" "own_active tenant person n" "grants_snapshot db (of_id q) n"
    unfolding snapshot_grants by blast
  then obtain r where r: "of_id r = of_id q" "in_cohort_curriculum db tenant n r" unfolding grants_snapshot_row [OF n(2)] by blast
  then have "r = q" using d q(1) by (auto simp: in_cohort_curriculum_def distinct_map inj_on_def)
  with r n q(2) have "\<exists>n r. own_nomination db tenant person n \<and> in_cohort_curriculum db tenant n r \<and> of_course r = course"
    unfolding own_nomination_def own_active_def by blast
  moreover have "\<exists>i. studies_under db tenant course learner i"
    "\<forall>i. studies_under db tenant course learner i \<longrightarrow> teaches_offering db tenant person i"
    using s authorized_teaches [OF False] unfolding scoped_to_def Let_def studied_under [symmetric] by blast+
  ultimately show ?thesis unfolding facilitates_def by blast
qed simp

text \<open>C17. Grading stays in scope: whoever sets the score of a submission through the grading page is staff of the academy (role
  \<open>admin\<close> or \<open>instructor\<close>), or holds an active nomination for a cohort whose curriculum, the active offerings of the cohort
  that were in the requirement snapshot, contains the course of the submission; and the learner is an active student in some active
  offering of that course, and in each of them the person's own active nominations cover. A course shared with another cohort gives
  nothing over that cohort's learners.\<close>

theorem scores_are_set_in_scope:
  assumes "override_page day db now tenant person i score_value max_score reason = Inr (db', sc)"
    and "distinct (map of_id (offerings db))"
  shows "\<exists>s a. s \<in> set (submissions db) \<and> sub_id s = i \<and> sub_tenant s = tenant
     \<and> a \<in> set (activities db) \<and> act_id a = sub_activity s \<and> act_tenant a = tenant
     \<and> (is_staff db tenant person \<or> facilitates db tenant person (act_course a) (sub_person s))"
proof -
  from assms obtain course learner where t: "submission_target db tenant i = Some (course, learner)"
    and ok: "assessable db tenant person course learner = Inr ()"
    by (auto simp: override_page_def missing_def and_then_eq_Inr split: option.splits)
  from t obtain s where s: "find (\<lambda>s. sub_tenant s = tenant \<and> sub_id s = i) (submissions db) = Some s"
    by (auto simp: submission_target_def split: option.splits)
  with t obtain a where a: "find (\<lambda>a. act_id a = sub_activity s \<and> act_tenant a = sub_tenant s) (activities db) = Some a"
    "course = act_course a" "learner = sub_person s"
    by (auto simp: submission_target_def)
  from assessable_facilitates [OF assms(2) ok] find_Some_in [OF s] find_Some_in [OF a(1)] a(2,3) show ?thesis by auto
qed

text \<open>The same guard stands before an extra attempt.\<close>

theorem attempts_are_granted_in_scope:
  assumes "grant_attempt db tenant person activity learner reason extra = Inr (db', g)"
  shows "\<exists>a. activity_in db tenant activity = Some a \<and> act_max_attempts a \<noteq> None
     \<and> (has_global_staff_access (facilitator_access_of db tenant person) \<or> scoped_to db tenant person (act_course a) learner)"
  using assms
  by (auto simp: grant_attempt_def missing_def and_then_eq_Inr assessable_cases Let_def split: option.splits if_splits)

lemma each_concat_filter:
  assumes "\<And>x. x \<in> set xs \<Longrightarrow> f x = Inr (if p x then [x] else [])"
  shows "each f xs = Inr (map (\<lambda>x. if p x then [x] else []) xs)"
  using assms by (induction xs) auto

lemma concat_kept: "concat (map (\<lambda>x. if p x then [x] else []) xs) = filter p xs"
  by (induction xs) auto

text \<open>C31. The grading queue of a person is exactly the pending work whose score that person may set: nothing is listed that
  grading would then refuse, and nothing that could be graded is missing.\<close>

theorem grading_queue_is_gradable:
  "grading_queue db tenant person =
     (if can_teach (facilitator_access_of db tenant person)
      then Inr (filter (\<lambda>(s, a, email). assessable db tenant person (act_course a) (sub_person s) = Inr ()) (pending_grading db tenant))
      else Inl HTTPForbidden)"
proof (cases "can_teach (facilitator_access_of db tenant person)")
  case True
  then obtain ids where ids: "assessment_course_ids db tenant person = Inr ids"
    by (simp add: assessment_course_ids_def access_or_403_def Let_def)
  obtain allowed where allowed: "\<And>course. assessment_learners db tenant person course = Inr (allowed course)"
  proof
    let ?a = "facilitator_access_of db tenant person"
    show "assessment_learners db tenant person course = Inr (if has_global_staff_access ?a then None
        else Some (filter (\<lambda>p. studied_offerings db tenant course p \<noteq> {}
                                \<and> studied_offerings db tenant course p \<subseteq> authorized_offering_ids db tenant ?a)
                    (remdups (map en_person (enrollments db)))))" for course
      using True by (simp add: assessment_learners_def access_or_403_def Let_def)
  qed
  define p where "p = (\<lambda>(s :: submission_row, a :: activity_row, email :: string). assessable db tenant person (act_course a) (sub_person s) = Inr ())"
  have p: "p (s, a, email) \<longleftrightarrow> act_course a \<in> ids \<and> in_scope (allowed (act_course a)) (sub_person s)" for s a email
    by (auto simp: p_def assessable_def ids allowed ensure_def)
  have "each (\<lambda>(s, a, email).
           if act_course a \<notin> ids then Inr []
           else and_then (assessment_learners db tenant person (act_course a)) (\<lambda>allowed.
             Inr (if in_scope allowed (sub_person s) then [(s, a, email)] else []))) (pending_grading db tenant)
      = Inr (map (\<lambda>x. if p x then [x] else []) (pending_grading db tenant))"
    by (rule each_concat_filter) (auto simp: p allowed)
  then show ?thesis using True by (simp add: grading_queue_def ids concat_kept p_def [symmetric])
next
  case False
  then show ?thesis by (simp add: grading_queue_def assessment_course_ids_def access_or_403_def Let_def)
qed

section \<open>Authoring scope\<close>

lemma authorable_course_scope:
  assumes "authorable_course_or_404 db tenant person course = Inr c"
  shows "c \<in> set (courses db)" "co_id c = course" "co_tenant c = tenant"
    "is_admin db tenant person \<or>
     (\<exists>o' \<in> set (offerings db). of_course o' = course \<and> allows_offering (facilitator_access_of db tenant person) (of_id o'))"
proof -
  from assms obtain f where f: "find (\<lambda>c. co_tenant c = tenant \<and> co_id c = course) (courses db) = Some f" and c: "c = f"
    by (auto simp: authorable_course_or_404_def missing_def and_then_eq_Inr ensure_def split: option.splits if_splits)
  from find_Some_in [OF f] show fc: "c \<in> set (courses db)" "co_id c = course" "co_tenant c = tenant" by (simp_all add: c)
  show "is_admin db tenant person \<or>
     (\<exists>o' \<in> set (offerings db). of_course o' = course \<and> allows_offering (facilitator_access_of db tenant person) (of_id o'))"
  proof (cases "is_admin db tenant person")
    case False
    then have na: "\<not> fa_is_admin (facilitator_access_of db tenant person)"
      by (simp add: facilitator_access_of_def Let_def is_admin_def)
    from assms f False have "course \<in> courses_of_offerings db tenant
        (authorized_offering_ids db tenant (facilitator_access_of db tenant person))"
      by (auto simp: authorable_course_or_404_def assigned_course_ids_def access_or_403_def and_then_eq_Inr ensure_def Let_def
          dest: find_Some_in split: if_splits)
    then show ?thesis using na by (auto simp: courses_of_offerings_def authorized_offering_ids_def allows_offering_def)
  qed simp
qed

text \<open>Whoever changes a chapter or the status of a course is an administrator or may teach an offering of that course, and no
  chapter of another course changes.\<close>

theorem authors_stay_in_scope:
  "author_upsert_chapter render l tenant person course number title body_md part = Inr (l', h) \<Longrightarrow>
     (is_admin (lib_db l) tenant person \<or>
      (\<exists>o' \<in> set (offerings (lib_db l)). of_course o' = course \<and> allows_offering (facilitator_access_of (lib_db l) tenant person) (of_id o')))
     \<and> filter (\<lambda>r. cp_course r \<noteq> course) (chapters l') = filter (\<lambda>r. cp_course r \<noteq> course) (chapters l)"
  "author_delete_chapter l tenant person course chapter = Inr l' \<Longrightarrow>
     (is_admin (lib_db l) tenant person \<or>
      (\<exists>o' \<in> set (offerings (lib_db l)). of_course o' = course \<and> allows_offering (facilitator_access_of (lib_db l) tenant person) (of_id o')))
     \<and> filter (\<lambda>r. cp_course r \<noteq> course) (chapters l') = filter (\<lambda>r. cp_course r \<noteq> course) (chapters l)"
proof -
  assume "author_upsert_chapter render l tenant person course number title body_md part = Inr (l', h)"
  then obtain c where c: "authorable_course_or_404 (lib_db l) tenant person course = Inr c"
    and u: "upsert_chapter render l tenant course number title body_md part = Inr (l', h)"
    by (auto simp: author_upsert_chapter_def and_then_eq_Inr)
  have upd: "filter (\<lambda>r. cp_course r \<noteq> co) (update_rows (\<lambda>r. r = k) f rows) = filter (\<lambda>r. cp_course r \<noteq> co) rows"
    if "cp_course k = co" "\<And>r. cp_course (f r) = cp_course (r :: chapter_row)" for k f rows co
    using that by (induction rows) auto
  have "filter (\<lambda>r. cp_course r \<noteq> course) (chapters l') = filter (\<lambda>r. cp_course r \<noteq> course) (chapters l)"
    using u by (auto simp: upsert_chapter_def bump_version_def add_chapter_def set_chapter_def with_db_def Let_def chapter_numbered_def
        intro!: upd dest!: find_Some_in split: if_splits option.splits)
  with authorable_course_scope(4) [OF c] show "(is_admin (lib_db l) tenant person \<or>
      (\<exists>o' \<in> set (offerings (lib_db l)). of_course o' = course \<and> allows_offering (facilitator_access_of (lib_db l) tenant person) (of_id o')))
     \<and> filter (\<lambda>r. cp_course r \<noteq> course) (chapters l') = filter (\<lambda>r. cp_course r \<noteq> course) (chapters l)" by blast
next
  assume "author_delete_chapter l tenant person course chapter = Inr l'"
  then obtain c where c: "authorable_course_or_404 (lib_db l) tenant person course = Inr c"
    and u: "delete_chapter l tenant course chapter = Inr l'"
    by (auto simp: author_delete_chapter_def and_then_eq_Inr)
  have "filter (\<lambda>r. cp_course r \<noteq> course) (chapters l') = filter (\<lambda>r. cp_course r \<noteq> course) (chapters l)"
    using u by (auto simp: delete_chapter_def bump_version_def filter_filter dest!: find_Some_in
        intro!: arg_cong [where f = "\<lambda>p. filter p (chapters l)"] split: if_splits option.splits)
  with authorable_course_scope(4) [OF c] show "(is_admin (lib_db l) tenant person \<or>
      (\<exists>o' \<in> set (offerings (lib_db l)). of_course o' = course \<and> allows_offering (facilitator_access_of (lib_db l) tenant person) (of_id o')))
     \<and> filter (\<lambda>r. cp_course r \<noteq> course) (chapters l') = filter (\<lambda>r. cp_course r \<noteq> course) (chapters l)" by blast
qed

section \<open>Item statistics\<close>

definition sound_tally :: "(string \<times> nat \<times> nat) list \<Rightarrow> bool" where
  "sound_tally t = (distinct (map fst t) \<and> (\<forall>(q, n, k) \<in> set t. k \<le> n \<and> 0 < n))"

lemma set_update_distinct:
  "distinct (map fst t) \<Longrightarrow> x \<in> set (AList.update q v t) \<Longrightarrow> x = (q, v) \<or> x \<in> set t"
  by (induction t) (auto split: if_splits)

lemma tally_item_sound: "sound_tally t \<Longrightarrow> sound_tally (tally_item i t)"
proof -
  assume t: "sound_tally t"
  obtain q ok where i: "i = (q, ok)" by force
  have d: "distinct (map fst t)" using t by (simp add: sound_tally_def)
  have kn: "case map_of t q of None \<Rightarrow> True | Some (n, k) \<Rightarrow> k \<le> n"
    using t map_of_SomeD [of t q] by (auto simp: sound_tally_def split: option.splits)
  show ?thesis
    using t kn d distinct_update [OF d]
    by (auto simp: sound_tally_def tally_item_def i Let_def split: option.splits prod.splits dest!: set_update_distinct [OF d])
qed

text \<open>Every question appears once, no more answers are correct than were given, and the difficulty is a fraction.\<close>

theorem item_statistics_are_fractions:
  "distinct (map is_id (item_analysis db tenant activity allowed))"
  "x \<in> set (item_analysis db tenant activity allowed) \<Longrightarrow>
     is_correct x \<le> is_responses x \<and> 0 < is_responses x \<and> 0 \<le> is_p_value x \<and> is_p_value x \<le> 1"
proof -
  have s: "sound_tally (fold tally_item is t)" if "sound_tally t" for "is" t
    using that by (induction "is" arbitrary: t) (auto intro: tally_item_sound)
  define t where "t = fold tally_item (concat (map (\<lambda>sc. marked_items (sc_per_item sc)) (best_scores_for_activity db tenant activity allowed))) []"
  have t: "sound_tally t" unfolding t_def by (rule s) (simp add: sound_tally_def)
  have e: "item_analysis db tenant activity allowed = map (\<lambda>(q, n, k). \<lparr>is_id = q, is_responses = n, is_correct = k,
      is_p_value = (if n = 0 then 0 else of_nat k / of_nat n)\<rparr>) t"
    by (simp add: item_analysis_def t_def)
  show "distinct (map is_id (item_analysis db tenant activity allowed))"
    using t by (simp add: e sound_tally_def comp_def split_beta)
  show "is_correct x \<le> is_responses x \<and> 0 < is_responses x \<and> 0 \<le> is_p_value x \<and> is_p_value x \<le> 1"
    if "x \<in> set (item_analysis db tenant activity allowed)"
    using that t by (auto simp: e sound_tally_def divide_le_eq)
qed

lemma keep_higher_members:
  "distinct (map fst best) \<Longrightarrow> snd ` set (keep_higher r best) \<subseteq> insert (snd r) (snd ` set best) \<and> distinct (map fst (keep_higher r best))"
  using set_update_distinct [of best _ "fst r" "snd r"] distinct_update [of best "fst r" "snd r"]
  by (auto simp: keep_higher_def split_beta split: option.splits)

lemma best_scores_are_stored:
  "set (best_scores_for_activity db tenant activity allowed) \<subseteq> set (scores db)"
proof -
  have "distinct (map fst best) \<Longrightarrow> snd ` set (fold keep_higher rows best) \<subseteq> snd ` set rows \<union> snd ` set best" for rows best
  proof (induction rows arbitrary: best)
    case (Cons r rows)
    note k = keep_higher_members [OF Cons.prems, of r]
    from Cons.IH [OF conjunct2 [OF k]] conjunct1 [OF k] show ?case by auto
  qed simp
  note kept = this
  have stored: "snd ` set (fold keep_higher rows []) \<subseteq> set (scores db)" if "snd ` set rows \<subseteq> set (scores db)" for rows
    using kept [of "[]" rows] that by simp
  show ?thesis unfolding best_scores_for_activity_def set_map by (rule stored) auto
qed

text \<open>The reports of a lab's checks carry no \<open>correct\<close> key: for a lab every check is reported as never passed.\<close>

theorem lab_checks_look_impossible:
  assumes "\<And>sc. sc \<in> set (scores db) \<Longrightarrow> \<exists>cs. sc_per_item sc = Checks cs" "x \<in> set (item_analysis db tenant activity allowed)"
  shows "is_correct x = 0 \<and> is_p_value x = 0"
proof -
  have t: "\<forall>(q, n, k) \<in> set (tally_item i t). k = 0" if "\<forall>(q, n, k) \<in> set t. k = 0" "distinct (map fst t)" "\<not> snd i" for i t
    using that set_update_distinct [OF that(2)] map_of_SomeD [of t "fst i"]
    by (auto simp: tally_item_def Let_def split_beta split: option.splits) fastforce+
  have "(\<forall>(q, n, k) \<in> set (fold tally_item is t). k = 0)" if "\<forall>(q, n, k) \<in> set t. k = 0" "sound_tally t" "\<forall>i \<in> set is. \<not> snd i" for "is" t
    using that
  proof (induction "is" arbitrary: t)
    case (Cons i "is")
    then show ?case using t [of t i] tally_item_sound [of t i] by (simp add: sound_tally_def)
  qed simp
  note zero = this
  have none: "\<forall>i \<in> set (concat (map (\<lambda>sc. marked_items (sc_per_item sc)) (best_scores_for_activity db tenant activity allowed))). \<not> snd i"
    using assms(1) best_scores_are_stored [of db tenant activity allowed] by fastforce
  have "\<forall>(q, n, k) \<in> set (fold tally_item (concat (map (\<lambda>sc. marked_items (sc_per_item sc))
      (best_scores_for_activity db tenant activity allowed))) []). k = 0"
    by (rule zero [OF _ _ none]) (simp_all add: sound_tally_def)
  then show ?thesis using assms(2) by (auto simp: item_analysis_def)
qed

section \<open>The two views of a cohort\<close>

lemma cohort_students_set:
  "set (cohort_students db tenant cohort) =
     {p \<in> set (people db). \<exists>e \<in> set (enrollments db). en_person e = pe_id p \<and> en_tenant e = pe_tenant p \<and> en_tenant e = tenant
        \<and> en_cohort e = cohort \<and> en_role e = ''student'' \<and> en_status e = ''active''}"
  by (auto simp: cohort_students_def)

text \<open>For the students whose enrolment and account are active, the workspace of a cohort and its dashboard show the same progress,
  the same last activity and the same learners at risk.\<close>

theorem workspace_and_dashboard_agree:
  assumes "cohort_overview db tenant cohort now (1 / 2) 14 = Inr (h, rows)"
  shows "(\<lambda>x. \<lparr>vl_person = pe_id (sl_person x), vl_pct = sl_pct x, vl_last = sl_last x, vl_at_risk = sl_at_risk x\<rparr>)
           ` {x \<in> set (cohort_lines db tenant cohort names now). is_current (sl_enrollment x, sl_person x)}
       = {v \<in> set rows. \<exists>p \<in> set (cohort_students db tenant cohort). pe_id p = vl_person v \<and> pe_status p = ''active''}"
proof -
  define line where "line = (\<lambda>p :: person_row. overview_line_of db tenant (active_course_ids db tenant cohort) (1 / 2) (now - 86400 * 14) (pe_id p))"
  have rows: "rows = map line (cohort_students db tenant cohort)"
    using assms by (auto simp: cohort_overview_def and_then_eq_Inr line_def Let_def)
  have vl: "vl_person (line p) = pe_id p" for p by (simp add: line_def overview_line_of_def Let_def)
  have same: "line p = line q" if "pe_id p = pe_id q" for p q using that by (simp add: line_def)
  have "{v \<in> set rows. \<exists>p \<in> set (cohort_students db tenant cohort). pe_id p = vl_person v \<and> pe_status p = ''active''}
      = line ` {p \<in> set (cohort_students db tenant cohort). pe_status p = ''active''}"
  proof (intro set_eqI iffI)
    fix v assume "v \<in> {v \<in> set rows. \<exists>p \<in> set (cohort_students db tenant cohort). pe_id p = vl_person v \<and> pe_status p = ''active''}"
    then obtain p q where "v = line q" "p \<in> set (cohort_students db tenant cohort)" "pe_id p = pe_id q" "pe_status p = ''active''"
      unfolding rows set_map using vl by auto
    then show "v \<in> line ` {p \<in> set (cohort_students db tenant cohort). pe_status p = ''active''}" using same [of q p] by simp
  next
    fix v assume "v \<in> line ` {p \<in> set (cohort_students db tenant cohort). pe_status p = ''active''}"
    then show "v \<in> {v \<in> set rows. \<exists>p \<in> set (cohort_students db tenant cohort). pe_id p = vl_person v \<and> pe_status p = ''active''}"
      unfolding rows set_map using vl by auto
  qed
  also have "\<dots> = (\<lambda>x. \<lparr>vl_person = pe_id (sl_person x), vl_pct = sl_pct x, vl_last = sl_last x, vl_at_risk = sl_at_risk x\<rparr>)
           ` {x \<in> set (cohort_lines db tenant cohort names now). is_current (sl_enrollment x, sl_person x)}"
  proof -
    define to_line where "to_line = student_line_of db tenant (active_course_ids db tenant cohort) names (now - 86400 * 14)"
    have fields: "sl_person (to_line (e, p)) = p" "sl_enrollment (to_line (e, p)) = e" for e p
      by (simp_all add: to_line_def student_line_of_def Let_def)
    have conv: "\<lparr>vl_person = pe_id (sl_person (to_line (e, p))), vl_pct = sl_pct (to_line (e, p)), vl_last = sl_last (to_line (e, p)),
        vl_at_risk = sl_at_risk (to_line (e, p))\<rparr> = line p" if "is_current (e, p)" for e p
      using that by (simp add: to_line_def student_line_of_def line_def overview_line_of_def Let_def)
    have set: "set (cohort_lines db tenant cohort names now)
        = to_line ` {(e, p). e \<in> set (enrollments db) \<and> p \<in> set (people db) \<and> pe_id p = en_person e \<and> pe_tenant p = en_tenant e
                       \<and> en_tenant e = tenant \<and> en_cohort e = cohort \<and> en_role e = ''student''}"
      by (auto simp: cohort_lines_def roster_rows_def to_line_def)
    show ?thesis
    proof (intro set_eqI iffI)
      fix v assume "v \<in> line ` {p \<in> set (cohort_students db tenant cohort). pe_status p = ''active''}"
      then obtain e p where v: "v = line p" and ep: "p \<in> set (people db)" "pe_status p = ''active''" "e \<in> set (enrollments db)"
        "en_person e = pe_id p" "en_tenant e = pe_tenant p" "en_tenant e = tenant" "en_cohort e = cohort" "en_role e = ''student''"
        "en_status e = ''active''" unfolding cohort_students_set by blast
      then have cur: "is_current (e, p)" by (simp add: is_current_def)
      have "to_line (e, p) \<in> {x \<in> set (cohort_lines db tenant cohort names now). is_current (sl_enrollment x, sl_person x)}"
        using ep cur unfolding set by (auto simp: fields)
      then show "v \<in> (\<lambda>x. \<lparr>vl_person = pe_id (sl_person x), vl_pct = sl_pct x, vl_last = sl_last x, vl_at_risk = sl_at_risk x\<rparr>)
           ` {x \<in> set (cohort_lines db tenant cohort names now). is_current (sl_enrollment x, sl_person x)}"
        unfolding v conv [OF cur, symmetric] by (rule imageI)
    next
      fix v assume "v \<in> (\<lambda>x. \<lparr>vl_person = pe_id (sl_person x), vl_pct = sl_pct x, vl_last = sl_last x, vl_at_risk = sl_at_risk x\<rparr>)
           ` {x \<in> set (cohort_lines db tenant cohort names now). is_current (sl_enrollment x, sl_person x)}"
      then obtain e p where ep: "e \<in> set (enrollments db)" "p \<in> set (people db)" "pe_id p = en_person e" "pe_tenant p = en_tenant e"
        "en_tenant e = tenant" "en_cohort e = cohort" "en_role e = ''student''" and cur: "is_current (e, p)"
        and v: "v = \<lparr>vl_person = pe_id (sl_person (to_line (e, p))), vl_pct = sl_pct (to_line (e, p)),
            vl_last = sl_last (to_line (e, p)), vl_at_risk = sl_at_risk (to_line (e, p))\<rparr>"
        unfolding set by (auto simp: fields)
      have "p \<in> {p \<in> set (cohort_students db tenant cohort). pe_status p = ''active''}"
        using ep cur unfolding cohort_students_set by (auto simp: is_current_def)
      then show "v \<in> line ` {p \<in> set (cohort_students db tenant cohort). pe_status p = ''active''}"
        unfolding v conv [OF cur] by (rule imageI)
    qed
  qed
  finally show ?thesis by simp
qed

text \<open>A suspended account that is still enrolled is reported at risk by the dashboard and never by the workspace.\<close>

theorem suspended_account_is_at_risk_on_the_dashboard:
  assumes "cohort_overview db tenant cohort now (1 / 2) 14 = Inr (h, rows)" "p \<in> set (cohort_students db tenant cohort)"
    "pe_status p \<noteq> ''active''" "mean_completion db tenant (pe_id p) (active_course_ids db tenant cohort) < 1 / 2"
    "last_scored db tenant (pe_id p) (active_course_ids db tenant cohort) = None"
  shows "(\<exists>v \<in> set rows. vl_person v = pe_id p \<and> vl_at_risk v)
     \<and> (\<forall>x \<in> set (cohort_lines db tenant cohort names now). sl_person x = p \<longrightarrow> \<not> sl_at_risk x)"
proof
  show "\<exists>v \<in> set rows. vl_person v = pe_id p \<and> vl_at_risk v"
  proof
    let ?v = "overview_line_of db tenant (active_course_ids db tenant cohort) (1 / 2) (now - 86400 * 14) (pe_id p)"
    show "?v \<in> set rows" using assms(1,2) by (auto simp: cohort_overview_def and_then_eq_Inr Let_def)
    show "vl_person ?v = pe_id p \<and> vl_at_risk ?v" using assms(4,5) by (simp add: overview_line_of_def Let_def falling_behind_def)
  qed
  show "\<forall>x \<in> set (cohort_lines db tenant cohort names now). sl_person x = p \<longrightarrow> \<not> sl_at_risk x"
    using assms(3) by (auto simp: cohort_lines_def student_line_of_def is_current_def Let_def)
qed

text \<open>Nothing of a course is hidden from its instructors: every activity is shown in its chapter or apart, also when its chapter
  is gone.\<close>

theorem workspace_shows_every_activity:
  assumes "act_tenant a = tenant" "act_course a = co_id c" "a \<in> set (activities (lib_db l))"
  shows "(\<exists>(h, acts) \<in> set (cb_chapters (course_block_of l tenant items (o', c))). act_chapter a = Some (cp_number h) \<and> a \<in> set acts)
     \<or> a \<in> set (cb_standalone (course_block_of l tenant items (o', c)))"
  using assms by (cases "act_chapter a") (auto simp: course_block_of_def Let_def image_iff)

section \<open>Forms\<close>

lemma words_from_clean:
  "\<lbrakk>x \<in> set (words_from w s); \<forall>c \<in> set w. \<not> py_isspace c\<rbrakk> \<Longrightarrow> x \<noteq> [] \<and> (\<forall>c \<in> set x. \<not> py_isspace c \<and> c \<in> set w \<union> set s)"
proof (induction s arbitrary: w)
  case Nil
  then show ?case by (simp split: if_splits)
next
  case (Cons c s)
  show ?case
  proof (cases "py_isspace c")
    case True
    then have "x \<in> set (words_from [] s) \<or> w \<noteq> [] \<and> x = rev w" using Cons.prems(1) by (cases "w = []") auto
    then show ?thesis
    proof
      assume "x \<in> set (words_from [] s)"
      from Cons.IH [OF this] show ?thesis by simp
    next
      assume "w \<noteq> [] \<and> x = rev w"
      then show ?thesis using Cons.prems(2) by simp
    qed
  next
    case False
    then have "x \<in> set (words_from (c # w) s)" using Cons.prems(1) by simp
    from Cons.IH [OF this] False Cons.prems(2) show ?thesis by simp
  qed
qed

text \<open>The addresses read from the form are never empty and hold no white space and no separator.\<close>

theorem split_emails_are_clean:
  assumes "x \<in> set (split_emails boxes)"
  shows "x \<noteq> '''' \<and> (\<forall>c \<in> set x. \<not> py_isspace c \<and> c \<noteq> CHR '','' \<and> c \<noteq> CHR '';'')"
proof -
  define plain where "plain = map (\<lambda>c. if c = CHR '','' \<or> c = CHR '';'' then CHR 0x0A else c)"
  from assms obtain f where "x \<in> set (words_from [] (plain f))" by (auto simp: split_emails_def py_words_def plain_def)
  from words_from_clean [OF this] have x: "x \<noteq> []" "\<forall>c \<in> set x. \<not> py_isspace c \<and> c \<in> set (plain f)" by auto
  have "c \<noteq> CHR '','' \<and> c \<noteq> CHR '';''" if "c \<in> set (plain f)" for c using that by (auto simp: plain_def split: if_splits)
  with x show ?thesis by blast
qed

text \<open>A reordering keeps exactly the submitted courses, so the service's check of the membership decides on what was sent.\<close>

theorem ranking_is_a_permutation: "mset (ranked_courses form ids) = mset ids"
proof -
  have "map (\<lambda>(pos, k, c). c) (map (\<lambda>(k, c). (case py_int (form c) of None \<Rightarrow> int k | Some n \<Rightarrow> n, k, c)) (enumerate n ids)) = ids" for n
    by (induction ids arbitrary: n) simp_all
  from arg_cong [where f = mset, OF this] show ?thesis unfolding ranked_courses_def by (simp only: mset_map mset_sort)
qed

text \<open>A track given to somebody who is not enrolled is refused beside the form, but the offerings of its courses are opened.\<close>

theorem refused_track_opens_offerings:
  assumes "role_guard db tenant ''instructor'' actor = Inr ()" "cohort_track_open db tenant cohort track"
    "find_enrollment (fold (open_offering tenant cohort) (map tc_course (courses_of_track db tenant track)) db) tenant cohort person = None"
  shows "change_roster_track db tenant actor cohort person track
     = Inr (fold (open_offering tenant cohort) (map tc_course (courses_of_track db tenant track)) db, Some ''enrollment not found'')"
  using assms
  by (simp add: change_roster_track_def assign_enrollment_track_def ensure_track_offerings_def cohort_track_or_404_def)

section \<open>Pages\<close>

lemma with_gaps_shown: "Some p \<in> set (with_gaps q ps) \<longleftrightarrow> p \<in> set ps"
  by (induction q ps rule: with_gaps.induct) auto

text \<open>The current page, the first and the last one are among the numbers shown, and a page that holds rows is within the bounds.\<close>

theorem pages_are_within_bounds:
  assumes "0 < limit" "skip < rows"
  shows "let p = pagination_context rows limit skip in
     pg_current p = skip div limit + 1 \<and> pg_current p \<le> pg_pages p \<and> rows \<le> pg_pages p * limit
     \<and> pg_start p \<le> pg_end p \<and> pg_end p \<le> rows \<and> {Some 1, Some (pg_current p), Some (pg_pages p)} \<subseteq> set (pg_items p)
     \<and> (\<forall>q. Some q \<in> set (pg_items p) \<longrightarrow> 1 \<le> q \<and> q \<le> pg_pages p)"
proof -
  define pages where "pages = (rows + limit - 1) div limit"
  have "rows - 1 = rows + limit - 1 - limit" using assms by simp
  have p: "pages = (rows - 1) div limit + 1"
    using div_add_self2 [of limit "rows - 1"] assms by (simp add: pages_def)
  have "skip div limit \<le> (rows - 1) div limit" using assms(2) by (intro div_le_mono) simp
  then have c: "skip div limit + 1 \<le> pages" by (simp add: p)
  have "rows - 1 < ((rows - 1) div limit + 1) * limit"
    using assms(1) by (metis add.commute dividend_less_div_times mult.commute mult_Suc plus_1_eq_Suc)
  then have r: "rows \<le> pages * limit" using assms(2) by (simp add: p)
  have one: "max 1 pages = pages" by (simp add: p)
  have cur: "min pages (skip div limit + 1) = skip div limit + 1" using c by simp
  show ?thesis
    using c r assms unfolding pagination_context_def Let_def pages_def [symmetric] one cur
    by (auto simp: with_gaps_shown)
qed

section \<open>Witness\<close>

text \<open>A facilitator of a cohort, without any staff role, and a submission of one of its students.\<close>

definition tutor_db :: academy_db where
  "tutor_db = empty_db\<lparr>
     enrollments := [\<lparr>en_id = 9, en_tenant = 11, en_cohort = 4, en_person = 3, en_track = None, en_role = ''student'',
       en_status = ''active'', en_access_ends_at = None\<rparr>],
     offerings := [\<lparr>of_id = 33, of_tenant = 11, of_cohort = 4, of_course = 2, of_status = ''active'',
                    of_starts_at = None, of_ends_at = None\<rparr>],
     activities := [\<lparr>act_id = 20, act_tenant = 11, act_course = 2, act_chapter = None, act_type = ''mcq_test'', act_bank = None,
       act_title = ''Essay'', act_pass_threshold = 1 / 2, act_max_attempts = None, act_mode = ''graded'', act_grading = ''manual'',
       act_weight = 1, act_question_count = None\<rparr>],
     submissions := [\<lparr>sub_id = 40, sub_tenant = 11, sub_activity = 20, sub_person = 3, sub_answers = Answered [], sub_attempt_no = 1,
       sub_created_at = 10\<rparr>],
     nominations := [\<lparr>fn_id = 50, fn_tenant = 11, fn_person = 8, fn_nominated_by = None, fn_scope = ''cohort'', fn_cohort = Some 4,
       fn_offering = None, fn_status = ''active'', fn_activated_at = Some 1, fn_revoked_at = None, fn_activation_reason = None,
       fn_created_at = 0\<rparr>],
     requirements := [\<lparr>fr_id = 51, fr_tenant = 11, fr_nomination = 50, fr_course = 2\<rparr>], next_id := 100\<rparr>"

lemma tutor_may_grade:
  "submission_target tutor_db 11 40 = Some (2, 3)" "assessable tutor_db 11 8 2 3 = Inr ()"
  "\<not> has_global_staff_access (facilitator_access_of tutor_db 11 8)"
  by code_simp+

theorem scores_are_set_in_scope_witness:
  "\<exists>db' sc. override_page id tutor_db 50 11 8 40 1 1 ''read'' = Inr (db', sc) \<and> facilitates tutor_db 11 8 2 3"
proof -
  have f: "find (\<lambda>s. sub_id s = 40) (submissions tutor_db) \<noteq> None" "submissions tutor_db \<noteq> []"
    by (simp_all add: tutor_db_def)
  have t: "list_all (\<lambda>s. sub_tenant s = 11 \<and> sub_person s = 3) (submissions tutor_db)" "list_all (\<lambda>a. act_course a = 2) (activities tutor_db)"
    by (simp_all add: tutor_db_def)
  obtain s where s: "find (\<lambda>s. sub_id s = 40) (submissions tutor_db) = Some s" "sub_tenant s = 11"
    using f(1) t(1) by (auto simp: list_all_iff dest: find_Some_in)
  obtain db' sc where o: "override_page id tutor_db 50 11 8 40 1 1 ''read'' = Inr (db', sc)"
    using tutor_may_grade(1,2) s by (simp add: override_page_def override_score_def Let_def)
  have d: "distinct (map of_id (offerings tutor_db))" by code_simp
  from scores_are_set_in_scope [OF o d] tutor_may_grade(3) t have "facilitates tutor_db 11 8 2 3"
    unfolding global_staff by (auto simp: list_all_iff)
  with o show ?thesis by blast
qed

end
