(* ===== verification/Console_Proxy.thy ===== *)
theory Console_Proxy
  imports Lab_Model
begin

text \<open>
  The helpers of the console proxy (\<open>web/console_proxy.py\<close>) and the upstream address of a console (\<open>web/labs.py\<close>), over the parts of \<open>urllib.parse\<close> and \<open>ipaddress\<close> they
  call (Python 3.12). A \<open>string\<close> is Latin-1 text, or the bytes of a body; on Latin-1 text the NFKC check of \<open>urlsplit\<close> never
  fails. Whether the IPv6 literal in a bracketed network location is well formed is the argument \<open>bracket_ok\<close>.
\<close>

section \<open>Strings\<close>

definition before_char :: "char \<Rightarrow> string \<Rightarrow> string" where
  "before_char c s = takeWhile (\<lambda>d. d \<noteq> c) s"

definition after_char :: "char \<Rightarrow> string \<Rightarrow> string" where
  "after_char c s = drop 1 (dropWhile (\<lambda>d. d \<noteq> c) s)"

text \<open>\<open>s.split(c)\<close> and \<open>c.join(parts)\<close>.\<close>

fun split_on :: "char \<Rightarrow> string \<Rightarrow> string list" where
  "split_on c [] = [[]]"
| "split_on c (d # s) =
     (if d = c then [] # split_on c s
      else case split_on c s of [] \<Rightarrow> [[d]] | w # ws \<Rightarrow> (d # w) # ws)"

fun join_on :: "char \<Rightarrow> string list \<Rightarrow> string" where
  "join_on c [] = []"
| "join_on c [w] = w"
| "join_on c (w # ws) = w @ c # join_on c ws"

definition is_dec :: "char \<Rightarrow> bool" where
  "is_dec c = (48 \<le> (of_char c :: nat) \<and> (of_char c :: nat) \<le> 57)"

definition is_alpha :: "char \<Rightarrow> bool" where
  "is_alpha c = (let n = of_char c :: nat in 65 \<le> n \<and> n \<le> 90 \<or> 97 \<le> n \<and> n \<le> 122)"

definition dec_value :: "string \<Rightarrow> nat" where
  "dec_value s = foldl (\<lambda>n c. 10 * n + ((of_char c :: nat) - 48)) 0 s"

text \<open>\<open>str.encode("utf-8")\<close>.\<close>

definition utf8_char :: "char \<Rightarrow> string" where
  "utf8_char c =
     (let n = of_char c :: nat in if n < 128 then [c] else [char_of (192 + n div 64), char_of (128 + n mod 64)])"

definition utf8_encode :: "string \<Rightarrow> string" where
  "utf8_encode s = concat (map utf8_char s)"

section \<open>urllib.parse\<close>

record split_url =
  us_scheme :: string
  us_netloc :: string
  us_path :: string
  us_query :: string
  us_fragment :: string

definition scheme_char :: "char \<Rightarrow> bool" where
  "scheme_char c = (is_alpha c \<or> is_dec c \<or> c \<in> {CHR ''+'', CHR ''-'', CHR ''.''})"

definition is_c0_or_space :: "char \<Rightarrow> bool" where
  "is_c0_or_space c = ((of_char c :: nat) \<le> 32)"

definition unsafe_url_byte :: "char \<Rightarrow> bool" where
  "unsafe_url_byte c = ((of_char c :: nat) \<in> {9, 10, 13})"

definition clean_url :: "string \<Rightarrow> string" where
  "clean_url url = filter (\<lambda>c. \<not> unsafe_url_byte c) (dropWhile is_c0_or_space url)"

definition cut_scheme :: "string \<Rightarrow> string \<Rightarrow> string \<times> string" where
  "cut_scheme dflt url =
     (let head = before_char CHR '':'' url
      in if CHR '':'' \<in> set url \<and> head \<noteq> [] \<and> is_alpha (hd head) \<and> list_all scheme_char head
         then (py_lower head, after_char CHR '':'' url) else (dflt, url))"

definition netloc_end :: "char \<Rightarrow> bool" where
  "netloc_end c = (c \<in> {CHR ''/'', CHR ''?'', CHR ''#''})"

definition cut_netloc :: "string \<Rightarrow> string \<times> string" where
  "cut_netloc url =
     (if starts_with url ''//''
      then (takeWhile (\<lambda>c. \<not> netloc_end c) (drop 2 url), dropWhile (\<lambda>c. \<not> netloc_end c) (drop 2 url))
      else ([], url))"

definition netloc_ok :: "(string \<Rightarrow> bool) \<Rightarrow> string \<Rightarrow> bool" where
  "netloc_ok bracket_ok n =
     (if CHR ''['' \<in> set n \<and> CHR '']'' \<in> set n then bracket_ok n else CHR ''['' \<notin> set n \<and> CHR '']'' \<notin> set n)"

definition urlsplit :: "(string \<Rightarrow> bool) \<Rightarrow> string \<Rightarrow> string \<Rightarrow> split_url result" where
  "urlsplit bracket_ok dflt url =
     (case cut_scheme dflt (clean_url url) of (scheme, rest) \<Rightarrow>
        case cut_netloc rest of (netloc, tail) \<Rightarrow>
          ensure (netloc_ok bracket_ok netloc) (ValueError ''Invalid IPv6 URL'')
            (let hashless = before_char CHR ''#'' tail
             in Inr \<lparr>us_scheme = scheme, us_netloc = netloc, us_path = before_char CHR ''?'' hashless,
                     us_query = after_char CHR ''?'' hashless, us_fragment = after_char CHR ''#'' tail\<rparr>))"

definition uses_relative :: "string list" where
  "uses_relative = ['''', ''ftp'', ''http'', ''gopher'', ''nntp'', ''imap'', ''wais'', ''file'', ''https'', ''shttp'', ''mms'',
     ''prospero'', ''rtsp'', ''rtsps'', ''rtspu'', ''sftp'', ''svn'', ''svn+ssh'', ''ws'', ''wss'']"

definition uses_netloc :: "string list" where
  "uses_netloc = ['''', ''ftp'', ''http'', ''gopher'', ''nntp'', ''telnet'', ''imap'', ''wais'', ''file'', ''mms'', ''https'', ''shttp'',
     ''snews'', ''prospero'', ''rtsp'', ''rtsps'', ''rtspu'', ''rsync'', ''svn'', ''svn+ssh'', ''sftp'', ''nfs'', ''git'', ''git+ssh'',
     ''ws'', ''wss'', ''itms-services'']"

definition uses_params :: "string list" where
  "uses_params = ['''', ''ftp'', ''hdl'', ''prospero'', ''http'', ''imap'', ''https'', ''shttp'', ''rtsp'', ''rtsps'', ''rtspu'', ''sip'',
     ''sips'', ''mms'', ''sftp'', ''tel'']"

text \<open>The parameters of the last segment: everything from its first semicolon.\<close>

definition last_segment :: "string \<Rightarrow> string" where
  "last_segment path = rev (before_char CHR ''/'' (rev path))"

definition cut_params :: "string \<Rightarrow> string \<Rightarrow> string \<times> string" where
  "cut_params scheme path =
     (let seg = last_segment path
      in if scheme \<in> set uses_params \<and> CHR '';'' \<in> set seg
         then (take (length path - length seg) path @ before_char CHR '';'' seg, after_char CHR '';'' seg)
         else (path, ''''))"

definition urlunsplit :: "split_url \<Rightarrow> string" where
  "urlunsplit u =
     (let path = us_path u;
          p1 = (if us_netloc u \<noteq> '''' \<or> us_scheme u \<noteq> '''' \<and> us_scheme u \<in> set uses_netloc \<and> \<not> starts_with path ''//''
                then ''//'' @ us_netloc u @ (if path \<noteq> '''' \<and> \<not> starts_with path ''/'' then ''/'' @ path else path) else path);
          p2 = (if us_scheme u \<noteq> '''' then us_scheme u @ '':'' @ p1 else p1);
          p3 = (if us_query u \<noteq> '''' then p2 @ ''?'' @ us_query u else p2)
      in if us_fragment u \<noteq> '''' then p3 @ ''#'' @ us_fragment u else p3)"

definition with_params :: "string \<Rightarrow> string \<Rightarrow> string" where
  "with_params path params = (if params \<noteq> '''' then path @ '';'' @ params else path)"

definition resolve_segment :: "string \<Rightarrow> string list \<Rightarrow> string list" where
  "resolve_segment seg acc = (if seg = ''..'' then butlast acc else if seg = ''.'' then acc else acc @ [seg])"

definition resolve_path :: "string list \<Rightarrow> string" where
  "resolve_path segs =
     (let r = fold resolve_segment segs [];
          r' = (if last segs \<in> {''.'', ''..''} then r @ [''''] else r)
      in if join_on CHR ''/'' r' = '''' then ''/'' else join_on CHR ''/'' r')"

definition drop_empty_inner :: "string list \<Rightarrow> string list" where
  "drop_empty_inner segs =
     (case segs of [] \<Rightarrow> [] | [s] \<Rightarrow> [s]
      | s # rest \<Rightarrow> s # filter (\<lambda>x. x \<noteq> '''') (butlast rest) @ [last rest])"

definition joined_segments :: "string \<Rightarrow> string \<Rightarrow> string list" where
  "joined_segments base_path path =
     (if starts_with path ''/'' then split_on CHR ''/'' path
      else let base = split_on CHR ''/'' base_path; base' = (if last base \<noteq> '''' then butlast base else base)
           in drop_empty_inner (base' @ split_on CHR ''/'' path))"

definition urljoin :: "(string \<Rightarrow> bool) \<Rightarrow> string \<Rightarrow> string \<Rightarrow> string result" where
  "urljoin bracket_ok base url =
     (if base = '''' then Inr url else if url = '''' then Inr base
      else and_then (urlsplit bracket_ok '''' base) (\<lambda>b.
           and_then (urlsplit bracket_ok (us_scheme b) url) (\<lambda>u.
             case cut_params (us_scheme b) (us_path b) of (bpath, bparams) \<Rightarrow>
             case cut_params (us_scheme u) (us_path u) of (path, params) \<Rightarrow>
               if us_scheme u \<noteq> us_scheme b \<or> us_scheme u \<notin> set uses_relative then Inr url
               else if us_scheme u \<in> set uses_netloc \<and> us_netloc u \<noteq> ''''
               then Inr (urlunsplit (u\<lparr>us_path := with_params path params\<rparr>))
               else let netloc = (if us_scheme u \<in> set uses_netloc then us_netloc b else us_netloc u)
                    in if path = '''' \<and> params = ''''
                       then Inr (urlunsplit (u\<lparr>us_netloc := netloc, us_path := with_params bpath bparams,
                                   us_query := (if us_query u = '''' then us_query b else us_query u)\<rparr>))
                       else Inr (urlunsplit (u\<lparr>us_netloc := netloc,
                                   us_path := with_params (resolve_path (joined_segments bpath path)) params\<rparr>)))))"

text \<open>\<open>SplitResult.port\<close>.\<close>

definition netloc_port :: "string \<Rightarrow> nat option result" where
  "netloc_port netloc =
     (let hostinfo = rev (before_char CHR ''@'' (rev netloc));
          port = (if CHR ''['' \<in> set hostinfo
                  then after_char CHR '':'' (after_char CHR '']'' (after_char CHR ''['' hostinfo))
                  else after_char CHR '':'' hostinfo)
      in if port = '''' then Inr None
         else if list_all is_dec port \<and> dec_value port \<le> 65535 then Inr (Some (dec_value port))
         else Inl (ValueError ''port''))"

text \<open>\<open>quote(s, safe)\<close>.\<close>

definition always_safe :: "char \<Rightarrow> bool" where
  "always_safe c = (is_alpha c \<or> is_dec c \<or> c \<in> {CHR ''_'', CHR ''.'', CHR ''-'', CHR ''~''})"

definition hex_digit :: "nat \<Rightarrow> char" where
  "hex_digit n = (if n < 10 then char_of (48 + n) else char_of (55 + n))"

definition quote_byte :: "string \<Rightarrow> char \<Rightarrow> string" where
  "quote_byte safe c =
     (if always_safe c \<or> c \<in> set safe \<and> (of_char c :: nat) < 128 then [c]
      else [CHR ''%'', hex_digit ((of_char c :: nat) div 16), hex_digit ((of_char c :: nat) mod 16)])"

definition quote :: "string \<Rightarrow> string \<Rightarrow> string" where
  "quote safe s = concat (map (quote_byte safe) (utf8_encode s))"

section \<open>ipaddress\<close>

definition parse_octet :: "string \<Rightarrow> nat option" where
  "parse_octet s =
     (if s \<noteq> '''' \<and> list_all is_dec s \<and> length s \<le> 3 \<and> (s = ''0'' \<or> hd s \<noteq> CHR ''0'') \<and> dec_value s \<le> 255
      then Some (dec_value s) else None)"

type_synonym ipv4 = "nat \<times> nat \<times> nat \<times> nat"

definition parse_ipv4 :: "string \<Rightarrow> ipv4 option" where
  "parse_ipv4 s =
     (if CHR ''/'' \<in> set s then None
      else case map parse_octet (split_on CHR ''.'' s) of
             [Some a, Some b, Some c, Some d] \<Rightarrow> Some (a, b, c, d) | _ \<Rightarrow> None)"

definition show_ipv4 :: "ipv4 \<Rightarrow> string" where
  "show_ipv4 = (\<lambda>(a, b, c, d). join_on CHR ''.'' [show_nat a, show_nat b, show_nat c, show_nat d])"

definition is_private_ipv4 :: "ipv4 \<Rightarrow> bool" where
  "is_private_ipv4 = (\<lambda>(a, b, c, d).
     (a = 0 \<or> a = 10 \<or> a = 127 \<or> (a, b) = (169, 254) \<or> a = 172 \<and> 16 \<le> b \<and> b < 32 \<or> (a, b, c) = (192, 0, 0)
      \<or> (a, b, c) = (192, 0, 2) \<or> (a, b) = (192, 168) \<or> a = 198 \<and> (b = 18 \<or> b = 19) \<or> (a, b, c) = (198, 51, 100)
      \<or> (a, b, c) = (203, 0, 113) \<or> 240 \<le> a)
     \<and> (a, b, c, d) \<notin> {(192, 0, 0, 9), (192, 0, 0, 10)})"

definition is_loopback_ipv4 :: "ipv4 \<Rightarrow> bool" where
  "is_loopback_ipv4 = (\<lambda>(a, b, c, d). a = 127)"

definition is_link_local_ipv4 :: "ipv4 \<Rightarrow> bool" where
  "is_link_local_ipv4 = (\<lambda>(a, b, c, d). (a, b) = (169, 254))"

definition is_multicast_ipv4 :: "ipv4 \<Rightarrow> bool" where
  "is_multicast_ipv4 = (\<lambda>(a, b, c, d). 224 \<le> a \<and> a < 240)"

section \<open>Management addresses\<close>

text \<open>The stored value is a string or absent; \<open>str(None)\<close> is no address.\<close>

definition safe_mgmt_address :: "string option \<Rightarrow> string option" where
  "safe_mgmt_address v =
     (case parse_ipv4 (case v of None \<Rightarrow> ''None'' | Some s \<Rightarrow> s) of
        None \<Rightarrow> None
      | Some ip \<Rightarrow>
          if \<not> is_private_ipv4 ip \<or> is_loopback_ipv4 ip \<or> is_link_local_ipv4 ip \<or> ip = (0, 0, 0, 0) \<or> is_multicast_ipv4 ip
          then None else Some (show_ipv4 ip))"

section \<open>Body rewriting\<close>

definition JSPROXY :: string where "JSPROXY = ''/jsproxy''"
definition WEBFIG :: string where "WEBFIG = ''/webfig''"

definition WEBFIG_ROOT_PATHS :: "string list" where
  "WEBFIG_ROOT_PATHS = [JSPROXY, WEBFIG]"

definition MAX_WEBFIG_ROOT_PATH :: nat where
  "MAX_WEBFIG_ROOT_PATH = Max (set (map length WEBFIG_ROOT_PATHS))"

definition WEBFIG_SCRIPT_TYPES :: "string list" where
  "WEBFIG_SCRIPT_TYPES = [''application/javascript'', ''application/x-javascript'']"

definition should_rewrite_webfig_body :: "string option \<Rightarrow> bool" where
  "should_rewrite_webfig_body content_type =
     (case content_type of None \<Rightarrow> False
      | Some ct \<Rightarrow> let media = py_lower (py_strip (before_char CHR '';'' ct))
                  in starts_with media ''text/'' \<or> media \<in> set WEBFIG_SCRIPT_TYPES)"

record rewriter =
  rw_prefix :: string
  rw_pending :: string

definition new_rewriter :: "string \<Rightarrow> rewriter result" where
  "new_rewriter prefix =
     ensure (starts_with prefix ''/'' \<and> \<not> starts_with (rev prefix) ''/'') (ValueError ''console prefix'')
       (Inr \<lparr>rw_prefix = utf8_encode prefix, rw_pending = ''''\<rparr>)"

text \<open>\<open>data.find(pattern)\<close>.\<close>

fun find_bytes :: "string \<Rightarrow> string \<Rightarrow> nat option" where
  "find_bytes pat [] = (if pat = [] then Some 0 else None)"
| "find_bytes pat (c # s) = (if starts_with (c # s) pat then Some 0 else map_option Suc (find_bytes pat s))"

text \<open>\<open>min(matches, key=...)\<close> keeps the first of equal positions.\<close>

definition next_root :: "string \<Rightarrow> (nat \<times> string) option" where
  "next_root data =
     (case (find_bytes JSPROXY data, find_bytes WEBFIG data) of
        (None, None) \<Rightarrow> None
      | (Some m, None) \<Rightarrow> Some (m, JSPROXY)
      | (None, Some n) \<Rightarrow> Some (n, WEBFIG)
      | (Some m, Some n) \<Rightarrow> if m \<le> n then Some (m, JSPROXY) else Some (n, WEBFIG))"

lemma find_bytes_at: "find_bytes pat s = Some m \<Longrightarrow> starts_with (drop m s) pat \<and> m \<le> length s"
  by (induction pat s arbitrary: m rule: find_bytes.induct) (auto split: if_splits)

lemma next_root_at: "next_root s = Some (m, rp) \<Longrightarrow> starts_with (drop m s) rp \<and> m \<le> length s \<and> rp \<in> {JSPROXY, WEBFIG}"
  by (auto simp: next_root_def dest: find_bytes_at split: option.splits if_splits)

lemma next_root_shrinks:
  assumes "next_root s = Some (m, rp)" shows "length (drop (m + length rp) s) < length s"
proof -
  have a: "starts_with (drop m s) rp" "m \<le> length s" "rp \<in> {JSPROXY, WEBFIG}" using next_root_at [OF assms] by auto
  then obtain t where "drop m s = rp @ t" by (auto simp: starts_with_iff)
  then have "length (drop m s) = length rp + length t" by simp
  then have "length s - m = length rp + length t" by simp
  moreover have "0 < length rp" using a(3) by (auto simp: JSPROXY_def WEBFIG_def)
  ultimately show ?thesis by (cases rp) simp_all
qed

function feed_loop :: "string \<Rightarrow> string \<Rightarrow> string \<times> string" where
  "feed_loop prefix data =
     (case next_root data of
        Some (m, rp) \<Rightarrow>
          (case feed_loop prefix (drop (m + length rp) data) of
             (output, pending) \<Rightarrow> (take m data @ prefix @ rp @ output, pending))
      | None \<Rightarrow>
          let keep = MAX_WEBFIG_ROOT_PATH - 1
          in if length data > keep then (take (length data - keep) data, drop (length data - keep) data) else ([], data))"
  by pat_completeness auto
termination by (relation "measure (length \<circ> snd)") (auto dest: next_root_shrinks)

declare feed_loop.simps [simp del]

definition feed :: "string \<Rightarrow> rewriter \<Rightarrow> rewriter \<times> string" where
  "feed chunk r =
     (case feed_loop (rw_prefix r) (rw_pending r @ chunk) of (output, pending) \<Rightarrow> (r\<lparr>rw_pending := pending\<rparr>, output))"

definition finish :: "rewriter \<Rightarrow> rewriter \<times> string" where
  "finish r = (r\<lparr>rw_pending := ''''\<rparr>, rw_pending r)"

section \<open>Paths\<close>

definition QUOTE_SAFE :: string where
  "QUOTE_SAFE = ''/:@!$&'' @ [CHR 39] @ ''()*+,;=-._~''"

definition safe_subpath :: "string \<Rightarrow> string result" where
  "safe_subpath subpath =
     ensure (\<not> list_ex (\<lambda>c. (of_char c :: nat) < 32 \<or> (of_char c :: nat) = 127 \<or> (of_char c :: nat) = 92) subpath)
       (BadRequestError ''invalid console path'')
     (ensure (\<not> starts_with subpath ''/'' \<and> \<not> contains subpath ''//'') (BadRequestError ''invalid console path'')
     (ensure (\<not> list_ex (\<lambda>seg. seg = ''..'' \<or> seg = ''.'') (split_on CHR ''/'' subpath)) (BadRequestError ''invalid console path'')
       (Inr (quote QUOTE_SAFE subpath))))"

section \<open>Cookies\<close>

definition DEVICE_COOKIE_PREFIX :: string where "DEVICE_COOKIE_PREFIX = ''wf_''"
definition MAX_DEVICE_COOKIES :: nat where "MAX_DEVICE_COOKIES = 8"

text \<open>\<open>re.match("^[p]{lo,hi}$", s)\<close>, where \<open>$\<close> also matches before a final line feed.\<close>

definition matches_class :: "(char \<Rightarrow> bool) \<Rightarrow> nat \<Rightarrow> nat \<Rightarrow> string \<Rightarrow> bool" where
  "matches_class p lo hi s =
     (let whole = (\<lambda>t. lo \<le> length t \<and> length t \<le> hi \<and> list_all p t)
      in whole s \<or> s \<noteq> [] \<and> (of_char (last s) :: nat) = 10 \<and> whole (butlast s))"

definition cookie_name_char :: "char \<Rightarrow> bool" where
  "cookie_name_char c = (is_alpha c \<or> is_dec c \<or> c \<in> {CHR ''_'', CHR ''.'', CHR ''-''})"

definition cookie_value_char :: "char \<Rightarrow> bool" where
  "cookie_value_char c = (let n = of_char c :: nat
     in n = 33 \<or> 35 \<le> n \<and> n \<le> 43 \<or> 45 \<le> n \<and> n \<le> 58 \<or> 60 \<le> n \<and> n \<le> 91 \<or> 93 \<le> n \<and> n \<le> 126)"

definition cookie_name_ok :: "string \<Rightarrow> bool" where
  "cookie_name_ok = matches_class cookie_name_char 1 64"

definition cookie_value_ok :: "string \<Rightarrow> bool" where
  "cookie_value_ok = matches_class cookie_value_char 0 2048"

definition device_pairs :: "(string \<times> string) list \<Rightarrow> (string \<times> string) list" where
  "device_pairs cookies =
     [(drop 3 name, v). (name, v) \<leftarrow> cookies, starts_with name DEVICE_COOKIE_PREFIX \<and> cookie_value_ok v \<and> cookie_name_ok (drop 3 name)]"

fun join_pairs :: "(string \<times> string) list \<Rightarrow> string" where
  "join_pairs [] = ''''"
| "join_pairs [(n, v)] = n @ ''='' @ v"
| "join_pairs ((n, v) # ps) = n @ ''='' @ v @ ''; '' @ join_pairs ps"

definition device_cookie_header :: "(string \<times> string) list \<Rightarrow> string option" where
  "device_cookie_header cookies = or_none (Some (join_pairs (take MAX_DEVICE_COOKIES (device_pairs cookies))))"

text \<open>\<open>re.fullmatch("-?[0-9]{1,10}", v)\<close>.\<close>

definition max_age_ok :: "string \<Rightarrow> bool" where
  "max_age_ok v =
     (let ds = (case v of c # r \<Rightarrow> if c = CHR ''-'' then r else v | [] \<Rightarrow> v)
      in 1 \<le> length ds \<and> length ds \<le> 10 \<and> list_all is_dec ds)"

definition max_age_part :: "string \<Rightarrow> string" where
  "max_age_part attr =
     (let key = before_char CHR ''='' attr; v = py_strip (after_char CHR ''='' attr)
      in if py_lower (py_strip key) = ''max-age'' \<and> max_age_ok v then ''; Max-Age='' @ v else '''')"

definition rewrite_set_cookie :: "string \<Rightarrow> string \<Rightarrow> bool \<Rightarrow> string option" where
  "rewrite_set_cookie raw prefix secure =
     (let parts = map py_strip (split_on CHR '';'' raw);
          name = py_strip (before_char CHR ''='' (hd parts));
          v = py_strip (after_char CHR ''='' (hd parts))
      in if CHR ''='' \<notin> set (hd parts) \<or> \<not> cookie_name_ok name \<or> \<not> cookie_value_ok v then None
         else Some (DEVICE_COOKIE_PREFIX @ name @ ''='' @ v @ ''; Path='' @ prefix @ ''/; HttpOnly; SameSite=Strict''
                    @ concat (map max_age_part (tl parts)) @ (if secure then ''; Secure'' else '''')))"

section \<open>Redirects\<close>

definition rewrite_location :: "(string \<Rightarrow> bool) \<Rightarrow> string \<Rightarrow> string \<Rightarrow> string \<Rightarrow> string option result" where
  "rewrite_location bracket_ok location target prefix =
     and_then (urlsplit bracket_ok '''' target) (\<lambda>base.
     and_then (urljoin bracket_ok target location) (\<lambda>joined.
     and_then (urlsplit bracket_ok '''' joined) (\<lambda>loc.
       if us_scheme loc \<noteq> us_scheme base \<or> us_netloc loc \<noteq> us_netloc base then Inr None
       else let path = (if us_path loc = '''' then ''/'' else us_path loc);
                out = prefix @ (if starts_with path ''/'' then path else ''/'' @ path)
            in Inr (Some (if us_query loc = '''' then out else out @ ''?'' @ us_query loc)))))"

section \<open>Upstream addresses\<close>

text \<open>The stored kind of a node, and the URL its console is proxied to; a port of 0 is as absent.\<close>

definition is_router :: "console_spec \<Rightarrow> bool" where
  "is_router spec = starts_with (or_empty (cs_kind spec)) ''vr-''"

definition console_target :: "string \<Rightarrow> lab_instance \<Rightarrow> string \<Rightarrow> string option" where
  "console_target lab_console_host i node =
     (case map_of (li_consoles i) node of None \<Rightarrow> None
      | Some spec \<Rightarrow>
          if is_router spec then map_option (\<lambda>addr. ''http://'' @ addr @ ''/'') (safe_mgmt_address (cs_mgmt spec))
          else (case cs_port spec of None \<Rightarrow> None
                | Some port \<Rightarrow> if port = 0 then None else Some (''http://'' @ lab_console_host @ '':'' @ show_nat port @ ''/'')))"

definition strip_slashes :: "string \<Rightarrow> string" where
  "strip_slashes s = rev (dropWhile (\<lambda>c. c = CHR ''/'') (rev s))"

definition subpath_target :: "string \<Rightarrow> string \<Rightarrow> uuid \<Rightarrow> string \<Rightarrow> string \<Rightarrow> string" where
  "subpath_target lab_console_host target i node subpath =
     (if starts_with target (''http://'' @ lab_console_host @ '':'')
      then strip_slashes target @ ''/labs/instances/'' @ uuid_str i @ ''/console/'' @ node @ ''/'' @ subpath
      else strip_slashes target @ ''/'' @ subpath)"

definition console_live :: "lab_instance \<Rightarrow> bool" where
  "console_live i = (li_status i = ''active'' \<and> li_error i = None \<and> li_presence i = ''present'')"

end
