(* ===== verification/Console_Properties.thy ===== *)
theory Console_Properties
  imports Console_Proxy
begin

text \<open>
  What the console proxy keeps: a streamed body is the body rewritten in one pass, a redirect of a device stays below
  its prefix unless it repeats the device's own host, a device sees only its own cookies and a console path stays on its node.
\<close>

section \<open>Streaming\<close>

text \<open>The reference: one pass over the whole body.\<close>

definition root_here :: "string \<Rightarrow> string option" where
  "root_here s = (if starts_with s JSPROXY then Some JSPROXY else if starts_with s WEBFIG then Some WEBFIG else None)"

lemma root_here_length: "root_here s = Some rp \<Longrightarrow> 0 < length rp \<and> length rp \<le> length s \<and> length rp \<le> 8"
  by (auto simp: root_here_def starts_with_iff JSPROXY_def WEBFIG_def split: if_splits)

function rewritten :: "string \<Rightarrow> string \<Rightarrow> string" where
  "rewritten prefix s =
     (case root_here s of
        Some rp \<Rightarrow> prefix @ rp @ rewritten prefix (drop (length rp) s)
      | None \<Rightarrow> (case s of [] \<Rightarrow> [] | c # t \<Rightarrow> c # rewritten prefix t))"
  by pat_completeness auto
termination
proof (relation "measure (length \<circ> snd)")
  fix prefix s rp assume "root_here s = Some rp"
  from root_here_length [OF this]
  show "((prefix, drop (length rp) s), (prefix, s)) \<in> measure (length \<circ> snd)" by (cases rp; cases s) auto
qed auto

declare rewritten.simps [simp del]

lemma rewritten_root: "rewritten prefix (JSPROXY @ s) = prefix @ JSPROXY @ rewritten prefix s"
    "rewritten prefix (WEBFIG @ s) = prefix @ WEBFIG @ rewritten prefix s"
proof -
  have "root_here (JSPROXY @ s) = Some JSPROXY" by (simp add: root_here_def)
  then show "rewritten prefix (JSPROXY @ s) = prefix @ JSPROXY @ rewritten prefix s" by (subst rewritten.simps) simp
  have "\<not> starts_with (WEBFIG @ s) JSPROXY" by (simp add: WEBFIG_def JSPROXY_def)
  then have "root_here (WEBFIG @ s) = Some WEBFIG" by (simp add: root_here_def)
  then show "rewritten prefix (WEBFIG @ s) = prefix @ WEBFIG @ rewritten prefix s" by (subst rewritten.simps) simp
qed

lemma rewritten_skip: "root_here (c # s) = None \<Longrightarrow> rewritten prefix (c # s) = c # rewritten prefix s"
  by (subst rewritten.simps) simp

lemma rewritten_skips:
  "(\<And>i. i < n \<Longrightarrow> root_here (drop i s) = None) \<Longrightarrow> n \<le> length s \<Longrightarrow>
   rewritten prefix s = take n s @ rewritten prefix (drop n s)"
proof (induction n arbitrary: s)
  case (Suc n)
  then obtain c t where s: "s = c # t" by (cases s) auto
  have "root_here (drop i t) = None" if "i < n" for i using Suc.prems(1) [of "Suc i"] that s by simp
  then have "rewritten prefix t = take n t @ rewritten prefix (drop n t)" using Suc.IH [of t] Suc.prems(2) s by simp
  moreover have "root_here (c # t) = None" using Suc.prems(1) [of 0] s by simp
  ultimately show ?case using s by (simp add: rewritten_skip)
qed simp

text \<open>A root begins with the only slash it has, so a match that runs over the end of the data hides no complete one.\<close>

lemma starts_at:
  assumes "starts_with (drop i s) p" "k < length p" shows "i + k < length s \<and> s ! (i + k) = p ! k"
proof -
  obtain t where t: "drop i s = p @ t" using assms(1) by (auto simp: starts_with_iff)
  then have "length (drop i s) = length p + length t" by simp
  then have l: "i + k < length s" using assms(2) by simp
  have "drop i s ! k = p ! k" using t assms(2) by (simp add: nth_append)
  then show ?thesis using l by simp
qed

lemma root_slash: "p \<in> {JSPROXY, WEBFIG} \<Longrightarrow> 0 < k \<Longrightarrow> k < length p \<Longrightarrow> p ! k \<noteq> CHR ''/''"
  by (auto simp: JSPROXY_def WEBFIG_def less_Suc_eq nth_Cons')

lemma find_bytes_none: "find_bytes p s = None \<Longrightarrow> p \<noteq> [] \<Longrightarrow> \<not> starts_with (drop i s) p"
proof (induction p s arbitrary: i rule: find_bytes.induct)
  case (1 p) then show ?case by (cases p) auto
next
  case (2 p c s) then show ?case by (cases i) (auto split: if_splits)
qed

lemma find_bytes_first: "find_bytes p s = Some m \<Longrightarrow> i < m \<Longrightarrow> \<not> starts_with (drop i s) p"
proof (induction p s arbitrary: i m rule: find_bytes.induct)
  case (1 p) then show ?case by (auto split: if_splits)
next
  case (2 p c s) then show ?case by (cases i) (auto split: if_splits)
qed

lemma next_root_none: "next_root s = None \<Longrightarrow> root_here (drop i s) = None"
  by (auto simp: next_root_def root_here_def JSPROXY_def WEBFIG_def dest!: find_bytes_none [where i = i] split: option.splits if_splits)

lemma next_root_first: "next_root s = Some (m, rp) \<Longrightarrow> i < m \<Longrightarrow> root_here (drop i s) = None"
proof -
  assume a: "next_root s = Some (m, rp)" and i: "i < m"
  have "\<not> starts_with (drop i s) p" if "p = JSPROXY \<or> p = WEBFIG" for p
    using a i find_bytes_none [of p s i] find_bytes_first [of p s _ i] that
    by (auto simp: next_root_def JSPROXY_def WEBFIG_def split: option.splits if_splits)
  then show ?thesis by (simp add: root_here_def)
qed

lemma starts_with_prefix_of: "starts_with (a @ b) p \<Longrightarrow> length p \<le> length a \<Longrightarrow> starts_with a p"
  by (induction a p rule: starts_with.induct) auto

lemma not_yet:
  assumes none: "root_here (drop i data) = None" and "i + 8 \<le> length data"
  shows "root_here (drop i (data @ rest)) = None"
proof -
  have l: "length p \<le> length (drop i data)" if "p \<in> {JSPROXY, WEBFIG}" for p
    using that assms(2) by (auto simp: JSPROXY_def WEBFIG_def)
  have "\<not> starts_with (drop i data @ rest) p" if "p \<in> {JSPROXY, WEBFIG}" for p
    using starts_with_prefix_of [OF _ l [OF that]] none that by (auto simp: root_here_def split: if_splits)
  then show ?thesis using assms(2) by (simp add: root_here_def)
qed

lemma hidden:
  assumes m: "next_root data = Some (m, rp)" and i: "i < m"
  shows "root_here (drop i (data @ rest)) = None"
proof -
  have at: "starts_with (drop m data) rp" "rp \<in> {JSPROXY, WEBFIG}" "m \<le> length data" using next_root_at [OF m] by auto
  have slash: "m < length data \<and> data ! m = CHR ''/''"
    using starts_at [OF at(1), of 0] at(2) by (auto simp: JSPROXY_def WEBFIG_def)
  have "\<not> starts_with (drop i (data @ rest)) p" if p: "p \<in> {JSPROXY, WEBFIG}" for p
  proof
    assume s: "starts_with (drop i (data @ rest)) p"
    show False
    proof (cases "i + length p \<le> m")
      case True
      then have "length p \<le> length (drop i data)" using slash by (simp add: le_diff_conv2)
      then have "starts_with (drop i data) p"
        using s starts_with_prefix_of [of "drop i data" rest p] i slash by simp
      then show False using next_root_first [OF m i] p by (auto simp: root_here_def split: if_splits)
    next
      case False
      then have k: "m - i < length p" "0 < m - i" using i by auto
      have "(data @ rest) ! (i + (m - i)) = p ! (m - i)" using starts_at [OF s k(1)] by simp
      then have "p ! (m - i) = CHR ''/''" using slash i by (simp add: nth_append)
      then show False using root_slash [OF p k(2) k(1)] by simp
    qed
  qed
  then show ?thesis by (simp add: root_here_def)
qed

lemma keep_value: "MAX_WEBFIG_ROOT_PATH = 8"
  by (simp add: MAX_WEBFIG_ROOT_PATH_def WEBFIG_ROOT_PATHS_def JSPROXY_def WEBFIG_def)

lemma next_root_suffix: "next_root data = None \<Longrightarrow> next_root (drop k data) = None"
proof (rule ccontr)
  assume none: "next_root data = None" and "next_root (drop k data) \<noteq> None"
  then obtain m rp where "next_root (drop k data) = Some (m, rp)" by (metis not_None_eq surj_pair)
  then have "starts_with (drop (m + k) data) rp" "rp \<in> {JSPROXY, WEBFIG}" using next_root_at by fastforce+
  then show False using next_root_none [OF none, of "m + k"] by (auto simp: root_here_def split: if_splits)
qed

lemma feed_loop_streams:
  "feed_loop prefix data = (sent, pending) \<Longrightarrow>
   rewritten prefix (data @ rest) = sent @ rewritten prefix (pending @ rest) \<and> length pending \<le> 7 \<and> next_root pending = None"
proof (induction prefix data arbitrary: sent rule: feed_loop.induct)
  case (1 prefix data)
  show ?case
  proof (cases "next_root data")
    case None
    define n where "n = length data - 7"
    have fl: "feed_loop prefix data = (take n data, drop n data)"
      by (subst feed_loop.simps) (auto simp: None keep_value n_def Let_def)
    have "root_here (drop i (data @ rest)) = None" if "i < n" for i
      using not_yet [OF next_root_none [OF None], of i] that by (simp add: n_def)
    then have "rewritten prefix (data @ rest) = take n (data @ rest) @ rewritten prefix (drop n (data @ rest))"
      by (rule rewritten_skips) (simp_all add: n_def)
    then show ?thesis using 1(2) fl next_root_suffix [OF None] by (auto simp: n_def)
  next
    case (Some mr)
    obtain m rp where mr: "mr = (m, rp)" by (cases mr)
    obtain out' where rec: "feed_loop prefix (drop (m + length rp) data) = (out', pending)"
      and out: "sent = take m data @ prefix @ rp @ out'"
      using 1(2) Some mr by (subst (asm) feed_loop.simps) (auto split: prod.splits)
    have at: "starts_with (drop m data) rp" "rp = JSPROXY \<or> rp = WEBFIG" "m \<le> length data" using next_root_at Some mr by auto
    then obtain t where t: "drop m data = rp @ t" by (auto simp: starts_with_iff)
    then have t': "t = drop (m + length rp) data" by (metis add.commute append_eq_conv_conj drop_drop)
    have "root_here (drop i (data @ rest)) = None" if "i < m" for i using hidden [of data m rp i rest] Some mr that by simp
    then have "rewritten prefix (data @ rest) = take m (data @ rest) @ rewritten prefix (drop m (data @ rest))"
      by (rule rewritten_skips) (use at(3) in simp_all)
    moreover have "drop m (data @ rest) = rp @ t @ rest" using t at(3) by simp
    moreover have "rewritten prefix (rp @ t @ rest) = prefix @ rp @ rewritten prefix (t @ rest)"
      using at(2) rewritten_root by auto
    moreover have "rewritten prefix (t @ rest) = out' @ rewritten prefix (pending @ rest) \<and> length pending \<le> 7 \<and> next_root pending = None"
      using 1(1) [OF Some mr [symmetric]] rec t' by blast
    ultimately show ?thesis using out at(3) by simp
  qed
qed

fun feed_all :: "string list \<Rightarrow> rewriter \<Rightarrow> rewriter \<times> string" where
  "feed_all [] r = (r, [])"
| "feed_all (c # cs) r =
     (case feed c r of (r1, out) \<Rightarrow> case feed_all cs r1 of (r2, outs) \<Rightarrow> (r2, out @ outs))"

lemma rewritten_pending: "next_root s = None \<Longrightarrow> rewritten prefix s = s"
  using rewritten_skips [of "length s" s prefix] next_root_none by (simp add: rewritten.simps root_here_def JSPROXY_def WEBFIG_def)

lemma feed_all_streams:
  "feed_all cs r = (r', out) \<Longrightarrow> next_root (rw_pending r) = None \<Longrightarrow>
   rewritten (rw_prefix r) (rw_pending r @ concat cs) = out @ rw_pending r' \<and> (length (rw_pending r) \<le> 7 \<longrightarrow> length (rw_pending r') \<le> 7)"
proof (induction cs arbitrary: r out)
  case (Cons c cs)
  obtain o1 p1 where f: "feed_loop (rw_prefix r) (rw_pending r @ c) = (o1, p1)" by (cases "feed_loop (rw_prefix r) (rw_pending r @ c)")
  obtain o2 where g: "feed_all cs (r\<lparr>rw_pending := p1\<rparr>) = (r', o2)" "out = o1 @ o2"
    using Cons.prems(1) f by (auto simp: feed_def split: prod.splits)
  show ?case using feed_loop_streams [OF f, of "concat cs"] Cons.IH [OF g(1)] g(2) by simp
qed (auto simp: rewritten_pending)
text \<open>C39. Streaming is exact. However the device's body is cut into chunks, what the proxy sends is the body rewritten in one pass, every root path under the prefix and nothing else changed, and it never holds back more than seven bytes.\<close>
theorem streamed_body_is_the_rewritten_body:
  assumes "new_rewriter prefix = Inr r" "feed_all chunks r = (r', sent)"
  shows "sent @ snd (finish r') = rewritten (utf8_encode prefix) (concat chunks) \<and> length (rw_pending r') \<le> 7"
proof -
  have r: "rw_prefix r = utf8_encode prefix" "rw_pending r = []"
    using assms(1) by (auto simp: new_rewriter_def ensure_def split: if_splits)
  have "next_root [] = None" by (simp add: next_root_def JSPROXY_def WEBFIG_def)
  then show ?thesis using feed_all_streams [OF assms(2)] r by (simp add: finish_def)
qed

section \<open>Redirects\<close>

definition dot_free :: "string \<Rightarrow> bool" where
  "dot_free path = (''.'' \<notin> set (split_on CHR ''/'' path) \<and> ''..'' \<notin> set (split_on CHR ''/'' path))"

lemma split_on_not_nil [simp]: "split_on c s \<noteq> []"
  by (induction c s rule: split_on.induct) (auto split: list.splits)

lemma split_on_slash: "split_on c (c # s) = [] # split_on c s"
  by simp

lemma split_on_word: "c \<notin> set w \<Longrightarrow> split_on c w = [w]"
  by (induction w) auto

lemma split_on_append: "c \<notin> set w \<Longrightarrow> split_on c (w @ c # s) = w # split_on c s"
  by (induction w) auto

lemma split_on_parts: "w \<in> set (split_on c s) \<Longrightarrow> c \<notin> set w"
  by (induction c s arbitrary: w rule: split_on.induct) (fastforce split: list.splits if_splits)+

lemma split_of_join: "ws \<noteq> [] \<Longrightarrow> (\<And>w. w \<in> set ws \<Longrightarrow> c \<notin> set w) \<Longrightarrow> split_on c (join_on c ws) = ws"
  by (induction c ws rule: join_on.induct) (simp_all add: split_on_word split_on_append)

lemma split_chars: "w \<in> set (split_on c s) \<Longrightarrow> set w \<subseteq> set s"
  by (induction c s arbitrary: w rule: split_on.induct) (fastforce split: list.splits if_splits)+

lemma join_chars: "set (join_on c ws) \<subseteq> insert c (\<Union> (set ` set ws))"
  by (induction c ws rule: join_on.induct) auto

lemma resolve_segments:
  "set (fold resolve_segment segs acc) \<subseteq> set acc \<union> (set segs - {''.'', ''..''})"
proof (induction segs arbitrary: acc)
  case (Cons s segs)
  have "set (resolve_segment s acc) \<subseteq> set acc \<union> ({s} - {''.'', ''..''})"
    by (auto simp: resolve_segment_def dest: in_set_butlastD)
  then show ?case using Cons.IH [of "resolve_segment s acc"] by auto
qed simp

lemma resolve_path_parts:
  assumes "\<And>w. w \<in> set segs \<Longrightarrow> CHR ''/'' \<notin> set w"
  shows "dot_free (resolve_path segs) \<and> resolve_path segs \<noteq> '''' \<and> set (resolve_path segs) \<subseteq> insert CHR ''/'' (\<Union> (set ` set segs))"
proof -
  define r where "r = fold resolve_segment segs []"
  define r' where "r' = (if last segs \<in> {''.'', ''..''} then r @ [''''] else r)"
  have sub: "set r' \<subseteq> insert '''' (set segs - {''.'', ''..''})"
    using resolve_segments [of segs "[]"] by (auto simp: r'_def r_def)
  then have slash: "CHR ''/'' \<notin> set w" if "w \<in> set r'" for w using assms that by fastforce
  have rp: "resolve_path segs = (if join_on CHR ''/'' r' = '''' then ''/'' else join_on CHR ''/'' r')"
    by (simp add: resolve_path_def Let_def r'_def r_def)
  have "dot_free (join_on CHR ''/'' r')" if "join_on CHR ''/'' r' \<noteq> ''''"
  proof -
    have "r' \<noteq> []" using that by auto
    then have "split_on CHR ''/'' (join_on CHR ''/'' r') = r'" by (rule split_of_join) (rule slash)
    then show ?thesis using sub by (auto simp: dot_free_def)
  qed
  moreover have "set (join_on CHR ''/'' r') \<subseteq> insert CHR ''/'' (\<Union> (set ` set segs))"
    using join_chars [of "CHR ''/''" r'] sub by fastforce
  ultimately show ?thesis by (auto simp: rp dot_free_def)
qed

lemma split_on_snoc: "c \<notin> set w \<Longrightarrow> split_on c (s @ w) = butlast (split_on c s) @ [last (split_on c s) @ w]"
  by (induction c s rule: split_on.induct) (auto simp: split_on_word split: list.splits)

lemma semicolon_not_dots: "CHR '';'' \<in> set w \<Longrightarrow> w \<notin> {''.'', ''..''}"
  by auto

lemma with_params_dot_free:
  "dot_free path \<Longrightarrow> CHR ''/'' \<notin> set params \<Longrightarrow> dot_free (with_params path params)"
proof -
  assume a: "dot_free path" "CHR ''/'' \<notin> set params"
  have "CHR '';'' \<in> set (last (split_on CHR ''/'' path) @ CHR '';'' # params)" by simp
  then have "last (split_on CHR ''/'' path) @ CHR '';'' # params \<notin> {''.'', ''..''}" by (rule semicolon_not_dots)
  then show ?thesis
    using a split_on_snoc [of "CHR ''/''" "CHR '';'' # params" path]
    by (auto simp: with_params_def dot_free_def dest!: in_set_butlastD)
qed

lemma slash_dot_free: "dot_free path \<Longrightarrow> dot_free (CHR ''/'' # path)"
  by (simp add: dot_free_def)

lemma takeWhile_absent: "c \<notin> set s \<Longrightarrow> takeWhile (\<lambda>d. d \<noteq> c) s = s"
  by (induction s) auto

lemma last_segment_no_slash: "CHR ''/'' \<notin> set (last_segment p)"
  by (auto simp: last_segment_def before_char_def dest: set_takeWhileD)

lemma after_char_subset: "set (after_char c s) \<subseteq> set s"
  by (auto simp: after_char_def dest: in_set_dropD set_dropWhileD)

lemma before_char_subset: "set (before_char c s) \<subseteq> set s - {c}"
  by (auto simp: before_char_def dest: set_takeWhileD)

lemma cut_params_parts:
  assumes "cut_params scheme path = (p, q)"
  shows "CHR ''/'' \<notin> set q" "set p \<subseteq> set path" "set q \<subseteq> set path" "CHR '';'' \<notin> set path \<Longrightarrow> p = path \<and> q = ''''"
proof -
  have seg: "set (last_segment path) \<subseteq> set path"
    using before_char_subset [of "CHR ''/''" "rev path"] by (auto simp: last_segment_def)
  show "CHR ''/'' \<notin> set q"
    using assms after_char_subset last_segment_no_slash by (fastforce simp: cut_params_def Let_def split: if_splits)
  show "set p \<subseteq> set path" using assms seg before_char_subset
    by (fastforce simp: cut_params_def Let_def split: if_splits dest: in_set_takeD)
  show "set q \<subseteq> set path" using assms seg after_char_subset by (fastforce simp: cut_params_def Let_def split: if_splits)
  show "p = path \<and> q = ''''" if "CHR '';'' \<notin> set path"
    using assms seg that by (auto simp: cut_params_def Let_def split: if_splits)
qed

lemma clean_chars: "c \<in> set (clean_url s) \<Longrightarrow> \<not> unsafe_url_byte c"
  by (simp add: clean_url_def)

lemma cut_scheme_parts:
  assumes "cut_scheme d s = (sc, rest)"
  shows "set rest \<subseteq> set s" "sc \<noteq> d \<Longrightarrow> fst (cut_scheme d' s) = sc"
  using assms after_char_subset [of "CHR '':''" s] by (auto simp: cut_scheme_def Let_def split: if_splits)

lemma cut_netloc_parts:
  assumes "cut_netloc s = (n, t)"
  shows "\<And>c. c \<in> set n \<Longrightarrow> \<not> netloc_end c" "set n \<subseteq> set s" "set t \<subseteq> set s"
    "n \<noteq> [] \<Longrightarrow> t = [] \<or> netloc_end (hd t)"
  using assms by (auto simp: cut_netloc_def split: if_splits dest: set_takeWhileD set_dropWhileD in_set_dropD
      hd_dropWhile [of "\<lambda>c. \<not> netloc_end c"])

definition url_parts_ok :: "(string \<Rightarrow> bool) \<Rightarrow> split_url \<Rightarrow> bool" where
  "url_parts_ok bo u =
     (netloc_ok bo (us_netloc u) \<and> (\<forall>c \<in> set (us_netloc u). \<not> netloc_end c \<and> \<not> unsafe_url_byte c)
      \<and> (\<forall>c \<in> set (us_path u). c \<noteq> CHR ''?'' \<and> c \<noteq> CHR ''#'' \<and> \<not> unsafe_url_byte c)
      \<and> (\<forall>c \<in> set (us_query u). c \<noteq> CHR ''#'' \<and> \<not> unsafe_url_byte c)
      \<and> (\<forall>c \<in> set (us_fragment u). \<not> unsafe_url_byte c))"

lemma urlsplit_parts:
  assumes "urlsplit bo d s = Inr u"
  shows "url_parts_ok bo u" "us_netloc u \<noteq> '''' \<Longrightarrow> us_path u = '''' \<or> starts_with (us_path u) ''/''"
    "us_scheme u \<noteq> d \<Longrightarrow> urlsplit bo d' s = Inr u' \<Longrightarrow> us_scheme u' = us_scheme u"
proof -
  obtain sc rest where c: "cut_scheme d (clean_url s) = (sc, rest)" by (cases "cut_scheme d (clean_url s)")
  obtain n t where nt: "cut_netloc rest = (n, t)" by (cases "cut_netloc rest")
  have ok: "netloc_ok bo n" and u: "u = \<lparr>us_scheme = sc, us_netloc = n, us_path = before_char CHR ''?'' (before_char CHR ''#'' t),
      us_query = after_char CHR ''?'' (before_char CHR ''#'' t), us_fragment = after_char CHR ''#'' t\<rparr>"
    using assms by (simp_all add: urlsplit_def c nt ensure_def Let_def split: if_splits)
  have clean: "\<not> unsafe_url_byte x" if "x \<in> set n \<or> x \<in> set t" for x
    using that clean_chars [of x s] cut_scheme_parts(1) [OF c] cut_netloc_parts(2, 3) [OF nt] by blast
  have a: "set (us_path u) \<subseteq> set t - {CHR ''?'', CHR ''#''}"
    using before_char_subset [of "CHR ''?''" "before_char CHR ''#'' t"] before_char_subset [of "CHR ''#''" t] by (auto simp: u)
  have b: "set (us_query u) \<subseteq> set t - {CHR ''#''}"
    using after_char_subset [of "CHR ''?''" "before_char CHR ''#'' t"] before_char_subset [of "CHR ''#''" t] by (auto simp: u)
  have f: "set (us_fragment u) \<subseteq> set t" using after_char_subset [of "CHR ''#''" t] by (simp add: u)
  show "url_parts_ok bo u"
    unfolding url_parts_ok_def using a b f clean ok cut_netloc_parts(1) [OF nt] by (auto simp: u)
  show "us_path u = '''' \<or> starts_with (us_path u) ''/''" if "us_netloc u \<noteq> ''''"
  proof (cases t)
    case (Cons x xs)
    then have "netloc_end x" using cut_netloc_parts(4) [OF nt] that by (simp add: u)
    then show ?thesis by (auto simp: u Cons before_char_def netloc_end_def)
  qed (simp add: u before_char_def)
  show "us_scheme u' = us_scheme u" if "us_scheme u \<noteq> d" "urlsplit bo d' s = Inr u'"
    using that cut_scheme_parts(2) [OF c, of d'] by (auto simp: u urlsplit_def ensure_def Let_def split: prod.splits if_splits)
qed

definition slashed :: "string \<Rightarrow> string" where
  "slashed p = (if p \<noteq> '''' \<and> \<not> starts_with p ''/'' then ''/'' @ p else p)"

lemma filter_clean: "(\<And>c. c \<in> set s \<Longrightarrow> \<not> unsafe_url_byte c) \<Longrightarrow> filter (\<lambda>c. \<not> unsafe_url_byte c) s = s"
  by (induction s) auto

lemma before_char_append: "c \<notin> set a \<Longrightarrow> before_char c (a @ b) = a @ before_char c b"
  by (induction a) (auto simp: before_char_def)

lemma after_char_append: "c \<notin> set a \<Longrightarrow> after_char c (a @ b) = after_char c b"
  by (induction a) (auto simp: after_char_def)

lemma char_ends [simp]: "before_char c [] = []" "after_char c [] = []" "before_char c (c # s) = []" "after_char c (c # s) = s"
  by (simp_all add: before_char_def after_char_def)

lemma takeWhile_end: "(\<And>c. c \<in> set n \<Longrightarrow> P c) \<Longrightarrow> t = [] \<or> \<not> P (hd t) \<Longrightarrow> takeWhile P (n @ t) = n \<and> dropWhile P (n @ t) = t"
  by (induction n) (auto simp: takeWhile_eq_Nil_iff dropWhile_eq_self_iff)

lemma urlsplit_http:
  assumes n: "netloc_ok bo n" "\<And>c. c \<in> set n \<Longrightarrow> \<not> netloc_end c" and t: "t = [] \<or> netloc_end (hd t)"
    and clean: "\<And>c. c \<in> set n \<union> set t \<Longrightarrow> \<not> unsafe_url_byte c"
  shows "urlsplit bo '''' (''http://'' @ n @ t) =
    Inr \<lparr>us_scheme = ''http'', us_netloc = n, us_path = before_char CHR ''?'' (before_char CHR ''#'' t),
         us_query = after_char CHR ''?'' (before_char CHR ''#'' t), us_fragment = after_char CHR ''#'' t\<rparr>"
proof -
  have "filter (\<lambda>c. \<not> unsafe_url_byte c) (n @ t) = n @ t" using clean by (intro filter_clean) auto
  then have "clean_url (''http://'' @ n @ t) = ''http://'' @ n @ t"
    by (simp add: clean_url_def is_c0_or_space_def unsafe_url_byte_def)
  moreover have "cut_scheme '''' (''http://'' @ n @ t) = (''http'', ''//'' @ n @ t)"
    by (simp add: cut_scheme_def before_char_def after_char_def scheme_char_def is_alpha_def py_lower_def py_lower_char_def)
  moreover have "cut_netloc (''//'' @ n @ t) = (n, t)"
    using takeWhile_end [of n "\<lambda>c. \<not> netloc_end c" t] n(2) t by (auto simp: cut_netloc_def)
  ultimately show ?thesis using n(1) by (simp add: urlsplit_def ensure_def Let_def)
qed

lemma url_path_ok: "url_parts_ok bo u \<Longrightarrow> c \<in> set (us_path u) \<Longrightarrow> c \<noteq> CHR ''?'' \<and> c \<noteq> CHR ''#'' \<and> \<not> unsafe_url_byte c"
  by (simp add: url_parts_ok_def)

lemma url_query_ok: "url_parts_ok bo u \<Longrightarrow> c \<in> set (us_query u) \<Longrightarrow> c \<noteq> CHR ''#''"
  by (simp add: url_parts_ok_def)

lemma clean_parts:
  "url_parts_ok bo u \<Longrightarrow> c \<in> set (us_netloc u) \<union> set (us_path u) \<union> set (us_query u) \<union> set (us_fragment u) \<Longrightarrow> \<not> unsafe_url_byte c"
  unfolding Un_iff by (elim disjE) (simp_all add: url_parts_ok_def)

lemma urlsplit_unsplit:
  assumes "us_scheme u = ''http''" "us_netloc u \<noteq> ''''" "url_parts_ok bo u"
  shows "urlsplit bo '''' (urlunsplit u) = Inr (u\<lparr>us_path := slashed (us_path u)\<rparr>)"
proof -
  define q where "q = (if us_query u \<noteq> '''' then ''?'' @ us_query u else '''')"
  define f where "f = (if us_fragment u \<noteq> '''' then ''#'' @ us_fragment u else '''')"
  define p where "p = slashed (us_path u)"
  have url: "urlunsplit u = ''http://'' @ us_netloc u @ p @ q @ f"
    using assms(1, 2) by (simp add: urlunsplit_def uses_netloc_def p_def q_def f_def slashed_def Let_def)
  have sets: "set p \<subseteq> insert CHR ''/'' (set (us_path u))" "set q \<subseteq> insert CHR ''?'' (set (us_query u))"
    "set f \<subseteq> insert CHR ''#'' (set (us_fragment u))"
    by (auto simp: p_def q_def f_def slashed_def split: if_splits)
  have safe: "\<not> unsafe_url_byte CHR ''/''" "\<not> unsafe_url_byte CHR ''?''" "\<not> unsafe_url_byte CHR ''#''"
    by (simp_all add: unsafe_url_byte_def)
  have ok: "netloc_ok bo (us_netloc u)" "\<And>c. c \<in> set (us_netloc u) \<Longrightarrow> \<not> netloc_end c"
    using assms(3) by (simp_all add: url_parts_ok_def)
  have clean: "\<not> unsafe_url_byte c" if "c \<in> set (us_netloc u) \<union> set (p @ q @ f)" for c
  proof -
    have mem: "c \<in> {CHR ''/'', CHR ''?'', CHR ''#''} \<union> set (us_netloc u) \<union> set (us_path u) \<union> set (us_query u) \<union> set (us_fragment u)"
      using that sets by auto
    then show ?thesis
    proof (cases "c \<in> {CHR ''/'', CHR ''?'', CHR ''#''}")
      case True then show ?thesis using safe by (elim insertE) simp_all
    next
      case False
      then have "c \<in> set (us_netloc u) \<union> set (us_path u) \<union> set (us_query u) \<union> set (us_fragment u)" using mem by simp
      then show ?thesis by (rule clean_parts [OF assms(3)])
    qed
  qed
  have t: "p @ q @ f = [] \<or> netloc_end (hd (p @ q @ f))"
    by (cases "us_path u") (auto simp: p_def q_def f_def slashed_def netloc_end_def)
  have p: "CHR ''?'' \<notin> set p" "CHR ''#'' \<notin> set p" and q: "CHR ''#'' \<notin> set (p @ q)"
    using sets url_path_ok [OF assms(3), of "CHR ''?''"] url_path_ok [OF assms(3), of "CHR ''#''"]
      url_query_ok [OF assms(3), of "CHR ''#''"] by auto
  have hash: "before_char CHR ''#'' (p @ q @ f) = p @ q" "after_char CHR ''#'' (p @ q @ f) = us_fragment u"
    using before_char_append [OF q, of f] after_char_append [OF q, of f] by (simp_all add: f_def split: if_splits)
  have mark: "before_char CHR ''?'' (p @ q) = p" "after_char CHR ''?'' (p @ q) = us_query u"
    using before_char_append [OF p(1), of q] after_char_append [OF p(1), of q] by (simp_all add: q_def split: if_splits)
  show ?thesis using urlsplit_http [OF ok t clean] assms(1) by (simp add: url p_def [symmetric] hash mark)
qed

lemma url_parts_with: "url_parts_ok bo u \<Longrightarrow> url_parts_ok bo b \<Longrightarrow>
   (\<And>c. c \<in> set p \<Longrightarrow> c \<noteq> CHR ''?'' \<and> c \<noteq> CHR ''#'' \<and> \<not> unsafe_url_byte c) \<Longrightarrow> q = us_query u \<or> q = us_query b \<Longrightarrow>
   url_parts_ok bo (u\<lparr>us_netloc := us_netloc b, us_path := p, us_query := q\<rparr>)"
  by (auto simp: url_parts_ok_def)

lemma drop_empty_inner_subset: "set (drop_empty_inner segs) \<subseteq> set segs"
  by (cases segs rule: remdups_adj.cases) (auto simp: drop_empty_inner_def dest: in_set_butlastD)

lemma joined_segments_subset: "set (joined_segments b p) \<subseteq> set (split_on CHR ''/'' b) \<union> set (split_on CHR ''/'' p)"
proof -
  define base where "base = (if last (split_on CHR ''/'' b) \<noteq> '''' then butlast (split_on CHR ''/'' b) else split_on CHR ''/'' b)"
  have "set base \<subseteq> set (split_on CHR ''/'' b)" by (auto simp: base_def dest: in_set_butlastD)
  then have "set (drop_empty_inner (base @ split_on CHR ''/'' p)) \<subseteq> set (split_on CHR ''/'' b) \<union> set (split_on CHR ''/'' p)"
    using drop_empty_inner_subset [of "base @ split_on CHR ''/'' p"] by auto
  then show ?thesis by (simp add: joined_segments_def Let_def base_def)
qed

lemma joined_segments_chars:
  assumes "w \<in> set (joined_segments b p)" shows "CHR ''/'' \<notin> set w \<and> set w \<subseteq> set b \<union> set p"
proof -
  have "w \<in> set (split_on CHR ''/'' b) \<or> w \<in> set (split_on CHR ''/'' p)" using joined_segments_subset assms by blast
  then show ?thesis
    using split_on_parts [of w "CHR ''/''" b] split_chars [of w "CHR ''/''" b]
      split_on_parts [of w "CHR ''/''" p] split_chars [of w "CHR ''/''" p] by blast
qed

lemma with_params_chars: "set (with_params p q) \<subseteq> set p \<union> set q \<union> {CHR '';''}"
  by (auto simp: with_params_def)

lemma slashed_dot_free: "dot_free p \<Longrightarrow> dot_free (slashed p)"
  by (auto simp: slashed_def slash_dot_free)

text \<open>Where a location without a host of its own leads, seen from a target whose path holds no dot segment.\<close>

lemma urljoin_relative:
  assumes j: "urljoin bo target location = Inr joined" and b: "urlsplit bo '''' target = Inr b"
    and http: "us_scheme b = ''http''" and host: "us_netloc b \<noteq> ''''"
    and plain: "dot_free (us_path b)" "CHR '';'' \<notin> set (us_path b)"
    and u: "urlsplit bo ''http'' location = Inr u" "us_netloc u = ''''" "us_scheme u = ''http''"
  shows "\<exists>w. urlsplit bo '''' joined = Inr w \<and> us_scheme w = ''http'' \<and> us_netloc w = us_netloc b \<and> dot_free (us_path w)
    \<and> (us_path w = '''' \<or> starts_with (us_path w) ''/'') \<and> url_parts_ok bo w"
proof (cases "target = '''' \<or> location = ''''")
  case True
  then have "joined = target" using j b host by (auto simp: urljoin_def urlsplit_def clean_url_def cut_scheme_def cut_netloc_def ensure_def Let_def split: if_splits)
  then show ?thesis using b http plain(1) urlsplit_parts(1, 2) [OF b] host by auto
next
  case False
  obtain bp bq where bc: "cut_params ''http'' (us_path b) = (bp, bq)" by (cases "cut_params ''http'' (us_path b)")
  obtain p q where pc: "cut_params ''http'' (us_path u) = (p, q)" by (cases "cut_params ''http'' (us_path u)")
  have bpq: "bp = us_path b" "bq = ''''" using cut_params_parts(4) [OF bc plain(2)] by auto
  note bok = urlsplit_parts(1) [OF b] and uok = urlsplit_parts(1) [OF u(1)]
  define path where "path = (if p = '''' \<and> q = '''' then us_path b else with_params (resolve_path (joined_segments bp p)) q)"
  define query where "query = (if p = '''' \<and> q = '''' \<and> us_query u = '''' then us_query b else us_query u)"
  define v where "v = u\<lparr>us_netloc := us_netloc b, us_path := path, us_query := query\<rparr>"
  have rel: "''http'' \<in> set uses_relative" "''http'' \<in> set uses_netloc" by (simp_all add: uses_relative_def uses_netloc_def)
  have joined: "joined = urlunsplit v"
    using j False b http u rel bc pc bpq by (auto simp: urljoin_def Let_def v_def path_def query_def with_params_def split: if_splits)
  have good: "c \<noteq> CHR ''?'' \<and> c \<noteq> CHR ''#'' \<and> \<not> unsafe_url_byte c" if "c \<in> set (us_path b) \<union> set (us_path u) \<union> {CHR ''/'', CHR '';''}" for c
    using that url_path_ok [OF bok, of c] url_path_ok [OF uok, of c] by (auto simp: unsafe_url_byte_def)
  have r: "dot_free (resolve_path (joined_segments bp p))"
    "set (resolve_path (joined_segments bp p)) \<subseteq> insert CHR ''/'' (set (us_path b) \<union> set (us_path u))"
    using resolve_path_parts [of "joined_segments bp p"] joined_segments_chars [of _ bp p] cut_params_parts(2) [OF pc] bpq by blast+
  have "dot_free path"
    using plain(1) with_params_dot_free [OF r(1) cut_params_parts(1) [OF pc]] by (simp add: path_def)
  moreover have "set path \<subseteq> set (us_path b) \<union> set (us_path u) \<union> {CHR ''/'', CHR '';''}"
    using r(2) with_params_chars [of "resolve_path (joined_segments bp p)" q] cut_params_parts(3) [OF pc] by (auto simp: path_def)
  ultimately have "dot_free path" and pc': "\<And>c. c \<in> set path \<Longrightarrow> c \<noteq> CHR ''?'' \<and> c \<noteq> CHR ''#'' \<and> \<not> unsafe_url_byte c"
    using good by blast+
  moreover have "url_parts_ok bo v" unfolding v_def by (rule url_parts_with [OF uok bok pc']) (auto simp: query_def)
  moreover have v: "us_scheme v = ''http''" "us_netloc v = us_netloc b" "us_path v = path" by (simp_all add: v_def u)
  ultimately have free: "dot_free (slashed path)" and w: "urlsplit bo '''' joined = Inr (v\<lparr>us_path := slashed path\<rparr>)"
    using urlsplit_unsplit [of v bo] host joined slashed_dot_free [of path] by simp_all
  show ?thesis
    using urlsplit_parts(1, 2) [OF w] free v host by (intro exI [of _ "v\<lparr>us_path := slashed path\<rparr>"]) (simp add: w)
qed

section \<open>Paths on a node\<close>

definition pct_chars :: "char set" where
  "pct_chars = insert CHR ''%'' (hex_digit ` {..<16})"

definition kept :: "char \<Rightarrow> bool" where
  "kept c = (always_safe c \<or> c \<in> set QUOTE_SAFE)"

definition quote_char :: "char \<Rightarrow> string" where
  "quote_char c = concat (map (quote_byte QUOTE_SAFE) (utf8_char c))"

lemma quote_chars: "quote QUOTE_SAFE s = concat (map quote_char s)"
  by (induction s) (simp_all add: quote_def utf8_encode_def quote_char_def)

lemma kept_ascii: "kept c \<Longrightarrow> (of_char c :: nat) < 128"
  by (auto simp: kept_def always_safe_def is_alpha_def is_dec_def QUOTE_SAFE_def Let_def)

lemma quote_byte_kept: "kept c \<Longrightarrow> quote_byte QUOTE_SAFE c = [c]"
  using kept_ascii [of c] by (auto simp: quote_byte_def kept_def)

lemma of_char_bound: "(of_char (c :: char) :: nat) < 256"
  using of_char_mod_256 [of c, where 'a = nat] by (metis mod_less_divisor zero_less_numeral)

lemma quote_byte_not_kept:
  assumes "\<not> kept c"
  shows "quote_byte QUOTE_SAFE c = [CHR ''%'', hex_digit ((of_char c :: nat) div 16), hex_digit ((of_char c :: nat) mod 16)]"
    "set (quote_byte QUOTE_SAFE c) \<subseteq> pct_chars"
proof -
  show q: "quote_byte QUOTE_SAFE c = [CHR ''%'', hex_digit ((of_char c :: nat) div 16), hex_digit ((of_char c :: nat) mod 16)]"
    using assms by (simp add: quote_byte_def kept_def)
  have "(of_char c :: nat) div 16 < 16" using of_char_bound [of c] by (simp add: div_less_iff_less_mult)
  then show "set (quote_byte QUOTE_SAFE c) \<subseteq> pct_chars" by (simp add: q pct_chars_def)
qed

lemma quote_char_cases:
  "kept c \<and> quote_char c = [c] \<or> \<not> kept c \<and> quote_char c \<noteq> [] \<and> hd (quote_char c) = CHR ''%'' \<and> set (quote_char c) \<subseteq> pct_chars"
proof (cases "(of_char c :: nat) < 128")
  case True
  then have q: "quote_char c = quote_byte QUOTE_SAFE c" by (simp add: quote_char_def utf8_char_def Let_def)
  show ?thesis
  proof (cases "kept c")
    case True then show ?thesis by (simp add: q quote_byte_kept)
  next
    case False then show ?thesis using quote_byte_not_kept [OF False] by (simp add: q)
  qed
next
  case False
  define n where "n = (of_char c :: nat)"
  have n: "128 \<le> n" "n < 256" using False of_char_bound [of c] by (simp_all add: n_def)
  define a b where ab: "a = (char_of (192 + n div 64) :: char)" "b = (char_of (128 + n mod 64) :: char)"
  have "(of_char a :: nat) = 192 + n div 64" "(of_char b :: nat) = 128 + n mod 64" using n by (simp_all add: of_char_of ab)
  then have k: "\<not> kept a" "\<not> kept b" using kept_ascii by force+
  have q: "quote_char c = quote_byte QUOTE_SAFE a @ quote_byte QUOTE_SAFE b" and "\<not> kept c"
    using n kept_ascii [of c] by (auto simp: quote_char_def utf8_char_def n_def [symmetric] Let_def ab)
  then show ?thesis using quote_byte_not_kept [OF k(1)] quote_byte_not_kept [OF k(2)] by simp
qed

lemma hex_digit_code: "n < 16 \<Longrightarrow> (of_char (hex_digit n) :: nat) \<in> {48..57} \<union> {65..70}"
  by (auto simp: hex_digit_def of_char_of)

lemma pct_chars_code: "c \<in> pct_chars \<Longrightarrow> (of_char c :: nat) = 37 \<or> 48 \<le> (of_char c :: nat)"
  unfolding pct_chars_def by (elim insertE imageE) (use hex_digit_code in \<open>auto dest!: hex_digit_code\<close>)

lemma pct_chars_plain: "CHR ''/'' \<notin> pct_chars" "CHR ''.'' \<notin> pct_chars"
  using pct_chars_code [of "CHR ''/''"] pct_chars_code [of "CHR ''.''"] by auto

lemma quoted_chars: "c \<in> set (quote QUOTE_SAFE s) \<Longrightarrow> kept c \<or> c \<in> pct_chars"
proof -
  assume "c \<in> set (quote QUOTE_SAFE s)"
  then obtain d where "c \<in> set (quote_char d)" by (auto simp: quote_chars)
  then show ?thesis using quote_char_cases [of d] by (elim disjE conjE) auto
qed

lemma pct_chars_url: "c \<in> pct_chars \<Longrightarrow> c \<noteq> CHR ''?'' \<and> c \<noteq> CHR ''#'' \<and> \<not> unsafe_url_byte c"
proof -
  assume c: "c \<in> pct_chars"
  have "(of_char c :: nat) = 37 \<or> (of_char c :: nat) \<in> {48..57} \<union> {65..70}"
    using c hex_digit_code unfolding pct_chars_def by (elim insertE imageE) auto
  then show ?thesis by (intro conjI notI) (auto simp: unsafe_url_byte_def)
qed

lemma kept_url: "kept c \<Longrightarrow> c \<noteq> CHR ''?'' \<and> c \<noteq> CHR ''#'' \<and> \<not> unsafe_url_byte c"
  by (auto simp: kept_def always_safe_def is_alpha_def is_dec_def QUOTE_SAFE_def unsafe_url_byte_def Let_def)

lemma quote_char_slash: "CHR ''/'' \<in> set (quote_char c) \<longleftrightarrow> c = CHR ''/''" and quote_char_dot: "CHR ''.'' \<in> set (quote_char c) \<longleftrightarrow> c = CHR ''.''"
proof -
  have k: "kept CHR ''/''" "kept CHR ''.''" by (simp_all add: kept_def QUOTE_SAFE_def)
  show "CHR ''/'' \<in> set (quote_char c) \<longleftrightarrow> c = CHR ''/''" "CHR ''.'' \<in> set (quote_char c) \<longleftrightarrow> c = CHR ''.''"
    using quote_char_cases [of c] k pct_chars_plain by (elim disjE conjE; fastforce)+
qed

lemma quote_kept: "kept c \<Longrightarrow> quote_char c = [c]"
  using quote_char_cases [of c] by blast

lemma split_on_prefix: "c \<notin> set a \<Longrightarrow> split_on c t = v # vs \<Longrightarrow> split_on c (a @ t) = (a @ v) # vs"
  by (induction a) auto

lemma split_quoted: "split_on CHR ''/'' (concat (map quote_char s)) = map (\<lambda>w. concat (map quote_char w)) (split_on CHR ''/'' s)"
proof (induction s)
  case (Cons c s)
  obtain w ws where s: "split_on CHR ''/'' s = w # ws" using split_on_not_nil list.exhaust by metis
  show ?case
  proof (cases "c = CHR ''/''")
    case True
    have "quote_char CHR ''/'' = ''/''" by (rule quote_kept) (simp add: kept_def QUOTE_SAFE_def)
    then show ?thesis using Cons True by simp
  next
    case False
    then have "CHR ''/'' \<notin> set (quote_char c)" using quote_char_slash by simp
    then show ?thesis using split_on_prefix Cons s False by simp
  qed
qed simp

lemma quoted_dots:
  assumes "concat (map quote_char w) = d" "set d \<subseteq> {CHR ''.''}" shows "w = d"
proof -
  have dot: "c = CHR ''.''" if "c \<in> set w" for c
  proof -
    have "set (quote_char c) \<subseteq> {CHR ''.''}" using assms that by fastforce
    moreover have "quote_char c \<noteq> []" using quote_char_cases [of c] by auto
    ultimately have "CHR ''.'' \<in> set (quote_char c)" by (cases "quote_char c") auto
    then show ?thesis using quote_char_dot by simp
  qed
  have "quote_char CHR ''.'' = ''.''" by (rule quote_kept) (simp add: kept_def QUOTE_SAFE_def)
  then have "concat (map quote_char w) = w" using dot by (induction w) auto
  then show ?thesis using assms(1) by simp
qed

lemma semicolon_not_pct: "CHR '';'' \<notin> pct_chars"
proof
  assume "CHR '';'' \<in> pct_chars"
  then obtain n where "n < 16" "CHR '';'' = hex_digit n" unfolding pct_chars_def by auto
  then show False using hex_digit_code [of n] by (simp flip: \<open>CHR '';'' = hex_digit n\<close>)
qed

lemma safe_subpath_parts:
  assumes "safe_subpath s = Inr sub"
  shows "dot_free (''/'' @ sub)" "\<And>c. c \<in> set sub \<Longrightarrow> c \<noteq> CHR ''?'' \<and> c \<noteq> CHR ''#'' \<and> \<not> unsafe_url_byte c"
    "CHR '';'' \<notin> set s \<Longrightarrow> CHR '';'' \<notin> set sub"
proof -
  have sub: "sub = concat (map quote_char s)" and segs: "''.'' \<notin> set (split_on CHR ''/'' s)" "''..'' \<notin> set (split_on CHR ''/'' s)"
    using assms by (auto simp: safe_subpath_def ensure_def quote_chars list_ex_iff split: if_splits)
  have "d \<notin> set (split_on CHR ''/'' sub)" if "d \<notin> set (split_on CHR ''/'' s)" "set d \<subseteq> {CHR ''.''}" for d
  proof
    assume "d \<in> set (split_on CHR ''/'' sub)"
    then obtain w where "w \<in> set (split_on CHR ''/'' s)" and d: "concat (map quote_char w) = d" unfolding sub split_quoted by auto
    moreover have "w = d" using d that(2) by (rule quoted_dots)
    ultimately show False using that(1) by simp
  qed
  from this [OF segs(1)] this [OF segs(2)] show "dot_free (''/'' @ sub)" by (simp add: dot_free_def)
  show "c \<noteq> CHR ''?'' \<and> c \<noteq> CHR ''#'' \<and> \<not> unsafe_url_byte c" if "c \<in> set sub" for c
  proof -
    have "c \<in> set (quote QUOTE_SAFE s)" using that by (simp only: sub quote_chars)
    then have "kept c \<or> c \<in> pct_chars" by (rule quoted_chars)
    then show ?thesis by (rule disjE) (erule kept_url pct_chars_url)+
  qed
  show "CHR '';'' \<notin> set sub" if "CHR '';'' \<notin> set s"
  proof
    assume "CHR '';'' \<in> set sub"
    then obtain c where c: "c \<in> set s" "CHR '';'' \<in> set (quote_char c)" by (auto simp: sub)
    then show False using quote_char_cases [of c] semicolon_not_pct that by auto
  qed
qed

section \<open>Management addresses\<close>

lemma show_nat_small: "n < 10 \<Longrightarrow> show_nat n = [char_of (48 + n)]"
  by (simp add: show_nat.simps)

lemma show_nat_step: "0 < n \<Longrightarrow> d < 10 \<Longrightarrow> show_nat (10 * n + d) = show_nat n @ [char_of (48 + d)]"
  by (subst show_nat.simps) (simp add: div_mult_self4)

lemma show_nat_dec: "list_all is_dec (show_nat n)"
proof (induction n rule: show_nat.induct)
  case (1 n)
  have "is_dec (char_of (48 + d))" if "d < 10" for d :: nat using that by (simp add: is_dec_def of_char_of)
  then show ?case using 1 by (subst show_nat.simps) auto
qed

lemma dec_digit: "is_dec c \<Longrightarrow> (of_char c :: nat) - 48 < 10 \<and> char_of (48 + ((of_char c :: nat) - 48)) = c"
  by (auto simp: is_dec_def)

text \<open>Printing the value of digits without a leading zero gives them back.\<close>

lemma show_dec_value:
  "list_all is_dec s \<Longrightarrow> s \<noteq> [] \<Longrightarrow> s = ''0'' \<or> hd s \<noteq> CHR ''0'' \<Longrightarrow> show_nat (dec_value s) = s \<and> (s \<noteq> ''0'' \<longrightarrow> 0 < dec_value s)"
proof (induction s rule: rev_induct)
  case (snoc c s)
  have c: "is_dec c" using snoc.prems(1) by simp
  define d where "d = (of_char c :: nat) - 48"
  have d: "d < 10" "char_of (48 + d) = c" using dec_digit [OF c] by (simp_all add: d_def)
  have v: "dec_value (s @ [c]) = 10 * dec_value s + d" by (simp add: dec_value_def d_def)
  show ?case
  proof (cases "s = []")
    case True
    have "(char_of (48 :: nat) :: char) = CHR ''0''" by code_simp
    then have "c \<noteq> CHR ''0'' \<Longrightarrow> 0 < d" using d(2) by (cases "d = 0") auto
    then show ?thesis using True d by (auto simp: v show_nat_small dec_value_def)
  next
    case False
    then have "show_nat (dec_value s) = s \<and> 0 < dec_value s" using snoc by auto
    then show ?thesis using d show_nat_step [of "dec_value s" d] by (simp add: v)
  qed
qed simp

lemma join_split: "join_on c (split_on c s) = s"
proof (induction s)
  case (Cons d s)
  obtain w ws where "split_on c s = w # ws" using split_on_not_nil list.exhaust by metis
  then show ?case using Cons by (cases ws) auto
qed simp

lemma parse_octet_shows: "parse_octet s = Some n \<Longrightarrow> show_nat n = s \<and> n \<le> 255"
  using show_dec_value [of s] by (auto simp: parse_octet_def split: if_splits)

lemma parse_ipv4_shows: "parse_ipv4 s = Some ip \<Longrightarrow> show_ipv4 ip = s"
proof -
  assume p: "parse_ipv4 s = Some ip"
  then obtain a b c d where m: "map parse_octet (split_on CHR ''.'' s) = [Some a, Some b, Some c, Some d]" "ip = (a, b, c, d)"
    by (auto simp: parse_ipv4_def split: if_splits list.splits option.splits)
  then have "split_on CHR ''.'' s = [show_nat a, show_nat b, show_nat c, show_nat d]"
    using parse_octet_shows by (auto simp: map_eq_Cons_conv)
  then show ?thesis using join_split [of "CHR ''.''" s] m(2) by (simp add: show_ipv4_def)
qed

lemma show_ipv4_chars: "c \<in> set (show_ipv4 ip) \<Longrightarrow> is_dec c \<or> c = CHR ''.''"
  using show_nat_dec by (cases ip) (auto simp: show_ipv4_def list_all_iff)

text \<open>What is interpolated into an upstream URL is the stored text itself, an address of a private network that is neither the
  host nor a link-local, multicast or unspecified one.\<close>

lemma safe_mgmt_is_canonical:
  assumes "safe_mgmt_address v = Some addr"
  shows "v = Some addr \<and> (\<exists>ip. addr = show_ipv4 ip \<and> is_private_ipv4 ip \<and> \<not> is_loopback_ipv4 ip \<and> \<not> is_link_local_ipv4 ip)"
proof -
  obtain s ip where ip: "s = (case v of None \<Rightarrow> ''None'' | Some t \<Rightarrow> t)" "parse_ipv4 s = Some ip" "addr = show_ipv4 ip"
    "is_private_ipv4 ip \<and> \<not> is_loopback_ipv4 ip \<and> \<not> is_link_local_ipv4 ip"
    using assms by (auto simp: safe_mgmt_address_def split: option.splits if_splits)
  have "parse_ipv4 ''None'' = None" by code_simp
  then have "v = Some s" using ip(1, 2) by (cases v) auto
  then show ?thesis using ip(3, 4) parse_ipv4_shows [OF ip(2)] by blast
qed

lemma mgmt_chars: "safe_mgmt_address v = Some addr \<Longrightarrow> c \<in> set addr \<Longrightarrow> \<not> netloc_end c \<and> \<not> unsafe_url_byte c \<and> c \<noteq> CHR ''['' \<and> c \<noteq> CHR '']''"
proof -
  assume "safe_mgmt_address v = Some addr" "c \<in> set addr"
  then have "is_dec c \<or> c = CHR ''.''" using safe_mgmt_is_canonical show_ipv4_chars by blast
  then show ?thesis
  proof
    assume "is_dec c"
    then show ?thesis by (intro conjI notI) (auto simp: is_dec_def netloc_end_def unsafe_url_byte_def)
  qed (simp add: netloc_end_def unsafe_url_byte_def)
qed

section \<open>Cookies\<close>

lemma name_char_space: "cookie_name_char c \<Longrightarrow> \<not> py_isspace c \<and> c \<noteq> CHR '';'' \<and> c \<noteq> CHR ''=''"
  by (auto simp: cookie_name_char_def is_alpha_def is_dec_def py_isspace_def Let_def)

lemma value_char_space: "cookie_value_char c \<Longrightarrow> \<not> py_isspace c \<and> c \<noteq> CHR '';''"
  by (auto simp: cookie_value_char_def py_isspace_def Let_def)

lemma strip_ends: "py_strip s = [] \<or> \<not> py_isspace (last (py_strip s))"
proof (cases "py_strip s = []")
  case False
  define r where "r = dropWhile py_isspace (rev (dropWhile py_isspace s))"
  have "py_strip s = rev r" by (simp add: py_strip_def r_def)
  moreover have "r \<noteq> [] \<Longrightarrow> \<not> py_isspace (hd r)" unfolding r_def by (rule hd_dropWhile)
  ultimately show ?thesis using False by (simp add: last_rev)
qed simp

text \<open>After \<open>strip\<close> the line feed that \<open>$\<close> tolerates is gone, so the pattern matches the whole text.\<close>

lemma matches_stripped: "matches_class p lo hi (py_strip s) \<Longrightarrow> lo \<le> length (py_strip s) \<and> length (py_strip s) \<le> hi \<and> list_all p (py_strip s)"
  using strip_ends [of s] by (auto simp: matches_class_def Let_def py_isspace_def)

lemma rewrite_set_cookie_shape:
  assumes "rewrite_set_cookie raw prefix secure = Some out"
  obtains name v rest where "out = ''wf_'' @ name @ ''='' @ v @ ''; Path='' @ prefix @ ''/; HttpOnly; SameSite=Strict'' @ rest"
    "1 \<le> length name" "length name \<le> 64" "list_all cookie_name_char name" "length v \<le> 2048" "list_all cookie_value_char v"
proof -
  define name where "name = py_strip (before_char CHR ''='' (hd (map py_strip (split_on CHR '';'' raw))))"
  define v where "v = py_strip (after_char CHR ''='' (hd (map py_strip (split_on CHR '';'' raw))))"
  have ok: "cookie_name_ok name" "cookie_value_ok v" and out: "\<exists>rest. out = ''wf_'' @ name @ ''='' @ v @ ''; Path='' @ prefix @ ''/; HttpOnly; SameSite=Strict'' @ rest"
    using assms by (auto simp: rewrite_set_cookie_def Let_def name_def v_def DEVICE_COOKIE_PREFIX_def split: if_splits)
  show ?thesis
    using out ok matches_stripped [of cookie_name_char 1 64] matches_stripped [of cookie_value_char 0 2048]
    unfolding cookie_name_ok_def cookie_value_ok_def by (metis name_def v_def that)
qed

lemma class_matches: "lo \<le> length s \<Longrightarrow> length s \<le> hi \<Longrightarrow> list_all p s \<Longrightarrow> matches_class p lo hi s"
  by (simp add: matches_class_def Let_def)

text \<open>The browser keeps what stands before the first semicolon, split at the first equals sign.\<close>

definition stored_cookie :: "string \<Rightarrow> string \<times> string" where
  "stored_cookie line = (before_char CHR ''='' (before_char CHR '';'' line), after_char CHR ''='' (before_char CHR '';'' line))"

lemma stored_rewritten:
  assumes "rewrite_set_cookie raw prefix secure = Some out"
  shows "\<exists>name v. stored_cookie out = (''wf_'' @ name, v) \<and> device_cookie_header [stored_cookie out] = Some (name @ ''='' @ v)"
proof -
  obtain name v rest where o': "out = ''wf_'' @ name @ ''='' @ v @ ''; Path='' @ prefix @ ''/; HttpOnly; SameSite=Strict'' @ rest"
    and n: "1 \<le> length name" "length name \<le> 64" "list_all cookie_name_char name" and v: "length v \<le> 2048" "list_all cookie_value_char v"
    by (rule rewrite_set_cookie_shape [OF assms])
  have ns: "CHR '';'' \<notin> set name" "CHR ''='' \<notin> set name" using n(3) name_char_space by (auto simp: list_all_iff)
  have vs: "CHR '';'' \<notin> set v" using v(2) value_char_space by (auto simp: list_all_iff)
  have semi: "CHR '';'' \<notin> set (''wf_'' @ name @ ''='' @ v)" using ns vs by simp
  have "before_char CHR '';'' ((''wf_'' @ name @ ''='' @ v) @ ''; Path='' @ prefix @ ''/; HttpOnly; SameSite=Strict'' @ rest) = ''wf_'' @ name @ ''='' @ v"
    by (subst before_char_append [OF semi]) simp
  then have first: "before_char CHR '';'' out = (''wf_'' @ name) @ ''='' @ v" by (simp add: o')
  have eq: "CHR ''='' \<notin> set (''wf_'' @ name)" using ns by simp
  have "stored_cookie out = (''wf_'' @ name, v)"
    unfolding stored_cookie_def first by (simp only: before_char_append [OF eq] after_char_append [OF eq]) simp
  moreover have "cookie_name_ok name" "cookie_value_ok v"
    using n v by (simp_all add: cookie_name_ok_def cookie_value_ok_def class_matches)
  ultimately show ?thesis
    by (simp add: device_cookie_header_def device_pairs_def DEVICE_COOKIE_PREFIX_def MAX_DEVICE_COOKIES_def or_none_def)
qed

section \<open>What the proxy keeps\<close>

text \<open>The URL of a request to a router's console.\<close>

definition node_url :: "string \<Rightarrow> string \<Rightarrow> split_url" where
  "node_url addr sub = \<lparr>us_scheme = ''http'', us_netloc = addr, us_path = ''/'' @ sub, us_query = '''', us_fragment = ''''\<rparr>"

lemma node_url_splits:
  assumes addr: "safe_mgmt_address v = Some addr" and sub: "safe_subpath s = Inr sub"
  shows "urlsplit bo '''' (''http://'' @ addr @ ''/'' @ sub) = Inr (node_url addr sub) \<and> addr \<noteq> ''''"
proof -
  have n: "\<not> netloc_end c" "\<not> unsafe_url_byte c" "c \<noteq> CHR ''[''" "c \<noteq> CHR '']''" if "c \<in> set addr" for c
    using mgmt_chars [OF addr that] by blast+
  have t: "c \<noteq> CHR ''?''" "c \<noteq> CHR ''#''" "\<not> unsafe_url_byte c" if "c \<in> set (''/'' @ sub)" for c
    using safe_subpath_parts(2) [OF sub, of c] that by (auto simp: unsafe_url_byte_def)
  have "netloc_ok bo addr" using n(3, 4) by (auto simp: netloc_ok_def)
  moreover have "netloc_end (hd (''/'' @ sub))" by (simp add: netloc_end_def)
  moreover have "\<not> unsafe_url_byte c" if "c \<in> set addr \<union> set (''/'' @ sub)" for c using that n(2) t(3) by blast
  moreover have "CHR ''?'' \<notin> set (''/'' @ sub)" "CHR ''#'' \<notin> set (''/'' @ sub)" using t by blast+
  moreover from this have "before_char CHR ''?'' (''/'' @ sub) = ''/'' @ sub" "after_char CHR ''?'' (''/'' @ sub) = ''''"
    "before_char CHR ''#'' (''/'' @ sub) = ''/'' @ sub" "after_char CHR ''#'' (''/'' @ sub) = ''''"
    using before_char_append [of "CHR ''?''" "''/'' @ sub" "[]"] after_char_append [of "CHR ''?''" "''/'' @ sub" "[]"]
      before_char_append [of "CHR ''#''" "''/'' @ sub" "[]"] after_char_append [of "CHR ''#''" "''/'' @ sub" "[]"] by simp_all
  ultimately have "urlsplit bo '''' (''http://'' @ addr @ ''/'' @ sub) = Inr (node_url addr sub)"
    using urlsplit_http [of bo addr "''/'' @ sub"] n(1) by (simp add: node_url_def)
  moreover have "addr \<noteq> ''''"
  proof
    assume "addr = ''''"
    moreover have "safe_mgmt_address (Some '''') = None" by code_simp
    ultimately show False using safe_mgmt_is_canonical [OF addr] addr by simp
  qed
  ultimately show ?thesis by simp
qed

text \<open>C40. A console path never leaves its node. Whatever sub-path passes validation, the request goes to the management address stored
  for that router, a private one, over http; the path holds no dot segment, and no part of it turns into a query or a fragment.\<close>
theorem console_paths_stay_on_their_node:
  assumes "map_of (li_consoles i) node = Some spec" "is_router spec"
    and "console_target host i node = Some target" "safe_subpath s = Inr sub"
  shows "\<exists>addr ip. cs_mgmt spec = Some addr \<and> parse_ipv4 addr = Some ip \<and> is_private_ipv4 ip \<and> \<not> is_loopback_ipv4 ip \<and> \<not> is_link_local_ipv4 ip
    \<and> urlsplit bo '''' (subpath_target host target (li_id i) node sub) = Inr (node_url addr sub) \<and> dot_free (us_path (node_url addr sub))"
proof -
  obtain addr where addr: "safe_mgmt_address (cs_mgmt spec) = Some addr" and target: "target = ''http://'' @ addr @ ''/''"
    using assms(1-3) by (auto simp: console_target_def)
  have url: "urlsplit bo '''' (''http://'' @ addr @ ''/'' @ sub) = Inr (node_url addr sub)" "addr \<noteq> ''''"
    using node_url_splits [OF addr assms(4)] by blast+
  have colon: "CHR '':'' \<notin> set (addr @ ''/'')" 
    using safe_mgmt_is_canonical [OF addr] show_ipv4_chars [of "CHR '':''"] by (auto simp: is_dec_def)
  have "\<not> starts_with (addr @ ''/'') (host @ '':'')"
  proof
    assume "starts_with (addr @ ''/'') (host @ '':'')"
    then obtain t where "addr @ ''/'' = (host @ '':'') @ t" by (auto simp: starts_with_iff)
    moreover have "CHR '':'' \<in> set ((host @ '':'') @ t)" by simp
    ultimately show False using colon by metis
  qed
  then have foreign: "\<not> starts_with target (''http://'' @ host @ '':'')" by (simp add: target)
  have "last addr \<noteq> CHR ''/''" using mgmt_chars [OF addr, of "last addr"] url(2) by (auto simp: netloc_end_def)
  then have "strip_slashes target = ''http://'' @ addr"
    using url(2) by (cases addr rule: rev_cases) (simp_all add: strip_slashes_def target)
  then have st: "subpath_target host target (li_id i) node sub = ''http://'' @ addr @ ''/'' @ sub"
    using foreign by (simp add: subpath_target_def)
  have "dot_free (us_path (node_url addr sub))" using safe_subpath_parts(1) [OF assms(4)] by (simp add: node_url_def)
  moreover have "\<exists>ip. parse_ipv4 addr = Some ip \<and> is_private_ipv4 ip \<and> \<not> is_loopback_ipv4 ip \<and> \<not> is_link_local_ipv4 ip"
    using addr safe_mgmt_is_canonical [OF addr] by (auto simp: safe_mgmt_address_def split: option.splits if_splits)
  ultimately show ?thesis using safe_mgmt_is_canonical [OF addr] url(1) st by auto
qed

text \<open>The witness: a router behind a container address, asked for a file below its root.\<close>

definition sample_console :: lab_instance where
  "sample_console = \<lparr>li_id = 5, li_tenant = 7, li_activity = 8, li_person = 2, li_name = instance_name 5, li_seed = [],
     li_status = ''active'', li_consoles = [(''r1'', \<lparr>cs_kind = Some ''vr-ros'', cs_mgmt = Some ''172.20.20.5'', cs_port = None\<rparr>)],
     li_error = None, li_started_at = None, li_last_active_at = None, li_presence = ''present'', li_created_at = 0\<rparr>"

theorem console_paths_stay_on_their_node_witness:
  "\<exists>addr ip. Some ''172.20.20.5'' = Some addr \<and> parse_ipv4 addr = Some ip \<and> is_private_ipv4 ip \<and> \<not> is_loopback_ipv4 ip
    \<and> \<not> is_link_local_ipv4 ip \<and> urlsplit (\<lambda>_. True) '''' (subpath_target ''127.0.0.1'' ''http://172.20.20.5/'' (li_id sample_console) ''r1'' ''a%20b/c%3Fd'')
      = Inr (node_url addr ''a%20b/c%3Fd'') \<and> dot_free (us_path (node_url addr ''a%20b/c%3Fd''))"
proof -
  have spec: "map_of (li_consoles sample_console) ''r1'' = Some \<lparr>cs_kind = Some ''vr-ros'', cs_mgmt = Some ''172.20.20.5'', cs_port = None\<rparr>"
    by (simp add: sample_console_def)
  have router: "is_router \<lparr>cs_kind = Some ''vr-ros'', cs_mgmt = Some ''172.20.20.5'', cs_port = None\<rparr>" by code_simp
  have addr: "safe_mgmt_address (Some ''172.20.20.5'') = Some ''172.20.20.5''" by code_simp
  have target: "console_target ''127.0.0.1'' sample_console ''r1'' = Some ''http://172.20.20.5/''"
    using router by (simp add: console_target_def spec addr)
  have sub: "safe_subpath ''a b/c?d'' = Inr ''a%20b/c%3Fd''" by code_simp
  show ?thesis using console_paths_stay_on_their_node [OF spec router target sub] by simp
qed

text \<open>A device's redirect stays below its own prefix. When a router answers a request below its root with a location that names no
  host, relative or absolute path, with any dot segments, the browser is sent to the prefix followed by a path without dot segments.\<close>
theorem redirects_stay_below_the_prefix:
  assumes "safe_mgmt_address v = Some addr" "safe_subpath s = Inr sub" "CHR '';'' \<notin> set s"
    and "urlsplit bo ''http'' location = Inr u" "us_netloc u = ''''"
    and "rewrite_location bo location (''http://'' @ addr @ ''/'' @ sub) prefix = Inr (Some out)"
  shows "\<exists>path query. out = prefix @ path @ query \<and> starts_with path ''/'' \<and> dot_free path \<and> CHR ''?'' \<notin> set path
    \<and> (query = '''' \<or> starts_with query ''?'')"
proof -
  define target where "target = ''http://'' @ addr @ ''/'' @ sub"
  have b: "urlsplit bo '''' target = Inr (node_url addr sub)" and addr: "addr \<noteq> ''''"
    using node_url_splits [OF assms(1, 2)] by (simp_all add: target_def)
  have r: "rewrite_location bo location target prefix = Inr (Some out)" using assms(6) by (simp add: target_def)
  obtain joined where j: "urljoin bo target location = Inr joined"
    using r b by (cases "urljoin bo target location") (simp_all add: rewrite_location_def)
  obtain loc where loc: "urlsplit bo '''' joined = Inr loc"
    using r b j by (cases "urlsplit bo '''' joined") (simp_all add: rewrite_location_def)
  have same: "us_scheme loc = ''http''"
    using r b j loc by (simp add: rewrite_location_def node_url_def split: if_splits)
  have out: "out = prefix @ (if us_path loc = '''' then ''/'' else if starts_with (us_path loc) ''/'' then us_path loc else ''/'' @ us_path loc)
        @ (if us_query loc = '''' then '''' else ''?'' @ us_query loc)"
    using r b j loc by (simp add: rewrite_location_def Let_def split: if_splits)
  have "us_scheme u = ''http''"
  proof (rule ccontr)
    assume other: "us_scheme u \<noteq> ''http''"
    have "location \<noteq> ''''"
      using assms(4) other by (auto simp: urlsplit_def clean_url_def cut_scheme_def cut_netloc_def ensure_def Let_def split: if_splits)
    moreover have "target \<noteq> ''''" by (simp add: target_def)
    ultimately have "joined = location" using j b assms(4) other by (auto simp: urljoin_def node_url_def split: prod.splits)
    then show False using urlsplit_parts(3) [OF assms(4) other, of "''''" loc] loc same other by simp
  qed
  then obtain w where w: "urlsplit bo '''' joined = Inr w" "dot_free (us_path w)" "us_path w = '''' \<or> starts_with (us_path w) ''/''" "url_parts_ok bo w"
    using urljoin_relative [OF j b _ _ _ _ assms(4, 5)] addr safe_subpath_parts(1, 3) [OF assms(2)] assms(3) by (auto simp: node_url_def)
  have "loc = w" using w(1) loc by simp
  then show ?thesis
    using w(2-4) url_path_ok [of bo w "CHR ''?''"] out
    by (intro exI [of _ "if us_path loc = '''' then ''/'' else us_path loc"] exI [of _ "if us_query loc = '''' then '''' else ''?'' @ us_query loc"])
      (auto simp: dot_free_def)
qed

theorem redirects_stay_below_the_prefix_witness:
  "\<exists>path query. ''/P/labs/c?x=1'' = ''/P'' @ path @ query \<and> starts_with path ''/'' \<and> dot_free path \<and> CHR ''?'' \<notin> set path
    \<and> (query = '''' \<or> starts_with query ''?'')"
proof -
  have "safe_mgmt_address (Some ''172.20.20.5'') = Some ''172.20.20.5''" by code_simp
  moreover have "safe_subpath ''labs/a'' = Inr ''labs/a''" by code_simp
  moreover have "CHR '';'' \<notin> set ''labs/a''" by simp
  moreover have "urlsplit (\<lambda>_. True) ''http'' ''./b/../c?x=1'' =
      Inr \<lparr>us_scheme = ''http'', us_netloc = '''', us_path = ''./b/../c'', us_query = ''x=1'', us_fragment = ''''\<rparr>" by code_simp
  moreover have "rewrite_location (\<lambda>_. True) ''./b/../c?x=1'' (''http://'' @ ''172.20.20.5'' @ ''/'' @ ''labs/a'') ''/P'' = Inr (Some ''/P/labs/c?x=1'')"
    by code_simp
  ultimately show ?thesis by (rule redirects_stay_below_the_prefix [OF _ _ _ _ split_url.select_convs(2)])
qed

text \<open>A location that repeats the device's own host keeps its dot segments, which the browser then resolves above the prefix, and a location
  with an unbalanced bracket is not a redirect but an exception.\<close>

theorem absolute_redirect_leaves_the_prefix:
  "rewrite_location bo ''http://172.20.20.5/../../../../../admin'' ''http://172.20.20.5/'' ''/labs/instances/i/console/r1''
     = Inr (Some ''/labs/instances/i/console/r1/../../../../../admin'')"
  "rewrite_location bo ''http://['' ''http://172.20.20.5/'' ''/labs/instances/i/console/r1'' = Inl (ValueError ''Invalid IPv6 URL'')"
  by code_simp+

text \<open>A cookie of a device comes back to it. What \<open>rewrite_set_cookie\<close> sends is stored by the browser under a name with the device
  prefix, and sent back it yields the device's own name and value; cookies without the prefix, those of the academy, never change the header.\<close>
theorem device_cookies_come_back:
  assumes "rewrite_set_cookie raw prefix secure = Some line"
  shows "\<exists>name v. stored_cookie line = (''wf_'' @ name, v) \<and> device_cookie_header [stored_cookie line] = Some (name @ ''='' @ v)"
  by (rule stored_rewritten [OF assms])

theorem academy_cookies_stay_home:
  "device_cookie_header cookies = device_cookie_header (filter (\<lambda>(name, v). starts_with name ''wf_'') cookies)"
proof -
  have "device_pairs cookies = device_pairs (filter (\<lambda>(name, v). starts_with name ''wf_'') cookies)"
    by (induction cookies) (auto simp: device_pairs_def DEVICE_COOKIE_PREFIX_def)
  then show ?thesis by (simp add: device_cookie_header_def)
qed

theorem streamed_body_is_the_rewritten_body_witness:
  "snd (feed_all [''a /web'', ''fig/ b /jsp'', ''roxy''] \<lparr>rw_prefix = ''/P'', rw_pending = ''''\<rparr>)
     @ snd (finish (fst (feed_all [''a /web'', ''fig/ b /jsp'', ''roxy''] \<lparr>rw_prefix = ''/P'', rw_pending = ''''\<rparr>)))
   = rewritten (utf8_encode ''/P'') ''a /webfig/ b /jsproxy''"
proof -
  have "new_rewriter ''/P'' = Inr \<lparr>rw_prefix = ''/P'', rw_pending = ''''\<rparr>" by code_simp
  from streamed_body_is_the_rewritten_body [OF this, of "[''a /web'', ''fig/ b /jsp'', ''roxy'']"]
  show ?thesis by (cases "feed_all [''a /web'', ''fig/ b /jsp'', ''roxy''] \<lparr>rw_prefix = ''/P'', rw_pending = ''''\<rparr>") simp
qed

end
