(* ===== verification/Spec2Isabelle.thy ===== *)
theory Spec2Isabelle
  imports Learner_Journey Exam_Properties Course_Properties Lab_Properties Lab_Jobs_Properties Accounts_Properties
    Admissions_Properties Email_Properties Roster_Properties
    Reminder_Properties Success_Queue_Properties Ical_Properties Dashboard_Properties Bank_Properties Authoring_Properties Erp_Properties
    Library_Properties Web_Properties Instructor_Properties Console_Properties
begin

text \<open>
  A verification library of Dotmac Academy, a single-academy admissions and learning application (Python 3.12,
  FastAPI, SQLAlchemy on PostgreSQL, containerlab hosts). Paths below are relative to \<open>src/app\<close>.

  \<^bold>\<open>How the program is put together.\<close>
  Every feature is a module of \<open>services/\<close> whose functions take a database session, read rows, write rows and raise
  domain exceptions; \<open>web/\<close> and \<open>api/\<close> hold the handlers that call them inside one transaction per request, and
  \<open>cli.py\<close> the commands that timers run. The parts meet in the database: admissions turn an applicant into a person
  with an enrolment; enrolments and tracks decide which courses a person may open; submissions and scores of the
  activities of a course decide its completion, and completion the certificates, the facilitator activation and what
  the gradebook, the dashboard, the reminders and the Success Queue show; labs are activities whose grade is taken from
  a running containerlab topology through a durable queue of operations drained by workers. Every writer also leaves
  consequences in ledgers (learning events, audit rows, notifications, e-mail intents), the last of which a worker
  delivers.

  \<^bold>\<open>State.\<close>
  A table is the list of its rows, a row a record of the columns the modelled services use (\<open>Academy_Model\<close>:
  \<open>models/*.py\<close>; \<open>Lab_Model\<close>: \<open>models/lab.py\<close>; \<open>Scheduling\<close> and \<open>Library_Model\<close> extend the store with the tables of
  the engagement services and of the course library). A function that writes returns the new store, beside the object
  it returns; a loaded ORM object that is changed later is passed and returned beside the store that holds its row.
  An exception is the \<open>Inl\<close> of a sum (\<open>academy_error\<close>, or an error type of the service), a handler's \<open>except\<close> a case
  on it; a savepoint restores the store its body started from. Clocks, freshly drawn tokens and the day boundaries of the academy's
  time zone are arguments. A Python float is an exact rational (JSON values that may be infinite or \<open>nan\<close> are the type
  \<open>flt\<close>), a UUID its 128-bit value, and generated keys are drawn from a counter.
  \<open>Academy_Prelude\<close> and \<open>Python_Values\<close> hold this vocabulary, the fragment of \<open>str\<close>, \<open>float\<close> and JSON the sources
  use, and the lemmas on tables and results all theories share (\<open>result_simps\<close>, \<open>table_simps\<close>, \<open>ledger_simps\<close>).

  \<^bold>\<open>Theories.\<close>

  \<^item> Grading and exams: \<open>Grading\<close> (\<open>services/grading.py\<close>), \<open>Exam_Engine\<close> (\<open>services/exam_engine.py\<close>), with
    \<open>Exam_Properties\<close>.
  \<^item> A learner's graded work: \<open>Ledgers\<close> (\<open>learning_events.py\<close>, \<open>audit.py\<close>, \<open>notifications.py\<close>, the intake of
    \<open>email_outbox.py\<close>), \<open>Attempt_Policy\<close> (\<open>attempt_policy.py\<close>, \<open>attempts.py\<close>), \<open>Assessment\<close> and \<open>Score_Of_Record\<close> (writers and readers of
    \<open>assessment.py\<close>), with the step relation and properties in \<open>Learner_Journey\<close>.
  \<^item> Courses: \<open>Completion\<close> (\<open>completion.py\<close>, \<open>completion_aggregate.py\<close>, \<open>certificates.py\<close>), \<open>Entitlements\<close>
    (\<open>entitlements.py\<close>, \<open>pacing.py\<close>), \<open>Gradebook\<close>, \<open>Facilitators\<close> (\<open>facilitator_nominations.py\<close> and the SQL
    capability of migration 0064), with \<open>Course_Properties\<close>.
  \<^item> Labs: \<open>Lab_Queue\<close> and \<open>Lab_Worker\<close> (\<open>lab_operations.py\<close>), \<open>Lab_Lifecycle\<close>, \<open>Lab_Checks\<close> (\<open>lab_seed.py\<close>,
    \<open>checks/\<close>), \<open>Lab_Engine\<close> and \<open>Containerlab\<close> (\<open>labengine/\<close>, \<open>host_lock.py\<close>), \<open>Lab_Jobs\<close> (\<open>lab_jobs.py\<close> and the
    lab commands of \<open>cli.py\<close>). Their facts are in \<open>Lab_Queue_Invariant\<close>, \<open>Containerlab_Contract\<close>,
    \<open>Lab_Bodies\<close>, \<open>Lab_Worker_Facts\<close>, \<open>Lab_Guards\<close>, \<open>Lab_Projection\<close>, \<open>Lab_Drain\<close> and
    \<open>Lab_Lifecycle_Facts\<close>, the properties in \<open>Lab_Properties\<close> and \<open>Lab_Jobs_Properties\<close>; \<open>Lab_Sample\<close> holds the inputs of
    the witnesses. \<open>Console_Proxy\<close> (\<open>web/console_proxy.py\<close> with the parts of \<open>urllib.parse\<close> and \<open>ipaddress\<close> it calls, the console
    addresses of \<open>web/labs.py\<close>) has its lemmas in \<open>Console_Properties\<close>.
  \<^item> Accounts: \<open>Account_Security\<close> (\<open>security.py\<close>), \<open>Accounts\<close> (\<open>identity.py\<close>, \<open>web_auth.py\<close>, \<open>lifecycle.py\<close>,
    \<open>accounts.py\<close>), with \<open>Accounts_Properties\<close>.
  \<^item> Admissions: \<open>Entrance_Exam\<close>, \<open>Onboarding\<close>, \<open>Admissions\<close>, and the handlers and commands in \<open>Admissions_Web\<close>
    (\<open>web/apply.py\<close>, \<open>web/onboarding.py\<close>, \<open>web/applications.py\<close>, \<open>api/admissions.py\<close>, \<open>cli.py\<close>), with
    \<open>Admissions_Facts\<close> and \<open>Admissions_Properties\<close>.
  \<^item> Rosters and teaching: \<open>Tracks\<close>, \<open>Rosters\<close> (\<open>roster.py\<close>, \<open>account_invitations.py\<close>,
    \<open>facilitator_access.py\<close>, routes of \<open>web/instructor.py\<close>), with \<open>Roster_Properties\<close>; \<open>Instructor_Web\<close>, the other
    handlers of \<open>web/instructor.py\<close>, the grading queue, \<open>dashboards.py\<close> and \<open>analytics.py\<close>, with \<open>Instructor_Properties\<close>.
  \<^item> Engagement: \<open>Settings_Store\<close>, \<open>Scheduling\<close> (\<open>scheduling.py\<close>, \<open>agenda.py\<close>), \<open>Timeline\<close> (\<open>todo.py\<close>,
    \<open>at_risk.py\<close>), \<open>Reminders\<close>, \<open>Success_Queue\<close>, \<open>Ical\<close>, \<open>Email_Delivery\<close> (the worker of \<open>email_outbox.py\<close>), with
    \<open>Reminder_Properties\<close>, \<open>Success_Queue_Properties\<close>, \<open>Ical_Properties\<close> and \<open>Email_Properties\<close>.
  \<^item> The library: \<open>Library_Model\<close>, \<open>Learner_Dashboard\<close>, \<open>Html_Sanitizer\<close> and \<open>Course_Authoring\<close> (\<open>authoring.py\<close>,
    \<open>content_import.py\<close>), \<open>Bank_Lint\<close> and \<open>Bank_Loader\<close>, with \<open>Dashboard_Properties\<close>, \<open>Html_Safety\<close>,
    \<open>Bank_Properties\<close> and \<open>Authoring_Properties\<close> (\<open>Dashboard_Properties\<close> also holds the property of the answer key, which the
    overview shows); \<open>Learner_Library\<close> (bookmarks, notes, finished subtopics, announcements,
    notifications, the catalogue, the search) with \<open>Library_Properties\<close>, and \<open>Learner_Web\<close>, the handlers of
    \<open>web/learn.py\<close>, \<open>web/catalog.py\<close> and \<open>web/bookmarks.py\<close>, with \<open>Web_Properties\<close>.
  \<^item> The ERP: \<open>Erp_Sync\<close> (\<open>audience.py\<close>, \<open>erp_sync.py\<close>, \<open>erp_assessment_sync.py\<close>) reports completions and results,
    \<open>Erp_Inbound\<close> (\<open>erp_integration_security.py\<close>, \<open>erp_applicant_assessments.py\<close> and its endpoint) registers applicants,
    with \<open>Erp_Properties\<close>.

  \<^bold>\<open>What the lemmas show.\<close>
  Three kinds of runs carry the invariants: \<open>Learner_Journey\<close> (submissions, grants, overrides), \<open>Admissions_Properties\<close>
  (one constructor per handler or command that writes applicants) and \<open>Lab_Queue_Invariant\<close> (the operation queue with
  its row locks), each an inductive step relation with reachability; \<open>Email_Properties\<close> has the same for the outbox.
  Along them: attempts stay within the entitlement, applicants follow the status pipeline, one operation per lab is
  open, an e-mail row's status says what happened to it. The functional properties fix what the readers compute
  (score of record, completion, access, the entrance decision), the safety properties what a result presupposes
  (enrolment, activation, teaching access, a published lab state, stored HTML). Where a property speaks of access, scope or
  eligibility, it does so in predicates of its own over the tables (\<open>offered\<close> and \<open>on_track\<close> for the courses a learner may open,
  \<open>is_staff\<close> and \<open>facilitates\<close> for who may grade whom, \<open>holds_claim\<close> for the owner of a lab operation), not in the functions the code
  decides with. Termination and liveness are
  proved for the loops that have them: the worker's drain, the slug searches, the delivery loop. What crosses the border of
  the program has its own: a request of the ERP is acted on only when signed, and registering again gives the same link; a
  completion counts as delivered only when the ERP acknowledged it; the paper a learner sees is the paper that is graded. The
  answer key of a graded activity closes it on the overview page, while on the result and to-do pages a grant made before keeps it
  open (\<open>attempts_after_the_key_are_granted\<close>). The
  console proxy keeps a learner's browser and a lab device apart: a path stays on its node, a redirect below its prefix, a cookie in
  its name space, and a body rewritten chunk by chunk is the body rewritten at once.

  \<^bold>\<open>Interfaces.\<close>
  The worker relies on \<open>labengine/interface.py\<close>: \<open>Lab_Engine\<close> states it as the locale \<open>lab_engine_contract\<close>, whose laws say
  what each call leaves running on the host, and \<open>Lab_Bodies\<close>, \<open>Lab_Worker_Facts\<close>, \<open>Lab_Projection\<close> and \<open>Lab_Drain\<close>
  prove the worker's lemmas inside it. \<open>Containerlab_Contract\<close> states what the engine itself needs from the
  \<open>containerlab\<close> command line (locale \<open>containerlab_runtime\<close>) and proves that the modelled engine then meets the
  worker's contract (a \<open>sublocale\<close>); \<open>Lab_Sample\<close> interprets it over an in-memory host, so the laws are satisfiable.

  \<^bold>\<open>Bounds and fuel.\<close>
  Loops over rows are structural. The worker's drain loop carries fuel and yields \<open>None\<close> when it runs out:
  \<open>drain_terminates\<close> shows that one more than the number of queued operations is enough, when the turns fall within one retry
  delay and no other session commits. The slug search of a track is a partial function of the option monad, and
  \<open>track_slug_search_ends\<close> shows that it returns a free slug. The delivery loop counts down its batch limit, as the code does;
  \<open>free_heading_slug\<close> gets as much fuel as slugs are used, which \<open>subtopics_are_the_headings\<close> shows to be enough.
  \<open>delivery_attempts_every_due_row\<close> shows what a limit no smaller than the due rows achieves.

  \<^bold>\<open>Arguments of the model.\<close>
  What the sources only call is an argument: SHA-256, HMAC and password hashing, regular expressions, Python's \<open>random\<close>,
  the rendering of numbers and JSON, the Markdown renderer and \<open>html.parser\<close>'s tokenizer, YAML, SMTP, the PDF of a certificate,
  the \<open>containerlab\<close> and \<open>docker\<close> command lines, the answers of remote systems. A property that relies on one of them
  says so in its hypotheses.

  \<^bold>\<open>Simplifications.\<close>
  Other sessions commit, while a lab worker runs, at the points \<open>Lab_Worker\<close> lists, among them just before the capacity check of a
  deploy. A query without \<open>ORDER BY\<close> returns its rows in table order (\<open>login_row\<close>), a certificate's serial is made from the
  key counter instead of \<open>uuid4\<close>, and the ratios of \<open>Bank_Lint\<close> are exact where the source rounds floats. \<open>best_effort_recompute\<close>
  restores the store when the recomputation fails, which it never does here; \<open>reconcile_runtime\<close> keeps what it queued before an
  error, where the command rolls the pass back. Dashes of display texts (the chapter prefix of an import, reminder
  titles, the description of a class session in the calendar) are ASCII hyphens in the model.

  \<^bold>\<open>Not modelled.\<close>
  Presentation: templates, HTML forms and request parsing around the modelled handlers, CSV and PDF reports. Column lengths and the
  \<open>DataError\<close>s they raise, and case mapping and white space outside ASCII. Row-level security is the tenant filter of each
  query. Sessions that run concurrently are modelled for the labs only, where the sources handle them; elsewhere an
  operation is one transaction. The frozen schema and environment constants of \<open>maintenance/\<close>, configuration, the
  kernel assembly, the migrations other than 0064, the lab routes and the transport of the console proxy (\<open>web/labs.py\<close>), the loader of
  lab content, and the digests and administration reports are left out.
\<close>

end
